(* ===== verification/Prelude.thy ===== *)
theory Prelude
  imports Main "HOL-Library.Word"
begin

unbundle bit_operations_syntax

text \<open>
  Prelude: the types and the generic lemmas that every component shares.

  \<^item> The machine integers of the C code are words of their width (\<open>u8\<close>, \<open>u16\<close>,
    \<open>u32\<close>, \<open>u64\<close>); array indices and counters that the code keeps below a
    bound are \<open>nat\<close>, and the bound is proved where it is used.
  \<^item> C code that leaves its defined behaviour (an index outside an array, a division by
    zero, a failed assertion) is a value of type \<open>fault\<close>; an operation that can do so
    returns \<open>fault + 'a\<close>, and \<open>rbind\<close> sequences such operations.
  \<^item> \<open>arr_get\<close> and \<open>arr_set\<close> are the checked array accesses of C.
  \<^item> The bit lemmas at the end are the ones the register codecs need.
\<close>

type_synonym u8 = "8 word"
type_synonym u16 = "16 word"
type_synonym u32 = "32 word"
type_synonym u64 = "64 word"

named_theorems res_simps \<open>sequencing of operations that can fault\<close>
named_theorems word_bits \<open>bit-level readings of the registers\<close>

section \<open>Results\<close>

datatype fault =
    OutOfBounds  \<comment> \<open>an access outside an array of the program\<close>
  | DivByZero    \<comment> \<open>an integer division by zero\<close>
  | AssertFail   \<comment> \<open>a failed \<open>assert\<close>\<close>
  | NullDeref    \<comment> \<open>a call or an access through a null pointer\<close>
  | IntOverflow  \<comment> \<open>a signed overflow\<close>

type_synonym 'a res = "fault + 'a"

definition rbind :: "'e + 'a \<Rightarrow> ('a \<Rightarrow> 'e + 'b) \<Rightarrow> 'e + 'b" where
  "rbind m f = (case m of Inl e \<Rightarrow> Inl e | Inr x \<Rightarrow> f x)"

lemma rbind_Inl [simp, res_simps]: "rbind (Inl e) f = Inl e"
  by (simp add: rbind_def)

lemma rbind_Inr [simp, res_simps]: "rbind (Inr x) f = f x"
  by (simp add: rbind_def)

lemma rbind_assoc [res_simps]: "rbind (rbind m f) g = rbind m (\<lambda>x. rbind (f x) g)"
  by (simp add: rbind_def split: sum.split)

lemma rbind_eq_Inr: "rbind m f = Inr y \<longleftrightarrow> (\<exists>x. m = Inr x \<and> f x = Inr y)"
  by (auto simp: rbind_def split: sum.split)

lemma rbind_InrE:
  assumes "rbind m f = Inr y"
  obtains x where "m = Inr x" and "f x = Inr y"
  using assms by (auto simp: rbind_eq_Inr)

lemma rbind_cong [fundef_cong]:
  "m = m' \<Longrightarrow> (\<And>x. m' = Inr x \<Longrightarrow> f x = f' x) \<Longrightarrow> rbind m f = rbind m' f'"
  by (auto simp: rbind_def split: sum.split)

text \<open>Total correctness: the operation returns, with a result as described.\<close>

definition returns :: "('a \<Rightarrow> bool) \<Rightarrow> 'e + 'a \<Rightarrow> bool" where
  "returns P m \<longleftrightarrow> (\<exists>x. m = Inr x \<and> P x)"

lemma returns_Inr [simp]: "returns P (Inr x) = P x"
  by (simp add: returns_def)

lemma returns_Inl [simp]: "\<not> returns P (Inl e)"
  by (simp add: returns_def)

lemma returns_bind: "returns P m \<Longrightarrow> (\<And>x. P x \<Longrightarrow> returns Q (f x)) \<Longrightarrow> returns Q (rbind m f)"
  by (auto simp: returns_def)

lemma returns_mono: "returns P m \<Longrightarrow> (\<And>x. P x \<Longrightarrow> Q x) \<Longrightarrow> returns Q m"
  by (auto simp: returns_def)

lemma returnsE:
  assumes "returns P m"
  obtains x where "m = Inr x" and "P x"
  using assms by (auto simp: returns_def)

section \<open>Checked arrays\<close>

definition arr_get :: "'a list \<Rightarrow> nat \<Rightarrow> 'a res" where
  "arr_get xs i = (if i < length xs then Inr (xs ! i) else Inl OutOfBounds)"

definition arr_set :: "'a list \<Rightarrow> nat \<Rightarrow> 'a \<Rightarrow> 'a list res" where
  "arr_set xs i x = (if i < length xs then Inr (xs[i := x]) else Inl OutOfBounds)"

lemma arr_get_ok [simp, res_simps]: "i < length xs \<Longrightarrow> arr_get xs i = Inr (xs ! i)"
  by (simp add: arr_get_def)

lemma arr_get_oob [simp, res_simps]: "length xs \<le> i \<Longrightarrow> arr_get xs i = Inl OutOfBounds"
  by (simp add: arr_get_def)

lemma arr_set_ok [simp, res_simps]: "i < length xs \<Longrightarrow> arr_set xs i x = Inr (xs[i := x])"
  by (simp add: arr_set_def)

lemma arr_set_oob [simp, res_simps]: "length xs \<le> i \<Longrightarrow> arr_set xs i x = Inl OutOfBounds"
  by (simp add: arr_set_def)

section \<open>Lists\<close>

lemma list_of_nth: "map ((!) xs) [0..<length xs] = xs"
  by (rule map_nth)

lemma take_update_append:
  "n < length xs \<Longrightarrow> take (Suc n) (xs[n := x]) = take n xs @ [x]"
  by (simp add: take_Suc_conv_app_nth)

lemma upt_0_Suc: "[0..<Suc n] = 0 # map Suc [0..<n]"
  by (simp add: map_Suc_upt upt_conv_Cons del: upt_Suc)

section \<open>Bits\<close>

text \<open>C tests a flag with \<open>if (x & (1 << n))\<close>.\<close>

lemma and_push_bit_neq_0 [word_bits]:
  fixes w :: "'a::len word"
  shows "n < LENGTH('a) \<Longrightarrow> (w AND push_bit n 1 \<noteq> 0) = bit w n"
proof -
  assume n: "n < LENGTH('a)"
  have "w AND push_bit n 1 = (if bit w n then push_bit n 1 else 0)"
    by (rule bit_word_eqI) (auto simp: bit_simps)
  moreover have "(push_bit n 1 :: 'a word) \<noteq> 0"
    using n by (auto simp: bit_eq_iff bit_simps)
  ultimately show ?thesis by simp
qed

lemma and_flag_eq_0:
  fixes w m :: "'a::len word"
  assumes "m = push_bit n 1" and "n < LENGTH('a)"
  shows "w AND m = 0 \<longleftrightarrow> \<not> bit w n"
  using and_push_bit_neq_0 [OF assms(2), of w] by (auto simp: assms(1))

lemma u8_flags [word_bits]:
  fixes w :: u8
  shows "w AND 0x01 = 0 \<longleftrightarrow> \<not> bit w 0" and "w AND 0x02 = 0 \<longleftrightarrow> \<not> bit w 1"
    and "w AND 0x04 = 0 \<longleftrightarrow> \<not> bit w 2" and "w AND 0x08 = 0 \<longleftrightarrow> \<not> bit w 3"
    and "w AND 0x10 = 0 \<longleftrightarrow> \<not> bit w 4" and "w AND 0x20 = 0 \<longleftrightarrow> \<not> bit w 5"
    and "w AND 0x40 = 0 \<longleftrightarrow> \<not> bit w 6" and "w AND 0x80 = 0 \<longleftrightarrow> \<not> bit w 7"
  subgoal by (rule and_flag_eq_0) (simp_all add: push_bit_eq_mult)
  subgoal by (rule and_flag_eq_0) (simp_all add: push_bit_eq_mult)
  subgoal by (rule and_flag_eq_0) (simp_all add: push_bit_eq_mult)
  subgoal by (rule and_flag_eq_0) (simp_all add: push_bit_eq_mult)
  subgoal by (rule and_flag_eq_0) (simp_all add: push_bit_eq_mult)
  subgoal by (rule and_flag_eq_0) (simp_all add: push_bit_eq_mult)
  subgoal by (rule and_flag_eq_0) (simp_all add: push_bit_eq_mult)
  subgoal by (rule and_flag_eq_0) (simp_all add: push_bit_eq_mult)
  done

lemma and_flag_eq_self:
  fixes w m :: "'a::len word"
  assumes "m = push_bit n 1" and "n < LENGTH('a)"
  shows "w AND m = m \<longleftrightarrow> bit w n"
proof -
  have "w AND m = (if bit w n then m else 0)"
    unfolding assms(1) by (rule bit_word_eqI) (auto simp: bit_simps)
  moreover have "m \<noteq> 0"
    using assms by (auto simp: bit_eq_iff bit_simps)
  ultimately show ?thesis by simp
qed

lemma u8_flags_self [word_bits]:
  fixes w :: u8
  shows "w AND 0x01 = 0x01 \<longleftrightarrow> bit w 0" and "w AND 0x04 = 0x04 \<longleftrightarrow> bit w 2"
  subgoal by (rule and_flag_eq_self) (simp_all add: push_bit_eq_mult)
  subgoal by (rule and_flag_eq_self) (simp_all add: push_bit_eq_mult)
  done

text \<open>
  Masks. The simplifier reads a bit of a word numeral as a bit of the same integer numeral;
  these lemmas say which bits the masks of the program have.
\<close>

lemma bit_int_literal:
  fixes w :: int
  assumes "w = push_bit k (mask m)"
  shows "bit w n \<longleftrightarrow> k \<le> n \<and> n < k + m"
  using assms by (auto simp only: bit_simps possible_bit_int)

lemma bit_0x07 [word_bits]: "bit (0x07::int) n \<longleftrightarrow> n < 3"
  using bit_int_literal [of "0x07" 0 3 n] by (simp add: mask_eq_exp_minus_1)

lemma bit_0x0f [word_bits]: "bit (0x0f::int) n \<longleftrightarrow> n < 4"
  using bit_int_literal [of "0x0f" 0 4 n] by (simp add: mask_eq_exp_minus_1)

lemma bit_0x1f [word_bits]: "bit (0x1f::int) n \<longleftrightarrow> n < 5"
  using bit_int_literal [of "0x1f" 0 5 n] by (simp add: mask_eq_exp_minus_1)

lemma bit_0x60 [word_bits]: "bit (0x60::int) n \<longleftrightarrow> 5 \<le> n \<and> n < 7"
  using bit_int_literal [of "0x60" 5 2 n] by (simp add: mask_eq_exp_minus_1 push_bit_eq_mult)

lemma bit_0xe0 [word_bits]: "bit (0xe0::int) n \<longleftrightarrow> 5 \<le> n \<and> n < 8"
  using bit_int_literal [of "0xe0" 5 3 n] by (simp add: mask_eq_exp_minus_1 push_bit_eq_mult)

lemma bit_0xf8 [word_bits]: "bit (0xf8::int) n \<longleftrightarrow> 3 \<le> n \<and> n < 8"
  using bit_int_literal [of "0xf8" 3 5 n] by (simp add: mask_eq_exp_minus_1 push_bit_eq_mult)

lemma bit_0xff [word_bits]: "bit (0xff::int) n \<longleftrightarrow> n < 8"
  using bit_int_literal [of "0xff" 0 8 n] by (simp add: mask_eq_exp_minus_1)

lemma bit_0xff00 [word_bits]: "bit (0xff00::int) n \<longleftrightarrow> 8 \<le> n \<and> n < 16"
  using bit_int_literal [of "0xff00" 8 8 n] by (simp add: mask_eq_exp_minus_1 push_bit_eq_mult)

lemma bit_0x7f8 [word_bits]: "bit (0x7f8::int) n \<longleftrightarrow> 3 \<le> n \<and> n < 11"
  using bit_int_literal [of "0x7f8" 3 8 n] by (simp add: mask_eq_exp_minus_1 push_bit_eq_mult)

lemma bit_0x7ff [word_bits]: "bit (0x7ff::int) n \<longleftrightarrow> n < 11"
  using bit_int_literal [of "0x7ff" 0 11 n] by (simp add: mask_eq_exp_minus_1)

lemma bit_0x1fe0 [word_bits]: "bit (0x1fe0::int) n \<longleftrightarrow> 5 \<le> n \<and> n < 13"
  using bit_int_literal [of "0x1fe0" 5 8 n] by (simp add: mask_eq_exp_minus_1 push_bit_eq_mult)

lemma bit_0x1fe000 [word_bits]: "bit (0x1fe000::int) n \<longleftrightarrow> 13 \<le> n \<and> n < 21"
  using bit_int_literal [of "0x1fe000" 13 8 n] by (simp add: mask_eq_exp_minus_1 push_bit_eq_mult)

lemma bit_0x1fe00000 [word_bits]: "bit (0x1fe00000::int) n \<longleftrightarrow> 21 \<le> n \<and> n < 29"
  using bit_int_literal [of "0x1fe00000" 21 8 n] by (simp add: mask_eq_exp_minus_1 push_bit_eq_mult)

lemma bit_0x1fffffff [word_bits]: "bit (0x1fffffff::int) n \<longleftrightarrow> n < 29"
  using bit_int_literal [of "0x1fffffff" 0 29 n] by (simp add: mask_eq_exp_minus_1)

lemma bit_0x10 [word_bits]: "bit (0x10::int) n \<longleftrightarrow> n = 4"
  using bit_int_literal [of "0x10" 4 1 n] by (auto simp: mask_eq_exp_minus_1 push_bit_eq_mult)

lemma bit_0x40 [word_bits]: "bit (0x40::int) n \<longleftrightarrow> n = 6"
  using bit_int_literal [of "0x40" 6 1 n] by (auto simp: mask_eq_exp_minus_1 push_bit_eq_mult)

lemma bit_0x80 [word_bits]: "bit (0x80::int) n \<longleftrightarrow> n = 7"
  using bit_int_literal [of "0x80" 7 1 n] by (auto simp: mask_eq_exp_minus_1 push_bit_eq_mult)

lemma bit_0xc9 [word_bits]: "bit (0xc9::int) n \<longleftrightarrow> n = 0 \<or> n = 3 \<or> n = 6 \<or> n = 7"
proof -
  have "bit (0x01::int) n \<longleftrightarrow> n = 0" "bit (0x08::int) n \<longleftrightarrow> n = 3" "bit (0xc0::int) n \<longleftrightarrow> n = 6 \<or> n = 7"
    using bit_int_literal [of "0x01" 0 1 n] bit_int_literal [of "0x08" 3 1 n] bit_int_literal [of "0xc0" 6 2 n]
    by (auto simp: mask_eq_exp_minus_1 push_bit_eq_mult)
  moreover have "(0xc9::int) = 0x01 OR (0x08 OR 0xc0)" by simp
  ultimately show ?thesis by (simp only: bit_or_iff)
qed

lemma bit_0x06 [word_bits]: "bit (0x06::int) n \<longleftrightarrow> n = 1 \<or> n = 2"
  using bit_int_literal [of "0x06" 1 2 n] by (auto simp: mask_eq_exp_minus_1 push_bit_eq_mult)

lemma bit_0x40000000 [word_bits]: "bit (0x40000000::int) n \<longleftrightarrow> n = 30"
  using bit_int_literal [of "0x40000000" 30 1 n] by (auto simp: mask_eq_exp_minus_1 push_bit_eq_mult)

lemma bit_0x80000000 [word_bits]: "bit (0x80000000::int) n \<longleftrightarrow> n = 31"
  using bit_int_literal [of "0x80000000" 31 1 n] by (auto simp: mask_eq_exp_minus_1 push_bit_eq_mult)

lemma bit_0xc0000000 [word_bits]: "bit (0xc0000000::int) n \<longleftrightarrow> n = 30 \<or> n = 31"
  using bit_int_literal [of "0xc0000000" 30 2 n] by (auto simp: mask_eq_exp_minus_1 push_bit_eq_mult)

lemma bit_0x03 [word_bits]: "bit (0x03::int) n \<longleftrightarrow> n < 2"
  using bit_int_literal [of "0x03" 0 2 n] by (auto simp: mask_eq_exp_minus_1)

lemma bit_0xc0 [word_bits]: "bit (0xc0::int) n \<longleftrightarrow> n = 6 \<or> n = 7"
  using bit_int_literal [of "0xc0" 6 2 n] by (auto simp: mask_eq_exp_minus_1 push_bit_eq_mult)

lemma bit_0xf0 [word_bits]: "bit (0xf0::int) n \<longleftrightarrow> 4 \<le> n \<and> n < 8"
  using bit_int_literal [of "0xf0" 4 4 n] by (simp add: mask_eq_exp_minus_1 push_bit_eq_mult)

lemma bit_0xdfffffff [word_bits]: "bit (0xdfffffff::int) n \<longleftrightarrow> n < 29 \<or> n = 30 \<or> n = 31"
proof -
  have "(0xdfffffff::int) = 0xc0000000 OR 0x1fffffff" by simp
  then show ?thesis by (simp only: bit_or_iff bit_0xc0000000 bit_0x1fffffff) auto
qed

lemma bit_0x400007fb [word_bits]: "bit (0x400007fb::int) n \<longleftrightarrow> n < 2 \<or> 3 \<le> n \<and> n < 11 \<or> n = 30"
proof -
  have "(0x400007fb::int) = 0x40000000 OR (0x7f8 OR 0x03)" by simp
  then show ?thesis by (simp only: bit_or_iff bit_0x40000000 bit_0x7f8 bit_0x03) auto
qed

lemma bit_0x400007ff [word_bits]: "bit (0x400007ff::int) n \<longleftrightarrow> n < 11 \<or> n = 30"
proof -
  have "(0x400007ff::int) = 0x40000000 OR 0x7ff" by simp
  then show ?thesis by (simp only: bit_or_iff bit_0x40000000 bit_0x7ff) auto
qed

text \<open>A byte below 16 has no bit above the fourth.\<close>

lemma small_byte_bits:
  fixes w :: u8
  assumes "w < 16" and "4 \<le> n"
  shows "\<not> bit w n"
proof -
  have "unat w < 2 ^ 4" using assms(1) by (simp add: word_less_nat_alt)
  also have "(2::nat) ^ 4 \<le> 2 ^ n" using assms(2) by (rule power_increasing) simp
  finally have "\<not> bit (unat w) n" by (simp add: bit_iff_odd)
  then show ?thesis by (auto simp: bit_unsigned_iff)
qed

lemma small_byte_bit_less: "bit (w :: u8) n \<Longrightarrow> w < 16 \<Longrightarrow> n < 4"
  using small_byte_bits not_le by blast

text \<open>A byte that travels through a wider integer.\<close>

lemma ucast_u8_u64_u8 [simp]: "ucast (ucast (v :: u8) :: u64) = v"
  by (rule bit_word_eqI) (simp add: bit_simps)

lemma ucast_u8_u32_u8 [simp]: "ucast (ucast (v :: u8) :: u32) = v"
  by (rule bit_word_eqI) (simp add: bit_simps)

lemma unat_and_0x0f_le:
  fixes w :: u8
  shows "unat (w AND 0x0f) \<le> 15"
  using word_and_le1 [of w "0x0f"] by (simp add: word_le_nat_alt)

text \<open>An unsigned value below the sign bit reads the same as a signed one.\<close>

lemma sint_eq_unat:
  fixes w :: "'a::len word"
  assumes "unat w < 2 ^ (LENGTH('a) - 1)"
  shows "sint w = int (unat w)"
proof -
  have eq: "uint w = int (unat w)" by simp
  have "int (unat w) < 2 ^ (LENGTH('a) - 1)"
    using assms by (metis of_nat_less_iff of_nat_numeral of_nat_power)
  then have "uint w < 2 ^ (LENGTH('a) - 1)" by (simp only: eq)
  moreover have "- (2 ^ (LENGTH('a) - 1)) \<le> uint w"
    by (rule order.trans [OF _ uint_ge_0]) simp
  ultimately have "sint w = uint w"
    by (simp add: sint_uint signed_take_bit_int_eq_self_iff)
  then show ?thesis by simp
qed

end
