(* ===== verification/Can_Frame.thy ===== *)
theory Can_Frame
  imports Prelude
begin

unbundle bit_operations_syntax

text \<open>
  The CAN frame of the drivers, the test programs and the simulated controllers
  (\<open>struct can_frame\<close>, declared alike in every \<open>can_pci.h\<close>, in
  \<open>backup/qemu_linux4/can-pci.h\<close> and in the example programs), its flag bits, and the
  bit equations between an identifier and the bytes the controllers' registers hold.
\<close>

text \<open>
  \<open>can_data\<close> stands for the array \<open>data[8]\<close>; a frame of the C program always has the
  eight bytes (\<open>frame_wf\<close>), whatever \<open>can_dlc\<close> says.
\<close>

record can_frame =
  can_id :: u32
  can_dlc :: u8
  can_data :: "u8 list"

definition frame_wf :: "can_frame \<Rightarrow> bool" where
  "frame_wf f \<longleftrightarrow> length (can_data f) = 8"

definition frame_zero :: can_frame where
  "frame_zero = \<lparr>can_id = 0, can_dlc = 0, can_data = replicate 8 0\<rparr>"

lemma frame_wf_zero [simp]: "frame_wf frame_zero"
  by (simp add: frame_wf_def frame_zero_def)

lemma frame_with_id:
  "\<lparr>can_id = c, can_dlc = can_dlc f, can_data = can_data f\<rparr> = f\<lparr>can_id := c\<rparr>"
  by (cases f) simp

lemma frame_same_id [simp]: "f\<lparr>can_id := can_id f\<rparr> = f"
  by (cases f) simp

text \<open>\<open>can_id & (1 << 31)\<close>, \<open>can_id & (1 << 30)\<close>.\<close>

definition is_eff :: "u32 \<Rightarrow> bool" where
  "is_eff cid \<longleftrightarrow> cid AND 0x80000000 \<noteq> 0"

definition is_rtr :: "u32 \<Rightarrow> bool" where
  "is_rtr cid \<longleftrightarrow> cid AND 0x40000000 \<noteq> 0"

lemma is_eff_bit [word_bits]: "is_eff cid = bit cid 31"
  using and_flag_eq_0 [of "0x80000000" 31 cid] by (simp add: is_eff_def push_bit_eq_mult)

lemma is_rtr_bit [word_bits]: "is_rtr cid = bit cid 30"
  using and_flag_eq_0 [of "0x40000000" 30 cid] by (simp add: is_rtr_def push_bit_eq_mult)

text \<open>The data bytes a frame carries on the bus: the first \<open>can_dlc\<close> ones.\<close>

definition payload :: "can_frame \<Rightarrow> u8 list" where
  "payload f = take (unat (can_dlc f)) (can_data f)"

text \<open>
  The frame as a receiver that clears the unused bytes stores it: the payload, then zeroes.
\<close>

definition zero_padded :: "u8 list \<Rightarrow> u8 list" where
  "zero_padded xs = xs @ replicate (8 - length xs) 0"

lemma length_zero_padded [simp]: "length xs \<le> 8 \<Longrightarrow> length (zero_padded xs) = 8"
  by (simp add: zero_padded_def)

lemma length_payload: "frame_wf f \<Longrightarrow> can_dlc f \<le> 8 \<Longrightarrow> length (payload f) = unat (can_dlc f)"
  by (simp add: payload_def frame_wf_def word_le_nat_alt)

lemma zero_padded_payload:
  assumes "frame_wf f" and "can_dlc f \<le> 8" and "set (drop (unat (can_dlc f)) (can_data f)) \<subseteq> {0}"
  shows "zero_padded (payload f) = can_data f"
proof -
  have "unat (can_dlc f) \<le> 8" using assms(2) by (simp add: word_le_nat_alt)
  moreover have "drop (unat (can_dlc f)) (can_data f) = replicate (8 - unat (can_dlc f)) 0"
    using assms(1,3) by (intro replicate_eqI) (auto simp: frame_wf_def)
  ultimately have "zero_padded (payload f) = take (unat (can_dlc f)) (can_data f) @ drop (unat (can_dlc f)) (can_data f)"
    using assms(1) by (simp add: zero_padded_def payload_def frame_wf_def)
  then show ?thesis by simp
qed

section \<open>Identifier bits\<close>

text \<open>The 29-bit identifier as four register bytes, and back.\<close>

lemma ext_id_bytes:
  fixes cid :: u32
  shows "push_bit 21 (ucast (ucast (drop_bit 21 cid AND 0xff) :: u8)) OR
         push_bit 13 (ucast (ucast (drop_bit 13 cid AND 0xff) :: u8)) OR
         push_bit 5 (ucast (ucast (drop_bit 5 cid AND 0xff) :: u8)) OR
         drop_bit 3 (ucast (ucast (push_bit 3 (cid AND 0x1f)) :: u8)) = cid AND (0x1fffffff :: u32)"
    (is "?l = ?r")
proof (rule bit_word_eqI)
  fix n :: nat
  assume "n < LENGTH(32)"
  then consider "n < 5" | "5 \<le> n" "n < 13" | "13 \<le> n" "n < 21" | "21 \<le> n" "n < 29"
    | "29 \<le> n" "n < 32" by fastforce
  then show "bit ?l n = bit ?r n"
    by cases (auto simp: bit_simps word_bits)
qed

text \<open>The 11-bit identifier as two register bytes, and back.\<close>

lemma std_id_bytes:
  fixes cid :: u32
  shows "push_bit 3 (ucast (ucast (drop_bit 3 cid AND 0xff) :: u8)) OR
         drop_bit 5 (ucast (ucast (push_bit 5 cid AND 0xe0) :: u8)) = cid AND (0x7ff :: u32)"
    (is "?l = ?r")
proof (rule bit_word_eqI)
  fix n :: nat
  assume "n < LENGTH(32)"
  then consider "n < 3" | "3 \<le> n" "n < 11" | "11 \<le> n" "n < 32" by fastforce
  then show "bit ?l n = bit ?r n"
    by cases (auto simp: bit_simps word_bits)
qed

text \<open>Identifiers that a codec keeps: bit 29 is never carried; a standard one has 11 bits.\<close>

lemma ext_id_kept:
  fixes cid :: u32
  assumes "cid AND 0x20000000 = 0"
  shows "cid AND 0xdfffffff = cid"
proof (rule bit_word_eqI)
  fix n :: nat
  assume "n < LENGTH(32)"
  moreover have "\<not> bit cid 29"
    using assms and_flag_eq_0 [of "0x20000000" 29 cid] by (simp add: push_bit_eq_mult)
  moreover have "n < 29 \<or> n = 29 \<or> n = 30 \<or> n = 31" if "n < 32" for n :: nat
    using that by arith
  ultimately show "bit (cid AND 0xdfffffff) n = bit cid n"
    by (auto simp: bit_simps word_bits)
qed

lemma std_id_bits:
  fixes cid :: u32
  assumes "cid AND 0x400007ff = cid"
  shows "\<not> is_eff cid" and "cid AND 0x400007fb = cid AND NOT 4" and "cid AND NOT 4 = cid \<longleftrightarrow> \<not> bit cid 2"
proof -
  have bits: "bit cid n \<longleftrightarrow> bit cid n \<and> (n < 11 \<or> n = 30)" if "n < 32" for n
    using arg_cong [OF assms, of "\<lambda>w. bit w n"] that by (auto simp: bit_simps word_bits)
  show "\<not> is_eff cid"
    using bits [of 31] by (simp add: is_eff_bit)
  have four: "bit (4 :: int) n \<longleftrightarrow> n = 2" for n
    using bit_int_literal [of 4 2 1 n] by (auto simp: mask_eq_exp_minus_1 push_bit_eq_mult)
  show "cid AND 0x400007fb = cid AND NOT 4"
    by (rule bit_word_eqI) (use bits in \<open>auto simp: bit_simps word_bits four\<close>)
  show "cid AND NOT 4 = cid \<longleftrightarrow> \<not> bit cid 2"
  proof
    assume "cid AND NOT 4 = cid"
    from arg_cong [OF this, of "\<lambda>w. bit w 2"] show "\<not> bit cid 2"
      by (auto simp: bit_simps four)
  next
    assume "\<not> bit cid 2"
    then show "cid AND NOT 4 = cid"
      by (intro bit_word_eqI) (auto simp: bit_simps four)
  qed
qed

end
