(* ===== verification/Sja_Bus.thy ===== *)
theory Sja_Bus
  imports Can_Frame
begin

unbundle bit_operations_syntax

text \<open>
  The register interface between the Linux drivers and the CAN controller.

  A driver reaches the controller only through \<open>ioread8(mem_base + off)\<close> and
  \<open>iowrite8(v, mem_base + off)\<close>. What answers is a parameter of the drivers' models: a
  \<open>bus\<close> over a state \<open>'d\<close> of the controller. A read may change that state (the
  SJA1000 clears its interrupt register on a read), and either access may fault, since one of
  the controllers is itself a program of this repository.

  The locales state what the drivers rely on. \<open>tx_window\<close> is the transmit buffer seen
  through the registers, \<open>sja_tx\<close> adds the transmission request, \<open>pure_regs\<close> is a
  controller whose reads have no effect. The theory \<open>Can_Device4\<close> interprets all three
  on the simulated controller.
\<close>

record 'd bus =
  bus_read :: "'d \<Rightarrow> nat \<Rightarrow> (u8 \<times> 'd) res"
  bus_write :: "'d \<Rightarrow> nat \<Rightarrow> u8 \<Rightarrow> 'd res"

section \<open>Runs of register writes\<close>

text \<open>Writes of consecutive registers from \<open>a\<close> on.\<close>

fun write_seq :: "'d bus \<Rightarrow> 'd \<Rightarrow> nat \<Rightarrow> u8 list \<Rightarrow> 'd res" where
  "write_seq b d a [] = Inr d"
| "write_seq b d a (v # vs) = rbind (bus_write b d a v) (\<lambda>d. write_seq b d (Suc a) vs)"

lemma write_seq_append:
  "write_seq b d a (xs @ ys) = rbind (write_seq b d a xs) (\<lambda>d. write_seq b d (a + length xs) ys)"
  by (induction xs arbitrary: d a) (simp_all add: rbind_assoc)

text \<open>
  The data loop of the drivers, \<open>for (i = 0; i < can_dlc; i++, index++)
  iowrite8(data[i], base + index)\<close>, with \<open>n\<close> the iterations left. The register index
  is a \<open>uint8_t\<close> and wraps; the array access is checked.
\<close>

fun tx_loop :: "'d bus \<Rightarrow> 'd \<Rightarrow> u8 list \<Rightarrow> nat \<Rightarrow> nat \<Rightarrow> u8 \<Rightarrow> 'd res" where
  "tx_loop b d data i 0 index = Inr d"
| "tx_loop b d data i (Suc n) index =
     rbind (arr_get data i) (\<lambda>v.
     rbind (bus_write b d (unat index) v) (\<lambda>d.
     tx_loop b d data (Suc i) n (index + 1)))"

lemma unat_index_Suc:
  fixes index :: u8
  shows "unat index < 255 \<Longrightarrow> unat (index + 1) = Suc (unat index)"
  by (simp add: unat_word_ariths)

lemma tx_loop_write_seq:
  "i + n \<le> length data \<Longrightarrow> unat index + n \<le> 255 \<Longrightarrow>
     tx_loop b d data i n index = write_seq b d (unat index) (take n (drop i data))"
proof (induction n arbitrary: d i index)
  case 0
  then show ?case by simp
next
  case (Suc n)
  then have "take (Suc n) (drop i data) = data ! i # take n (drop (Suc i) data)"
    by (simp add: Cons_nth_drop_Suc [symmetric])
  with Suc show ?case by (simp add: unat_index_Suc)
qed

text \<open>A loop that runs past the array faults, whatever the controller does before.\<close>

lemma tx_loop_oob:
  "length data < i + n \<Longrightarrow> i \<le> length data \<Longrightarrow> \<exists>e. tx_loop b d data i n index = Inl e"
proof (induction n arbitrary: d i index)
  case 0
  then show ?case by simp
next
  case (Suc n)
  show ?case
  proof (cases "i < length data")
    case True
    then show ?thesis
      using Suc.IH [of "Suc i"] Suc.prems
      by (cases "bus_write b d (unat index) (data ! i)") auto
  qed simp
qed

section \<open>A controller that receives its own frames\<close>

text \<open>
  The simplest controller that meets the interface: a register file whose receive window, at
  the registers from \<open>rx\<close> on, shows the transmit buffer at the registers from \<open>tx\<close> on
  (the self reception of the controller's data sheet). In PeliCAN mode both windows are at 16;
  in BasicCAN mode they are at 10 and 20.
\<close>

definition loop_bus :: "nat \<Rightarrow> nat \<Rightarrow> (nat \<Rightarrow> u8) bus" where
  "loop_bus tx rx = \<lparr>bus_read = (\<lambda>m a. Inr (if rx \<le> a \<and> a < rx + 13 then m (tx + (a - rx)) else m a, m)),
                     bus_write = (\<lambda>m a v. Inr (m(a := v)))\<rparr>"

lemma loop_bus_read:
  "bus_read (loop_bus tx rx) m a = Inr (if rx \<le> a \<and> a < rx + 13 then m (tx + (a - rx)) else m a, m)"
  by (simp add: loop_bus_def)

lemma loop_bus_write: "bus_write (loop_bus tx rx) m a v = Inr (m(a := v))"
  by (simp add: loop_bus_def)

lemma loop_bus_write_seq:
  "write_seq (loop_bus tx rx) m a vs =
     Inr (\<lambda>x. if a \<le> x \<and> x < a + length vs then vs ! (x - a) else m x)"
proof (induction vs arbitrary: m a)
  case Nil
  then show ?case by (auto simp: fun_eq_iff)
next
  case (Cons v vs)
  show ?case
    by (auto simp: loop_bus_write Cons nth_Cons' fun_eq_iff Suc_le_eq)
qed

section \<open>The interfaces\<close>

text \<open>
  \<open>win d\<close> is the transmit buffer, at the registers from \<open>base\<close> on; \<open>ready d\<close>
  says that the controller is in operation mode; \<open>sent d\<close> are the frames that left.
\<close>

locale tx_window =
  fixes b :: "'d bus"
    and base :: nat
    and win :: "'d \<Rightarrow> u8 list"
    and ready :: "'d \<Rightarrow> bool"
    and sent :: "'d \<Rightarrow> 'f list"
  assumes win_length: "ready d \<Longrightarrow> length (win d) = 13"
    and win_write: "ready d \<Longrightarrow> k < 13 \<Longrightarrow>
      \<exists>d'. bus_write b d (base + k) v = Inr d' \<and> ready d' \<and> win d' = (win d)[k := v] \<and> sent d' = sent d"
begin

lemma window_writes:
  "ready d \<Longrightarrow> k + length vs \<le> 13 \<Longrightarrow>
     \<exists>d'. write_seq b d (base + k) vs = Inr d' \<and> ready d' \<and> sent d' = sent d \<and>
          win d' = take k (win d) @ vs @ drop (k + length vs) (win d)"
proof (induction vs arbitrary: d k)
  case Nil
  then show ?case by simp
next
  case (Cons v vs)
  then have k: "k < 13" by simp
  obtain d1 where d1: "bus_write b d (base + k) v = Inr d1" "ready d1"
      "win d1 = (win d)[k := v]" "sent d1 = sent d"
    using win_write [OF Cons.prems(1) k] by blast
  obtain d2 where d2: "write_seq b d1 (base + Suc k) vs = Inr d2" "ready d2" "sent d2 = sent d1"
      "win d2 = take (Suc k) (win d1) @ vs @ drop (Suc k + length vs) (win d1)"
    using Cons.IH [of d1 "Suc k"] d1(2) Cons.prems(2) by auto
  have "take (Suc k) (win d1) = take k (win d) @ [v]"
    using k win_length [OF Cons.prems(1)] by (simp add: d1(3) take_update_append)
  then show ?case
    using d1 d2 by simp
qed

end

text \<open>
  The transmission request is a write of 1 to the command register; \<open>dec d img\<close> is the
  frame the controller sends for the buffer \<open>img\<close>. A controller need only accept the
  buffers that hold a legal data length.
\<close>

locale sja_tx = tx_window +
  fixes legal :: "u8 list \<Rightarrow> bool"
    and dec :: "'a \<Rightarrow> u8 list \<Rightarrow> 'b"
    and cmd :: nat
  assumes request: "ready d \<Longrightarrow> legal (win d) \<Longrightarrow>
      \<exists>d'. bus_write b d cmd 1 = Inr d' \<and> ready d' \<and> win d' = win d \<and> sent d' = sent d @ [dec d (win d)]"
begin

lemma send_image:
  assumes "ready d" and "length img \<le> 13" and "legal (img @ drop (length img) (win d))"
  shows "\<exists>d1 d2. write_seq b d base img = Inr d1 \<and> sent d1 = sent d \<and> bus_write b d1 cmd 1 = Inr d2 \<and> ready d2 \<and>
           win d1 = img @ drop (length img) (win d) \<and>
           sent d2 = sent d @ [dec d1 (img @ drop (length img) (win d))]"
proof -
  obtain d1 where d1: "write_seq b d base img = Inr d1" "ready d1" "sent d1 = sent d"
      "win d1 = img @ drop (length img) (win d)"
    using window_writes [OF assms(1), of 0 img] assms(2) by auto
  moreover obtain d2 where "bus_write b d1 cmd 1 = Inr d2" "ready d2" "sent d2 = sent d1 @ [dec d1 (win d1)]"
    using request [OF d1(2)] assms(3) d1(4) by auto
  ultimately show ?thesis by auto
qed

end

text \<open>Reads without an effect: a register file \<open>peek\<close>.\<close>

locale pure_regs =
  fixes b :: "'d bus"
    and peek :: "'d \<Rightarrow> nat \<Rightarrow> u8"
  assumes read_pure: "bus_read b d a = Inr (peek d a, d)"

end
