(* ===== verification/Fifo.thy ===== *)
theory Fifo
  imports Prelude
begin

text \<open>
  Ring buffers. The drivers, the UART and the character-device multiplexer all keep an array,
  an output index and a count, and step an index with \<open>i++; if (i == SIZE) i = 0;\<close>.
  \<open>ring_view\<close> is the queue such a ring holds; the locale \<open>bounded_fifo\<close> is the
  contract of a bounded queue, with the order of delivery proved once.
\<close>

section \<open>Rings over an array\<close>

definition ring_next :: "nat \<Rightarrow> nat \<Rightarrow> nat" where
  "ring_next n i = (if Suc i = n then 0 else Suc i)"

definition ring_view :: "'a list \<Rightarrow> nat \<Rightarrow> nat \<Rightarrow> 'a list" where
  "ring_view buf out cnt = map (\<lambda>k. buf ! ((out + k) mod length buf)) [0..<cnt]"

lemma length_ring_view [simp]: "length (ring_view buf out cnt) = cnt"
  by (simp add: ring_view_def)

lemma ring_view_0 [simp]: "ring_view buf out 0 = []"
  by (simp add: ring_view_def)

lemma ring_next_less: "i < n \<Longrightarrow> ring_next n i < n"
  by (auto simp: ring_next_def)

lemma ring_next_mod: "i < n \<Longrightarrow> ring_next n i = Suc i mod n"
  by (auto simp: ring_next_def)

lemma ring_next_add: "0 < n \<Longrightarrow> ring_next n (a mod n) = Suc a mod n"
  by (simp add: ring_next_mod mod_Suc_eq)

lemma mod_add_inj:
  fixes a i j n :: nat
  assumes "i < n" and "j < n" and "(a + i) mod n = (a + j) mod n"
  shows "i = j"
proof -
  have "(int a + int i) mod int n = (int a + int j) mod int n"
    using assms(3) by (metis of_nat_add of_nat_mod)
  then have "int i mod int n = int j mod int n"
    by (metis add_diff_cancel_left' mod_diff_left_eq mod_diff_cong)
  with assms(1,2) show ?thesis by simp
qed

text \<open>Storing at the input index appends; stepping the output index removes the first.\<close>

lemma ring_view_put:
  assumes "cnt < length buf"
  shows "ring_view (buf[(out + cnt) mod length buf := x]) out (Suc cnt) = ring_view buf out cnt @ [x]"
proof -
  have "(out + cnt) mod length buf < length buf"
    by (rule mod_less_divisor) (use assms in linarith)
  moreover have "(out + cnt) mod length buf \<noteq> (out + k) mod length buf" if "k < cnt" for k
    using mod_add_inj [of k "length buf" cnt out] that assms by auto
  ultimately show ?thesis
    by (simp add: ring_view_def)
qed

lemma ring_view_get:
  assumes "0 < cnt" and "out < length buf"
  shows "ring_view buf out cnt = buf ! out # ring_view buf (ring_next (length buf) out) (cnt - 1)"
proof -
  have "[0..<cnt] = 0 # map Suc [0..<cnt - 1]"
    using assms(1) by (simp add: map_Suc_upt upt_conv_Cons)
  then show ?thesis
    using assms(2) by (simp add: ring_view_def ring_next_mod mod_add_left_eq)
qed

lemma ring_view_hd: "0 < cnt \<Longrightarrow> out < length buf \<Longrightarrow> hd (ring_view buf out cnt) = buf ! out"
  by (simp add: ring_view_get)

lemma ring_view_tl:
  "0 < cnt \<Longrightarrow> out < length buf \<Longrightarrow>
     ring_view buf (ring_next (length buf) out) (cnt - 1) = tl (ring_view buf out cnt)"
  by (simp add: ring_view_get)

text \<open>An update outside the occupied part does not show.\<close>

lemma ring_view_update_free:
  assumes "cnt \<le> k" and "k < length buf"
  shows "ring_view (buf[(out + k) mod length buf := x]) out cnt = ring_view buf out cnt"
proof -
  have "(out + k) mod length buf \<noteq> (out + j) mod length buf" if "j < cnt" for j
    using mod_add_inj [of j "length buf" k out] that assms by auto
  then show ?thesis
    unfolding ring_view_def by (intro map_cong) auto
qed

text \<open>The relation between the indices that every ring of the program keeps.\<close>

definition ring_ok :: "nat \<Rightarrow> nat \<Rightarrow> nat \<Rightarrow> nat \<Rightarrow> bool" where
  "ring_ok n inn out cnt \<longleftrightarrow> inn < n \<and> out < n \<and> cnt \<le> n \<and> inn = (out + cnt) mod n"

lemma ring_ok_put: "ring_ok n inn out cnt \<Longrightarrow> cnt < n \<Longrightarrow> ring_ok n (ring_next n inn) out (Suc cnt)"
  by (auto simp: ring_ok_def ring_next_less ring_next_add)

lemma ring_ok_get:
  assumes "ring_ok n inn out cnt" and "0 < cnt"
  shows "ring_ok n inn (ring_next n out) (cnt - 1)"
proof -
  obtain c where c: "cnt = Suc c"
    using assms(2) gr0_conv_Suc by blast
  have "(ring_next n out + (cnt - 1)) mod n = (out + cnt) mod n"
    using assms(1) by (simp add: c ring_ok_def ring_next_mod mod_add_left_eq)
  with assms show ?thesis by (auto simp: ring_ok_def ring_next_less)
qed

section \<open>The contract of a bounded queue\<close>

datatype 'a fifo_op = Put 'a | Get

text \<open>
  A run of a bounded queue: a \<open>Put\<close> on a full queue and a \<open>Get\<close> on an empty one are
  refused. The result is the final state, the elements accepted and the elements delivered.
\<close>

fun fifo_run :: "('a \<Rightarrow> 's \<Rightarrow> 's) \<Rightarrow> ('s \<Rightarrow> 's) \<Rightarrow> ('s \<Rightarrow> 'a) \<Rightarrow> ('s \<Rightarrow> nat) \<Rightarrow> nat \<Rightarrow>
    's \<Rightarrow> 'a fifo_op list \<Rightarrow> 's \<times> 'a list \<times> 'a list" where
  "fifo_run put get first count cap s [] = (s, [], [])"
| "fifo_run put get first count cap s (Put x # ops) =
     (if count s < cap then
        (case fifo_run put get first count cap (put x s) ops of (s', acc, del) \<Rightarrow> (s', x # acc, del))
      else fifo_run put get first count cap s ops)"
| "fifo_run put get first count cap s (Get # ops) =
     (if 0 < count s then
        (case fifo_run put get first count cap (get s) ops of (s', acc, del) \<Rightarrow> (s', acc, first s # del))
      else fifo_run put get first count cap s ops)"

locale bounded_fifo =
  fixes view :: "'s \<Rightarrow> 'a list"
    and ok :: "'s \<Rightarrow> bool"
    and count :: "'s \<Rightarrow> nat"
    and cap :: nat
    and put :: "'a \<Rightarrow> 's \<Rightarrow> 's"
    and get :: "'s \<Rightarrow> 's"
    and first :: "'s \<Rightarrow> 'a"
  assumes count_view: "ok s \<Longrightarrow> count s = length (view s)"
    and count_le: "ok s \<Longrightarrow> count s \<le> cap"
    and ok_put: "ok s \<Longrightarrow> count s < cap \<Longrightarrow> ok (put x s)"
    and view_put: "ok s \<Longrightarrow> count s < cap \<Longrightarrow> view (put x s) = view s @ [x]"
    and ok_get: "ok s \<Longrightarrow> 0 < count s \<Longrightarrow> ok (get s)"
    and view_get: "ok s \<Longrightarrow> 0 < count s \<Longrightarrow> view s = first s # view (get s)"
begin

lemma count_put: "ok s \<Longrightarrow> count s < cap \<Longrightarrow> count (put x s) = Suc (count s)"
  by (simp add: count_view ok_put view_put)

text \<open>Several puts with room for all of them.\<close>

lemma put_all:
  "ok s \<Longrightarrow> count s + length xs \<le> cap \<Longrightarrow>
     ok (fold put xs s) \<and> view (fold put xs s) = view s @ xs \<and> count (fold put xs s) = count s + length xs"
proof (induction xs arbitrary: s)
  case Nil
  then show ?case by simp
next
  case (Cons x xs)
  then have "count s < cap" by simp
  with Cons show ?case
    using Cons.IH [of "put x s"] by (simp add: ok_put view_put count_put)
qed

text \<open>First in, first out, nothing lost, nothing made up.\<close>

lemma fifo_order:
  "ok s \<Longrightarrow> fifo_run put get first count cap s ops = (s', acc, del) \<Longrightarrow>
     ok s' \<and> view s @ acc = del @ view s'"
proof (induction ops arbitrary: s s' acc del)
  case Nil
  then show ?case by simp
next
  case (Cons op ops)
  show ?case
  proof (cases op)
    case (Put x)
    show ?thesis
    proof (cases "count s < cap")
      case True
      then obtain acc' where run: "fifo_run put get first count cap (put x s) ops = (s', acc', del)"
          and acc: "acc = x # acc'"
        using Cons.prems(2) Put by (auto split: prod.splits)
      from Cons.IH [OF ok_put [OF Cons.prems(1) True] run] show ?thesis
        using view_put [OF Cons.prems(1) True] acc by simp
    next
      case False
      with Cons Put show ?thesis by simp
    qed
  next
    case Get
    show ?thesis
    proof (cases "0 < count s")
      case True
      then obtain del' where run: "fifo_run put get first count cap (get s) ops = (s', acc, del')"
          and del: "del = first s # del'"
        using Cons.prems(2) Get by (auto split: prod.splits)
      from Cons.IH [OF ok_get [OF Cons.prems(1) True] run] show ?thesis
        using view_get [OF Cons.prems(1) True] del by simp
    next
      case False
      with Cons Get show ?thesis by simp
    qed
  qed
qed

end

end
