(* ===== verification/Can_Chrdev.thy ===== *)
theory Can_Chrdev
  imports Sja_Bus Fifo
begin

unbundle bit_operations_syntax

text \<open>
  What the two character-device drivers of \<open>source/linux_driver\<close> share: the device
  structure with its two rings of six frames, the file operations \<open>read\<close>, \<open>write\<close> and
  \<open>release\<close> (the same text in both drivers up to the call of \<open>send_message\<close>), the
  transmit half of the interrupt handler, and the two loops that switch the controller between
  reset and operation mode.

  \<^item> \<open>can_dev\<close> keeps the fields of \<open>struct can_dev\<close> the operations use; the counters
    are \<open>size_t\<close> in C and \<open>nat\<close> here, and the invariant \<open>dev_ok\<close> bounds them by six.
  \<^item> \<open>copy_from_user\<close> and \<open>copy_to_user\<close> belong to the kernel. Their outcome is an
    argument: whether they failed, and the frame that the ring slot then holds.
  \<^item> A file operation returns the \<open>ssize_t\<close> of the C function as an \<open>int\<close>.
\<close>

abbreviation (input) BUFFERSIZE :: nat where "BUFFERSIZE \<equiv> 6"
abbreviation (input) sizeof_can_frame :: nat where "sizeof_can_frame \<equiv> 16"

abbreviation (input) EIO :: int where "EIO \<equiv> 5"
abbreviation (input) ENOMEM :: int where "ENOMEM \<equiv> 12"
abbreviation (input) EFAULT :: int where "EFAULT \<equiv> 14"
abbreviation (input) ENODEV :: int where "ENODEV \<equiv> 19"
abbreviation (input) EINVAL :: int where "EINVAL \<equiv> 22"
abbreviation (input) EFBIG :: int where "EFBIG \<equiv> 27"

text \<open>Registers (offsets in the memory BAR) and their bits.\<close>

abbreviation (input) SJA_MODE_REG :: nat where "SJA_MODE_REG \<equiv> 0"
abbreviation (input) SJA_CONTROL_REG :: nat where "SJA_CONTROL_REG \<equiv> 0"
abbreviation (input) SJA_COMMAND_REG :: nat where "SJA_COMMAND_REG \<equiv> 1"
abbreviation (input) SJA_STATUS_REG :: nat where "SJA_STATUS_REG \<equiv> 2"
abbreviation (input) SJA_INT_REG :: nat where "SJA_INT_REG \<equiv> 3"
abbreviation (input) SJA_INT_EN_REG :: nat where "SJA_INT_EN_REG \<equiv> 4"
abbreviation (input) SJA_BASIC_AMR_REG :: nat where "SJA_BASIC_AMR_REG \<equiv> 5"
abbreviation (input) TX_FRAME_INFO_REG :: nat where "TX_FRAME_INFO_REG \<equiv> 16"
abbreviation (input) SJA_CLOCK_REG :: nat where "SJA_CLOCK_REG \<equiv> 31"

abbreviation (input) RESET_BIT :: u8 where "RESET_BIT \<equiv> 0x01"
abbreviation (input) TBS :: u8 where "TBS \<equiv> 0x04"
abbreviation (input) CDO :: u8 where "CDO \<equiv> 0x08"
abbreviation (input) PELI :: u8 where "PELI \<equiv> 0x80"
abbreviation (input) INT_RI :: u8 where "INT_RI \<equiv> 0x01"
abbreviation (input) INT_TI :: u8 where "INT_TI \<equiv> 0x02"
abbreviation (input) INT_DOI :: u8 where "INT_DOI \<equiv> 0x08"

section \<open>The device structure\<close>

record can_dev =
  tx_buf :: "can_frame list"
  tx_count :: nat
  tx_in :: nat
  tx_out :: nat
  rx_buf :: "can_frame list"
  rx_count :: nat
  rx_in :: nat
  rx_out :: nat

text \<open>The rings as \<open>device_open\<close> leaves them (and \<open>memset\<close> in \<open>pcisimple_probe\<close>).\<close>

definition rings_reset :: "can_dev \<Rightarrow> can_dev" where
  "rings_reset cd = cd\<lparr>tx_buf := replicate BUFFERSIZE frame_zero, tx_count := 0, tx_in := 0, tx_out := 0,
                       rx_buf := replicate BUFFERSIZE frame_zero, rx_count := 0, rx_in := 0, rx_out := 0\<rparr>"

definition can_dev_zero :: can_dev where
  "can_dev_zero = \<lparr>tx_buf = replicate BUFFERSIZE frame_zero, tx_count = 0, tx_in = 0, tx_out = 0,
                   rx_buf = replicate BUFFERSIZE frame_zero, rx_count = 0, rx_in = 0, rx_out = 0\<rparr>"

section \<open>File operations\<close>

text \<open>\<open>device_read\<close>: the return value, the frame copied out, the device.\<close>

definition device_read :: "can_dev \<Rightarrow> nat \<Rightarrow> bool \<Rightarrow> (int \<times> can_frame option \<times> can_dev) res" where
  "device_read cd count copy_fails =
     (if count \<noteq> sizeof_can_frame then Inr (- EINVAL, None, cd)
      else if rx_count cd = 0 then Inr (0, None, cd)
      else rbind (arr_get (rx_buf cd) (rx_out cd)) (\<lambda>f.
        if copy_fails then Inr (- EFAULT, None, cd)
        else Inr (int count, Some f,
               cd\<lparr>rx_out := (if rx_out cd + 1 = BUFFERSIZE then 0 else rx_out cd + 1),
                  rx_count := rx_count cd - 1\<rparr>)))"

text \<open>
  \<open>device_write\<close>, over the driver's \<open>send_message\<close>. The frame is copied into the slot
  \<open>tx_in\<close> first; it is queued there when the controller's transmit buffer is locked and sent
  from there otherwise.
\<close>

definition device_write :: "('d bus \<Rightarrow> 'd \<Rightarrow> can_frame \<Rightarrow> 'd res) \<Rightarrow> 'd bus \<Rightarrow> can_dev \<Rightarrow> 'd \<Rightarrow>
    nat \<Rightarrow> bool \<Rightarrow> can_frame \<Rightarrow> (int \<times> can_dev \<times> 'd) res" where
  "device_write send b cd d count copy_fails frm =
     (if count \<noteq> sizeof_can_frame then Inr (- EINVAL, cd, d)
      else if tx_count cd = BUFFERSIZE then Inr (- EFBIG, cd, d)
      else
        rbind (arr_set (tx_buf cd) (tx_in cd) frm) (\<lambda>buf.
        let cd = cd\<lparr>tx_buf := buf\<rparr>;
            ret = (if copy_fails then - EFAULT else int count)
        in rbind (bus_read b d SJA_STATUS_REG) (\<lambda>(temp, d).
           if temp AND TBS \<noteq> TBS then
             Inr (int count,
                  cd\<lparr>tx_count := tx_count cd + 1,
                     tx_in := (if tx_in cd + 1 = BUFFERSIZE then 0 else tx_in cd + 1)\<rparr>, d)
           else
             rbind (arr_get (tx_buf cd) (tx_in cd)) (\<lambda>f.
             rbind (send b d f) (\<lambda>d. Inr (ret, cd, d))))))"

definition device_release :: "'d bus \<Rightarrow> 'd \<Rightarrow> (int \<times> 'd) res" where
  "device_release b d = rbind (bus_write b d SJA_MODE_REG 0x01) (\<lambda>d. Inr (0, d))"

section \<open>Interrupts\<close>

text \<open>The transmit half of \<open>irq_handler\<close>: \<open>if (temp & TI) ...\<close>.\<close>

definition irq_transmit :: "('d bus \<Rightarrow> 'd \<Rightarrow> can_frame \<Rightarrow> 'd res) \<Rightarrow> 'd bus \<Rightarrow> can_dev \<Rightarrow> 'd \<Rightarrow> u8 \<Rightarrow>
    (can_dev \<times> 'd) res" where
  "irq_transmit send b cd d temp =
     (if temp AND INT_TI \<noteq> 0 \<and> 0 < tx_count cd then
        rbind (arr_get (tx_buf cd) (tx_out cd)) (\<lambda>f.
        rbind (send b d f) (\<lambda>d.
        Inr (cd\<lparr>tx_out := (if tx_out cd + 1 = BUFFERSIZE then 0 else tx_out cd + 1),
                tx_count := tx_count cd - 1\<rparr>, d)))
      else Inr (cd, d))"

text \<open>\<open>if (temp & DOI)\<close>: clear the data overrun. The last step of both drivers' handlers.\<close>

definition irq_overrun :: "'d bus \<Rightarrow> can_dev \<Rightarrow> 'd \<Rightarrow> u8 \<Rightarrow> (can_dev \<times> 'd) res" where
  "irq_overrun b cd d temp =
     (if temp AND INT_DOI \<noteq> 0 then rbind (bus_write b d SJA_COMMAND_REG CDO) (\<lambda>d. Inr (cd, d))
      else Inr (cd, d))"

section \<open>The data loops of the codecs\<close>

lemma tx_loop_payload:
  assumes "frame_wf f" and "can_dlc f \<le> 8" and "unat index \<le> 200"
  shows "tx_loop b d (can_data f) 0 (unat (can_dlc f)) index = write_seq b d (unat index) (payload f)"
proof -
  have "unat (can_dlc f) \<le> 8" using assms(2) by (simp add: word_le_nat_alt)
  then show ?thesis
    using assms(1,3) by (simp add: tx_loop_write_seq frame_wf_def payload_def)
qed

text \<open>
  \<open>for (i = 0; i < can_dlc; i++) data[i] = ioread8(base + index++)\<close>, with \<open>n\<close> the
  iterations left. The store into the eight-byte array is checked.
\<close>

fun rx_loop :: "'d bus \<Rightarrow> 'd \<Rightarrow> u8 list \<Rightarrow> nat \<Rightarrow> nat \<Rightarrow> u8 \<Rightarrow> (u8 list \<times> 'd) res" where
  "rx_loop b d data i 0 index = Inr (data, d)"
| "rx_loop b d data i (Suc n) index =
     rbind (bus_read b d (unat index)) (\<lambda>(v, d).
     rbind (arr_set data i v) (\<lambda>data.
     rx_loop b d data (Suc i) n (index + 1)))"

lemma rx_loop_pure:
  assumes pure: "\<And>a. bus_read b d a = Inr (r a, d)"
  shows "i + n \<le> length data \<Longrightarrow> unat index + n \<le> 255 \<Longrightarrow>
    rx_loop b d data i n index =
      Inr (take i data @ map (\<lambda>k. r (unat index + k)) [0..<n] @ drop (i + n) data, d)"
proof (induction n arbitrary: i data index)
  case 0
  then show ?case by simp
next
  case (Suc n)
  have "[0..<Suc n] = 0 # map Suc [0..<n]"
    by (simp add: map_Suc_upt upt_conv_Cons)
  with Suc show ?case
    by (simp add: pure unat_index_Suc take_update_append)
qed

lemma rx_loop_oob:
  "length data < i + n \<Longrightarrow> i \<le> length data \<Longrightarrow> \<exists>e. rx_loop b d data i n index = Inl e"
proof (induction n arbitrary: d i index data)
  case 0
  then show ?case by simp
next
  case (Suc n)
  show ?case
  proof (cases "bus_read b d (unat index)")
    case (Inr vd)
    obtain v d' where vd: "vd = (v, d')" by (cases vd)
    show ?thesis
    proof (cases "i < length data")
      case True
      then show ?thesis
        using Suc.IH [of "data[i := v]" "Suc i"] Suc.prems Inr vd by simp
    qed (simp add: Inr vd)
  qed simp
qed

section \<open>Mode switching\<close>

text \<open>
  \<open>while (((temp & RESET_BIT) != RESET_BIT) && (count < 3))\<close> and its counterpart: set or clear
  the bit in what was read, write it, read it back. The result is the last value read, the
  number of attempts and the controller.
\<close>

function reset_loop :: "'d bus \<Rightarrow> u8 \<Rightarrow> nat \<Rightarrow> 'd \<Rightarrow> (u8 \<times> nat \<times> 'd) res" where
  "reset_loop b temp count d =
     (if temp AND RESET_BIT \<noteq> RESET_BIT \<and> count < 3 then
        rbind (bus_write b d SJA_MODE_REG (temp OR RESET_BIT)) (\<lambda>d.
        rbind (bus_read b d SJA_MODE_REG) (\<lambda>(temp', d).
        reset_loop b temp' (Suc count) d))
      else Inr (temp, count, d))"
  by pat_completeness auto
termination
  by (relation "measure (\<lambda>(b, temp, count, d). 3 - count)") auto

function oper_loop :: "'d bus \<Rightarrow> u8 \<Rightarrow> nat \<Rightarrow> 'd \<Rightarrow> (u8 \<times> nat \<times> 'd) res" where
  "oper_loop b temp count d =
     (if temp AND RESET_BIT = RESET_BIT \<and> count < 3 then
        rbind (bus_write b d SJA_MODE_REG (temp AND NOT RESET_BIT)) (\<lambda>d.
        rbind (bus_read b d SJA_MODE_REG) (\<lambda>(temp', d).
        oper_loop b temp' (Suc count) d))
      else Inr (temp, count, d))"
  by pat_completeness auto
termination
  by (relation "measure (\<lambda>(b, temp, count, d). 3 - count)") auto

declare reset_loop.simps [simp del] oper_loop.simps [simp del]

lemma reset_loop_stop: "temp AND RESET_BIT = RESET_BIT \<Longrightarrow> reset_loop b temp count d = Inr (temp, count, d)"
  by (subst reset_loop.simps) simp

lemma reset_loop_step:
  "temp AND RESET_BIT \<noteq> RESET_BIT \<Longrightarrow> count < 3 \<Longrightarrow> reset_loop b temp count d =
     rbind (bus_write b d 0 (temp OR RESET_BIT)) (\<lambda>d. rbind (bus_read b d 0) (\<lambda>(temp', d).
       reset_loop b temp' (Suc count) d))"
  by (subst reset_loop.simps) simp

lemma oper_loop_stop: "temp AND RESET_BIT \<noteq> RESET_BIT \<Longrightarrow> oper_loop b temp count d = Inr (temp, count, d)"
  by (subst oper_loop.simps) simp

lemma oper_loop_step:
  "temp AND RESET_BIT = RESET_BIT \<Longrightarrow> count < 3 \<Longrightarrow> oper_loop b temp count d =
     rbind (bus_write b d 0 (temp AND NOT RESET_BIT)) (\<lambda>d. rbind (bus_read b d 0) (\<lambda>(temp', d).
       oper_loop b temp' (Suc count) d))"
  by (subst oper_loop.simps) simp

text \<open>Whatever the controller answers, a loop gives up after three attempts.\<close>

lemma reset_loop_attempts:
  "reset_loop b temp count d = Inr (temp', count', d') \<Longrightarrow> count \<le> 3 \<Longrightarrow>
     count' \<le> 3 \<and> (temp' AND RESET_BIT = RESET_BIT \<or> count' = 3)"
proof (induction b temp count d arbitrary: temp' count' d' rule: reset_loop.induct)
  case (1 b temp count d)
  show ?case
  proof (cases "temp AND RESET_BIT \<noteq> RESET_BIT \<and> count < 3")
    case True
    then obtain d1 t d2 where "bus_write b d 0 (temp OR RESET_BIT) = Inr d1" "bus_read b d1 0 = Inr (t, d2)"
        "reset_loop b t (Suc count) d2 = Inr (temp', count', d')"
      using "1.prems"(1) by (auto simp: reset_loop_step rbind_eq_Inr)
    then show ?thesis using "1.IH" True by fastforce
  next
    case False
    then show ?thesis using "1.prems" by (subst (asm) reset_loop.simps) auto
  qed
qed

lemma oper_loop_attempts:
  "oper_loop b temp count d = Inr (temp', count', d') \<Longrightarrow> count \<le> 3 \<Longrightarrow>
     count' \<le> 3 \<and> (temp' AND RESET_BIT \<noteq> RESET_BIT \<or> count' = 3)"
proof (induction b temp count d arbitrary: temp' count' d' rule: oper_loop.induct)
  case (1 b temp count d)
  show ?case
  proof (cases "temp AND RESET_BIT = RESET_BIT \<and> count < 3")
    case True
    then obtain d1 t d2 where "bus_write b d 0 (temp AND NOT RESET_BIT) = Inr d1" "bus_read b d1 0 = Inr (t, d2)"
        "oper_loop b t (Suc count) d2 = Inr (temp', count', d')"
      using "1.prems"(1) by (auto simp: oper_loop_step rbind_eq_Inr)
    then show ?thesis using "1.IH" True by fastforce
  next
    case False
    then show ?thesis using "1.prems" by (subst (asm) oper_loop.simps) auto
  qed
qed

text \<open>
  A controller whose mode register works: \<open>rst d\<close> says that it is in reset mode. Reads never
  leave a good state; writes of the other registers, the command register apart, keep the mode.
\<close>

locale mode_ctl =
  fixes b :: "'d bus"
    and good :: "'d \<Rightarrow> bool"
    and rst :: "'d \<Rightarrow> bool"
  assumes read_reg: "good d \<Longrightarrow> \<exists>v d'. bus_read b d a = Inr (v, d') \<and> good d' \<and> rst d' = rst d \<and>
      (a = SJA_MODE_REG \<longrightarrow> (v AND RESET_BIT = RESET_BIT) = rst d)"
    and write_reg: "good d \<Longrightarrow> a \<noteq> SJA_COMMAND_REG \<Longrightarrow> \<exists>d'. bus_write b d a v = Inr d' \<and> good d' \<and>
      rst d' = (if a = SJA_MODE_REG then v AND RESET_BIT = RESET_BIT else rst d)"
begin

lemma write_regs:
  "good d \<Longrightarrow> SJA_COMMAND_REG < a \<Longrightarrow> \<exists>d'. write_seq b d a vs = Inr d' \<and> good d' \<and> rst d' = rst d"
proof (induction vs arbitrary: d a)
  case Nil
  then show ?case by simp
next
  case (Cons v vs)
  obtain d1 where "bus_write b d a v = Inr d1" "good d1" "rst d1 = rst d"
    using write_reg [OF Cons.prems(1), of a v] Cons.prems(2) by auto
  moreover obtain d2 where "write_seq b d1 (Suc a) vs = Inr d2" "good d2" "rst d2 = rst d1"
    using Cons.IH [OF \<open>good d1\<close>, of "Suc a"] Cons.prems(2) by auto
  ultimately show ?case by simp
qed

lemma enter_reset:
  assumes "good d" and "(temp AND RESET_BIT = RESET_BIT) = rst d" and "count < 3"
  shows "\<exists>temp' count' d'. reset_loop b temp count d = Inr (temp', count', d') \<and>
           temp' AND RESET_BIT = RESET_BIT \<and> count' \<le> Suc count \<and> good d' \<and> rst d'"
proof (cases "rst d")
  case True
  then show ?thesis using assms by (simp add: reset_loop_stop)
next
  case False
  have "(temp OR RESET_BIT) AND RESET_BIT = RESET_BIT"
    by (rule bit_word_eqI) (auto simp: bit_simps)
  then obtain d1 where d1: "bus_write b d 0 (temp OR RESET_BIT) = Inr d1" "good d1" "rst d1"
    using write_reg [OF assms(1), of 0 "temp OR RESET_BIT"] by auto
  obtain v d2 where "bus_read b d1 0 = Inr (v, d2)" "good d2" "rst d2" "v AND RESET_BIT = RESET_BIT"
    using read_reg [OF d1(2), of 0] d1(3) by auto
  with d1 False assms(2,3) show ?thesis by (simp add: reset_loop_step reset_loop_stop)
qed

lemma leave_reset:
  assumes "good d" and "(temp AND RESET_BIT = RESET_BIT) = rst d" and "count < 3"
  shows "\<exists>temp' count' d'. oper_loop b temp count d = Inr (temp', count', d') \<and>
           temp' AND RESET_BIT \<noteq> RESET_BIT \<and> count' \<le> Suc count \<and> good d' \<and> \<not> rst d'"
proof (cases "rst d")
  case False
  then show ?thesis using assms by (simp add: oper_loop_stop)
next
  case True
  have "(temp AND NOT RESET_BIT) AND RESET_BIT \<noteq> RESET_BIT"
    by (simp add: u8_flags_self bit_simps)
  then obtain d1 where d1: "bus_write b d 0 (temp AND NOT RESET_BIT) = Inr d1" "good d1" "\<not> rst d1"
    using write_reg [OF assms(1), of 0 "temp AND NOT RESET_BIT"] by auto
  obtain v d2 where "bus_read b d1 0 = Inr (v, d2)" "good d2" "\<not> rst d2" "v AND RESET_BIT \<noteq> RESET_BIT"
    using read_reg [OF d1(2), of 0] d1(3) by auto
  with d1 True assms(2,3) show ?thesis by (simp add: oper_loop_step oper_loop_stop)
qed

end

section \<open>The rings as queues\<close>

definition dev_ok :: "can_dev \<Rightarrow> bool" where
  "dev_ok cd \<longleftrightarrow> length (tx_buf cd) = BUFFERSIZE \<and> length (rx_buf cd) = BUFFERSIZE \<and>
     ring_ok BUFFERSIZE (tx_in cd) (tx_out cd) (tx_count cd) \<and>
     ring_ok BUFFERSIZE (rx_in cd) (rx_out cd) (rx_count cd)"

definition tx_queue :: "can_dev \<Rightarrow> can_frame list" where
  "tx_queue cd = ring_view (tx_buf cd) (tx_out cd) (tx_count cd)"

definition rx_queue :: "can_dev \<Rightarrow> can_frame list" where
  "rx_queue cd = ring_view (rx_buf cd) (rx_out cd) (rx_count cd)"

text \<open>The four updates of the rings that the operations make.\<close>

definition tx_put :: "can_frame \<Rightarrow> can_dev \<Rightarrow> can_dev" where
  "tx_put f cd = cd\<lparr>tx_buf := (tx_buf cd)[tx_in cd := f], tx_count := tx_count cd + 1,
                    tx_in := ring_next BUFFERSIZE (tx_in cd)\<rparr>"

definition tx_get :: "can_dev \<Rightarrow> can_dev" where
  "tx_get cd = cd\<lparr>tx_out := ring_next BUFFERSIZE (tx_out cd), tx_count := tx_count cd - 1\<rparr>"

definition tx_first :: "can_dev \<Rightarrow> can_frame" where
  "tx_first cd = tx_buf cd ! tx_out cd"

definition rx_put :: "can_frame \<Rightarrow> can_dev \<Rightarrow> can_dev" where
  "rx_put f cd = cd\<lparr>rx_buf := (rx_buf cd)[rx_in cd := f], rx_count := rx_count cd + 1,
                    rx_in := ring_next BUFFERSIZE (rx_in cd)\<rparr>"

definition rx_get :: "can_dev \<Rightarrow> can_dev" where
  "rx_get cd = cd\<lparr>rx_out := ring_next BUFFERSIZE (rx_out cd), rx_count := rx_count cd - 1\<rparr>"

definition rx_first :: "can_dev \<Rightarrow> can_frame" where
  "rx_first cd = rx_buf cd ! rx_out cd"

lemma ring_put_view_ok:
  "ring_ok n inn out cnt \<Longrightarrow> length buf = n \<Longrightarrow> cnt < n \<Longrightarrow>
     ring_view (buf[inn := x]) out (Suc cnt) = ring_view buf out cnt @ [x]"
  using ring_view_put [of cnt buf out x] by (simp add: ring_ok_def)

interpretation txq: bounded_fifo tx_queue dev_ok tx_count BUFFERSIZE tx_put tx_get tx_first
proof
  fix cd :: can_dev and x :: can_frame
  assume ok: "dev_ok cd"
  show "tx_count cd = length (tx_queue cd)" "tx_count cd \<le> BUFFERSIZE"
    using ok by (simp_all add: tx_queue_def dev_ok_def ring_ok_def)
  show "dev_ok (tx_put x cd)" "tx_queue (tx_put x cd) = tx_queue cd @ [x]" if "tx_count cd < BUFFERSIZE"
    using ok that ring_ok_put [of BUFFERSIZE "tx_in cd" "tx_out cd" "tx_count cd"]
      ring_put_view_ok [of BUFFERSIZE "tx_in cd" "tx_out cd" "tx_count cd" "tx_buf cd" x]
    by (auto simp: dev_ok_def tx_put_def tx_queue_def)
  show "dev_ok (tx_get cd)" "tx_queue cd = tx_first cd # tx_queue (tx_get cd)" if "0 < tx_count cd"
    using ok that ring_ok_get [of BUFFERSIZE "tx_in cd" "tx_out cd" "tx_count cd"]
      ring_view_get [of "tx_count cd" "tx_out cd" "tx_buf cd"]
    by (auto simp: dev_ok_def tx_get_def tx_queue_def tx_first_def ring_ok_def)
qed

interpretation rxq: bounded_fifo rx_queue dev_ok rx_count BUFFERSIZE rx_put rx_get rx_first
proof
  fix cd :: can_dev and x :: can_frame
  assume ok: "dev_ok cd"
  show "rx_count cd = length (rx_queue cd)" "rx_count cd \<le> BUFFERSIZE"
    using ok by (simp_all add: rx_queue_def dev_ok_def ring_ok_def)
  show "dev_ok (rx_put x cd)" "rx_queue (rx_put x cd) = rx_queue cd @ [x]" if "rx_count cd < BUFFERSIZE"
    using ok that ring_ok_put [of BUFFERSIZE "rx_in cd" "rx_out cd" "rx_count cd"]
      ring_put_view_ok [of BUFFERSIZE "rx_in cd" "rx_out cd" "rx_count cd" "rx_buf cd" x]
    by (auto simp: dev_ok_def rx_put_def rx_queue_def)
  show "dev_ok (rx_get cd)" "rx_queue cd = rx_first cd # rx_queue (rx_get cd)" if "0 < rx_count cd"
    using ok that ring_ok_get [of BUFFERSIZE "rx_in cd" "rx_out cd" "rx_count cd"]
      ring_view_get [of "rx_count cd" "rx_out cd" "rx_buf cd"]
    by (auto simp: dev_ok_def rx_get_def rx_queue_def rx_first_def ring_ok_def)
qed

section \<open>What the operations do to the queues\<close>

text \<open>The slot \<open>device_write\<close> copies into: it is free, so the queue does not change.\<close>

definition tx_stage :: "can_frame \<Rightarrow> can_dev \<Rightarrow> can_dev" where
  "tx_stage f cd = cd\<lparr>tx_buf := (tx_buf cd)[tx_in cd := f]\<rparr>"

lemma tx_stage_ok: "dev_ok cd \<Longrightarrow> dev_ok (tx_stage f cd)"
  by (simp add: dev_ok_def tx_stage_def)

lemma tx_stage_queue:
  assumes "dev_ok cd" and "tx_count cd < BUFFERSIZE"
  shows "tx_queue (tx_stage f cd) = tx_queue cd"
  using assms ring_view_update_free [of "tx_count cd" "tx_count cd" "tx_buf cd" "tx_out cd" f]
  by (simp add: dev_ok_def tx_stage_def tx_queue_def ring_ok_def)

lemma device_write_size: "count \<noteq> 16 \<Longrightarrow> device_write send b cd d count fl frm = Inr (- EINVAL, cd, d)"
  by (simp add: device_write_def)

lemma device_write_full:
  "tx_count cd = BUFFERSIZE \<Longrightarrow> device_write send b cd d 16 fl frm = Inr (- EFBIG, cd, d)"
  by (simp add: device_write_def)

lemma device_write_locked:
  assumes "dev_ok cd" and "tx_count cd < BUFFERSIZE"
    and "bus_read b d SJA_STATUS_REG = Inr (st, d')" and "st AND TBS \<noteq> TBS"
  shows "device_write send b cd d 16 fl frm = Inr (16, tx_put frm cd, d')"
  using assms by (simp add: device_write_def dev_ok_def ring_ok_def tx_put_def ring_next_def)

lemma device_write_released:
  assumes "dev_ok cd" and "tx_count cd < BUFFERSIZE"
    and "bus_read b d SJA_STATUS_REG = Inr (st, d')" and "st AND TBS = TBS"
  shows "device_write send b cd d 16 fl frm =
    rbind (send b d' frm) (\<lambda>d''. Inr (if fl then - EFAULT else 16, tx_stage frm cd, d''))"
  using assms by (simp add: device_write_def dev_ok_def ring_ok_def tx_stage_def)

lemma device_read_some:
  assumes "dev_ok cd" and "0 < rx_count cd"
  shows "device_read cd 16 False = Inr (16, Some (rx_first cd), rx_get cd)"
  using assms by (simp add: device_read_def dev_ok_def ring_ok_def rx_first_def rx_get_def ring_next_def)

lemma device_read_none: "rx_count cd = 0 \<Longrightarrow> device_read cd 16 fl = Inr (0, None, cd)"
  by (simp add: device_read_def)

lemma device_read_fault:
  "dev_ok cd \<Longrightarrow> 0 < rx_count cd \<Longrightarrow> device_read cd 16 True = Inr (- EFAULT, None, cd)"
  by (simp add: device_read_def dev_ok_def ring_ok_def)

lemma irq_transmit_idle:
  "temp AND INT_TI = 0 \<or> tx_count cd = 0 \<Longrightarrow> irq_transmit send b cd d temp = Inr (cd, d)"
  by (auto simp: irq_transmit_def)

lemma irq_transmit_next:
  assumes "dev_ok cd" and "0 < tx_count cd" and "temp AND INT_TI \<noteq> 0"
  shows "irq_transmit send b cd d temp = rbind (send b d (tx_first cd)) (\<lambda>d'. Inr (tx_get cd, d'))"
  using assms by (simp add: irq_transmit_def dev_ok_def ring_ok_def tx_first_def tx_get_def ring_next_def)

text \<open>Every operation keeps the relation between the indices.\<close>

lemma device_write_cases:
  assumes "device_write send b cd d count fl frm = Inr (ret, cd', d')" and "dev_ok cd"
  shows "cd' = cd \<or> (tx_count cd < BUFFERSIZE \<and> (cd' = tx_put frm cd \<or> cd' = tx_stage frm cd))"
proof (cases "count = 16 \<and> tx_count cd \<noteq> BUFFERSIZE")
  case True
  then have lt: "tx_count cd < BUFFERSIZE"
    using txq.count_le [OF assms(2)] by simp
  obtain st d1 where rd: "bus_read b d SJA_STATUS_REG = Inr (st, d1)"
    using assms True by (auto simp: device_write_def rbind_eq_Inr arr_set_def Let_def split: if_splits)
  show ?thesis
  proof (cases "st AND TBS = TBS")
    case True
    with assms lt rd \<open>count = 16 \<and> _\<close> show ?thesis
      by (auto simp: device_write_released rbind_eq_Inr)
  next
    case False
    with assms lt rd \<open>count = 16 \<and> _\<close> show ?thesis
      by (auto simp: device_write_locked)
  qed
next
  case False
  then show ?thesis
    using assms(1) by (auto simp: device_write_def split: if_splits)
qed

lemma device_write_ok:
  "device_write send b cd d count fl frm = Inr (ret, cd', d') \<Longrightarrow> dev_ok cd \<Longrightarrow> dev_ok cd'"
  using device_write_cases [of send b cd d count fl frm ret cd' d'] txq.ok_put tx_stage_ok by blast

lemma device_read_cases:
  assumes "device_read cd count fl = Inr (ret, out, cd')" and "dev_ok cd"
  shows "cd' = cd \<or> (0 < rx_count cd \<and> cd' = rx_get cd)"
  using assms by (auto simp: device_read_def rbind_eq_Inr rx_get_def ring_next_def split: if_splits)

lemma device_read_ok: "device_read cd count fl = Inr (ret, out, cd') \<Longrightarrow> dev_ok cd \<Longrightarrow> dev_ok cd'"
  using device_read_cases [of cd count fl ret out cd'] rxq.ok_get by blast

lemma irq_transmit_cases:
  assumes "irq_transmit send b cd d temp = Inr (cd', d')"
  shows "cd' = cd \<or> (0 < tx_count cd \<and> cd' = tx_get cd)"
  using assms by (auto simp: irq_transmit_def rbind_eq_Inr tx_get_def ring_next_def split: if_splits)

lemma irq_overrun_dev: "irq_overrun b cd d temp = Inr (cd', d') \<Longrightarrow> cd' = cd"
  by (auto simp: irq_overrun_def rbind_eq_Inr split: if_splits)

text \<open>
  The handler's effect on the rings: at most the first queued frame leaves, at most one
  received frame arrives, and only when there is room.
\<close>

definition irq_effect :: "can_dev \<Rightarrow> can_dev \<Rightarrow> bool" where
  "irq_effect cd cd' \<longleftrightarrow> (\<exists>cd1. (cd1 = cd \<or> 0 < tx_count cd \<and> cd1 = tx_get cd) \<and>
     (cd' = cd1 \<or> rx_count cd1 < BUFFERSIZE \<and> (\<exists>f. cd' = rx_put f cd1)))"

lemma irq_effect_ok: "irq_effect cd cd' \<Longrightarrow> dev_ok cd \<Longrightarrow> dev_ok cd'"
  using txq.ok_get rxq.ok_put by (auto simp: irq_effect_def)

lemma rx_store_eq:
  "(cd\<lparr>rx_count := rx_count cd + 1\<rparr>)\<lparr>rx_buf := (rx_buf cd)[rx_in cd := f],
      rx_in := (if rx_in cd + 1 = BUFFERSIZE then 0 else rx_in cd + 1)\<rparr> = rx_put f cd"
  by (simp add: rx_put_def ring_next_def)

lemma dev_ok_reset: "dev_ok (rings_reset cd)" "dev_ok can_dev_zero"
  by (simp_all add: dev_ok_def rings_reset_def can_dev_zero_def ring_ok_def)

section \<open>Runs of a driver\<close>

text \<open>
  The kernel calls the operations one at a time, in any order; between two calls the
  controller may change in any way (\<open>hardware\<close>). A driver is its transition function.
\<close>

datatype drv_event =
    EvOpen
  | EvRead nat bool
  | EvWrite nat bool can_frame
  | EvIrq
  | EvRelease

type_synonym 'd drv = "drv_event \<Rightarrow> can_dev \<times> 'd \<Rightarrow> (can_dev \<times> 'd) res"

inductive drv_reach :: "'d drv \<Rightarrow> can_dev \<Rightarrow> 'd \<Rightarrow> bool" for exec where
  probed: "drv_reach exec can_dev_zero d"
| event: "drv_reach exec cd d \<Longrightarrow> exec ev (cd, d) = Inr (cd', d') \<Longrightarrow> drv_reach exec cd' d'"
| hardware: "drv_reach exec cd d \<Longrightarrow> drv_reach exec cd d'"

lemma drv_reach_dev_ok:
  assumes "drv_reach exec cd d"
    and "\<And>ev cd d cd' d'. exec ev (cd, d) = Inr (cd', d') \<Longrightarrow> dev_ok cd \<Longrightarrow> dev_ok cd'"
  shows "dev_ok cd"
  using assms(1) by induction (auto intro: dev_ok_reset assms(2))

end
