(* ===== verification/Pelican_Driver.thy ===== *)
theory Pelican_Driver
  imports Can_Chrdev
begin

unbundle bit_operations_syntax

text \<open>
  The PeliCAN-mode driver, \<open>source/linux_driver/pelican_mode/can_pci.c\<close>: the register
  codec (\<open>send_message\<close>, \<open>receive_message\<close>), the interrupt handler, \<open>device_open\<close>,
  and the file operations of \<open>Can_Chrdev\<close> over this codec.
\<close>

section \<open>Sending\<close>

definition peli_send_message :: "'d bus \<Rightarrow> 'd \<Rightarrow> can_frame \<Rightarrow> 'd res" where
  "peli_send_message b d can =
     (let temp = 0 OR can_dlc can;
          temp = (if is_rtr (can_id can) then temp OR 0x40 else temp);
          index = (16 :: u8)
      in rbind
        (if is_eff (can_id can) then
           let temp = temp OR 0x80
           in rbind (bus_write b d (unat index) temp) (\<lambda>d.
              let index = index + 1; temp = ucast (drop_bit 21 (can_id can) AND 0xff)
              in rbind (bus_write b d (unat index) temp) (\<lambda>d.
              let index = index + 1; temp = ucast (drop_bit 13 (can_id can) AND 0xff)
              in rbind (bus_write b d (unat index) temp) (\<lambda>d.
              let index = index + 1; temp = ucast (drop_bit 5 (can_id can) AND 0xff)
              in rbind (bus_write b d (unat index) temp) (\<lambda>d.
              let index = index + 1; temp = ucast (push_bit 3 (can_id can AND 0x1f))
              in rbind (bus_write b d (unat index) temp) (\<lambda>d.
              tx_loop b d (can_data can) 0 (unat (can_dlc can)) (index + 1))))))
         else
           rbind (bus_write b d (unat index) temp) (\<lambda>d.
              let index = index + 1; temp = ucast (drop_bit 3 (can_id can) AND 0xff)
              in rbind (bus_write b d (unat index) temp) (\<lambda>d.
              let index = index + 1; temp = ucast (push_bit 5 (can_id can AND 0x03))
              in rbind (bus_write b d (unat index) temp) (\<lambda>d.
              tx_loop b d (can_data can) 0 (unat (can_dlc can)) (index + 1)))))
        (\<lambda>d. bus_write b d SJA_COMMAND_REG 0x01))"

text \<open>The bytes it leaves in the registers from 16 on.\<close>

definition peli_image :: "can_frame \<Rightarrow> u8 list" where
  "peli_image f =
     (let info = can_dlc f OR (if is_rtr (can_id f) then 0x40 else 0)
      in (if is_eff (can_id f)
          then [info OR 0x80, ucast (drop_bit 21 (can_id f) AND 0xff), ucast (drop_bit 13 (can_id f) AND 0xff),
                ucast (drop_bit 5 (can_id f) AND 0xff), ucast (push_bit 3 (can_id f AND 0x1f))]
          else [info, ucast (drop_bit 3 (can_id f) AND 0xff), ucast (push_bit 5 (can_id f AND 0x03))])
         @ payload f)"

text \<open>Sending a well-formed frame is writing its image and requesting the transmission.\<close>

lemma peli_send_image:
  assumes "frame_wf f" and "can_dlc f \<le> 8"
  shows "peli_send_message b d f =
           rbind (write_seq b d 16 (peli_image f)) (\<lambda>d. bus_write b d SJA_COMMAND_REG 1)"
proof (cases "is_eff (can_id f)")
  case True
  then show ?thesis
    by (simp add: tx_loop_payload [OF assms] peli_send_message_def peli_image_def Let_def rbind_assoc or.assoc)
next
  case False
  then show ?thesis
    by (simp add: tx_loop_payload [OF assms] peli_send_message_def peli_image_def Let_def rbind_assoc)
qed

lemma length_peli_image: "frame_wf f \<Longrightarrow> can_dlc f \<le> 8 \<Longrightarrow> length (peli_image f) \<le> 13"
  using length_payload [of f] by (simp add: peli_image_def Let_def word_le_nat_alt)

section \<open>Receiving\<close>

definition peli_receive_message :: "'d bus \<Rightarrow> 'd \<Rightarrow> (can_frame \<times> 'd) res" where
  "peli_receive_message b d =
     (let can = frame_zero in
      rbind (bus_read b d 16) (\<lambda>(temp, d).
      let cid = can_id can OR (if temp AND 0x40 \<noteq> 0 then 0x40000000 else 0);
          dlc = temp AND 0x0f
      in rbind
        (if temp AND 0x80 \<noteq> 0 then
           let cid = cid OR 0x80000000 in
           rbind (bus_read b d 17) (\<lambda>(temp, d).
           let cid = cid OR (push_bit 21 (ucast temp) AND 0x1fe00000) in
           rbind (bus_read b d 18) (\<lambda>(temp, d).
           let cid = cid OR (push_bit 13 (ucast temp) AND 0x1fe000) in
           rbind (bus_read b d 19) (\<lambda>(temp, d).
           let cid = cid OR (push_bit 5 (ucast temp) AND 0x1fe0) in
           rbind (bus_read b d 20) (\<lambda>(temp, d).
           let cid = cid OR (drop_bit 3 (ucast temp) AND 0x1f) in
           Inr (cid, 21, d)))))
         else
           rbind (bus_read b d 17) (\<lambda>(temp, d).
           let cid = cid OR (push_bit 3 (ucast temp) AND 0x7f8) in
           rbind (bus_read b d 18) (\<lambda>(temp, d).
           let cid = cid OR (drop_bit 5 (ucast temp) AND 0x07) in
           Inr (cid, 19, d))))
        (\<lambda>(cid, index, d).
         rbind (rx_loop b d (can_data can) 0 (unat dlc) index) (\<lambda>(data, d).
         rbind (bus_write b d SJA_COMMAND_REG 0x04) (\<lambda>d.
         Inr (\<lparr>can_id = cid, can_dlc = dlc, can_data = data\<rparr>, d))))))"

text \<open>The frame a register file holds from 16 on, as the driver reads it.\<close>

definition peli_decode_id :: "(nat \<Rightarrow> u8) \<Rightarrow> u32" where
  "peli_decode_id r =
     (let rtr = (if r 16 AND 0x40 \<noteq> 0 then 0x40000000 else 0)
      in if r 16 AND 0x80 \<noteq> 0
         then rtr OR 0x80000000 OR (push_bit 21 (ucast (r 17)) AND 0x1fe00000)
              OR (push_bit 13 (ucast (r 18)) AND 0x1fe000) OR (push_bit 5 (ucast (r 19)) AND 0x1fe0)
              OR (drop_bit 3 (ucast (r 20)) AND 0x1f)
         else rtr OR (push_bit 3 (ucast (r 17)) AND 0x7f8) OR (drop_bit 5 (ucast (r 18)) AND 0x07))"

definition peli_decode :: "(nat \<Rightarrow> u8) \<Rightarrow> can_frame" where
  "peli_decode r =
     (let dlc = unat (r 16 AND 0x0f);
          first = (if r 16 AND 0x80 \<noteq> 0 then 21 else 19)
      in \<lparr>can_id = peli_decode_id r, can_dlc = r 16 AND 0x0f,
          can_data = zero_padded (map (\<lambda>k. r (first + k)) [0..<dlc])\<rparr>)"

text \<open>
  Reading from a controller whose receive window is stable: the frame is the decoded register
  file, and the command register is written once, to release the buffer.
\<close>

lemma peli_receive_pure:
  assumes pure: "\<And>a. bus_read b d a = Inr (r a, d)" and dlc: "r 16 AND 0x0f \<le> 8"
  shows "peli_receive_message b d =
    rbind (bus_write b d SJA_COMMAND_REG 0x04) (\<lambda>d'. Inr (peli_decode r, d'))"
proof -
  have "unat (r 16 AND 0x0f) \<le> 8" using dlc by (simp add: word_le_nat_alt)
  then have data: "rx_loop b d (replicate 8 0) 0 (unat (r 16 AND 0x0f)) index =
      Inr (zero_padded (map (\<lambda>k. r (unat index + k)) [0..<unat (r 16 AND 0x0f)]), d)"
    if "unat index \<le> 100" for index :: u8
    using that rx_loop_pure [OF pure, of 0 "unat (r 16 AND 0x0f)" "replicate 8 0" index]
    by (simp add: zero_padded_def)
  show ?thesis
    by (simp add: peli_receive_message_def pure data peli_decode_def peli_decode_id_def Let_def
        frame_zero_def or.assoc)
qed

section \<open>The codec is a round trip\<close>

definition peli_info :: "can_frame \<Rightarrow> u8" where
  "peli_info f = can_dlc f OR (if is_rtr (can_id f) then 0x40 else 0) OR (if is_eff (can_id f) then 0x80 else 0)"

lemma peli_info_bits:
  assumes "can_dlc f \<le> 8"
  shows "peli_info f AND 0x0f = can_dlc f"
    and "(peli_info f AND 0x40 \<noteq> 0) = is_rtr (can_id f)"
    and "(peli_info f AND 0x80 \<noteq> 0) = is_eff (can_id f)"
proof -
  have "can_dlc f < 16" using assms by (simp add: word_le_nat_alt word_less_nat_alt)
  note hi = small_byte_bits [OF this]
  show "peli_info f AND 0x0f = can_dlc f"
    by (rule bit_word_eqI) (use hi small_byte_bit_less [OF _ \<open>can_dlc f < 16\<close>] in
        \<open>auto simp: peli_info_def bit_simps word_bits\<close>)
  show "(peli_info f AND 0x40 \<noteq> 0) = is_rtr (can_id f)" "(peli_info f AND 0x80 \<noteq> 0) = is_eff (can_id f)"
    using hi [of 6] hi [of 7] by (auto simp: peli_info_def u8_flags bit_simps word_bits)
qed

lemma peli_image_nth:
  "peli_image f ! 0 = peli_info f"
  "is_eff (can_id f) \<Longrightarrow> peli_image f ! 1 = ucast (drop_bit 21 (can_id f) AND 0xff)"
  "is_eff (can_id f) \<Longrightarrow> peli_image f ! 2 = ucast (drop_bit 13 (can_id f) AND 0xff)"
  "is_eff (can_id f) \<Longrightarrow> peli_image f ! 3 = ucast (drop_bit 5 (can_id f) AND 0xff)"
  "is_eff (can_id f) \<Longrightarrow> peli_image f ! 4 = ucast (push_bit 3 (can_id f AND 0x1f))"
  "\<not> is_eff (can_id f) \<Longrightarrow> peli_image f ! 1 = ucast (drop_bit 3 (can_id f) AND 0xff)"
  "\<not> is_eff (can_id f) \<Longrightarrow> peli_image f ! 2 = ucast (push_bit 5 (can_id f AND 0x03))"
  by (simp_all add: peli_image_def peli_info_def Let_def or.assoc)

lemma peli_image_drop:
  "drop (if is_eff (can_id f) then 5 else 3) (peli_image f) = payload f"
  by (simp add: peli_image_def Let_def)

lemma peli_id_ext:
  assumes "is_eff cid"
  shows "(if is_rtr cid then 0x40000000 else 0) OR 0x80000000
      OR (push_bit 21 (ucast (ucast (drop_bit 21 cid AND 0xff) :: u8)) AND 0x1fe00000)
      OR (push_bit 13 (ucast (ucast (drop_bit 13 cid AND 0xff) :: u8)) AND 0x1fe000)
      OR (push_bit 5 (ucast (ucast (drop_bit 5 cid AND 0xff) :: u8)) AND 0x1fe0)
      OR (drop_bit 3 (ucast (ucast (push_bit 3 (cid AND 0x1f)) :: u8)) AND 0x1f)
      = cid AND (0xdfffffff :: u32)" (is "?l = ?r")
proof (rule bit_word_eqI)
  fix n :: nat
  assume "n < LENGTH(32)"
  then consider "n < 5" | "5 \<le> n" "n < 13" | "13 \<le> n" "n < 21" | "21 \<le> n" "n < 29"
    | "n = 29" | "n = 30" | "n = 31" by fastforce
  then show "bit ?l n = bit ?r n"
    by cases (use assms in \<open>auto simp: bit_simps word_bits\<close>)
qed

lemma peli_id_std:
  "(if is_rtr cid then 0x40000000 else 0)
      OR (push_bit 3 (ucast (ucast (drop_bit 3 cid AND 0xff) :: u8)) AND 0x7f8)
      OR (drop_bit 5 (ucast (ucast (push_bit 5 (cid AND 0x03)) :: u8)) AND 0x07)
      = cid AND (0x400007fb :: u32)" (is "?l = ?r")
proof (rule bit_word_eqI)
  fix n :: nat
  assume "n < LENGTH(32)"
  then consider "n < 2" | "n = 2" | "3 \<le> n" "n < 11" | "11 \<le> n" "n < 30" | "n = 30" | "n = 31"
    by fastforce
  then show "bit ?l n = bit ?r n"
    by cases (auto simp: bit_simps word_bits)
qed

lemma peli_decode_image:
  assumes wf: "frame_wf f" and dlc: "can_dlc f \<le> 8"
    and regs: "\<And>k. k < length (peli_image f) \<Longrightarrow> r (16 + k) = peli_image f ! k"
  shows "peli_decode r =
    \<lparr>can_id = can_id f AND (if is_eff (can_id f) then 0xdfffffff else 0x400007fb),
     can_dlc = can_dlc f, can_data = zero_padded (payload f)\<rparr>"
proof -
  let ?h = "if is_eff (can_id f) then 5 else 3 :: nat"
  have len: "length (peli_image f) = ?h + unat (can_dlc f)"
    using length_payload [OF wf dlc] by (simp add: peli_image_def Let_def)
  have r16: "r 16 = peli_info f" using regs [of 0] len by (simp add: peli_image_nth split: if_splits)
  have data: "map (\<lambda>k. r (16 + ?h + k)) [0..<unat (can_dlc f)] = payload f"
  proof (rule nth_equalityI)
    fix k assume k: "k < length (map (\<lambda>k. r (16 + ?h + k)) [0..<unat (can_dlc f)])"
    then have "r (16 + ?h + k) = peli_image f ! (?h + k)"
      using regs [of "?h + k"] len by (simp add: add.assoc)
    also have "\<dots> = payload f ! k"
      using peli_image_drop [of f] k len by (metis le_add1 nth_drop)
    finally show "map (\<lambda>k. r (16 + ?h + k)) [0..<unat (can_dlc f)] ! k = payload f ! k"
      using k by simp
  qed (simp add: length_payload [OF wf dlc])
  have id: "peli_decode_id r = can_id f AND (if is_eff (can_id f) then 0xdfffffff else 0x400007fb)"
  proof (cases "is_eff (can_id f)")
    case True
    then have "r 17 = peli_image f ! 1" "r 18 = peli_image f ! 2" "r 19 = peli_image f ! 3" "r 20 = peli_image f ! 4"
      using regs [of 1] regs [of 2] regs [of 3] regs [of 4] len by simp_all
    with True show ?thesis
      using peli_id_ext [OF True]
      by (simp only: peli_decode_id_def r16 peli_info_bits [OF dlc] Let_def peli_image_nth if_True)
  next
    case False
    then have "r 17 = peli_image f ! 1" "r 18 = peli_image f ! 2"
      using regs [of 1] regs [of 2] len by simp_all
    with False show ?thesis
      using peli_id_std [of "can_id f"]
      by (simp only: peli_decode_id_def r16 peli_info_bits [OF dlc] Let_def peli_image_nth(6,7) not_False_eq_True if_False)
  qed
  show ?thesis
    using data by (simp add: peli_decode_def r16 id peli_info_bits [OF dlc] Let_def split: if_splits)
qed

section \<open>Interrupts\<close>

definition peli_irq_handler :: "'d bus \<Rightarrow> can_dev \<Rightarrow> 'd \<Rightarrow> (can_dev \<times> 'd) res" where
  "peli_irq_handler b cd d =
     rbind (bus_read b d SJA_INT_REG) (\<lambda>(temp, d).
     rbind (irq_transmit peli_send_message b cd d temp) (\<lambda>(cd, d).
     if temp AND INT_RI \<noteq> 0 then
       if rx_count cd = BUFFERSIZE then Inr (cd, d)
       else
         let cd = cd\<lparr>rx_count := rx_count cd + 1\<rparr> in
         rbind (peli_receive_message b d) (\<lambda>(f, d).
         rbind (arr_set (rx_buf cd) (rx_in cd) f) (\<lambda>buf.
         irq_overrun b
           (cd\<lparr>rx_buf := buf, rx_in := (if rx_in cd + 1 = BUFFERSIZE then 0 else rx_in cd + 1)\<rparr>) d temp))
     else irq_overrun b cd d temp))"

lemma peli_irq_effect:
  assumes "peli_irq_handler b cd d = Inr (cd', d')" and "dev_ok cd"
  shows "irq_effect cd cd'"
proof -
  obtain temp d1 cd1 d2 where rd: "bus_read b d SJA_INT_REG = Inr (temp, d1)"
      and tx: "irq_transmit peli_send_message b cd d1 temp = Inr (cd1, d2)"
    using assms(1) by (auto simp: peli_irq_handler_def rbind_eq_Inr)
  have cd1: "cd1 = cd \<or> 0 < tx_count cd \<and> cd1 = tx_get cd"
    by (rule irq_transmit_cases [OF tx])
  then have ok1: "dev_ok cd1" using assms(2) txq.ok_get by auto
  show ?thesis
  proof (cases "temp AND INT_RI \<noteq> 0 \<and> rx_count cd1 \<noteq> BUFFERSIZE")
    case True
    then have lt: "rx_count cd1 < BUFFERSIZE" using rxq.count_le [OF ok1] by simp
    from True assms(1) rd tx obtain f d3 where
      "irq_overrun b (rx_put f cd1) d3 temp = Inr (cd', d')"
      using rx_store_eq [of cd1]
      by (auto simp: peli_irq_handler_def rbind_eq_Inr Let_def arr_set_def split: if_splits)
    then have "cd' = rx_put f cd1" by (rule irq_overrun_dev)
    with cd1 lt show ?thesis by (auto simp: irq_effect_def)
  next
    case False
    then have "cd' = cd1"
      using assms(1) rd tx by (auto simp: peli_irq_handler_def split: if_splits dest: irq_overrun_dev)
    with cd1 show ?thesis by (auto simp: irq_effect_def)
  qed
qed

section \<open>Opening the device\<close>

definition peli_device_open :: "'d bus \<Rightarrow> can_dev \<Rightarrow> 'd \<Rightarrow> (int \<times> can_dev \<times> 'd) res" where
  "peli_device_open b cd d =
     rbind (bus_read b d SJA_MODE_REG) (\<lambda>(temp, d).
     rbind (reset_loop b temp 0 d) (\<lambda>(temp, count, d).
     if temp AND RESET_BIT \<noteq> RESET_BIT then Inr (- EFAULT, cd, d)
     else
       rbind (bus_read b d SJA_CLOCK_REG) (\<lambda>(temp, d).
       rbind (bus_write b d SJA_CLOCK_REG (temp OR PELI)) (\<lambda>d.
       rbind (bus_read b d SJA_MODE_REG) (\<lambda>(temp, d).
       rbind (bus_write b d SJA_MODE_REG (temp OR push_bit 3 1)) (\<lambda>d.
       rbind (write_seq b d 20 [0xff, 0xff, 0xff, 0xff]) (\<lambda>d.
       rbind (bus_read b d SJA_INT_EN_REG) (\<lambda>(temp, d).
       rbind (bus_write b d SJA_INT_EN_REG (temp OR INT_TI OR INT_RI)) (\<lambda>d.
       rbind (bus_read b d SJA_MODE_REG) (\<lambda>(temp, d).
       rbind (oper_loop b temp 0 d) (\<lambda>(temp, count, d).
       if temp AND RESET_BIT = RESET_BIT then Inr (- EFAULT, cd, d)
       else Inr (0, rings_reset cd, d))))))))))))"

text \<open>On a controller whose mode register works, opening succeeds and ends in operation mode.\<close>

context mode_ctl begin

lemma peli_open_succeeds:
  assumes "good d"
  shows "\<exists>d'. peli_device_open b cd d = Inr (0, rings_reset cd, d') \<and> good d' \<and> \<not> rst d'"
proof -
  obtain v0 d0 where s0: "bus_read b d 0 = Inr (v0, d0)" "good d0" "(v0 AND RESET_BIT = RESET_BIT) = rst d0"
    using read_reg [OF assms, of 0] by auto
  obtain v1 c1 d1 where s1: "reset_loop b v0 0 d0 = Inr (v1, c1, d1)" "v1 AND RESET_BIT = RESET_BIT" "good d1" "rst d1"
    using enter_reset [OF s0(2,3), of 0] by auto
  obtain v2 d2 where s2: "bus_read b d1 31 = Inr (v2, d2)" "good d2" "rst d2"
    using read_reg [OF s1(3), of 31] s1(4) by auto
  obtain d3 where s3: "bus_write b d2 31 (v2 OR PELI) = Inr d3" "good d3" "rst d3"
    using write_reg [OF s2(2), of 31 "v2 OR PELI"] s2(3) by auto
  obtain v4 d4 where s4: "bus_read b d3 0 = Inr (v4, d4)" "good d4" "rst d4" "v4 AND RESET_BIT = RESET_BIT"
    using read_reg [OF s3(2), of 0] s3(3) by auto
  have "(v4 OR push_bit 3 1) AND RESET_BIT = RESET_BIT"
    using s4(4) by (simp add: u8_flags_self bit_simps)
  then obtain d5 where s5: "bus_write b d4 0 (v4 OR push_bit 3 1) = Inr d5" "good d5" "rst d5"
    using write_reg [OF s4(2), of 0 "v4 OR push_bit 3 1"] by auto
  obtain d6 where s6: "write_seq b d5 20 [0xff, 0xff, 0xff, 0xff] = Inr d6" "good d6" "rst d6"
    using write_regs [OF s5(2), of 20 "[0xff, 0xff, 0xff, 0xff]"] s5(3) by auto
  obtain v7 d7 where s7: "bus_read b d6 4 = Inr (v7, d7)" "good d7" "rst d7"
    using read_reg [OF s6(2), of 4] s6(3) by auto
  obtain d8 where s8: "bus_write b d7 4 (v7 OR INT_TI OR INT_RI) = Inr d8" "good d8" "rst d8"
    using write_reg [OF s7(2), of 4 "v7 OR INT_TI OR INT_RI"] s7(3) by auto
  obtain v9 d9 where s9: "bus_read b d8 0 = Inr (v9, d9)" "good d9" "(v9 AND RESET_BIT = RESET_BIT) = rst d9"
    using read_reg [OF s8(2), of 0] by auto
  obtain va c d10 where s10: "oper_loop b v9 0 d9 = Inr (va, c, d10)" "va AND RESET_BIT \<noteq> RESET_BIT" "good d10" "\<not> rst d10"
    using leave_reset [OF s9(2,3), of 0] by auto
  show ?thesis
    by (simp only: peli_device_open_def s0(1) s1(1,2) s2(1) s3(1) s4(1) s5(1) s6(1) s7(1) s8(1) s9(1)
        s10(1,2) rbind_Inr prod.case not_True_eq_False not_False_eq_True simp_thms if_True if_False)
      (use s10 in auto)
qed

end

text \<open>A failed open leaves the rings alone; a successful one has read a clear reset bit.\<close>

lemma peli_open_result:
  assumes "peli_device_open b cd d = Inr (ret, cd', d')"
  shows "ret = 0 \<and> cd' = rings_reset cd \<or> ret = - EFAULT \<and> cd' = cd"
  using assms by (auto simp: peli_device_open_def rbind_eq_Inr split: if_splits prod.splits)

section \<open>The file operations\<close>

text \<open>\<open>device_fops\<close>: the shared text of \<open>Can_Chrdev\<close> over this driver's \<open>send_message\<close>.\<close>

definition peli_device_read :: "can_dev \<Rightarrow> nat \<Rightarrow> bool \<Rightarrow> (int \<times> can_frame option \<times> can_dev) res" where
  "peli_device_read cd count copy_fails = device_read cd count copy_fails"

definition peli_device_write :: "'d bus \<Rightarrow> can_dev \<Rightarrow> 'd \<Rightarrow> nat \<Rightarrow> bool \<Rightarrow> can_frame \<Rightarrow> (int \<times> can_dev \<times> 'd) res" where
  "peli_device_write b cd d count copy_fails frm = device_write peli_send_message b cd d count copy_fails frm"

definition peli_device_release :: "'d bus \<Rightarrow> 'd \<Rightarrow> (int \<times> 'd) res" where
  "peli_device_release b d = device_release b d"

section \<open>The driver as a transition function\<close>

definition peli_exec :: "'d bus \<Rightarrow> 'd drv" where
  "peli_exec b ev s = (case s of (cd, d) \<Rightarrow>
     (case ev of
        EvOpen \<Rightarrow> rbind (peli_device_open b cd d) (\<lambda>(ret, s). Inr s)
      | EvRead n fl \<Rightarrow> rbind (peli_device_read cd n fl) (\<lambda>(ret, out, cd). Inr (cd, d))
      | EvWrite n fl f \<Rightarrow> rbind (peli_device_write b cd d n fl f) (\<lambda>(ret, s). Inr s)
      | EvIrq \<Rightarrow> peli_irq_handler b cd d
      | EvRelease \<Rightarrow> rbind (peli_device_release b d) (\<lambda>(ret, d). Inr (cd, d))))"

lemmas peli_exec_simps = peli_exec_def peli_device_read_def peli_device_write_def peli_device_release_def

lemma peli_exec_ok:
  assumes "peli_exec b ev (cd, d) = Inr (cd', d')" and "dev_ok cd"
  shows "dev_ok cd'"
proof (cases ev)
  case EvOpen
  with assms show ?thesis
    by (auto simp: peli_exec_simps rbind_eq_Inr dest!: peli_open_result intro: dev_ok_reset)
next
  case (EvRead n fl)
  with assms show ?thesis by (auto simp: peli_exec_simps rbind_eq_Inr dest: device_read_ok)
next
  case (EvWrite n fl f)
  with assms show ?thesis by (auto simp: peli_exec_simps rbind_eq_Inr dest: device_write_ok)
next
  case EvIrq
  with assms show ?thesis by (auto simp: peli_exec_simps dest: peli_irq_effect irq_effect_ok)
next
  case EvRelease
  with assms show ?thesis by (auto simp: peli_exec_simps rbind_eq_Inr)
qed

section \<open>Properties\<close>

lemma peli_loop_back:
  assumes wf: "frame_wf f" and dlc: "can_dlc f \<le> 8"
  shows "\<exists>m1 m2. peli_send_message (loop_bus 16 16) m f = Inr m1 \<and>
    peli_receive_message (loop_bus 16 16) m1 =
      Inr (\<lparr>can_id = can_id f AND (if is_eff (can_id f) then 0xdfffffff else 0x400007fb),
            can_dlc = can_dlc f, can_data = zero_padded (payload f)\<rparr>, m2)"
proof -
  let ?b = "loop_bus 16 16" and ?img = "peli_image f"
  define m1 where "m1 = (\<lambda>x. if 16 \<le> x \<and> x < 16 + length ?img then ?img ! (x - 16) else m x)(1 := 1)"
  have pure: "bus_read ?b m1 a = Inr (m1 a, m1)" for a
    by (simp add: loop_bus_read)
  have "?img \<noteq> []" by (simp add: peli_image_def Let_def)
  then have "m1 16 = peli_info f" by (simp add: m1_def peli_image_nth)
  then have "m1 16 AND 0x0f \<le> 8" using peli_info_bits(1) [OF dlc] dlc by simp
  note rcv = peli_receive_pure [where r = m1, OF pure this]
  have "peli_decode m1 = \<lparr>can_id = can_id f AND (if is_eff (can_id f) then 0xdfffffff else 0x400007fb),
      can_dlc = can_dlc f, can_data = zero_padded (payload f)\<rparr>"
    by (rule peli_decode_image [OF wf dlc]) (simp add: m1_def)
  moreover have "peli_send_message ?b m f = Inr m1"
    by (simp add: peli_send_image [OF wf dlc] loop_bus_write_seq loop_bus_write m1_def)
  ultimately show ?thesis
    by (simp add: rcv loop_bus_write)
qed

text \<open>
  C9. Extended frames survive a round trip through the registers: what \<open>send_message\<close> writes for
  an extended frame (29-bit identifier, RTR flag, at most eight data bytes) is read back by
  \<open>receive_message\<close> as the same frame, from any previous content of the registers.
\<close>

theorem peli_ext_roundtrip:
  assumes "frame_wf f" and "can_dlc f \<le> 8" and "is_eff (can_id f)" and "can_id f AND 0x20000000 = 0"
    and "set (drop (unat (can_dlc f)) (can_data f)) \<subseteq> {0}"
  shows "\<exists>m1 m2. peli_send_message (loop_bus 16 16) m f = Inr m1 \<and>
           peli_receive_message (loop_bus 16 16) m1 = Inr (f, m2)"
  using peli_loop_back [OF assms(1,2), of m] assms(3) zero_padded_payload [OF assms(1,2,5)]
    ext_id_kept [OF assms(4)] by (simp add: frame_with_id)

theorem peli_ext_roundtrip_witness:
  "\<exists>m1 m2. peli_send_message (loop_bus 16 16) (\<lambda>_. 0)
       \<lparr>can_id = 0x92345678, can_dlc = 2, can_data = [0xab, 0xcd, 0, 0, 0, 0, 0, 0]\<rparr> = Inr m1 \<and>
     peli_receive_message (loop_bus 16 16) m1 =
       Inr (\<lparr>can_id = 0x92345678, can_dlc = 2, can_data = [0xab, 0xcd, 0, 0, 0, 0, 0, 0]\<rparr>, m2)"
  by (rule peli_ext_roundtrip) (simp_all add: frame_wf_def is_eff_def)

text \<open>
  Standard frames do not: \<open>send_message\<close> masks the low part of the identifier with
  \<open>0x03\<close> where the register holds its three low bits, so the frame read back has bit 2 of the
  identifier cleared, and it is the frame sent exactly when that bit was clear.
\<close>

theorem peli_std_roundtrip:
  assumes "frame_wf f" and "can_dlc f \<le> 8" and "can_id f AND 0x400007ff = can_id f"
    and "set (drop (unat (can_dlc f)) (can_data f)) \<subseteq> {0}"
  shows "\<exists>m1 m2 f'. peli_send_message (loop_bus 16 16) m f = Inr m1 \<and>
           peli_receive_message (loop_bus 16 16) m1 = Inr (f', m2) \<and>
           f' = f\<lparr>can_id := can_id f AND NOT 4\<rparr> \<and> (f' = f \<longleftrightarrow> \<not> bit (can_id f) 2)"
proof -
  have "f\<lparr>can_id := can_id f AND NOT 4\<rparr> = f \<longleftrightarrow> can_id f AND NOT 4 = can_id f"
    by (cases f) simp
  then show ?thesis
    using peli_loop_back [OF assms(1,2), of m] std_id_bits [OF assms(3)] zero_padded_payload [OF assms(1,2,4)]
    by (simp add: frame_with_id)
qed

theorem peli_std_roundtrip_witness:
  "\<exists>m1 m2 f'. peli_send_message (loop_bus 16 16) (\<lambda>_. 0)
       \<lparr>can_id = 0x127, can_dlc = 1, can_data = [0xab, 0, 0, 0, 0, 0, 0, 0]\<rparr> = Inr m1 \<and>
     peli_receive_message (loop_bus 16 16) m1 = Inr (f', m2) \<and> can_id f' = 0x123"
  using peli_std_roundtrip [of "\<lparr>can_id = 0x127, can_dlc = 1, can_data = [0xab, 0, 0, 0, 0, 0, 0, 0]\<rparr>" "\<lambda>_. 0"]
  by (auto simp: frame_wf_def)

end
