(* ===== verification/Basic_Driver.thy ===== *)
theory Basic_Driver
  imports Can_Chrdev
begin

unbundle bit_operations_syntax

text \<open>
  The BasicCAN-mode driver, \<open>source/linux_driver/basiccan_mode/can_pci.c\<close>: its register
  codec (two header bytes at 10 and 20, an 11-bit identifier), its interrupt handler, which
  releases the receive buffer when its ring is full, and \<open>device_open\<close>.
\<close>

section \<open>Sending\<close>

definition basic_send_message :: "'d bus \<Rightarrow> 'd \<Rightarrow> can_frame \<Rightarrow> 'd res" where
  "basic_send_message b d can =
     (let index = (10 :: u8);
          temp = ucast (drop_bit 3 (can_id can) AND 0xff)
      in rbind (bus_write b d (unat index) temp) (\<lambda>d.
         let index = index + 1;
             temp = (ucast (push_bit 5 (can_id can) AND 0xe0) :: u8);
             temp = (if is_rtr (can_id can) then temp OR 0x10 else temp);
             temp = temp OR (can_dlc can AND 0x0f)
         in rbind (bus_write b d (unat index) temp) (\<lambda>d.
            rbind (tx_loop b d (can_data can) 0 (unat (can_dlc can)) (index + 1)) (\<lambda>d.
            bus_write b d SJA_COMMAND_REG 0x01))))"

definition basic_header :: "can_frame \<Rightarrow> u8" where
  "basic_header f = ucast (push_bit 5 (can_id f) AND 0xe0) OR (if is_rtr (can_id f) then 0x10 else 0)
     OR (can_dlc f AND 0x0f)"

definition basic_image :: "can_frame \<Rightarrow> u8 list" where
  "basic_image f = [ucast (drop_bit 3 (can_id f) AND 0xff), basic_header f] @ payload f"

lemma basic_send_image:
  assumes "frame_wf f" and "can_dlc f \<le> 8"
  shows "basic_send_message b d f =
           rbind (write_seq b d 10 (basic_image f)) (\<lambda>d. bus_write b d SJA_COMMAND_REG 1)"
  by (simp add: tx_loop_payload [OF assms] basic_send_message_def basic_image_def basic_header_def
      Let_def rbind_assoc or.assoc)

section \<open>Receiving\<close>

definition basic_receive_message :: "'d bus \<Rightarrow> 'd \<Rightarrow> (can_frame \<times> 'd) res" where
  "basic_receive_message b d =
     (let can = frame_zero in
      rbind (bus_read b d 20) (\<lambda>(temp, d).
      let cid = push_bit 3 (ucast temp) AND 0x7f8
      in rbind (bus_read b d 21) (\<lambda>(temp, d).
         let cid = cid OR (drop_bit 5 (ucast temp) AND 0x07);
             cid = (if temp AND 0x10 \<noteq> 0 then cid OR 0x40000000 else cid);
             dlc = temp AND 0x0f
         in rbind (rx_loop b d (can_data can) 0 (unat dlc) 22) (\<lambda>(data, d).
            rbind (bus_write b d SJA_COMMAND_REG 0x04) (\<lambda>d.
            Inr (\<lparr>can_id = cid, can_dlc = dlc, can_data = data\<rparr>, d))))))"

definition basic_decode :: "(nat \<Rightarrow> u8) \<Rightarrow> can_frame" where
  "basic_decode r =
     \<lparr>can_id = (push_bit 3 (ucast (r 20)) AND 0x7f8) OR (drop_bit 5 (ucast (r 21)) AND 0x07)
        OR (if r 21 AND 0x10 \<noteq> 0 then 0x40000000 else 0),
      can_dlc = r 21 AND 0x0f,
      can_data = zero_padded (map (\<lambda>k. r (22 + k)) [0..<unat (r 21 AND 0x0f)])\<rparr>"

lemma basic_receive_pure:
  assumes pure: "\<And>a. bus_read b d a = Inr (r a, d)" and dlc: "r 21 AND 0x0f \<le> 8"
  shows "basic_receive_message b d =
    rbind (bus_write b d SJA_COMMAND_REG 0x04) (\<lambda>d'. Inr (basic_decode r, d'))"
proof -
  have "unat (r 21 AND 0x0f) \<le> 8" using dlc by (simp add: word_le_nat_alt)
  then have "rx_loop b d (replicate 8 0) 0 (unat (r 21 AND 0x0f)) 22 =
      Inr (zero_padded (map (\<lambda>k. r (22 + k)) [0..<unat (r 21 AND 0x0f)]), d)"
    using rx_loop_pure [OF pure, of 0 "unat (r 21 AND 0x0f)" "replicate 8 0" 22]
    by (simp add: zero_padded_def)
  then show ?thesis
    by (simp add: basic_receive_message_def pure basic_decode_def Let_def frame_zero_def or.assoc)
qed

section \<open>The codec is a round trip\<close>

lemma basic_header_bits:
  assumes "can_dlc f \<le> 8"
  shows "basic_header f AND 0x0f = can_dlc f"
    and "(basic_header f AND 0x10 \<noteq> 0) = is_rtr (can_id f)"
proof -
  have small: "can_dlc f < 16" using assms by (simp add: word_le_nat_alt word_less_nat_alt)
  show "basic_header f AND 0x0f = can_dlc f"
    by (rule bit_word_eqI)
      (use small_byte_bits [OF small] small_byte_bit_less [OF _ small] in
        \<open>auto simp: basic_header_def bit_simps word_bits\<close>)
  show "(basic_header f AND 0x10 \<noteq> 0) = is_rtr (can_id f)"
    using small_byte_bits [OF small, of 4]
    by (auto simp: basic_header_def u8_flags bit_simps word_bits)
qed

lemma basic_id:
  assumes "can_dlc f < 16"
  shows "(push_bit 3 (ucast (ucast (drop_bit 3 (can_id f) AND 0xff) :: u8)) AND 0x7f8)
      OR (drop_bit 5 (ucast (basic_header f)) AND 0x07)
      OR (if is_rtr (can_id f) then 0x40000000 else 0) = can_id f AND (0x400007ff :: u32)" (is "?l = ?r")
proof (rule bit_word_eqI)
  fix n :: nat
  assume "n < LENGTH(32)"
  then consider "n < 3" | "3 \<le> n" "n < 11" | "11 \<le> n" "n < 30" | "n = 30" | "n = 31"
    by fastforce
  then show "bit ?l n = bit ?r n"
    by cases (use small_byte_bits [OF assms] in \<open>auto simp: basic_header_def bit_simps word_bits\<close>)
qed

lemma basic_decode_image:
  assumes wf: "frame_wf f" and dlc: "can_dlc f \<le> 8"
    and regs: "\<And>k. k < length (basic_image f) \<Longrightarrow> r (20 + k) = basic_image f ! k"
  shows "basic_decode r =
    \<lparr>can_id = can_id f AND 0x400007ff, can_dlc = can_dlc f, can_data = zero_padded (payload f)\<rparr>"
proof -
  have small: "can_dlc f < 16" using dlc by (simp add: word_le_nat_alt word_less_nat_alt)
  have r: "r 20 = ucast (drop_bit 3 (can_id f) AND 0xff)" "r 21 = basic_header f"
    using regs [of 0] regs [of 1] by (simp_all add: basic_image_def)
  have "map (\<lambda>k. r (22 + k)) [0..<unat (can_dlc f)] = payload f"
  proof (rule nth_equalityI)
    fix k assume "k < length (map (\<lambda>k. r (22 + k)) [0..<unat (can_dlc f)])"
    then show "map (\<lambda>k. r (22 + k)) [0..<unat (can_dlc f)] ! k = payload f ! k"
      using regs [of "2 + k"] length_payload [OF wf dlc] by (simp add: basic_image_def)
  qed (simp add: length_payload [OF wf dlc])
  then show ?thesis
    using basic_id [OF small] by (simp add: basic_decode_def r basic_header_bits [OF dlc])
qed

section \<open>Interrupts\<close>

definition basic_irq_handler :: "'d bus \<Rightarrow> can_dev \<Rightarrow> 'd \<Rightarrow> (can_dev \<times> 'd) res" where
  "basic_irq_handler b cd d =
     rbind (bus_read b d SJA_INT_REG) (\<lambda>(temp, d).
     rbind (irq_transmit basic_send_message b cd d temp) (\<lambda>(cd, d).
     if temp AND INT_RI \<noteq> 0 then
       if BUFFERSIZE \<le> rx_count cd then
         rbind (bus_write b d SJA_COMMAND_REG 0x04) (\<lambda>d. Inr (cd, d))
       else
         let cd = cd\<lparr>rx_count := rx_count cd + 1\<rparr> in
         rbind (basic_receive_message b d) (\<lambda>(f, d).
         rbind (arr_set (rx_buf cd) (rx_in cd) f) (\<lambda>buf.
         irq_overrun b
           (cd\<lparr>rx_buf := buf, rx_in := (if BUFFERSIZE \<le> rx_in cd + 1 then 0 else rx_in cd + 1)\<rparr>) d temp))
     else irq_overrun b cd d temp))"

lemma basic_irq_effect:
  assumes "basic_irq_handler b cd d = Inr (cd', d')" and "dev_ok cd"
  shows "irq_effect cd cd'"
proof -
  obtain temp d1 cd1 d2 where rd: "bus_read b d SJA_INT_REG = Inr (temp, d1)"
      and tx: "irq_transmit basic_send_message b cd d1 temp = Inr (cd1, d2)"
    using assms(1) by (auto simp: basic_irq_handler_def rbind_eq_Inr)
  have cd1: "cd1 = cd \<or> 0 < tx_count cd \<and> cd1 = tx_get cd"
    by (rule irq_transmit_cases [OF tx])
  then have ok1: "dev_ok cd1" using assms(2) txq.ok_get by auto
  then have "rx_in cd1 < BUFFERSIZE" by (simp add: dev_ok_def ring_ok_def)
  then have wrap: "(BUFFERSIZE \<le> rx_in cd1 + 1) = (rx_in cd1 + 1 = BUFFERSIZE)" by auto
  show ?thesis
  proof (cases "temp AND INT_RI \<noteq> 0 \<and> rx_count cd1 < BUFFERSIZE")
    case True
    from True assms(1) rd tx wrap obtain f d3 where
      "irq_overrun b (rx_put f cd1) d3 temp = Inr (cd', d')"
      using rx_store_eq [of cd1]
      by (auto simp: basic_irq_handler_def rbind_eq_Inr Let_def arr_set_def split: if_splits)
    then have "cd' = rx_put f cd1" by (rule irq_overrun_dev)
    with cd1 True show ?thesis by (auto simp: irq_effect_def)
  next
    case False
    then have "cd' = cd1"
      using assms(1) rd tx
      by (auto simp: basic_irq_handler_def rbind_eq_Inr split: if_splits dest: irq_overrun_dev)
    with cd1 show ?thesis by (auto simp: irq_effect_def)
  qed
qed

section \<open>Opening the device\<close>

definition basic_device_open :: "'d bus \<Rightarrow> can_dev \<Rightarrow> 'd \<Rightarrow> (int \<times> can_dev \<times> 'd) res" where
  "basic_device_open b cd d =
     rbind (bus_read b d SJA_MODE_REG) (\<lambda>(temp, d).
     rbind (reset_loop b temp 0 d) (\<lambda>(temp, count, d).
     if temp AND RESET_BIT \<noteq> RESET_BIT then Inr (- EFAULT, cd, d)
     else
       rbind (bus_read b d SJA_CLOCK_REG) (\<lambda>(temp, d).
       rbind (bus_write b d SJA_CLOCK_REG (temp AND NOT PELI)) (\<lambda>d.
       rbind (bus_write b d SJA_BASIC_AMR_REG 0xff) (\<lambda>d.
       rbind (bus_read b d SJA_CONTROL_REG) (\<lambda>(temp, d).
       rbind (bus_write b d SJA_CONTROL_REG (temp OR push_bit 1 3)) (\<lambda>d.
       rbind (bus_read b d SJA_MODE_REG) (\<lambda>(temp, d).
       rbind (oper_loop b temp 0 d) (\<lambda>(temp, count, d).
       if temp AND RESET_BIT = RESET_BIT then Inr (- EFAULT, cd, d)
       else Inr (0, rings_reset cd, d))))))))))"

context mode_ctl begin

lemma basic_open_succeeds:
  assumes "good d"
  shows "\<exists>d'. basic_device_open b cd d = Inr (0, rings_reset cd, d') \<and> good d' \<and> \<not> rst d'"
proof -
  obtain v0 d0 where s0: "bus_read b d 0 = Inr (v0, d0)" "good d0" "(v0 AND RESET_BIT = RESET_BIT) = rst d0"
    using read_reg [OF assms, of 0] by auto
  obtain v1 c1 d1 where s1: "reset_loop b v0 0 d0 = Inr (v1, c1, d1)" "v1 AND RESET_BIT = RESET_BIT" "good d1" "rst d1"
    using enter_reset [OF s0(2,3), of 0] by auto
  obtain v2 d2 where s2: "bus_read b d1 31 = Inr (v2, d2)" "good d2" "rst d2"
    using read_reg [OF s1(3), of 31] s1(4) by auto
  obtain d3 where s3: "bus_write b d2 31 (v2 AND NOT PELI) = Inr d3" "good d3" "rst d3"
    using write_reg [OF s2(2), of 31 "v2 AND NOT PELI"] s2(3) by auto
  obtain d4 where s4: "bus_write b d3 5 0xff = Inr d4" "good d4" "rst d4"
    using write_reg [OF s3(2), of 5 "0xff"] s3(3) by auto
  obtain v5 d5 where s5: "bus_read b d4 0 = Inr (v5, d5)" "good d5" "rst d5" "v5 AND RESET_BIT = RESET_BIT"
    using read_reg [OF s4(2), of 0] s4(3) by auto
  have "(v5 OR push_bit 1 3) AND RESET_BIT = RESET_BIT"
    using s5(4) by (simp add: u8_flags_self bit_simps)
  then obtain d6 where s6: "bus_write b d5 0 (v5 OR push_bit 1 3) = Inr d6" "good d6" "rst d6"
    using write_reg [OF s5(2), of 0 "v5 OR push_bit 1 3"] by auto
  obtain v9 d9 where s9: "bus_read b d6 0 = Inr (v9, d9)" "good d9" "(v9 AND RESET_BIT = RESET_BIT) = rst d9"
    using read_reg [OF s6(2), of 0] by auto
  obtain va c d10 where s10: "oper_loop b v9 0 d9 = Inr (va, c, d10)" "va AND RESET_BIT \<noteq> RESET_BIT" "good d10" "\<not> rst d10"
    using leave_reset [OF s9(2,3), of 0] by auto
  show ?thesis
    by (simp only: basic_device_open_def s0(1) s1(1,2) s2(1) s3(1) s4(1) s5(1) s6(1) s9(1)
        s10(1,2) rbind_Inr prod.case not_True_eq_False not_False_eq_True simp_thms if_True if_False)
      (use s10 in auto)
qed

end

lemma basic_open_result:
  assumes "basic_device_open b cd d = Inr (ret, cd', d')"
  shows "ret = 0 \<and> cd' = rings_reset cd \<or> ret = - EFAULT \<and> cd' = cd"
  using assms by (auto simp: basic_device_open_def rbind_eq_Inr split: if_splits prod.splits)

section \<open>The file operations\<close>

text \<open>\<open>device_fops\<close>: the shared text of \<open>Can_Chrdev\<close> over this driver's \<open>send_message\<close>.\<close>

definition basic_device_read :: "can_dev \<Rightarrow> nat \<Rightarrow> bool \<Rightarrow> (int \<times> can_frame option \<times> can_dev) res" where
  "basic_device_read cd count copy_fails = device_read cd count copy_fails"

definition basic_device_write :: "'d bus \<Rightarrow> can_dev \<Rightarrow> 'd \<Rightarrow> nat \<Rightarrow> bool \<Rightarrow> can_frame \<Rightarrow> (int \<times> can_dev \<times> 'd) res" where
  "basic_device_write b cd d count copy_fails frm = device_write basic_send_message b cd d count copy_fails frm"

definition basic_device_release :: "'d bus \<Rightarrow> 'd \<Rightarrow> (int \<times> 'd) res" where
  "basic_device_release b d = device_release b d"

section \<open>The driver as a transition function\<close>

definition basic_exec :: "'d bus \<Rightarrow> 'd drv" where
  "basic_exec b ev s = (case s of (cd, d) \<Rightarrow>
     (case ev of
        EvOpen \<Rightarrow> rbind (basic_device_open b cd d) (\<lambda>(ret, s). Inr s)
      | EvRead n fl \<Rightarrow> rbind (basic_device_read cd n fl) (\<lambda>(ret, out, cd). Inr (cd, d))
      | EvWrite n fl f \<Rightarrow> rbind (basic_device_write b cd d n fl f) (\<lambda>(ret, s). Inr s)
      | EvIrq \<Rightarrow> basic_irq_handler b cd d
      | EvRelease \<Rightarrow> rbind (basic_device_release b d) (\<lambda>(ret, d). Inr (cd, d))))"

lemmas basic_exec_simps = basic_exec_def basic_device_read_def basic_device_write_def basic_device_release_def

lemma basic_exec_ok:
  assumes "basic_exec b ev (cd, d) = Inr (cd', d')" and "dev_ok cd"
  shows "dev_ok cd'"
proof (cases ev)
  case EvOpen
  with assms show ?thesis
    by (auto simp: basic_exec_simps rbind_eq_Inr dest!: basic_open_result intro: dev_ok_reset)
next
  case (EvRead n fl)
  with assms show ?thesis by (auto simp: basic_exec_simps rbind_eq_Inr dest: device_read_ok)
next
  case (EvWrite n fl f)
  with assms show ?thesis by (auto simp: basic_exec_simps rbind_eq_Inr dest: device_write_ok)
next
  case EvIrq
  with assms show ?thesis by (auto simp: basic_exec_simps dest: basic_irq_effect irq_effect_ok)
next
  case EvRelease
  with assms show ?thesis by (auto simp: basic_exec_simps rbind_eq_Inr)
qed

section \<open>Properties\<close>

lemma basic_loop_back:
  assumes wf: "frame_wf f" and dlc: "can_dlc f \<le> 8"
  shows "\<exists>m1 m2. basic_send_message (loop_bus 10 20) m f = Inr m1 \<and>
    basic_receive_message (loop_bus 10 20) m1 =
      Inr (\<lparr>can_id = can_id f AND 0x400007ff, can_dlc = can_dlc f, can_data = zero_padded (payload f)\<rparr>, m2)"
proof -
  let ?b = "loop_bus 10 20" and ?img = "basic_image f"
  define m1 where "m1 = (\<lambda>x. if 10 \<le> x \<and> x < 10 + length ?img then ?img ! (x - 10) else m x)(1 := 1)"
  define r where "r a = (if 20 \<le> a \<and> a < 33 then m1 (10 + (a - 20)) else m1 a)" for a
  have pure: "bus_read ?b m1 a = Inr (r a, m1)" for a
    by (simp add: loop_bus_read r_def)
  have len: "length ?img \<le> 10"
    using length_payload [OF wf dlc] dlc by (simp add: basic_image_def word_le_nat_alt)
  have regs: "r (20 + k) = ?img ! k" if "k < length ?img" for k
    using that len by (simp add: r_def m1_def)
  have "r 21 = basic_header f"
    using regs [of 1] by (simp add: basic_image_def)
  then have "r 21 AND 0x0f \<le> 8" using basic_header_bits(1) [OF dlc] dlc by simp
  note rcv = basic_receive_pure [where r = r, OF pure this]
  have "basic_send_message ?b m f = Inr m1"
    by (simp add: basic_send_image [OF wf dlc] loop_bus_write_seq loop_bus_write m1_def)
  then show ?thesis
    by (simp add: rcv loop_bus_write basic_decode_image [OF wf dlc regs])
qed

text \<open>
  Standard frames survive a round trip through the registers of the BasicCAN mode: the
  identifier (11 bits), the RTR flag, the length and up to eight data bytes are read back as
  they were sent.
\<close>

theorem basic_roundtrip:
  assumes "frame_wf f" and "can_dlc f \<le> 8" and "can_id f AND 0x400007ff = can_id f"
    and "set (drop (unat (can_dlc f)) (can_data f)) \<subseteq> {0}"
  shows "\<exists>m1 m2. basic_send_message (loop_bus 10 20) m f = Inr m1 \<and>
           basic_receive_message (loop_bus 10 20) m1 = Inr (f, m2)"
  using basic_loop_back [OF assms(1,2), of m] assms(3) zero_padded_payload [OF assms(1,2,4)]
  by (simp add: frame_with_id)

theorem basic_roundtrip_witness:
  "\<exists>m1 m2. basic_send_message (loop_bus 10 20) (\<lambda>_. 0)
       \<lparr>can_id = 0x40000127, can_dlc = 1, can_data = [0xab, 0, 0, 0, 0, 0, 0, 0]\<rparr> = Inr m1 \<and>
     basic_receive_message (loop_bus 10 20) m1 =
       Inr (\<lparr>can_id = 0x40000127, can_dlc = 1, can_data = [0xab, 0, 0, 0, 0, 0, 0, 0]\<rparr>, m2)"
  by (rule basic_roundtrip) (simp_all add: frame_wf_def)

end
