(* ===== verification/Driver_Props.thy ===== *)
theory Driver_Props
  imports Pelican_Driver Basic_Driver
begin

unbundle bit_operations_syntax

text \<open>
  What both character-device drivers promise: their two frame queues, the contract of their
  file operations and of their interrupt handler, the bounded mode switch, and what happens
  with a data length beyond eight.
\<close>

section \<open>The abstract channel\<close>

text \<open>
  The contract of a driver, without rings, indices and registers: two queues of at most six
  frames. A file operation or an interrupt is one step of it.
\<close>

inductive chan_step :: "drv_event \<Rightarrow> can_frame list \<times> can_frame list \<Rightarrow> can_frame list \<times> can_frame list \<Rightarrow> bool" where
  opened: "chan_step EvOpen (t, r) ([], [])"
| open_failed: "chan_step EvOpen (t, r) (t, r)"
| read_first: "chan_step (EvRead 16 False) (t, f # r) (t, r)"
| read_nothing: "n \<noteq> 16 \<or> fl \<or> r = [] \<Longrightarrow> chan_step (EvRead n fl) (t, r) (t, r)"
| write_queued: "length t < 6 \<Longrightarrow> chan_step (EvWrite 16 fl f) (t, r) (t @ [f], r)"
| write_not_queued: "chan_step (EvWrite n fl f) (t, r) (t, r)"
| interrupt: "t' = t \<or> t = f # t' \<Longrightarrow> r' = r \<or> length r < 6 \<and> r' = r @ [g] \<Longrightarrow>
    chan_step EvIrq (t, r) (t', r')"
| released: "chan_step EvRelease (t, r) (t, r)"

definition channel :: "can_dev \<Rightarrow> can_frame list \<times> can_frame list" where
  "channel cd = (tx_queue cd, rx_queue cd)"

lemma queue_other [simp]:
  "rx_queue (tx_put f cd) = rx_queue cd" "rx_queue (tx_get cd) = rx_queue cd"
  "tx_queue (rx_put f cd) = tx_queue cd" "tx_queue (rx_get cd) = tx_queue cd"
  "rx_queue (tx_stage f cd) = rx_queue cd" "rx_count (tx_get cd) = rx_count cd"
  by (simp_all add: rx_queue_def tx_queue_def tx_put_def tx_get_def rx_put_def rx_get_def tx_stage_def)

lemma channel_reset [simp]: "channel (rings_reset cd) = ([], [])"
  by (simp add: channel_def tx_queue_def rx_queue_def rings_reset_def)

lemma channel_read:
  assumes "device_read cd n fl = Inr (ret, out, cd')" and "dev_ok cd"
  shows "chan_step (EvRead n fl) (channel cd) (channel cd')"
proof (cases "n = 16 \<and> \<not> fl \<and> 0 < rx_count cd")
  case True
  with assms have "cd' = rx_get cd"
    using device_read_some [OF assms(2)] by auto
  with True show ?thesis
    using rxq.view_get [OF assms(2)] by (auto simp: channel_def intro: read_first)
next
  case False
  with assms have "cd' = cd"
    by (auto simp: device_read_def rbind_eq_Inr split: if_splits)
  moreover have "rx_count cd = 0 \<Longrightarrow> rx_queue cd = []"
    using rxq.count_view [OF assms(2)] by simp
  ultimately show ?thesis
    using False by (auto simp: channel_def intro!: read_nothing)
qed

lemma channel_write:
  assumes "device_write send b cd d n fl f = Inr (ret, cd', d')" and "dev_ok cd"
  shows "chan_step (EvWrite n fl f) (channel cd) (channel cd')"
proof -
  have n: "cd' = cd \<or> n = 16"
    using assms(1) by (auto simp: device_write_def split: if_splits)
  show ?thesis
    using device_write_cases [OF assms] n tx_stage_queue [OF assms(2)] txq.view_put [OF assms(2)]
      txq.count_view [OF assms(2)]
    by (auto simp: channel_def intro: write_queued write_not_queued)
qed

lemma channel_irq:
  assumes "irq_effect cd cd'" and "dev_ok cd"
  shows "chan_step EvIrq (channel cd) (channel cd')"
proof -
  obtain cd1 where cd1: "cd1 = cd \<or> 0 < tx_count cd \<and> cd1 = tx_get cd"
      and cd': "cd' = cd1 \<or> rx_count cd1 < 6 \<and> (\<exists>f. cd' = rx_put f cd1)"
    using assms(1) by (auto simp: irq_effect_def)
  have ok1: "dev_ok cd1" using cd1 txq.ok_get assms(2) by auto
  have "tx_queue cd1 = tx_queue cd \<or> tx_queue cd = tx_first cd # tx_queue cd1"
    using cd1 txq.view_get [OF assms(2)] by auto
  moreover have "rx_queue cd1 = rx_queue cd" using cd1 by auto
  moreover have "cd' = cd1 \<or> (\<exists>f. length (rx_queue cd1) < 6 \<and> tx_queue cd' = tx_queue cd1 \<and> rx_queue cd' = rx_queue cd1 @ [f])"
    using cd' rxq.view_put [OF ok1] rxq.count_view [OF ok1] by auto
  ultimately show ?thesis
    unfolding channel_def by (metis interrupt)
qed

text \<open>A first write, on a controller whose transmit buffer is locked: the example of the witnesses.\<close>

lemma can_dev_zero_counts [simp]: "tx_count can_dev_zero = 0" "rx_count can_dev_zero = 0"
  by (simp_all add: can_dev_zero_def)

lemma first_write:
  "device_write send (loop_bus tx rx) can_dev_zero (\<lambda>_. 0) 16 False f = Inr (16, tx_put f can_dev_zero, \<lambda>_. 0)"
  by (rule device_write_locked [where st = 0]) (simp_all add: dev_ok_reset loop_bus_read)

section \<open>Properties\<close>

text \<open>
  C1. The PeliCAN driver refines the channel: every operation that the kernel calls and that
  returns takes the driver's rings from one state of the two queues to a next one, in first-in
  first-out order, and keeps the ring indices consistent.
\<close>

theorem peli_refines_channel:
  assumes "peli_exec b ev (cd, d) = Inr (cd', d')" and "dev_ok cd"
  shows "dev_ok cd' \<and> chan_step ev (channel cd) (channel cd')"
proof (intro conjI)
  show "dev_ok cd'" by (rule peli_exec_ok [OF assms])
  show "chan_step ev (channel cd) (channel cd')"
  proof (cases ev)
    case EvOpen
    with assms show ?thesis
      by (auto simp: peli_exec_simps rbind_eq_Inr channel_def [of cd] intro: opened open_failed dest!: peli_open_result)
  next
    case (EvRead n fl)
    with assms show ?thesis by (auto simp: peli_exec_simps rbind_eq_Inr dest: channel_read)
  next
    case (EvWrite n fl f)
    with assms show ?thesis by (auto simp: peli_exec_simps rbind_eq_Inr dest: channel_write)
  next
    case EvIrq
    with assms show ?thesis by (auto simp: peli_exec_simps dest: peli_irq_effect channel_irq)
  next
    case EvRelease
    with assms show ?thesis by (auto simp: peli_exec_simps rbind_eq_Inr channel_def intro: released)
  qed
qed

theorem peli_refines_channel_witness:
  "dev_ok (tx_put frame_zero can_dev_zero) \<and>
   chan_step (EvWrite 16 False frame_zero) (channel can_dev_zero) (channel (tx_put frame_zero can_dev_zero))"
  by (rule peli_refines_channel [where b = "loop_bus 16 16" and d = "\<lambda>_. 0" and d' = "\<lambda>_. 0"])
    (simp_all add: peli_exec_simps first_write dev_ok_reset)

text \<open>
  C7. The BasicCAN driver refines the same channel over its own registers: every operation that the kernel
  calls and that returns takes the driver's rings from one state of the two queues to a next one, in
  first-in first-out order, and keeps the ring indices consistent.
\<close>

theorem basic_refines_channel:
  assumes "basic_exec b ev (cd, d) = Inr (cd', d')" and "dev_ok cd"
  shows "dev_ok cd' \<and> chan_step ev (channel cd) (channel cd')"
proof (intro conjI)
  show "dev_ok cd'" by (rule basic_exec_ok [OF assms])
  show "chan_step ev (channel cd) (channel cd')"
  proof (cases ev)
    case EvOpen
    with assms show ?thesis
      by (auto simp: basic_exec_simps rbind_eq_Inr channel_def [of cd] intro: opened open_failed dest!: basic_open_result)
  next
    case (EvRead n fl)
    with assms show ?thesis by (auto simp: basic_exec_simps rbind_eq_Inr dest: channel_read)
  next
    case (EvWrite n fl f)
    with assms show ?thesis by (auto simp: basic_exec_simps rbind_eq_Inr dest: channel_write)
  next
    case EvIrq
    with assms show ?thesis by (auto simp: basic_exec_simps dest: basic_irq_effect channel_irq)
  next
    case EvRelease
    with assms show ?thesis by (auto simp: basic_exec_simps rbind_eq_Inr channel_def intro: released)
  qed
qed

theorem basic_refines_channel_witness:
  "dev_ok (tx_put frame_zero can_dev_zero) \<and>
   chan_step (EvWrite 16 False frame_zero) (channel can_dev_zero) (channel (tx_put frame_zero can_dev_zero))"
  by (rule basic_refines_channel [where b = "loop_bus 10 20" and d = "\<lambda>_. 0" and d' = "\<lambda>_. 0"])
    (simp_all add: basic_exec_simps first_write dev_ok_reset)

text \<open>
  C28. In every state a driver can reach from \<open>probe\<close>, through any sequence of file operations and
  interrupts and with a controller that does what it likes in between, the indices of both rings
  are inside their arrays, no ring holds more than six frames and each input index is the output
  index plus the count.
\<close>

theorem rings_always_ok:
  assumes "drv_reach (peli_exec b) cd d \<or> drv_reach (basic_exec b) cd d"
  shows "dev_ok cd \<and> length (tx_queue cd) \<le> 6 \<and> length (rx_queue cd) \<le> 6"
proof -
  have "dev_ok cd"
    using assms
  proof
    assume "drv_reach (peli_exec b) cd d"
    then show ?thesis by (rule drv_reach_dev_ok) (rule peli_exec_ok)
  next
    assume "drv_reach (basic_exec b) cd d"
    then show ?thesis by (rule drv_reach_dev_ok) (rule basic_exec_ok)
  qed
  then show ?thesis
    using txq.count_le [of cd] rxq.count_le [of cd] txq.count_view [of cd] rxq.count_view [of cd] by auto
qed

theorem rings_always_ok_witness:
  "dev_ok (tx_put frame_zero can_dev_zero) \<and> length (tx_queue (tx_put frame_zero can_dev_zero)) \<le> 6 \<and>
   length (rx_queue (tx_put frame_zero can_dev_zero)) \<le> 6"
proof (rule rings_always_ok [where b = "loop_bus 16 16" and d = "\<lambda>_. 0"], rule disjI1)
  have "peli_exec (loop_bus 16 16) (EvWrite 16 False frame_zero) (can_dev_zero, \<lambda>_. 0) =
      Inr (tx_put frame_zero can_dev_zero, \<lambda>_. 0)"
    by (simp add: peli_exec_simps first_write)
  then show "drv_reach (peli_exec (loop_bus 16 16)) (tx_put frame_zero can_dev_zero) (\<lambda>_. 0)"
    by (rule drv_reach.event [OF drv_reach.probed])
qed

text \<open>
  C38. What \<open>device_write\<close> does with a frame, on every branch, in a driver state with consistent rings and when the
  controller's status register can be read; the frame is what the ring's slot holds after \<open>copy_from_user\<close>, whole or
  not. A wrong size is refused with \<open>-EINVAL\<close> and a full ring with \<open>-EFBIG\<close>, without touching the controller or the
  driver's state. If the controller's transmit buffer is locked the frame joins the end of the queue and the call
  returns 16, even when the copy from the user failed; if it is released the frame is sent at once, before every frame
  still queued, the queues stay as they are, and a failed copy sends the slot's contents and returns \<open>-EFAULT\<close>.
\<close>

theorem device_write_branches:
  assumes "dev_ok cd" and "bus_read b d 2 = Inr (st, d')"
  shows "\<exists>cd'. dev_ok cd' \<and> device_write send b cd d n fl f =
      (if n \<noteq> 16 then Inr (- 22, cd, d)
       else if tx_count cd = 6 then Inr (- 27, cd, d)
       else if bit st 2 then rbind (send b d' f) (\<lambda>d''. Inr (if fl then - 14 else 16, cd', d''))
       else Inr (16, cd', d')) \<and>
    channel cd' = (if n = 16 \<and> tx_count cd < 6 \<and> \<not> bit st 2 then (tx_queue cd @ [f], rx_queue cd)
                   else channel cd)"
proof (cases "n = 16 \<and> tx_count cd < 6")
  case True
  show ?thesis
  proof (cases "bit st 2")
    case True
    with \<open>n = 16 \<and> tx_count cd < 6\<close> show ?thesis
      by (intro exI [of _ "tx_stage f cd"])
        (simp add: device_write_released [OF assms(1) _ assms(2)] tx_stage_ok [OF assms(1)]
          tx_stage_queue [OF assms(1)] u8_flags_self channel_def)
  next
    case False
    with \<open>n = 16 \<and> tx_count cd < 6\<close> show ?thesis
      by (intro exI [of _ "tx_put f cd"])
        (simp add: device_write_locked [OF assms(1) _ assms(2)] txq.ok_put [OF assms(1)]
          txq.view_put [OF assms(1)] u8_flags_self channel_def)
  qed
next
  case False
  then have "n \<noteq> 16 \<or> tx_count cd = 6"
    using txq.count_le [OF assms(1)] by auto
  with assms(1) show ?thesis
    by (intro exI [of _ cd]) (auto simp: device_write_size device_write_full)
qed

theorem device_write_branches_witness:
  "\<exists>cd'. dev_ok cd' \<and> device_write peli_send_message (loop_bus 16 16) can_dev_zero (\<lambda>_. 0) 16 True frame_zero
      = Inr (16, cd', \<lambda>_. 0) \<and> channel cd' = ([frame_zero], [])"
  using device_write_branches [of can_dev_zero "loop_bus 16 16" "\<lambda>_. 0" 0 "\<lambda>_. 0" peli_send_message 16 True frame_zero]
  by (simp add: dev_ok_reset loop_bus_read) (simp add: can_dev_zero_def tx_queue_def rx_queue_def)

text \<open>
  A transmit interrupt sends the oldest queued frame and no other: with frames queued and
  neither a received frame nor an overrun pending, the handler of each driver sends the first
  frame of the queue and takes it out; with none queued it touches the controller no further.
\<close>

theorem irq_sends_oldest:
  assumes "dev_ok cd" and "bus_read b d 3 = Inr (st, d')" and "bit st 1" and "\<not> bit st 0" and "\<not> bit st 3"
  shows "case tx_queue cd of
      [] \<Rightarrow> peli_irq_handler b cd d = Inr (cd, d') \<and> basic_irq_handler b cd d = Inr (cd, d')
    | f # rest \<Rightarrow> channel (tx_get cd) = (rest, rx_queue cd) \<and>
        peli_irq_handler b cd d = rbind (peli_send_message b d' f) (\<lambda>d''. Inr (tx_get cd, d'')) \<and>
        basic_irq_handler b cd d = rbind (basic_send_message b d' f) (\<lambda>d''. Inr (tx_get cd, d''))"
proof (cases "tx_count cd")
  case 0
  then have "tx_queue cd = []" using txq.count_view [OF assms(1)] by simp
  with 0 assms show ?thesis
    by (simp add: peli_irq_handler_def basic_irq_handler_def irq_transmit_idle irq_overrun_def u8_flags)
next
  case (Suc n)
  then have q: "tx_queue cd = tx_first cd # tx_queue (tx_get cd)"
    using txq.view_get [OF assms(1)] by simp
  have "irq_transmit send b cd d' st = rbind (send b d' (tx_first cd)) (\<lambda>d''. Inr (tx_get cd, d''))" for send
    using Suc assms by (intro irq_transmit_next) (simp_all add: u8_flags)
  with assms show ?thesis
    by (simp add: peli_irq_handler_def basic_irq_handler_def rbind_assoc irq_overrun_def u8_flags q channel_def)
qed

theorem irq_sends_oldest_witness:
  "peli_irq_handler (loop_bus 16 16) can_dev_zero ((\<lambda>_. 0)(3 := 2)) = Inr (can_dev_zero, (\<lambda>_. 0)(3 := 2))"
  using irq_sends_oldest [of can_dev_zero "loop_bus 16 16" "(\<lambda>_. 0)(3 := 2)" 2 "(\<lambda>_. 0)(3 := 2)"]
  by (simp add: dev_ok_reset loop_bus_read tx_queue_def)

text \<open>
  A frame that arrives when the receive ring is full: the BasicCAN driver discards it with a
  release of the receive buffer; the PeliCAN driver returns without a further access, so the
  controller keeps the frame. Neither handles an overrun reported in the same interrupt.
\<close>

theorem irq_receive_full:
  assumes "rx_count cd = 6" and "bus_read b d 3 = Inr (st, d')" and "bit st 0" and "\<not> bit st 1"
  shows "peli_irq_handler b cd d = Inr (cd, d') \<and>
    basic_irq_handler b cd d = rbind (bus_write b d' 1 4) (\<lambda>d''. Inr (cd, d''))"
  using assms by (simp add: peli_irq_handler_def basic_irq_handler_def irq_transmit_idle u8_flags)

theorem irq_receive_full_witness:
  "peli_irq_handler (loop_bus 16 16) (can_dev_zero\<lparr>rx_count := 6\<rparr>) ((\<lambda>_. 0)(3 := 9)) =
     Inr (can_dev_zero\<lparr>rx_count := 6\<rparr>, (\<lambda>_. 0)(3 := 9))"
  using irq_receive_full [of "can_dev_zero\<lparr>rx_count := 6\<rparr>" "loop_bus 16 16" "(\<lambda>_. 0)(3 := 9)" 9 "(\<lambda>_. 0)(3 := 9)"]
  by (simp add: loop_bus_read bit_numeral_rec)

text \<open>
  The length of a frame is never checked: a frame with more than eight as its length makes
  either driver read past the eight data bytes when it is sent, and a received header with such
  a length makes either driver write past them, whatever the controller does.
\<close>

theorem length_unchecked:
  assumes "frame_wf f" and "8 < can_dlc f" and "8 < st AND (0x0f :: u8)"
  shows "(\<exists>e. peli_send_message b d f = Inl e) \<and> (\<exists>e. basic_send_message b d f = Inl e) \<and>
    (bus_read b d 16 = Inr (st, d1) \<longrightarrow> (\<exists>e. peli_receive_message b d = Inl e)) \<and>
    (bus_read b d 20 = Inr (hd1, d1) \<and> bus_read b d1 21 = Inr (st, d2) \<longrightarrow>
       (\<exists>e. basic_receive_message b d = Inl e))"
proof (intro conjI impI)
  have tx: "\<exists>e. tx_loop b d (can_data f) 0 (unat (can_dlc f)) i = Inl e" for d i
    using assms(1,2) by (intro tx_loop_oob) (simp_all add: frame_wf_def word_less_nat_alt)
  have rx: "\<exists>e. rx_loop b d (can_data frame_zero) 0 (unat (st AND 0x0f)) i = Inl e" for d i
    using assms(3) by (intro rx_loop_oob) (simp_all add: frame_zero_def word_less_nat_alt)
  have no_tx: "tx_loop b d (can_data f) 0 (unat (can_dlc f)) i \<noteq> Inr x" for d i x
    using tx [of d i] by auto
  have no_rx: "rx_loop b d (can_data frame_zero) 0 (unat (st AND 0x0f)) i \<noteq> Inr x" for d i x
    using rx [of d i] by auto
  have fails: "(\<exists>e. m = Inl e) \<longleftrightarrow> (\<forall>x. m \<noteq> Inr x)" for m :: "'x res"
    by (cases m) auto
  show "\<exists>e. peli_send_message b d f = Inl e"
    by (simp add: fails peli_send_message_def Let_def rbind_eq_Inr no_tx)
  show "\<exists>e. basic_send_message b d f = Inl e"
    by (simp add: fails basic_send_message_def Let_def rbind_eq_Inr no_tx)
  show "\<exists>e. peli_receive_message b d = Inl e" if "bus_read b d 16 = Inr (st, d1)"
    by (simp add: fails peli_receive_message_def Let_def rbind_eq_Inr no_rx that split: prod.splits)
  show "\<exists>e. basic_receive_message b d = Inl e" if "bus_read b d 20 = Inr (hd1, d1) \<and> bus_read b d1 21 = Inr (st, d2)"
    using that by (simp add: fails basic_receive_message_def Let_def rbind_eq_Inr no_rx split: prod.splits)
qed

theorem length_unchecked_witness:
  "\<exists>e. peli_send_message (loop_bus 16 16) (\<lambda>_. 0) (frame_zero\<lparr>can_dlc := 9\<rparr>) = Inl e"
  using length_unchecked [of "frame_zero\<lparr>can_dlc := 9\<rparr>" 9 "loop_bus 16 16" "\<lambda>_. 0"]
  by (simp add: frame_wf_def frame_zero_def)

text \<open>
  Switching the mode is bounded: on any controller, a loop that starts its count at zero and
  returns has written the mode register at most three times, and it stops early only when the
  reset bit reads as wanted; if the bit already reads so, it does not touch the controller.
\<close>

theorem mode_switch_bounded:
  "(reset_loop b t 0 d = Inr (t', n, d') \<longrightarrow> n \<le> 3 \<and> (t' AND 1 = 1 \<or> n = 3)) \<and>
   (oper_loop b t 0 d = Inr (t', n, d') \<longrightarrow> n \<le> 3 \<and> (t' AND 1 \<noteq> 1 \<or> n = 3)) \<and>
   (if t AND 1 = 1 then reset_loop b t 0 d else oper_loop b t 0 d) = Inr (t, 0, d)"
  using reset_loop_attempts [of b t 0 d t' n d'] oper_loop_attempts [of b t 0 d t' n d']
  by (auto simp: reset_loop_stop oper_loop_stop)

theorem mode_switch_bounded_witness:
  "\<exists>t' n. reset_loop (loop_bus 16 16) 0 0 (\<lambda>_. 0) = Inr (t', n, (\<lambda>_. 0)(0 := 1)) \<and> n \<le> 3 \<and> t' AND 1 = 1"
proof -
  have "reset_loop (loop_bus 16 16) 0 0 (\<lambda>_. 0) = Inr (1, 1, (\<lambda>_. 0)(0 := 1))"
    by (simp add: reset_loop_step reset_loop_stop loop_bus_read loop_bus_write)
  then show ?thesis
    using mode_switch_bounded [of "loop_bus 16 16" 0 "\<lambda>_. 0" 1 1 "(\<lambda>_. 0)(0 := 1)"] by simp
qed

end
