(* ===== verification/Can_Device4.thy ===== *)
theory Can_Device4
  imports Sja_Bus
begin

unbundle bit_operations_syntax

text \<open>
  The simulated PCI CAN controller of \<open>backup/qemu_linux4\<close> (\<open>can-pci.c\<close>,
  \<open>can-pci.h\<close>): an SJA1000 in PeliCAN mode behind a 128-byte memory BAR.

  The state record has the registers of \<open>CanState\<close>. \<open>irq_line\<close> is the level of
  \<open>s->irq\<close> (\<open>qemu_irq_raise\<close>, \<open>qemu_irq_lower\<close>); \<open>chr_out\<close> is the sequence
  of frames given to \<open>qemu_chr_fe_write\<close>, whose result the code ignores;
  \<open>xmit_deadline\<close> is the armed expiry of \<open>transmit_timer\<close>; \<open>xmit_count\<close> is
  the static variable of \<open>serial_xmit\<close>. The host memory \<open>mem_base\<close>, which the code
  allocates and never accesses, is left out.

  \<open>can_mem_write\<close> decodes into a local \<open>struct can_frame\<close> that is not initialised:
  \<open>junk s\<close> is what the stack holds there in state \<open>s\<close>, and \<open>stack_frame\<close>
  reads it as a frame with the eight bytes its array has.
\<close>

definition stack_frame :: "can_frame \<Rightarrow> can_frame" where
  "stack_frame f = f\<lparr>can_data := take 8 (can_data f @ replicate 8 0)\<rparr>"

lemma frame_wf_stack_frame [simp]: "frame_wf (stack_frame f)"
  by (simp add: stack_frame_def frame_wf_def)

lemma can_id_stack_frame [simp]: "can_id (stack_frame f) = can_id f"
  by (simp add: stack_frame_def)

definition PCI_MEM_SIZE4 :: nat where "PCI_MEM_SIZE4 = 128"

record can_state =
  mode :: u8
  status :: u8
  command :: u8
  trx_buff :: "u8 list"
  code_mask :: "u8 list"
  rx_buff :: "u8 list"
  tx_buff :: "u8 list"
  irq_line :: bool
  chr_out :: "can_frame list"
  xmit_deadline :: "u64 option"
  xmit_count :: int

definition can_hardware_reset :: "can_state \<Rightarrow> can_state" where
  "can_hardware_reset s = s\<lparr>mode := 0x01, status := 0x0c\<rparr>"

text \<open>
  \<open>can_pci_init\<close>: with no character device the process exits (\<open>None\<close>). The object is
  zeroed when it is created.
\<close>

definition can_state_zero :: can_state where
  "can_state_zero = \<lparr>mode = 0, status = 0, command = 0, trx_buff = replicate 13 0,
     code_mask = replicate 8 0, rx_buff = replicate 64 0, tx_buff = replicate 13 0,
     irq_line = False, chr_out = [], xmit_deadline = None, xmit_count = 1\<rparr>"

definition can_pci_init :: "bool \<Rightarrow> can_state option" where
  "can_pci_init has_chr =
     (if \<not> has_chr then None
      else Some (can_hardware_reset (can_state_zero\<lparr>irq_line := False\<rparr>)))"

section \<open>Decoding the transmit buffer\<close>

text \<open>
  The two data loops of \<open>buff2frame\<close>: \<open>for (i = 0; i < can_dlc; i++) data[i] = buff[off + i]\<close>
  and \<open>for (; i < 8; i++) data[i] = 0\<close>, with the iterations left as the second-last argument.
\<close>

fun copy_loop :: "u8 list \<Rightarrow> nat \<Rightarrow> nat \<Rightarrow> nat \<Rightarrow> u8 list \<Rightarrow> u8 list res" where
  "copy_loop buff off i 0 data = Inr data"
| "copy_loop buff off i (Suc n) data =
     rbind (arr_get buff (off + i)) (\<lambda>v.
     rbind (arr_set data i v) (\<lambda>data.
     copy_loop buff off (Suc i) n data))"

fun zero_loop :: "nat \<Rightarrow> nat \<Rightarrow> u8 list \<Rightarrow> u8 list res" where
  "zero_loop i 0 data = Inr data"
| "zero_loop i (Suc n) data = rbind (arr_set data i 0) (\<lambda>data. zero_loop (Suc i) n data)"

definition copy_data :: "u8 list \<Rightarrow> nat \<Rightarrow> nat \<Rightarrow> u8 list \<Rightarrow> u8 list res" where
  "copy_data buff off dlc data =
     rbind (copy_loop buff off 0 dlc data) (\<lambda>data. zero_loop dlc (8 - dlc) data)"

definition buff2frame :: "u8 list \<Rightarrow> can_frame \<Rightarrow> can_frame res" where
  "buff2frame buff can =
     rbind (arr_get buff 0) (\<lambda>b0.
     rbind (arr_get buff 1) (\<lambda>b1.
     rbind (arr_get buff 2) (\<lambda>b2.
     let cid = (if b0 AND 0x40 \<noteq> 0 then push_bit 30 0x01 else can_id can);
         dlc = b0 AND 0x0f
     in if b0 AND 0x80 \<noteq> 0 then
          rbind (arr_get buff 3) (\<lambda>b3.
          rbind (arr_get buff 4) (\<lambda>b4.
          let cid = cid OR push_bit 31 0x01 OR push_bit 21 (ucast b1) OR push_bit 13 (ucast b2)
                    OR push_bit 5 (ucast b3) OR drop_bit 3 (ucast b4)
          in rbind (copy_data buff 5 (unat dlc) (can_data can)) (\<lambda>data.
             Inr \<lparr>can_id = cid, can_dlc = dlc, can_data = data\<rparr>)))
        else
          let cid = cid OR push_bit 3 (ucast b1) OR drop_bit 5 (ucast b2)
          in rbind (copy_data buff 3 (unat dlc) (can_data can)) (\<lambda>data.
             Inr \<lparr>can_id = cid, can_dlc = dlc, can_data = data\<rparr>))))"

lemma copy_loop_eq:
  "i + n \<le> length data \<Longrightarrow> off + i + n \<le> length buff \<Longrightarrow>
     copy_loop buff off i n data = Inr (take i data @ take n (drop (off + i) buff) @ drop (i + n) data)"
proof (induction n arbitrary: i data)
  case 0
  then show ?case by simp
next
  case (Suc n)
  then have "take (Suc n) (drop (off + i) buff) = buff ! (off + i) # take n (drop (Suc (off + i)) buff)"
    by (simp add: Cons_nth_drop_Suc [symmetric])
  with Suc show ?case by (simp add: take_update_append)
qed

lemma zero_loop_eq:
  "i + n \<le> length data \<Longrightarrow>
     zero_loop i n data = Inr (take i data @ replicate n 0 @ drop (i + n) data)"
  by (induction n arbitrary: i data) (simp_all add: take_update_append)

lemma copy_loop_oob:
  "length data < i + n \<Longrightarrow> i \<le> length data \<Longrightarrow> copy_loop buff off i n data = Inl OutOfBounds"
proof (induction n arbitrary: i data)
  case 0
  then show ?case by simp
next
  case (Suc n)
  then show ?case
    by (cases "off + i < length buff"; cases "i < length data") auto
qed

lemma copy_data_eq:
  "length data = 8 \<Longrightarrow> dlc \<le> 8 \<Longrightarrow> off + dlc \<le> length buff \<Longrightarrow>
     copy_data buff off dlc data = Inr (zero_padded (take dlc (drop off buff)))"
  by (simp add: copy_data_def copy_loop_eq zero_loop_eq zero_padded_def)

lemma copy_data_oob:
  "length data = 8 \<Longrightarrow> 8 < dlc \<Longrightarrow> copy_data buff off dlc data = Inl OutOfBounds"
  by (simp add: copy_data_def copy_loop_oob)

text \<open>
  The decoder on a 13-byte buffer: the identifier it builds, and the frame when the data
  length is legal. A longer data length leaves the arrays of the function.
\<close>

definition buff_id :: "u32 \<Rightarrow> u8 list \<Rightarrow> u32" where
  "buff_id junk_id buff =
     (let cid = (if buff ! 0 AND 0x40 \<noteq> 0 then 0x40000000 else junk_id)
      in if buff ! 0 AND 0x80 \<noteq> 0
         then cid OR 0x80000000 OR push_bit 21 (ucast (buff ! 1)) OR push_bit 13 (ucast (buff ! 2))
              OR push_bit 5 (ucast (buff ! 3)) OR drop_bit 3 (ucast (buff ! 4))
         else cid OR push_bit 3 (ucast (buff ! 1)) OR drop_bit 5 (ucast (buff ! 2)))"

definition buff_data :: "u8 list \<Rightarrow> u8 list" where
  "buff_data buff =
     take (unat (buff ! 0 AND 0x0f)) (drop (if buff ! 0 AND 0x80 \<noteq> 0 then 5 else 3) buff)"

lemma buff2frame_ok:
  assumes "length buff = 13" and "frame_wf can" and "buff ! 0 AND 0x0f \<le> 8"
  shows "buff2frame buff can =
    Inr \<lparr>can_id = buff_id (can_id can) buff, can_dlc = buff ! 0 AND 0x0f,
         can_data = zero_padded (buff_data buff)\<rparr>"
  using assms unfolding buff2frame_def buff_id_def buff_data_def frame_wf_def
  by (simp add: copy_data_eq word_le_nat_alt Let_def push_bit_eq_mult)

lemma buff2frame_overflow:
  assumes "length buff = 13" and "frame_wf can" and "8 < buff ! 0 AND 0x0f"
  shows "buff2frame buff can = Inl OutOfBounds"
  using assms unfolding buff2frame_def frame_wf_def
  by (simp add: copy_data_oob word_less_nat_alt Let_def)

text \<open>\<open>display_msg\<close>: what it prints, the identifier, the length and the data bytes it reads.\<close>

fun read_loop :: "u8 list \<Rightarrow> nat \<Rightarrow> nat \<Rightarrow> u8 list res" where
  "read_loop data i 0 = Inr []"
| "read_loop data i (Suc n) =
     rbind (arr_get data i) (\<lambda>v. rbind (read_loop data (Suc i) n) (\<lambda>vs. Inr (v # vs)))"

definition display_msg :: "can_frame \<Rightarrow> (u32 \<times> u8 \<times> u8 list) res" where
  "display_msg msg =
     rbind (read_loop (can_data msg) 0 (unat (can_dlc msg))) (\<lambda>vs.
     Inr (can_id msg AND 0x1fffffff, can_dlc msg, vs))"

lemma read_loop_eq:
  "i + n \<le> length data \<Longrightarrow> read_loop data i n = Inr (take n (drop i data))"
proof (induction n arbitrary: i)
  case 0
  then show ?case by simp
next
  case (Suc n)
  then show ?case by (simp add: Cons_nth_drop_Suc [symmetric])
qed

lemma display_msg_ok:
  "frame_wf f \<Longrightarrow> can_dlc f \<le> 8 \<Longrightarrow> display_msg f = Inr (can_id f AND 0x1fffffff, can_dlc f, payload f)"
  by (simp add: display_msg_def read_loop_eq frame_wf_def payload_def word_le_nat_alt)

section \<open>The memory BAR\<close>

definition can_mem_write :: "(can_state \<Rightarrow> can_frame) \<Rightarrow> can_state \<Rightarrow> nat \<Rightarrow> u64 \<Rightarrow> can_state res" where
  "can_mem_write junk s addr val =
     (if PCI_MEM_SIZE4 < addr then Inr s
      else if addr = 0 then Inr (s\<lparr>mode := ucast (0x1f AND val)\<rparr>)
      else if addr = 1 then
        (if 0x01 AND val \<noteq> 0 then
           let s1 = s\<lparr>tx_buff := trx_buff s\<rparr>
           in rbind (buff2frame (tx_buff s1) (stack_frame (junk s))) (\<lambda>can.
              rbind (display_msg can) (\<lambda>_.
              Inr (s1\<lparr>chr_out := chr_out s1 @ [can], irq_line := True\<rparr>)))
         else Inr s)
      else if 16 \<le> addr \<and> addr \<le> 28 then
        (if mode s AND 0x01 \<noteq> 0 then
           (if addr < 24 then
              rbind (arr_set (code_mask s) (addr - 16) (ucast val)) (\<lambda>m. Inr (s\<lparr>code_mask := m\<rparr>))
            else Inr s)
         else rbind (arr_set (trx_buff s) (addr - 16) (ucast val)) (\<lambda>t. Inr (s\<lparr>trx_buff := t\<rparr>)))
      else if addr = 127 then (if val = 0x33 then Inr (s\<lparr>irq_line := False\<rparr>) else Inr s)
      else Inr s)"

definition can_mem_read :: "can_state \<Rightarrow> nat \<Rightarrow> u64" where
  "can_mem_read s addr =
     (if PCI_MEM_SIZE4 < addr then 0
      else if addr = 0 then ucast (mode s)
      else if addr = 2 then ucast (status s)
      else 0xff)"

text \<open>The port BAR does nothing: \<open>can_ioport_write\<close>, \<open>can_ioport_read\<close>.\<close>

definition can_ioport_write :: "can_state \<Rightarrow> nat \<Rightarrow> u64 \<Rightarrow> can_state" where
  "can_ioport_write s addr val = s"

definition can_ioport_read :: "can_state \<Rightarrow> nat \<Rightarrow> u64" where
  "can_ioport_read s addr = 0"

text \<open>
  \<open>serial_xmit\<close>, the timer callback: \<open>now\<close> is the clock of \<open>vm_clock\<close> and
  \<open>ticks\<close> what \<open>get_ticks_per_sec()\<close> returns.
\<close>

definition serial_xmit4 :: "u64 \<Rightarrow> u64 \<Rightarrow> can_state \<Rightarrow> can_state" where
  "serial_xmit4 now ticks s =
     (if xmit_count s \<noteq> 0 then
        s\<lparr>irq_line := True, xmit_count := 0, xmit_deadline := Some (now + ticks div 1000)\<rparr>
      else s\<lparr>xmit_count := 1, irq_line := False\<rparr>)"

text \<open>The controller as the bus of a driver: one-byte accesses to the memory BAR.\<close>

definition dev4_bus :: "(can_state \<Rightarrow> can_frame) \<Rightarrow> can_state bus" where
  "dev4_bus junk = \<lparr>bus_read = (\<lambda>s a. Inr (ucast (can_mem_read s a), s)),
                    bus_write = (\<lambda>s a v. can_mem_write junk s a (ucast v))\<rparr>"

section \<open>The invariant of the controller\<close>

definition can_state_wf :: "can_state \<Rightarrow> bool" where
  "can_state_wf s \<longleftrightarrow> length (trx_buff s) = 13 \<and> length (code_mask s) = 8 \<and>
     length (rx_buff s) = 64 \<and> length (tx_buff s) = 13 \<and> mode s AND 0xe0 = 0 \<and> status s = 0x0c"

lemma can_pci_init_wf: "can_pci_init True = Some s \<Longrightarrow> can_state_wf s \<and> chr_out s = []"
  by (auto simp: can_pci_init_def can_hardware_reset_def can_state_zero_def can_state_wf_def)

lemma mode_write_high_bits:
  "ucast (0x1f AND (val :: u64)) AND (0xe0 :: u8) = 0"
  by (rule bit_word_eqI) (auto simp: bit_simps word_bits)

lemma can_mem_write_wf:
  assumes "can_state_wf s" and "can_mem_write junk s addr val = Inr s'"
  shows "can_state_wf s'"
  using assms mode_write_high_bits [of val]
  by (auto simp: can_mem_write_def can_state_wf_def Let_def arr_set_def rbind_eq_Inr split: if_splits)

section \<open>The controller provides the transmit interface\<close>

definition op_mode :: "can_state \<Rightarrow> bool" where
  "op_mode s \<longleftrightarrow> mode s AND 0x01 = 0 \<and> can_state_wf s"

definition legal_buff :: "u8 list \<Rightarrow> bool" where
  "legal_buff buff \<longleftrightarrow> buff ! 0 AND 0x0f \<le> 8"

definition sent_frame :: "(can_state \<Rightarrow> can_frame) \<Rightarrow> can_state \<Rightarrow> u8 list \<Rightarrow> can_frame" where
  "sent_frame junk s buff = \<lparr>can_id = buff_id (can_id (junk s)) buff, can_dlc = buff ! 0 AND 0x0f,
     can_data = zero_padded (buff_data buff)\<rparr>"

lemma length_buff_data: "legal_buff buff \<Longrightarrow> length (buff_data buff) \<le> 8"
  by (simp add: buff_data_def legal_buff_def word_le_nat_alt min_def)

lemma can_mem_write_window:
  assumes "op_mode s" and "k < 13"
  shows "can_mem_write junk s (16 + k) (ucast v) = Inr (s\<lparr>trx_buff := (trx_buff s)[k := v]\<rparr>)"
  using assms by (simp add: can_mem_write_def op_mode_def can_state_wf_def PCI_MEM_SIZE4_def)

lemma can_mem_write_request:
  assumes "op_mode s" and "legal_buff (trx_buff s)"
  shows "can_mem_write junk s 1 1 = Inr (s\<lparr>tx_buff := trx_buff s,
           chr_out := chr_out s @ [sent_frame junk s (trx_buff s)], irq_line := True\<rparr>)"
proof -
  let ?f = "sent_frame junk s (trx_buff s)"
  have "buff2frame (trx_buff s) (stack_frame (junk s)) = Inr ?f"
    using assms by (simp add: buff2frame_ok op_mode_def can_state_wf_def legal_buff_def sent_frame_def)
  moreover have "frame_wf ?f"
    using length_buff_data [OF assms(2)] by (simp add: sent_frame_def frame_wf_def)
  then have "display_msg ?f = Inr (can_id ?f AND 0x1fffffff, can_dlc ?f, payload ?f)"
    using assms(2) by (intro display_msg_ok) (simp_all add: sent_frame_def legal_buff_def)
  ultimately show ?thesis
    by (simp add: can_mem_write_def PCI_MEM_SIZE4_def)
qed

interpretation dev4: sja_tx "dev4_bus junk" 16 trx_buff op_mode chr_out legal_buff "sent_frame junk" 1
  for junk
proof
  fix s :: can_state
  assume "op_mode s"
  then show "length (trx_buff s) = 13" by (simp add: op_mode_def can_state_wf_def)
next
  fix s :: can_state and k :: nat and v :: u8
  assume "op_mode s" and "k < 13"
  then have "op_mode (s\<lparr>trx_buff := (trx_buff s)[k := v]\<rparr>)"
    by (simp add: op_mode_def can_state_wf_def)
  with can_mem_write_window [OF \<open>op_mode s\<close> \<open>k < 13\<close>]
  show "\<exists>d'. bus_write (dev4_bus junk) s (16 + k) v = Inr d' \<and> op_mode d' \<and>
      trx_buff d' = (trx_buff s)[k := v] \<and> chr_out d' = chr_out s"
    by (simp add: dev4_bus_def)
next
  fix s :: can_state
  assume "op_mode s" and "legal_buff (trx_buff s)"
  then show "\<exists>d'. bus_write (dev4_bus junk) s 1 1 = Inr d' \<and> op_mode d' \<and>
      trx_buff d' = trx_buff s \<and> chr_out d' = chr_out s @ [sent_frame junk s (trx_buff s)]"
    using can_mem_write_request [of s junk]
    by (auto simp: dev4_bus_def op_mode_def can_state_wf_def)
qed

definition peek4 :: "can_state \<Rightarrow> nat \<Rightarrow> u8" where
  "peek4 s a = ucast (can_mem_read s a)"

interpretation dev4_regs: pure_regs "dev4_bus junk" peek4 for junk
  by unfold_locales (simp add: dev4_bus_def peek4_def)

section \<open>Properties\<close>

lemma can_mem_write_ok:
  assumes "can_state_wf s" and "\<not> (addr = 1 \<and> bit val 0 \<and> 8 < trx_buff s ! 0 AND 0x0f)"
  shows "\<exists>s'. can_mem_write junk s addr val = Inr s'"
proof (cases "addr = 1 \<and> bit val 0")
  case True
  let ?f = "sent_frame junk s (trx_buff s)"
  have legal: "legal_buff (trx_buff s)" using assms(2) True by (simp add: legal_buff_def not_less)
  have "buff2frame (trx_buff s) (stack_frame (junk s)) = Inr ?f"
    using assms(1) legal by (simp add: buff2frame_ok can_state_wf_def legal_buff_def sent_frame_def)
  moreover have "frame_wf ?f"
    using length_buff_data [OF legal] by (simp add: sent_frame_def frame_wf_def)
  then have "display_msg ?f = Inr (can_id ?f AND 0x1fffffff, can_dlc ?f, payload ?f)"
    using legal by (intro display_msg_ok) (simp_all add: sent_frame_def legal_buff_def)
  ultimately show ?thesis
    using True by (simp add: can_mem_write_def PCI_MEM_SIZE4_def)
next
  case False
  have "0x01 AND val = 0" if "\<not> bit val 0"
    by (rule bit_word_eqI) (use that in \<open>auto simp: bit_simps bit_1_iff\<close>)
  with False assms(1) show ?thesis
    by (auto simp: can_mem_write_def can_state_wf_def)
qed

lemma can_mem_write_overflow:
  assumes "can_state_wf s" and "bit val 0" and "8 < trx_buff s ! 0 AND 0x0f"
  shows "can_mem_write junk s 1 val = Inl OutOfBounds"
proof -
  have "0x01 AND val \<noteq> 0"
    using assms(2) by (metis and_push_bit_neq_0 and.commute len_num1 push_bit_0_id id_apply len_gt_0)
  then show ?thesis
    using assms by (simp add: can_mem_write_def PCI_MEM_SIZE4_def can_state_wf_def buff2frame_overflow)
qed

text \<open>
  C27. The controller checks neither the length field nor the window: on a well-formed state a write
  leaves the program's arrays exactly when it requests a transmission (bit 0 of the command
  register) while the length field of the transmit buffer is above eight. Every other write, of
  any value at any address, returns a well-formed state.
\<close>

theorem can_mem_write_total:
  assumes "can_state_wf s"
  shows "if addr = 1 \<and> bit val 0 \<and> 8 < trx_buff s ! 0 AND 0x0f
         then can_mem_write junk s addr val = Inl OutOfBounds
         else \<exists>s'. can_mem_write junk s addr val = Inr s' \<and> can_state_wf s'"
  using can_mem_write_ok [OF assms, of addr val junk] can_mem_write_overflow [OF assms, of val junk]
    can_mem_write_wf [OF assms, of junk addr val] by (cases "addr = 1") auto

theorem can_mem_write_total_witness:
  "can_mem_write (\<lambda>_. frame_zero) (can_state_zero\<lparr>status := 0x0c, trx_buff := 9 # replicate 12 0\<rparr>) 1 1 = Inl OutOfBounds"
  using can_mem_write_total [of "can_state_zero\<lparr>status := 0x0c, trx_buff := 9 # replicate 12 0\<rparr>" 1 1 "\<lambda>_. frame_zero"]
  by (simp add: can_state_wf_def can_state_zero_def)

end
