(* ===== verification/Can_Driver4.thy ===== *)
theory Can_Driver4
  imports Can_Device4 Pelican_Driver Basic_Driver
begin

unbundle bit_operations_syntax

text \<open>
  The guest side of \<open>backup/qemu_linux4\<close>: the driver \<open>qemu_test/qemu_test_pci.c\<close> and the
  test program \<open>qemu_test/main.c\<close>, and the interpretation of the mode interface on the
  simulated controller, by which all three drivers open it.

  \<open>can_dev4\<close> is this driver's device structure. It counts the queued bytes in units of
  \<open>sizeof(struct can_dev)\<close>, whose value depends on the kernel's \<open>struct cdev\<close>; the
  operations take it as the argument \<open>sz\<close>.
\<close>

section \<open>The controller and the mode interface\<close>

definition in_reset4 :: "can_state \<Rightarrow> bool" where
  "in_reset4 s \<longleftrightarrow> mode s AND 0x01 = 0x01"

lemma op_mode_iff: "op_mode s \<longleftrightarrow> can_state_wf s \<and> \<not> in_reset4 s"
  by (auto simp: op_mode_def in_reset4_def u8_flags u8_flags_self)

text \<open>The states the mode switch stays in: well formed, with the frames \<open>out\<close> sent so far.\<close>

definition good4 :: "can_frame list \<Rightarrow> can_state \<Rightarrow> bool" where
  "good4 out s \<longleftrightarrow> can_state_wf s \<and> chr_out s = out"

lemma can_mem_write_other:
  assumes "can_state_wf s" and "a \<noteq> 1"
  shows "\<exists>s'. can_mem_write junk s a val = Inr s' \<and> chr_out s' = chr_out s \<and>
    in_reset4 s' = (if a = 0 then bit val 0 else in_reset4 s)"
  using assms
  by (auto simp: can_mem_write_def can_state_wf_def in_reset4_def u8_flags_self bit_simps word_bits arr_set_def)

interpretation dev4_mode: mode_ctl "dev4_bus junk" "good4 out" in_reset4 for junk out
proof
  fix s :: can_state and a :: nat
  assume "good4 out s"
  then show "\<exists>v d'. bus_read (dev4_bus junk) s a = Inr (v, d') \<and> good4 out d' \<and> in_reset4 d' = in_reset4 s \<and>
      (a = 0 \<longrightarrow> (v AND 0x01 = 0x01) = in_reset4 s)"
    by (auto simp: dev4_bus_def can_mem_read_def in_reset4_def PCI_MEM_SIZE4_def)
next
  fix s :: can_state and a :: nat and v :: u8
  assume good: "good4 out s" and a: "a \<noteq> 1"
  then have wf: "can_state_wf s" by (simp add: good4_def)
  obtain s' where "can_mem_write junk s a (ucast v) = Inr s'" "chr_out s' = chr_out s"
      "in_reset4 s' = (if a = 0 then bit (ucast v :: u64) 0 else in_reset4 s)"
    using can_mem_write_other [OF wf a, of junk "ucast v"] by blast
  then show "\<exists>d'. bus_write (dev4_bus junk) s a v = Inr d' \<and> good4 out d' \<and>
      in_reset4 d' = (if a = 0 then v AND 0x01 = 0x01 else in_reset4 s)"
    using can_mem_write_wf [OF wf, of junk a "ucast v" s'] good
    by (auto simp: dev4_bus_def u8_flags_self bit_simps good4_def)
qed

section \<open>The driver\<close>

record can_dev4 =
  tx4_buf :: "can_frame list"
  tx4_count :: u64
  tx4_in :: nat
  tx4_out :: nat

definition can_dev4_zero :: can_dev4 where
  "can_dev4_zero = \<lparr>tx4_buf = replicate BUFFERSIZE frame_zero, tx4_count = 0, tx4_in = 0, tx4_out = 0\<rparr>"

definition drv4_irq_handler :: "'d bus \<Rightarrow> 'd \<Rightarrow> 'd res" where
  "drv4_irq_handler b d = bus_write b d 127 0x33"

text \<open>The attempts of the two loops share one counter.\<close>

definition drv4_device_open :: "'d bus \<Rightarrow> can_dev4 \<Rightarrow> 'd \<Rightarrow> (int \<times> can_dev4 \<times> 'd) res" where
  "drv4_device_open b cd d =
     (let cd = cd\<lparr>tx4_buf := replicate BUFFERSIZE frame_zero\<rparr> in
      rbind (bus_read b d SJA_MODE_REG) (\<lambda>(temp, d).
      rbind (reset_loop b temp 0 d) (\<lambda>(temp, count, d).
      if temp AND RESET_BIT \<noteq> RESET_BIT then Inr (- EFAULT, cd, d)
      else
        rbind (bus_read b d SJA_MODE_REG) (\<lambda>(temp, d).
        rbind (oper_loop b temp count d) (\<lambda>(temp, count, d).
        if temp AND RESET_BIT = RESET_BIT then Inr (- EFAULT, cd, d)
        else Inr (0, cd, d))))))"

definition drv4_device_release :: "int" where
  "drv4_device_release = 0"

definition drv4_device_read :: "nat \<Rightarrow> int" where
  "drv4_device_read count = 0"

text \<open>
  \<open>device_write\<close>: the size tests are on \<open>size_t\<close>; the register writes are the statements
  of the PeliCAN driver's \<open>send_message\<close>. It returns 0 when it has sent.
\<close>

definition drv4_device_write :: "u64 \<Rightarrow> 'd bus \<Rightarrow> can_dev4 \<Rightarrow> 'd \<Rightarrow> u64 \<Rightarrow> bool \<Rightarrow> can_frame \<Rightarrow>
    (int \<times> can_dev4 \<times> 'd) res" where
  "drv4_device_write sz b cd d count copy_fails frm =
     (if 6 * sz - tx4_count cd < count then Inr (- EFBIG, cd, d)
      else if count \<noteq> 16 then Inr (- EINVAL, cd, d)
      else
        rbind (arr_set (tx4_buf cd) (tx4_in cd) frm) (\<lambda>buf.
        let cd = cd\<lparr>tx4_buf := buf\<rparr>;
            ret = (if copy_fails then - EFAULT else 0)
        in rbind (bus_read b d SJA_STATUS_REG) (\<lambda>(temp, d).
           if temp AND TBS \<noteq> TBS then
             Inr (uint count,
                  cd\<lparr>tx4_count := tx4_count cd + sz,
                     tx4_in := (if tx4_in cd + 1 = BUFFERSIZE then 0 else tx4_in cd + 1)\<rparr>, d)
           else
             rbind (arr_get (tx4_buf cd) (tx4_in cd)) (\<lambda>f.
             rbind (peli_send_message b d f) (\<lambda>d. Inr (ret, cd, d))))))"

lemma drv4_open_succeeds:
  assumes "good4 out s"
  shows "\<exists>s'. drv4_device_open (dev4_bus junk) cd s =
    Inr (0, cd\<lparr>tx4_buf := replicate BUFFERSIZE frame_zero\<rparr>, s') \<and> op_mode s' \<and> chr_out s' = out"
proof -
  let ?b = "dev4_bus junk"
  obtain v0 d0 where s0: "bus_read ?b s 0 = Inr (v0, d0)" "good4 out d0" "(v0 AND RESET_BIT = RESET_BIT) = in_reset4 d0"
    using dev4_mode.read_reg [OF assms, of junk 0] by auto
  obtain v1 c1 d1 where s1: "reset_loop ?b v0 0 d0 = Inr (v1, c1, d1)" "v1 AND RESET_BIT = RESET_BIT"
      "c1 \<le> Suc 0" "good4 out d1" "in_reset4 d1"
    using dev4_mode.enter_reset [OF s0(2,3), of 0 junk] by auto
  obtain v2 d2 where s2: "bus_read ?b d1 0 = Inr (v2, d2)" "good4 out d2" "(v2 AND RESET_BIT = RESET_BIT) = in_reset4 d2"
    using dev4_mode.read_reg [OF s1(4), of junk 0] by auto
  obtain v3 c3 d3 where s3: "oper_loop ?b v2 c1 d2 = Inr (v3, c3, d3)" "v3 AND RESET_BIT \<noteq> RESET_BIT"
      "good4 out d3" "\<not> in_reset4 d3"
    using dev4_mode.leave_reset [OF s2(2,3), of c1 junk] s1(3) by auto
  show ?thesis
    by (simp only: drv4_device_open_def Let_def s0(1) s1(1,2) s2(1) s3(1,2) rbind_Inr prod.case
        not_True_eq_False not_False_eq_True simp_thms if_True if_False)
      (use s3 in \<open>auto simp: op_mode_iff good4_def\<close>)
qed

section \<open>From the driver to the backend\<close>

text \<open>
  The frame that leaves the controller for a frame the driver sends: bit 2 of a standard
  identifier is lost, the error flag is never carried, the bytes after the payload are zero,
  and the stack contents shine through unless the RTR flag is set.
\<close>

definition delivered4 :: "u32 \<Rightarrow> can_frame \<Rightarrow> can_frame" where
  "delivered4 junk_id f =
     \<lparr>can_id = (if is_rtr (can_id f) then 0 else junk_id) OR
               (can_id f AND (if is_eff (can_id f) then 0xdfffffff else 0x400007fb)),
      can_dlc = can_dlc f, can_data = zero_padded (payload f)\<rparr>"

lemma buff_id_peli:
  assumes "frame_wf f" and "can_dlc f \<le> 8" and "take (length (peli_image f)) buff = peli_image f"
  shows "buff_id junk_id buff = (if is_rtr (can_id f) then 0 else junk_id) OR
           (can_id f AND (if is_eff (can_id f) then 0xdfffffff else 0x400007fb))"
proof -
  have nth: "buff ! k = peli_image f ! k" if "k < length (peli_image f)" for k
    using assms(3) that by (metis nth_take)
  have len: "peli_image f \<noteq> []" "3 \<le> length (peli_image f)" "is_eff (can_id f) \<Longrightarrow> 5 \<le> length (peli_image f)"
    by (simp_all add: peli_image_def Let_def)
  have b0: "buff ! 0 = peli_info f" and b1: "buff ! 1 = peli_image f ! 1" and b2: "buff ! 2 = peli_image f ! 2"
    using nth [of 0] nth [of 1] nth [of 2] len by (simp_all add: peli_image_nth)
  show ?thesis
  proof (cases "is_eff (can_id f)")
    case True
    then have b34: "buff ! 3 = peli_image f ! 3" "buff ! 4 = peli_image f ! 4"
      using nth [of 3] nth [of 4] len by simp_all
    let ?c = "can_id f"
    have "(if is_rtr ?c then 0x40000000 else junk_id) OR 0x80000000
        OR push_bit 21 (ucast (ucast (drop_bit 21 ?c AND 0xff) :: u8))
        OR push_bit 13 (ucast (ucast (drop_bit 13 ?c AND 0xff) :: u8))
        OR push_bit 5 (ucast (ucast (drop_bit 5 ?c AND 0xff) :: u8))
        OR drop_bit 3 (ucast (ucast (push_bit 3 (?c AND 0x1f)) :: u8))
        = (if is_rtr ?c then 0 else junk_id) OR (?c AND 0xdfffffff)" (is "?l = ?r")
    proof (rule bit_word_eqI)
      fix n :: nat
      assume "n < LENGTH(32)"
      then consider "n < 5" | "5 \<le> n" "n < 13" | "13 \<le> n" "n < 21" | "21 \<le> n" "n < 29"
        | "n = 29" | "n = 30" | "n = 31" by fastforce
      then show "bit ?l n = bit ?r n"
        by cases (use True in \<open>auto simp: bit_simps word_bits\<close>)
    qed
    with True show ?thesis
      by (simp only: buff_id_def b0 b1 b2 b34 peli_info_bits [OF assms(2)] Let_def peli_image_nth if_True)
  next
    case False
    let ?c = "can_id f"
    have "(if is_rtr ?c then 0x40000000 else junk_id)
        OR push_bit 3 (ucast (ucast (drop_bit 3 ?c AND 0xff) :: u8))
        OR drop_bit 5 (ucast (ucast (push_bit 5 (?c AND 0x03)) :: u8))
        = (if is_rtr ?c then 0 else junk_id) OR (?c AND 0x400007fb)" (is "?l = ?r")
    proof (rule bit_word_eqI)
      fix n :: nat
      assume "n < LENGTH(32)"
      then consider "n < 2" | "n = 2" | "3 \<le> n" "n < 11" | "11 \<le> n" "n < 30" | "n = 30" | "n = 31"
        by fastforce
      then show "bit ?l n = bit ?r n"
        by cases (auto simp: bit_simps word_bits)
    qed
    with False show ?thesis
      by (simp only: buff_id_def b0 b1 b2 peli_info_bits [OF assms(2)] Let_def peli_image_nth(6,7)
          not_False_eq_True if_False)
  qed
qed

lemma sent_frame_peli:
  assumes wf: "frame_wf f" and dlc: "can_dlc f \<le> 8" and buff: "take (length (peli_image f)) buff = peli_image f"
  shows "sent_frame junk s buff = delivered4 (can_id (junk s)) f" and "legal_buff buff"
proof -
  have len: "length (peli_image f) = (if is_eff (can_id f) then 5 else 3) + unat (can_dlc f)"
    using length_payload [OF wf dlc] by (simp add: peli_image_def Let_def)
  have "0 < length (peli_image f)" by (simp add: len)
  then have "buff ! 0 = take (length (peli_image f)) buff ! 0" by (rule nth_take [symmetric])
  also have "\<dots> = peli_info f" by (simp only: buff peli_image_nth)
  finally have b0: "buff ! 0 = peli_info f" .
  have "buff_data buff = take (unat (can_dlc f)) (drop (if is_eff (can_id f) then 5 else 3) buff)"
    by (simp only: buff_data_def b0 peli_info_bits [OF dlc])
  also have "\<dots> = drop (if is_eff (can_id f) then 5 else 3) (take (length (peli_image f)) buff)"
    by (simp add: len drop_take)
  also have "\<dots> = payload f"
    by (simp only: buff peli_image_drop)
  finally have "buff_data buff = payload f" .
  then show "sent_frame junk s buff = delivered4 (can_id (junk s)) f"
    using buff_id_peli [OF assms, of "can_id (junk s)"]
    by (simp add: sent_frame_def delivered4_def b0 peli_info_bits [OF dlc])
  show "legal_buff buff"
    using dlc by (simp only: legal_buff_def b0 peli_info_bits [OF dlc])
qed

lemma peli_send_dev4:
  assumes "op_mode s" and wf: "frame_wf f" and dlc: "can_dlc f \<le> 8"
  shows "\<exists>s' j. peli_send_message (dev4_bus junk) s f = Inr s' \<and> op_mode s' \<and> irq_line s' \<and>
    chr_out s' = chr_out s @ [delivered4 (can_id (junk j)) f]"
proof -
  let ?img = "peli_image f" and ?b = "dev4_bus junk"
  let ?buff = "?img @ drop (length ?img) (trx_buff s)"
  have "take (length ?img) ?buff = ?img" by simp
  note sf = sent_frame_peli [OF wf dlc this]
  from dev4.send_image [OF assms(1) length_peli_image [OF wf dlc] sf(2), of junk]
  obtain d1 d2 where "write_seq ?b s 16 ?img = Inr d1" "bus_write ?b d1 1 1 = Inr d2" "op_mode d2"
      "chr_out d2 = chr_out s @ [sent_frame junk d1 ?buff]"
    by blast
  moreover from this have "irq_line d2"
    by (auto simp: dev4_bus_def can_mem_write_def PCI_MEM_SIZE4_def rbind_eq_Inr)
  ultimately show ?thesis
    using sf(1) [of junk d1] by (auto simp: peli_send_image [OF wf dlc])
qed

text \<open>A write on the simulated controller, whose status register always says released.\<close>

definition cd4_ok :: "can_dev4 \<Rightarrow> bool" where
  "cd4_ok cd \<longleftrightarrow> length (tx4_buf cd) = BUFFERSIZE \<and> tx4_count cd = 0 \<and> tx4_in cd < BUFFERSIZE"

lemma drv4_write_dev4:
  assumes "op_mode s" and wf: "frame_wf f" and dlc: "can_dlc f \<le> 8" and cd: "cd4_ok cd" and sz: "16 \<le> 6 * sz"
  shows "\<exists>s' cd' j. drv4_device_write sz (dev4_bus junk) cd s 16 False f = Inr (0, cd', s') \<and>
    op_mode s' \<and> irq_line s' \<and> cd4_ok cd' \<and> chr_out s' = chr_out s @ [delivered4 (can_id (junk j)) f]"
proof -
  obtain s' j where s': "peli_send_message (dev4_bus junk) s f = Inr s'" "op_mode s'" "irq_line s'"
      "chr_out s' = chr_out s @ [delivered4 (can_id (junk j)) f]"
    using peli_send_dev4 [OF assms(1) wf dlc] by blast
  have "bus_read (dev4_bus junk) s 2 = Inr (0x0c, s)"
    using assms(1) by (simp add: dev4_bus_def can_mem_read_def PCI_MEM_SIZE4_def op_mode_def can_state_wf_def)
  with s' cd sz show ?thesis
    by (auto simp: drv4_device_write_def cd4_ok_def not_less)
qed

lemma cd4_ok_open: "cd4_ok cd \<Longrightarrow> cd4_ok (cd\<lparr>tx4_buf := replicate BUFFERSIZE frame_zero\<rparr>)"
  by (simp add: cd4_ok_def)

section \<open>The test program\<close>

text \<open>
  \<open>main\<close>: the frames it writes and what it does with the return values; \<open>True\<close> is the
  normal end, \<open>False\<close> is \<open>exit(EXIT_FAILURE)\<close>. \<open>close\<close> calls \<open>device_release\<close>, which does
  nothing here.
\<close>

definition main4_std :: can_frame where
  "main4_std = \<lparr>can_id = 0x123, can_dlc = 3, can_data = [0x12, 0x34, 0x56, 0, 0, 0, 0, 0]\<rparr>"

definition main4_ext :: can_frame where
  "main4_ext = \<lparr>can_id = push_bit 31 1 + 0x12345678, can_dlc = 6,
     can_data = [0x12, 0x34, 0x56, 0x78, 0x90, 0xab, 0, 0]\<rparr>"

definition main4 :: "u64 \<Rightarrow> 'd bus \<Rightarrow> can_dev4 \<Rightarrow> 'd \<Rightarrow> (bool \<times> can_dev4 \<times> 'd) res" where
  "main4 sz b cd d =
     rbind (drv4_device_open b cd d) (\<lambda>(fp, cd, d).
     if fp < 0 then Inr (False, cd, d)
     else rbind (drv4_device_write sz b cd d 16 False main4_std) (\<lambda>(ret, cd, d).
     if ret < 0 then Inr (False, cd, d)
     else rbind (drv4_device_write sz b cd d 16 False main4_ext) (\<lambda>(ret, cd, d).
     if ret < 0 then Inr (False, cd, d)
     else Inr (True, cd, d))))"

section \<open>Properties\<close>

text \<open>
  The three drivers open the simulated controller: on every well-formed state \<open>device_open\<close>
  returns 0, the driver's rings are empty afterwards, and the controller is in operation mode.
\<close>

theorem open_dev4:
  assumes "can_state_wf s"
  shows "(\<exists>s'. peli_device_open (dev4_bus junk) cd s = Inr (0, rings_reset cd, s') \<and> op_mode s' \<and> chr_out s' = chr_out s) \<and>
    (\<exists>s'. basic_device_open (dev4_bus junk) cd s = Inr (0, rings_reset cd, s') \<and> op_mode s' \<and> chr_out s' = chr_out s) \<and>
    (\<exists>s'. drv4_device_open (dev4_bus junk) cd4 s =
       Inr (0, cd4\<lparr>tx4_buf := replicate 6 frame_zero\<rparr>, s') \<and> op_mode s' \<and> chr_out s' = chr_out s)"
proof -
  have good: "good4 (chr_out s) s" using assms by (simp add: good4_def)
  show ?thesis
    using dev4_mode.peli_open_succeeds [OF good, of junk cd] dev4_mode.basic_open_succeeds [OF good, of junk cd]
      drv4_open_succeeds [OF good, of junk cd4]
    by (auto simp: op_mode_iff good4_def)
qed

theorem open_dev4_witness:
  "\<exists>s'. peli_device_open (dev4_bus (\<lambda>_. frame_zero)) can_dev_zero (can_hardware_reset can_state_zero) =
     Inr (0, rings_reset can_dev_zero, s') \<and> op_mode s'"
proof -
  have "can_state_wf (can_hardware_reset can_state_zero)"
    using can_pci_init_wf by (simp add: can_pci_init_def can_state_zero_def)
  from open_dev4 [OF this, of "\<lambda>_. frame_zero" can_dev_zero can_dev4_zero] show ?thesis by blast
qed

text \<open>
  C21. From the driver to the backend: on a controller in operation mode, \<open>device_write\<close> of a
  frame with at most eight data bytes returns 0, and exactly one frame reaches the character
  device: the identifier without bit 29 and, for a standard frame, without bit 2, the flags, the
  length and the payload are those of the frame sent (the identifier bits of the controller's
  uninitialised local are added unless the RTR flag is set). The interrupt line is raised, and
  the driver's interrupt handler lowers it and sends nothing.
\<close>

theorem write_reaches_backend:
  assumes "op_mode s" and "frame_wf f" and "can_dlc f \<le> 8" and "cd4_ok cd" and "16 \<le> 6 * sz"
  shows "\<exists>s' cd' j s''. drv4_device_write sz (dev4_bus junk) cd s 16 False f = Inr (0, cd', s') \<and>
    irq_line s' \<and> chr_out s' = chr_out s @ [delivered4 (can_id (junk j)) f] \<and>
    drv4_irq_handler (dev4_bus junk) s' = Inr s'' \<and> s'' = s'\<lparr>irq_line := False\<rparr> \<and> op_mode s''"
proof -
  obtain s' cd' j where s': "drv4_device_write sz (dev4_bus junk) cd s 16 False f = Inr (0, cd', s')"
      "op_mode s'" "irq_line s'" "chr_out s' = chr_out s @ [delivered4 (can_id (junk j)) f]"
    using drv4_write_dev4 [OF assms] by blast
  moreover have "drv4_irq_handler (dev4_bus junk) s' = Inr (s'\<lparr>irq_line := False\<rparr>)"
    by (simp add: drv4_irq_handler_def dev4_bus_def can_mem_write_def PCI_MEM_SIZE4_def)
  moreover have "op_mode (s'\<lparr>irq_line := False\<rparr>)"
    using s'(2) by (simp add: op_mode_def can_state_wf_def)
  ultimately show ?thesis by blast
qed

lemma op_mode_example: "op_mode (can_state_zero\<lparr>status := 0x0c\<rparr>)"
  by (simp add: op_mode_def can_state_wf_def can_state_zero_def)

lemma cd4_ok_zero: "cd4_ok can_dev4_zero"
  by (simp add: cd4_ok_def can_dev4_zero_def)

theorem write_reaches_backend_witness:
  "\<exists>s' cd'. drv4_device_write 304 (dev4_bus (\<lambda>_. frame_zero)) can_dev4_zero (can_state_zero\<lparr>status := 0x0c\<rparr>)
       16 False main4_std = Inr (0, cd', s') \<and> chr_out s' = [delivered4 0 main4_std]"
  using write_reaches_backend [OF op_mode_example, of main4_std can_dev4_zero 304 "\<lambda>_. frame_zero"] cd4_ok_zero
  by (auto simp: main4_std_def frame_wf_def can_state_zero_def frame_zero_def)

text \<open>
  The test program does what its comments say: on the freshly initialised controller, whose
  uninitialised local holds zeroes, \<open>main\<close> ends normally and the character device has received
  the standard frame 0x123 and then the extended frame 0x12345678, with their data.
\<close>

theorem main4_delivers:
  assumes "can_pci_init True = Some s" and "16 \<le> 6 * sz" and "\<And>s. can_id (junk s) = 0"
  shows "\<exists>cd s'. main4 sz (dev4_bus junk) can_dev4_zero s = Inr (True, cd, s') \<and>
           chr_out s' = [main4_std, main4_ext] \<and> irq_line s'"
proof -
  let ?b = "dev4_bus junk"
  have wf: "frame_wf main4_std" "can_dlc main4_std \<le> 8" "frame_wf main4_ext" "can_dlc main4_ext \<le> 8"
    by (simp_all add: main4_std_def main4_ext_def frame_wf_def)
  have good: "good4 [] s" using can_pci_init_wf [OF assms(1)] by (simp add: good4_def)
  obtain s1 where s1: "drv4_device_open ?b can_dev4_zero s =
      Inr (0, can_dev4_zero\<lparr>tx4_buf := replicate BUFFERSIZE frame_zero\<rparr>, s1)" "op_mode s1" "chr_out s1 = []"
    using drv4_open_succeeds [OF good] by blast
  obtain s2 cd2 where s2: "drv4_device_write sz ?b (can_dev4_zero\<lparr>tx4_buf := replicate BUFFERSIZE frame_zero\<rparr>)
      s1 16 False main4_std = Inr (0, cd2, s2)" "op_mode s2" "cd4_ok cd2" "chr_out s2 = [delivered4 0 main4_std]"
    using drv4_write_dev4 [OF s1(2) wf(1,2) cd4_ok_open [OF cd4_ok_zero] assms(2), of junk] s1(3) assms(3) by auto
  obtain s3 cd3 where s3: "drv4_device_write sz ?b cd2 s2 16 False main4_ext = Inr (0, cd3, s3)" "irq_line s3"
      "chr_out s3 = [delivered4 0 main4_std, delivered4 0 main4_ext]"
    using drv4_write_dev4 [OF s2(2) wf(3,4) s2(3) assms(2), of junk] s2(4) assms(3) by auto
  have zeroes: "replicate 5 (0::u8) = [0, 0, 0, 0, 0]" "replicate 2 (0::u8) = [0, 0]"
    by (simp_all add: numeral_eq_Suc)
  have "delivered4 0 main4_std = main4_std" "delivered4 0 main4_ext = main4_ext"
    by (simp_all add: delivered4_def main4_std_def main4_ext_def is_rtr_def is_eff_def zero_padded_def payload_def
        push_bit_eq_mult zeroes)
  then show ?thesis
    using s3 by (simp add: main4_def s1(1) s2(1))
qed

theorem main4_delivers_witness:
  "\<exists>cd s'. main4 304 (dev4_bus (\<lambda>_. frame_zero)) can_dev4_zero (can_hardware_reset can_state_zero) =
     Inr (True, cd, s') \<and> chr_out s' = [main4_std, main4_ext] \<and> irq_line s'"
  by (rule main4_delivers) (simp_all add: can_pci_init_def can_state_zero_def frame_zero_def)

end
