(* ===== verification/Pci_Probe.thy ===== *)
theory Pci_Probe
  imports Prelude
begin

unbundle bit_operations_syntax

text \<open>
  \<open>pcisimple_probe\<close> and \<open>pcisimple_remove\<close> of the five drivers: which kernel resources are
  held when they return.

  The kernel functions they call are not in the repository. Their outcomes are the fields of
  \<open>probe_env\<close> (what each call returns, were it reached); their effect on the resources is
  the documented one: a call that succeeds acquires, its counterpart releases. The result of a
  probe is its return value and the resources then held, in the order of acquisition. The error
  labels of the C code are functions that fall through as the labels do.
\<close>

datatype resource =
    DevMem      \<comment> \<open>\<open>kmalloc\<close> / \<open>kfree\<close>\<close>
  | Enabled     \<comment> \<open>\<open>pci_enable_device\<close> / \<open>pci_disable_device\<close>\<close>
  | Regions     \<comment> \<open>\<open>pci_request_regions\<close> / \<open>pci_release_regions\<close>\<close>
  | MemMap      \<comment> \<open>\<open>pci_iomap\<close> of the memory BAR / \<open>pci_iounmap\<close>\<close>
  | IoMap       \<comment> \<open>\<open>pci_iomap\<close> of the port BAR / \<open>pci_iounmap\<close>\<close>
  | Irq         \<comment> \<open>\<open>request_irq\<close> / \<open>free_irq\<close>\<close>
  | ChrRegion   \<comment> \<open>\<open>register_chrdev_region\<close> / \<open>unregister_chrdev_region\<close>\<close>
  | Cdev        \<comment> \<open>\<open>cdev_add\<close> / \<open>cdev_del\<close>\<close>

record probe_env =
  pe_kmalloc :: bool
  pe_revision :: u8
  pe_enable :: int
  pe_regions :: int
  pe_mem_map :: bool
  pe_io_map :: bool
  pe_irq :: int
  pe_chrdev :: int
  pe_cdev :: int

definition release :: "resource \<Rightarrow> resource list \<Rightarrow> resource list" where
  "release r held = removeAll r held"

definition PCI_REVISION_ID_CANBUS :: u8 where "PCI_REVISION_ID_CANBUS = 0x73"

section \<open>The drivers that map one BAR\<close>

definition err_enable_device :: "int \<Rightarrow> resource list \<Rightarrow> int \<times> resource list" where
  "err_enable_device result held = (result, release DevMem held)"

definition err_request_regions :: "int \<Rightarrow> resource list \<Rightarrow> int \<times> resource list" where
  "err_request_regions result held = err_enable_device result (release Enabled held)"

definition err_iomap :: "int \<Rightarrow> resource list \<Rightarrow> int \<times> resource list" where
  "err_iomap result held = err_request_regions result (release Regions held)"

definition err_request_irq :: "int \<Rightarrow> resource list \<Rightarrow> int \<times> resource list" where
  "err_request_irq result held = err_iomap result (release MemMap held)"

definition err_register_chrdev_region :: "int \<Rightarrow> resource list \<Rightarrow> int \<times> resource list" where
  "err_register_chrdev_region result held = err_request_irq result (release Irq held)"

definition err_cdev_add :: "int \<Rightarrow> resource list \<Rightarrow> int \<times> resource list" where
  "err_cdev_add result held = (result, release ChrRegion held)"

definition peli_probe :: "probe_env \<Rightarrow> int \<times> resource list" where
  "peli_probe e =
     (if \<not> pe_kmalloc e then (- 12, [])
      else let held = [DevMem] in
      if pe_revision e \<noteq> PCI_REVISION_ID_CANBUS then (- 19, held)
      else let result = pe_enable e in
      if result \<noteq> 0 then err_enable_device result held
      else let held = held @ [Enabled]; result = pe_regions e in
      if result \<noteq> 0 then err_request_regions result held
      else let held = held @ [Regions] in
      if \<not> pe_mem_map e then err_iomap result held
      else let held = held @ [MemMap] in
      if pe_irq e \<noteq> 0 then err_request_irq (- 5) held
      else let held = held @ [Irq]; result = pe_chrdev e in
      if result < 0 then err_register_chrdev_region result held
      else let held = held @ [ChrRegion]; result = pe_cdev e in
      if result \<noteq> 0 then err_cdev_add result held
      else (0, held @ [Cdev]))"

text \<open>The text of the BasicCAN driver's probe is the same up to a debug print.\<close>

definition basic_probe :: "probe_env \<Rightarrow> int \<times> resource list" where
  "basic_probe e = peli_probe e"

definition peli_remove :: "resource list \<Rightarrow> resource list" where
  "peli_remove held =
     release DevMem (release Enabled (release Regions (release MemMap (release Irq
       (release ChrRegion (release Cdev held))))))"

definition basic_remove :: "resource list \<Rightarrow> resource list" where
  "basic_remove held = peli_remove held"

section \<open>The drivers that map both BARs\<close>

text \<open>
  \<open>backup/qemu_linux4\<close> and \<open>backup/qemu_linux3\<close>: both BARs are mapped before the test, so
  on the error path one of them may be mapped.
\<close>

definition err_request_irq_io :: "int \<Rightarrow> resource list \<Rightarrow> int \<times> resource list" where
  "err_request_irq_io result held = err_iomap result (release MemMap (release IoMap held))"

definition err_register_chrdev_region_io :: "int \<Rightarrow> resource list \<Rightarrow> int \<times> resource list" where
  "err_register_chrdev_region_io result held = err_request_irq_io result (release Irq held)"

definition drv4_probe :: "probe_env \<Rightarrow> int \<times> resource list" where
  "drv4_probe e =
     (if \<not> pe_kmalloc e then (- 12, [])
      else let held = [DevMem] in
      if pe_revision e \<noteq> PCI_REVISION_ID_CANBUS then (- 19, held)
      else let result = pe_enable e in
      if result \<noteq> 0 then err_enable_device result held
      else let held = held @ [Enabled]; result = pe_regions e in
      if result \<noteq> 0 then err_request_regions result held
      else let held = held @ [Regions];
               held = held @ (if pe_mem_map e then [MemMap] else []);
               held = held @ (if pe_io_map e then [IoMap] else []) in
      if \<not> pe_mem_map e \<or> \<not> pe_io_map e then err_iomap result held
      else if pe_irq e \<noteq> 0 then err_request_irq_io (- 5) held
      else let held = held @ [Irq]; result = pe_chrdev e in
      if result < 0 then err_register_chrdev_region_io result held
      else let held = held @ [ChrRegion]; result = pe_cdev e in
      if result \<noteq> 0 then err_cdev_add result held
      else (0, held @ [Cdev]))"

definition drv3_probe :: "probe_env \<Rightarrow> int \<times> resource list" where
  "drv3_probe e = drv4_probe e"

definition drv4_remove :: "resource list \<Rightarrow> resource list" where
  "drv4_remove held =
     release DevMem (release Enabled (release Regions (release MemMap (release IoMap (release Irq
       (release ChrRegion (release Cdev held)))))))"

definition drv3_remove :: "resource list \<Rightarrow> resource list" where
  "drv3_remove held = drv4_remove held"

text \<open>
  The tables the kernel matches a device against, vendor and device identifier, and the
  identifiers the devices' class initialisers set. A pelican, basic or fourth-generation driver
  meets the fourth device.
\<close>

record pci_class =
  pc_vendor :: u16
  pc_device :: u16
  pc_revision :: u8

definition peli_pci_tbl :: "(u16 \<times> u16) list" where "peli_pci_tbl = [(0x1b36, 0xbeef)]"
definition basic_pci_tbl :: "(u16 \<times> u16) list" where "basic_pci_tbl = [(0x1b36, 0xbeef)]"
definition drv4_pci_tbl :: "(u16 \<times> u16) list" where "drv4_pci_tbl = [(0x1b36, 0xbeef)]"
definition drv3_pci_tbl :: "(u16 \<times> u16) list" where "drv3_pci_tbl = [(0x1b36, 0xbeef)]"
definition drv2_pci_tbl :: "(u16 \<times> u16) list" where "drv2_pci_tbl = [(0x1b36, 0xbeef)]"
definition drv1_pci_tbl :: "(u16 \<times> u16) list" where "drv1_pci_tbl = [(0x1b36, 0x1234)]"

definition can_pci_class_initfn4 :: pci_class where
  "can_pci_class_initfn4 = \<lparr>pc_vendor = 0x1b36, pc_device = 0xbeef, pc_revision = 0x73\<rparr>"
definition can_pci_class_initfn3 :: pci_class where
  "can_pci_class_initfn3 = \<lparr>pc_vendor = 0x1b36, pc_device = 0xbeef, pc_revision = 0x73\<rparr>"
definition can_pci_class_initfn2 :: pci_class where
  "can_pci_class_initfn2 = \<lparr>pc_vendor = 0x1b36, pc_device = 0xbeef, pc_revision = 0x73\<rparr>"
definition pci_simple_tst_class_init :: pci_class where
  "pci_simple_tst_class_init = \<lparr>pc_vendor = 0x1b36, pc_device = 0x1234, pc_revision = 0x73\<rparr>"

fun pci_match :: "(u16 \<times> u16) list \<Rightarrow> pci_class \<Rightarrow> bool" where
  "pci_match [] c = False"
| "pci_match ((v, d) # tbl) c = (v = pc_vendor c \<and> d = pc_device c \<or> pci_match tbl c)"

text \<open>The outcomes that the error paths handle: every call fails with a non-zero code.\<close>

definition first_failure_handled :: "probe_env \<Rightarrow> bool" where
  "first_failure_handled e \<longleftrightarrow> \<not> pe_kmalloc e \<or>
     (pe_revision e = PCI_REVISION_ID_CANBUS \<and>
      (pe_enable e \<noteq> 0 \<or> pe_regions e \<noteq> 0 \<or>
       (pe_mem_map e \<and> (pe_irq e \<noteq> 0 \<or> pe_chrdev e < 0 \<or> pe_cdev e = 0))))"

lemmas probe_defs =
  peli_probe_def drv4_probe_def err_enable_device_def err_request_regions_def err_iomap_def
  err_request_irq_def err_register_chrdev_region_def err_cdev_add_def err_request_irq_io_def
  err_register_chrdev_region_io_def release_def first_failure_handled_def Let_def

section \<open>Properties\<close>

text \<open>
  A probe whose first failing step is one of those the error labels cover either succeeds
  (returns 0) with all seven resources held, and \<open>pcisimple_remove\<close> then releases every one
  of them, or returns a non-zero code and holds nothing.
\<close>

theorem probe_clean:
  assumes "first_failure_handled e"
  shows "case peli_probe e of (ret, held) \<Rightarrow>
      (if ret = 0 then set held = {DevMem, Enabled, Regions, MemMap, Irq, ChrRegion, Cdev} \<and> peli_remove held = []
       else held = [])"
  using assms by (auto simp: probe_defs peli_remove_def)

theorem probe_clean_witness:
  "case peli_probe \<lparr>pe_kmalloc = True, pe_revision = 0x73, pe_enable = 0, pe_regions = 0, pe_mem_map = True,
      pe_io_map = True, pe_irq = - 16, pe_chrdev = 0, pe_cdev = 0\<rparr> of (ret, held) \<Rightarrow>
      (if ret = 0 then set held = {DevMem, Enabled, Regions, MemMap, Irq, ChrRegion, Cdev} \<and> peli_remove held = []
       else held = [])"
  by (rule probe_clean) (simp add: first_failure_handled_def PCI_REVISION_ID_CANBUS_def)

text \<open>
  The failures the error labels do not cover. A wrong revision returns \<open>-ENODEV\<close> and leaks
  the device structure. A failing \<open>pci_iomap\<close> releases everything and then returns 0, since
  \<open>result\<close> still has the value of the last call that succeeded: the kernel takes the probe for
  successful. A failing \<open>cdev_add\<close> returns its code with five resources still held.
\<close>

theorem probe_uncovered_failures:
  assumes "pe_kmalloc e"
  shows "(pe_revision e \<noteq> PCI_REVISION_ID_CANBUS \<longrightarrow> peli_probe e = (- 19, [DevMem])) \<and>
    (pe_revision e = PCI_REVISION_ID_CANBUS \<and> pe_enable e = 0 \<and> pe_regions e = 0 \<longrightarrow>
      (\<not> pe_mem_map e \<longrightarrow> peli_probe e = (0, [])) \<and>
      (pe_mem_map e \<and> pe_irq e = 0 \<and> 0 \<le> pe_chrdev e \<and> pe_cdev e \<noteq> 0 \<longrightarrow>
         peli_probe e = (pe_cdev e, [DevMem, Enabled, Regions, MemMap, Irq])))"
  using assms by (simp add: probe_defs)

definition probe_env_ok :: probe_env where
  "probe_env_ok = \<lparr>pe_kmalloc = True, pe_revision = 0x73, pe_enable = 0, pe_regions = 0, pe_mem_map = True,
     pe_io_map = True, pe_irq = 0, pe_chrdev = 0, pe_cdev = 0\<rparr>"

theorem probe_uncovered_failures_witness:
  "peli_probe (probe_env_ok\<lparr>pe_revision := 0\<rparr>) = (- 19, [DevMem]) \<and>
   peli_probe (probe_env_ok\<lparr>pe_mem_map := False\<rparr>) = (0, []) \<and>
   peli_probe (probe_env_ok\<lparr>pe_cdev := - 12\<rparr>) = (- 12, [DevMem, Enabled, Regions, MemMap, Irq])"
  using probe_uncovered_failures [of "probe_env_ok\<lparr>pe_revision := 0\<rparr>"]
    probe_uncovered_failures [of "probe_env_ok\<lparr>pe_mem_map := False\<rparr>"]
    probe_uncovered_failures [of "probe_env_ok\<lparr>pe_cdev := - 12\<rparr>"]
  by (simp add: probe_env_ok_def PCI_REVISION_ID_CANBUS_def)

text \<open>
  The drivers that map both BARs: after a failing mapping of the memory BAR alone, the mapping
  of the port BAR stays behind, and the probe again returns 0; a complete probe is undone by
  \<open>pcisimple_remove\<close>.
\<close>

theorem drv4_probe_mapping:
  "drv4_probe (probe_env_ok\<lparr>pe_mem_map := False\<rparr>) = (0, [IoMap]) \<and>
   drv4_probe (probe_env_ok\<lparr>pe_io_map := False\<rparr>) = (0, [MemMap]) \<and>
   (case drv4_probe probe_env_ok of (ret, held) \<Rightarrow>
      ret = 0 \<and> set held = {DevMem, Enabled, Regions, MemMap, IoMap, Irq, ChrRegion, Cdev} \<and> drv4_remove held = [])"
  by (auto simp: probe_defs probe_env_ok_def PCI_REVISION_ID_CANBUS_def drv4_remove_def)

end
