(* ===== verification/Mem_Device.thy ===== *)
theory Mem_Device
  imports Pci_Probe
begin

unbundle bit_operations_syntax

text \<open>
  The two first generations of the simulated PCI device, which are a block of memory behind a
  BAR, and the probe functions of their test drivers, which write patterns and read them back:
  \<open>backup/qemu_linux1\<close> (\<open>pci_testdev2.c\<close>, \<open>linux_driver/qemu_test_pci.c\<close>) and
  \<open>backup/qemu_linux2\<close> (\<open>can-pci.c\<close>, \<open>qemu_test/qemu_test_pci.c\<close>).

  The block is a list of bytes; the host is little-endian. The C code checks an address with
  \<open>addr > region_size\<close> and then copies with \<open>memcpy\<close>, so the model checks the copy
  itself: leaving the block is the fault \<open>OutOfBounds\<close>. Reads go through a local
  \<open>unsigned int\<close> that is not initialised, the argument \<open>junk\<close>.
\<close>

section \<open>Bytes of an integer\<close>

definition le_bytes :: "nat \<Rightarrow> u64 \<Rightarrow> u8 list" where
  "le_bytes n v = map (\<lambda>i. ucast (drop_bit (8 * i) v)) [0..<n]"

fun le_word :: "u8 list \<Rightarrow> u64" where
  "le_word [] = 0"
| "le_word (b # bs) = ucast b OR push_bit 8 (le_word bs)"

lemma length_le_bytes [simp]: "length (le_bytes n v) = n"
  by (simp add: le_bytes_def)

lemma le_bytes_nth [simp]: "i < n \<Longrightarrow> le_bytes n v ! i = ucast (drop_bit (8 * i) v)"
  by (simp add: le_bytes_def)

lemma bit_le_word:
  "n < 64 \<Longrightarrow> bit (le_word bs) n \<longleftrightarrow> n div 8 < length bs \<and> bit (bs ! (n div 8)) (n mod 8)"
proof (induction bs arbitrary: n)
  case Nil
  then show ?case by simp
next
  case (Cons b bs)
  show ?case
  proof (cases "n < 8")
    case True
    then show ?thesis by (simp add: bit_simps)
  next
    case False
    then have "n div 8 = Suc ((n - 8) div 8)" "n mod 8 = (n - 8) mod 8"
      by (simp_all add: le_div_geq le_mod_geq)
    moreover have "\<not> bit b n" using False bit_imp_le_length [of b n] by auto
    ultimately show ?thesis
      using Cons.IH [of "n - 8"] Cons.prems False by (auto simp: bit_simps)
  qed
qed

text \<open>Storing an integer and loading it gives back its low bytes.\<close>

lemma le_word_le_bytes:
  assumes "n \<le> 8"
  shows "le_word (le_bytes n v) = v AND mask (8 * n)"
proof (rule bit_word_eqI)
  fix k :: nat
  assume k: "k < LENGTH(64)"
  have "k div 8 < n \<longleftrightarrow> k < 8 * n" by (simp add: div_less_iff_less_mult mult.commute)
  moreover have "8 * (k div 8) + k mod 8 = k" by simp
  ultimately show "bit (le_word (le_bytes n v)) k = bit (v AND mask (8 * n)) k"
    using k by (auto simp: bit_le_word bit_simps)
qed

section \<open>The block of memory\<close>

definition mem_store :: "u8 list \<Rightarrow> nat \<Rightarrow> u8 list \<Rightarrow> u8 list res" where
  "mem_store mem a bs =
     (if a + length bs \<le> length mem then Inr (take a mem @ bs @ drop (a + length bs) mem)
      else Inl OutOfBounds)"

definition mem_load :: "u8 list \<Rightarrow> nat \<Rightarrow> nat \<Rightarrow> u8 list res" where
  "mem_load mem a n = (if a + n \<le> length mem then Inr (take n (drop a mem)) else Inl OutOfBounds)"

text \<open>\<open>memcpy(mem, &val, size)\<close> with a 64-bit \<open>val\<close>, and \<open>memcpy(&temp, mem, size)\<close> with
  a 32-bit \<open>temp\<close>, followed by the conversion of \<open>temp\<close> to the 64-bit result.\<close>

definition copy_in :: "u8 list \<Rightarrow> nat \<Rightarrow> u64 \<Rightarrow> nat \<Rightarrow> u8 list res" where
  "copy_in mem a val sz = (if 8 < sz then Inl OutOfBounds else mem_store mem a (le_bytes sz val))"

definition copy_out :: "u32 \<Rightarrow> u8 list \<Rightarrow> nat \<Rightarrow> nat \<Rightarrow> u64 res" where
  "copy_out junk mem a sz =
     (if 4 < sz then Inl OutOfBounds
      else rbind (mem_load mem a sz) (\<lambda>bs. Inr (le_word (bs @ drop sz (le_bytes 4 (ucast junk))))))"

lemma copy_in_ok:
  "sz \<le> 8 \<Longrightarrow> a + sz \<le> length mem \<Longrightarrow>
     copy_in mem a val sz = Inr (take a mem @ le_bytes sz val @ drop (a + sz) mem)"
  by (simp add: copy_in_def mem_store_def)

lemma copy_in_length: "copy_in mem a val sz = Inr mem' \<Longrightarrow> length mem' = length mem"
  by (auto simp: copy_in_def mem_store_def split: if_splits)

lemma copy_out_ok:
  "sz \<le> 4 \<Longrightarrow> a + sz \<le> length mem \<Longrightarrow>
     copy_out junk mem a sz = Inr (le_word (take sz (drop a mem) @ drop sz (le_bytes 4 (ucast junk))))"
  by (simp add: copy_out_def mem_load_def)

lemma le_word_low:
  assumes "length bs = n" and "n \<le> 8"
  shows "le_word (bs @ cs) AND mask (8 * n) = le_word bs"
proof (rule bit_word_eqI)
  fix k :: nat
  assume k: "k < LENGTH(64)"
  have "k div 8 < n \<longleftrightarrow> k < 8 * n" by (simp add: div_less_iff_less_mult mult.commute)
  then show "bit (le_word (bs @ cs) AND mask (8 * n)) k = bit (le_word bs) k"
    using k assms(1) by (auto simp: bit_le_word bit_simps nth_append)
qed

text \<open>What is loaded after a store: the stored bytes at the same place, the old ones beside it.\<close>

lemma load_store_same:
  assumes "sz \<le> 4" and "a + sz \<le> length mem" and "copy_in mem a val sz = Inr mem'"
  shows "\<exists>v. copy_out junk mem' a sz = Inr v \<and> v AND mask (8 * sz) = val AND mask (8 * sz)"
proof -
  have mem': "mem' = take a mem @ le_bytes sz val @ drop (a + sz) mem"
    using assms by (simp add: copy_in_ok)
  then have "take sz (drop a mem') = le_bytes sz val"
    using assms(2) by simp
  then show ?thesis
    using assms(1,2) copy_in_length [OF assms(3)]
    by (simp add: copy_out_ok le_word_low le_word_le_bytes)
qed

lemma splice_nth:
  assumes "a + length bs \<le> length mem" and "j < a \<or> a + length bs \<le> j" and "j < length mem"
  shows "(take a mem @ bs @ drop (a + length bs) mem) ! j = mem ! j"
proof (cases "j < a")
  case True
  then show ?thesis using assms(1) by (simp add: nth_append)
next
  case False
  then have "a + length bs \<le> j" using assms(2) by simp
  then have "(take a mem @ bs @ drop (a + length bs) mem) ! (a + length bs + (j - (a + length bs))) =
      drop (a + length bs) mem ! (j - (a + length bs))"
    using assms(1) nth_append_length_plus [of "take a mem @ bs" "drop (a + length bs) mem" "j - (a + length bs)"]
    by simp
  then show ?thesis using \<open>a + length bs \<le> j\<close> assms(3) by simp
qed

lemma load_store_other:
  assumes "copy_in mem a val sz = Inr mem'" and "a + sz \<le> b \<or> b + n \<le> a"
  shows "mem_load mem' b n = mem_load mem b n"
proof (cases "b + n \<le> length mem")
  case True
  have len: "length mem' = length mem" by (rule copy_in_length [OF assms(1)])
  have asz: "a + sz \<le> length mem" and mem': "mem' = take a mem @ le_bytes sz val @ drop (a + sz) mem"
    using assms(1) by (auto simp: copy_in_def mem_store_def split: if_splits)
  have same: "mem' ! j = mem ! j" if "j < a \<or> a + sz \<le> j" "j < length mem" for j
    using splice_nth [of a "le_bytes sz val" mem j] that asz by (simp add: mem')
  have "take n (drop b mem') = take n (drop b mem)"
  proof (rule nth_equalityI)
    fix i assume "i < length (take n (drop b mem'))"
    then have i: "i < n" by simp
    then have "b + i < a \<or> a + sz \<le> b + i" using assms(2) by auto
    then show "take n (drop b mem') ! i = take n (drop b mem) ! i"
      using i len True same [of "b + i"] by simp
  qed (simp add: len)
  then show ?thesis by (simp add: mem_load_def len)
next
  case False
  then show ?thesis
    by (simp add: mem_load_def copy_in_length [OF assms(1)])
qed

section \<open>The first device\<close>

definition PCI_MEM_SIZE1 :: nat where "PCI_MEM_SIZE1 = 16"

text \<open>\<open>pci_simple_tst_init\<close> allocates the block; \<open>mem_pci_write\<close> prints eight bytes back.\<close>

definition pci_simple_tst_init :: "u8 list" where
  "pci_simple_tst_init = replicate PCI_MEM_SIZE1 0"

definition mem_pci_write :: "u8 list \<Rightarrow> nat \<Rightarrow> u64 \<Rightarrow> nat \<Rightarrow> u8 list res" where
  "mem_pci_write mem addr value sz =
     (if PCI_MEM_SIZE1 < addr then Inr mem
      else rbind (copy_in mem addr value sz) (\<lambda>mem.
           rbind (mem_load mem addr 8) (\<lambda>_. Inr mem)))"

definition mem_pci_read :: "u32 \<Rightarrow> u8 list \<Rightarrow> nat \<Rightarrow> nat \<Rightarrow> u64 res" where
  "mem_pci_read junk mem addr sz =
     (if PCI_MEM_SIZE1 < addr then Inr 0 else copy_out junk mem addr sz)"

section \<open>The second device\<close>

text \<open>
  \<open>can2_out\<close> is what \<open>qemu_chr_fe_write\<close> was given; a write to the port BAR, whatever
  it writes, sends the three letters of \<open>whatever\<close>.
\<close>

definition PCI_MEM_SIZE2 :: nat where "PCI_MEM_SIZE2 = 16"

record can_state2 =
  mem2 :: "u8 list"
  irq2 :: bool
  can2_out :: "u8 list list"

definition whatever :: "u8 list" where "whatever = [0x74, 0x74, 0x74]"

definition can_pci_init2 :: "bool \<Rightarrow> can_state2 option" where
  "can_pci_init2 has_chr =
     (if \<not> has_chr then None
      else Some \<lparr>mem2 = replicate PCI_MEM_SIZE2 0, irq2 = False, can2_out = []\<rparr>)"

definition can_ioport_write2 :: "can_state2 \<Rightarrow> nat \<Rightarrow> u64 \<Rightarrow> can_state2" where
  "can_ioport_write2 s addr val = s\<lparr>can2_out := can2_out s @ [whatever]\<rparr>"

definition can_ioport_read2 :: "can_state2 \<Rightarrow> nat \<Rightarrow> u64" where
  "can_ioport_read2 s addr = 0"

definition can_mem_write2 :: "can_state2 \<Rightarrow> nat \<Rightarrow> u64 \<Rightarrow> nat \<Rightarrow> can_state2 res" where
  "can_mem_write2 s addr val sz =
     (if PCI_MEM_SIZE2 < addr then Inr s
      else rbind (copy_in (mem2 s) addr val sz) (\<lambda>mem.
           rbind (mem_load mem addr 8) (\<lambda>_. Inr (s\<lparr>mem2 := mem\<rparr>))))"

definition can_mem_read2 :: "u32 \<Rightarrow> can_state2 \<Rightarrow> nat \<Rightarrow> nat \<Rightarrow> u64 res" where
  "can_mem_read2 junk s addr sz =
     (if PCI_MEM_SIZE2 < addr then Inr 0 else copy_out junk (mem2 s) addr sz)"

section \<open>A memory BAR\<close>

text \<open>
  What a driver relies on when it uses a BAR as memory: an accepted write (\<open>legal\<close>: address and
  size) is read back, and it does not show at other addresses. The client is the test the two
  probe functions make.
\<close>

locale mem_bar =
  fixes rd :: "'s \<Rightarrow> nat \<Rightarrow> nat \<Rightarrow> u64 res"
    and wr :: "'s \<Rightarrow> nat \<Rightarrow> u64 \<Rightarrow> nat \<Rightarrow> 's res"
    and ok :: "'s \<Rightarrow> bool"
    and legal :: "nat \<Rightarrow> nat \<Rightarrow> bool"
  assumes write_ok: "ok s \<Longrightarrow> legal a n \<Longrightarrow> \<exists>s'. wr s a v n = Inr s' \<and> ok s' \<and>
      (\<exists>r. rd s' a n = Inr r \<and> r AND mask (8 * n) = v AND mask (8 * n))"
    and read_other: "ok s \<Longrightarrow> legal a n \<Longrightarrow> legal c k \<Longrightarrow> a + n \<le> c \<or> c + k \<le> a \<Longrightarrow>
      wr s a v n = Inr s' \<Longrightarrow> rd s' c k = rd s c k"
begin

lemma pattern_test:
  assumes "ok s" and "legal 0 4" and "legal 8 1"
  shows "\<exists>s1 v1 s2 v2. wr s 0 0x12345678 4 = Inr s1 \<and> rd s1 0 4 = Inr v1 \<and> ucast v1 = (0x12345678 :: u32) \<and>
    wr s1 8 0x89 1 = Inr s2 \<and> rd s2 8 1 = Inr v2 \<and> ucast v2 = (0x89 :: u8) \<and> ok s2 \<and> rd s2 0 4 = Inr v1"
proof -
  obtain s1 v1 where 1: "wr s 0 0x12345678 4 = Inr s1" "ok s1" "rd s1 0 4 = Inr v1"
      "v1 AND mask 32 = 0x12345678 AND mask 32"
    using write_ok [OF assms(1,2), of "0x12345678"] by auto
  obtain s2 v2 where 2: "wr s1 8 0x89 1 = Inr s2" "ok s2" "rd s2 8 1 = Inr v2"
      "v2 AND mask 8 = 0x89 AND mask 8"
    using write_ok [OF 1(2) assms(3), of "0x89"] by auto
  have "ucast v1 = (ucast (v1 AND mask 32) :: u32)" "ucast v2 = (ucast (v2 AND mask 8) :: u8)"
    by (auto intro!: bit_word_eqI simp: bit_simps)
  moreover have "rd s2 0 4 = rd s1 0 4"
    by (rule read_other [OF 1(2) assms(3,2) _ 2(1)]) simp
  ultimately show ?thesis
    using 1 2 by (simp add: mask_eq_exp_minus_1)
qed

end

text \<open>
  The first device asks for one-byte accesses (\<open>max_access_size = 1\<close>). QEMU's memory core, which
  is not part of this repository, then makes a wider access one of each byte, lowest first.
\<close>

fun split_write :: "('s \<Rightarrow> nat \<Rightarrow> u64 \<Rightarrow> nat \<Rightarrow> 's res) \<Rightarrow> 's \<Rightarrow> nat \<Rightarrow> u64 \<Rightarrow> nat \<Rightarrow> 's res" where
  "split_write wr s a v 0 = Inr s"
| "split_write wr s a v (Suc n) =
     rbind (wr s a (v AND 0xff) 1) (\<lambda>s. split_write wr s (Suc a) (drop_bit 8 v) n)"

fun split_read :: "('s \<Rightarrow> nat \<Rightarrow> nat \<Rightarrow> u64 res) \<Rightarrow> 's \<Rightarrow> nat \<Rightarrow> nat \<Rightarrow> u64 res" where
  "split_read rd s a 0 = Inr 0"
| "split_read rd s a (Suc n) =
     rbind (rd s a 1) (\<lambda>lo. rbind (split_read rd s (Suc a) n) (\<lambda>hi. Inr ((lo AND 0xff) OR push_bit 8 hi)))"

lemma le_bytes_Suc: "le_bytes (Suc n) v = ucast v # le_bytes n (drop_bit 8 v)"
  by (simp add: le_bytes_def upt_conv_Cons map_Suc_upt [symmetric] add.commute del: upt_Suc)

lemma le_bytes_4:
  "le_bytes 4 v = [ucast v, ucast (drop_bit 8 v), ucast (drop_bit 8 (drop_bit 8 v)),
     ucast (drop_bit 8 (drop_bit 8 (drop_bit 8 v)))]"
proof -
  have 4: "(4 :: nat) = Suc (Suc (Suc (Suc 0)))" by simp
  show ?thesis by (subst 4) (simp only: le_bytes_Suc, simp add: le_bytes_def)
qed

lemma byte_write1:
  assumes "length mem = 16" and "a \<le> 8"
  shows "mem_pci_write mem a v 1 = Inr (mem[a := ucast v])"
proof -
  have "take a mem @ [ucast v] @ drop (Suc a) mem = mem[a := ucast v]"
    using assms by (simp add: upd_conv_take_nth_drop)
  then show ?thesis
    using assms by (simp add: mem_pci_write_def PCI_MEM_SIZE1_def copy_in_ok mem_load_def le_bytes_def)
qed

lemma byte_read1:
  assumes "length mem = 16" and "a < 16"
  shows "\<exists>v. mem_pci_read junk mem a 1 = Inr v \<and> v AND 0xff = ucast (mem ! a)"
proof -
  have "take 1 (drop a mem) = [mem ! a]"
    using assms by (simp add: take_Suc_conv_app_nth Cons_nth_drop_Suc [symmetric])
  moreover have "(ucast b OR push_bit 8 w) AND 0xff = (ucast b :: u64)" for b :: u8 and w
    by (rule bit_word_eqI) (auto simp: bit_simps word_bits dest: bit_imp_le_length)
  ultimately show ?thesis
    using assms by (simp add: mem_pci_read_def PCI_MEM_SIZE1_def copy_out_ok)
qed

lemma split_write1:
  "length mem = 16 \<Longrightarrow> a + n \<le> 9 \<Longrightarrow>
     split_write mem_pci_write mem a v n = Inr (take a mem @ le_bytes n v @ drop (a + n) mem)"
proof (induction n arbitrary: mem a v)
  case 0
  then show ?case by (simp add: le_bytes_def)
next
  case (Suc n)
  have "(ucast (v AND 0xff) :: u8) = ucast v"
    by (rule bit_word_eqI) (auto simp: bit_simps word_bits)
  with Suc show ?case
    by (simp add: byte_write1 [unfolded One_nat_def] take_update_append le_bytes_Suc)
qed

lemma split_read1:
  "length mem = 16 \<Longrightarrow> a + n \<le> 16 \<Longrightarrow>
     split_read (mem_pci_read junk) mem a n = Inr (le_word (take n (drop a mem)))"
proof (induction n arbitrary: a)
  case 0
  then show ?case by simp
next
  case (Suc n)
  obtain v where "mem_pci_read junk mem a 1 = Inr v" "v AND 0xff = ucast (mem ! a)"
    using byte_read1 [of mem a junk] Suc.prems by auto
  moreover from this(1) have "mem_pci_read junk mem a (Suc 0) = Inr v" by simp
  moreover have "take (Suc n) (drop a mem) = mem ! a # take n (drop (Suc a) mem)"
    using Suc.prems by (simp add: Cons_nth_drop_Suc [symmetric])
  ultimately show ?case
    using Suc by simp
qed

interpretation dev1: mem_bar "split_read (mem_pci_read junk)" "split_write mem_pci_write"
  "\<lambda>mem. length mem = 16" "\<lambda>a n. a + n \<le> 9 \<and> n \<le> 4" for junk
proof
  fix mem :: "u8 list" and a n :: nat and v :: u64
  assume len: "length mem = 16" and an: "a + n \<le> 9 \<and> n \<le> 4"
  let ?m = "take a mem @ le_bytes n v @ drop (a + n) mem"
  have "length ?m = 16" "take n (drop a ?m) = le_bytes n v" using len an by simp_all
  then show "\<exists>s'. split_write mem_pci_write mem a v n = Inr s' \<and> length s' = 16 \<and>
      (\<exists>r. split_read (mem_pci_read junk) s' a n = Inr r \<and> r AND mask (8 * n) = v AND mask (8 * n))"
    using an by (simp add: split_write1 [OF len] split_read1 le_word_le_bytes)
next
  fix mem mem' :: "u8 list" and a n c k :: nat and v :: u64
  assume len: "length mem = 16" and an: "a + n \<le> 9 \<and> n \<le> 4" and ck: "c + k \<le> 9 \<and> k \<le> 4"
    and disj: "a + n \<le> c \<or> c + k \<le> a" and wr: "split_write mem_pci_write mem a v n = Inr mem'"
  have "copy_in mem a v n = Inr mem'"
    using wr len an by (simp add: split_write1 copy_in_ok)
  from load_store_other [OF this disj] show "split_read (mem_pci_read junk) mem' c k = split_read (mem_pci_read junk) mem c k"
    using len ck copy_in_length [OF \<open>copy_in mem a v n = Inr mem'\<close>] by (simp add: split_read1 mem_load_def)
qed

definition dev2_legal :: "nat \<Rightarrow> nat \<Rightarrow> bool" where
  "dev2_legal a n \<longleftrightarrow> a \<le> 8 \<and> n \<le> 4"

lemma dev2_write:
  assumes "length (mem2 s) = 16" and "dev2_legal a n"
  shows "\<exists>m. copy_in (mem2 s) a v n = Inr m \<and> can_mem_write2 s a v n = Inr (s\<lparr>mem2 := m\<rparr>)"
  using assms by (simp add: can_mem_write2_def copy_in_ok PCI_MEM_SIZE2_def dev2_legal_def mem_load_def)

interpretation dev2: mem_bar "can_mem_read2 junk" can_mem_write2 "\<lambda>s. length (mem2 s) = 16" dev2_legal for junk
proof
  fix s :: can_state2 and a n :: nat and v :: u64
  assume len: "length (mem2 s) = 16" and an: "dev2_legal a n"
  then obtain m where m: "copy_in (mem2 s) a v n = Inr m" "can_mem_write2 s a v n = Inr (s\<lparr>mem2 := m\<rparr>)"
    using dev2_write by blast
  have "a + n \<le> length (mem2 s)" "n \<le> 4" using len an by (simp_all add: dev2_legal_def)
  with load_store_same [OF _ _ m(1), of junk] m copy_in_length [OF m(1)] len an
  show "\<exists>s'. can_mem_write2 s a v n = Inr s' \<and> length (mem2 s') = 16 \<and>
      (\<exists>r. can_mem_read2 junk s' a n = Inr r \<and> r AND mask (8 * n) = v AND mask (8 * n))"
    by (auto simp: can_mem_read2_def PCI_MEM_SIZE2_def dev2_legal_def)
next
  fix s s' :: can_state2 and a n c k :: nat and v :: u64
  assume len: "length (mem2 s) = 16" and an: "dev2_legal a n" and ck: "dev2_legal c k"
    and disj: "a + n \<le> c \<or> c + k \<le> a" and wr: "can_mem_write2 s a v n = Inr s'"
  obtain m where m: "copy_in (mem2 s) a v n = Inr m" "s' = s\<lparr>mem2 := m\<rparr>"
    using dev2_write [OF len an, of v] wr by auto
  from load_store_other [OF m(1) disj] m(2)
  show "can_mem_read2 junk s' c k = can_mem_read2 junk s c k"
    by (simp add: can_mem_read2_def copy_out_def)
qed

section \<open>The probe functions of the test drivers\<close>

text \<open>
  They take the accesses to the BAR as arguments. The results are the return value, the
  resources then held, what the two prints show, and the device; \<open>pci_iomap\<close> is not checked,
  so an unmapped BAR is a null pointer the driver writes through.
\<close>

definition drv1_probe :: "('s \<Rightarrow> nat \<Rightarrow> nat \<Rightarrow> u64 res) \<Rightarrow> ('s \<Rightarrow> nat \<Rightarrow> u64 \<Rightarrow> nat \<Rightarrow> 's res) \<Rightarrow> u8 \<Rightarrow> bool \<Rightarrow> 's \<Rightarrow>
    (int \<times> resource list \<times> (u32 \<times> u8) option \<times> 's) res" where
  "drv1_probe rd wr revision mapped d =
     (if revision \<noteq> 0x73 then Inr (1, [], None, d)
      else if \<not> mapped then Inl NullDeref
      else
        rbind (wr d 0 0x12345678 4) (\<lambda>d.
        rbind (rd d 0 4) (\<lambda>v.
        rbind (wr d 8 0x89 1) (\<lambda>d.
        rbind (rd d 8 1) (\<lambda>w.
        Inr (0, [Enabled, MemMap], Some (ucast v, ucast w), d))))))"

definition drv1_remove :: "resource list \<Rightarrow> resource list" where
  "drv1_remove held = release Enabled held"

text \<open>
  The second driver also tests the port BAR (\<open>ior\<close>, \<open>iow\<close>) and registers an interrupt
  handler, which does nothing.
\<close>

definition drv2_probe :: "('s \<Rightarrow> nat \<Rightarrow> u64) \<Rightarrow> ('s \<Rightarrow> nat \<Rightarrow> u64 \<Rightarrow> 's) \<Rightarrow>
    ('s \<Rightarrow> nat \<Rightarrow> nat \<Rightarrow> u64 res) \<Rightarrow> ('s \<Rightarrow> nat \<Rightarrow> u64 \<Rightarrow> nat \<Rightarrow> 's res) \<Rightarrow> probe_env \<Rightarrow> 's \<Rightarrow>
    (int \<times> resource list \<times> (u8 \<times> u32 \<times> u8) option \<times> 's) res" where
  "drv2_probe ior iow rd wr e d =
     (if pe_revision e \<noteq> PCI_REVISION_ID_CANBUS then Inr (1, [], None, d)
      else if pe_enable e \<noteq> 0 then Inr (pe_enable e, [], None, d)
      else if pe_irq e \<noteq> 0 then Inr (- 5, [Enabled], None, d)
      else if \<not> pe_io_map e then Inl NullDeref
      else let d = iow d 0 0x89; p = ior d 0 in
      if \<not> pe_mem_map e then Inl NullDeref
      else
        rbind (wr d 0 0x12345678 4) (\<lambda>d.
        rbind (rd d 0 4) (\<lambda>v.
        rbind (wr d 8 0x89 1) (\<lambda>d.
        rbind (rd d 8 1) (\<lambda>w.
        Inr (0, [Enabled, Irq, IoMap, MemMap], Some (ucast p, ucast v, ucast w), d))))))"

definition drv2_remove :: "resource list \<Rightarrow> resource list" where
  "drv2_remove held = release Enabled (release Irq held)"

section \<open>Properties\<close>

text \<open>
  The memory devices hold what is written: for accesses of at most four bytes at addresses up
  to 8, a read after a write of the same place gives the low bytes written, whatever the
  uninitialised local held, and a read of a disjoint place is not changed.
\<close>

theorem dev2_memory:
  assumes "length (mem2 s) = 16" and "dev2_legal a n" and "dev2_legal c k" and "a + n \<le> c \<or> c + k \<le> a"
  shows "\<exists>s' r. can_mem_write2 s a v n = Inr s' \<and> length (mem2 s') = 16 \<and>
    can_mem_read2 junk s' a n = Inr r \<and> r AND mask (8 * n) = v AND mask (8 * n) \<and>
    can_mem_read2 junk s' c k = can_mem_read2 junk s c k"
  using dev2.write_ok [OF assms(1,2), of v junk] dev2.read_other [OF assms, of v _ junk] by blast

theorem dev2_memory_witness:
  "\<exists>s' r. can_mem_write2 \<lparr>mem2 = replicate 16 0, irq2 = False, can2_out = []\<rparr> 2 0xabcd 2 = Inr s' \<and>
     length (mem2 s') = 16 \<and>
     can_mem_read2 0xffffffff s' 2 2 = Inr r \<and> r AND mask 16 = 0xabcd AND mask 16 \<and>
     can_mem_read2 0xffffffff s' 4 4 = can_mem_read2 0xffffffff \<lparr>mem2 = replicate 16 0, irq2 = False, can2_out = []\<rparr> 4 4"
  using dev2_memory [of "\<lparr>mem2 = replicate 16 0, irq2 = False, can2_out = []\<rparr>" 2 2 4 4 "0xabcd" "0xffffffff"]
  by (simp add: dev2_legal_def)

text \<open>
  Which writes leave the block: on the second device, exactly those up to address 16 that end
  beyond it or that start beyond 8, since the debug print reads eight bytes at the address; the
  check \<open>addr > region_size\<close> lets the address 16 itself through.
\<close>

theorem dev2_write_faults:
  assumes "length (mem2 s) = 16" and "0 < n" and "n \<le> 8"
  shows "can_mem_write2 s a v n = Inl OutOfBounds \<longleftrightarrow> 8 < a \<and> a \<le> 16"
  using assms by (auto simp: can_mem_write2_def PCI_MEM_SIZE2_def copy_in_def mem_store_def mem_load_def)

theorem dev2_write_faults_witness:
  "can_mem_write2 \<lparr>mem2 = replicate 16 0, irq2 = False, can2_out = []\<rparr> 9 0 1 = Inl OutOfBounds"
  using dev2_write_faults [of "\<lparr>mem2 = replicate 16 0, irq2 = False, can2_out = []\<rparr>" 1 9 0] by simp

text \<open>
  The probe functions find their devices working: on a fresh device each reads back the
  patterns it wrote, 0x12345678 and 0x89 (and 0 from the port BAR, after three letters went to
  the character device); the resources it then holds are not all given back by \<open>remove\<close>.
\<close>

theorem probe_patterns:
  "(\<exists>mem. drv1_probe (split_read (mem_pci_read junk)) (split_write mem_pci_write) 0x73 True pci_simple_tst_init =
      Inr (0, [Enabled, MemMap], Some (0x12345678, 0x89), mem)) \<and>
   (\<exists>s. drv2_probe can_ioport_read2 can_ioport_write2 (can_mem_read2 junk) can_mem_write2 probe_env_ok
        \<lparr>mem2 = replicate 16 0, irq2 = False, can2_out = []\<rparr> =
      Inr (0, [Enabled, Irq, IoMap, MemMap], Some (0, 0x12345678, 0x89), s)) \<and>
   drv1_remove [Enabled, MemMap] = [MemMap] \<and> drv2_remove [Enabled, Irq, IoMap, MemMap] = [IoMap, MemMap]"
proof (intro conjI)
  show "\<exists>mem. drv1_probe (split_read (mem_pci_read junk)) (split_write mem_pci_write) 0x73 True pci_simple_tst_init =
      Inr (0, [Enabled, MemMap], Some (0x12345678, 0x89), mem)"
    using dev1.pattern_test [of pci_simple_tst_init junk]
    by (auto simp: drv1_probe_def pci_simple_tst_init_def PCI_MEM_SIZE1_def)
  show "\<exists>s. drv2_probe can_ioport_read2 can_ioport_write2 (can_mem_read2 junk) can_mem_write2 probe_env_ok
        \<lparr>mem2 = replicate 16 0, irq2 = False, can2_out = []\<rparr> =
      Inr (0, [Enabled, Irq, IoMap, MemMap], Some (0, 0x12345678, 0x89), s)"
    using dev2.pattern_test [of "\<lparr>mem2 = replicate 16 0, irq2 = False, can2_out = [whatever]\<rparr>" junk]
    by (auto simp: drv2_probe_def can_ioport_write2_def can_ioport_read2_def probe_env_ok_def
        PCI_REVISION_ID_CANBUS_def dev2_legal_def Let_def)
qed (simp_all add: drv1_remove_def drv2_remove_def release_def)

end
