(* ===== verification/Can_Device3.thy ===== *)
theory Can_Device3
  imports Mem_Device Can_Device4
begin

unbundle bit_operations_syntax

text \<open>
  The third generation, \<open>backup/qemu_linux3\<close>: a block of 32 bytes in which the driver builds a
  frame and a doorbell that sends it to the character device (\<open>can-pci.c\<close>), the driver
  (\<open>qemu_test/qemu_test_pci.c\<close>) and its test program (\<open>qemu_test/main.c\<close>).

  Frames are bytes here, laid out as \<open>struct can_frame\<close> is on a little-endian machine
  (\<open>frame_bytes\<close>). The driver's \<open>mem\<close> is its array of six frames, 96 bytes; the file
  position is counted in frames, since the code adds it to a pointer to frames.
\<close>

section \<open>The device\<close>

definition PCI_MEM_SIZE3 :: nat where "PCI_MEM_SIZE3 = 32"

record can_state3 =
  mem3 :: "u8 list"
  offset3 :: int
  irq3 :: bool
  can3_out :: "u8 list list"

definition can_pci_init3 :: "bool \<Rightarrow> can_state3 option" where
  "can_pci_init3 has_chr =
     (if \<not> has_chr then None
      else Some \<lparr>mem3 = replicate PCI_MEM_SIZE3 0, offset3 = 0, irq3 = False, can3_out = []\<rparr>)"

definition can_ioport_write3 :: "can_state3 \<Rightarrow> nat \<Rightarrow> u64 \<Rightarrow> can_state3" where
  "can_ioport_write3 s addr val = s"

definition can_ioport_read3 :: "can_state3 \<Rightarrow> nat \<Rightarrow> u64" where
  "can_ioport_read3 s addr = 0"

text \<open>\<open>display_msg\<close> reads the length and the data of the frame at the start of the block.\<close>

definition display_msg3 :: "u8 list \<Rightarrow> u8 list res" where
  "display_msg3 mem = rbind (arr_get mem 4) (\<lambda>dlc. read_loop mem 8 (unat dlc))"

text \<open>
  The condition of the doorbell is \<open>(addr = 30) && (val == 0x55)\<close>: an assignment, whose value
  30 is true. The address of the copy was computed before it.
\<close>

definition can_mem_write3 :: "can_state3 \<Rightarrow> nat \<Rightarrow> u64 \<Rightarrow> nat \<Rightarrow> can_state3 res" where
  "can_mem_write3 s addr val sz =
     (let pci_mem_addr = addr in
      if PCI_MEM_SIZE3 < addr then Inr s
      else let addr = (30 :: nat) in
      if addr \<noteq> 0 \<and> val = 0x55 then
        rbind (display_msg3 (mem3 s)) (\<lambda>_.
        rbind (mem_load (mem3 s) 0 16) (\<lambda>bs.
        Inr (s\<lparr>can3_out := can3_out s @ [bs], offset3 := 0\<rparr>)))
      else rbind (copy_in (mem3 s) pci_mem_addr val sz) (\<lambda>mem. Inr (s\<lparr>mem3 := mem\<rparr>)))"

definition can_mem_read3 :: "u32 \<Rightarrow> can_state3 \<Rightarrow> nat \<Rightarrow> nat \<Rightarrow> u64 res" where
  "can_mem_read3 junk s addr sz =
     (if PCI_MEM_SIZE3 < addr then Inr 0 else copy_out junk (mem3 s) addr sz)"

definition dev3_bus :: "u32 \<Rightarrow> can_state3 bus" where
  "dev3_bus junk =
     \<lparr>bus_read = (\<lambda>s a. rbind (can_mem_read3 junk s a 1) (\<lambda>v. Inr (ucast v, s))),
      bus_write = (\<lambda>s a v. can_mem_write3 s a (ucast v) 1)\<rparr>"

section \<open>The driver\<close>

definition drv3_irq_handler :: "'d \<Rightarrow> 'd" where
  "drv3_irq_handler d = d"

definition drv3_device_open :: "u8 list \<Rightarrow> int \<times> u8 list" where
  "drv3_device_open mem = (0, replicate (16 * 6) 0 @ drop (16 * 6) mem)"

definition drv3_device_release :: int where
  "drv3_device_release = 0"

definition drv3_device_read :: "u8 list \<Rightarrow> nat \<Rightarrow> nat \<Rightarrow> bool \<Rightarrow> (int \<times> u8 list option) res" where
  "drv3_device_read mem count fpos copy_fails =
     rbind (mem_load mem (16 * fpos) count) (\<lambda>bs.
     if copy_fails then Inr (- 14, None) else Inr (int count, Some bs))"

text \<open>
  \<open>device_write\<close>: \<open>usr\<close> are the bytes that the \<open>count\<close> bytes at the file position hold
  after the copy. The loop always sends from the start of the array.
\<close>

fun out_loop :: "'d bus \<Rightarrow> 'd \<Rightarrow> u8 list \<Rightarrow> nat \<Rightarrow> nat \<Rightarrow> 'd res" where
  "out_loop b d mem i 0 = Inr d"
| "out_loop b d mem i (Suc n) =
     rbind (arr_get mem i) (\<lambda>v.
     rbind (bus_write b d i (0xff AND v)) (\<lambda>d.
     out_loop b d mem (Suc i) n))"

definition drv3_device_write :: "'d bus \<Rightarrow> u8 list \<Rightarrow> 'd \<Rightarrow> u8 list \<Rightarrow> nat \<Rightarrow> bool \<Rightarrow> (int \<times> u8 list \<times> 'd) res" where
  "drv3_device_write b mem d usr fpos copy_fails =
     rbind (mem_store mem (16 * fpos) usr) (\<lambda>mem.
     let ret = (if copy_fails then - 14 else int (length usr))
     in rbind (out_loop b d mem 0 (length usr)) (\<lambda>d.
        rbind (bus_write b d 30 0x55) (\<lambda>d.
        Inr (ret, mem, d))))"

lemma out_loop_write_seq:
  "i + n \<le> length mem \<Longrightarrow> out_loop b d mem i n = write_seq b d i (take n (drop i mem))"
proof (induction n arbitrary: i d)
  case 0
  then show ?case by simp
next
  case (Suc n)
  have "0xff AND v = v" for v :: u8
    by (rule bit_word_eqI) (auto simp: bit_simps word_bits)
  with Suc show ?case
    by (simp add: Cons_nth_drop_Suc [symmetric])
qed

section \<open>Feeding the device\<close>

definition ok3 :: "can_state3 \<Rightarrow> bool" where
  "ok3 s \<longleftrightarrow> length (mem3 s) = 32 \<and> mem3 s ! 4 \<le> 24"

lemma dev3_ring:
  assumes "ok3 s" and "a \<le> 32"
  shows "bus_write (dev3_bus junk) s a 0x55 = Inr (s\<lparr>can3_out := can3_out s @ [take 16 (mem3 s)], offset3 := 0\<rparr>)"
  using assms
  by (simp add: dev3_bus_def can_mem_write3_def PCI_MEM_SIZE3_def ok3_def display_msg3_def read_loop_eq
      mem_load_def word_le_nat_alt)

lemma dev3_poke:
  assumes "length (mem3 s) = 32" and "a < 32" and "v \<noteq> 0x55"
  shows "bus_write (dev3_bus junk) s a v = Inr (s\<lparr>mem3 := (mem3 s)[a := v]\<rparr>)"
proof -
  have "(ucast v :: u64) \<noteq> 0x55"
  proof
    assume "(ucast v :: u64) = 0x55"
    then have "(ucast (ucast v :: u64) :: u8) = 0x55" by simp
    with assms(3) show False by simp
  qed
  moreover have "take a (mem3 s) @ [v] @ drop (Suc a) (mem3 s) = (mem3 s)[a := v]"
    using assms by (simp add: upd_conv_take_nth_drop)
  ultimately show ?thesis
    using assms by (simp add: dev3_bus_def can_mem_write3_def PCI_MEM_SIZE3_def copy_in_ok le_bytes_def)
qed

lemma dev3_feed:
  assumes "ok3 s" and "a + length bs \<le> 32" and "\<And>i. i < length bs \<Longrightarrow> a + i = 4 \<Longrightarrow> bs ! i \<le> 24 \<or> bs ! i = 0x55"
  shows "\<exists>s'. write_seq (dev3_bus junk) s a bs = Inr s' \<and> ok3 s' \<and>
    length (can3_out s') = length (can3_out s) + count_list bs 0x55 \<and>
    (count_list bs 0x55 = 0 \<longrightarrow> can3_out s' = can3_out s) \<and>
    mem3 s' = take a (mem3 s) @ map (\<lambda>i. if bs ! i = 0x55 then mem3 s ! (a + i) else bs ! i) [0..<length bs]
                @ drop (a + length bs) (mem3 s)"
  using assms
proof (induction bs arbitrary: s a)
  case Nil
  then show ?case by simp
next
  case (Cons v bs)
  define s1 where "s1 = (if v = 0x55 then s\<lparr>can3_out := can3_out s @ [take 16 (mem3 s)], offset3 := 0\<rparr>
                          else s\<lparr>mem3 := (mem3 s)[a := v]\<rparr>)"
  let ?m = "mem3 s"
  have len: "length ?m = 32" using Cons.prems(1) by (simp add: ok3_def)
  have a: "a < 32" using Cons.prems(2) by simp
  have w: "bus_write (dev3_bus junk) s a v = Inr s1"
    using dev3_ring [OF Cons.prems(1), of a junk] dev3_poke [OF len a, of v junk] a by (simp add: s1_def)
  have m1: "mem3 s1 = ?m[a := if v = 0x55 then ?m ! a else v]"
    by (simp add: s1_def)
  have "a = 4 \<Longrightarrow> v \<le> 24 \<or> v = 0x55" using Cons.prems(3) [of 0] by simp
  then have ok1: "ok3 s1"
    using Cons.prems(1) len a by (auto simp: ok3_def m1 nth_list_update)
  have "bs ! i \<le> 24 \<or> bs ! i = 0x55" if "i < length bs" "Suc a + i = 4" for i
    using Cons.prems(3) [of "Suc i"] that by simp
  then obtain s' where s': "write_seq (dev3_bus junk) s1 (Suc a) bs = Inr s'" "ok3 s'"
      "length (can3_out s') = length (can3_out s1) + count_list bs 0x55"
      "count_list bs 0x55 = 0 \<longrightarrow> can3_out s' = can3_out s1"
      "mem3 s' = take (Suc a) (mem3 s1) @
         map (\<lambda>i. if bs ! i = 0x55 then mem3 s1 ! (Suc a + i) else bs ! i) [0..<length bs]
         @ drop (Suc a + length bs) (mem3 s1)"
    using Cons.IH [OF ok1, of "Suc a"] Cons.prems(2) by auto
  have "take (Suc a) (mem3 s1) = take a ?m @ [if v = 0x55 then ?m ! a else v]"
    using a len by (simp add: m1 take_update_append)
  moreover have "[0..<length (v # bs)] = 0 # map Suc [0..<length bs]"
    by (simp only: length_Cons upt_0_Suc)
  ultimately have "mem3 s' = take a ?m @
      map (\<lambda>i. if (v # bs) ! i = 0x55 then ?m ! (a + i) else (v # bs) ! i) [0..<length (v # bs)]
      @ drop (a + length (v # bs)) ?m"
    using s'(5) a len by (simp add: m1)
  moreover have "length (can3_out s') = length (can3_out s) + count_list (v # bs) 0x55"
    using s'(3) by (simp add: s1_def)
  ultimately show ?case
    using w s' by (auto simp: s1_def)
qed

section \<open>The test program\<close>

definition frame_bytes :: "can_frame \<Rightarrow> u8 list" where
  "frame_bytes f = le_bytes 4 (ucast (can_id f)) @ [can_dlc f, 0, 0, 0] @ can_data f"

definition main3_frame :: can_frame where
  "main3_frame = \<lparr>can_id = 0x987, can_dlc = 3, can_data = [0x12, 0x34, 0x56, 0, 0, 0, 0, 0]\<rparr>"

text \<open>
  The result: whether it ended normally, what \<open>read\<close> gave it, the driver's array, the device. The
  file position stays 0, since the driver never moves it.
\<close>

definition main3 :: "'d bus \<Rightarrow> u8 list \<Rightarrow> 'd \<Rightarrow> (bool \<times> u8 list option \<times> u8 list \<times> 'd) res" where
  "main3 b mem d =
     (case drv3_device_open mem of (fp, mem) \<Rightarrow>
      if fp < 0 then Inr (False, None, mem, d)
      else rbind (drv3_device_write b mem d (frame_bytes main3_frame) 0 False) (\<lambda>(ret, mem, d).
      if ret < 0 then Inr (False, None, mem, d)
      else rbind (drv3_device_read mem 16 0 False) (\<lambda>(i, canrcv).
      Inr (True, canrcv, mem, d))))"

section \<open>Properties\<close>

lemma drv3_write_feed:
  assumes "ok3 s" and "length mem = 96" and "length usr = 16" and "usr ! 4 \<le> 24 \<or> usr ! 4 = 0x55"
  shows "\<exists>s'. drv3_device_write (dev3_bus junk) mem s usr 0 False = Inr (16, usr @ drop 16 mem, s') \<and> ok3 s' \<and>
    length (can3_out s') = length (can3_out s) + count_list usr 0x55 + 1 \<and>
    last (can3_out s') = map (\<lambda>i. if usr ! i = 0x55 then mem3 s ! i else usr ! i) [0..<16] \<and>
    (count_list usr 0x55 = 0 \<longrightarrow> can3_out s' = can3_out s @ [usr])"
proof -
  let ?img = "map (\<lambda>i. if usr ! i = 0x55 then mem3 s ! i else usr ! i) [0..<16]"
  obtain s1 where s1: "write_seq (dev3_bus junk) s 0 usr = Inr s1" "ok3 s1"
      "length (can3_out s1) = length (can3_out s) + count_list usr 0x55"
      "count_list usr 0x55 = 0 \<longrightarrow> can3_out s1 = can3_out s" "mem3 s1 = ?img @ drop 16 (mem3 s)"
    using dev3_feed [OF assms(1), of 0 usr junk] assms(3,4) by auto
  define s' where "s' = s1\<lparr>can3_out := can3_out s1 @ [take 16 (mem3 s1)], offset3 := 0\<rparr>"
  have "usr ! i \<noteq> 0x55" if "i < 16" "count_list usr 0x55 = 0" for i
    using that assms(3) by (metis count_list_0_iff nth_mem)
  then have img: "?img = usr" if "count_list usr 0x55 = 0"
    using that assms(3) by (intro nth_equalityI) auto
  have loop: "out_loop (dev3_bus junk) s (usr @ drop 16 mem) 0 16 = Inr s1"
    using s1(1) assms(2,3) by (simp add: out_loop_write_seq)
  have ring: "bus_write (dev3_bus junk) s1 30 0x55 = Inr s'"
    by (simp add: dev3_ring [OF s1(2)] s'_def)
  have "ok3 s'" using s1(2) by (simp add: ok3_def s'_def)
  moreover have "drv3_device_write (dev3_bus junk) mem s usr 0 False = Inr (16, usr @ drop 16 mem, s')"
    using assms(2,3) loop ring by (simp add: drv3_device_write_def mem_store_def)
  moreover have "can3_out s' = can3_out s1 @ [?img]"
    by (simp add: s'_def s1(5))
  ultimately show ?thesis
    using s1(3,4) img by auto
qed

text \<open>
  A frame without the byte 0x55 reaches the character device of the third device as it was
  written, exactly once, and \<open>write\<close> returns 16. (A length above 24 would make the device print
  beyond its block.)
\<close>

theorem drv3_write_delivers:
  assumes "ok3 s" and "length mem = 96" and "length usr = 16" and "usr ! 4 \<le> 24" and "0x55 \<notin> set usr"
  shows "\<exists>s'. drv3_device_write (dev3_bus junk) mem s usr 0 False = Inr (16, usr @ drop 16 mem, s') \<and>
           can3_out s' = can3_out s @ [usr]"
  using drv3_write_feed [OF assms(1-3), of junk] assms(4,5) by (auto simp: count_list_0_iff)

theorem drv3_write_delivers_witness:
  "\<exists>s'. drv3_device_write (dev3_bus 0) (replicate 96 0)
       \<lparr>mem3 = replicate 32 0, offset3 = 0, irq3 = False, can3_out = []\<rparr> (replicate 16 1) 0 False =
     Inr (16, replicate 16 1 @ replicate 80 0, s') \<and> can3_out s' = [replicate 16 1]"
  using drv3_write_delivers [of "\<lparr>mem3 = replicate 32 0, offset3 = 0, irq3 = False, can3_out = []\<rparr>"
      "replicate 96 0" "replicate 16 1" 0]
  by (simp add: ok3_def)

text \<open>
  The doorbell of the third device rings on the value alone: since its test assigns 30 to the
  address, every byte 0x55 of a frame, at any position, sends a frame of its own and is not
  stored; the frame sent last has the block's old byte in its place.
\<close>

theorem drv3_write_0x55:
  assumes "ok3 s" and "length mem = 96" and "length usr = 16" and "usr ! 4 \<le> 24 \<or> usr ! 4 = 0x55"
  shows "\<exists>s'. drv3_device_write (dev3_bus junk) mem s usr 0 False = Inr (16, usr @ drop 16 mem, s') \<and>
    length (can3_out s') = length (can3_out s) + count_list usr 0x55 + 1 \<and>
    last (can3_out s') = map (\<lambda>i. if usr ! i = 0x55 then mem3 s ! i else usr ! i) [0..<16]"
  using drv3_write_feed [OF assms, of junk] by blast

theorem drv3_write_0x55_witness:
  "\<exists>s'. drv3_device_write (dev3_bus 0) (replicate 96 0)
       \<lparr>mem3 = replicate 32 0, offset3 = 0, irq3 = False, can3_out = []\<rparr> (replicate 16 0x55) 0 False =
     Inr (16, replicate 16 0x55 @ replicate 80 0, s') \<and> length (can3_out s') = 17"
proof -
  have "count_list (replicate n x) x = n" for n and x :: u8 by (induction n) simp_all
  then show ?thesis
    using drv3_write_0x55 [of "\<lparr>mem3 = replicate 32 0, offset3 = 0, irq3 = False, can3_out = []\<rparr>"
        "replicate 96 0" "replicate 16 0x55" 0]
    by (auto simp: ok3_def)
qed

text \<open>
  The test program of the third generation: the frame 0x987 goes out once, and what \<open>read\<close>
  returns is that frame from the driver's own array, whatever the device does.
\<close>

theorem main3_runs:
  assumes "can_pci_init3 True = Some s"
  shows "\<exists>mem s'. main3 (dev3_bus junk) (replicate 96 0) s = Inr (True, Some (frame_bytes main3_frame), mem, s') \<and>
    can3_out s' = [frame_bytes main3_frame]"
proof -
  have bytes: "frame_bytes main3_frame = [0x87, 9, 0, 0, 3, 0, 0, 0, 0x12, 0x34, 0x56, 0, 0, 0, 0, 0]"
    by (simp add: frame_bytes_def main3_frame_def le_bytes_4)
  have s: "ok3 s" "can3_out s = []"
    using assms by (auto simp: can_pci_init3_def ok3_def PCI_MEM_SIZE3_def)
  obtain s' where "drv3_device_write (dev3_bus junk) (replicate 96 0) s (frame_bytes main3_frame) 0 False =
      Inr (16, frame_bytes main3_frame @ drop 16 (replicate 96 0), s')" "can3_out s' = [frame_bytes main3_frame]"
    using drv3_write_feed [OF s(1), of "replicate 96 0" "frame_bytes main3_frame" junk] s(2) by (auto simp: bytes)
  then show ?thesis
    by (auto simp: main3_def drv3_device_open_def drv3_device_read_def mem_load_def bytes)
qed

theorem main3_runs_witness:
  "\<exists>mem s'. main3 (dev3_bus 0) (replicate 96 0) \<lparr>mem3 = replicate 32 0, offset3 = 0, irq3 = False, can3_out = []\<rparr> =
     Inr (True, Some (frame_bytes main3_frame), mem, s') \<and> can3_out s' = [frame_bytes main3_frame]"
  by (rule main3_runs) (simp add: can_pci_init3_def PCI_MEM_SIZE3_def)

end
