(* ===== verification/Serial.thy ===== *)
theory Serial
  imports Fifo "HOL-Library.Signed_Division"
begin

unbundle bit_operations_syntax

text \<open>
  The 16550A UART emulation of QEMU, \<open>backup/qemu_linux0/QEMU/serial.c\<close> and \<open>serial.h\<close>:
  the state, every operation, and the resets, timers and migration hooks.

  \<^item> \<open>serial_state\<close> has the fields of \<open>SerialState\<close>. \<open>irq_level\<close> is the level of
    \<open>s->irq\<close>; a timer is the deadline it is armed for, if any; \<open>chr_log\<close> is the sequence of
    calls made to the character device. Counters and indices of the FIFOs are \<open>nat\<close>; every
    access to their arrays is checked.
  \<^item> \<open>ser_env\<close> is what the environment answers during one call: the virtual clock when the
    call begins and when it reads it again, \<open>get_ticks_per_sec()\<close>, whether
    \<open>qemu_chr_fe_write\<close> took the byte, the modem lines that the \<open>TIOCMGET\<close> ioctl returns
    (\<open>None\<close> for \<open>-ENOTSUP\<close>), and what an uninitialised \<open>flags\<close> holds.
  \<^item> The division of the baud rate can have a zero divisor; it is the fault \<open>DivByZero\<close>.
    Division truncates (\<open>sdiv\<close>).
\<close>

abbreviation (input) UART_FIFO_LENGTH :: nat where "UART_FIFO_LENGTH \<equiv> 16"

abbreviation (input) UART_LCR_DLAB :: u8 where "UART_LCR_DLAB \<equiv> 0x80"
abbreviation (input) UART_IER_MSI :: u8 where "UART_IER_MSI \<equiv> 0x08"
abbreviation (input) UART_IER_RLSI :: u8 where "UART_IER_RLSI \<equiv> 0x04"
abbreviation (input) UART_IER_THRI :: u8 where "UART_IER_THRI \<equiv> 0x02"
abbreviation (input) UART_IER_RDI :: u8 where "UART_IER_RDI \<equiv> 0x01"
abbreviation (input) UART_IIR_NO_INT :: u8 where "UART_IIR_NO_INT \<equiv> 0x01"
abbreviation (input) UART_IIR_ID :: u8 where "UART_IIR_ID \<equiv> 0x06"
abbreviation (input) UART_IIR_MSI :: u8 where "UART_IIR_MSI \<equiv> 0x00"
abbreviation (input) UART_IIR_THRI :: u8 where "UART_IIR_THRI \<equiv> 0x02"
abbreviation (input) UART_IIR_RDI :: u8 where "UART_IIR_RDI \<equiv> 0x04"
abbreviation (input) UART_IIR_RLSI :: u8 where "UART_IIR_RLSI \<equiv> 0x06"
abbreviation (input) UART_IIR_CTI :: u8 where "UART_IIR_CTI \<equiv> 0x0C"
abbreviation (input) UART_IIR_FE :: u8 where "UART_IIR_FE \<equiv> 0xC0"
abbreviation (input) UART_MCR_LOOP :: u8 where "UART_MCR_LOOP \<equiv> 0x10"
abbreviation (input) UART_MCR_OUT2 :: u8 where "UART_MCR_OUT2 \<equiv> 0x08"
abbreviation (input) UART_MCR_RTS :: u8 where "UART_MCR_RTS \<equiv> 0x02"
abbreviation (input) UART_MCR_DTR :: u8 where "UART_MCR_DTR \<equiv> 0x01"
abbreviation (input) UART_MSR_DCD :: u8 where "UART_MSR_DCD \<equiv> 0x80"
abbreviation (input) UART_MSR_RI :: u8 where "UART_MSR_RI \<equiv> 0x40"
abbreviation (input) UART_MSR_DSR :: u8 where "UART_MSR_DSR \<equiv> 0x20"
abbreviation (input) UART_MSR_CTS :: u8 where "UART_MSR_CTS \<equiv> 0x10"
abbreviation (input) UART_MSR_TERI :: u8 where "UART_MSR_TERI \<equiv> 0x04"
abbreviation (input) UART_MSR_ANY_DELTA :: u8 where "UART_MSR_ANY_DELTA \<equiv> 0x0F"
abbreviation (input) UART_LSR_TEMT :: u8 where "UART_LSR_TEMT \<equiv> 0x40"
abbreviation (input) UART_LSR_THRE :: u8 where "UART_LSR_THRE \<equiv> 0x20"
abbreviation (input) UART_LSR_BI :: u8 where "UART_LSR_BI \<equiv> 0x10"
abbreviation (input) UART_LSR_OE :: u8 where "UART_LSR_OE \<equiv> 0x02"
abbreviation (input) UART_LSR_DR :: u8 where "UART_LSR_DR \<equiv> 0x01"
abbreviation (input) UART_LSR_INT_ANY :: u8 where "UART_LSR_INT_ANY \<equiv> 0x1E"
abbreviation (input) UART_FCR_XFR :: u64 where "UART_FCR_XFR \<equiv> 0x04"
abbreviation (input) UART_FCR_RFR :: u64 where "UART_FCR_RFR \<equiv> 0x02"
abbreviation (input) UART_FCR_FE :: u8 where "UART_FCR_FE \<equiv> 0x01"
abbreviation (input) MAX_XMIT_RETRY :: int where "MAX_XMIT_RETRY \<equiv> 4"

section \<open>State\<close>

record serial_fifo =
  fdata :: "u8 list"
  fcount :: nat
  itl :: nat
  ftail :: nat
  fhead :: nat

record tiocm =
  tio_cts :: bool
  tio_dsr :: bool
  tio_car :: bool
  tio_ri :: bool
  tio_dtr :: bool
  tio_rts :: bool

datatype chr_call =
    ChrWrite u8
  | ChrSetParams int char int int
  | ChrSetBreak int
  | ChrSetTiocm tiocm
  | ChrAcceptInput
  | WakeupRequest

record serial_state =
  divider :: u16
  rbr :: u8
  thr :: u8
  tsr :: u8
  ier :: u8
  iir :: u8
  lcr :: u8
  mcr :: u8
  lsr :: u8
  msr :: u8
  scr :: u8
  fcr :: u8
  fcr_vmstate :: u8
  thr_ipending :: bool
  irq_level :: bool
  last_break_enable :: int
  it_shift :: nat
  baudbase :: int
  tsr_retry :: int
  wakeup :: u32
  last_xmit_ts :: u64
  recv_fifo :: serial_fifo
  xmit_fifo :: serial_fifo
  fifo_timeout_timer :: "u64 option"
  timeout_ipending :: bool
  transmit_timer :: "u64 option"
  char_transmit_time :: u64
  poll_msl :: int
  modem_status_poll :: "u64 option"
  chr_log :: "chr_call list"

record ser_env =
  env_now :: u64
  env_later :: u64
  env_ticks :: int
  env_wr_ok :: bool
  env_tiocm :: "tiocm option"
  env_flags :: tiocm

section \<open>FIFOs\<close>

text \<open>\<open>fifo\<close> selects the receive FIFO when it is true, as \<open>RECV_FIFO\<close> does.\<close>

definition the_fifo :: "serial_state \<Rightarrow> bool \<Rightarrow> serial_fifo" where
  "the_fifo s fifo = (if fifo then recv_fifo s else xmit_fifo s)"

definition set_fifo :: "serial_state \<Rightarrow> bool \<Rightarrow> serial_fifo \<Rightarrow> serial_state" where
  "set_fifo s fifo f = (if fifo then s\<lparr>recv_fifo := f\<rparr> else s\<lparr>xmit_fifo := f\<rparr>)"

definition fifo_clear :: "serial_state \<Rightarrow> bool \<Rightarrow> serial_state" where
  "fifo_clear s fifo =
     set_fifo s fifo ((the_fifo s fifo)\<lparr>fdata := replicate UART_FIFO_LENGTH 0, fcount := 0, fhead := 0, ftail := 0\<rparr>)"

definition fifo_put :: "serial_state \<Rightarrow> bool \<Rightarrow> u8 \<Rightarrow> serial_state res" where
  "fifo_put s fifo chr =
     (let f = the_fifo s fifo in
      rbind (if \<not> fifo \<or> fcount f < UART_FIFO_LENGTH then
               rbind (arr_set (fdata f) (fhead f) chr) (\<lambda>data.
               Inr (f\<lparr>fdata := data,
                      fhead := (if fhead f + 1 = UART_FIFO_LENGTH then 0 else fhead f + 1)\<rparr>))
             else Inr f) (\<lambda>f.
      if fcount f < UART_FIFO_LENGTH then Inr (set_fifo s fifo (f\<lparr>fcount := fcount f + 1\<rparr>))
      else if fifo then Inr ((set_fifo s fifo f)\<lparr>lsr := lsr s OR UART_LSR_OE\<rparr>)
      else Inr (set_fifo s fifo f)))"

definition fifo_get :: "serial_state \<Rightarrow> bool \<Rightarrow> (u8 \<times> serial_state) res" where
  "fifo_get s fifo =
     (let f = the_fifo s fifo in
      if fcount f = 0 then Inr (0, s)
      else rbind (arr_get (fdata f) (ftail f)) (\<lambda>c.
        Inr (c, set_fifo s fifo
          (f\<lparr>ftail := (if ftail f + 1 = UART_FIFO_LENGTH then 0 else ftail f + 1), fcount := fcount f - 1\<rparr>))))"

section \<open>Interrupts, line parameters, modem lines\<close>

definition serial_pending :: "serial_state \<Rightarrow> u8" where
  "serial_pending s =
     (if ier s AND UART_IER_RLSI \<noteq> 0 \<and> lsr s AND UART_LSR_INT_ANY \<noteq> 0 then UART_IIR_RLSI
      else if ier s AND UART_IER_RDI \<noteq> 0 \<and> timeout_ipending s then UART_IIR_CTI
      else if ier s AND UART_IER_RDI \<noteq> 0 \<and> lsr s AND UART_LSR_DR \<noteq> 0 \<and>
              (fcr s AND UART_FCR_FE = 0 \<or> itl (recv_fifo s) \<le> fcount (recv_fifo s)) then UART_IIR_RDI
      else if ier s AND UART_IER_THRI \<noteq> 0 \<and> thr_ipending s then UART_IIR_THRI
      else if ier s AND UART_IER_MSI \<noteq> 0 \<and> msr s AND UART_MSR_ANY_DELTA \<noteq> 0 then UART_IIR_MSI
      else UART_IIR_NO_INT)"

definition serial_update_irq :: "serial_state \<Rightarrow> serial_state" where
  "serial_update_irq s =
     (let tmp_iir = serial_pending s
      in s\<lparr>iir := tmp_iir OR (iir s AND 0xF0), irq_level := (tmp_iir \<noteq> UART_IIR_NO_INT)\<rparr>)"

definition serial_update_parameters :: "ser_env \<Rightarrow> serial_state \<Rightarrow> serial_state res" where
  "serial_update_parameters e s =
     (if divider s = 0 then Inr s
      else
        let frame_size = (1 :: int);
            (frame_size, parity) =
              (if lcr s AND 0x08 \<noteq> 0 then (frame_size + 1, if lcr s AND 0x10 \<noteq> 0 then CHR ''E'' else CHR ''O'')
               else (frame_size, CHR ''N''));
            stop_bits = (if lcr s AND 0x04 \<noteq> 0 then 2 else 1 :: int);
            data_bits = uint (lcr s AND 0x03) + 5;
            frame_size = frame_size + data_bits + stop_bits;
            speed = baudbase s sdiv uint (divider s)
        in if speed = 0 then Inl DivByZero
           else Inr (s\<lparr>char_transmit_time := word_of_int ((env_ticks e sdiv speed) * frame_size),
                       chr_log := chr_log s @ [ChrSetParams speed parity data_bits stop_bits]\<rparr>))"

definition set_line :: "bool \<Rightarrow> u8 \<Rightarrow> u8 \<Rightarrow> u8" where
  "set_line on m v = (if on then v OR m else v AND NOT m)"

definition serial_update_msl :: "ser_env \<Rightarrow> serial_state \<Rightarrow> serial_state" where
  "serial_update_msl e s =
     (let s = s\<lparr>modem_status_poll := None\<rparr> in
      case env_tiocm e of
        None \<Rightarrow> s\<lparr>poll_msl := - 1\<rparr>
      | Some flags \<Rightarrow>
          let omsr = msr s;
              v = set_line (tio_cts flags) UART_MSR_CTS (msr s);
              v = set_line (tio_dsr flags) UART_MSR_DSR v;
              v = set_line (tio_car flags) UART_MSR_DCD v;
              v = set_line (tio_ri flags) UART_MSR_RI v;
              s = s\<lparr>msr := v\<rparr>;
              s = (if msr s \<noteq> omsr then
                     let v = msr s OR (drop_bit 4 (msr s) XOR drop_bit 4 omsr);
                         v = (if v AND UART_MSR_TERI \<noteq> 0 \<and> omsr AND UART_MSR_RI = 0 then v AND NOT UART_MSR_TERI
                              else v)
                     in serial_update_irq (s\<lparr>msr := v\<rparr>)
                   else s)
          in if poll_msl s \<noteq> 0 then s\<lparr>modem_status_poll := Some (env_later e + word_of_int (env_ticks e sdiv 100))\<rparr>
             else s)"

section \<open>Receiving and transmitting\<close>

fun fifo_put_all :: "serial_state \<Rightarrow> u8 list \<Rightarrow> serial_state res" where
  "fifo_put_all s [] = Inr s"
| "fifo_put_all s (c # cs) = rbind (fifo_put s True c) (\<lambda>s. fifo_put_all s cs)"

definition serial_receive1 :: "ser_env \<Rightarrow> serial_state \<Rightarrow> u8 list \<Rightarrow> serial_state res" where
  "serial_receive1 e s buf =
     (let s = (if wakeup s \<noteq> 0 then s\<lparr>chr_log := chr_log s @ [WakeupRequest]\<rparr> else s) in
      rbind (if fcr s AND UART_FCR_FE \<noteq> 0 then
               rbind (fifo_put_all s buf) (\<lambda>s.
               Inr (s\<lparr>lsr := lsr s OR UART_LSR_DR,
                      fifo_timeout_timer := Some (env_later e + char_transmit_time s * 4)\<rparr>))
             else
               let s = (if lsr s AND UART_LSR_DR \<noteq> 0 then s\<lparr>lsr := lsr s OR UART_LSR_OE\<rparr> else s) in
               rbind (arr_get buf 0) (\<lambda>c. Inr (s\<lparr>rbr := c, lsr := lsr s OR UART_LSR_DR\<rparr>))) (\<lambda>s.
      Inr (serial_update_irq s)))"

text \<open>The three parts of \<open>serial_xmit\<close>: fetch a byte, send it, account for it.\<close>

definition xmit_fetch :: "serial_state \<Rightarrow> serial_state res" where
  "xmit_fetch s =
     (if tsr_retry s \<le> 0 then
        if fcr s AND UART_FCR_FE \<noteq> 0 then
          rbind (fifo_get s False) (\<lambda>(c, s).
          let s = s\<lparr>tsr := c\<rparr>
          in Inr (if fcount (xmit_fifo s) = 0 then s\<lparr>lsr := lsr s OR UART_LSR_THRE\<rparr> else s))
        else Inr (s\<lparr>tsr := thr s, lsr := (lsr s OR UART_LSR_THRE) AND NOT UART_LSR_TEMT\<rparr>)
      else Inr s)"

definition xmit_send :: "ser_env \<Rightarrow> serial_state \<Rightarrow> (bool \<times> serial_state) res" where
  "xmit_send e s =
     (if mcr s AND UART_MCR_LOOP \<noteq> 0 then rbind (serial_receive1 e s [tsr s]) (\<lambda>s. Inr (False, s))
      else
        let s = s\<lparr>chr_log := chr_log s @ [ChrWrite (tsr s)]\<rparr> in
        if \<not> env_wr_ok e then
          if 0 < tsr_retry s \<and> tsr_retry s \<le> MAX_XMIT_RETRY then
            Inr (True, s\<lparr>tsr_retry := tsr_retry s + 1,
                         transmit_timer := Some (env_now e + char_transmit_time s)\<rparr>)
          else if poll_msl s < 0 then Inr (False, s\<lparr>tsr_retry := - 1\<rparr>)
          else Inr (False, s)
        else Inr (False, s\<lparr>tsr_retry := 0\<rparr>))"

definition xmit_done :: "ser_env \<Rightarrow> serial_state \<Rightarrow> serial_state" where
  "xmit_done e s =
     (let s = s\<lparr>last_xmit_ts := env_later e\<rparr>;
          s = (if lsr s AND UART_LSR_THRE = 0 then
                 s\<lparr>transmit_timer := Some (last_xmit_ts s + char_transmit_time s)\<rparr>
               else s)
      in if lsr s AND UART_LSR_THRE \<noteq> 0 then
           serial_update_irq (s\<lparr>lsr := lsr s OR UART_LSR_TEMT, thr_ipending := True\<rparr>)
         else s)"

definition serial_xmit :: "ser_env \<Rightarrow> serial_state \<Rightarrow> serial_state res" where
  "serial_xmit e s =
     rbind (xmit_fetch s) (\<lambda>s.
     rbind (xmit_send e s) (\<lambda>(again, s).
     Inr (if again then s else xmit_done e s)))"

section \<open>Register writes\<close>

text \<open>One definition per case of \<open>serial_ioport_write\<close>; \<open>val\<close> keeps its 64 bits.\<close>

definition write_reg0 :: "ser_env \<Rightarrow> serial_state \<Rightarrow> u64 \<Rightarrow> serial_state res" where
  "write_reg0 e s val =
     (if lcr s AND UART_LCR_DLAB \<noteq> 0 then
        serial_update_parameters e (s\<lparr>divider := ucast ((ucast (divider s) AND 0xff00) OR val)\<rparr>)
      else
        let s = s\<lparr>thr := ucast val\<rparr> in
        rbind (if fcr s AND UART_FCR_FE \<noteq> 0 then
                 rbind (fifo_put s False (thr s)) (\<lambda>s.
                 let s = s\<lparr>thr_ipending := False\<rparr>;
                     s = s\<lparr>lsr := lsr s AND NOT UART_LSR_TEMT\<rparr>;
                     s = s\<lparr>lsr := lsr s AND NOT UART_LSR_THRE\<rparr>
                 in Inr (serial_update_irq s))
               else
                 let s = s\<lparr>thr_ipending := False\<rparr>;
                     s = s\<lparr>lsr := lsr s AND NOT UART_LSR_THRE\<rparr>
                 in Inr (serial_update_irq s)) (\<lambda>s.
        serial_xmit e s))"

definition write_reg1 :: "ser_env \<Rightarrow> serial_state \<Rightarrow> u64 \<Rightarrow> serial_state res" where
  "write_reg1 e s val =
     (if lcr s AND UART_LCR_DLAB \<noteq> 0 then
        serial_update_parameters e (s\<lparr>divider := ucast ((ucast (divider s) AND 0x00ff) OR push_bit 8 val)\<rparr>)
      else
        let s = s\<lparr>ier := ucast (val AND 0x0f)\<rparr>;
            s = (if 0 \<le> poll_msl s then
                   if ier s AND UART_IER_MSI \<noteq> 0 then serial_update_msl e (s\<lparr>poll_msl := 1\<rparr>)
                   else s\<lparr>modem_status_poll := None, poll_msl := 0\<rparr>
                 else s)
        in Inr (if lsr s AND UART_LSR_THRE \<noteq> 0 then serial_update_irq (s\<lparr>thr_ipending := True\<rparr>) else s))"

definition trigger_level :: "u64 \<Rightarrow> nat" where
  "trigger_level val =
     (if val AND 0xC0 = 0x00 then 1 else if val AND 0xC0 = 0x40 then 4
      else if val AND 0xC0 = 0x80 then 8 else 14)"

definition write_reg2 :: "serial_state \<Rightarrow> u64 \<Rightarrow> serial_state" where
  "write_reg2 s val =
     (let val = val AND 0xFF in
      if ucast (fcr s) = val then s
      else
        let val = (if (val XOR ucast (fcr s)) AND 0x01 \<noteq> 0 then val OR (UART_FCR_XFR OR UART_FCR_RFR) else val);
            s = (if val AND UART_FCR_RFR \<noteq> 0 then
                   fifo_clear (s\<lparr>fifo_timeout_timer := None, timeout_ipending := False\<rparr>) True
                 else s);
            s = (if val AND UART_FCR_XFR \<noteq> 0 then fifo_clear s False else s);
            s = (if val AND 0x01 \<noteq> 0 then
                   s\<lparr>iir := iir s OR UART_IIR_FE, recv_fifo := (recv_fifo s)\<lparr>itl := trigger_level val\<rparr>\<rparr>
                 else s\<lparr>iir := iir s AND NOT UART_IIR_FE\<rparr>)
        in serial_update_irq (s\<lparr>fcr := ucast (val AND 0xC9)\<rparr>))"

definition write_reg3 :: "ser_env \<Rightarrow> serial_state \<Rightarrow> u64 \<Rightarrow> serial_state res" where
  "write_reg3 e s val =
     rbind (serial_update_parameters e (s\<lparr>lcr := ucast val\<rparr>)) (\<lambda>s.
     let break_enable = uint (drop_bit 6 val AND 1)
     in Inr (if break_enable \<noteq> last_break_enable s then
               s\<lparr>last_break_enable := break_enable, chr_log := chr_log s @ [ChrSetBreak break_enable]\<rparr>
             else s))"

definition write_reg4 :: "ser_env \<Rightarrow> serial_state \<Rightarrow> u64 \<Rightarrow> serial_state" where
  "write_reg4 e s val =
     (let old_mcr = mcr s;
          s = s\<lparr>mcr := ucast (val AND 0x1f)\<rparr>
      in if val AND 0x10 \<noteq> 0 then s
         else if 0 \<le> poll_msl s \<and> old_mcr \<noteq> mcr s then
           let flags = (case env_tiocm e of None \<Rightarrow> env_flags e | Some flags \<Rightarrow> flags);
               flags = flags\<lparr>tio_rts := (val AND 0x02 \<noteq> 0), tio_dtr := (val AND 0x01 \<noteq> 0)\<rparr>
           in s\<lparr>chr_log := chr_log s @ [ChrSetTiocm flags],
                modem_status_poll := Some (env_later e + char_transmit_time s)\<rparr>
         else s)"

definition serial_ioport_write :: "ser_env \<Rightarrow> serial_state \<Rightarrow> nat \<Rightarrow> u64 \<Rightarrow> serial_state res" where
  "serial_ioport_write e s addr val =
     (let addr = addr mod 8 in
      if addr = 1 then write_reg1 e s val
      else if addr = 2 then Inr (write_reg2 s val)
      else if addr = 3 then write_reg3 e s val
      else if addr = 4 then Inr (write_reg4 e s val)
      else if addr = 5 then Inr s
      else if addr = 6 then Inr s
      else if addr = 7 then Inr (s\<lparr>scr := ucast val\<rparr>)
      else write_reg0 e s val)"

section \<open>Register reads\<close>

definition read_reg0 :: "ser_env \<Rightarrow> serial_state \<Rightarrow> (u32 \<times> serial_state) res" where
  "read_reg0 e s =
     (if lcr s AND UART_LCR_DLAB \<noteq> 0 then Inr (ucast (divider s AND 0xff), s)
      else
        rbind (if fcr s AND UART_FCR_FE \<noteq> 0 then
                 rbind (fifo_get s True) (\<lambda>(c, s).
                 let s = (if fcount (recv_fifo s) = 0 then
                            s\<lparr>lsr := lsr s AND NOT (UART_LSR_DR OR UART_LSR_BI)\<rparr>
                          else s\<lparr>fifo_timeout_timer := Some (env_later e + char_transmit_time s * 4)\<rparr>)
                 in Inr (ucast c, s\<lparr>timeout_ipending := False\<rparr>))
               else Inr (ucast (rbr s), s\<lparr>lsr := lsr s AND NOT (UART_LSR_DR OR UART_LSR_BI)\<rparr>)) (\<lambda>(ret, s).
        let s = serial_update_irq s
        in Inr (ret, if mcr s AND UART_MCR_LOOP = 0 then s\<lparr>chr_log := chr_log s @ [ChrAcceptInput]\<rparr> else s)))"

definition read_reg2 :: "serial_state \<Rightarrow> u32 \<times> serial_state" where
  "read_reg2 s =
     (ucast (iir s),
      if iir s AND UART_IIR_ID = UART_IIR_THRI then serial_update_irq (s\<lparr>thr_ipending := False\<rparr>) else s)"

definition read_reg5 :: "serial_state \<Rightarrow> u32 \<times> serial_state" where
  "read_reg5 s =
     (ucast (lsr s),
      if lsr s AND (UART_LSR_BI OR UART_LSR_OE) \<noteq> 0 then
        serial_update_irq (s\<lparr>lsr := lsr s AND NOT (UART_LSR_BI OR UART_LSR_OE)\<rparr>)
      else s)"

definition read_reg6 :: "ser_env \<Rightarrow> serial_state \<Rightarrow> u32 \<times> serial_state" where
  "read_reg6 e s =
     (if mcr s AND UART_MCR_LOOP \<noteq> 0 then
        (push_bit 4 (ucast (mcr s AND 0x0c)) OR push_bit 3 (ucast (mcr s AND 0x02)) OR push_bit 5 (ucast (mcr s AND 0x01)), s)
      else
        let s = (if 0 \<le> poll_msl s then serial_update_msl e s else s)
        in (ucast (msr s),
            if msr s AND UART_MSR_ANY_DELTA \<noteq> 0 then serial_update_irq (s\<lparr>msr := msr s AND 0xF0\<rparr>) else s))"

definition serial_ioport_read :: "ser_env \<Rightarrow> serial_state \<Rightarrow> nat \<Rightarrow> (u32 \<times> serial_state) res" where
  "serial_ioport_read e s addr =
     (let addr = addr mod 8 in
      if addr = 1 then
        Inr (if lcr s AND UART_LCR_DLAB \<noteq> 0 then ucast (drop_bit 8 (divider s) AND 0xff) else ucast (ier s), s)
      else if addr = 2 then Inr (read_reg2 s)
      else if addr = 3 then Inr (ucast (lcr s), s)
      else if addr = 4 then Inr (ucast (mcr s), s)
      else if addr = 5 then Inr (read_reg5 s)
      else if addr = 6 then Inr (read_reg6 e s)
      else if addr = 7 then Inr (ucast (scr s), s)
      else read_reg0 e s)"

section \<open>The character device's side\<close>

definition serial_can_receive :: "serial_state \<Rightarrow> nat" where
  "serial_can_receive s =
     (if fcr s AND UART_FCR_FE \<noteq> 0 then
        if fcount (recv_fifo s) < UART_FIFO_LENGTH then
          if fcount (recv_fifo s) \<le> itl (recv_fifo s) then itl (recv_fifo s) - fcount (recv_fifo s) else 1
        else 0
      else if lsr s AND UART_LSR_DR = 0 then 1 else 0)"

definition serial_can_receive1 :: "serial_state \<Rightarrow> nat" where
  "serial_can_receive1 s = serial_can_receive s"

definition serial_receive_break :: "serial_state \<Rightarrow> serial_state res" where
  "serial_receive_break s =
     rbind (fifo_put (s\<lparr>rbr := 0\<rparr>) True 0) (\<lambda>s.
     Inr (serial_update_irq (s\<lparr>lsr := lsr s OR (UART_LSR_BI OR UART_LSR_DR)\<rparr>)))"

definition serial_event :: "serial_state \<Rightarrow> bool \<Rightarrow> serial_state res" where
  "serial_event s is_break = (if is_break then serial_receive_break s else Inr s)"

definition fifo_timeout_int :: "serial_state \<Rightarrow> serial_state" where
  "fifo_timeout_int s =
     (if fcount (recv_fifo s) \<noteq> 0 then serial_update_irq (s\<lparr>timeout_ipending := True\<rparr>) else s)"

section \<open>Reset, migration, set-up\<close>

definition serial_reset :: "ser_env \<Rightarrow> serial_state \<Rightarrow> serial_state" where
  "serial_reset e s =
     (let s = s\<lparr>rbr := 0, ier := 0, iir := UART_IIR_NO_INT, lcr := 0, lsr := UART_LSR_TEMT OR UART_LSR_THRE,
               msr := UART_MSR_DCD OR UART_MSR_DSR OR UART_MSR_CTS, divider := 0x0C, mcr := UART_MCR_OUT2,
               scr := 0, tsr_retry := 0, char_transmit_time := word_of_int ((env_ticks e sdiv 9600) * 10),
               poll_msl := 0\<rparr>;
          s = fifo_clear s True;
          s = fifo_clear s False
      in s\<lparr>last_xmit_ts := env_later e, thr_ipending := False, last_break_enable := 0, irq_level := False\<rparr>)"

definition serial_pre_save :: "serial_state \<Rightarrow> serial_state" where
  "serial_pre_save s = s\<lparr>fcr_vmstate := fcr s\<rparr>"

definition serial_post_load :: "ser_env \<Rightarrow> serial_state \<Rightarrow> int \<Rightarrow> serial_state res" where
  "serial_post_load e s version_id =
     (let s = (if version_id < 3 then s\<lparr>fcr_vmstate := 0\<rparr> else s) in
      rbind (serial_ioport_write e s 0x02 (ucast (fcr_vmstate s))) (\<lambda>s.
      serial_update_parameters e s))"

text \<open>\<open>vmstate_serial\<close>: the fields that a migration carries from \<open>old\<close> to the new machine's \<open>s\<close>.\<close>

definition vmstate_load :: "serial_state \<Rightarrow> serial_state \<Rightarrow> serial_state" where
  "vmstate_load old s =
     s\<lparr>divider := divider old, rbr := rbr old, ier := ier old, iir := iir old, lcr := lcr old, mcr := mcr old,
       lsr := lsr old, msr := msr old, scr := scr old, fcr_vmstate := fcr_vmstate old\<rparr>"

definition fifo_zero :: serial_fifo where
  "fifo_zero = \<lparr>fdata = replicate UART_FIFO_LENGTH 0, fcount = 0, itl = 0, ftail = 0, fhead = 0\<rparr>"

text \<open>
  \<open>serial_init\<close> and \<open>serial_mm_init\<close>: a zeroed structure. Without a character device
  \<open>serial_init_core\<close> ends the process (\<open>None\<close>).
\<close>

definition serial_zero :: serial_state where
  "serial_zero = \<lparr>divider = 0, rbr = 0, thr = 0, tsr = 0, ier = 0, iir = 0, lcr = 0, mcr = 0, lsr = 0, msr = 0,
     scr = 0, fcr = 0, fcr_vmstate = 0, thr_ipending = False, irq_level = False, last_break_enable = 0,
     it_shift = 0, baudbase = 0, tsr_retry = 0, wakeup = 0, last_xmit_ts = 0, recv_fifo = fifo_zero,
     xmit_fifo = fifo_zero, fifo_timeout_timer = None, timeout_ipending = False, transmit_timer = None,
     char_transmit_time = 0, poll_msl = 0, modem_status_poll = None, chr_log = []\<rparr>"

definition serial_init_core :: "bool \<Rightarrow> serial_state \<Rightarrow> serial_state option" where
  "serial_init_core has_chr s =
     (if \<not> has_chr then None
      else Some (s\<lparr>modem_status_poll := None, fifo_timeout_timer := None, transmit_timer := None\<rparr>))"

definition serial_init :: "bool \<Rightarrow> int \<Rightarrow> serial_state option" where
  "serial_init has_chr baud = serial_init_core has_chr (serial_zero\<lparr>baudbase := baud\<rparr>)"

definition serial_mm_init :: "ser_env \<Rightarrow> bool \<Rightarrow> nat \<Rightarrow> int \<Rightarrow> serial_state option" where
  "serial_mm_init e has_chr shift baud =
     map_option (serial_update_msl e)
       (serial_init_core has_chr (serial_zero\<lparr>it_shift := shift, baudbase := baud\<rparr>))"

definition serial_set_frequency :: "ser_env \<Rightarrow> serial_state \<Rightarrow> u32 \<Rightarrow> serial_state res" where
  "serial_set_frequency e s frequency = serial_update_parameters e (s\<lparr>baudbase := sint frequency\<rparr>)"

text \<open>The memory-mapped interface; an access has 1, 2 or 4 bytes.\<close>

definition serial_mm_read :: "ser_env \<Rightarrow> serial_state \<Rightarrow> nat \<Rightarrow> (u32 \<times> serial_state) res" where
  "serial_mm_read e s addr = serial_ioport_read e s (addr div 2 ^ it_shift s)"

definition serial_mm_write :: "ser_env \<Rightarrow> serial_state \<Rightarrow> nat \<Rightarrow> u64 \<Rightarrow> nat \<Rightarrow> serial_state res" where
  "serial_mm_write e s addr val sz =
     serial_ioport_write e s (addr div 2 ^ it_shift s) (val AND drop_bit (32 - sz * 8) 0xffffffff)"

end
