(* ===== verification/Serial_Inv.thy ===== *)
theory Serial_Inv
  imports Serial
begin

unbundle bit_operations_syntax

text \<open>
  The invariant of the UART: its FIFOs are bounded queues, between two operations the transmitter
  is empty, and the interrupt identification register and the interrupt line always say what the
  registers say. Every operation keeps it, and with a base frequency that no divisor exceeds no
  operation faults.
\<close>

section \<open>The FIFOs as queues\<close>

definition fifo_ok :: "serial_fifo \<Rightarrow> bool" where
  "fifo_ok f \<longleftrightarrow> length (fdata f) = 16 \<and> ring_ok 16 (fhead f) (ftail f) (fcount f)"

definition fifo_view :: "serial_fifo \<Rightarrow> u8 list" where
  "fifo_view f = ring_view (fdata f) (ftail f) (fcount f)"

definition ff_put :: "u8 \<Rightarrow> serial_fifo \<Rightarrow> serial_fifo" where
  "ff_put c f = f\<lparr>fdata := (fdata f)[fhead f := c], fhead := ring_next 16 (fhead f), fcount := fcount f + 1\<rparr>"

definition ff_get :: "serial_fifo \<Rightarrow> serial_fifo" where
  "ff_get f = f\<lparr>ftail := ring_next 16 (ftail f), fcount := fcount f - 1\<rparr>"

definition ff_first :: "serial_fifo \<Rightarrow> u8" where
  "ff_first f = fdata f ! ftail f"

interpretation uartq: bounded_fifo fifo_view fifo_ok fcount 16 ff_put ff_get ff_first
proof
  fix f :: serial_fifo and c :: u8
  assume ok: "fifo_ok f"
  show "fcount f = length (fifo_view f)" "fcount f \<le> 16"
    using ok by (simp_all add: fifo_view_def fifo_ok_def ring_ok_def)
  show "fifo_ok (ff_put c f)" "fifo_view (ff_put c f) = fifo_view f @ [c]" if "fcount f < 16"
    using ok that ring_ok_put [of 16 "fhead f" "ftail f" "fcount f"]
      ring_view_put [of "fcount f" "fdata f" "ftail f" c]
    by (auto simp: fifo_ok_def ff_put_def fifo_view_def ring_ok_def)
  show "fifo_ok (ff_get f)" "fifo_view f = ff_first f # fifo_view (ff_get f)" if "0 < fcount f"
    using ok that ring_ok_get [of 16 "fhead f" "ftail f" "fcount f"]
      ring_view_get [of "fcount f" "ftail f" "fdata f"]
    by (auto simp: fifo_ok_def ff_get_def fifo_view_def ff_first_def ring_ok_def)
qed

lemma fifo_put_recv:
  assumes "fifo_ok (recv_fifo s)"
  shows "fifo_put s True c =
    Inr (if fcount (recv_fifo s) < 16 then s\<lparr>recv_fifo := ff_put c (recv_fifo s)\<rparr> else s\<lparr>lsr := lsr s OR 0x02\<rparr>)"
  using assms
  by (simp add: fifo_put_def the_fifo_def set_fifo_def Let_def fifo_ok_def ring_ok_def ff_put_def ring_next_def)

lemma fifo_put_xmit:
  assumes "fifo_ok (xmit_fifo s)" and "fcount (xmit_fifo s) < 16"
  shows "fifo_put s False c = Inr (s\<lparr>xmit_fifo := ff_put c (xmit_fifo s)\<rparr>)"
  using assms
  by (simp add: fifo_put_def the_fifo_def set_fifo_def Let_def fifo_ok_def ring_ok_def ff_put_def ring_next_def)

lemma fifo_get_recv:
  assumes "fifo_ok (recv_fifo s)"
  shows "fifo_get s True =
    Inr (if fcount (recv_fifo s) = 0 then (0, s) else (ff_first (recv_fifo s), s\<lparr>recv_fifo := ff_get (recv_fifo s)\<rparr>))"
  using assms
  by (simp add: fifo_get_def the_fifo_def set_fifo_def Let_def fifo_ok_def ring_ok_def ff_get_def ff_first_def
      ring_next_def)

lemma fifo_get_xmit:
  assumes "fifo_ok (xmit_fifo s)" and "0 < fcount (xmit_fifo s)"
  shows "fifo_get s False = Inr (ff_first (xmit_fifo s), s\<lparr>xmit_fifo := ff_get (xmit_fifo s)\<rparr>)"
  using assms
  by (simp add: fifo_get_def the_fifo_def set_fifo_def Let_def fifo_ok_def ring_ok_def ff_get_def ff_first_def
      ring_next_def)

lemma fcount_ff [simp]: "fcount (ff_put c f) = Suc (fcount f)" "fcount (ff_get f) = fcount f - 1"
    "itl (ff_put c f) = itl f" "itl (ff_get f) = itl f"
  by (simp_all add: ff_put_def ff_get_def)

lemma ff_first_put_empty: "fifo_ok f \<Longrightarrow> fcount f = 0 \<Longrightarrow> ff_first (ff_put c f) = c"
  by (simp add: ff_first_def ff_put_def fifo_ok_def ring_ok_def)

lemma fifo_ok_clear: "fifo_ok (f\<lparr>fdata := replicate 16 0, fcount := 0, fhead := 0, ftail := 0\<rparr>)"
  by (simp add: fifo_ok_def ring_ok_def)

lemma fifo_ok_itl [simp]: "fifo_ok (f\<lparr>itl := n\<rparr>) = fifo_ok f" "fcount (f\<lparr>itl := n\<rparr>) = fcount f"
  by (simp_all add: fifo_ok_def)

section \<open>Interrupts\<close>

lemma serial_pending_cases:
  "serial_pending s \<in> {0x06, 0x0C, 0x04, 0x02, 0x00, 0x01}"
  by (simp add: serial_pending_def)

lemma serial_pending_low: "(serial_pending s OR (w AND 0xF0)) AND 0x0f = serial_pending s"
proof -
  have "p AND 0x0f = p" if "p \<in> {0x06, 0x0C, 0x04, 0x02, 0x00, 0x01}" for p :: u8
    using that by auto
  then have "serial_pending s AND 0x0f = serial_pending s"
    using serial_pending_cases [of s] by blast
  then show ?thesis
    by (simp add: and.assoc bit.conj_disj_distrib2)
qed

text \<open>What the identification of a pending interrupt depends on.\<close>

lemma serial_pending_cong:
  assumes "ier s = ier t" "lsr s = lsr t" "timeout_ipending s = timeout_ipending t" "fcr s = fcr t"
    "itl (recv_fifo s) = itl (recv_fifo t)" "fcount (recv_fifo s) = fcount (recv_fifo t)"
    "thr_ipending s = thr_ipending t" "msr s = msr t"
  shows "serial_pending s = serial_pending t"
  using assms by (simp add: serial_pending_def)

definition irq_coherent :: "serial_state \<Rightarrow> bool" where
  "irq_coherent s \<longleftrightarrow> iir s AND 0x0f = serial_pending s \<and> irq_level s = (serial_pending s \<noteq> 0x01)"

lemma update_irq_pending [simp]: "serial_pending (serial_update_irq s) = serial_pending s"
  by (rule serial_pending_cong) (simp_all add: serial_update_irq_def Let_def)

lemma update_irq_coherent [simp]: "irq_coherent (serial_update_irq s)"
proof -
  have "serial_update_irq s = s\<lparr>iir := serial_pending s OR (iir s AND 0xF0), irq_level := (serial_pending s \<noteq> 1)\<rparr>"
    by (simp add: serial_update_irq_def Let_def)
  then have "iir (serial_update_irq s) AND 0x0f = serial_pending s" "irq_level (serial_update_irq s) = (serial_pending s \<noteq> 1)"
    using serial_pending_low [of s "iir s"] by simp_all
  then show ?thesis by (simp add: irq_coherent_def)
qed

text \<open>What it leaves alone.\<close>

lemma update_irq_frame [simp]:
  "divider (serial_update_irq s) = divider s" "rbr (serial_update_irq s) = rbr s"
  "thr (serial_update_irq s) = thr s" "tsr (serial_update_irq s) = tsr s"
  "ier (serial_update_irq s) = ier s" "lcr (serial_update_irq s) = lcr s"
  "mcr (serial_update_irq s) = mcr s" "lsr (serial_update_irq s) = lsr s"
  "msr (serial_update_irq s) = msr s" "scr (serial_update_irq s) = scr s"
  "fcr (serial_update_irq s) = fcr s" "thr_ipending (serial_update_irq s) = thr_ipending s"
  "timeout_ipending (serial_update_irq s) = timeout_ipending s"
  "baudbase (serial_update_irq s) = baudbase s" "tsr_retry (serial_update_irq s) = tsr_retry s"
  "wakeup (serial_update_irq s) = wakeup s"
  "recv_fifo (serial_update_irq s) = recv_fifo s" "xmit_fifo (serial_update_irq s) = xmit_fifo s"
  "transmit_timer (serial_update_irq s) = transmit_timer s"
  "fifo_timeout_timer (serial_update_irq s) = fifo_timeout_timer s"
  "char_transmit_time (serial_update_irq s) = char_transmit_time s"
  "poll_msl (serial_update_irq s) = poll_msl s" "chr_log (serial_update_irq s) = chr_log s"
  by (simp_all add: serial_update_irq_def Let_def)

section \<open>The invariant\<close>

definition fifos_ok :: "serial_state \<Rightarrow> bool" where
  "fifos_ok s \<longleftrightarrow> fifo_ok (recv_fifo s) \<and> fifo_ok (xmit_fifo s) \<and> itl (recv_fifo s) \<le> 14"

definition tx_idle :: "serial_state \<Rightarrow> bool" where
  "tx_idle s \<longleftrightarrow> fcount (xmit_fifo s) = 0 \<and> tsr_retry s \<le> 0 \<and> bit (lsr s) 5 \<and> transmit_timer s = None"

definition ser_inv :: "serial_state \<Rightarrow> bool" where
  "ser_inv s \<longleftrightarrow> fifos_ok s \<and> tx_idle s \<and> irq_coherent s"

lemma idle_other [simp]:
  "fifos_ok (s\<lparr>ier := x_ier\<rparr>) = fifos_ok s" "tx_idle (s\<lparr>ier := x_ier\<rparr>) = tx_idle s"
  "fifos_ok (s\<lparr>iir := x_iir\<rparr>) = fifos_ok s" "tx_idle (s\<lparr>iir := x_iir\<rparr>) = tx_idle s"
  "fifos_ok (s\<lparr>poll_msl := x_poll_msl\<rparr>) = fifos_ok s" "tx_idle (s\<lparr>poll_msl := x_poll_msl\<rparr>) = tx_idle s"
  "fifos_ok (s\<lparr>modem_status_poll := x_modem_status_poll\<rparr>) = fifos_ok s" "tx_idle (s\<lparr>modem_status_poll := x_modem_status_poll\<rparr>) = tx_idle s"
  "fifos_ok (s\<lparr>chr_log := x_chr_log\<rparr>) = fifos_ok s" "tx_idle (s\<lparr>chr_log := x_chr_log\<rparr>) = tx_idle s"
  "fifos_ok (s\<lparr>mcr := x_mcr\<rparr>) = fifos_ok s" "tx_idle (s\<lparr>mcr := x_mcr\<rparr>) = tx_idle s"
  "fifos_ok (s\<lparr>lcr := x_lcr\<rparr>) = fifos_ok s" "tx_idle (s\<lparr>lcr := x_lcr\<rparr>) = tx_idle s"
  "fifos_ok (s\<lparr>scr := x_scr\<rparr>) = fifos_ok s" "tx_idle (s\<lparr>scr := x_scr\<rparr>) = tx_idle s"
  "fifos_ok (s\<lparr>divider := x_divider\<rparr>) = fifos_ok s" "tx_idle (s\<lparr>divider := x_divider\<rparr>) = tx_idle s"
  "fifos_ok (s\<lparr>baudbase := x_baudbase\<rparr>) = fifos_ok s" "tx_idle (s\<lparr>baudbase := x_baudbase\<rparr>) = tx_idle s"
  "fifos_ok (s\<lparr>thr_ipending := x_thr_ipending\<rparr>) = fifos_ok s" "tx_idle (s\<lparr>thr_ipending := x_thr_ipending\<rparr>) = tx_idle s"
  "fifos_ok (s\<lparr>fcr := x_fcr\<rparr>) = fifos_ok s" "tx_idle (s\<lparr>fcr := x_fcr\<rparr>) = tx_idle s"
  "fifos_ok (s\<lparr>timeout_ipending := x_timeout_ipending\<rparr>) = fifos_ok s" "tx_idle (s\<lparr>timeout_ipending := x_timeout_ipending\<rparr>) = tx_idle s"
  "fifos_ok (s\<lparr>fifo_timeout_timer := x_fifo_timeout_timer\<rparr>) = fifos_ok s" "tx_idle (s\<lparr>fifo_timeout_timer := x_fifo_timeout_timer\<rparr>) = tx_idle s"
  "fifos_ok (s\<lparr>msr := x_msr\<rparr>) = fifos_ok s" "tx_idle (s\<lparr>msr := x_msr\<rparr>) = tx_idle s"
  "fifos_ok (s\<lparr>last_break_enable := x_last_break_enable\<rparr>) = fifos_ok s" "tx_idle (s\<lparr>last_break_enable := x_last_break_enable\<rparr>) = tx_idle s"
  "fifos_ok (s\<lparr>char_transmit_time := x_char_transmit_time\<rparr>) = fifos_ok s" "tx_idle (s\<lparr>char_transmit_time := x_char_transmit_time\<rparr>) = tx_idle s"
  "fifos_ok (s\<lparr>rbr := x_rbr\<rparr>) = fifos_ok s" "tx_idle (s\<lparr>rbr := x_rbr\<rparr>) = tx_idle s"
  "fifos_ok (s\<lparr>fcr_vmstate := x_fcr_vmstate\<rparr>) = fifos_ok s" "tx_idle (s\<lparr>fcr_vmstate := x_fcr_vmstate\<rparr>) = tx_idle s"
  by (simp_all add: fifos_ok_def tx_idle_def)

lemma update_irq_inv [simp]: "fifos_ok s \<Longrightarrow> tx_idle s \<Longrightarrow> ser_inv (serial_update_irq s)"
  by (simp add: ser_inv_def fifos_ok_def tx_idle_def)

lemma irq_coherent_cong:
  assumes "irq_coherent s" "iir s = iir t" "irq_level s = irq_level t"
    "ier s = ier t" "lsr s = lsr t" "timeout_ipending s = timeout_ipending t" "fcr s = fcr t"
    "itl (recv_fifo s) = itl (recv_fifo t)" "fcount (recv_fifo s) = fcount (recv_fifo t)"
    "thr_ipending s = thr_ipending t" "msr s = msr t"
  shows "irq_coherent t"
  using assms(1-3) serial_pending_cong [OF assms(4-11)] by (simp add: irq_coherent_def)

lemma reset_inv:
  assumes "transmit_timer s = None" and "itl (recv_fifo s) \<le> 14"
  shows "ser_inv (serial_reset e s)"
proof -
  have "serial_pending (serial_reset e s) = 1"
    by (simp add: serial_reset_def serial_pending_def Let_def fifo_clear_def set_fifo_def the_fifo_def)
  with assms show ?thesis
    by (simp add: ser_inv_def irq_coherent_def fifos_ok_def tx_idle_def serial_reset_def Let_def fifo_clear_def
        set_fifo_def the_fifo_def fifo_ok_clear bit_simps word_bits bit_numeral_rec)
qed

lemma update_parameters_inv:
  assumes "serial_update_parameters e s = Inr s'" and "ser_inv s"
  shows "ser_inv s'"
proof -
  have "s' = s \<or> (\<exists>t l. s' = s\<lparr>char_transmit_time := t, chr_log := l\<rparr>)"
    using assms(1) by (auto simp: serial_update_parameters_def Let_def split: if_splits)
  then show ?thesis
  proof
    assume "\<exists>t l. s' = s\<lparr>char_transmit_time := t, chr_log := l\<rparr>"
    then obtain t l where s': "s' = s\<lparr>char_transmit_time := t, chr_log := l\<rparr>" by blast
    have "irq_coherent s'"
      by (rule irq_coherent_cong [of s]) (use assms(2) in \<open>simp_all add: s' ser_inv_def\<close>)
    then show ?thesis using assms(2) by (simp add: s' ser_inv_def fifos_ok_def tx_idle_def)
  qed (use assms(2) in simp)
qed

section \<open>Receiving\<close>

text \<open>Receiving touches neither the transmitter nor the set-up.\<close>

definition rx_only :: "serial_state \<Rightarrow> serial_state \<Rightarrow> bool" where
  "rx_only s t \<longleftrightarrow> xmit_fifo t = xmit_fifo s \<and> tsr_retry t = tsr_retry s \<and> transmit_timer t = transmit_timer s \<and>
     fcr t = fcr s \<and> mcr t = mcr s \<and> lcr t = lcr s \<and> ier t = ier s \<and> poll_msl t = poll_msl s \<and>
     baudbase t = baudbase s \<and> divider t = divider s \<and> thr t = thr s \<and> tsr t = tsr s \<and> wakeup t = wakeup s \<and>
     itl (recv_fifo t) = itl (recv_fifo s) \<and> (\<forall>n\<in>{5, 6}. bit (lsr t) n = bit (lsr s) n)"

lemma rx_only_refl [simp]: "rx_only s s"
  by (simp add: rx_only_def)

lemma rx_only_trans: "rx_only s t \<Longrightarrow> rx_only t u \<Longrightarrow> rx_only s u"
  by (simp add: rx_only_def)

lemma rx_only_tx_idle: "rx_only s t \<Longrightarrow> tx_idle s \<Longrightarrow> tx_idle t"
  by (simp add: rx_only_def tx_idle_def)

lemma fifo_put_recv_step:
  assumes "fifos_ok s"
  shows "\<exists>t. fifo_put s True c = Inr t \<and> fifos_ok t \<and> rx_only s t"
proof (cases "fcount (recv_fifo s) < 16")
  case True
  with assms uartq.ok_put [of "recv_fifo s" c] show ?thesis
    by (simp add: fifo_put_recv fifos_ok_def rx_only_def)
next
  case False
  with assms show ?thesis
    by (simp add: fifo_put_recv fifos_ok_def rx_only_def bit_simps bit_numeral_rec)
qed

lemma fifo_put_all_step:
  "fifos_ok s \<Longrightarrow> \<exists>t. fifo_put_all s cs = Inr t \<and> fifos_ok t \<and> rx_only s t"
proof (induction cs arbitrary: s)
  case Nil
  then show ?case by simp
next
  case (Cons c cs)
  obtain s1 where s1: "fifo_put s True c = Inr s1" "fifos_ok s1" "rx_only s s1"
    using fifo_put_recv_step [OF Cons.prems] by blast
  obtain t where "fifo_put_all s1 cs = Inr t" "fifos_ok t" "rx_only s1 t"
    using Cons.IH [OF s1(2)] by blast
  with s1 show ?case using rx_only_trans by fastforce
qed

lemma rx_only_update_irq [simp]: "rx_only s (serial_update_irq t) = rx_only s t"
  by (simp add: rx_only_def)

lemma fifos_ok_update_irq [simp]: "fifos_ok (serial_update_irq s) = fifos_ok s"
  by (simp add: fifos_ok_def)

lemma tx_idle_update_irq [simp]: "tx_idle (serial_update_irq s) = tx_idle s"
  by (simp add: tx_idle_def)

lemma receive1_step:
  assumes "fifos_ok s" and "buf \<noteq> []"
  shows "\<exists>t. serial_receive1 e s buf = Inr t \<and> fifos_ok t \<and> rx_only s t \<and> irq_coherent t"
proof -
  define s0 where "s0 = (if wakeup s \<noteq> 0 then s\<lparr>chr_log := chr_log s @ [WakeupRequest]\<rparr> else s)"
  have s0: "fifos_ok s0" "rx_only s s0"
    using assms(1) by (simp_all add: s0_def fifos_ok_def rx_only_def)
  show ?thesis
  proof (cases "fcr s0 AND 1 \<noteq> 0")
    case True
    obtain t where t: "fifo_put_all s0 buf = Inr t" "fifos_ok t" "rx_only s0 t"
      using fifo_put_all_step [OF s0(1)] by blast
    let ?t = "t\<lparr>lsr := lsr t OR 1, fifo_timeout_timer := Some (env_later e + char_transmit_time t * 4)\<rparr>"
    have "fifos_ok ?t" "rx_only t ?t"
      using t(2) by (simp_all add: fifos_ok_def rx_only_def bit_simps)
    moreover have "rx_only s ?t"
      using rx_only_trans [OF s0(2) rx_only_trans [OF t(3) \<open>rx_only t ?t\<close>]] .
    ultimately show ?thesis
      using True t(1) by (simp add: serial_receive1_def Let_def s0_def [symmetric])
  next
    case False
    define t where "t = (if lsr s0 AND 1 \<noteq> 0 then s0\<lparr>lsr := lsr s0 OR 2\<rparr> else s0)"
    let ?t = "t\<lparr>rbr := buf ! 0, lsr := lsr t OR 1\<rparr>"
    have "fifos_ok ?t" "rx_only s ?t"
      using s0 by (simp_all add: t_def fifos_ok_def rx_only_def bit_simps bit_numeral_rec)
    then show ?thesis
      using False assms(2) by (simp add: serial_receive1_def Let_def s0_def [symmetric] t_def [symmetric])
  qed
qed

lemma receive_break_step:
  assumes "fifos_ok s"
  shows "\<exists>t. serial_receive_break s = Inr t \<and> fifos_ok t \<and> rx_only s t \<and> irq_coherent t"
proof -
  have "fifos_ok (s\<lparr>rbr := 0\<rparr>)" "rx_only s (s\<lparr>rbr := 0\<rparr>)"
    using assms by (simp_all add: fifos_ok_def rx_only_def)
  then obtain t where t: "fifo_put (s\<lparr>rbr := 0\<rparr>) True 0 = Inr t" "fifos_ok t" "rx_only (s\<lparr>rbr := 0\<rparr>) t"
    using fifo_put_recv_step by blast
  let ?t = "t\<lparr>lsr := lsr t OR 0x11\<rparr>"
  have "fifos_ok ?t" "rx_only t ?t"
    using t(2) by (simp_all add: fifos_ok_def rx_only_def bit_simps bit_numeral_rec)
  moreover have "rx_only s ?t"
    using rx_only_trans [OF \<open>rx_only s (s\<lparr>rbr := 0\<rparr>)\<close> rx_only_trans [OF t(3) \<open>rx_only t ?t\<close>]] .
  ultimately show ?thesis
    using t(1) by (simp add: serial_receive_break_def)
qed

section \<open>Transmitting\<close>

text \<open>
  A write of the transmit register while the transmitter is idle: the byte is fetched at once, it is
  the only one, and the transmitter is idle again whatever the backend answers.
\<close>

lemma xmit_fetch_idle:
  assumes "fifos_ok s" and "tsr_retry s \<le> 0" and "if fcr s AND 1 \<noteq> 0 then fcount (xmit_fifo s) = 1 else fcount (xmit_fifo s) = 0"
  shows "\<exists>t. xmit_fetch s = Inr t \<and> fifos_ok t \<and> fcount (xmit_fifo t) = 0 \<and> bit (lsr t) 5 \<and>
    tsr t = (if fcr s AND 1 \<noteq> 0 then ff_first (xmit_fifo s) else thr s) \<and> tsr_retry t = tsr_retry s \<and>
    transmit_timer t = transmit_timer s \<and> mcr t = mcr s \<and> fcr t = fcr s \<and> chr_log t = chr_log s \<and>
    poll_msl t = poll_msl s \<and> recv_fifo t = recv_fifo s \<and> ier t = ier s \<and> lcr t = lcr s \<and>
    wakeup t = wakeup s \<and> rbr t = rbr s \<and> bit (lsr t) 0 = bit (lsr s) 0 \<and> baudbase t = baudbase s"
  using assms uartq.ok_get [of "xmit_fifo s"]
  by (auto simp: xmit_fetch_def fifo_get_xmit fifos_ok_def bit_simps bit_numeral_rec)

lemma xmit_done_inv:
  assumes "fifos_ok s" and "fcount (xmit_fifo s) = 0" and "tsr_retry s \<le> 0" and "bit (lsr s) 5" and "transmit_timer s = None"
  shows "ser_inv (xmit_done e s)"
  using assms
  by (simp add: xmit_done_def Let_def u8_flags ser_inv_def tx_idle_def fifos_ok_def bit_simps bit_numeral_rec)

lemma xmit_send_idle:
  assumes "fifos_ok s" and "tsr_retry s \<le> 0"
  shows "\<exists>t. xmit_send e s = Inr (False, t) \<and> fifos_ok t \<and> xmit_fifo t = xmit_fifo s \<and> tsr_retry t \<le> 0 \<and>
    bit (lsr t) 5 = bit (lsr s) 5 \<and> transmit_timer t = transmit_timer s \<and> baudbase t = baudbase s \<and>
    (if mcr s AND 0x10 \<noteq> 0 then serial_receive1 e s [tsr s] = Inr t
     else chr_log t = chr_log s @ [ChrWrite (tsr s)] \<and> recv_fifo t = recv_fifo s \<and> rbr t = rbr s \<and> lsr t = lsr s \<and>
          fcr t = fcr s)"
proof (cases "mcr s AND 0x10 \<noteq> 0")
  case True
  obtain t where "serial_receive1 e s [tsr s] = Inr t" "fifos_ok t" "rx_only s t"
    using receive1_step [OF assms(1), of "[tsr s]" e] by blast
  with True assms(2) show ?thesis
    by (auto simp: xmit_send_def rx_only_def)
next
  case False
  with assms show ?thesis
    by (simp add: xmit_send_def Let_def fifos_ok_def)
qed

text \<open>The state a write of the transmit register leaves to \<open>serial_xmit\<close>.\<close>

definition thr_loaded :: "serial_state \<Rightarrow> u64 \<Rightarrow> serial_state" where
  "thr_loaded s val =
     serial_update_irq
       (if fcr s AND 1 \<noteq> 0 then s\<lparr>thr := ucast val, xmit_fifo := ff_put (ucast val) (xmit_fifo s), thr_ipending := False,
                                     lsr := (lsr s AND NOT 0x40) AND NOT 0x20\<rparr>
        else s\<lparr>thr := ucast val, thr_ipending := False, lsr := lsr s AND NOT 0x20\<rparr>)"

lemma write_reg0_thr:
  assumes "ser_inv s" and "lcr s AND 0x80 = 0"
  shows "write_reg0 e s val = serial_xmit e (thr_loaded s val)"
  using assms
  by (auto simp: write_reg0_def Let_def fifo_put_xmit ser_inv_def tx_idle_def fifos_ok_def thr_loaded_def)

lemma thr_loaded_props:
  assumes "ser_inv s"
  shows "fifos_ok (thr_loaded s val)" "tsr_retry (thr_loaded s val) \<le> 0" "transmit_timer (thr_loaded s val) = None"
    "fcr (thr_loaded s val) = fcr s" "mcr (thr_loaded s val) = mcr s" "chr_log (thr_loaded s val) = chr_log s"
    "recv_fifo (thr_loaded s val) = recv_fifo s" "rbr (thr_loaded s val) = rbr s"
    "wakeup (thr_loaded s val) = wakeup s" "bit (lsr (thr_loaded s val)) 0 = bit (lsr s) 0"
    "if fcr s AND 1 \<noteq> 0 then fcount (xmit_fifo (thr_loaded s val)) = 1 else fcount (xmit_fifo (thr_loaded s val)) = 0"
    "(if fcr s AND 1 \<noteq> 0 then ff_first (xmit_fifo (thr_loaded s val)) else thr (thr_loaded s val)) = ucast val"
    "baudbase (thr_loaded s val) = baudbase s" "lcr (thr_loaded s val) = lcr s"
  using assms uartq.ok_put [of "xmit_fifo s" "ucast val"] ff_first_put_empty [of "xmit_fifo s" "ucast val"]
  by (auto simp: thr_loaded_def ser_inv_def fifos_ok_def tx_idle_def bit_simps bit_numeral_rec)

text \<open>The whole of a transmission, from the write of the register on.\<close>

lemma write_thr_step:
  assumes "ser_inv s" and "lcr s AND 0x80 = 0"
  shows "\<exists>u v. write_reg0 e s val = Inr (xmit_done e v) \<and> ser_inv (xmit_done e v) \<and> tsr u = ucast val \<and>
    recv_fifo u = recv_fifo s \<and> rbr u = rbr s \<and> fcr u = fcr s \<and> lcr u = lcr s \<and> wakeup u = wakeup s \<and> fifos_ok u \<and>
    bit (lsr u) 0 = bit (lsr s) 0 \<and> lsr (xmit_done e v) = lsr v OR 0x40 \<and> baudbase (xmit_done e v) = baudbase s \<and>
    (if mcr s AND 0x10 \<noteq> 0 then serial_receive1 e u [ucast val] = Inr v
     else chr_log v = chr_log s @ [ChrWrite (ucast val)] \<and> recv_fifo v = recv_fifo s \<and> rbr v = rbr s \<and>
          bit (lsr v) 0 = bit (lsr s) 0)"
proof -
  let ?l = "thr_loaded s val"
  note l = thr_loaded_props [OF assms(1), of val]
  have cnt: "if fcr ?l AND 1 \<noteq> 0 then fcount (xmit_fifo ?l) = 1 else fcount (xmit_fifo ?l) = 0"
    using l(11) by (simp only: l(4))
  obtain u where u: "xmit_fetch ?l = Inr u" "fifos_ok u" "fcount (xmit_fifo u) = 0" "bit (lsr u) 5" "tsr u = ucast val"
      "tsr_retry u \<le> 0" "transmit_timer u = None" "mcr u = mcr s" "fcr u = fcr s" "chr_log u = chr_log s"
      "recv_fifo u = recv_fifo s" "rbr u = rbr s" "wakeup u = wakeup s" "bit (lsr u) 0 = bit (lsr s) 0"
      "baudbase u = baudbase s" "lcr u = lcr s"
    using xmit_fetch_idle [OF l(1,2) cnt] l(2) unfolding l(3-10) l(12-14) by auto
  obtain v where v: "xmit_send e u = Inr (False, v)" "fifos_ok v" "xmit_fifo v = xmit_fifo u" "tsr_retry v \<le> 0"
      "bit (lsr v) 5 = bit (lsr u) 5" "transmit_timer v = transmit_timer u" "baudbase v = baudbase u"
      "if mcr u AND 0x10 \<noteq> 0 then serial_receive1 e u [tsr u] = Inr v
       else chr_log v = chr_log u @ [ChrWrite (tsr u)] \<and> recv_fifo v = recv_fifo u \<and> rbr v = rbr u \<and> lsr v = lsr u \<and>
            fcr v = fcr u"
    using xmit_send_idle [OF u(2,6), of e] by blast
  have "write_reg0 e s val = Inr (xmit_done e v)"
    by (simp add: write_reg0_thr [OF assms] serial_xmit_def u(1) v(1))
  moreover have "ser_inv (xmit_done e v)"
    using u v by (intro xmit_done_inv) simp_all
  moreover have "lsr (xmit_done e v) = lsr v OR 0x40" "baudbase (xmit_done e v) = baudbase v"
    using u(4) v(5) by (simp_all add: xmit_done_def Let_def u8_flags)
  ultimately show ?thesis
    using u v by (intro exI [of _ u] exI [of _ v]) (auto split: if_splits)
qed

section \<open>The other operations keep the invariant\<close>

lemma update_msl_frame:
  "fifos_ok (serial_update_msl e s) = fifos_ok s" "tx_idle (serial_update_msl e s) = tx_idle s"
  "lsr (serial_update_msl e s) = lsr s" "baudbase (serial_update_msl e s) = baudbase s"
  "ier (serial_update_msl e s) = ier s" "lcr (serial_update_msl e s) = lcr s"
  by (simp_all add: serial_update_msl_def Let_def fifos_ok_def tx_idle_def split: option.split)

lemma irq_coherent_other [simp]:
  "irq_coherent (s\<lparr>poll_msl := p\<rparr>) = irq_coherent s"
  "irq_coherent (s\<lparr>modem_status_poll := t\<rparr>) = irq_coherent s"
  "irq_coherent (s\<lparr>chr_log := l\<rparr>) = irq_coherent s"
  "irq_coherent (s\<lparr>mcr := w\<rparr>) = irq_coherent s"
  "irq_coherent (s\<lparr>lcr := w\<rparr>) = irq_coherent s"
  "irq_coherent (s\<lparr>scr := w\<rparr>) = irq_coherent s"
  "irq_coherent (s\<lparr>divider := d\<rparr>) = irq_coherent s"
  "irq_coherent (s\<lparr>baudbase := b\<rparr>) = irq_coherent s"
  "irq_coherent (s\<lparr>last_break_enable := i\<rparr>) = irq_coherent s"
  "irq_coherent (s\<lparr>fcr_vmstate := w\<rparr>) = irq_coherent s"
  by (simp_all add: irq_coherent_def serial_pending_def)

lemma update_msl_coherent: "irq_coherent s \<Longrightarrow> irq_coherent (serial_update_msl e s)"
  by (auto simp: serial_update_msl_def Let_def split: option.split)

section \<open>Every operation is total\<close>

text \<open>
  With a base frequency of at least 65535, the largest divisor, the speed is never zero. The board's
  frequency is 115200.
\<close>

definition ser_good :: "serial_state \<Rightarrow> bool" where
  "ser_good s \<longleftrightarrow> ser_inv s \<and> 65535 \<le> baudbase s"

lemma speed_positive:
  fixes w :: u16
  assumes "65535 \<le> b" and "w \<noteq> 0"
  shows "0 < b sdiv uint w"
proof -
  have "uint w \<noteq> 0" using assms(2) uint_0_iff by blast
  then have "0 < uint w" using uint_ge_0 [of w] by linarith
  moreover have "uint w \<le> 65535" using uint_lt2p [of w] by simp
  ultimately have "1 * uint w \<le> b" using assms(1) by linarith
  then have "1 \<le> b div uint w" using \<open>0 < uint w\<close> by (simp add: zdiv_mono1 pos_imp_zdiv_pos_iff [THEN iffD2] int_one_le_iff_zero_less)
  moreover have "b sdiv uint w = b div uint w"
    using assms \<open>0 < uint w\<close> unfolding signed_divide_int_def by simp
  ultimately show ?thesis by linarith
qed

lemma update_parameters_step:
  assumes "65535 \<le> baudbase s"
  shows "\<exists>t l. serial_update_parameters e s = Inr (s\<lparr>char_transmit_time := t, chr_log := l\<rparr>)"
proof (cases "divider s = 0")
  case True
  then have "serial_update_parameters e s = Inr (s\<lparr>char_transmit_time := char_transmit_time s, chr_log := chr_log s\<rparr>)"
    by (simp add: serial_update_parameters_def)
  then show ?thesis by blast
next
  case False
  with speed_positive [OF assms False] show ?thesis
    by (auto simp: serial_update_parameters_def Let_def)
qed

lemma update_parameters_good:
  assumes "ser_good s"
  shows "\<exists>t. serial_update_parameters e s = Inr t \<and> ser_good t \<and> divider t = divider s \<and> lcr t = lcr s"
proof -
  obtain c l where step: "serial_update_parameters e s = Inr (s\<lparr>char_transmit_time := c, chr_log := l\<rparr>)"
    using update_parameters_step [of s e] assms unfolding ser_good_def by blast
  with update_parameters_inv [OF step] assms show ?thesis
    by (simp add: ser_good_def)
qed

lemma write_reg0_good:
  assumes "ser_good s"
  shows "\<exists>t. write_reg0 e s val = Inr t \<and> ser_good t"
proof (cases "lcr s AND 0x80 = 0")
  case True
  then show ?thesis
    using write_thr_step [of s e val] assms by (auto simp: ser_good_def)
next
  case False
  have "ser_good (s\<lparr>divider := d\<rparr>)" for d
    using assms by (simp add: ser_good_def ser_inv_def fifos_ok_def tx_idle_def)
  from update_parameters_good [OF this] False show ?thesis
    by (auto simp: write_reg0_def)
qed

lemma write_reg1_good:
  assumes "ser_good s"
  shows "\<exists>t. write_reg1 e s val = Inr t \<and> ser_good t"
proof (cases "lcr s AND 0x80 = 0")
  case True
  define s1 where "s1 = s\<lparr>ier := ucast (val AND 0x0f)\<rparr>"
  define s2 where "s2 = (if 0 \<le> poll_msl s1 then
                   if ier s1 AND 0x08 \<noteq> 0 then serial_update_msl e (s1\<lparr>poll_msl := 1\<rparr>)
                   else s1\<lparr>modem_status_poll := None, poll_msl := 0\<rparr>
                 else s1)"
  have s2: "fifos_ok s2" "tx_idle s2" "65535 \<le> baudbase s2"
    using assms by (auto simp: s2_def s1_def update_msl_frame ser_good_def ser_inv_def)
  then have thre: "lsr s2 AND 0x20 \<noteq> 0" by (simp add: tx_idle_def u8_flags)
  have "write_reg1 e s val = Inr (serial_update_irq (s2\<lparr>thr_ipending := True\<rparr>))"
    using True thre by (simp add: write_reg1_def Let_def s1_def [symmetric] s2_def [symmetric])
  moreover have "ser_good (serial_update_irq (s2\<lparr>thr_ipending := True\<rparr>))"
    using s2 by (simp add: ser_good_def fifos_ok_def tx_idle_def)
  ultimately show ?thesis by blast
next
  case False
  have "ser_good (s\<lparr>divider := d\<rparr>)" for d
    using assms by (simp add: ser_good_def ser_inv_def fifos_ok_def tx_idle_def)
  from update_parameters_good [OF this] False show ?thesis
    by (auto simp: write_reg1_def)
qed

lemma fifo_clear_ok:
  "fifos_ok s \<Longrightarrow> fifos_ok (fifo_clear s b)" "tx_idle s \<Longrightarrow> tx_idle (fifo_clear s b)"
  "baudbase (fifo_clear s b) = baudbase s"
  by (simp_all add: fifos_ok_def tx_idle_def fifo_clear_def set_fifo_def the_fifo_def fifo_ok_clear)

text \<open>The FIFO control register: what the write does before it updates the interrupt.\<close>

definition fcr_loaded :: "serial_state \<Rightarrow> u64 \<Rightarrow> serial_state" where
  "fcr_loaded s val =
     (let val = (if (val XOR ucast (fcr s)) AND 0x01 \<noteq> 0 then val OR (UART_FCR_XFR OR UART_FCR_RFR) else val);
          s = (if val AND UART_FCR_RFR \<noteq> 0 then
                 fifo_clear (s\<lparr>fifo_timeout_timer := None, timeout_ipending := False\<rparr>) True
               else s);
          s = (if val AND UART_FCR_XFR \<noteq> 0 then fifo_clear s False else s);
          s = (if val AND 0x01 \<noteq> 0 then
                 s\<lparr>iir := iir s OR UART_IIR_FE, recv_fifo := (recv_fifo s)\<lparr>itl := trigger_level val\<rparr>\<rparr>
               else s\<lparr>iir := iir s AND NOT UART_IIR_FE\<rparr>)
      in s\<lparr>fcr := ucast (val AND 0xC9)\<rparr>)"

lemma write_reg2_loaded:
  "write_reg2 s val = (if ucast (fcr s) = val AND 0xFF then s else serial_update_irq (fcr_loaded s (val AND 0xFF)))"
  by (simp only: write_reg2_def fcr_loaded_def Let_def)

lemma fcr_loaded_idle:
  assumes "fifos_ok s" and "tx_idle s"
  shows "fifos_ok (fcr_loaded s val)" "tx_idle (fcr_loaded s val)" "baudbase (fcr_loaded s val) = baudbase s"
proof -
  have itl: "fifos_ok t \<Longrightarrow> fifos_ok (t\<lparr>recv_fifo := (recv_fifo t)\<lparr>itl := trigger_level v\<rparr>\<rparr>)"
    "fifos_ok t \<Longrightarrow> fifos_ok (t\<lparr>iir := i, recv_fifo := (recv_fifo t)\<lparr>itl := trigger_level v\<rparr>\<rparr>)"
    "tx_idle (t\<lparr>recv_fifo := f\<rparr>) = tx_idle t" for t v f i
    by (simp_all add: fifos_ok_def tx_idle_def trigger_level_def)
  define v where "v = (if (val XOR ucast (fcr s)) AND 0x01 \<noteq> 0 then val OR (UART_FCR_XFR OR UART_FCR_RFR) else val)"
  define s1 where "s1 = (if v AND UART_FCR_RFR \<noteq> 0 then
      fifo_clear (s\<lparr>fifo_timeout_timer := None, timeout_ipending := False\<rparr>) True else s)"
  define s2 where "s2 = (if v AND UART_FCR_XFR \<noteq> 0 then fifo_clear s1 False else s1)"
  define s3 where "s3 = (if v AND 0x01 \<noteq> 0 then
      s2\<lparr>iir := iir s2 OR UART_IIR_FE, recv_fifo := (recv_fifo s2)\<lparr>itl := trigger_level v\<rparr>\<rparr>
      else s2\<lparr>iir := iir s2 AND NOT UART_IIR_FE\<rparr>)"
  have "fifos_ok s1" "tx_idle s1" "baudbase s1 = baudbase s"
    using assms by (simp_all add: s1_def fifo_clear_ok)
  then have "fifos_ok s2" "tx_idle s2" "baudbase s2 = baudbase s"
    by (simp_all add: s2_def fifo_clear_ok)
  then have "fifos_ok s3" "tx_idle s3" "baudbase s3 = baudbase s"
    by (simp_all add: s3_def itl)
  moreover have "fcr_loaded s val = s3\<lparr>fcr := ucast (v AND 0xC9)\<rparr>"
    by (simp only: fcr_loaded_def Let_def v_def [symmetric] s1_def [symmetric] s2_def [symmetric] s3_def [symmetric])
  ultimately show "fifos_ok (fcr_loaded s val)" "tx_idle (fcr_loaded s val)" "baudbase (fcr_loaded s val) = baudbase s"
    by simp_all
qed

lemma write_reg2_good:
  assumes "ser_good s"
  shows "ser_good (write_reg2 s val)"
  using assms fcr_loaded_idle [of s "val AND 0xFF"]
  by (auto simp: write_reg2_loaded ser_good_def ser_inv_def)

lemma write_reg3_good:
  assumes "ser_good s"
  shows "\<exists>t. write_reg3 e s val = Inr t \<and> ser_good t"
proof -
  have "ser_good (s\<lparr>lcr := ucast val\<rparr>)"
    using assms by (simp add: ser_good_def ser_inv_def fifos_ok_def tx_idle_def)
  then obtain t where t: "serial_update_parameters e (s\<lparr>lcr := ucast val\<rparr>) = Inr t" "ser_good t"
    using update_parameters_good by blast
  have "ser_good (t\<lparr>last_break_enable := i, chr_log := l\<rparr>)" for i l
    using t(2) by (simp add: ser_good_def ser_inv_def fifos_ok_def tx_idle_def)
  with t show ?thesis by (simp add: write_reg3_def Let_def)
qed

lemma write_reg4_good:
  assumes "ser_good s"
  shows "ser_good (write_reg4 e s val)"
  using assms
  by (simp add: write_reg4_def Let_def ser_good_def ser_inv_def fifos_ok_def tx_idle_def)

lemma ioport_write_good:
  assumes "ser_good s"
  shows "\<exists>t. serial_ioport_write e s addr val = Inr t \<and> ser_good t"
proof -
  have "ser_good (s\<lparr>scr := w\<rparr>)" for w
    using assms by (simp add: ser_good_def ser_inv_def fifos_ok_def tx_idle_def)
  with assms write_reg0_good [OF assms] write_reg1_good [OF assms] write_reg2_good [OF assms]
    write_reg3_good [OF assms] write_reg4_good [OF assms]
  show ?thesis by (simp add: serial_ioport_write_def Let_def)
qed

lemma read_reg0_good:
  assumes "ser_good s"
  shows "\<exists>ret t. read_reg0 e s = Inr (ret, t) \<and> ser_good t"
proof (cases "lcr s AND 0x80 = 0")
  case False
  with assms show ?thesis by (simp add: read_reg0_def)
next
  case True
  have base: "fifos_ok s" "tx_idle s" "65535 \<le> baudbase s"
    using assms by (simp_all add: ser_good_def ser_inv_def)
  have fin: "\<exists>ret t. read_reg0 e s = Inr (ret, t) \<and> ser_good t"
    if "read_reg0 e s = (let s = serial_update_irq u in
         Inr (ret, if mcr s AND UART_MCR_LOOP = 0 then s\<lparr>chr_log := chr_log s @ [ChrAcceptInput]\<rparr> else s))"
      and u: "fifos_ok u" "tx_idle u" "65535 \<le> baudbase u" for u ret
  proof -
    have "ser_inv (serial_update_irq u)" by (rule update_irq_inv [OF u(1,2)])
    with that(1) u(3) show ?thesis
      by (simp add: Let_def ser_good_def ser_inv_def)
  qed
  show ?thesis
  proof (cases "fcr s AND 1 = 0")
    case fcr: True
    show ?thesis
      by (rule fin [of "s\<lparr>lsr := lsr s AND NOT 0x11\<rparr>" "ucast (rbr s)"])
        (use True fcr base in \<open>simp_all add: read_reg0_def fifos_ok_def tx_idle_def bit_simps bit_numeral_rec\<close>)
  next
    case fcr: False
    define u0 where "u0 = (if fcount (recv_fifo s) = 0 then s else s\<lparr>recv_fifo := ff_get (recv_fifo s)\<rparr>)"
    define u where "u = (if fcount (recv_fifo u0) = 0 then u0\<lparr>lsr := lsr u0 AND NOT 0x11\<rparr>
        else u0\<lparr>fifo_timeout_timer := Some (env_later e + char_transmit_time u0 * 4)\<rparr>)\<lparr>timeout_ipending := False\<rparr>"
    have u0: "fifos_ok u0" "tx_idle u0" "65535 \<le> baudbase u0"
      using base uartq.ok_get [of "recv_fifo s"] by (auto simp: u0_def fifos_ok_def tx_idle_def)
    then have "fifos_ok u" "tx_idle u" "65535 \<le> baudbase u"
      by (simp_all add: u_def fifos_ok_def tx_idle_def bit_simps bit_numeral_rec)
    moreover have "fifo_get s True = Inr (if fcount (recv_fifo s) = 0 then 0 else ff_first (recv_fifo s), u0)"
      using base by (simp add: fifo_get_recv fifos_ok_def u0_def)
    ultimately show ?thesis
      by (intro fin [of u "ucast (if fcount (recv_fifo s) = 0 then 0 else ff_first (recv_fifo s))"])
        (use True fcr in \<open>simp_all add: read_reg0_def Let_def u_def\<close>)
  qed
qed

lemma read_regs_good:
  assumes "ser_good s"
  shows "ser_good (snd (read_reg2 s))" "ser_good (snd (read_reg5 s))" "ser_good (snd (read_reg6 e s))"
proof -
  have base: "fifos_ok s" "tx_idle s" "65535 \<le> baudbase s" "irq_coherent s"
    using assms by (simp_all add: ser_good_def ser_inv_def)
  show "ser_good (snd (read_reg2 s))" using assms base by (simp add: read_reg2_def ser_good_def)
  have "tx_idle (s\<lparr>lsr := lsr s AND NOT 0x12\<rparr>)" "fifos_ok (s\<lparr>lsr := w\<rparr>) = fifos_ok s" for w
    using base by (simp_all add: tx_idle_def fifos_ok_def bit_simps bit_numeral_rec)
  then show "ser_good (snd (read_reg5 s))" using assms base by (simp add: read_reg5_def ser_good_def)
  show "ser_good (snd (read_reg6 e s))"
    using assms base
    by (auto simp: read_reg6_def Let_def ser_good_def ser_inv_def update_msl_frame update_msl_coherent)
qed

lemma ioport_read_good:
  assumes "ser_good s"
  shows "\<exists>ret t. serial_ioport_read e s addr = Inr (ret, t) \<and> ser_good t"
  using assms read_reg0_good [OF assms, of e] read_regs_good(1,2) [OF assms] read_regs_good(3) [OF assms, of e]
  by (cases "read_reg2 s"; cases "read_reg5 s"; cases "read_reg6 e s") (simp add: serial_ioport_read_def Let_def)

section \<open>Runs of the UART\<close>

text \<open>
  What can happen to the UART: accesses of the guest, bytes and events from the character device,
  expiring timers, a reset. A timer expires only when it is armed and is disarmed by it. The
  results of reads do not matter here.
\<close>

datatype ser_op =
    SWrite nat u64
  | SRead nat
  | SReceive "u8 list"
  | SEvent bool
  | STimeout
  | SModemPoll
  | STransmit
  | SReset
  | SFrequency u32

fun ser_enabled :: "ser_op \<Rightarrow> serial_state \<Rightarrow> bool" where
  "ser_enabled (SReceive buf) s \<longleftrightarrow> buf \<noteq> []"
| "ser_enabled STimeout s \<longleftrightarrow> fifo_timeout_timer s \<noteq> None"
| "ser_enabled SModemPoll s \<longleftrightarrow> modem_status_poll s \<noteq> None"
| "ser_enabled STransmit s \<longleftrightarrow> transmit_timer s \<noteq> None"
| "ser_enabled (SFrequency f) s \<longleftrightarrow> 65535 \<le> sint f"
| "ser_enabled _ s \<longleftrightarrow> True"

fun ser_exec :: "ser_env \<Rightarrow> ser_op \<Rightarrow> serial_state \<Rightarrow> serial_state res" where
  "ser_exec e (SWrite a v) s = serial_ioport_write e s a v"
| "ser_exec e (SRead a) s = rbind (serial_ioport_read e s a) (\<lambda>(ret, s). Inr s)"
| "ser_exec e (SReceive buf) s = serial_receive1 e s buf"
| "ser_exec e (SEvent brk) s = serial_event s brk"
| "ser_exec e STimeout s = Inr (fifo_timeout_int (s\<lparr>fifo_timeout_timer := None\<rparr>))"
| "ser_exec e SModemPoll s = Inr (serial_update_msl e (s\<lparr>modem_status_poll := None\<rparr>))"
| "ser_exec e STransmit s = serial_xmit e (s\<lparr>transmit_timer := None\<rparr>)"
| "ser_exec e SReset s = Inr (serial_reset e s)"
| "ser_exec e (SFrequency f) s = serial_set_frequency e s f"

inductive ser_reach :: "int \<Rightarrow> serial_state \<Rightarrow> bool" for baud where
  started: "serial_init True baud = Some s \<Longrightarrow> ser_reach baud (serial_reset e s)"
| step: "ser_reach baud s \<Longrightarrow> ser_enabled op s \<Longrightarrow> ser_exec e op s = Inr t \<Longrightarrow> ser_reach baud t"

lemma rx_only_good:
  "rx_only s t \<Longrightarrow> fifos_ok t \<Longrightarrow> irq_coherent t \<Longrightarrow> ser_good s \<Longrightarrow> ser_good t"
  using rx_only_tx_idle by (auto simp: ser_good_def ser_inv_def rx_only_def)

lemma reset_frame: "baudbase (serial_reset e s) = baudbase s"
  by (simp add: serial_reset_def Let_def fifo_clear_def set_fifo_def the_fifo_def)

lemma ser_exec_good:
  assumes "ser_good s" and "ser_enabled op s"
  shows "\<exists>t. ser_exec e op s = Inr t \<and> ser_good t"
proof -
  have base: "fifos_ok s" "tx_idle s" "65535 \<le> baudbase s" "irq_coherent s" "transmit_timer s = None"
      "itl (recv_fifo s) \<le> 14"
    using assms(1) by (simp_all add: ser_good_def ser_inv_def tx_idle_def fifos_ok_def)
  show ?thesis
  proof (cases op)
    case (SWrite a v)
    then show ?thesis using ioport_write_good [OF assms(1)] by simp
  next
    case (SRead a)
    then show ?thesis using ioport_read_good [OF assms(1), of e a] by auto
  next
    case (SReceive buf)
    then show ?thesis
      using receive1_step [OF base(1), of buf e] assms rx_only_good by fastforce
  next
    case (SEvent brk)
    then show ?thesis
      using receive_break_step [OF base(1)] assms(1) rx_only_good by (cases brk) (fastforce simp: serial_event_def)+
  next
    case STimeout
    have "irq_coherent (s\<lparr>fifo_timeout_timer := None\<rparr>)"
      by (rule irq_coherent_cong [OF base(4)]) simp_all
    with STimeout base show ?thesis
      by (simp add: fifo_timeout_int_def ser_good_def ser_inv_def)
  next
    case SModemPoll
    with base show ?thesis
      by (simp add: ser_good_def ser_inv_def update_msl_frame update_msl_coherent)
  next
    case STransmit
    with assms(2) base(5) show ?thesis by simp
  next
    case SReset
    with base reset_inv [of s e] show ?thesis by (simp add: ser_good_def reset_frame)
  next
    case (SFrequency f)
    have "ser_good (s\<lparr>baudbase := sint f\<rparr>)"
      using base assms(2) SFrequency by (simp add: ser_good_def ser_inv_def)
    from update_parameters_good [OF this, of e] SFrequency show ?thesis
      by (auto simp: serial_set_frequency_def)
  qed
qed

lemma ser_reach_good:
  assumes "ser_reach baud s" and "65535 \<le> baud"
  shows "ser_good s"
  using assms(1)
proof induction
  case (started s e)
  then have "transmit_timer s = None" "baudbase s = baud" "itl (recv_fifo s) \<le> 14"
    by (auto simp: serial_init_def serial_init_core_def serial_zero_def fifo_zero_def)
  then show ?case using assms(2) reset_inv [of s e] by (simp add: ser_good_def reset_frame)
next
  case (step s op e t)
  then show ?case using ser_exec_good [of s op e] by auto
qed

end
