(* ===== verification/Serial_Props.thy ===== *)
theory Serial_Props
  imports Serial_Inv
begin

unbundle bit_operations_syntax

text \<open>
  What the UART promises to the guest and to the character device behind it, and where the code
  stops short of the chip it emulates.
\<close>

section \<open>Facts about single operations\<close>

lemma init_reach: "ser_reach baud (serial_reset e (serial_zero\<lparr>baudbase := baud\<rparr>))"
proof -
  have "serial_init True baud = Some (serial_zero\<lparr>baudbase := baud\<rparr>)"
    by (simp add: serial_init_def serial_init_core_def serial_zero_def)
  then show ?thesis by (rule ser_reach.started)
qed

definition env0 :: ser_env where
  "env0 = \<lparr>env_now = 0, env_later = 0, env_ticks = 1000000000, env_wr_ok = True, env_tiocm = None,
     env_flags = \<lparr>tio_cts = False, tio_dsr = False, tio_car = False, tio_ri = False, tio_dtr = False, tio_rts = False\<rparr>\<rparr>"

definition uart0 :: serial_state where
  "uart0 = serial_reset env0 (serial_zero\<lparr>baudbase := 115200\<rparr>)"

lemma uart0_reach: "ser_reach 115200 uart0"
  unfolding uart0_def by (rule init_reach)

lemma uart0_good: "ser_good uart0"
  by (rule ser_reach_good [OF uart0_reach]) simp

lemma fifo_put_all_room:
  "fifos_ok s \<Longrightarrow> fcount (recv_fifo s) + length cs \<le> 16 \<Longrightarrow>
     \<exists>t. fifo_put_all s cs = Inr t \<and> fifo_view (recv_fifo t) = fifo_view (recv_fifo s) @ cs \<and> lsr t = lsr s \<and>
         fcount (recv_fifo t) = fcount (recv_fifo s) + length cs"
proof (induction cs arbitrary: s)
  case Nil
  then show ?case by simp
next
  case (Cons c cs)
  have ok: "fifo_ok (recv_fifo s)" and lt: "fcount (recv_fifo s) < 16"
    using Cons.prems by (simp_all add: fifos_ok_def)
  let ?s = "s\<lparr>recv_fifo := ff_put c (recv_fifo s)\<rparr>"
  have put: "fifo_put s True c = Inr ?s"
    using lt by (simp add: fifo_put_recv [OF ok])
  have "fifos_ok ?s"
    using Cons.prems(1) uartq.ok_put [OF ok lt, of c] by (simp add: fifos_ok_def)
  then obtain t where "fifo_put_all ?s cs = Inr t" "fifo_view (recv_fifo t) = fifo_view (ff_put c (recv_fifo s)) @ cs"
      "lsr t = lsr s" "fcount (recv_fifo t) = Suc (fcount (recv_fifo s)) + length cs"
    using Cons.IH [of ?s] Cons.prems(2) by auto
  with put uartq.view_put [OF ok lt] show ?case by auto
qed

text \<open>A received byte, in either mode.\<close>

lemma receive1_byte:
  assumes "fifos_ok s" and "if fcr s AND 1 \<noteq> 0 then fcount (recv_fifo s) < 16 else True"
    and "serial_receive1 e s [c] = Inr t"
  shows "if fcr s AND 1 \<noteq> 0 then recv_fifo t = ff_put c (recv_fifo s) else rbr t = c"
proof -
  define s0 where "s0 = (if wakeup s \<noteq> 0 then s\<lparr>chr_log := chr_log s @ [WakeupRequest]\<rparr> else s)"
  have "fcr s0 = fcr s" "recv_fifo s0 = recv_fifo s" by (simp_all add: s0_def)
  with assms show ?thesis
    by (auto simp: serial_receive1_def Let_def s0_def [symmetric] fifo_put_recv fifos_ok_def)
qed

text \<open>As many bytes as are advertised are stored.\<close>

lemma receive1_stores:
  assumes "fifos_ok s" and "buf \<noteq> []" and "length buf \<le> serial_can_receive1 s"
  shows "\<exists>t. serial_receive1 e s buf = Inr t \<and> lsr t = lsr s OR 1 \<and>
    (if fcr s AND 1 \<noteq> 0 then fifo_view (recv_fifo t) = fifo_view (recv_fifo s) @ buf else buf = [rbr t])"
proof -
  define s0 where "s0 = (if wakeup s \<noteq> 0 then s\<lparr>chr_log := chr_log s @ [WakeupRequest]\<rparr> else s)"
  have s0: "fifos_ok s0" "fcr s0 = fcr s" "recv_fifo s0 = recv_fifo s" "lsr s0 = lsr s"
    using assms(1) by (simp_all add: s0_def)
  show ?thesis
  proof (cases "fcr s AND 1 \<noteq> 0")
    case True
    then have "fcount (recv_fifo s0) + length buf \<le> 16"
      using assms(2,3) assms(1) s0(3)
      by (auto simp: serial_can_receive1_def serial_can_receive_def fifos_ok_def split: if_splits)
    then obtain t where "fifo_put_all s0 buf = Inr t" "fifo_view (recv_fifo t) = fifo_view (recv_fifo s) @ buf" "lsr t = lsr s"
      using fifo_put_all_room [OF s0(1)] s0(3,4) by metis
    with True s0 show ?thesis
      by (simp add: serial_receive1_def Let_def s0_def [symmetric])
  next
    case False
    then have dr: "lsr s AND 1 = 0" and len: "length buf = 1"
      using assms(2,3) by (auto simp: serial_can_receive1_def serial_can_receive_def Suc_le_eq le_Suc_eq split: if_splits)
    then have buf: "buf = [buf ! 0]" by (cases buf) auto
    with False s0 dr assms(2) show ?thesis
      by (simp add: serial_receive1_def Let_def s0_def [symmetric])
  qed
qed

section \<open>Properties\<close>

text \<open>
  C2. The interrupt line is always right: in every state the UART can reach with the board's base
  frequency, through any accesses, received bytes, events and timers, the identification register
  holds the highest pending interrupt and the line is up exactly when there is one. Between two
  operations the transmitter is empty: the FIFO holds nothing, THRE is set and the transmit timer
  is not armed.
\<close>

theorem uart_always_consistent:
  assumes "ser_reach 115200 s"
  shows "iir s AND 0x0f = serial_pending s \<and> irq_level s = (serial_pending s \<noteq> 0x01) \<and>
    fifo_ok (recv_fifo s) \<and> length (fifo_view (recv_fifo s)) \<le> 16 \<and>
    fifo_view (xmit_fifo s) = [] \<and> bit (lsr s) 5 \<and> transmit_timer s = None"
proof -
  have "ser_good s" by (rule ser_reach_good [OF assms]) simp
  then have ok: "fifo_ok (recv_fifo s)" "fifo_ok (xmit_fifo s)" "tx_idle s" "irq_coherent s"
    by (simp_all add: ser_good_def ser_inv_def fifos_ok_def)
  then have "fifo_view (xmit_fifo s) = []"
    using uartq.count_view [OF ok(2)] by (simp add: tx_idle_def)
  with ok show ?thesis
    using uartq.count_le [OF ok(1)] uartq.count_view [OF ok(1)] by (simp add: tx_idle_def irq_coherent_def)
qed

theorem uart_always_consistent_witness:
  "iir uart0 AND 0x0f = serial_pending uart0 \<and> irq_level uart0 = (serial_pending uart0 \<noteq> 0x01) \<and>
    fifo_ok (recv_fifo uart0) \<and> length (fifo_view (recv_fifo uart0)) \<le> 16 \<and>
    fifo_view (xmit_fifo uart0) = [] \<and> bit (lsr uart0) 5 \<and> transmit_timer uart0 = None"
  by (rule uart_always_consistent [OF uart0_reach])

text \<open>
  C29. No operation of the UART fails: in every reachable state every operation that can happen
  returns, so no array index is out of range and no division is by zero, as long as the base
  frequency is never set below the largest divisor.
\<close>

theorem uart_total:
  assumes "ser_reach 115200 s" and "ser_enabled op s"
  shows "\<exists>t. ser_exec e op s = Inr t \<and> ser_reach 115200 t"
proof -
  have "ser_good s" by (rule ser_reach_good [OF assms(1)]) simp
  then obtain t where "ser_exec e op s = Inr t"
    using ser_exec_good [OF _ assms(2)] by blast
  with assms show ?thesis by (blast intro: ser_reach.step)
qed

theorem uart_total_witness:
  "\<exists>t. ser_exec env0 (SWrite 3 0x83) uart0 = Inr t \<and> ser_reach 115200 t"
  by (rule uart_total [OF uart0_reach]) simp

text \<open>
  When the division does fail: setting the line parameters divides by zero exactly when the
  divisor is not zero and larger than the base frequency, which \<open>serial_set_frequency\<close> accepts
  without a check.
\<close>

theorem update_parameters_fault:
  assumes "0 \<le> baudbase s"
  shows "serial_update_parameters e s = Inl DivByZero \<longleftrightarrow> divider s \<noteq> 0 \<and> baudbase s < uint (divider s)"
proof (cases "divider s = 0")
  case True
  then show ?thesis by (simp add: serial_update_parameters_def)
next
  case False
  then have "uint (divider s) \<noteq> 0" using uint_0_iff by blast
  then have pos: "0 < uint (divider s)" using uint_ge_0 [of "divider s"] by linarith
  then have "baudbase s sdiv uint (divider s) = baudbase s div uint (divider s)"
    using assms False unfolding signed_divide_int_def by (cases "baudbase s = 0") simp_all
  moreover have "baudbase s div uint (divider s) = 0 \<longleftrightarrow> baudbase s < uint (divider s)"
    unfolding zdiv_eq_0_iff using pos assms by linarith
  ultimately show ?thesis
    using False by (simp add: serial_update_parameters_def Let_def)
qed

theorem update_parameters_fault_witness:
  "serial_update_parameters env0 (uart0\<lparr>baudbase := 11\<rparr>) = Inl DivByZero"
  using update_parameters_fault [of "uart0\<lparr>baudbase := 11\<rparr>" env0]
  by (simp add: uart0_def serial_reset_def Let_def fifo_clear_def set_fifo_def the_fifo_def)

text \<open>
  A byte written to the transmit register goes to the character device at once, that byte and
  nothing else, in both FIFO modes and whether or not the device takes it; the transmitter is empty
  again afterwards, so the bytes leave in the order written.
\<close>

theorem thr_write_sends:
  assumes "ser_reach 115200 s" and "lcr s AND 0x80 = 0" and "mcr s AND 0x10 = 0"
  shows "\<exists>t. serial_ioport_write e s 0 val = Inr t \<and> ser_reach 115200 t \<and>
    chr_log t = chr_log s @ [ChrWrite (ucast val)] \<and> recv_fifo t = recv_fifo s \<and> bit (lsr t) 5 \<and> bit (lsr t) 6"
proof -
  have good: "ser_good s" by (rule ser_reach_good [OF assms(1)]) simp
  then have inv: "ser_inv s" by (simp add: ser_good_def)
  obtain v where v: "write_reg0 e s val = Inr (xmit_done e v)" "ser_inv (xmit_done e v)"
      "lsr (xmit_done e v) = lsr v OR 0x40" "chr_log v = chr_log s @ [ChrWrite (ucast val)]" "recv_fifo v = recv_fifo s"
    using write_thr_step [OF inv assms(2), of e val] assms(3) by auto
  have "serial_ioport_write e s 0 val = Inr (xmit_done e v)"
    using v(1) by (simp add: serial_ioport_write_def)
  moreover from this have "ser_reach 115200 (xmit_done e v)"
    using ser_reach.step [OF assms(1), of "SWrite 0 val" e] by simp
  moreover have "chr_log (xmit_done e v) = chr_log v" "recv_fifo (xmit_done e v) = recv_fifo v"
    by (simp_all add: xmit_done_def Let_def)
  moreover have "bit (lsr (xmit_done e v)) 5" using v(2) by (simp add: ser_inv_def tx_idle_def)
  moreover have "bit (lsr (xmit_done e v)) 6" by (simp add: v(3) bit_simps bit_numeral_rec)
  ultimately show ?thesis using v(4,5) by metis
qed

lemma uart0_regs: "lcr uart0 = 0" "mcr uart0 = 8" "chr_log uart0 = []" "fcr uart0 = 0" "recv_fifo uart0 = fifo_zero"
    "lsr uart0 = 0x60"
  by (simp_all add: uart0_def serial_reset_def Let_def fifo_clear_def set_fifo_def the_fifo_def serial_zero_def fifo_zero_def)

theorem thr_write_sends_witness:
  "\<exists>t. serial_ioport_write env0 uart0 0 0x41 = Inr t \<and> chr_log t = [ChrWrite 0x41]"
  using thr_write_sends [OF uart0_reach, of env0 "0x41"] by (auto simp: uart0_regs)

text \<open>
  C25. Flow control is sound: as many bytes as \<open>serial_can_receive\<close> advertises are stored
  behind those already there, none is lost and no overrun is reported.
\<close>

theorem can_receive_sound:
  assumes "ser_reach 115200 s" and "buf \<noteq> []" and "length buf \<le> serial_can_receive1 s"
  shows "\<exists>t. serial_receive1 e s buf = Inr t \<and> bit (lsr t) 0 \<and> bit (lsr t) 1 = bit (lsr s) 1 \<and>
    (if fcr s AND 1 \<noteq> 0 then fifo_view (recv_fifo t) = fifo_view (recv_fifo s) @ buf else buf = [rbr t])"
proof -
  have "ser_good s" by (rule ser_reach_good [OF assms(1)]) simp
  then have "fifos_ok s" by (simp add: ser_good_def ser_inv_def)
  from receive1_stores [OF this assms(2,3), of e] show ?thesis by (auto simp: bit_simps bit_1_iff)
qed

theorem can_receive_sound_witness:
  "\<exists>t. serial_receive1 env0 uart0 [0x41] = Inr t \<and> rbr t = 0x41"
  using can_receive_sound [OF uart0_reach, of "[0x41]" env0]
  by (auto simp: uart0_regs serial_can_receive1_def serial_can_receive_def)

text \<open>
  The loopback test works: in loopback mode, with nothing waiting to be received, a byte
  written to the transmit register is the byte the next read of the receive register returns, in
  both FIFO modes, and the character device sees nothing of it.
\<close>

theorem loopback_echo:
  assumes "ser_reach 115200 s" and "lcr s AND 0x80 = 0" and "mcr s AND 0x10 \<noteq> 0" and "fcount (recv_fifo s) = 0"
  shows "\<exists>t u. serial_ioport_write e s 0 val = Inr t \<and> serial_ioport_read e' t 0 = Inr (ucast (ucast val :: u8), u)"
proof -
  have good: "ser_good s" by (rule ser_reach_good [OF assms(1)]) simp
  then have inv: "ser_inv s" by (simp add: ser_good_def)
  obtain u v where w: "write_reg0 e s val = Inr (xmit_done e v)" "ser_inv (xmit_done e v)"
      "recv_fifo u = recv_fifo s" "fcr u = fcr s" "fifos_ok u" "serial_receive1 e u [ucast val] = Inr v" "lcr u = lcr s"
    using write_thr_step [OF inv assms(2), of e val] assms(3) by auto
  let ?t = "xmit_done e v"
  have rx: "if fcr s AND 1 \<noteq> 0 then recv_fifo v = ff_put (ucast val) (recv_fifo s) else rbr v = ucast val"
    using receive1_byte [OF w(5) _ w(6)] w(3,4) assms(4) by simp
  have keep: "recv_fifo ?t = recv_fifo v" "rbr ?t = rbr v" "fcr ?t = fcr v" "lcr ?t = lcr v"
    by (simp_all add: xmit_done_def Let_def)
  obtain v' where "serial_receive1 e u [ucast val] = Inr v'" "rx_only u v'"
    using receive1_step [OF w(5), of "[ucast val]" e] by blast
  then have v: "fcr v = fcr s" "lcr v = lcr s" using w(4,6,7) by (simp_all add: rx_only_def)
  have ok: "fifo_ok (recv_fifo ?t)" "fifo_ok (recv_fifo s)"
    using w(2) inv by (simp_all add: ser_inv_def fifos_ok_def)
  have "\<exists>r. read_reg0 e' ?t = Inr (ucast (ucast val :: u8), r)"
  proof (cases "fcr s AND 1 \<noteq> 0")
    case True
    then have "recv_fifo ?t = ff_put (ucast val) (recv_fifo s)" using rx keep by simp
    then have "fifo_get ?t True = Inr (ucast val, ?t\<lparr>recv_fifo := ff_get (recv_fifo ?t)\<rparr>)"
      using fifo_get_recv [OF ok(1)] ff_first_put_empty [OF ok(2) assms(4)] by simp
    with True keep v assms(2) show ?thesis by (simp add: read_reg0_def Let_def)
  next
    case False
    with rx keep v assms(2) show ?thesis by (simp add: read_reg0_def Let_def)
  qed
  then show ?thesis
    using w(1) by (auto simp: serial_ioport_write_def serial_ioport_read_def)
qed

theorem loopback_echo_witness:
  "\<exists>s t u. serial_ioport_write env0 uart0 4 0x10 = Inr s \<and> serial_ioport_write env0 s 0 0x5a = Inr t \<and>
     serial_ioport_read env0 t 0 = Inr (0x5a, u)"
proof -
  let ?s = "write_reg4 env0 uart0 0x10"
  have "serial_ioport_write env0 uart0 4 0x10 = Inr ?s" by (simp add: serial_ioport_write_def)
  moreover from this have "ser_reach 115200 ?s"
    using ser_reach.step [OF uart0_reach, of "SWrite 4 0x10" env0] by simp
  moreover have "lcr ?s = 0" "mcr ?s = 0x10" "fcount (recv_fifo ?s) = 0"
    by (simp_all add: write_reg4_def Let_def uart0_regs fifo_zero_def)
  ultimately show ?thesis
    using loopback_echo [of ?s env0 "0x5a" env0] by auto
qed

text \<open>
  Reading the receive register in FIFO mode takes the oldest byte out of the FIFO; when it was
  the last one the data-ready and break flags are cleared, otherwise the character timeout is
  restarted. With the FIFO empty the read returns zero.
\<close>

theorem rbr_read_fifo:
  assumes "ser_reach 115200 s" and "lcr s AND 0x80 = 0" and "fcr s AND 1 \<noteq> 0"
  shows "\<exists>ret t. serial_ioport_read e s 0 = Inr (ret, t) \<and> \<not> timeout_ipending t \<and>
    (case fifo_view (recv_fifo s) of
       [] \<Rightarrow> ret = 0 \<and> fifo_view (recv_fifo t) = [] \<and> \<not> bit (lsr t) 0
     | c # cs \<Rightarrow> ret = ucast c \<and> fifo_view (recv_fifo t) = cs \<and>
         (if cs = [] then \<not> bit (lsr t) 0 \<and> \<not> bit (lsr t) 4
          else fifo_timeout_timer t = Some (env_later e + char_transmit_time s * 4)))"
proof -
  have "ser_good s" by (rule ser_reach_good [OF assms(1)]) simp
  then have ok: "fifo_ok (recv_fifo s)" by (simp add: ser_good_def ser_inv_def fifos_ok_def)
  note len = uartq.count_view [OF ok]
  show ?thesis
  proof (cases "fcount (recv_fifo s) = 0")
    case True
    then have "fifo_view (recv_fifo s) = []" using len by simp
    with True assms(2,3) show ?thesis
      by (simp add: serial_ioport_read_def read_reg0_def fifo_get_recv [OF ok] Let_def bit_simps bit_numeral_rec)
  next
    case False
    then have view: "fifo_view (recv_fifo s) = ff_first (recv_fifo s) # fifo_view (ff_get (recv_fifo s))"
      using uartq.view_get [OF ok] by simp
    have "fcount (recv_fifo s) = Suc (length (fifo_view (ff_get (recv_fifo s))))"
      using len by (simp only: view list.size)
    with False assms(2,3) show ?thesis
      by (simp add: serial_ioport_read_def read_reg0_def fifo_get_recv [OF ok] Let_def view bit_simps bit_numeral_rec)
  qed
qed

theorem rbr_read_fifo_witness:
  "\<exists>s ret t. serial_ioport_write env0 uart0 2 1 = Inr s \<and> serial_ioport_read env0 s 0 = Inr (ret, t) \<and>
     ret = 0 \<and> \<not> bit (lsr t) 0"
proof -
  let ?s = "write_reg2 uart0 1"
  have "serial_ioport_write env0 uart0 2 1 = Inr ?s" by (simp add: serial_ioport_write_def)
  moreover from this have "ser_reach 115200 ?s"
    using ser_reach.step [OF uart0_reach, of "SWrite 2 1" env0] by simp
  moreover have "lcr ?s = 0" "fcr ?s = 1" "fifo_view (recv_fifo ?s) = []"
    by (simp_all add: write_reg2_def Let_def uart0_regs fifo_clear_def set_fifo_def the_fifo_def fifo_view_def)
  ultimately show ?thesis
    using rbr_read_fifo [of ?s env0] by auto
qed

text \<open>
  The divisor latch: with the latch bit set, writing the two bytes of a divisor makes the
  registers read back as written, whatever the latch held before.
\<close>

theorem divisor_latch:
  assumes "ser_good s" and "lcr s AND 0x80 \<noteq> 0"
  shows "\<exists>t u. serial_ioport_write e s 0 (ucast lo) = Inr t \<and> serial_ioport_write e t 1 (ucast hi) = Inr u \<and>
    ser_good u \<and> uint (divider u) = uint (hi :: u8) * 256 + uint (lo :: u8) \<and>
    serial_ioport_read e' u 0 = Inr (ucast lo, u) \<and> serial_ioport_read e' u 1 = Inr (ucast hi, u)"
proof -
  define d1 where "d1 = (ucast ((ucast (divider s) AND 0xff00) OR (ucast lo :: u64)) :: u16)"
  define d2 where "d2 = (ucast ((ucast d1 AND 0x00ff) OR push_bit 8 (ucast hi :: u64)) :: u16)"
  have "ser_good (s\<lparr>divider := d1\<rparr>)"
    using assms(1) by (simp add: ser_good_def ser_inv_def)
  then obtain t where t: "serial_update_parameters e (s\<lparr>divider := d1\<rparr>) = Inr t" "ser_good t" "divider t = d1" "lcr t = lcr s"
    using update_parameters_good [of "s\<lparr>divider := d1\<rparr>" e] by auto
  have "ser_good (t\<lparr>divider := d2\<rparr>)"
    using t(2) by (simp add: ser_good_def ser_inv_def)
  then obtain u where u: "serial_update_parameters e (t\<lparr>divider := d2\<rparr>) = Inr u" "ser_good u" "divider u = d2" "lcr u = lcr s"
    using update_parameters_good [of "t\<lparr>divider := d2\<rparr>" e] t(4) by auto
  have d2: "bit d2 n = (if n < 8 then bit lo n else n < 16 \<and> bit hi (n - 8))" for n
    by (cases "n < 8") (auto simp: d2_def d1_def bit_simps word_bits dest: bit_imp_le_length)
  have lo: "(ucast (d2 AND 0xff) :: u32) = ucast lo"
    by (rule bit_word_eqI) (auto simp: bit_simps word_bits d2 dest: bit_imp_le_length)
  have hi: "(ucast (drop_bit 8 d2 AND 0xff) :: u32) = ucast hi"
    by (rule bit_word_eqI) (auto simp: bit_simps word_bits d2 dest: bit_imp_le_length)
  have "d2 = push_bit 8 (ucast hi) OR ucast lo"
    by (rule bit_word_eqI) (auto simp: bit_simps d2 dest: bit_imp_le_length)
  moreover have "push_bit 8 (ucast hi :: u16) AND ucast lo = 0"
    by (rule bit_word_eqI) (auto simp: bit_simps dest: bit_imp_le_length)
  ultimately have "d2 = push_bit 8 (ucast hi) + ucast lo"
    by (simp add: disjunctive_add_eq_or)
  then have "uint d2 = uint hi * 256 + uint lo"
    using uint_lt2p [of hi] uint_lt2p [of lo]
    by (simp add: push_bit_eq_mult uint_word_ariths unsigned_ucast_eq take_bit_eq_mod)
  moreover have "serial_ioport_write e s 0 (ucast lo) = Inr t"
    using assms(2) t(1) by (simp add: serial_ioport_write_def write_reg0_def d1_def)
  moreover have "serial_ioport_write e t 1 (ucast hi) = Inr u"
    using assms(2) t(3,4) u(1) by (simp add: serial_ioport_write_def write_reg1_def d2_def)
  ultimately show ?thesis
    using u(2-4) assms(2) by (simp add: serial_ioport_read_def read_reg0_def lo hi)
qed

theorem divisor_latch_witness:
  "\<exists>s t u. serial_ioport_write env0 uart0 3 0x80 = Inr s \<and> serial_ioport_write env0 s 0 (ucast (0x34 :: u8)) = Inr t \<and>
     serial_ioport_write env0 t 1 (ucast (0x12 :: u8)) = Inr u \<and> divider u = 0x1234"
proof -
  obtain s where s: "serial_update_parameters env0 (uart0\<lparr>lcr := 0x80\<rparr>) = Inr s" "ser_good s" "lcr s = 0x80"
    using update_parameters_good [of "uart0\<lparr>lcr := 0x80\<rparr>" env0] uart0_good by (auto simp: ser_good_def ser_inv_def)
  have "\<exists>s'. serial_ioport_write env0 uart0 3 0x80 = Inr s' \<and> ser_good s' \<and> lcr s' = 0x80"
    using s by (simp add: serial_ioport_write_def write_reg3_def Let_def ser_good_def ser_inv_def)
  then obtain s' where s': "serial_ioport_write env0 uart0 3 0x80 = Inr s'" "ser_good s'" "lcr s' = 0x80" by blast
  have "divider u = 0x1234" if "uint (divider u) = 0x1234" for u
    using that by (simp add: word_uint_eq_iff)
  then show ?thesis
    using divisor_latch [OF s'(2), of env0 "0x34" "0x12" env0] s'(1,3) by fastforce
qed

text \<open>
  Migration keeps the registers and the FIFO mode, and empties the FIFOs: a state saved by
  \<open>serial_pre_save\<close>, its fields loaded into a UART whose FIFOs are off, and
  \<open>serial_post_load\<close> give a UART with the same registers, the FIFO control register included;
  bytes that waited in the receive FIFO are gone, while the data-ready flag stays as it was.
\<close>

theorem migration_registers:
  assumes "ser_good s" and "fcr s AND 0xC9 = fcr s" and "fcr s AND 1 \<noteq> 0" and "ser_good new" and "fcr new = 0"
  shows "\<exists>t. serial_post_load e (vmstate_load (serial_pre_save s) new) 3 = Inr t \<and>
    fcr t = fcr s \<and> divider t = divider s \<and> ier t = ier s \<and> lcr t = lcr s \<and> mcr t = mcr s \<and>
    lsr t = lsr s \<and> msr t = msr s \<and> scr t = scr s \<and> rbr t = rbr s \<and>
    fifo_view (recv_fifo t) = [] \<and> bit (lsr t) 0 = bit (lsr s) 0"
proof -
  let ?f = "fcr s" and ?v = "ucast (fcr s) :: u64"
  define l where "l = vmstate_load (serial_pre_save s) new"
  have l: "fcr l = 0" "fcr_vmstate l = ?f" "divider l = divider s" "ier l = ier s" "lcr l = lcr s" "mcr l = mcr s"
      "lsr l = lsr s" "msr l = msr s" "scr l = scr s" "rbr l = rbr s" "baudbase l = baudbase new"
    by (simp_all add: l_def vmstate_load_def serial_pre_save_def assms(5))
  have fbits: "bit ?f n \<Longrightarrow> n = 0 \<or> n = 3 \<or> n = 6 \<or> n = 7" for n
    using arg_cong [OF assms(2), of "\<lambda>w. bit w n"] by (auto simp: bit_simps word_bits)
  have f0: "bit ?f 0" using assms(3) by (simp add: u8_flags)
  have v: "?v AND 0xFF = ?v"
    by (rule bit_word_eqI) (auto simp: bit_simps word_bits dest: bit_imp_le_length)
  have v1: "?v AND 1 \<noteq> 0" "(?v OR 6) AND 1 \<noteq> 0"
    using f0 and_push_bit_neq_0 [of 0 ?v] and_push_bit_neq_0 [of 0 "?v OR 6"] by (simp_all add: bit_simps)
  then have nz: "?v \<noteq> 0" by auto
  have six: "(?v OR 6) AND 2 \<noteq> 0" "(?v OR 6) AND 4 \<noteq> 0"
    using and_push_bit_neq_0 [of 1 "?v OR 6"] and_push_bit_neq_0 [of 2 "?v OR 6"]
    by (simp_all add: bit_simps word_bits)
  have fcr: "(ucast ((?v OR 6) AND 0xC9) :: u8) = ?f"
    by (rule bit_word_eqI) (auto simp: bit_simps word_bits dest: fbits)
  define u where "u = fcr_loaded l ?v"
  have u: "fcr u = ?f" "divider u = divider s" "ier u = ier s" "lcr u = lcr s" "mcr u = mcr s"
      "lsr u = lsr s" "msr u = msr s" "scr u = scr s" "rbr u = rbr s" "baudbase u = baudbase new"
      "fifo_view (recv_fifo u) = []"
    using v1 six by (simp_all add: u_def fcr_loaded_def Let_def l fifo_clear_def set_fifo_def the_fifo_def fcr fifo_view_def)
  have "serial_ioport_write e l 2 ?v = Inr (serial_update_irq u)"
    using nz v by (simp add: serial_ioport_write_def write_reg2_loaded l(1) u_def)
  moreover obtain c w where "serial_update_parameters e (serial_update_irq u) =
      Inr ((serial_update_irq u)\<lparr>char_transmit_time := c, chr_log := w\<rparr>)"
    using update_parameters_step [of "serial_update_irq u" e] assms(4) u(10) by (auto simp: ser_good_def)
  ultimately have "serial_post_load e l 3 = Inr ((serial_update_irq u)\<lparr>char_transmit_time := c, chr_log := w\<rparr>)"
    by (simp add: serial_post_load_def Let_def l(2))
  then show ?thesis
    using u by (simp add: l_def)
qed

theorem migration_registers_witness:
  "\<exists>t. serial_post_load env0 (vmstate_load (serial_pre_save (write_reg2 uart0 1)) uart0) 3 = Inr t \<and> fcr t = 1"
proof -
  have "ser_good (write_reg2 uart0 1)" by (rule write_reg2_good [OF uart0_good])
  moreover have "fcr (write_reg2 uart0 1) = 1"
    by (simp add: write_reg2_def Let_def uart0_regs fifo_clear_def set_fifo_def the_fifo_def)
  ultimately show ?thesis
    using migration_registers [of "write_reg2 uart0 1" uart0 env0] uart0_good by (auto simp: uart0_regs)
qed

text \<open>
  A reset forgets what the FIFO control register has enabled: it clears the FIFO bits of the
  identification register and keeps the control register itself, so a driver that then writes the
  same value again to enable the FIFOs is ignored, and the identification register never shows
  them.
\<close>

theorem reset_keeps_fcr:
  "fcr (serial_reset e s) = fcr s \<and> iir (serial_reset e s) = 0x01 \<and>
   serial_ioport_write e' (serial_reset e s) 2 (ucast (fcr s)) = Inr (serial_reset e s)"
proof -
  have "(ucast (fcr s) :: u64) AND 0xFF = ucast (fcr s)"
    by (rule bit_word_eqI) (auto simp: bit_simps word_bits dest: bit_imp_le_length)
  then show ?thesis
    by (simp add: serial_ioport_write_def write_reg2_loaded serial_reset_def Let_def fifo_clear_def set_fifo_def
        the_fifo_def)
qed

end
