(* ===== verification/Serial_Bus.thy ===== *)
theory Serial_Bus
  imports Serial_Props
begin

unbundle bit_operations_syntax

text \<open>
  The boards the UART sits on: the PCI cards with one, two and four ports
  (\<open>backup/qemu_linux0/QEMU/serial-pci.c\<close>), whose ports share one interrupt line, and the ISA
  ports (\<open>serial-isa.c\<close>), which take their addresses and interrupts from a table.

  \<open>multi_state\<close> has the arrays of \<open>PCIMultiSerialState\<close> as lists of four entries;
  \<open>mirq\<close> is the level of the card's line.
\<close>

section \<open>The PCI cards\<close>

definition serial_pci_init :: "bool \<Rightarrow> serial_state option" where
  "serial_pci_init has_chr = serial_init_core has_chr (serial_zero\<lparr>baudbase := 115200\<rparr>)"

record multi_state =
  mports :: nat
  mstate :: "serial_state list"
  mlevel :: "u32 list"
  mirq :: bool

text \<open>\<open>multi_serial_irq_mux\<close>: the loop over the ports, with the ports left as the argument.\<close>

fun mux_loop :: "u32 list \<Rightarrow> nat \<Rightarrow> nat \<Rightarrow> bool \<Rightarrow> bool res" where
  "mux_loop level i 0 pending = Inr pending"
| "mux_loop level i (Suc n) pending =
     rbind (arr_get level i) (\<lambda>l. mux_loop level (Suc i) n (if l \<noteq> 0 then True else pending))"

definition multi_serial_irq_mux :: "multi_state \<Rightarrow> nat \<Rightarrow> u32 \<Rightarrow> multi_state res" where
  "multi_serial_irq_mux m n level =
     rbind (arr_set (mlevel m) n level) (\<lambda>lv.
     rbind (mux_loop lv 0 (mports m) False) (\<lambda>pending.
     Inr (m\<lparr>mlevel := lv, mirq := pending\<rparr>)))"

definition multi_zero :: multi_state where
  "multi_zero = \<lparr>mports = 0, mstate = replicate 4 serial_zero, mlevel = replicate 4 0, mirq = False\<rparr>"

text \<open>
  \<open>multi_serial_pci_init\<close>: a port without a character device ends the process (\<open>None\<close>);
  another device identifier fails the assertion.
\<close>

fun init_ports :: "bool list \<Rightarrow> nat \<Rightarrow> nat \<Rightarrow> serial_state list \<Rightarrow> serial_state list option" where
  "init_ports has_chr i 0 ss = Some ss"
| "init_ports has_chr i (Suc n) ss =
     (case serial_init_core (has_chr ! i) ((ss ! i)\<lparr>baudbase := 115200\<rparr>) of
        None \<Rightarrow> None
      | Some s \<Rightarrow> init_ports has_chr (Suc i) n (ss[i := s]))"

definition multi_serial_pci_init :: "u16 \<Rightarrow> bool list \<Rightarrow> multi_state option res" where
  "multi_serial_pci_init device_id has_chr =
     (let ports = (if device_id = 0x0003 then 2 else if device_id = 0x0004 then 4 else 0 :: nat)
      in if \<not> 0 < ports then Inl AssertFail
         else if \<not> ports \<le> 4 then Inl AssertFail
         else Inr (map_option (\<lambda>ss. multi_zero\<lparr>mports := ports, mstate := ss\<rparr>)
                    (init_ports has_chr 0 ports (mstate multi_zero))))"

text \<open>
  An operation of port \<open>i\<close>. Every call of \<open>qemu_irq_raise\<close> or \<open>qemu_irq_lower\<close> in it calls the
  multiplexer; what remains is the level of the last one, the level of the port's line.
\<close>

definition multi_exec :: "ser_env \<Rightarrow> nat \<Rightarrow> ser_op \<Rightarrow> multi_state \<Rightarrow> multi_state res" where
  "multi_exec e i op m =
     rbind (arr_get (mstate m) i) (\<lambda>s.
     rbind (ser_exec e op s) (\<lambda>t.
     multi_serial_irq_mux (m\<lparr>mstate := (mstate m)[i := t]\<rparr>) i (if irq_level t then 1 else 0)))"

text \<open>The card after its reset: every port is reset.\<close>

definition multi_reset :: "ser_env \<Rightarrow> multi_state \<Rightarrow> multi_state" where
  "multi_reset e m = m\<lparr>mstate := map (serial_reset e) (mstate m), mlevel := replicate 4 0, mirq := False\<rparr>"

inductive multi_reach :: "multi_state \<Rightarrow> bool" where
  started: "multi_serial_pci_init did chrs = Inr (Some m) \<Longrightarrow> multi_reach (multi_reset e m)"
| step: "multi_reach m \<Longrightarrow> i < mports m \<Longrightarrow> ser_enabled op (mstate m ! i) \<Longrightarrow>
    multi_exec e i op m = Inr m' \<Longrightarrow> multi_reach m'"

lemma mux_loop_eq:
  "i + n \<le> length level \<Longrightarrow> mux_loop level i n pending = Inr (pending \<or> (\<exists>k<n. level ! (i + k) \<noteq> 0))"
proof (induction n arbitrary: i pending)
  case 0
  then show ?case by simp
next
  case (Suc n)
  have "(\<exists>k<Suc n. level ! (i + k) \<noteq> 0) \<longleftrightarrow> level ! i \<noteq> 0 \<or> (\<exists>k<n. level ! (Suc i + k) \<noteq> 0)"
    using Ex_less_Suc2 [of n "\<lambda>k. level ! (i + k) \<noteq> 0"] by simp
  with Suc show ?case by auto
qed

definition multi_inv :: "multi_state \<Rightarrow> bool" where
  "multi_inv m \<longleftrightarrow> mports m \<in> {2, 4} \<and> length (mstate m) = 4 \<and> length (mlevel m) = 4 \<and>
     (\<forall>i<mports m. ser_good (mstate m ! i) \<and> (mlevel m ! i \<noteq> 0) = irq_level (mstate m ! i)) \<and>
     mirq m = (\<exists>i<mports m. mlevel m ! i \<noteq> 0)"

definition port_fresh :: "serial_state \<Rightarrow> bool" where
  "port_fresh s \<longleftrightarrow> transmit_timer s = None \<and> itl (recv_fifo s) \<le> 14"

lemma init_ports_fresh:
  "init_ports chrs i n ss = Some ss' \<Longrightarrow> i + n \<le> length ss \<Longrightarrow> (\<forall>k<length ss. port_fresh (ss ! k)) \<Longrightarrow>
     length ss' = length ss \<and> (\<forall>k<length ss. port_fresh (ss' ! k)) \<and>
     (\<forall>k<length ss. baudbase (ss' ! k) = (if i \<le> k \<and> k < i + n then 115200 else baudbase (ss ! k)))"
proof (induction n arbitrary: i ss)
  case 0
  then show ?case by auto
next
  case (Suc n)
  let ?s = "(ss ! i)\<lparr>baudbase := 115200, modem_status_poll := None, fifo_timeout_timer := None, transmit_timer := None\<rparr>"
  have run: "init_ports chrs (Suc i) n (ss[i := ?s]) = Some ss'"
    using Suc.prems(1) by (simp add: serial_init_core_def split: if_splits)
  have fresh: "\<forall>k<length (ss[i := ?s]). port_fresh ((ss[i := ?s]) ! k)"
    using Suc.prems(2,3) by (auto simp: nth_list_update port_fresh_def)
  have "i < length ss" using Suc.prems(2) by simp
  then show ?case
    using Suc.IH [OF run _ fresh] Suc.prems(2) by (auto simp: nth_list_update)
qed

lemma multi_init_fresh:
  assumes "multi_serial_pci_init did chrs = Inr (Some m)"
  shows "mports m \<in> {2, 4}" "length (mstate m) = 4"
    "\<forall>k<mports m. port_fresh (mstate m ! k) \<and> baudbase (mstate m ! k) = 115200"
proof -
  let ?p = "if did = 0x0003 then 2 else if did = 0x0004 then 4 else 0 :: nat"
  obtain ss where ss: "?p \<in> {2, 4}" "init_ports chrs 0 ?p (replicate 4 serial_zero) = Some ss"
      "m = multi_zero\<lparr>mports := ?p, mstate := ss\<rparr>"
    using assms by (auto simp: multi_serial_pci_init_def Let_def multi_zero_def split: if_splits)
  have "port_fresh serial_zero" by (simp add: port_fresh_def serial_zero_def fifo_zero_def)
  then have "\<forall>k<length (replicate 4 serial_zero). port_fresh (replicate 4 serial_zero ! k)" by simp
  from init_ports_fresh [OF ss(2) _ this] ss(1)
  have "length ss = 4 \<and> (\<forall>k<4. port_fresh (ss ! k)) \<and> (\<forall>k<?p. baudbase (ss ! k) = 115200)"
    by auto
  with ss(1,3) show "mports m \<in> {2, 4}" "length (mstate m) = 4"
    "\<forall>k<mports m. port_fresh (mstate m ! k) \<and> baudbase (mstate m ! k) = 115200"
    by auto
qed

lemma multi_reset_inv:
  assumes "multi_serial_pci_init did chrs = Inr (Some m)"
  shows "multi_inv (multi_reset e m)"
proof -
  note m = multi_init_fresh [OF assms]
  have p: "mports m \<le> 4" using m(1) by auto
  have "ser_good (serial_reset e s)" "\<not> irq_level (serial_reset e s)" if "port_fresh s" "baudbase s = 115200" for s
    using that reset_inv [of s e] reset_frame [of e s]
    by (simp_all add: port_fresh_def ser_good_def serial_reset_def Let_def fifo_clear_def set_fifo_def the_fifo_def)
  with m p show ?thesis
    by (auto simp: multi_inv_def multi_reset_def)
qed

lemma multi_exec_inv:
  assumes "multi_inv m" and "i < mports m" and "ser_enabled op (mstate m ! i)"
  shows "\<exists>t. ser_exec e op (mstate m ! i) = Inr t \<and> ser_good t \<and>
    multi_exec e i op m = Inr (m\<lparr>mstate := (mstate m)[i := t], mlevel := (mlevel m)[i := if irq_level t then 1 else 0],
      mirq := (\<exists>k<mports m. (mlevel m)[i := if irq_level t then 1 else 0] ! k \<noteq> 0)\<rparr>)"
proof -
  have i: "i < 4" "mports m \<le> 4" using assms(1,2) by (auto simp: multi_inv_def)
  obtain t where t: "ser_exec e op (mstate m ! i) = Inr t" "ser_good t"
    using ser_exec_good [OF _ assms(3), of e] assms(1,2) by (auto simp: multi_inv_def)
  let ?lv = "(mlevel m)[i := if irq_level t then 1 else 0]"
  have "mux_loop ?lv 0 (mports m) False = Inr (\<exists>k<mports m. ?lv ! k \<noteq> 0)"
    using assms(1) i by (subst mux_loop_eq) (auto simp: multi_inv_def)
  with t i assms(1) show ?thesis
    by (simp add: multi_exec_def multi_serial_irq_mux_def multi_inv_def)
qed

lemma multi_reach_inv: "multi_reach m \<Longrightarrow> multi_inv m"
proof (induction rule: multi_reach.induct)
  case (started did chrs m e)
  then show ?case by (rule multi_reset_inv)
next
  case (step m i op e m')
  obtain t where t: "ser_good t" "m' = m\<lparr>mstate := (mstate m)[i := t], mlevel := (mlevel m)[i := if irq_level t then 1 else 0],
      mirq := (\<exists>k<mports m. (mlevel m)[i := if irq_level t then 1 else 0] ! k \<noteq> 0)\<rparr>"
    using multi_exec_inv [OF step.IH step.hyps(2,3), of e] step.hyps(4) by auto
  have "i < 4" using step.IH step.hyps(2) by (auto simp: multi_inv_def)
  then show ?case
    using step.IH t by (auto simp: multi_inv_def nth_list_update)
qed

section \<open>The ISA ports\<close>

text \<open>
  The properties \<open>index\<close>, \<open>iobase\<close> and \<open>irq\<close> are 32-bit and default to -1. The static
  counter \<open>index\<close> is the argument and the last result; \<open>MAX_SERIAL_PORTS\<close> is the length of
  the tables.
\<close>

record isa_serial =
  isa_index :: u32
  iobase :: u32
  isairq :: u32

definition isa_serial_io :: "u32 list" where "isa_serial_io = [0x3f8, 0x2f8, 0x3e8, 0x2e8]"
definition isa_serial_irq :: "u32 list" where "isa_serial_irq = [4, 3, 4, 3]"

definition serial_isa_initfn :: "isa_serial \<Rightarrow> bool \<Rightarrow> nat \<Rightarrow> (int \<times> isa_serial \<times> serial_state option \<times> nat) res" where
  "serial_isa_initfn isa has_chr index =
     (let isa = (if isa_index isa = - 1 then isa\<lparr>isa_index := of_nat index\<rparr> else isa) in
      if 4 \<le> unat (isa_index isa) then Inr (- 1, isa, None, index)
      else
        rbind (arr_get isa_serial_io (unat (isa_index isa))) (\<lambda>io.
        rbind (arr_get isa_serial_irq (unat (isa_index isa))) (\<lambda>irq.
        let isa = (if iobase isa = - 1 then isa\<lparr>iobase := io\<rparr> else isa);
            isa = (if isairq isa = - 1 then isa\<lparr>isairq := irq\<rparr> else isa)
        in Inr (0, isa, serial_init_core has_chr (serial_zero\<lparr>baudbase := 115200\<rparr>), index + 1))))"

definition isa_default :: isa_serial where
  "isa_default = \<lparr>isa_index = - 1, iobase = - 1, isairq = - 1\<rparr>"

text \<open>\<open>serial_isa_init\<close> creates a port with a given index; \<open>created\<close> is whether the bus had the type.\<close>

definition serial_isa_init :: "bool \<Rightarrow> u32 \<Rightarrow> bool \<Rightarrow> nat \<Rightarrow> (bool \<times> isa_serial \<times> nat) res" where
  "serial_isa_init created ix has_chr index =
     (let isa = isa_default\<lparr>isa_index := ix\<rparr> in
      if \<not> created then Inr (False, isa, index)
      else rbind (serial_isa_initfn isa has_chr index) (\<lambda>(ret, isa, s, index).
        Inr (\<not> ret < 0, isa, index)))"

section \<open>Properties\<close>

text \<open>
  C22. The card's interrupt line is the disjunction of its ports: in every state a card with two or
  four ports can reach, through any operations on its ports in any order, its line is up exactly
  when some port has an interrupt pending.
\<close>

theorem card_irq_line:
  assumes "multi_reach m"
  shows "mirq m \<longleftrightarrow> (\<exists>i<mports m. serial_pending (mstate m ! i) \<noteq> 0x01)"
proof -
  have inv: "multi_inv m" by (rule multi_reach_inv [OF assms])
  have "irq_level (mstate m ! i) = (serial_pending (mstate m ! i) \<noteq> 0x01)" if "i < mports m" for i
    using inv that by (simp add: multi_inv_def ser_good_def ser_inv_def irq_coherent_def)
  with inv show ?thesis by (auto simp: multi_inv_def)
qed

theorem card_irq_line_witness:
  "\<exists>m. multi_serial_pci_init 3 [True, True] = Inr (Some m) \<and>
     (mirq (multi_reset env0 m) \<longleftrightarrow>
        (\<exists>i<mports (multi_reset env0 m). serial_pending (mstate (multi_reset env0 m) ! i) \<noteq> 0x01))"
proof -
  have "\<exists>m. multi_serial_pci_init 3 [True, True] = Inr (Some m)"
    by (simp add: multi_serial_pci_init_def numeral_eq_Suc serial_init_core_def)
  then show ?thesis
    using card_irq_line multi_reach.started by blast
qed



text \<open>
  The ISA ports: four ports with default properties get the four entries of the tables, in
  order, and a fifth is refused; but the counter counts every port, so a port with the explicit
  index 1 followed by one with default properties gives both the address 0x2f8.
\<close>

theorem isa_default_ports:
  "map (\<lambda>n. serial_isa_initfn isa_default True n) [0, 1, 2, 3] =
     map (\<lambda>(n, io, irq). Inr (0, \<lparr>isa_index = of_nat n, iobase = io, isairq = irq\<rparr>,
            serial_init_core True (serial_zero\<lparr>baudbase := 115200\<rparr>), n + 1))
       [(0, 0x3f8, 4), (1, 0x2f8, 3), (2, 0x3e8, 4), (3, 0x2e8, 3)] \<and>
   (\<exists>isa. serial_isa_initfn isa_default True 4 = Inr (- 1, isa, None, 4)) \<and>
   (\<exists>p1 s1 p2 s2. serial_isa_initfn (isa_default\<lparr>isa_index := 1\<rparr>) True 0 = Inr (0, p1, s1, 1) \<and>
      serial_isa_initfn isa_default True 1 = Inr (0, p2, s2, 2) \<and> iobase p1 = 0x2f8 \<and> iobase p2 = 0x2f8)"
  by (simp add: serial_isa_initfn_def isa_default_def isa_serial_io_def isa_serial_irq_def Let_def)

end
