(* ===== verification/Chardev_Core.thy ===== *)
theory Chardev_Core
  imports Prelude
begin

text \<open>
  The frame of the character devices of \<open>qemu-char.c\<close>: the part of
  \<open>CharDriverState\<close> that the frontends see, the calls between a backend and the frontend
  attached to it (\<open>qemu_chr_be_*\<close>, \<open>qemu_chr_fe_*\<close>,
  \<open>qemu_chr_add_handlers\<close>) and the null device. A frontend is an object of the store
  \<open>heap\<close>; the \<open>opaque\<close> pointer of the code is an index of the store or null. Two
  interfaces are locales: \<open>chr_sink\<close>, a backend that takes every write, and
  \<open>chr_listener\<close>, a frontend that takes a byte whenever it says that it can read.
\<close>

section \<open>Handlers and devices\<close>

datatype chr_event =
    CHR_EVENT_BREAK
  | CHR_EVENT_OPENED
  | CHR_EVENT_MUX_IN
  | CHR_EVENT_MUX_OUT
  | CHR_EVENT_CLOSED

record 'o handlers =
  chr_can_read :: "('o \<Rightarrow> int) option"
  chr_read :: "('o \<Rightarrow> u8 list \<Rightarrow> 'o res) option"
  chr_event :: "('o \<Rightarrow> chr_event \<Rightarrow> 'o res) option"

definition null_handlers :: "'o handlers" where
  "null_handlers = \<lparr>chr_can_read = None, chr_read = None, chr_event = None\<rparr>"

record 'o chardev =
  heap :: "'o list"
  opened :: bool
  open_timer :: bool
  hnd :: "'o handlers"
  handler_opaque :: "nat option"
  avail_connections :: nat

definition chardev_zero :: "'o list \<Rightarrow> 'o chardev" where
  "chardev_zero objs = \<lparr>heap = objs, opened = False, open_timer = False, hnd = null_handlers,
     handler_opaque = None, avail_connections = 0\<rparr>"

text \<open>A call of a handler through its \<open>opaque\<close> pointer: the object is stored back.\<close>

definition deref :: "('o, 'z) chardev_scheme \<Rightarrow> nat option \<Rightarrow> 'o res" where
  "deref s p = (case p of None \<Rightarrow> Inl NullDeref | Some i \<Rightarrow> arr_get (heap s) i)"

definition call_handler :: "('o \<Rightarrow> 'a \<Rightarrow> 'o res) option \<Rightarrow> nat option \<Rightarrow> 'a \<Rightarrow> ('o, 'z) chardev_scheme \<Rightarrow>
    ('o, 'z) chardev_scheme res" where
  "call_handler f p x s =
     (case f of
        None \<Rightarrow> Inr s
      | Some g \<Rightarrow> rbind (deref s p) (\<lambda>obj. rbind (g obj x) (\<lambda>obj. Inr (s\<lparr>heap := (heap s)[the p := obj]\<rparr>))))"

section \<open>From the backend to the frontend\<close>

definition qemu_chr_be_event :: "('o, 'z) chardev_scheme \<Rightarrow> chr_event \<Rightarrow> ('o, 'z) chardev_scheme res" where
  "qemu_chr_be_event s ev =
     (let s = (case ev of
                 CHR_EVENT_OPENED \<Rightarrow> s\<lparr>opened := True\<rparr>
               | CHR_EVENT_CLOSED \<Rightarrow> s\<lparr>opened := False\<rparr>
               | _ \<Rightarrow> s)
      in call_handler (chr_event (hnd s)) (handler_opaque s) ev s)"

definition qemu_chr_fire_open_event :: "('o, 'z) chardev_scheme \<Rightarrow> ('o, 'z) chardev_scheme res" where
  "qemu_chr_fire_open_event s =
     rbind (qemu_chr_be_event s CHR_EVENT_OPENED) (\<lambda>s. Inr (s\<lparr>open_timer := False\<rparr>))"

definition qemu_chr_generic_open :: "('o, 'z) chardev_scheme \<Rightarrow> ('o, 'z) chardev_scheme" where
  "qemu_chr_generic_open s = (if \<not> open_timer s then s\<lparr>open_timer := True\<rparr> else s)"

definition qemu_chr_be_can_write :: "('o, 'z) chardev_scheme \<Rightarrow> int res" where
  "qemu_chr_be_can_write s =
     (case chr_can_read (hnd s) of
        None \<Rightarrow> Inr 0
      | Some f \<Rightarrow> rbind (deref s (handler_opaque s)) (\<lambda>obj. Inr (f obj)))"

definition qemu_chr_be_write :: "('o, 'z) chardev_scheme \<Rightarrow> u8 list \<Rightarrow> ('o, 'z) chardev_scheme res" where
  "qemu_chr_be_write s buf = call_handler (chr_read (hnd s)) (handler_opaque s) buf s"

section \<open>From the frontend to the backend\<close>

text \<open>
  The routines of the backend are arguments here: \<open>wr\<close> is \<open>chr_write\<close>, and the optional
  ones are \<open>None\<close> where the code has a null pointer.
\<close>

definition qemu_chr_fe_write :: "('b \<Rightarrow> u8 list \<Rightarrow> (int \<times> 'b) res) \<Rightarrow> 'b \<Rightarrow> u8 list \<Rightarrow> (int \<times> 'b) res" where
  "qemu_chr_fe_write wr s buf = wr s buf"

definition qemu_chr_fe_ioctl :: "('b \<Rightarrow> int \<Rightarrow> 'a \<Rightarrow> int \<times> 'b) option \<Rightarrow> 'b \<Rightarrow> int \<Rightarrow> 'a \<Rightarrow> int \<times> 'b" where
  "qemu_chr_fe_ioctl f s cmd arg = (case f of None \<Rightarrow> (- 95, s) | Some g \<Rightarrow> g s cmd arg)"

definition qemu_chr_fe_get_msgfd :: "('b \<Rightarrow> int \<times> 'b) option \<Rightarrow> 'b \<Rightarrow> int \<times> 'b" where
  "qemu_chr_fe_get_msgfd f s = (case f of None \<Rightarrow> (- 1, s) | Some g \<Rightarrow> g s)"

definition qemu_chr_add_client :: "('b \<Rightarrow> int \<Rightarrow> int \<times> 'b) option \<Rightarrow> 'b \<Rightarrow> int \<Rightarrow> int \<times> 'b" where
  "qemu_chr_add_client f s fd = (case f of None \<Rightarrow> (- 1, s) | Some g \<Rightarrow> g s fd)"

text \<open>\<open>text\<close> is the formatted text; \<open>vsnprintf\<close> keeps what fits 4096 bytes with the terminator.\<close>

definition qemu_chr_fe_printf :: "('b \<Rightarrow> u8 list \<Rightarrow> (int \<times> 'b) res) \<Rightarrow> 'b \<Rightarrow> u8 list \<Rightarrow> 'b res" where
  "qemu_chr_fe_printf wr s formatted =
     rbind (qemu_chr_fe_write wr s (take 4095 (takeWhile (\<lambda>c. c \<noteq> 0) formatted))) (\<lambda>(_, s). Inr s)"

text \<open>\<open>upd\<close> is the device's \<open>chr_update_read_handler\<close>.\<close>

definition qemu_chr_add_handlers :: "(('o, 'z) chardev_scheme \<Rightarrow> ('o, 'z) chardev_scheme res) option \<Rightarrow>
    ('o, 'z) chardev_scheme \<Rightarrow> 'o handlers \<Rightarrow> nat option \<Rightarrow> ('o, 'z) chardev_scheme res" where
  "qemu_chr_add_handlers upd s h opaque =
     (let s = (if opaque = None \<and> chr_can_read h = None \<and> chr_read h = None \<and> chr_event h = None
               then s\<lparr>avail_connections := avail_connections s + 1\<rparr> else s);
          s = s\<lparr>hnd := h, handler_opaque := opaque\<rparr>
      in rbind (case upd of None \<Rightarrow> Inr s | Some f \<Rightarrow> f s) (\<lambda>s.
         Inr (if opened s then qemu_chr_generic_open s else s)))"

text \<open>\<open>chr_accept_input\<close> of the device, when it has one. The wake-up of the main loop has no state.\<close>

definition qemu_chr_accept_input :: "('s \<Rightarrow> 's res) option \<Rightarrow> 's \<Rightarrow> 's res" where
  "qemu_chr_accept_input f s = (case f of None \<Rightarrow> Inr s | Some g \<Rightarrow> g s)"

section \<open>The null device\<close>

definition null_chr_write :: "'b \<Rightarrow> u8 list \<Rightarrow> (int \<times> 'b) res" where
  "null_chr_write s buf = Inr (int (length buf), s)"

section \<open>The interfaces\<close>

text \<open>A backend whose writes never fail to return.\<close>

locale chr_sink =
  fixes wr :: "'b \<Rightarrow> u8 list \<Rightarrow> (int \<times> 'b) res"
    and bok :: "'b \<Rightarrow> bool"
  assumes wr_ok: "bok b \<Longrightarrow> \<exists>r b'. wr b buf = Inr (r, b') \<and> bok b'"
begin

text \<open>Any sequence of writes returns.\<close>

lemma wr_total: "bok b \<Longrightarrow> \<exists>r b'. qemu_chr_fe_write wr b buf = Inr (r, b') \<and> bok b'"
  by (simp add: qemu_chr_fe_write_def wr_ok)

lemma printf_ok: "bok b \<Longrightarrow> \<exists>b'. qemu_chr_fe_printf wr b formatted = Inr b' \<and> bok b'"
  using wr_ok [of b "take 4095 (takeWhile (\<lambda>c. c \<noteq> 0) formatted)"]
  by (auto simp: qemu_chr_fe_printf_def qemu_chr_fe_write_def)

end

interpretation null_sink: chr_sink null_chr_write "\<lambda>_. True"
  by unfold_locales (simp add: null_chr_write_def)

text \<open>
  A frontend: \<open>recv\<close> is what it has taken and not yet used. It takes a byte when it says it can,
  and an event other than a break leaves what it has taken alone.
\<close>

locale chr_listener =
  fixes cr :: "'o \<Rightarrow> int"
    and rd :: "'o \<Rightarrow> u8 list \<Rightarrow> 'o res"
    and ev :: "'o \<Rightarrow> chr_event \<Rightarrow> 'o res"
    and lok :: "'o \<Rightarrow> bool"
    and recv :: "'o \<Rightarrow> u8 list"
  assumes rd_ok: "lok x \<Longrightarrow> cr x \<noteq> 0 \<Longrightarrow> \<exists>y. rd x [c] = Inr y \<and> lok y \<and> recv y = recv x @ [c]"
    and ev_ok: "lok x \<Longrightarrow> v \<noteq> CHR_EVENT_BREAK \<Longrightarrow> \<exists>y. ev x v = Inr y \<and> lok y \<and> recv y = recv x"
begin

abbreviation (input) ops :: "'o handlers" where
  "ops \<equiv> \<lparr>chr_can_read = Some cr, chr_read = Some rd, chr_event = Some ev\<rparr>"

lemma call_read:
  assumes "p < length (heap s)" and "lok (heap s ! p)" and "cr (heap s ! p) \<noteq> 0"
  shows "\<exists>y. call_handler (Some rd) (Some p) [c] s = Inr (s\<lparr>heap := (heap s)[p := y]\<rparr>) \<and>
    lok y \<and> recv y = recv (heap s ! p) @ [c]"
  using rd_ok [OF assms(2,3), of c] assms(1) by (auto simp: call_handler_def deref_def)

lemma call_event:
  assumes "p < length (heap s)" and "lok (heap s ! p)" and "v \<noteq> CHR_EVENT_BREAK"
  shows "\<exists>y. call_handler (Some ev) (Some p) v s = Inr (s\<lparr>heap := (heap s)[p := y]\<rparr>) \<and>
    lok y \<and> recv y = recv (heap s ! p)"
  using ev_ok [OF assms(2,3)] assms(1) by (auto simp: call_handler_def deref_def)

text \<open>A frontend that attaches to a device that is already open hears that it is.\<close>

lemma attach_open_event:
  assumes "p < length (heap s)" and "lok (heap s ! p)" and "opened s" and "chr_event h = Some ev"
  shows "\<exists>s1 s2. qemu_chr_add_handlers None s h (Some p) = Inr s1 \<and> open_timer s1 \<and>
    qemu_chr_fire_open_event s1 = Inr s2 \<and> \<not> open_timer s2 \<and> ev (heap s ! p) CHR_EVENT_OPENED = Inr (heap s2 ! p)"
proof -
  obtain y where "ev (heap s ! p) CHR_EVENT_OPENED = Inr y"
    using ev_ok [OF assms(2), of CHR_EVENT_OPENED] by auto
  with assms show ?thesis
    by (auto simp: qemu_chr_add_handlers_def qemu_chr_fire_open_event_def qemu_chr_be_event_def Let_def
        qemu_chr_generic_open_def call_handler_def deref_def)
qed

end

text \<open>A frontend that takes as many bytes at once as it says.\<close>

locale chr_taker = chr_listener cr rd ev lok recv
  for cr :: "'o \<Rightarrow> int" and rd :: "'o \<Rightarrow> u8 list \<Rightarrow> 'o res" and ev :: "'o \<Rightarrow> chr_event \<Rightarrow> 'o res"
    and lok :: "'o \<Rightarrow> bool" and recv :: "'o \<Rightarrow> u8 list" +
  assumes cr_nonneg: "lok x \<Longrightarrow> 0 \<le> cr x"
    and rd_many: "lok x \<Longrightarrow> buf \<noteq> [] \<Longrightarrow> int (length buf) \<le> cr x \<Longrightarrow>
      \<exists>y. rd x buf = Inr y \<and> lok y \<and> recv y = recv x @ buf"

text \<open>A device that such a frontend is attached to, and the frontend.\<close>

definition frontend :: "('o, 'z) chardev_scheme \<Rightarrow> 'o" where
  "frontend s = heap s ! the (handler_opaque s)"

definition served :: "('o \<Rightarrow> int) \<Rightarrow> ('o \<Rightarrow> u8 list \<Rightarrow> 'o res) \<Rightarrow> ('o \<Rightarrow> chr_event \<Rightarrow> 'o res) \<Rightarrow> ('o \<Rightarrow> bool) \<Rightarrow>
    ('o, 'z) chardev_scheme \<Rightarrow> bool" where
  "served cr rd ev lok s \<longleftrightarrow> hnd s = \<lparr>chr_can_read = Some cr, chr_read = Some rd, chr_event = Some ev\<rparr> \<and>
     (\<exists>p. handler_opaque s = Some p \<and> p < length (heap s)) \<and> lok (frontend s)"

definition put_frontend :: "'o \<Rightarrow> ('o, 'z) chardev_scheme \<Rightarrow> ('o, 'z) chardev_scheme" where
  "put_frontend y s = s\<lparr>heap := (heap s)[the (handler_opaque s) := y]\<rparr>"

context chr_taker
begin

lemma served_put:
  assumes "served cr rd ev lok s" and "lok y"
  shows "served cr rd ev lok (put_frontend y s)" and "frontend (put_frontend y s) = y"
  using assms by (auto simp: served_def put_frontend_def frontend_def)

lemma can_write: "served cr rd ev lok s \<Longrightarrow> qemu_chr_be_can_write s = Inr (cr (frontend s))"
  by (auto simp: served_def qemu_chr_be_can_write_def deref_def frontend_def)

lemma be_write:
  assumes "served cr rd ev lok s" and "buf \<noteq> []" and "int (length buf) \<le> cr (frontend s)"
  shows "\<exists>y. qemu_chr_be_write s buf = Inr (put_frontend y s) \<and> lok y \<and> recv y = recv (frontend s) @ buf"
proof -
  from assms obtain y where "rd (frontend s) buf = Inr y \<and> lok y \<and> recv y = recv (frontend s) @ buf"
    using rd_many [of "frontend s" buf] by (auto simp: served_def)
  with assms(1) show ?thesis
    by (auto simp: served_def qemu_chr_be_write_def call_handler_def deref_def frontend_def put_frontend_def)
qed

lemma be_event:
  assumes "served cr rd ev lok s" and "v \<noteq> CHR_EVENT_BREAK"
  shows "\<exists>y b. qemu_chr_be_event s v = Inr (put_frontend y (s\<lparr>opened := b\<rparr>)) \<and> lok y \<and> recv y = recv (frontend s)"
proof -
  from assms obtain y where "ev (frontend s) v = Inr y \<and> lok y \<and> recv y = recv (frontend s)"
    using ev_ok [of "frontend s" v] by (auto simp: served_def)
  moreover have "\<exists>b. (case v of CHR_EVENT_OPENED \<Rightarrow> s\<lparr>opened := True\<rparr> | CHR_EVENT_CLOSED \<Rightarrow> s\<lparr>opened := False\<rparr> | _ \<Rightarrow> s) = s\<lparr>opened := b\<rparr>"
    by (cases v) (auto intro: exI [of _ "opened s"])
  ultimately show ?thesis
    using assms(1) by (fastforce simp: served_def qemu_chr_be_event_def Let_def call_handler_def deref_def frontend_def put_frontend_def)
qed

end

end
