(* ===== verification/Chardev_Can.thy ===== *)
theory Chardev_Can
  imports Chardev_Core
begin

text \<open>
  The SocketCAN backend that \<open>src/backup/qemu_linux4/qemu-char.c\<close> (and the identical copy of
  \<open>qemu_linux3\<close>) adds to the character devices: \<open>can_chr_write\<close>,
  \<open>can_chr_close\<close> and \<open>qemu_chr_open_can\<close>. The host kernel is a parameter: what each
  system call returns. Kept are the resources the code holds, so that what an error path or a close
  leaves behind can be read off.
\<close>

datatype can_resource =
    RawSocket
  | ChrState
  | CanDriver

text \<open>
  What the system calls and the allocations return. \<open>can_port\<close> is the value of the
  \<open>port\<close> option.
\<close>

record can_env =
  can_port :: "string option"
  socket_ok :: bool
  chr_alloc_ok :: bool
  drv_alloc_ok :: bool
  ifindex_ok :: bool
  bind_ok :: bool

text \<open>The size of \<open>ifr_name\<close>, from the kernel's interface.\<close>

abbreviation (input) IFNAMSIZ :: nat where "IFNAMSIZ \<equiv> 16"

text \<open>\<open>strcpy(ifr.ifr_name, port)\<close> stores the name and its terminator.\<close>

definition copy_ifname :: "string \<Rightarrow> unit res" where
  "copy_ifname port = (if length port + 1 \<le> IFNAMSIZ then Inr () else Inl OutOfBounds)"

text \<open>The three error labels; each falls into the next.\<close>

definition can_fail0 :: "can_resource list \<Rightarrow> bool \<times> can_resource list" where
  "can_fail0 held = (False, held)"

definition can_fail1 :: "can_resource list \<Rightarrow> bool \<times> can_resource list" where
  "can_fail1 held = can_fail0 (remove1 ChrState held)"

definition can_fail :: "can_resource list \<Rightarrow> bool \<times> can_resource list" where
  "can_fail held = can_fail1 (remove1 CanDriver held)"

text \<open>The result is whether a device is returned, and the resources that are held.\<close>

definition qemu_chr_open_can :: "can_env \<Rightarrow> (bool \<times> can_resource list) res" where
  "qemu_chr_open_can e =
     (case can_port e of
        None \<Rightarrow> Inr (False, [])
      | Some port \<Rightarrow>
          if \<not> socket_ok e then Inr (False, [])
          else if \<not> chr_alloc_ok e then Inr (can_fail0 [RawSocket])
          else if \<not> drv_alloc_ok e then Inr (can_fail1 [RawSocket, ChrState])
          else rbind (copy_ifname port) (\<lambda>_.
            let held = [RawSocket, ChrState, CanDriver]
            in if \<not> ifindex_ok e then Inr (can_fail held)
               else if \<not> bind_ok e then Inr (can_fail held)
               else Inr (True, held)))"

text \<open>\<open>can_chr_close\<close> frees the driver's state; the descriptor in it is not closed.\<close>

definition can_chr_close :: "can_resource list \<Rightarrow> can_resource list" where
  "can_chr_close held = remove1 CanDriver held"

text \<open>\<open>qemu_chr_delete\<close> calls the close routine and frees the device's state.\<close>

definition qemu_chr_delete :: "can_resource list \<Rightarrow> can_resource list" where
  "qemu_chr_delete held = remove1 ChrState (can_chr_close held)"

text \<open>
  \<open>can_chr_write\<close>. The backend is the host's socket, the list of the messages it has sent;
  \<open>kwrite\<close> is what \<open>write\<close> returns for a message, which it sends whole or not at all.
\<close>

definition can_chr_write :: "(u8 list \<Rightarrow> int) \<Rightarrow> u8 list list \<Rightarrow> u8 list \<Rightarrow> (int \<times> u8 list list) res" where
  "can_chr_write kwrite sent buf =
     (let sent' = (if kwrite buf = int (length buf) then sent @ [buf] else sent)
      in if kwrite buf \<noteq> int (length buf) then Inr (- 1, sent') else Inr (0, sent'))"

interpretation can_sink: chr_sink "can_chr_write kwrite" "\<lambda>_. True" for kwrite
  by unfold_locales (simp add: can_chr_write_def Let_def)

lemmas can_open_simps = qemu_chr_open_can_def copy_ifname_def can_fail_def can_fail1_def can_fail0_def

section \<open>Properties\<close>

text \<open>
  Opening the CAN backend, on every path: it succeeds exactly when every step does and the
  interface name with its terminator fits the kernel's sixteen bytes, and then holds the socket and
  both allocations; a longer name overruns \<open>ifr_name\<close> as soon as it is reached; every other
  failure frees the allocations but, once the socket is open, leaves the socket behind, and so does
  deleting the opened device.
\<close>

theorem can_backend_open:
  "qemu_chr_open_can e =
     (if can_port e \<noteq> None \<and> socket_ok e then
        (if chr_alloc_ok e \<and> drv_alloc_ok e then
           (if length (the (can_port e)) < 16 then
              (if ifindex_ok e \<and> bind_ok e then Inr (True, [RawSocket, ChrState, CanDriver])
               else Inr (False, [RawSocket]))
            else Inl OutOfBounds)
         else Inr (False, [RawSocket]))
      else Inr (False, [])) \<and>
   qemu_chr_delete [RawSocket, ChrState, CanDriver] = [RawSocket]"
  by (auto simp: can_open_simps qemu_chr_delete_def can_chr_close_def Let_def split: option.splits)

end
