(* ===== verification/Counter_Ring.thy ===== *)
theory Counter_Ring
  imports Fifo
begin

text \<open>
  Rings with free-running counters. The character-device ring buffer and the multiplexer index
  a buffer whose size is a power of two with \<open>buf[prod++ & (SIZE - 1)]\<close> and
  \<open>buf[cons++ & (SIZE - 1)]\<close>; the counters are machine integers that are never reduced and
  wrap around. \<open>cring_view\<close> is the queue such a ring holds, and the lemmas carry the
  laws of \<open>ring_view\<close> over to it, across the wrap-around.
\<close>

definition pow2 :: "'a::len word \<Rightarrow> bool" where
  "pow2 n \<longleftrightarrow> (\<exists>k<LENGTH('a). n = 2 ^ k)"

lemma unat_pow2: "k < LENGTH('a) \<Longrightarrow> unat (2 ^ k :: 'a::len word) = 2 ^ k"
proof -
  assume "k < LENGTH('a)"
  then have "unat (of_nat (2 ^ k) :: 'a word) = 2 ^ k"
    by (simp only: unsigned_of_nat take_bit_eq_mod) simp
  then show ?thesis by simp
qed

definition cring_view :: "'b list \<Rightarrow> 'a::len word \<Rightarrow> 'a word \<Rightarrow> 'b list" where
  "cring_view buf pr co = ring_view buf (unat co mod length buf) (unat (pr - co))"

text \<open>What every such ring keeps.\<close>

definition cring_ok :: "'b list \<Rightarrow> 'a::len word \<Rightarrow> 'a word \<Rightarrow> 'a word \<Rightarrow> bool" where
  "cring_ok buf n pr co \<longleftrightarrow> pow2 n \<and> length buf = unat n \<and> unat (pr - co) \<le> unat n"

lemma length_cring_view [simp]: "length (cring_view buf pr co) = unat (pr - co)"
  by (simp add: cring_view_def)

lemma cring_view_empty [simp]: "cring_view buf p p = []"
  by (simp add: cring_view_def)

lemma pow2_pos: "pow2 n \<Longrightarrow> 0 < unat n"
  by (auto simp: pow2_def unat_pow2)

lemma pow2_dvd: "pow2 (n :: 'a::len word) \<Longrightarrow> unat n dvd 2 ^ LENGTH('a)"
  by (auto simp: pow2_def unat_pow2 intro!: le_imp_power_dvd less_imp_le)

lemma pow2_le:
  assumes "pow2 (n :: 'a::len word)"
  shows "2 * unat n \<le> 2 ^ LENGTH('a)"
proof -
  obtain k where k: "k < LENGTH('a)" and n: "n = 2 ^ k"
    using assms by (auto simp: pow2_def)
  have "(2::nat) ^ Suc k \<le> 2 ^ LENGTH('a)"
    using k by (intro power_increasing) simp_all
  then show ?thesis by (simp add: n unat_pow2 [OF k])
qed

text \<open>Masking with \<open>n - 1\<close> is reduction modulo \<open>n\<close>.\<close>

lemma unat_and_pow2:
  fixes n x :: "'a::len word"
  assumes "pow2 n"
  shows "unat (x AND (n - 1)) = unat x mod unat n"
proof -
  obtain k where k: "k < LENGTH('a)" and n: "n = 2 ^ k"
    using assms by (auto simp: pow2_def)
  then have "n - 1 = mask k"
    by (simp add: mask_eq_exp_minus_1 push_bit_eq_mult)
  then have "x AND (n - 1) = take_bit k x"
    by (simp add: take_bit_eq_mask)
  then have "unat (x AND (n - 1)) = take_bit k (unat x)"
    by (simp add: unsigned_take_bit_eq)
  then show ?thesis
    by (simp only: take_bit_eq_mod n unat_pow2 [OF k])
qed

text \<open>Reading modulo the ring size is not affected by the counters' wrap-around.\<close>

lemma unat_add_mod_pow2:
  fixes n x y :: "'a::len word"
  assumes "pow2 n"
  shows "unat (x + y) mod unat n = (unat x + unat y) mod unat n"
  using pow2_dvd [OF assms] by (simp add: unat_word_ariths mod_mod_cancel)

lemma unat_prod_mod:
  fixes n pr co :: "'a::len word"
  assumes "pow2 n"
  shows "unat pr mod unat n = (unat co mod unat n + unat (pr - co)) mod unat n"
  using unat_add_mod_pow2 [OF assms, of co "pr - co"] by (simp add: mod_add_left_eq)

lemma unat_succ_mod:
  fixes n co :: "'a::len word"
  assumes "pow2 n"
  shows "unat (co + 1) mod unat n = ring_next (unat n) (unat co mod unat n)"
  using unat_add_mod_pow2 [OF assms, of co 1] pow2_pos [OF assms]
  by (simp add: ring_next_add)

lemma unat_Suc_diff:
  fixes p c :: "'a::len word"
  assumes "Suc (unat (p - c)) < 2 ^ LENGTH('a)"
  shows "unat (p + 1 - c) = Suc (unat (p - c))"
proof -
  have "unat ((p - c) + 1) = Suc (unat (p - c))"
    using assms by (simp only: unat_word_ariths unat_1) simp
  moreover have "p + 1 - c = (p - c) + 1" by simp
  ultimately show ?thesis by (simp only:)
qed

lemma unat_diff_pred:
  fixes p c :: "'a::len word"
  assumes "p \<noteq> c"
  shows "unat (p - (c + 1)) = unat (p - c) - 1"
proof -
  have "unat ((p - c) - 1) = unat (p - c) - 1"
    using assms by (intro unat_minus_one) simp
  moreover have "p - (c + 1) = (p - c) - 1" by simp
  ultimately show ?thesis by (simp only:)
qed

lemma cring_get:
  fixes n pr co :: "'a::len word"
  assumes ok: "cring_ok buf n pr co" and ne: "pr \<noteq> co"
  shows "unat (co AND (n - 1)) < length buf"
    and "cring_ok buf n pr (co + 1)"
    and "cring_view buf pr co = buf ! unat (co AND (n - 1)) # cring_view buf pr (co + 1)"
proof -
  have p2: "pow2 n" and len: "length buf = unat n" using ok by (auto simp: cring_ok_def)
  have idx: "unat (co AND (n - 1)) = unat co mod unat n" by (rule unat_and_pow2 [OF p2])
  show lt: "unat (co AND (n - 1)) < length buf"
    using pow2_pos [OF p2] by (simp add: idx len)
  show "cring_ok buf n pr (co + 1)"
    using ok unat_diff_pred [OF ne] unfolding cring_ok_def by linarith
  have "0 < unat (pr - co)" using ne by (simp add: unat_gt_0)
  from ring_view_get [OF this, of "unat co mod unat n" buf]
  show "cring_view buf pr co = buf ! unat (co AND (n - 1)) # cring_view buf pr (co + 1)"
    using lt by (simp add: cring_view_def idx len unat_succ_mod [OF p2] unat_diff_pred [OF ne])
qed

lemma cring_put:
  fixes n pr co :: "'a::len word" and buf :: "'b list" and x :: 'b
  assumes ok: "cring_ok buf n pr co" and room: "unat (pr - co) < unat n"
  defines "buf' \<equiv> buf[unat (pr AND (n - 1)) := x]"
  shows "unat (pr AND (n - 1)) < length buf"
    and "cring_ok buf' n (pr + 1) co"
    and "cring_view buf' (pr + 1) co = cring_view buf pr co @ [x]"
proof -
  have p2: "pow2 n" and len: "length buf = unat n" using ok by (auto simp: cring_ok_def)
  have idx: "unat (pr AND (n - 1)) = (unat co mod unat n + unat (pr - co)) mod unat n"
    using unat_and_pow2 [OF p2, of pr] unat_prod_mod [OF p2, of pr co] by simp
  show "unat (pr AND (n - 1)) < length buf"
    using pow2_pos [OF p2] by (simp add: idx len)
  have "Suc (unat (pr - co)) < 2 ^ LENGTH('a)"
    using room unsigned_less [of n, where ?'a = nat] by linarith
  note diff = unat_Suc_diff [OF this]
  show "cring_ok buf' n (pr + 1) co"
    using p2 len room by (simp add: cring_ok_def buf'_def diff)
  show "cring_view buf' (pr + 1) co = cring_view buf pr co @ [x]"
    using ring_view_put [of "unat (pr - co)" buf "unat co mod unat n" x] room
    by (simp add: cring_view_def buf'_def idx len diff)
qed

text \<open>
  A put on a full ring that overwrites the oldest element and then moves the output counter:
  the ring loses its first element.
\<close>

lemma cring_put_full:
  fixes n pr co :: "'a::len word" and buf :: "'b list" and x :: 'b
  assumes ok: "cring_ok buf n pr co" and full: "unat (pr - co) = unat n"
  defines "buf' \<equiv> buf[unat (pr AND (n - 1)) := x]"
  shows "unat (pr AND (n - 1)) < length buf"
    and "cring_ok buf' n (pr + 1) (co + 1)"
    and "cring_view buf' (pr + 1) (co + 1) = tl (cring_view buf pr co @ [x])"
proof -
  have p2: "pow2 n" using ok by (auto simp: cring_ok_def)
  have ne: "pr \<noteq> co" using full pow2_pos [OF p2] by auto
  note get = cring_get [OF ok ne]
  have room: "unat (pr - (co + 1)) < unat n"
    using unat_diff_pred [OF ne] full pow2_pos [OF p2] by linarith
  note put = cring_put(2,3) [OF get(2) room, where x = x, folded buf'_def]
  show "unat (pr AND (n - 1)) < length buf" by (rule cring_put(1) [OF get(2) room])
  show "cring_ok buf' n (pr + 1) (co + 1)" by (rule put(1))
  show "cring_view buf' (pr + 1) (co + 1) = tl (cring_view buf pr co @ [x])"
    using put(2) get(3) by simp
qed

text \<open>The test \<open>n & (n - 1)\<close> of the code tells the powers of two apart.\<close>

lemma nat_pow2_test: "0 < n \<Longrightarrow> n AND (n - 1) = 0 \<Longrightarrow> \<exists>k. n = 2 ^ k" for n :: nat
proof (induction n rule: less_induct)
  case (less n)
  show ?case
  proof (cases "even n")
    case True
    then obtain m where m: "n = 2 * m" by (elim evenE)
    with less.prems have m0: "0 < m" by simp
    then have half: "(n - 1) div 2 = m - 1" by (simp add: m)
    have "2 * (m AND (m - 1)) = n AND (n - 1)"
      using and_rec [of n "n - 1"] True half by (simp add: m)
    then have "\<exists>k. m = 2 ^ k"
      using less m m0 by simp
    then show ?thesis
      using m power_Suc by metis
  next
    case False
    then have "n AND (n - 1) = 2 * (n div 2)"
      using and_rec [of n "n - 1"] odd_two_times_div_two_succ [OF False] by (auto elim!: oddE)
    then have "n = 1" using less.prems False by (auto elim!: oddE)
    then show ?thesis by (intro exI [of _ 0]) simp
  qed
qed

lemma pow2_test:
  fixes n :: "'a::len word"
  assumes "n \<noteq> 0" and "n AND (n - 1) = 0"
  shows "pow2 n"
proof -
  have "unat n AND (unat n - 1) = 0"
    using assms(2) unat_minus_one [OF assms(1)] by (metis unsigned_and_eq unsigned_0)
  then obtain k where k: "unat n = 2 ^ k"
    using nat_pow2_test [of "unat n"] assms(1) by (auto simp: unat_gt_0)
  then have "k < LENGTH('a)"
    using unsigned_less [of n, where ?'a = nat] by (simp add: power_strict_increasing_iff)
  moreover from this k have "n = 2 ^ k"
    by (simp add: word_unat_eq_iff unat_pow2)
  ultimately show ?thesis by (auto simp: pow2_def)
qed

lemma pow2_and: "pow2 n \<Longrightarrow> n AND (n - 1) = 0"
  using unat_and_pow2 [of n n] by (simp add: word_unat_eq_iff)

end
