(* ===== verification/Chardev_Mux.thy ===== *)
theory Chardev_Mux
  imports Chardev_Core Counter_Ring "HOL-Library.Signed_Division"
begin

text \<open>
  The multiplexer of \<open>qemu-char.c\<close> (\<open>MuxDriver\<close>, \<open>mux_*\<close>): up to four frontends share
  one backend, an escape character switches the focus between them, and the input of a frontend
  that does not accept any waits in a ring of 32 bytes.

  The ring counters are \<open>int\<close>s of the code; their increment is modelled with wrap-around. The
  handlers of the frontends do not call back into the multiplexer. The backend's \<open>chr_write\<close> is
  a parameter, and so are the readings of the clock (\<open>env_clock n\<close> is the n-th) and the escape
  character.
\<close>

abbreviation (input) MAX_MUX :: nat where "MAX_MUX \<equiv> 4"
abbreviation (input) MUX_BUFFER_SIZE :: u32 where "MUX_BUFFER_SIZE \<equiv> 32"
abbreviation (input) MUX_BUFFER_MASK :: u32 where "MUX_BUFFER_MASK \<equiv> MUX_BUFFER_SIZE - 1"

text \<open>
  The state: the multiplexer's own \<open>CharDriverState\<close>, extended with \<open>MuxDriver\<close>. Of the
  backend's \<open>CharDriverState\<close> are kept its own state (\<open>drv\<close>), whether its handlers are the
  multiplexer's, and its two flags. \<open>commits\<close> counts the calls of \<open>bdrv_commit_all\<close>, and
  \<open>exited\<close> says that \<open>exit\<close> was called.
\<close>

record ('o, 'b) mux = "'o chardev" +
  drv :: 'b
  drv_hooked :: bool
  drv_opened :: bool
  drv_open_timer :: bool
  focus :: int
  mux_cnt :: nat
  mhnd :: "'o handlers list"
  ext_opaque :: "nat option list"
  term_got_escape :: bool
  mbuffer :: "u8 list list"
  mprod :: "u32 list"
  mcons :: "u32 list"
  timestamps :: bool
  linestart :: bool
  timestamps_start :: int
  ticks :: nat
  commits :: nat
  exited :: bool

record 'b mux_env =
  env_write :: "'b \<Rightarrow> u8 list \<Rightarrow> (int \<times> 'b) res"
  env_clock :: "nat \<Rightarrow> int"
  env_escape :: int

text \<open>An array indexed with an \<open>int\<close>.\<close>

definition iarr_get :: "'a list \<Rightarrow> int \<Rightarrow> 'a res" where
  "iarr_get xs i = (if i < 0 then Inl OutOfBounds else arr_get xs (nat i))"

definition iarr_set :: "'a list \<Rightarrow> int \<Rightarrow> 'a \<Rightarrow> 'a list res" where
  "iarr_set xs i x = (if i < 0 then Inl OutOfBounds else arr_set xs (nat i) x)"

section \<open>Output\<close>

definition chars :: "string \<Rightarrow> u8 list" where
  "chars s = map of_char s"

fun digits :: "nat \<Rightarrow> u8 list" where
  "digits n = (if n < 10 then [48 + of_nat n] else digits (n div 10) @ [48 + of_nat (n mod 10)])"

text \<open>\<open>%0wd\<close>.\<close>

definition fmt_d :: "nat \<Rightarrow> int \<Rightarrow> u8 list" where
  "fmt_d w n =
     (let ds = digits (nat \<bar>n\<bar>)
      in if n < 0 then 45 # replicate (w - 1 - length ds) 48 @ ds else replicate (w - length ds) 48 @ ds)"

definition c_int :: "int \<Rightarrow> int" where
  "c_int x = sint (word_of_int x :: u32)"

text \<open>The stamp \<open>[%02d:%02d:%02d.%03d] \<close> of a time in milliseconds.\<close>

definition time_stamp :: "int \<Rightarrow> u8 list" where
  "time_stamp ti =
     (let secs = c_int (ti sdiv 1000)
      in take 63 (chars ''['' @ fmt_d 2 (secs sdiv 3600) @ chars '':'' @ fmt_d 2 ((secs sdiv 60) smod 60) @
           chars '':'' @ fmt_d 2 (secs smod 60) @ chars ''.'' @ fmt_d 3 (c_int (ti smod 1000)) @ chars ''] ''))"

definition mux_stamp :: "'b mux_env \<Rightarrow> ('o, 'b) mux \<Rightarrow> ('o, 'b) mux res" where
  "mux_stamp e d =
     (if linestart d then
        (let ti = env_clock e (ticks d);
             d = d\<lparr>ticks := ticks d + 1,
                   timestamps_start := (if timestamps_start d = - 1 then ti else timestamps_start d)\<rparr>
         in rbind (env_write e (drv d) (time_stamp (ti - timestamps_start d))) (\<lambda>(_, b).
            Inr (d\<lparr>drv := b, linestart := False\<rparr>)))
      else Inr d)"

fun mux_write_loop :: "'b mux_env \<Rightarrow> int \<Rightarrow> ('o, 'b) mux \<Rightarrow> u8 list \<Rightarrow> (int \<times> ('o, 'b) mux) res" where
  "mux_write_loop e ret d [] = Inr (ret, d)"
| "mux_write_loop e ret d (c # cs) =
     rbind (mux_stamp e d) (\<lambda>d.
     rbind (env_write e (drv d) [c]) (\<lambda>(r, b).
     mux_write_loop e (ret + r) (d\<lparr>drv := b, linestart := (if c = 10 then True else linestart d)\<rparr>) cs))"

definition mux_chr_write :: "'b mux_env \<Rightarrow> ('o, 'b) mux \<Rightarrow> u8 list \<Rightarrow> (int \<times> ('o, 'b) mux) res" where
  "mux_chr_write e d buf =
     (if \<not> timestamps d then
        rbind (env_write e (drv d) buf) (\<lambda>(ret, b). Inr (ret, d\<lparr>drv := b\<rparr>))
      else mux_write_loop e 0 d buf)"

text \<open>The help texts; the fourth literal of the code has no comma and runs into the next.\<close>

definition mux_help :: "u8 list list" where
  "mux_help =
     [chars ''% h    print this help'' @ [10, 13],
      chars ''% x    exit emulator'' @ [10, 13],
      chars ''% s    save disk data back to file (if -snapshot)'' @ [10, 13],
      chars ''% t    toggle console timestamps'' @ [10, 13] @ chars ''% b    send break (magic sysrq)'' @ [10, 13],
      chars ''% c    switch between console and monitor'' @ [10, 13],
      chars ''% %  sends %'' @ [10, 13]]"

definition hex_digit :: "nat \<Rightarrow> u8" where
  "hex_digit n = (if n < 10 then 48 + of_nat n else 87 + of_nat n)"

fun hex_digits :: "nat \<Rightarrow> u8 list" where
  "hex_digits n = (if n < 16 then [hex_digit n] else hex_digits (n div 16) @ [hex_digit (n mod 16)])"

text \<open>\<open>%02x\<close> of an \<open>int\<close>, read as unsigned.\<close>

definition fmt_x :: "int \<Rightarrow> u8 list" where
  "fmt_x n = (let ds = hex_digits (unat (word_of_int n :: u32)) in replicate (2 - length ds) 48 @ ds)"

definition help_chunks :: "int \<Rightarrow> u8 list list" where
  "help_chunks esc =
     (let ctrl = 0 < esc \<and> esc < 26;
          cbuf = (if ctrl then [10, 13]
                  else [10, 13] @ chars ''Escape-Char set to Ascii: 0x'' @ fmt_x esc @ [10, 13, 10, 13]);
          ebuf = (if ctrl then chars ''C-'' @ [word_of_int (esc - 1 + 97)] else chars ''Escape-Char'')
      in cbuf # map (\<lambda>c. if c = 37 then ebuf else [c]) (concat mux_help))"

fun mux_write_all :: "'b mux_env \<Rightarrow> ('o, 'b) mux \<Rightarrow> u8 list list \<Rightarrow> ('o, 'b) mux res" where
  "mux_write_all e d [] = Inr d"
| "mux_write_all e d (buf # bufs) = rbind (mux_chr_write e d buf) (\<lambda>(_, d). mux_write_all e d bufs)"

definition mux_print_help :: "'b mux_env \<Rightarrow> ('o, 'b) mux \<Rightarrow> ('o, 'b) mux res" where
  "mux_print_help e d = mux_write_all e d (help_chunks (env_escape e))"

section \<open>Input\<close>

definition mux_chr_send_event :: "('o, 'b) mux \<Rightarrow> int \<Rightarrow> chr_event \<Rightarrow> ('o, 'b) mux res" where
  "mux_chr_send_event d nr v =
     rbind (iarr_get (mhnd d) nr) (\<lambda>h.
     rbind (iarr_get (ext_opaque d) nr) (\<lambda>p.
     call_handler (chr_event h) p v d))"

definition mux_switch :: "('o, 'b) mux \<Rightarrow> ('o, 'b) mux res" where
  "mux_switch d =
     rbind (mux_chr_send_event d (focus d) CHR_EVENT_MUX_OUT) (\<lambda>d.
     (let d = d\<lparr>focus := focus d + 1\<rparr>;
          d = (if focus d \<ge> int (mux_cnt d) then d\<lparr>focus := 0\<rparr> else d)
      in mux_chr_send_event d (focus d) CHR_EVENT_MUX_IN))"

text \<open>The result says whether the character is passed on.\<close>

definition mux_proc_byte :: "'b mux_env \<Rightarrow> ('o, 'b) mux \<Rightarrow> u8 \<Rightarrow> (bool \<times> ('o, 'b) mux) res" where
  "mux_proc_byte e d ch =
     (if term_got_escape d then
        (let d = d\<lparr>term_got_escape := False\<rparr> in
         if uint ch = env_escape e then Inr (True, d)
         else if ch = of_char CHR ''?'' \<or> ch = of_char CHR ''h'' then
           rbind (mux_print_help e d) (\<lambda>d. Inr (False, d))
         else if ch = of_char CHR ''x'' then
           rbind (mux_chr_write e d (chars ''QEMU: Terminated'' @ [10, 13])) (\<lambda>(_, d). Inr (False, d\<lparr>exited := True\<rparr>))
         else if ch = of_char CHR ''s'' then Inr (False, d\<lparr>commits := commits d + 1\<rparr>)
         else if ch = of_char CHR ''b'' then
           rbind (qemu_chr_be_event d CHR_EVENT_BREAK) (\<lambda>d. Inr (False, d))
         else if ch = of_char CHR ''c'' then rbind (mux_switch d) (\<lambda>d. Inr (False, d))
         else if ch = of_char CHR ''t'' then
           Inr (False, d\<lparr>timestamps := \<not> timestamps d, timestamps_start := - 1, linestart := False\<rparr>)
         else Inr (False, d))
      else if uint ch = env_escape e then Inr (False, d\<lparr>term_got_escape := True\<rparr>)
      else Inr (True, d))"

text \<open>\<open>d->chr_can_read[m] && d->chr_can_read[m](d->ext_opaque[m])\<close>.\<close>

definition mux_accepts :: "('o, 'b) mux \<Rightarrow> int \<Rightarrow> bool res" where
  "mux_accepts d m =
     rbind (iarr_get (mhnd d) m) (\<lambda>h.
     case chr_can_read h of
       None \<Rightarrow> Inr False
     | Some f \<Rightarrow>
         rbind (iarr_get (ext_opaque d) m) (\<lambda>p.
         rbind (deref d p) (\<lambda>obj. Inr (f obj \<noteq> 0))))"

text \<open>\<open>d->chr_read[m](d->ext_opaque[m], &c, 1)\<close>; a null \<open>chr_read\<close> is called like any other.\<close>

definition mux_deliver :: "('o, 'b) mux \<Rightarrow> int \<Rightarrow> u8 \<Rightarrow> ('o, 'b) mux res" where
  "mux_deliver d m c =
     rbind (iarr_get (mhnd d) m) (\<lambda>h.
     rbind (iarr_get (ext_opaque d) m) (\<lambda>p.
     case chr_read h of None \<Rightarrow> Inl NullDeref | Some f \<Rightarrow> call_handler (Some f) p [c] d))"

lemma call_handler_frame:
  "call_handler f p x d = Inr d' \<Longrightarrow> mprod d' = mprod d \<and> mcons d' = mcons d"
  by (auto simp: call_handler_def rbind_eq_Inr split: option.splits)

lemma mux_deliver_frame: "mux_deliver d m c = Inr d' \<Longrightarrow> mprod d' = mprod d \<and> mcons d' = mcons d"
  using call_handler_frame by (fastforce simp: mux_deliver_def rbind_eq_Inr split: option.splits)

text \<open>
  \<open>mux_chr_accept_input\<close>: the loop ends because every round consumes a byte of the ring and
  nothing adds to it.
\<close>

function accept_loop :: "int \<Rightarrow> ('o, 'b) mux \<Rightarrow> ('o, 'b) mux res" where
  "accept_loop m d =
     rbind (iarr_get (mprod d) m) (\<lambda>pr.
     rbind (iarr_get (mcons d) m) (\<lambda>co.
     if pr = co then Inr d
     else
       rbind (mux_accepts d m) (\<lambda>acc.
       if \<not> acc then Inr d
       else
         rbind (iarr_get (mbuffer d) m) (\<lambda>buf.
         rbind (arr_get buf (unat (co AND MUX_BUFFER_MASK))) (\<lambda>c.
         rbind (mux_deliver (d\<lparr>mcons := (mcons d)[nat m := co + 1]\<rparr>) m c) (\<lambda>d'.
         accept_loop m d'))))))"
  by pat_completeness auto
termination
proof (relation "measure (\<lambda>(m, d). unat (mprod d ! nat m - mcons d ! nat m))", goal_cases)
  case (2 m d pr co acc buf c d')
  then have "m \<ge> 0" "nat m < length (mprod d)" "nat m < length (mcons d)"
      "pr = mprod d ! nat m" "co = mcons d ! nat m" "pr \<noteq> co"
    by (auto simp: iarr_get_def arr_get_def split: if_splits)
  moreover have "mprod d' = mprod d" "mcons d' = (mcons d)[nat m := co + 1]"
    using mux_deliver_frame [OF 2(8)] by simp_all
  ultimately show ?case
    using unat_diff_pred [of pr co] by (simp add: unat_gt_0)
qed simp

definition mux_chr_accept_input :: "('o, 'b) mux \<Rightarrow> ('o, 'b) mux res" where
  "mux_chr_accept_input d = accept_loop (focus d) d"

definition mux_chr_can_read :: "('o, 'b) mux \<Rightarrow> int res" where
  "mux_chr_can_read d =
     (let m = focus d in
      rbind (iarr_get (mprod d) m) (\<lambda>pr.
      rbind (iarr_get (mcons d) m) (\<lambda>co.
      if sint (pr - co) < sint MUX_BUFFER_SIZE then Inr 1
      else
        rbind (iarr_get (mhnd d) m) (\<lambda>h.
        case chr_can_read h of
          None \<Rightarrow> Inr 0
        | Some f \<Rightarrow>
            rbind (iarr_get (ext_opaque d) m) (\<lambda>p.
            rbind (deref d p) (\<lambda>obj. Inr (f obj)))))))"

text \<open>What \<open>mux_chr_read\<close> does with a character that is passed on: \<open>m\<close> is the focus at entry.\<close>

definition mux_take :: "('o, 'b) mux \<Rightarrow> int \<Rightarrow> u8 \<Rightarrow> ('o, 'b) mux res" where
  "mux_take d m c =
     rbind (iarr_get (mprod d) m) (\<lambda>pr.
     rbind (iarr_get (mcons d) m) (\<lambda>co.
     rbind (if pr = co then mux_accepts d m else Inr False) (\<lambda>direct.
     if direct then mux_deliver d m c
     else
       rbind (iarr_get (mbuffer d) m) (\<lambda>buf.
       rbind (arr_set buf (unat (pr AND MUX_BUFFER_MASK)) c) (\<lambda>buf.
       Inr (d\<lparr>mbuffer := (mbuffer d)[nat m := buf], mprod := (mprod d)[nat m := pr + 1]\<rparr>))))))"

fun mux_read_loop :: "'b mux_env \<Rightarrow> int \<Rightarrow> ('o, 'b) mux \<Rightarrow> u8 list \<Rightarrow> ('o, 'b) mux res" where
  "mux_read_loop e m d [] = Inr d"
| "mux_read_loop e m d (c # cs) =
     rbind (mux_proc_byte e d c) (\<lambda>(pass, d).
     if exited d then Inr d
     else rbind (if pass then mux_take d m c else Inr d) (\<lambda>d. mux_read_loop e m d cs))"

definition mux_chr_read :: "'b mux_env \<Rightarrow> ('o, 'b) mux \<Rightarrow> u8 list \<Rightarrow> ('o, 'b) mux res" where
  "mux_chr_read e d buf =
     (let m = focus d in rbind (mux_chr_accept_input d) (\<lambda>d. mux_read_loop e m d buf))"

fun mux_event_loop :: "chr_event \<Rightarrow> nat \<Rightarrow> nat \<Rightarrow> ('o, 'b) mux \<Rightarrow> ('o, 'b) mux res" where
  "mux_event_loop v i 0 d = Inr d"
| "mux_event_loop v i (Suc n) d =
     rbind (mux_chr_send_event d (int i) v) (\<lambda>d. mux_event_loop v (Suc i) n d)"

definition mux_chr_event :: "('o, 'b) mux \<Rightarrow> chr_event \<Rightarrow> ('o, 'b) mux res" where
  "mux_chr_event d v = mux_event_loop v 0 (mux_cnt d) d"

section \<open>Attaching a frontend\<close>

definition mux_chr_update_read_handler :: "('o, 'b) mux \<Rightarrow> ('o, 'b) mux res" where
  "mux_chr_update_read_handler d =
     (if mux_cnt d \<ge> MAX_MUX then Inr d
      else
        rbind (arr_set (ext_opaque d) (mux_cnt d) (handler_opaque d)) (\<lambda>ps.
        rbind (arr_set (mhnd d) (mux_cnt d) (hnd d)) (\<lambda>hs.
        (let d = d\<lparr>ext_opaque := ps, mhnd := hs\<rparr>;
             d = (if mux_cnt d = 0
                  then d\<lparr>drv_hooked := True, drv_open_timer := drv_opened d \<or> drv_open_timer d\<rparr> else d)
         in rbind (if focus d \<noteq> - 1 then mux_chr_send_event d (focus d) CHR_EVENT_MUX_OUT else Inr d) (\<lambda>d.
            (let d = d\<lparr>focus := int (mux_cnt d), mux_cnt := mux_cnt d + 1\<rparr>
             in mux_chr_send_event d (focus d) CHR_EVENT_MUX_IN))))))"

definition qemu_chr_open_mux :: "'o list \<Rightarrow> 'b \<Rightarrow> bool \<Rightarrow> ('o, 'b) mux" where
  "qemu_chr_open_mux objs b b_opened =
     qemu_chr_generic_open
       (chardev.extend (chardev_zero objs)
          (mux.fields b False b_opened False (- 1) 0 (replicate 4 null_handlers) (replicate 4 None) False
             (replicate 4 (replicate 32 0)) (replicate 4 0) (replicate 4 0) False False 0 0 0 False))"

definition mux_add_handlers :: "('o, 'b) mux \<Rightarrow> 'o handlers \<Rightarrow> nat option \<Rightarrow> ('o, 'b) mux res" where
  "mux_add_handlers d h p = qemu_chr_add_handlers (Some mux_chr_update_read_handler) d h p"

end
