(* ===== verification/Mux_Inv.thy ===== *)
theory Mux_Inv
  imports Chardev_Mux
begin

text \<open>
  The multiplexer's invariant and what its operations do with the streams of its frontends. The
  stream of a frontend is what it has taken followed by what waits for it in its ring. The locale
  \<open>mux_sys\<close> puts the interfaces of a frontend and of a backend together; everything is proved
  in it once, for any frontends and any backend that keep their laws.
\<close>

section \<open>Invariant and streams\<close>

definition mobj :: "('o, 'b) mux \<Rightarrow> nat \<Rightarrow> nat" where
  "mobj d k = the (ext_opaque d ! k)"

definition buffered :: "('o, 'b) mux \<Rightarrow> nat \<Rightarrow> nat" where
  "buffered d k = unat (mprod d ! k - mcons d ! k)"

definition mux_stream :: "('o \<Rightarrow> u8 list) \<Rightarrow> ('o, 'b) mux \<Rightarrow> nat \<Rightarrow> u8 list" where
  "mux_stream recv d k = recv (heap d ! mobj d k) @ cring_view (mbuffer d ! k) (mprod d ! k) (mcons d ! k)"

definition mux_shape :: "('o, 'b) mux \<Rightarrow> bool" where
  "mux_shape d \<longleftrightarrow> length (mhnd d) = 4 \<and> length (ext_opaque d) = 4 \<and> length (mbuffer d) = 4 \<and>
     length (mprod d) = 4 \<and> length (mcons d) = 4 \<and> mux_cnt d \<le> 4"

text \<open>Every attached frontend has the handlers \<open>h\<close> and an object of its own.\<close>

definition slots_ok :: "'o handlers \<Rightarrow> ('o, 'b) mux \<Rightarrow> bool" where
  "slots_ok h d \<longleftrightarrow>
     (\<forall>k<mux_cnt d. mhnd d ! k = h \<and> ext_opaque d ! k = Some (mobj d k) \<and> mobj d k < length (heap d)) \<and>
     inj_on (mobj d) {..<mux_cnt d}"

definition rings_ok :: "('o, 'b) mux \<Rightarrow> bool" where
  "rings_ok d \<longleftrightarrow> (\<forall>k<4. cring_ok (mbuffer d ! k) (32 :: u32) (mprod d ! k) (mcons d ! k))"

definition focus_ok :: "('o, 'b) mux \<Rightarrow> bool" where
  "focus_ok d \<longleftrightarrow> (if mux_cnt d = 0 then focus d = - 1 else 0 \<le> focus d \<and> focus d < int (mux_cnt d))"

definition mux_ok :: "'o handlers \<Rightarrow> ('o \<Rightarrow> bool) \<Rightarrow> ('b \<Rightarrow> bool) \<Rightarrow> ('o, 'b) mux \<Rightarrow> bool" where
  "mux_ok h lok bok d \<longleftrightarrow> mux_shape d \<and> slots_ok h d \<and> rings_ok d \<and> focus_ok d \<and>
     (\<forall>x\<in>set (heap d). lok x) \<and> bok (drv d)"

text \<open>What an operation leaves alone when it takes no input and sends no byte on.\<close>

definition calm :: "('o \<Rightarrow> u8 list) \<Rightarrow> ('o, 'b) mux \<Rightarrow> ('o, 'b) mux \<Rightarrow> bool" where
  "calm recv d d' \<longleftrightarrow> mux_cnt d' = mux_cnt d \<and> exited d' = exited d \<and>
     (\<forall>k<mux_cnt d. mux_stream recv d' k = mux_stream recv d k \<and> buffered d' k \<le> buffered d k)"

lemma calm_refl [simp]: "calm recv d d"
  by (simp add: calm_def)

lemma calm_trans: "calm recv d1 d2 \<Longrightarrow> calm recv d2 d3 \<Longrightarrow> calm recv d1 d3"
  by (force simp: calm_def)

text \<open>The stream of frontend \<open>m\<close> grows by the bytes given, the others stay.\<close>

definition gives :: "('o \<Rightarrow> u8 list) \<Rightarrow> nat \<Rightarrow> u8 list \<Rightarrow> ('o, 'b) mux \<Rightarrow> ('o, 'b) mux \<Rightarrow> bool" where
  "gives recv m cs d d' \<longleftrightarrow> mux_cnt d' = mux_cnt d \<and> exited d' = exited d \<and>
     (\<forall>k<mux_cnt d. mux_stream recv d' k = mux_stream recv d k @ (if k = m then cs else []) \<and>
        buffered d' k \<le> buffered d k + (if k = m then length cs else 0))"

lemma calm_gives: "calm recv d d' \<Longrightarrow> gives recv m [] d d'"
  by (simp add: calm_def gives_def)

lemma gives_trans: "gives recv m xs d1 d2 \<Longrightarrow> gives recv m ys d2 d3 \<Longrightarrow> gives recv m (xs @ ys) d1 d3"
  unfolding gives_def by force

lemma iarr_get_nat [simp]: "iarr_get xs (int k) = arr_get xs k"
  by (simp add: iarr_get_def)

section \<open>What output and flags do not touch\<close>

lemma mux_ok_other [simp]:
  "mux_ok h lok bok (d\<lparr>ticks := n\<rparr>) = mux_ok h lok bok d"
  "mux_ok h lok bok (d\<lparr>linestart := l\<rparr>) = mux_ok h lok bok d"
  "mux_ok h lok bok (d\<lparr>timestamps_start := t\<rparr>) = mux_ok h lok bok d"
  "mux_ok h lok bok (d\<lparr>timestamps := l\<rparr>) = mux_ok h lok bok d"
  "mux_ok h lok bok (d\<lparr>commits := n\<rparr>) = mux_ok h lok bok d"
  "mux_ok h lok bok (d\<lparr>term_got_escape := l\<rparr>) = mux_ok h lok bok d"
  "mux_ok h lok bok (d\<lparr>open_timer := l\<rparr>) = mux_ok h lok bok d"
  "mux_ok h lok bok (d\<lparr>hnd := hs\<rparr>) = mux_ok h lok bok d"
  "mux_ok h lok bok (d\<lparr>handler_opaque := p\<rparr>) = mux_ok h lok bok d"
  "mux_ok h lok bok (d\<lparr>avail_connections := n\<rparr>) = mux_ok h lok bok d"
  "mux_ok h lok bok (d\<lparr>drv_hooked := l\<rparr>) = mux_ok h lok bok d"
  "mux_ok h lok bok (d\<lparr>drv_open_timer := l\<rparr>) = mux_ok h lok bok d"
  by (auto simp: mux_ok_def mux_shape_def slots_ok_def rings_ok_def focus_ok_def mobj_def inj_on_def)

lemma mux_ok_drv: "mux_ok h lok bok d \<Longrightarrow> bok b \<Longrightarrow> mux_ok h lok bok (d\<lparr>drv := b\<rparr>)"
  by (auto simp: mux_ok_def mux_shape_def slots_ok_def rings_ok_def focus_ok_def mobj_def inj_on_def)

lemma mux_ok_focus: "mux_ok h lok bok d \<Longrightarrow> 0 \<le> m \<Longrightarrow> m < int (mux_cnt d) \<Longrightarrow> mux_ok h lok bok (d\<lparr>focus := m\<rparr>)"
  by (auto simp: mux_ok_def mux_shape_def slots_ok_def rings_ok_def focus_ok_def mobj_def inj_on_def)

text \<open>What an output operation changes at most.\<close>

definition out_only :: "('o, 'b) mux \<Rightarrow> ('o, 'b) mux \<Rightarrow> bool" where
  "out_only d d' \<longleftrightarrow> (\<exists>b n l t. d' = d\<lparr>drv := b, ticks := n, linestart := l, timestamps_start := t\<rparr>)"

lemma out_onlyI: "d' = d\<lparr>drv := b, ticks := n, linestart := l, timestamps_start := t\<rparr> \<Longrightarrow> out_only d d'"
  by (auto simp: out_only_def)

lemma out_only_upd [simp, intro]:
  "out_only d (d\<lparr>drv := b, ticks := n, linestart := l, timestamps_start := t\<rparr>)"
  "out_only d (d\<lparr>drv := b, linestart := l\<rparr>)"
  "out_only d (d\<lparr>drv := b\<rparr>)"
  "out_only d d"
  subgoal by (rule out_onlyI) (rule refl)
  subgoal by (rule out_onlyI [where n = "ticks d" and t = "timestamps_start d"]) simp
  subgoal by (rule out_onlyI [where n = "ticks d" and t = "timestamps_start d" and l = "linestart d"]) simp
  subgoal
    by (rule out_onlyI [where n = "ticks d" and t = "timestamps_start d" and l = "linestart d" and b = "drv d"]) simp
  done

lemma out_only_trans:
  assumes "out_only d1 d2" and "out_only d2 d3"
  shows "out_only d1 d3"
proof -
  obtain b n l t where "d3 = d2\<lparr>drv := b, ticks := n, linestart := l, timestamps_start := t\<rparr>"
    using assms(2) by (auto simp: out_only_def)
  with assms(1) have "d3 = d1\<lparr>drv := b, ticks := n, linestart := l, timestamps_start := t\<rparr>"
    by (auto simp: out_only_def)
  then show ?thesis by (rule out_onlyI)
qed

lemma out_only_calm: "out_only d d' \<Longrightarrow> calm recv d d' \<and> focus d' = focus d \<and> term_got_escape d' = term_got_escape d"
  by (auto simp: out_only_def calm_def mux_stream_def buffered_def mobj_def)

lemma out_only_ok:
  assumes "out_only d d'" and "mux_ok h lok bok d" and "bok (drv d')"
  shows "mux_ok h lok bok d'"
proof -
  obtain b n l t where d': "d' = d\<lparr>drv := b, ticks := n, linestart := l, timestamps_start := t\<rparr>"
    using assms(1) by (auto simp: out_only_def)
  have "mux_ok h lok bok (d\<lparr>drv := b\<rparr>)"
    using assms d' by (auto intro: mux_ok_drv)
  then show ?thesis by (simp add: d')
qed

text \<open>A changed object of the store.\<close>

lemma mux_ok_heap:
  "mux_ok h lok bok d \<Longrightarrow> lok y \<Longrightarrow> mux_ok h lok bok (d\<lparr>heap := (heap d)[p := y]\<rparr>)"
  by (auto simp: mux_ok_def mux_shape_def slots_ok_def rings_ok_def focus_ok_def mobj_def inj_on_def
      dest!: subsetD [OF set_update_subset_insert])

lemma stream_heap:
  assumes "mux_ok h lok bok d" and "m < mux_cnt d" and "k < mux_cnt d"
  shows "mux_stream recv (d\<lparr>heap := (heap d)[mobj d m := y]\<rparr>) k =
    (if k = m then recv y @ cring_view (mbuffer d ! m) (mprod d ! m) (mcons d ! m) else mux_stream recv d k)"
proof -
  have "mobj d m < length (heap d)" "mobj d k = mobj d m \<longleftrightarrow> k = m"
    using assms by (auto simp: mux_ok_def slots_ok_def inj_on_def)
  then show ?thesis by (auto simp: mux_stream_def mobj_def)
qed

lemma buffered_heap [simp]: "buffered (d\<lparr>heap := hp\<rparr>) k = buffered d k"
  by (simp add: buffered_def)

section \<open>Frontends and a backend together\<close>

locale mux_sys = chr_listener cr rd ev lok recv + chr_sink wr bok
  for cr :: "'o \<Rightarrow> int"
    and rd :: "'o \<Rightarrow> u8 list \<Rightarrow> 'o res"
    and ev :: "'o \<Rightarrow> chr_event \<Rightarrow> 'o res"
    and lok :: "'o \<Rightarrow> bool"
    and recv :: "'o \<Rightarrow> u8 list"
    and wr :: "'b \<Rightarrow> u8 list \<Rightarrow> (int \<times> 'b) res"
    and bok :: "'b \<Rightarrow> bool" +
  fixes e :: "'b mux_env"
  assumes env_wr: "env_write e = wr"
begin

abbreviation (input) ok :: "('o, 'b) mux \<Rightarrow> bool" where
  "ok \<equiv> mux_ok ops lok bok"

abbreviation (input) stream :: "('o, 'b) mux \<Rightarrow> nat \<Rightarrow> u8 list" where
  "stream \<equiv> mux_stream recv"

text \<open>Output.\<close>

lemma stamp_ok: "bok (drv d) \<Longrightarrow> \<exists>d'. mux_stamp e d = Inr d' \<and> out_only d d' \<and> bok (drv d')"
proof (cases "linestart d")
  case True
  define t0 where "t0 = (if timestamps_start d = - 1 then env_clock e (ticks d) else timestamps_start d)"
  define d0 where "d0 = d\<lparr>ticks := ticks d + 1, timestamps_start := t0\<rparr>"
  define ts where "ts = time_stamp (env_clock e (ticks d) - timestamps_start d0)"
  assume "bok (drv d)"
  then obtain r b where b: "wr (drv d) ts = Inr (r, b)" "bok b"
    using wr_ok by blast
  define d' where "d' = d0\<lparr>drv := b, linestart := False\<rparr>"
  have "mux_stamp e d = Inr d'"
    using True b(1) by (simp add: mux_stamp_def env_wr Let_def d0_def t0_def ts_def d'_def)
  moreover have "out_only d d'"
    by (rule out_onlyI [where b = b and n = "ticks d + 1" and l = False and t = t0]) (simp add: d'_def d0_def)
  ultimately show ?thesis
    using b(2) by (auto simp: d'_def)
qed (auto simp: mux_stamp_def)

lemma write_loop_ok:
  "bok (drv d) \<Longrightarrow> \<exists>r d'. mux_write_loop e n d cs = Inr (r, d') \<and> out_only d d' \<and> bok (drv d')"
proof (induction cs arbitrary: d n)
  case Nil
  then show ?case by auto
next
  case (Cons c cs)
  obtain d1 where d1: "mux_stamp e d = Inr d1" "out_only d d1" "bok (drv d1)"
    using stamp_ok [OF Cons.prems] by blast
  obtain r b where b: "wr (drv d1) [c] = Inr (r, b)" "bok b"
    using wr_ok [OF d1(3)] by blast
  define d2 where "d2 = d1\<lparr>drv := b, linestart := (if c = 10 then True else linestart d1)\<rparr>"
  have "out_only d1 d2" by (simp add: d2_def)
  obtain r' d' where d': "mux_write_loop e (n + r) d2 cs = Inr (r', d')" "out_only d2 d'" "bok (drv d')"
    using Cons.IH [of d2 "n + r"] b(2) by (auto simp: d2_def)
  have "out_only d d'"
    by (rule out_only_trans [OF d1(2) out_only_trans [OF \<open>out_only d1 d2\<close> d'(2)]])
  moreover have "mux_write_loop e n d (c # cs) = Inr (r', d')"
    using d1(1) b(1) d'(1) by (simp add: env_wr d2_def)
  ultimately show ?case using d'(3) by blast
qed

lemma write_ok: "bok (drv d) \<Longrightarrow> \<exists>r d'. mux_chr_write e d buf = Inr (r, d') \<and> out_only d d' \<and> bok (drv d')"
  using wr_ok [of "drv d" buf] write_loop_ok [of d 0 buf]
  by (cases "timestamps d") (auto simp: mux_chr_write_def env_wr)

lemma write_all_ok: "bok (drv d) \<Longrightarrow> \<exists>d'. mux_write_all e d bufs = Inr d' \<and> out_only d d' \<and> bok (drv d')"
proof (induction bufs arbitrary: d)
  case Nil
  then show ?case by auto
next
  case (Cons buf bufs)
  then obtain r d1 where d1: "mux_chr_write e d buf = Inr (r, d1)" "out_only d d1" "bok (drv d1)"
    using write_ok by blast
  with Cons.IH [of d1] out_only_trans show ?case by fastforce
qed

text \<open>Calls of a frontend through its slot.\<close>

lemma slot:
  assumes "ok d" and "k < mux_cnt d"
  shows "k < length (mhnd d)" and "k < length (ext_opaque d)" and "mhnd d ! k = ops"
    and "ext_opaque d ! k = Some (mobj d k)" and "mobj d k < length (heap d)" and "lok (heap d ! mobj d k)"
    and "k < length (mprod d)" and "k < length (mcons d)" and "k < length (mbuffer d)"
    and "cring_ok (mbuffer d ! k) (32 :: u32) (mprod d ! k) (mcons d ! k)"
  using assms by (auto simp: mux_ok_def mux_shape_def slots_ok_def rings_ok_def)

lemma event_ok:
  assumes "ok d" and "k < mux_cnt d" and "v \<noteq> CHR_EVENT_BREAK"
  shows "\<exists>d'. mux_chr_send_event d (int k) v = Inr d' \<and> ok d' \<and> calm recv d d' \<and> focus d' = focus d \<and>
    term_got_escape d' = term_got_escape d \<and> (\<exists>hp. d' = d\<lparr>heap := hp\<rparr> \<and> length hp = length (heap d))"
proof -
  note sl = slot [OF assms(1,2)]
  obtain y where y: "call_handler (Some ev) (Some (mobj d k)) v d = Inr (d\<lparr>heap := (heap d)[mobj d k := y]\<rparr>)"
      "lok y" "recv y = recv (heap d ! mobj d k)"
    using call_event [OF sl(5,6) assms(3)] by blast
  let ?d = "d\<lparr>heap := (heap d)[mobj d k := y]\<rparr>"
  have "mux_stream recv ?d j = mux_stream recv d j" if "j < mux_cnt d" for j
    using stream_heap [OF assms(1,2) that, of recv y] y(3) by (simp add: mux_stream_def)
  then have "calm recv d ?d" by (simp add: calm_def)
  moreover have "ok ?d" by (rule mux_ok_heap [OF assms(1) y(2)])
  ultimately show ?thesis
    using y(1) sl by (auto simp: mux_chr_send_event_def)
qed

lemma accepts_eq:
  assumes "ok d" and "m < mux_cnt d"
  shows "mux_accepts d (int m) = Inr (cr (heap d ! mobj d m) \<noteq> 0)"
  using slot [OF assms] by (simp add: mux_accepts_def deref_def)

lemma deliver_ok:
  assumes "ok d" and "m < mux_cnt d" and "cr (heap d ! mobj d m) \<noteq> 0"
  shows "\<exists>y. mux_deliver d (int m) c = Inr (d\<lparr>heap := (heap d)[mobj d m := y]\<rparr>) \<and> lok y \<and>
    recv y = recv (heap d ! mobj d m) @ [c]"
  using call_read [of "mobj d m" d c] slot [OF assms(1,2)] assms(3) by (auto simp: mux_deliver_def)

text \<open>A byte leaves the ring for the frontend.\<close>

lemma consume_ok:
  assumes "ok d" and "m < mux_cnt d" and ne: "mprod d ! m \<noteq> mcons d ! m" and "lok y"
    and y: "recv y = recv (heap d ! mobj d m) @ [mbuffer d ! m ! unat (mcons d ! m AND 31)]"
  defines "d1 \<equiv> d\<lparr>mcons := (mcons d)[m := mcons d ! m + 1], heap := (heap d)[mobj d m := y]\<rparr>"
  shows "ok d1 \<and> calm recv d d1 \<and> buffered d1 m < buffered d m"
proof -
  note sl = slot [OF assms(1,2)]
  note get = cring_get [OF sl(10) ne]
  let ?d = "d\<lparr>mcons := (mcons d)[m := mcons d ! m + 1]\<rparr>"
  have "cring_ok (mbuffer d ! k) (32 :: u32) (mprod d ! k) ((mcons d)[m := mcons d ! m + 1] ! k)" if "k < 4" for k
    using assms(1) get(2) that sl(8) by (cases "k = m") (auto simp: mux_ok_def rings_ok_def)
  then have ok1: "ok ?d"
    using assms(1) by (simp add: mux_ok_def mux_shape_def slots_ok_def rings_ok_def focus_ok_def mobj_def inj_on_def)
  have less: "buffered ?d m < buffered d m"
    using unat_diff_pred [OF ne] ne sl(8) by (simp add: buffered_def unat_gt_0)
  have d1: "d1 = ?d\<lparr>heap := (heap ?d)[mobj ?d m := y]\<rparr>"
    by (simp add: d1_def mobj_def)
  have "mux_stream recv d1 k = mux_stream recv d k \<and> buffered d1 k \<le> buffered d k" if k: "k < mux_cnt d" for k
  proof (cases "k = m")
    case True
    then show ?thesis
      using stream_heap [OF ok1, of m m recv y] assms(2) y get(3) less sl(8)
      by (simp add: d1 mux_stream_def mobj_def)
  next
    case False
    then show ?thesis
      using stream_heap [OF ok1, of m k recv y] assms(2) k
      by (simp add: d1 mux_stream_def mobj_def buffered_def)
  qed
  with less show ?thesis
    using mux_ok_heap [OF ok1 assms(4), of "mobj ?d m"] by (simp add: d1 calm_def)
qed

text \<open>A byte enters the ring.\<close>

lemma produce_ok:
  fixes d :: "('o, 'b) mux" and c :: u8
  assumes "ok d" and "m < mux_cnt d" and room: "buffered d m < 32"
  defines "d1 \<equiv> d\<lparr>mbuffer := (mbuffer d)[m := (mbuffer d ! m)[unat (mprod d ! m AND 31) := c]],
      mprod := (mprod d)[m := mprod d ! m + 1]\<rparr>"
  shows "ok d1 \<and> gives recv m [c] d d1"
proof -
  note sl = slot [OF assms(1,2)]
  have "unat (mprod d ! m - mcons d ! m) < unat (32 :: u32)"
    using room by (simp add: buffered_def)
  note put = cring_put [OF sl(10) this]
  have "cring_ok (mbuffer d1 ! k) (32 :: u32) (mprod d1 ! k) (mcons d1 ! k)" if "k < 4" for k
    using assms(1) put(2) that sl(7,9) by (cases "k = m") (auto simp: d1_def mux_ok_def rings_ok_def)
  then have "ok d1"
    using assms(1)
    by (simp add: d1_def mux_ok_def mux_shape_def slots_ok_def rings_ok_def focus_ok_def mobj_def inj_on_def)
  moreover have "buffered d1 m = Suc (buffered d m)"
    using unat_Suc_diff [of "mprod d ! m" "mcons d ! m"] room sl(7) by (simp add: d1_def buffered_def)
  moreover have "mux_stream recv d1 m = mux_stream recv d m @ [c]"
    using put(3) sl(7,9) by (simp add: d1_def mux_stream_def mobj_def)
  moreover have "mux_stream recv d1 k = mux_stream recv d k" "buffered d1 k = buffered d k" if "k \<noteq> m" for k
    using that by (simp_all add: d1_def mux_stream_def mobj_def buffered_def)
  moreover have "mux_cnt d1 = mux_cnt d" "exited d1 = exited d"
    by (simp_all add: d1_def)
  ultimately show ?thesis by (simp add: gives_def)
qed

text \<open>A byte goes straight to the frontend, past an empty ring.\<close>

lemma direct_ok:
  assumes "ok d" and "m < mux_cnt d" and "mprod d ! m = mcons d ! m" and "lok y"
    and "recv y = recv (heap d ! mobj d m) @ [c]"
  shows "ok (d\<lparr>heap := (heap d)[mobj d m := y]\<rparr>) \<and> gives recv m [c] d (d\<lparr>heap := (heap d)[mobj d m := y]\<rparr>)"
proof -
  have "mux_stream recv (d\<lparr>heap := (heap d)[mobj d m := y]\<rparr>) k =
      mux_stream recv d k @ (if k = m then [c] else [])" if "k < mux_cnt d" for k
    using stream_heap [OF assms(1,2) that, of recv y] assms(3,5) by (simp add: mux_stream_def)
  then show ?thesis
    using mux_ok_heap [OF assms(1,4)] by (simp add: gives_def)
qed

lemma accept_loop_ok:
  "ok d \<Longrightarrow> m < mux_cnt d \<Longrightarrow>
     \<exists>d'. accept_loop (int m) d = Inr d' \<and> ok d' \<and> calm recv d d' \<and> focus d' = focus d \<and>
       term_got_escape d' = term_got_escape d \<and>
       (buffered d' m = 0 \<or> cr (heap d' ! mobj d' m) = 0) \<and>
       (buffered d m = 0 \<or> cr (heap d ! mobj d m) = 0 \<or> buffered d' m < buffered d m)"
proof (induction "buffered d m" arbitrary: d rule: less_induct)
  case less
  note sl = slot [OF less.prems]
  let ?co = "mcons d ! m" and ?x = "heap d ! mobj d m"
  have empty: "mprod d ! m = ?co \<longleftrightarrow> buffered d m = 0"
    by (simp add: buffered_def unat_eq_0)
  show ?case
  proof (cases "mprod d ! m = ?co \<or> cr ?x = 0")
    case True
    then show ?thesis
      using less.prems sl accepts_eq [OF less.prems] empty
      by (subst accept_loop.simps) auto
  next
    case False
    define d0 where "d0 = d\<lparr>mcons := (mcons d)[m := ?co + 1]\<rparr>"
    define c where "c = mbuffer d ! m ! unat (?co AND 31)"
    have get: "unat (?co AND 31) < length (mbuffer d ! m)"
      using cring_get(1) [OF sl(10)] False by simp
    obtain y where y: "mux_deliver d0 (int m) c = Inr (d0\<lparr>heap := (heap d)[mobj d m := y]\<rparr>)" "lok y" "recv y = recv ?x @ [c]"
      using call_read [of "mobj d m" d0 c] sl(1-6) False by (auto simp: mux_deliver_def d0_def)
    define d1 where "d1 = d\<lparr>mcons := (mcons d)[m := ?co + 1], heap := (heap d)[mobj d m := y]\<rparr>"
    have d1: "ok d1" "calm recv d d1" "buffered d1 m < buffered d m"
      using consume_ok [OF less.prems _ y(2)] y(3) False by (simp_all add: d1_def c_def)
    have cnt: "m < mux_cnt d1" using less.prems(2) by (simp add: d1_def)
    have "accept_loop (int m) d = accept_loop (int m) d1"
      using less.prems sl accepts_eq [OF less.prems] False get y(1)
      by (subst accept_loop.simps) (simp add: d0_def d1_def c_def)
    moreover obtain d' where d': "accept_loop (int m) d1 = Inr d'" "ok d'" "calm recv d1 d'" "focus d' = focus d1"
        "term_got_escape d' = term_got_escape d1" "buffered d' m = 0 \<or> cr (heap d' ! mobj d' m) = 0"
      using less.hyps [OF d1(3,1) cnt] by blast
    moreover have "focus d1 = focus d" "term_got_escape d1 = term_got_escape d"
      by (simp_all add: d1_def)
    moreover have "buffered d' m < buffered d m"
      using d'(3) d1(3) cnt unfolding calm_def by fastforce
    ultimately show ?thesis
      using calm_trans [OF d1(2) d'(3)] by auto
  qed
qed

text \<open>A character that is passed on.\<close>

lemma take_ok:
  assumes "ok d" and "m < mux_cnt d" and "buffered d m < 32"
  shows "\<exists>d'. mux_take d (int m) c = Inr d' \<and> ok d' \<and> gives recv m [c] d d' \<and> focus d' = focus d \<and>
    term_got_escape d' = term_got_escape d"
proof -
  note sl = slot [OF assms(1,2)]
  show ?thesis
  proof (cases "mprod d ! m = mcons d ! m \<and> cr (heap d ! mobj d m) \<noteq> 0")
    case True
    then obtain y where y: "mux_deliver d (int m) c = Inr (d\<lparr>heap := (heap d)[mobj d m := y]\<rparr>)" "lok y"
        "recv y = recv (heap d ! mobj d m) @ [c]"
      using deliver_ok [OF assms(1,2)] by blast
    with True sl direct_ok [OF assms(1,2) _ y(2,3)] show ?thesis
      by (simp add: mux_take_def accepts_eq [OF assms(1,2)])
  next
    case False
    have "unat (mprod d ! m - mcons d ! m) < unat (32 :: u32)"
      using assms(3) by (simp add: buffered_def)
    from cring_put(1) [OF sl(10) this] have "unat (mprod d ! m AND 31) < length (mbuffer d ! m)"
      by simp
    with False sl produce_ok [OF assms, of c] show ?thesis
      by (auto simp: mux_take_def accepts_eq [OF assms(1,2)])
  qed
qed

end

section \<open>What the escape sequences mean\<close>

text \<open>
  The reading of an input: characters that are passed on and commands. \<open>ge\<close> says that an escape
  character has been read and its command is awaited.
\<close>

datatype mux_item =
    Pass u8
  | Command u8

fun mux_parse :: "int \<Rightarrow> bool \<Rightarrow> u8 list \<Rightarrow> mux_item list \<times> bool" where
  "mux_parse esc ge [] = ([], ge)"
| "mux_parse esc ge (c # cs) =
     (if ge then
        (case mux_parse esc False cs of (items, ge') \<Rightarrow> ((if uint c = esc then Pass c else Command c) # items, ge'))
      else if uint c = esc then mux_parse esc True cs
      else (case mux_parse esc False cs of (items, ge') \<Rightarrow> (Pass c # items, ge')))"

fun payload :: "mux_item list \<Rightarrow> u8 list" where
  "payload [] = []"
| "payload (Pass c # items) = c # payload items"
| "payload (Command c # items) = payload items"

text \<open>The commands \<open>c\<close>, \<open>x\<close> and \<open>b\<close> of the code.\<close>

fun switches :: "mux_item list \<Rightarrow> nat" where
  "switches [] = 0"
| "switches (Pass c # items) = switches items"
| "switches (Command c # items) = (if c = 99 then Suc (switches items) else switches items)"

fun quiet_items :: "mux_item list \<Rightarrow> bool" where
  "quiet_items [] = True"
| "quiet_items (Pass c # items) = quiet_items items"
| "quiet_items (Command c # items) = (c \<noteq> 120 \<and> c \<noteq> 98 \<and> quiet_items items)"

lemma command_codes [simp]:
  "(of_char CHR ''?'' :: u8) = 63" "(of_char CHR ''h'' :: u8) = 104" "(of_char CHR ''x'' :: u8) = 120"
  "(of_char CHR ''s'' :: u8) = 115" "(of_char CHR ''b'' :: u8) = 98" "(of_char CHR ''c'' :: u8) = 99"
  "(of_char CHR ''t'' :: u8) = 116"
  by (simp_all add: of_char_def)

lemma proc_pass:
  "term_got_escape d = (uint c = env_escape e) \<Longrightarrow> mux_proc_byte e d c = Inr (True, d\<lparr>term_got_escape := False\<rparr>)"
  by (auto simp: mux_proc_byte_def)

lemma proc_escape:
  "\<not> term_got_escape d \<Longrightarrow> uint c = env_escape e \<Longrightarrow> mux_proc_byte e d c = Inr (False, d\<lparr>term_got_escape := True\<rparr>)"
  by (simp add: mux_proc_byte_def)

lemma escape_flag [simp]:
  "mux_stream recv (d\<lparr>term_got_escape := l\<rparr>) k = mux_stream recv d k"
  "buffered (d\<lparr>term_got_escape := l\<rparr>) k = buffered d k"
  "calm recv d (d\<lparr>term_got_escape := l\<rparr>)"
  by (simp_all add: mux_stream_def mobj_def buffered_def calm_def)

context mux_sys begin

lemma switch_ok:
  assumes "ok d" and "0 < mux_cnt d"
  shows "\<exists>d'. mux_switch d = Inr d' \<and> ok d' \<and> calm recv d d' \<and> focus d' = (focus d + 1) mod int (mux_cnt d) \<and>
    term_got_escape d' = term_got_escape d"
proof -
  have f: "0 \<le> focus d" "focus d < int (mux_cnt d)"
    using assms by (simp_all add: mux_ok_def focus_ok_def)
  then have m: "int (nat (focus d)) = focus d" "nat (focus d) < mux_cnt d" by simp_all
  obtain d1 where d1: "mux_chr_send_event d (focus d) CHR_EVENT_MUX_OUT = Inr d1" "ok d1" "calm recv d d1"
      "focus d1 = focus d" "term_got_escape d1 = term_got_escape d"
    using event_ok [OF assms(1) m(2), of CHR_EVENT_MUX_OUT] m(1) by auto
  have cnt: "mux_cnt d1 = mux_cnt d" using d1(3) by (simp add: calm_def)
  define n where "n = (if focus d + 1 \<ge> int (mux_cnt d) then 0 else focus d + 1)"
  have n: "n = (focus d + 1) mod int (mux_cnt d)" "0 \<le> n" "n < int (mux_cnt d)"
  proof -
    show "n = (focus d + 1) mod int (mux_cnt d)"
      using f by (cases "focus d + 1 = int (mux_cnt d)") (simp_all add: n_def mod_pos_pos_trivial)
  qed (use f assms(2) in \<open>auto simp: n_def\<close>)
  define d2 where "d2 = d1\<lparr>focus := n\<rparr>"
  have d2: "ok d2" "calm recv d1 d2"
    using mux_ok_focus [OF d1(2), of n] n(2,3) cnt
    by (simp_all add: d2_def calm_def mux_stream_def buffered_def mobj_def)
  have "nat n < mux_cnt d2" using n(2,3) cnt by (simp add: d2_def nat_less_iff)
  then obtain d3 where d3: "mux_chr_send_event d2 n CHR_EVENT_MUX_IN = Inr d3" "ok d3" "calm recv d2 d3"
      "focus d3 = n" "term_got_escape d3 = term_got_escape d"
    using event_ok [OF d2(1), of "nat n" CHR_EVENT_MUX_IN] n(2) d1(5) by (auto simp: d2_def)
  have "mux_switch d = Inr d3"
    using d1(1,4) d3(1) cnt by (auto simp: mux_switch_def Let_def d2_def n_def)
  with d3 n(1) calm_trans [OF d1(3) calm_trans [OF d2(2) d3(3)]] show ?thesis by auto
qed

lemma command_ok:
  assumes "ok d" and "0 < mux_cnt d" and "term_got_escape d" and "uint c \<noteq> env_escape e" and "c \<noteq> 120" and "c \<noteq> 98"
  shows "\<exists>d'. mux_proc_byte e d c = Inr (False, d') \<and> ok d' \<and> calm recv d d' \<and>
    focus d' = (if c = 99 then (focus d + 1) mod int (mux_cnt d) else focus d) \<and> \<not> term_got_escape d'"
proof -
  define d0 where "d0 = d\<lparr>term_got_escape := False\<rparr>"
  have d0: "ok d0" "calm recv d d0" "0 < mux_cnt d0" "focus d0 = focus d" "mux_cnt d0 = mux_cnt d" "\<not> term_got_escape d0"
    using assms(1,2) by (simp_all add: d0_def)
  have bok: "bok (drv d0)" using d0(1) by (simp add: mux_ok_def)
  consider "c = 63 \<or> c = 104" | "c = 99" | "c \<noteq> 63" "c \<noteq> 104" "c \<noteq> 99" by blast
  then show ?thesis
  proof cases
    case 1
    obtain d' where d': "mux_print_help e d0 = Inr d'" "out_only d0 d'" "bok (drv d')"
      using write_all_ok [OF bok] by (auto simp: mux_print_help_def)
    with 1 assms out_only_ok [OF d'(2) d0(1) d'(3)] out_only_calm [OF d'(2), of recv] d0
      calm_trans [OF d0(2), of d']
    show ?thesis by (auto simp: mux_proc_byte_def d0_def [symmetric])
  next
    case 2
    obtain d' where d': "mux_switch d0 = Inr d'" "ok d'" "calm recv d0 d'"
        "focus d' = (focus d + 1) mod int (mux_cnt d)" "\<not> term_got_escape d'"
      using switch_ok [OF d0(1,3)] d0(4-6) by auto
    with 2 assms calm_trans [OF d0(2) d'(3)] show ?thesis
      by (auto simp: mux_proc_byte_def d0_def [symmetric])
  next
    case 3
    define s where "s = d0\<lparr>commits := commits d0 + 1\<rparr>"
    define t where "t = d0\<lparr>timestamps := \<not> timestamps d0, timestamps_start := - 1, linestart := False\<rparr>"
    have "ok s" "calm recv d s" "ok t" "calm recv d t"
      using d0(1,2) by (simp_all add: s_def t_def calm_def mux_stream_def mobj_def buffered_def)
    moreover have "mux_proc_byte e d c = Inr (False, if c = 115 then s else if c = 116 then t else d0)"
      using 3 assms by (simp add: mux_proc_byte_def d0_def s_def t_def)
    ultimately show ?thesis
      using 3 d0 by (auto simp: s_def t_def)
  qed
qed

lemma read_loop_ok:
  "ok d \<Longrightarrow> m < mux_cnt d \<Longrightarrow> \<not> exited d \<Longrightarrow> mux_parse (env_escape e) (term_got_escape d) bs = (items, ge) \<Longrightarrow>
     quiet_items items \<Longrightarrow> buffered d m + length (payload items) \<le> 32 \<Longrightarrow>
     \<exists>d'. mux_read_loop e (int m) d bs = Inr d' \<and> ok d' \<and> gives recv m (payload items) d d' \<and>
       focus d' = (focus d + int (switches items)) mod int (mux_cnt d) \<and> term_got_escape d' = ge"
proof (induction bs arbitrary: d items)
  case Nil
  moreover have "focus d = focus d mod int (mux_cnt d)"
    using Nil.prems(1,2) by (simp add: mux_ok_def focus_ok_def split: if_splits)
  ultimately show ?case by (auto simp: gives_def)
next
  case (Cons c cs)
  let ?esc = "uint c = env_escape e" and ?n = "int (mux_cnt d)"
  consider (pass) "term_got_escape d = ?esc" | (escape) "\<not> term_got_escape d" "?esc" | (command) "term_got_escape d" "\<not> ?esc"
    by blast
  then show ?case
  proof cases
    case pass
    define d0 where "d0 = d\<lparr>term_got_escape := False\<rparr>"
    obtain items' where items: "items = Pass c # items'" "mux_parse (env_escape e) False cs = (items', ge)"
      using Cons.prems(4) pass by (auto split: if_splits prod.splits)
    have d0: "ok d0" "m < mux_cnt d0" "buffered d0 m < 32" "gives recv m [] d d0" "\<not> exited d0"
      using Cons.prems(1,2,3,6) items(1) calm_gives [OF escape_flag(3)] by (simp_all add: d0_def)
    obtain d1 where d1: "mux_take d0 (int m) c = Inr d1" "ok d1" "gives recv m [c] d0 d1" "focus d1 = focus d"
        "\<not> term_got_escape d1"
      using take_ok [OF d0(1-3), of c] by (auto simp: d0_def)
    have g: "gives recv m [c] d d1" using gives_trans [OF d0(4) d1(3)] by simp
    have d1': "m < mux_cnt d1" "\<not> exited d1" "mux_cnt d1 = mux_cnt d" "buffered d1 m \<le> buffered d m + 1"
      using g Cons.prems(2,3) by (auto simp: gives_def)
    obtain d' where "mux_read_loop e (int m) d1 cs = Inr d'" "ok d'" "gives recv m (payload items') d1 d'"
        "focus d' = (focus d + int (switches items')) mod ?n" "term_got_escape d' = ge"
      using Cons.IH [OF d1(2) d1'(1,2), of items'] items Cons.prems(5,6) d1(4,5) d1'(3,4) by auto
    with gives_trans [OF g, of "payload items'" d'] show ?thesis
      using proc_pass [OF pass] d1(1) d0(5) items(1) by (auto simp: d0_def)
  next
    case escape
    define d0 where "d0 = d\<lparr>term_got_escape := True\<rparr>"
    have d0: "ok d0" "m < mux_cnt d0" "\<not> exited d0" "calm recv d d0"
        "mux_parse (env_escape e) (term_got_escape d0) cs = (items, ge)" "buffered d0 m = buffered d m"
        "focus d0 = focus d" "mux_cnt d0 = mux_cnt d"
      using Cons.prems(1-4) escape by (simp_all add: d0_def)
    obtain d' where "mux_read_loop e (int m) d0 cs = Inr d'" "ok d'" "gives recv m (payload items) d0 d'"
        "focus d' = (focus d + int (switches items)) mod ?n" "term_got_escape d' = ge"
      using Cons.IH [OF d0(1-3,5)] Cons.prems(5,6) d0(6-8) by auto
    with gives_trans [OF calm_gives [OF d0(4), of m], of "payload items" d'] show ?thesis
      using proc_escape [OF escape] d0(3) by (auto simp: d0_def)
  next
    case command
    obtain items' where items: "items = Command c # items'" "mux_parse (env_escape e) False cs = (items', ge)"
      using Cons.prems(4) command by (auto split: prod.splits)
    have pos: "0 < mux_cnt d" using Cons.prems(2) by simp
    obtain d1 where d1: "mux_proc_byte e d c = Inr (False, d1)" "ok d1" "calm recv d d1" "\<not> term_got_escape d1"
        "focus d1 = (if c = 99 then (focus d + 1) mod ?n else focus d)"
      using command_ok [OF Cons.prems(1) pos command] Cons.prems(5) items(1) by auto
    have d1': "m < mux_cnt d1" "\<not> exited d1" "mux_cnt d1 = mux_cnt d" "buffered d1 m \<le> buffered d m"
      using d1(3) Cons.prems(2,3) by (auto simp: calm_def)
    obtain d' where d': "mux_read_loop e (int m) d1 cs = Inr d'" "ok d'" "gives recv m (payload items') d1 d'"
        "focus d' = (focus d1 + int (switches items')) mod ?n" "term_got_escape d' = ge"
      using Cons.IH [OF d1(2) d1'(1,2), of items'] items Cons.prems(5,6) d1(4) d1'(3,4) by auto
    have "focus d' = (focus d + int (switches items)) mod ?n"
      using d'(4) d1(5) items(1) by (auto simp: mod_simps ac_simps)
    with d' gives_trans [OF calm_gives [OF d1(3), of m] d'(3)] show ?thesis
      using d1(1) d1'(2) items(1) by auto
  qed
qed

text \<open>A whole call: what waits is offered first, then the input is read.\<close>

lemma chr_read_ok:
  assumes "ok d" and m: "focus d = int m" and "m < mux_cnt d" and "\<not> exited d"
    and parse: "mux_parse (env_escape e) (term_got_escape d) bs = (items, ge)" and "quiet_items items"
    and room: "buffered d m + length (payload items) \<le> 32 \<or>
       0 < buffered d m \<and> cr (heap d ! mobj d m) \<noteq> 0 \<and> buffered d m + length (payload items) \<le> 33"
  shows "\<exists>d'. mux_chr_read e d bs = Inr d' \<and> ok d' \<and> gives recv m (payload items) d d' \<and>
    focus d' = (focus d + int (switches items)) mod int (mux_cnt d) \<and> term_got_escape d' = ge"
proof -
  obtain d1 where d1: "accept_loop (int m) d = Inr d1" "ok d1" "calm recv d d1" "focus d1 = focus d"
      "term_got_escape d1 = term_got_escape d"
      "buffered d m = 0 \<or> cr (heap d ! mobj d m) = 0 \<or> buffered d1 m < buffered d m"
    using accept_loop_ok [OF assms(1,3)] by blast
  have d1': "m < mux_cnt d1" "\<not> exited d1" "mux_cnt d1 = mux_cnt d" "buffered d1 m \<le> buffered d m"
    using d1(3) assms(3,4) by (auto simp: calm_def)
  have "buffered d1 m + length (payload items) \<le> 32"
    using room d1(6) d1'(4) by auto
  then obtain d' where "mux_read_loop e (int m) d1 bs = Inr d'" "ok d'" "gives recv m (payload items) d1 d'"
      "focus d' = (focus d + int (switches items)) mod int (mux_cnt d)" "term_got_escape d' = ge"
    using read_loop_ok [OF d1(2) d1'(1,2), of bs items ge] parse assms(6) d1(4,5) d1'(3) by auto
  with gives_trans [OF calm_gives [OF d1(3), of m], of "payload items" d'] show ?thesis
    using d1(1) m by (auto simp: mux_chr_read_def mux_chr_accept_input_def)
qed

text \<open>Flow control, as the backend sees it.\<close>

lemma can_read_eq:
  assumes "ok d" and m: "focus d = int m" and "m < mux_cnt d"
  shows "mux_chr_can_read d = Inr (if buffered d m < 32 then 1 else cr (heap d ! mobj d m)) \<and> buffered d m \<le> 32"
proof -
  note sl = slot [OF assms(1,3)]
  define w where "w = mprod d ! m - mcons d ! m"
  have b: "buffered d m = unat w" by (simp add: buffered_def w_def)
  have le: "unat w \<le> 32" using sl(10) by (simp add: cring_ok_def w_def)
  have "unat w < 2 ^ (LENGTH(32) - 1)" using le by simp
  then have "sint w = int (unat w)" by (rule sint_eq_unat)
  then have "(sint w < 32) = (unat w < 32)" by linarith
  with sl m b le show ?thesis
    by (simp add: mux_chr_can_read_def Let_def w_def [symmetric] deref_def)
qed

text \<open>Attaching one more frontend, while there is room for it and when there is not.\<close>

lemma attach_ok:
  assumes "ok d" and cnt: "mux_cnt d < 4" and p: "p < length (heap d)" "p \<notin> mobj d ` {..<mux_cnt d}"
  shows "\<exists>d'. mux_add_handlers d ops (Some p) = Inr d' \<and> ok d' \<and> mux_cnt d' = Suc (mux_cnt d) \<and>
    focus d' = int (mux_cnt d) \<and> mobj d' (mux_cnt d) = p \<and> (\<forall>k<mux_cnt d. stream d' k = stream d k)"
proof -
  let ?n = "mux_cnt d"
  have slots: "slots_ok ops d" using assms(1) by (simp add: mux_ok_def)
  define d1 where "d1 = d\<lparr>hnd := ops, handler_opaque := Some p, ext_opaque := (ext_opaque d)[?n := Some p],
      mhnd := (mhnd d)[?n := ops], drv_hooked := (if ?n = 0 then True else drv_hooked d),
      drv_open_timer := (if ?n = 0 then drv_opened d \<or> drv_open_timer d else drv_open_timer d)\<rparr>"
  have old: "mobj d1 k = mobj d k" if "k < ?n" for k
    using that by (simp add: d1_def mobj_def)
  have "inj_on (mobj d1) {..<?n} = inj_on (mobj d) {..<?n}"
    by (rule inj_on_cong) (simp add: old)
  then have ok1: "ok d1"
    using assms(1) old by (auto simp: d1_def mux_ok_def mux_shape_def slots_ok_def rings_ok_def focus_ok_def)
  have calm1: "calm recv d d1"
    using old by (simp add: calm_def mux_stream_def d1_def buffered_def)
  have "\<exists>d2. (if focus d1 \<noteq> - 1 then mux_chr_send_event d1 (focus d1) CHR_EVENT_MUX_OUT else Inr d1) = Inr d2 \<and>
      ok d2 \<and> calm recv d1 d2 \<and> (\<exists>hp. d2 = d1\<lparr>heap := hp\<rparr> \<and> length hp = length (heap d1))"
  proof (cases "focus d1 = - 1")
    case True
    have "d1 = d1\<lparr>heap := heap d1\<rparr>" by simp
    with True ok1 show ?thesis by (metis calm_refl)
  next
    case False
    then have "focus d1 = int (nat (focus d1))" "nat (focus d1) < mux_cnt d1"
      using ok1 by (auto simp: mux_ok_def focus_ok_def split: if_splits)
    with False event_ok [OF ok1, of "nat (focus d1)" CHR_EVENT_MUX_OUT] show ?thesis by auto
  qed
  then obtain d2 hp where d2: "(if focus d1 \<noteq> - 1 then mux_chr_send_event d1 (focus d1) CHR_EVENT_MUX_OUT else Inr d1) = Inr d2"
      "ok d2" "calm recv d1 d2" "d2 = d1\<lparr>heap := hp\<rparr>" "length hp = length (heap d)"
    by (auto simp: d1_def)
  define d3 where "d3 = d2\<lparr>focus := int ?n, mux_cnt := Suc ?n\<rparr>"
  have len: "length (mhnd d) = 4" "length (ext_opaque d) = 4"
    using assms(1) by (simp_all add: mux_ok_def mux_shape_def)
  have d3: "mhnd d3 = (mhnd d)[?n := ops]" "ext_opaque d3 = (ext_opaque d)[?n := Some p]" "heap d3 = hp"
      "mux_cnt d3 = Suc ?n" "focus d3 = int ?n"
    by (simp_all add: d3_def d2(4) d1_def)
  have new: "mobj d3 ?n = p"
    using cnt len by (simp add: mobj_def d3)
  have old3: "mobj d3 k = mobj d k" if "k < ?n" for k
    using that by (simp add: mobj_def d3)
  have "inj_on (mobj d3) {..<?n} = inj_on (mobj d) {..<?n}"
    by (rule inj_on_cong) (simp add: old3)
  moreover have "mobj d3 ` {..<?n} = mobj d ` {..<?n}"
    by (rule image_cong) (simp_all add: old3)
  ultimately have "inj_on (mobj d3) {..<Suc ?n}"
    using slots p(2) new by (simp add: lessThan_Suc slots_ok_def)
  moreover have "mhnd d3 ! k = ops \<and> ext_opaque d3 ! k = Some (mobj d3 k) \<and> mobj d3 k < length (heap d3)"
    if "k < Suc ?n" for k
    using that slots p(1) d2(5) cnt len new old3 by (cases "k = ?n") (auto simp: d3 slots_ok_def)
  ultimately have "slots_ok ops d3"
    by (simp add: slots_ok_def d3(4))
  then have ok3: "ok d3"
    using d2(2) cnt by (simp add: mux_ok_def d3_def mux_shape_def rings_ok_def focus_ok_def d2(4) d1_def)
  have calm3: "stream d3 k = stream d k" if "k < ?n" for k
    using that calm_trans [OF calm1 d2(3)] by (simp add: calm_def d3_def mux_stream_def mobj_def)
  obtain d4 hp' where d4: "mux_chr_send_event d3 (int ?n) CHR_EVENT_MUX_IN = Inr d4" "ok d4" "calm recv d3 d4"
      "d4 = d3\<lparr>heap := hp'\<rparr>"
    using event_ok [OF ok3, of ?n CHR_EVENT_MUX_IN] d3(4) by auto
  define d5 where "d5 = (if opened d4 then qemu_chr_generic_open d4 else d4)"
  have "mux_chr_update_read_handler (d\<lparr>hnd := ops, handler_opaque := Some p\<rparr>) =
      rbind (if focus d1 \<noteq> - 1 then mux_chr_send_event d1 (focus d1) CHR_EVENT_MUX_OUT else Inr d1) (\<lambda>d.
        mux_chr_send_event (d\<lparr>focus := int (mux_cnt d), mux_cnt := mux_cnt d + 1\<rparr>) (int (mux_cnt d)) CHR_EVENT_MUX_IN)"
    using cnt len by (cases "?n = 0") (simp_all add: mux_chr_update_read_handler_def d1_def Let_def)
  also have "\<dots> = Inr d4"
  proof -
    have "mux_cnt d2 = ?n" by (simp add: d2(4) d1_def)
    then show ?thesis
      using d4(1) by (simp only: d2(1) rbind_Inr) (simp add: d3_def)
  qed
  finally have "mux_add_handlers d ops (Some p) = Inr d5"
    by (simp add: mux_add_handlers_def qemu_chr_add_handlers_def d5_def Let_def)
  moreover have "ok d5" "mux_cnt d5 = Suc ?n" "focus d5 = int ?n" "mobj d5 ?n = p"
    using d4(2) new by (simp_all add: d5_def qemu_chr_generic_open_def d4(4) d3 mobj_def)
  moreover have "stream d5 k = stream d k" if "k < ?n" for k
  proof -
    have "stream d5 k = stream d4 k"
      by (simp add: d5_def qemu_chr_generic_open_def mux_stream_def mobj_def)
    then show ?thesis using calm3 [OF that] d4(3) that by (simp add: calm_def d3(4))
  qed
  ultimately show ?thesis by blast
qed

lemma attach_full:
  assumes "ok d" and "mux_cnt d = 4"
  shows "\<exists>d'. mux_add_handlers d h (Some p) = Inr d' \<and> ok d' \<and> mux_cnt d' = 4 \<and> focus d' = focus d \<and>
    mhnd d' = mhnd d \<and> ext_opaque d' = ext_opaque d \<and> (\<forall>k<4. stream d' k = stream d k) \<and> hnd d' = h \<and>
    handler_opaque d' = Some p"
  using assms
  by (simp add: mux_add_handlers_def qemu_chr_add_handlers_def mux_chr_update_read_handler_def Let_def
      qemu_chr_generic_open_def mux_stream_def mobj_def)

end

end
