(* ===== verification/Chardev_Ring.thy ===== *)
theory Chardev_Ring
  imports Counter_Ring
begin

text \<open>
  The two in-memory backends of \<open>qemu-char.c\<close> (the three copies of the file under
  \<open>src/backup\<close> agree on them): the ring buffer (\<open>RingBufCharDriver\<close>,
  \<open>ringbuf_*\<close>) with its monitor commands (\<open>qmp_ringbuf_write\<close>,
  \<open>qmp_ringbuf_read\<close>), and the memory driver (\<open>MemoryDriver\<close>,
  \<open>mem_chr_write\<close>). \<open>size_t\<close> is 64 bits wide. The properties: a write keeps
  exactly the newest bytes that fit, a read removes the oldest, and the memory driver holds the
  concatenation of everything written.
\<close>

section \<open>The ring buffer\<close>

record ringbuf =
  rb_size :: u64
  rb_prod :: u64
  rb_cons :: u64
  cbuf :: "u8 list"

definition ringbuf_count :: "ringbuf \<Rightarrow> u64" where
  "ringbuf_count d = rb_prod d - rb_cons d"

text \<open>One iteration of the loop of \<open>ringbuf_chr_write\<close>, and the loop.\<close>

definition rb_push :: "ringbuf \<Rightarrow> u8 \<Rightarrow> ringbuf res" where
  "rb_push d x =
     rbind (arr_set (cbuf d) (unat (rb_prod d AND (rb_size d - 1))) x) (\<lambda>c.
     (let d = d\<lparr>cbuf := c, rb_prod := rb_prod d + 1\<rparr>
      in Inr (if rb_prod d - rb_cons d > rb_size d then d\<lparr>rb_cons := rb_prod d - rb_size d\<rparr> else d)))"

fun rb_push_loop :: "ringbuf \<Rightarrow> u8 list \<Rightarrow> nat \<Rightarrow> nat \<Rightarrow> ringbuf res" where
  "rb_push_loop d buf i 0 = Inr d"
| "rb_push_loop d buf i (Suc n) =
     rbind (arr_get buf i) (\<lambda>x. rbind (rb_push d x) (\<lambda>d. rb_push_loop d buf (Suc i) n))"

definition ringbuf_chr_write :: "ringbuf \<Rightarrow> u8 list option \<Rightarrow> int \<Rightarrow> (int \<times> ringbuf) res" where
  "ringbuf_chr_write d buf len =
     (case buf of
        None \<Rightarrow> Inr (- 1, d)
      | Some bytes \<Rightarrow>
          if len < 0 then Inr (- 1, d)
          else rbind (rb_push_loop d bytes 0 (nat len)) (\<lambda>d. Inr (0, d)))"

text \<open>
  \<open>for (i = 0; i < len && d->cons != d->prod; i++) buf[i] = ...\<close>, with \<open>n\<close> the
  iterations that \<open>len\<close> leaves.
\<close>

fun rb_pop_loop :: "ringbuf \<Rightarrow> u8 list \<Rightarrow> nat \<Rightarrow> nat \<Rightarrow> (nat \<times> u8 list \<times> ringbuf) res" where
  "rb_pop_loop d dest i 0 = Inr (i, dest, d)"
| "rb_pop_loop d dest i (Suc n) =
     (if rb_cons d = rb_prod d then Inr (i, dest, d)
      else
        rbind (arr_get (cbuf d) (unat (rb_cons d AND (rb_size d - 1)))) (\<lambda>x.
        rbind (arr_set dest i x) (\<lambda>dest.
        rb_pop_loop (d\<lparr>rb_cons := rb_cons d + 1\<rparr>) dest (Suc i) n)))"

definition ringbuf_chr_read :: "ringbuf \<Rightarrow> u8 list \<Rightarrow> int \<Rightarrow> (int \<times> u8 list \<times> ringbuf) res" where
  "ringbuf_chr_read d dest len =
     rbind (rb_pop_loop d dest 0 (nat len)) (\<lambda>(i, dest, d). Inr (int i, dest, d))"

text \<open>
  \<open>qemu_chr_open_ringbuf\<close>; the argument is the value of the \<open>size\<close> option, 0 when
  it is absent. The allocator of the code does not return on failure.
\<close>

definition qemu_chr_open_ringbuf :: "u64 \<Rightarrow> ringbuf option" where
  "qemu_chr_open_ringbuf opt =
     (let size = (if opt = 0 then 65536 else opt)
      in if size AND (size - 1) \<noteq> 0 then None
         else Some \<lparr>rb_size = size, rb_prod = 0, rb_cons = 0, cbuf = replicate (unat size) 0\<rparr>)"

section \<open>The memory driver\<close>

record memory_driver =
  outbuf_size :: u64
  outbuf_capacity :: u64
  outbuf :: "u8 list"

definition qemu_chr_init_mem :: memory_driver where
  "qemu_chr_init_mem = \<lparr>outbuf_size = 0, outbuf_capacity = 4096, outbuf = replicate 4096 0\<rparr>"

text \<open>
  \<open>g_realloc\<close> keeps the old bytes; what it adds is not initialised (\<open>junk\<close>).
  \<open>memcpy\<close> is checked against the allocation.
\<close>

definition realloc :: "(nat \<Rightarrow> u8) \<Rightarrow> u8 list \<Rightarrow> nat \<Rightarrow> u8 list" where
  "realloc junk xs n = take n xs @ map junk [length xs..<n]"

definition mem_copy :: "u8 list \<Rightarrow> nat \<Rightarrow> u8 list \<Rightarrow> u8 list res" where
  "mem_copy dest off bytes =
     (if off + length bytes \<le> length dest
      then Inr (take off dest @ bytes @ drop (off + length bytes) dest)
      else Inl OutOfBounds)"

text \<open>\<open>len\<close> is the length of the buffer that is passed, an \<open>int\<close> of the code.\<close>

definition mem_chr_write :: "(nat \<Rightarrow> u8) \<Rightarrow> memory_driver \<Rightarrow> u8 list \<Rightarrow> (int \<times> memory_driver) res" where
  "mem_chr_write junk d buf =
     (let len = of_nat (length buf);
          d = (if outbuf_capacity d < outbuf_size d + len then
                 (let cap = (outbuf_capacity d + len) * 2
                  in d\<lparr>outbuf_capacity := cap, outbuf := realloc junk (outbuf d) (unat cap)\<rparr>)
               else d)
      in rbind (mem_copy (outbuf d) (unat (outbuf_size d)) buf) (\<lambda>out.
         Inr (int (length buf), d\<lparr>outbuf := out, outbuf_size := outbuf_size d + len\<rparr>)))"

text \<open>
  \<open>qstring_from_substr(outbuf, 0, outbuf_size - 1)\<close>: the bytes from the first index to the
  second, both included.
\<close>

definition qemu_chr_mem_to_qs :: "memory_driver \<Rightarrow> u8 list" where
  "qemu_chr_mem_to_qs d = take (unat (outbuf_size d)) (outbuf d)"

definition qemu_chr_mem_osize :: "memory_driver \<Rightarrow> u64" where
  "qemu_chr_mem_osize d = outbuf_size d"

section \<open>The monitor's commands on a ring buffer\<close>

text \<open>
  The registry of character devices, in the order of the list \<open>chardevs\<close>, and the backend
  of each: \<open>chr_is_ringbuf\<close> compares the write routine, which tells the backends apart.
\<close>

datatype chr_backend =
    RingBuf ringbuf
  | MemBuf memory_driver
  | OtherBackend

type_synonym chardevs = "(string \<times> chr_backend) list"

fun qemu_chr_find :: "chardevs \<Rightarrow> string \<Rightarrow> chr_backend option" where
  "qemu_chr_find [] name = None"
| "qemu_chr_find ((label, chr) # devs) name = (if label = name then Some chr else qemu_chr_find devs name)"

fun chr_is_ringbuf :: "chr_backend \<Rightarrow> bool" where
  "chr_is_ringbuf (RingBuf d) = True"
| "chr_is_ringbuf (MemBuf d) = False"
| "chr_is_ringbuf OtherBackend = False"

text \<open>The device that the registry entry points to, stored back.\<close>

fun chr_store :: "chardevs \<Rightarrow> string \<Rightarrow> chr_backend \<Rightarrow> chardevs" where
  "chr_store [] name chr' = []"
| "chr_store ((label, chr) # devs) name chr' =
     (if label = name then (label, chr') # devs else (label, chr) # chr_store devs name chr')"

datatype qmp_error =
    DeviceNotFound
  | NotARingbuf
  | WriteFailed
  | SizeNotPositive

text \<open>\<open>size_t\<close> and \<open>int64_t\<close> values that are passed as an \<open>int\<close>.\<close>

definition to_int32 :: "u64 \<Rightarrow> int" where
  "to_int32 w = sint (ucast w :: u32)"

text \<open>
  \<open>data\<close> is a C string (its bytes before the terminator); with \<open>DATA_FORMAT_BASE64\<close>
  the bytes are what the library's decoder \<open>b64_decode\<close> returns.
\<close>

definition qmp_ringbuf_write :: "(u8 list \<Rightarrow> u8 list) \<Rightarrow> chardevs \<Rightarrow> string \<Rightarrow> u8 list \<Rightarrow> bool \<Rightarrow>
    (qmp_error option \<times> chardevs) res" where
  "qmp_ringbuf_write b64_decode devs device data base64 =
     (case qemu_chr_find devs device of
        None \<Rightarrow> Inr (Some DeviceNotFound, devs)
      | Some (RingBuf d) \<Rightarrow>
          (let write_data = (if base64 then b64_decode data else data)
           in rbind (ringbuf_chr_write d (Some write_data) (to_int32 (of_nat (length write_data)))) (\<lambda>(ret, d).
              Inr (if ret < 0 then Some WriteFailed else None, chr_store devs device (RingBuf d))))
      | Some chr \<Rightarrow> Inr (Some NotARingbuf, devs))"

text \<open>
  The result of the read is the allocated array: \<open>size + 1\<close> bytes whose last one is set to
  zero, or the encoding of its first \<open>size\<close> bytes. \<open>junk\<close> is what \<open>g_malloc\<close>
  returned.
\<close>

definition qmp_ringbuf_read :: "(u8 list \<Rightarrow> u8 list) \<Rightarrow> (nat \<Rightarrow> u8) \<Rightarrow> chardevs \<Rightarrow> string \<Rightarrow> int \<Rightarrow> bool \<Rightarrow>
    ((qmp_error + u8 list) \<times> chardevs) res" where
  "qmp_ringbuf_read b64_encode junk devs device sz base64 =
     (case qemu_chr_find devs device of
        None \<Rightarrow> Inr (Inl DeviceNotFound, devs)
      | Some (RingBuf d) \<Rightarrow>
          if sz \<le> 0 then Inr (Inl SizeNotPositive, devs)
          else
            (let count = ringbuf_count d;
                 n = (if uint count < sz then count else word_of_int sz);
                 read_data = map junk [0..<unat n + 1]
             in rbind (ringbuf_chr_read d read_data (to_int32 n)) (\<lambda>(i, read_data, d).
                let devs = chr_store devs device (RingBuf d)
                in if base64 then Inr (Inr (b64_encode (take (unat n) read_data)), devs)
                   else rbind (arr_set read_data (unat n) 0) (\<lambda>read_data. Inr (Inr read_data, devs))))
      | Some chr \<Rightarrow> Inr (Inl NotARingbuf, devs))"


section \<open>What the ring buffer promises\<close>

definition rb_ok :: "ringbuf \<Rightarrow> bool" where
  "rb_ok d \<longleftrightarrow> cring_ok (cbuf d) (rb_size d) (rb_prod d) (rb_cons d)"

definition rb_view :: "ringbuf \<Rightarrow> u8 list" where
  "rb_view d = cring_view (cbuf d) (rb_prod d) (rb_cons d)"

text \<open>The newest \<open>n\<close> elements.\<close>

definition newest :: "nat \<Rightarrow> 'a list \<Rightarrow> 'a list" where
  "newest n xs = drop (length xs - n) xs"

lemma newest_all: "length xs \<le> n \<Longrightarrow> newest n xs = xs"
  by (simp add: newest_def)

lemma length_newest [simp]: "length (newest n xs) = min n (length xs)"
  by (auto simp: newest_def)

lemma newest_Suc: "length xs = Suc n \<Longrightarrow> newest n xs = tl xs"
  by (simp add: newest_def drop_Suc)

lemma newest_newest: "newest n (newest n xs @ ys) = newest n (xs @ ys)"
proof (cases "length xs \<le> n")
  case False
  then show ?thesis
    by (cases "length ys \<le> n") (simp_all add: newest_def add.commute)
qed (simp add: newest_all)

lemma rb_view_le: "rb_ok d \<Longrightarrow> length (rb_view d) \<le> unat (rb_size d)"
  by (simp add: rb_ok_def rb_view_def cring_ok_def)

lemma length_rb_view: "length (rb_view d) = unat (ringbuf_count d)"
  by (simp add: rb_view_def ringbuf_count_def)

lemma rb_push_ok:
  assumes ok: "rb_ok d"
  shows "\<exists>d'. rb_push d x = Inr d' \<and> rb_ok d' \<and> rb_size d' = rb_size d \<and>
    rb_view d' = newest (unat (rb_size d)) (rb_view d @ [x])"
proof (cases "unat (rb_prod d - rb_cons d) < unat (rb_size d)")
  case True
  note put = cring_put [OF ok [unfolded rb_ok_def] True]
  have "unat (rb_prod d + 1 - rb_cons d) \<le> unat (rb_size d)"
    using put(2) by (simp add: cring_ok_def)
  then have "\<not> rb_prod d + 1 - rb_cons d > rb_size d"
    by (simp add: word_less_nat_alt)
  with put True show ?thesis
    by (simp add: rb_push_def Let_def rb_ok_def rb_view_def newest_def)
next
  case False
  then have full: "unat (rb_prod d - rb_cons d) = unat (rb_size d)"
    using ok by (simp add: rb_ok_def cring_ok_def)
  note put = cring_put_full [OF ok [unfolded rb_ok_def] full]
  have p2: "pow2 (rb_size d)" using ok by (simp add: rb_ok_def cring_ok_def)
  have sz: "rb_prod d - rb_cons d = rb_size d"
    using full by (simp add: word_unat_eq_iff)
  then have new: "rb_prod d + 1 - rb_size d = rb_cons d + 1"
    by (simp add: algebra_simps)
  have "Suc (unat (rb_prod d - rb_cons d)) < 2 ^ 64"
    using pow2_le [OF p2] full by simp
  from unat_Suc_diff [of "rb_prod d" "rb_cons d"] this
  have "rb_prod d + 1 - rb_cons d > rb_size d"
    by (simp add: word_less_nat_alt full)
  moreover have "newest (unat (rb_size d)) (rb_view d @ [x]) = tl (rb_view d @ [x])"
    by (rule newest_Suc) (simp add: rb_view_def full)
  ultimately show ?thesis
    using put by (simp add: rb_push_def Let_def rb_ok_def rb_view_def new)
qed

lemma rb_push_loop_ok:
  "rb_ok d \<Longrightarrow> i + n \<le> length buf \<Longrightarrow>
     \<exists>d'. rb_push_loop d buf i n = Inr d' \<and> rb_ok d' \<and> rb_size d' = rb_size d \<and>
       rb_view d' = newest (unat (rb_size d)) (rb_view d @ take n (drop i buf))"
proof (induction n arbitrary: d i)
  case 0
  then show ?case by (simp add: newest_all rb_view_le)
next
  case (Suc n)
  then obtain d1 where d1: "rb_push d (buf ! i) = Inr d1" "rb_ok d1" "rb_size d1 = rb_size d"
      "rb_view d1 = newest (unat (rb_size d)) (rb_view d @ [buf ! i])"
    using rb_push_ok by blast
  from Suc.IH [OF d1(2), of "Suc i"] Suc.prems(2)
  obtain d2 where "rb_push_loop d1 buf (Suc i) n = Inr d2" "rb_ok d2" "rb_size d2 = rb_size d1"
      "rb_view d2 = newest (unat (rb_size d1)) (rb_view d1 @ take n (drop (Suc i) buf))"
    by auto
  moreover have "take (Suc n) (drop i buf) = buf ! i # take n (drop (Suc i) buf)"
    using Suc.prems(2) by (simp add: Cons_nth_drop_Suc [symmetric])
  ultimately show ?case
    using d1 Suc.prems(2) by (simp add: newest_newest)
qed

lemma rb_write_ok:
  assumes "rb_ok d"
  shows "\<exists>d'. ringbuf_chr_write d (Some bytes) (int (length bytes)) = Inr (0, d') \<and> rb_ok d' \<and>
    rb_size d' = rb_size d \<and> rb_view d' = newest (unat (rb_size d)) (rb_view d @ bytes)"
  using rb_push_loop_ok [OF assms, of 0 "length bytes" bytes]
  by (auto simp: ringbuf_chr_write_def)

lemma rb_pop_loop_ok:
  "rb_ok d \<Longrightarrow> i + min n (length (rb_view d)) \<le> length dest \<Longrightarrow>
     \<exists>d'. rb_pop_loop d dest i n =
         Inr (i + min n (length (rb_view d)),
              take i dest @ take n (rb_view d) @ drop (i + min n (length (rb_view d))) dest, d') \<and>
       rb_ok d' \<and> rb_size d' = rb_size d \<and> rb_view d' = drop n (rb_view d)"
proof (induction n arbitrary: d dest i)
  case 0
  then show ?case by simp
next
  case (Suc n)
  show ?case
  proof (cases "rb_cons d = rb_prod d")
    case True
    then show ?thesis using Suc.prems by (simp add: rb_view_def)
  next
    case False
    define d1 where "d1 = d\<lparr>rb_cons := rb_cons d + 1\<rparr>"
    define x where "x = cbuf d ! unat (rb_cons d AND (rb_size d - 1))"
    note get = cring_get [OF Suc.prems(1) [unfolded rb_ok_def] False [symmetric]]
    have view: "rb_view d = x # rb_view d1"
      using get(3) by (simp add: rb_view_def d1_def x_def)
    have ok1: "rb_ok d1" using get(2) by (simp add: rb_ok_def d1_def)
    have i: "i < length dest" using Suc.prems(2) by (simp add: view)
    have "Suc i + min n (length (rb_view d1)) \<le> length (dest[i := x])"
      using Suc.prems(2) by (simp add: view)
    from Suc.IH [OF ok1 this] i get(1) view False
    show ?thesis
      by (simp add: take_update_append d1_def [symmetric] x_def [symmetric]) (simp add: d1_def)
  qed
qed

lemma rb_read_ok:
  assumes "rb_ok d" and "min n (length (rb_view d)) \<le> length dest"
  shows "\<exists>d'. ringbuf_chr_read d dest (int n) =
        Inr (int (min n (length (rb_view d))),
             take n (rb_view d) @ drop (min n (length (rb_view d))) dest, d') \<and>
      rb_ok d' \<and> rb_size d' = rb_size d \<and> rb_view d' = drop n (rb_view d)"
  using rb_pop_loop_ok [OF assms(1), of 0 n dest] assms(2)
  by (auto simp: ringbuf_chr_read_def)

lemma open_ringbuf_ok:
  assumes "qemu_chr_open_ringbuf opt = Some d"
  shows "rb_ok d \<and> rb_view d = [] \<and> rb_size d = (if opt = 0 then 65536 else opt)"
proof -
  define n where "n = (if opt = 0 then 65536 else opt)"
  have n: "n \<noteq> 0" by (simp add: n_def)
  have t: "n AND (n - 1) = 0" and d: "d = \<lparr>rb_size = n, rb_prod = 0, rb_cons = 0, cbuf = replicate (unat n) 0\<rparr>"
    using assms by (auto simp: qemu_chr_open_ringbuf_def n_def Let_def split: if_splits)
  show ?thesis
    using pow2_test [OF n t] by (simp add: d rb_ok_def rb_view_def cring_ok_def n_def)
qed

lemma qemu_chr_find_store:
  "qemu_chr_find devs name = Some chr \<Longrightarrow> qemu_chr_find (chr_store devs name chr') name = Some chr'"
  by (induction devs) (auto split: if_splits)

lemma qemu_chr_find_store_other:
  "name' \<noteq> name \<Longrightarrow> qemu_chr_find (chr_store devs name chr') name' = qemu_chr_find devs name'"
  by (induction devs) auto

lemma to_int32_small:
  assumes "unat w < 2 ^ 31"
  shows "to_int32 w = int (unat w)"
proof -
  have u: "unat (ucast w :: u32) = unat w"
    using assms by (simp add: unsigned_ucast_eq take_bit_nat_eq_self)
  with assms sint_eq_unat [of "ucast w :: u32"] show ?thesis
    by (simp add: to_int32_def)
qed

section \<open>The memory driver\<close>

text \<open>
  The invariant of the memory driver: the allocation has the recorded capacity, and the
  capacity is bounded by four times the contents, so that doubling it does not wrap around.
\<close>

definition mem_ok :: "memory_driver \<Rightarrow> bool" where
  "mem_ok d \<longleftrightarrow> length (outbuf d) = unat (outbuf_capacity d) \<and> outbuf_size d \<le> outbuf_capacity d \<and>
     unat (outbuf_capacity d) \<le> max 4096 (4 * unat (outbuf_size d)) \<and> unat (outbuf_size d) < 2 ^ 60"

lemma mem_ok_init: "mem_ok qemu_chr_init_mem \<and> qemu_chr_mem_to_qs qemu_chr_init_mem = []"
  by (simp add: mem_ok_def qemu_chr_init_mem_def qemu_chr_mem_to_qs_def)

lemma mem_write_ok:
  assumes ok: "mem_ok d" and len: "unat (outbuf_size d) + length buf < 2 ^ 60"
  shows "\<exists>d'. mem_chr_write junk d buf = Inr (int (length buf), d') \<and> mem_ok d' \<and>
    unat (outbuf_size d') = unat (outbuf_size d) + length buf \<and>
    qemu_chr_mem_to_qs d' = qemu_chr_mem_to_qs d @ buf"
proof -
  define l :: u64 where "l = of_nat (length buf)"
  have ul: "unat l = length buf"
    using len by (simp add: l_def unsigned_of_nat take_bit_nat_eq_self)
  have sum: "unat (outbuf_size d + l) = unat (outbuf_size d) + length buf"
    using len by (subst unat_add_lem [THEN iffD1]) (simp_all add: ul)
  have sz: "length (outbuf d) = unat (outbuf_capacity d)" "unat (outbuf_size d) \<le> unat (outbuf_capacity d)"
    using ok by (simp_all add: mem_ok_def word_le_nat_alt)
  show ?thesis
  proof (cases "outbuf_capacity d < outbuf_size d + l")
    case True
    then have lt: "unat (outbuf_capacity d) < unat (outbuf_size d) + length buf"
      by (simp add: word_less_nat_alt sum)
    have "unat ((outbuf_capacity d + l) * 2) = (unat (outbuf_capacity d) + length buf) * 2"
      using lt len by (simp add: unat_word_ariths ul)
    with True lt len sz show ?thesis
      by (simp add: mem_chr_write_def l_def [symmetric] Let_def mem_copy_def realloc_def mem_ok_def sum
          qemu_chr_mem_to_qs_def word_le_nat_alt)
  next
    case False
    then have "unat (outbuf_size d) + length buf \<le> unat (outbuf_capacity d)"
      by (simp add: word_less_nat_alt sum not_less)
    with False len sz ok show ?thesis
      by (simp add: mem_chr_write_def l_def [symmetric] Let_def mem_copy_def mem_ok_def sum
          qemu_chr_mem_to_qs_def word_le_nat_alt)
  qed
qed

text \<open>A sequence of writes, each on the state the one before left.\<close>

fun mem_write_all :: "(nat \<Rightarrow> u8) \<Rightarrow> memory_driver \<Rightarrow> u8 list list \<Rightarrow> memory_driver res" where
  "mem_write_all junk d [] = Inr d"
| "mem_write_all junk d (buf # bufs) = rbind (mem_chr_write junk d buf) (\<lambda>(_, d). mem_write_all junk d bufs)"

lemma mem_write_all_ok:
  "mem_ok d \<Longrightarrow> unat (outbuf_size d) + length (concat bufs) < 2 ^ 60 \<Longrightarrow>
     \<exists>d'. mem_write_all junk d bufs = Inr d' \<and> mem_ok d' \<and>
       unat (outbuf_size d') = unat (outbuf_size d) + length (concat bufs) \<and>
       qemu_chr_mem_to_qs d' = qemu_chr_mem_to_qs d @ concat bufs"
proof (induction bufs arbitrary: d)
  case Nil
  then show ?case by simp
next
  case (Cons buf bufs)
  then obtain d1 where "mem_chr_write junk d buf = Inr (int (length buf), d1)" "mem_ok d1"
      "unat (outbuf_size d1) = unat (outbuf_size d) + length buf"
      "qemu_chr_mem_to_qs d1 = qemu_chr_mem_to_qs d @ buf"
    using mem_write_ok [OF Cons.prems(1), of buf junk] by auto
  with Cons.IH [of d1] Cons.prems(2) show ?case by auto
qed

section \<open>Properties\<close>

text \<open>
  The ring buffer keeps the newest bytes: on a ring in any state, its free-running counters
  wrapped around or not, a write of any bytes reports success and leaves the last \<open>size\<close>
  bytes of what it held followed by what was written, in order.
\<close>

theorem ringbuf_keeps_newest:
  assumes "rb_ok d"
  shows "\<exists>d'. ringbuf_chr_write d (Some bytes) (int (length bytes)) = Inr (0, d') \<and> rb_ok d' \<and>
    rb_view d' = newest (unat (rb_size d)) (rb_view d @ bytes)"
  using rb_write_ok [OF assms, of bytes] by blast

theorem ringbuf_keeps_newest_witness:
  "\<exists>d'. ringbuf_chr_write \<lparr>rb_size = 2, rb_prod = 0, rb_cons = - 1, cbuf = [7, 8]\<rparr> (Some [1, 2])
      (int (length [1, 2 :: u8])) = Inr (0, d') \<and> rb_ok d' \<and> rb_view d' = [1, 2]"
proof -
  have "rb_ok \<lparr>rb_size = 2, rb_prod = 0, rb_cons = - 1, cbuf = [7, 8]\<rparr>"
    by (auto simp: rb_ok_def cring_ok_def pow2_def intro!: exI [of _ 1])
  from ringbuf_keeps_newest [OF this, of "[1, 2]"] show ?thesis
    by (simp add: newest_def length_rb_view ringbuf_count_def)
qed

text \<open>
  C24. The monitor reads what the monitor wrote: on a registered ring buffer of less than two
  gibibytes, \<open>qmp_ringbuf_write\<close> of a string succeeds, and a following
  \<open>qmp_ringbuf_read\<close> of \<open>n\<close> bytes returns the oldest \<open>n\<close> of the bytes that are
  left in the ring (all of them when there are fewer), terminated by a zero byte, and removes
  exactly these.
\<close>

theorem qmp_write_then_read:
  assumes find: "qemu_chr_find devs dev = Some (RingBuf d)" and ok: "rb_ok d"
    and small: "unat (rb_size d) < 2 ^ 31" and len: "length data < 2 ^ 31" and n: "0 < n"
  defines "kept \<equiv> newest (unat (rb_size d)) (rb_view d @ data)"
  shows "\<exists>devs' devs'' d''. qmp_ringbuf_write dec devs dev data False = Inr (None, devs') \<and>
    qmp_ringbuf_read enc junk devs' dev (int n) False = Inr (Inr (take n kept @ [0]), devs'') \<and>
    qemu_chr_find devs'' dev = Some (RingBuf d'') \<and> rb_ok d'' \<and> rb_view d'' = drop n kept"
proof -
  obtain d' where w: "ringbuf_chr_write d (Some data) (int (length data)) = Inr (0, d')" "rb_ok d'"
      "rb_size d' = rb_size d" "rb_view d' = kept"
    using rb_write_ok [OF ok, of data] by (auto simp: kept_def)
  define devs' where "devs' = chr_store devs dev (RingBuf d')"
  have "to_int32 (of_nat (length data)) = int (length data)"
    using len to_int32_small [of "of_nat (length data)"] by (simp add: unsigned_of_nat take_bit_nat_eq_self)
  then have wrote: "qmp_ringbuf_write dec devs dev data False = Inr (None, devs')"
    using w(1) find by (simp add: qmp_ringbuf_write_def devs'_def)
  define m where "m = (if uint (ringbuf_count d') < int n then ringbuf_count d' else word_of_int (int n))"
  have count: "unat (ringbuf_count d') = length kept"
    using length_rb_view [of d'] w(4) by simp
  have le: "length kept \<le> unat (rb_size d)"
    using rb_view_le [OF w(2)] w(3,4) by simp
  have m: "unat m = min n (length kept)"
    using count le small by (auto simp: m_def uint_nat unsigned_of_nat take_bit_nat_eq_self)
  then have m_le: "unat m \<le> length kept" by simp
  have to32: "to_int32 m = int (min n (length kept))"
    using le small m by (subst to_int32_small) auto
  define dest where "dest = map junk [0..<Suc (unat m)]"
  obtain d'' where r: "ringbuf_chr_read d' dest (to_int32 m) =
      Inr (int (unat m), take (unat m) kept @ drop (unat m) dest, d'')" "rb_ok d''" "rb_view d'' = drop (unat m) kept"
    using rb_read_ok [OF w(2), of "unat m" dest] w(4) by (auto simp: to32 m dest_def)
  have find': "qemu_chr_find devs' dev = Some (RingBuf d')"
    using find by (simp add: devs'_def qemu_chr_find_store)
  have "drop (unat m) dest = [junk (unat m)]"
    by (simp add: dest_def)
  then have "qmp_ringbuf_read enc junk devs' dev (int n) False =
      Inr (Inr (take (unat m) kept @ [0]), chr_store devs' dev (RingBuf d''))"
    using r(1) find' n m_le
    by (simp add: qmp_ringbuf_read_def m_def [symmetric] dest_def [symmetric] Let_def list_update_append
        del: upt_Suc)
  moreover have "take (unat m) kept = take n kept" and "drop (unat m) kept = drop n kept"
    using m by (simp_all add: min_def)
  ultimately show ?thesis
    using wrote r(2,3) qemu_chr_find_store [OF find'] by metis
qed

theorem qmp_write_then_read_witness:
  "\<exists>devs' devs'' d''. qmp_ringbuf_write id [(''r'', RingBuf \<lparr>rb_size = 2, rb_prod = 0, rb_cons = 0, cbuf = [0, 0]\<rparr>)]
       ''r'' [65, 66, 67] False = Inr (None, devs') \<and>
    qmp_ringbuf_read id (\<lambda>_. 9) devs' ''r'' (int 1) False = Inr (Inr [66, 0], devs'') \<and>
    qemu_chr_find devs'' ''r'' = Some (RingBuf d'') \<and> rb_ok d'' \<and> rb_view d'' = [67]"
proof -
  let ?d = "\<lparr>rb_size = 2, rb_prod = 0, rb_cons = 0, cbuf = [0, 0]\<rparr>"
  have ok: "rb_ok ?d"
    by (auto simp: rb_ok_def cring_ok_def pow2_def intro!: exI [of _ 1])
  show ?thesis
    using qmp_write_then_read [of "[(''r'', RingBuf ?d)]" "''r''" ?d "[65, 66, 67]" 1 id id "\<lambda>_. 9"]
    by (simp add: ok newest_def rb_view_def)
qed

text \<open>
  The memory driver holds everything that was written: after any sequence of writes to a
  freshly initialised driver, of less than 2 to the 60 bytes together, no write has left the
  buffer, its string is the concatenation of what was written and its size the sum of the lengths.
\<close>

theorem mem_driver_holds_all:
  assumes "length (concat bufs) < 2 ^ 60"
  shows "\<exists>d. mem_write_all junk qemu_chr_init_mem bufs = Inr d \<and>
    qemu_chr_mem_to_qs d = concat bufs \<and> unat (qemu_chr_mem_osize d) = length (concat bufs)"
proof -
  have "unat (outbuf_size qemu_chr_init_mem) = 0" by (simp add: qemu_chr_init_mem_def)
  then show ?thesis
    using mem_write_all_ok [of qemu_chr_init_mem bufs junk] assms mem_ok_init
    by (auto simp: qemu_chr_mem_osize_def)
qed

theorem mem_driver_holds_all_witness:
  "\<exists>d. mem_write_all (\<lambda>_. 0) qemu_chr_init_mem [[1, 2], replicate 5000 3] = Inr d \<and>
    qemu_chr_mem_to_qs d = 1 # 2 # replicate 5000 3 \<and> unat (qemu_chr_mem_osize d) = 5002"
  using mem_driver_holds_all [of "[[1, 2], replicate 5000 3]" "\<lambda>_. 0"] by simp

end
