(* ===== verification/Chardev_Console.thy ===== *)
theory Chardev_Console
  imports Mux_Inv Chardev_Ring Serial_Props
begin

text \<open>
  The interfaces of the character devices on the model's own components: the UART of
  \<open>serial.c\<close> is a frontend (the handlers that \<open>serial_init_core\<close> installs), the ring
  buffer is a backend, and a multiplexer between them is what the properties speak about.
\<close>

section \<open>The UART as a frontend\<close>

definition uart_can_read :: "serial_state \<Rightarrow> int" where
  "uart_can_read s = int (serial_can_receive1 s)"

definition uart_event :: "serial_state \<Rightarrow> chr_event \<Rightarrow> serial_state res" where
  "uart_event s v = serial_event s (v = CHR_EVENT_BREAK)"

definition uart_handlers :: "ser_env \<Rightarrow> serial_state handlers" where
  "uart_handlers e =
     \<lparr>chr_can_read = Some uart_can_read, chr_read = Some (serial_receive1 e), chr_event = Some uart_event\<rparr>"

text \<open>What the UART has taken and the guest has not read yet.\<close>

definition uart_recv :: "serial_state \<Rightarrow> u8 list" where
  "uart_recv s =
     (if fcr s AND 1 \<noteq> 0 then fifo_view (recv_fifo s) else if lsr s AND 1 \<noteq> 0 then [rbr s] else [])"

lemma uart_rd_ok:
  assumes good: "ser_good s" and can: "uart_can_read s \<noteq> 0"
  shows "\<exists>t. serial_receive1 e s [c] = Inr t \<and> ser_good t \<and> uart_recv t = uart_recv s @ [c]"
proof -
  have ok: "fifos_ok s" using good by (simp add: ser_good_def ser_inv_def)
  have "length [c] \<le> serial_can_receive1 s"
    using can by (simp add: uart_can_read_def Suc_le_eq)
  from receive1_stores [OF ok _ this, of e]
  obtain t where t: "serial_receive1 e s [c] = Inr t" "lsr t = lsr s OR 1"
      "if fcr s AND 1 \<noteq> 0 then fifo_view (recv_fifo t) = fifo_view (recv_fifo s) @ [c] else [c] = [rbr t]"
    by auto
  have "fifos_ok t" "rx_only s t" "irq_coherent t"
    using receive1_step [OF ok, of "[c]" e] t(1) by auto
  then have "ser_good t" "fcr t = fcr s"
    using rx_only_good good by (auto simp: rx_only_def)
  moreover have "lsr s AND 1 = 0" if "fcr s AND 1 = 0"
    using can that by (simp add: uart_can_read_def serial_can_receive1_def serial_can_receive_def split: if_splits)
  moreover have "lsr t AND 1 \<noteq> 0"
    by (simp add: t(2) u8_flags bit_simps)
  ultimately show ?thesis
    using t(1,3) by (auto simp: uart_recv_def split: if_splits)
qed

interpretation uart: chr_listener uart_can_read "serial_receive1 e" uart_event ser_good uart_recv for e
  by unfold_locales (simp_all add: uart_rd_ok uart_event_def serial_event_def)

section \<open>The ring buffer as a backend\<close>

definition ring_write :: "ringbuf \<Rightarrow> u8 list \<Rightarrow> (int \<times> ringbuf) res" where
  "ring_write d buf = ringbuf_chr_write d (Some buf) (int (length buf))"

interpretation ring_sink: chr_sink ring_write rb_ok
  using rb_write_ok by unfold_locales (fastforce simp: ring_write_def)

definition console_env :: "(nat \<Rightarrow> int) \<Rightarrow> int \<Rightarrow> ringbuf mux_env" where
  "console_env clk esc = \<lparr>env_write = ring_write, env_clock = clk, env_escape = esc\<rparr>"

interpretation console: mux_sys uart_can_read "serial_receive1 e" uart_event ser_good uart_recv ring_write rb_ok
    "console_env clk esc" for e clk esc
  by unfold_locales (simp add: console_env_def)

section \<open>A multiplexer between them\<close>

type_synonym console = "(serial_state, ringbuf) mux"

definition console_ok :: "ser_env \<Rightarrow> console \<Rightarrow> bool" where
  "console_ok e d \<longleftrightarrow> mux_ok (uart_handlers e) ser_good rb_ok d"

definition console_stream :: "console \<Rightarrow> nat \<Rightarrow> u8 list" where
  "console_stream d k = mux_stream uart_recv d k"

lemma console_read_ok:
  assumes "console_ok e d" and m: "focus d = int m" and "\<not> exited d"
    and "mux_parse esc (term_got_escape d) bs = (items, ge)" and "quiet_items items"
    and "buffered d m + length (payload items) \<le> 32 \<or>
       0 < buffered d m \<and> uart_can_read (heap d ! mobj d m) \<noteq> 0 \<and> buffered d m + length (payload items) \<le> 33"
  shows "\<exists>d'. mux_chr_read (console_env clk esc) d bs = Inr d' \<and> console_ok e d' \<and> mux_cnt d' = mux_cnt d \<and>
    (\<forall>k<mux_cnt d. console_stream d' k = console_stream d k @ (if k = m then payload items else [])) \<and>
    focus d' = (focus d + int (switches items)) mod int (mux_cnt d) \<and> term_got_escape d' = ge"
proof -
  have "m < mux_cnt d"
    using assms(1) m by (simp add: console_ok_def mux_ok_def focus_ok_def split: if_splits)
  then show ?thesis
    using console.chr_read_ok [where e = e and d = d and m = m and esc = esc and clk = clk and bs = bs and items = items and ge = ge] assms
    by (auto simp: console_ok_def console_stream_def uart_handlers_def gives_def console_env_def)
qed

text \<open>A console for the witnesses: two UARTs on a ring of two bytes, the first one in focus.\<close>

definition ring2 :: ringbuf where
  "ring2 = \<lparr>rb_size = 2, rb_prod = 0, rb_cons = 0, cbuf = [0, 0]\<rparr>"

lemma ring2_ok: "rb_ok ring2"
  by (auto simp: ring2_def rb_ok_def cring_ok_def pow2_def intro!: exI [of _ 1])

definition console2 :: console where
  "console2 = (qemu_chr_open_mux [uart0, uart0] ring2 False)
     \<lparr>mhnd := [uart_handlers env0, uart_handlers env0, null_handlers, null_handlers],
      ext_opaque := [Some 0, Some 1, None, None], mux_cnt := 2, focus := 0\<rparr>"

lemmas console2_simps = console2_def qemu_chr_open_mux_def qemu_chr_generic_open_def chardev_zero_def
  chardev.defs mux.defs

lemma console2_fields [simp]:
  "mux_cnt console2 = 2" "focus console2 = 0" "exited console2 = False" "term_got_escape console2 = False"
  "heap console2 = [uart0, uart0]" "ext_opaque console2 = [Some 0, Some 1, None, None]"
  "mhnd console2 = [uart_handlers env0, uart_handlers env0, null_handlers, null_handlers]"
  "mbuffer console2 = replicate 4 (replicate 32 0)" "mprod console2 = replicate 4 0"
  "mcons console2 = replicate 4 0" "drv console2 = ring2"
  by (simp_all add: console2_simps)

lemma console2_ok: "console_ok env0 console2"
proof -
  have "pow2 (32 :: u32)" by (auto simp: pow2_def intro!: exI [of _ 5])
  then show ?thesis
    using ring2_ok uart0_good
    by (auto simp: console_ok_def mux_ok_def mux_shape_def slots_ok_def rings_ok_def focus_ok_def mobj_def
        cring_ok_def inj_on_def less_2_cases_iff)
qed

lemma console2_buffered [simp]: "k < 4 \<Longrightarrow> buffered console2 k = 0"
  by (simp add: buffered_def)

lemma console2_stream: "k < 2 \<Longrightarrow> console_stream console2 k = []"
  by (auto simp: console_stream_def mux_stream_def mobj_def uart_recv_def uart0_regs less_2_cases_iff)

section \<open>Properties\<close>

text \<open>
  C3. What the multiplexer does with its input, before UARTs as frontends: the escape sequences are taken out, doubled
  escape characters become one, and the rest reaches one frontend, whole and in order behind what it had and what
  was waiting for it, directly or through its ring; no other frontend's stream changes. That frontend is the one
  in focus when the call begins, for the whole call: commands that switch the focus in the middle of the input
  move it for the calls that follow only. This is for a multiplexer whose frontends are UARTs in consistent
  states, for input without the commands to exit and to send a break, and for as many bytes as fit the ring of
  32 bytes together with those that wait there already; more of them can overwrite what waits.
\<close>

theorem mux_input_streams:
  assumes "console_ok e d" and "focus d = int m" and "\<not> exited d"
    and "mux_parse esc (term_got_escape d) bs = (items, ge)" and "quiet_items items"
    and "buffered d m + length (payload items) \<le> 32"
  shows "\<exists>d'. mux_chr_read (console_env clk esc) d bs = Inr d' \<and> console_ok e d' \<and>
    (\<forall>k<mux_cnt d. console_stream d' k = console_stream d k @ (if k = m then payload items else [])) \<and>
    focus d' = (focus d + int (switches items)) mod int (mux_cnt d) \<and> term_got_escape d' = ge"
  using console_read_ok [OF assms(1-5), of clk] assms(6) by blast

theorem mux_input_streams_witness:
  "\<exists>d'. mux_chr_read (console_env (\<lambda>_. 0) 1) console2 [65, 1, 1, 1, 99, 66] = Inr d' \<and>
    console_stream d' 0 = [65, 1, 66] \<and> console_stream d' 1 = [] \<and> focus d' = 1"
proof -
  have "\<exists>d'. mux_chr_read (console_env (\<lambda>_. 0) 1) console2 [65, 1, 1, 1, 99, 66] = Inr d' \<and> console_ok env0 d' \<and>
      (\<forall>k<mux_cnt console2. console_stream d' k = console_stream console2 k @ (if k = 0 then payload [Pass 65, Pass 1, Command 99, Pass 66] else [])) \<and>
      focus d' = (focus console2 + int (switches [Pass 65, Pass 1, Command 99, Pass 66])) mod int (mux_cnt console2) \<and>
      term_got_escape d' = False"
    by (rule mux_input_streams) (simp_all add: console2_ok)
  then show ?thesis by (auto simp: console2_stream less_2_cases_iff)
qed

text \<open>
  C31. Flow control through the multiplexer is sound: when \<open>mux_chr_can_read\<close> does not answer 0,
  the next byte, if it starts no escape sequence, is not lost: it is added to the stream of the
  frontend in focus, whether it finds room in the UART, in the ring, or in the place of a byte that
  the UART first takes out of a full ring.
\<close>

theorem mux_never_loses:
  assumes "console_ok e d" and "focus d = int m" and "\<not> exited d" and "\<not> term_got_escape d"
    and "uint c \<noteq> esc" and can: "mux_chr_can_read d = Inr n" and "n \<noteq> 0"
  shows "\<exists>d'. mux_chr_read (console_env clk esc) d [c] = Inr d' \<and> console_ok e d' \<and> focus d' = focus d \<and>
    (\<forall>k<mux_cnt d. console_stream d' k = console_stream d k @ (if k = m then [c] else []))"
proof -
  have m: "m < mux_cnt d"
    using assms(1,2) by (simp add: console_ok_def mux_ok_def focus_ok_def split: if_splits)
  then have f: "focus d = focus d mod int (mux_cnt d)"
    using assms(2) by simp
  have "mux_chr_can_read d = Inr (if buffered d m < 32 then 1 else uart_can_read (heap d ! mobj d m))"
      "buffered d m \<le> 32"
    using console.can_read_eq [OF assms(1) [unfolded console_ok_def uart_handlers_def] assms(2) m] by simp_all
  then have "buffered d m + length (payload [Pass c]) \<le> 32 \<or>
      0 < buffered d m \<and> uart_can_read (heap d ! mobj d m) \<noteq> 0 \<and> buffered d m + length (payload [Pass c]) \<le> 33"
    using can assms(7) by (auto split: if_splits)
  from console_read_ok [OF assms(1-3), of esc "[c]" "[Pass c]" False clk, OF _ _ this] show ?thesis
    using assms(4,5) f by auto
qed

theorem mux_never_loses_witness:
  "\<exists>d'. mux_chr_read (console_env (\<lambda>_. 0) 1) console2 [65] = Inr d' \<and> console_stream d' 0 = [65]"
proof -
  have "mux_chr_can_read console2 = Inr 1"
    by (simp add: mux_chr_can_read_def Let_def iarr_get_def)
  from mux_never_loses [of env0 console2 0 65 1, OF _ _ _ _ _ this] show ?thesis
    by (fastforce simp: console2_ok console2_stream)
qed

text \<open>
  Attaching a frontend: while fewer than four are attached, the new one gets its own slot and
  the focus and nobody's stream changes. A fifth one is not connected, and the caller is not told:
  the slots and the focus stay, yet the device's own handlers, which get the break events, are now
  those of the refused frontend.
\<close>

theorem mux_attach:
  assumes "console_ok e d" and "p < length (heap d)" and "p \<notin> mobj d ` {..<mux_cnt d}"
  shows "\<exists>d'. mux_add_handlers d (uart_handlers e) (Some p) = Inr d' \<and> console_ok e d' \<and>
    (\<forall>k<mux_cnt d. console_stream d' k = console_stream d k) \<and>
    (if mux_cnt d < 4 then mux_cnt d' = Suc (mux_cnt d) \<and> focus d' = int (mux_cnt d) \<and> mobj d' (mux_cnt d) = p
     else mux_cnt d' = 4 \<and> focus d' = focus d \<and> ext_opaque d' = ext_opaque d \<and> handler_opaque d' = Some p)"
proof (cases "mux_cnt d < 4")
  case True
  then show ?thesis
    using console.attach_ok [OF assms(1) [unfolded console_ok_def uart_handlers_def] True assms(2,3)]
    by (simp add: console_ok_def uart_handlers_def console_stream_def) blast
next
  case False
  then have "mux_cnt d = 4"
    using assms(1) by (simp add: console_ok_def mux_ok_def mux_shape_def)
  then show ?thesis
    using console.attach_full [OF assms(1) [unfolded console_ok_def uart_handlers_def], of "uart_handlers e" p]
    by (auto simp: console_ok_def uart_handlers_def console_stream_def)
qed

theorem mux_attach_witness:
  "\<exists>d'. mux_add_handlers (qemu_chr_open_mux [uart0] ring2 False) (uart_handlers env0) (Some 0) = Inr d' \<and>
    console_ok env0 d' \<and> mux_cnt d' = 1 \<and> focus d' = 0"
proof -
  let ?d = "qemu_chr_open_mux [uart0] ring2 False :: console"
  have "pow2 (32 :: u32)" by (auto simp: pow2_def intro!: exI [of _ 5])
  then have "console_ok env0 ?d"
    using ring2_ok uart0_good
    by (auto simp: console2_simps console_ok_def mux_ok_def mux_shape_def slots_ok_def rings_ok_def focus_ok_def
        cring_ok_def)
  from mux_attach [OF this, of 0] show ?thesis
    by (auto simp: console2_simps)
qed

end
