(* ===== verification/Chardev_Host.thy ===== *)
theory Chardev_Host
  imports Chardev_Core
begin

text \<open>
  The backends of \<open>qemu-char.c\<close> that stand for a file descriptor of the host: \<open>send_all\<close>, the
  descriptor backend (files and pipes) and the standard input. Of the host a device knows the
  descriptors whose handlers the main loop calls (\<open>h_watch\<close>), the bytes each descriptor took
  (\<open>h_sent\<close>) and the descriptors closed; the results of system calls are arguments. The settings of
  the terminal are left out.

  What a backend promises to the main loop, which polls it for how much it takes before it calls the read
  handler, is the locale \<open>input_backend\<close> of \<open>Chardev_Stream\<close>; what a frontend promises for blocks of bytes is
  \<open>chr_taker\<close> of \<open>Chardev_Core\<close>. The backends satisfy the one over any frontend that satisfies the other.
\<close>

section \<open>The host\<close>

datatype watch =
    WatchRead
  | WatchAccept

text \<open>The result of a \<open>write\<close> (\<open>WAgain\<close>: \<open>EINTR\<close> or \<open>EAGAIN\<close>) and of a \<open>read\<close> (\<open>Got []\<close>: the end).\<close>

datatype wres =
    Wrote nat
  | WAgain
  | WFail

datatype rres =
    Got "u8 list"
  | RdEIO
  | RdFail

record 'o hostchr = "'o chardev" +
  h_watch :: "int \<Rightarrow> watch option"
  h_nwrite :: nat
  h_sent :: "(int \<times> u8 list) list"
  h_closed :: "int list"

definition set_watch :: "int \<Rightarrow> watch option \<Rightarrow> ('o, 'z) hostchr_scheme \<Rightarrow> ('o, 'z) hostchr_scheme" where
  "set_watch fd w s = s\<lparr>h_watch := (h_watch s)(fd := w)\<rparr>"

definition close_fd :: "int \<Rightarrow> ('o, 'z) hostchr_scheme \<Rightarrow> ('o, 'z) hostchr_scheme" where
  "close_fd fd s = s\<lparr>h_closed := h_closed s @ [fd]\<rparr>"

abbreviation (input) READ_BUF_LEN :: nat where "READ_BUF_LEN \<equiv> 4096"

text \<open>
  \<open>send_all\<close>: \<open>w n\<close> is the \<open>n\<close>th \<open>write\<close>; the result is the return value, the number of calls so far
  and what was written. It is \<open>None\<close> when the loop does not end.
\<close>

partial_function (option) send_loop ::
    "(nat \<Rightarrow> u8 list \<Rightarrow> wres) \<Rightarrow> nat \<Rightarrow> u8 list \<Rightarrow> u8 list \<Rightarrow> (int \<times> nat \<times> u8 list) option" where
  "send_loop w n buf sent =
     (if buf = [] then Some (int (length sent), n, sent)
      else
        case w n buf of
          WFail \<Rightarrow> Some (- 1, n + 1, sent)
        | WAgain \<Rightarrow> send_loop w (n + 1) buf sent
        | Wrote k \<Rightarrow>
            if k = 0 then Some (int (length sent), n + 1, sent)
            else send_loop w (n + 1) (drop k buf) (sent @ take k buf))"

definition send_all :: "(nat \<Rightarrow> u8 list \<Rightarrow> wres) \<Rightarrow> int \<Rightarrow> u8 list \<Rightarrow> ('o, 'z) hostchr_scheme \<Rightarrow>
    (int \<times> ('o, 'z) hostchr_scheme) option" where
  "send_all w fd buf s =
     map_option (\<lambda>(r, n, sent). (r, s\<lparr>h_nwrite := n, h_sent := h_sent s @ [(fd, sent)]\<rparr>))
       (send_loop w (h_nwrite s) buf [])"

section \<open>A file descriptor\<close>

record 'o fdchr = "'o hostchr" +
  fd_in :: int
  fd_out :: int
  fd_max_size :: int

definition fd_chr_write :: "(nat \<Rightarrow> u8 list \<Rightarrow> wres) \<Rightarrow> ('o, 'z) fdchr_scheme \<Rightarrow> u8 list \<Rightarrow>
    (int \<times> ('o, 'z) fdchr_scheme) option" where
  "fd_chr_write w s buf = send_all w (fd_out s) buf s"

definition fd_chr_read_poll :: "('o, 'z) fdchr_scheme \<Rightarrow> (int \<times> ('o, 'z) fdchr_scheme) res" where
  "fd_chr_read_poll s = rbind (qemu_chr_be_can_write s) (\<lambda>n. Inr (n, s\<lparr>fd_max_size := n\<rparr>))"

text \<open>\<open>ans len\<close> is what \<open>read\<close> gives for \<open>len\<close> bytes; a negative size would be taken for a huge one.\<close>

definition fd_chr_read :: "(nat \<Rightarrow> rres) \<Rightarrow> ('o, 'z) fdchr_scheme \<Rightarrow> ('o, 'z) fdchr_scheme res" where
  "fd_chr_read ans s =
     (let len = min (int READ_BUF_LEN) (fd_max_size s)
      in if len = 0 then Inr s
         else if len < 0 then Inl OutOfBounds
         else
           case ans (nat len) of
             Got buf \<Rightarrow>
               if buf = [] then qemu_chr_be_event (set_watch (fd_in s) None s) CHR_EVENT_CLOSED
               else qemu_chr_be_write s buf
           | _ \<Rightarrow> Inr s)"

text \<open>\<open>nographic\<close> says that the display is the terminal.\<close>

definition fd_chr_update_read_handler :: "bool \<Rightarrow> ('o, 'z) fdchr_scheme \<Rightarrow> ('o, 'z) fdchr_scheme res" where
  "fd_chr_update_read_handler nographic s =
     Inr (if 0 \<le> fd_in s \<and> \<not> (nographic \<and> fd_in s = 0) then set_watch (fd_in s) (Some WatchRead) s else s)"

definition fd_chr_close :: "bool \<Rightarrow> ('o, 'z) fdchr_scheme \<Rightarrow> ('o, 'z) fdchr_scheme res" where
  "fd_chr_close nographic s =
     qemu_chr_be_event (if 0 \<le> fd_in s \<and> \<not> (nographic \<and> fd_in s = 0) then set_watch (fd_in s) None s else s) CHR_EVENT_CLOSED"

definition qemu_chr_open_fd :: "'o list \<Rightarrow> int \<Rightarrow> int \<Rightarrow> 'o fdchr" where
  "qemu_chr_open_fd objs fin fout =
     qemu_chr_generic_open
       \<lparr>heap = objs, opened = False, open_timer = False, hnd = null_handlers, handler_opaque = None, avail_connections = 0,
        h_watch = (\<lambda>_. None), h_nwrite = 0, h_sent = [], h_closed = [], fd_in = fin, fd_out = fout, fd_max_size = 0\<rparr>"

definition qemu_chr_open_eventfd :: "'o list \<Rightarrow> int \<Rightarrow> 'o fdchr" where
  "qemu_chr_open_eventfd objs eventfd = qemu_chr_open_fd objs eventfd eventfd"

text \<open>\<open>fd\<close> is what \<open>qemu_open\<close> returns for the path.\<close>

definition qemu_chr_open_file_out :: "'o list \<Rightarrow> int \<Rightarrow> 'o fdchr option" where
  "qemu_chr_open_file_out objs fd = (if fd < 0 then None else Some (qemu_chr_open_fd objs (- 1) fd))"

text \<open>
  The descriptors that the two ends and the name itself give, when they are opened; the result has
  the descriptors that were closed again.
\<close>

definition qemu_chr_open_pipe :: "'o list \<Rightarrow> string option \<Rightarrow> (string \<Rightarrow> int) \<Rightarrow> 'o fdchr option \<times> int list" where
  "qemu_chr_open_pipe objs path op =
     (case path of
        None \<Rightarrow> (None, [])
      | Some filename \<Rightarrow>
          (let fin = op (take 255 (filename @ ''.in'')); fout = op (take 255 (filename @ ''.out'')) in
           if fin < 0 \<or> fout < 0 then
             (let closed = (if 0 \<le> fin then [fin] else []) @ (if 0 \<le> fout then [fout] else []);
                  fd = op filename
              in if fd < 0 then (None, closed) else (Some (qemu_chr_open_fd objs fd fd), closed))
           else (Some (qemu_chr_open_fd objs fin fout), [])))"

section \<open>The standard input\<close>

text \<open>The queue of one character is a static array of the code, and so is the number of clients.\<close>

record 'o stdiochr = "'o fdchr" +
  term_fifo :: "u8 list"
  term_fifo_size :: nat
  stdio_nb_clients :: nat

definition stdio_read_poll :: "('o, 'z) stdiochr_scheme \<Rightarrow> (int \<times> ('o, 'z) stdiochr_scheme) res" where
  "stdio_read_poll s =
     rbind (if term_fifo_size s \<noteq> 0 then
              rbind (qemu_chr_be_can_write s) (\<lambda>n.
              if 0 < n then
                rbind (arr_get (term_fifo s) 0) (\<lambda>c.
                rbind (qemu_chr_be_write s [c]) (\<lambda>s. Inr (s\<lparr>term_fifo_size := 0\<rparr>)))
              else Inr s)
            else Inr s) (\<lambda>s.
     Inr (if term_fifo_size s = 0 then 1 else 0, s))"

definition stdio_read :: "(nat \<Rightarrow> rres) \<Rightarrow> ('o, 'z) stdiochr_scheme \<Rightarrow> ('o, 'z) stdiochr_scheme res" where
  "stdio_read ans s =
     (case ans 1 of
        Got buf \<Rightarrow>
          (case buf of
             [] \<Rightarrow> qemu_chr_be_event (set_watch 0 None s) CHR_EVENT_CLOSED
           | c # _ \<Rightarrow>
               rbind (qemu_chr_be_can_write s) (\<lambda>n.
               if 0 < n then qemu_chr_be_write s [c]
               else if term_fifo_size s = 0 then
                 rbind (arr_set (term_fifo s) (term_fifo_size s) c) (\<lambda>q.
                 Inr (s\<lparr>term_fifo := q, term_fifo_size := term_fifo_size s + 1\<rparr>))
               else Inr s))
      | _ \<Rightarrow> Inr s)"

definition qemu_chr_close_stdio :: "bool \<Rightarrow> ('o, 'z) stdiochr_scheme \<Rightarrow> ('o, 'z) stdiochr_scheme res" where
  "qemu_chr_close_stdio nographic s =
     fd_chr_close nographic (set_watch 0 None (s\<lparr>stdio_nb_clients := stdio_nb_clients s - 1\<rparr>))"

definition qemu_chr_open_stdio :: "'o list \<Rightarrow> nat \<Rightarrow> bool \<Rightarrow> 'o stdiochr option" where
  "qemu_chr_open_stdio objs nb_clients daemonized =
     (if 1 \<le> nb_clients then None
      else if daemonized then None
      else
        Some (set_watch 0 (Some WatchRead)
          (fdchr.extend (qemu_chr_open_fd objs 0 1)
             \<lparr>term_fifo = [0], term_fifo_size = 0, stdio_nb_clients = nb_clients + 1\<rparr>)))"

end
