(* ===== verification/Chardev_Net.thy ===== *)
theory Chardev_Net
  imports Chardev_Host
begin

text \<open>
  The backends of \<open>qemu-char.c\<close> over a pseudo terminal, a UDP socket and a TCP or Unix socket, with
  the telnet commands that the last one takes out of its input. As in \<open>Chardev_Host\<close>, the results of
  system calls are arguments, and of the clock only the time of a call is. Socket options and the
  terminal settings have no state here; the Windows build is left out.
\<close>

section \<open>A pseudo terminal\<close>

text \<open>\<open>pty_timer\<close> is the time for which the timer is set, if it is.\<close>

record 'o ptychr = "'o hostchr" +
  pty_fd :: int
  pty_connected :: bool
  pty_polling :: bool
  pty_read_bytes :: int
  pty_timer :: "int option"

definition pty_chr_update_read_handler :: "int \<Rightarrow> ('o, 'z) ptychr_scheme \<Rightarrow> ('o, 'z) ptychr_scheme" where
  "pty_chr_update_read_handler now s =
     (set_watch (pty_fd s) (Some WatchRead) s)\<lparr>pty_polling := True, pty_timer := Some (now + 10)\<rparr>"

definition pty_chr_write :: "int \<Rightarrow> (nat \<Rightarrow> u8 list \<Rightarrow> wres) \<Rightarrow> ('o, 'z) ptychr_scheme \<Rightarrow> u8 list \<Rightarrow>
    (int \<times> ('o, 'z) ptychr_scheme) option" where
  "pty_chr_write now w s buf =
     (if \<not> pty_connected s then Some (0, pty_chr_update_read_handler now s) else send_all w (pty_fd s) buf s)"

definition pty_chr_read_poll :: "('o, 'z) ptychr_scheme \<Rightarrow> (int \<times> ('o, 'z) ptychr_scheme) res" where
  "pty_chr_read_poll s = rbind (qemu_chr_be_can_write s) (\<lambda>n. Inr (n, s\<lparr>pty_read_bytes := n\<rparr>))"

definition pty_chr_state :: "int \<Rightarrow> ('o, 'z) ptychr_scheme \<Rightarrow> bool \<Rightarrow> ('o, 'z) ptychr_scheme" where
  "pty_chr_state now s connected =
     (if \<not> connected then
        (set_watch (pty_fd s) None s)\<lparr>pty_connected := False, pty_polling := False, pty_timer := Some (now + 1000)\<rparr>
      else (if \<not> pty_connected s then qemu_chr_generic_open s else s)\<lparr>pty_connected := True\<rparr>)"

definition pty_chr_read :: "int \<Rightarrow> (nat \<Rightarrow> rres) \<Rightarrow> ('o, 'z) ptychr_scheme \<Rightarrow> ('o, 'z) ptychr_scheme res" where
  "pty_chr_read now ans s =
     (let len = min (int READ_BUF_LEN) (pty_read_bytes s)
      in if len = 0 then Inr s
         else if len < 0 then Inl OutOfBounds
         else
           case ans (nat len) of
             Got buf \<Rightarrow>
               if buf = [] then Inr (pty_chr_state now s False)
               else qemu_chr_be_write (pty_chr_state now s True) buf
           | RdEIO \<Rightarrow> Inr (pty_chr_state now s False)
           | RdFail \<Rightarrow> Inr s)"

text \<open>The timer has gone off.\<close>

definition pty_chr_timer :: "int \<Rightarrow> ('o, 'z) ptychr_scheme \<Rightarrow> ('o, 'z) ptychr_scheme" where
  "pty_chr_timer now s =
     (if pty_connected s then s
      else if pty_polling s then pty_chr_state now s True
      else pty_chr_update_read_handler now s)"

definition pty_chr_close :: "('o, 'z) ptychr_scheme \<Rightarrow> ('o, 'z) ptychr_scheme res" where
  "pty_chr_close s = qemu_chr_be_event ((close_fd (pty_fd s) (set_watch (pty_fd s) None s))\<lparr>pty_timer := None\<rparr>) CHR_EVENT_CLOSED"

text \<open>The pair of descriptors that \<open>openpty\<close> gives; the slave's is closed.\<close>

definition qemu_chr_open_pty :: "'o list \<Rightarrow> (int \<times> int) option \<Rightarrow> 'o ptychr option" where
  "qemu_chr_open_pty objs pair =
     (case pair of
        None \<Rightarrow> None
      | Some (master_fd, slave_fd) \<Rightarrow>
          Some \<lparr>heap = objs, opened = False, open_timer = False, hnd = null_handlers, handler_opaque = None,
            avail_connections = 0, h_watch = (\<lambda>_. None), h_nwrite = 0, h_sent = [], h_closed = [slave_fd], pty_fd = master_fd,
            pty_connected = False, pty_polling = False, pty_read_bytes = 0, pty_timer = None\<rparr>)"

section \<open>A UDP socket\<close>

record 'o udpchr = "'o hostchr" +
  udp_fd :: int
  udp_buf :: "u8 list"
  bufcnt :: int
  bufptr :: int
  udp_max_size :: int

text \<open>\<open>sent\<close> is what \<open>send\<close> returns for the datagram.\<close>

definition udp_chr_write :: "(u8 list \<Rightarrow> int) \<Rightarrow> ('o, 'z) udpchr_scheme \<Rightarrow> u8 list \<Rightarrow> int \<times> ('o, 'z) udpchr_scheme" where
  "udp_chr_write sent s buf =
     (sent buf, if 0 \<le> sent buf then s\<lparr>h_sent := h_sent s @ [(udp_fd s, buf)]\<rparr> else s)"

text \<open>The loop of the two read functions, with the bytes left in the buffer.\<close>

fun udp_drain :: "nat \<Rightarrow> ('o, 'z) udpchr_scheme \<Rightarrow> ('o, 'z) udpchr_scheme res" where
  "udp_drain 0 s = Inr s"
| "udp_drain (Suc n) s =
     (if 0 < udp_max_size s then
        rbind (arr_get (udp_buf s) (nat (bufptr s))) (\<lambda>c.
        rbind (qemu_chr_be_write s [c]) (\<lambda>s.
        let s = s\<lparr>bufptr := bufptr s + 1\<rparr>
        in rbind (qemu_chr_be_can_write s) (\<lambda>m. udp_drain n (s\<lparr>udp_max_size := m\<rparr>))))
      else Inr s)"

definition udp_chr_read_poll :: "('o, 'z) udpchr_scheme \<Rightarrow> (int \<times> ('o, 'z) udpchr_scheme) res" where
  "udp_chr_read_poll s =
     rbind (qemu_chr_be_can_write s) (\<lambda>m.
     rbind (udp_drain (nat (bufcnt s - bufptr s)) (s\<lparr>udp_max_size := m\<rparr>)) (\<lambda>s.
     Inr (udp_max_size s, s)))"

definition udp_chr_read :: "(nat \<Rightarrow> rres) \<Rightarrow> ('o, 'z) udpchr_scheme \<Rightarrow> ('o, 'z) udpchr_scheme res" where
  "udp_chr_read ans s =
     (if udp_max_size s = 0 then Inr s
      else
        let (cnt, buf) = (case ans READ_BUF_LEN of
                            Got xs \<Rightarrow> (int (length xs), xs @ drop (length xs) (udp_buf s))
                          | _ \<Rightarrow> (- 1, udp_buf s));
            s = s\<lparr>udp_buf := buf, bufcnt := cnt, bufptr := cnt\<rparr>
        in if cnt \<le> 0 then Inr s else udp_drain (nat cnt) (s\<lparr>bufptr := 0\<rparr>))"

definition udp_chr_update_read_handler :: "('o, 'z) udpchr_scheme \<Rightarrow> ('o, 'z) udpchr_scheme" where
  "udp_chr_update_read_handler s = (if 0 \<le> udp_fd s then set_watch (udp_fd s) (Some WatchRead) s else s)"

definition udp_chr_close :: "('o, 'z) udpchr_scheme \<Rightarrow> ('o, 'z) udpchr_scheme res" where
  "udp_chr_close s =
     qemu_chr_be_event (if 0 \<le> udp_fd s then close_fd (udp_fd s) (set_watch (udp_fd s) None s) else s) CHR_EVENT_CLOSED"

definition qemu_chr_open_udp :: "'o list \<Rightarrow> int \<Rightarrow> 'o udpchr option" where
  "qemu_chr_open_udp objs fd =
     (if fd < 0 then None
      else
        Some \<lparr>heap = objs, opened = False, open_timer = False, hnd = null_handlers, handler_opaque = None,
          avail_connections = 0, h_watch = (\<lambda>_. None), h_nwrite = 0, h_sent = [], h_closed = [], udp_fd = fd,
          udp_buf = replicate READ_BUF_LEN 0, bufcnt = 0, bufptr = 0, udp_max_size = 0\<rparr>)"

section \<open>A TCP or Unix socket\<close>

record 'o tcpchr = "'o hostchr" +
  tcp_fd :: int
  listen_fd :: int
  tcp_connected :: bool
  tcp_max_size :: int
  do_telnetopt :: nat
  do_nodelay :: bool
  is_unix :: bool
  msgfd :: int
  tcp_filename :: "string option"

definition tcp_chr_write :: "(nat \<Rightarrow> u8 list \<Rightarrow> wres) \<Rightarrow> ('o, 'z) tcpchr_scheme \<Rightarrow> u8 list \<Rightarrow>
    (int \<times> ('o, 'z) tcpchr_scheme) option" where
  "tcp_chr_write w s buf = (if tcp_connected s then send_all w (tcp_fd s) buf s else Some (int (length buf), s))"

definition tcp_chr_read_poll :: "('o, 'z) tcpchr_scheme \<Rightarrow> (int \<times> ('o, 'z) tcpchr_scheme) res" where
  "tcp_chr_read_poll s =
     (if \<not> tcp_connected s then Inr (0, s)
      else rbind (qemu_chr_be_can_write s) (\<lambda>n. Inr (n, s\<lparr>tcp_max_size := n\<rparr>)))"

abbreviation (input) IAC :: u8 where "IAC \<equiv> 255"
abbreviation (input) IAC_BREAK :: u8 where "IAC_BREAK \<equiv> 243"

text \<open>
  \<open>tcp_chr_process_IAC_bytes\<close> works in place: \<open>i\<close> is the next byte, \<open>j\<close> the end of the bytes
  kept, \<open>n\<close> the number of bytes left.
\<close>

fun iac_loop :: "nat \<Rightarrow> nat \<Rightarrow> nat \<Rightarrow> u8 list \<Rightarrow> ('o, 'z) tcpchr_scheme \<Rightarrow> (u8 list \<times> nat \<times> ('o, 'z) tcpchr_scheme) res" where
  "iac_loop 0 i j buf s = Inr (buf, j, s)"
| "iac_loop (Suc n) i j buf s =
     rbind (arr_get buf i) (\<lambda>c.
     if 1 < do_telnetopt s then
       rbind (if c = IAC \<and> do_telnetopt s = 2 then
                rbind (if j \<noteq> i then arr_set buf j c else Inr buf) (\<lambda>buf.
                Inr (buf, j + 1, s\<lparr>do_telnetopt := 1\<rparr>))
              else
                rbind (if c = IAC_BREAK \<and> do_telnetopt s = 2 then
                         rbind (qemu_chr_be_event s CHR_EVENT_BREAK) (\<lambda>s. Inr (s\<lparr>do_telnetopt := do_telnetopt s + 1\<rparr>))
                       else Inr s) (\<lambda>s.
                Inr (buf, j, s\<lparr>do_telnetopt := do_telnetopt s + 1\<rparr>))) (\<lambda>(buf, j, s).
       iac_loop n (i + 1) j buf (if 4 \<le> do_telnetopt s then s\<lparr>do_telnetopt := 1\<rparr> else s))
     else if c = IAC then iac_loop n (i + 1) j buf (s\<lparr>do_telnetopt := 2\<rparr>)
     else
       rbind (if j \<noteq> i then arr_set buf j c else Inr buf) (\<lambda>buf.
       iac_loop n (i + 1) (j + 1) buf s))"

definition tcp_chr_process_IAC_bytes :: "('o, 'z) tcpchr_scheme \<Rightarrow> u8 list \<Rightarrow> nat \<Rightarrow>
    (u8 list \<times> nat \<times> ('o, 'z) tcpchr_scheme) res" where
  "tcp_chr_process_IAC_bytes s buf cnt = iac_loop cnt 0 0 buf s"

definition tcp_get_msgfd :: "('o, 'z) tcpchr_scheme \<Rightarrow> int \<times> ('o, 'z) tcpchr_scheme" where
  "tcp_get_msgfd s = (msgfd s, s\<lparr>msgfd := - 1\<rparr>)"

text \<open>The control messages: whether one passes a descriptor, and which.\<close>

fun unix_process_msgfd :: "(bool \<times> int) list \<Rightarrow> ('o, 'z) tcpchr_scheme \<Rightarrow> ('o, 'z) tcpchr_scheme" where
  "unix_process_msgfd [] s = s"
| "unix_process_msgfd ((rights, fd) # msgs) s =
     (if \<not> rights then unix_process_msgfd msgs s
      else if fd < 0 then unix_process_msgfd msgs s
      else unix_process_msgfd msgs ((if msgfd s \<noteq> - 1 then close_fd (msgfd s) s else s)\<lparr>msgfd := fd\<rparr>))"

definition tcp_chr_recv :: "(nat \<Rightarrow> rres \<times> (bool \<times> int) list) \<Rightarrow> nat \<Rightarrow> ('o, 'z) tcpchr_scheme \<Rightarrow>
    rres \<times> ('o, 'z) tcpchr_scheme" where
  "tcp_chr_recv ans len s =
     (case ans len of (r, msgs) \<Rightarrow>
      (r, case r of Got xs \<Rightarrow> if xs \<noteq> [] \<and> is_unix s then unix_process_msgfd msgs s else s | _ \<Rightarrow> s))"

definition tcp_chr_read :: "(nat \<Rightarrow> rres \<times> (bool \<times> int) list) \<Rightarrow> ('o, 'z) tcpchr_scheme \<Rightarrow> ('o, 'z) tcpchr_scheme res" where
  "tcp_chr_read ans s =
     (if \<not> tcp_connected s \<or> tcp_max_size s \<le> 0 then Inr s
      else
        case tcp_chr_recv ans (nat (min (int READ_BUF_LEN) (tcp_max_size s))) s of
          (Got xs, s) \<Rightarrow>
            if xs = [] then
              (let s = s\<lparr>tcp_connected := False\<rparr>;
                   s = (if 0 \<le> listen_fd s then set_watch (listen_fd s) (Some WatchAccept) s else s);
                   s = close_fd (tcp_fd s) (set_watch (tcp_fd s) None s)
               in qemu_chr_be_event (s\<lparr>tcp_fd := - 1\<rparr>) CHR_EVENT_CLOSED)
            else
              rbind (if do_telnetopt s \<noteq> 0 then tcp_chr_process_IAC_bytes s xs (length xs) else Inr (xs, length xs, s)) (\<lambda>(buf, size, s).
              if 0 < size then qemu_chr_be_write s (take size buf) else Inr s)
        | (_, s) \<Rightarrow> Inr s)"

definition tcp_chr_connect :: "('o, 'z) tcpchr_scheme \<Rightarrow> ('o, 'z) tcpchr_scheme" where
  "tcp_chr_connect s =
     (let s = s\<lparr>tcp_connected := True\<rparr>
      in qemu_chr_generic_open (if 0 \<le> tcp_fd s then set_watch (tcp_fd s) (Some WatchRead) s else s))"

text \<open>The four commands that put the client into binary mode, a character at a time, without echo.\<close>

definition tcp_chr_telnet_init :: "int \<Rightarrow> ('o, 'z) tcpchr_scheme \<Rightarrow> ('o, 'z) tcpchr_scheme" where
  "tcp_chr_telnet_init fd s =
     s\<lparr>h_sent := h_sent s @ [(fd, [0xff, 0xfb, 0x01]), (fd, [0xff, 0xfb, 0x03]), (fd, [0xff, 0xfb, 0x00]), (fd, [0xff, 0xfd, 0x00])]\<rparr>"

definition tcp_chr_add_client :: "('o, 'z) tcpchr_scheme \<Rightarrow> int \<Rightarrow> int \<times> ('o, 'z) tcpchr_scheme" where
  "tcp_chr_add_client s fd =
     (if tcp_fd s \<noteq> - 1 then (- 1, s)
      else (0, tcp_chr_connect (set_watch (listen_fd s) None (s\<lparr>tcp_fd := fd\<rparr>))))"

text \<open>
  What \<open>qemu_accept\<close> returns, call by call: a descriptor, a failure, or \<open>None\<close> when it was
  interrupted. The result is \<open>None\<close> while the loop still waits.
\<close>

fun tcp_chr_accept :: "int option list \<Rightarrow> ('o, 'z) tcpchr_scheme \<Rightarrow> ('o, 'z) tcpchr_scheme option" where
  "tcp_chr_accept [] s = None"
| "tcp_chr_accept (None # rest) s = tcp_chr_accept rest s"
| "tcp_chr_accept (Some fd # rest) s =
     (if fd < 0 then Some s
      else
        let s = (if do_telnetopt s \<noteq> 0 then tcp_chr_telnet_init fd s else s);
            (r, s) = tcp_chr_add_client s fd
        in Some (if r < 0 then close_fd fd s else s))"

definition tcp_chr_close :: "('o, 'z) tcpchr_scheme \<Rightarrow> ('o, 'z) tcpchr_scheme res" where
  "tcp_chr_close s =
     (let s = (if 0 \<le> tcp_fd s then close_fd (tcp_fd s) (set_watch (tcp_fd s) None s) else s);
          s = (if 0 \<le> listen_fd s then close_fd (listen_fd s) (set_watch (listen_fd s) None s) else s)
      in qemu_chr_be_event s CHR_EVENT_CLOSED)"

datatype sockname =
    AF_UNIX string
  | AF_INET string string
  | AF_INET6 string string
  | AF_OTHER

definition tcp_chr_zero :: "'o list \<Rightarrow> 'o tcpchr" where
  "tcp_chr_zero objs = \<lparr>heap = objs, opened = False, open_timer = False, hnd = null_handlers, handler_opaque = None,
     avail_connections = 0, h_watch = (\<lambda>_. None), h_nwrite = 0, h_sent = [], h_closed = [], tcp_fd = - 1, listen_fd = - 1,
     tcp_connected = False, tcp_max_size = 0, do_telnetopt = 0, do_nodelay = False, is_unix = False, msgfd = - 1,
     tcp_filename = None\<rparr>"

text \<open>The name of the device, cut to 255 characters; for another family it stays unset.\<close>

definition sock_named :: "sockname \<Rightarrow> bool \<Rightarrow> bool \<Rightarrow> bool \<Rightarrow> ('o, 'z) tcpchr_scheme \<Rightarrow> ('o, 'z) tcpchr_scheme" where
  "sock_named name nodelay is_listen is_telnet s =
     (let server = (if is_listen then '',server'' else []);
          proto = (if is_telnet then ''telnet'' else ''tcp'')
      in case name of
           AF_UNIX path \<Rightarrow> s\<lparr>is_unix := True, tcp_filename := Some (take 255 (''unix:'' @ path @ server))\<rparr>
         | AF_INET host serv \<Rightarrow>
             s\<lparr>do_nodelay := nodelay, tcp_filename := Some (take 255 (proto @ '':'' @ host @ '':'' @ serv @ server))\<rparr>
         | AF_INET6 host serv \<Rightarrow>
             s\<lparr>do_nodelay := nodelay, tcp_filename := Some (take 255 (proto @ '':['' @ host @ '']:'' @ serv @ server))\<rparr>
         | AF_OTHER \<Rightarrow> s)"

text \<open>The device, or none while it waits for the first client; \<open>Some None\<close> is the failure.\<close>

definition qemu_chr_open_socket_fd :: "'o list \<Rightarrow> sockname option \<Rightarrow> int option list \<Rightarrow> int \<Rightarrow> bool \<Rightarrow> bool \<Rightarrow> bool \<Rightarrow> bool \<Rightarrow>
    'o tcpchr option option" where
  "qemu_chr_open_socket_fd objs name acc fd nodelay is_listen is_telnet is_waitconnect =
     (case name of
        None \<Rightarrow> Some None
      | Some nm \<Rightarrow>
          (let s = sock_named nm nodelay is_listen is_telnet (tcp_chr_zero objs);
               s = (if is_listen then
                      (let s = set_watch fd (Some WatchAccept) (s\<lparr>listen_fd := fd\<rparr>)
                       in if is_telnet then s\<lparr>do_telnetopt := 1\<rparr> else s)
                    else tcp_chr_connect (s\<lparr>tcp_connected := True, tcp_fd := fd\<rparr>))
           in if is_listen \<and> is_waitconnect then map_option Some (tcp_chr_accept acc s) else Some (Some s)))"

text \<open>The options; \<open>so_fd server unix\<close> is the descriptor that listening or connecting gives.\<close>

record sock_opts =
  so_server :: bool
  so_wait :: bool
  so_telnet :: bool
  so_delay :: bool
  so_path :: bool

definition qemu_chr_open_socket :: "'o list \<Rightarrow> sock_opts \<Rightarrow> (bool \<Rightarrow> bool \<Rightarrow> int) \<Rightarrow> sockname option \<Rightarrow> int option list \<Rightarrow>
    ('o tcpchr option \<times> int list) option" where
  "qemu_chr_open_socket objs o' mkfd name acc =
     (let is_listen = so_server o';
          fd = mkfd is_listen (so_path o')
      in if fd < 0 then Some (None, [])
         else
           case qemu_chr_open_socket_fd objs name acc fd (\<not> so_delay o') is_listen (so_telnet o') (is_listen \<and> so_wait o') of
             None \<Rightarrow> None
           | Some None \<Rightarrow> Some (None, [fd])
           | Some (Some s) \<Rightarrow> Some (Some s, []))"

end
