(* ===== verification/Chardev_Stream.thy ===== *)
theory Chardev_Stream
  imports Chardev_Host
begin

text \<open>
  Bytes through the descriptor backends. Output: \<open>send_all\<close> ends unless the descriptor refuses for
  ever, and then has written the buffer from its beginning. Input: the contract \<open>input_backend\<close>
  between a backend and the main loop, its interpretation on the backends of \<open>Chardev_Host\<close> over any
  frontend, and what it gives for any run of the main loop.
\<close>

section \<open>Output\<close>

definition keeps_trying :: "(nat \<Rightarrow> u8 list \<Rightarrow> wres) \<Rightarrow> bool" where
  "keeps_trying w \<longleftrightarrow> (\<forall>n. \<exists>m\<ge>n. \<forall>b. w m b \<noteq> WAgain)"

text \<open>What a \<open>write\<close> takes is part of what it was given.\<close>

definition write_sane :: "(nat \<Rightarrow> u8 list \<Rightarrow> wres) \<Rightarrow> bool" where
  "write_sane w \<longleftrightarrow> (\<forall>n b k. w n b = Wrote k \<longrightarrow> k \<le> length b)"

lemma send_loop_waits:
  assumes "\<And>i. n \<le> i \<Longrightarrow> i < m \<Longrightarrow> w i buf = WAgain" and "n \<le> m" and "buf \<noteq> []"
  shows "send_loop w n buf sent = send_loop w m buf sent"
  using assms
proof (induction "m - n" arbitrary: n)
  case (Suc d)
  have "send_loop w n buf sent = send_loop w (n + 1) buf sent"
    using Suc.prems(1) [of n] Suc.hyps(2) assms(3) by (subst send_loop.simps) simp
  also have "\<dots> = send_loop w m buf sent"
    by (rule Suc.hyps(1)) (use Suc in auto)
  finally show ?case .
qed simp

definition loop_done :: "(nat \<Rightarrow> u8 list \<Rightarrow> wres) \<Rightarrow> u8 list \<Rightarrow> u8 list \<Rightarrow> int \<times> nat \<times> u8 list \<Rightarrow> bool" where
  "loop_done w buf sent x \<longleftrightarrow> (case x of (r, n', out) \<Rightarrow>
     (\<exists>k \<le> length buf. out = sent @ take k buf \<and> (r = - 1 \<or> r = int (length sent + k))) \<and>
     ((\<forall>m b. b \<noteq> [] \<longrightarrow> w m b \<noteq> WFail \<and> w m b \<noteq> Wrote 0) \<longrightarrow> out = sent @ buf \<and> r = int (length out)))"

lemma loop_done_step:
  assumes "loop_done w (drop k buf) (sent @ take k buf) x" and "k \<le> length buf"
  shows "loop_done w buf sent x"
proof -
  obtain r n' out where x: "x = (r, n', out)" by (metis prod_cases3)
  from assms(1) obtain j where j: "j \<le> length buf - k" "out = (sent @ take k buf) @ take j (drop k buf)"
      "r = - 1 \<or> r = int (length (sent @ take k buf) + j)"
    by (auto simp: x loop_done_def)
  then have "k + j \<le> length buf \<and> out = sent @ take (k + j) buf \<and> (r = - 1 \<or> r = int (length sent + (k + j)))"
    using assms(2) by (auto simp: take_add)
  with assms(1) show ?thesis by (auto simp: x loop_done_def)
qed

lemma send_loop_returns:
  assumes "keeps_trying w" and "write_sane w"
  shows "\<exists>x. send_loop w n buf sent = Some x \<and> loop_done w buf sent x"
proof (induction "length buf" arbitrary: n buf sent rule: less_induct)
  case less
  show ?case
  proof (cases "buf = []")
    case True
    then show ?thesis by (subst send_loop.simps) (simp add: loop_done_def)
  next
    case False
    define P where "P m \<longleftrightarrow> n \<le> m \<and> w m buf \<noteq> WAgain" for m
    have "\<exists>m. P m" using assms(1) by (auto simp: keeps_trying_def P_def)
    define m where "m = (LEAST m. P m)"
    have m: "n \<le> m" "w m buf \<noteq> WAgain"
      using LeastI_ex [OF \<open>\<exists>m. P m\<close>] by (simp_all add: m_def P_def)
    have start: "send_loop w n buf sent = send_loop w m buf sent"
    proof (rule send_loop_waits)
      show "w i buf = WAgain" if "n \<le> i" "i < m" for i
        using not_less_Least [of i P] that by (simp add: m_def P_def)
    qed (use m(1) False in simp_all)
    show ?thesis
    proof (cases "w m buf")
      case WFail
      then have "send_loop w m buf sent = Some (- 1, m + 1, sent)" using False by (subst send_loop.simps) simp
      moreover have "\<not> (\<forall>m b. b \<noteq> [] \<longrightarrow> w m b \<noteq> WFail \<and> w m b \<noteq> Wrote 0)" using False WFail by blast
      ultimately show ?thesis using start by (auto simp: loop_done_def intro: exI [of _ 0])
    next
      case WAgain
      with m show ?thesis by simp
    next
      case (Wrote k)
      show ?thesis
      proof (cases "k = 0")
        case True
        then have "send_loop w m buf sent = Some (int (length sent), m + 1, sent)"
          using False Wrote by (subst send_loop.simps) simp
        moreover have "\<not> (\<forall>m b. b \<noteq> [] \<longrightarrow> w m b \<noteq> WFail \<and> w m b \<noteq> Wrote 0)" using False Wrote True by blast
        ultimately show ?thesis using start by (auto simp: loop_done_def intro: exI [of _ 0])
      next
        case k: False
        have len: "k \<le> length buf" using assms(2) Wrote by (auto simp: write_sane_def)
        have step: "send_loop w m buf sent = send_loop w (m + 1) (drop k buf) (sent @ take k buf)"
          using False Wrote k by (subst send_loop.simps) simp
        have "length (drop k buf) < length buf" using False k by simp
        from less [OF this, of "m + 1" "sent @ take k buf"] loop_done_step [OF _ len] show ?thesis
          unfolding start step by blast
      qed
    qed
  qed
qed

lemma send_loop_stuck:
  assumes "send_loop w n buf sent = Some y" and "\<And>m. n \<le> m \<Longrightarrow> w m buf = WAgain" and "buf \<noteq> []"
  shows False
proof -
  have "buf \<noteq> [] \<longrightarrow> (\<exists>m\<ge>n. w m buf \<noteq> WAgain)"
    by (rule send_loop.raw_induct [OF _ assms(1)]) (auto split: wres.splits if_splits, (metis Suc_leD)+)
  with assms(2,3) show False by auto
qed

section \<open>Input\<close>

text \<open>
  The main loop: in each turn it polls the backend, and when this takes bytes and \<open>k\<close> of what the
  other side has sent are there, it calls the read handler. The result has what is left of the
  other side's bytes.
\<close>

fun main_loop :: "('s \<Rightarrow> (int \<times> 's) res) \<Rightarrow> ((nat \<Rightarrow> rres) \<Rightarrow> 's \<Rightarrow> 's res) \<Rightarrow> ('s \<Rightarrow> nat) \<Rightarrow> nat list \<Rightarrow> u8 list \<Rightarrow> 's \<Rightarrow>
    ('s \<times> u8 list) res" where
  "main_loop poll rd limit [] stream s = Inr (s, stream)"
| "main_loop poll rd limit (k # ks) stream s =
     rbind (poll s) (\<lambda>(n, s).
     let xs = take (min k (limit s)) stream
     in if n \<le> 0 \<or> xs = [] then main_loop poll rd limit ks stream s
        else rbind (rd (\<lambda>len. Got (take len (take k stream))) s) (\<lambda>s'.
             main_loop poll rd limit ks (drop (min k (limit s)) stream) s'))"

text \<open>
  \<open>limit\<close> is the size that the backend asks of \<open>read\<close> when it is \<open>ready\<close>, \<open>abs\<close> what the
  frontend has got, or will get, and \<open>feed\<close> what the bytes read add to it.
\<close>

locale input_backend =
  fixes poll :: "'s \<Rightarrow> (int \<times> 's) res"
    and rdh :: "(nat \<Rightarrow> rres) \<Rightarrow> 's \<Rightarrow> 's res"
    and ok :: "'s \<Rightarrow> bool"
    and ready :: "'s \<Rightarrow> bool"
    and limit :: "'s \<Rightarrow> nat"
    and abst :: "'s \<Rightarrow> 'a"
    and feed :: "'a \<Rightarrow> u8 list \<Rightarrow> 'a"
    and legal :: "'a \<Rightarrow> u8 list \<Rightarrow> bool"
  assumes poll_ok: "ok s \<Longrightarrow> \<exists>n s'. poll s = Inr (n, s') \<and> ok s' \<and> abst s' = abst s \<and> (0 < n \<longrightarrow> ready s')"
    and limit_pos: "ready s \<Longrightarrow> 0 < limit s"
    and read_ok: "ok s \<Longrightarrow> ready s \<Longrightarrow> xs \<noteq> [] \<Longrightarrow> length xs \<le> limit s \<Longrightarrow> legal (abst s) xs \<Longrightarrow> ans (limit s) = Got xs \<Longrightarrow>
      \<exists>s'. rdh ans s = Inr s' \<and> ok s' \<and> abst s' = feed (abst s) xs"
    and feed_nil: "feed a [] = a"
    and feed_append: "feed (feed a xs) ys = feed a (xs @ ys)"
    and legal_append: "legal a (xs @ ys) \<longleftrightarrow> legal a xs \<and> legal (feed a xs) ys"
begin

text \<open>
  However the bytes come, what the frontend gets is the same: nothing is lost, added or reordered.
  A turn in which the backend takes bytes and there are some makes progress.
\<close>

lemma main_loop_feeds:
  assumes "ok s" and "legal (abst s) stream"
  shows "\<exists>s' got rest. main_loop poll rdh limit ks stream s = Inr (s', rest) \<and> ok s' \<and> stream = got @ rest \<and>
    abst s' = feed (abst s) got \<and>
    (\<forall>n t. ks \<noteq> [] \<and> 0 < hd ks \<and> stream \<noteq> [] \<and> poll s = Inr (n, t) \<and> 0 < n \<longrightarrow> got \<noteq> [])"
  using assms
proof (induction ks arbitrary: s stream)
  case Nil
  then show ?case by (simp add: feed_nil)
next
  case (Cons k ks)
  obtain n s1 where p: "poll s = Inr (n, s1)" "ok s1" "abst s1 = abst s" "0 < n \<longrightarrow> ready s1"
    using poll_ok [OF Cons.prems(1)] by blast
  let ?xs = "take (min k (limit s1)) stream" and ?ys = "drop (min k (limit s1)) stream"
  show ?case
  proof (cases "n \<le> 0 \<or> ?xs = []")
    case True
    have idle: "\<not> (0 < k \<and> stream \<noteq> [] \<and> 0 < n)" using True p(4) limit_pos [of s1] by auto
    obtain s' got rest where "main_loop poll rdh limit ks stream s1 = Inr (s', rest)" "ok s'" "stream = got @ rest"
        "abst s' = feed (abst s) got"
      using Cons.IH [OF p(2), of stream] p(3) Cons.prems(2) by metis
    with True idle p(1) show ?thesis by auto
  next
    case False
    have split: "stream = ?xs @ ?ys" by simp
    have legal: "legal (abst s1) ?xs" "legal (feed (abst s1) ?xs) ?ys"
      using Cons.prems(2) p(3) split legal_append by metis+
    have ans: "Got (take (limit s1) (take k stream)) = Got ?xs" by (simp add: min.commute)
    have len: "length ?xs \<le> limit s1" by simp
    obtain s2 where r: "rdh (\<lambda>len. Got (take len (take k stream))) s1 = Inr s2" "ok s2" "abst s2 = feed (abst s1) ?xs"
      using read_ok [OF p(2) _ _ len legal(1), of "\<lambda>len. Got (take len (take k stream))"] ans False p(4) by (meson not_le)
    obtain s' got rest where "main_loop poll rdh limit ks ?ys s2 = Inr (s', rest)" "ok s'" "?ys = got @ rest"
        "abst s' = feed (abst s2) got"
      using Cons.IH [OF r(2), of ?ys] legal(2) unfolding r(3) by blast
    then have "main_loop poll rdh limit (k # ks) stream s = Inr (s', rest)" "stream = (?xs @ got) @ rest"
        "abst s' = feed (abst s) (?xs @ got)"
      using False p(1,3) r(1,3) split by (auto simp: feed_append)
    with \<open>ok s'\<close> False show ?thesis by blast
  qed
qed

end

section \<open>The descriptor and the standard input\<close>

definition fd_ready :: "('o \<Rightarrow> int) \<Rightarrow> ('o, 'z) fdchr_scheme \<Rightarrow> bool" where
  "fd_ready cr s \<longleftrightarrow> fd_max_size s = cr (frontend s) \<and> 0 < fd_max_size s"

definition fd_limit :: "('o, 'z) fdchr_scheme \<Rightarrow> nat" where
  "fd_limit s = nat (min (int READ_BUF_LEN) (fd_max_size s))"

lemma frontend_max [simp]: "frontend (s\<lparr>fd_max_size := n\<rparr>) = frontend s"
  "served cr rd ev lok (s\<lparr>fd_max_size := n\<rparr>) = served cr rd ev lok s"
  by (simp_all add: frontend_def served_def)

definition stdio_ok :: "('o \<Rightarrow> int) \<Rightarrow> ('o \<Rightarrow> u8 list \<Rightarrow> 'o res) \<Rightarrow> ('o \<Rightarrow> chr_event \<Rightarrow> 'o res) \<Rightarrow> ('o \<Rightarrow> bool) \<Rightarrow>
    ('o, 'z) stdiochr_scheme \<Rightarrow> bool" where
  "stdio_ok cr rd ev lok s \<longleftrightarrow> served cr rd ev lok s \<and> length (term_fifo s) = 1 \<and> term_fifo_size s \<le> 1"

definition stdio_got :: "('o \<Rightarrow> u8 list) \<Rightarrow> ('o, 'z) stdiochr_scheme \<Rightarrow> u8 list" where
  "stdio_got recv s = recv (frontend s) @ take (term_fifo_size s) (term_fifo s)"

lemma frontend_fifo [simp]:
  "frontend (s\<lparr>term_fifo_size := n\<rparr>) = frontend s" "frontend (s\<lparr>term_fifo := q, term_fifo_size := n\<rparr>) = frontend s"
  "frontend (s\<lparr>term_fifo := q\<rparr>) = frontend s" "served cr rd ev lok (s\<lparr>term_fifo := q\<rparr>) = served cr rd ev lok s"
  "served cr rd ev lok (s\<lparr>term_fifo_size := n\<rparr>) = served cr rd ev lok s"
  "served cr rd ev lok (s\<lparr>term_fifo := q, term_fifo_size := n\<rparr>) = served cr rd ev lok s"
  "term_fifo (put_frontend y t) = term_fifo t" "term_fifo_size (put_frontend y t) = term_fifo_size t"
  by (simp_all add: frontend_def served_def put_frontend_def)

context chr_taker
begin

lemma fd_backend: "input_backend fd_chr_read_poll fd_chr_read (served cr rd ev lok) (fd_ready cr) fd_limit
    (\<lambda>s. recv (frontend s)) (@) (\<lambda>_ _. True)"
proof unfold_locales
  fix s :: "('o, 'z) fdchr_scheme"
  assume s: "served cr rd ev lok s"
  then show "\<exists>n s'. fd_chr_read_poll s = Inr (n, s') \<and> served cr rd ev lok s' \<and> recv (frontend s') = recv (frontend s) \<and>
      (0 < n \<longrightarrow> fd_ready cr s')"
    by (simp add: fd_chr_read_poll_def can_write fd_ready_def)
  fix xs and ans :: "nat \<Rightarrow> rres"
  assume "fd_ready cr s" "xs \<noteq> []" "length xs \<le> fd_limit s" "ans (fd_limit s) = Got xs"
  moreover from this have "int (length xs) \<le> cr (frontend s)" by (auto simp: fd_ready_def fd_limit_def)
  moreover from be_write [OF s \<open>xs \<noteq> []\<close> this] obtain y where
    "qemu_chr_be_write s xs = Inr (put_frontend y s)" "lok y" "recv y = recv (frontend s) @ xs" by blast
  ultimately show "\<exists>s'. fd_chr_read ans s = Inr s' \<and> served cr rd ev lok s' \<and> recv (frontend s') = recv (frontend s) @ xs"
    using served_put [OF s] by (auto simp: fd_chr_read_def fd_limit_def fd_ready_def Let_def)
qed (simp_all add: fd_ready_def fd_limit_def)

lemma stdio_poll:
  assumes "stdio_ok cr rd ev lok s"
  shows "\<exists>n s'. stdio_read_poll s = Inr (n, s') \<and> stdio_ok cr rd ev lok s' \<and> stdio_got recv s' = stdio_got recv s \<and>
    (0 < n \<longrightarrow> term_fifo_size s' = 0)"
proof -
  have s: "served cr rd ev lok s" "length (term_fifo s) = 1" "term_fifo_size s \<le> 1" using assms by (simp_all add: stdio_ok_def)
  show ?thesis
  proof (cases "term_fifo_size s \<noteq> 0 \<and> 0 < cr (frontend s)")
    case True
    obtain c where c: "term_fifo s = [c]" using s(2) by (cases "term_fifo s") auto
    obtain y where w: "qemu_chr_be_write s [c] = Inr (put_frontend y s)" "lok y" "recv y = recv (frontend s) @ [c]"
      using be_write [OF s(1), of "[c]"] True by auto
    have "stdio_read_poll s = Inr (1, (put_frontend y s)\<lparr>term_fifo_size := 0\<rparr>)"
      using True c w(1) by (simp add: stdio_read_poll_def can_write [OF s(1)])
    with True c w(2,3) served_put [OF s(1) w(2)] s(3) show ?thesis by (simp add: stdio_ok_def stdio_got_def)
  next
    case False
    then have "stdio_read_poll s = Inr (if term_fifo_size s = 0 then 1 else 0, s)"
      by (auto simp: stdio_read_poll_def can_write [OF s(1)])
    with assms show ?thesis by simp
  qed
qed

lemma stdio_backend: "input_backend stdio_read_poll stdio_read (stdio_ok cr rd ev lok) (\<lambda>s. term_fifo_size s = 0) (\<lambda>_. 1)
    (stdio_got recv) (@) (\<lambda>_ _. True)"
proof unfold_locales
  fix s :: "('o, 'z) stdiochr_scheme"
  assume ok: "stdio_ok cr rd ev lok s"
  then show "\<exists>n s'. stdio_read_poll s = Inr (n, s') \<and> stdio_ok cr rd ev lok s' \<and> stdio_got recv s' = stdio_got recv s \<and>
      (0 < n \<longrightarrow> term_fifo_size s' = 0)" by (rule stdio_poll)
  fix xs and ans :: "nat \<Rightarrow> rres"
  assume a: "term_fifo_size s = 0" "xs \<noteq> []" "length xs \<le> 1" "ans 1 = Got xs"
  then obtain c where xs: "xs = [c]" by (cases xs) auto
  have s: "served cr rd ev lok s" "length (term_fifo s) = 1" using ok by (simp_all add: stdio_ok_def)
  show "\<exists>s'. stdio_read ans s = Inr s' \<and> stdio_ok cr rd ev lok s' \<and> stdio_got recv s' = stdio_got recv s @ xs"
  proof (cases "0 < cr (frontend s)")
    case True
    then obtain y where w: "qemu_chr_be_write s [c] = Inr (put_frontend y s)" "lok y" "recv y = recv (frontend s) @ [c]"
      using be_write [OF s(1), of "[c]"] by auto
    with True a xs s served_put [OF s(1) w(2)] show ?thesis
      by (simp add: stdio_read_def can_write [OF s(1)] stdio_ok_def stdio_got_def)
  next
    case False
    have "(term_fifo s)[0 := c] = [c]" using s(2) by (cases "term_fifo s") auto
    with False a xs s ok show ?thesis
      by (simp add: stdio_read_def can_write [OF s(1)] stdio_ok_def stdio_got_def)
  qed
qed simp_all

end

text \<open>The two backends over any such frontend.\<close>

sublocale chr_taker \<subseteq> fd: input_backend fd_chr_read_poll fd_chr_read "served cr rd ev lok" "fd_ready cr" fd_limit
    "\<lambda>s. recv (frontend s)" "(@)" "\<lambda>_ _. True"
  by (rule fd_backend)

sublocale chr_taker \<subseteq> stdio: input_backend stdio_read_poll stdio_read "stdio_ok cr rd ev lok" "\<lambda>s. term_fifo_size s = 0"
    "\<lambda>_. 1" "stdio_got recv" "(@)" "\<lambda>_ _. True"
  by (rule stdio_backend)

end
