(* ===== verification/Chardev_Net_Inv.thy ===== *)
theory Chardev_Net_Inv
  imports Chardev_Net Chardev_Stream
begin

text \<open>
  The backends of \<open>Chardev_Net\<close> satisfy the contract of the main loop. For the socket the telnet
  commands are taken out first: \<open>telnet_decode\<close> is what they mean, a function of the mode and the
  bytes that does not depend on how the bytes were cut into reads. A UDP socket takes one datagram at
  a turn, cut at the size of its buffer (\<open>dgram_loop\<close>).
\<close>

section \<open>The pseudo terminal and the UDP socket\<close>

definition pty_ready :: "('o \<Rightarrow> int) \<Rightarrow> ('o, 'z) ptychr_scheme \<Rightarrow> bool" where
  "pty_ready cr s \<longleftrightarrow> pty_read_bytes s = cr (frontend s) \<and> 0 < pty_read_bytes s"

definition pty_limit :: "('o, 'z) ptychr_scheme \<Rightarrow> nat" where
  "pty_limit s = nat (min (int READ_BUF_LEN) (pty_read_bytes s))"

lemma frontend_pty [simp]:
  "frontend (s\<lparr>pty_read_bytes := n\<rparr>) = frontend s" "served cr rd ev lok (s\<lparr>pty_read_bytes := n\<rparr>) = served cr rd ev lok s"
  "frontend (pty_chr_state now s True) = frontend s" "served cr rd ev lok (pty_chr_state now s True) = served cr rd ev lok s"
  by (simp_all add: frontend_def served_def pty_chr_state_def qemu_chr_generic_open_def)

definition udp_ok :: "('o \<Rightarrow> int) \<Rightarrow> ('o \<Rightarrow> u8 list \<Rightarrow> 'o res) \<Rightarrow> ('o \<Rightarrow> chr_event \<Rightarrow> 'o res) \<Rightarrow> ('o \<Rightarrow> bool) \<Rightarrow>
    ('o, 'z) udpchr_scheme \<Rightarrow> bool" where
  "udp_ok cr rd ev lok s \<longleftrightarrow> served cr rd ev lok s \<and> length (udp_buf s) = READ_BUF_LEN \<and> bufcnt s \<le> int READ_BUF_LEN \<and>
     (bufptr s = bufcnt s \<or> 0 \<le> bufptr s \<and> bufptr s \<le> bufcnt s)"

text \<open>What waits in the buffer.\<close>

definition udp_rest :: "('o, 'z) udpchr_scheme \<Rightarrow> u8 list" where
  "udp_rest s = drop (nat (bufptr s)) (take (nat (bufcnt s)) (udp_buf s))"

lemma frontend_udp [simp]:
  "frontend (s\<lparr>udp_max_size := n\<rparr>) = frontend s" "served cr rd ev lok (s\<lparr>udp_max_size := n\<rparr>) = served cr rd ev lok s"
  "frontend (s\<lparr>bufptr := i\<rparr>) = frontend s" "served cr rd ev lok (s\<lparr>bufptr := i\<rparr>) = served cr rd ev lok s"
  "frontend (s\<lparr>bufptr := i, udp_max_size := n\<rparr>) = frontend s"
  "served cr rd ev lok (s\<lparr>bufptr := i, udp_max_size := n\<rparr>) = served cr rd ev lok s"
  "frontend (s\<lparr>udp_buf := b, bufcnt := j, bufptr := i\<rparr>) = frontend s"
  "served cr rd ev lok (s\<lparr>udp_buf := b, bufcnt := j, bufptr := i\<rparr>) = served cr rd ev lok s"
  "frontend (s\<lparr>udp_buf := b, bufcnt := j\<rparr>) = frontend s" "frontend (s\<lparr>bufcnt := j\<rparr>) = frontend s"
  "served cr rd ev lok (s\<lparr>udp_buf := b, bufcnt := j\<rparr>) = served cr rd ev lok s"
  "served cr rd ev lok (s\<lparr>bufcnt := j\<rparr>) = served cr rd ev lok s"
  "frontend (s\<lparr>udp_buf := b\<rparr>) = frontend s" "served cr rd ev lok (s\<lparr>udp_buf := b\<rparr>) = served cr rd ev lok s"
  by (simp_all add: frontend_def served_def)

lemma udp_rest_max [simp]: "udp_rest (s\<lparr>udp_max_size := n\<rparr>) = udp_rest s"
  by (simp add: udp_rest_def)

lemma udp_rest_next:
  assumes "length (udp_buf s) = READ_BUF_LEN" and "bufcnt s \<le> int READ_BUF_LEN" and "0 \<le> bufptr s" and "bufptr s < bufcnt s"
  shows "udp_rest s = udp_buf s ! nat (bufptr s) # drop (nat (bufptr s + 1)) (take (nat (bufcnt s)) (udp_buf s))"
proof -
  have i: "nat (bufptr s) < length (take (nat (bufcnt s)) (udp_buf s))" using assms by simp
  have "nat (bufptr s + 1) = Suc (nat (bufptr s))" using assms(3) by simp
  with Cons_nth_drop_Suc [OF i] assms(3,4) show ?thesis by (simp add: udp_rest_def)
qed

context chr_taker
begin

lemma pty_backend: "input_backend pty_chr_read_poll (pty_chr_read now) (served cr rd ev lok) (pty_ready cr) pty_limit
    (\<lambda>s. recv (frontend s)) (@) (\<lambda>_ _. True)"
proof unfold_locales
  fix s :: "('o, 'z) ptychr_scheme"
  assume s: "served cr rd ev lok s"
  then show "\<exists>n s'. pty_chr_read_poll s = Inr (n, s') \<and> served cr rd ev lok s' \<and> recv (frontend s') = recv (frontend s) \<and>
      (0 < n \<longrightarrow> pty_ready cr s')"
    by (simp add: pty_chr_read_poll_def can_write pty_ready_def)
  fix xs and ans :: "nat \<Rightarrow> rres"
  assume a: "pty_ready cr s" "xs \<noteq> []" "length xs \<le> pty_limit s" "ans (pty_limit s) = Got xs"
  have s': "served cr rd ev lok (pty_chr_state now s True)" using s by simp
  have "int (length xs) \<le> cr (frontend (pty_chr_state now s True))" using a by (auto simp: pty_ready_def pty_limit_def)
  from be_write [OF s' a(2) this] obtain y where
    "qemu_chr_be_write (pty_chr_state now s True) xs = Inr (put_frontend y (pty_chr_state now s True))" "lok y"
    "recv y = recv (frontend s) @ xs" by auto
  with a show "\<exists>s'. pty_chr_read now ans s = Inr s' \<and> served cr rd ev lok s' \<and> recv (frontend s') = recv (frontend s) @ xs"
    using served_put [OF s'] by (auto simp: pty_chr_read_def pty_limit_def pty_ready_def Let_def)
qed (simp_all add: pty_ready_def pty_limit_def)

lemma udp_drain_ok:
  assumes "udp_ok cr rd ev lok s" and "n = nat (bufcnt s - bufptr s)" and "udp_max_size s = cr (frontend s)"
  shows "\<exists>s'. udp_drain n s = Inr s' \<and> udp_ok cr rd ev lok s' \<and> recv (frontend s') @ udp_rest s' = recv (frontend s) @ udp_rest s \<and>
    udp_max_size s' = cr (frontend s') \<and> (0 < udp_max_size s' \<longrightarrow> udp_rest s' = [])"
  using assms
proof (induction n arbitrary: s)
  case 0
  then show ?case by (auto simp: udp_ok_def udp_rest_def)
next
  case (Suc n)
  note ok = Suc.prems(1) [unfolded udp_ok_def]
  show ?case
  proof (cases "0 < udp_max_size s")
    case False
    then have "udp_drain (Suc n) s = Inr s" by simp
    moreover have "\<not> 0 < cr (frontend s)" using False Suc.prems(3) by simp
    ultimately show ?thesis using Suc.prems(1,3) by auto
  next
    case True
    have ptr: "0 \<le> bufptr s" "bufptr s < bufcnt s" using ok Suc.prems(2) by auto
    then have c: "nat (bufptr s) < length (udp_buf s)" using ok by linarith
    let ?c = "udp_buf s ! nat (bufptr s)"
    obtain y where w: "qemu_chr_be_write s [?c] = Inr (put_frontend y s)" "lok y" "recv y = recv (frontend s) @ [?c]"
      using be_write [of s "[?c]"] ok True Suc.prems(3) by auto
    let ?t = "(put_frontend y s)\<lparr>bufptr := bufptr s + 1\<rparr>"
    have t: "served cr rd ev lok ?t" "frontend ?t = y" using served_put [of s y] ok w(2) by simp_all
    let ?u = "?t\<lparr>udp_max_size := cr y\<rparr>"
    have fields: "udp_buf ?u = udp_buf s" "bufcnt ?u = bufcnt s" "bufptr ?u = bufptr s + 1"
      by (simp_all add: put_frontend_def)
    have u: "udp_ok cr rd ev lok ?u" using t(1) ok ptr fields unfolding udp_ok_def by simp
    have un: "n = nat (bufcnt ?u - bufptr ?u)" using Suc.prems(2) fields(2,3) by simp
    have um: "udp_max_size ?u = cr (frontend ?u)" using t(2) by simp
    have run: "udp_drain (Suc n) s = udp_drain n ?u"
      using True c w(1) can_write [OF t(1)] t(2) by (simp add: put_frontend_def)
    have "recv (frontend ?u) @ udp_rest ?u = recv (frontend s) @ udp_rest s"
      using udp_rest_next [of s] ok ptr w(3) t(2) by (simp add: udp_rest_def put_frontend_def)
    with Suc.IH [OF u un um] run show ?thesis by simp
  qed
qed

lemma udp_backend: "input_backend udp_chr_read_poll udp_chr_read (udp_ok cr rd ev lok)
    (\<lambda>s. udp_rest s = [] \<and> udp_max_size s = cr (frontend s) \<and> 0 < udp_max_size s) (\<lambda>_. READ_BUF_LEN)
    (\<lambda>s. recv (frontend s) @ udp_rest s) (@) (\<lambda>_ _. True)"
proof unfold_locales
  fix s :: "('o, 'z) udpchr_scheme"
  assume ok: "udp_ok cr rd ev lok s"
  then have served: "served cr rd ev lok s" by (simp add: udp_ok_def)
  let ?s = "s\<lparr>udp_max_size := cr (frontend s)\<rparr>"
  have "udp_ok cr rd ev lok ?s" using ok by (simp add: udp_ok_def)
  then obtain s' where "udp_drain (nat (bufcnt s - bufptr s)) ?s = Inr s'" "udp_ok cr rd ev lok s'"
      "recv (frontend s') @ udp_rest s' = recv (frontend s) @ udp_rest s"
      "udp_max_size s' = cr (frontend s') \<and> (0 < udp_max_size s' \<longrightarrow> udp_rest s' = [])"
    using udp_drain_ok [of ?s] by auto
  then show "\<exists>n s'. udp_chr_read_poll s = Inr (n, s') \<and> udp_ok cr rd ev lok s' \<and>
      recv (frontend s') @ udp_rest s' = recv (frontend s) @ udp_rest s \<and>
      (0 < n \<longrightarrow> udp_rest s' = [] \<and> udp_max_size s' = cr (frontend s') \<and> 0 < udp_max_size s')"
    by (simp add: udp_chr_read_poll_def can_write [OF served])
  fix xs and ans :: "nat \<Rightarrow> rres"
  assume r: "udp_rest s = [] \<and> udp_max_size s = cr (frontend s) \<and> 0 < udp_max_size s"
    and xs: "xs \<noteq> []" "length xs \<le> READ_BUF_LEN" "ans READ_BUF_LEN = Got xs"
  let ?t = "s\<lparr>udp_buf := xs @ drop (length xs) (udp_buf s), bufcnt := int (length xs), bufptr := 0\<rparr>"
  have t: "udp_ok cr rd ev lok ?t" using ok xs by (simp add: udp_ok_def)
  have "recv (frontend ?t) @ udp_rest ?t = recv (frontend s) @ xs" by (simp add: udp_rest_def)
  with udp_drain_ok [OF t, of "length xs"] r xs
  show "\<exists>s'. udp_chr_read ans s = Inr s' \<and> udp_ok cr rd ev lok s' \<and>
      recv (frontend s') @ udp_rest s' = (recv (frontend s) @ udp_rest s) @ xs"
    by (auto simp: udp_chr_read_def)
qed simp_all

end

sublocale chr_taker \<subseteq> pty: input_backend pty_chr_read_poll "pty_chr_read now" "served cr rd ev lok" "pty_ready cr" pty_limit
    "\<lambda>s. recv (frontend s)" "(@)" "\<lambda>_ _. True" for now
  by (rule pty_backend)

sublocale chr_taker \<subseteq> udp: input_backend udp_chr_read_poll udp_chr_read "udp_ok cr rd ev lok"
    "\<lambda>s. udp_rest s = [] \<and> udp_max_size s = cr (frontend s) \<and> 0 < udp_max_size s" "\<lambda>_. READ_BUF_LEN"
    "\<lambda>s. recv (frontend s) @ udp_rest s" "(@)" "\<lambda>_ _. True"
  by (rule udp_backend)

section \<open>Datagrams\<close>

text \<open>
  The other side of a UDP socket sends datagrams, not a stream: a read takes the next one, and what does not
  fit the buffer is gone. In each turn the main loop polls; \<open>there\<close> says whether a datagram has come in.
\<close>

fun dgram_loop :: "bool list \<Rightarrow> u8 list list \<Rightarrow> ('o, 'z) udpchr_scheme \<Rightarrow> (('o, 'z) udpchr_scheme \<times> u8 list list) res" where
  "dgram_loop [] ds s = Inr (s, ds)"
| "dgram_loop (there # ts) ds s =
     rbind (udp_chr_read_poll s) (\<lambda>(n, s).
     if n \<le> 0 \<or> \<not> there \<or> ds = [] then dgram_loop ts ds s
     else rbind (udp_chr_read (\<lambda>len. Got (take len (hd ds))) s) (\<lambda>s. dgram_loop ts (tl ds) s))"

context chr_taker
begin

lemma udp_poll_now:
  assumes "udp_ok cr rd ev lok s" and "udp_rest s = []"
  shows "udp_chr_read_poll s = Inr (cr (frontend s), s\<lparr>udp_max_size := cr (frontend s)\<rparr>)"
proof -
  have s: "served cr rd ev lok s" using assms(1) by (simp add: udp_ok_def)
  have "nat (bufcnt s - bufptr s) = 0" using assms by (auto simp: udp_ok_def udp_rest_def)
  then show ?thesis by (simp add: udp_chr_read_poll_def can_write [OF s])
qed

lemma udp_takes_datagram:
  assumes "udp_ok cr rd ev lok s" and "udp_rest s = []" and "udp_max_size s = cr (frontend s)" and "0 < udp_max_size s"
  shows "\<exists>t. udp_chr_read (\<lambda>len. Got (take len d)) s = Inr t \<and> udp_ok cr rd ev lok t \<and>
    recv (frontend t) @ udp_rest t = recv (frontend s) @ take READ_BUF_LEN d"
proof (cases "d = []")
  case True
  let ?t = "s\<lparr>udp_buf := udp_buf s, bufcnt := 0, bufptr := 0\<rparr>"
  have "udp_chr_read (\<lambda>len. Got (take len d)) s = Inr ?t" using True assms(4) by (simp add: udp_chr_read_def)
  moreover have "udp_ok cr rd ev lok ?t" "udp_rest ?t = []" using assms(1) by (simp_all add: udp_ok_def udp_rest_def)
  ultimately show ?thesis using True by auto
next
  case False
  then have "take READ_BUF_LEN d \<noteq> []" by simp
  from udp.read_ok [OF assms(1) _ this, of "\<lambda>len. Got (take len d)"] assms(2-4) show ?thesis by auto
qed

text \<open>
  Every datagram that was read arrives, up to the size of the buffer, in order; and one is read as soon as
  the frontend has room and nothing of the one before waits.
\<close>

lemma dgram_loop_feeds:
  assumes "udp_ok cr rd ev lok s"
  shows "\<exists>s' came left. dgram_loop ts ds s = Inr (s', left) \<and> udp_ok cr rd ev lok s' \<and> ds = came @ left \<and>
    recv (frontend s') @ udp_rest s' = recv (frontend s) @ udp_rest s @ concat (map (take READ_BUF_LEN) came) \<and>
    (ts \<noteq> [] \<and> hd ts \<and> ds \<noteq> [] \<and> udp_rest s = [] \<and> 0 < cr (frontend s) \<longrightarrow> came \<noteq> [])"
  using assms
proof (induction ts arbitrary: s ds)
  case Nil
  then show ?case by simp
next
  case (Cons there ts)
  obtain n s1 where p: "udp_chr_read_poll s = Inr (n, s1)" "udp_ok cr rd ev lok s1"
      "recv (frontend s1) @ udp_rest s1 = recv (frontend s) @ udp_rest s"
      "0 < n \<longrightarrow> udp_rest s1 = [] \<and> udp_max_size s1 = cr (frontend s1) \<and> 0 < udp_max_size s1"
    using udp.poll_ok [OF Cons.prems] by blast
  show ?case
  proof (cases "n \<le> 0 \<or> \<not> there \<or> ds = []")
    case True
    then have idle: "\<not> (there \<and> ds \<noteq> [] \<and> udp_rest s = [] \<and> 0 < cr (frontend s))"
      using udp_poll_now [OF Cons.prems] p(1) by auto
    obtain s' came left where "dgram_loop ts ds s1 = Inr (s', left)" "udp_ok cr rd ev lok s'" "ds = came @ left"
        "recv (frontend s') @ udp_rest s' = recv (frontend s1) @ udp_rest s1 @ concat (map (take READ_BUF_LEN) came)"
      using Cons.IH [OF p(2), of ds] by blast
    moreover from this p(3) have
      "recv (frontend s') @ udp_rest s' = recv (frontend s) @ udp_rest s @ concat (map (take READ_BUF_LEN) came)"
      by (metis append.assoc)
    ultimately show ?thesis using True idle p(1) by auto
  next
    case False
    then obtain d ds' where ds: "ds = d # ds'" by (cases ds) auto
    have "0 < n" using False by simp
    then have room: "udp_rest s1 = []" "udp_max_size s1 = cr (frontend s1)" "0 < udp_max_size s1" using p(4) by simp_all
    obtain s2 where r: "udp_chr_read (\<lambda>len. Got (take len d)) s1 = Inr s2" "udp_ok cr rd ev lok s2"
        "recv (frontend s2) @ udp_rest s2 = recv (frontend s1) @ take READ_BUF_LEN d"
      using udp_takes_datagram [OF p(2) room] by blast
    obtain s' came left where "dgram_loop ts ds' s2 = Inr (s', left)" "udp_ok cr rd ev lok s'" "ds' = came @ left"
        "recv (frontend s') @ udp_rest s' = recv (frontend s2) @ udp_rest s2 @ concat (map (take READ_BUF_LEN) came)"
      using Cons.IH [OF r(2), of ds'] by blast
    moreover from this(4) r(3) p(3) room(1) have
      "recv (frontend s') @ udp_rest s' = recv (frontend s) @ udp_rest s @ concat (map (take READ_BUF_LEN) (d # came))"
      by (metis append.assoc append.right_neutral concat.simps(2) list.map(2))
    ultimately show ?thesis using False p(1) r(1) ds by (intro exI [of _ s'] exI [of _ "d # came"] exI [of _ left]) auto
  qed
qed

end

end
