(* ===== verification/Chardev_Telnet.thy ===== *)
theory Chardev_Telnet
  imports Chardev_Net Chardev_Stream
begin

text \<open>
  The telnet commands in the input of a socket. \<open>tn_decode\<close> says what a sequence of bytes means: it
  is a function of the mode and the bytes, builds its result and knows no buffer.
  \<open>tcp_chr_process_IAC_bytes\<close>, which works in place over one read, does the same; so a socket with
  telnet satisfies the contract of the main loop, and what the frontend gets does not depend on how
  the bytes were cut into reads.
\<close>

section \<open>The reference decoder\<close>

text \<open>The next mode, the data and the number of breaks of one byte.\<close>

definition tn_step :: "nat \<Rightarrow> u8 \<Rightarrow> nat \<times> u8 list \<times> nat" where
  "tn_step m c =
     (if m = 0 then (0, [c], 0)
      else if m = 1 then if c = IAC then (2, [], 0) else (1, [c], 0)
      else if m = 2 then if c = IAC then (1, [IAC], 0) else if c = IAC_BREAK then (1, [], 1) else (3, [], 0)
      else (1, [], 0))"

fun tn_decode :: "nat \<Rightarrow> u8 list \<Rightarrow> nat \<times> u8 list \<times> nat" where
  "tn_decode m [] = (m, [], 0)"
| "tn_decode m (c # cs) =
     (case tn_step m c of (m1, xs, b) \<Rightarrow> case tn_decode m1 cs of (m2, ys, d) \<Rightarrow> (m2, xs @ ys, b + d))"

definition tn_mode :: "nat \<Rightarrow> u8 list \<Rightarrow> nat" where "tn_mode m bs = fst (tn_decode m bs)"
definition tn_data :: "nat \<Rightarrow> u8 list \<Rightarrow> u8 list" where "tn_data m bs = fst (snd (tn_decode m bs))"
definition tn_breaks :: "nat \<Rightarrow> u8 list \<Rightarrow> nat" where "tn_breaks m bs = snd (snd (tn_decode m bs))"

lemmas tn_defs = tn_mode_def tn_data_def tn_breaks_def

lemma tn_Nil [simp]: "tn_mode m [] = m" "tn_data m [] = []" "tn_breaks m [] = 0"
  by (simp_all add: tn_defs)

lemma tn_Cons:
  "tn_mode m (c # cs) = tn_mode (fst (tn_step m c)) cs"
  "tn_data m (c # cs) = fst (snd (tn_step m c)) @ tn_data (fst (tn_step m c)) cs"
  "tn_breaks m (c # cs) = snd (snd (tn_step m c)) + tn_breaks (fst (tn_step m c)) cs"
  by (simp_all add: tn_defs split: prod.split)

lemma tn_append:
  "tn_mode m (xs @ ys) = tn_mode (tn_mode m xs) ys"
  "tn_data m (xs @ ys) = tn_data m xs @ tn_data (tn_mode m xs) ys"
  "tn_breaks m (xs @ ys) = tn_breaks m xs + tn_breaks (tn_mode m xs) ys"
  by (induction xs arbitrary: m) (simp_all add: tn_Cons)

lemma tn_plain [simp]: "tn_mode 0 bs = 0" "tn_data 0 bs = bs" "tn_breaks 0 bs = 0"
  by (induction bs) (simp_all add: tn_Cons tn_step_def)

lemma tn_step_range: "fst (tn_step m c) \<le> 3" "m \<noteq> 0 \<Longrightarrow> fst (tn_step m c) \<noteq> 0"
  by (simp_all add: tn_step_def)

lemma tn_mode_range: "m \<le> 3 \<Longrightarrow> tn_mode m bs \<le> 3" "m \<noteq> 0 \<Longrightarrow> tn_mode m bs \<noteq> 0"
  using tn_step_range by (induction bs arbitrary: m) (simp_all add: tn_Cons)

lemma tn_data_length: "length (tn_data m bs) \<le> length bs"
proof (induction bs arbitrary: m)
  case (Cons c cs)
  have "length (fst (snd (tn_step m c))) \<le> 1" by (simp add: tn_step_def)
  with Cons [of "fst (tn_step m c)"] show ?case by (simp add: tn_Cons)
qed simp

text \<open>What a telnet client sends: data, in which it doubles the escape byte, commands with an option, breaks.\<close>

datatype tn_item =
    Data u8
  | Option u8 u8
  | Break

fun tn_encode :: "tn_item \<Rightarrow> u8 list" where
  "tn_encode (Data c) = (if c = IAC then [IAC, IAC] else [c])"
| "tn_encode (Option c x) = [IAC, c, x]"
| "tn_encode Break = [IAC, IAC_BREAK]"

fun tn_payload :: "tn_item \<Rightarrow> u8 list" where
  "tn_payload (Data c) = [c]"
| "tn_payload _ = []"

fun tn_wellformed :: "tn_item \<Rightarrow> bool" where
  "tn_wellformed (Option c x) \<longleftrightarrow> c \<noteq> IAC \<and> c \<noteq> IAC_BREAK"
| "tn_wellformed _ \<longleftrightarrow> True"

abbreviation (input) tn_stream :: "tn_item list \<Rightarrow> u8 list" where
  "tn_stream items \<equiv> concat (map tn_encode items)"

lemma tn_item_decodes:
  assumes "tn_wellformed i"
  shows "tn_mode 1 (tn_encode i) = 1" and "tn_data 1 (tn_encode i) = tn_payload i"
    and "tn_breaks 1 (tn_encode i) = (if i = Break then 1 else 0)"
  using assms by (cases i; simp add: tn_Cons tn_step_def)+

lemma tn_stream_decodes:
  assumes "\<forall>i \<in> set items. tn_wellformed i"
  shows "tn_mode 1 (tn_stream items) = 1" and "tn_data 1 (tn_stream items) = concat (map tn_payload items)"
    and "tn_breaks 1 (tn_stream items) = length (filter (\<lambda>i. i = Break) items)"
  using assms by (induction items) (simp_all del: One_nat_def add: tn_append tn_item_decodes)

section \<open>The code's loop\<close>

primrec do_breaks :: "nat \<Rightarrow> ('o, 'z) tcpchr_scheme \<Rightarrow> ('o, 'z) tcpchr_scheme res" where
  "do_breaks 0 s = Inr s"
| "do_breaks (Suc n) s = rbind (qemu_chr_be_event s CHR_EVENT_BREAK) (do_breaks n)"

lemma break_mode:
  "qemu_chr_be_event (s\<lparr>do_telnetopt := m\<rparr>) CHR_EVENT_BREAK =
     rbind (qemu_chr_be_event s CHR_EVENT_BREAK) (\<lambda>s. Inr (s\<lparr>do_telnetopt := m\<rparr>))"
  by (simp add: qemu_chr_be_event_def call_handler_def deref_def rbind_def split: option.split sum.split)

lemma break_keeps_mode: "qemu_chr_be_event s CHR_EVENT_BREAK = Inr t \<Longrightarrow> do_telnetopt t = do_telnetopt s"
  by (auto simp: qemu_chr_be_event_def call_handler_def rbind_eq_Inr split: option.splits)

lemma do_breaks_mode:
  "do_breaks n (s\<lparr>do_telnetopt := m\<rparr>) = rbind (do_breaks n s) (\<lambda>s. Inr (s\<lparr>do_telnetopt := m\<rparr>))"
  by (induction n arbitrary: s) (simp_all add: break_mode rbind_assoc)

text \<open>What is kept goes to the places before the next byte, which it therefore does not change.\<close>

lemma keep_byte:
  assumes "i < length buf" and "j \<le> i"
  shows "(if j \<noteq> i then arr_set buf j (buf ! i) else Inr buf) = Inr (buf[j := buf ! i])"
    and "drop (Suc i) (buf[j := buf ! i]) = drop (Suc i) buf"
    and "take (Suc j) (buf[j := buf ! i]) = take j buf @ [buf ! i]"
  using assms by (auto simp: take_Suc_conv_app_nth)

definition iac_outcome :: "nat \<Rightarrow> u8 list \<Rightarrow> nat \<Rightarrow> u8 list \<Rightarrow> ('o, 'z) tcpchr_scheme \<Rightarrow>
    (u8 list \<times> nat \<times> ('o, 'z) tcpchr_scheme) res" where
  "iac_outcome m bs j buf s = rbind (do_breaks (tn_breaks m bs) s) (\<lambda>t.
     Inr (buf, j + length (tn_data m bs), t\<lparr>do_telnetopt := tn_mode m bs\<rparr>))"

lemma iac_outcome_mode: "iac_outcome m bs j buf (s\<lparr>do_telnetopt := k\<rparr>) = iac_outcome m bs j buf s"
  by (simp add: iac_outcome_def do_breaks_mode rbind_assoc)

lemma iac_outcome_Cons:
  "iac_outcome m (c # cs) j buf s = rbind (do_breaks (snd (snd (tn_step m c))) s)
     (iac_outcome (fst (tn_step m c)) cs (j + length (fst (snd (tn_step m c)))) buf)"
proof -
  have add: "do_breaks (a + b) s = rbind (do_breaks a s) (do_breaks b)" for a b
    by (induction a arbitrary: s) (simp_all add: rbind_def split: sum.split)
  have outcome: "iac_outcome m' bs j' buf = (\<lambda>s. rbind (do_breaks (tn_breaks m' bs) s) (\<lambda>t.
      Inr (buf, j' + length (tn_data m' bs), t\<lparr>do_telnetopt := tn_mode m' bs\<rparr>)))" for m' bs j'
    by (rule ext) (simp add: iac_outcome_def)
  show ?thesis unfolding outcome by (simp add: tn_Cons add rbind_assoc add.assoc)
qed

lemma break_cong:
  assumes "\<And>t. do_telnetopt t = do_telnetopt s \<Longrightarrow> f t = g t"
  shows "rbind (qemu_chr_be_event s CHR_EVENT_BREAK) f = rbind (qemu_chr_be_event s CHR_EVENT_BREAK) g"
  using assms break_keeps_mode by (auto simp: rbind_def split: sum.split)

lemma iac_loop_decodes:
  assumes "m \<in> {1, 2, 3}" and "i + n = length buf" and "j \<le> i"
  shows "\<exists>buf'. take (j + length (tn_data m (drop i buf))) buf' = take j buf @ tn_data m (drop i buf) \<and>
    (\<forall>s :: ('o, 'z) tcpchr_scheme. do_telnetopt s = m \<longrightarrow> iac_loop n i j buf s = iac_outcome m (drop i buf) j buf' s)"
  using assms
proof (induction n arbitrary: i j buf m)
  case 0
  then show ?case by (auto simp: iac_outcome_def)
next
  case (Suc n)
  let ?c = "buf ! i" and ?cs = "drop (Suc i) buf"
  have i: "i < length buf" using Suc.prems(2) by simp
  have d: "drop i buf = ?c # ?cs" using i by (simp add: Cons_nth_drop_Suc)
  note keep = keep_byte [OF i Suc.prems(3)]
  have IH: "\<exists>b. take (j' + length (tn_data m' ?cs)) b = take j' buf' @ tn_data m' ?cs \<and>
      (\<forall>s :: ('o, 'z) tcpchr_scheme. do_telnetopt s = m' \<longrightarrow> iac_loop n (Suc i) j' buf' s = iac_outcome m' ?cs j' b s)"
    if "m' \<in> {1, 2, 3}" "length buf' = length buf" "j' \<le> Suc i" "drop (Suc i) buf' = ?cs" for m' j' buf'
    using Suc.IH [of m' "Suc i" buf' j'] that Suc.prems(2) by simp
  note simps = d i tn_Cons iac_outcome_Cons tn_step_def
  consider "m = 1" "?c = IAC" | "m = 1" "?c \<noteq> IAC" | "m = 2" "?c = IAC" | "m = 2" "?c = IAC_BREAK"
    | "m = 2" "?c \<noteq> IAC" "?c \<noteq> IAC_BREAK" | "m = 3"
    using Suc.prems(1) by auto
  then show ?case
  proof cases
    case 1
    obtain b where "take (j + length (tn_data 2 ?cs)) b = take j buf @ tn_data 2 ?cs"
        "\<forall>s :: ('o, 'z) tcpchr_scheme. do_telnetopt s = 2 \<longrightarrow> iac_loop n (Suc i) j buf s = iac_outcome 2 ?cs j b s"
      using IH [where m' = 2 and j' = j and buf' = buf] Suc.prems(3) by auto
    with 1 show ?thesis
      by (auto simp: simps iac_outcome_mode intro!: exI [of _ b])
  next
    case 2
    obtain b where "take (Suc j + length (tn_data 1 ?cs)) b = take j buf @ [?c] @ tn_data 1 ?cs"
        "\<forall>s :: ('o, 'z) tcpchr_scheme. do_telnetopt s = 1 \<longrightarrow> iac_loop n (Suc i) (Suc j) (buf[j := ?c]) s = iac_outcome 1 ?cs (Suc j) b s"
      using IH [where m' = 1 and j' = "Suc j" and buf' = "buf[j := ?c]"] Suc.prems(3) keep(2,3) by auto
    with 2 keep(1) show ?thesis by (auto simp: simps intro!: exI [of _ b])
  next
    case 3
    obtain b where "take (Suc j + length (tn_data 1 ?cs)) b = take j buf @ [?c] @ tn_data 1 ?cs"
        "\<forall>s :: ('o, 'z) tcpchr_scheme. do_telnetopt s = 1 \<longrightarrow> iac_loop n (Suc i) (Suc j) (buf[j := ?c]) s = iac_outcome 1 ?cs (Suc j) b s"
      using IH [where m' = 1 and j' = "Suc j" and buf' = "buf[j := ?c]"] Suc.prems(3) keep(2,3) by auto
    with 3 keep(1) show ?thesis by (auto simp: simps iac_outcome_mode intro!: exI [of _ b])
  next
    case 4
    obtain b where "take (j + length (tn_data 1 ?cs)) b = take j buf @ tn_data 1 ?cs"
        "\<forall>s :: ('o, 'z) tcpchr_scheme. do_telnetopt s = 1 \<longrightarrow> iac_loop n (Suc i) j buf s = iac_outcome 1 ?cs j b s"
      using IH [where m' = 1 and j' = j and buf' = buf] Suc.prems(3) by auto
    with 4 show ?thesis
      by (auto simp: simps rbind_assoc iac_outcome_mode intro!: exI [of _ b] break_cong)
  next
    case 5
    obtain b where "take (j + length (tn_data 3 ?cs)) b = take j buf @ tn_data 3 ?cs"
        "\<forall>s :: ('o, 'z) tcpchr_scheme. do_telnetopt s = 3 \<longrightarrow> iac_loop n (Suc i) j buf s = iac_outcome 3 ?cs j b s"
      using IH [where m' = 3 and j' = j and buf' = buf] Suc.prems(3) by auto
    with 5 show ?thesis by (auto simp: simps iac_outcome_mode intro!: exI [of _ b])
  next
    case 6
    obtain b where "take (j + length (tn_data 1 ?cs)) b = take j buf @ tn_data 1 ?cs"
        "\<forall>s :: ('o, 'z) tcpchr_scheme. do_telnetopt s = 1 \<longrightarrow> iac_loop n (Suc i) j buf s = iac_outcome 1 ?cs j b s"
      using IH [where m' = 1 and j' = j and buf' = buf] Suc.prems(3) by auto
    with 6 show ?thesis by (auto simp: simps iac_outcome_mode intro!: exI [of _ b])
  qed
qed

section \<open>The socket as a backend\<close>

definition tcp_ok :: "('o \<Rightarrow> int) \<Rightarrow> ('o \<Rightarrow> u8 list \<Rightarrow> 'o res) \<Rightarrow> ('o \<Rightarrow> chr_event \<Rightarrow> 'o res) \<Rightarrow> ('o \<Rightarrow> bool) \<Rightarrow>
    ('o, 'z) tcpchr_scheme \<Rightarrow> bool" where
  "tcp_ok cr rd ev lok s \<longleftrightarrow> served cr rd ev lok s \<and> tcp_connected s \<and> do_telnetopt s \<le> 3"

definition tcp_ready :: "('o \<Rightarrow> int) \<Rightarrow> ('o, 'z) tcpchr_scheme \<Rightarrow> bool" where
  "tcp_ready cr s \<longleftrightarrow> tcp_max_size s = cr (frontend s) \<and> 0 < tcp_max_size s"

definition tcp_limit :: "('o, 'z) tcpchr_scheme \<Rightarrow> nat" where
  "tcp_limit s = nat (min (int READ_BUF_LEN) (tcp_max_size s))"

text \<open>The mode and what the frontend got; a break is an event, not data.\<close>

definition tn_feed :: "nat \<times> u8 list \<Rightarrow> u8 list \<Rightarrow> nat \<times> u8 list" where
  "tn_feed a bs = (tn_mode (fst a) bs, snd a @ tn_data (fst a) bs)"

definition tn_quiet :: "nat \<times> u8 list \<Rightarrow> u8 list \<Rightarrow> bool" where
  "tn_quiet a bs \<longleftrightarrow> tn_breaks (fst a) bs = 0"

definition tcp_got :: "('o \<Rightarrow> u8 list) \<Rightarrow> ('o, 'z) tcpchr_scheme \<Rightarrow> nat \<times> u8 list" where
  "tcp_got recv s = (do_telnetopt s, recv (frontend s))"

lemma frontend_tcp [simp]:
  "frontend (s\<lparr>tcp_max_size := n\<rparr>) = frontend s" "served cr rd ev lok (s\<lparr>tcp_max_size := n\<rparr>) = served cr rd ev lok s"
  "frontend (s\<lparr>do_telnetopt := m\<rparr>) = frontend s" "served cr rd ev lok (s\<lparr>do_telnetopt := m\<rparr>) = served cr rd ev lok s"
  "frontend (s\<lparr>msgfd := fd\<rparr>) = frontend s" "served cr rd ev lok (s\<lparr>msgfd := fd\<rparr>) = served cr rd ev lok s"
  "frontend (close_fd fd s) = frontend s" "served cr rd ev lok (close_fd fd s) = served cr rd ev lok s"
  by (simp_all add: frontend_def served_def close_fd_def)

lemma close_fd_tcp [simp]:
  "tcp_connected (close_fd fd s) = tcp_connected s" "do_telnetopt (close_fd fd s) = do_telnetopt s"
  "tcp_max_size (close_fd fd s) = tcp_max_size s"
  by (simp_all add: close_fd_def)

lemma put_frontend_tcp [simp]:
  "tcp_connected (put_frontend y s) = tcp_connected s" "do_telnetopt (put_frontend y s) = do_telnetopt s"
  by (simp_all add: put_frontend_def)

lemma msgfd_keeps [simp]:
  "frontend (unix_process_msgfd msgs s) = frontend s"
  "served cr rd ev lok (unix_process_msgfd msgs s) = served cr rd ev lok s"
  "tcp_connected (unix_process_msgfd msgs s) = tcp_connected s"
  "do_telnetopt (unix_process_msgfd msgs s) = do_telnetopt s"
  by (induction msgs s rule: unix_process_msgfd.induct) simp_all

text \<open>What the socket hands on of one read.\<close>

lemma tcp_read_data:
  assumes "do_telnetopt s \<le> 3" and "tn_breaks (do_telnetopt s) xs = 0"
  shows "\<exists>buf. (if do_telnetopt s \<noteq> 0 then tcp_chr_process_IAC_bytes s xs (length xs) else Inr (xs, length xs, s)) =
      Inr (buf, length (tn_data (do_telnetopt s) xs), s\<lparr>do_telnetopt := tn_mode (do_telnetopt s) xs\<rparr>) \<and>
    take (length (tn_data (do_telnetopt s) xs)) buf = tn_data (do_telnetopt s) xs"
proof (cases "do_telnetopt s = 0")
  case True
  then have "s\<lparr>do_telnetopt := 0\<rparr> = s" by simp
  with True show ?thesis by simp
next
  case False
  with assms(1) have "do_telnetopt s \<in> {1, 2, 3}" by auto
  from iac_loop_decodes [OF this, of 0 "length xs" xs 0] assms(2) False show ?thesis
    by (auto simp: tcp_chr_process_IAC_bytes_def iac_outcome_def)
qed

context chr_taker
begin

lemma tcp_read_feeds:
  assumes ok: "tcp_ok cr rd ev lok s" and ready: "tcp_ready cr s"
    and xs: "xs \<noteq> []" "length xs \<le> tcp_limit s" "tn_quiet (tcp_got recv s) xs" "ans (tcp_limit s) = (Got xs, msgs)"
  shows "\<exists>s'. tcp_chr_read ans s = Inr s' \<and> tcp_ok cr rd ev lok s' \<and> tcp_got recv s' = tn_feed (tcp_got recv s) xs"
proof -
  let ?u = "if is_unix s then unix_process_msgfd msgs s else s" and ?m = "do_telnetopt s"
  have u: "do_telnetopt ?u = ?m" "served cr rd ev lok ?u" "tcp_connected ?u" "frontend ?u = frontend s"
    using ok by (simp_all add: tcp_ok_def)
  obtain buf where buf: "(if do_telnetopt ?u \<noteq> 0 then tcp_chr_process_IAC_bytes ?u xs (length xs) else Inr (xs, length xs, ?u)) =
      Inr (buf, length (tn_data ?m xs), ?u\<lparr>do_telnetopt := tn_mode ?m xs\<rparr>)"
      "take (length (tn_data ?m xs)) buf = tn_data ?m xs"
    using tcp_read_data [of ?u xs] ok xs(3) unfolding u(1) by (auto simp: tcp_ok_def tn_quiet_def tcp_got_def)
  let ?v = "?u\<lparr>do_telnetopt := tn_mode ?m xs\<rparr>"
  have v: "served cr rd ev lok ?v" "tcp_connected ?v" "do_telnetopt ?v = tn_mode ?m xs" "frontend ?v = frontend s"
    using u by simp_all
  have room: "int (length (tn_data ?m xs)) \<le> cr (frontend ?v)"
    using tn_data_length [of ?m xs] xs(2) ready v(4) by (auto simp: tcp_limit_def tcp_ready_def)
  have run: "tcp_chr_read ans s = (if tn_data ?m xs \<noteq> [] then qemu_chr_be_write ?v (tn_data ?m xs) else Inr ?v)"
    using ok ready xs buf by (simp add: tcp_chr_read_def tcp_chr_recv_def tcp_ok_def tcp_ready_def tcp_limit_def)
  have m: "tn_mode ?m xs \<le> 3" using ok by (simp add: tcp_ok_def tn_mode_range)
  show ?thesis
  proof (cases "tn_data ?m xs = []")
    case True
    with run v m show ?thesis by (simp add: tcp_ok_def tcp_got_def tn_feed_def)
  next
    case False
    obtain y where "qemu_chr_be_write ?v (tn_data ?m xs) = Inr (put_frontend y ?v)" "lok y"
        "recv y = recv (frontend s) @ tn_data ?m xs"
      using be_write [OF v(1) False room] v(4) by auto
    with False run v m served_put [OF v(1)] show ?thesis by (simp add: tcp_ok_def tcp_got_def tn_feed_def)
  qed
qed

lemma tcp_backend: "input_backend tcp_chr_read_poll (\<lambda>ans. tcp_chr_read (\<lambda>len. (ans len, msgs))) (tcp_ok cr rd ev lok)
    (tcp_ready cr) tcp_limit (tcp_got recv) tn_feed tn_quiet"
proof unfold_locales
  fix s :: "('o, 'z) tcpchr_scheme"
  assume ok: "tcp_ok cr rd ev lok s"
  then show "\<exists>n s'. tcp_chr_read_poll s = Inr (n, s') \<and> tcp_ok cr rd ev lok s' \<and> tcp_got recv s' = tcp_got recv s \<and>
      (0 < n \<longrightarrow> tcp_ready cr s')"
    by (simp add: tcp_chr_read_poll_def tcp_ok_def can_write tcp_ready_def tcp_got_def)
  fix xs and ans :: "nat \<Rightarrow> rres"
  assume "tcp_ready cr s" "xs \<noteq> []" "length xs \<le> tcp_limit s" "tn_quiet (tcp_got recv s) xs" "ans (tcp_limit s) = Got xs"
  then show "\<exists>s'. tcp_chr_read (\<lambda>len. (ans len, msgs)) s = Inr s' \<and> tcp_ok cr rd ev lok s' \<and>
      tcp_got recv s' = tn_feed (tcp_got recv s) xs"
    using tcp_read_feeds [OF ok, of xs "\<lambda>len. (ans len, msgs)" msgs] by simp
qed (simp_all add: tn_feed_def tn_quiet_def tn_append tcp_ready_def tcp_limit_def)

end

sublocale chr_taker \<subseteq> tcp: input_backend tcp_chr_read_poll "\<lambda>ans. tcp_chr_read (\<lambda>len. (ans len, msgs))"
    "tcp_ok cr rd ev lok" "tcp_ready cr" tcp_limit "tcp_got recv" tn_feed tn_quiet for msgs
  by (rule tcp_backend)

end
