(* ===== verification/Chardev_Serve.thy ===== *)
theory Chardev_Serve
  imports Chardev_Console Chardev_Net_Inv Chardev_Telnet
begin

text \<open>
  The UART of \<open>serial.c\<close> behind the host's backends: it satisfies the contract of a frontend that
  takes blocks, so what the locales prove about the main loop holds for it behind a descriptor, the
  standard input, a pseudo terminal, a UDP socket and a TCP socket with or without telnet.
\<close>

lemma uart_rd_many:
  assumes good: "ser_good s" and ne: "buf \<noteq> []" and can: "int (length buf) \<le> uart_can_read s"
  shows "\<exists>t. serial_receive1 e s buf = Inr t \<and> ser_good t \<and> uart_recv t = uart_recv s @ buf"
proof -
  have ok: "fifos_ok s" using good by (simp add: ser_good_def ser_inv_def)
  have len: "length buf \<le> serial_can_receive1 s" using can by (simp add: uart_can_read_def)
  show ?thesis
  proof (cases "fcr s AND 1 = 0")
    case True
    then obtain c where "buf = [c]"
      using ne len by (cases buf) (auto simp: serial_can_receive1_def serial_can_receive_def split: if_splits)
    then show ?thesis using uart_rd_ok [OF good, of e c] can by auto
  next
    case False
    obtain t where t: "serial_receive1 e s buf = Inr t" "fifo_view (recv_fifo t) = fifo_view (recv_fifo s) @ buf"
      using receive1_stores [OF ok ne len, of e] False by auto
    have "rx_only s t" "irq_coherent t" "fifos_ok t"
      using receive1_step [OF ok ne, of e] t(1) by auto
    then have "ser_good t" "fcr t = fcr s" using rx_only_good good by (auto simp: rx_only_def)
    with t False show ?thesis by (simp add: uart_recv_def)
  qed
qed

interpretation serve: chr_taker uart_can_read "serial_receive1 e" uart_event ser_good uart_recv for e
  by unfold_locales (simp_all add: uart_rd_many, simp add: uart_can_read_def)

abbreviation (input) uart_served :: "ser_env \<Rightarrow> (serial_state, 'z) chardev_scheme \<Rightarrow> bool" where
  "uart_served e \<equiv> served uart_can_read (serial_receive1 e) uart_event ser_good"

text \<open>A UART attached to a device that has just been opened.\<close>

definition attached :: "ser_env \<Rightarrow> (serial_state, 'z) chardev_scheme \<Rightarrow> (serial_state, 'z) chardev_scheme" where
  "attached e s = s\<lparr>heap := [uart0], hnd := uart_handlers e, handler_opaque := Some 0\<rparr>"

lemma attached_served: "uart_served e (attached e s)" and attached_recv: "uart_recv (frontend (attached e s)) = []"
  using uart0_good by (simp_all add: attached_def served_def frontend_def uart_handlers_def uart_recv_def uart0_regs)

definition never_fails :: "(nat \<Rightarrow> u8 list \<Rightarrow> wres) \<Rightarrow> bool" where
  "never_fails w \<longleftrightarrow> (\<forall>m b. b \<noteq> [] \<longrightarrow> w m b \<noteq> WFail \<and> w m b \<noteq> Wrote 0)"

section \<open>Properties\<close>

text \<open>
  C23. \<open>send_all\<close> ends unless the descriptor refuses for ever, and then a prefix of the buffer, and
  nothing else, has gone to it; when no call fails it is the whole buffer, however it was cut into
  calls and however often they were refused in between. A descriptor that only answers \<open>EAGAIN\<close> keeps
  it, and with it the emulator, in its loop for ever.
\<close>

theorem send_all_writes:
  assumes "write_sane w"
  shows "(keeps_trying w \<longrightarrow> (\<exists>r s' k. send_all w fd buf s = Some (r, s') \<and> k \<le> length buf \<and>
      h_sent s' = h_sent s @ [(fd, take k buf)] \<and> (r = - 1 \<or> r = int k) \<and>
      (never_fails w \<longrightarrow> r = int (length buf) \<and> k = length buf))) \<and>
    ((\<forall>m \<ge> h_nwrite s. w m buf = WAgain) \<and> buf \<noteq> [] \<longrightarrow> send_all w fd buf s = None)"
proof (intro conjI impI)
  assume "keeps_trying w"
  from send_loop_returns [OF this assms, of "h_nwrite s" buf "[]"]
  obtain r n out where x: "send_loop w (h_nwrite s) buf [] = Some (r, n, out)" "loop_done w buf [] (r, n, out)"
    by (metis prod_cases3)
  from x(2) obtain k where k: "k \<le> length buf" "out = take k buf" "r = - 1 \<or> r = int k"
    by (auto simp: loop_done_def)
  have "never_fails w \<longrightarrow> out = buf \<and> r = int (length buf)"
    using x(2) by (auto simp: loop_done_def never_fails_def)
  then have full: "never_fails w \<longrightarrow> r = int (length buf) \<and> k = length buf"
    using k(1,2) by (metis length_take min.absorb2)
  show "\<exists>r s' k. send_all w fd buf s = Some (r, s') \<and> k \<le> length buf \<and>
      h_sent s' = h_sent s @ [(fd, take k buf)] \<and> (r = - 1 \<or> r = int k) \<and>
      (never_fails w \<longrightarrow> r = int (length buf) \<and> k = length buf)"
    by (rule exI [of _ r], rule exI [of _ "s\<lparr>h_nwrite := n, h_sent := h_sent s @ [(fd, out)]\<rparr>"], rule exI [of _ k])
      (use x(1) k full in \<open>simp add: send_all_def\<close>)
next
  assume "(\<forall>m \<ge> h_nwrite s. w m buf = WAgain) \<and> buf \<noteq> []"
  then have "send_loop w (h_nwrite s) buf [] = None"
    using send_loop_stuck [of w "h_nwrite s" buf "[]"] by (cases "send_loop w (h_nwrite s) buf []") auto
  then show "send_all w fd buf s = None" by (simp add: send_all_def)
qed

text \<open>A descriptor that refuses every other call and takes one byte at a time.\<close>

definition slow :: "nat \<Rightarrow> u8 list \<Rightarrow> wres" where
  "slow n b = (if odd n then WAgain else if b = [] then Wrote 0 else Wrote 1)"

theorem send_all_writes_witness:
  "(\<exists>s'. send_all slow 1 [65, 66] (qemu_chr_open_fd [()] 0 1) = Some (2, s') \<and> h_sent s' = [(1, [65, 66])]) \<and>
   send_all (\<lambda>_ _. WAgain) 1 [65] (qemu_chr_open_fd [()] 0 1) = None"
proof -
  have "keeps_trying slow"
    unfolding keeps_trying_def by (rule allI, rule_tac x = "2 * n" in exI) (simp add: slow_def)
  then have w: "write_sane slow" "keeps_trying slow" "never_fails slow"
    by (auto simp: write_sane_def never_fails_def slow_def Suc_le_eq split: if_splits)
  have s: "h_sent (qemu_chr_open_fd [()] 0 1) = []" by (simp add: qemu_chr_open_fd_def qemu_chr_generic_open_def)
  from w send_all_writes [OF w(1), where fd = 1 and buf = "[65, 66]" and s = "qemu_chr_open_fd [()] 0 1"]
    send_all_writes [where w = "\<lambda>_ _. WAgain" and fd = 1 and buf = "[65]" and s = "qemu_chr_open_fd [()] 0 1"]
  show ?thesis by (simp add: s write_sane_def)
qed

text \<open>
  C8. Input from the host reaches the machine's UART in order. From a file or pipe, the standard input or a
  pseudo terminal come streams of bytes: the main loop may find them in any portions and call the handlers in
  any number of turns; at every moment what the UART has received, with the byte that the standard input may
  keep for it, is what it had before followed by what was taken from the stream, nothing lost, repeated or
  reordered. From a UDP socket come datagrams: every one that was read arrives in order, up to the 4096 bytes
  (\<open>READ_BUF_LEN\<close>) of the buffer, and the rest of a longer one is lost in the read. No call faults. Flow
  control is part of it: the backends poll the UART before they read, and when the UART has room (for the
  standard input: nothing is kept) a turn that finds input takes some. The UART is one in a consistent
  state that was attached as the device's frontend.
\<close>

theorem host_streams_reach_uart:
  shows "(uart_served e a \<longrightarrow> (\<exists>a' got rest. main_loop fd_chr_read_poll fd_chr_read fd_limit ks stream a = Inr (a', rest) \<and>
      uart_served e a' \<and> stream = got @ rest \<and> uart_recv (frontend a') = uart_recv (frontend a) @ got \<and>
      (ks \<noteq> [] \<and> 0 < hd ks \<and> stream \<noteq> [] \<and> 0 < uart_can_read (frontend a) \<longrightarrow> got \<noteq> []))) \<and>
    (stdio_ok uart_can_read (serial_receive1 e) uart_event ser_good b \<longrightarrow>
      (\<exists>b' got rest. main_loop stdio_read_poll stdio_read (\<lambda>_. 1) ks stream b = Inr (b', rest) \<and>
      uart_served e b' \<and> stream = got @ rest \<and> stdio_got uart_recv b' = stdio_got uart_recv b @ got \<and>
      (ks \<noteq> [] \<and> 0 < hd ks \<and> stream \<noteq> [] \<and> term_fifo_size b = 0 \<longrightarrow> got \<noteq> []))) \<and>
    (uart_served e c \<longrightarrow> (\<exists>c' got rest. main_loop pty_chr_read_poll (pty_chr_read now) pty_limit ks stream c = Inr (c', rest) \<and>
      uart_served e c' \<and> stream = got @ rest \<and> uart_recv (frontend c') = uart_recv (frontend c) @ got \<and>
      (ks \<noteq> [] \<and> 0 < hd ks \<and> stream \<noteq> [] \<and> 0 < uart_can_read (frontend c) \<longrightarrow> got \<noteq> []))) \<and>
    (udp_ok uart_can_read (serial_receive1 e) uart_event ser_good d \<longrightarrow>
      (\<exists>d' came left. dgram_loop ts dgrams d = Inr (d', left) \<and> uart_served e d' \<and> dgrams = came @ left \<and>
      uart_recv (frontend d') @ udp_rest d' = uart_recv (frontend d) @ udp_rest d @ concat (map (take READ_BUF_LEN) came) \<and>
      (ts \<noteq> [] \<and> hd ts \<and> dgrams \<noteq> [] \<and> udp_rest d = [] \<and> 0 < uart_can_read (frontend d) \<longrightarrow> came \<noteq> [])))"
proof (intro conjI impI)
  assume a: "uart_served e a"
  have "fd_chr_read_poll a = Inr (uart_can_read (frontend a), a\<lparr>fd_max_size := uart_can_read (frontend a)\<rparr>)"
    by (simp add: fd_chr_read_poll_def serve.can_write [OF a])
  with serve.fd.main_loop_feeds [OF a, where stream = stream and ks = ks]
  show "\<exists>a' got rest. main_loop fd_chr_read_poll fd_chr_read fd_limit ks stream a = Inr (a', rest) \<and>
      uart_served e a' \<and> stream = got @ rest \<and> uart_recv (frontend a') = uart_recv (frontend a) @ got \<and>
      (ks \<noteq> [] \<and> 0 < hd ks \<and> stream \<noteq> [] \<and> 0 < uart_can_read (frontend a) \<longrightarrow> got \<noteq> [])" by blast
next
  assume b: "stdio_ok uart_can_read (serial_receive1 e) uart_event ser_good b"
  have "term_fifo_size b = 0 \<longrightarrow> stdio_read_poll b = Inr (1, b)" by (simp add: stdio_read_poll_def)
  with serve.stdio.main_loop_feeds [OF b, where stream = stream and ks = ks]
  show "\<exists>b' got rest. main_loop stdio_read_poll stdio_read (\<lambda>_. 1) ks stream b = Inr (b', rest) \<and>
      uart_served e b' \<and> stream = got @ rest \<and> stdio_got uart_recv b' = stdio_got uart_recv b @ got \<and>
      (ks \<noteq> [] \<and> 0 < hd ks \<and> stream \<noteq> [] \<and> term_fifo_size b = 0 \<longrightarrow> got \<noteq> [])"
    unfolding stdio_ok_def by (metis zero_less_one)
next
  assume c: "uart_served e c"
  have "pty_chr_read_poll c = Inr (uart_can_read (frontend c), c\<lparr>pty_read_bytes := uart_can_read (frontend c)\<rparr>)"
    by (simp add: pty_chr_read_poll_def serve.can_write [OF c])
  with serve.pty.main_loop_feeds [OF c, where stream = stream and ks = ks and now = now]
  show "\<exists>c' got rest. main_loop pty_chr_read_poll (pty_chr_read now) pty_limit ks stream c = Inr (c', rest) \<and>
      uart_served e c' \<and> stream = got @ rest \<and> uart_recv (frontend c') = uart_recv (frontend c) @ got \<and>
      (ks \<noteq> [] \<and> 0 < hd ks \<and> stream \<noteq> [] \<and> 0 < uart_can_read (frontend c) \<longrightarrow> got \<noteq> [])" by blast
next
  assume "udp_ok uart_can_read (serial_receive1 e) uart_event ser_good d"
  from serve.dgram_loop_feeds [OF this, where ts = ts and ds = dgrams]
  show "\<exists>d' came left. dgram_loop ts dgrams d = Inr (d', left) \<and> uart_served e d' \<and> dgrams = came @ left \<and>
      uart_recv (frontend d') @ udp_rest d' = uart_recv (frontend d) @ udp_rest d @ concat (map (take READ_BUF_LEN) came) \<and>
      (ts \<noteq> [] \<and> hd ts \<and> dgrams \<noteq> [] \<and> udp_rest d = [] \<and> 0 < uart_can_read (frontend d) \<longrightarrow> came \<noteq> [])"
    unfolding udp_ok_def by blast
qed

theorem host_streams_reach_uart_witness:
  "(\<exists>a' got rest. main_loop fd_chr_read_poll fd_chr_read fd_limit [2, 1] [65, 66] (attached env0 (qemu_chr_open_fd [] 0 1)) =
      Inr (a', rest) \<and> [65, 66] = got @ rest \<and> uart_recv (frontend a') = got \<and> got \<noteq> []) \<and>
   (\<exists>b' got rest. main_loop stdio_read_poll stdio_read (\<lambda>_. 1) [2, 1] [65, 66] (attached env0 (the (qemu_chr_open_stdio [] 0 False))) =
      Inr (b', rest) \<and> [65, 66] = got @ rest \<and> stdio_got uart_recv b' = got \<and> got \<noteq> []) \<and>
   (\<exists>c' got rest. main_loop pty_chr_read_poll (pty_chr_read 0) pty_limit [2, 1] [65, 66] (attached env0 (the (qemu_chr_open_pty [] (Some (7, 8))))) =
      Inr (c', rest) \<and> [65, 66] = got @ rest \<and> uart_recv (frontend c') = got \<and> got \<noteq> []) \<and>
   (\<exists>d' left. dgram_loop [True] [[65], [66]] (attached env0 (the (qemu_chr_open_udp [] 5))) = Inr (d', left) \<and>
      uart_recv (frontend d') @ udp_rest d' @ concat left = [65, 66] \<and> length left \<le> 1)"
proof -
  have can: "0 < uart_can_read uart0" "uart_recv uart0 = []"
    by (simp_all add: uart_can_read_def serial_can_receive1_def serial_can_receive_def uart_recv_def uart0_regs)
  have front: "frontend (attached env0 s) = uart0" for s :: "(serial_state, 'z) chardev_scheme"
    by (simp add: attached_def frontend_def)
  define b where "b = attached env0 (the (qemu_chr_open_stdio [] 0 False))"
  define d where "d = attached env0 (the (qemu_chr_open_udp [] 5))"
  have b: "stdio_ok uart_can_read (serial_receive1 env0) uart_event ser_good b" "term_fifo_size b = 0" "stdio_got uart_recv b = []"
    using attached_served [of env0 "the (qemu_chr_open_stdio [] 0 False)"] can(2) front [of "the (qemu_chr_open_stdio [] 0 False)"]
    by (simp_all add: stdio_ok_def stdio_got_def b_def) (simp_all add: attached_def qemu_chr_open_stdio_def set_watch_def fdchr.extend_def)
  have d: "udp_ok uart_can_read (serial_receive1 env0) uart_event ser_good d" "udp_rest d = []" "frontend d = uart0"
    using attached_served [of env0 "the (qemu_chr_open_udp [] 5)"] front [of "the (qemu_chr_open_udp [] 5)"]
    by (simp_all add: udp_ok_def udp_rest_def d_def) (simp_all add: attached_def qemu_chr_open_udp_def)
  note w = host_streams_reach_uart [where e = env0 and a = "attached env0 (qemu_chr_open_fd [] 0 1)" and b = b and
      c = "attached env0 (the (qemu_chr_open_pty [] (Some (7, 8))))" and d = d and ks = "[2, 1]" and stream = "[65, 66]" and
      now = 0 and ts = "[True]" and dgrams = "[[65], [66]]"]
  note w1 = w [THEN conjunct1, THEN mp, OF attached_served]
    and w2 = w [THEN conjunct2, THEN conjunct1, THEN mp, OF b(1)]
    and w3 = w [THEN conjunct2, THEN conjunct2, THEN conjunct1, THEN mp, OF attached_served]
    and w4 = w [THEN conjunct2, THEN conjunct2, THEN conjunct2, THEN mp, OF d(1)]
  have room: "0 < hd [2, 1 :: nat]" "[2, 1 :: nat] \<noteq> []" "[65, 66 :: u8] \<noteq> []" "[[65], [66 :: u8]] \<noteq> []" "[True] \<noteq> []" "hd [True]"
    by simp_all
  obtain d' came left where o: "dgram_loop [True] [[65], [66]] d = Inr (d', left)" "[[65], [66]] = came @ left"
      "uart_recv (frontend d') @ udp_rest d' = concat (map (take READ_BUF_LEN) came)" "came \<noteq> []"
    using w4 room can unfolding d(2,3) can(2) append_Nil by blast
  from o(2,4) have "came = [[65]] \<and> left = [[66]] \<or> came = [[65], [66]] \<and> left = []"
    by (auto simp add: Cons_eq_append_conv)
  then have "uart_recv (frontend d') @ udp_rest d' @ concat left = [65, 66] \<and> length left \<le> 1"
    unfolding append_assoc [symmetric] o(3) by auto
  with o(1) w1 w2 w3 room show ?thesis unfolding b_def [symmetric] d_def [symmetric] front b(2,3) can(2) append_Nil
    using can(1) by blast
qed

text \<open>
  C5. A UART behind a TCP socket with telnet: when the client sends data (with the escape byte
  doubled) and commands with an option, in any interleaving and cut into reads anywhere, also within
  a command, the UART receives the data and nothing of the commands: what it has, with what the rest
  of the stream still decodes to from the mode the socket is in, is always the whole data. When the
  UART can take a byte and there are some, a turn of the main loop makes progress.
\<close>

theorem telnet_serves_uart:
  assumes "tcp_ok uart_can_read (serial_receive1 e) uart_event ser_good d" and "do_telnetopt d = 1"
    and "\<forall>i \<in> set items. tn_wellformed i \<and> i \<noteq> Break"
  shows "\<exists>d' got rest. main_loop tcp_chr_read_poll (\<lambda>ans. tcp_chr_read (\<lambda>len. (ans len, msgs))) tcp_limit ks (tn_stream items) d =
      Inr (d', rest) \<and> tcp_ok uart_can_read (serial_receive1 e) uart_event ser_good d' \<and> tn_stream items = got @ rest \<and>
    uart_recv (frontend d') @ tn_data (do_telnetopt d') rest = uart_recv (frontend d) @ concat (map tn_payload items) \<and>
    (ks \<noteq> [] \<and> 0 < hd ks \<and> items \<noteq> [] \<and> 0 < uart_can_read (frontend d) \<longrightarrow> got \<noteq> [])"
proof -
  let ?bytes = "tn_stream items"
  note decodes = tn_stream_decodes [of items]
  have "filter (\<lambda>i. i = Break) items = []" using assms(3) by (induction items) auto
  then have quiet: "tn_quiet (tcp_got uart_recv d) ?bytes"
    using decodes(3) assms(2,3) by (simp add: tn_quiet_def tcp_got_def)
  obtain d' got rest where run: "main_loop tcp_chr_read_poll (\<lambda>ans. tcp_chr_read (\<lambda>len. (ans len, msgs))) tcp_limit ks ?bytes d = Inr (d', rest)"
      "tcp_ok uart_can_read (serial_receive1 e) uart_event ser_good d'" "?bytes = got @ rest"
      "tcp_got uart_recv d' = tn_feed (tcp_got uart_recv d) got"
      "\<forall>n t. ks \<noteq> [] \<and> 0 < hd ks \<and> ?bytes \<noteq> [] \<and> tcp_chr_read_poll d = Inr (n, t) \<and> 0 < n \<longrightarrow> got \<noteq> []"
    using serve.tcp.main_loop_feeds [OF assms(1) quiet, where msgs = msgs and ks = ks] by blast
  have got: "do_telnetopt d' = tn_mode 1 got" "uart_recv (frontend d') = uart_recv (frontend d) @ tn_data 1 got"
    using run(4) assms(2) by (simp_all add: tcp_got_def tn_feed_def)
  have "concat (map tn_payload items) = tn_data 1 got @ tn_data (tn_mode 1 got) rest"
    using decodes(2) assms(3) by (simp add: run(3) tn_append)
  moreover have "tn_encode i \<noteq> []" for i by (cases i) auto
  then have "items \<noteq> [] \<Longrightarrow> ?bytes \<noteq> []" by (cases items) auto
  moreover have "\<exists>t. tcp_chr_read_poll d = Inr (uart_can_read (frontend d), t)"
    using assms(1) serve.can_write [of e d] by (simp add: tcp_ok_def tcp_chr_read_poll_def)
  ultimately show ?thesis using run got by fastforce
qed

text \<open>A client has just connected to a UART behind telnet.\<close>

definition telnet_line :: "serial_state tcpchr" where
  "telnet_line = attached env0 (tcp_chr_connect ((tcp_chr_zero [])\<lparr>tcp_fd := 4, listen_fd := 3, do_telnetopt := 1\<rparr>))"

lemma telnet_line_ok: "tcp_ok uart_can_read (serial_receive1 env0) uart_event ser_good telnet_line"
    "do_telnetopt telnet_line = 1" "uart_recv (frontend telnet_line) = []"
  by (simp_all add: telnet_line_def tcp_ok_def attached_served attached_recv)
    (simp_all add: attached_def tcp_chr_connect_def tcp_chr_zero_def set_watch_def qemu_chr_generic_open_def Let_def)

theorem telnet_serves_uart_witness:
  "\<exists>d' rest. main_loop tcp_chr_read_poll (\<lambda>ans. tcp_chr_read (\<lambda>len. (ans len, []))) tcp_limit [2, 9, 1, 1, 1, 1]
      [255, 251, 1, 65, 255, 255] telnet_line = Inr (d', rest) \<and>
    uart_recv (frontend d') @ tn_data (do_telnetopt d') rest = [65, 255]"
proof -
  have "tn_stream [Option 251 1, Data 65, Data 255] = [255, 251, 1, 65, 255, 255]" by simp
  with telnet_serves_uart [OF telnet_line_ok(1,2), of "[Option 251 1, Data 65, Data 255]" "[]" "[2, 9, 1, 1, 1, 1]"]
  show ?thesis by (auto simp: telnet_line_ok(3))
qed

text \<open>
  C20. The in-place loop over the bytes of one read does what the decoder says, for any bytes, any
  mode and any frontend, and it keeps within the buffer: the kept bytes are the data, the mode is the
  decoder's, and the only other effect is that the breaks are reported. They are all reported before
  the caller hands the data on, so a break overtakes the data that came before it in the same read.
\<close>

theorem iac_bytes_decoded:
  assumes "do_telnetopt s \<in> {1, 2, 3}"
  shows "\<exists>buf. take (length (tn_data (do_telnetopt s) xs)) buf = tn_data (do_telnetopt s) xs \<and>
    tcp_chr_process_IAC_bytes s xs (length xs) =
      rbind (do_breaks (tn_breaks (do_telnetopt s) xs) s) (\<lambda>t.
      Inr (buf, length (tn_data (do_telnetopt s) xs), t\<lparr>do_telnetopt := tn_mode (do_telnetopt s) xs\<rparr>))"
  using iac_loop_decodes [OF assms, of 0 "length xs" xs 0] by (auto simp: tcp_chr_process_IAC_bytes_def iac_outcome_def)

theorem iac_bytes_decoded_witness:
  "\<exists>buf. take 2 buf = [65, 66] \<and> tcp_chr_process_IAC_bytes telnet_line [65, 255, 243, 66] 4 =
     rbind (do_breaks 1 telnet_line) (\<lambda>t. Inr (buf, 2, t\<lparr>do_telnetopt := 1\<rparr>))"
proof -
  have "tn_decode 1 [65, 255, 243, 66] = (1, [65, 66], 1)" by (simp add: tn_step_def)
  then have "tn_mode 1 [65, 255, 243, 66] = 1" "tn_data 1 [65, 255, 243, 66] = [65, 66]" "tn_breaks 1 [65, 255, 243, 66] = 1"
    by (simp_all add: tn_defs)
  with iac_bytes_decoded [of telnet_line "[65, 255, 243, 66]"] show ?thesis
    by (simp add: telnet_line_ok(2) eval_nat_numeral)
qed

end
