(* ===== verification/Chardev_Conn.thy ===== *)
theory Chardev_Conn
  imports Chardev_Net Chardev_Telnet
begin

text \<open>
  The connections of the socket and of the pseudo terminal as state machines: the steps are the
  handlers and the calls from outside, in any order; the invariants say which descriptors the main
  loop watches and that a pseudo terminal without a peer is looked at again.
\<close>

section \<open>A socket\<close>

definition tcp_watches :: "int \<Rightarrow> int \<Rightarrow> int \<Rightarrow> watch option" where
  "tcp_watches cfd lfd =
     (\<lambda>fd. if fd < 0 then None else if fd = cfd then Some WatchRead
           else if fd = lfd \<and> cfd = - 1 then Some WatchAccept else None)"

definition tcp_inv :: "('o, 'z) tcpchr_scheme \<Rightarrow> bool" where
  "tcp_inv s \<longleftrightarrow> (tcp_connected s \<longleftrightarrow> tcp_fd s \<noteq> - 1) \<and> - 1 \<le> tcp_fd s \<and> - 1 \<le> listen_fd s \<and>
     (tcp_connected s \<longrightarrow> tcp_fd s \<noteq> listen_fd s) \<and> h_watch s = tcp_watches (tcp_fd s) (listen_fd s)"

definition tcp_same :: "('o, 'z) tcpchr_scheme \<Rightarrow> ('o, 'z) tcpchr_scheme \<Rightarrow> bool" where
  "tcp_same s t \<longleftrightarrow> tcp_connected t = tcp_connected s \<and> tcp_fd t = tcp_fd s \<and> listen_fd t = listen_fd s \<and> h_watch t = h_watch s"

lemma tcp_inv_same: "tcp_inv s \<Longrightarrow> tcp_same s t \<Longrightarrow> tcp_inv t"
  by (simp add: tcp_inv_def tcp_same_def)

lemma tcp_same_refl [simp]: "tcp_same s s" and tcp_same_trans [trans]: "tcp_same s t \<Longrightarrow> tcp_same t u \<Longrightarrow> tcp_same s u"
  by (simp_all add: tcp_same_def)

text \<open>What the frontend does, the telnet loop and the passing of descriptors leave the connection alone.\<close>

lemma handler_same: "call_handler f p x s = Inr t \<Longrightarrow> tcp_same s t"
  by (auto simp: call_handler_def rbind_eq_Inr tcp_same_def split: option.splits)

lemma event_same: "qemu_chr_be_event s v = Inr t \<Longrightarrow> tcp_same s t"
  by (auto simp: qemu_chr_be_event_def tcp_same_def dest!: handler_same split: chr_event.splits)

lemma be_write_same: "qemu_chr_be_write s buf = Inr t \<Longrightarrow> tcp_same s t"
  by (simp add: qemu_chr_be_write_def handler_same)

lemma mode_same [simp]: "tcp_same (s\<lparr>do_telnetopt := m\<rparr>) t = tcp_same s t" "tcp_same s (t\<lparr>do_telnetopt := m\<rparr>) = tcp_same s t"
  by (simp_all add: tcp_same_def)

lemma iac_same: "iac_loop n i j buf s = Inr (buf', j', t) \<Longrightarrow> tcp_same s t"
proof (induction n arbitrary: i j buf s)
  case (Suc n)
  from Suc.prems have "\<exists>i1 j1 buf1 s1. tcp_same s s1 \<and> iac_loop n i1 j1 buf1 s1 = Inr (buf', j', t)"
  proof (cases "1 < do_telnetopt s")
    case True
    with Suc.prems obtain c buf1 j1 s1 where c:
        "(if c = IAC \<and> do_telnetopt s = 2 then
            rbind (if j \<noteq> i then arr_set buf j c else Inr buf) (\<lambda>buf. Inr (buf, j + 1, s\<lparr>do_telnetopt := 1\<rparr>))
          else rbind (if c = IAC_BREAK \<and> do_telnetopt s = 2 then
                 rbind (qemu_chr_be_event s CHR_EVENT_BREAK) (\<lambda>s. Inr (s\<lparr>do_telnetopt := do_telnetopt s + 1\<rparr>))
               else Inr s) (\<lambda>s. Inr (buf, j, s\<lparr>do_telnetopt := do_telnetopt s + 1\<rparr>))) = Inr (buf1, j1, s1)"
        "iac_loop n (i + 1) j1 buf1 (if 4 \<le> do_telnetopt s1 then s1\<lparr>do_telnetopt := 1\<rparr> else s1) = Inr (buf', j', t)"
      by (clarsimp simp only: iac_loop.simps rbind_eq_Inr if_True split: prod.splits) blast
    have "tcp_same s s1" using c(1) by (auto simp: rbind_eq_Inr split: if_splits dest: event_same)
    then have "tcp_same s (if 4 \<le> do_telnetopt s1 then s1\<lparr>do_telnetopt := 1\<rparr> else s1)" by simp
    with c(2) show ?thesis by blast
  next
    case False
    with Suc.prems show ?thesis by (auto simp: rbind_eq_Inr split: if_splits) (metis mode_same(2) tcp_same_refl)+
  qed
  then show ?case using Suc.IH tcp_same_trans by blast
qed simp

lemma msgfd_same: "tcp_same s (unix_process_msgfd msgs s)"
  by (induction msgs s rule: unix_process_msgfd.induct) (auto simp: tcp_same_def close_fd_def)

lemma generic_open_same: "tcp_same s (qemu_chr_generic_open s)"
  by (simp add: qemu_chr_generic_open_def tcp_same_def)

lemma close_fd_same: "tcp_same s (close_fd fd s)"
  by (simp add: close_fd_def tcp_same_def)

lemma attach_same: "qemu_chr_add_handlers None s h p = Inr t \<Longrightarrow> tcp_same s t"
  by (auto simp: qemu_chr_add_handlers_def qemu_chr_generic_open_def Let_def tcp_same_def split: if_splits)

lemma fire_open_same: "qemu_chr_fire_open_event s = Inr t \<Longrightarrow> tcp_same s t"
  by (auto simp: qemu_chr_fire_open_event_def rbind_eq_Inr dest!: event_same) (simp add: tcp_same_def)

lemma send_all_same: "send_all w fd buf s = Some (r, t) \<Longrightarrow> tcp_same s t"
  by (auto simp: send_all_def tcp_same_def)

text \<open>
  The steps: the handlers that the main loop calls, a frontend that attaches or detaches, and calls from outside.
  A descriptor that the host hands out is not the one it listens on.
\<close>

inductive tcp_step :: "'o tcpchr \<Rightarrow> 'o tcpchr \<Rightarrow> bool" where
  poll: "tcp_chr_read_poll s = Inr (n, t) \<Longrightarrow> tcp_step s t"
| recv: "tcp_chr_read ans s = Inr t \<Longrightarrow> tcp_step s t"
| send: "tcp_chr_write w s buf = Some (r, t) \<Longrightarrow> tcp_step s t"
| accept: "tcp_chr_accept acc s = Some t \<Longrightarrow> (\<And>fd. Some fd \<in> set acc \<Longrightarrow> 0 \<le> fd \<Longrightarrow> fd \<noteq> listen_fd s) \<Longrightarrow> tcp_step s t"
| add_client: "tcp_chr_add_client s fd = (r, t) \<Longrightarrow> 0 \<le> fd \<Longrightarrow> fd \<noteq> listen_fd s \<Longrightarrow> tcp_step s t"
| take_msgfd: "tcp_get_msgfd s = (fd, t) \<Longrightarrow> tcp_step s t"
| attach: "qemu_chr_add_handlers None s h p = Inr t \<Longrightarrow> tcp_step s t"
| fire_open: "qemu_chr_fire_open_event s = Inr t \<Longrightarrow> tcp_step s t"

inductive tcp_reach :: "'o tcpchr \<Rightarrow> bool" where
  opened: "qemu_chr_open_socket_fd objs name acc fd nodelay is_listen is_telnet is_waitconnect = Some (Some s) \<Longrightarrow> 0 \<le> fd \<Longrightarrow>
    (\<And>cfd. Some cfd \<in> set acc \<Longrightarrow> 0 \<le> cfd \<Longrightarrow> cfd \<noteq> fd) \<Longrightarrow> tcp_reach s"
| step: "tcp_reach s \<Longrightarrow> tcp_step s t \<Longrightarrow> tcp_reach t"

inductive_cases tcp_stepE: "tcp_step s t"

lemma connect_inv:
  assumes "tcp_inv s" and "tcp_fd s = - 1" and "0 \<le> fd" and "fd \<noteq> listen_fd s"
  shows "tcp_inv (tcp_chr_connect (set_watch (listen_fd s) None (s\<lparr>tcp_fd := fd\<rparr>)))"
  using assms by (auto simp: tcp_inv_def tcp_chr_connect_def Let_def qemu_chr_generic_open_def set_watch_def tcp_watches_def)

lemma telnet_init_same: "tcp_same s (tcp_chr_telnet_init fd s)"
  by (simp add: tcp_same_def tcp_chr_telnet_init_def)

lemma add_client_inv:
  assumes "tcp_inv s" and "0 \<le> fd" and "fd \<noteq> listen_fd s"
  shows "tcp_inv (snd (tcp_chr_add_client s fd))"
  using assms by (simp add: tcp_chr_add_client_def connect_inv)

lemma accept_inv:
  assumes "tcp_inv s" and "tcp_chr_accept acc s = Some t" and "\<And>fd. Some fd \<in> set acc \<Longrightarrow> 0 \<le> fd \<Longrightarrow> fd \<noteq> listen_fd s"
  shows "tcp_inv t"
  using assms
proof (induction acc s rule: tcp_chr_accept.induct)
  case (3 fd rest s)
  show ?case
  proof (cases "fd < 0")
    case True
    with 3 show ?thesis by simp
  next
    case False
    let ?u = "if do_telnetopt s \<noteq> 0 then tcp_chr_telnet_init fd s else s"
    have u: "tcp_inv ?u" "fd \<noteq> listen_fd ?u"
      using 3 False tcp_inv_same telnet_init_same [of s fd] by (auto simp: tcp_same_def)
    obtain r v where v: "tcp_chr_add_client ?u fd = (r, v)" by (cases "tcp_chr_add_client ?u fd")
    then have "tcp_inv v" using add_client_inv [OF u(1) _ u(2)] False by simp
    moreover from this have "tcp_inv (close_fd fd v)" by (rule tcp_inv_same) (rule close_fd_same)
    moreover have "t = (if r < 0 then close_fd fd v else v)" using "3.prems"(2) False v by simp
    ultimately show ?thesis by simp
  qed
qed simp_all

definition tcp_hangup :: "('o, 'z) tcpchr_scheme \<Rightarrow> ('o, 'z) tcpchr_scheme" where
  "tcp_hangup s =
     (let s = s\<lparr>tcp_connected := False\<rparr>;
          s = (if 0 \<le> listen_fd s then set_watch (listen_fd s) (Some WatchAccept) s else s);
          s = close_fd (tcp_fd s) (set_watch (tcp_fd s) None s)
      in s\<lparr>tcp_fd := - 1\<rparr>)"

lemma hangup_fields:
  "tcp_fd (tcp_hangup s) = - 1" "listen_fd (tcp_hangup s) = listen_fd s" "tcp_connected (tcp_hangup s) = False"
  "h_watch (tcp_hangup s) =
     (if 0 \<le> listen_fd s then (h_watch s)(listen_fd s := Some WatchAccept) else h_watch s)(tcp_fd s := None)"
  "h_closed (tcp_hangup s) = h_closed s @ [tcp_fd s]"
  by (simp_all add: tcp_hangup_def Let_def set_watch_def close_fd_def)

lemma hangup_inv: "tcp_inv s \<Longrightarrow> tcp_connected s \<Longrightarrow> tcp_inv (tcp_hangup s)"
  by (auto simp: tcp_inv_def hangup_fields tcp_watches_def)

lemma read_inv:
  assumes "tcp_inv s" and "tcp_chr_read ans s = Inr t"
  shows "tcp_inv t"
proof (cases "\<not> tcp_connected s \<or> tcp_max_size s \<le> 0")
  case True
  with assms show ?thesis by (simp add: tcp_chr_read_def)
next
  case False
  obtain r u where r: "tcp_chr_recv ans (nat (min (int READ_BUF_LEN) (tcp_max_size s))) s = (r, u)" by fastforce
  then have u: "tcp_same s u"
    using msgfd_same by (auto simp: tcp_chr_recv_def split: prod.splits rres.splits if_splits)
  note run = assms(2) [unfolded tcp_chr_read_def, simplified, unfolded r]
  show ?thesis
  proof (cases r)
    case (Got xs)
    show ?thesis
    proof (cases "xs = []")
      case True
      have "tcp_inv (tcp_hangup u)"
        using hangup_inv [OF tcp_inv_same [OF assms(1) u]] False u by (simp add: tcp_same_def)
      moreover have "qemu_chr_be_event (tcp_hangup u) CHR_EVENT_CLOSED = Inr t"
        using run False Got True by (simp add: tcp_hangup_def Let_def)
      ultimately show ?thesis using tcp_inv_same event_same by blast
    next
      case ne: False
      from run False Got ne have "tcp_same u t"
        by (auto simp: rbind_eq_Inr tcp_chr_process_IAC_bytes_def split: if_splits
            dest!: iac_same be_write_same intro: tcp_same_trans)
      then show ?thesis using tcp_inv_same [OF assms(1)] u tcp_same_trans by blast
    qed
  qed (use run False tcp_inv_same [OF assms(1) u] in simp_all)
qed

lemma open_inv:
  assumes "qemu_chr_open_socket_fd objs name acc fd nodelay is_listen is_telnet is_waitconnect = Some (Some s)" and "0 \<le> fd"
    and "\<And>cfd. Some cfd \<in> set acc \<Longrightarrow> 0 \<le> cfd \<Longrightarrow> cfd \<noteq> fd"
  shows "tcp_inv s"
proof -
  obtain nm where nm: "name = Some nm" using assms(1) by (cases name) (simp_all add: qemu_chr_open_socket_fd_def)
  let ?z = "sock_named nm nodelay is_listen is_telnet (tcp_chr_zero objs)"
  have z: "tcp_fd ?z = - 1" "listen_fd ?z = - 1" "tcp_connected ?z = False" "h_watch ?z = (\<lambda>_. None)"
    by (cases nm; simp add: sock_named_def Let_def tcp_chr_zero_def)+
  show ?thesis
  proof (cases is_listen)
    case False
    with assms(1) nm have "s = tcp_chr_connect (?z\<lparr>tcp_connected := True, tcp_fd := fd\<rparr>)"
      by (simp add: qemu_chr_open_socket_fd_def)
    with assms(2) z show ?thesis
      by (auto simp: tcp_inv_def tcp_chr_connect_def Let_def qemu_chr_generic_open_def set_watch_def tcp_watches_def)
  next
    case True
    let ?l = "let s = set_watch fd (Some WatchAccept) (?z\<lparr>listen_fd := fd\<rparr>) in if is_telnet then s\<lparr>do_telnetopt := 1\<rparr> else s"
    have l: "tcp_inv ?l" "listen_fd ?l = fd"
      using assms(2) z by (auto simp: tcp_inv_def set_watch_def tcp_watches_def Let_def)
    have "(if is_waitconnect then tcp_chr_accept acc ?l else Some ?l) = Some s"
      using assms(1) nm True by (auto simp: qemu_chr_open_socket_fd_def Let_def split: if_splits)
    then show ?thesis using l accept_inv [OF l(1), of acc s] assms(3) by (auto split: if_splits)
  qed
qed

lemma tcp_reach_inv: "tcp_reach s \<Longrightarrow> tcp_inv s"
proof (induction rule: tcp_reach.induct)
  case (opened objs name acc fd nodelay is_listen is_telnet is_waitconnect s)
  then show ?case by (rule open_inv)
next
  case (step s t)
  from step.hyps(2) show ?case
  proof (cases rule: tcp_step.cases)
    case (poll n)
    then have "tcp_same s t" by (auto simp: tcp_chr_read_poll_def tcp_same_def rbind_eq_Inr split: if_splits)
    with step.IH show ?thesis by (rule tcp_inv_same)
  next
    case (recv ans)
    with step.IH show ?thesis by (rule read_inv)
  next
    case (send w buf r)
    then have "tcp_same s t" using send_all_same by (auto simp: tcp_chr_write_def split: if_splits)
    with step.IH show ?thesis by (rule tcp_inv_same)
  next
    case (accept acc)
    with step.IH show ?thesis by (metis accept_inv)
  next
    case (add_client fd r)
    with step.IH show ?thesis by (metis add_client_inv snd_conv)
  next
    case (take_msgfd fd)
    then have "tcp_same s t" by (auto simp: tcp_get_msgfd_def tcp_same_def)
    with step.IH show ?thesis by (rule tcp_inv_same)
  next
    case (attach h p)
    with step.IH show ?thesis by (metis tcp_inv_same attach_same)
  next
    case fire_open
    with step.IH show ?thesis by (metis tcp_inv_same fire_open_same)
  qed
qed

text \<open>A client that comes while another is connected is closed and changes nothing.\<close>

lemma accept_refused:
  assumes "tcp_inv s" and "tcp_connected s" and "0 \<le> fd"
  shows "\<exists>t. tcp_chr_accept [Some fd] s = Some t \<and> tcp_same s t \<and> h_closed t = h_closed s @ [fd]"
proof -
  let ?u = "if do_telnetopt s \<noteq> 0 then tcp_chr_telnet_init fd s else s"
  have u: "tcp_same s ?u" "h_closed ?u = h_closed s" "tcp_fd ?u \<noteq> - 1"
    using assms(1,2) telnet_init_same [of s fd] by (auto simp: tcp_inv_def tcp_chr_telnet_init_def)
  then have "tcp_chr_accept [Some fd] s = Some (close_fd fd ?u)" using assms(3) by (simp add: tcp_chr_add_client_def Let_def)
  with u show ?thesis using tcp_same_trans [OF u(1) close_fd_same] by (simp add: close_fd_def)
qed

lemma read_eof:
  assumes "tcp_connected s" and "0 < tcp_max_size s" and "tcp_chr_read (\<lambda>_. (Got [], msgs)) s = Inr t"
  shows "tcp_same (tcp_hangup s) t \<and> h_closed t = h_closed s @ [tcp_fd s]"
proof -
  have e: "qemu_chr_be_event (tcp_hangup s) CHR_EVENT_CLOSED = Inr t"
    using assms by (simp add: tcp_chr_read_def tcp_chr_recv_def tcp_hangup_def Let_def)
  then have "h_closed t = h_closed (tcp_hangup s)"
    by (auto simp: qemu_chr_be_event_def call_handler_def rbind_eq_Inr Let_def split: option.splits)
  with event_same [OF e] show ?thesis by (simp add: hangup_fields)
qed

section \<open>A pseudo terminal\<close>

text \<open>The timer goes off: it is no longer set when its handler runs.\<close>

definition pty_fire :: "int \<Rightarrow> 'o ptychr \<Rightarrow> 'o ptychr" where
  "pty_fire now s = pty_chr_timer now (s\<lparr>pty_timer := None\<rparr>)"

text \<open>
  What can happen to the device. A read of an absent peer's terminal gives \<open>EIO\<close> or the end of the file, that is
  \<open>Lost\<close>; any other read is \<open>Took\<close>.
\<close>

datatype pty_event = Attached | Opened | Polled | Took | Lost | Sent | Timed

definition pty_lost :: "(nat \<Rightarrow> rres) \<Rightarrow> 'o ptychr \<Rightarrow> bool" where
  "pty_lost ans s \<longleftrightarrow> (let len = min (int READ_BUF_LEN) (pty_read_bytes s) in 0 < len \<and> (ans (nat len) = RdEIO \<or> ans (nat len) = Got []))"

definition pty_attach :: "int \<Rightarrow> 'o ptychr \<Rightarrow> 'o handlers \<Rightarrow> nat option \<Rightarrow> 'o ptychr res" where
  "pty_attach now = qemu_chr_add_handlers (Some (\<lambda>s. Inr (pty_chr_update_read_handler now s)))"

inductive pty_step :: "pty_event \<Rightarrow> 'o ptychr \<Rightarrow> 'o ptychr \<Rightarrow> bool" where
  attach: "pty_attach now s h p = Inr t \<Longrightarrow> pty_step Attached s t"
| fire_open: "qemu_chr_fire_open_event s = Inr t \<Longrightarrow> pty_step Opened s t"
| poll: "pty_chr_read_poll s = Inr (n, t) \<Longrightarrow> pty_step Polled s t"
| recv: "h_watch s (pty_fd s) = Some WatchRead \<Longrightarrow> pty_chr_read now ans s = Inr t \<Longrightarrow>
    pty_step (if pty_lost ans s then Lost else Took) s t"
| send: "pty_chr_write now w s buf = Some (r, t) \<Longrightarrow> pty_step Sent s t"
| timeout: "pty_timer s \<noteq> None \<Longrightarrow> pty_step Timed s (pty_fire now s)"

inductive pty_run :: "'o ptychr \<Rightarrow> pty_event list \<Rightarrow> 'o ptychr \<Rightarrow> bool" where
  none: "pty_run s [] s"
| more: "pty_run s evs t \<Longrightarrow> pty_step ev t u \<Longrightarrow> pty_run s (evs @ [ev]) u"

text \<open>From the moment a frontend attaches.\<close>

inductive pty_reach :: "'o ptychr \<Rightarrow> bool" where
  opened: "qemu_chr_open_pty objs (Some (mfd, sfd)) = Some s \<Longrightarrow> pty_attach now s h p = Inr t \<Longrightarrow> pty_reach t"
| step: "pty_reach s \<Longrightarrow> pty_step ev s t \<Longrightarrow> pty_reach t"

definition pty_inv :: "('o, 'z) ptychr_scheme \<Rightarrow> bool" where
  "pty_inv s \<longleftrightarrow> h_watch s = (\<lambda>fd. if fd = pty_fd s \<and> pty_polling s then Some WatchRead else None) \<and>
     (pty_connected s \<longrightarrow> pty_polling s) \<and> (\<not> pty_connected s \<longrightarrow> pty_timer s \<noteq> None)"

definition pty_same :: "('o, 'z) ptychr_scheme \<Rightarrow> ('o, 'z) ptychr_scheme \<Rightarrow> bool" where
  "pty_same s t \<longleftrightarrow> h_watch t = h_watch s \<and> pty_fd t = pty_fd s \<and> pty_polling t = pty_polling s \<and>
     pty_connected t = pty_connected s \<and> pty_timer t = pty_timer s"

lemma pty_inv_same: "pty_inv s \<Longrightarrow> pty_same s t \<Longrightarrow> pty_inv t"
  by (simp add: pty_inv_def pty_same_def)

lemma pty_attach_inv:
  assumes "\<And>fd. fd \<noteq> pty_fd s \<Longrightarrow> h_watch s fd = None"
  shows "pty_inv (pty_chr_update_read_handler now s)"
  using assms by (auto simp: pty_inv_def pty_chr_update_read_handler_def set_watch_def)

lemma pty_attach_same:
  assumes "pty_attach now s h p = Inr t"
  shows "pty_same (pty_chr_update_read_handler now s) t"
  using assms by (auto simp: pty_attach_def qemu_chr_add_handlers_def qemu_chr_generic_open_def Let_def pty_same_def
      pty_chr_update_read_handler_def set_watch_def split: if_splits)

lemma pty_fire_open_same:
  assumes "qemu_chr_fire_open_event s = Inr t"
  shows "pty_same s t"
  using assms by (auto simp: qemu_chr_fire_open_event_def qemu_chr_be_event_def call_handler_def rbind_eq_Inr pty_same_def
      Let_def split: option.splits)

lemma pty_state_inv:
  assumes "pty_inv s" and "c \<longrightarrow> pty_polling s"
  shows "pty_inv (pty_chr_state now s c)"
  using assms by (auto simp: pty_inv_def pty_chr_state_def set_watch_def qemu_chr_generic_open_def)

lemma pty_write_same: "qemu_chr_be_write s buf = Inr t \<Longrightarrow> pty_same s t"
  by (auto simp: qemu_chr_be_write_def call_handler_def rbind_eq_Inr pty_same_def split: option.splits)

lemma pty_reads_inv:
  assumes "pty_inv s" and "pty_polling s" and "pty_chr_read now ans s = Inr t"
  shows "pty_inv t"
  using assms pty_state_inv [OF assms(1), of True now] pty_state_inv [OF assms(1), of False now]
  by (auto simp: pty_chr_read_def Let_def split: if_splits rres.splits dest!: pty_write_same intro: pty_inv_same)

lemma pty_fire_inv:
  assumes "pty_inv s"
  shows "pty_inv (pty_fire now s)"
  using assms by (auto simp: pty_inv_def pty_fire_def pty_chr_timer_def pty_chr_state_def pty_chr_update_read_handler_def
      set_watch_def qemu_chr_generic_open_def)

lemma pty_reach_inv: "pty_reach s \<Longrightarrow> pty_inv s"
proof (induction rule: pty_reach.induct)
  case (opened objs mfd sfd s now h p t)
  then have "pty_inv (pty_chr_update_read_handler now s)" by (intro pty_attach_inv) (auto simp: qemu_chr_open_pty_def)
  with pty_attach_same [OF opened(2)] show ?case by (metis pty_inv_same)
next
  case (step s ev t)
  from step.IH have others: "fd \<noteq> pty_fd s \<Longrightarrow> h_watch s fd = None" for fd by (simp add: pty_inv_def)
  from step.hyps(2) show ?case
  proof (cases rule: pty_step.cases)
    case (attach now h p)
    with others show ?thesis by (metis pty_attach_inv pty_inv_same pty_attach_same)
  next
    case fire_open
    with step.IH show ?thesis by (metis pty_inv_same pty_fire_open_same)
  next
    case (poll n)
    then have "pty_same s t" by (auto simp: pty_chr_read_poll_def pty_same_def rbind_eq_Inr)
    with step.IH show ?thesis by (rule pty_inv_same)
  next
    case (recv now ans)
    with step.IH have "pty_polling s" by (simp add: pty_inv_def split: if_splits)
    with step.IH recv show ?thesis by (metis pty_reads_inv)
  next
    case (send now w buf r)
    have "send_all w fd buf s = Some (r, t) \<Longrightarrow> pty_same s t" for fd by (auto simp: send_all_def pty_same_def)
    with send step.IH others show ?thesis
      by (auto simp: pty_chr_write_def split: if_splits intro: pty_attach_inv pty_inv_same)
  next
    case (timeout now)
    with step.IH show ?thesis by (simp add: pty_fire_inv)
  qed
qed

text \<open>
  While the peer is there, a device that polls or is connected goes on to do so, and one turn of the timer takes
  it from waiting to polling and from polling to connected.
\<close>

lemma pty_step_present:
  assumes "pty_step ev s t" and "ev \<noteq> Lost"
  shows "(pty_polling s \<longrightarrow> pty_polling t) \<and> (pty_connected s \<longrightarrow> pty_connected t) \<and>
    (ev = Timed \<longrightarrow> pty_connected t \<or> pty_polling t \<and> (pty_polling s \<longrightarrow> pty_connected t))"
  using assms(1)
proof (cases rule: pty_step.cases)
  case (attach now h p)
  from pty_attach_same [OF attach(2)] attach(1) show ?thesis
    by (simp add: pty_same_def pty_chr_update_read_handler_def set_watch_def)
next
  case fire_open
  from pty_fire_open_same [OF fire_open(2)] fire_open(1) show ?thesis by (simp add: pty_same_def)
next
  case (poll n)
  then show ?thesis by (auto simp: pty_chr_read_poll_def rbind_eq_Inr)
next
  case (recv now ans)
  then have "\<not> pty_lost ans s" using assms(2) by auto
  with recv show ?thesis
    by (auto simp: pty_lost_def pty_chr_read_def Let_def pty_chr_state_def qemu_chr_generic_open_def
        split: if_splits rres.splits dest!: pty_write_same simp: pty_same_def)
next
  case (send now w buf r)
  then show ?thesis
    by (auto simp: pty_chr_write_def send_all_def pty_chr_update_read_handler_def set_watch_def split: if_splits)
next
  case (timeout now)
  then show ?thesis
    by (simp add: pty_fire_def pty_chr_timer_def pty_chr_state_def pty_chr_update_read_handler_def set_watch_def qemu_chr_generic_open_def)
qed

lemma pty_run_present:
  assumes "pty_run s evs t" and "Lost \<notin> set evs"
  shows "(1 \<le> count_list evs Timed \<longrightarrow> pty_polling t \<or> pty_connected t) \<and> (2 \<le> count_list evs Timed \<longrightarrow> pty_connected t)"
  using assms
proof (induction rule: pty_run.induct)
  case (more s evs t ev u)
  then have ev: "ev \<noteq> Lost" and old: "1 \<le> count_list evs Timed \<longrightarrow> pty_polling t \<or> pty_connected t" "2 \<le> count_list evs Timed \<longrightarrow> pty_connected t"
    by auto
  show ?case using pty_step_present [OF more.hyps(2) ev] old by (cases "ev = Timed") auto
qed simp

lemma pty_read_lost:
  assumes "pty_lost ans s" and "pty_chr_read now ans s = Inr t"
  shows "t = pty_chr_state now s False"
  using assms by (auto simp: pty_lost_def pty_chr_read_def Let_def split: if_splits)

lemma pty_read_data:
  assumes "pty_chr_read now ans s = Inr t" and "0 < pty_read_bytes s" and "ans (nat (min (int READ_BUF_LEN) (pty_read_bytes s))) = Got buf"
    and "buf \<noteq> []"
  shows "pty_connected t"
  using assms by (auto simp: pty_chr_read_def Let_def pty_same_def pty_chr_state_def dest!: pty_write_same split: if_splits)

section \<open>Properties\<close>

text \<open>
  C13. In every state that a socket device reaches through polling, reading, writing, accepting and handing in
  clients, where the host never hands out the listening descriptor for a client, the device is connected exactly
  when it has a descriptor, and the main loop watches at most one: the client's for data, or, without one and if
  the device is a server, the listening socket for the next client. A client that comes while another is there is
  closed at once (a telnet server greets it first), and connection and watches stay as they were. When the client
  has left and the frontend has room, so that the end is read and the frontend handles the event, its descriptor
  is closed; a server listens again, and a device that had made the connection itself watches nothing any more.
\<close>

theorem tcp_socket_watched:
  assumes "tcp_reach s"
  shows "(tcp_connected s \<longleftrightarrow> tcp_fd s \<noteq> - 1) \<and>
    h_watch s = (\<lambda>fd. if fd < 0 then None else if fd = tcp_fd s then Some WatchRead
                      else if fd = listen_fd s \<and> \<not> tcp_connected s then Some WatchAccept else None) \<and>
    (tcp_connected s \<and> 0 \<le> fd \<longrightarrow> (\<exists>t. tcp_chr_accept [Some fd] s = Some t \<and> tcp_fd t = tcp_fd s \<and> tcp_connected t \<and>
      h_watch t = h_watch s \<and> h_closed t = h_closed s @ [fd])) \<and>
    (\<forall>t. tcp_connected s \<and> 0 < tcp_max_size s \<and> tcp_chr_read (\<lambda>_. (Got [], msgs)) s = Inr t \<longrightarrow>
      \<not> tcp_connected t \<and> tcp_fd t = - 1 \<and> listen_fd t = listen_fd s \<and> h_closed t = h_closed s @ [tcp_fd s] \<and>
      h_watch t = (\<lambda>fd. if 0 \<le> fd \<and> fd = listen_fd s then Some WatchAccept else None))"
proof (intro conjI allI impI)
  have inv: "tcp_inv s" using assms by (rule tcp_reach_inv)
  then show "tcp_connected s \<longleftrightarrow> tcp_fd s \<noteq> - 1" by (simp add: tcp_inv_def)
  show "h_watch s = (\<lambda>fd. if fd < 0 then None else if fd = tcp_fd s then Some WatchRead
      else if fd = listen_fd s \<and> \<not> tcp_connected s then Some WatchAccept else None)"
    using inv by (auto simp: tcp_inv_def tcp_watches_def)
  show "\<exists>t. tcp_chr_accept [Some fd] s = Some t \<and> tcp_fd t = tcp_fd s \<and> tcp_connected t \<and>
      h_watch t = h_watch s \<and> h_closed t = h_closed s @ [fd]" if "tcp_connected s \<and> 0 \<le> fd"
    using accept_refused [OF inv, of fd] that by (fastforce simp: tcp_same_def simp del: tcp_chr_accept.simps)
  fix t assume t: "tcp_connected s \<and> 0 < tcp_max_size s \<and> tcp_chr_read (\<lambda>_. (Got [], msgs)) s = Inr t"
  then have e: "tcp_same (tcp_hangup s) t" "h_closed t = h_closed s @ [tcp_fd s]" using read_eof by blast+
  moreover have "tcp_inv t" using read_inv [OF inv] t by blast
  ultimately show "\<not> tcp_connected t" "tcp_fd t = - 1" "listen_fd t = listen_fd s" "h_closed t = h_closed s @ [tcp_fd s]"
      "h_watch t = (\<lambda>fd. if 0 \<le> fd \<and> fd = listen_fd s then Some WatchAccept else None)"
    by (auto simp: tcp_same_def hangup_fields tcp_inv_def tcp_watches_def)
qed

text \<open>A server with telnet that has waited for its first client.\<close>

definition telnet_server :: "unit tcpchr" where
  "telnet_server = the (the (qemu_chr_open_socket_fd [] (Some (AF_INET ''h'' ''23'')) [None, Some 4] 3 True True True True))"

lemma telnet_server_open:
  "qemu_chr_open_socket_fd [] (Some (AF_INET ''h'' ''23'')) [None, Some 4] 3 True True True True = Some (Some telnet_server)"
  by (simp add: telnet_server_def qemu_chr_open_socket_fd_def Let_def sock_named_def tcp_chr_zero_def split: prod.split)

theorem tcp_socket_watched_witness:
  "tcp_connected telnet_server \<and> h_watch telnet_server 4 = Some WatchRead \<and> h_watch telnet_server 3 = None \<and>
    (\<exists>t. tcp_chr_accept [Some 5] telnet_server = Some t \<and> tcp_fd t = 4)"
proof -
  have reach: "tcp_reach telnet_server" by (rule tcp_reach.opened [OF telnet_server_open]) auto
  have "tcp_fd telnet_server = 4"
    by (simp add: telnet_server_def qemu_chr_open_socket_fd_def Let_def sock_named_def tcp_chr_zero_def
        tcp_chr_telnet_init_def tcp_chr_add_client_def set_watch_def tcp_chr_connect_def qemu_chr_generic_open_def)
  with tcp_socket_watched [OF reach, of 5] show ?thesis by (auto simp del: tcp_chr_accept.simps)
qed

text \<open>
  C26. A pseudo terminal is never forgotten. In every state reached after a frontend has attached, the main loop
  watches the terminal or nothing, a connected terminal is watched, and for one that is not connected the timer
  is set. A read that finds the peer gone disconnects the terminal, takes the watch away and sets the timer to
  one second; the next time-out watches it again, with a timer of ten milliseconds. A read that finds data
  connects it at once. And while the peer is there, that is in any run without a read that finds it gone,
  whatever else happens in between, the terminal counts as connected after two time-outs at the latest and
  stays so.
\<close>

theorem pty_looked_at_again:
  assumes "pty_reach s"
  shows "h_watch s = (\<lambda>fd. if fd = pty_fd s \<and> pty_polling s then Some WatchRead else None) \<and>
    (pty_connected s \<longrightarrow> pty_polling s) \<and> (\<not> pty_connected s \<longrightarrow> pty_timer s \<noteq> None) \<and>
    (\<forall>ans t. pty_lost ans s \<and> pty_chr_read now ans s = Inr t \<longrightarrow>
      \<not> pty_connected t \<and> h_watch t = (\<lambda>_. None) \<and> pty_timer t = Some (now + 1000) \<and>
      h_watch (pty_fire now' t) (pty_fd s) = Some WatchRead \<and> pty_timer (pty_fire now' t) = Some (now' + 10)) \<and>
    (\<forall>ans buf t. 0 < pty_read_bytes s \<and> ans (nat (min (int READ_BUF_LEN) (pty_read_bytes s))) = Got buf \<and> buf \<noteq> [] \<and>
      pty_chr_read now ans s = Inr t \<longrightarrow> pty_connected t) \<and>
    (\<forall>evs t. pty_run s evs t \<and> Lost \<notin> set evs \<and> 2 \<le> count_list evs Timed \<longrightarrow> pty_connected t)"
proof (intro conjI allI impI)
  have inv: "pty_inv s" using assms by (rule pty_reach_inv)
  then show "h_watch s = (\<lambda>fd. if fd = pty_fd s \<and> pty_polling s then Some WatchRead else None)" by (simp add: pty_inv_def)
  show "pty_polling s" if "pty_connected s" using inv that by (simp add: pty_inv_def)
  show "pty_timer s \<noteq> None" if "\<not> pty_connected s" using inv that by (simp add: pty_inv_def)
  show "pty_connected t" if "pty_run s evs t \<and> Lost \<notin> set evs \<and> 2 \<le> count_list evs Timed" for evs t
    using that pty_run_present by blast
  show "pty_connected t" if "0 < pty_read_bytes s \<and> ans (nat (min (int READ_BUF_LEN) (pty_read_bytes s))) = Got buf \<and> buf \<noteq> [] \<and>
      pty_chr_read now ans s = Inr t" for ans buf t
    using that pty_read_data by blast
  fix ans t assume "pty_lost ans s \<and> pty_chr_read now ans s = Inr t"
  then have t: "t = pty_chr_state now s False" using pty_read_lost by blast
  then show "\<not> pty_connected t" "pty_timer t = Some (now + 1000)" "h_watch t = (\<lambda>_. None)"
    using inv by (auto simp: pty_chr_state_def set_watch_def pty_inv_def)
  show "h_watch (pty_fire now' t) (pty_fd s) = Some WatchRead" "pty_timer (pty_fire now' t) = Some (now' + 10)"
    by (simp_all add: t pty_chr_state_def set_watch_def pty_fire_def pty_chr_timer_def pty_chr_update_read_handler_def)
qed

text \<open>
  A frontend has been attached that takes one byte and been polled; the peer is absent when it is read first, and
  has come when the timer goes off.
\<close>

definition unit_handlers :: "unit handlers" where
  "unit_handlers = \<lparr>chr_can_read = Some (\<lambda>_. 1), chr_read = None, chr_event = None\<rparr>"

definition new_pty :: "unit ptychr" where
  "new_pty = pty_chr_update_read_handler 0 (the (qemu_chr_open_pty [()] (Some (7, 8)))\<lparr>hnd := unit_handlers, handler_opaque := Some 0\<rparr>)"

definition polled_pty :: "unit ptychr" where
  "polled_pty = new_pty\<lparr>pty_read_bytes := 1\<rparr>"

definition lost_pty :: "unit ptychr" where
  "lost_pty = pty_chr_state 5 polled_pty False"

lemma new_pty_reached: "pty_reach polled_pty"
proof -
  have "pty_attach 0 (the (qemu_chr_open_pty [()] (Some (7, 8)))) unit_handlers (Some 0) = Inr new_pty"
    by (simp add: pty_attach_def qemu_chr_add_handlers_def new_pty_def qemu_chr_open_pty_def pty_chr_update_read_handler_def set_watch_def)
  then have "pty_reach new_pty" by (rule pty_reach.opened [of "[()]" 7 8, rotated]) (simp add: qemu_chr_open_pty_def)
  moreover have "pty_chr_read_poll new_pty = Inr (1, polled_pty)"
    by (simp add: pty_chr_read_poll_def polled_pty_def qemu_chr_be_can_write_def deref_def new_pty_def unit_handlers_def
        qemu_chr_open_pty_def pty_chr_update_read_handler_def set_watch_def arr_get_def)
  ultimately show ?thesis by (blast intro: pty_reach.step pty_step.poll)
qed

theorem pty_looked_at_again_witness:
  "pty_timer polled_pty = Some 10 \<and> \<not> pty_connected lost_pty \<and> h_watch lost_pty 7 = None \<and> pty_timer lost_pty = Some 1005 \<and>
    pty_timer (pty_fire 1005 lost_pty) = Some 1015 \<and> pty_connected (pty_fire 1015 (pty_fire 1005 lost_pty))"
proof -
  have now: "pty_timer polled_pty = Some 10" "pty_read_bytes polled_pty = 1" "h_watch polled_pty (pty_fd polled_pty) = Some WatchRead"
    by (simp_all add: polled_pty_def new_pty_def pty_chr_update_read_handler_def set_watch_def)
  have lost: "pty_lost (\<lambda>_. RdEIO) polled_pty" "pty_chr_read 5 (\<lambda>_. RdEIO) polled_pty = Inr lost_pty"
    by (simp_all add: pty_lost_def pty_chr_read_def now(2) lost_pty_def)
  have after: "pty_reach lost_pty"
    by (rule pty_reach.step [OF new_pty_reached pty_step.recv]) (fact now(3) lost(2))+
  have "pty_timer lost_pty \<noteq> None" "pty_timer (pty_fire 1005 lost_pty) \<noteq> None"
    by (simp_all add: lost_pty_def pty_chr_state_def set_watch_def pty_fire_def pty_chr_timer_def pty_chr_update_read_handler_def)
  then have "pty_run lost_pty (([] @ [Timed]) @ [Timed]) (pty_fire 1015 (pty_fire 1005 lost_pty))"
    by (intro pty_run.more [OF pty_run.more [OF pty_run.none pty_step.timeout] pty_step.timeout])
  moreover have "Lost \<notin> set (([] @ [Timed]) @ [Timed])" "2 \<le> count_list (([] @ [Timed]) @ [Timed]) Timed" by simp_all
  ultimately have "pty_connected (pty_fire 1015 (pty_fire 1005 lost_pty))"
    using pty_looked_at_again [OF after] by blast
  moreover have "\<not> pty_connected lost_pty \<and> h_watch lost_pty = (\<lambda>_. None) \<and> pty_timer lost_pty = Some (5 + 1000) \<and>
      pty_timer (pty_fire 1005 lost_pty) = Some (1005 + 10)"
    using pty_looked_at_again [OF new_pty_reached, of 5 1005] lost by blast
  ultimately show ?thesis using now(1) by simp
qed

end
