(* ===== verification/Chardev_Tty.thy ===== *)
theory Chardev_Tty
  imports Chardev_Host Serial
begin

text \<open>
  The serial line of the host (\<open>tty_serial_init\<close>, \<open>tty_serial_ioctl\<close>), the terminal settings of the
  standard input and the parallel port. The terminal's flags are a set: the four words of \<open>struct
  termios\<close> have different constants, and \<open>CSIZE\<close>, which every path sets, is a number of its own.
\<close>

section \<open>Terminal settings\<close>

datatype tty_flag =
    IGNBRK | BRKINT | PARMRK | ISTRIP | INLCR | IGNCR | ICRNL | IXON
  | OPOST
  | ECHO | ECHONL | ICANON | IEXTEN | ISIG
  | PARENB | PARODD | CRTSCTS | CSTOPB
  | OtherFlag nat

record host_tty =
  t_flags :: "tty_flag set"
  t_csize :: int
  t_ispeed :: int
  t_ospeed :: int
  t_vmin :: u8
  t_vtime :: u8

abbreviation (input) raw_iflags :: "tty_flag set" where
  "raw_iflags \<equiv> {IGNBRK, BRKINT, PARMRK, ISTRIP, INLCR, IGNCR, ICRNL, IXON}"

definition std_rates :: "int list" where
  "std_rates = [50, 75, 110, 134, 150, 200, 300, 600, 1200, 1800, 2400, 4800, 9600, 19200, 38400, 57600, 115200,
     230400, 460800, 500000, 576000, 921600, 1000000, 1152000, 1500000, 2000000, 2500000, 3000000, 3500000, 4000000]"

text \<open>The series of \<open>check_speed\<close>: the first rate that is not below the speed, or 115200.\<close>

definition tty_rate :: "int \<Rightarrow> int" where
  "tty_rate speed = (case find (\<lambda>v. speed \<le> v) std_rates of None \<Rightarrow> 115200 | Some v \<Rightarrow> v)"

definition tty_serial_init :: "int \<Rightarrow> char \<Rightarrow> int \<Rightarrow> int \<Rightarrow> host_tty \<Rightarrow> host_tty res" where
  "tty_serial_init speed parity data_bits stop_bits tty =
     (if speed * 10 < - (2 ^ 31) \<or> 2 ^ 31 \<le> speed * 10 then Inl IntOverflow
      else
        let spd = tty_rate (speed * 10 sdiv 11);
            tty = tty\<lparr>t_ispeed := spd, t_ospeed := spd\<rparr>;
            flags = (t_flags tty - raw_iflags) \<union> {OPOST};
            flags = flags - {ECHO, ECHONL, ICANON, IEXTEN, ISIG};
            flags = flags - {PARENB, PARODD, CRTSCTS, CSTOPB};
            csize = (if data_bits = 7 then 7 else if data_bits = 6 then 6 else if data_bits = 5 then 5 else 8);
            flags = (if parity = CHR ''E'' then flags \<union> {PARENB}
                     else if parity = CHR ''O'' then flags \<union> {PARENB, PARODD} else flags);
            flags = (if stop_bits = 2 then flags \<union> {CSTOPB} else flags)
        in Inr (tty\<lparr>t_flags := flags, t_csize := csize\<rparr>))"

text \<open>The settings of the standard input, from those that were found when it was opened.\<close>

definition qemu_chr_set_echo_stdio :: "bool \<Rightarrow> host_tty \<Rightarrow> bool \<Rightarrow> host_tty" where
  "qemu_chr_set_echo_stdio stdio_allow_signal oldtty echo =
     (let tty = oldtty;
          tty = (if \<not> echo then
                   tty\<lparr>t_flags := ((t_flags tty - raw_iflags) \<union> {OPOST}) - {ECHO, ECHONL, ICANON, IEXTEN} - {PARENB},
                       t_csize := 8, t_vmin := 1, t_vtime := 0\<rparr>
                 else tty)
      in if \<not> stdio_allow_signal then tty\<lparr>t_flags := t_flags tty - {ISIG}\<rparr> else tty)"

section \<open>The serial line\<close>

text \<open>The modem lines as the host's \<open>TIOCM_*\<close> bits; \<open>None\<close> when the descriptor has none.\<close>

record 'o ttychr = "'o fdchr" +
  tty_term :: host_tty
  tty_lines :: "u32 option"
  tty_breaks :: nat

abbreviation (input) TIOCM_DTR :: u32 where "TIOCM_DTR \<equiv> 0x002"
abbreviation (input) TIOCM_RTS :: u32 where "TIOCM_RTS \<equiv> 0x004"
abbreviation (input) TIOCM_CTS :: u32 where "TIOCM_CTS \<equiv> 0x020"
abbreviation (input) TIOCM_CAR :: u32 where "TIOCM_CAR \<equiv> 0x040"
abbreviation (input) TIOCM_RI :: u32 where "TIOCM_RI \<equiv> 0x080"
abbreviation (input) TIOCM_DSR :: u32 where "TIOCM_DSR \<equiv> 0x100"

datatype tty_ioctl =
    SerialSetParams int char int int
  | SerialSetBreak int
  | SerialGetTiocm
  | SerialSetTiocm tiocm
  | OtherIoctl

definition tiocm_get :: "u32 \<Rightarrow> tiocm" where
  "tiocm_get sarg =
     \<lparr>tio_cts = sarg AND TIOCM_CTS \<noteq> 0, tio_dsr = sarg AND TIOCM_DSR \<noteq> 0, tio_car = sarg AND TIOCM_CAR \<noteq> 0,
      tio_ri = sarg AND TIOCM_RI \<noteq> 0, tio_dtr = sarg AND TIOCM_DTR \<noteq> 0, tio_rts = sarg AND TIOCM_RTS \<noteq> 0\<rparr>"

definition or_if :: "bool \<Rightarrow> u32 \<Rightarrow> u32 \<Rightarrow> u32" where
  "or_if b m targ = (if b then targ OR m else targ)"

text \<open>\<open>chr_mask\<close> is the union of the \<open>CHR_TIOCM_*\<close> constants of \<open>char.h\<close>, which the code clears.\<close>

definition tiocm_set :: "u32 \<Rightarrow> tiocm \<Rightarrow> u32 \<Rightarrow> u32" where
  "tiocm_set chr_mask sarg targ =
     or_if (tio_rts sarg) TIOCM_RTS (or_if (tio_dtr sarg) TIOCM_DTR (or_if (tio_ri sarg) TIOCM_RI
       (or_if (tio_dsr sarg) TIOCM_DSR (or_if (tio_car sarg) TIOCM_CAR (or_if (tio_cts sarg) TIOCM_CTS
         (targ AND NOT chr_mask))))))"

text \<open>The result: the return value, the lines that were read, and the device.\<close>

definition tty_serial_ioctl :: "u32 \<Rightarrow> ('o, 'z) ttychr_scheme \<Rightarrow> tty_ioctl \<Rightarrow> (int \<times> tiocm option \<times> ('o, 'z) ttychr_scheme) res" where
  "tty_serial_ioctl chr_mask s cmd =
     (case cmd of
        SerialSetParams speed parity data_bits stop_bits \<Rightarrow>
          rbind (tty_serial_init speed parity data_bits stop_bits (tty_term s)) (\<lambda>tty. Inr (0, None, s\<lparr>tty_term := tty\<rparr>))
      | SerialSetBreak enable \<Rightarrow>
          Inr (0, None, if enable \<noteq> 0 then s\<lparr>tty_breaks := tty_breaks s + 1\<rparr> else s)
      | SerialGetTiocm \<Rightarrow>
          Inr (0, Some (tiocm_get (case tty_lines s of None \<Rightarrow> 0 | Some v \<Rightarrow> v)), s)
      | SerialSetTiocm sarg \<Rightarrow>
          Inr (0, None, s\<lparr>tty_lines := map_option (tiocm_set chr_mask sarg) (tty_lines s)\<rparr>)
      | OtherIoctl \<Rightarrow> Inr (- 95, None, s))"

definition qemu_chr_close_tty :: "bool \<Rightarrow> ('o, 'z) ttychr_scheme \<Rightarrow> ('o, 'z) ttychr_scheme res" where
  "qemu_chr_close_tty nographic s =
     (let fd = fd_in s
      in rbind (fd_chr_close nographic s) (\<lambda>s. Inr (if 0 \<le> fd then close_fd fd s else s)))"

definition qemu_chr_open_tty_fd :: "'o list \<Rightarrow> host_tty \<Rightarrow> u32 option \<Rightarrow> int \<Rightarrow> 'o ttychr res" where
  "qemu_chr_open_tty_fd objs tty lines fd =
     rbind (tty_serial_init 115200 (CHR ''N'') 8 1 tty) (\<lambda>tty.
     Inr (fdchr.extend (qemu_chr_open_fd objs fd fd) \<lparr>tty_term = tty, tty_lines = lines, tty_breaks = 0\<rparr>))"

definition qemu_chr_open_tty :: "'o list \<Rightarrow> host_tty \<Rightarrow> u32 option \<Rightarrow> int \<Rightarrow> 'o ttychr option res" where
  "qemu_chr_open_tty objs tty lines fd =
     (if fd < 0 then Inr None else rbind (qemu_chr_open_tty_fd objs tty lines fd) (\<lambda>s. Inr (Some s)))"

section \<open>The parallel port\<close>

record 'o ppchr = "'o hostchr" +
  pp_fd :: int
  pp_mode :: int

abbreviation (input) IEEE1284_MODE_COMPAT :: int where "IEEE1284_MODE_COMPAT \<equiv> 0x100"
abbreviation (input) IEEE1284_MODE_EPP :: int where "IEEE1284_MODE_EPP \<equiv> 0x40"
abbreviation (input) IEEE1284_MODE_EPP_ADDR :: int where "IEEE1284_MODE_EPP_ADDR \<equiv> 0x2040"

text \<open>What the host does: the registers' \<open>ioctl\<close>s, the change of mode, \<open>read\<close> and \<open>write\<close>.\<close>

record pp_env =
  ppe_get :: "u8 option"
  ppe_put :: bool
  ppe_setmode :: bool
  ppe_read :: "u8 list option"
  ppe_write :: int

datatype pp_cmd =
    PP_READ_DATA
  | PP_WRITE_DATA u8
  | PP_READ_CONTROL
  | PP_WRITE_CONTROL u8
  | PP_READ_STATUS
  | PP_DATA_DIR int
  | PP_EPP_READ_ADDR nat
  | PP_EPP_READ nat
  | PP_EPP_WRITE_ADDR "u8 list"
  | PP_EPP_WRITE "u8 list"
  | PP_OTHER

definition pp_hw_mode :: "pp_env \<Rightarrow> ('o, 'z) ppchr_scheme \<Rightarrow> int \<Rightarrow> bool \<times> ('o, 'z) ppchr_scheme" where
  "pp_hw_mode e s mode =
     (if pp_mode s \<noteq> mode then if \<not> ppe_setmode e then (False, s) else (True, s\<lparr>pp_mode := mode\<rparr>) else (True, s))"

definition pp_epp_read :: "pp_env \<Rightarrow> int \<Rightarrow> nat \<Rightarrow> ('o, 'z) ppchr_scheme \<Rightarrow> int \<times> u8 list \<times> ('o, 'z) ppchr_scheme" where
  "pp_epp_read e mode count s =
     (let (ok, s) = pp_hw_mode e s mode
      in if ok then
           (case ppe_read e of
              None \<Rightarrow> (- 5, [], s)
            | Some xs \<Rightarrow> (if length xs \<noteq> count then - 5 else 0, xs, s))
         else (0, [], s))"

definition pp_epp_write :: "pp_env \<Rightarrow> int \<Rightarrow> nat \<Rightarrow> ('o, 'z) ppchr_scheme \<Rightarrow> int \<times> u8 list \<times> ('o, 'z) ppchr_scheme" where
  "pp_epp_write e mode count s =
     (let (ok, s) = pp_hw_mode e s mode
      in if ok then (if ppe_write e \<noteq> int count then - 5 else 0, [], s) else (0, [], s))"

text \<open>The result: the return value, the bytes stored through \<open>arg\<close>, and the device.\<close>

definition pp_ioctl :: "pp_env \<Rightarrow> ('o, 'z) ppchr_scheme \<Rightarrow> pp_cmd \<Rightarrow> int \<times> u8 list \<times> ('o, 'z) ppchr_scheme" where
  "pp_ioctl e s cmd =
     (case cmd of
        PP_READ_DATA \<Rightarrow> (case ppe_get e of None \<Rightarrow> (- 95, [], s) | Some b \<Rightarrow> (0, [b], s))
      | PP_WRITE_DATA b \<Rightarrow> (if ppe_put e then 0 else - 95, [], s)
      | PP_READ_CONTROL \<Rightarrow> (case ppe_get e of None \<Rightarrow> (- 95, [], s) | Some b \<Rightarrow> (0, [b OR 0xc0], s))
      | PP_WRITE_CONTROL b \<Rightarrow> (if ppe_put e then 0 else - 95, [], s)
      | PP_READ_STATUS \<Rightarrow> (case ppe_get e of None \<Rightarrow> (- 95, [], s) | Some b \<Rightarrow> (0, [b], s))
      | PP_DATA_DIR d \<Rightarrow> (if ppe_put e then 0 else - 95, [], s)
      | PP_EPP_READ_ADDR n \<Rightarrow> pp_epp_read e IEEE1284_MODE_EPP_ADDR n s
      | PP_EPP_READ n \<Rightarrow> pp_epp_read e IEEE1284_MODE_EPP n s
      | PP_EPP_WRITE_ADDR buf \<Rightarrow> pp_epp_write e IEEE1284_MODE_EPP_ADDR (length buf) s
      | PP_EPP_WRITE buf \<Rightarrow> pp_epp_write e IEEE1284_MODE_EPP (length buf) s
      | PP_OTHER \<Rightarrow> (- 95, [], s))"

definition pp_close :: "pp_env \<Rightarrow> ('o, 'z) ppchr_scheme \<Rightarrow> ('o, 'z) ppchr_scheme res" where
  "pp_close e s =
     (let (ok, s) = pp_hw_mode e s IEEE1284_MODE_COMPAT
      in qemu_chr_be_event (close_fd (pp_fd s) s) CHR_EVENT_CLOSED)"

text \<open>\<open>claim\<close> says whether \<open>PPCLAIM\<close> succeeds; otherwise the descriptor is closed.\<close>

definition qemu_chr_open_pp_fd :: "'o list \<Rightarrow> bool \<Rightarrow> int \<Rightarrow> 'o ppchr option \<times> int list" where
  "qemu_chr_open_pp_fd objs claim fd =
     (if \<not> claim then (None, [fd])
      else
        (Some (qemu_chr_generic_open
          \<lparr>heap = objs, opened = False, open_timer = False, hnd = null_handlers, handler_opaque = None, avail_connections = 0,
           h_watch = (\<lambda>_. None), h_nwrite = 0, h_sent = [], h_closed = [], pp_fd = fd, pp_mode = IEEE1284_MODE_COMPAT\<rparr>), []))"

definition qemu_chr_open_pp :: "'o list \<Rightarrow> bool \<Rightarrow> int \<Rightarrow> 'o ppchr option \<times> int list" where
  "qemu_chr_open_pp objs claim fd = (if fd < 0 then (None, []) else qemu_chr_open_pp_fd objs claim fd)"

end
