(* ===== verification/Chardev_Tty_Props.thy ===== *)
theory Chardev_Tty_Props
  imports Chardev_Tty Serial_Props
begin

text \<open>
  The serial line of the guest and the one of the host: the parameters that the UART hands to its
  backend, as the terminal backend sets them, and the modem lines.
\<close>

lemma rate_range: "- (2 ^ 31) \<le> r * 10 \<Longrightarrow> r * 10 < 2 ^ 31 \<Longrightarrow>
    tty_serial_init r p b st t = Inr (t\<lparr>t_ispeed := tty_rate (r * 10 sdiv 11), t_ospeed := tty_rate (r * 10 sdiv 11),
      t_flags := (t_flags t - raw_iflags) \<union> {OPOST} - {ECHO, ECHONL, ICANON, IEXTEN, ISIG} - {PARENB, PARODD, CRTSCTS, CSTOPB} \<union>
        (if p = CHR ''E'' then {PARENB} else if p = CHR ''O'' then {PARENB, PARODD} else {}) \<union>
        (if st = 2 then {CSTOPB} else {}),
      t_csize := (if b = 7 then 7 else if b = 6 then 6 else if b = 5 then 5 else 8)\<rparr>)"
  by (simp add: tty_serial_init_def Let_def)

lemma sdiv11: "0 \<le> r \<Longrightarrow> r * 10 sdiv 11 = r * 10 div (11::int)"
  by (cases "r = 0") (simp_all add: signed_divide_int_def sgn_if)

text \<open>The rates that a serial line of a PC can have are set exactly.\<close>

lemma rates_exact:
  assumes "r \<in> set std_rates" and "r \<noteq> 500000" and "r \<noteq> 1000000"
  shows "tty_rate (r * 10 sdiv 11) = r"
proof -
  have "list_all (\<lambda>r. r = 500000 \<or> r = 1000000 \<or> tty_rate (r * 10 div 11) = r) std_rates"
    by (simp add: std_rates_def tty_rate_def)
  moreover have "0 \<le> r" using assms(1) by (auto simp: std_rates_def)
  ultimately show ?thesis using assms by (auto simp: list_all_iff sdiv11)
qed

lemma find_first_sorted:
  assumes "sorted xs" and "find (\<lambda>v. x \<le> v) xs = Some v"
  shows "v \<in> set xs \<and> x \<le> v \<and> (\<forall>u \<in> set xs. x \<le> u \<longrightarrow> v \<le> u)"
  using assms by (induction xs) (auto split: if_splits)

lemma tty_rate_least:
  assumes "speed \<le> 4000000"
  shows "tty_rate speed \<in> set std_rates \<and> speed \<le> tty_rate speed \<and> (\<forall>u \<in> set std_rates. speed \<le> u \<longrightarrow> tty_rate speed \<le> u)"
proof -
  have "find (\<lambda>v. speed \<le> v) std_rates \<noteq> None"
    using assms by (auto simp: find_None_iff std_rates_def)
  then obtain v where "find (\<lambda>v. speed \<le> v) std_rates = Some v" by auto
  moreover have "sorted std_rates" by (simp add: std_rates_def)
  ultimately show ?thesis using find_first_sorted [of std_rates speed v] by (simp add: tty_rate_def)
qed

text \<open>The settings that the backend makes of the UART's parameters.\<close>

definition line_set :: "int \<Rightarrow> char \<Rightarrow> int \<Rightarrow> int \<Rightarrow> host_tty \<Rightarrow> bool" where
  "line_set speed par bits st t \<longleftrightarrow>
     t_csize t = bits \<and> (CSTOPB \<in> t_flags t \<longleftrightarrow> st = 2) \<and>
     (PARENB \<in> t_flags t \<longleftrightarrow> par \<noteq> CHR ''N'') \<and> (PARODD \<in> t_flags t \<longleftrightarrow> par = CHR ''O'') \<and>
     {ECHO, ICANON, ISIG, IXON, ICRNL, CRTSCTS} \<inter> t_flags t = {} \<and> t_ispeed t = t_ospeed t \<and>
     t_ospeed t \<in> set std_rates \<and> speed * 10 div 11 \<le> t_ospeed t \<and>
     (\<forall>u \<in> set std_rates. speed * 10 div 11 \<le> u \<longrightarrow> t_ospeed t \<le> u) \<and>
     (speed \<in> set std_rates \<and> speed \<noteq> 500000 \<and> speed \<noteq> 1000000 \<longrightarrow> t_ospeed t = speed)"

lemma tty_init_sets_line:
  assumes "0 \<le> speed" and "speed \<le> 4000000" and "bits \<in> {5, 6, 7, 8}" and "par \<in> set ''NEO''"
  shows "\<exists>t'. tty_serial_init speed par bits st t = Inr t' \<and> line_set speed par bits st t'"
proof -
  have "speed * 10 div 11 \<le> 4000000" using assms(2) by simp
  from tty_rate_least [OF this] assms rates_exact [of speed] show ?thesis
    by (subst rate_range) (auto simp: sdiv11 line_set_def)
qed

text \<open>The parameters that the line register stands for.\<close>

definition lcr_parity :: "u8 \<Rightarrow> char" where
  "lcr_parity l = (if l AND 0x08 \<noteq> 0 then if l AND 0x10 \<noteq> 0 then CHR ''E'' else CHR ''O'' else CHR ''N'')"

definition lcr_stops :: "u8 \<Rightarrow> int" where
  "lcr_stops l = (if l AND 0x04 \<noteq> 0 then 2 else 1)"

definition lcr_bits :: "u8 \<Rightarrow> int" where
  "lcr_bits l = uint (l AND 0x03) + 5"

lemma lcr_bits_range: "lcr_bits l \<in> {5, 6, 7, 8}"
proof -
  have "l AND 0x03 \<le> 3" by (rule word_and_le1)
  then have "uint (l AND 0x03) \<le> 3" by (simp add: word_le_def)
  moreover have "0 \<le> uint (l AND 0x03)" by simp
  ultimately have "lcr_bits l = 5 \<or> lcr_bits l = 6 \<or> lcr_bits l = 7 \<or> lcr_bits l = 8" unfolding lcr_bits_def by linarith
  then show ?thesis by simp
qed

lemma update_parameters_log:
  assumes "serial_update_parameters e s = Inr s'" and "divider s \<noteq> 0"
  shows "chr_log s' = chr_log s @ [ChrSetParams (baudbase s sdiv uint (divider s)) (lcr_parity (lcr s)) (lcr_bits (lcr s)) (lcr_stops (lcr s))]"
  using assms by (simp add: serial_update_parameters_def Let_def lcr_parity_def lcr_bits_def lcr_stops_def split: if_splits prod.splits)
    (auto split: if_splits)

lemma baud_speed:
  assumes "0 \<le> baudbase s"
  shows "baudbase s sdiv uint (divider s) = baudbase s div uint (divider s)"
    and "0 \<le> baudbase s div uint (divider s)" and "baudbase s div uint (divider s) \<le> baudbase s"
proof -
  have u: "0 \<le> uint (divider s)" by simp
  show "0 \<le> baudbase s div uint (divider s)" by (rule div_int_pos_iff [THEN iffD2]) (use assms u in auto)
  show "baudbase s div uint (divider s) \<le> baudbase s" using zdiv_mono2 [of "baudbase s" 1 "uint (divider s)"] assms u
    by (cases "uint (divider s) = 0") simp_all
  show "baudbase s sdiv uint (divider s) = baudbase s div uint (divider s)"
  proof (cases "uint (divider s) = 0")
    case False
    with u have "0 < uint (divider s)" by linarith
    with assms show ?thesis by (auto simp: signed_divide_int_def sgn_if)
  qed (simp add: signed_divide_int_def)
qed

section \<open>Properties\<close>

text \<open>
  C19. The host's line follows the guest's: the parameters that the UART reports when its divisor or
  its line register changes (the last call it makes to its backend), taken by the terminal backend,
  give the host's line the size, stop bits and parity that the line register asks for and the least
  standard rate that is not below ten elevenths of the guest's; where the guest's rate is a standard
  one it is that rate, but for two rates beyond the reach of a PC's clock: 500000 becomes 460800 and
  1000000 becomes 921600.
\<close>

theorem tty_follows_uart:
  assumes "serial_update_parameters e s = Inr s'" and "divider s \<noteq> 0" and "0 \<le> baudbase s" and "baudbase s \<le> 4000000"
  shows "\<exists>speed d'. speed = baudbase s div uint (divider s) \<and>
    chr_log s' = chr_log s @ [ChrSetParams speed (lcr_parity (lcr s)) (lcr_bits (lcr s)) (lcr_stops (lcr s))] \<and>
    tty_serial_ioctl chr_mask d (SerialSetParams speed (lcr_parity (lcr s)) (lcr_bits (lcr s)) (lcr_stops (lcr s))) = Inr (0, None, d') \<and>
    line_set speed (lcr_parity (lcr s)) (lcr_bits (lcr s)) (lcr_stops (lcr s)) (tty_term d') \<and>
    tty_rate (500000 * 10 sdiv 11) = 460800 \<and> tty_rate (1000000 * 10 sdiv 11) = 921600"
proof -
  let ?speed = "baudbase s div uint (divider s)"
  note speed = baud_speed [OF assms(3)]
  have "lcr_parity (lcr s) \<in> set ''NEO''" by (simp add: lcr_parity_def)
  then obtain t' where "tty_serial_init ?speed (lcr_parity (lcr s)) (lcr_bits (lcr s)) (lcr_stops (lcr s)) (tty_term d) = Inr t'"
      "line_set ?speed (lcr_parity (lcr s)) (lcr_bits (lcr s)) (lcr_stops (lcr s)) t'"
    using tty_init_sets_line [OF speed(2) order_trans [OF speed(3) assms(4)] lcr_bits_range] by blast
  moreover have "tty_rate (500000 * 10 sdiv 11) = 460800 \<and> tty_rate (1000000 * 10 sdiv 11) = 921600"
    by (simp add: sdiv11 tty_rate_def std_rates_def)
  moreover note update_parameters_log [OF assms(1,2), unfolded speed(1)]
  ultimately show ?thesis
    by (intro exI [of _ ?speed] exI [of _ "d\<lparr>tty_term := t'\<rparr>"]) (simp add: tty_serial_ioctl_def)
qed

text \<open>A line at 9600 baud.\<close>

definition uart9600 :: serial_state where
  "uart9600 = uart0\<lparr>divider := 12, lcr := 0x1b\<rparr>"

definition tty0 :: "unit ttychr" where
  "tty0 = fdchr.extend (qemu_chr_open_fd [()] 5 5)
     \<lparr>tty_term = \<lparr>t_flags = {ECHO, ICANON}, t_csize = 8, t_ispeed = 300, t_ospeed = 300, t_vmin = 1, t_vtime = 0\<rparr>,
      tty_lines = Some 0x1024, tty_breaks = 0\<rparr>"

theorem tty_follows_uart_witness:
  "\<exists>d'. tty_serial_ioctl 0x1E6 tty0 (SerialSetParams 9600 (CHR ''E'') 8 1) = Inr (0, None, d') \<and> t_ospeed (tty_term d') = 9600 \<and>
    PARENB \<in> t_flags (tty_term d') \<and> PARODD \<notin> t_flags (tty_term d')"
proof -
  have u: "divider uart9600 = 12" "baudbase uart9600 = 115200" "lcr uart9600 = 0x1b"
    by (simp_all add: uart9600_def uart0_def serial_reset_def Let_def fifo_clear_def set_fifo_def the_fifo_def serial_zero_def)
  have l: "lcr_parity 0x1b = CHR ''E''" "lcr_bits 0x1b = 8" "lcr_stops 0x1b = 1"
    by (simp_all add: lcr_parity_def lcr_bits_def lcr_stops_def)
  have "\<exists>s'. serial_update_parameters env0 uart9600 = Inr s'"
    by (simp add: serial_update_parameters_def u Let_def signed_divide_int_def)
  then obtain s' where "serial_update_parameters env0 uart9600 = Inr s'" ..
  from tty_follows_uart [OF this, where d = tty0 and chr_mask = "0x1E6"] show ?thesis
    by (auto simp: u l line_set_def std_rates_def)
qed

text \<open>
  Modem lines: with the constants of the host, what is set is read back, and other bits of
  the host's word stay as they were.
\<close>

lemma or_if_other: "m AND k = 0 \<Longrightarrow> or_if b m x AND k = x AND k"
  by (simp add: or_if_def bit.conj_disj_distrib2)

lemma or_if_same: "or_if b m x AND m = (if b then m else x AND m)"
  by (simp add: or_if_def bit.conj_disj_distrib2)

lemma cleared: "n AND k = 0 \<Longrightarrow> (x AND n) AND k = (0 :: u32)"
  by (simp add: and.assoc)

lemma tiocm_roundtrip:
  "tiocm_get (tiocm_set 0x1E6 f targ) = f" "tiocm_set 0x1E6 f targ AND NOT 0x1E6 = targ AND NOT 0x1E6"
proof -
  show "tiocm_set 0x1E6 f targ AND NOT 0x1E6 = targ AND NOT 0x1E6"
    unfolding tiocm_set_def by (simp add: or_if_other)
  show "tiocm_get (tiocm_set 0x1E6 f targ) = f"
    unfolding tiocm_get_def tiocm_set_def by (cases f) (simp add: or_if_other or_if_same cleared)
qed

end
