(* ===== verification/Chardev_Opts.thy ===== *)
theory Chardev_Opts
  imports Chardev_Tty Chardev_Net
begin

text \<open>
  The creation of character devices in \<open>qemu-char.c\<close>: the parser of the old command-line syntax, the
  table of backends, the list of devices, and the commands of the monitor that add and remove them.
  Options are the list of settings made, in order; how they are read, and the parser of option
  strings, belong to QEMU's core and are arguments, as is what a backend's open function returns.
\<close>

section \<open>The scanner\<close>

definition strstart :: "string \<Rightarrow> string \<Rightarrow> string option" where
  "strstart s pre = (if take (length pre) s = pre then Some (drop (length pre) s) else None)"

text \<open>A conversion \<open>%n[...]\<close> of \<open>sscanf\<close>: at least one and at most \<open>n\<close> characters of a set.\<close>

definition scan_set :: "nat \<Rightarrow> (char \<Rightarrow> bool) \<Rightarrow> string \<Rightarrow> (string \<times> string) option" where
  "scan_set n P s =
     (let xs = takeWhile P (take n s) in if xs = [] then None else Some (xs, drop (length xs) s))"

text \<open>The two patterns of an address: \<open>host:port\<close> and \<open>:port\<close>; \<open>P\<close> is what a port is made of.\<close>

definition scan_addr :: "(char \<Rightarrow> bool) \<Rightarrow> string \<Rightarrow> (string \<times> string \<times> string) option" where
  "scan_addr P p =
     (let second = (case p of
                      [] \<Rightarrow> None
                    | c # r \<Rightarrow>
                        if c = CHR '':'' then map_option (\<lambda>(port, rest). ([], port, rest)) (scan_set 32 P r) else None)
      in case scan_set 64 (\<lambda>c. c \<noteq> CHR '':'') p of
           None \<Rightarrow> second
         | Some (host, []) \<Rightarrow> second
         | Some (host, c # r) \<Rightarrow>
             if c \<noteq> CHR '':'' then second
             else
               case scan_set 32 P r of
                 None \<Rightarrow> second
               | Some (port, rest) \<Rightarrow> Some (host, port, rest))"

definition is_digit :: "char \<Rightarrow> bool" where
  "is_digit c \<longleftrightarrow> c \<in> set ''0123456789''"

text \<open>\<open>%8[0-9]\<close> into an array of eight bytes, which has no room for the terminator of eight digits.\<close>

definition scan_dim :: "string \<Rightarrow> (string \<times> string) option res" where
  "scan_dim s =
     (case scan_set 8 is_digit s of
        None \<Rightarrow> Inr None
      | Some (xs, rest) \<Rightarrow> if 8 \<le> length xs then Inl OutOfBounds else Inr (Some (xs, rest)))"

text \<open>Two numbers with a separator between them.\<close>

definition scan_dims :: "string \<Rightarrow> string \<Rightarrow> (string \<times> string) option res" where
  "scan_dims sep s =
     rbind (scan_dim s) (\<lambda>w.
     case w of
       None \<Rightarrow> Inr None
     | Some (width, r) \<Rightarrow>
         case strstart r sep of
           None \<Rightarrow> Inr None
         | Some r \<Rightarrow> rbind (scan_dim r) (\<lambda>h. Inr (map_option (\<lambda>(height, r). (width, height)) h)))"

section \<open>The parser\<close>

type_synonym settings = "(string \<times> string) list"

definition parse_vc :: "settings \<Rightarrow> string \<Rightarrow> settings option res" where
  "parse_vc opts p =
     (let opts = opts @ [(''backend'', ''vc'')]
      in case p of
           [] \<Rightarrow> Inr (Some opts)
         | c # r \<Rightarrow>
             if c \<noteq> CHR '':'' then Inr (Some opts)
             else
               rbind (scan_dims ''x'' r) (\<lambda>d.
               case d of
                 Some (w, h) \<Rightarrow> Inr (Some (opts @ [(''width'', w), (''height'', h)]))
               | None \<Rightarrow>
                   rbind (scan_dims ''Cx'' r) (\<lambda>d.
                   case d of
                     Some (w, h) \<Rightarrow> Inr (Some (opts @ [(''cols'', w), (''rows'', h)]))
                   | None \<Rightarrow> Inr None)))"

text \<open>\<open>do_parse\<close> is \<open>qemu_opts_do_parse\<close>, with the name of the first option when it can be left out.\<close>

definition parse_tcp :: "(settings \<Rightarrow> string \<Rightarrow> string option \<Rightarrow> settings option) \<Rightarrow> settings \<Rightarrow> bool \<Rightarrow> string \<Rightarrow> settings option" where
  "parse_tcp do_parse opts telnet p =
     (case scan_addr (\<lambda>c. c \<noteq> CHR '','') p of
        None \<Rightarrow> None
      | Some (host, port, rest) \<Rightarrow>
          (let opts = opts @ [(''backend'', ''socket''), (''host'', host), (''port'', port)];
               parsed = (case rest of
                           [] \<Rightarrow> Some opts
                         | c # r \<Rightarrow> if c = CHR '','' then do_parse opts r None else Some opts)
           in map_option (\<lambda>opts. if telnet then opts @ [(''telnet'', ''on'')] else opts) parsed))"

definition parse_udp :: "settings \<Rightarrow> string \<Rightarrow> settings option" where
  "parse_udp opts p =
     (case scan_addr (\<lambda>c. c \<noteq> CHR ''@'' \<and> c \<noteq> CHR '','') p of
        None \<Rightarrow> None
      | Some (host, port, rest) \<Rightarrow>
          (let opts = opts @ [(''backend'', ''udp''), (''host'', host), (''port'', port)]
           in case rest of
                [] \<Rightarrow> Some opts
              | c # r \<Rightarrow>
                  if c \<noteq> CHR ''@'' then Some opts
                  else
                    case scan_addr (\<lambda>c. c \<noteq> CHR '','') r of
                      None \<Rightarrow> None
                    | Some (host, port, rest) \<Rightarrow> Some (opts @ [(''localaddr'', host), (''localport'', port)])))"

definition parse_filename :: "(settings \<Rightarrow> string \<Rightarrow> string option \<Rightarrow> settings option) \<Rightarrow> settings \<Rightarrow> string \<Rightarrow> settings option res" where
  "parse_filename do_parse opts filename =
     (let backend = (\<lambda>b. opts @ [(''backend'', b)]);
          with_path = (\<lambda>b path. Inr (Some (opts @ [(''backend'', b), (''path'', path)])))
      in if filename \<in> {''null'', ''pty'', ''msmouse'', ''braille'', ''stdio''} then Inr (Some (backend filename))
         else case strstart filename ''vc'' of Some p \<Rightarrow> parse_vc opts p | None \<Rightarrow>
         if filename = ''con:'' then Inr (Some (backend ''console''))
         else if strstart filename ''COM'' \<noteq> None then with_path ''serial'' filename
         else case strstart filename ''file:'' of Some p \<Rightarrow> with_path ''file'' p | None \<Rightarrow>
         case strstart filename ''pipe:'' of Some p \<Rightarrow> with_path ''pipe'' p | None \<Rightarrow>
         case strstart filename ''tcp:'' of Some p \<Rightarrow> Inr (parse_tcp do_parse opts False p) | None \<Rightarrow>
         case strstart filename ''telnet:'' of Some p \<Rightarrow> Inr (parse_tcp do_parse opts True p) | None \<Rightarrow>
         case strstart filename ''udp:'' of Some p \<Rightarrow> Inr (parse_udp opts p) | None \<Rightarrow>
         case strstart filename ''unix:'' of Some p \<Rightarrow> Inr (do_parse (backend ''socket'') p (Some ''path'')) | None \<Rightarrow>
         if strstart filename ''/dev/parport'' \<noteq> None \<or> strstart filename ''/dev/ppi'' \<noteq> None then with_path ''parport'' filename
         else if strstart filename ''/dev/'' \<noteq> None then with_path ''tty'' filename
         else Inr None)"

text \<open>\<open>fresh\<close> says that the label names no options yet, so that they can be created.\<close>

definition qemu_chr_parse_compat :: "(settings \<Rightarrow> string \<Rightarrow> string option \<Rightarrow> settings option) \<Rightarrow> bool \<Rightarrow> string \<Rightarrow> settings option res" where
  "qemu_chr_parse_compat do_parse fresh filename =
     (if \<not> fresh then Inr None
      else
        case strstart filename ''mon:'' of
          Some p \<Rightarrow> parse_filename do_parse [(''mux'', ''on'')] p
        | None \<Rightarrow> parse_filename do_parse [] filename)"

section \<open>The list of devices\<close>

text \<open>A device \<open>ce_dev\<close>; \<open>ce_busy\<close>: it has a handler or an \<open>opaque\<close> pointer.\<close>

record 'd chr_entry =
  ce_label :: string
  ce_filename :: "string option"
  ce_dev :: 'd
  ce_avail :: nat
  ce_busy :: bool

type_synonym 'd registry = "'d chr_entry list"

definition chr_lookup :: "'d registry \<Rightarrow> string \<Rightarrow> 'd chr_entry option" where
  "chr_lookup devs name = find (\<lambda>c. ce_label c = name) devs"

definition backend_table :: "string list" where
  "backend_table = [''null'', ''socket'', ''udp'', ''msmouse'', ''vc'', ''memory'', ''can'', ''file'', ''pipe'', ''stdio'',
     ''tty'', ''serial'', ''pty'', ''parallel'', ''parport'']"

datatype new_error =
    NoId
  | MissingBackend
  | BackendNotFound
  | OpenFailed

text \<open>
  \<open>get\<close> and \<open>get_bool\<close> read the options; \<open>opn\<close> is the open function of a backend, whose device may
  have set its \<open>filename\<close>; \<open>mkmux\<close> puts a multiplexer before a device.
\<close>

definition qemu_chr_new_from_opts :: "(settings \<Rightarrow> string \<Rightarrow> string option) \<Rightarrow> (settings \<Rightarrow> string \<Rightarrow> bool) \<Rightarrow>
    (string \<Rightarrow> settings \<Rightarrow> ('d \<times> string option) option) \<Rightarrow> ('d \<Rightarrow> 'd) \<Rightarrow> string option \<Rightarrow> settings \<Rightarrow> 'd registry \<Rightarrow>
    (new_error + 'd chr_entry) \<times> 'd registry" where
  "qemu_chr_new_from_opts get get_bool opn mkmux ident opts devs =
     (case ident of
        None \<Rightarrow> (Inl NoId, devs)
      | Some name \<Rightarrow>
          case get opts ''backend'' of
            None \<Rightarrow> (Inl MissingBackend, devs)
          | Some b \<Rightarrow>
              if b \<notin> set backend_table then (Inl BackendNotFound, devs)
              else
                case opn b opts of
                  None \<Rightarrow> (Inl OpenFailed, devs)
                | Some (chr, fname) \<Rightarrow>
                    (let fname = (if fname = None then Some b else fname)
                     in if get_bool opts ''mux'' then
                          (let base = \<lparr>ce_label = name @ ''-base'', ce_filename = fname, ce_dev = chr, ce_avail = 0, ce_busy = False\<rparr>;
                               mux = \<lparr>ce_label = name, ce_filename = fname, ce_dev = mkmux chr, ce_avail = 4, ce_busy = False\<rparr>
                           in (Inr mux, devs @ [base, mux]))
                        else
                          (let c = \<lparr>ce_label = name, ce_filename = fname, ce_dev = chr, ce_avail = 1, ce_busy = False\<rparr>
                           in (Inr c, devs @ [c]))))"

text \<open>The result also says whether a monitor is put on the device.\<close>

definition qemu_chr_new :: "(settings \<Rightarrow> string \<Rightarrow> string option) \<Rightarrow> (settings \<Rightarrow> string \<Rightarrow> bool) \<Rightarrow>
    (string \<Rightarrow> settings \<Rightarrow> ('d \<times> string option) option) \<Rightarrow> ('d \<Rightarrow> 'd) \<Rightarrow>
    (settings \<Rightarrow> string \<Rightarrow> string option \<Rightarrow> settings option) \<Rightarrow> bool \<Rightarrow> string \<Rightarrow> string \<Rightarrow> 'd registry \<Rightarrow>
    ('d chr_entry option \<times> bool \<times> 'd registry) res" where
  "qemu_chr_new get get_bool opn mkmux do_parse fresh label filename devs =
     (case strstart filename ''chardev:'' of
        Some p \<Rightarrow> Inr (chr_lookup devs p, False, devs)
      | None \<Rightarrow>
          rbind (qemu_chr_parse_compat do_parse fresh filename) (\<lambda>opts.
          case opts of
            None \<Rightarrow> Inr (None, False, devs)
          | Some opts \<Rightarrow>
              case qemu_chr_new_from_opts get get_bool opn mkmux (Some label) opts devs of
                (Inl e, devs) \<Rightarrow> Inr (None, False, devs)
              | (Inr chr, devs) \<Rightarrow> Inr (Some chr, get_bool opts ''mux'', devs)))"

section \<open>Hooks of the frontend\<close>

definition qemu_chr_fe_set_echo :: "('b \<Rightarrow> bool \<Rightarrow> 'b) option \<Rightarrow> 'b \<Rightarrow> bool \<Rightarrow> 'b" where
  "qemu_chr_fe_set_echo f s echo = (case f of None \<Rightarrow> s | Some g \<Rightarrow> g s echo)"

definition qemu_chr_fe_open :: "('b \<Rightarrow> 'b) option \<Rightarrow> 'b \<Rightarrow> 'b" where
  "qemu_chr_fe_open f s = (case f of None \<Rightarrow> s | Some g \<Rightarrow> g s)"

definition qemu_chr_fe_close :: "('b \<Rightarrow> 'b) option \<Rightarrow> 'b \<Rightarrow> 'b" where
  "qemu_chr_fe_close f s = (case f of None \<Rightarrow> s | Some g \<Rightarrow> g s)"

text \<open>The serial devices of the machine, one after the other, without a look at their number.\<close>

definition qemu_char_get_next_serial :: "'d list \<Rightarrow> nat \<Rightarrow> ('d \<times> nat) res" where
  "qemu_char_get_next_serial serial_hds next_serial = rbind (arr_get serial_hds next_serial) (\<lambda>d. Inr (d, next_serial + 1))"

section \<open>The monitor's commands\<close>

text \<open>\<open>qemu_chr_delete\<close> on the list: the device is taken out and its close function runs on it when there is one.\<close>

fun chr_list_delete :: "('d \<Rightarrow> 'd res) option \<Rightarrow> string \<Rightarrow> 'd registry \<Rightarrow> ('d option \<times> 'd registry) res" where
  "chr_list_delete cl name [] = Inr (None, [])"
| "chr_list_delete cl name (c # devs) =
     (if ce_label c = name then
        rbind (case cl of None \<Rightarrow> Inr (ce_dev c) | Some f \<Rightarrow> f (ce_dev c)) (\<lambda>d. Inr (Some d, devs))
      else rbind (chr_list_delete cl name devs) (\<lambda>(d, devs). Inr (d, c # devs)))"

definition qmp_query_chardev :: "'d registry \<Rightarrow> (string \<times> string option) list" where
  "qmp_query_chardev devs = rev (map (\<lambda>c. (ce_label c, ce_filename c)) devs)"

text \<open>The descriptors that the open functions of the monitor get, and those they close again.\<close>

definition qmp_chardev_open_file_source :: "int \<Rightarrow> int option" where
  "qmp_chardev_open_file_source fd = (if fd = - 1 then None else Some fd)"

definition qmp_chardev_open_file :: "'o list \<Rightarrow> int \<Rightarrow> int option \<Rightarrow> 'o fdchr option \<times> int list" where
  "qmp_chardev_open_file objs out_fd in_fd =
     (case qmp_chardev_open_file_source out_fd of
        None \<Rightarrow> (None, [])
      | Some fout \<Rightarrow>
          case in_fd of
            None \<Rightarrow> (Some (qemu_chr_open_fd objs (- 1) fout), [])
          | Some fd \<Rightarrow>
              case qmp_chardev_open_file_source fd of
                None \<Rightarrow> (None, [fout])
              | Some fin \<Rightarrow> (Some (qemu_chr_open_fd objs fin fout), []))"

definition qmp_chardev_open_serial :: "'o list \<Rightarrow> host_tty \<Rightarrow> u32 option \<Rightarrow> int \<Rightarrow> 'o ttychr option res" where
  "qmp_chardev_open_serial objs tty lines fd =
     (case qmp_chardev_open_file_source fd of
        None \<Rightarrow> Inr None
      | Some fd \<Rightarrow> rbind (qemu_chr_open_tty_fd objs tty lines fd) (\<lambda>s. Inr (Some s)))"

definition qmp_chardev_open_parallel :: "'o list \<Rightarrow> bool \<Rightarrow> int \<Rightarrow> 'o ppchr option \<times> int list" where
  "qmp_chardev_open_parallel objs claim fd =
     (case qmp_chardev_open_file_source fd of
        None \<Rightarrow> (None, [])
      | Some fd \<Rightarrow> qemu_chr_open_pp_fd objs claim fd)"

text \<open>The options that may be left out; \<open>mkfd server\<close> is what listening or connecting gives.\<close>

record qmp_socket =
  qs_nodelay :: "bool option"
  qs_server :: "bool option"
  qs_telnet :: "bool option"
  qs_wait :: "bool option"

definition opt_or :: "bool \<Rightarrow> bool option \<Rightarrow> bool" where
  "opt_or d x = (case x of None \<Rightarrow> d | Some v \<Rightarrow> v)"

definition qmp_chardev_open_socket :: "'o list \<Rightarrow> qmp_socket \<Rightarrow> (bool \<Rightarrow> int option) \<Rightarrow> sockname option \<Rightarrow> int option list \<Rightarrow>
    'o tcpchr option option" where
  "qmp_chardev_open_socket objs sock mkfd name acc =
     (let do_nodelay = opt_or False (qs_nodelay sock);
          is_listen = opt_or True (qs_server sock);
          is_telnet = opt_or False (qs_telnet sock);
          is_waitconnect = opt_or False (qs_wait sock)
      in case mkfd is_listen of
           None \<Rightarrow> Some None
         | Some fd \<Rightarrow> qemu_chr_open_socket_fd objs name acc fd do_nodelay is_listen is_telnet is_waitconnect)"

datatype qmp_kind =
    KIND_FILE
  | KIND_SERIAL
  | KIND_PARALLEL
  | KIND_SOCKET
  | KIND_PTY
  | KIND_NULL
  | KIND_OTHER

datatype add_error =
    AlreadyExists
  | UnknownBackend
  | CreateFailed

text \<open>
  \<open>opn\<close> gives the device of a kind, the name it sets for itself and, for a pseudo terminal, the path;
  an error of its own is reported as \<open>CreateFailed\<close>, too.
\<close>

definition qmp_chardev_add :: "(qmp_kind \<Rightarrow> ('d \<times> string option \<times> string option) option) \<Rightarrow> string \<Rightarrow> qmp_kind \<Rightarrow> 'd registry \<Rightarrow>
    (add_error + string option) \<times> 'd registry" where
  "qmp_chardev_add opn ident kind devs =
     (if chr_lookup devs ident \<noteq> None then (Inl AlreadyExists, devs)
      else if kind = KIND_OTHER then (Inl UnknownBackend, devs)
      else
        case opn kind of
          None \<Rightarrow> (Inl CreateFailed, devs)
        | Some (chr, fname, path) \<Rightarrow>
            (Inr (if kind = KIND_PTY then path else None),
             devs @ [\<lparr>ce_label = ident, ce_filename = fname, ce_dev = chr, ce_avail = 1, ce_busy = False\<rparr>]))"

datatype remove_error =
    NotFound
  | IsBusy

definition qmp_chardev_remove :: "('d \<Rightarrow> 'd res) option \<Rightarrow> string \<Rightarrow> 'd registry \<Rightarrow> (remove_error option \<times> 'd registry) res" where
  "qmp_chardev_remove cl ident devs =
     (case chr_lookup devs ident of
        None \<Rightarrow> Inr (Some NotFound, devs)
      | Some c \<Rightarrow>
          if ce_busy c then Inr (Some IsBusy, devs)
          else rbind (chr_list_delete cl ident devs) (\<lambda>(d, devs). Inr (None, devs)))"

end
