(* ===== verification/Chardev_Opts_Props.thy ===== *)
theory Chardev_Opts_Props
  imports Chardev_Opts
begin

text \<open>
  The parser of the old syntax on the addresses that a user writes, the arrays it overruns, and the
  list of devices under the monitor's commands.
\<close>

section \<open>The scanner\<close>

lemma scan_set_ok:
  assumes "xs \<noteq> []" and "length xs \<le> n" and "\<forall>c \<in> set xs. P c" and "length xs = n \<or> rest = [] \<or> \<not> P (hd rest)"
  shows "scan_set n P (xs @ rest) = Some (xs, rest)"
proof -
  have "takeWhile P (take (n - length xs) rest) = []"
    using assms(4) by (cases rest) (auto simp: take_Cons')
  then have "takeWhile P (take n (xs @ rest)) = xs" using assms(2,3) by (simp add: takeWhile_append2)
  with assms(1) show ?thesis by (simp add: scan_set_def)
qed

lemma scan_set_stops: "xs = [] \<or> \<not> P (hd xs) \<Longrightarrow> scan_set n P xs = None"
  by (cases xs) (auto simp: scan_set_def take_Cons')

definition host_ok :: "string \<Rightarrow> bool" where
  "host_ok h \<longleftrightarrow> length h \<le> 64 \<and> CHR '':'' \<notin> set h"

text \<open>A port is cut after 32 characters, and what follows is not looked at.\<close>

lemma scan_addr_ok:
  assumes "host_ok host" and "port \<noteq> []" and "\<forall>c \<in> set port. P c" and "rest = [] \<or> \<not> P (hd rest)"
  shows "scan_addr P (host @ CHR '':'' # port @ rest) = Some (host, take 32 port, drop 32 port @ rest)"
proof -
  have "scan_set 32 P (take 32 port @ (drop 32 port @ rest)) = Some (take 32 port, drop 32 port @ rest)"
    by (rule scan_set_ok) (use assms in \<open>auto dest: in_set_takeD\<close>)
  then have port: "scan_set 32 P (port @ rest) = Some (take 32 port, drop 32 port @ rest)"
    by (metis append_assoc append_take_drop_id)
  show ?thesis
  proof (cases "host = []")
    case True
    then show ?thesis using port by (simp add: scan_addr_def scan_set_stops)
  next
    case False
    have "scan_set 64 (\<lambda>c. c \<noteq> CHR '':'') (host @ CHR '':'' # port @ rest) = Some (host, CHR '':'' # port @ rest)"
      by (rule scan_set_ok) (use assms(1) False in \<open>auto simp: host_ok_def\<close>)
    with port show ?thesis by (simp add: scan_addr_def)
  qed
qed

lemma avoids: "x \<notin> set xs \<Longrightarrow> \<forall>c \<in> set xs. c \<noteq> x"
  by auto

lemma avoids2: "x \<notin> set xs \<Longrightarrow> y \<notin> set xs \<Longrightarrow> \<forall>c \<in> set xs. c \<noteq> x \<and> c \<noteq> y"
  by auto

section \<open>The list of devices\<close>

lemma chr_lookup_append: "chr_lookup (xs @ ys) n = (case chr_lookup xs n of None \<Rightarrow> chr_lookup ys n | Some c \<Rightarrow> Some c)"
  by (induction xs) (auto simp: chr_lookup_def)

lemma chr_lookup_None: "chr_lookup devs n = None \<longleftrightarrow> n \<notin> ce_label ` set devs"
  by (auto simp: chr_lookup_def find_None_iff)

text \<open>What the close function of a device, if it has one, makes of it.\<close>

definition closes :: "('d \<Rightarrow> 'd res) option \<Rightarrow> 'd \<Rightarrow> 'd res" where
  "closes cl d = (case cl of None \<Rightarrow> Inr d | Some f \<Rightarrow> f d)"

lemma delete_append:
  "n \<notin> ce_label ` set xs \<Longrightarrow> ce_label c = n \<Longrightarrow>
     chr_list_delete cl n (xs @ c # ys) = rbind (closes cl (ce_dev c)) (\<lambda>d. Inr (Some d, xs @ ys))"
  by (induction xs) (auto simp: closes_def rbind_assoc)

lemma delete_filter:
  assumes "distinct (map ce_label devs)" and "chr_lookup devs n = Some c"
  shows "chr_list_delete cl n devs = rbind (closes cl (ce_dev c)) (\<lambda>d. Inr (Some d, filter (\<lambda>c. ce_label c \<noteq> n) devs))"
proof -
  have "find (\<lambda>c. ce_label c = n) devs = Some c" using assms(2) by (simp add: chr_lookup_def)
  then obtain i where i: "i < length devs" "ce_label (devs ! i) = n" "c = devs ! i"
    by (auto simp: find_Some_iff)
  let ?xs = "take i devs" and ?ys = "drop (Suc i) devs"
  have devs: "devs = ?xs @ c # ?ys" using id_take_nth_drop [OF i(1)] i(3) by simp
  have "distinct (map ce_label (?xs @ c # ?ys))" using assms(1) devs by simp
  then have out: "n \<notin> ce_label ` set ?xs" "n \<notin> ce_label ` set ?ys" using i(2,3) by auto
  then have "filter (\<lambda>c. ce_label c \<noteq> n) ?xs = ?xs" "filter (\<lambda>c. ce_label c \<noteq> n) ?ys = ?ys"
    by (auto intro!: filter_True)
  then have "filter (\<lambda>c. ce_label c \<noteq> n) (?xs @ c # ?ys) = ?xs @ ?ys" using i(2,3) by simp
  with delete_append [OF out(1), of c cl ?ys] i(2,3) devs show ?thesis by simp
qed

section \<open>Properties\<close>

text \<open>
  C40. The old syntax round-trips for addresses: a host of up to 64 characters without a colon, which may be empty,
  and a port of up to 32 characters without a separator come back as they were written, for \<open>tcp\<close>, for \<open>telnet\<close>
  with further options, and for \<open>udp\<close> with a local address; \<open>mon:\<close> before any name only asks for a multiplexer.
  Of a longer port the rest is dropped without an error, for all three and for the local one, and with it the
  options or the local address that follow it.
\<close>

theorem compat_addresses:
  assumes "host_ok host" and "port \<noteq> []" and "CHR '','' \<notin> set port" and "CHR ''@'' \<notin> set port"
    and "host_ok lhost" and "lport \<noteq> []" and "CHR '','' \<notin> set lport"
  shows "qemu_chr_parse_compat dp True (''tcp:'' @ host @ '':'' @ port) =
      Inr (Some [(''backend'', ''socket''), (''host'', host), (''port'', take 32 port)]) \<and>
    qemu_chr_parse_compat dp True (''telnet:'' @ host @ '':'' @ port @ '','' @ opts) =
      Inr (map_option (\<lambda>o'. o' @ [(''telnet'', ''on'')])
        (if length port \<le> 32 then dp [(''backend'', ''socket''), (''host'', host), (''port'', port)] opts None
         else Some [(''backend'', ''socket''), (''host'', host), (''port'', take 32 port)])) \<and>
    qemu_chr_parse_compat dp True (''udp:'' @ host @ '':'' @ port @ ''@'' @ lhost @ '':'' @ lport) =
      Inr (Some ([(''backend'', ''udp''), (''host'', host), (''port'', take 32 port)] @
        (if length port \<le> 32 then [(''localaddr'', lhost), (''localport'', take 32 lport)] else []))) \<and>
    qemu_chr_parse_compat dp True (''mon:'' @ name) = parse_filename dp [(''mux'', ''on'')] name"
proof (intro conjI)
  note p = avoids [OF assms(3)] avoids2 [OF assms(4,3)] avoids [OF assms(7)]
  note defs = qemu_chr_parse_compat_def parse_filename_def strstart_def parse_tcp_def parse_udp_def Let_def
  have cut: "drop 32 port = [] \<or> (\<exists>c r. drop 32 port = c # r \<and> c \<noteq> CHR '','' \<and> c \<noteq> CHR ''@'')"
    using assms(3,4) set_drop_subset [of 32 port] by (cases "drop 32 port") auto
  have nil: "drop 32 port = [] \<longleftrightarrow> length port \<le> 32" by simp
  show "qemu_chr_parse_compat dp True (''tcp:'' @ host @ '':'' @ port) =
      Inr (Some [(''backend'', ''socket''), (''host'', host), (''port'', take 32 port)])"
    using scan_addr_ok [OF assms(1,2) p(1), of "[]"] cut by (auto simp: defs)
  show "qemu_chr_parse_compat dp True (''telnet:'' @ host @ '':'' @ port @ '','' @ opts) =
      Inr (map_option (\<lambda>o'. o' @ [(''telnet'', ''on'')])
        (if length port \<le> 32 then dp [(''backend'', ''socket''), (''host'', host), (''port'', port)] opts None
         else Some [(''backend'', ''socket''), (''host'', host), (''port'', take 32 port)]))"
    using scan_addr_ok [OF assms(1,2) p(1), of "CHR '','' # opts"] cut nil by (auto simp: defs)
  show "qemu_chr_parse_compat dp True (''udp:'' @ host @ '':'' @ port @ ''@'' @ lhost @ '':'' @ lport) =
      Inr (Some ([(''backend'', ''udp''), (''host'', host), (''port'', take 32 port)] @
        (if length port \<le> 32 then [(''localaddr'', lhost), (''localport'', take 32 lport)] else [])))"
    using scan_addr_ok [OF assms(1,2) p(2), of "CHR ''@'' # lhost @ CHR '':'' # lport"]
      scan_addr_ok [OF assms(5,6) p(3), of "[]"] cut nil
    by (auto simp: defs split: list.splits)
  show "qemu_chr_parse_compat dp True (''mon:'' @ name) = parse_filename dp [(''mux'', ''on'')] name"
    by (simp add: qemu_chr_parse_compat_def strstart_def)
qed

theorem compat_addresses_witness:
  "qemu_chr_parse_compat (\<lambda>o' s i. None) True ''tcp:localhost:4444'' =
     Inr (Some [(''backend'', ''socket''), (''host'', ''localhost''), (''port'', ''4444'')]) \<and>
   qemu_chr_parse_compat (\<lambda>o' s i. None) True ''udp:h:7@:8'' =
     Inr (Some [(''backend'', ''udp''), (''host'', ''h''), (''port'', ''7''), (''localaddr'', ''''), (''localport'', ''8'')])"
  using compat_addresses [of "''localhost''" "''4444''" "''''" "''8''" "\<lambda>o' s i. None"]
    compat_addresses [of "''h''" "''7''" "''''" "''8''" "\<lambda>o' s i. None"]
  by (simp add: host_ok_def)

text \<open>
  The parser overruns its arrays exactly for \<open>vc:\<close> with a number of eight or more digits; for
  fewer digits the size comes back as it was written.
\<close>

lemma compat_vc:
  assumes "w \<noteq> []" and "\<forall>c \<in> set w. is_digit c"
  shows "qemu_chr_parse_compat dp True (''vc:'' @ w @ ''x'' @ w) =
    (if 8 \<le> length w then Inl OutOfBounds else Inr (Some [(''backend'', ''vc''), (''width'', w), (''height'', w)]))"
proof -
  have "\<not> is_digit (CHR ''x'')" by (simp add: is_digit_def)
  then have "scan_set 8 is_digit (take 8 w @ (drop 8 w @ rest)) = Some (take 8 w, drop 8 w @ rest)"
    if "rest = [] \<or> hd rest = CHR ''x''" for rest
    by (rule_tac scan_set_ok) (use assms that in \<open>auto dest: in_set_takeD\<close>)
  then have scan: "scan_set 8 is_digit (w @ rest) = Some (take 8 w, drop 8 w @ rest)" if "rest = [] \<or> hd rest = CHR ''x''" for rest
    using that by (metis append_assoc append_take_drop_id)
  have dim: "scan_dim (w @ rest) = (if 8 \<le> length w then Inl OutOfBounds else Inr (Some (w, rest)))"
    if "rest = [] \<or> hd rest = CHR ''x''" for rest
    using that by (simp add: scan_dim_def scan)
  show ?thesis
    using dim [of "CHR ''x'' # w"] dim [of "[]"]
    by (simp add: qemu_chr_parse_compat_def parse_filename_def strstart_def parse_vc_def scan_dims_def)
qed

text \<open>
  C39. The monitor's commands keep the list of devices in order. With labels that are all different, adding a
  device refuses a label that exists, an unknown kind and a device that cannot be opened, each with its error and
  without a change, and otherwise puts it, under its label, behind the others, which are found as before
  (an error of the open function itself counts as one of creation). Removing refuses a label that does not exist and a device that a frontend uses; any other device is closed by
  its close function if it has one, and if this returns, exactly the device is out of the list. Removing a
  device that was just added restores the list; labels stay different.
\<close>

theorem registry_commands:
  assumes "distinct (map ce_label devs)"
  shows "(case qmp_chardev_add opn ident kind devs of
      (Inl err, devs') \<Rightarrow> devs' = devs \<and>
        err = (if chr_lookup devs ident \<noteq> None then AlreadyExists else if kind = KIND_OTHER then UnknownBackend else CreateFailed)
    | (Inr path, devs') \<Rightarrow> chr_lookup devs ident = None \<and> distinct (map ce_label devs') \<and>
        (\<exists>d f p c. opn kind = Some (d, f, p) \<and> devs' = devs @ [c] \<and> ce_dev c = d \<and> chr_lookup devs' ident = Some c \<and>
          qmp_chardev_remove cl ident devs' = rbind (closes cl d) (\<lambda>_. Inr (None, devs))) \<and>
        (\<forall>n. n \<noteq> ident \<longrightarrow> chr_lookup devs' n = chr_lookup devs n)) \<and>
    qmp_chardev_remove cl ident devs =
      (case chr_lookup devs ident of
         None \<Rightarrow> Inr (Some NotFound, devs)
       | Some c \<Rightarrow> if ce_busy c then Inr (Some IsBusy, devs)
                   else rbind (closes cl (ce_dev c)) (\<lambda>_. Inr (None, filter (\<lambda>c. ce_label c \<noteq> ident) devs))) \<and>
    distinct (map ce_label (filter (\<lambda>c. ce_label c \<noteq> ident) devs))"
proof (intro conjI)
  show "case qmp_chardev_add opn ident kind devs of
      (Inl err, devs') \<Rightarrow> devs' = devs \<and>
        err = (if chr_lookup devs ident \<noteq> None then AlreadyExists else if kind = KIND_OTHER then UnknownBackend else CreateFailed)
    | (Inr path, devs') \<Rightarrow> chr_lookup devs ident = None \<and> distinct (map ce_label devs') \<and>
        (\<exists>d f p c. opn kind = Some (d, f, p) \<and> devs' = devs @ [c] \<and> ce_dev c = d \<and> chr_lookup devs' ident = Some c \<and>
          qmp_chardev_remove cl ident devs' = rbind (closes cl d) (\<lambda>_. Inr (None, devs))) \<and>
        (\<forall>n. n \<noteq> ident \<longrightarrow> chr_lookup devs' n = chr_lookup devs n)"
  proof (cases "chr_lookup devs ident = None \<and> kind \<noteq> KIND_OTHER \<and> opn kind \<noteq> None")
    case True
    then obtain d f p where o': "opn kind = Some (d, f, p)" by auto
    let ?c = "\<lparr>ce_label = ident, ce_filename = f, ce_dev = d, ce_avail = 1, ce_busy = False\<rparr>"
    have new: "chr_lookup (devs @ [?c]) n = (if n = ident then Some ?c else chr_lookup devs n)" for n
      using True by (auto simp: chr_lookup_append split: option.split) (simp_all add: chr_lookup_def)
    have "qmp_chardev_remove cl ident (devs @ [?c]) = rbind (closes cl d) (\<lambda>_. Inr (None, devs))"
      using True delete_append [of ident devs ?c cl "[]"] new by (simp add: qmp_chardev_remove_def chr_lookup_None rbind_assoc)
    with True o' assms new show ?thesis by (auto simp: qmp_chardev_add_def chr_lookup_None)
  next
    case False
    then show ?thesis by (auto simp: qmp_chardev_add_def split: option.splits)
  qed
  show "qmp_chardev_remove cl ident devs =
      (case chr_lookup devs ident of
         None \<Rightarrow> Inr (Some NotFound, devs)
       | Some c \<Rightarrow> if ce_busy c then Inr (Some IsBusy, devs)
                   else rbind (closes cl (ce_dev c)) (\<lambda>_. Inr (None, filter (\<lambda>c. ce_label c \<noteq> ident) devs)))"
    using delete_filter [OF assms, of ident] by (auto simp: qmp_chardev_remove_def rbind_assoc split: option.split)
  show "distinct (map ce_label (filter (\<lambda>c. ce_label c \<noteq> ident) devs))" using assms by (rule distinct_map_filter)
qed

text \<open>A device that exists is refused; a device that no frontend uses is closed and removed.\<close>

theorem registry_commands_witness:
  "qmp_chardev_add (\<lambda>_. Some ((), None, None)) ''a'' KIND_NULL [\<lparr>ce_label = ''a'', ce_filename = None, ce_dev = (), ce_avail = 1, ce_busy = False\<rparr>] =
     (Inl AlreadyExists, [\<lparr>ce_label = ''a'', ce_filename = None, ce_dev = (), ce_avail = 1, ce_busy = False\<rparr>]) \<and>
   qmp_chardev_remove (Some Inr) ''a'' [\<lparr>ce_label = ''a'', ce_filename = None, ce_dev = (), ce_avail = 1, ce_busy = False\<rparr>] =
     Inr (None, [])"
  using registry_commands [where devs = "[\<lparr>ce_label = ''a'', ce_filename = None, ce_dev = (), ce_avail = 1, ce_busy = False\<rparr>]"
      and opn = "\<lambda>_. Some ((), None, None)" and ident = "''a''" and kind = KIND_NULL and cl = "Some Inr"]
  by (simp add: qmp_chardev_add_def chr_lookup_def closes_def)

text \<open>
  The device under a multiplexer counts as free until the first frontend attaches: it can be
  removed, and the multiplexer stays behind without it.
\<close>

lemma mux_base_removable:
  assumes "qemu_chr_new_from_opts get get_bool opn mkmux (Some name) opts devs = (Inr c, devs')" and "get_bool opts ''mux''"
    and "chr_lookup devs (name @ ''-base'') = None"
  shows "qmp_chardev_remove None (name @ ''-base'') devs' = Inr (None, devs @ [c])"
proof -
  obtain base where base: "devs' = devs @ [base, c]" "ce_label base = name @ ''-base''" "\<not> ce_busy base"
    using assms(1,2) by (auto simp: qemu_chr_new_from_opts_def Let_def split: option.splits if_splits)
  then have "chr_lookup devs' (name @ ''-base'') = Some base"
    using assms(3) by (simp add: chr_lookup_append) (simp add: chr_lookup_def)
  moreover have "chr_list_delete None (name @ ''-base'') devs' = Inr (Some (ce_dev base), devs @ [c])"
    using delete_append [of "name @ ''-base''" devs base None "[c]"] assms(3) base(1,2) by (simp add: chr_lookup_None closes_def)
  ultimately show ?thesis using base(3) by (simp add: qmp_chardev_remove_def)
qed

end
