(* ===== verification/Linux_8250.thy ===== *)
theory Linux_8250
  imports Sja_Bus
begin

unbundle bit_operations_syntax

text \<open>
  The data path of the Linux serial driver that \<open>qemu_linux0/8250\<close> builds: of \<open>serial_core.c\<close> the
  circular transmit buffer (\<open>uart_put_char\<close>, \<open>uart_write\<close>, \<open>uart_flush_buffer\<close>), flow control and
  \<open>uart_insert_char\<close>; of \<open>8250.c\<close> starting and stopping the transmitter, \<open>serial8250_rx_chars\<close>,
  \<open>serial8250_tx_chars\<close>, \<open>serial8250_modem_status\<close>, the interrupt handler and the polling routines.

  The registers are a \<open>bus\<close>, as for the CAN drivers (\<open>serial_in\<close> and \<open>serial_out\<close> call the port's
  access routines). The \<open>CIRC_*\<close> macros and \<open>PAGE_SIZE\<close> (4096 bytes, the size of the transmit buffer)
  are those of the kernel; what the tty layer takes is the list \<open>flip\<close>; the kernel's break and SysRq
  hooks are the record \<open>khooks\<close>. The port is an open one: its state is there. Locking and wake-ups have no state here, and the hang-up that a lost
  carrier can cause is left out.
\<close>

section \<open>The transmit buffer\<close>

abbreviation (input) UART_XMIT_SIZE :: nat where "UART_XMIT_SIZE \<equiv> 4096"

record circ_buf =
  cb_buf :: "u8 list option"
  cb_head :: nat
  cb_tail :: nat

text \<open>The bytes queued, the bytes free, and those free before the end of the buffer.\<close>

definition circ_cnt :: "circ_buf \<Rightarrow> nat" where
  "circ_cnt c = (cb_head c + UART_XMIT_SIZE - cb_tail c) mod UART_XMIT_SIZE"

definition circ_space :: "circ_buf \<Rightarrow> nat" where
  "circ_space c = (cb_tail c + UART_XMIT_SIZE - (cb_head c + 1)) mod UART_XMIT_SIZE"

definition circ_space_to_end :: "circ_buf \<Rightarrow> nat" where
  "circ_space_to_end c = min (circ_space c) (UART_XMIT_SIZE - cb_head c)"

text \<open>\<open>__uart_put_char\<close>: the result says whether the byte was taken.\<close>

definition uart_put_char :: "circ_buf \<Rightarrow> u8 \<Rightarrow> (bool \<times> circ_buf) res" where
  "uart_put_char circ c =
     (case cb_buf circ of
        None \<Rightarrow> Inr (False, circ)
      | Some buf \<Rightarrow>
          if circ_space circ \<noteq> 0 then
            rbind (arr_set buf (cb_head circ) c) (\<lambda>buf.
            Inr (True, circ\<lparr>cb_buf := Some buf, cb_head := (cb_head circ + 1) mod UART_XMIT_SIZE\<rparr>))
          else Inr (False, circ))"

text \<open>\<open>memcpy\<close> into an array, checked.\<close>

definition arr_copy :: "'a list \<Rightarrow> nat \<Rightarrow> 'a list \<Rightarrow> 'a list res" where
  "arr_copy dst off src =
     (if off + length src \<le> length dst then Inr (take off dst @ src @ drop (off + length src) dst)
      else Inl OutOfBounds)"

text \<open>The loop of \<open>uart_write\<close>: \<open>buf\<close> is what is left of the caller's \<open>count\<close> bytes.\<close>

function uart_write_loop :: "circ_buf \<Rightarrow> u8 list \<Rightarrow> nat \<Rightarrow> (nat \<times> circ_buf) res" where
  "uart_write_loop circ buf ret =
     (let c = min (length buf) (circ_space_to_end circ)
      in if c = 0 then Inr (ret, circ)
         else
           (case cb_buf circ of
              None \<Rightarrow> Inl NullDeref
            | Some b \<Rightarrow>
                rbind (arr_copy b (cb_head circ) (take c buf)) (\<lambda>b.
                uart_write_loop (circ\<lparr>cb_buf := Some b, cb_head := (cb_head circ + c) mod UART_XMIT_SIZE\<rparr>)
                  (drop c buf) (ret + c))))"
  by pat_completeness auto
termination
  by (relation "measure (\<lambda>(circ, buf, ret). length buf)") auto

definition uart_write_room :: "circ_buf \<Rightarrow> nat" where
  "uart_write_room circ = circ_space circ"

definition uart_chars_in_buffer :: "circ_buf \<Rightarrow> nat" where
  "uart_chars_in_buffer circ = circ_cnt circ"

section \<open>The port\<close>

text \<open>The types of \<open>uart_config\<close>, in its order.\<close>

datatype port_type =
    PORT_UNKNOWN
  | PORT_8250
  | PORT_16450
  | PORT_16550
  | PORT_16550A
  | PORT_CIRRUS
  | PORT_16650
  | PORT_16650V2
  | PORT_16750
  | PORT_STARTECH
  | PORT_16C950
  | PORT_16654
  | PORT_16850
  | PORT_RSA
  | PORT_NS16550A
  | PORT_XSCALE
  | PORT_RM9000
  | PORT_OCTEON
  | PORT_AR7
  | PORT_U6_16550A
  | PORT_TEGRA
  | PORT_XR17D15X

datatype tty_flag =
    TTY_NORMAL
  | TTY_BREAK
  | TTY_PARITY
  | TTY_FRAME
  | TTY_OVERRUN

abbreviation (input) R_RXTX :: nat where "R_RXTX \<equiv> 0"
abbreviation (input) R_IER :: nat where "R_IER \<equiv> 1"
abbreviation (input) R_IIR :: nat where "R_IIR \<equiv> 2"
abbreviation (input) R_LCR :: nat where "R_LCR \<equiv> 3"
abbreviation (input) R_MCR :: nat where "R_MCR \<equiv> 4"
abbreviation (input) R_LSR :: nat where "R_LSR \<equiv> 5"
abbreviation (input) R_ICR :: nat where "R_ICR \<equiv> 5"
abbreviation (input) R_MSR :: nat where "R_MSR \<equiv> 6"
abbreviation (input) R_SCR :: nat where "R_SCR \<equiv> 7"

text \<open>The modem lines as the bits of \<open>TIOCM_*\<close>: carrier, ring, data set ready, clear to send.\<close>

record mctrl =
  m_car :: bool
  m_rng :: bool
  m_dsr :: bool
  m_cts :: bool
  m_rts :: bool
  m_dtr :: bool
  m_out1 :: bool
  m_out2 :: bool
  m_loop :: bool

text \<open>What the flags of a port say of its custom speed (\<open>UPF_SPD_MASK\<close>).\<close>

datatype spd_flag =
    SPD_NONE
  | SPD_HI
  | SPD_VHI
  | SPD_SHI
  | SPD_WARP
  | SPD_CUST

text \<open>
  The control flags of a tty: \<open>cf_baud\<close> is the rate that the bits \<open>CBAUD\<close> (with \<open>c_ospeed\<close>) give,
  \<open>None\<close> for \<open>B0\<close>. The flags are those that the serial drivers look at; there is one speed for both
  directions.
\<close>

datatype csize =
    CS5
  | CS6
  | CS7
  | CS8

record cflags =
  cf_size :: csize
  cf_stopb :: bool
  cf_parenb :: bool
  cf_parodd :: bool
  cf_cmspar :: bool
  cf_crtscts :: bool
  cf_clocal :: bool
  cf_cread :: bool
  cf_hupcl :: bool
  cf_baud :: "u32 option"

record iflags =
  if_inpck :: bool
  if_brkint :: bool
  if_parmrk :: bool
  if_ignpar :: bool
  if_ignbrk :: bool
  if_ixoff :: bool

record ktermios =
  c_cflag :: cflags
  c_iflag :: iflags
  c_start :: u8
  c_stop :: u8

text \<open>
  The fields of \<open>uart_port\<close>, \<open>uart_8250_port\<close>, \<open>tty_port\<close> and the tty that the driver uses. The
  bits of \<open>port->flags\<close> that it tests are fields of their own (\<open>cons_flow\<close> and those that start
  with \<open>upf\<close>), and so are those of the tty's port (from \<open>has_state\<close> on); \<open>has_addr\<close> says that one of
  the port's addresses is set. The timer runs \<open>serial8250_backup_timeout\<close> if \<open>timer_backup\<close> says so
  and \<open>serial8250_timeout\<close> otherwise; \<open>port_timer\<close> is the delay it was last armed with, if it is.
  \<open>cons_cflag\<close> holds the flags that the port's console was set up with, until the first open takes
  them.
\<close>

record port8250 =
  ptype :: port_type
  capabilities :: u32
  bugs :: u32
  cons_flow :: bool
  upf_buggy :: bool
  upf_skip_test :: bool
  upf_exar_efr :: bool
  upf_fourport :: bool
  upf_bug_thre :: bool
  upf_no_txen_test :: bool
  upf_magic :: bool
  upf_hardpps :: bool
  upf_share_irq :: bool
  upf_spd :: spd_flag
  custom_divisor :: u32
  uartclk :: u32
  has_addr :: bool
  port_irq_no :: nat
  fifosize :: u32
  timeout :: u32
  timer_backup :: bool
  port_timer :: "u32 option"
  cons_cflag :: "cflags option"
  tx_loadsz :: nat
  acr8 :: u8
  ier8 :: u8
  lcr8 :: u8
  mcr8 :: u8
  mcr_mask :: u8
  mcr_force :: u8
  port_mctrl :: mctrl
  lsr_saved_flags :: u8
  msr_saved_flags :: u8
  read_status_mask :: u8
  ignore_status_mask :: u8
  x_char :: u8
  xmit :: circ_buf
  ic_rx :: u32
  ic_tx :: u32
  ic_brk :: u32
  ic_parity :: u32
  ic_frame :: u32
  ic_overrun :: u32
  ic_rng :: u32
  ic_dsr :: u32
  ic_dcd :: u32
  ic_cts :: u32
  has_state :: bool
  cts_flow :: bool
  check_cd :: bool
  initialized :: bool
  suspended :: bool
  tty_stopped :: bool
  tty_hw_stopped :: bool
  tty_throttled :: bool
  tty_io_error :: bool
  flip :: "(u8 \<times> tty_flag) list"

abbreviation (input) UART_CAP_FIFO :: u32 where "UART_CAP_FIFO \<equiv> 0x100"
abbreviation (input) UART_CAP_EFR :: u32 where "UART_CAP_EFR \<equiv> 0x200"
abbreviation (input) UART_CAP_SLEEP :: u32 where "UART_CAP_SLEEP \<equiv> 0x400"
abbreviation (input) UART_CAP_AFE :: u32 where "UART_CAP_AFE \<equiv> 0x800"
abbreviation (input) UART_CAP_UUE :: u32 where "UART_CAP_UUE \<equiv> 0x1000"
abbreviation (input) UART_CAP_RTOIE :: u32 where "UART_CAP_RTOIE \<equiv> 0x2000"
abbreviation (input) UART_BUG_QUOT :: u32 where "UART_BUG_QUOT \<equiv> 0x1"
abbreviation (input) UART_BUG_TXEN :: u32 where "UART_BUG_TXEN \<equiv> 0x2"
abbreviation (input) UART_BUG_NOMSR :: u32 where "UART_BUG_NOMSR \<equiv> 0x4"
abbreviation (input) UART_BUG_THRE :: u32 where "UART_BUG_THRE \<equiv> 0x8"

record khooks =
  k_handle_break :: "port8250 \<Rightarrow> bool \<times> port8250"
  k_handle_sysrq :: "port8250 \<Rightarrow> u8 \<Rightarrow> bool \<times> port8250"

type_synonym 'd pd = "port8250 \<times> 'd"

section \<open>Starting and stopping\<close>

definition serial_icr_write :: "'d bus \<Rightarrow> 'd \<Rightarrow> u8 \<Rightarrow> u8 \<Rightarrow> 'd res" where
  "serial_icr_write b d offset v = rbind (bus_write b d R_SCR offset) (\<lambda>d. bus_write b d R_ICR v)"

text \<open>\<open>__stop_tx\<close>.\<close>

definition stop_tx_ier :: "'d bus \<Rightarrow> port8250 \<Rightarrow> 'd \<Rightarrow> 'd pd res" where
  "stop_tx_ier b up d =
     (if ier8 up AND 0x02 \<noteq> 0 then
        (let up = up\<lparr>ier8 := ier8 up AND NOT 0x02\<rparr>
         in rbind (bus_write b d R_IER (ier8 up)) (\<lambda>d. Inr (up, d)))
      else Inr (up, d))"

definition serial8250_stop_tx :: "'d bus \<Rightarrow> port8250 \<Rightarrow> 'd \<Rightarrow> 'd pd res" where
  "serial8250_stop_tx b up d =
     rbind (stop_tx_ier b up d) (\<lambda>(up, d).
     if ptype up = PORT_16C950 then
       (let up = up\<lparr>acr8 := acr8 up OR 0x02\<rparr>
        in rbind (serial_icr_write b d 0 (acr8 up)) (\<lambda>d. Inr (up, d)))
     else Inr (up, d))"

text \<open>One byte of the queue to the transmit register.\<close>

definition tx_one :: "'d bus \<Rightarrow> port8250 \<Rightarrow> 'd \<Rightarrow> 'd pd res" where
  "tx_one b up d =
     (case cb_buf (xmit up) of
        None \<Rightarrow> Inl NullDeref
      | Some buf \<Rightarrow>
          rbind (arr_get buf (cb_tail (xmit up))) (\<lambda>c.
          rbind (bus_write b d R_RXTX c) (\<lambda>d.
          Inr (up\<lparr>xmit := (xmit up)\<lparr>cb_tail := (cb_tail (xmit up) + 1) mod UART_XMIT_SIZE\<rparr>,
                  ic_tx := ic_tx up + 1\<rparr>, d))))"

text \<open>The loop \<open>do { ... } while (--count > 0)\<close>: \<open>n\<close> rounds may follow the present one.\<close>

fun tx_fifo_loop :: "'d bus \<Rightarrow> nat \<Rightarrow> port8250 \<Rightarrow> 'd \<Rightarrow> 'd pd res" where
  "tx_fifo_loop b 0 up d = tx_one b up d"
| "tx_fifo_loop b (Suc n) up d =
     rbind (tx_one b up d) (\<lambda>(up, d).
     if circ_cnt (xmit up) = 0 then Inr (up, d) else tx_fifo_loop b n up d)"

definition serial8250_tx_chars :: "'d bus \<Rightarrow> port8250 \<Rightarrow> 'd \<Rightarrow> 'd pd res" where
  "serial8250_tx_chars b up d =
     (if x_char up \<noteq> 0 then
        rbind (bus_write b d R_RXTX (x_char up)) (\<lambda>d. Inr (up\<lparr>ic_tx := ic_tx up + 1, x_char := 0\<rparr>, d))
      else if tty_stopped up \<or> tty_hw_stopped up then serial8250_stop_tx b up d
      else if circ_cnt (xmit up) = 0 then stop_tx_ier b up d
      else
        rbind (tx_fifo_loop b (tx_loadsz up - 1) up d) (\<lambda>(up, d).
        if circ_cnt (xmit up) = 0 then stop_tx_ier b up d else Inr (up, d)))"

definition serial8250_start_tx :: "'d bus \<Rightarrow> port8250 \<Rightarrow> 'd \<Rightarrow> 'd pd res" where
  "serial8250_start_tx b up d =
     rbind (if ier8 up AND 0x02 = 0 then
              (let up = up\<lparr>ier8 := ier8 up OR 0x02\<rparr>
               in rbind (bus_write b d R_IER (ier8 up)) (\<lambda>d.
                  if bugs up AND UART_BUG_TXEN \<noteq> 0 then
                    rbind (bus_read b d R_LSR) (\<lambda>(lsr, d).
                    let up = up\<lparr>lsr_saved_flags := lsr_saved_flags up OR (lsr AND 0x1E)\<rparr>
                    in if (if ptype up = PORT_RM9000 then lsr AND 0x20 \<noteq> 0 else lsr AND 0x40 \<noteq> 0)
                       then serial8250_tx_chars b up d else Inr (up, d))
                  else Inr (up, d)))
            else Inr (up, d)) (\<lambda>(up, d).
     if ptype up = PORT_16C950 \<and> acr8 up AND 0x02 \<noteq> 0 then
       (let up = up\<lparr>acr8 := acr8 up AND NOT 0x02\<rparr>
        in rbind (serial_icr_write b d 0 (acr8 up)) (\<lambda>d. Inr (up, d)))
     else Inr (up, d))"

definition serial8250_stop_rx :: "'d bus \<Rightarrow> port8250 \<Rightarrow> 'd \<Rightarrow> 'd pd res" where
  "serial8250_stop_rx b up d =
     (let up = up\<lparr>ier8 := ier8 up AND NOT 0x04, read_status_mask := read_status_mask up AND NOT 0x01\<rparr>
      in rbind (bus_write b d R_IER (ier8 up)) (\<lambda>d. Inr (up, d)))"

definition serial8250_enable_ms :: "'d bus \<Rightarrow> port8250 \<Rightarrow> 'd \<Rightarrow> 'd pd res" where
  "serial8250_enable_ms b up d =
     (if bugs up AND UART_BUG_NOMSR \<noteq> 0 then Inr (up, d)
      else
        (let up = up\<lparr>ier8 := ier8 up OR 0x08\<rparr>
         in rbind (bus_write b d R_IER (ier8 up)) (\<lambda>d. Inr (up, d))))"

text \<open>\<open>__uart_start\<close>, and what \<open>uart_write\<close> does after its loop.\<close>

definition uart_start :: "'d bus \<Rightarrow> port8250 \<Rightarrow> 'd \<Rightarrow> 'd pd res" where
  "uart_start b up d =
     (if circ_cnt (xmit up) \<noteq> 0 \<and> cb_buf (xmit up) \<noteq> None \<and> \<not> tty_stopped up \<and> \<not> tty_hw_stopped up
      then serial8250_start_tx b up d else Inr (up, d))"

definition uart_stop :: "'d bus \<Rightarrow> port8250 \<Rightarrow> 'd \<Rightarrow> 'd pd res" where
  "uart_stop b up d = serial8250_stop_tx b up d"

definition uart_write :: "'d bus \<Rightarrow> port8250 \<Rightarrow> 'd \<Rightarrow> u8 list \<Rightarrow> (nat \<times> port8250 \<times> 'd) res" where
  "uart_write b up d buf =
     (if cb_buf (xmit up) = None then Inr (0, up, d)
      else
        rbind (uart_write_loop (xmit up) buf 0) (\<lambda>(ret, circ).
        rbind (uart_start b (up\<lparr>xmit := circ\<rparr>) d) (\<lambda>(up, d).
        Inr (ret, up, d))))"

text \<open>\<open>uart_circ_clear\<close>; the 8250 has no \<open>flush_buffer\<close> operation of its own.\<close>

definition uart_flush_buffer :: "port8250 \<Rightarrow> port8250" where
  "uart_flush_buffer up = up\<lparr>xmit := (xmit up)\<lparr>cb_head := 0, cb_tail := 0\<rparr>\<rparr>"

section \<open>Receiving\<close>

text \<open>\<open>tty_insert_flip_char\<close> appends to the tty's buffer.\<close>

definition uart_insert_char :: "port8250 \<Rightarrow> u8 \<Rightarrow> u8 \<Rightarrow> u8 \<Rightarrow> tty_flag \<Rightarrow> port8250" where
  "uart_insert_char up status overrun ch flag =
     (let up = (if status AND ignore_status_mask up AND NOT overrun = 0
                then up\<lparr>flip := flip up @ [(ch, flag)]\<rparr> else up)
      in if status AND NOT (ignore_status_mask up) AND overrun \<noteq> 0
         then up\<lparr>flip := flip up @ [(0, TTY_OVERRUN)]\<rparr> else up)"

text \<open>\<open>clear_rx_fifo\<close>: \<open>n\<close> rounds may follow the present one.\<close>

fun clear_rx_loop :: "'d bus \<Rightarrow> nat \<Rightarrow> 'd \<Rightarrow> 'd res" where
  "clear_rx_loop b n d =
     rbind (bus_read b d R_LSR) (\<lambda>(status, d).
     if status AND 0x9E \<noteq> 0 then
       rbind (bus_read b d R_RXTX) (\<lambda>(status, d).
       case n of 0 \<Rightarrow> Inr d | Suc m \<Rightarrow> clear_rx_loop b m d)
     else Inr d)"

definition clear_rx_fifo :: "'d bus \<Rightarrow> 'd \<Rightarrow> 'd res" where
  "clear_rx_fifo b d = clear_rx_loop b 9999 d"

text \<open>
  The error branch of the receive loop: the statistics, the break hook (whose result says whether
  the character is dropped), the masked status and the flag.
\<close>

definition rx_error :: "khooks \<Rightarrow> 'd bus \<Rightarrow> port8250 \<Rightarrow> 'd \<Rightarrow> u8 \<Rightarrow>
    (bool \<times> u8 \<times> tty_flag \<times> port8250 \<times> 'd) res" where
  "rx_error k b up d lsr =
     (let bi = lsr AND 0x10 \<noteq> 0;
          lsr1 = (if bi then lsr AND NOT 0x0C else lsr);
          up1 = (if bi then up\<lparr>ic_brk := ic_brk up + 1\<rparr>
                 else if lsr AND 0x04 \<noteq> 0 then up\<lparr>ic_parity := ic_parity up + 1\<rparr>
                 else if lsr AND 0x08 \<noteq> 0 then up\<lparr>ic_frame := ic_frame up + 1\<rparr> else up)
      in rbind (if bi \<and> ptype up = PORT_TEGRA then clear_rx_fifo b d else Inr d) (\<lambda>d.
         let (skip, up2) = (if bi then k_handle_break k up1 else (False, up1))
         in if skip then Inr (True, lsr1, TTY_NORMAL, up2, d)
            else
              let up3 = (if lsr1 AND 0x02 \<noteq> 0 then up2\<lparr>ic_overrun := ic_overrun up2 + 1\<rparr> else up2);
                  lsr2 = lsr1 AND read_status_mask up3
              in Inr (False, lsr2,
                      if lsr2 AND 0x10 \<noteq> 0 then TTY_BREAK
                      else if lsr2 AND 0x04 \<noteq> 0 then TTY_PARITY
                      else if lsr2 AND 0x08 \<noteq> 0 then TTY_FRAME else TTY_NORMAL, up3, d)))"

text \<open>One round of the receive loop; the result has the line status read at its end.\<close>

definition rx_one :: "khooks \<Rightarrow> 'd bus \<Rightarrow> port8250 \<Rightarrow> 'd \<Rightarrow> u8 \<Rightarrow> (u8 \<times> port8250 \<times> 'd) res" where
  "rx_one k b up d lsr =
     rbind (if lsr AND 0x01 \<noteq> 0 then bus_read b d R_RXTX else Inr (0, d)) (\<lambda>(ch, d).
     let up = up\<lparr>ic_rx := ic_rx up + 1\<rparr>;
         lsr = lsr OR lsr_saved_flags up;
         up = up\<lparr>lsr_saved_flags := 0\<rparr>
     in rbind (if lsr AND 0x1E \<noteq> 0 then rx_error k b up d lsr else Inr (False, lsr, TTY_NORMAL, up, d))
          (\<lambda>(skip, lsr, flag, up, d).
        let up = (if skip then up
                  else
                    let (sysrq, up) = k_handle_sysrq k up ch
                    in if sysrq then up else uart_insert_char up lsr 0x02 ch flag)
        in rbind (bus_read b d R_LSR) (\<lambda>(lsr, d). Inr (lsr, up, d))))"

text \<open>\<open>n\<close> rounds may follow the present one (\<open>max_count\<close>).\<close>

fun rx_chars_loop :: "khooks \<Rightarrow> 'd bus \<Rightarrow> nat \<Rightarrow> port8250 \<Rightarrow> 'd \<Rightarrow> u8 \<Rightarrow> (u8 \<times> port8250 \<times> 'd) res" where
  "rx_chars_loop k b n up d lsr =
     rbind (rx_one k b up d lsr) (\<lambda>(lsr, up, d).
     if lsr AND 0x11 \<noteq> 0 then
       (case n of 0 \<Rightarrow> Inr (lsr, up, d) | Suc m \<Rightarrow> rx_chars_loop k b m up d lsr)
     else Inr (lsr, up, d))"

definition serial8250_rx_chars :: "khooks \<Rightarrow> 'd bus \<Rightarrow> port8250 \<Rightarrow> 'd \<Rightarrow> u8 \<Rightarrow> (u8 \<times> port8250 \<times> 'd) res" where
  "serial8250_rx_chars k b up d lsr = rx_chars_loop k b 256 up d lsr"

section \<open>Modem lines\<close>

definition uart_handle_dcd_change :: "port8250 \<Rightarrow> port8250" where
  "uart_handle_dcd_change up = up\<lparr>ic_dcd := ic_dcd up + 1\<rparr>"

definition uart_handle_cts_change :: "'d bus \<Rightarrow> port8250 \<Rightarrow> 'd \<Rightarrow> bool \<Rightarrow> 'd pd res" where
  "uart_handle_cts_change b up d status =
     (let up = up\<lparr>ic_cts := ic_cts up + 1\<rparr>
      in if cts_flow up then
           (if tty_hw_stopped up then
              (if status then serial8250_start_tx b (up\<lparr>tty_hw_stopped := False\<rparr>) d else Inr (up, d))
            else
              (if \<not> status then serial8250_stop_tx b (up\<lparr>tty_hw_stopped := True\<rparr>) d else Inr (up, d)))
         else Inr (up, d))"

definition serial8250_modem_status :: "'d bus \<Rightarrow> port8250 \<Rightarrow> 'd \<Rightarrow> (u8 \<times> port8250 \<times> 'd) res" where
  "serial8250_modem_status b up d =
     rbind (bus_read b d R_MSR) (\<lambda>(status, d).
     let status = status OR msr_saved_flags up;
         up = up\<lparr>msr_saved_flags := 0\<rparr>
     in if status AND 0x0F \<noteq> 0 \<and> ier8 up AND 0x08 \<noteq> 0 \<and> has_state up then
          let up = (if status AND 0x04 \<noteq> 0 then up\<lparr>ic_rng := ic_rng up + 1\<rparr> else up);
              up = (if status AND 0x02 \<noteq> 0 then up\<lparr>ic_dsr := ic_dsr up + 1\<rparr> else up);
              up = (if status AND 0x08 \<noteq> 0 then uart_handle_dcd_change up else up)
          in rbind (if status AND 0x01 \<noteq> 0 then uart_handle_cts_change b up d (status AND 0x10 \<noteq> 0) else Inr (up, d))
               (\<lambda>(up, d). Inr (status, up, d))
        else Inr (status, up, d))"

definition mctrl_zero :: mctrl where
  "mctrl_zero = \<lparr>m_car = False, m_rng = False, m_dsr = False, m_cts = False, m_rts = False, m_dtr = False,
     m_out1 = False, m_out2 = False, m_loop = False\<rparr>"

definition serial8250_get_mctrl :: "'d bus \<Rightarrow> port8250 \<Rightarrow> 'd \<Rightarrow> (mctrl \<times> port8250 \<times> 'd) res" where
  "serial8250_get_mctrl b up d =
     rbind (serial8250_modem_status b up d) (\<lambda>(status, up, d).
     Inr (mctrl_zero\<lparr>m_car := status AND 0x80 \<noteq> 0, m_rng := status AND 0x40 \<noteq> 0,
            m_dsr := status AND 0x20 \<noteq> 0, m_cts := status AND 0x10 \<noteq> 0\<rparr>, up, d))"

definition serial8250_set_mctrl :: "'d bus \<Rightarrow> port8250 \<Rightarrow> 'd \<Rightarrow> mctrl \<Rightarrow> 'd res" where
  "serial8250_set_mctrl b up d m =
     (let mcr = 0;
          mcr = (if m_rts m then mcr OR 0x02 else mcr);
          mcr = (if m_dtr m then mcr OR 0x01 else mcr);
          mcr = (if m_out1 m then mcr OR 0x04 else mcr);
          mcr = (if m_out2 m then mcr OR 0x08 else mcr);
          mcr = (if m_loop m then mcr OR 0x10 else mcr);
          mcr = ((mcr AND mcr_mask up) OR mcr_force up) OR mcr8 up
      in bus_write b d R_MCR mcr)"

definition serial8250_break_ctl :: "'d bus \<Rightarrow> port8250 \<Rightarrow> 'd \<Rightarrow> int \<Rightarrow> 'd pd res" where
  "serial8250_break_ctl b up d break_state =
     (let up = (if break_state = - 1 then up\<lparr>lcr8 := lcr8 up OR 0x40\<rparr> else up\<lparr>lcr8 := lcr8 up AND NOT 0x40\<rparr>)
      in rbind (bus_write b d R_LCR (lcr8 up)) (\<lambda>d. Inr (up, d)))"

definition serial8250_tx_empty :: "'d bus \<Rightarrow> port8250 \<Rightarrow> 'd \<Rightarrow> (bool \<times> port8250 \<times> 'd) res" where
  "serial8250_tx_empty b up d =
     rbind (bus_read b d R_LSR) (\<lambda>(lsr, d).
     Inr (lsr AND 0x60 = 0x60, up\<lparr>lsr_saved_flags := lsr_saved_flags up OR (lsr AND 0x1E)\<rparr>, d))"

section \<open>Interrupts\<close>

definition serial8250_handle_irq :: "khooks \<Rightarrow> 'd bus \<Rightarrow> port8250 \<Rightarrow> 'd \<Rightarrow> u8 \<Rightarrow> (bool \<times> port8250 \<times> 'd) res" where
  "serial8250_handle_irq k b up d iir =
     (if iir AND 0x01 \<noteq> 0 then Inr (False, up, d)
      else
        rbind (bus_read b d R_LSR) (\<lambda>(status, d).
        rbind (if status AND 0x11 \<noteq> 0 then serial8250_rx_chars k b up d status else Inr (status, up, d))
          (\<lambda>(status, up, d).
        rbind (serial8250_modem_status b up d) (\<lambda>(_, up, d).
        rbind (if status AND 0x20 \<noteq> 0 then serial8250_tx_chars b up d else Inr (up, d)) (\<lambda>(up, d).
        Inr (True, up, d))))))"

definition serial8250_default_handle_irq :: "khooks \<Rightarrow> 'd bus \<Rightarrow> port8250 \<Rightarrow> 'd \<Rightarrow> (bool \<times> port8250 \<times> 'd) res" where
  "serial8250_default_handle_irq k b up d =
     rbind (bus_read b d R_IIR) (\<lambda>(iir, d). serial8250_handle_irq k b up d iir)"

text \<open>
  \<open>serial8250_interrupt\<close> over the ring of ports that share the interrupt: \<open>h\<close> is \<open>port->handle_irq\<close>,
  \<open>fin\<close> is \<open>end\<close> of the code (no port when it is null), and \<open>l\<close> the place in the ring, whose head is
  0. The result is the handled flag, the ports, and whether the pass limit was hit.
\<close>

abbreviation (input) PASS_LIMIT :: nat where "PASS_LIMIT \<equiv> 512"

function irq_loop :: "('s \<Rightarrow> (bool \<times> 's) res) \<Rightarrow> 's list \<Rightarrow> nat \<Rightarrow> nat option \<Rightarrow> nat \<Rightarrow> bool \<Rightarrow>
    (bool \<times> 's list \<times> bool) res" where
  "irq_loop h ps l fin pass handled =
     rbind (arr_get ps l) (\<lambda>p.
     rbind (h p) (\<lambda>(r, p).
     let ps = ps[l := p];
         handled = (if r then True else handled);
         fin = (if r then None else if fin = None then Some l else fin);
         l' = (if Suc l = length ps then 0 else Suc l)
     in if l' = 0 \<and> pass > PASS_LIMIT then Inr (handled, ps, True)
        else
          let pass = (if l' = 0 then pass + 1 else pass)
          in if fin = Some l' then Inr (handled, ps, False)
             else irq_loop h ps l' fin pass handled))"
  by pat_completeness auto
termination
proof (relation "measures [\<lambda>(h, ps, l, fin, pass, handled). PASS_LIMIT + 1 - pass,
    \<lambda>(h, ps, l, fin, pass, handled). length ps - l]", goal_cases)
  case (2 h ps l fin pass handled p rp r p' ps' handled' fin' l' pass')
  then have "l < length ps"
    by (auto simp: arr_get_def split: if_splits)
  with 2 show ?case
    by (auto split: if_splits)
qed simp

definition serial8250_interrupt :: "('s \<Rightarrow> (bool \<times> 's) res) \<Rightarrow> 's list \<Rightarrow> (bool \<times> 's list \<times> bool) res" where
  "serial8250_interrupt h ps = irq_loop h ps 0 None 0 False"

section \<open>Polling\<close>

text \<open>
  \<open>wait_for_xmitr\<close>: at most 10000 reads of the line status, then with flow control on at most a
  million of the modem status.
\<close>

fun wait_lsr_loop :: "'d bus \<Rightarrow> nat \<Rightarrow> u8 \<Rightarrow> port8250 \<Rightarrow> 'd \<Rightarrow> 'd pd res" where
  "wait_lsr_loop b n bits up d =
     rbind (bus_read b d R_LSR) (\<lambda>(status, d).
     let up = up\<lparr>lsr_saved_flags := lsr_saved_flags up OR (status AND 0x1E)\<rparr>
     in if status AND bits = bits then Inr (up, d)
        else (case n of 0 \<Rightarrow> Inr (up, d) | Suc m \<Rightarrow> wait_lsr_loop b m bits up d))"

fun wait_msr_loop :: "'d bus \<Rightarrow> nat \<Rightarrow> port8250 \<Rightarrow> 'd \<Rightarrow> 'd pd res" where
  "wait_msr_loop b 0 up d = Inr (up, d)"
| "wait_msr_loop b (Suc n) up d =
     rbind (bus_read b d R_MSR) (\<lambda>(msr, d).
     let up = up\<lparr>msr_saved_flags := msr_saved_flags up OR (msr AND 0x0F)\<rparr>
     in if msr AND 0x10 \<noteq> 0 then Inr (up, d) else wait_msr_loop b n up d)"

definition wait_for_xmitr :: "'d bus \<Rightarrow> u8 \<Rightarrow> port8250 \<Rightarrow> 'd \<Rightarrow> 'd pd res" where
  "wait_for_xmitr b bits up d =
     rbind (wait_lsr_loop b 9999 bits up d) (\<lambda>(up, d).
     if cons_flow up then wait_msr_loop b 1000000 up d else Inr (up, d))"

text \<open>\<open>None\<close> is \<open>NO_POLL_CHAR\<close>.\<close>

definition serial8250_get_poll_char :: "'d bus \<Rightarrow> 'd \<Rightarrow> (u8 option \<times> 'd) res" where
  "serial8250_get_poll_char b d =
     rbind (bus_read b d R_LSR) (\<lambda>(lsr, d).
     if lsr AND 0x01 = 0 then Inr (None, d)
     else rbind (bus_read b d R_RXTX) (\<lambda>(c, d). Inr (Some c, d)))"

definition serial8250_put_poll_char :: "'d bus \<Rightarrow> port8250 \<Rightarrow> 'd \<Rightarrow> u8 \<Rightarrow> 'd pd res" where
  "serial8250_put_poll_char b up d c =
     rbind (bus_read b d R_IER) (\<lambda>(ier, d).
     rbind (bus_write b d R_IER (if capabilities up AND UART_CAP_UUE \<noteq> 0 then 0x40 else 0)) (\<lambda>d.
     rbind (wait_for_xmitr b 0x60 up d) (\<lambda>(up, d).
     rbind (bus_write b d R_RXTX c) (\<lambda>d.
     rbind (if c = 10 then
              rbind (wait_for_xmitr b 0x60 up d) (\<lambda>(up, d).
              rbind (bus_write b d R_RXTX 13) (\<lambda>d. Inr (up, d)))
            else Inr (up, d)) (\<lambda>(up, d).
     rbind (wait_for_xmitr b 0x60 up d) (\<lambda>(up, d).
     rbind (bus_write b d R_IER ier) (\<lambda>d. Inr (up, d))))))))"

end
