(* ===== verification/Linux_8250_Probe.thy ===== *)
theory Linux_8250_Probe
  imports Linux_8250
begin

unbundle bit_operations_syntax

text \<open>
  How the kernel's driver finds out which chip it has: \<open>autoconfig\<close> of \<open>8250.c\<close> with its helpers, as
  accesses of a \<open>bus\<close>. The options \<open>CONFIG_SERIAL_8250_RSA\<close> and those of particular platforms are
  off. Debug output, delays, the writes to the unused i/o port 0x80 and locking have no state.
  The two reads of a divisor latch are in the order of the source.
\<close>

section \<open>The table of chips\<close>

text \<open>Without the names, which are only printed.\<close>

record serial8250_config =
  fifo_size :: u16
  cfg_tx_loadsz :: nat
  cfg_fcr :: u8
  cfg_flags :: u32

abbreviation (input) UART_NATSEMI :: u32 where "UART_NATSEMI \<equiv> 0x8"

definition chip :: "u16 \<Rightarrow> nat \<Rightarrow> u8 \<Rightarrow> u32 \<Rightarrow> serial8250_config" where
  "chip fs tx fc fl = \<lparr>fifo_size = fs, cfg_tx_loadsz = tx, cfg_fcr = fc, cfg_flags = fl\<rparr>"

fun uart_config :: "port_type \<Rightarrow> serial8250_config" where
  "uart_config PORT_UNKNOWN = chip 1 1 0 0"
| "uart_config PORT_8250 = chip 1 1 0 0"
| "uart_config PORT_16450 = chip 1 1 0 0"
| "uart_config PORT_16550 = chip 1 1 0 0"
| "uart_config PORT_16550A = chip 16 16 (0x01 OR 0x80) UART_CAP_FIFO"
| "uart_config PORT_CIRRUS = chip 1 1 0 0"
| "uart_config PORT_16650 = chip 1 1 0 (UART_CAP_FIFO OR UART_CAP_EFR OR UART_CAP_SLEEP)"
| "uart_config PORT_16650V2 = chip 32 16 (0x01 OR 0x40 OR 0x00) (UART_CAP_FIFO OR UART_CAP_EFR OR UART_CAP_SLEEP)"
| "uart_config PORT_16750 = chip 64 64 (0x01 OR 0x80 OR 0x20) (UART_CAP_FIFO OR UART_CAP_SLEEP OR UART_CAP_AFE)"
| "uart_config PORT_STARTECH = chip 1 1 0 0"
| "uart_config PORT_16C950 = chip 128 128 (0x01 OR 0x80) (UART_CAP_FIFO OR UART_CAP_SLEEP)"
| "uart_config PORT_16654 = chip 64 32 (0x01 OR 0x40 OR 0x20) (UART_CAP_FIFO OR UART_CAP_EFR OR UART_CAP_SLEEP)"
| "uart_config PORT_16850 = chip 128 128 (0x01 OR 0x80) (UART_CAP_FIFO OR UART_CAP_EFR OR UART_CAP_SLEEP)"
| "uart_config PORT_RSA = chip 2048 2048 (0x01 OR 0xC0) UART_CAP_FIFO"
| "uart_config PORT_NS16550A = chip 16 16 (0x01 OR 0x80) (UART_CAP_FIFO OR UART_NATSEMI)"
| "uart_config PORT_XSCALE = chip 32 32 (0x01 OR 0x80) (UART_CAP_FIFO OR UART_CAP_UUE OR UART_CAP_RTOIE)"
| "uart_config PORT_RM9000 = chip 16 16 (0x01 OR 0x80) UART_CAP_FIFO"
| "uart_config PORT_OCTEON = chip 64 64 (0x01 OR 0x80) UART_CAP_FIFO"
| "uart_config PORT_AR7 = chip 16 16 (0x01 OR 0x00) (UART_CAP_FIFO OR UART_CAP_AFE)"
| "uart_config PORT_U6_16550A = chip 64 64 (0x01 OR 0x80) (UART_CAP_FIFO OR UART_CAP_AFE)"
| "uart_config PORT_TEGRA = chip 32 8 (0x01 OR 0x40 OR 0x10) (UART_CAP_FIFO OR UART_CAP_RTOIE)"
| "uart_config PORT_XR17D15X = chip 64 64 (0x01 OR 0x80) (UART_CAP_FIFO OR UART_CAP_AFE OR UART_CAP_EFR)"

section \<open>Register helpers\<close>

abbreviation (input) R_DLL :: nat where "R_DLL \<equiv> 0"
abbreviation (input) R_DLM :: nat where "R_DLM \<equiv> 1"
abbreviation (input) R_FCR :: nat where "R_FCR \<equiv> 2"
abbreviation (input) R_EFR :: nat where "R_EFR \<equiv> 2"
abbreviation (input) LCR_CONF_MODE_A :: u8 where "LCR_CONF_MODE_A \<equiv> 0x80"
abbreviation (input) LCR_CONF_MODE_B :: u8 where "LCR_CONF_MODE_B \<equiv> 0xBF"

definition serial_dl_read :: "'d bus \<Rightarrow> 'd \<Rightarrow> (u32 \<times> 'd) res" where
  "serial_dl_read b d =
     rbind (bus_read b d R_DLL) (\<lambda>(lo, d).
     rbind (bus_read b d R_DLM) (\<lambda>(hi, d).
     Inr (ucast lo OR push_bit 8 (ucast hi), d)))"

definition serial_dl_write :: "'d bus \<Rightarrow> 'd \<Rightarrow> u32 \<Rightarrow> 'd res" where
  "serial_dl_write b d v =
     rbind (bus_write b d R_DLL (ucast (v AND 0xff))) (\<lambda>d.
     bus_write b d R_DLM (ucast (drop_bit 8 v AND 0xff)))"

definition serial_icr_read :: "'d bus \<Rightarrow> port8250 \<Rightarrow> 'd \<Rightarrow> u8 \<Rightarrow> (u8 \<times> 'd) res" where
  "serial_icr_read b up d offset =
     rbind (serial_icr_write b d 0 (acr8 up OR 0x40)) (\<lambda>d.
     rbind (bus_write b d R_SCR offset) (\<lambda>d.
     rbind (bus_read b d R_ICR) (\<lambda>(v, d).
     rbind (serial_icr_write b d 0 (acr8 up)) (\<lambda>d. Inr (v, d)))))"

definition serial8250_clear_fifos :: "'d bus \<Rightarrow> port8250 \<Rightarrow> 'd \<Rightarrow> 'd res" where
  "serial8250_clear_fifos b up d =
     (if capabilities up AND UART_CAP_FIFO \<noteq> 0 then
        rbind (bus_write b d R_FCR 0x01) (\<lambda>d.
        rbind (bus_write b d R_FCR (0x01 OR 0x02 OR 0x04)) (\<lambda>d.
        bus_write b d R_FCR 0))
      else Inr d)"

definition serial8250_set_sleep :: "'d bus \<Rightarrow> port8250 \<Rightarrow> 'd \<Rightarrow> bool \<Rightarrow> 'd res" where
  "serial8250_set_sleep b up d sleep =
     (if capabilities up AND UART_CAP_SLEEP \<noteq> 0 then
        rbind (if capabilities up AND UART_CAP_EFR \<noteq> 0 then
                 rbind (bus_write b d R_LCR LCR_CONF_MODE_B) (\<lambda>d.
                 rbind (bus_write b d R_EFR 0x10) (\<lambda>d.
                 bus_write b d R_LCR 0))
               else Inr d) (\<lambda>d.
        rbind (bus_write b d R_IER (if sleep then 0x10 else 0)) (\<lambda>d.
        if capabilities up AND UART_CAP_EFR \<noteq> 0 then
          rbind (bus_write b d R_LCR LCR_CONF_MODE_B) (\<lambda>d.
          rbind (bus_write b d R_EFR 0) (\<lambda>d.
          bus_write b d R_LCR 0))
        else Inr d))
      else Inr d)"

section \<open>The size of the FIFO\<close>

text \<open>The loops of \<open>size_fifo\<close>, which fill the FIFO and count what is in it; \<open>n\<close> is what is left of 256.\<close>

fun fill_loop :: "'d bus \<Rightarrow> nat \<Rightarrow> nat \<Rightarrow> 'd \<Rightarrow> 'd res" where
  "fill_loop b 0 count d = Inr d"
| "fill_loop b (Suc n) count d =
     rbind (bus_write b d R_RXTX (of_nat count)) (\<lambda>d. fill_loop b n (count + 1) d)"

fun count_loop :: "'d bus \<Rightarrow> nat \<Rightarrow> 'd \<Rightarrow> (nat \<times> 'd) res" where
  "count_loop b 0 d = rbind (bus_read b d R_LSR) (\<lambda>(lsr, d). Inr (0, d))"
| "count_loop b (Suc n) d =
     rbind (bus_read b d R_LSR) (\<lambda>(lsr, d).
     if lsr AND 0x01 \<noteq> 0 then
       rbind (bus_read b d R_RXTX) (\<lambda>(c, d).
       rbind (count_loop b n d) (\<lambda>(count, d). Inr (count + 1, d)))
     else Inr (0, d))"

definition size_fifo :: "'d bus \<Rightarrow> 'd \<Rightarrow> (nat \<times> 'd) res" where
  "size_fifo b d =
     rbind (bus_read b d R_LCR) (\<lambda>(old_lcr, d).
     rbind (bus_write b d R_LCR 0) (\<lambda>d.
     rbind (bus_read b d R_FCR) (\<lambda>(old_fcr, d).
     rbind (bus_read b d R_MCR) (\<lambda>(old_mcr, d).
     rbind (bus_write b d R_FCR (0x01 OR 0x02 OR 0x04)) (\<lambda>d.
     rbind (bus_write b d R_MCR 0x10) (\<lambda>d.
     rbind (bus_write b d R_LCR LCR_CONF_MODE_A) (\<lambda>d.
     rbind (serial_dl_read b d) (\<lambda>(old_dl, d).
     rbind (serial_dl_write b d 0x0001) (\<lambda>d.
     rbind (bus_write b d R_LCR 0x03) (\<lambda>d.
     rbind (fill_loop b 256 0 d) (\<lambda>d.
     rbind (count_loop b 256 d) (\<lambda>(count, d).
     rbind (bus_write b d R_FCR old_fcr) (\<lambda>d.
     rbind (bus_write b d R_MCR old_mcr) (\<lambda>d.
     rbind (bus_write b d R_LCR LCR_CONF_MODE_A) (\<lambda>d.
     rbind (serial_dl_write b d (ucast (ucast old_dl :: u16))) (\<lambda>d.
     rbind (bus_write b d R_LCR old_lcr) (\<lambda>d.
     Inr (count, d))))))))))))))))))"

section \<open>Identification\<close>

definition autoconfig_read_divisor_id :: "'d bus \<Rightarrow> 'd \<Rightarrow> (u32 \<times> 'd) res" where
  "autoconfig_read_divisor_id b d =
     rbind (bus_read b d R_LCR) (\<lambda>(old_lcr, d).
     rbind (bus_write b d R_LCR LCR_CONF_MODE_A) (\<lambda>d.
     rbind (bus_read b d R_DLL) (\<lambda>(old_dll, d).
     rbind (bus_read b d R_DLM) (\<lambda>(old_dlm, d).
     rbind (bus_write b d R_DLL 0) (\<lambda>d.
     rbind (bus_write b d R_DLM 0) (\<lambda>d.
     rbind (serial_dl_read b d) (\<lambda>(id, d).
     rbind (bus_write b d R_DLL old_dll) (\<lambda>d.
     rbind (bus_write b d R_DLM old_dlm) (\<lambda>d.
     rbind (bus_write b d R_LCR old_lcr) (\<lambda>d.
     Inr (id, d)))))))))))"

definition autoconfig_has_efr :: "'d bus \<Rightarrow> port8250 \<Rightarrow> 'd \<Rightarrow> 'd pd res" where
  "autoconfig_has_efr b up d =
     (let up = up\<lparr>capabilities := capabilities up OR (UART_CAP_EFR OR UART_CAP_SLEEP), acr8 := 0\<rparr> in
      rbind (bus_write b d R_LCR LCR_CONF_MODE_B) (\<lambda>d.
      rbind (bus_write b d R_EFR 0x10) (\<lambda>d.
      rbind (bus_write b d R_LCR 0x00) (\<lambda>d.
      rbind (serial_icr_read b up d 0x08) (\<lambda>(id1, d).
      rbind (serial_icr_read b up d 0x09) (\<lambda>(id2, d).
      rbind (serial_icr_read b up d 0x0A) (\<lambda>(id3, d).
      rbind (serial_icr_read b up d 0x0B) (\<lambda>(rev, d).
      if id1 = 0x16 \<and> id2 = 0xC9 \<and> (id3 = 0x50 \<or> id3 = 0x52 \<or> id3 = 0x54) then
        (let up = up\<lparr>ptype := PORT_16C950\<rparr>
         in Inr (if id3 = 0x52 \<and> rev = 0x01 then up\<lparr>bugs := bugs up OR UART_BUG_QUOT\<rparr> else up, d))
      else
        rbind (autoconfig_read_divisor_id b d) (\<lambda>(id1, d).
        let id2 = drop_bit 8 id1
        in if id2 = 0x10 \<or> id2 = 0x12 \<or> id2 = 0x14 then Inr (up\<lparr>ptype := PORT_16850\<rparr>, d)
           else rbind (size_fifo b d) (\<lambda>(n, d).
             Inr (if n = 64 then up\<lparr>ptype := PORT_16654\<rparr> else up\<lparr>ptype := PORT_16650V2\<rparr>, d)))))))))))"

definition autoconfig_8250 :: "'d bus \<Rightarrow> port8250 \<Rightarrow> 'd \<Rightarrow> 'd pd res" where
  "autoconfig_8250 b up d =
     (let up = up\<lparr>ptype := PORT_8250\<rparr> in
      rbind (bus_read b d R_SCR) (\<lambda>(scratch, d).
      rbind (bus_write b d R_SCR 0xa5) (\<lambda>d.
      rbind (bus_read b d R_SCR) (\<lambda>(status1, d).
      rbind (bus_write b d R_SCR 0x5a) (\<lambda>d.
      rbind (bus_read b d R_SCR) (\<lambda>(status2, d).
      rbind (bus_write b d R_SCR scratch) (\<lambda>d.
      Inr (if status1 = 0xa5 \<and> status2 = 0x5a then up\<lparr>ptype := PORT_16450\<rparr> else up, d))))))))"

definition broken_efr :: "'d bus \<Rightarrow> 'd \<Rightarrow> (bool \<times> 'd) res" where
  "broken_efr b d =
     rbind (autoconfig_read_divisor_id b d) (\<lambda>(id, d).
     if id = 0x0201 then rbind (size_fifo b d) (\<lambda>(n, d). Inr (n = 16, d)) else Inr (False, d))"

definition ns16550a_goto_highspeed :: "'d bus \<Rightarrow> 'd \<Rightarrow> (bool \<times> 'd) res" where
  "ns16550a_goto_highspeed b d =
     rbind (bus_read b d 0x04) (\<lambda>(status, d).
     if status AND 0x30 = 0x10 then Inr (False, d)
     else rbind (bus_write b d 0x04 ((status AND NOT 0xB0) OR 0x10)) (\<lambda>d. Inr (True, d)))"

text \<open>The parts of \<open>autoconfig_16550a\<close>; the flag says whether the part has identified the chip.\<close>

definition probe_efr_v1 :: "'d bus \<Rightarrow> port8250 \<Rightarrow> 'd \<Rightarrow> 'd pd res" where
  "probe_efr_v1 b up d =
     rbind (bus_write b d R_EFR 0xA8) (\<lambda>d.
     rbind (bus_read b d R_EFR) (\<lambda>(efr, d).
     let up = (if efr \<noteq> 0 then
                 up\<lparr>ptype := PORT_16650, capabilities := capabilities up OR (UART_CAP_EFR OR UART_CAP_SLEEP)\<rparr> else up)
     in rbind (bus_write b d R_EFR 0) (\<lambda>d. Inr (up, d))))"

definition probe_natsemi :: "'d bus \<Rightarrow> port8250 \<Rightarrow> 'd \<Rightarrow> (bool \<times> port8250 \<times> 'd) res" where
  "probe_natsemi b up d =
     rbind (bus_write b d R_LCR 0) (\<lambda>d.
     rbind (bus_read b d R_MCR) (\<lambda>(status1, d).
     rbind (bus_write b d R_LCR 0xE0) (\<lambda>d.
     rbind (bus_read b d 0x02) (\<lambda>(status2, d).
     if (status2 XOR status1) AND 0x10 = 0 then
       rbind (bus_write b d R_LCR 0) (\<lambda>d.
       rbind (bus_write b d R_MCR (status1 XOR 0x10)) (\<lambda>d.
       rbind (bus_write b d R_LCR 0xE0) (\<lambda>d.
       rbind (bus_read b d 0x02) (\<lambda>(status2, d).
       rbind (bus_write b d R_LCR 0) (\<lambda>d.
       rbind (bus_write b d R_MCR status1) (\<lambda>d.
       if (status2 XOR status1) AND 0x10 \<noteq> 0 then
         rbind (bus_write b d R_LCR 0xE0) (\<lambda>d.
         rbind (serial_dl_read b d) (\<lambda>(dl, d).
         let quot = push_bit 3 (ucast dl :: u16)
         in rbind (ns16550a_goto_highspeed b d) (\<lambda>(switched, d).
            rbind (if switched then serial_dl_write b d (ucast quot) else Inr d) (\<lambda>d.
            rbind (bus_write b d R_LCR 0) (\<lambda>d.
            Inr (True, up\<lparr>uartclk := 921600 * 16, ptype := PORT_NS16550A,
                          capabilities := capabilities up OR UART_NATSEMI\<rparr>, d))))))
       else Inr (False, up, d)))))))
     else Inr (False, up, d)))))"

definition probe_16750 :: "'d bus \<Rightarrow> port8250 \<Rightarrow> 'd \<Rightarrow> (bool \<times> port8250 \<times> 'd) res" where
  "probe_16750 b up d =
     rbind (bus_write b d R_LCR 0) (\<lambda>d.
     rbind (bus_write b d R_FCR (0x01 OR 0x20)) (\<lambda>d.
     rbind (bus_read b d R_IIR) (\<lambda>(iir1, d).
     rbind (bus_write b d R_FCR 0x01) (\<lambda>d.
     rbind (bus_write b d R_LCR LCR_CONF_MODE_A) (\<lambda>d.
     rbind (bus_write b d R_FCR (0x01 OR 0x20)) (\<lambda>d.
     rbind (bus_read b d R_IIR) (\<lambda>(iir2, d).
     rbind (bus_write b d R_FCR 0x01) (\<lambda>d.
     rbind (bus_write b d R_LCR 0) (\<lambda>d.
     if drop_bit 5 iir1 = 6 \<and> drop_bit 5 iir2 = 7 then
       Inr (True, up\<lparr>ptype := PORT_16750, capabilities := capabilities up OR (UART_CAP_AFE OR UART_CAP_SLEEP)\<rparr>, d)
     else Inr (False, up, d))))))))))"

definition probe_xscale :: "'d bus \<Rightarrow> port8250 \<Rightarrow> 'd \<Rightarrow> (bool \<times> port8250 \<times> 'd) res" where
  "probe_xscale b up d =
     rbind (bus_read b d R_IER) (\<lambda>(iersave, d).
     rbind (bus_write b d R_IER (iersave AND NOT 0x40)) (\<lambda>d.
     rbind (bus_read b d R_IER) (\<lambda>(v, d).
     rbind (if v AND 0x40 = 0 then
              rbind (bus_write b d R_IER (iersave OR 0x40)) (\<lambda>d.
              rbind (bus_read b d R_IER) (\<lambda>(v, d). Inr (v AND 0x40 \<noteq> 0, d)))
            else Inr (False, d)) (\<lambda>(found, d).
     if found then
       Inr (True, up\<lparr>ptype := PORT_XSCALE, capabilities := capabilities up OR (UART_CAP_UUE OR UART_CAP_RTOIE)\<rparr>, d)
     else rbind (bus_write b d R_IER iersave) (\<lambda>d. Inr (False, up, d))))))"

definition probe_exar_u6 :: "'d bus \<Rightarrow> port8250 \<Rightarrow> 'd \<Rightarrow> 'd pd res" where
  "probe_exar_u6 b up d =
     (let up = (if upf_exar_efr up then
                  up\<lparr>ptype := PORT_XR17D15X, capabilities := capabilities up OR (UART_CAP_AFE OR UART_CAP_EFR)\<rparr> else up)
      in if ptype up = PORT_16550A then
           rbind (size_fifo b d) (\<lambda>(n, d).
           Inr (if n = 64 then up\<lparr>ptype := PORT_U6_16550A, capabilities := capabilities up OR UART_CAP_AFE\<rparr> else up, d))
         else Inr (up, d))"

definition autoconfig_16550a :: "'d bus \<Rightarrow> port8250 \<Rightarrow> 'd \<Rightarrow> 'd pd res" where
  "autoconfig_16550a b up d =
     (let up = up\<lparr>ptype := PORT_16550A, capabilities := capabilities up OR UART_CAP_FIFO\<rparr> in
      rbind (bus_write b d R_LCR LCR_CONF_MODE_A) (\<lambda>d.
      rbind (bus_read b d R_EFR) (\<lambda>(efr, d).
      if efr = 0 then probe_efr_v1 b up d
      else
        rbind (bus_write b d R_LCR LCR_CONF_MODE_B) (\<lambda>d.
        rbind (bus_read b d R_EFR) (\<lambda>(efr, d).
        rbind (if efr = 0 then broken_efr b d else Inr (True, d)) (\<lambda>(broken, d).
        if \<not> broken then autoconfig_has_efr b up d
        else
          rbind (probe_natsemi b up d) (\<lambda>(found, up, d).
          if found then Inr (up, d)
          else
            rbind (probe_16750 b up d) (\<lambda>(found, up, d).
            if found then Inr (up, d)
            else
              rbind (probe_xscale b up d) (\<lambda>(found, up, d).
              if found then Inr (up, d) else probe_exar_u6 b up d)))))))))"

text \<open>The existence tests at the start of \<open>autoconfig\<close>: the interrupt enable register, and loopback.\<close>

definition test_ier :: "'d bus \<Rightarrow> 'd \<Rightarrow> (bool \<times> 'd) res" where
  "test_ier b d =
     rbind (bus_read b d R_IER) (\<lambda>(scratch, d).
     rbind (bus_write b d R_IER 0) (\<lambda>d.
     rbind (bus_read b d R_IER) (\<lambda>(v2, d).
     rbind (bus_write b d R_IER 0x0F) (\<lambda>d.
     rbind (bus_read b d R_IER) (\<lambda>(v3, d).
     rbind (bus_write b d R_IER scratch) (\<lambda>d.
     Inr (v2 AND 0x0f = 0 \<and> v3 AND 0x0f = 0x0F, d)))))))"

definition test_loop :: "'d bus \<Rightarrow> 'd \<Rightarrow> u8 \<Rightarrow> (bool \<times> 'd) res" where
  "test_loop b d save_mcr =
     rbind (bus_write b d R_MCR (0x10 OR 0x0A)) (\<lambda>d.
     rbind (bus_read b d R_MSR) (\<lambda>(status1, d).
     rbind (bus_write b d R_MCR save_mcr) (\<lambda>d.
     Inr (status1 AND 0xF0 = 0x90, d))))"

text \<open>What follows the identification, until \<open>out\<close>.\<close>

definition autoconfig_reset :: "'d bus \<Rightarrow> port8250 \<Rightarrow> 'd \<Rightarrow> u8 \<Rightarrow> u8 \<Rightarrow> 'd pd res" where
  "autoconfig_reset b up d save_lcr save_mcr =
     rbind (bus_write b d R_LCR save_lcr) (\<lambda>d.
     let up = up\<lparr>fifosize := ucast (fifo_size (uart_config (ptype up))), capabilities := cfg_flags (uart_config (ptype up)),
                 tx_loadsz := cfg_tx_loadsz (uart_config (ptype up))\<rparr>
     in if ptype up = PORT_UNKNOWN then Inr (up, d)
        else
          rbind (bus_write b d R_MCR save_mcr) (\<lambda>d.
          rbind (serial8250_clear_fifos b up d) (\<lambda>d.
          rbind (bus_read b d R_RXTX) (\<lambda>(c, d).
          rbind (bus_write b d R_IER (if capabilities up AND UART_CAP_UUE \<noteq> 0 then 0x40 else 0)) (\<lambda>d.
          Inr (up, d))))))"

definition autoconfig :: "'d bus \<Rightarrow> port8250 \<Rightarrow> 'd \<Rightarrow> 'd pd res" where
  "autoconfig b up d =
     (if \<not> has_addr up then Inr (up, d)
      else
        let up = up\<lparr>capabilities := 0, bugs := 0\<rparr> in
        rbind (if \<not> upf_buggy up then test_ier b d else Inr (True, d)) (\<lambda>(present, d).
        if \<not> present then Inr (up, d)
        else
          rbind (bus_read b d R_MCR) (\<lambda>(save_mcr, d).
          rbind (bus_read b d R_LCR) (\<lambda>(save_lcr, d).
          rbind (if \<not> upf_skip_test up then test_loop b d save_mcr else Inr (True, d)) (\<lambda>(present, d).
          if \<not> present then Inr (up, d)
          else
            rbind (bus_write b d R_LCR LCR_CONF_MODE_B) (\<lambda>d.
            rbind (bus_write b d R_EFR 0) (\<lambda>d.
            rbind (bus_write b d R_LCR 0) (\<lambda>d.
            rbind (bus_write b d R_FCR 0x01) (\<lambda>d.
            rbind (bus_read b d R_IIR) (\<lambda>(v, d).
            let scratch = drop_bit 6 v
            in rbind (if scratch = 0 then autoconfig_8250 b up d
                      else if scratch = 1 then Inr (up\<lparr>ptype := PORT_UNKNOWN\<rparr>, d)
                      else if scratch = 2 then Inr (up\<lparr>ptype := PORT_16550\<rparr>, d)
                      else autoconfig_16550a b up d) (\<lambda>(up, d).
               autoconfig_reset b up d save_lcr save_mcr)))))))))))"

text \<open>
  \<open>autoconfig_irq\<close>: \<open>irq\<close> is what \<open>probe_irq_off\<close> returns, \<open>io\<close> the i/o ports that a Fourport board's
  control register is one of, at \<open>icp\<close>.
\<close>

definition autoconfig_irq :: "'d bus \<Rightarrow> 'd bus \<Rightarrow> nat \<Rightarrow> int \<Rightarrow> port8250 \<Rightarrow> 'd \<Rightarrow> 'd pd res" where
  "autoconfig_irq b io icp irq up d =
     rbind (if upf_fourport up then
              rbind (bus_read io d icp) (\<lambda>(save, d).
              rbind (bus_write io d icp 0x80) (\<lambda>d.
              rbind (bus_read io d icp) (\<lambda>(_, d). Inr (save, d))))
            else Inr (0, d)) (\<lambda>(save_ICP, d).
     rbind (bus_read b d R_MCR) (\<lambda>(save_mcr, d).
     rbind (bus_read b d R_IER) (\<lambda>(save_ier, d).
     rbind (bus_write b d R_MCR (0x04 OR 0x08)) (\<lambda>d.
     rbind (bus_write b d R_MCR 0) (\<lambda>d.
     rbind (bus_write b d R_MCR (if upf_fourport up then 0x01 OR 0x02 else 0x01 OR 0x02 OR 0x08)) (\<lambda>d.
     rbind (bus_write b d R_IER 0x0f) (\<lambda>d.
     rbind (bus_read b d R_LSR) (\<lambda>(_, d).
     rbind (bus_read b d R_RXTX) (\<lambda>(_, d).
     rbind (bus_read b d R_IIR) (\<lambda>(_, d).
     rbind (bus_read b d R_MSR) (\<lambda>(_, d).
     rbind (bus_write b d R_RXTX 0xFF) (\<lambda>d.
     rbind (bus_write b d R_MCR save_mcr) (\<lambda>d.
     rbind (bus_write b d R_IER save_ier) (\<lambda>d.
     rbind (if upf_fourport up then bus_write io d icp save_ICP else Inr d) (\<lambda>d.
     Inr (up\<lparr>port_irq_no := (if 0 < irq then nat irq else 0)\<rparr>, d))))))))))))))))"

end
