(* ===== verification/Linux_Irq.thy ===== *)
theory Linux_Irq
  imports Prelude
begin

text \<open>
  Which ports share an interrupt: \<open>irq_info\<close>, \<open>irq_lists\<close> and the functions on them of \<open>8250.c\<close>. A
  port is a number. The ring of ports behind \<open>head\<close> is the list that starts with the head (empty when
  \<open>head\<close> is null), the order in which \<open>serial8250_interrupt\<close> visits them. The results of \<open>kzalloc\<close>
  and \<open>request_irq\<close> are arguments; \<open>irq_held\<close> are the interrupts requested and not freed.
\<close>

record irq_info =
  ii_irq :: nat
  ii_ports :: "nat list"

record irq_state =
  irq_lists :: "irq_info list list"
  irq_held :: "nat list"

abbreviation (input) NR_IRQ_HASH :: nat where "NR_IRQ_HASH \<equiv> 32"

text \<open>The walk over a bucket, and what the pointer it finds is used for.\<close>

fun chain_find :: "nat \<Rightarrow> irq_info list \<Rightarrow> irq_info option" where
  "chain_find irq [] = None"
| "chain_find irq (i # is) = (if ii_irq i = irq then Some i else chain_find irq is)"

fun chain_set :: "irq_info \<Rightarrow> irq_info list \<Rightarrow> irq_info list" where
  "chain_set j [] = []"
| "chain_set j (i # is) = (if ii_irq i = ii_irq j then j # is else i # chain_set j is)"

fun chain_del :: "nat \<Rightarrow> irq_info list \<Rightarrow> irq_info list" where
  "chain_del irq [] = []"
| "chain_del irq (i # is) = (if ii_irq i = irq then is else i # chain_del irq is)"

text \<open>
  \<open>serial_do_unlink\<close> on the bucket that holds \<open>i\<close>. Removing a port that is in no ring follows a
  poisoned pointer.
\<close>

definition serial_do_unlink :: "irq_info \<Rightarrow> nat \<Rightarrow> irq_info list \<Rightarrow> irq_info list res" where
  "serial_do_unlink i up bucket =
     (case ii_ports i of
        [] \<Rightarrow> Inl NullDeref
      | [p] \<Rightarrow> if p \<noteq> up then Inl AssertFail else Inr (chain_del (ii_irq i) bucket)
      | ps \<Rightarrow> if up \<in> set ps then Inr (chain_set (i\<lparr>ii_ports := remove1 up ps\<rparr>) bucket) else Inl NullDeref)"

text \<open>The second half of \<open>serial_link_irq_chain\<close>, with \<open>i\<close> in its bucket.\<close>

definition link_ring :: "int \<Rightarrow> nat \<Rightarrow> irq_state \<Rightarrow> irq_info \<Rightarrow> irq_info list \<Rightarrow> (int \<times> irq_state) res" where
  "link_ring requested up st i bucket =
     (let h = ii_irq i mod NR_IRQ_HASH in
      case ii_ports i of
        p # ps \<Rightarrow>
          rbind (arr_set (irq_lists st) h (chain_set (i\<lparr>ii_ports := p # up # ps\<rparr>) bucket)) (\<lambda>l.
          Inr (0, st\<lparr>irq_lists := l\<rparr>))
      | [] \<Rightarrow>
          let i = i\<lparr>ii_ports := [up]\<rparr>;
              bucket = chain_set i bucket
          in if requested < 0 then
               rbind (serial_do_unlink i up bucket) (\<lambda>bucket.
               rbind (arr_set (irq_lists st) h bucket) (\<lambda>l. Inr (requested, st\<lparr>irq_lists := l\<rparr>)))
             else
               rbind (arr_set (irq_lists st) h bucket) (\<lambda>l.
               Inr (requested, st\<lparr>irq_lists := l, irq_held := ii_irq i # irq_held st\<rparr>)))"

definition serial_link_irq_chain :: "bool \<Rightarrow> int \<Rightarrow> nat \<Rightarrow> nat \<Rightarrow> irq_state \<Rightarrow> (int \<times> irq_state) res" where
  "serial_link_irq_chain kzalloc_ok requested irq up st =
     rbind (arr_get (irq_lists st) (irq mod NR_IRQ_HASH)) (\<lambda>bucket.
     case chain_find irq bucket of
       Some i \<Rightarrow> link_ring requested up st i bucket
     | None \<Rightarrow>
         if \<not> kzalloc_ok then Inr (- 12, st)
         else let i = \<lparr>ii_irq = irq, ii_ports = []\<rparr> in link_ring requested up st i (i # bucket))"

definition serial_unlink_irq_chain :: "nat \<Rightarrow> nat \<Rightarrow> irq_state \<Rightarrow> irq_state res" where
  "serial_unlink_irq_chain irq up st =
     (let h = irq mod NR_IRQ_HASH in
      rbind (arr_get (irq_lists st) h) (\<lambda>bucket.
      case chain_find irq bucket of
        None \<Rightarrow> Inl AssertFail
      | Some i \<Rightarrow>
          if ii_ports i = [] then Inl AssertFail
          else
            let held = (if length (ii_ports i) = 1 then remove1 irq (irq_held st) else irq_held st)
            in rbind (serial_do_unlink i up bucket) (\<lambda>bucket.
               rbind (arr_set (irq_lists st) h bucket) (\<lambda>l.
               Inr (st\<lparr>irq_lists := l, irq_held := held\<rparr>)))))"

text \<open>The ring of an interrupt.\<close>

definition irq_ports :: "irq_state \<Rightarrow> nat \<Rightarrow> nat list" where
  "irq_ports st irq = (case chain_find irq (irq_lists st ! (irq mod NR_IRQ_HASH)) of None \<Rightarrow> [] | Some i \<Rightarrow> ii_ports i)"

definition irq_init :: irq_state where
  "irq_init = \<lparr>irq_lists = replicate NR_IRQ_HASH [], irq_held = []\<rparr>"

section \<open>The invariant\<close>

text \<open>
  A bucket holds each of its interrupts once, each with a ring of distinct ports; the interrupts held
  are those with a ring.
\<close>

definition bucket_ok :: "nat \<Rightarrow> irq_info list \<Rightarrow> bool" where
  "bucket_ok h b \<longleftrightarrow> distinct (map ii_irq b) \<and>
     (\<forall>i\<in>set b. ii_irq i mod NR_IRQ_HASH = h \<and> ii_ports i \<noteq> [] \<and> distinct (ii_ports i))"

definition chain_ok :: "irq_state \<Rightarrow> bool" where
  "chain_ok st \<longleftrightarrow> length (irq_lists st) = NR_IRQ_HASH \<and> (\<forall>h<NR_IRQ_HASH. bucket_ok h (irq_lists st ! h)) \<and>
     distinct (irq_held st) \<and> (\<forall>irq. irq \<in> set (irq_held st) \<longleftrightarrow> irq_ports st irq \<noteq> [])"

lemma chain_find_irq: "chain_find irq b = Some i \<Longrightarrow> i \<in> set b \<and> ii_irq i = irq"
  by (induction b) (auto split: if_splits)

lemma chain_find_None: "chain_find irq b = None \<longleftrightarrow> irq \<notin> ii_irq ` set b"
  by (induction b) auto

lemma chain_find_set:
  "chain_find (ii_irq j) b \<noteq> None \<Longrightarrow> chain_find irq (chain_set j b) = (if irq = ii_irq j then Some j else chain_find irq b)"
  by (induction b) auto

lemma map_irq_set: "map ii_irq (chain_set j b) = map ii_irq b"
  by (induction b) auto

lemma chain_set_mem: "i \<in> set (chain_set j b) \<Longrightarrow> i = j \<or> i \<in> set b"
  by (induction b) (auto split: if_splits)

lemma chain_del_mem: "i \<in> set (chain_del irq b) \<Longrightarrow> i \<in> set b"
  by (induction b) (auto split: if_splits)

lemma chain_find_del:
  "distinct (map ii_irq b) \<Longrightarrow> chain_find k (chain_del irq b) = (if k = irq then None else chain_find k b)"
  by (induction b) (auto simp: chain_find_None)

lemma bucket_ok_set:
  "bucket_ok h b \<Longrightarrow> ii_irq j mod NR_IRQ_HASH = h \<Longrightarrow> ii_ports j \<noteq> [] \<Longrightarrow> distinct (ii_ports j) \<Longrightarrow> bucket_ok h (chain_set j b)"
  by (auto simp: bucket_ok_def map_irq_set dest!: chain_set_mem)

lemma distinct_chain_del: "distinct (map ii_irq b) \<Longrightarrow> distinct (map ii_irq (chain_del irq b))"
  by (induction b) (auto dest: chain_del_mem)

lemma bucket_ok_del: "bucket_ok h b \<Longrightarrow> bucket_ok h (chain_del irq b)"
  by (auto simp: bucket_ok_def distinct_chain_del dest: chain_del_mem)

lemma irq_ports_set:
  "length (irq_lists st) = NR_IRQ_HASH \<Longrightarrow> h < NR_IRQ_HASH \<Longrightarrow> irq_ports (st\<lparr>irq_lists := (irq_lists st)[h := b]\<rparr>) irq =
     (if irq mod NR_IRQ_HASH = h then (case chain_find irq b of None \<Rightarrow> [] | Some i \<Rightarrow> ii_ports i) else irq_ports st irq)"
  by (simp add: irq_ports_def)

lemma irq_ports_held [simp]: "irq_ports (st\<lparr>irq_held := l\<rparr>) = irq_ports st"
  by (simp add: irq_ports_def fun_eq_iff)

text \<open>A new bucket keeps the invariant if the interrupts held follow its rings.\<close>

lemma chain_ok_set:
  assumes "chain_ok st" and "h < NR_IRQ_HASH" and "bucket_ok h b" and "distinct held"
    and "\<And>irq. irq \<in> set held \<longleftrightarrow> irq_ports (st\<lparr>irq_lists := (irq_lists st)[h := b]\<rparr>) irq \<noteq> []"
  shows "chain_ok (st\<lparr>irq_lists := (irq_lists st)[h := b], irq_held := held\<rparr>)"
  using assms by (auto simp: chain_ok_def nth_list_update)

lemma find_in_bucket:
  assumes "chain_ok st" and "irq_ports st irq \<noteq> []"
  obtains i where "chain_find irq (irq_lists st ! (irq mod NR_IRQ_HASH)) = Some i" "ii_irq i = irq" "ii_ports i = irq_ports st irq"
proof -
  obtain i where "chain_find irq (irq_lists st ! (irq mod NR_IRQ_HASH)) = Some i"
    using assms(2) by (auto simp: irq_ports_def split: option.splits)
  with that [of i] show thesis by (simp add: irq_ports_def chain_find_irq)
qed

lemma irq_ports_None:
  assumes "chain_ok st"
  shows "chain_find irq (irq_lists st ! (irq mod NR_IRQ_HASH)) = None \<longleftrightarrow> irq_ports st irq = []"
proof -
  have "bucket_ok (irq mod NR_IRQ_HASH) (irq_lists st ! (irq mod NR_IRQ_HASH))" using assms by (simp add: chain_ok_def)
  then show ?thesis by (auto simp: irq_ports_def bucket_ok_def split: option.split dest: chain_find_irq)
qed

lemma irq_ports_distinct:
  assumes "chain_ok st"
  shows "distinct (irq_ports st irq)"
proof -
  have "bucket_ok (irq mod NR_IRQ_HASH) (irq_lists st ! (irq mod NR_IRQ_HASH))" using assms by (simp add: chain_ok_def)
  then show ?thesis by (auto simp: irq_ports_def bucket_ok_def split: option.split dest: chain_find_irq)
qed

lemma bucket_ports:
  "irq mod NR_IRQ_HASH = h \<Longrightarrow> (case chain_find irq (irq_lists st ! h) of None \<Rightarrow> [] | Some i \<Rightarrow> ii_ports i) = irq_ports st irq"
  by (simp add: irq_ports_def)

text \<open>The operations on the rings: a port is put behind the head, and removed.\<close>

fun ring_add :: "nat \<Rightarrow> nat list \<Rightarrow> nat list" where
  "ring_add up [] = [up]"
| "ring_add up (p # ps) = p # up # ps"

lemma link_ok:
  assumes ok: "chain_ok st" and new: "up \<notin> set (irq_ports st irq)"
  shows "\<exists>r st'. serial_link_irq_chain kz rq irq up st = Inr (r, st') \<and> chain_ok st' \<and>
    r = (if irq_ports st irq \<noteq> [] then 0 else if kz then rq else - 12) \<and>
    irq_ports st' = (if r < 0 then irq_ports st else (irq_ports st)(irq := ring_add up (irq_ports st irq)))"
proof -
  let ?h = "irq mod NR_IRQ_HASH"
  have h: "?h < NR_IRQ_HASH" by simp
  have len: "length (irq_lists st) = NR_IRQ_HASH" and b: "bucket_ok ?h (irq_lists st ! ?h)"
    using ok by (simp_all add: chain_ok_def)
  show ?thesis
  proof (cases "irq_ports st irq")
    case Nil
    then have none: "chain_find irq (irq_lists st ! ?h) = None" using irq_ports_None [OF ok] by simp
    define b' where "b' = \<lparr>ii_irq = irq, ii_ports = [up]\<rparr> # irq_lists st ! ?h"
    let ?st = "st\<lparr>irq_lists := (irq_lists st)[?h := b']\<rparr>"
    have ports: "irq_ports ?st = (irq_ports st)(irq := [up])"
      by (rule ext) (simp add: irq_ports_set [OF len h] b'_def bucket_ports)
    have "bucket_ok ?h b'" using b none by (simp add: bucket_ok_def b'_def chain_find_None image_iff)
    moreover have "irq \<notin> set (irq_held st)" using ok Nil by (simp add: chain_ok_def)
    ultimately have "chain_ok (?st\<lparr>irq_held := irq # irq_held st\<rparr>)"
      using ok by (intro chain_ok_set) (auto simp: ports chain_ok_def)
    with none ports ok len Nil show ?thesis
      by (auto simp: serial_link_irq_chain_def link_ring_def Let_def serial_do_unlink_def b'_def)
  next
    case (Cons p ps)
    then obtain i where i: "chain_find irq (irq_lists st ! ?h) = Some i" "ii_irq i = irq" "ii_ports i = p # ps"
      using find_in_bucket [OF ok] by (metis list.distinct(1))
    define b' where "b' = chain_set (i\<lparr>ii_ports := p # up # ps\<rparr>) (irq_lists st ! ?h)"
    let ?st = "st\<lparr>irq_lists := (irq_lists st)[?h := b']\<rparr>"
    have find: "chain_find k b' = (if k = irq then Some (i\<lparr>ii_ports := p # up # ps\<rparr>) else chain_find k (irq_lists st ! ?h))" for k
      using chain_find_set [of "i\<lparr>ii_ports := p # up # ps\<rparr>" "irq_lists st ! ?h" k] i by (simp add: b'_def)
    have ports: "irq_ports ?st = (irq_ports st)(irq := p # up # ps)"
      by (rule ext) (simp add: irq_ports_set [OF len h] find bucket_ports)
    have "bucket_ok ?h b'"
      unfolding b'_def using irq_ports_distinct [OF ok, of irq] new Cons i by (intro bucket_ok_set [OF b]) auto
    then have "chain_ok (?st\<lparr>irq_held := irq_held st\<rparr>)"
      using ok Cons by (intro chain_ok_set) (auto simp: ports chain_ok_def)
    with i ports len Cons show ?thesis
      by (auto simp: serial_link_irq_chain_def link_ring_def Let_def b'_def)
  qed
qed

lemma unlink_ok:
  assumes ok: "chain_ok st" and up: "up \<in> set (irq_ports st irq)"
  shows "\<exists>st'. serial_unlink_irq_chain irq up st = Inr st' \<and> chain_ok st' \<and>
    irq_ports st' = (irq_ports st)(irq := remove1 up (irq_ports st irq))"
proof -
  let ?h = "irq mod NR_IRQ_HASH" and ?ps = "irq_ports st irq"
  have h: "?h < NR_IRQ_HASH" by simp
  have len: "length (irq_lists st) = NR_IRQ_HASH" and b: "bucket_ok ?h (irq_lists st ! ?h)" and held: "distinct (irq_held st)"
    using ok by (simp_all add: chain_ok_def)
  have "?ps \<noteq> []" using up by auto
  then obtain i where i: "chain_find irq (irq_lists st ! ?h) = Some i" "ii_irq i = irq" "ii_ports i = ?ps"
    using find_in_bucket [OF ok] by blast
  define b' where "b' = (if ?ps = [up] then chain_del irq (irq_lists st ! ?h)
      else chain_set (i\<lparr>ii_ports := remove1 up ?ps\<rparr>) (irq_lists st ! ?h))"
  define held' where "held' = (if ?ps = [up] then remove1 irq (irq_held st) else irq_held st)"
  let ?st = "st\<lparr>irq_lists := (irq_lists st)[?h := b']\<rparr>"
  have one: "length ?ps = 1 \<longleftrightarrow> ?ps = [up]" using up by (auto simp: length_Suc_conv)
  have more: "?ps \<noteq> [up] \<Longrightarrow> remove1 up ?ps \<noteq> []"
    using up one by (metis One_nat_def Suc_pred length_pos_if_in_set length_remove1 list.size(3))
  have find: "chain_find k b' = (if k = irq then (if ?ps = [up] then None else Some (i\<lparr>ii_ports := remove1 up ?ps\<rparr>))
      else chain_find k (irq_lists st ! ?h))" for k
    using chain_find_set [of "i\<lparr>ii_ports := remove1 up ?ps\<rparr>" "irq_lists st ! ?h" k] i b
    by (cases "k = irq") (simp_all add: b'_def bucket_ok_def chain_find_del)
  have ports: "irq_ports ?st = (irq_ports st)(irq := remove1 up ?ps)"
    by (rule ext) (simp add: irq_ports_set [OF len h] find bucket_ports)
  have "bucket_ok ?h b'"
    using bucket_ok_del [OF b] bucket_ok_set [OF b, of "i\<lparr>ii_ports := remove1 up ?ps\<rparr>"] more i irq_ports_distinct [OF ok]
    by (auto simp: b'_def)
  moreover have "irq' \<in> set held' \<longleftrightarrow> irq_ports ?st irq' \<noteq> []" for irq'
    using ok held more \<open>?ps \<noteq> []\<close> by (auto simp: ports held'_def chain_ok_def)
  ultimately have "chain_ok (?st\<lparr>irq_held := held'\<rparr>)"
    using held by (intro chain_ok_set [OF ok h]) (auto simp: held'_def)
  moreover have "serial_do_unlink i up (irq_lists st ! ?h) = Inr b'"
  proof (cases "?ps = [up]")
    case True
    with i show ?thesis by (simp add: serial_do_unlink_def b'_def)
  next
    case False
    then obtain p q ps where "?ps = p # q # ps" using one up by (metis list.exhaust list.set_cases remove1.simps more)
    with i up False show ?thesis by (simp add: serial_do_unlink_def b'_def)
  qed
  ultimately show ?thesis
    using i len ports \<open>?ps \<noteq> []\<close> one
    by (intro exI [of _ "?st\<lparr>irq_held := held'\<rparr>"]) (simp add: serial_unlink_irq_chain_def Let_def held'_def)
qed

section \<open>The property\<close>

text \<open>Ports come and go, each at most once on an interrupt; the kernel may refuse memory or the interrupt.\<close>

inductive irq_reach :: "irq_state \<Rightarrow> bool" where
  irq_start: "irq_reach irq_init"
| irq_link: "irq_reach st \<Longrightarrow> up \<notin> set (irq_ports st irq) \<Longrightarrow> serial_link_irq_chain kz rq irq up st = Inr (r, st') \<Longrightarrow>
    irq_reach st'"
| irq_unlink: "irq_reach st \<Longrightarrow> up \<in> set (irq_ports st irq) \<Longrightarrow> serial_unlink_irq_chain irq up st = Inr st' \<Longrightarrow> irq_reach st'"

lemma irq_reach_ok: "irq_reach st \<Longrightarrow> chain_ok st"
proof (induction rule: irq_reach.induct)
  case irq_start
  show ?case by (simp add: chain_ok_def irq_init_def irq_ports_def bucket_ok_def nth_replicate)
next
  case (irq_link st up irq kz rq r st')
  from link_ok [OF irq_link(4,2), of kz rq] irq_link(3) show ?case by auto
next
  case (irq_unlink st up irq st')
  from unlink_ok [OF irq_unlink(4,2)] irq_unlink(3) show ?case by auto
qed

text \<open>
  C16. The bookkeeping of shared interrupts: whatever ports have come and gone and whatever the kernel
  refused, an interrupt is held exactly while ports are linked on it; linking a port puts it on the
  ring of its interrupt behind the head, or, when it fails, changes no ring; and unlinking it then
  runs into no \<open>BUG_ON\<close> and takes it out of that ring alone.
\<close>

theorem irq_chain_sound:
  assumes "irq_reach st"
  shows "(irq \<in> set (irq_held st)) = (irq_ports st irq \<noteq> []) \<and>
    (if up \<in> set (irq_ports st irq) then
       \<exists>st'. serial_unlink_irq_chain irq up st = Inr st' \<and>
         irq_ports st' = (irq_ports st)(irq := remove1 up (irq_ports st irq))
     else
       \<exists>r st'. serial_link_irq_chain kz rq irq up st = Inr (r, st') \<and>
         r = (if irq_ports st irq \<noteq> [] then 0 else if kz then rq else - 12) \<and>
         irq_ports st' = (if r < 0 then irq_ports st else (irq_ports st)(irq := ring_add up (irq_ports st irq))))"
proof -
  have ok: "chain_ok st" by (rule irq_reach_ok [OF assms])
  then have held: "(irq \<in> set (irq_held st)) = (irq_ports st irq \<noteq> [])" by (simp add: chain_ok_def)
  show ?thesis
  proof (cases "up \<in> set (irq_ports st irq)")
    case True
    with held unlink_ok [OF ok True] show ?thesis by auto
  next
    case False
    from link_ok [OF ok False, of kz rq] obtain r st' where "serial_link_irq_chain kz rq irq up st = Inr (r, st')"
        "r = (if irq_ports st irq \<noteq> [] then 0 else if kz then rq else - 12)"
        "irq_ports st' = (if r < 0 then irq_ports st else (irq_ports st)(irq := ring_add up (irq_ports st irq)))"
      by blast
    with held False show ?thesis by simp
  qed
qed

theorem irq_chain_sound_witness:
  "\<exists>st st'. serial_link_irq_chain True 0 4 1 irq_init = Inr (0, st) \<and> irq_ports st 4 = [1] \<and>
    serial_unlink_irq_chain 4 1 st = Inr st' \<and> irq_ports st' 4 = []"
proof -
  have init: "irq_ports irq_init 4 = []" by (simp add: irq_ports_def irq_init_def nth_replicate)
  then obtain st where l: "serial_link_irq_chain True 0 4 1 irq_init = Inr (0, st)" "irq_ports st = (irq_ports irq_init)(4 := [1])"
    using irq_chain_sound [OF irq_start, of 4 1 True 0] by auto
  have "irq_reach st" using irq_link [OF irq_start _ l(1)] init by simp
  from irq_chain_sound [OF this, of 4 1] l show ?thesis by auto
qed

end
