(* ===== verification/Linux_8250_Line.thy ===== *)
theory Linux_8250_Line
  imports Linux_8250_Probe Linux_Irq
begin

unbundle bit_operations_syntax

text \<open>
  Opening, closing and setting up a line: of \<open>serial_core.c\<close> the choice of the baud rate and the
  divisor, modem control, \<open>uart_startup\<close>, \<open>uart_shutdown\<close>, \<open>uart_set_termios\<close> and throttling; of
  \<open>8250.c\<close> \<open>serial8250_startup\<close>, \<open>serial8250_shutdown\<close>, \<open>serial8250_do_set_termios\<close> and the two
  timer functions. The platform options (RSA, OMAP) are off, and
  the way the port's registers are accessed is fixed.
\<close>

section \<open>The kernel\<close>

text \<open>
  \<open>HZ\<close>, the module parameter \<open>skip_txen_test\<close>, what the kernel answers, and the rate that is read
  back from a termios after \<open>tty_termios_encode_baud_rate\<close>, which may be a standard one near by.
\<close>

record kernel =
  k_hz :: u32
  k_skip_txen_test :: bool
  k_kzalloc_ok :: bool
  k_request_irq :: int
  k_page_ok :: bool
  k_admin :: bool
  k_encode :: "u32 \<Rightarrow> u32 option"

definition tty_termios_baud_rate :: "ktermios \<Rightarrow> u32" where
  "tty_termios_baud_rate t = (case cf_baud (c_cflag t) of None \<Rightarrow> 0 | Some r \<Rightarrow> r)"

definition set_baud :: "u32 option \<Rightarrow> ktermios \<Rightarrow> ktermios" where
  "set_baud r t = t\<lparr>c_cflag := (c_cflag t)\<lparr>cf_baud := r\<rparr>\<rparr>"

section \<open>The rate and the divisor\<close>

definition alt_baud :: "port8250 \<Rightarrow> u32" where
  "alt_baud up =
     (case upf_spd up of SPD_HI \<Rightarrow> 57600 | SPD_VHI \<Rightarrow> 115200 | SPD_SHI \<Rightarrow> 230400 | SPD_WARP \<Rightarrow> 460800 | _ \<Rightarrow> 38400)"

text \<open>The loop of \<open>uart_get_baud_rate\<close>, with the attempts left and \<open>hung_up\<close>.\<close>

fun baud_loop :: "kernel \<Rightarrow> u32 \<Rightarrow> u32 \<Rightarrow> u32 \<Rightarrow> nat \<Rightarrow> bool \<Rightarrow> ktermios \<Rightarrow> ktermios option \<Rightarrow> u32 \<times> ktermios" where
  "baud_loop ke alt lo hi 0 hung_up t old = (0, t)"
| "baud_loop ke alt lo hi (Suc n) hung_up t old =
     (let baud = tty_termios_baud_rate t;
          baud = (if baud = 38400 then alt else baud);
          (hung_up, baud) = (if baud = 0 then (True, 9600) else (hung_up, baud))
      in if lo \<le> baud \<and> baud \<le> hi then (baud, t)
         else
           let t = set_baud None t in
           case old of
             Some o' \<Rightarrow>
               baud_loop ke alt lo hi n hung_up
                 (if \<not> hung_up then set_baud (k_encode ke (tty_termios_baud_rate o')) t else t) None
           | None \<Rightarrow>
               baud_loop ke alt lo hi n hung_up
                 (if \<not> hung_up then set_baud (k_encode ke (if baud \<le> lo then lo + 1 else hi - 1)) t else t) None)"

definition uart_get_baud_rate ::
    "kernel \<Rightarrow> port8250 \<Rightarrow> ktermios \<Rightarrow> ktermios option \<Rightarrow> u32 \<Rightarrow> u32 \<Rightarrow> u32 \<times> ktermios" where
  "uart_get_baud_rate ke up t old lo hi = baud_loop ke (alt_baud up) lo hi 2 False t old"

text \<open>\<open>DIV_ROUND_CLOSEST\<close> on unsigned operands.\<close>

definition div_round_closest :: "u32 \<Rightarrow> u32 \<Rightarrow> u32 res" where
  "div_round_closest x y = (if y = 0 then Inl DivByZero else Inr ((x + y div 2) div y))"

definition uart_get_divisor :: "port8250 \<Rightarrow> u32 \<Rightarrow> u32 res" where
  "uart_get_divisor up baud =
     (if baud = 38400 \<and> upf_spd up = SPD_CUST then Inr (custom_divisor up)
      else div_round_closest (uartclk up) (16 * baud))"

definition serial8250_get_divisor :: "port8250 \<Rightarrow> u32 \<Rightarrow> u32 res" where
  "serial8250_get_divisor up baud =
     (if upf_magic up \<and> baud = uartclk up div 4 then Inr 0x8001
      else if upf_magic up \<and> baud = uartclk up div 8 then Inr 0x8002
      else uart_get_divisor up baud)"

definition uart_update_timeout :: "kernel \<Rightarrow> port8250 \<Rightarrow> cflags \<Rightarrow> u32 \<Rightarrow> port8250 res" where
  "uart_update_timeout ke up cflag baud =
     (let bits = (case cf_size cflag of CS5 \<Rightarrow> 7 | CS6 \<Rightarrow> 8 | CS7 \<Rightarrow> 9 | CS8 \<Rightarrow> 10);
          bits = (if cf_stopb cflag then bits + 1 else bits);
          bits = (if cf_parenb cflag then bits + 1 else bits);
          bits = bits * fifosize up
      in if baud = 0 then Inl DivByZero
         else Inr (up\<lparr>timeout := (k_hz ke * bits) div baud + k_hz ke div 50\<rparr>))"

section \<open>Setting the line\<close>

definition termios_lcr :: "cflags \<Rightarrow> u8" where
  "termios_lcr c =
     (let cval = (case cf_size c of CS5 \<Rightarrow> 0x00 | CS6 \<Rightarrow> 0x01 | CS7 \<Rightarrow> 0x02 | CS8 \<Rightarrow> 0x03);
          cval = (if cf_stopb c then cval OR 0x04 else cval);
          cval = (if cf_parenb c then cval OR 0x08 else cval);
          cval = (if \<not> cf_parodd c then cval OR 0x10 else cval)
      in if cf_cmspar c then cval OR 0x20 else cval)"

definition termios_fcr :: "port8250 \<Rightarrow> u32 \<Rightarrow> u8" where
  "termios_fcr up baud =
     (if capabilities up AND UART_CAP_FIFO \<noteq> 0 \<and> 1 < fifosize up then
        (let fcr = cfg_fcr (uart_config (ptype up))
         in if baud < 2400 then (fcr AND NOT 0xC0) OR 0x00 else fcr)
      else 0)"

definition termios_masks :: "ktermios \<Rightarrow> port8250 \<Rightarrow> port8250" where
  "termios_masks t up =
     (let i = c_iflag t;
          rd = 0x02 OR 0x20 OR 0x01;
          rd = (if if_inpck i then rd OR (0x08 OR 0x04) else rd);
          rd = (if if_brkint i \<or> if_parmrk i then rd OR 0x10 else rd);
          ign = 0;
          ign = (if if_ignpar i then ign OR (0x04 OR 0x08) else ign);
          ign = (if if_ignbrk i then (let ign = ign OR 0x10 in if if_ignpar i then ign OR 0x02 else ign) else ign);
          ign = (if \<not> cf_cread (c_cflag t) then ign OR 0x01 else ign)
      in up\<lparr>read_status_mask := rd, ignore_status_mask := ign\<rparr>)"

text \<open>\<open>UART_ENABLE_MS\<close> is the kernel's.\<close>

definition uart_enable_ms :: "port8250 \<Rightarrow> cflags \<Rightarrow> bool" where
  "uart_enable_ms up c \<longleftrightarrow> upf_hardpps up \<or> cf_crtscts c \<or> \<not> cf_clocal c"

definition termios_ier :: "cflags \<Rightarrow> port8250 \<Rightarrow> port8250" where
  "termios_ier c up =
     (let ie = ier8 up AND NOT 0x08;
          ie = (if bugs up AND UART_BUG_NOMSR = 0 \<and> uart_enable_ms up c then ie OR 0x08 else ie);
          ie = (if capabilities up AND UART_CAP_UUE \<noteq> 0 then ie OR 0x40 else ie);
          ie = (if capabilities up AND UART_CAP_RTOIE \<noteq> 0 then ie OR 0x10 else ie)
      in up\<lparr>ier8 := ie\<rparr>)"

text \<open>From the divisor latch to the modem control register.\<close>

definition termios_program :: "'d bus \<Rightarrow> port8250 \<Rightarrow> 'd \<Rightarrow> u8 \<Rightarrow> u8 \<Rightarrow> u32 \<Rightarrow> 'd pd res" where
  "termios_program b up d cval fcr quot =
     rbind (bus_write b d R_LCR (if capabilities up AND UART_NATSEMI \<noteq> 0 then 0xe0 else cval OR 0x80)) (\<lambda>d.
     rbind (serial_dl_write b d quot) (\<lambda>d.
     rbind (if ptype up = PORT_16750 then bus_write b d R_FCR fcr else Inr d) (\<lambda>d.
     rbind (bus_write b d R_LCR cval) (\<lambda>d.
     let up = up\<lparr>lcr8 := cval\<rparr>
     in rbind (if ptype up \<noteq> PORT_16750 then
                 rbind (if fcr AND 0x01 \<noteq> 0 then bus_write b d R_FCR 0x01 else Inr d) (\<lambda>d.
                 bus_write b d R_FCR fcr)
               else Inr d) (\<lambda>d.
        rbind (serial8250_set_mctrl b up d (port_mctrl up)) (\<lambda>d. Inr (up, d)))))))"

definition serial8250_do_set_termios ::
    "kernel \<Rightarrow> 'd bus \<Rightarrow> port8250 \<Rightarrow> 'd \<Rightarrow> ktermios \<Rightarrow> ktermios option \<Rightarrow> (port8250 \<times> ktermios \<times> 'd) res" where
  "serial8250_do_set_termios ke b up d t old =
     (let c0 = c_cflag t;
          cval = termios_lcr c0;
          (baud, t) = uart_get_baud_rate ke up t old (uartclk up div 16 div 0xffff) (uartclk up div 16)
      in rbind (serial8250_get_divisor up baud) (\<lambda>quot.
         let quot = (if bugs up AND UART_BUG_QUOT \<noteq> 0 \<and> quot AND 0xff = 0 then quot + 1 else quot);
             fcr = termios_fcr up baud;
             up = (if capabilities up AND UART_CAP_AFE \<noteq> 0 \<and> 32 \<le> fifosize up then
                     (let m = mcr8 up AND NOT 0x20
                      in up\<lparr>mcr8 := (if cf_crtscts (c_cflag t) then m OR 0x20 else m)\<rparr>)
                   else up)
         in rbind (uart_update_timeout ke up (c_cflag t) baud) (\<lambda>up.
            let up = termios_ier (c_cflag t) (termios_masks t up)
            in rbind (bus_write b d R_IER (ier8 up)) (\<lambda>d.
               rbind (if capabilities up AND UART_CAP_EFR \<noteq> 0 then
                        rbind (bus_write b d R_LCR LCR_CONF_MODE_B) (\<lambda>d.
                        bus_write b d (if upf_exar_efr up then 9 else R_EFR) (if cf_crtscts (c_cflag t) then 0x80 else 0))
                      else Inr d) (\<lambda>d.
               rbind (termios_program b up d cval fcr quot) (\<lambda>(up, d).
               Inr (up, if tty_termios_baud_rate t \<noteq> 0 then set_baud (k_encode ke baud) t else t, d)))))))"

text \<open>\<open>pps\<close> says whether the new line discipline is \<open>N_PPS\<close>.\<close>

definition serial8250_set_ldisc :: "'d bus \<Rightarrow> port8250 \<Rightarrow> 'd \<Rightarrow> bool \<Rightarrow> 'd pd res" where
  "serial8250_set_ldisc b up d pps =
     (if pps then serial8250_enable_ms b (up\<lparr>upf_hardpps := True\<rparr>) d else Inr (up\<lparr>upf_hardpps := False\<rparr>, d))"

section \<open>Starting a port up\<close>

text \<open>The poll interval of \<open>uart_poll_timeout\<close>, the kernel's; its operand is a signed integer.\<close>

definition uart_poll_timeout :: "port8250 \<Rightarrow> u32" where
  "uart_poll_timeout up = (if 6 < sint (timeout up) then timeout up div 2 - 2 else 1)"

definition clear_irq_regs :: "'d bus \<Rightarrow> 'd \<Rightarrow> 'd res" where
  "clear_irq_regs b d =
     rbind (bus_read b d R_LSR) (\<lambda>(_, d).
     rbind (bus_read b d R_RXTX) (\<lambda>(_, d).
     rbind (bus_read b d R_IIR) (\<lambda>(_, d).
     rbind (bus_read b d R_MSR) (\<lambda>(_, d). Inr d))))"

text \<open>The indexed register \<open>UART_CSR\<close>, number 12, resets the chip.\<close>

definition startup_950 :: "'d bus \<Rightarrow> port8250 \<Rightarrow> 'd \<Rightarrow> 'd pd res" where
  "startup_950 b up d =
     (if ptype up = PORT_16C950 then
        rbind (bus_write b d R_LCR LCR_CONF_MODE_B) (\<lambda>d.
        rbind (bus_write b d R_EFR 0x10) (\<lambda>d.
        rbind (bus_write b d R_IER 0) (\<lambda>d.
        rbind (bus_write b d R_LCR 0) (\<lambda>d.
        rbind (serial_icr_write b d 0x0C 0) (\<lambda>d.
        rbind (bus_write b d R_LCR LCR_CONF_MODE_B) (\<lambda>d.
        rbind (bus_write b d R_EFR 0x10) (\<lambda>d.
        rbind (bus_write b d R_LCR 0) (\<lambda>d. Inr (up\<lparr>acr8 := 0\<rparr>, d)))))))))
      else Inr (up, d))"

text \<open>The trigger levels of a 16850; its \<open>FCTR\<close> and \<open>TRG\<close> are registers 1 and 0.\<close>

definition startup_850 :: "'d bus \<Rightarrow> port8250 \<Rightarrow> 'd \<Rightarrow> 'd res" where
  "startup_850 b up d =
     (if ptype up = PORT_16850 then
        rbind (bus_write b d R_LCR LCR_CONF_MODE_B) (\<lambda>d.
        rbind (bus_read b d 1) (\<lambda>(fctr, d).
        let fctr = fctr AND NOT (0x00 OR 0x80)
        in rbind (bus_write b d 1 (fctr OR 0x30 OR 0x00)) (\<lambda>d.
           rbind (bus_write b d 0 0x60) (\<lambda>d.
           rbind (bus_write b d 1 (fctr OR 0x30 OR 0x80)) (\<lambda>d.
           rbind (bus_write b d 0 0x60) (\<lambda>d.
           bus_write b d R_LCR 0))))))
      else Inr d)"

text \<open>Whether the transmitter's interrupt is asserted again when it is enabled again.\<close>

definition test_thre :: "'d bus \<Rightarrow> port8250 \<Rightarrow> 'd \<Rightarrow> 'd pd res" where
  "test_thre b up d =
     (if port_irq_no up \<noteq> 0 then
        rbind (wait_for_xmitr b 0x20 up d) (\<lambda>(up, d).
        rbind (bus_write b d R_IER 0x02) (\<lambda>d.
        rbind (bus_read b d R_IIR) (\<lambda>(iir1, d).
        rbind (bus_write b d R_IER 0) (\<lambda>d.
        rbind (bus_write b d R_IER 0x02) (\<lambda>d.
        rbind (bus_read b d R_IIR) (\<lambda>(iir, d).
        rbind (bus_write b d R_IER 0) (\<lambda>d.
        Inr (if iir1 AND 0x01 = 0 \<and> iir AND 0x01 \<noteq> 0 \<or> upf_bug_thre up
             then up\<lparr>bugs := bugs up OR UART_BUG_THRE\<rparr> else up, d))))))))
      else Inr (up, d))"

definition test_txen :: "kernel \<Rightarrow> 'd bus \<Rightarrow> port8250 \<Rightarrow> 'd \<Rightarrow> 'd pd res" where
  "test_txen ke b up d =
     (if k_skip_txen_test ke \<or> upf_no_txen_test up then Inr (up, d)
      else
        rbind (bus_write b d R_IER 0x02) (\<lambda>d.
        rbind (bus_read b d R_LSR) (\<lambda>(lsr, d).
        rbind (bus_read b d R_IIR) (\<lambda>(iir, d).
        rbind (bus_write b d R_IER 0) (\<lambda>d.
        Inr (up\<lparr>bugs := (if lsr AND 0x40 \<noteq> 0 \<and> iir AND 0x01 \<noteq> 0 then bugs up OR UART_BUG_TXEN
                        else bugs up AND NOT UART_BUG_TXEN)\<rparr>, d))))))"

definition startup_timers :: "kernel \<Rightarrow> port8250 \<Rightarrow> port8250" where
  "startup_timers ke up =
     (let up = (if bugs up AND UART_BUG_THRE \<noteq> 0
                then up\<lparr>timer_backup := True, port_timer := Some (uart_poll_timeout up + k_hz ke div 5)\<rparr> else up)
      in if port_irq_no up = 0 then up\<lparr>port_timer := Some (uart_poll_timeout up)\<rparr> else up)"

text \<open>What follows once the interrupt is there. \<open>io\<close> and \<open>icp\<close> are as for \<open>autoconfig_irq\<close>.\<close>

definition startup_init :: "kernel \<Rightarrow> 'd bus \<Rightarrow> 'd bus \<Rightarrow> nat \<Rightarrow> port8250 \<Rightarrow> 'd \<Rightarrow> 'd pd res" where
  "startup_init ke b io icp up d =
     rbind (bus_write b d R_LCR 0x03) (\<lambda>d.
     let m = port_mctrl up;
         up = up\<lparr>port_mctrl :=
                (if upf_fourport up then (if port_irq_no up = 0 then m\<lparr>m_out1 := True\<rparr> else m)
                 else if port_irq_no up \<noteq> 0 then m\<lparr>m_out2 := True\<rparr> else m)\<rparr>
     in rbind (serial8250_set_mctrl b up d (port_mctrl up)) (\<lambda>d.
        rbind (test_txen ke b up d) (\<lambda>(up, d).
        rbind (clear_irq_regs b d) (\<lambda>d.
        let up = up\<lparr>lsr_saved_flags := 0, msr_saved_flags := 0, ier8 := 0x04 OR 0x01\<rparr>
        in rbind (bus_write b d R_IER (ier8 up)) (\<lambda>d.
           if upf_fourport up then
             rbind (bus_write io d icp 0x80) (\<lambda>d.
             rbind (bus_read io d icp) (\<lambda>(_, d). Inr (up, d)))
           else Inr (up, d))))))"

text \<open>
  \<open>serial8250_startup\<close> of port number \<open>pno\<close>; the result is the return value, the port, the interrupt
  lists and the device.
\<close>

definition serial8250_startup :: "kernel \<Rightarrow> 'd bus \<Rightarrow> 'd bus \<Rightarrow> nat \<Rightarrow> nat \<Rightarrow> port8250 \<Rightarrow> irq_state \<Rightarrow> 'd \<Rightarrow>
    (int \<times> port8250 \<times> irq_state \<times> 'd) res" where
  "serial8250_startup ke b io icp pno up ic d =
     (let cfg = uart_config (ptype up);
          up = up\<lparr>fifosize := ucast (fifo_size cfg), tx_loadsz := cfg_tx_loadsz cfg, capabilities := cfg_flags cfg, mcr8 := 0\<rparr>
      in rbind (startup_950 b up d) (\<lambda>(up, d).
         rbind (serial8250_clear_fifos b up d) (\<lambda>d.
         rbind (clear_irq_regs b d) (\<lambda>d.
         rbind (if \<not> upf_buggy up then rbind (bus_read b d R_LSR) (\<lambda>(lsr, d). Inr (lsr = 0xff, d)) else Inr (False, d))
           (\<lambda>(absent, d).
         if absent then Inr (- 19, up, ic, d)
         else
           rbind (startup_850 b up d) (\<lambda>d.
           rbind (test_thre b up d) (\<lambda>(up, d).
           let up = startup_timers ke up
           in rbind (if port_irq_no up = 0 then Inr (0, ic)
                     else serial_link_irq_chain (k_kzalloc_ok ke) (k_request_irq ke) (port_irq_no up) pno ic)
                (\<lambda>(retval, ic).
              if retval \<noteq> 0 then Inr (retval, up, ic, d)
              else rbind (startup_init ke b io icp up d) (\<lambda>(up, d). Inr (0, up, ic, d))))))))))"

definition serial8250_shutdown :: "'d bus \<Rightarrow> 'd bus \<Rightarrow> nat \<Rightarrow> nat \<Rightarrow> port8250 \<Rightarrow> irq_state \<Rightarrow> 'd \<Rightarrow>
    (port8250 \<times> irq_state \<times> 'd) res" where
  "serial8250_shutdown b io icp pno up ic d =
     rbind (bus_write b d R_IER 0) (\<lambda>d.
     rbind (if upf_fourport up then rbind (bus_read io d icp) (\<lambda>(_, d). Inr d) else Inr d) (\<lambda>d.
     let m = port_mctrl up;
         up = up\<lparr>ier8 := 0, port_mctrl := (if upf_fourport up then m\<lparr>m_out1 := True\<rparr> else m\<lparr>m_out2 := False\<rparr>)\<rparr>
     in rbind (serial8250_set_mctrl b up d (port_mctrl up)) (\<lambda>d.
        rbind (bus_read b d R_LCR) (\<lambda>(lcr, d).
        rbind (bus_write b d R_LCR (lcr AND NOT 0x40)) (\<lambda>d.
        rbind (serial8250_clear_fifos b up d) (\<lambda>d.
        rbind (bus_read b d R_RXTX) (\<lambda>(_, d).
        let up = up\<lparr>port_timer := None, timer_backup := False\<rparr>
        in rbind (if port_irq_no up \<noteq> 0 then serial_unlink_irq_chain (port_irq_no up) pno ic else Inr ic) (\<lambda>ic.
           Inr (up, ic, d)))))))))"

section \<open>The timers\<close>

definition serial8250_timeout :: "khooks \<Rightarrow> 'd bus \<Rightarrow> port8250 \<Rightarrow> 'd \<Rightarrow> 'd pd res" where
  "serial8250_timeout k b up d =
     rbind (serial8250_default_handle_irq k b up d) (\<lambda>(_, up, d).
     Inr (up\<lparr>port_timer := Some (uart_poll_timeout up)\<rparr>, d))"

definition serial8250_backup_timeout :: "kernel \<Rightarrow> 'd bus \<Rightarrow> port8250 \<Rightarrow> 'd \<Rightarrow> 'd pd res" where
  "serial8250_backup_timeout ke b up d =
     rbind (if port_irq_no up \<noteq> 0 then
              rbind (bus_read b d R_IER) (\<lambda>(ier, d).
              rbind (bus_write b d R_IER 0) (\<lambda>d. Inr (ier, d)))
            else Inr (0, d)) (\<lambda>(ier, d).
     rbind (bus_read b d R_IIR) (\<lambda>(iir, d).
     rbind (bus_read b d R_LSR) (\<lambda>(lsr, d).
     let up = up\<lparr>lsr_saved_flags := lsr_saved_flags up OR (lsr AND 0x1E)\<rparr>;
         iir = (if iir AND 0x01 \<noteq> 0 \<and> ier8 up AND 0x02 \<noteq> 0 \<and> (circ_cnt (xmit up) \<noteq> 0 \<or> x_char up \<noteq> 0) \<and>
                  lsr AND 0x20 \<noteq> 0
                then (iir AND NOT (0x06 OR 0x01)) OR 0x02 else iir)
     in rbind (if iir AND 0x01 = 0 then serial8250_tx_chars b up d else Inr (up, d)) (\<lambda>(up, d).
        rbind (if port_irq_no up \<noteq> 0 then bus_write b d R_IER ier else Inr d) (\<lambda>d.
        Inr (up\<lparr>port_timer := Some (uart_poll_timeout up + k_hz ke div 5)\<rparr>, d))))))"

section \<open>The serial core\<close>

text \<open>Sets of modem lines are as the lines themselves.\<close>

definition mctrl_update :: "mctrl \<Rightarrow> mctrl \<Rightarrow> mctrl \<Rightarrow> mctrl" where
  "mctrl_update m on off =
     \<lparr>m_car = m_car m \<and> \<not> m_car off \<or> m_car on, m_rng = m_rng m \<and> \<not> m_rng off \<or> m_rng on,
      m_dsr = m_dsr m \<and> \<not> m_dsr off \<or> m_dsr on, m_cts = m_cts m \<and> \<not> m_cts off \<or> m_cts on,
      m_rts = m_rts m \<and> \<not> m_rts off \<or> m_rts on, m_dtr = m_dtr m \<and> \<not> m_dtr off \<or> m_dtr on,
      m_out1 = m_out1 m \<and> \<not> m_out1 off \<or> m_out1 on, m_out2 = m_out2 m \<and> \<not> m_out2 off \<or> m_out2 on,
      m_loop = m_loop m \<and> \<not> m_loop off \<or> m_loop on\<rparr>"

definition uart_update_mctrl :: "'d bus \<Rightarrow> port8250 \<Rightarrow> 'd \<Rightarrow> mctrl \<Rightarrow> mctrl \<Rightarrow> 'd pd res" where
  "uart_update_mctrl b up d on off =
     (let old = port_mctrl up;
          up = up\<lparr>port_mctrl := mctrl_update old on off\<rparr>
      in rbind (if old \<noteq> port_mctrl up then serial8250_set_mctrl b up d (port_mctrl up) else Inr d) (\<lambda>d. Inr (up, d)))"

abbreviation (input) RTS_DTR :: mctrl where "RTS_DTR \<equiv> mctrl_zero\<lparr>m_rts := True, m_dtr := True\<rparr>"
abbreviation (input) RTS_ONLY :: mctrl where "RTS_ONLY \<equiv> mctrl_zero\<lparr>m_rts := True\<rparr>"

definition uart_set_mctrl :: "'d bus \<Rightarrow> port8250 \<Rightarrow> 'd \<Rightarrow> mctrl \<Rightarrow> 'd pd res" where
  "uart_set_mctrl b up d on = uart_update_mctrl b up d on mctrl_zero"

definition uart_clear_mctrl :: "'d bus \<Rightarrow> port8250 \<Rightarrow> 'd \<Rightarrow> mctrl \<Rightarrow> 'd pd res" where
  "uart_clear_mctrl b up d off = uart_update_mctrl b up d mctrl_zero off"

definition uart_dtr_rts :: "'d bus \<Rightarrow> port8250 \<Rightarrow> 'd \<Rightarrow> bool \<Rightarrow> 'd pd res" where
  "uart_dtr_rts b up d onoff = (if onoff then uart_set_mctrl b up d RTS_DTR else uart_clear_mctrl b up d RTS_DTR)"

definition uart_carrier_raised :: "'d bus \<Rightarrow> port8250 \<Rightarrow> 'd \<Rightarrow> (bool \<times> port8250 \<times> 'd) res" where
  "uart_carrier_raised b up d =
     rbind (serial8250_enable_ms b up d) (\<lambda>(up, d).
     rbind (serial8250_get_mctrl b up d) (\<lambda>(m, up, d). Inr (m_car m, up, d)))"

definition uart_change_speed ::
    "kernel \<Rightarrow> 'd bus \<Rightarrow> port8250 \<Rightarrow> 'd \<Rightarrow> ktermios \<Rightarrow> ktermios option \<Rightarrow> (port8250 \<times> ktermios \<times> 'd) res" where
  "uart_change_speed ke b up d t old =
     (if ptype up = PORT_UNKNOWN then Inr (up, t, d)
      else
        serial8250_do_set_termios ke b
          (up\<lparr>cts_flow := cf_crtscts (c_cflag t), check_cd := \<not> cf_clocal (c_cflag t)\<rparr>) d t old)"

text \<open>What \<open>uart_port_startup\<close> does after \<open>startup\<close> has succeeded.\<close>

definition uart_line_init ::
    "kernel \<Rightarrow> 'd bus \<Rightarrow> port8250 \<Rightarrow> 'd \<Rightarrow> ktermios \<Rightarrow> bool \<Rightarrow> (port8250 \<times> ktermios \<times> 'd) res" where
  "uart_line_init ke b up d t init_hw =
     (let t = (case cons_cflag up of None \<Rightarrow> t | Some c \<Rightarrow> t\<lparr>c_cflag := c\<rparr>);
          up = up\<lparr>cons_cflag := None\<rparr>
      in rbind (uart_change_speed ke b up d t None) (\<lambda>(up, t, d).
         rbind (if init_hw \<and> cf_baud (c_cflag t) \<noteq> None then uart_set_mctrl b up d RTS_DTR else Inr (up, d)) (\<lambda>(up, d).
         rbind (if cts_flow up then
                  rbind (serial8250_get_mctrl b up d) (\<lambda>(m, up, d).
                  Inr (if \<not> m_cts m then up\<lparr>tty_hw_stopped := True\<rparr> else up, d))
                else Inr (up, d)) (\<lambda>(up, d).
         Inr (up, t, d)))))"

definition uart_port_startup :: "kernel \<Rightarrow> 'd bus \<Rightarrow> 'd bus \<Rightarrow> nat \<Rightarrow> nat \<Rightarrow> port8250 \<Rightarrow> irq_state \<Rightarrow> 'd \<Rightarrow>
    ktermios \<Rightarrow> bool \<Rightarrow> (int \<times> port8250 \<times> irq_state \<times> ktermios \<times> 'd) res" where
  "uart_port_startup ke b io icp pno up ic d t init_hw =
     (if ptype up = PORT_UNKNOWN then Inr (1, up, ic, t, d)
      else if cb_buf (xmit up) = None \<and> \<not> k_page_ok ke then Inr (- 12, up, ic, t, d)
      else
        let up = (if cb_buf (xmit up) = None
                  then up\<lparr>xmit := \<lparr>cb_buf = Some (replicate UART_XMIT_SIZE 0), cb_head = 0, cb_tail = 0\<rparr>\<rparr> else up)
        in rbind (serial8250_startup ke b io icp pno up ic d) (\<lambda>(retval, up, ic, d).
           rbind (if retval = 0 then uart_line_init ke b up d t init_hw else Inr (up, t, d)) (\<lambda>(up, t, d).
           Inr (if retval \<noteq> 0 \<and> k_admin ke then 1 else retval, up, ic, t, d))))"

definition uart_startup :: "kernel \<Rightarrow> 'd bus \<Rightarrow> 'd bus \<Rightarrow> nat \<Rightarrow> nat \<Rightarrow> port8250 \<Rightarrow> irq_state \<Rightarrow> 'd \<Rightarrow>
    ktermios \<Rightarrow> bool \<Rightarrow> (int \<times> port8250 \<times> irq_state \<times> ktermios \<times> 'd) res" where
  "uart_startup ke b io icp pno up ic d t init_hw =
     (if initialized up then Inr (0, up, ic, t, d)
      else
        rbind (uart_port_startup ke b io icp pno (up\<lparr>tty_io_error := True\<rparr>) ic d t init_hw) (\<lambda>(retval, up, ic, t, d).
        if retval = 0 then Inr (0, up\<lparr>initialized := True, tty_io_error := False\<rparr>, ic, t, d)
        else Inr (if 0 < retval then 0 else retval, up, ic, t, d)))"

text \<open>\<open>uart_shutdown\<close> of a tty that is there; \<open>uart_port_shutdown\<close> calls \<open>serial8250_shutdown\<close>.\<close>

definition uart_shutdown :: "'d bus \<Rightarrow> 'd bus \<Rightarrow> nat \<Rightarrow> nat \<Rightarrow> port8250 \<Rightarrow> irq_state \<Rightarrow> 'd \<Rightarrow> ktermios \<Rightarrow>
    (port8250 \<times> irq_state \<times> 'd) res" where
  "uart_shutdown b io icp pno up ic d t =
     (let up = up\<lparr>tty_io_error := True\<rparr>
      in rbind (if initialized up then
                  (let up = up\<lparr>initialized := False\<rparr>
                   in rbind (if cf_hupcl (c_cflag t) then uart_clear_mctrl b up d RTS_DTR else Inr (up, d)) (\<lambda>(up, d).
                      serial8250_shutdown b io icp pno up ic d))
                else Inr (up, ic, d)) (\<lambda>(up, ic, d).
         Inr (up\<lparr>suspended := False, xmit := (xmit up)\<lparr>cb_buf := None\<rparr>\<rparr>, ic, d)))"

definition uart_send_xchar :: "'d bus \<Rightarrow> port8250 \<Rightarrow> 'd \<Rightarrow> u8 \<Rightarrow> 'd pd res" where
  "uart_send_xchar b up d ch =
     (let up = up\<lparr>x_char := ch\<rparr> in if ch \<noteq> 0 then serial8250_start_tx b up d else Inr (up, d))"

definition uart_throttle :: "'d bus \<Rightarrow> port8250 \<Rightarrow> 'd \<Rightarrow> ktermios \<Rightarrow> 'd pd res" where
  "uart_throttle b up d t =
     rbind (if if_ixoff (c_iflag t) then uart_send_xchar b up d (c_stop t) else Inr (up, d)) (\<lambda>(up, d).
     if cf_crtscts (c_cflag t) then uart_clear_mctrl b up d RTS_ONLY else Inr (up, d))"

definition uart_unthrottle :: "'d bus \<Rightarrow> port8250 \<Rightarrow> 'd \<Rightarrow> ktermios \<Rightarrow> 'd pd res" where
  "uart_unthrottle b up d t =
     rbind (if if_ixoff (c_iflag t) then
              (if x_char up \<noteq> 0 then Inr (up\<lparr>x_char := 0\<rparr>, d) else uart_send_xchar b up d (c_start t))
            else Inr (up, d)) (\<lambda>(up, d).
     if cf_crtscts (c_cflag t) then uart_set_mctrl b up d RTS_ONLY else Inr (up, d))"

text \<open>The two modem ioctls; \<open>None\<close> is \<open>-EIO\<close>.\<close>

definition uart_tiocmget :: "'d bus \<Rightarrow> port8250 \<Rightarrow> 'd \<Rightarrow> (mctrl option \<times> port8250 \<times> 'd) res" where
  "uart_tiocmget b up d =
     (if tty_io_error up then Inr (None, up, d)
      else
        let r = port_mctrl up
        in rbind (serial8250_get_mctrl b up d) (\<lambda>(m, up, d). Inr (Some (mctrl_update r m mctrl_zero), up, d)))"

definition uart_tiocmset :: "'d bus \<Rightarrow> port8250 \<Rightarrow> 'd \<Rightarrow> mctrl \<Rightarrow> mctrl \<Rightarrow> (int \<times> port8250 \<times> 'd) res" where
  "uart_tiocmset b up d on off =
     (if tty_io_error up then Inr (- 5, up, d)
      else rbind (uart_update_mctrl b up d on off) (\<lambda>(up, d). Inr (0, up, d)))"

definition uart_break_ctl :: "'d bus \<Rightarrow> port8250 \<Rightarrow> 'd \<Rightarrow> int \<Rightarrow> 'd pd res" where
  "uart_break_ctl b up d break_state =
     (if ptype up \<noteq> PORT_UNKNOWN then serial8250_break_ctl b up d break_state else Inr (up, d))"

definition uart_get_lsr_info :: "'d bus \<Rightarrow> port8250 \<Rightarrow> 'd \<Rightarrow> (bool \<times> port8250 \<times> 'd) res" where
  "uart_get_lsr_info b up d =
     rbind (serial8250_tx_empty b up d) (\<lambda>(result, up, d).
     Inr (if x_char up \<noteq> 0 \<or> circ_cnt (xmit up) > 0 \<and> \<not> tty_stopped up \<and> \<not> tty_hw_stopped up then False else result,
          up, d))"

text \<open>\<open>RELEVANT_IFLAG\<close>, and the three parts of \<open>uart_set_termios\<close>.\<close>

definition relevant_iflag :: "iflags \<Rightarrow> bool list" where
  "relevant_iflag i = [if_ignbrk i, if_brkint i, if_ignpar i, if_parmrk i, if_inpck i]"

definition set_termios_b0 :: "'d bus \<Rightarrow> port8250 \<Rightarrow> 'd \<Rightarrow> cflags \<Rightarrow> cflags \<Rightarrow> 'd pd res" where
  "set_termios_b0 b up d cflag old =
     (if cf_baud old \<noteq> None \<and> cf_baud cflag = None then uart_clear_mctrl b up d RTS_DTR
      else if cf_baud old = None \<and> cf_baud cflag \<noteq> None then
        uart_set_mctrl b up d (mctrl_zero\<lparr>m_dtr := True, m_rts := \<not> cf_crtscts cflag \<or> \<not> tty_throttled up\<rparr>)
      else Inr (up, d))"

definition set_termios_cts :: "'d bus \<Rightarrow> port8250 \<Rightarrow> 'd \<Rightarrow> cflags \<Rightarrow> cflags \<Rightarrow> 'd pd res" where
  "set_termios_cts b up d cflag old =
     (if cf_crtscts old \<and> \<not> cf_crtscts cflag then uart_start b (up\<lparr>tty_hw_stopped := False\<rparr>) d
      else if \<not> cf_crtscts old \<and> cf_crtscts cflag then
        rbind (serial8250_get_mctrl b up d) (\<lambda>(m, up, d).
        if \<not> m_cts m then serial8250_stop_tx b (up\<lparr>tty_hw_stopped := True\<rparr>) d else Inr (up, d))
      else Inr (up, d))"

definition uart_set_termios ::
    "kernel \<Rightarrow> 'd bus \<Rightarrow> port8250 \<Rightarrow> 'd \<Rightarrow> ktermios \<Rightarrow> ktermios \<Rightarrow> (port8250 \<times> ktermios \<times> 'd) res" where
  "uart_set_termios ke b up d t old =
     (let cflag = c_cflag t in
      if cflag = c_cflag old \<and> relevant_iflag (c_iflag t) = relevant_iflag (c_iflag old) then Inr (up, t, d)
      else
        rbind (uart_change_speed ke b up d t (Some old)) (\<lambda>(up, t, d).
        rbind (set_termios_b0 b up d cflag (c_cflag old)) (\<lambda>(up, d).
        rbind (set_termios_cts b up d cflag (c_cflag old)) (\<lambda>(up, d).
        Inr (up, t, d)))))"

end
