(* ===== verification/Linux_Ports.thy ===== *)
theory Linux_Ports
  imports Linux_8250_Probe "HOL-Library.Multiset"
begin

unbundle bit_operations_syntax

text \<open>
  The ports that the 8250 driver knows, and the addresses it claims for them: of \<open>8250.c\<close> the
  resource functions, \<open>serial8250_config_port\<close>, registering and unregistering a port and the platform
  driver's \<open>probe\<close> and \<open>remove\<close>; of \<open>serial_core.c\<close> \<open>uart_match_port\<close>, \<open>uart_configure_port\<close>,
  \<open>uart_add_one_port\<close> and \<open>uart_remove_one_port\<close>.

  A port is a number, its line, which indexes \<open>serial8250_ports\<close>. The kernel's part is the record
  \<open>kport\<close>: whether a region is granted when others are held, whether an address can be mapped, and
  what the probe of the chip finds (its run is \<open>autoconfig\<close> of \<open>Linux_8250_Probe\<close>). Naming the tty
  device, reports, power management, consoles and overriding access routines are left out.
\<close>

section \<open>Ports\<close>

datatype iotype =
    UPIO_PORT
  | UPIO_HUB6
  | UPIO_MEM
  | UPIO_MEM32
  | UPIO_AU
  | UPIO_TSI

text \<open>
  The fields of \<open>uart_port\<close>, and of \<open>uart_8250_port\<close>, that this code uses; the bits of \<open>flags\<close> are
  fields of their own. An address in a mapping is the base that was mapped and an offset.
\<close>

record uport =
  pt_iotype :: iotype
  pt_iobase :: u64
  pt_mapbase :: u64
  pt_membase :: "(u64 \<times> u64) option"
  pt_hub6 :: nat
  pt_regshift :: nat
  pt_irq :: nat
  pt_uartclk :: u32
  pt_fifosize :: u32
  pt_type :: port_type
  pt_dev :: "nat option"
  pt_boot_autoconf :: bool
  pt_skip_test :: bool
  pt_share_irq :: bool
  pt_fixed_type :: bool
  pt_fixed_port :: bool
  pt_ioremap :: bool
  pt_auto_irq :: bool
  pt_no_txen_test :: bool
  pt_bug_thre :: bool
  pt_exar_efr :: bool
  pt_dead :: bool
  pt_caps :: u32
  pt_tx_loadsz :: nat
  pt_nomsr :: bool

definition uart_match_port :: "uport \<Rightarrow> uport \<Rightarrow> bool" where
  "uart_match_port p q \<longleftrightarrow>
     pt_iotype p = pt_iotype q \<and>
     (case pt_iotype p of
        UPIO_PORT \<Rightarrow> pt_iobase p = pt_iobase q
      | UPIO_HUB6 \<Rightarrow> pt_iobase p = pt_iobase q \<and> pt_hub6 p = pt_hub6 q
      | _ \<Rightarrow> pt_mapbase p = pt_mapbase q)"

section \<open>Regions\<close>

datatype region =
    IoRegion u64 u32
  | MemRegion u64 u32

record kres =
  kr_held :: "region list"
  kr_maps :: "u64 list"

record kport =
  kp_grant :: "region list \<Rightarrow> region \<Rightarrow> bool"
  kp_remap :: "u64 \<Rightarrow> bool"
  kp_found :: "nat \<Rightarrow> uport \<Rightarrow> port_type"
  kp_found_irq :: "nat \<Rightarrow> uport \<Rightarrow> nat"

definition release_region :: "region \<Rightarrow> kres \<Rightarrow> kres" where
  "release_region r kr = kr\<lparr>kr_held := remove1 r (kr_held kr)\<rparr>"

definition serial8250_port_size :: "uport \<Rightarrow> u32" where
  "serial8250_port_size p = (if pt_iotype p = UPIO_AU then 0x1000 else push_bit (pt_regshift p) 8)"

definition mem_mapped :: "uport \<Rightarrow> bool" where
  "mem_mapped p \<longleftrightarrow> (case pt_iotype p of UPIO_PORT \<Rightarrow> False | UPIO_HUB6 \<Rightarrow> False | _ \<Rightarrow> True)"

definition serial8250_request_std_resource :: "kport \<Rightarrow> uport \<Rightarrow> kres \<Rightarrow> int \<times> uport \<times> kres" where
  "serial8250_request_std_resource ke p kr =
     (let size = serial8250_port_size p in
      if mem_mapped p then
        (let r = MemRegion (pt_mapbase p) size in
         if pt_mapbase p = 0 then (0, p, kr)
         else if \<not> kp_grant ke (kr_held kr) r then (- 16, p, kr)
         else
           let kr = kr\<lparr>kr_held := r # kr_held kr\<rparr>
           in if pt_ioremap p then
                if kp_remap ke (pt_mapbase p)
                then (0, p\<lparr>pt_membase := Some (pt_mapbase p, 0)\<rparr>, kr\<lparr>kr_maps := pt_mapbase p # kr_maps kr\<rparr>)
                else (- 12, p\<lparr>pt_membase := None\<rparr>, release_region r kr)
              else (0, p, kr))
      else
        (let r = IoRegion (pt_iobase p) size in
         if \<not> kp_grant ke (kr_held kr) r then (- 16, p, kr) else (0, p, kr\<lparr>kr_held := r # kr_held kr\<rparr>)))"

definition serial8250_release_std_resource :: "uport \<Rightarrow> kres \<Rightarrow> uport \<times> kres" where
  "serial8250_release_std_resource p kr =
     (let size = serial8250_port_size p in
      if mem_mapped p then
        (if pt_mapbase p = 0 then (p, kr)
         else
           let (p, kr) =
             (if pt_ioremap p
              then (p\<lparr>pt_membase := None\<rparr>,
                    case pt_membase p of Some (base, _) \<Rightarrow> kr\<lparr>kr_maps := remove1 base (kr_maps kr)\<rparr> | None \<Rightarrow> kr)
              else (p, kr))
           in (p, release_region (MemRegion (pt_mapbase p) size) kr))
      else (p, release_region (IoRegion (pt_iobase p) size) kr))"

text \<open>The second region of an RSA board lies below the port; \<open>UART_RSA_BASE\<close> is \<open>- 8\<close>.\<close>

definition rsa_region :: "uport \<Rightarrow> region" where
  "rsa_region p = IoRegion (push_bit (pt_regshift p) (- 8) + pt_iobase p) (push_bit (pt_regshift p) 8)"

definition serial8250_request_rsa_resource :: "kport \<Rightarrow> uport \<Rightarrow> kres \<Rightarrow> int \<times> kres" where
  "serial8250_request_rsa_resource ke p kr =
     (if mem_mapped p then (- 22, kr)
      else if kp_grant ke (kr_held kr) (rsa_region p) then (0, kr\<lparr>kr_held := rsa_region p # kr_held kr\<rparr>)
      else (- 16, kr))"

definition serial8250_release_rsa_resource :: "uport \<Rightarrow> kres \<Rightarrow> kres" where
  "serial8250_release_rsa_resource p kr = (if mem_mapped p then kr else release_region (rsa_region p) kr)"

definition serial8250_release_port :: "uport \<Rightarrow> kres \<Rightarrow> uport \<times> kres" where
  "serial8250_release_port p kr =
     (let (p, kr) = serial8250_release_std_resource p kr
      in (p, if pt_type p = PORT_RSA then serial8250_release_rsa_resource p kr else kr))"

definition serial8250_request_port :: "kport \<Rightarrow> uport \<Rightarrow> kres \<Rightarrow> int \<times> uport \<times> kres" where
  "serial8250_request_port ke p kr =
     (let (ret, p, kr) = serial8250_request_std_resource ke p kr in
      if ret = 0 \<and> pt_type p = PORT_RSA then
        (let (ret, kr) = serial8250_request_rsa_resource ke p kr in
         if ret < 0 then (let (p, kr) = serial8250_release_std_resource p kr in (ret, p, kr)) else (ret, p, kr))
      else (ret, p, kr))"

section \<open>Configuring a port\<close>

definition serial8250_config_port :: "kport \<Rightarrow> nat \<Rightarrow> bool \<Rightarrow> bool \<Rightarrow> uport \<Rightarrow> kres \<Rightarrow> uport \<times> kres" where
  "serial8250_config_port ke line config_type config_irq p kr =
     (let (ret, p, kr) = serial8250_request_std_resource ke p kr in
      if ret < 0 then (p, kr)
      else
        let (ret, kr) = serial8250_request_rsa_resource ke p kr;
            probe_rsa = (0 \<le> ret);
            p = (if config_type then p\<lparr>pt_type := kp_found ke line p\<rparr> else p);
            p = (if pt_type p = PORT_16550A \<and> pt_iotype p = UPIO_AU then p\<lparr>pt_nomsr := True\<rparr> else p);
            p = (if pt_type p \<noteq> PORT_UNKNOWN \<and> config_irq then p\<lparr>pt_irq := kp_found_irq ke line p\<rparr> else p);
            kr = (if pt_type p \<noteq> PORT_RSA \<and> probe_rsa then serial8250_release_rsa_resource p kr else kr)
        in if pt_type p = PORT_UNKNOWN then serial8250_release_std_resource p kr else (p, kr))"

definition uart_configure_port :: "kport \<Rightarrow> nat \<Rightarrow> uport \<Rightarrow> kres \<Rightarrow> uport \<times> kres" where
  "uart_configure_port ke line p kr =
     (if pt_iobase p = 0 \<and> pt_mapbase p = 0 \<and> pt_membase p = None then (p, kr)
      else if pt_boot_autoconf p then
        serial8250_config_port ke line (\<not> pt_fixed_type p) (pt_auto_irq p)
          (if \<not> pt_fixed_type p then p\<lparr>pt_type := PORT_UNKNOWN\<rparr> else p) kr
      else (p, kr))"

section \<open>The table of ports\<close>

text \<open>
  \<open>ps_attached\<close> says whether a line's \<open>uart_state\<close> has a port; \<open>ps_isa\<close> is the platform device that
  takes back unregistered ports, while it exists. \<open>UART_NR\<close> is the length of the table.
\<close>

record ports =
  ps_slots :: "uport list"
  ps_attached :: "bool list"
  ps_isa :: "nat option"
  ps_res :: kres

definition uart_add_one_port :: "kport \<Rightarrow> nat \<Rightarrow> ports \<Rightarrow> (int \<times> ports) res" where
  "uart_add_one_port ke line st =
     (if length (ps_slots st) \<le> line then Inr (- 22, st)
      else
        rbind (arr_get (ps_attached st) line) (\<lambda>attached.
        if attached then Inr (- 22, st)
        else
          rbind (arr_set (ps_attached st) line True) (\<lambda>att.
          rbind (arr_get (ps_slots st) line) (\<lambda>p.
          let (p, kr) = uart_configure_port ke line p (ps_res st)
          in rbind (arr_set (ps_slots st) line (p\<lparr>pt_dead := False\<rparr>)) (\<lambda>slots.
             Inr (0, st\<lparr>ps_slots := slots, ps_attached := att, ps_res := kr\<rparr>))))))"

definition uart_remove_one_port :: "nat \<Rightarrow> ports \<Rightarrow> ports res" where
  "uart_remove_one_port line st =
     rbind (arr_get (ps_slots st) line) (\<lambda>p.
     let p = p\<lparr>pt_dead := True\<rparr>;
         (p, kr) = (if pt_type p \<noteq> PORT_UNKNOWN then serial8250_release_port p (ps_res st) else (p, ps_res st))
     in rbind (arr_set (ps_slots st) line (p\<lparr>pt_type := PORT_UNKNOWN\<rparr>)) (\<lambda>slots.
        rbind (arr_set (ps_attached st) line False) (\<lambda>att.
        Inr (st\<lparr>ps_slots := slots, ps_attached := att, ps_res := kr\<rparr>))))"

fun first_slot :: "(uport \<Rightarrow> bool) \<Rightarrow> uport list \<Rightarrow> nat option" where
  "first_slot P [] = None"
| "first_slot P (p # ps) = (if P p then Some 0 else map_option Suc (first_slot P ps))"

definition serial8250_find_match_or_unused :: "nat \<Rightarrow> uport list \<Rightarrow> uport \<Rightarrow> nat option" where
  "serial8250_find_match_or_unused nr_uarts slots port =
     (let slots = take nr_uarts slots in
      case first_slot (\<lambda>p. uart_match_port p port) slots of
        Some i \<Rightarrow> Some i
      | None \<Rightarrow>
          (case first_slot (\<lambda>p. pt_type p = PORT_UNKNOWN \<and> pt_iobase p = 0) slots of
             Some i \<Rightarrow> Some i
           | None \<Rightarrow> first_slot (\<lambda>p. pt_type p = PORT_UNKNOWN) slots))"

definition serial8250_init_fixed_type_port :: "uport \<Rightarrow> port_type \<Rightarrow> uport" where
  "serial8250_init_fixed_type_port p ty =
     p\<lparr>pt_type := ty, pt_fifosize := ucast (fifo_size (uart_config ty)), pt_caps := cfg_flags (uart_config ty),
       pt_tx_loadsz := cfg_tx_loadsz (uart_config ty)\<rparr>"

text \<open>What a slot takes from the template of a port; \<open>hub6\<close> is not among it.\<close>

definition copy_port :: "uport \<Rightarrow> uport \<Rightarrow> uport" where
  "copy_port port p =
     p\<lparr>pt_iobase := pt_iobase port, pt_membase := pt_membase port, pt_irq := pt_irq port, pt_uartclk := pt_uartclk port,
       pt_fifosize := pt_fifosize port, pt_regshift := pt_regshift port, pt_iotype := pt_iotype port,
       pt_boot_autoconf := True, pt_skip_test := pt_skip_test port, pt_share_irq := pt_share_irq port,
       pt_fixed_type := pt_fixed_type port, pt_fixed_port := pt_fixed_port port, pt_ioremap := pt_ioremap port,
       pt_auto_irq := pt_auto_irq port, pt_no_txen_test := pt_no_txen_test port, pt_bug_thre := pt_bug_thre port,
       pt_exar_efr := pt_exar_efr port, pt_dead := pt_dead port, pt_mapbase := pt_mapbase port,
       pt_dev := (case pt_dev port of None \<Rightarrow> pt_dev p | Some d \<Rightarrow> Some d)\<rparr>"

definition serial8250_register_port :: "kport \<Rightarrow> nat \<Rightarrow> uport \<Rightarrow> ports \<Rightarrow> (int \<times> ports) res" where
  "serial8250_register_port ke nr_uarts port st =
     (if pt_uartclk port = 0 then Inr (- 22, st)
      else
        case serial8250_find_match_or_unused nr_uarts (ps_slots st) port of
          None \<Rightarrow> Inr (- 28, st)
        | Some i \<Rightarrow>
            rbind (uart_remove_one_port i st) (\<lambda>st.
            rbind (arr_get (ps_slots st) i) (\<lambda>p.
            let p = copy_port port p;
                p = (if pt_fixed_type port then serial8250_init_fixed_type_port p (pt_type port) else p)
            in rbind (arr_set (ps_slots st) i p) (\<lambda>slots.
               rbind (uart_add_one_port ke i (st\<lparr>ps_slots := slots\<rparr>)) (\<lambda>(ret, st).
               Inr (if ret = 0 then int i else ret, st))))))"

definition serial8250_unregister_port :: "kport \<Rightarrow> nat \<Rightarrow> ports \<Rightarrow> ports res" where
  "serial8250_unregister_port ke line st =
     rbind (uart_remove_one_port line st) (\<lambda>st.
     rbind (arr_get (ps_slots st) line) (\<lambda>p.
     case ps_isa st of
       Some d \<Rightarrow>
         (let p = p\<lparr>pt_boot_autoconf := False, pt_type := PORT_UNKNOWN, pt_dev := Some d,
                    pt_caps := cfg_flags (uart_config PORT_UNKNOWN)\<rparr>
          in rbind (arr_set (ps_slots st) line p) (\<lambda>slots.
             rbind (uart_add_one_port ke line (st\<lparr>ps_slots := slots\<rparr>)) (\<lambda>(_, st). Inr st)))
     | None \<Rightarrow>
         rbind (arr_set (ps_slots st) line (p\<lparr>pt_dev := None\<rparr>)) (\<lambda>slots. Inr (st\<lparr>ps_slots := slots\<rparr>))))"

text \<open>The platform driver: the ports of a device up to the terminator, and all ports of a device.\<close>

fun serial8250_probe :: "kport \<Rightarrow> nat \<Rightarrow> nat \<Rightarrow> uport list \<Rightarrow> ports \<Rightarrow> ports res" where
  "serial8250_probe ke nr_uarts dev [] st = Inr st"
| "serial8250_probe ke nr_uarts dev (p # ps) st =
     rbind (serial8250_register_port ke nr_uarts (p\<lparr>pt_dev := Some dev\<rparr>) st) (\<lambda>(_, st).
     serial8250_probe ke nr_uarts dev ps st)"

fun remove_loop :: "kport \<Rightarrow> nat \<Rightarrow> nat list \<Rightarrow> ports \<Rightarrow> ports res" where
  "remove_loop ke dev [] st = Inr st"
| "remove_loop ke dev (i # is) st =
     rbind (arr_get (ps_slots st) i) (\<lambda>p.
     rbind (if pt_dev p = Some dev then serial8250_unregister_port ke i st else Inr st) (\<lambda>st.
     remove_loop ke dev is st))"

definition serial8250_remove :: "kport \<Rightarrow> nat \<Rightarrow> nat \<Rightarrow> ports \<Rightarrow> ports res" where
  "serial8250_remove ke nr_uarts dev st = remove_loop ke dev [0..<nr_uarts] st"

section \<open>What a port claims\<close>

definition std_regions :: "uport \<Rightarrow> region list" where
  "std_regions p =
     (if mem_mapped p
      then (if pt_mapbase p = 0 then [] else [MemRegion (pt_mapbase p) (serial8250_port_size p)])
      else [IoRegion (pt_iobase p) (serial8250_port_size p)])"

definition std_maps :: "uport \<Rightarrow> u64 list" where
  "std_maps p =
     (if mem_mapped p \<and> pt_mapbase p \<noteq> 0 \<and> pt_ioremap p
      then (case pt_membase p of Some (base, _) \<Rightarrow> [base] | None \<Rightarrow> []) else [])"

text \<open>A port with a chip owns its regions, one without owns nothing.\<close>

definition port_regions :: "uport \<Rightarrow> region list" where
  "port_regions p = (if pt_type p = PORT_UNKNOWN then [] else std_regions p)"

definition port_maps :: "uport \<Rightarrow> u64 list" where
  "port_maps p = (if pt_type p = PORT_UNKNOWN then [] else std_maps p)"

text \<open>The state without RSA boards and ports of fixed type.\<close>

definition plain :: "uport \<Rightarrow> bool" where
  "plain p \<longleftrightarrow> \<not> pt_fixed_type p \<and> pt_type p \<noteq> PORT_RSA"

definition ports_ok :: "region multiset \<Rightarrow> u64 multiset \<Rightarrow> ports \<Rightarrow> bool" where
  "ports_ok F G st \<longleftrightarrow>
     length (ps_attached st) = length (ps_slots st) \<and> list_all plain (ps_slots st) \<and>
     mset (kr_held (ps_res st)) = mset (concat (map port_regions (ps_slots st))) + F \<and>
     mset (kr_maps (ps_res st)) = mset (concat (map port_maps (ps_slots st))) + G"

lemma mset_concat_update:
  "i < length xs \<Longrightarrow> mset (concat (map f (xs[i := x]))) + mset (f (xs ! i)) = mset (concat (map f xs)) + mset (f x)"
  by (induction xs arbitrary: i) (auto simp: nth_Cons ac_simps split: nat.split)

lemma mset_concat_clear:
  "i < length xs \<Longrightarrow> f x = [] \<Longrightarrow> mset (concat (map f xs)) = mset (f (xs ! i)) + mset (concat (map f (xs[i := x])))"
  using mset_concat_update [of i xs f x] by (simp add: add.commute)

lemma mset_concat_fill:
  "i < length xs \<Longrightarrow> f (xs ! i) = [] \<Longrightarrow> mset (concat (map f (xs[i := x]))) = mset (f x) + mset (concat (map f xs))"
  using mset_concat_update [of i xs f x] by (simp add: add.commute)

lemma plain_update: "list_all plain xs \<Longrightarrow> plain x \<Longrightarrow> list_all plain (xs[i := x])"
  by (auto simp: list_all_iff dest!: set_update_subset_insert [THEN subsetD])

text \<open>Claiming and releasing are inverse.\<close>

lemma membase_self: "\<exists>m. p = p\<lparr>pt_membase := m\<rparr>"
  by (rule exI [of _ "pt_membase p"]) simp

lemma request_std:
  assumes "serial8250_request_std_resource ke p kr = (ret, p', kr')"
  shows "ret < 0 \<Longrightarrow> kr_held kr' = kr_held kr \<and> kr_maps kr' = kr_maps kr"
    and "0 \<le> ret \<Longrightarrow> kr_held kr' = std_regions p' @ kr_held kr"
    and "0 \<le> ret \<Longrightarrow> kr_maps kr' = (if pt_ioremap p \<and> mem_mapped p \<and> pt_mapbase p \<noteq> 0 then [pt_mapbase p] else []) @ kr_maps kr"
    and "\<exists>m. p' = p\<lparr>pt_membase := m\<rparr> \<and> (0 \<le> ret \<and> pt_ioremap p \<and> mem_mapped p \<and> pt_mapbase p \<noteq> 0 \<longrightarrow> m = Some (pt_mapbase p, 0))"
proof -
  show "ret < 0 \<Longrightarrow> kr_held kr' = kr_held kr \<and> kr_maps kr' = kr_maps kr"
    using assms by (auto simp: serial8250_request_std_resource_def Let_def release_region_def split: if_splits)
  show "0 \<le> ret \<Longrightarrow> kr_held kr' = std_regions p' @ kr_held kr"
    using assms
    by (auto simp: serial8250_request_std_resource_def Let_def std_regions_def mem_mapped_def serial8250_port_size_def split: if_splits)
  show "0 \<le> ret \<Longrightarrow> kr_maps kr' = (if pt_ioremap p \<and> mem_mapped p \<and> pt_mapbase p \<noteq> 0 then [pt_mapbase p] else []) @ kr_maps kr"
    using assms by (auto simp: serial8250_request_std_resource_def Let_def split: if_splits)
  show "\<exists>m. p' = p\<lparr>pt_membase := m\<rparr> \<and> (0 \<le> ret \<and> pt_ioremap p \<and> mem_mapped p \<and> pt_mapbase p \<noteq> 0 \<longrightarrow> m = Some (pt_mapbase p, 0))"
    using assms membase_self by (auto simp: serial8250_request_std_resource_def Let_def split: if_splits)
qed

lemma release_std:
  assumes "serial8250_release_std_resource p kr = (p', kr')"
  shows "kr_held kr' = (case std_regions p of [] \<Rightarrow> kr_held kr | r # _ \<Rightarrow> remove1 r (kr_held kr))"
    and "kr_maps kr' = (case std_maps p of [] \<Rightarrow> kr_maps kr | m # _ \<Rightarrow> remove1 m (kr_maps kr))"
    and "\<exists>m. p' = p\<lparr>pt_membase := m\<rparr>"
proof -
  show "kr_held kr' = (case std_regions p of [] \<Rightarrow> kr_held kr | r # _ \<Rightarrow> remove1 r (kr_held kr))"
    using assms by (auto simp: serial8250_release_std_resource_def Let_def release_region_def std_regions_def split: if_splits option.splits)
  show "kr_maps kr' = (case std_maps p of [] \<Rightarrow> kr_maps kr | m # _ \<Rightarrow> remove1 m (kr_maps kr))"
    using assms by (auto simp: serial8250_release_std_resource_def Let_def release_region_def std_maps_def split: if_splits option.splits)
  show "\<exists>m. p' = p\<lparr>pt_membase := m\<rparr>"
    using assms membase_self by (auto simp: serial8250_release_std_resource_def Let_def split: if_splits)
qed

lemma frame_regions [simp]:
  "std_regions (p\<lparr>pt_type := ty\<rparr>) = std_regions p" "std_maps (p\<lparr>pt_type := ty\<rparr>) = std_maps p"
  "std_regions (p\<lparr>pt_nomsr := b\<rparr>) = std_regions p" "std_maps (p\<lparr>pt_nomsr := b\<rparr>) = std_maps p"
  "std_regions (p\<lparr>pt_irq := n\<rparr>) = std_regions p" "std_maps (p\<lparr>pt_irq := n\<rparr>) = std_maps p"
  "std_regions (p\<lparr>pt_dead := b\<rparr>) = std_regions p" "std_maps (p\<lparr>pt_dead := b\<rparr>) = std_maps p"
  "std_regions (p\<lparr>pt_membase := m\<rparr>) = std_regions p"
  by (simp_all add: std_regions_def std_maps_def mem_mapped_def serial8250_port_size_def)

lemma rsa_there_and_back:
  assumes "serial8250_request_rsa_resource ke p kr = (ret, kr')"
  shows "(if 0 \<le> ret then serial8250_release_rsa_resource p kr' else kr') = kr"
  using assms
  by (auto simp: serial8250_request_rsa_resource_def serial8250_release_rsa_resource_def release_region_def split: if_splits)

lemma rsa_frame [simp]:
  "serial8250_release_rsa_resource (p\<lparr>pt_type := ty\<rparr>) kr = serial8250_release_rsa_resource p kr"
  "serial8250_release_rsa_resource (p\<lparr>pt_nomsr := b\<rparr>) kr = serial8250_release_rsa_resource p kr"
  "serial8250_release_rsa_resource (p\<lparr>pt_irq := n\<rparr>) kr = serial8250_release_rsa_resource p kr"
  by (simp_all add: serial8250_release_rsa_resource_def rsa_region_def mem_mapped_def)

definition same_place :: "uport \<Rightarrow> uport \<Rightarrow> bool" where
  "same_place p q \<longleftrightarrow> pt_iotype p = pt_iotype q \<and> pt_iobase p = pt_iobase q \<and> pt_mapbase p = pt_mapbase q"

lemma release_place [simp]:
  "pt_iotype (fst (serial8250_release_std_resource p kr)) = pt_iotype p"
  "pt_iobase (fst (serial8250_release_std_resource p kr)) = pt_iobase p"
  "pt_mapbase (fst (serial8250_release_std_resource p kr)) = pt_mapbase p"
  by (simp_all add: serial8250_release_std_resource_def Let_def)

lemma config_place: "same_place (fst (serial8250_config_port ke line ty irq p kr)) p"
proof -
  obtain ret p1 kr1 where r: "serial8250_request_std_resource ke p kr = (ret, p1, kr1)" by (metis prod_cases3)
  then obtain m where m: "p1 = p\<lparr>pt_membase := m\<rparr>" using request_std(4) by blast
  show ?thesis
    unfolding serial8250_config_port_def r Let_def prod.case m by (simp add: same_place_def case_prod_beta)
qed

lemma configure_place: "same_place (fst (uart_configure_port ke line p kr)) p"
proof -
  have "same_place (fst (serial8250_config_port ke line ty irq (p\<lparr>pt_type := t\<rparr>) kr)) p" for ty irq t
    using config_place [of ke line ty irq "p\<lparr>pt_type := t\<rparr>" kr] by (simp add: same_place_def)
  then show ?thesis using config_place [of ke line _ _ p kr]
    by (auto simp: uart_configure_port_def) (simp_all add: same_place_def)
qed

lemma release_dev [simp]: "pt_dev (fst (serial8250_release_std_resource p kr)) = pt_dev p"
  by (simp add: serial8250_release_std_resource_def Let_def)

lemma config_dev: "pt_dev (fst (serial8250_config_port ke line ty irq p kr)) = pt_dev p"
proof -
  obtain ret p1 kr1 where r: "serial8250_request_std_resource ke p kr = (ret, p1, kr1)" by (metis prod_cases3)
  then obtain m where m: "p1 = p\<lparr>pt_membase := m\<rparr>" using request_std(4) by blast
  show ?thesis
    unfolding serial8250_config_port_def r Let_def prod.case m by (simp add: case_prod_beta)
qed

lemma configure_dev: "pt_dev (fst (uart_configure_port ke line p kr)) = pt_dev p"
  by (simp add: uart_configure_port_def config_dev)

text \<open>Configuring a port that has no chip yet claims exactly what it then owns.\<close>

lemma config_port_claims:
  assumes "serial8250_config_port ke line True irq p kr = (p', kr')" and "pt_type p = PORT_UNKNOWN" and "kp_found ke line = found"
    and "\<And>q. found q \<noteq> PORT_RSA"
  shows "kr_held kr' = port_regions p' @ kr_held kr \<and> kr_maps kr' = port_maps p' @ kr_maps kr \<and>
    pt_type p' \<noteq> PORT_RSA \<and> pt_fixed_type p' = pt_fixed_type p"
proof -
  obtain ret p1 kr1 where r: "serial8250_request_std_resource ke p kr = (ret, p1, kr1)" by (metis prod_cases3)
  note std = request_std [OF r]
  obtain m where m: "p1 = p\<lparr>pt_membase := m\<rparr>"
    "0 \<le> ret \<and> pt_ioremap p \<and> mem_mapped p \<and> pt_mapbase p \<noteq> 0 \<longrightarrow> m = Some (pt_mapbase p, 0)"
    using std(4) by blast
  show ?thesis
  proof (cases "ret < 0")
    case True
    then have "p' = p1" "kr' = kr1" using assms(1) r by (auto simp: serial8250_config_port_def)
    with True assms(2) std(1) m(1) show ?thesis by (simp add: port_regions_def port_maps_def)
  next
    case False
    obtain ret2 kr2 where r2: "serial8250_request_rsa_resource ke p1 kr1 = (ret2, kr2)" by (metis surj_pair)
    define q where "q = (let p = p1\<lparr>pt_type := found p1\<rparr>;
            p = (if pt_type p = PORT_16550A \<and> pt_iotype p = UPIO_AU then p\<lparr>pt_nomsr := True\<rparr> else p)
        in if pt_type p \<noteq> PORT_UNKNOWN \<and> irq then p\<lparr>pt_irq := kp_found_irq ke line p\<rparr> else p)"
    have q: "pt_type q = found p1" "std_regions q = std_regions p1" "std_maps q = std_maps p1" "pt_fixed_type q = pt_fixed_type p"
        "serial8250_release_rsa_resource q = serial8250_release_rsa_resource p1"
      using m(1) by (simp_all add: q_def Let_def fun_eq_iff)
    have "serial8250_config_port ke line True irq p kr =
        (let kr = (if pt_type q \<noteq> PORT_RSA \<and> 0 \<le> ret2 then serial8250_release_rsa_resource q kr2 else kr2)
         in if pt_type q = PORT_UNKNOWN then serial8250_release_std_resource q kr else (q, kr))"
      unfolding serial8250_config_port_def r q_def assms(3) [symmetric] Let_def prod.case r2 using False by simp
    then have res: "(p', kr') = (if pt_type q = PORT_UNKNOWN then serial8250_release_std_resource q kr1 else (q, kr1))"
      using assms(1,4) rsa_there_and_back [OF r2] q(1,5) by (cases "0 \<le> ret2") (simp_all add: Let_def)
    have maps: "std_maps q = (if pt_ioremap p \<and> mem_mapped p \<and> pt_mapbase p \<noteq> 0 then [pt_mapbase p] else [])"
      using m False by (simp add: q(3)) (simp add: std_maps_def mem_mapped_def)
    show ?thesis
    proof (cases "found p1 = PORT_UNKNOWN")
      case True
      then have rel: "serial8250_release_std_resource q kr1 = (p', kr')" using res q(1) by simp
      have "pt_type p' = PORT_UNKNOWN" "pt_fixed_type p' = pt_fixed_type p"
        using release_std(3) [OF rel] True q(1,4) by auto
      moreover have "kr_held kr' = kr_held kr" "kr_maps kr' = kr_maps kr"
        using release_std(1,2) [OF rel] std(2,3) False maps q(2)
        by (auto simp: std_regions_def split: if_splits)
      ultimately show ?thesis by (simp add: port_regions_def port_maps_def)
    next
      case False': False
      then have "p' = q" "kr' = kr1" using res q(1) by simp_all
      with False' std(2,3) False maps q assms(4) show ?thesis
        by (simp add: port_regions_def port_maps_def)
    qed
  qed
qed

lemma configure_claims:
  assumes "uart_configure_port ke line p kr = (p', kr')" and "pt_type p = PORT_UNKNOWN" and "\<not> pt_fixed_type p"
    and "\<And>q. kp_found ke line q \<noteq> PORT_RSA"
  shows "kr_held kr' = port_regions p' @ kr_held kr \<and> kr_maps kr' = port_maps p' @ kr_maps kr \<and> plain p'"
proof (cases "(pt_iobase p = 0 \<and> pt_mapbase p = 0 \<and> pt_membase p = None) \<or> \<not> pt_boot_autoconf p")
  case True
  then have "p' = p" "kr' = kr" using assms(1) by (auto simp: uart_configure_port_def split: if_splits)
  with assms(2,3) show ?thesis by (simp add: port_regions_def port_maps_def plain_def)
next
  case False
  then have "serial8250_config_port ke line True (pt_auto_irq p) (p\<lparr>pt_type := PORT_UNKNOWN\<rparr>) kr = (p', kr')"
    using assms(1,3) by (auto simp: uart_configure_port_def)
  from config_port_claims [OF this _ refl assms(4)] assms(3) show ?thesis by (simp add: plain_def)
qed

section \<open>The invariant\<close>

lemma port_regions_frame [simp]:
  "port_regions (p\<lparr>pt_dead := b\<rparr>) = port_regions p" "port_maps (p\<lparr>pt_dead := b\<rparr>) = port_maps p" "plain (p\<lparr>pt_dead := b\<rparr>) = plain p"
  by (simp_all add: port_regions_def port_maps_def plain_def)

lemma release_port_claims:
  assumes "serial8250_release_port p kr = (p', kr')" and "pt_type p \<noteq> PORT_UNKNOWN" and "pt_type p \<noteq> PORT_RSA"
    and "mset (kr_held kr) = mset (port_regions p) + F" and "mset (kr_maps kr) = mset (port_maps p) + G"
  shows "mset (kr_held kr') = F \<and> mset (kr_maps kr') = G \<and> (\<exists>m. p' = p\<lparr>pt_membase := m\<rparr>)"
proof -
  obtain p1 kr1 where r: "serial8250_release_std_resource p kr = (p1, kr1)" by (metis surj_pair)
  note rel = release_std [OF r]
  have "p' = p1" "kr' = kr1" using assms(1,3) r rel(3) by (auto simp: serial8250_release_port_def)
  moreover have "mset (kr_held kr1) = F"
    using rel(1) assms(2,4) by (auto simp: port_regions_def std_regions_def split: if_splits)
  moreover have "mset (kr_maps kr1) = G"
    using rel(2) assms(2,5) by (auto simp: port_maps_def std_maps_def split: if_splits option.splits)
  ultimately show ?thesis using rel(3) by blast
qed

lemma remove_ok:
  assumes ok: "ports_ok F G st" and i: "i < length (ps_slots st)"
  shows "\<exists>p st'. uart_remove_one_port i st = Inr st' \<and> ports_ok F G st' \<and>
    ps_slots st' = (ps_slots st)[i := p] \<and> ps_attached st' = (ps_attached st)[i := False] \<and> ps_isa st' = ps_isa st \<and>
    pt_type p = PORT_UNKNOWN \<and> \<not> pt_fixed_type p \<and> pt_dev p = pt_dev (ps_slots st ! i)"
proof -
  let ?p = "ps_slots st ! i" and ?d = "(ps_slots st ! i)\<lparr>pt_dead := True\<rparr>"
  note inv = ok [unfolded ports_ok_def]
  have pl: "plain ?p" using inv i by (simp add: list_all_length)
  obtain q kr where q: "(if pt_type ?d \<noteq> PORT_UNKNOWN then serial8250_release_port ?d (ps_res st) else (?d, ps_res st)) = (q, kr)"
    by (metis surj_pair)
  let ?others = "\<lambda>f. mset (concat (map f ((ps_slots st)[i := q\<lparr>pt_type := PORT_UNKNOWN\<rparr>])))"
  have empty: "port_regions (q\<lparr>pt_type := PORT_UNKNOWN\<rparr>) = []" "port_maps (q\<lparr>pt_type := PORT_UNKNOWN\<rparr>) = []"
    by (simp_all add: port_regions_def port_maps_def)
  have held: "mset (kr_held (ps_res st)) = mset (port_regions ?d) + (?others port_regions + F)"
      "mset (kr_maps (ps_res st)) = mset (port_maps ?d) + (?others port_maps + G)"
    using inv mset_concat_clear [where f = port_regions, OF i empty(1)] mset_concat_clear [where f = port_maps, OF i empty(2)] by simp_all
  have "mset (kr_held kr) = ?others port_regions + F \<and> mset (kr_maps kr) = ?others port_maps + G \<and> (\<exists>m. q = ?d\<lparr>pt_membase := m\<rparr>)"
  proof (cases "pt_type ?p = PORT_UNKNOWN")
    case True
    then have qs: "q = ?d" "kr = ps_res st" using q by simp_all
    have "\<exists>m. q = ?d\<lparr>pt_membase := m\<rparr>" unfolding qs(1) by (rule membase_self)
    with True qs held show ?thesis by (simp add: port_regions_def port_maps_def)
  next
    case False
    then have "serial8250_release_port ?d (ps_res st) = (q, kr)" using q by simp
    from release_port_claims [OF this _ _ held] False pl show ?thesis by (simp add: plain_def)
  qed
  then obtain m where res: "mset (kr_held kr) = ?others port_regions + F" "mset (kr_maps kr) = ?others port_maps + G"
      "q = ?d\<lparr>pt_membase := m\<rparr>" by blast
  have plq: "plain (q\<lparr>pt_type := PORT_UNKNOWN\<rparr>)" using pl res(3) by (simp add: plain_def)
  let ?st = "st\<lparr>ps_slots := (ps_slots st)[i := q\<lparr>pt_type := PORT_UNKNOWN\<rparr>], ps_attached := (ps_attached st)[i := False], ps_res := kr\<rparr>"
  have "uart_remove_one_port i st = Inr ?st"
    using i inv q unfolding uart_remove_one_port_def Let_def by (simp add: case_prod_beta)
  moreover have "ports_ok F G ?st"
    using inv i res plain_update [OF _ plq] by (simp add: ports_ok_def)
  ultimately show ?thesis
    using res(3) pl by (intro exI [of _ "q\<lparr>pt_type := PORT_UNKNOWN\<rparr>"] exI [of _ ?st]) (simp add: plain_def)
qed

lemma add_ok:
  assumes ok: "ports_ok F G st" and i: "i < length (ps_slots st)" and att: "\<not> ps_attached st ! i"
    and p: "pt_type (ps_slots st ! i) = PORT_UNKNOWN" and rsa: "\<And>q. kp_found ke i q \<noteq> PORT_RSA"
  shows "\<exists>q st'. uart_add_one_port ke i st = Inr (0, st') \<and> ports_ok F G st' \<and>
    ps_slots st' = (ps_slots st)[i := q] \<and> ps_attached st' = (ps_attached st)[i := True] \<and> ps_isa st' = ps_isa st \<and>
    same_place q (ps_slots st ! i) \<and> q = (fst (uart_configure_port ke i (ps_slots st ! i) (ps_res st)))\<lparr>pt_dead := False\<rparr>"
proof -
  let ?p = "ps_slots st ! i"
  note inv = ok [unfolded ports_ok_def]
  have pl: "\<not> pt_fixed_type ?p" using inv i by (simp add: list_all_length plain_def)
  obtain q kr where q: "uart_configure_port ke i ?p (ps_res st) = (q, kr)" by (metis surj_pair)
  note c = configure_claims [OF q p pl rsa]
  let ?st = "st\<lparr>ps_slots := (ps_slots st)[i := q\<lparr>pt_dead := False\<rparr>], ps_attached := (ps_attached st)[i := True], ps_res := kr\<rparr>"
  have "uart_add_one_port ke i st = Inr (0, ?st)"
    using i inv att q by (simp add: uart_add_one_port_def)
  moreover have "ports_ok F G ?st"
  proof -
    have none: "port_regions ?p = []" "port_maps ?p = []" using p by (simp_all add: port_regions_def port_maps_def)
    have "list_all plain ((ps_slots st)[i := q\<lparr>pt_dead := False\<rparr>])" by (rule plain_update) (use inv c in simp_all)
    then show ?thesis
      using inv i c mset_concat_fill [where f = port_regions, OF i none(1)] mset_concat_fill [where f = port_maps, OF i none(2)]
      by (simp add: ports_ok_def)
  qed
  moreover have "same_place (q\<lparr>pt_dead := False\<rparr>) ?p" using configure_place [of ke i ?p "ps_res st"] q by (simp add: same_place_def)
  ultimately show ?thesis using q by (intro exI [of _ "q\<lparr>pt_dead := False\<rparr>"] exI [of _ ?st]) simp
qed

lemma slot_update_ok:
  assumes "ports_ok F G st" and "i < length (ps_slots st)" and "pt_type (ps_slots st ! i) = PORT_UNKNOWN"
    and "pt_type p = PORT_UNKNOWN" and "\<not> pt_fixed_type p"
  shows "ports_ok F G (st\<lparr>ps_slots := (ps_slots st)[i := p]\<rparr>)"
proof -
  have "port_regions (ps_slots st ! i) = []" "port_maps (ps_slots st ! i) = []" "port_regions p = []" "port_maps p = []" "plain p"
    using assms(3-5) by (simp_all add: port_regions_def port_maps_def plain_def)
  then show ?thesis
    using assms(1,2) mset_concat_fill [where f = port_regions and x = p, OF assms(2)]
      mset_concat_fill [where f = port_maps and x = p, OF assms(2)]
    by (simp add: ports_ok_def plain_update)
qed

lemma first_slot_Some: "first_slot P xs = Some i \<Longrightarrow> i < length xs \<and> P (xs ! i)"
  by (induction xs arbitrary: i) (auto split: if_splits)

lemma first_slot_None: "first_slot P xs = None \<longleftrightarrow> (\<forall>p \<in> set xs. \<not> P p)"
  by (induction xs) auto

text \<open>A slot is found unless all ports have chips, none of them at the address asked for.\<close>

lemma find_slot:
  "case serial8250_find_match_or_unused nr slots port of
     Some i \<Rightarrow> i < nr \<and> i < length slots \<and> (uart_match_port (slots ! i) port \<or>
       pt_type (slots ! i) = PORT_UNKNOWN \<and> (\<forall>p \<in> set (take nr slots). \<not> uart_match_port p port))
   | None \<Rightarrow> \<forall>p \<in> set (take nr slots). \<not> uart_match_port p port \<and> pt_type p \<noteq> PORT_UNKNOWN"
  by (auto simp: serial8250_find_match_or_unused_def Let_def first_slot_None dest: first_slot_Some split: option.split)

lemma register_ok:
  assumes ok: "ports_ok F G st" and "\<not> pt_fixed_type port" and "\<And>i q. kp_found ke i q \<noteq> PORT_RSA"
  shows "\<exists>r st'. serial8250_register_port ke nr port st = Inr (r, st') \<and> ports_ok F G st' \<and> ps_isa st' = ps_isa st \<and>
    (case serial8250_find_match_or_unused nr (ps_slots st) port of
       None \<Rightarrow> r < 0 \<and> st' = st
     | Some i \<Rightarrow> if pt_uartclk port = 0 then r < 0 \<and> st' = st
                 else r = int i \<and> ps_attached st' ! i \<and> ps_attached st' = (ps_attached st)[i := True] \<and>
                   (\<exists>q. ps_slots st' = (ps_slots st)[i := q] \<and> same_place q port \<and> (pt_dev port \<noteq> None \<longrightarrow> pt_dev q = pt_dev port)))"
proof (cases "serial8250_find_match_or_unused nr (ps_slots st) port")
  case None
  with ok show ?thesis by (auto simp: serial8250_register_port_def)
next
  case (Some i)
  show ?thesis
  proof (cases "pt_uartclk port = 0")
    case True
    with ok Some show ?thesis by (auto simp: serial8250_register_port_def)
  next
    case False
    have i: "i < length (ps_slots st)" using find_slot [of nr "ps_slots st" port] Some by simp
    obtain p st1 where rm: "uart_remove_one_port i st = Inr st1" "ports_ok F G st1" "ps_slots st1 = (ps_slots st)[i := p]"
        "ps_attached st1 = (ps_attached st)[i := False]" "ps_isa st1 = ps_isa st" "pt_type p = PORT_UNKNOWN"
      using remove_ok [OF ok i] by blast
    let ?p = "copy_port port p"
    let ?st = "st1\<lparr>ps_slots := (ps_slots st1)[i := ?p]\<rparr>"
    have len: "i < length (ps_slots st1)" "i < length (ps_attached st)" using rm(3) i ok by (simp_all add: ports_ok_def)
    have ok2: "ports_ok F G ?st"
      by (rule slot_update_ok [OF rm(2) len(1)]) (use rm(3,6) i assms(2) in \<open>simp_all add: copy_port_def\<close>)
    have slot: "i < length (ps_slots ?st)" "\<not> ps_attached ?st ! i" "pt_type (ps_slots ?st ! i) = PORT_UNKNOWN"
      using len rm(3,4,6) i by (simp_all add: copy_port_def)
    obtain q st2 where ad: "uart_add_one_port ke i ?st = Inr (0, st2)" "ports_ok F G st2" "ps_slots st2 = (ps_slots ?st)[i := q]"
        "ps_attached st2 = (ps_attached ?st)[i := True]" "ps_isa st2 = ps_isa ?st" "same_place q (ps_slots ?st ! i)"
        "q = (fst (uart_configure_port ke i (ps_slots ?st ! i) (ps_res ?st)))\<lparr>pt_dead := False\<rparr>"
      using add_ok [OF ok2 slot(1-3) assms(3)] by blast
    have "serial8250_register_port ke nr port st = Inr (int i, st2)"
      using Some False rm(1,3) len i assms(2) ad(1) by (simp add: serial8250_register_port_def Let_def)
    moreover have "ps_slots st2 = (ps_slots st)[i := q]" "ps_attached st2 ! i" "ps_attached st2 = (ps_attached st)[i := True]"
      using ad(3,4) rm(3,4) len by simp_all
    moreover have "same_place q port" using ad(6) rm(3) i by (simp add: same_place_def copy_port_def)
    moreover have "pt_dev port \<noteq> None \<longrightarrow> pt_dev q = pt_dev port" using ad(7) rm(3) i by (auto simp: configure_dev copy_port_def)
    ultimately show ?thesis using Some False ad(2,5) rm(5) by auto
  qed
qed

lemma unregister_ok:
  assumes ok: "ports_ok F G st" and i: "i < length (ps_slots st)" and "\<And>i q. kp_found ke i q \<noteq> PORT_RSA"
  shows "\<exists>st' q. serial8250_unregister_port ke i st = Inr st' \<and> ports_ok F G st' \<and> ps_isa st' = ps_isa st \<and>
    ps_slots st' = (ps_slots st)[i := q] \<and> ps_attached st' = (ps_attached st)[i := ps_isa st \<noteq> None] \<and>
    pt_type q = PORT_UNKNOWN \<and> pt_dev q = ps_isa st"
proof -
  obtain p st1 where rm: "uart_remove_one_port i st = Inr st1" "ports_ok F G st1" "ps_slots st1 = (ps_slots st)[i := p]"
      "ps_attached st1 = (ps_attached st)[i := False]" "ps_isa st1 = ps_isa st" "pt_type p = PORT_UNKNOWN" "\<not> pt_fixed_type p"
    using remove_ok [OF ok i] by blast
  have len: "i < length (ps_slots st1)" "i < length (ps_attached st)" using rm(3) i ok by (simp_all add: ports_ok_def)
  show ?thesis
  proof (cases "ps_isa st")
    case None
    have "ports_ok F G (st1\<lparr>ps_slots := (ps_slots st1)[i := p\<lparr>pt_dev := None\<rparr>]\<rparr>)"
      by (rule slot_update_ok [OF rm(2) len(1)]) (use rm(3,6,7) i in simp_all)
    with None rm(1,3-6) i len show ?thesis by (auto simp: serial8250_unregister_port_def)
  next
    case (Some d)
    let ?p = "p\<lparr>pt_boot_autoconf := False, pt_type := PORT_UNKNOWN, pt_dev := Some d, pt_caps := cfg_flags (uart_config PORT_UNKNOWN)\<rparr>"
    let ?st = "st1\<lparr>ps_slots := (ps_slots st1)[i := ?p]\<rparr>"
    have ok2: "ports_ok F G ?st"
      by (rule slot_update_ok [OF rm(2) len(1)]) (use rm(3,6,7) i in simp_all)
    have slot: "i < length (ps_slots ?st)" "\<not> ps_attached ?st ! i" "pt_type (ps_slots ?st ! i) = PORT_UNKNOWN"
      using len rm(3,4) i by simp_all
    obtain q st2 where add: "uart_add_one_port ke i ?st = Inr (0, st2)" "ports_ok F G st2" "ps_slots st2 = (ps_slots ?st)[i := q]"
        "ps_attached st2 = (ps_attached ?st)[i := True]" "ps_isa st2 = ps_isa ?st"
        "q = (fst (uart_configure_port ke i (ps_slots ?st ! i) (ps_res ?st)))\<lparr>pt_dead := False\<rparr>"
      using add_ok [OF ok2 slot assms(3)] by blast
    have "q = ?p\<lparr>pt_dead := False\<rparr>" using add(6) len by (simp add: uart_configure_port_def)
    then have "pt_type q = PORT_UNKNOWN" "pt_dev q = Some d" by simp_all
    moreover have "serial8250_unregister_port ke i st = Inr st2" using Some rm(1,3,5) i len add(1) by (simp add: serial8250_unregister_port_def Let_def)
    moreover have "ps_slots st2 = (ps_slots st)[i := q]" "ps_attached st2 = (ps_attached st)[i := True]" "ps_isa st2 = ps_isa st"
      using add(3-5) rm(3-5) by simp_all
    ultimately show ?thesis using add(2) Some by auto
  qed
qed

section \<open>Properties\<close>

text \<open>
  Ports come and go; at the start there are no chips, \<open>F\<close> and \<open>G\<close> are held by others. The probe is
  that of a kernel without RSA support, and no port has a fixed type.
\<close>

inductive ports_reach :: "region multiset \<Rightarrow> u64 multiset \<Rightarrow> ports \<Rightarrow> bool" for F G where
  ports_start: "length (ps_attached st) = length (ps_slots st) \<Longrightarrow>
     (\<forall>p \<in> set (ps_slots st). pt_type p = PORT_UNKNOWN \<and> \<not> pt_fixed_type p) \<Longrightarrow>
     mset (kr_held (ps_res st)) = F \<Longrightarrow> mset (kr_maps (ps_res st)) = G \<Longrightarrow> ports_reach F G st"
| ports_register: "ports_reach F G st \<Longrightarrow> \<not> pt_fixed_type port \<Longrightarrow> (\<And>i q. kp_found ke i q \<noteq> PORT_RSA) \<Longrightarrow>
     serial8250_register_port ke nr port st = Inr (r, st') \<Longrightarrow> ports_reach F G st'"
| ports_unregister: "ports_reach F G st \<Longrightarrow> i < length (ps_slots st) \<Longrightarrow> (\<And>i q. kp_found ke i q \<noteq> PORT_RSA) \<Longrightarrow>
     serial8250_unregister_port ke i st = Inr st' \<Longrightarrow> ports_reach F G st'"

lemma ports_reach_ok: "ports_reach F G st \<Longrightarrow> ports_ok F G st"
proof (induction rule: ports_reach.induct)
  case (ports_start st)
  have "concat (map port_regions (ps_slots st)) = []" "concat (map port_maps (ps_slots st)) = []"
    using ports_start(2) by (auto simp: port_regions_def port_maps_def)
  with ports_start show ?case by (simp add: ports_ok_def list_all_iff plain_def)
next
  case (ports_register st port ke nr r st')
  from register_ok [OF ports_register(5,2,3), of nr] ports_register(4) show ?case by auto
next
  case (ports_unregister st i ke st')
  from unregister_ok [OF ports_unregister(5,2,3)] ports_unregister(4) show ?case by auto
qed

text \<open>
  C18. The driver holds the addresses of its chips and no others, as long as no port of a fixed type is registered
  and no probe finds an RSA board: after any registering and unregistering, whatever the kernel grants and
  whichever other chip the probes find, the regions and mappings held are those of the ports that have a chip
  together with what others held. Registering a port fails exactly when it has no clock or every line has a chip
  at another address, and then changes nothing; otherwise it returns a line that is then attached and has the
  port's address, even if the probe found no chip there (the comment on \<open>serial8250_register_port\<close> promises an
  error for that), and changes no other line. Unregistering a line takes its chip away, gives it back to the
  platform device, if there is one, and changes no other line.
\<close>

theorem ports_hold_their_regions:
  assumes "ports_reach F G st" and "\<not> pt_fixed_type port" and "\<And>i q. kp_found ke i q \<noteq> PORT_RSA"
  shows "mset (kr_held (ps_res st)) = mset (concat (map port_regions (ps_slots st))) + F \<and>
    mset (kr_maps (ps_res st)) = mset (concat (map port_maps (ps_slots st))) + G \<and>
    (\<exists>r st'. serial8250_register_port ke nr port st = Inr (r, st') \<and>
      (if pt_uartclk port = 0 \<or> (\<forall>p \<in> set (take nr (ps_slots st)). \<not> uart_match_port p port \<and> pt_type p \<noteq> PORT_UNKNOWN)
       then r < 0 \<and> st' = st
       else 0 \<le> r \<and> nat r < nr \<and> ps_attached st' = (ps_attached st)[nat r := True] \<and> ps_attached st' ! nat r \<and>
         (\<exists>q. ps_slots st' = (ps_slots st)[nat r := q] \<and> same_place q port))) \<and>
    (\<forall>i<length (ps_slots st). \<exists>st' q. serial8250_unregister_port ke i st = Inr st' \<and> ports_reach F G st' \<and>
      ps_slots st' = (ps_slots st)[i := q] \<and> ps_attached st' = (ps_attached st)[i := ps_isa st \<noteq> None] \<and>
      pt_type q = PORT_UNKNOWN \<and> pt_dev q = ps_isa st)"
proof -
  have ok: "ports_ok F G st" by (rule ports_reach_ok [OF assms(1)])
  have "\<exists>r st'. serial8250_register_port ke nr port st = Inr (r, st') \<and>
      (if pt_uartclk port = 0 \<or> (\<forall>p \<in> set (take nr (ps_slots st)). \<not> uart_match_port p port \<and> pt_type p \<noteq> PORT_UNKNOWN)
       then r < 0 \<and> st' = st
       else 0 \<le> r \<and> nat r < nr \<and> ps_attached st' = (ps_attached st)[nat r := True] \<and> ps_attached st' ! nat r \<and>
         (\<exists>q. ps_slots st' = (ps_slots st)[nat r := q] \<and> same_place q port))"
  proof (cases "serial8250_find_match_or_unused nr (ps_slots st) port")
    case None
    with register_ok [OF ok assms(2,3), of nr] find_slot [of nr "ps_slots st" port] show ?thesis by auto
  next
    case (Some i)
    then have i: "i < nr" "i < length (ps_slots st)" "uart_match_port (ps_slots st ! i) port \<or> pt_type (ps_slots st ! i) = PORT_UNKNOWN"
      using find_slot [of nr "ps_slots st" port] by auto
    have "ps_slots st ! i \<in> set (take nr (ps_slots st))" using i(1,2) by (auto simp: in_set_conv_nth)
    with i(3) have "\<not> (\<forall>p \<in> set (take nr (ps_slots st)). \<not> uart_match_port p port \<and> pt_type p \<noteq> PORT_UNKNOWN)" by blast
    moreover obtain r st' where "serial8250_register_port ke nr port st = Inr (r, st')"
        "if pt_uartclk port = 0 then r < 0 \<and> st' = st
         else r = int i \<and> ps_attached st' ! i \<and> ps_attached st' = (ps_attached st)[i := True] \<and>
           (\<exists>q. ps_slots st' = (ps_slots st)[i := q] \<and> same_place q port \<and> (pt_dev port \<noteq> None \<longrightarrow> pt_dev q = pt_dev port))"
      using register_ok [OF ok assms(2,3), of nr] Some by auto
    moreover have "i < length (ps_attached st)" using ok i(2) by (simp add: ports_ok_def)
    ultimately show ?thesis using i(1) by (cases "pt_uartclk port = 0") auto
  qed
  moreover have "\<exists>st' q. serial8250_unregister_port ke i st = Inr st' \<and> ports_reach F G st' \<and>
      ps_slots st' = (ps_slots st)[i := q] \<and> ps_attached st' = (ps_attached st)[i := ps_isa st \<noteq> None] \<and>
      pt_type q = PORT_UNKNOWN \<and> pt_dev q = ps_isa st" if "i < length (ps_slots st)" for i
    using unregister_ok [OF ok that assms(3)] ports_unregister [OF assms(1) that assms(3)] by metis
  ultimately show ?thesis using ok by (auto simp: ports_ok_def)
qed

definition port_com1 :: uport where
  "port_com1 = \<lparr>pt_iotype = UPIO_PORT, pt_iobase = 0x3F8, pt_mapbase = 0, pt_membase = None, pt_hub6 = 0, pt_regshift = 0,
     pt_irq = 4, pt_uartclk = 1843200, pt_fifosize = 0, pt_type = PORT_UNKNOWN, pt_dev = None, pt_boot_autoconf = True,
     pt_skip_test = False, pt_share_irq = False, pt_fixed_type = False, pt_fixed_port = False, pt_ioremap = False,
     pt_auto_irq = False, pt_no_txen_test = False, pt_bug_thre = False, pt_exar_efr = False, pt_dead = False, pt_caps = 0,
     pt_tx_loadsz = 0, pt_nomsr = False\<rparr>"

definition empty_slot :: uport where
  "empty_slot = port_com1\<lparr>pt_iobase := 0, pt_irq := 0, pt_uartclk := 0\<rparr>"

definition two_slots :: ports where
  "two_slots = \<lparr>ps_slots = [empty_slot, empty_slot], ps_attached = [False, False], ps_isa = None,
     ps_res = \<lparr>kr_held = [], kr_maps = []\<rparr>\<rparr>"

definition kport0 :: kport where
  "kport0 = \<lparr>kp_grant = (\<lambda>held r. r \<notin> set held), kp_remap = (\<lambda>_. True), kp_found = (\<lambda>_ _. PORT_16550A), kp_found_irq = (\<lambda>_ p. pt_irq p)\<rparr>"

lemma two_slots_reach: "ports_reach {#} {#} two_slots"
  by (rule ports_start) (auto simp: two_slots_def empty_slot_def port_com1_def)

theorem ports_hold_their_regions_witness:
  "\<exists>r st'. serial8250_register_port kport0 2 port_com1 two_slots = Inr (r, st') \<and> 0 \<le> r \<and> nat r < 2 \<and> ps_attached st' ! nat r"
proof -
  have t: "\<not> pt_fixed_type port_com1" "\<And>i q. kp_found kport0 i q \<noteq> PORT_RSA" "pt_uartclk port_com1 \<noteq> 0"
    by (simp_all add: port_com1_def kport0_def)
  have "\<not> (\<forall>p \<in> set (take 2 (ps_slots two_slots)). \<not> uart_match_port p port_com1 \<and> pt_type p \<noteq> PORT_UNKNOWN)"
    by (simp add: two_slots_def empty_slot_def port_com1_def)
  with ports_hold_their_regions [OF two_slots_reach t(1,2), of 2] t(3) show ?thesis by auto
qed

lemma first_slot_update:
  assumes "first_slot P xs = Some i \<or> first_slot P xs = None" and "i < length xs" and "P q"
  shows "first_slot P (xs[i := q]) = Some i"
  using assms by (induction xs arbitrary: i) (auto split: nat.split if_splits)

lemma match_place: "same_place q port \<Longrightarrow> pt_iotype port \<noteq> UPIO_HUB6 \<Longrightarrow> uart_match_port q port"
  by (auto simp: same_place_def uart_match_port_def split: iotype.split)

text \<open>
  Registering a port twice uses one line: unless it is behind a Hub6 board, a port that was
  registered is found at its address again, so that a second registration returns the same line.
  (\<open>serial8250_register_port\<close> does not copy the Hub6 selector that \<open>uart_match_port\<close> compares.)
\<close>

theorem register_finds_again:
  assumes "ports_reach F G st" and "\<not> pt_fixed_type port" and "\<And>i q. kp_found ke i q \<noteq> PORT_RSA"
    and "\<And>i q. kp_found ke2 i q \<noteq> PORT_RSA" and "pt_iotype port \<noteq> UPIO_HUB6"
    and "serial8250_register_port ke nr port st = Inr (r, st1)" and "0 \<le> r"
  shows "\<exists>st2. serial8250_register_port ke2 nr port st1 = Inr (r, st2)"
proof -
  have ok: "ports_ok F G st" by (rule ports_reach_ok [OF assms(1)])
  obtain i q where i: "serial8250_find_match_or_unused nr (ps_slots st) port = Some i" "r = int i" "pt_uartclk port \<noteq> 0"
      "ps_slots st1 = (ps_slots st)[i := q]" "same_place q port" and ok1: "ports_ok F G st1"
    using register_ok [OF ok assms(2,3), of nr] assms(6,7) by (auto split: option.splits if_splits)
  note slot = find_slot [of nr "ps_slots st" port, unfolded i(1) option.case]
  have match: "uart_match_port q port" by (rule match_place [OF i(5) assms(5)])
  have lt: "i < length (take nr (ps_slots st))" using slot by simp
  let ?P = "\<lambda>p. uart_match_port p port"
  have "first_slot ?P (take nr (ps_slots st)) = Some i \<or> first_slot ?P (take nr (ps_slots st)) = None"
    using i(1) by (auto simp: serial8250_find_match_or_unused_def Let_def split: option.splits)
  from first_slot_update [OF this lt, of q] match
  have "first_slot ?P (take nr (ps_slots st1)) = Some i" by (simp add: i(4) take_update_swap)
  then have "serial8250_find_match_or_unused nr (ps_slots st1) port = Some i"
    by (simp add: serial8250_find_match_or_unused_def)
  with register_ok [OF ok1 assms(2,4), of nr] i(2,3) show ?thesis by auto
qed

text \<open>
  A port of fixed type gives up what it does not have: its type is kept when its region is refused
  because another driver holds it, so the port counts as one with a chip, and unregistering it releases
  the other driver's region.
\<close>

theorem fixed_type_releases_foreign:
  assumes "serial8250_find_match_or_unused nr (ps_slots st) port = Some i" and "pt_uartclk port \<noteq> 0"
    and "pt_type (ps_slots st ! i) = PORT_UNKNOWN" and "length (ps_attached st) = length (ps_slots st)" and "ps_isa st = None"
    and "pt_fixed_type port" and "pt_type port \<noteq> PORT_UNKNOWN" and "pt_type port \<noteq> PORT_RSA"
    and "pt_iotype port = UPIO_PORT" and "pt_iobase port \<noteq> 0"
    and "\<not> kp_grant ke (kr_held (ps_res st)) (IoRegion (pt_iobase port) (push_bit (pt_regshift port) 8))"
  shows "\<exists>st1 st2. serial8250_register_port ke nr port st = Inr (int i, st1) \<and> ps_res st1 = ps_res st \<and>
    serial8250_unregister_port ke i st1 = Inr st2 \<and>
    ps_res st2 = release_region (IoRegion (pt_iobase port) (push_bit (pt_regshift port) 8)) (ps_res st)"
proof -
  have i: "i < length (ps_slots st)" using find_slot [of nr "ps_slots st" port] assms(1) by simp
  define p where "p = serial8250_init_fixed_type_port (copy_port port ((ps_slots st ! i)\<lparr>pt_dead := True, pt_type := PORT_UNKNOWN\<rparr>)) (pt_type port)"
  have p: "pt_iotype p = UPIO_PORT" "pt_iobase p = pt_iobase port" "pt_regshift p = pt_regshift port" "pt_fixed_type p" "pt_boot_autoconf p"
      "pt_type p = pt_type port"
    using assms(6,9) by (simp_all add: p_def serial8250_init_fixed_type_port_def copy_port_def)
  have r: "IoRegion (pt_iobase p) (serial8250_port_size p) = IoRegion (pt_iobase port) (push_bit (pt_regshift port) 8)"
    using p by (simp add: serial8250_port_size_def)
  have mm: "\<not> mem_mapped p" using p(1) by (simp add: mem_mapped_def)
  have std: "serial8250_request_std_resource ke p (ps_res st) = (- 16, p, ps_res st)"
    using assms(11) mm by (simp add: serial8250_request_std_resource_def Let_def r)
  have conf: "uart_configure_port ke i p (ps_res st) = (p, ps_res st)"
    using p assms(10) std by (simp add: uart_configure_port_def serial8250_config_port_def)
  let ?st1 = "st\<lparr>ps_slots := (ps_slots st)[i := p\<lparr>pt_dead := False\<rparr>], ps_attached := (ps_attached st)[i := True]\<rparr>"
  have reg: "serial8250_register_port ke nr port st = Inr (int i, ?st1)"
    using assms(1-4,6) i conf
    by (simp add: serial8250_register_port_def uart_remove_one_port_def uart_add_one_port_def Let_def p_def [symmetric])
  have size: "serial8250_port_size (p\<lparr>pt_dead := True\<rparr>) = serial8250_port_size p" "mem_mapped (p\<lparr>pt_dead := True\<rparr>) = mem_mapped p"
    by (simp_all add: serial8250_port_size_def mem_mapped_def)
  have rel: "serial8250_release_port (p\<lparr>pt_dead := True\<rparr>) (ps_res st) = (p\<lparr>pt_dead := True\<rparr>, release_region (IoRegion (pt_iobase port) (push_bit (pt_regshift port) 8)) (ps_res st))"
    using mm p assms(8) r by (simp add: serial8250_release_port_def serial8250_release_std_resource_def size)
  obtain st2 where "serial8250_unregister_port ke i ?st1 = Inr st2"
      "ps_res st2 = release_region (IoRegion (pt_iobase port) (push_bit (pt_regshift port) 8)) (ps_res st)"
    using i assms(4,5,7) rel p(6) by (simp add: serial8250_unregister_port_def uart_remove_one_port_def Let_def)
  with reg show ?thesis by (intro exI [of _ ?st1] exI [of _ st2]) simp
qed

theorem register_finds_again_witness:
  "\<exists>st1 st2. serial8250_register_port kport0 2 port_com1 two_slots = Inr (0, st1) \<and>
    serial8250_register_port kport0 2 port_com1 st1 = Inr (0, st2)"
proof -
  have t: "\<not> pt_fixed_type port_com1" "\<And>i q. kp_found kport0 i q \<noteq> PORT_RSA" "pt_iotype port_com1 \<noteq> UPIO_HUB6" "pt_uartclk port_com1 \<noteq> 0"
    by (simp_all add: port_com1_def kport0_def)
  have "serial8250_find_match_or_unused 2 (ps_slots two_slots) port_com1 = Some 0"
    by (simp add: serial8250_find_match_or_unused_def two_slots_def empty_slot_def port_com1_def uart_match_port_def)
  with register_ok [OF ports_reach_ok [OF two_slots_reach] t(1,2), of 2] t(4)
  obtain st1 where r: "serial8250_register_port kport0 2 port_com1 two_slots = Inr (0, st1)" by auto
  from register_finds_again [OF two_slots_reach t(1) t(2) t(2) t(3) r] r show ?thesis by auto
qed

theorem fixed_type_releases_foreign_witness:
  "\<exists>st1 st2. serial8250_register_port (kport0\<lparr>kp_grant := \<lambda>_ _. False\<rparr>) 2 (port_com1\<lparr>pt_fixed_type := True, pt_type := PORT_16550A\<rparr>)
      (two_slots\<lparr>ps_res := \<lparr>kr_held = [IoRegion 0x3F8 8], kr_maps = []\<rparr>\<rparr>) = Inr (0, st1) \<and>
    kr_held (ps_res st1) = [IoRegion 0x3F8 8] \<and>
    serial8250_unregister_port (kport0\<lparr>kp_grant := \<lambda>_ _. False\<rparr>) 0 st1 = Inr st2 \<and> kr_held (ps_res st2) = []"
proof -
  have "serial8250_find_match_or_unused 2 (ps_slots (two_slots\<lparr>ps_res := \<lparr>kr_held = [IoRegion 0x3F8 8], kr_maps = []\<rparr>\<rparr>))
      (port_com1\<lparr>pt_fixed_type := True, pt_type := PORT_16550A\<rparr>) = Some 0"
    by (simp add: serial8250_find_match_or_unused_def two_slots_def empty_slot_def port_com1_def uart_match_port_def)
  from fixed_type_releases_foreign [OF this, of "kport0\<lparr>kp_grant := \<lambda>_ _. False\<rparr>"]
  show ?thesis by (auto simp: two_slots_def empty_slot_def port_com1_def release_region_def)
qed

end
