(* ===== verification/Linux_Console.thy ===== *)
theory Linux_Console
  imports Linux_8250_Line Linux_Ports
begin

unbundle bit_operations_syntax

text \<open>
  The kernel's messages on a serial port: of \<open>serial_core.c\<close> the output with carriage returns, the choice
  of the port, the parser of console options, setting a port up from them and the debugger's calls; of
  \<open>8250.c\<close> the console's \<open>write\<close> and \<open>setup\<close>, the early set-up of a port and the search for one.
  The kernel's \<open>simple_strtoul\<close> is an argument.
\<close>

section \<open>Output\<close>

fun uart_console_write :: "('s \<Rightarrow> u8 \<Rightarrow> 's res) \<Rightarrow> u8 list \<Rightarrow> 's \<Rightarrow> 's res" where
  "uart_console_write put [] s = Inr s"
| "uart_console_write put (c # cs) s =
     rbind (if c = 10 then put s 13 else Inr s) (\<lambda>s.
     rbind (put s c) (\<lambda>s. uart_console_write put cs s))"

definition serial8250_console_putchar :: "'d bus \<Rightarrow> 'd pd \<Rightarrow> u8 \<Rightarrow> 'd pd res" where
  "serial8250_console_putchar b = (\<lambda>(up, d) ch.
     rbind (wait_for_xmitr b 0x20 up d) (\<lambda>(up, d).
     rbind (bus_write b d R_RXTX ch) (\<lambda>d. Inr (up, d))))"

definition serial8250_console_write :: "'d bus \<Rightarrow> port8250 \<Rightarrow> 'd \<Rightarrow> u8 list \<Rightarrow> 'd pd res" where
  "serial8250_console_write b up d s =
     rbind (bus_read b d R_IER) (\<lambda>(ier, d).
     rbind (bus_write b d R_IER (if capabilities up AND UART_CAP_UUE \<noteq> 0 then 0x40 else 0)) (\<lambda>d.
     rbind (uart_console_write (serial8250_console_putchar b) s (up, d)) (\<lambda>(up, d).
     rbind (wait_for_xmitr b 0x60 up d) (\<lambda>(up, d).
     rbind (bus_write b d R_IER ier) (\<lambda>d.
     if msr_saved_flags up \<noteq> 0 then rbind (serial8250_modem_status b up d) (\<lambda>(_, up, d). Inr (up, d))
     else Inr (up, d))))))"

section \<open>Options\<close>

text \<open>The first port with an address, or the number of ports when there is none.\<close>

fun console_loop :: "uport list \<Rightarrow> nat" where
  "console_loop [] = 0"
| "console_loop (p # ps) = (if pt_iobase p \<noteq> 0 \<or> pt_membase p \<noteq> None then 0 else Suc (console_loop ps))"

definition uart_get_console :: "uport list \<Rightarrow> int \<Rightarrow> nat" where
  "uart_get_console ports idx =
     (if idx < 0 \<or> int (length ports) \<le> idx \<or>
         pt_iobase (ports ! nat idx) = 0 \<and> pt_membase (ports ! nat idx) = None
      then console_loop ports else nat idx)"

text \<open>The rate, the parity, the number of bits and the flow control.\<close>

type_synonym console_opts = "u32 \<times> char \<times> int \<times> char"

definition uart_parse_options :: "(string \<Rightarrow> u64) \<Rightarrow> string \<Rightarrow> console_opts \<Rightarrow> console_opts" where
  "uart_parse_options strtoul options = (\<lambda>(baud, parity, bits, flow).
     (let baud = ucast (strtoul options);
          s = dropWhile (\<lambda>c. c \<in> set ''0123456789'') options;
          (parity, s) = (case s of [] \<Rightarrow> (parity, []) | c # s \<Rightarrow> (c, s));
          (bits, s) = (case s of [] \<Rightarrow> (bits, []) | c # s \<Rightarrow> (int (of_char c) - 48, s));
          flow = (case s of [] \<Rightarrow> flow | c # s \<Rightarrow> c)
      in (baud, parity, bits, flow)))"

definition baud_rates :: "(u32 \<times> u32) list" where
  "baud_rates =
     [(921600, 921600), (460800, 460800), (230400, 230400), (115200, 115200), (57600, 57600), (38400, 38400), (19200, 19200),
      (9600, 9600), (4800, 4800), (2400, 2400), (1200, 1200), (0, 38400)]"

text \<open>The search for a rate that is not above the one asked for; the comparison is one of unsigned numbers.\<close>

fun rate_loop :: "u32 \<Rightarrow> (u32 \<times> u32) list \<Rightarrow> u32 res" where
  "rate_loop baud [] = Inl OutOfBounds"
| "rate_loop baud ((rate, c) # rs) = (if rate = 0 \<or> rate \<le> baud then Inr c else rate_loop baud rs)"

definition zero_iflags :: iflags where
  "zero_iflags = \<lparr>if_inpck = False, if_brkint = False, if_parmrk = False, if_ignpar = False, if_ignbrk = False, if_ixoff = False\<rparr>"

definition console_cflag :: "u32 \<Rightarrow> char \<Rightarrow> int \<Rightarrow> char \<Rightarrow> cflags" where
  "console_cflag rate parity bits flow =
     \<lparr>cf_size = (if bits = 7 then CS7 else CS8), cf_stopb = False,
      cf_parenb = (parity \<in> set ''oOeE''), cf_parodd = (parity \<in> set ''oO''), cf_cmspar = False,
      cf_crtscts = (flow = CHR ''r''), cf_clocal = True, cf_cread = True, cf_hupcl = True, cf_baud = Some rate\<rparr>"

text \<open>\<open>co\<close> says whether a console is given, whose flags are set.\<close>

definition uart_set_options :: "kernel \<Rightarrow> 'd bus \<Rightarrow> port8250 \<Rightarrow> 'd \<Rightarrow> bool \<Rightarrow> console_opts \<Rightarrow> 'd pd res" where
  "uart_set_options ke b up d co = (\<lambda>(baud, parity, bits, flow).
     rbind (rate_loop baud baud_rates) (\<lambda>rate.
     let t = \<lparr>c_cflag = console_cflag rate parity bits flow, c_iflag = zero_iflags, c_start = 0, c_stop = 0\<rparr>;
         dummy = \<lparr>c_cflag = \<lparr>cf_size = CS5, cf_stopb = False, cf_parenb = False, cf_parodd = False, cf_cmspar = False,
             cf_crtscts = False, cf_clocal = False, cf_cread = False, cf_hupcl = False, cf_baud = None\<rparr>,
           c_iflag = zero_iflags, c_start = 0, c_stop = 0\<rparr>;
         up = up\<lparr>port_mctrl := (port_mctrl up)\<lparr>m_dtr := True\<rparr>\<rparr>
     in rbind (serial8250_do_set_termios ke b up d t (Some dummy)) (\<lambda>(up, t, d).
        Inr (if co then up\<lparr>cons_cflag := Some (c_cflag t)\<rparr> else up, d))))"

section \<open>Setting up\<close>

abbreviation (input) default_opts :: console_opts where "default_opts \<equiv> (9600, CHR ''n'', 8, CHR ''n'')"

text \<open>
  The port is one of \<open>serial8250_ports\<close>, of which \<open>addr\<close> says whether it has an address; the result is
  the value returned, the console's index and the ports.
\<close>

definition serial8250_console_setup :: "(string \<Rightarrow> u64) \<Rightarrow> kernel \<Rightarrow> 'd bus \<Rightarrow> (nat \<Rightarrow> bool) \<Rightarrow> u32 \<Rightarrow> 'd pd list \<Rightarrow> u32 \<Rightarrow>
    string option \<Rightarrow> (int \<times> u32 \<times> 'd pd list) res" where
  "serial8250_console_setup strtoul ke b addr nr_uarts ports index options =
     (let index = (if nr_uarts \<le> index then 0 else index)
      in rbind (arr_get ports (unat index)) (\<lambda>(up, d).
         if \<not> addr (unat index) then Inr (- 19, index, ports)
         else
           let opts = (case options of None \<Rightarrow> default_opts | Some s \<Rightarrow> uart_parse_options strtoul s default_opts)
           in rbind (uart_set_options ke b up d True opts) (\<lambda>(up, d).
              rbind (arr_set ports (unat index) (up, d)) (\<lambda>ports. Inr (0, index, ports)))))"

text \<open>The debugger's calls, on a line whose port may be gone.\<close>

definition uart_poll_init :: "(string \<Rightarrow> u64) \<Rightarrow> kernel \<Rightarrow> 'd bus \<Rightarrow> 'd pd option \<Rightarrow> string option \<Rightarrow> (int \<times> 'd pd option) res" where
  "uart_poll_init strtoul ke b port options =
     (case port of
        None \<Rightarrow> Inr (- 1, None)
      | Some (up, d) \<Rightarrow>
          case options of
            None \<Rightarrow> Inr (0, port)
          | Some s \<Rightarrow>
              rbind (uart_set_options ke b up d False (uart_parse_options strtoul s default_opts)) (\<lambda>p. Inr (0, Some p)))"

definition uart_poll_get_char :: "'d bus \<Rightarrow> 'd pd option \<Rightarrow> (int \<times> u8 option \<times> 'd pd option) res" where
  "uart_poll_get_char b port =
     (case port of
        None \<Rightarrow> Inr (- 1, None, None)
      | Some (up, d) \<Rightarrow> rbind (serial8250_get_poll_char b d) (\<lambda>(c, d). Inr (0, c, Some (up, d))))"

definition uart_poll_put_char :: "'d bus \<Rightarrow> 'd pd option \<Rightarrow> u8 \<Rightarrow> 'd pd option res" where
  "uart_poll_put_char b port ch =
     (case port of None \<Rightarrow> Inr None | Some (up, d) \<Rightarrow> rbind (serial8250_put_poll_char b up d ch) (\<lambda>p. Inr (Some p)))"

text \<open>The first of the ports that is the given one; \<open>- 19\<close> is \<open>-ENODEV\<close>.\<close>

definition serial8250_find_port :: "nat \<Rightarrow> uport list \<Rightarrow> uport \<Rightarrow> int" where
  "serial8250_find_port nr_uarts slots p =
     (case first_slot (uart_match_port p) (take nr_uarts slots) of None \<Rightarrow> - 19 | Some line \<Rightarrow> int line)"

text \<open>\<open>slots\<close> is what \<open>serial8250_isa_init_ports\<close> has made of the table.\<close>

definition early_serial_setup :: "nat \<Rightarrow> uport \<Rightarrow> uport list \<Rightarrow> int \<times> uport list" where
  "early_serial_setup line port slots =
     (if length slots \<le> line then (- 19, slots)
      else
        let p = slots ! line;
            new = port\<lparr>pt_hub6 := pt_hub6 p, pt_dev := pt_dev p, pt_caps := pt_caps p, pt_tx_loadsz := pt_tx_loadsz p,
                       pt_nomsr := pt_nomsr p\<rparr>
        in (0, slots[line := new]))"

end
