(* ===== verification/Linux_8250_Inv.thy ===== *)
theory Linux_8250_Inv
  imports Linux_8250 Fifo
begin

unbundle bit_operations_syntax

text \<open>
  Invariants of the 8250 driver: the transmit buffer is a bounded queue of 4095 bytes, no routine of
  the driver faults on a device whose registers can always be accessed (\<open>total_bus\<close>), and the
  shared interrupt handler leaves no source of its ring unattended (\<open>irq_sources\<close>).
\<close>

text \<open>The loops without a pattern are unfolded by hand.\<close>

lemmas loop_simps =
  uart_write_loop.simps clear_rx_loop.simps rx_chars_loop.simps wait_lsr_loop.simps irq_loop.simps

declare loop_simps [simp del]

section \<open>The transmit buffer is a bounded queue\<close>

definition circ_ok :: "circ_buf \<Rightarrow> bool" where
  "circ_ok c \<longleftrightarrow> (\<exists>b. cb_buf c = Some b \<and> length b = UART_XMIT_SIZE) \<and> cb_head c < UART_XMIT_SIZE \<and>
     cb_tail c < UART_XMIT_SIZE"

definition circ_view :: "circ_buf \<Rightarrow> u8 list" where
  "circ_view c = ring_view (the (cb_buf c)) (cb_tail c) (circ_cnt c)"

definition circ_put :: "u8 \<Rightarrow> circ_buf \<Rightarrow> circ_buf" where
  "circ_put x c = (case uart_put_char c x of Inr (_, c') \<Rightarrow> c' | Inl _ \<Rightarrow> c)"

definition circ_get :: "circ_buf \<Rightarrow> circ_buf" where
  "circ_get c = c\<lparr>cb_tail := (cb_tail c + 1) mod UART_XMIT_SIZE\<rparr>"

definition circ_first :: "circ_buf \<Rightarrow> u8" where
  "circ_first c = the (cb_buf c) ! cb_tail c"

lemma circ_okE:
  assumes "circ_ok c"
  obtains b where "cb_buf c = Some b" "length b = UART_XMIT_SIZE" "cb_head c < UART_XMIT_SIZE" "cb_tail c < UART_XMIT_SIZE"
  using assms by (auto simp: circ_ok_def)

text \<open>The counts by cases, so that arithmetic sees no \<open>mod\<close>.\<close>

lemma circ_cnt_cases:
  "cb_head c < UART_XMIT_SIZE \<Longrightarrow> cb_tail c < UART_XMIT_SIZE \<Longrightarrow>
     circ_cnt c = (if cb_tail c \<le> cb_head c then cb_head c - cb_tail c else cb_head c + UART_XMIT_SIZE - cb_tail c)"
  by (simp add: circ_cnt_def mod_if)

lemma circ_space_cases:
  "cb_head c < UART_XMIT_SIZE \<Longrightarrow> cb_tail c < UART_XMIT_SIZE \<Longrightarrow> circ_space c = 4095 - circ_cnt c"
  by (simp add: circ_cnt_cases circ_space_def mod_if) arith

lemma circ_head_eq:
  "cb_head c < UART_XMIT_SIZE \<Longrightarrow> cb_tail c < UART_XMIT_SIZE \<Longrightarrow>
     cb_head c = (cb_tail c + circ_cnt c) mod UART_XMIT_SIZE"
  by (simp add: circ_cnt_cases mod_if)

lemma circ_cnt_le: "circ_ok c \<Longrightarrow> circ_cnt c \<le> 4095"
  by (auto elim!: circ_okE simp: circ_cnt_cases)

lemma circ_space_ok: "circ_ok c \<Longrightarrow> circ_space c = 4095 - circ_cnt c"
  by (auto elim!: circ_okE simp: circ_space_cases)

lemma uart_put_char_ok:
  assumes "cb_buf c = Some b" "length b = UART_XMIT_SIZE" "cb_head c < UART_XMIT_SIZE" "circ_space c \<noteq> 0"
  shows "uart_put_char c x =
    Inr (True, c\<lparr>cb_buf := Some (b[cb_head c := x]), cb_head := (cb_head c + 1) mod UART_XMIT_SIZE\<rparr>)"
  using assms by (simp add: uart_put_char_def)

lemma circ_put_eq:
  assumes "cb_buf c = Some b" "length b = UART_XMIT_SIZE" "cb_head c < UART_XMIT_SIZE" "circ_space c \<noteq> 0"
  shows "circ_put x c = c\<lparr>cb_buf := Some (b[cb_head c := x]), cb_head := (cb_head c + 1) mod UART_XMIT_SIZE\<rparr>"
  by (simp add: circ_put_def uart_put_char_ok [OF assms])

interpretation txq: bounded_fifo circ_view circ_ok circ_cnt 4095 circ_put circ_get circ_first
proof
  fix c :: circ_buf and x :: u8
  assume ok: "circ_ok c"
  then obtain b where b: "cb_buf c = Some b" "length b = UART_XMIT_SIZE" "cb_head c < UART_XMIT_SIZE"
      "cb_tail c < UART_XMIT_SIZE"
    by (rule circ_okE)
  show "circ_cnt c = length (circ_view c)" by (simp add: circ_view_def)
  show "circ_cnt c \<le> 4095" by (rule circ_cnt_le [OF ok])
  show "circ_ok (circ_put x c)" "circ_view (circ_put x c) = circ_view c @ [x]" if lt: "circ_cnt c < 4095"
  proof -
    have "circ_space c \<noteq> 0" using lt by (simp add: circ_space_ok [OF ok])
    note put = circ_put_eq [OF b(1,2,3) this, of x]
    show ok': "circ_ok (circ_put x c)" using b by (simp add: circ_ok_def put)
    have "circ_cnt (circ_put x c) = Suc (circ_cnt c)"
      using b lt circ_cnt_cases [of "circ_put x c"] by (auto simp: put circ_cnt_cases mod_if split: if_splits)
    then show "circ_view (circ_put x c) = circ_view c @ [x]"
      using ring_view_put [of "circ_cnt c" b "cb_tail c" x] lt b(2) circ_head_eq [OF b(3,4)]
      by (simp add: circ_view_def put b(1))
  qed
  show "circ_ok (circ_get c)" "circ_view c = circ_first c # circ_view (circ_get c)" if "0 < circ_cnt c"
  proof -
    show "circ_ok (circ_get c)" using b by (simp add: circ_ok_def circ_get_def)
    have "circ_cnt (circ_get c) = circ_cnt c - 1"
      using b that circ_cnt_cases [of "circ_get c"]
      by (auto simp: circ_get_def circ_cnt_cases mod_if split: if_splits)
    then show "circ_view c = circ_first c # circ_view (circ_get c)"
      using ring_view_get [OF that, of "cb_tail c" b] b
      by (simp add: circ_view_def circ_first_def circ_get_def ring_next_mod)
  qed
qed

lemma circ_get_simps [simp]: "cb_buf (circ_get c) = cb_buf c" "cb_head (circ_get c) = cb_head c"
  by (simp_all add: circ_get_def)

lemma circ_view_nil: "circ_ok c \<Longrightarrow> circ_view c = [] \<longleftrightarrow> circ_cnt c = 0"
  using txq.count_view by auto

lemma circ_cnt_get: "circ_ok c \<Longrightarrow> 0 < circ_cnt c \<Longrightarrow> circ_cnt (circ_get c) = circ_cnt c - 1"
  using txq.count_view [of c] txq.count_view [of "circ_get c"] txq.view_get [of c] txq.ok_get [of c] by simp

text \<open>A block copied into the free part before the end of the buffer is so many puts.\<close>

lemma fold_circ_put:
  assumes "cb_buf c = Some b" "circ_ok c" "length xs \<le> circ_space_to_end c"
  shows "fold circ_put xs c =
    c\<lparr>cb_buf := Some (take (cb_head c) b @ xs @ drop (cb_head c + length xs) b),
      cb_head := (cb_head c + length xs) mod UART_XMIT_SIZE\<rparr>"
  using assms
proof (induction xs arbitrary: c b)
  case Nil
  then have "cb_head c < UART_XMIT_SIZE" by (simp add: circ_ok_def)
  with Nil show ?case by simp
next
  case (Cons x xs)
  have b: "length b = UART_XMIT_SIZE" "cb_head c < UART_XMIT_SIZE" "cb_tail c < UART_XMIT_SIZE"
    using Cons.prems(1,2) by (auto elim!: circ_okE)
  have sp: "Suc (length xs) \<le> circ_space c" "Suc (length xs) \<le> UART_XMIT_SIZE - cb_head c"
    using Cons.prems(3) by (simp_all add: circ_space_to_end_def)
  then have "circ_space c \<noteq> 0" by simp
  note put = circ_put_eq [OF Cons.prems(1) b(1,2) this, of x]
  show ?case
  proof (cases "xs = []")
    case True
    with put b show ?thesis by (simp add: upd_conv_take_nth_drop)
  next
    case False
    then have h: "Suc (cb_head c) < UART_XMIT_SIZE" using sp(2) by (cases xs) auto
    have lt: "circ_cnt c < 4095" using sp(1) by (simp add: circ_space_ok [OF Cons.prems(2)])
    have ok': "circ_ok (circ_put x c)" by (rule txq.ok_put [OF Cons.prems(2) lt])
    have "circ_space (circ_put x c) = circ_space c - 1"
      using txq.count_put [OF Cons.prems(2) lt] circ_space_ok [OF ok'] circ_space_ok [OF Cons.prems(2)] by simp
    moreover have "cb_head (circ_put x c) = Suc (cb_head c)" using h by (simp add: put)
    ultimately have le: "length xs \<le> circ_space_to_end (circ_put x c)"
      using sp unfolding circ_space_to_end_def by linarith
    have "cb_buf (circ_put x c) = Some (b[cb_head c := x])" by (simp add: put)
    from Cons.IH [OF this ok' le] h b show ?thesis
      by (simp add: put take_update_append)
  qed
qed

lemma uart_write_loop_ok:
  "circ_ok c \<Longrightarrow> uart_write_loop c buf ret =
     Inr (ret + min (length buf) (4095 - circ_cnt c), fold circ_put (take (4095 - circ_cnt c) buf) c)"
proof (induction c buf ret rule: uart_write_loop.induct)
  case (1 c buf ret)
  obtain b where b: "cb_buf c = Some b" "length b = UART_XMIT_SIZE" "cb_head c < UART_XMIT_SIZE"
    using 1(2) by (rule circ_okE)
  define k where "k = min (length buf) (circ_space_to_end c)"
  have k: "k \<le> length buf" "k \<le> 4095 - circ_cnt c" "k \<le> UART_XMIT_SIZE - cb_head c"
    by (simp_all add: k_def circ_space_to_end_def circ_space_ok [OF 1(2)])
  show ?case
  proof (cases "k = 0")
    case True
    then have "length buf = 0 \<or> 4095 - circ_cnt c = 0"
      using b(3) unfolding k_def circ_space_to_end_def circ_space_ok [OF 1(2)] by linarith
    with True show ?thesis
      by (subst uart_write_loop.simps) (auto simp: Let_def k_def [symmetric])
  next
    case False
    let ?b = "take (cb_head c) b @ take k buf @ drop (cb_head c + k) b"
    let ?c = "c\<lparr>cb_buf := Some ?b, cb_head := (cb_head c + k) mod UART_XMIT_SIZE\<rparr>"
    have cp: "arr_copy b (cb_head c) (take k buf) = Inr ?b"
      using k b by (simp add: arr_copy_def min_absorb2)
    have "length (take k buf) = k" using k(1) by simp
    then have fold: "fold circ_put (take k buf) c = ?c"
      using fold_circ_put [OF b(1) 1(2), of "take k buf"] by (simp add: k_def)
    have room: "circ_cnt c + length (take k buf) \<le> 4095" using k circ_cnt_le [OF 1(2)] by simp
    have ok: "circ_ok ?c" "circ_cnt ?c = circ_cnt c + k"
      using txq.put_all [OF 1(2) room] k(1) by (simp_all add: fold)
    have "uart_write_loop c buf ret = uart_write_loop ?c (drop k buf) (ret + k)"
      using False b(1) cp by (subst uart_write_loop.simps) (simp add: Let_def k_def [symmetric])
    also have "\<dots> = Inr (ret + k + min (length buf - k) (4095 - circ_cnt ?c),
        fold circ_put (take (4095 - circ_cnt ?c) (drop k buf)) ?c)"
      using 1(1) [OF k_def False b(1) cp ok(1)] by (simp only: length_drop)
    also have "\<dots> = Inr (ret + min (length buf) (4095 - circ_cnt c), fold circ_put (take (4095 - circ_cnt c) buf) c)"
    proof -
      have "4095 - circ_cnt c = k + (4095 - circ_cnt ?c)" using k(2) ok(2) by linarith
      then have "take (4095 - circ_cnt c) buf = take k buf @ take (4095 - circ_cnt ?c) (drop k buf)"
        using take_add [of k "4095 - circ_cnt ?c" buf] by (simp only:)
      moreover have "k + min (length buf - k) (4095 - circ_cnt ?c) = min (length buf) (4095 - circ_cnt c)"
        using k by (simp add: ok(2))
      ultimately show ?thesis by (simp add: fold)
    qed
    finally show ?thesis .
  qed
qed

text \<open>The reference for the copy in blocks: one byte after the other, until one is refused.\<close>

fun put_chars :: "circ_buf \<Rightarrow> u8 list \<Rightarrow> nat \<Rightarrow> (nat \<times> circ_buf) res" where
  "put_chars c [] ret = Inr (ret, c)"
| "put_chars c (x # xs) ret =
     rbind (uart_put_char c x) (\<lambda>(taken, c). if taken then put_chars c xs (ret + 1) else Inr (ret, c))"

lemma put_chars_ok:
  "circ_ok c \<Longrightarrow> put_chars c buf ret =
     Inr (ret + min (length buf) (4095 - circ_cnt c), fold circ_put (take (4095 - circ_cnt c) buf) c)"
proof (induction buf arbitrary: c ret)
  case (Cons x xs)
  obtain b where b: "cb_buf c = Some b" "length b = UART_XMIT_SIZE" "cb_head c < UART_XMIT_SIZE"
    using Cons.prems by (rule circ_okE)
  show ?case
  proof (cases "circ_space c = 0")
    case True
    then have "4095 - circ_cnt c = 0" by (simp add: circ_space_ok [OF Cons.prems])
    moreover have "uart_put_char c x = Inr (False, c)" using True b(1) by (simp add: uart_put_char_def)
    ultimately show ?thesis by simp
  next
    case False
    then have lt: "circ_cnt c < 4095" by (simp add: circ_space_ok [OF Cons.prems])
    then have k: "4095 - circ_cnt c = Suc (4095 - circ_cnt (circ_put x c))"
      using txq.count_put [OF Cons.prems lt, of x] by simp
    have "uart_put_char c x = Inr (True, circ_put x c)"
      using circ_put_eq [OF b False, of x] by (simp add: uart_put_char_ok [OF b False])
    then show ?thesis using Cons.IH [OF txq.ok_put [OF Cons.prems lt], of x "ret + 1"] by (simp add: k)
  qed
qed simp

text \<open>
  C32. \<open>uart_write\<close> copies in blocks what \<open>__uart_put_char\<close> would put in one byte at a time: its loop
  takes the same number of bytes and leaves the same buffer, whatever the buffer holds and wherever it wraps.
\<close>

theorem write_copies_like_puts:
  assumes "circ_ok c"
  shows "uart_write_loop c buf 0 = put_chars c buf 0"
  by (simp only: uart_write_loop_ok [OF assms] put_chars_ok [OF assms])

theorem write_copies_like_puts_witness:
  "uart_write_loop \<lparr>cb_buf = Some (replicate UART_XMIT_SIZE 0), cb_head = 4095, cb_tail = 2\<rparr> [1, 2, 3] 0 =
     put_chars \<lparr>cb_buf = Some (replicate UART_XMIT_SIZE 0), cb_head = 4095, cb_tail = 2\<rparr> [1, 2, 3] 0"
  by (rule write_copies_like_puts) (simp add: circ_ok_def)

section \<open>No routine faults on a device that answers\<close>

definition hooks_ok :: "khooks \<Rightarrow> bool" where
  "hooks_ok k \<longleftrightarrow> (\<forall>up. xmit (snd (k_handle_break k up)) = xmit up) \<and>
     (\<forall>up c. xmit (snd (k_handle_sysrq k up c)) = xmit up)"

lemma hooks_okD:
  assumes "hooks_ok k"
  shows "k_handle_break k up = (r, up') \<Longrightarrow> xmit up' = xmit up"
    and "k_handle_sysrq k up c = (r, up') \<Longrightarrow> xmit up' = xmit up"
  using assms by (metis hooks_ok_def snd_conv)+

lemma circ_ok_get [simp]: "circ_ok c \<Longrightarrow> circ_ok (c\<lparr>cb_tail := (cb_tail c + 1) mod UART_XMIT_SIZE\<rparr>)"
  by (simp add: circ_ok_def)

locale total_bus =
  fixes b :: "'d bus"
    and good :: "'d \<Rightarrow> bool"
  assumes read_ok: "good d \<Longrightarrow> returns (\<lambda>(v, d). good d) (bus_read b d a)"
    and write_ok: "good d \<Longrightarrow> returns good (bus_write b d a v)"
begin

definition sane :: "port8250 \<times> 'd \<Rightarrow> bool" where
  "sane p \<longleftrightarrow> circ_ok (xmit (fst p)) \<and> good (snd p)"

lemma sane_pair [simp]: "sane (up, d) \<longleftrightarrow> circ_ok (xmit up) \<and> good d"
  by (simp add: sane_def)

lemma stop_tx_ier_ok: "sane (up, d) \<Longrightarrow> returns sane (stop_tx_ier b up d)"
  by (auto simp: stop_tx_ier_def Let_def intro!: returns_bind [OF write_ok])

lemma icr_write_ok: "good d \<Longrightarrow> returns good (serial_icr_write b d i v)"
  by (auto simp: serial_icr_write_def intro!: returns_bind [OF write_ok] write_ok)

lemma stop_tx_ok: "sane (up, d) \<Longrightarrow> returns sane (serial8250_stop_tx b up d)"
  unfolding serial8250_stop_tx_def
  by (rule returns_bind [OF stop_tx_ier_ok])
    (auto simp: Let_def intro!: returns_bind [OF icr_write_ok])

lemma tx_one_ok: "sane (up, d) \<Longrightarrow> returns sane (tx_one b up d)"
  by (auto simp: tx_one_def circ_ok_def intro!: returns_bind [OF write_ok])

lemma tx_fifo_loop_ok: "sane (up, d) \<Longrightarrow> returns sane (tx_fifo_loop b n up d)"
proof (induction n arbitrary: up d)
  case (Suc n)
  then show ?case by (auto intro!: returns_bind [OF tx_one_ok])
qed (simp add: tx_one_ok)

lemma tx_chars_ok: "sane (up, d) \<Longrightarrow> returns sane (serial8250_tx_chars b up d)"
  unfolding serial8250_tx_chars_def
  by (auto intro!: stop_tx_ok stop_tx_ier_ok returns_bind [OF tx_fifo_loop_ok])
    (auto intro!: returns_bind [OF write_ok])

lemma start_tx_ok: "sane (up, d) \<Longrightarrow> returns sane (serial8250_start_tx b up d)"
  unfolding serial8250_start_tx_def
  by (rule returns_bind [of sane])
    (auto simp: Let_def intro!: returns_bind [OF write_ok] returns_bind [OF read_ok] returns_bind [OF icr_write_ok],
      auto intro!: tx_chars_ok)

lemma uart_start_ok: "sane (up, d) \<Longrightarrow> returns sane (uart_start b up d)"
  by (simp add: uart_start_def start_tx_ok)

lemma uart_write_ok:
  assumes s: "sane (up, d)"
  shows "returns (\<lambda>(n, p). sane p) (uart_write b up d buf)"
proof -
  have ok: "circ_ok (xmit up)" using s by simp
  have "circ_cnt (xmit up) + length (take (4095 - circ_cnt (xmit up)) buf) \<le> 4095"
    using circ_cnt_le [OF ok] by simp
  from txq.put_all [OF ok this] s show ?thesis
    by (auto simp: uart_write_def uart_write_loop_ok [OF ok] intro!: returns_bind [OF uart_start_ok])
qed

lemma clear_rx_ok: "good d \<Longrightarrow> returns good (clear_rx_loop b n d)"
proof (induction n arbitrary: d)
  case 0
  then show ?case by (subst loop_simps) (auto intro!: returns_bind [OF read_ok])
next
  case (Suc n)
  then show ?case by (subst loop_simps) (auto intro!: returns_bind [OF read_ok])
qed

lemma rx_error_ok:
  assumes "hooks_ok k" and "sane (up, d)"
  shows "returns (\<lambda>(skip, lsr, flag, p). sane p) (rx_error k b up d lsr)"
  unfolding rx_error_def Let_def
  by (rule returns_bind [of good])
    (use assms in \<open>auto simp: clear_rx_fifo_def clear_rx_ok split: prod.splits dest!: hooks_okD(1) [OF assms(1)]\<close>)

lemma insert_char_xmit [simp]: "xmit (uart_insert_char up st ov ch flag) = xmit up"
  by (simp add: uart_insert_char_def Let_def)

lemma rx_one_ok:
  assumes "hooks_ok k" and "sane (up, d)"
  shows "returns (\<lambda>(lsr, p). sane p) (rx_one k b up d lsr)"
  unfolding rx_one_def Let_def
proof (rule returns_bind [of "\<lambda>(ch, d). good d"], goal_cases)
  case 1
  then show ?case using assms by (simp add: read_ok)
next
  case (2 cd)
  then show ?case
    using assms
    by (cases cd) (auto simp: split: prod.splits dest!: hooks_okD(2) [OF assms(1)]
      intro!: returns_bind [OF read_ok] returns_bind [of "\<lambda>(skip, lsr, flag, p). sane p"] rx_error_ok)
qed

lemma rx_chars_loop_ok:
  assumes "hooks_ok k"
  shows "sane (up, d) \<Longrightarrow> returns (\<lambda>(lsr, p). sane p) (rx_chars_loop k b n up d lsr)"
proof (induction n arbitrary: up d lsr)
  case 0
  show ?case by (subst loop_simps) (auto intro!: returns_bind [OF rx_one_ok [OF assms 0]])
next
  case (Suc n)
  show ?case by (subst loop_simps) (auto intro!: returns_bind [OF rx_one_ok [OF assms Suc.prems]] Suc.IH)
qed

lemma rx_chars_ok: "hooks_ok k \<Longrightarrow> sane (up, d) \<Longrightarrow> returns (\<lambda>(lsr, p). sane p) (serial8250_rx_chars k b up d lsr)"
  by (simp add: serial8250_rx_chars_def rx_chars_loop_ok)

lemma cts_change_ok: "sane (up, d) \<Longrightarrow> returns sane (uart_handle_cts_change b up d status)"
  by (auto simp: uart_handle_cts_change_def Let_def
      intro!: start_tx_ok stop_tx_ok)

lemma modem_status_ok: "sane (up, d) \<Longrightarrow> returns (\<lambda>(status, p). sane p) (serial8250_modem_status b up d)"
  unfolding serial8250_modem_status_def
  by (rule returns_bind [OF read_ok])
    (auto simp: Let_def uart_handle_dcd_change_def split: if_splits
      intro!: returns_bind [OF cts_change_ok])

lemma handle_irq_ok:
  assumes "hooks_ok k" and "sane (up, d)"
  shows "returns (\<lambda>(r, p). sane p) (serial8250_handle_irq k b up d iir)"
  using assms
  by (auto simp: serial8250_handle_irq_def
      intro!: returns_bind [OF read_ok] returns_bind [of "\<lambda>(status, p). sane p"] returns_bind [OF modem_status_ok]
        returns_bind [of sane] rx_chars_ok tx_chars_ok)

lemma default_handle_irq_ok:
  assumes "hooks_ok k" and "sane (up, d)"
  shows "returns (\<lambda>(r, p). sane p) (serial8250_default_handle_irq k b up d)"
  using assms
  by (auto simp: serial8250_default_handle_irq_def intro!: returns_bind [OF read_ok] handle_irq_ok)

end

section \<open>The shared interrupt\<close>

text \<open>The places of the ring from \<open>e\<close> up to, not including, \<open>l\<close>, which is another place.\<close>

definition ring_between :: "nat \<Rightarrow> nat \<Rightarrow> nat \<Rightarrow> bool" where
  "ring_between e l j \<longleftrightarrow> (if e < l then e \<le> j \<and> j < l else e \<le> j \<or> j < l)"

lemma ring_between_step:
  assumes "j < n" "l < n" "e < n" "e \<noteq> l" "l' = (if Suc l = n then 0 else Suc l)"
  shows "e \<noteq> l' \<Longrightarrow> ring_between e l' j \<Longrightarrow> j = l \<or> ring_between e l j"
    and "e = l' \<Longrightarrow> j = l \<or> ring_between e l j"
  using assms by (auto simp: ring_between_def split: if_splits)

lemma ring_between_start:
  assumes "j < n" "l < n" "l' = (if Suc l = n then 0 else Suc l)"
  shows "l \<noteq> l' \<Longrightarrow> ring_between l l' j \<Longrightarrow> j = l" and "l = l' \<Longrightarrow> j = l"
  using assms by (auto simp: ring_between_def split: if_splits)

text \<open>A handler that says it had nothing to do leaves its source quiet.\<close>

locale irq_sources =
  fixes h :: "'s \<Rightarrow> (bool \<times> 's) res"
    and good :: "'s \<Rightarrow> bool"
    and quiet :: "'s \<Rightarrow> bool"
  assumes h_ok: "good p \<Longrightarrow> returns (\<lambda>(r, p). good p \<and> (r \<or> quiet p)) (h p)"
begin

definition calm :: "'s list \<Rightarrow> nat option \<Rightarrow> nat \<Rightarrow> bool" where
  "calm ps fin l \<longleftrightarrow> (\<forall>e. fin = Some e \<longrightarrow> e < length ps \<and> e \<noteq> l \<and>
     (\<forall>j<length ps. ring_between e l j \<longrightarrow> quiet (ps ! j)))"

definition settled :: "'s list \<Rightarrow> bool \<times> 's list \<times> bool \<Rightarrow> bool" where
  "settled ps = (\<lambda>(handled, ps', lim). length ps' = length ps \<and> list_all good ps' \<and>
     (lim \<or> list_all quiet ps'))"

lemma calm_step:
  assumes "calm ps fin l" and "l < length ps" and l': "l' = (if Suc l = length ps then 0 else Suc l)"
    and "r \<or> quiet p" and fin': "fin' = (if r then None else if fin = None then Some l else fin)"
  shows "if fin' = Some l' then list_all quiet (ps[l := p]) else calm (ps[l := p]) fin' l'"
proof (cases "r")
  case True
  then show ?thesis using fin' by (simp add: calm_def)
next
  case False
  then have q: "quiet (ps[l := p] ! j)" if "j < length ps" "j = l \<or> quiet (ps ! j)" for j
    using assms(4) that False by (cases "j = l") auto
  obtain e where e: "fin' = Some e" "fin = None \<and> e = l \<or> fin = Some e"
    using False fin' by (cases fin) auto
  from e(2) have "if e = l' then \<forall>j<length ps. j = l \<or> quiet (ps ! j)
      else e < length ps \<and> (\<forall>j<length ps. ring_between e l' j \<longrightarrow> j = l \<or> quiet (ps ! j))"
  proof
    assume "fin = None \<and> e = l"
    with ring_between_start [OF _ assms(2) l'] assms(2) show ?thesis by auto
  next
    assume "fin = Some e"
    with assms(1) have e': "e < length ps" "e \<noteq> l" "\<And>j. j < length ps \<Longrightarrow> ring_between e l j \<Longrightarrow> quiet (ps ! j)"
      by (simp_all add: calm_def)
    with ring_between_step [OF _ assms(2) e'(1,2) l'] show ?thesis by (auto split: if_splits)
  qed
  with e(1) q show ?thesis by (auto simp: calm_def list_all_length split: if_splits)
qed

lemma irq_loop_settles:
  "h' = h \<Longrightarrow> list_all good ps \<Longrightarrow> l < length ps \<Longrightarrow> calm ps fin l \<Longrightarrow>
     returns (settled ps) (irq_loop h' ps l fin pass handled)"
proof (induction h' ps l fin pass handled rule: irq_loop.induct)
  case (1 h' ps l fin pass handled)
  note h = 1(2) and prems = 1(3-5)
  have "good (ps ! l)" using prems(1,2) by (simp add: list_all_length)
  then obtain r p where p: "h (ps ! l) = Inr (r, p)" "good p" "r \<or> quiet p"
    using h_ok [of "ps ! l"] by (auto elim!: returnsE)
  define l' where "l' = (if Suc l = length ps then 0 else Suc l)"
  define fin' where "fin' = (if r then None else if fin = None then Some l else fin)"
  let ?ps = "ps[l := p]" and ?handled = "if r then True else handled"
  have good: "list_all good ?ps" using prems(1,2) p(2) by (simp add: list_all_length nth_list_update)
  have l'_less: "l' < length ps" using prems(2) by (cases ps) (auto simp: l'_def)
  have calm: "if fin' = Some l' then list_all quiet ?ps else calm ?ps fin' l'"
    by (rule calm_step [OF prems(3,2) l'_def p(3) fin'_def])
  have step: "irq_loop h' ps l fin pass handled =
    (if l' = 0 \<and> pass > PASS_LIMIT then Inr (?handled, ?ps, True)
     else if fin' = Some l' then Inr (?handled, ?ps, False)
     else irq_loop h ?ps l' fin' (if l' = 0 then pass + 1 else pass) ?handled)"
    using prems(2) p(1) h by (subst irq_loop.simps) (simp add: Let_def l'_def fin'_def)
  have IH: "returns (settled ?ps) (irq_loop h ?ps l' fin' (if l' = 0 then pass + 1 else pass) ?handled)"
    if "\<not> (l' = 0 \<and> pass > PASS_LIMIT)" "fin' \<noteq> Some l'"
    using 1(1) [of "ps ! l" "(r, p)" r p ?ps ?handled fin' l' "if l' = 0 then pass + 1 else pass"] that calm good l'_less
      prems(2) p(1) h by (simp add: l'_def fin'_def)
  show ?case
    using IH calm good by (auto simp: step settled_def)
qed

lemma interrupt_settles:
  assumes "list_all good ps" and "ps \<noteq> []"
  shows "returns (settled ps) (serial8250_interrupt h ps)"
  unfolding serial8250_interrupt_def
  by (rule irq_loop_settles) (use assms in \<open>simp_all add: calm_def\<close>)

end

end
