(* ===== verification/Linux_8250_Props.thy ===== *)
theory Linux_8250_Props
  imports Linux_8250_Inv Serial_Props
begin

unbundle bit_operations_syntax

text \<open>
  The kernel's 8250 driver on QEMU's UART: \<open>uart_bus\<close> makes the registers of \<open>Serial\<close> the bus of
  \<open>Linux_8250\<close>, with the answers of the environment drawn from a sequence. What is written comes out
  at the character device, what is received reaches the tty, and the interrupt handler leaves
  every line low.
\<close>

section \<open>The UART as a bus\<close>

type_synonym uart_dev = "(nat \<Rightarrow> ser_env) \<times> serial_state"

definition uart_bus :: "uart_dev bus" where
  "uart_bus = \<lparr>
     bus_read = (\<lambda>(es, s) a. rbind (serial_ioport_read (es 0) s a) (\<lambda>(v, s). Inr (ucast v, (\<lambda>n. es (Suc n), s)))),
     bus_write = (\<lambda>(es, s) a v. rbind (serial_ioport_write (es 0) s a (ucast v)) (\<lambda>s. Inr (\<lambda>n. es (Suc n), s)))\<rparr>"

lemma uart_bus_read [simp]:
  "bus_read uart_bus (es, s) a =
     rbind (serial_ioport_read (es 0) s a) (\<lambda>(v, s). Inr (ucast v, (\<lambda>n. es (Suc n), s)))"
  by (simp add: uart_bus_def)

lemma uart_bus_write [simp]:
  "bus_write uart_bus (es, s) a v = rbind (serial_ioport_write (es 0) s a (ucast v)) (\<lambda>s. Inr (\<lambda>n. es (Suc n), s))"
  by (simp add: uart_bus_def)

definition dev_good :: "uart_dev \<Rightarrow> bool" where
  "dev_good d \<longleftrightarrow> ser_good (snd d)"

lemma dev_good_pair [simp]: "dev_good (es, s) = ser_good s"
  by (simp add: dev_good_def)

interpretation ub: total_bus uart_bus dev_good
proof
  fix d :: uart_dev and a :: nat and v :: u8
  assume good: "dev_good d"
  obtain es s where d: "d = (es, s)" by (cases d)
  obtain ret t where "serial_ioport_read (es 0) s a = Inr (ret, t)" "ser_good t"
    using ioport_read_good [of s "es 0" a] good d by auto
  then show "returns (\<lambda>(v, d). dev_good d) (bus_read uart_bus d a)" by (simp add: d)
  obtain t where "serial_ioport_write (es 0) s a (ucast v) = Inr t" "ser_good t"
    using ioport_write_good [of s "es 0" a "ucast v"] good d by auto
  then show "returns dev_good (bus_write uart_bus d a v)" by (simp add: d)
qed

section \<open>The shared interrupt\<close>

definition port_irq :: "khooks \<Rightarrow> port8250 \<times> uart_dev \<Rightarrow> (bool \<times> port8250 \<times> uart_dev) res" where
  "port_irq k p = serial8250_default_handle_irq k uart_bus (fst p) (snd p)"

definition port_good :: "khooks \<Rightarrow> port8250 \<times> uart_dev \<Rightarrow> bool" where
  "port_good k p \<longleftrightarrow> hooks_ok k \<and> ub.sane p"

definition line_low :: "port8250 \<times> uart_dev \<Rightarrow> bool" where
  "line_low p \<longleftrightarrow> \<not> irq_level (snd (snd p))"

text \<open>The driver sees no interrupt exactly when the line is low, and the read then changes nothing.\<close>

lemma iir_read:
  assumes "ser_good s"
  shows "iir s AND 0x01 \<noteq> 0 \<longleftrightarrow> \<not> irq_level s"
    and "\<not> irq_level s \<Longrightarrow> read_reg2 s = (ucast (iir s), s)"
proof -
  have coh: "iir s AND 0x0f = serial_pending s" "irq_level s = (serial_pending s \<noteq> 1)"
    using assms by (simp_all add: ser_good_def ser_inv_def irq_coherent_def)
  have low: "iir s AND 0x01 = (iir s AND 0x0f) AND 0x01" "iir s AND 0x06 = (iir s AND 0x0f) AND 0x06"
    by (simp_all add: and.assoc)
  with coh serial_pending_cases [of s] show "iir s AND 0x01 \<noteq> 0 \<longleftrightarrow> \<not> irq_level s" by auto
  show "read_reg2 s = (ucast (iir s), s)" if "\<not> irq_level s"
    using that coh low by (simp add: read_reg2_def)
qed

lemma handle_irq_result:
  "serial8250_handle_irq k b up d ii = Inr (r, up', d') \<Longrightarrow> r \<or> ii AND 0x01 \<noteq> 0 \<and> up' = up \<and> d' = d"
  by (auto simp: serial8250_handle_irq_def rbind_eq_Inr split: if_splits prod.splits)

interpretation ports: irq_sources "port_irq k" "port_good k" line_low for k
proof
  fix p
  assume good: "port_good k p"
  obtain up es s where p: "p = (up, (es, s))" by (metis surj_pair)
  have hooks: "hooks_ok k" and sane: "ub.sane (up, (es, s))" and sg: "ser_good s"
    using good by (simp_all add: port_good_def p)
  obtain r up' d' where h: "port_irq k p = Inr (r, up', d')" "ub.sane (up', d')"
    using ub.default_handle_irq_ok [OF hooks sane] by (auto simp: port_irq_def p elim!: returnsE)
  obtain t where t: "read_reg2 s = (ucast (iir s), t)" by (simp add: read_reg2_def)
  then have "serial8250_handle_irq k uart_bus up (\<lambda>n. es (Suc n), t) (iir s) = Inr (r, up', d')"
    using h(1) by (simp add: port_irq_def p serial8250_default_handle_irq_def serial_ioport_read_def)
  then have "r \<or> line_low (up', d')"
    using handle_irq_result iir_read [OF sg] t by (fastforce simp: line_low_def)
  with h hooks show "returns (\<lambda>(r, p). port_good k p \<and> (r \<or> line_low p)) (port_irq k p)"
    by (simp add: port_good_def)
qed

section \<open>Transmitting\<close>

text \<open>What the accesses of the transmitter leave alone.\<close>

definition keeps :: "serial_state \<Rightarrow> serial_state \<Rightarrow> bool" where
  "keeps s t \<longleftrightarrow> lcr t = lcr s \<and> mcr t = mcr s \<and> fcr t = fcr s \<and> recv_fifo t = recv_fifo s \<and>
     timeout_ipending t = timeout_ipending s \<and> lsr t AND 0x1F = lsr s AND 0x1F"

lemma keeps_trans: "keeps s t \<Longrightarrow> keeps t u \<Longrightarrow> keeps s u"
  by (simp add: keeps_def)

lemma keeps_refl [simp]: "keeps s s"
  by (simp add: keeps_def)

lemma keeps_update_irq [simp]: "keeps s (serial_update_irq t) = keeps s t"
  by (simp add: keeps_def)

lemma update_msl_keeps:
  "mcr (serial_update_msl e s) = mcr s" "fcr (serial_update_msl e s) = fcr s"
  "recv_fifo (serial_update_msl e s) = recv_fifo s" "chr_log (serial_update_msl e s) = chr_log s"
  "timeout_ipending (serial_update_msl e s) = timeout_ipending s"
  "thr_ipending (serial_update_msl e s) = thr_ipending s"
  by (simp_all add: serial_update_msl_def Let_def split: option.split)

lemma lsr_tx_bits:
  fixes w :: u8
  shows "(w OR 0x40) AND 0x1F = w AND 0x1F" "(w OR 0x20) AND 0x1F = w AND 0x1F"
    "(w AND - 0x41) AND 0x1F = w AND 0x1F" "(w AND - 0x21) AND 0x1F = w AND 0x1F"
proof -
  have m: "(0x40::u8) AND 0x1F = 0" "(0x20::u8) AND 0x1F = 0" "(- 0x41::u8) AND 0x1F = 0x1F" "(- 0x21::u8) AND 0x1F = 0x1F"
    by simp_all
  show "(w OR 0x40) AND 0x1F = w AND 0x1F" "(w OR 0x20) AND 0x1F = w AND 0x1F"
    by (simp_all only: bit.conj_disj_distrib2 m or.right_neutral)
  show "(w AND - 0x41) AND 0x1F = w AND 0x1F" "(w AND - 0x21) AND 0x1F = w AND 0x1F"
    by (simp_all only: and.assoc m)
qed

lemma thr_write:
  assumes "ser_good s" and "lcr s AND 0x80 = 0" and "mcr s AND 0x10 = 0"
  shows "\<exists>t. serial_ioport_write e s 0 (ucast c) = Inr t \<and> ser_good t \<and> keeps s t \<and> ier t = ier s \<and>
    thr_ipending t \<and> chr_log t = chr_log s @ [ChrWrite c]"
proof -
  have inv: "ser_inv s" using assms(1) by (simp add: ser_good_def)
  obtain t where t: "serial_ioport_write e s 0 (ucast c) = Inr t" "ser_good t"
    using ioport_write_good [OF assms(1)] by blast
  let ?l = "thr_loaded s (ucast c)"
  note l = thr_loaded_props [OF inv, of "ucast c"]
  have "keeps s ?l" "ier ?l = ier s" by (simp_all add: thr_loaded_def keeps_def lsr_tx_bits)
  moreover have "serial_xmit e ?l = Inr t"
    using t(1) by (simp add: serial_ioport_write_def write_reg0_thr [OF inv assms(2)])
  moreover have "fcount (xmit_fifo ?l) = (if fcr s AND 1 \<noteq> 0 then 1 else 0)" using l(11) by simp
  ultimately show ?thesis
    using t l assms(3)
    by (auto simp: serial_xmit_def xmit_fetch_def xmit_send_def xmit_done_def Let_def fifos_ok_def fifo_get_xmit
        keeps_def lsr_tx_bits u8_flags bit_simps bit_numeral_rec split: if_splits)
qed

lemma ier_write:
  assumes "ser_good s" and "lcr s AND 0x80 = 0"
  shows "\<exists>t. serial_ioport_write e s 1 (ucast v) = Inr t \<and> ser_good t \<and> keeps s t \<and> ier t = v AND 0x0f \<and>
    thr_ipending t \<and> chr_log t = chr_log s"
proof -
  obtain t where t: "serial_ioport_write e s 1 (ucast v) = Inr t" "ser_good t"
    using ioport_write_good [OF assms(1)] by blast
  have v: "(ucast ((ucast v :: u64) AND 0x0f) :: u8) = v AND 0x0f"
    by (rule bit_word_eqI) (auto simp: bit_simps word_bits dest: bit_imp_le_length)
  define s1 where "s1 = s\<lparr>ier := v AND 0x0f\<rparr>"
  define s2 where "s2 = (if 0 \<le> poll_msl s1 then
                   if ier s1 AND 0x08 \<noteq> 0 then serial_update_msl e (s1\<lparr>poll_msl := 1\<rparr>)
                   else s1\<lparr>modem_status_poll := None, poll_msl := 0\<rparr>
                 else s1)"
  have s2: "keeps s s2" "ier s2 = v AND 0x0f" "chr_log s2 = chr_log s" "lsr s2 = lsr s"
    by (simp_all add: s2_def s1_def update_msl_frame update_msl_keeps keeps_def)
  then have "lsr s2 AND 0x20 \<noteq> 0" using assms(1) by (simp add: ser_good_def ser_inv_def tx_idle_def u8_flags)
  then have "write_reg1 e s (ucast v) = Inr (serial_update_irq (s2\<lparr>thr_ipending := True\<rparr>))"
    using assms(2) by (simp add: write_reg1_def Let_def v s1_def [symmetric] s2_def [symmetric])
  then have eq: "t = serial_update_irq (s2\<lparr>thr_ipending := True\<rparr>)"
    using t(1) by (simp add: serial_ioport_write_def)
  show ?thesis
    using t s2 by (intro exI [of _ t]) (simp add: eq keeps_def)
qed

definition tx_line :: "serial_state \<Rightarrow> bool" where
  "tx_line s \<longleftrightarrow> ser_good s \<and> lcr s AND 0x80 = 0 \<and> mcr s AND 0x10 = 0"

lemma tx_line_keeps: "tx_line s \<Longrightarrow> keeps s t \<Longrightarrow> ser_good t \<Longrightarrow> tx_line t"
  by (simp add: tx_line_def keeps_def)

text \<open>The driver's transmit routines, from the queue to the device.\<close>

lemma tx_one_uart:
  assumes "circ_ok (xmit up)" and "tx_line s"
  shows "\<exists>t es'. tx_one uart_bus up (es, s) =
      Inr (up\<lparr>xmit := circ_get (xmit up), ic_tx := ic_tx up + 1\<rparr>, (es', t)) \<and>
    tx_line t \<and> keeps s t \<and> ier t = ier s \<and> thr_ipending t \<and> chr_log t = chr_log s @ [ChrWrite (circ_first (xmit up))]"
proof -
  obtain b where b: "cb_buf (xmit up) = Some b" "length b = UART_XMIT_SIZE" "cb_tail (xmit up) < UART_XMIT_SIZE"
    using assms(1) by (rule circ_okE)
  obtain t where "serial_ioport_write (es 0) s 0 (ucast (circ_first (xmit up))) = Inr t" "ser_good t" "keeps s t"
      "ier t = ier s" "thr_ipending t" "chr_log t = chr_log s @ [ChrWrite (circ_first (xmit up))]"
    using thr_write [of s "es 0" "circ_first (xmit up)"] assms(2) by (auto simp: tx_line_def)
  then show ?thesis
    using b tx_line_keeps [OF assms(2)] by (simp add: tx_one_def circ_first_def circ_get_def)
qed

lemma tx_fifo_loop_uart:
  "circ_ok (xmit up) \<Longrightarrow> 0 < circ_cnt (xmit up) \<Longrightarrow> tx_line s \<Longrightarrow>
     \<exists>q n t es'. tx_fifo_loop uart_bus m up (es, s) = Inr (up\<lparr>xmit := q, ic_tx := n\<rparr>, (es', t)) \<and>
       circ_ok q \<and> circ_view q = drop (Suc m) (circ_view (xmit up)) \<and>
       tx_line t \<and> keeps s t \<and> ier t = ier s \<and> thr_ipending t \<and>
       chr_log t = chr_log s @ map ChrWrite (take (Suc m) (circ_view (xmit up)))"
proof (induction m arbitrary: up s es)
  case 0
  note view = txq.view_get [OF 0(1,2)]
  have "circ_ok (circ_get (xmit up))" by (rule txq.ok_get [OF 0(1,2)])
  moreover obtain t es' where "tx_one uart_bus up (es, s) =
        Inr (up\<lparr>xmit := circ_get (xmit up), ic_tx := ic_tx up + 1\<rparr>, (es', t))"
      "tx_line t" "keeps s t" "ier t = ier s" "thr_ipending t"
      "chr_log t = chr_log s @ [ChrWrite (circ_first (xmit up))]"
    using tx_one_uart [OF 0(1,3), of es] by blast
  ultimately show ?case
    by (intro exI [of _ "circ_get (xmit up)"] exI [of _ "ic_tx up + 1"] exI [of _ t] exI [of _ es']) (simp add: view)
next
  case (Suc m)
  note view = txq.view_get [OF Suc.prems(1,2)]
  have ok: "circ_ok (circ_get (xmit up))" by (rule txq.ok_get [OF Suc.prems(1,2)])
  let ?up = "up\<lparr>xmit := circ_get (xmit up), ic_tx := ic_tx up + 1\<rparr>"
  obtain t es' where t: "tx_one uart_bus up (es, s) = Inr (?up, (es', t))"
      "tx_line t" "keeps s t" "ier t = ier s" "thr_ipending t"
      "chr_log t = chr_log s @ [ChrWrite (circ_first (xmit up))]"
    using tx_one_uart [OF Suc.prems(1,3), of es] by blast
  show ?case
  proof (cases "circ_cnt (circ_get (xmit up)) = 0")
    case True
    then have "circ_view (circ_get (xmit up)) = []" by (simp add: circ_view_nil [OF ok])
    with t True ok show ?thesis
      by (intro exI [of _ "circ_get (xmit up)"] exI [of _ "ic_tx up + 1"] exI [of _ t] exI [of _ es']) (simp add: view)
  next
    case False
    then obtain q n u es'' where "tx_fifo_loop uart_bus m ?up (es', t) = Inr (?up\<lparr>xmit := q, ic_tx := n\<rparr>, (es'', u))"
        "circ_ok q" "circ_view q = drop (Suc m) (circ_view (circ_get (xmit up)))" "tx_line u" "keeps t u"
        "ier u = ier t" "thr_ipending u"
        "chr_log u = chr_log t @ map ChrWrite (take (Suc m) (circ_view (circ_get (xmit up))))"
      using Suc.IH [of ?up t es'] ok t(2) by auto
    with t False show ?thesis
      by (intro exI [of _ q] exI [of _ n] exI [of _ u] exI [of _ es'']) (auto simp: view intro: keeps_trans)
  qed
qed

text \<open>
  A port that is set up to transmit, with nothing to receive: the interrupt of the transmitter is
  enabled in the driver and the device alike, only while bytes are queued, and it is pending then.
\<close>

definition tx_port :: "port8250 \<Rightarrow> bool" where
  "tx_port up \<longleftrightarrow> circ_ok (xmit up) \<and> x_char up = 0 \<and> \<not> tty_stopped up \<and> \<not> tty_hw_stopped up \<and>
     ptype up \<noteq> PORT_16C950 \<and> bugs up AND UART_BUG_TXEN = 0 \<and> ier8 up AND 0xF8 = 0"

definition tx_sys :: "port8250 \<Rightarrow> serial_state \<Rightarrow> bool" where
  "tx_sys up s \<longleftrightarrow> tx_port up \<and> tx_line s \<and> lsr s AND 0x1F = 0 \<and> \<not> timeout_ipending s \<and> ier s = ier8 up \<and>
     (ier8 up AND 0x02 \<noteq> 0 \<longrightarrow> thr_ipending s \<and> circ_view (xmit up) \<noteq> [])"

definition tx_on :: "port8250 \<Rightarrow> bool" where
  "tx_on up \<longleftrightarrow> (circ_view (xmit up) \<noteq> [] \<longrightarrow> ier8 up AND 0x02 \<noteq> 0)"

lemma and_submask:
  fixes w m n :: "'a::len word"
  assumes "w AND m = 0" and "n = m AND n"
  shows "w AND n = 0"
proof -
  have "w AND n = (w AND m) AND n" by (subst assms(2)) (simp only: and.assoc)
  then show ?thesis by (simp add: assms(1))
qed

lemma byte_parts:
  fixes w :: u8
  shows "w AND 0x1F = 0 \<Longrightarrow> w AND 0x1E = 0" "w AND 0x1F = 0 \<Longrightarrow> w AND 0x01 = 0" "w AND 0x1F = 0 \<Longrightarrow> w AND 0x12 = 0"
    "w AND 0x1F = 0 \<Longrightarrow> w AND 0x11 = 0" "w AND 0xF8 = 0 \<Longrightarrow> w AND 0x08 = 0"
  by (rule and_submask, assumption, simp)+

lemma low_byte:
  fixes w :: u8
  assumes "w AND 0xF8 = 0"
  shows "w AND 0x0f = w" "(w OR 0x02) AND 0x0f = w OR 0x02" "(w OR 0x02) AND 0xF8 = 0"
    "(w AND - 3) AND 0x0f = w AND - 3" "(w AND - 3) AND 0xF8 = 0"
proof -
  have "(0xF8 OR 0x07 :: u8) = - 1" by simp
  then have "w = w AND (0xF8 OR 0x07)" by (simp only: and.right_neutral)
  also have "\<dots> = w AND 0x07" by (simp only: bit.conj_disj_distrib assms or.left_neutral)
  finally have w: "w = w AND 0x07" .
  have m: "(0x07::u8) AND 0x0f = 0x07" "(0x02::u8) AND 0x0f = 0x02" "(0x02::u8) AND 0xF8 = 0"
      "(- 3::u8) AND 0xF8 = 0xF8" "(0x0f::u8) AND (- 3) = 0x0f AND - 3"
    by simp_all
  show low: "w AND 0x0f = w" by (subst w, subst (2) w) (simp only: and.assoc m)
  show "(w OR 0x02) AND 0x0f = w OR 0x02" "(w OR 0x02) AND 0xF8 = 0"
    by (simp_all only: bit.conj_disj_distrib2 low assms m or.left_neutral)
  show "(w AND - 3) AND 0x0f = w AND - 3" by (subst (2) low [symmetric]) (simp only: ac_simps)
  show "(w AND - 3) AND 0xF8 = 0" by (simp only: and.assoc m assms)
qed

lemma tx_pending:
  assumes "tx_sys up s"
  shows "serial_pending s = (if ier8 up AND 0x02 \<noteq> 0 then 0x02 else 0x01)" "irq_level s \<longleftrightarrow> ier8 up AND 0x02 \<noteq> 0"
    "iir s AND 0x0f = serial_pending s"
proof -
  show p: "serial_pending s = (if ier8 up AND 0x02 \<noteq> 0 then 0x02 else 0x01)"
    using assms by (auto simp: tx_sys_def tx_port_def serial_pending_def byte_parts)
  have "irq_coherent s" using assms by (simp add: tx_sys_def tx_line_def ser_good_def ser_inv_def)
  with p show "irq_level s \<longleftrightarrow> ier8 up AND 0x02 \<noteq> 0" "iir s AND 0x0f = serial_pending s"
    by (simp_all add: irq_coherent_def)
qed

lemma tx_sysD:
  assumes "tx_sys up s"
  shows "circ_ok (xmit up)" "x_char up = 0" "\<not> tty_stopped up" "\<not> tty_hw_stopped up" "ptype up \<noteq> PORT_16C950"
    "bugs up AND UART_BUG_TXEN = 0" "ier8 up AND 0xF8 = 0" "tx_line s" "ser_good s" "lcr s AND 0x80 = 0" "mcr s AND 0x10 = 0"
    "lsr s AND 0x1F = 0" "\<not> timeout_ipending s" "ier s = ier8 up" "lsr s AND 0x20 \<noteq> 0"
    "ier8 up AND 0x02 \<noteq> 0 \<Longrightarrow> thr_ipending s" "ier8 up AND 0x02 \<noteq> 0 \<Longrightarrow> circ_view (xmit up) \<noteq> []"
  using assms by (auto simp: tx_sys_def tx_port_def tx_line_def ser_good_def ser_inv_def tx_idle_def u8_flags)

text \<open>\<open>serial8250_tx_chars\<close>: a FIFO's load leaves the queue, and the interrupt goes with the last byte.\<close>

lemma tx_chars_uart:
  assumes "tx_port up" and "tx_line s" and "lsr s AND 0x1F = 0" and "\<not> timeout_ipending s" and "ier s = ier8 up"
    and "circ_view (xmit up) \<noteq> []" and on: "ier8 up AND 0x02 \<noteq> 0"
  shows "\<exists>up' t es'. serial8250_tx_chars uart_bus up (es, s) = Inr (up', (es', t)) \<and> tx_sys up' t \<and> tx_on up' \<and>
    tx_loadsz up' = tx_loadsz up \<and> circ_view (xmit up') = drop (Suc (tx_loadsz up - 1)) (circ_view (xmit up)) \<and>
    chr_log t = chr_log s @ map ChrWrite (take (Suc (tx_loadsz up - 1)) (circ_view (xmit up)))"
proof -
  have ok: "circ_ok (xmit up)" and low: "ier8 up AND 0xF8 = 0" using assms(1) by (simp_all add: tx_port_def)
  have cnt: "0 < circ_cnt (xmit up)" using circ_view_nil [OF ok] assms(6) by simp
  obtain q n t es' where t: "tx_fifo_loop uart_bus (tx_loadsz up - 1) up (es, s) = Inr (up\<lparr>xmit := q, ic_tx := n\<rparr>, (es', t))"
      "circ_ok q" "circ_view q = drop (Suc (tx_loadsz up - 1)) (circ_view (xmit up))" "tx_line t" "keeps s t" "ier t = ier s"
      "thr_ipending t" "chr_log t = chr_log s @ map ChrWrite (take (Suc (tx_loadsz up - 1)) (circ_view (xmit up)))"
    using tx_fifo_loop_uart [OF ok cnt assms(2), of "tx_loadsz up - 1" es] by blast
  let ?up = "up\<lparr>xmit := q, ic_tx := n\<rparr>"
  have start: "serial8250_tx_chars uart_bus up (es, s) =
      (if circ_cnt q = 0 then stop_tx_ier uart_bus ?up (es', t) else Inr (?up, (es', t)))"
    using assms(1) cnt by (simp add: serial8250_tx_chars_def tx_port_def t(1) del: One_nat_def)
  have port: "tx_port ?up" using assms(1) t(2) by (simp add: tx_port_def)
  have st: "lsr t AND 0x1F = 0" "\<not> timeout_ipending t" "ier t = ier8 up"
    using t(5,6) assms(3-5) by (simp_all add: keeps_def)
  show ?thesis
  proof (cases "circ_cnt q = 0")
    case False
    then have "circ_view q \<noteq> []" by (simp add: circ_view_nil [OF t(2)])
    then have "tx_sys ?up t" "tx_on ?up" using port t st on by (simp_all add: tx_sys_def tx_on_def)
    with False t start show ?thesis by (intro exI [of _ ?up] exI [of _ t] exI [of _ es']) simp
  next
    case True
    let ?up' = "?up\<lparr>ier8 := ier8 up AND - 3\<rparr>"
    have tl: "ser_good t" "lcr t AND 0x80 = 0" using t(4) by (simp_all add: tx_line_def)
    obtain u where u: "serial_ioport_write (es' 0) t 1 (ucast (ier8 up AND - 3)) = Inr u" "ser_good u" "keeps t u"
        "ier u = ier8 up AND - 3" "chr_log u = chr_log t"
      using ier_write [OF tl, of "es' 0" "ier8 up AND - 3"] low_byte(4) [OF low] by auto
    have "stop_tx_ier uart_bus ?up (es', t) = Inr (?up', (\<lambda>k. es' (Suc k), u))"
      using on u(1) by (simp add: stop_tx_ier_def Let_def)
    moreover have "(ier8 up AND - 3) AND 0x02 = 0" by (simp add: and.assoc)
    then have "tx_sys ?up' u" "tx_on ?up'"
      using port low_byte(5) [OF low] tx_line_keeps [OF t(4) u(3,2)] u st True
      by (simp_all add: tx_sys_def tx_on_def tx_port_def keeps_def circ_view_nil [OF t(2)])
    ultimately show ?thesis
      using True t start u(5) by (intro exI [of _ ?up'] exI [of _ u] exI) auto
  qed
qed

text \<open>One interrupt: identification, line status, modem status, transmission.\<close>

lemma irq_round:
  assumes "tx_sys up s" and on: "ier8 up AND 0x02 \<noteq> 0"
  shows "\<exists>up' t es'. serial8250_default_handle_irq k uart_bus up (es, s) = Inr (True, up', (es', t)) \<and> tx_sys up' t \<and>
    tx_on up' \<and> tx_loadsz up' = tx_loadsz up \<and> circ_view (xmit up') = drop (Suc (tx_loadsz up - 1)) (circ_view (xmit up)) \<and>
    chr_log t = chr_log s @ map ChrWrite (take (Suc (tx_loadsz up - 1)) (circ_view (xmit up)))"
proof -
  note s = tx_sysD [OF assms(1)]
  have ne: "circ_view (xmit up) \<noteq> []" by (rule s(17) [OF on])
  define s1 where "s1 = snd (read_reg2 s)"
  have s1: "ser_good s1" "keeps s s1" "ier s1 = ier s" "chr_log s1 = chr_log s" "lsr s1 = lsr s"
    using read_regs_good(1) [OF s(9)] by (simp_all add: s1_def read_reg2_def keeps_def)
  then have line1: "tx_line s1" using tx_line_keeps [OF s(8)] by blast
  have iir: "iir s AND 0x01 = 0" using iir_read(1) [OF s(9)] tx_pending(2) [OF assms(1)] on by simp
  define s2 where "s2 = snd (read_reg6 (es 2) s1)"
  have s2: "ser_good s2" "keeps s1 s2" "ier s2 = ier s1" "chr_log s2 = chr_log s1"
    using read_regs_good(3) [OF s1(1)] by (auto simp: s2_def read_reg6_def Let_def keeps_def update_msl_frame update_msl_keeps)
  obtain v where v: "read_reg6 (es 2) s1 = (v, s2)" by (metis s2_def prod.collapse)
  have st: "lsr s1 AND 0x20 \<noteq> 0" "lsr s1 AND 0x12 = 0" "lsr s1 AND 0x11 = 0" using s(12,15) by (simp_all add: s1(5) byte_parts)
  let ?up = "up\<lparr>msr_saved_flags := 0\<rparr>"
  have "tx_port ?up" using assms(1) by (simp add: tx_sys_def tx_port_def)
  moreover have "lsr s2 AND 0x1F = 0" "\<not> timeout_ipending s2" "ier s2 = ier8 up"
    using s s1 s2 by (simp_all add: keeps_def)
  moreover have "tx_line s2" by (rule tx_line_keeps [OF line1 s2(2,1)])
  ultimately obtain up' t es' where t: "serial8250_tx_chars uart_bus ?up (\<lambda>n. es (Suc (Suc (Suc n))), s2) = Inr (up', (es', t))"
      "tx_sys up' t" "tx_on up'" "tx_loadsz up' = tx_loadsz up"
      "circ_view (xmit up') = drop (Suc (tx_loadsz up - 1)) (circ_view (xmit up))"
      "chr_log t = chr_log s2 @ map ChrWrite (take (Suc (tx_loadsz up - 1)) (circ_view (xmit up)))"
    using tx_chars_uart [of ?up s2 "\<lambda>n. es (Suc (Suc (Suc n)))"] ne on by auto
  have "read_reg2 s = (ucast (iir s), s1)" by (simp add: s1_def read_reg2_def)
  moreover have "read_reg5 s1 = (ucast (lsr s1), s1)" using st by (simp add: read_reg5_def)
  moreover have "es (Suc (Suc 0)) = es 2" by (simp add: numeral_2_eq_2)
  ultimately have "serial8250_default_handle_irq k uart_bus up (es, s) = Inr (True, up', (es', t))"
    using iir st v t(1) byte_parts(5) [OF s(7)]
    by (simp add: serial8250_default_handle_irq_def serial8250_handle_irq_def serial8250_modem_status_def serial_ioport_read_def Let_def)
  with t s1 s2 show ?thesis by auto
qed

text \<open>
  The processor takes the interrupt while the line is up: at most \<open>n\<close> times.
\<close>

fun service :: "khooks \<Rightarrow> nat \<Rightarrow> port8250 \<Rightarrow> uart_dev \<Rightarrow> (port8250 \<times> uart_dev) res" where
  "service k 0 up d = Inr (up, d)"
| "service k (Suc n) up d =
     (if irq_level (snd d) then
        rbind (serial8250_default_handle_irq k uart_bus up d) (\<lambda>(_, up, d). service k n up d)
      else Inr (up, d))"

lemma service_drains:
  "tx_sys up s \<Longrightarrow> tx_on up \<Longrightarrow> length (circ_view (xmit up)) \<le> n * max 1 (tx_loadsz up) \<Longrightarrow>
     \<exists>up' es' t. service k n up (es, s) = Inr (up', (es', t)) \<and> circ_view (xmit up') = [] \<and> \<not> irq_level t \<and>
       chr_log t = chr_log s @ map ChrWrite (circ_view (xmit up))"
proof (induction n arbitrary: up es s)
  case 0
  then have "circ_view (xmit up) = []" by simp
  then have "\<not> irq_level s" using tx_pending(2) [OF 0(1)] tx_sysD(17) [OF 0(1)] by blast
  with 0 show ?case by simp
next
  case (Suc n)
  show ?case
  proof (cases "ier8 up AND 0x02 = 0")
    case True
    then have "circ_view (xmit up) = []" "\<not> irq_level s"
      using Suc.prems(2) tx_pending(2) [OF Suc.prems(1)] by (auto simp: tx_on_def)
    then show ?thesis by simp
  next
    case False
    let ?l = "Suc (tx_loadsz up - 1)"
    obtain up' t es' where t: "serial8250_default_handle_irq k uart_bus up (es, s) = Inr (True, up', (es', t))" "tx_sys up' t"
        "tx_on up'" "circ_view (xmit up') = drop ?l (circ_view (xmit up))"
        "chr_log t = chr_log s @ map ChrWrite (take ?l (circ_view (xmit up)))" "tx_loadsz up' = tx_loadsz up"
      using irq_round [OF Suc.prems(1) False, of k es] by blast
    have "max 1 (tx_loadsz up) = ?l" by simp
    then have "length (circ_view (xmit up')) \<le> n * max 1 (tx_loadsz up')" using Suc.prems(3) by (simp add: t(4,6))
    then obtain up'' es'' u where "service k n up' (es', t) = Inr (up'', (es'', u))" "circ_view (xmit up'') = []"
        "\<not> irq_level u" "chr_log u = chr_log t @ map ChrWrite (circ_view (xmit up'))"
      using Suc.IH [OF t(2,3)] by blast
    moreover have "irq_level s" using False tx_pending(2) [OF Suc.prems(1)] by simp
    ultimately show ?thesis using t by (simp add: map_append [symmetric] del: map_append)
  qed
qed

lemma uart_start_uart:
  assumes "tx_port up" and "tx_line s" and "lsr s AND 0x1F = 0" and "\<not> timeout_ipending s" and "ier s = ier8 up"
    and "ier8 up AND 0x02 \<noteq> 0 \<longrightarrow> thr_ipending s \<and> circ_view (xmit up) \<noteq> []"
  shows "\<exists>up' es' t. uart_start uart_bus up (es, s) = Inr (up', (es', t)) \<and> tx_sys up' t \<and> tx_on up' \<and>
    xmit up' = xmit up \<and> tx_loadsz up' = tx_loadsz up \<and> chr_log t = chr_log s"
proof -
  have ok: "circ_ok (xmit up)" and low: "ier8 up AND 0xF8 = 0" using assms(1) by (simp_all add: tx_port_def)
  have tl: "ser_good s" "lcr s AND 0x80 = 0" using assms(2) by (simp_all add: tx_line_def)
  have buf: "cb_buf (xmit up) \<noteq> None" using ok by (auto simp: circ_ok_def)
  consider "circ_view (xmit up) = []" | "circ_view (xmit up) \<noteq> []" "ier8 up AND 0x02 \<noteq> 0"
    | "circ_view (xmit up) \<noteq> []" "ier8 up AND 0x02 = 0" by blast
  then show ?thesis
  proof cases
    case 1
    then show ?thesis
      using assms circ_view_nil [OF ok] by (simp add: uart_start_def tx_sys_def tx_on_def)
  next
    case 2
    then show ?thesis
      using assms circ_view_nil [OF ok] buf
      by (simp add: uart_start_def serial8250_start_tx_def tx_port_def tx_sys_def tx_on_def)
  next
    case 3
    let ?up = "up\<lparr>ier8 := ier8 up OR 0x02\<rparr>"
    obtain u where u: "serial_ioport_write (es 0) s 1 (ucast (ier8 up OR 0x02)) = Inr u" "ser_good u" "keeps s u"
        "ier u = ier8 up OR 0x02" "thr_ipending u" "chr_log u = chr_log s"
      using ier_write [OF tl, of "es 0" "ier8 up OR 0x02"] low_byte(2) [OF low] by auto
    have "serial8250_start_tx uart_bus up (es, s) = Inr (?up, (\<lambda>n. es (Suc n), u))"
      using 3 u(1) assms(1) by (simp add: serial8250_start_tx_def tx_port_def Let_def)
    then have "uart_start uart_bus up (es, s) = Inr (?up, (\<lambda>n. es (Suc n), u))"
      using 3 assms(1) buf circ_view_nil [OF ok] by (simp add: uart_start_def tx_port_def)
    moreover have "tx_sys ?up u" "tx_on ?up"
      using assms 3 u low_byte(3) [OF low] tx_line_keeps [OF assms(2) u(3,2)]
      by (simp_all add: tx_sys_def tx_port_def tx_on_def keeps_def)
    ultimately show ?thesis using u(6) by (intro exI [of _ ?up] exI [of _ "\<lambda>n. es (Suc n)"] exI [of _ u]) simp
  qed
qed

section \<open>Receiving\<close>

text \<open>A line in FIFO mode without errors whose data-ready flag says what the FIFO holds.\<close>

definition rx_sys :: "serial_state \<Rightarrow> bool" where
  "rx_sys s \<longleftrightarrow> ser_good s \<and> lcr s AND 0x80 = 0 \<and> fcr s AND 1 \<noteq> 0 \<and> lsr s AND 0x9E = 0 \<and>
     (lsr s AND 1 \<noteq> 0 \<longleftrightarrow> fifo_view (recv_fifo s) \<noteq> [])"

text \<open>A reader that has asked for characters (\<open>CREAD\<close>), without a console key sequence pending.\<close>

definition rx_port :: "khooks \<Rightarrow> port8250 \<Rightarrow> bool" where
  "rx_port k up \<longleftrightarrow> ignore_status_mask up AND 0x61 = 0 \<and> lsr_saved_flags up = 0 \<and>
     (\<forall>up c. k_handle_sysrq k up c = (False, up))"

lemma lsr_rx_bits:
  fixes w :: u8
  shows "w AND 0x9E = 0 \<Longrightarrow> w AND 0x1E = 0" "w AND 0x9E = 0 \<Longrightarrow> w AND 0x12 = 0" "w AND 0x9E = 0 \<Longrightarrow> w AND 0x02 = 0"
    "w AND 0x9E = 0 \<Longrightarrow> w AND 0x10 = 0"
  by (rule and_submask, assumption, simp)+

lemma lsr_rx_clear:
  fixes w :: u8
  shows "w AND 0x9E = 0 \<Longrightarrow> (w AND - 0x12) AND 0x9E = 0" "(w AND - 0x12) AND 0x01 = 0"
proof -
  have m: "(- 0x12::u8) AND 0x01 = 0" "(- 0x12::u8) AND 0x9E = 0x8E" by simp_all
  show "(w AND - 0x12) AND 0x01 = 0" by (simp only: and.assoc m and_zero_eq)
  show "w AND 0x9E = 0 \<Longrightarrow> (w AND - 0x12) AND 0x9E = 0"
    by (simp only: and.assoc m) (rule and_submask, assumption, simp)
qed

lemma rx_ignore:
  fixes w m :: u8
  assumes "w AND 0x9E = 0" and "m AND 0x61 = 0"
  shows "w AND m = 0"
proof -
  have "(0x9E OR 0x61 :: u8) = - 1" by simp
  then have "w AND m = (w AND m) AND (0x9E OR 0x61)" by (simp only: and.right_neutral)
  also have "\<dots> = ((w AND 0x9E) AND m) OR (w AND (m AND 0x61))"
    by (simp only: bit.conj_disj_distrib ac_simps)
  also have "\<dots> = 0" by (simp add: assms)
  finally show ?thesis .
qed

text \<open>One character: the read of the receive register, and its insertion into the tty's buffer.\<close>

lemma rbr_read:
  assumes "rx_sys s" and "fifo_view (recv_fifo s) = c # cs"
  shows "\<exists>t. serial_ioport_read e s 0 = Inr (ucast c, t) \<and> rx_sys t \<and> fifo_view (recv_fifo t) = cs"
proof -
  have s: "ser_good s" "lcr s AND 0x80 = 0" "fcr s AND 1 \<noteq> 0" "lsr s AND 0x9E = 0" "lsr s AND 1 \<noteq> 0"
    using assms by (simp_all add: rx_sys_def)
  have ok: "fifo_ok (recv_fifo s)" using s(1) by (simp add: ser_good_def ser_inv_def fifos_ok_def)
  have cnt: "fcount (recv_fifo s) = Suc (length cs)" using uartq.count_view [OF ok] assms(2) by simp
  then have view: "c = ff_first (recv_fifo s)" "cs = fifo_view (ff_get (recv_fifo s))"
    using uartq.view_get [OF ok] assms(2) by simp_all
  obtain ret t where t: "serial_ioport_read e s 0 = Inr (ret, t)" "ser_good t"
    using ioport_read_good [OF s(1)] by blast
  note masked = lsr_rx_clear(1) [OF s(4)]
  show ?thesis
    using t s cnt masked view(2)
    by (auto simp: serial_ioport_read_def read_reg0_def fifo_get_recv [OF ok] Let_def rx_sys_def view(1) lsr_rx_clear(2)
        split: if_splits)
qed

lemma rx_one_uart:
  assumes "rx_sys s" and "rx_port k up" and "fifo_view (recv_fifo s) = c # cs"
  shows "\<exists>t es'. rx_one k uart_bus up (es, s) (lsr s) =
      Inr (lsr t, up\<lparr>ic_rx := ic_rx up + 1, flip := flip up @ [(c, TTY_NORMAL)]\<rparr>, (es', t)) \<and>
    rx_sys t \<and> fifo_view (recv_fifo t) = cs"
proof -
  obtain t where t: "serial_ioport_read (es 0) s 0 = Inr (ucast c, t)" "rx_sys t" "fifo_view (recv_fifo t) = cs"
    using rbr_read [OF assms(1,3)] by blast
  have s: "lsr s AND 0x9E = 0" "lsr s AND 1 \<noteq> 0" "lsr t AND 0x9E = 0"
    using assms(1,3) t(2) by (simp_all add: rx_sys_def)
  let ?m = "ignore_status_mask up"
  have "lsr s AND ?m = 0" using rx_ignore [OF s(1)] assms(2) by (simp add: rx_port_def)
  moreover have "lsr s AND ?m AND - 3 = (lsr s AND ?m) AND - 3" by (simp only: and.assoc)
  moreover have "lsr s AND NOT ?m AND 2 = (lsr s AND 2) AND NOT ?m" by (simp only: ac_simps)
  ultimately have ign: "lsr s AND ?m AND - 3 = 0" "lsr s AND NOT ?m AND 2 = 0"
    using lsr_rx_bits(3) [OF s(1)] by simp_all
  have "read_reg5 t = (ucast (lsr t), t)" by (simp add: read_reg5_def lsr_rx_bits [OF s(3)])
  then show ?thesis
    using t s(2) ign assms(2)
    by (simp add: rx_one_def Let_def rx_port_def lsr_rx_bits [OF s(1)] uart_insert_char_def serial_ioport_read_def)
qed

lemma rx_more:
  assumes "rx_sys s"
  shows "lsr s AND 0x11 \<noteq> 0 \<longleftrightarrow> fifo_view (recv_fifo s) \<noteq> []"
proof -
  have "lsr s AND 0x11 = lsr s AND (0x10 OR 0x01)" by simp
  also have "\<dots> = lsr s AND 0x01"
    using assms by (simp only: bit.conj_disj_distrib lsr_rx_bits or.left_neutral rx_sys_def)
  finally show ?thesis using assms by (simp add: rx_sys_def)
qed

lemma rx_chars_loop_uart:
  "rx_sys s \<Longrightarrow> rx_port k up \<Longrightarrow> fifo_view (recv_fifo s) = cs \<Longrightarrow> cs \<noteq> [] \<Longrightarrow> length cs \<le> Suc n \<Longrightarrow>
     \<exists>up' t es'. rx_chars_loop k uart_bus n up (es, s) (lsr s) = Inr (lsr t, up', (es', t)) \<and>
       flip up' = flip up @ map (\<lambda>c. (c, TTY_NORMAL)) cs \<and> ic_rx up' = ic_rx up + of_nat (length cs) \<and>
       rx_sys t \<and> fifo_view (recv_fifo t) = []"
proof (induction n arbitrary: up es s cs)
  case 0
  then obtain c where cs: "cs = [c]" by (cases cs) auto
  obtain t es' where t: "rx_one k uart_bus up (es, s) (lsr s) =
      Inr (lsr t, up\<lparr>ic_rx := ic_rx up + 1, flip := flip up @ [(c, TTY_NORMAL)]\<rparr>, (es', t))"
      "rx_sys t" "fifo_view (recv_fifo t) = []"
    using rx_one_uart [OF 0(1,2), of c "[]"] 0(3) cs by blast
  then show ?case by (subst loop_simps) (auto simp: cs)
next
  case (Suc n)
  obtain c cs' where cs: "cs = c # cs'" using Suc.prems(4) by (cases cs) auto
  let ?up = "up\<lparr>ic_rx := ic_rx up + 1, flip := flip up @ [(c, TTY_NORMAL)]\<rparr>"
  obtain t es' where t: "rx_one k uart_bus up (es, s) (lsr s) = Inr (lsr t, ?up, (es', t))"
      "rx_sys t" "fifo_view (recv_fifo t) = cs'"
    using rx_one_uart [OF Suc.prems(1,2), of c cs'] Suc.prems(3) cs by blast
  have dr: "lsr t AND 0x11 \<noteq> 0 \<longleftrightarrow> cs' \<noteq> []" using rx_more [OF t(2)] t(3) by simp
  show ?case
  proof (cases "cs' = []")
    case True
    with t dr show ?thesis by (subst loop_simps) (auto simp: cs)
  next
    case False
    have "rx_port k ?up" using Suc.prems(2) by (simp add: rx_port_def)
    from Suc.IH [OF t(2) this t(3) False, of es'] Suc.prems(5)
    obtain up' u es'' where "rx_chars_loop k uart_bus n ?up (es', t) (lsr t) = Inr (lsr u, up', (es'', u))"
        "flip up' = flip up @ (c, TTY_NORMAL) # map (\<lambda>c. (c, TTY_NORMAL)) cs'" "ic_rx up' = ic_rx up + 1 + of_nat (length cs')"
        "rx_sys u" "fifo_view (recv_fifo u) = []"
      by (auto simp: cs)
    with t dr False show ?thesis by (subst loop_simps) (auto simp: cs)
  qed
qed

section \<open>Polling\<close>

text \<open>What the waiting loops of the driver leave of the line.\<close>

definition waited :: "serial_state \<Rightarrow> uart_dev \<Rightarrow> bool" where
  "waited s d \<longleftrightarrow> tx_line (snd d) \<and> ier (snd d) = ier s \<and> chr_log (snd d) = chr_log s"

lemma status_read:
  assumes "waited s d" and "a = 5 \<or> a = 6"
  shows "returns (\<lambda>(v, d). waited s d) (bus_read uart_bus d a)"
proof -
  obtain es t where d: "d = (es, t)" "tx_line t" "ier t = ier s" "chr_log t = chr_log s"
    using assms(1) by (cases d) (auto simp: waited_def)
  then have "tx_line (snd (read_reg5 t))" "tx_line (snd (read_reg6 (es 0) t))"
    using read_regs_good(2) [of t] read_regs_good(3) [of t "es 0"]
    by (auto simp: tx_line_def read_reg5_def read_reg6_def Let_def update_msl_frame update_msl_keeps)
  moreover have "ier (snd (read_reg5 t)) = ier s" "chr_log (snd (read_reg5 t)) = chr_log s"
      "ier (snd (read_reg6 (es 0) t)) = ier s" "chr_log (snd (read_reg6 (es 0) t)) = chr_log s"
    using d by (simp_all add: read_reg5_def read_reg6_def Let_def update_msl_frame update_msl_keeps)
  ultimately show ?thesis
    using assms(2) by (cases "read_reg5 t"; cases "read_reg6 (es 0) t")
      (auto simp: d(1) serial_ioport_read_def waited_def)
qed

lemma wait_lsr_waited: "waited s d \<Longrightarrow> returns (\<lambda>(up, d). waited s d) (wait_lsr_loop uart_bus n bits up d)"
proof (induction n arbitrary: up d)
  case 0
  show ?case by (subst loop_simps) (auto simp: Let_def intro!: returns_bind [OF status_read [OF 0]])
next
  case (Suc n)
  show ?case by (subst loop_simps) (auto simp: Let_def intro!: returns_bind [OF status_read [OF Suc.prems]] Suc.IH)
qed

lemma wait_msr_waited: "waited s d \<Longrightarrow> returns (\<lambda>(up, d). waited s d) (wait_msr_loop uart_bus n up d)"
proof (induction n arbitrary: up d)
  case (Suc n)
  show ?case by (auto simp: Let_def intro!: returns_bind [OF status_read [OF Suc.prems]] Suc.IH)
qed simp

lemma wait_for_xmitr_waited:
  assumes "waited s d"
  shows "\<exists>up' d'. wait_for_xmitr uart_bus bits up d = Inr (up', d') \<and> waited s d'"
proof -
  have "returns (\<lambda>(up, d). waited s d) (wait_for_xmitr uart_bus bits up d)"
    unfolding wait_for_xmitr_def
    by (rule returns_bind [OF wait_lsr_waited [OF assms]]) (auto intro: wait_msr_waited)
  then show ?thesis by (auto elim!: returnsE)
qed

lemma thr_write_line:
  assumes "waited s d"
  shows "returns (\<lambda>d. tx_line (snd d) \<and> ier (snd d) = ier s \<and> chr_log (snd d) = chr_log s @ [ChrWrite c])
    (bus_write uart_bus d R_RXTX c)"
proof -
  obtain es t where d: "d = (es, t)" "tx_line t" "ier t = ier s" "chr_log t = chr_log s"
    using assms by (cases d) (auto simp: waited_def)
  obtain u where "serial_ioport_write (es 0) t 0 (ucast c) = Inr u" "ser_good u" "keeps t u" "ier u = ier t"
      "chr_log u = chr_log t @ [ChrWrite c]"
    using thr_write [of t "es 0" c] d(2) by (auto simp: tx_line_def)
  then show ?thesis using d tx_line_keeps [OF d(2)] by simp
qed

lemma ier_write_line:
  assumes "tx_line s"
  shows "returns (\<lambda>d. tx_line (snd d) \<and> ier (snd d) = v AND 0x0f \<and> chr_log (snd d) = chr_log s)
    (bus_write uart_bus (es, s) R_IER v)"
proof -
  obtain u where "serial_ioport_write (es 0) s 1 (ucast v) = Inr u" "ser_good u" "keeps s u" "ier u = v AND 0x0f"
      "chr_log u = chr_log s"
    using ier_write [of s "es 0" v] assms by (auto simp: tx_line_def)
  then show ?thesis using tx_line_keeps [OF assms] by simp
qed

text \<open>\<open>uart_write\<close> queues what there is room for, and sends nothing itself.\<close>

lemma write_starts:
  assumes "tx_sys up s"
  shows "\<exists>up1 es1 s1. uart_write uart_bus up (es, s) data =
      Inr (min (length data) (4095 - length (circ_view (xmit up))), up1, (es1, s1)) \<and> tx_sys up1 s1 \<and> tx_on up1 \<and>
    circ_view (xmit up1) = circ_view (xmit up) @ take (4095 - length (circ_view (xmit up))) data \<and>
    length (circ_view (xmit up1)) = min 4095 (length (circ_view (xmit up)) + length data) \<and>
    tx_loadsz up1 = tx_loadsz up \<and> chr_log s1 = chr_log s"
proof -
  note s = tx_sysD [OF assms(1)]
  have len: "circ_cnt (xmit up) = length (circ_view (xmit up))" by (rule txq.count_view [OF s(1)])
  let ?xs = "take (4095 - circ_cnt (xmit up)) data"
  let ?up = "up\<lparr>xmit := fold circ_put ?xs (xmit up)\<rparr>"
  have "circ_cnt (xmit up) + length ?xs \<le> 4095" using circ_cnt_le [OF s(1)] by simp
  note q = txq.put_all [OF s(1) this]
  have "tx_port ?up" using assms(1) q by (simp add: tx_sys_def tx_port_def)
  then obtain up1 es1 s1 where u: "uart_start uart_bus ?up (es, s) = Inr (up1, (es1, s1))" "tx_sys up1 s1" "tx_on up1"
      "xmit up1 = xmit ?up" "tx_loadsz up1 = tx_loadsz up" "chr_log s1 = chr_log s"
    using uart_start_uart [of ?up s es] s q by auto
  have "length (circ_view (xmit up)) \<le> 4095" using circ_cnt_le [OF s(1)] len by simp
  then have "length (circ_view (xmit up1)) = min 4095 (length (circ_view (xmit up)) + length data)"
    using u(4) q len by (auto simp: min_def)
  moreover obtain b where "cb_buf (xmit up) = Some b" using s(1) by (auto simp: circ_ok_def)
  ultimately show ?thesis
    using u q by (simp add: uart_write_def uart_write_loop_ok [OF s(1)] len)
qed

section \<open>Properties\<close>


definition port0 :: port8250 where
  "port0 = \<lparr>ptype = PORT_16550A, capabilities = UART_CAP_FIFO, bugs = 0, cons_flow = False, upf_buggy = False,
     upf_skip_test = False, upf_exar_efr = False, upf_fourport = False, upf_bug_thre = False, upf_no_txen_test = False,
     upf_magic = False, upf_hardpps = False, upf_share_irq = False, upf_spd = SPD_NONE, custom_divisor = 0, uartclk = 1843200, has_addr = True,
     port_irq_no = 4, fifosize = 16, timeout = 0, timer_backup = False, port_timer = None, cons_cflag = None, tx_loadsz = 16,
     acr8 = 0, ier8 = 0x05, lcr8 = 0x03, mcr8 = 0, mcr_mask = 0xFF, mcr_force = 0, port_mctrl = mctrl_zero, lsr_saved_flags = 0,
     msr_saved_flags = 0, read_status_mask = 0xFF, ignore_status_mask = 0, x_char = 0,
     xmit = \<lparr>cb_buf = Some (replicate UART_XMIT_SIZE 0), cb_head = 4095, cb_tail = 4095\<rparr>, ic_rx = 0, ic_tx = 0, ic_brk = 0,
     ic_parity = 0, ic_frame = 0, ic_overrun = 0, ic_rng = 0, ic_dsr = 0, ic_dcd = 0, ic_cts = 0, has_state = True,
     cts_flow = False, check_cd = False, initialized = False, suspended = False, tty_stopped = False,
     tty_hw_stopped = False, tty_throttled = False, tty_io_error = False, flip = []\<rparr>"

definition hooks0 :: khooks where
  "hooks0 = \<lparr>k_handle_break = (\<lambda>up. (False, up)), k_handle_sysrq = (\<lambda>up c. (False, up))\<rparr>"

definition uart_ready :: serial_state where
  "uart_ready = uart0\<lparr>ier := 0x05, fcr := 1, recv_fifo := fifo_zero\<lparr>itl := 8\<rparr>\<rparr>"

lemma port0_circ: "circ_ok (xmit port0)" "circ_view (xmit port0) = []"
  by (simp_all add: port0_def circ_ok_def circ_view_def circ_cnt_def)

lemma uart_ready_good: "ser_good uart_ready"
proof -
  have "serial_pending uart_ready = 1" "iir uart_ready = 1" "\<not> irq_level uart_ready"
    by (simp_all add: serial_pending_def uart_ready_def uart0_def serial_reset_def Let_def fifo_clear_def set_fifo_def
        the_fifo_def serial_zero_def)
  then have "irq_coherent uart_ready" by (simp add: irq_coherent_def)
  moreover have "fifo_ok fifo_zero" by (simp add: fifo_ok_def fifo_zero_def ring_ok_def)
  ultimately show ?thesis using uart0_good
    by (simp add: uart_ready_def ser_good_def ser_inv_def fifos_ok_def tx_idle_def)
qed

lemma uart_ready_regs: "lcr uart_ready = 0" "mcr uart_ready = 8" "chr_log uart_ready = []" "fcr uart_ready = 1"
    "recv_fifo uart_ready = fifo_zero\<lparr>itl := 8\<rparr>" "lsr uart_ready = 0x60" "ier uart_ready = 0x05" "\<not> timeout_ipending uart_ready"
  by (simp_all add: uart_ready_def uart0_regs)
    (simp add: uart0_def serial_reset_def Let_def fifo_clear_def set_fifo_def the_fifo_def serial_zero_def)

lemma uart_ready_line: "tx_line uart_ready"
  by (simp add: tx_line_def uart_ready_good uart_ready_regs)

lemma port0_ready: "tx_sys port0 uart_ready"
  using port0_circ uart_ready_line by (simp add: tx_sys_def tx_port_def uart_ready_regs) (simp add: port0_def)


text \<open>
  C10. C10. What is received reaches the tty, on a line whose reader wants characters. The UART is consistent, outside
  DLAB, its FIFO on, without error or break in the line status, the data-ready flag saying whether bytes wait (rx_sys);
  the port does not ignore data-ready, as it does with CREAD off (nor THRE, TEMT), no line-status flags are
  saved, and the SysRq hook consumes no character (rx_port). When the UART takes any non-empty block that fits in
  the room that it advertises, behind bytes that already wait, \<open>serial8250_rx_chars\<close> hands all of them to the tty in
  order as normal characters, counts them, and leaves the FIFO empty and the data-ready flag clear.
\<close>

theorem rx_chars_delivers:
  assumes "rx_sys s" and "rx_port k up" and "buf \<noteq> []" and "length buf \<le> serial_can_receive1 s"
  shows "\<exists>t st up' es' u. serial_receive1 e s buf = Inr t \<and>
    serial8250_rx_chars k uart_bus up (es, t) (lsr t) = Inr (st, up', (es', u)) \<and>
    flip up' = flip up @ map (\<lambda>c. (c, TTY_NORMAL)) (fifo_view (recv_fifo s) @ buf) \<and>
    ic_rx up' = ic_rx up + of_nat (length (fifo_view (recv_fifo s) @ buf)) \<and>
    fifo_view (recv_fifo u) = [] \<and> lsr u AND 1 = 0"
proof -
  have s: "fifos_ok s" "fcr s AND 1 \<noteq> 0" "lcr s AND 0x80 = 0" "ser_good s" "lsr s AND 0x9E = 0"
    using assms(1) by (simp_all add: rx_sys_def ser_good_def ser_inv_def)
  let ?cs = "fifo_view (recv_fifo s) @ buf"
  obtain t where t: "serial_receive1 e s buf = Inr t" "lsr t = lsr s OR 1" "fifo_view (recv_fifo t) = ?cs"
    using receive1_stores [OF s(1) assms(3,4), of e] s(2) by auto
  have rx: "fifos_ok t" "rx_only s t" "irq_coherent t"
    using receive1_step [OF s(1) assms(3), of e] t(1) by auto
  then have good: "ser_good t" using rx_only_good s(4) by blast
  have "(lsr s OR 1) AND 0x9E = 0" using s(5) by (simp add: bit.conj_disj_distrib2)
  moreover have "(lsr s OR 1) AND 1 \<noteq> 0" by (simp add: bit.conj_disj_distrib2 u8_flags bit_simps)
  ultimately have sys: "rx_sys t"
    using good rx(2) s assms(3) t(2,3) by (simp add: rx_sys_def rx_only_def)
  have ok: "fifo_ok (recv_fifo t)" using rx(1) by (simp add: fifos_ok_def)
  have "length ?cs \<le> Suc 256"
    using uartq.count_le [OF ok] uartq.count_view [OF ok] t(3) by simp
  then obtain up' u es' where "rx_chars_loop k uart_bus 256 up (es, t) (lsr t) = Inr (lsr u, up', (es', u))"
      "flip up' = flip up @ map (\<lambda>c. (c, TTY_NORMAL)) ?cs" "ic_rx up' = ic_rx up + of_nat (length ?cs)"
      "rx_sys u" "fifo_view (recv_fifo u) = []"
    using rx_chars_loop_uart [OF sys assms(2) t(3), of 256 es] assms(3) by blast
  moreover from this have "lsr u AND 1 = 0" by (simp add: rx_sys_def)
  ultimately show ?thesis using t(1) by (auto simp: serial8250_rx_chars_def)
qed

theorem rx_chars_delivers_witness:
  "\<exists>t st up' es' u. serial_receive1 env0 uart_ready [0x6f, 0x6b] = Inr t \<and>
    serial8250_rx_chars hooks0 uart_bus port0 ((\<lambda>_. env0), t) (lsr t) = Inr (st, up', (es', u)) \<and>
    flip up' = [(0x6f, TTY_NORMAL), (0x6b, TTY_NORMAL)]"
proof -
  have "rx_sys uart_ready"
    by (simp add: rx_sys_def uart_ready_good uart_ready_regs fifo_view_def fifo_zero_def)
  moreover have "rx_port hooks0 port0" by (simp add: rx_port_def hooks0_def port0_def)
  moreover have "serial_can_receive1 uart_ready = 8" "fifo_view (recv_fifo uart_ready) = []" "flip port0 = []"
    by (simp_all add: serial_can_receive1_def serial_can_receive_def uart_ready_regs fifo_zero_def fifo_view_def port0_def)
  ultimately show ?thesis
    using rx_chars_delivers [of uart_ready hooks0 port0 "[0x6f, 0x6b]" env0 "\<lambda>_. env0"] by auto
qed

text \<open>
  C11. No interrupt is left behind on a shared line: over any number of UARTs in any state, whatever
  they have to report, \<open>serial8250_interrupt\<close> returns, and unless it gives up after its pass
  limit, the interrupt line of every port is low when it does. Ports stay sane: their buffers are
  in bounds and their registers coherent.
\<close>

theorem interrupt_settles_all:
  assumes "ports \<noteq> []" and "hooks_ok k" and "\<forall>p\<in>set ports. circ_ok (xmit (fst p)) \<and> ser_good (snd (snd p))"
  shows "\<exists>handled ports' gave_up. serial8250_interrupt (port_irq k) ports = Inr (handled, ports', gave_up) \<and>
    length ports' = length ports \<and> (\<forall>p\<in>set ports'. circ_ok (xmit (fst p)) \<and> ser_good (snd (snd p))) \<and>
    (gave_up \<or> (\<forall>p\<in>set ports'. \<not> irq_level (snd (snd p))))"
proof -
  have "list_all (port_good k) ports"
    using assms(2,3) by (auto simp: list_all_iff port_good_def ub.sane_def dev_good_def)
  then have "returns (ports.settled k ports) (serial8250_interrupt (port_irq k) ports)"
    by (rule ports.interrupt_settles) (rule assms(1))
  then show ?thesis
    by (auto simp: ports.settled_def list_all_iff port_good_def ub.sane_def dev_good_def line_low_def elim!: returnsE)
qed

theorem interrupt_settles_all_witness:
  "\<exists>handled ports' gave_up. serial8250_interrupt (port_irq hooks0)
      [(port0, ((\<lambda>_. env0), uart_ready)), (port0, ((\<lambda>_. env0), uart0))] = Inr (handled, ports', gave_up) \<and>
    length ports' = 2 \<and> (gave_up \<or> (\<forall>p\<in>set ports'. \<not> irq_level (snd (snd p))))"
  using interrupt_settles_all [of "[(port0, ((\<lambda>_. env0), uart_ready)), (port0, ((\<lambda>_. env0), uart0))]" hooks0]
  by (force simp: hooks_ok_def hooks0_def port0_circ uart_ready_good uart0_good)

text \<open>
  The debugger's output: a polled character goes out at once, a line feed followed by a carriage
  return, whatever the modem lines say while the routine waits, and the interrupts that were
  enabled are enabled again.
\<close>

theorem poll_char_sent:
  assumes "tx_line s"
  shows "\<exists>up' es' t. serial8250_put_poll_char uart_bus up (es, s) c = Inr (up', (es', t)) \<and>
    chr_log t = chr_log s @ map ChrWrite (if c = 10 then [10, 13] else [c]) \<and> ier t = ier s AND 0x0f \<and> tx_line t"
proof -
  let ?log = "chr_log s @ map ChrWrite (if c = 10 then [10, 13] else [c])"
  obtain d0 where d0: "bus_read uart_bus (es, s) R_IER = Inr (ier s, (d0, s))"
    using assms by (simp add: serial_ioport_read_def tx_line_def)
  let ?v = "if capabilities up AND UART_CAP_UUE \<noteq> 0 then 0x40 else 0 :: u8"
  obtain d1 where d1: "bus_write uart_bus (d0, s) R_IER ?v = Inr d1" "waited (snd d1) d1" "chr_log (snd d1) = chr_log s"
    using ier_write_line [OF assms, of ?v d0] by (auto simp: waited_def elim!: returnsE)
  obtain up2 d2 where d2: "wait_for_xmitr uart_bus 0x60 up d1 = Inr (up2, d2)" "waited (snd d1) d2"
    using wait_for_xmitr_waited [OF d1(2)] by blast
  obtain d3 where d3: "bus_write uart_bus d2 R_RXTX c = Inr d3" "waited (snd d3) d3"
      "chr_log (snd d3) = chr_log s @ [ChrWrite c]"
    using thr_write_line [OF d2(2), of c] d1(3) by (auto simp: waited_def elim!: returnsE)
  obtain up4 d4 where d4: "(if c = 10 then rbind (wait_for_xmitr uart_bus 0x60 up2 d3) (\<lambda>(up, d).
        rbind (bus_write uart_bus d R_RXTX 13) (\<lambda>d. Inr (up, d))) else Inr (up2, d3)) = Inr (up4, d4)"
      "waited (snd d4) d4" "chr_log (snd d4) = ?log"
  proof (cases "c = 10")
    case True
    obtain up3 d where d: "wait_for_xmitr uart_bus 0x60 up2 d3 = Inr (up3, d)" "waited (snd d3) d"
      using wait_for_xmitr_waited [OF d3(2)] by blast
    obtain d' where "bus_write uart_bus d R_RXTX 13 = Inr d'" "waited (snd d') d'"
        "chr_log (snd d') = chr_log s @ [ChrWrite c, ChrWrite 13]"
      using thr_write_line [OF d(2), of 13] d3(3) by (auto simp: waited_def elim!: returnsE)
    with True d that show ?thesis by simp
  qed (use d3 that in simp)
  obtain up5 d5 where d5: "wait_for_xmitr uart_bus 0x60 up4 d4 = Inr (up5, d5)" "waited (snd d4) d5"
    using wait_for_xmitr_waited [OF d4(2)] by blast
  obtain es5 s5 where p5: "d5 = (es5, s5)" by (cases d5)
  have line5: "tx_line s5" "chr_log s5 = ?log" using d5(2) d4(3) by (simp_all add: waited_def p5)
  obtain es6 t where "bus_write uart_bus (es5, s5) R_IER (ier s) = Inr (es6, t)" "tx_line t" "ier t = ier s AND 0x0f"
      "chr_log t = ?log"
    using ier_write_line [OF line5(1), of "ier s" es5] line5(2) by (auto elim!: returnsE)
  then show ?thesis
    by (simp only: serial8250_put_poll_char_def d0 d1(1) d2(1) d3(1) d4(1) d5(1) p5 rbind_Inr prod.case) auto
qed

theorem poll_char_sent_witness:
  "\<exists>up' es' t. serial8250_put_poll_char uart_bus port0 ((\<lambda>_. env0), uart_ready) 10 = Inr (up', (es', t)) \<and>
    chr_log t = [ChrWrite 10, ChrWrite 13]"
  using poll_char_sent [OF uart_ready_line, of port0 "\<lambda>_. env0" 10] by (auto simp: uart_ready_regs)

end
