(* ===== verification/Linux_8250_Detect.thy ===== *)
theory Linux_8250_Detect
  imports Linux_8250_Probe Linux_8250_Props
begin

unbundle bit_operations_syntax

text \<open>
  The kernel's detection on QEMU's UART. \<open>regs\<close> is what the driver can rely on of the registers;
  there is one rule per register access (\<open>acc\<close>), so that a run of the driver is followed access by
  access, whatever the environment answers in between.
\<close>

named_theorems acc \<open>the effect of one register access on \<open>regs\<close>\<close>

section \<open>The registers behind the accesses\<close>

definition regs_of :: "serial_state \<Rightarrow> u8 \<times> u8 \<times> u8 \<times> u8 \<times> u16 \<times> u8" where
  "regs_of s = (lcr s, mcr s, ier s, fcr s, divider s, iir s AND 0xF0)"

definition regs :: "u8 \<Rightarrow> u8 \<Rightarrow> u8 \<Rightarrow> u8 \<Rightarrow> u16 \<Rightarrow> u8 \<Rightarrow> uart_dev \<Rightarrow> bool" where
  "regs L M I F D H d \<longleftrightarrow> ser_good (snd d) \<and> regs_of (snd d) = (L, M, I, F, D, H)"

lemma iir_update_irq: "iir (serial_update_irq s) AND 0xF0 = iir s AND 0xF0"
proof -
  have "p AND 0xF0 = 0" if "p \<in> {0x06, 0x0C, 0x04, 0x02, 0x00, 0x01}" for p :: u8
    using that by auto
  then have "serial_pending s AND 0xF0 = 0" using serial_pending_cases [of s] by blast
  then show ?thesis
    by (simp add: serial_update_irq_def Let_def bit.conj_disj_distrib2 and.assoc)
qed

lemma regs_of_update_irq [simp]: "regs_of (serial_update_irq s) = regs_of s"
  by (simp add: regs_of_def iir_update_irq)

text \<open>
  A view of the device that what transmission, reception and the modem lines touch is no part of;
  \<open>quiet_call\<close> are the calls of the character device that they make.
\<close>

definition quiet_call :: "chr_call \<Rightarrow> bool" where
  "quiet_call c \<longleftrightarrow> (case c of ChrWrite _ \<Rightarrow> True | ChrAcceptInput \<Rightarrow> True | WakeupRequest \<Rightarrow> True | ChrSetTiocm _ \<Rightarrow> True
     | ChrSetBreak _ \<Rightarrow> True | ChrSetParams _ _ _ _ \<Rightarrow> False)"

lemma quiet_call_simps [simp]:
  "quiet_call (ChrWrite c)" "quiet_call ChrAcceptInput" "quiet_call WakeupRequest" "quiet_call (ChrSetTiocm m)"
  "quiet_call (ChrSetBreak n)" "\<not> quiet_call (ChrSetParams sp p db sb)"
  by (simp_all add: quiet_call_def)

locale serial_view =
  fixes view :: "serial_state \<Rightarrow> 'v"
  assumes frame [simp]:
      "view (s\<lparr>thr := v\<rparr>) = view s" "view (s\<lparr>tsr := v\<rparr>) = view s" "view (s\<lparr>rbr := v\<rparr>) = view s"
      "view (s\<lparr>lsr := v\<rparr>) = view s" "view (s\<lparr>msr := v\<rparr>) = view s" "view (s\<lparr>scr := v\<rparr>) = view s"
      "view (s\<lparr>recv_fifo := q\<rparr>) = view s" "view (s\<lparr>xmit_fifo := q\<rparr>) = view s"
      "view (s\<lparr>thr_ipending := p\<rparr>) = view s" "view (s\<lparr>timeout_ipending := p\<rparr>) = view s"
      "view (s\<lparr>fifo_timeout_timer := t\<rparr>) = view s" "view (s\<lparr>transmit_timer := t\<rparr>) = view s"
      "view (s\<lparr>modem_status_poll := t\<rparr>) = view s" "view (s\<lparr>poll_msl := i\<rparr>) = view s"
      "view (s\<lparr>last_xmit_ts := w\<rparr>) = view s" "view (s\<lparr>tsr_retry := i\<rparr>) = view s"
      "view (s\<lparr>last_break_enable := i\<rparr>) = view s"
      "view (serial_update_irq s) = view s"
    and call: "quiet_call c \<Longrightarrow> view (s\<lparr>chr_log := chr_log s @ [c]\<rparr>) = view s"
begin

lemma call_simp [simp]: "quiet_call c \<Longrightarrow> chr_log s = l \<Longrightarrow> view (s\<lparr>chr_log := l @ [c]\<rparr>) = view s"
  using call by auto

lemma update_msl [simp]: "view (serial_update_msl e s) = view s"
  by (simp add: serial_update_msl_def Let_def split: option.split)

lemma set_fifo [simp]: "view (set_fifo s b f) = view s"
  by (simp add: set_fifo_def)

lemma fifo_put:
  assumes "fifo_put s b c = Inr t"
  shows "view t = view s"
proof -
  obtain f where "(if fcount f < UART_FIFO_LENGTH then Inr (set_fifo s b (f\<lparr>fcount := fcount f + 1\<rparr>))
      else if b then Inr ((set_fifo s b f)\<lparr>lsr := lsr s OR UART_LSR_OE\<rparr>) else Inr (set_fifo s b f)) = (Inr t :: serial_state res)"
    using iffD1 [OF rbind_eq_Inr assms [unfolded fifo_put_def Let_def]] by blast
  then show ?thesis by (auto split: if_splits)
qed

lemma fifo_put_all: "fifo_put_all s cs = Inr t \<Longrightarrow> view t = view s"
  by (induction s cs rule: fifo_put_all.induct) (auto simp: rbind_eq_Inr dest: fifo_put)

lemma fifo_get: "fifo_get s b = Inr (c, t) \<Longrightarrow> view t = view s"
  by (auto simp: fifo_get_def Let_def arr_get_def split: if_splits)

lemma receive1: "serial_receive1 e s buf = Inr t \<Longrightarrow> view t = view s"
  by (auto simp: serial_receive1_def Let_def rbind_eq_Inr dest!: fifo_put_all split: if_splits)

lemma fetch: "xmit_fetch s = Inr t \<Longrightarrow> view t = view s"
  by (auto simp: xmit_fetch_def Let_def rbind_eq_Inr dest!: fifo_get split: if_splits)

lemma send: "xmit_send e s = Inr (r, t) \<Longrightarrow> view t = view s"
  using call [of "ChrWrite (tsr s)" s]
  by (auto simp: xmit_send_def Let_def rbind_eq_Inr dest!: receive1 split: if_splits)

lemma finish [simp]: "view (xmit_done e s) = view s"
  by (simp add: xmit_done_def Let_def)

lemma transmit:
  assumes "serial_xmit e s = Inr t"
  shows "view t = view s"
proof -
  obtain u where u: "xmit_fetch s = Inr u" "rbind (xmit_send e u) (\<lambda>(again, s). Inr (if again then s else xmit_done e s)) = Inr t"
    using iffD1 [OF rbind_eq_Inr assms [unfolded serial_xmit_def]] by blast
  obtain r v where v: "xmit_send e u = Inr (r, v)" "t = (if r then v else xmit_done e v)"
    using u(2) by (auto elim!: rbind_InrE)
  have "view t = view v" by (simp add: v(2))
  with fetch [OF u(1)] send [OF v(1)] show ?thesis by simp
qed

lemma thr_load [simp]: "view (thr_loaded s v) = view s"
  by (simp add: thr_loaded_def)

lemma read0:
  assumes "ser_good s" and "read_reg0 e s = Inr (v, t)"
  shows "view t = view s"
proof -
  have ok: "fifo_ok (recv_fifo s)" using assms(1) by (simp add: ser_good_def ser_inv_def fifos_ok_def)
  have "\<exists>v t. read_reg0 e s = Inr (v, t) \<and> view t = view s"
    by (cases "lcr s AND 0x80 = 0"; cases "fcr s AND 1 = 0"; cases "fcount (recv_fifo s) = 0")
      (simp_all add: read_reg0_def fifo_get_recv [OF ok] Let_def)
  with assms(2) show ?thesis by auto
qed

end

lemma regs_of_log [simp]: "regs_of (s\<lparr>chr_log := l\<rparr>) = regs_of s" "regs_of (s\<lparr>char_transmit_time := w\<rparr>) = regs_of s"
  by (simp_all add: regs_of_def)

interpretation rv: serial_view regs_of
  by unfold_locales (simp_all add: regs_of_update_irq, simp_all add: regs_of_def)

lemma regs_of_params: "serial_update_parameters e s = Inr t \<Longrightarrow> regs_of t = regs_of s"
proof -
  assume "serial_update_parameters e s = Inr t"
  then have "t = s \<or> (\<exists>w l. t = s\<lparr>char_transmit_time := w, chr_log := l\<rparr>)"
    by (auto simp: serial_update_parameters_def Let_def split: if_splits)
  then show ?thesis by auto
qed

text \<open>Writes.\<close>

lemma returns_write:
  assumes "ser_good (snd d)"
    and "\<And>e t. serial_ioport_write e (snd d) a (ucast v) = Inr t \<Longrightarrow> ser_good t \<Longrightarrow> regs_of t = (L, M, I, F, D, H)"
    and "\<And>d. regs L M I F D H d \<Longrightarrow> returns P (f d)"
  shows "returns P (rbind (bus_write uart_bus d a v) f)"
proof -
  obtain es s where d: "d = (es, s)" by (cases d)
  then obtain t where "serial_ioport_write (es 0) s a (ucast v) = Inr t" "ser_good t"
    using ioport_write_good [of s "es 0" a "ucast v"] assms(1) by auto
  with assms(2,3) d show ?thesis by (auto simp: regs_def)
qed

lemma write_lcr [acc]:
  assumes "regs L M I F D H d" and "\<And>d. regs v M I F D H d \<Longrightarrow> returns P (f d)"
  shows "returns P (rbind (bus_write uart_bus d 3 v) f)"
proof (rule returns_write [where L = v and M = M and I = I and F = F and D = D and H = H])
  show "ser_good (snd d)" using assms(1) by (simp add: regs_def)
  fix e t
  assume "serial_ioport_write e (snd d) 3 (ucast v) = Inr t"
  then show "regs_of t = (v, M, I, F, D, H)"
    using assms(1) by (auto simp: serial_ioport_write_def write_reg3_def rbind_eq_Inr Let_def regs_def dest!: regs_of_params)
      (auto simp: regs_of_def)
qed (rule assms(2))

lemma write_mcr [acc]:
  assumes "regs L M I F D H d" and "v AND 0x1f = w" and "\<And>d. regs L w I F D H d \<Longrightarrow> returns P (f d)"
  shows "returns P (rbind (bus_write uart_bus d 4 v) f)"
proof (rule returns_write [where L = L and M = w and I = I and F = F and D = D and H = H])
  show "ser_good (snd d)" using assms(1) by (simp add: regs_def)
  have "(ucast ((ucast v :: u64) AND 0x1f) :: u8) = v AND 0x1f"
    by (rule bit_word_eqI) (auto simp: bit_simps word_bits dest: bit_imp_le_length)
  then show "regs_of t = (L, w, I, F, D, H)" if "serial_ioport_write e (snd d) 4 (ucast v) = Inr t" for e t
    using assms(1,2) that by (auto simp: serial_ioport_write_def write_reg4_def Let_def regs_def regs_of_def split: if_splits)
qed (rule assms(3))

lemma write_ier:
  assumes "regs L M I F D H d" and "L AND 0x80 = 0" and "v AND 0x0f = w"
    and "\<And>d. regs L M w F D H d \<Longrightarrow> returns P (f d)"
  shows "returns P (rbind (bus_write uart_bus d 1 v) f)"
proof (rule returns_write [where L = L and M = M and I = w and F = F and D = D and H = H])
  show "ser_good (snd d)" using assms(1) by (simp add: regs_def)
  have v: "(ucast ((ucast v :: u64) AND 0x0f) :: u8) = v AND 0x0f"
    by (rule bit_word_eqI) (auto simp: bit_simps word_bits dest: bit_imp_le_length)
  have "regs_of (s\<lparr>ier := w\<rparr>) = (L, M, w, F, D, H)" if "regs_of s = (L, M, I, F, D, H)" for s
    using that by (simp add: regs_of_def)
  then show "regs_of t = (L, M, w, F, D, H)" if "serial_ioport_write e (snd d) 1 (ucast v) = Inr t" for e t
    using assms(1-3) that v
    by (auto simp: serial_ioport_write_def write_reg1_def Let_def regs_def regs_of_def [of "snd d"] split: if_splits)
qed (rule assms(4))

text \<open>The FIFO control register; a write of the value it holds is ignored.\<close>

lemma write_fcr_same:
  assumes "regs L M I F D H d" and "v = F" and "\<And>d. regs L M I F D H d \<Longrightarrow> returns P (f d)"
  shows "returns P (rbind (bus_write uart_bus d 2 v) f)"
proof (rule returns_write [where L = L and M = M and I = I and F = F and D = D and H = H])
  show "ser_good (snd d)" using assms(1) by (simp add: regs_def)
  have "(ucast F :: u64) AND 0xFF = ucast F"
    by (rule bit_word_eqI) (auto simp: bit_simps word_bits dest: bit_imp_le_length)
  then show "regs_of t = (L, M, I, F, D, H)" if "serial_ioport_write e (snd d) 2 (ucast v) = Inr t" for e t
    using assms(1,2) that by (simp add: serial_ioport_write_def write_reg2_loaded regs_def regs_of_def)
qed (rule assms(3))

lemma fcr_loaded_regs:
  fixes v :: u8
  shows "lcr (fcr_loaded s (ucast v)) = lcr s" "mcr (fcr_loaded s (ucast v)) = mcr s" "ier (fcr_loaded s (ucast v)) = ier s"
    "divider (fcr_loaded s (ucast v)) = divider s" "fcr (fcr_loaded s (ucast v)) = v AND 0xC9"
    "iir (fcr_loaded s (ucast v)) = (if v AND 0x01 \<noteq> 0 then iir s OR 0xC0 else iir s AND NOT 0xC0)"
proof -
  have one: "(ucast v :: u64) AND 1 = 0 \<longleftrightarrow> v AND 1 = 0" "((ucast v :: u64) OR 6) AND 1 = 0 \<longleftrightarrow> v AND 1 = 0"
    using and_push_bit_neq_0 [of 0 "ucast v :: u64"] and_push_bit_neq_0 [of 0 "(ucast v :: u64) OR 6"]
    by (auto simp: u8_flags bit_simps)
  have fcr: "(ucast (((ucast v :: u64) OR 6) AND 0xC9) :: u8) = v AND 0xC9" "(ucast ((ucast v :: u64) AND 0xC9) :: u8) = v AND 0xC9"
    by (rule bit_word_eqI, auto simp: bit_simps word_bits dest: bit_imp_le_length)+
  show "fcr (fcr_loaded s (ucast v)) = v AND 0xC9" by (simp add: fcr_loaded_def Let_def fcr)
  show "iir (fcr_loaded s (ucast v)) = (if v AND 0x01 \<noteq> 0 then iir s OR 0xC0 else iir s AND NOT 0xC0)"
    by (simp add: fcr_loaded_def Let_def fifo_clear_def set_fifo_def one)
  show "lcr (fcr_loaded s (ucast v)) = lcr s" "mcr (fcr_loaded s (ucast v)) = mcr s" "ier (fcr_loaded s (ucast v)) = ier s"
    "divider (fcr_loaded s (ucast v)) = divider s"
    by (simp_all add: fcr_loaded_def Let_def fifo_clear_def set_fifo_def)
qed

lemma write_fcr:
  assumes "regs L M I F D H d" and "v \<noteq> F" and "v AND 0xC9 = w"
    and "(if v AND 0x01 \<noteq> 0 then H OR 0xC0 else H AND - 0xC1) = G"
    and "\<And>d. regs L M I w D G d \<Longrightarrow> returns P (f d)"
  shows "returns P (rbind (bus_write uart_bus d 2 v) f)"
proof (rule returns_write [where L = L and M = M and I = I and F = w and D = D and H = G])
  show "ser_good (snd d)" using assms(1) by (simp add: regs_def)
  have v: "(ucast v :: u64) AND 0xFF = ucast v"
    by (rule bit_word_eqI) (auto simp: bit_simps word_bits dest: bit_imp_le_length)
  have ne: "(ucast F :: u64) \<noteq> ucast v" using assms(2) by (metis ucast_u8_u64_u8)
  have m: "(0xC0 :: u8) AND 0xF0 = 0xC0" by simp
  have hi: "(i OR 0xC0) AND 0xF0 = (i AND 0xF0) OR 0xC0" "(i AND - 0xC1) AND 0xF0 = (i AND 0xF0) AND - 0xC1" for i :: u8
    by (simp only: bit.conj_disj_distrib2 m) (simp only: ac_simps)
  have r: "regs_of (fcr_loaded (snd d) (ucast v)) = (L, M, I, w, D, G)"
    using assms(1,3,4) hi by (auto simp: regs_def regs_of_def fcr_loaded_regs)
  show "regs_of t = (L, M, I, w, D, G)" if "serial_ioport_write e (snd d) 2 (ucast v) = Inr t" for e t
  proof -
    have "fcr (snd d) = F" using assms(1) by (simp add: regs_def regs_of_def)
    then have "t = serial_update_irq (fcr_loaded (snd d) (ucast v))"
      using that ne by (simp only: serial_ioport_write_def write_reg2_loaded v) simp
    with r show ?thesis by simp
  qed
qed (rule assms(5))

text \<open>The divisor latch.\<close>

lemma write_dll:
  assumes "regs L M I F D H d" and "L AND 0x80 \<noteq> 0" and "(D AND 0xff00) OR ucast v = E"
    and "\<And>d. regs L M I F E H d \<Longrightarrow> returns P (f d)"
  shows "returns P (rbind (bus_write uart_bus d 0 v) f)"
proof (rule returns_write [where L = L and M = M and I = I and F = F and D = E and H = H])
  show "ser_good (snd d)" using assms(1) by (simp add: regs_def)
  have eq: "(ucast ((ucast D AND 0xff00) OR (ucast v :: u64)) :: u16) = (D AND 0xff00) OR ucast v"
    by (rule bit_word_eqI) (auto simp: bit_simps word_bits dest: bit_imp_le_length)
  show "regs_of t = (L, M, I, F, E, H)" if "serial_ioport_write e (snd d) 0 (ucast v) = Inr t" for e t
  proof -
    have "serial_update_parameters e ((snd d)\<lparr>divider := E\<rparr>) = Inr t"
      using assms(1-3) that eq by (simp add: serial_ioport_write_def write_reg0_def regs_def regs_of_def)
    from regs_of_params [OF this] assms(1) show ?thesis by (simp add: regs_def regs_of_def)
  qed
qed (rule assms(4))

lemma write_dlm:
  assumes "regs L M I F D H d" and "L AND 0x80 \<noteq> 0" and "(D AND 0x00ff) OR push_bit 8 (ucast v) = E"
    and "\<And>d. regs L M I F E H d \<Longrightarrow> returns P (f d)"
  shows "returns P (rbind (bus_write uart_bus d 1 v) f)"
proof (rule returns_write [where L = L and M = M and I = I and F = F and D = E and H = H])
  show "ser_good (snd d)" using assms(1) by (simp add: regs_def)
  have eq: "(ucast ((ucast D AND 0x00ff) OR push_bit 8 (ucast v :: u64)) :: u16) = (D AND 0x00ff) OR push_bit 8 (ucast v)"
    by (rule bit_word_eqI) (auto simp: bit_simps word_bits dest: bit_imp_le_length)
  show "regs_of t = (L, M, I, F, E, H)" if "serial_ioport_write e (snd d) 1 (ucast v) = Inr t" for e t
  proof -
    have "serial_update_parameters e ((snd d)\<lparr>divider := E\<rparr>) = Inr t"
      using assms(1-3) that eq by (simp add: serial_ioport_write_def write_reg1_def regs_def regs_of_def)
    from regs_of_params [OF this] assms(1) show ?thesis by (simp add: regs_def regs_of_def)
  qed
qed (rule assms(4))

text \<open>Reads.\<close>

lemma returns_read:
  assumes "ser_good (snd d)"
    and "\<And>e v t. serial_ioport_read e (snd d) a = Inr (v, t) \<Longrightarrow> ser_good t \<Longrightarrow> regs_of t = (L, M, I, F, D, H) \<and> Q (ucast v)"
    and "\<And>v d. regs L M I F D H d \<Longrightarrow> Q v \<Longrightarrow> returns P (f (v, d))"
  shows "returns P (rbind (bus_read uart_bus d a) f)"
proof -
  obtain es s where d: "d = (es, s)" by (cases d)
  then obtain v t where "serial_ioport_read (es 0) s a = Inr (v, t)" "ser_good t"
    using ioport_read_good [of s "es 0" a] assms(1) by auto
  with assms(2,3) d show ?thesis by (auto simp: regs_def)
qed

lemma read_lcr [acc]:
  assumes "regs L M I F D H d" and "\<And>d. regs L M I F D H d \<Longrightarrow> returns P (f (L, d))"
  shows "returns P (rbind (bus_read uart_bus d 3) f)"
  by (rule returns_read [where L = L and M = M and I = I and F = F and D = D and H = H and Q = "\<lambda>v. v = L"])
    (use assms in \<open>auto simp: regs_def regs_of_def serial_ioport_read_def\<close>)

lemma read_mcr [acc]:
  assumes "regs L M I F D H d" and "\<And>d. regs L M I F D H d \<Longrightarrow> returns P (f (M, d))"
  shows "returns P (rbind (bus_read uart_bus d 4) f)"
  by (rule returns_read [where L = L and M = M and I = I and F = F and D = D and H = H and Q = "\<lambda>v. v = M"])
    (use assms in \<open>auto simp: regs_def regs_of_def serial_ioport_read_def\<close>)

lemma read_ier:
  assumes "regs L M I F D H d" and "L AND 0x80 = 0" and "\<And>d. regs L M I F D H d \<Longrightarrow> returns P (f (I, d))"
  shows "returns P (rbind (bus_read uart_bus d 1) f)"
  by (rule returns_read [where L = L and M = M and I = I and F = F and D = D and H = H and Q = "\<lambda>v. v = I"])
    (use assms in \<open>auto simp: regs_def regs_of_def serial_ioport_read_def\<close>)

lemma read_dlm:
  assumes "regs L M I F D H d" and "L AND 0x80 \<noteq> 0"
    and "\<And>d. regs L M I F D H d \<Longrightarrow> returns P (f (ucast (drop_bit 8 D), d))"
  shows "returns P (rbind (bus_read uart_bus d 1) f)"
proof -
  have "(ucast (ucast (drop_bit 8 D AND 0xff) :: u32) :: u8) = ucast (drop_bit 8 D)"
    by (rule bit_word_eqI) (auto simp: bit_simps word_bits dest: bit_imp_le_length)
  then show ?thesis
    by (intro returns_read [where L = L and M = M and I = I and F = F and D = D and H = H and Q = "\<lambda>v. v = ucast (drop_bit 8 D)"])
      (use assms in \<open>auto simp: regs_def regs_of_def serial_ioport_read_def\<close>)
qed

lemma read_dll:
  assumes "regs L M I F D H d" and "L AND 0x80 \<noteq> 0"
    and "\<And>d. regs L M I F D H d \<Longrightarrow> returns P (f (ucast D, d))"
  shows "returns P (rbind (bus_read uart_bus d 0) f)"
proof -
  have "(ucast (ucast (D AND 0xff) :: u32) :: u8) = ucast D"
    by (rule bit_word_eqI) (auto simp: bit_simps word_bits dest: bit_imp_le_length)
  then show ?thesis
    by (intro returns_read [where L = L and M = M and I = I and F = F and D = D and H = H and Q = "\<lambda>v. v = ucast D"])
      (use assms in \<open>auto simp: regs_def regs_of_def serial_ioport_read_def read_reg0_def\<close>)
qed

lemma read_iir [acc]:
  assumes "regs L M I F D H d" and "\<And>v d. regs L M I F D H d \<Longrightarrow> v AND 0xF0 = H \<Longrightarrow> returns P (f (v, d))"
  shows "returns P (rbind (bus_read uart_bus d 2) f)"
  by (rule returns_read [where L = L and M = M and I = I and F = F and D = D and H = H and Q = "\<lambda>v. v AND 0xF0 = H"])
    (use assms in \<open>auto simp: regs_def regs_of_def iir_update_irq serial_ioport_read_def read_reg2_def\<close>)

lemma read_lsr [acc]:
  assumes "regs L M I F D H d" and "\<And>v d. regs L M I F D H d \<Longrightarrow> returns P (f (v, d))"
  shows "returns P (rbind (bus_read uart_bus d 5) f)"
  by (rule returns_read [where L = L and M = M and I = I and F = F and D = D and H = H and Q = "\<lambda>v. True"])
    (use assms in \<open>auto simp: regs_def serial_ioport_read_def read_reg5_def\<close>)

lemma read_msr:
  assumes "regs L M I F D H d" and "M AND 0x10 = 0" and "\<And>v d. regs L M I F D H d \<Longrightarrow> returns P (f (v, d))"
  shows "returns P (rbind (bus_read uart_bus d 6) f)"
  by (rule returns_read [where L = L and M = M and I = I and F = F and D = D and H = H and Q = "\<lambda>v. True"])
    (use assms in \<open>auto simp: regs_def serial_ioport_read_def read_reg6_def Let_def regs_of_def [of "snd d"]\<close>)

lemma read_msr_loop:
  assumes "regs L M I F D H d" and "M = 0x1A" and "\<And>d. regs L M I F D H d \<Longrightarrow> returns P (f (0x90, d))"
  shows "returns P (rbind (bus_read uart_bus d 6) f)"
proof -
  have "(ucast (push_bit 4 (ucast ((0x1A :: u8) AND 0x0c)) OR push_bit 3 (ucast ((0x1A :: u8) AND 0x02)) OR
      push_bit 5 (ucast ((0x1A :: u8) AND 0x01)) :: u32) :: u8) = 0x90"
    by (simp add: push_bit_eq_mult)
  then show ?thesis
    by (intro returns_read [where L = L and M = M and I = I and F = F and D = D and H = H and Q = "\<lambda>v. v = 0x90"])
      (use assms in \<open>auto simp: regs_def regs_of_def serial_ioport_read_def read_reg6_def\<close>)
qed

lemma read_rbr:
  assumes "regs L M I F D H d" and "L AND 0x80 = 0" and "\<And>v d. regs L M I F D H d \<Longrightarrow> returns P (f (v, d))"
  shows "returns P (rbind (bus_read uart_bus d 0) f)"
proof (rule returns_read [where L = L and M = M and I = I and F = F and D = D and H = H and Q = "\<lambda>v. True"])
  show "ser_good (snd d)" using assms(1) by (simp add: regs_def)
  show "regs_of t = (L, M, I, F, D, H) \<and> True" if "serial_ioport_read e (snd d) 0 = Inr (v, t)" for e v t
  proof -
    have "read_reg0 e (snd d) = Inr (v, t)" using that by (simp add: serial_ioport_read_def)
    moreover have "ser_good (snd d)" using assms(1) by (simp add: regs_def)
    ultimately show ?thesis using rv.read0 assms(1) by (simp add: regs_def)
  qed
qed (rule assms(3))

text \<open>One rule for each register and direction.\<close>

lemma write_1 [acc]:
  assumes "regs L M I F D H d"
    and "(if L AND 0x80 = 0 then (v AND 0x0f, D) else (I, (D AND 0x00ff) OR push_bit 8 (ucast v))) = (w, E)"
    and "\<And>d. regs L M w F E H d \<Longrightarrow> returns P (f d)"
  shows "returns P (rbind (bus_write uart_bus d 1 v) f)"
proof (cases "L AND 0x80 = 0")
  case True
  with assms show ?thesis by (intro write_ier [OF assms(1)]) simp_all
next
  case False
  with assms show ?thesis by (intro write_dlm [OF assms(1)]) simp_all
qed

lemma write_2:
  assumes "regs L M I F D H d"
    and "(if v = F then (F, H) else (v AND 0xC9, if v AND 0x01 \<noteq> 0 then H OR 0xC0 else H AND - 0xC1)) = (w, G)"
    and "\<And>d. regs L M I w D G d \<Longrightarrow> returns P (f d)"
  shows "returns P (rbind (bus_write uart_bus d 2 v) f)"
proof (cases "v = F")
  case True
  with assms show ?thesis by (intro write_fcr_same [OF assms(1)]) simp_all
next
  case False
  with assms show ?thesis by (intro write_fcr [OF assms(1)]) simp_all
qed

lemma write_2_any:
  assumes "regs L M I F D H d" and "\<And>F H d. regs L M I F D H d \<Longrightarrow> returns P (f d)"
  shows "returns P (rbind (bus_write uart_bus d 2 v) f)"
  by (rule write_2 [OF assms(1) prod.collapse [symmetric]]) (rule assms(2))

lemma read_1 [acc]:
  assumes "regs L M I F D H d" and "(if L AND 0x80 = 0 then I else ucast (drop_bit 8 D)) = x"
    and "\<And>d. regs L M I F D H d \<Longrightarrow> returns P (f (x, d))"
  shows "returns P (rbind (bus_read uart_bus d 1) f)"
proof (cases "L AND 0x80 = 0")
  case True
  with assms(2) have "I = x" by simp
  with assms(3) show ?thesis by (intro read_ier [OF assms(1) True]) blast
next
  case False
  with assms(2) have "ucast (drop_bit 8 D) = x" by simp
  with assms(3) show ?thesis by (intro read_dlm [OF assms(1) False]) blast
qed

lemma read_0 [acc]:
  assumes "regs L M I F D H d" and "\<And>v d. regs L M I F D H d \<Longrightarrow> L AND 0x80 \<noteq> 0 \<longrightarrow> v = ucast D \<Longrightarrow> returns P (f (v, d))"
  shows "returns P (rbind (bus_read uart_bus d 0) f)"
proof (cases "L AND 0x80 = 0")
  case True
  with assms(2) show ?thesis by (intro read_rbr [OF assms(1) True]) blast
next
  case False
  with assms(2) show ?thesis by (intro read_dll [OF assms(1) False]) blast
qed

lemma read_6 [acc]:
  assumes "regs L M I F D H d" and "M = 0x1A \<or> M AND 0x10 = 0"
    and "\<And>v d. regs L M I F D H d \<Longrightarrow> M = 0x1A \<longrightarrow> v = 0x90 \<Longrightarrow> returns P (f (v, d))"
  shows "returns P (rbind (bus_read uart_bus d 6) f)"
proof (cases "M = 0x1A")
  case True
  with assms(3) show ?thesis by (intro read_msr_loop [OF assms(1) True]) blast
next
  case False
  with assms(2) have "M AND 0x10 = 0" by blast
  with assms(3) False show ?thesis by (intro read_msr [OF assms(1)]) blast+
qed

lemma u32_of_bytes: "(ucast (ucast D :: u8) :: u32) OR push_bit 8 (ucast (ucast (drop_bit 8 D) :: u8)) = ucast (D :: u16)"
  by (rule bit_word_eqI) (auto simp: bit_simps dest: bit_imp_le_length)

lemma ucast_u16_u32_u16 [simp]: "ucast (ucast (D :: u16) :: u32) = D"
  by (rule bit_word_eqI) (auto simp: bit_simps dest: bit_imp_le_length)

lemma read_dl [acc]:
  assumes "regs L M I F D H d" and "L AND 0x80 \<noteq> 0" and "\<And>d. regs L M I F D H d \<Longrightarrow> returns P (f (ucast D, d))"
  shows "returns P (rbind (serial_dl_read uart_bus d) f)"
  unfolding serial_dl_read_def rbind_assoc
proof (rule read_dll [OF assms(1,2)], simp only: prod.case rbind_assoc, rule read_dlm [OF _ assms(2)], assumption)
  fix d
  assume "regs L M I F D H d"
  from assms(3) [OF this] show "returns P (rbind (case (ucast (drop_bit 8 D), d) of
      (hi, d) \<Rightarrow> Inr (ucast (ucast D :: u8) OR push_bit 8 (ucast (hi :: u8)), d)) f)"
    by (simp add: u32_of_bytes)
qed

lemma write_dl [acc]:
  fixes v :: u32
  assumes "regs L M I F D H d" and "L AND 0x80 \<noteq> 0" and "ucast v = E" and "\<And>d. regs L M I F E H d \<Longrightarrow> returns P (f d)"
  shows "returns P (rbind (serial_dl_write uart_bus d v) f)"
  unfolding serial_dl_write_def rbind_assoc
proof (rule write_dll [OF assms(1,2) refl], rule write_dlm [OF _ assms(2)], assumption)
  show "(((D AND 0xff00) OR ucast (ucast (v AND 0xff) :: u8)) AND 0x00ff) OR
      push_bit 8 (ucast (ucast (drop_bit 8 v AND 0xff) :: u8)) = E"
    unfolding assms(3) [symmetric]
    by (rule bit_word_eqI) (auto simp: bit_simps word_bits dest: bit_imp_le_length)
qed (rule assms(4))

section \<open>The size of the FIFO\<close>

text \<open>In loopback, with the FIFO on: \<open>n\<close> bytes wait, and the line status says whether there are any.\<close>

definition looped :: "u8 \<Rightarrow> u8 \<Rightarrow> u16 \<Rightarrow> u8 \<Rightarrow> nat \<Rightarrow> uart_dev \<Rightarrow> bool" where
  "looped I F D H n d \<longleftrightarrow> regs 0x03 0x10 I F D H d \<and> F AND 1 \<noteq> 0 \<and> fcount (recv_fifo (snd d)) = n \<and>
     (bit (lsr (snd d)) 0 \<longleftrightarrow> 0 < n)"

lemma receive1_count:
  assumes "fifos_ok s" and "fcr s AND 1 \<noteq> 0" and "serial_receive1 e s [c] = Inr t"
  shows "fcount (recv_fifo t) = min 16 (Suc (fcount (recv_fifo s)))" "bit (lsr t) 0"
proof -
  define s0 where "s0 = (if wakeup s \<noteq> 0 then s\<lparr>chr_log := chr_log s @ [WakeupRequest]\<rparr> else s)"
  have s0: "fcr s0 = fcr s" "recv_fifo s0 = recv_fifo s" by (simp_all add: s0_def)
  have le: "fcount (recv_fifo s) \<le> 16" using assms(1) uartq.count_le by (simp add: fifos_ok_def)
  have "fifo_put s0 True c =
      Inr (if fcount (recv_fifo s) < 16 then s0\<lparr>recv_fifo := ff_put c (recv_fifo s)\<rparr> else s0\<lparr>lsr := lsr s0 OR 0x02\<rparr>)"
    using fifo_put_recv [of s0 c] assms(1) s0(2) by (simp add: fifos_ok_def)
  with assms(2,3) s0 le show "fcount (recv_fifo t) = min 16 (Suc (fcount (recv_fifo s)))" "bit (lsr t) 0"
    by (auto simp: serial_receive1_def Let_def s0_def [symmetric] bit_simps bit_1_iff split: if_splits)
qed

lemma looped_put:
  assumes "regs 0x03 0x10 I F D H d" and "F AND 1 \<noteq> 0"
  shows "returns (looped I F D H (min 16 (Suc (fcount (recv_fifo (snd d)))))) (bus_write uart_bus d 0 c)"
proof -
  obtain es s where d: "d = (es, s)" by (cases d)
  have s: "ser_good s" "ser_inv s" "lcr s = 0x03" "mcr s = 0x10" "fcr s = F" "regs_of s = (0x03, 0x10, I, F, D, H)"
    using assms(1) by (auto simp: regs_def regs_of_def d ser_good_def)
  have dlab: "lcr s AND 0x80 = 0" by (simp add: s(3))
  obtain u v where w: "write_reg0 (es 0) s (ucast c) = Inr (xmit_done (es 0) v)" "recv_fifo u = recv_fifo s" "fcr u = fcr s" "fifos_ok u"
      "serial_receive1 (es 0) u [c] = Inr v" "lsr (xmit_done (es 0) v) = lsr v OR 0x40"
    using write_thr_step [OF s(2) dlab, of "es 0" "ucast c"] s(4) by auto
  let ?t = "xmit_done (es 0) v"
  have "serial_xmit (es 0) (thr_loaded s (ucast c)) = Inr ?t"
    using w(1) by (simp add: write_reg0_thr [OF s(2) dlab])
  note rv.transmit [OF this]
  then have "regs_of ?t = (0x03, 0x10, I, F, D, H)" using s(6) by (simp add: thr_loaded_def)
  moreover have "ser_good ?t" using write_reg0_good [OF s(1), of "es 0" "ucast c"] w(1) by simp
  moreover have "recv_fifo ?t = recv_fifo v" by (simp add: xmit_done_def Let_def)
  moreover note receive1_count [OF w(4) _ w(5)]
  ultimately show ?thesis
    using assms(2) s(5) w by (simp add: d looped_def regs_def serial_ioport_write_def bit_simps bit_numeral_rec)
qed

lemma fill_loop_fills:
  "regs 0x03 0x10 I F D H d \<Longrightarrow> F AND 1 \<noteq> 0 \<Longrightarrow> 0 < n \<Longrightarrow>
     returns (looped I F D H (min 16 (fcount (recv_fifo (snd d)) + n))) (fill_loop uart_bus n k d)"
proof (induction n arbitrary: k d)
  case (Suc n)
  show ?case
  proof (cases "n = 0")
    case True
    with looped_put [OF Suc.prems(1,2), of "of_nat k"] show ?thesis
      by (auto elim!: returnsE)
  next
    case False
    let ?m = "min 16 (Suc (fcount (recv_fifo (snd d))))"
    have "returns (looped I F D H (min 16 (?m + n))) (fill_loop uart_bus n (k + 1) d')" if "looped I F D H ?m d'" for d'
    proof -
      have "regs 0x03 0x10 I F D H d'" "fcount (recv_fifo (snd d')) = ?m" using that by (simp_all add: looped_def)
      with Suc.IH [of d' "k + 1"] Suc.prems(2) False show ?thesis by simp
    qed
    moreover have "min 16 (?m + n) = min 16 (fcount (recv_fifo (snd d)) + Suc n)" by linarith
    ultimately show ?thesis
      using looped_put [OF Suc.prems(1,2), of "of_nat k"] by (auto intro: returns_bind)
  qed
qed simp

lemma looped_lsr:
  assumes "looped I F D H n d"
  shows "returns (\<lambda>(v, d). looped I F D H n d \<and> (v AND 0x01 \<noteq> 0 \<longleftrightarrow> 0 < n)) (bus_read uart_bus d 5)"
proof -
  obtain es s where d: "d = (es, s)" by (cases d)
  have "ser_good (snd (read_reg5 s))" using read_regs_good(2) assms by (simp add: looped_def regs_def d)
  with assms show ?thesis
    by (auto simp: d serial_ioport_read_def read_reg5_def looped_def regs_def u8_flags bit_simps bit_numeral_rec)
qed

lemma looped_get:
  assumes "looped I F D H (Suc n) d"
  shows "returns (\<lambda>(v, d). looped I F D H n d) (bus_read uart_bus d 0)"
proof -
  obtain es s where d: "d = (es, s)" by (cases d)
  have s: "ser_good s" "lcr s AND 0x80 = 0" "fcr s AND 1 \<noteq> 0" "fcount (recv_fifo s) = Suc n" "bit (lsr s) 0"
    using assms by (auto simp: looped_def regs_def regs_of_def d)
  have ok: "fifo_ok (recv_fifo s)" using s(1) by (simp add: ser_good_def ser_inv_def fifos_ok_def)
  obtain ret t where t: "read_reg0 (es 0) s = Inr (ret, t)" "ser_good t"
    using read_reg0_good [OF s(1)] by blast
  have "fcount (recv_fifo t) = n" "bit (lsr t) 0 \<longleftrightarrow> 0 < n"
    using t(1) s by (auto simp: read_reg0_def fifo_get_recv [OF ok] Let_def bit_simps bit_numeral_rec split: if_splits)
  with t rv.read0 [OF s(1) t(1)] assms show ?thesis
    by (simp add: d serial_ioport_read_def looped_def regs_def)
qed

lemma count_loop_counts:
  "looped I F D H k d \<Longrightarrow> k \<le> n \<Longrightarrow> returns (\<lambda>(c, d). c = k \<and> looped I F D H 0 d) (count_loop uart_bus n d)"
proof (induction n arbitrary: k d)
  case 0
  then show ?case by (auto intro!: returns_bind [OF looped_lsr [OF 0(1)]])
next
  case (Suc n)
  show ?case
  proof (cases k)
    case 0
    then show ?thesis using Suc.prems by (auto intro!: returns_bind [OF looped_lsr [OF Suc.prems(1)]])
  next
    case (Suc j)
    then show ?thesis
      using Suc.prems(2)
      by (auto simp del: uart_bus_read intro!: returns_bind [OF looped_lsr [OF Suc.prems(1)]] returns_bind [OF looped_get]
          returns_bind [OF Suc.IH])
  qed
qed

lemma fill_16 [acc]:
  assumes "regs 0x03 0x10 I F D H d" and "F AND 1 \<noteq> 0" and "\<And>d. looped I F D H 16 d \<Longrightarrow> returns P (f d)"
  shows "returns P (rbind (fill_loop uart_bus 256 0 d) f)"
  using fill_loop_fills [OF assms(1,2), of 256 0] assms(3) by (auto intro: returns_bind)

lemma count_16 [acc]:
  assumes "looped I F D H 16 d" and "\<And>d. regs 0x03 0x10 I F D H d \<Longrightarrow> returns P (f (16, d))"
  shows "returns P (rbind (count_loop uart_bus 256 d) f)"
proof (rule returns_bind [OF count_loop_counts [OF assms(1)]])
  show "(16::nat) \<le> 256" by simp
  fix x :: "nat \<times> uart_dev"
  assume "case x of (c, d) \<Rightarrow> c = 16 \<and> looped I F D H 0 d"
  then show "returns P (f x)" using assms(2) by (cases x) (auto simp: looped_def)
qed

text \<open>
  The measured size is right. What is written back to the FIFO control register is what was read at
  its address, the interrupt identification register; so the FIFO's mode is not known afterwards.
\<close>

lemma size_fifo_16 [acc]:
  assumes "regs L M I 0x01 D 0xC0 d" and "M AND 0x1f = M" and f: "\<And>F H d. regs L M I F D H d \<Longrightarrow> returns P (f (16, d))"
  shows "returns P (rbind (size_fifo uart_bus d) f)"
  using assms(1,2) unfolding size_fifo_def rbind_assoc
  apply -
  apply (assumption | rule acc | (rule write_2, assumption, (simp; fail)) | (rule write_2_any, assumption) | (simp; fail)
      | simp only: prod.case rbind_assoc rbind_Inr)+
  apply (erule f)
  done

text \<open>Identification of a 16550A, part by part. \<open>H\<close> is the FIFO state in the identification register.\<close>

lemma high_nibble:
  fixes v :: u8
  assumes "v AND 0xF0 = 0xC0"
  shows "v \<noteq> 0" "drop_bit 5 v = 6" "drop_bit 6 v = 3" "v AND 0x10 = 0"
proof -
  show "v \<noteq> 0" using assms by auto
  have "drop_bit 5 (v AND 0xF0) = drop_bit 5 v" "drop_bit 6 (v AND 0xF0) = drop_bit 6 v"
    by (rule bit_word_eqI, auto simp: bit_simps word_bits dest: bit_imp_le_length)+
  then show "drop_bit 5 v = 6" "drop_bit 6 v = 3" by (simp_all add: assms drop_bit_eq_div)
  have "v AND 0x10 = (v AND 0xF0) AND 0x10" by (simp add: and.assoc)
  then show "v AND 0x10 = 0" by (simp add: assms)
qed

lemma bind_if:
  "c \<Longrightarrow> returns P (rbind a f) \<Longrightarrow> returns P (rbind (if c then a else b) f)"
  "\<not> c \<Longrightarrow> returns P (rbind b f) \<Longrightarrow> returns P (rbind (if c then a else b) f)"
  by simp_all

lemma loop_bit_same:
  fixes v w :: u8
  assumes "v AND 0xF0 = 0xC0" and "w AND 0x10 = 0"
  shows "(v XOR w) AND 0x10 = 0"
  using high_nibble(4) [OF assms(1)] assms(2) by (simp only: bit.conj_xor_distrib2) simp

lemma natsemi_no [acc]:
  assumes "regs L M I 0x01 D 0xC0 d" and M: "M AND 0x1f = M" "M AND 0x10 = 0"
    and f: "\<And>d. regs 0 M I 0x01 D 0xC0 d \<Longrightarrow> returns P (f (False, up, d))"
  shows "returns P (rbind (probe_natsemi uart_bus up d) f)"
  using assms(1) unfolding probe_natsemi_def rbind_assoc
  apply -
  apply (assumption | rule acc M | (simp add: M; fail) | simp only: prod.case rbind_assoc rbind_Inr
      | (rule bind_if(1), (rule loop_bit_same; fact?; assumption); fail)
      | (rule bind_if, (simp add: loop_bit_same M; fail)))+
  apply (erule f)
  done

lemma ti16750_no [acc]:
  assumes "regs L M I 0x01 D 0xC0 d" and f: "\<And>d. regs 0 M I 0x01 D 0xC0 d \<Longrightarrow> returns P (f (False, up, d))"
  shows "returns P (rbind (probe_16750 uart_bus up d) f)"
  using assms(1) unfolding probe_16750_def rbind_assoc
  apply -
  apply (assumption | rule acc | (rule write_2, assumption, (simp; fail)) | (simp; fail) | simp only: prod.case rbind_assoc rbind_Inr
      | (rule bind_if, (simp add: high_nibble; fail)))+
  apply (erule f)
  done

lemma xscale_no [acc]:
  assumes "regs 0 M I F D H d" and I: "I AND 0x0f = I"
    and f: "\<And>d. regs 0 M I F D H d \<Longrightarrow> returns P (f (False, up, d))"
  shows "returns P (rbind (probe_xscale uart_bus up d) f)"
  using assms(1) unfolding probe_xscale_def rbind_assoc
  apply -
  apply (assumption | rule acc | (simp; fail) | simp only: prod.case rbind_assoc rbind_Inr
      | (rule bind_if, (simp add: and.assoc; fail)))+
  apply (simp only: I)
  apply (erule f)
  done

lemma fcr_toggle [acc]:
  assumes r: "regs L M I F D H d" and H: "H AND 0x3F = 0" and f: "\<And>d. regs 0 M I 0x01 D 0xC0 d \<Longrightarrow> returns P (f d)"
  shows "returns P (rbind (bus_write uart_bus d 2 0) (\<lambda>d.
    rbind (bus_write uart_bus d 3 0) (\<lambda>d. rbind (bus_write uart_bus d 2 0x01) f)))"
proof -
  have "(0x3F OR 0xC0 :: u8) = - 1" by simp
  then have "H = H AND (0x3F OR 0xC0)" by (simp only: and.right_neutral)
  also have "\<dots> = H AND 0xC0" by (simp only: bit.conj_disj_distrib H or.left_neutral)
  finally have h: "H = H AND 0xC0" .
  have m: "(0xC0 :: u8) AND - 0xC1 = 0" by simp
  have on: "H OR 0xC0 = 0xC0" by (subst h) (rule bit_word_eqI, auto simp: bit_simps)
  have off: "H AND - 0xC1 = 0" by (subst h) (simp only: and.assoc m and_zero_eq)
  show ?thesis
  proof (cases "F = 0")
    case True
    with r have r0: "regs L M I 0 D H d" by simp
    show ?thesis
      by (rule write_2 [OF r0, where w = 0 and G = H], simp, rule write_lcr, assumption,
          rule write_2 [where w = 1 and G = "0xC0"], assumption, simp add: on, erule f)
  next
    case False
    show ?thesis
      by (rule write_2 [OF r, where w = 0 and G = 0], simp add: False off, rule write_lcr, assumption,
          rule write_2 [where w = 1 and G = "0xC0"], assumption, simp, erule f)
  qed
qed

lemma clear_fifos_regs [acc]:
  assumes r: "regs L M I F D H d" and c: "capabilities up AND UART_CAP_FIFO \<noteq> 0"
    and f: "\<And>H d. regs L M I 0 D H d \<Longrightarrow> returns P (f d)"
  shows "returns P (rbind (serial8250_clear_fifos uart_bus up d) f)"
proof -
  have seven: "(0x01 OR 0x02 OR 0x04 :: u8) = 0x07" by simp
  have last: "returns P (rbind (bus_write uart_bus d 2 0x07) (\<lambda>d. rbind (bus_write uart_bus d 2 0) f))"
    if "regs L M I 0x01 D G d" for G d
    by (rule write_2 [OF that, where w = 1 and G = "G OR 0xC0"], simp,
        rule write_2 [where w = 0 and G = "(G OR 0xC0) AND - 0xC1"], assumption, simp, erule f)
  show ?thesis
    using c unfolding serial8250_clear_fifos_def if_P [OF c] rbind_assoc seven
    by (cases "F = 1")
      ((rule write_2 [OF r, where w = 1 and G = H], simp, erule last),
        (rule write_2 [OF r, where w = 1 and G = "H OR 0xC0"], simp, erule last))
qed

section \<open>The whole detection\<close>

lemma autoconfig_16550a_uart:
  assumes "regs L M I 0x01 D 0xC0 d" and M: "M AND 0x1f = M" "M AND 0x10 = 0" and I: "I AND 0x0f = I" and x: "\<not> upf_exar_efr up"
    and f: "\<And>F H d. regs 0 M I F D H d \<Longrightarrow>
      returns P (f (up\<lparr>ptype := PORT_16550A, capabilities := capabilities up OR UART_CAP_FIFO\<rparr>, d))"
  shows "returns P (rbind (autoconfig_16550a uart_bus up d) f)"
  using assms(1) unfolding autoconfig_16550a_def probe_exar_u6_def Let_def rbind_assoc
  apply -
  apply (assumption | rule acc M I | (simp; fail) | simp only: prod.case rbind_assoc rbind_Inr
      | (rule bind_if, (simp add: high_nibble x; fail)))+
  apply (simp add: x)
  apply (erule f)
  done

text \<open>The two tests of existence, on a UART that is not in loopback.\<close>

lemma test_ier_uart:
  assumes "regs L M I F D H d" and L: "L AND 0x80 = 0" and I: "I AND 0x0f = I"
    and f: "\<And>d. regs L M I F D H d \<Longrightarrow> returns P (f (True, d))"
  shows "returns P (rbind (test_ier uart_bus d) f)"
  using assms(1) unfolding test_ier_def rbind_assoc
  apply -
  apply (assumption | rule acc I L | (simp add: L I; fail) | simp only: prod.case rbind_assoc rbind_Inr)+
  apply (simp add: L I f)
  done

lemma test_loop_uart:
  assumes "regs L M I F D H d" and M: "M AND 0x1f = M"
    and f: "\<And>d. regs L M I F D H d \<Longrightarrow> returns P (f (True, d))"
  shows "returns P (rbind (test_loop uart_bus d M) f)"
  using assms(1) unfolding test_loop_def rbind_assoc
  apply -
  apply (assumption | rule acc M | (simp add: M; fail) | simp only: prod.case rbind_assoc rbind_Inr)+
  apply (simp add: f)
  done

lemma config_16550A:
  "fifo_size (uart_config PORT_16550A) = 16" "cfg_tx_loadsz (uart_config PORT_16550A) = 16"
  "cfg_flags (uart_config PORT_16550A) = UART_CAP_FIFO"
  by (simp_all add: chip_def)

lemma autoconfig_reset_uart:
  assumes "regs 0 M I F D H d" and L: "L AND 0x80 = 0" and M: "M AND 0x1f = M" and up: "ptype up = PORT_16550A"
    and f: "\<And>H d. regs L M 0 0 D H d \<Longrightarrow> P (up\<lparr>fifosize := 16, capabilities := UART_CAP_FIFO, tx_loadsz := 16\<rparr>, d)"
  shows "returns P (autoconfig_reset uart_bus up d L M)"
  using assms(1) unfolding autoconfig_reset_def
  apply -
  apply (rule write_lcr, assumption)
  apply (simp add: up config_16550A Let_def del: uart_config.simps One_nat_def)
  apply (assumption | rule acc M | (simp add: L M; fail) | simp only: prod.case rbind_assoc rbind_Inr)+
  apply (simp add: f)
  done

lemma tests_pass [acc]:
  assumes "regs L M I F D H d"
  shows "L AND 0x80 = 0 \<Longrightarrow> I AND 0x0f = I \<Longrightarrow> (\<And>d. regs L M I F D H d \<Longrightarrow> returns P (f (True, d))) \<Longrightarrow>
      returns P (rbind (if \<not> c then test_ier uart_bus d else Inr (True, d)) f)"
    and "M AND 0x1f = M \<Longrightarrow> (\<And>d. regs L M I F D H d \<Longrightarrow> returns P (f (True, d))) \<Longrightarrow>
      returns P (rbind (if \<not> c then test_loop uart_bus d M else Inr (True, d)) f)"
  using test_ier_uart [OF assms, of P f] test_loop_uart [OF assms, of P f] assms by (cases c; simp)+

lemma autoconfig_uart:
  assumes r: "regs L M I F D H d" and L: "L AND 0x80 = 0" and M: "M AND 0x1f = M" "M AND 0x10 = 0" and I: "I AND 0x0f = I"
    and H: "H AND 0x3F = 0" and up: "has_addr up" "\<not> upf_exar_efr up"
    and f: "\<And>H d. regs L M 0 0 D H d \<Longrightarrow>
      P (up\<lparr>bugs := 0, ptype := PORT_16550A, fifosize := 16, capabilities := UART_CAP_FIFO, tx_loadsz := 16\<rparr>, d)"
  shows "returns P (autoconfig uart_bus up d)"
proof -
  obtain u where u: "up\<lparr>capabilities := 0, bugs := 0\<rparr> = u" by blast
  then have x: "\<not> upf_exar_efr u" using up(2) by auto
  show ?thesis
    using r unfolding autoconfig_def Let_def u
    apply -
    apply (simp only: up(1) not_True_eq_False if_False)
    apply (assumption | rule acc M L I H | (simp add: L M I x; fail) | simp only: prod.case rbind_assoc rbind_Inr not_True_eq_False if_False
         | (rule bind_if, (simp add: high_nibble; fail)))+
    apply (erule autoconfig_16550a_uart [OF _ M I x])
    apply (simp only: prod.case)
    apply (erule autoconfig_reset_uart [OF _ L M(1)])
    apply (simp add: u [symmetric])
    apply (drule f)
    apply (simp add: u [symmetric])
    done
qed

text \<open>
  C36. \<open>autoconfig\<close> recognises QEMU's UART: whatever the environment does during the accesses, a UART with
  the divisor latch closed and not in loopback is found to be a 16550A with a FIFO of 16 bytes, its line
  and modem control registers and its divisor are left as they were, and its interrupts and FIFO are off.
\<close>

theorem autoconfig_identifies:
  assumes "ser_good s" and "lcr s AND 0x80 = 0" and "mcr s AND 0x1f = mcr s" and "mcr s AND 0x10 = 0"
    and "ier s AND 0x0f = ier s" and "iir s AND 0x30 = 0" and "has_addr up" and "\<not> upf_exar_efr up"
  shows "\<exists>es' t. autoconfig uart_bus up (es, s) = Inr
      (up\<lparr>bugs := 0, ptype := PORT_16550A, fifosize := 16, capabilities := UART_CAP_FIFO, tx_loadsz := 16\<rparr>, (es', t)) \<and>
    ser_good t \<and> lcr t = lcr s \<and> mcr t = mcr s \<and> divider t = divider s \<and> ier t = 0 \<and> fcr t = 0"
proof -
  have r: "regs (lcr s) (mcr s) (ier s) (fcr s) (divider s) (iir s AND 0xF0) (es, s)"
    using assms(1) by (simp add: regs_def regs_of_def)
  have m: "(0xF0 AND 0x3F :: u8) = 0x30" by simp
  have h: "(iir s AND 0xF0) AND 0x3F = 0" using assms(6) by (simp only: and.assoc m)
  have "returns (\<lambda>(v, d).
      v = up\<lparr>bugs := 0, ptype := PORT_16550A, fifosize := 16, capabilities := UART_CAP_FIFO, tx_loadsz := 16\<rparr> \<and>
      (\<exists>H. regs (lcr s) (mcr s) 0 0 (divider s) H d)) (autoconfig uart_bus up (es, s))"
    by (rule autoconfig_uart [OF r assms(2-5) h assms(7,8)]) auto
  then show ?thesis by (auto simp: regs_def regs_of_def elim!: returnsE)
qed

lemma autoconfig_identifies_witness:
  "\<exists>es' t. autoconfig uart_bus (port0\<lparr>ptype := PORT_UNKNOWN, capabilities := 0\<rparr>) ((\<lambda>_. env0), uart0) = Inr
      (port0\<lparr>bugs := 0, ptype := PORT_16550A, fifosize := 16, capabilities := UART_CAP_FIFO, tx_loadsz := 16\<rparr>, (es', t)) \<and>
    ier t = 0 \<and> mcr t = 8"
proof -
  have iir: "iir uart0 = 1"
    by (simp add: uart0_def serial_reset_def Let_def fifo_clear_def set_fifo_def the_fifo_def serial_zero_def)
  have ier: "ier uart0 AND 0x0f = ier uart0"
    by (simp add: uart0_def serial_reset_def Let_def fifo_clear_def set_fifo_def the_fifo_def serial_zero_def)
  show ?thesis
    using autoconfig_identifies [OF uart0_good, of "port0\<lparr>ptype := PORT_UNKNOWN, capabilities := 0\<rparr>" "\<lambda>_. env0"] ier
    by (auto simp: uart0_regs iir port0_def)
qed

end
