(* ===== verification/Linux_8250_Rate.thy ===== *)
theory Linux_8250_Rate
  imports Linux_8250_Line Linux_8250_Detect
begin

unbundle bit_operations_syntax

text \<open>
  What the choice of the baud rate and the divisor guarantees (\<open>uart_get_baud_rate\<close>,
  \<open>uart_get_divisor\<close>, \<open>serial8250_get_divisor\<close>), and where it fails.
\<close>

section \<open>The baud rate\<close>

text \<open>The rate that an attempt asks for, and what an attempt outside the range leaves to the next.\<close>

definition asked :: "u32 \<Rightarrow> ktermios \<Rightarrow> u32" where
  "asked alt t =
     (let r = tty_termios_baud_rate t; r = (if r = 38400 then alt else r) in if r = 0 then 9600 else r)"

definition hangs_up :: "u32 \<Rightarrow> ktermios \<Rightarrow> bool" where
  "hangs_up alt t \<longleftrightarrow> (let r = tty_termios_baud_rate t in (if r = 38400 then alt else r) = 0)"

definition retry :: "kernel \<Rightarrow> u32 \<Rightarrow> u32 \<Rightarrow> u32 \<Rightarrow> bool \<Rightarrow> ktermios \<Rightarrow> ktermios option \<Rightarrow> ktermios" where
  "retry ke alt lo hi h t old =
     (if h \<or> hangs_up alt t then set_baud None t
      else set_baud (k_encode ke (case old of Some o' \<Rightarrow> tty_termios_baud_rate o'
             | None \<Rightarrow> if asked alt t \<le> lo then lo + 1 else hi - 1)) t)"

lemma set_baud_twice [simp]: "set_baud r (set_baud q t) = set_baud r t"
  by (simp add: set_baud_def)

lemma rate_set_baud [simp]: "tty_termios_baud_rate (set_baud r t) = (case r of None \<Rightarrow> 0 | Some x \<Rightarrow> x)"
  by (simp add: set_baud_def tty_termios_baud_rate_def)

lemma baud_loop_Suc:
  "baud_loop ke alt lo hi (Suc n) h t old =
     (if lo \<le> asked alt t \<and> asked alt t \<le> hi then (asked alt t, t)
      else baud_loop ke alt lo hi n (h \<or> hangs_up alt t) (retry ke alt lo hi h t old) None)"
  by (cases "(if tty_termios_baud_rate t = 38400 then alt else tty_termios_baud_rate t) = 0"; cases h; cases old)
    (simp_all add: Let_def asked_def hangs_up_def retry_def del: not_le)

declare baud_loop.simps(2) [simp del]

lemma baud_loop_range:
  "fst (baud_loop ke alt lo hi n h t old) \<noteq> 0 \<Longrightarrow>
     lo \<le> fst (baud_loop ke alt lo hi n h t old) \<and> fst (baud_loop ke alt lo hi n h t old) \<le> hi"
proof (induction n arbitrary: h t old)
  case (Suc n)
  show ?case
  proof (cases "lo \<le> asked alt t \<and> asked alt t \<le> hi")
    case True
    then show ?thesis by (simp add: baud_loop_Suc)
  next
    case False
    with Suc show ?thesis unfolding baud_loop_Suc if_not_P [OF False] by blast
  qed
qed simp

lemma get_baud_rate_eq:
  "uart_get_baud_rate ke up t old lo hi =
     (let alt = alt_baud up;
          t2 = retry ke alt lo hi False t old
      in if lo \<le> asked alt t \<and> asked alt t \<le> hi then (asked alt t, t)
         else if lo \<le> asked alt t2 \<and> asked alt t2 \<le> hi then (asked alt t2, t2)
         else (0, retry ke alt lo hi (hangs_up alt t) t2 None))"
  by (simp add: uart_get_baud_rate_def numeral_2_eq_2 baud_loop_Suc Let_def)

lemma rate_in_range:
  assumes "uart_get_baud_rate ke up t old lo hi = (baud, t')" and "baud \<noteq> 0"
  shows "lo \<le> baud" "baud \<le> hi"
  using baud_loop_range [of ke "alt_baud up" lo hi 2 False t old] assms by (simp_all add: uart_get_baud_rate_def)

text \<open>
  The chosen rate is one that the port can do, or 0; and the rate asked for is chosen when the port
  can do it, without touching the termios. The rate \<open>B0\<close> asks for 9600, and 38400 for what the port's
  speed flags make of it.
\<close>

theorem baud_rate_chosen:
  assumes "uart_get_baud_rate ke up t old lo hi = (baud, t')"
  shows "(baud = 0 \<or> lo \<le> baud \<and> baud \<le> hi) \<and>
    (lo \<le> asked (alt_baud up) t \<and> asked (alt_baud up) t \<le> hi \<longrightarrow> baud = asked (alt_baud up) t \<and> t' = t)"
  using rate_in_range [OF assms] assms by (auto simp: get_baud_rate_eq Let_def)

definition termios0 :: ktermios where
  "termios0 = \<lparr>
     c_cflag = \<lparr>cf_size = CS8, cf_stopb = False, cf_parenb = False, cf_parodd = False, cf_cmspar = False, cf_crtscts = False,
       cf_clocal = True, cf_cread = True, cf_hupcl = True, cf_baud = Some 9600\<rparr>,
     c_iflag = \<lparr>if_inpck = False, if_brkint = False, if_parmrk = False, if_ignpar = False, if_ignbrk = False, if_ixoff = True\<rparr>,
     c_start = 17, c_stop = 19\<rparr>"

definition kernel0 :: kernel where
  "kernel0 = \<lparr>k_hz = 250, k_skip_txen_test = False, k_kzalloc_ok = True, k_request_irq = 0, k_page_ok = True, k_admin = True,
     k_encode = Some\<rparr>"

theorem baud_rate_chosen_witness:
  "\<exists>t'. uart_get_baud_rate kernel0 port0 (set_baud (Some 230400) termios0) None 1 115200 = (115199, t') \<and>
    (1 :: u32) \<le> 115199 \<and> (115199 :: u32) \<le> 115200"
proof -
  obtain t' where "uart_get_baud_rate kernel0 port0 (set_baud (Some 230400) termios0) None 1 115200 = (115199, t')"
    by (simp add: get_baud_rate_eq Let_def retry_def asked_def hangs_up_def port0_def kernel0_def alt_baud_def word_le_nat_alt)
  with baud_rate_chosen [OF this] show ?thesis by simp
qed

text \<open>
  When neither the new rate nor the one that was set before is one that the port can do (its clock
  was changed in between), the rate chosen is 0, which \<open>should never happen\<close>, and setting the line
  divides by it.
\<close>

theorem set_termios_divides_by_zero:
  assumes "asked (alt_baud up) t \<notin> {uartclk up div 16 div 0xffff..uartclk up div 16}" and "\<not> hangs_up (alt_baud up) t"
    and "k_encode ke (tty_termios_baud_rate old) = Some r"
    and "asked (alt_baud up) (set_baud (Some r) t) \<notin> {uartclk up div 16 div 0xffff..uartclk up div 16}"
  shows "serial8250_do_set_termios ke b up d t (Some old) = Inl DivByZero"
proof -
  obtain t' where z: "uart_get_baud_rate ke up t (Some old) (uartclk up div 16 div 0xffff) (uartclk up div 16) = (0, t')"
    using assms by (auto simp: get_baud_rate_eq Let_def retry_def)
  have upd: "uart_update_timeout ke u c 0 = Inl DivByZero" for u c
    by (simp add: uart_update_timeout_def Let_def)
  show ?thesis
    by (simp add: serial8250_do_set_termios_def z Let_def upd serial8250_get_divisor_def uart_get_divisor_def div_round_closest_def)
qed

theorem set_termios_divides_by_zero_witness:
  "serial8250_do_set_termios kernel0 uart_bus (port0\<lparr>uartclk := 16 * 9600\<rparr>) ((\<lambda>_. env0), uart0)
     (set_baud (Some 57600) termios0) (Some (set_baud (Some 115200) termios0)) = Inl DivByZero"
  by (rule set_termios_divides_by_zero [where r = 115200])
    (simp_all add: asked_def hangs_up_def port0_def alt_baud_def kernel0_def)

section \<open>The divisor\<close>

lemma div_round_closest_eq:
  assumes "y \<noteq> 0" and "unat x + unat y div 2 < 2 ^ 32"
  shows "\<exists>q. div_round_closest x y = Inr q \<and> unat q = (unat x + unat y div 2) div unat y"
proof -
  have h: "unat (y div 2) = unat y div 2" by (simp add: unat_div)
  have "unat (x + y div 2) = unat x + unat y div 2"
    using assms(2) by (subst unat_add_lem [THEN iffD1]) (simp_all add: h)
  then have "unat ((x + y div 2) div y) = (unat x + unat y div 2) div unat y" by (simp add: unat_div)
  with assms(1) show ?thesis by (simp add: div_round_closest_def)
qed

lemma nearest_multiple:
  fixes x y :: nat
  assumes "0 < y" and "q = (x + y div 2) div y"
  shows "q * y \<le> x + y div 2 \<and> x < q * y + (y - y div 2)"
proof -
  have "q * y \<le> x + y div 2" by (simp add: assms(2) div_times_less_eq_dividend)
  moreover have "x + y div 2 = q * y + (x + y div 2) mod y" by (simp add: assms(2))
  then have "x + y div 2 < q * y + y" using mod_less_divisor [OF assms(1), of "x + y div 2"] by linarith
  ultimately show ?thesis by linarith
qed

lemma unat_mult_16:
  fixes b :: u32
  assumes "b \<le> c div 16"
  shows "unat (16 * b) = 16 * unat b" "16 * unat b \<le> unat c"
proof -
  have "unat b \<le> unat c div 16" using assms by (simp add: word_le_nat_alt unat_div)
  then show le: "16 * unat b \<le> unat c" by linarith
  have "unat c < 2 ^ 32" using unsigned_less [of c] by simp
  with le have "16 * unat b < 2 ^ 32" by linarith
  then show "unat (16 * b) = 16 * unat b"
    by (subst unat_mult_lem [THEN iffD1]) simp_all
qed

lemma divisor_of_rate:
  assumes "baud \<le> uartclk up div 16" and "baud \<noteq> 0" and "\<not> (baud = 38400 \<and> upf_spd up = SPD_CUST)"
    and "unat (uartclk up) + 8 * unat baud < 2 ^ 32"
  shows "\<exists>q. serial8250_get_divisor up baud = Inr q \<and>
    unat q * (16 * unat baud) \<le> unat (uartclk up) + 8 * unat baud \<and>
    unat (uartclk up) < unat q * (16 * unat baud) + 8 * unat baud"
proof -
  let ?c = "uartclk up"
  note m = unat_mult_16 [OF assms(1)]
  have b: "0 < unat baud" using assms(2) by (simp add: unat_gt_0)
  have "unat (?c div 4) = unat ?c div 4" "unat (?c div 8) = unat ?c div 8" by (simp_all add: unat_div)
  with m(2) b have "unat baud \<noteq> unat (?c div 4)" "unat baud \<noteq> unat (?c div 8)" by linarith+
  then have magic: "baud \<noteq> ?c div 4" "baud \<noteq> ?c div 8" by auto
  have "16 * baud \<noteq> 0" using m(1) b by auto
  moreover have "unat ?c + unat (16 * baud) div 2 < 2 ^ 32" using m assms(4) by simp
  ultimately obtain q where q: "div_round_closest ?c (16 * baud) = Inr q"
      "unat q = (unat ?c + 16 * unat baud div 2) div (16 * unat baud)"
    using div_round_closest_eq [of "16 * baud" ?c] m(1) by auto
  have "serial8250_get_divisor up baud = Inr q"
    using magic assms(3) q(1) by (auto simp: serial8250_get_divisor_def uart_get_divisor_def)
  with nearest_multiple [OF _ q(2)] b show ?thesis by auto
qed

text \<open>With a custom divisor, 38400 is not divided for, and the special divisors do not get in its way.\<close>

lemma custom_rate:
  assumes "baud \<le> uartclk up div 16" and "baud \<noteq> 0" and "baud = 38400 \<and> upf_spd up = SPD_CUST"
  shows "serial8250_get_divisor up baud = Inr (custom_divisor up)"
proof -
  have b: "0 < unat baud" using assms(2) by (simp add: unat_gt_0)
  have "unat (uartclk up div 4) = unat (uartclk up) div 4" "unat (uartclk up div 8) = unat (uartclk up) div 8" by (simp_all add: unat_div)
  with unat_mult_16(2) [OF assms(1)] b have "unat baud \<noteq> unat (uartclk up div 4)" "unat baud \<noteq> unat (uartclk up div 8)" by linarith+
  then have "baud \<noteq> uartclk up div 4" "baud \<noteq> uartclk up div 8" by auto
  then show ?thesis using assms(3) by (auto simp: serial8250_get_divisor_def uart_get_divisor_def)
qed

text \<open>
  C33. The divisor of the rate that \<open>uart_get_baud_rate\<close> chooses within the limits of \<open>serial8250_do_set_termios\<close>, when
  it chooses one (not 0) and the clock plus eight times the rate fits 32 bits. On a port with a custom divisor
  (UPF_SPD_CUST) the rate 38400 gets that divisor, whatever it is. In every other case \<open>serial8250_get_divisor\<close> returns
  the nearest divisor: no other multiple of sixteen times the rate is closer to the clock; and it fits its latch of
  sixteen bits if the rate times the largest divisor reaches the clock. The two special divisors for rates of a quarter
  and an eighth of the clock are never selected, because no rate above a sixteenth is chosen.
\<close>

theorem divisor_nearest:
  assumes "uart_get_baud_rate ke up t old (uartclk up div 16 div 0xffff) (uartclk up div 16) = (baud, t')" and "baud \<noteq> 0"
    and "unat (uartclk up) + 8 * unat baud < 2 ^ 32"
  shows "\<exists>q. serial8250_get_divisor up baud = Inr q \<and>
    (if baud = 38400 \<and> upf_spd up = SPD_CUST then q = custom_divisor up
     else unat q * (16 * unat baud) \<le> unat (uartclk up) + 8 * unat baud \<and>
       unat (uartclk up) < unat q * (16 * unat baud) + 8 * unat baud \<and>
       (unat (uartclk up) \<le> 0xffff * (16 * unat baud) \<longrightarrow> q \<le> 0xffff))"
proof (cases "baud = 38400 \<and> upf_spd up = SPD_CUST")
  case True
  then show ?thesis using custom_rate [OF rate_in_range(2) [OF assms(1,2)] assms(2)] by simp
next
  case False
  let ?c = "uartclk up"
  have b: "0 < unat baud" using assms(2) by (simp add: unat_gt_0)
  obtain q where q: "serial8250_get_divisor up baud = Inr q" "unat q * (16 * unat baud) \<le> unat ?c + 8 * unat baud"
      "unat ?c < unat q * (16 * unat baud) + 8 * unat baud"
    using divisor_of_rate [OF rate_in_range(2) [OF assms(1,2)] assms(2) False assms(3)] by blast
  have "q \<le> 0xffff" if "unat ?c \<le> 0xffff * (16 * unat baud)"
  proof -
    have "unat q * (16 * unat baud) \<le> 0xffff * (16 * unat baud) + 8 * unat baud" using q(2) that by linarith
    then have "2 * unat q \<le> 131071" using b by simp
    then show ?thesis by (simp add: word_le_nat_alt)
  qed
  with q show ?thesis unfolding if_not_P [OF False] by blast
qed

theorem divisor_nearest_witness:
  "\<exists>q. serial8250_get_divisor port0 9600 = Inr q \<and> unat q * (16 * 9600) \<le> 1843200 + 8 * 9600 \<and> q \<le> 0xffff"
proof -
  have "uart_get_baud_rate kernel0 port0 termios0 None (uartclk port0 div 16 div 0xffff) (uartclk port0 div 16) = (9600, termios0)"
    by (simp add: get_baud_rate_eq Let_def asked_def port0_def alt_baud_def termios0_def tty_termios_baud_rate_def)
  from divisor_nearest [OF this] show ?thesis by (auto simp: port0_def)
qed

text \<open>
  The lower end of the range is rounded down, so it may be a rate whose divisor does not fit: with the
  clock of a PC one bit per second is accepted, and the latch gets the low half of 115200.
\<close>

lemma lowest_rate_overflows:
  "uart_get_baud_rate ke port0 (set_baud (Some 1) termios0) old (uartclk port0 div 16 div 0xffff) (uartclk port0 div 16) =
     (1, set_baud (Some 1) termios0)"
  "serial8250_get_divisor port0 1 = Inr 115200" "(ucast (115200 :: u32) :: u16) = 49664"
  by (simp_all add: get_baud_rate_eq Let_def asked_def port0_def alt_baud_def serial8250_get_divisor_def uart_get_divisor_def
      div_round_closest_def)

end
