(* ===== verification/Linux_8250_Set.thy ===== *)
theory Linux_8250_Set
  imports Linux_8250_Rate
begin

unbundle bit_operations_syntax

text \<open>
  Setting a line (\<open>serial8250_do_set_termios\<close>) on QEMU's UART. The registers are followed with \<open>regs\<close>;
  a second run of the same code shows what does not depend on their values: the host's line agrees
  with the divisor and the line control register (\<open>host_told\<close>), and nothing is received (\<open>idle\<close>).
\<close>

declare loop_simps [simp del]

section \<open>What the host's line was set to\<close>

definition line_params :: "u8 \<Rightarrow> int \<Rightarrow> u16 \<Rightarrow> chr_call" where
  "line_params l base dv =
     ChrSetParams (base sdiv uint dv)
       (if l AND 0x08 \<noteq> 0 then (if l AND 0x10 \<noteq> 0 then CHR ''E'' else CHR ''O'') else CHR ''N'')
       (uint (l AND 0x03) + 5) (if l AND 0x04 \<noteq> 0 then 2 else 1)"

lemma line_params_call [simp]: "\<not> quiet_call (line_params l base dv)"
  by (simp add: line_params_def)

text \<open>The part of the device that decides it, with the calls that set the host's line.\<close>

definition line_of :: "serial_state \<Rightarrow> u16 \<times> u8 \<times> int \<times> chr_call list" where
  "line_of s = (divider s, lcr s, baudbase s, filter (\<lambda>c. \<not> quiet_call c) (chr_log s))"

definition told :: "u16 \<times> u8 \<times> int \<times> chr_call list \<Rightarrow> bool" where
  "told v \<longleftrightarrow> (case v of (dv, l, base, calls) \<Rightarrow> dv = 0 \<or> (\<exists>cs. calls = cs @ [line_params l base dv]))"

definition host_told :: "serial_state \<Rightarrow> bool" where
  "host_told s \<longleftrightarrow> told (line_of s)"

interpretation lv: serial_view line_of
  by unfold_locales (simp_all add: line_of_def serial_update_irq_def Let_def)

lemma params_told:
  assumes "serial_update_parameters e s = Inr t"
  shows "host_told t" "baudbase t = baudbase s" "lsr t = lsr s" "recv_fifo t = recv_fifo s" "timeout_ipending t = timeout_ipending s"
    "mcr t = mcr s"
proof -
  have "divider s = 0 \<and> t = s \<or> (\<exists>w. t = s\<lparr>char_transmit_time := w, chr_log := chr_log s @ [line_params (lcr s) (baudbase s) (divider s)]\<rparr>)"
    using assms by (auto simp: serial_update_parameters_def Let_def line_params_def split: if_splits)
  then show "host_told t" "baudbase t = baudbase s" "lsr t = lsr s" "recv_fifo t = recv_fifo s" "timeout_ipending t = timeout_ipending s"
    "mcr t = mcr s"
    by (auto simp: host_told_def line_of_def told_def)
qed

lemma line_of_frame [simp]: "line_of (s\<lparr>ier := i\<rparr>) = line_of s" "line_of (s\<lparr>mcr := i\<rparr>) = line_of s"
  by (simp_all add: line_of_def)

section \<open>A line on which nothing happens\<close>

definition idle :: "serial_state \<Rightarrow> bool" where
  "idle s \<longleftrightarrow> lsr s AND 0x1F = 0 \<and> \<not> timeout_ipending s \<and> fcount (recv_fifo s) = 0"

text \<open>\<open>calm q\<close>: outside loopback, with nothing received; \<open>q\<close> says whether the host is known to be told.\<close>

definition calm_state :: "bool \<Rightarrow> int \<Rightarrow> serial_state \<Rightarrow> bool" where
  "calm_state q base s \<longleftrightarrow> mcr s AND 0x10 = 0 \<and> idle s \<and> baudbase s = base \<and> (q \<longrightarrow> host_told s)"

definition calm :: "bool \<Rightarrow> int \<Rightarrow> uart_dev \<Rightarrow> bool" where
  "calm q base d \<longleftrightarrow> ser_good (snd d) \<and> calm_state q base (snd d)"

lemma calm_stateI:
  "calm_state q base s \<Longrightarrow> mcr t AND 0x10 = 0 \<Longrightarrow> lsr t AND 0x1F = lsr s AND 0x1F \<Longrightarrow> (timeout_ipending t \<longrightarrow> timeout_ipending s) \<Longrightarrow>
     fcount (recv_fifo t) = fcount (recv_fifo s) \<or> fcount (recv_fifo t) = 0 \<Longrightarrow> line_of t = line_of s \<Longrightarrow> calm_state q base t"
  by (auto simp: calm_state_def idle_def host_told_def line_of_def)

lemma calm_keeps: "calm_state q base s \<Longrightarrow> keeps s t \<Longrightarrow> line_of t = line_of s \<Longrightarrow> calm_state q base t"
  by (rule calm_stateI) (auto simp: keeps_def calm_state_def)

lemma calm_params:
  assumes "calm_state q base s" and "serial_update_parameters e (s\<lparr>lcr := l, divider := dv\<rparr>) = Inr t"
  shows "calm_state True base t"
  using assms(1) params_told [OF assms(2)] by (simp add: calm_state_def idle_def)

lemma calm_update_irq [simp]: "calm_state q base (serial_update_irq s) = calm_state q base s"
  by (auto simp: calm_state_def idle_def host_told_def)

lemma calm_frame [simp]:
  "calm_state q base (s\<lparr>thr_ipending := p\<rparr>) = calm_state q base s" "calm_state q base (s\<lparr>msr := m\<rparr>) = calm_state q base s"
  by (simp_all add: calm_state_def idle_def host_told_def)

lemma fcr_loaded_calm:
  assumes "calm_state q base s"
  shows "calm_state q base (fcr_loaded s (v AND 0xFF))"
proof (rule calm_stateI [OF assms])
  show "line_of (fcr_loaded s (v AND 0xFF)) = line_of s"
    by (simp add: line_of_def fcr_loaded_def Let_def fifo_clear_def set_fifo_def)
qed (use assms in \<open>simp_all add: fcr_loaded_def Let_def fifo_clear_def set_fifo_def the_fifo_def calm_state_def\<close>)

lemma write_calm:
  fixes v :: u8
  assumes "ser_good s" and "calm_state q base s" and "a < 8" and "a = 4 \<longrightarrow> v AND 0x10 = 0"
    and w: "serial_ioport_write e s a (ucast v) = Inr t"
  shows "calm_state (q \<or> a = 3) base t"
proof -
  have inv: "ser_inv s" and mcr: "mcr s AND 0x10 = 0" using assms(1,2) by (simp_all add: ser_good_def calm_state_def)
  consider "a = 0" | "a = 1" | "a = 2" | "a = 3" | "a = 4" | "a = 5" | "a = 6" | "a = 7"
    using assms(3) by linarith
  then show ?thesis
  proof cases
    case 1
    show ?thesis
    proof (cases "lcr s AND 0x80 = 0")
      case True
      obtain t' where t': "serial_ioport_write e s 0 (ucast v) = Inr t'" "keeps s t'"
        using thr_write [OF assms(1) True mcr, of e v] by blast
      have "serial_xmit e (thr_loaded s (ucast v)) = Inr t"
        using w 1 by (simp add: serial_ioport_write_def write_reg0_thr [OF inv True])
      from lv.transmit [OF this] t' w 1 assms(2) show ?thesis by (auto intro: calm_keeps)
    next
      case False
      then have "\<exists>dv. serial_update_parameters e (s\<lparr>divider := dv\<rparr>) = Inr t"
        using w 1 by (auto simp: serial_ioport_write_def write_reg0_def)
      then obtain dv where "serial_update_parameters e (s\<lparr>lcr := lcr s, divider := dv\<rparr>) = Inr t" by auto
      from calm_params [OF assms(2) this] show ?thesis by (auto simp: calm_state_def)
    qed
  next
    case 2
    show ?thesis
    proof (cases "lcr s AND 0x80 = 0")
      case True
      obtain t' where t': "serial_ioport_write e s 1 (ucast v) = Inr t'" "keeps s t'"
        using ier_write [OF assms(1) True, of e v] by blast
      have "line_of t = line_of s"
        using w 2 True by (auto simp: serial_ioport_write_def write_reg1_def Let_def split: if_splits)
      with t' w 2 assms(2) show ?thesis by (auto intro: calm_keeps)
    next
      case False
      then have "\<exists>dv. serial_update_parameters e (s\<lparr>divider := dv\<rparr>) = Inr t"
        using w 2 by (auto simp: serial_ioport_write_def write_reg1_def)
      then obtain dv where "serial_update_parameters e (s\<lparr>lcr := lcr s, divider := dv\<rparr>) = Inr t" by auto
      from calm_params [OF assms(2) this] show ?thesis by (auto simp: calm_state_def)
    qed
  next
    case 3
    with w assms(2) fcr_loaded_calm show ?thesis
      by (auto simp: serial_ioport_write_def write_reg2_loaded split: if_splits)
  next
    case 4
    then obtain u where u: "serial_update_parameters e (s\<lparr>lcr := v, divider := divider s\<rparr>) = Inr u"
        "t = u \<or> (\<exists>n. t = u\<lparr>last_break_enable := n, chr_log := chr_log u @ [ChrSetBreak n]\<rparr>)"
      using w by (auto simp: serial_ioport_write_def write_reg3_def rbind_eq_Inr Let_def split: if_splits)
    have "calm_state True base u" by (rule calm_params [OF assms(2) u(1)])
    with u(2) 4 show ?thesis by (auto simp: calm_state_def idle_def host_told_def)
  next
    case 5
    have "(ucast ((ucast v :: u64) AND 0x1f) :: u8) = v AND 0x1f"
      by (rule bit_word_eqI) (auto simp: bit_simps word_bits dest: bit_imp_le_length)
    moreover have "(v AND 0x1f) AND 0x10 = 0" using assms(4) 5 by (simp add: and.assoc)
    ultimately have "calm_state q base t"
      using w 5
      by (intro calm_stateI [OF assms(2)] disjI1)
        (auto simp: serial_ioport_write_def write_reg4_def Let_def split: if_splits)
    with 5 show ?thesis by simp
  qed (use w assms(2) in \<open>auto simp: serial_ioport_write_def calm_state_def idle_def host_told_def\<close>)
qed

lemma lsr_clear_bits:
  fixes w :: u8
  assumes "w AND 0x1F = 0"
  shows "w AND 0x12 = 0" "(w AND - 0x12) AND 0x1F = 0"
proof -
  show "w AND 0x12 = 0" using assms by (rule byte_parts)
  have "(w AND - 0x12) AND 0x1F = (w AND 0x1F) AND - 0x12" by (simp only: ac_simps)
  then show "(w AND - 0x12) AND 0x1F = 0" by (simp add: assms)
qed

lemma read_calm:
  assumes "ser_good s" and "calm_state q base s" and "a < 8" and r: "serial_ioport_read e s a = Inr (v, t)"
  shows "calm_state q base t"
proof -
  have ok: "fifo_ok (recv_fifo s)" using assms(1) by (simp add: ser_good_def ser_inv_def fifos_ok_def)
  have s: "mcr s AND 0x10 = 0" "lsr s AND 0x1F = 0" "\<not> timeout_ipending s" "fcount (recv_fifo s) = 0"
    using assms(2) by (simp_all add: calm_state_def idle_def)
  note lsr = lsr_clear_bits [OF s(2)]
  consider "a = 0" | "a = 1" | "a = 2" | "a = 3" | "a = 4" | "a = 5" | "a = 6" | "a = 7"
    using assms(3) by linarith
  then show ?thesis
  proof cases
    case 1
    then have r0: "read_reg0 e s = Inr (v, t)" using r by (simp add: serial_ioport_read_def)
    have "line_of t = line_of s" by (rule lv.read0 [OF assms(1) r0])
    then show ?thesis
      using r0 s lsr
      by (intro calm_stateI [OF assms(2)])
        (auto simp: read_reg0_def fifo_get_recv [OF ok] Let_def split: if_splits)
  next
    case 3
    with r assms(2) show ?thesis
      by (auto simp: serial_ioport_read_def read_reg2_def split: if_splits)
  next
    case 6
    with r assms(2) lsr show ?thesis by (auto simp: serial_ioport_read_def read_reg5_def)
  next
    case 7
    have "calm_state q base (serial_update_msl e s)"
      using s by (intro calm_stateI [OF assms(2)]) (auto simp: update_msl_keeps update_msl_frame)
    with 7 r assms(2) show ?thesis
      by (auto simp: serial_ioport_read_def read_reg6_def Let_def split: if_splits)
  qed (use r assms(2) in \<open>auto simp: serial_ioport_read_def split: if_splits\<close>)
qed

named_theorems quiet \<open>the effect of one register access on \<open>calm\<close>\<close>

lemma calm_write [quiet]:
  assumes "calm q base d" and "a < 8" and "a = 4 \<longrightarrow> v AND 0x10 = 0" and "\<And>d. calm (q \<or> a = 3) base d \<Longrightarrow> returns P (f d)"
  shows "returns P (rbind (bus_write uart_bus d a v) f)"
proof -
  obtain es s where d: "d = (es, s)" "ser_good s" "calm_state q base s" using assms(1) by (cases d) (simp add: calm_def)
  obtain t where t: "serial_ioport_write (es 0) s a (ucast v) = Inr t" "ser_good t"
    using ioport_write_good [OF d(2)] by blast
  with write_calm [OF d(2,3) assms(2,3)] have "calm (q \<or> a = 3) base (\<lambda>n. es (Suc n), t)" by (simp add: calm_def)
  from assms(4) [OF this] d(1) t(1) show ?thesis by simp
qed

lemma calm_read [quiet]:
  assumes "calm q base d" and "a < 8" and "\<And>v d. calm q base d \<Longrightarrow> returns P (f (v, d))"
  shows "returns P (rbind (bus_read uart_bus d a) f)"
proof -
  obtain es s where d: "d = (es, s)" "ser_good s" "calm_state q base s" using assms(1) by (cases d) (simp add: calm_def)
  obtain v t where t: "serial_ioport_read (es 0) s a = Inr (v, t)" "ser_good t"
    using ioport_read_good [OF d(2)] by blast
  with read_calm [OF d(2,3) assms(2)] have "calm q base (\<lambda>n. es (Suc n), t)" by (simp add: calm_def)
  from assms(3) [OF this] d(1) t(1) show ?thesis by simp
qed

section \<open>Setting the line\<close>

text \<open>The byte that \<open>serial8250_set_mctrl\<close> writes.\<close>

definition mctrl_byte :: "port8250 \<Rightarrow> mctrl \<Rightarrow> u8" where
  "mctrl_byte up m =
     ((((if m_rts m then 0x02 else 0) OR (if m_dtr m then 0x01 else 0) OR (if m_out1 m then 0x04 else 0) OR
        (if m_out2 m then 0x08 else 0) OR (if m_loop m then 0x10 else 0)) AND mcr_mask up) OR mcr_force up) OR mcr8 up"

lemma set_mctrl_eq: "serial8250_set_mctrl b up d m = bus_write b d 4 (mctrl_byte up m)"
  by (simp add: serial8250_set_mctrl_def mctrl_byte_def Let_def or.assoc)

text \<open>A port as \<open>autoconfig\<close> leaves it for a 16550A, whose settings do not loop it back.\<close>

definition std_port :: "port8250 \<Rightarrow> bool" where
  "std_port up \<longleftrightarrow> ptype up = PORT_16550A \<and> capabilities up = UART_CAP_FIFO \<and> fifosize up = 16 \<and>
     bugs up AND UART_BUG_QUOT = 0 \<and> mcr_force up AND 0x10 = 0 \<and> mcr8 up AND 0x10 = 0 \<and> \<not> m_loop (port_mctrl up)"

lemma mctrl_byte_noloop:
  assumes "mcr_force up AND 0x10 = 0" and "mcr8 up AND 0x10 = 0" and "\<not> m_loop m"
  shows "mctrl_byte up m AND 0x10 = 0"
proof -
  have "\<not> bit (mcr_force up) 4" "\<not> bit (mcr8 up) 4"
    using assms(1,2) and_push_bit_neq_0 [of 4 "mcr_force up"] and_push_bit_neq_0 [of 4 "mcr8 up"] by (auto simp: u8_flags)
  then have "\<not> bit (mctrl_byte up m) 4"
    using assms(3) by (simp add: mctrl_byte_def bit_simps bit_numeral_rec)
  then show ?thesis by (simp add: u8_flags)
qed

lemma termios_fcr_std:
  assumes "std_port up"
  shows "termios_fcr up baud = (if baud < 2400 then 0x01 else 0x81)"
  using assms by (simp add: std_port_def termios_fcr_def chip_def)

text \<open>The port when the registers are about to be written, at the rate \<open>baud\<close>.\<close>

definition line_up :: "kernel \<Rightarrow> ktermios \<Rightarrow> u32 \<Rightarrow> port8250 \<Rightarrow> port8250" where
  "line_up ke t baud up =
     (let up = (case uart_update_timeout ke up (c_cflag t) baud of Inr u \<Rightarrow> u | Inl _ \<Rightarrow> up)
      in termios_ier (c_cflag t) (termios_masks t up))"

lemma write_fcr_to [acc]:
  assumes "regs L M I F D H d" and "v AND 0xC9 = v" and "\<And>H d. regs L M I v D H d \<Longrightarrow> returns P (f d)"
  shows "returns P (rbind (bus_write uart_bus d 2 v) f)"
  by (cases "v = F"; rule write_2 [OF assms(1)]) (use assms(2,3) in auto)

lemma retry_eq: "\<exists>r. retry ke alt lo hi h t old = set_baud r t"
  by (auto simp: retry_def)

lemma get_baud_rate_flags:
  assumes "uart_get_baud_rate ke up t old lo hi = (baud, t')"
  shows "termios_lcr (c_cflag t') = termios_lcr (c_cflag t)"
proof -
  have "termios_lcr (c_cflag (set_baud r t)) = termios_lcr (c_cflag t)" for r t
    by (simp add: set_baud_def termios_lcr_def)
  then have "termios_lcr (c_cflag (retry ke alt lo hi h t old)) = termios_lcr (c_cflag t)" for alt h t old
    using retry_eq [of ke alt lo hi h t old] by auto
  with assms show ?thesis by (auto simp: get_baud_rate_eq Let_def split: if_splits)
qed

lemma termios_lcr_dlab: "(termios_lcr c OR 0x80) AND 0x80 \<noteq> 0" "termios_lcr c AND 0x80 = 0"
  by (cases "cf_size c"; simp add: termios_lcr_def Let_def)+

lemma termios_program_regs:
  assumes "regs L M I F D H d" and up: "ptype up = PORT_16550A" "capabilities up = UART_CAP_FIFO"
    and fc: "fc AND 0xC9 = fc" "fc AND 0x01 \<noteq> 0"
    and f: "\<And>H d. regs cval (mctrl_byte up (port_mctrl up) AND 0x1f) I fc (ucast quot) H d \<Longrightarrow> returns P (f (up\<lparr>lcr8 := cval\<rparr>, d))"
    and cval: "(cval OR 0x80) AND 0x80 \<noteq> 0"
  shows "returns P (rbind (termios_program uart_bus up d cval fc quot) f)"
proof -
  have m: "mctrl_byte (up\<lparr>lcr8 := cval\<rparr>) (port_mctrl up) = mctrl_byte up (port_mctrl up)" by (simp add: mctrl_byte_def)
  show ?thesis
    using assms(1) unfolding termios_program_def rbind_assoc set_mctrl_eq
    apply -
    apply (simp add: up fc m Let_def)
    apply (assumption | rule acc fc cval refl | (simp; fail) | simp only: prod.case rbind_assoc rbind_Inr)+
    apply (erule f)
    done
qed

lemma termios_program_calm:
  assumes "calm q base d" and up: "ptype up = PORT_16550A" "capabilities up = UART_CAP_FIFO"
    and m: "mctrl_byte up (port_mctrl up) AND 0x10 = 0"
    and f: "\<And>d. calm True base d \<Longrightarrow> returns P (f (up\<lparr>lcr8 := cval\<rparr>, d))"
  shows "returns P (rbind (termios_program uart_bus up d cval fc quot) f)"
proof -
  have m': "mctrl_byte (up\<lparr>lcr8 := cval\<rparr>) (port_mctrl up) AND 0x10 = 0" using m by (simp add: mctrl_byte_def)
  show ?thesis
    using assms(1) unfolding termios_program_def rbind_assoc set_mctrl_eq serial_dl_write_def
    apply -
    apply (cases "fc AND 0x01 = 0"; simp add: up Let_def)
     apply (assumption | rule quiet | (simp add: m'; fail) | simp only: prod.case rbind_assoc rbind_Inr)+
     apply (simp add: f)
    apply (assumption | rule quiet | (simp add: m'; fail) | simp only: prod.case rbind_assoc rbind_Inr)+
    apply (simp add: f)
    done
qed

text \<open>What \<open>serial8250_do_set_termios\<close> comes down to on such a port.\<close>

definition line_termios :: "kernel \<Rightarrow> u32 \<Rightarrow> ktermios \<Rightarrow> ktermios" where
  "line_termios ke baud t = (if tty_termios_baud_rate t \<noteq> 0 then set_baud (k_encode ke baud) t else t)"

lemma line_up_fields:
  "ptype (line_up ke t baud up) = ptype up" "capabilities (line_up ke t baud up) = capabilities up"
  "fifosize (line_up ke t baud up) = fifosize up" "bugs (line_up ke t baud up) = bugs up"
  "mcr_force (line_up ke t baud up) = mcr_force up" "mcr8 (line_up ke t baud up) = mcr8 up"
  "mcr_mask (line_up ke t baud up) = mcr_mask up" "tx_loadsz (line_up ke t baud up) = tx_loadsz up"
  "port_mctrl (line_up ke t baud up) = port_mctrl up" "xmit (line_up ke t baud up) = xmit up"
  "x_char (line_up ke t baud up) = x_char up" "tty_stopped (line_up ke t baud up) = tty_stopped up"
  "tty_hw_stopped (line_up ke t baud up) = tty_hw_stopped up" "lsr_saved_flags (line_up ke t baud up) = lsr_saved_flags up"
  "cts_flow (line_up ke t baud up) = cts_flow up"
  by (simp_all add: line_up_def termios_ier_def termios_masks_def uart_update_timeout_def Let_def)

lemma do_set_termios_eq:
  assumes "std_port up" and "baud \<noteq> 0"
    and "uart_get_baud_rate ke up t old (uartclk up div 16 div 0xffff) (uartclk up div 16) = (baud, t')"
    and "serial8250_get_divisor up baud = Inr quot"
  shows "serial8250_do_set_termios ke b up d t old =
    (let u = line_up ke t' baud up in
     rbind (bus_write b d 1 (ier8 u)) (\<lambda>d.
     rbind (termios_program b u d (termios_lcr (c_cflag t)) (termios_fcr up baud) quot) (\<lambda>(v, d).
     Inr (v, line_termios ke baud t', d))))"
proof -
  obtain v where v: "uart_update_timeout ke up (c_cflag t') baud = Inr v"
    using assms(2) by (auto simp: uart_update_timeout_def Let_def)
  have caps: "capabilities up = 0x100" "bugs up AND 1 = 0" using assms(1) by (simp_all add: std_port_def)
  have u: "line_up ke t' baud up = termios_ier (c_cflag t') (termios_masks t' v)"
    by (simp add: line_up_def v)
  then have "capabilities (termios_ier (c_cflag t') (termios_masks t' v)) = 0x100"
    using line_up_fields(2) [of ke t' baud up] caps by simp
  then show ?thesis
    by (simp add: serial8250_do_set_termios_def assms(3,4) Let_def v caps u line_termios_def)
qed

lemma returns_both: "returns P m \<Longrightarrow> returns Q m \<Longrightarrow> returns (\<lambda>x. P x \<and> Q x) m"
  by (auto simp: returns_def)

lemma std_portD:
  assumes "std_port up"
  shows "ptype (line_up ke t baud up) = PORT_16550A" "capabilities (line_up ke t baud up) = UART_CAP_FIFO"
    "mctrl_byte (line_up ke t baud up) (port_mctrl (line_up ke t baud up)) = mctrl_byte up (port_mctrl up)"
    "mctrl_byte up (port_mctrl up) AND 0x10 = 0" "termios_fcr up baud AND 0xC9 = termios_fcr up baud"
    "termios_fcr up baud AND 0x01 \<noteq> 0"
  using assms mctrl_byte_noloop [of up "port_mctrl up"]
  by (simp_all add: std_port_def line_up_fields mctrl_byte_def termios_fcr_std)

lemma set_termios_run:
  assumes "std_port up" and "baud \<noteq> 0"
    and "uart_get_baud_rate ke up t old (uartclk up div 16 div 0xffff) (uartclk up div 16) = (baud, t')"
    and "serial8250_get_divisor up baud = Inr quot"
    and r: "regs L M I F D H d" and L: "L AND 0x80 = 0" and c: "calm q base d"
    and f: "\<And>H d. regs (termios_lcr (c_cflag t)) (mctrl_byte up (port_mctrl up) AND 0x1f) (ier8 (line_up ke t' baud up) AND 0x0f)
        (termios_fcr up baud) (ucast quot) H d \<Longrightarrow> calm True base d \<Longrightarrow>
      P (line_up ke t' baud up\<lparr>lcr8 := termios_lcr (c_cflag t)\<rparr>, line_termios ke baud t', d)"
  shows "returns P (serial8250_do_set_termios ke uart_bus up d t old)"
proof -
  let ?c = "termios_lcr (c_cflag t)" and ?u = "line_up ke t' baud up"
  note u = std_portD [OF assms(1)]
  have "returns (\<lambda>(v, t2, d). v = ?u\<lparr>lcr8 := ?c\<rparr> \<and> t2 = line_termios ke baud t' \<and>
      (\<exists>H. regs ?c (mctrl_byte up (port_mctrl up) AND 0x1f) (ier8 ?u AND 0x0f) (termios_fcr up baud) (ucast quot) H d))
    (serial8250_do_set_termios ke uart_bus up d t old)"
    unfolding do_set_termios_eq [OF assms(1-4)] Let_def
    apply (rule write_1 [OF r, where w = "ier8 ?u AND 0x0f" and E = D])
     apply (simp add: L)
    apply (rule termios_program_regs, assumption, rule u(1), rule u(2), rule u(5), rule u(6))
     apply (auto simp: u(3) termios_lcr_dlab)
    done
  moreover have "returns (\<lambda>(v, t2, d). calm True base d) (serial8250_do_set_termios ke uart_bus up d t old)"
    unfolding do_set_termios_eq [OF assms(1-4)] Let_def
    apply (rule calm_write [OF c])
      apply simp
     apply simp
    apply (rule termios_program_calm, assumption, rule u(1), rule u(2))
     apply (simp_all add: u(3,4))
    done
  ultimately show ?thesis
    by (rule returns_mono [OF returns_both]) (auto intro: f)
qed

lemma dividing_divisor:
  fixes r q :: u32
  assumes "unat r * k = 115200" and "unat q * (16 * unat r) \<le> 1843200 + 8 * unat r" and "1843200 < unat q * (16 * unat r) + 8 * unat r"
  shows "unat q = k"
proof -
  have r: "0 < unat r" using assms(1) by (cases "unat r") auto
  have "1843200 = 16 * (unat r * k)" using assms(1) by simp
  with assms(2,3) have "2 * (unat q * unat r) \<le> 2 * (k * unat r) + unat r" "2 * (k * unat r) < 2 * (unat q * unat r) + unat r"
    by (simp_all add: algebra_simps)
  then have "(2 * unat q) * unat r \<le> (2 * k + 1) * unat r" "(2 * k) * unat r < (2 * unat q + 1) * unat r" by (simp_all add: algebra_simps)
  then have "2 * unat q \<le> 2 * k + 1" "2 * k < 2 * unat q + 1" using r by (simp_all only: mult_le_cancel2 mult_less_cancel2)
  then show ?thesis by linarith
qed

lemma line_params_termios:
  fixes r :: u32 and dv :: u16
  assumes "unat r * k = 115200" and "unat dv = k"
  shows "line_params (termios_lcr c) 115200 dv = ChrSetParams (uint r)
    (if \<not> cf_parenb c then CHR ''N'' else if cf_parodd c then CHR ''O'' else CHR ''E'')
    (case cf_size c of CS5 \<Rightarrow> 5 | CS6 \<Rightarrow> 6 | CS7 \<Rightarrow> 7 | CS8 \<Rightarrow> 8) (if cf_stopb c then 2 else 1)"
proof -
  have k: "0 < k" using assms(1) by (cases k) auto
  have "115200 = int (unat r) * int k" using assms(1) by (metis of_nat_mult of_nat_numeral)
  then have "115200 div int k = int (unat r)" using k by (metis nonzero_mult_div_cancel_right of_nat_0_less_iff less_irrefl)
  then have "115200 sdiv int k = int (unat r)" using k by (simp add: signed_divide_int_def)
  moreover have "uint dv = int k" by (simp add: assms(2) [symmetric])
  ultimately have "115200 sdiv uint dv = uint r" by simp
  then show ?thesis
    by (cases "cf_size c"; cases "cf_parenb c"; cases "cf_parodd c"; cases "cf_stopb c"; cases "cf_cmspar c")
      (simp_all add: line_params_def termios_lcr_def)
qed

text \<open>A rate that divides 115200 is chosen as it is, and its divisor is exact.\<close>

definition pc_line :: "port8250 \<Rightarrow> ktermios \<Rightarrow> u32 \<Rightarrow> bool" where
  "pc_line up t r \<longleftrightarrow> uartclk up = 1843200 \<and> asked (alt_baud up) t = r \<and> unat r dvd 115200 \<and> 2 \<le> r \<and>
     \<not> (r = 38400 \<and> upf_spd up = SPD_CUST)"

lemma pc_rate:
  assumes "pc_line up t r"
  obtains q k where "uart_get_baud_rate ke up t old (uartclk up div 16 div 0xffff) (uartclk up div 16) = (r, t)" and "r \<noteq> 0"
    and "serial8250_get_divisor up r = Inr q" and "unat r * k = 115200" and "unat (ucast q :: u16) = k" and "(ucast q :: u16) \<noteq> 0"
proof -
  have l: "uartclk up = 1843200" "asked (alt_baud up) t = r" "unat r dvd 115200" "2 \<le> r" "\<not> (r = 38400 \<and> upf_spd up = SPD_CUST)"
    using assms by (auto simp: pc_line_def)
  obtain k where k: "unat r * k = 115200" using l(3) by (auto simp: dvd_def)
  have k0: "k \<noteq> 0" using k by (cases k) simp_all
  have r0: "r \<noteq> 0" using k by auto
  have le: "r \<le> 115200" using k k0 by (simp add: word_le_nat_alt) (metis One_nat_def Suc_leI mult.right_neutral mult_le_mono2 neq0_conv)
  have b: "uart_get_baud_rate ke up t old (uartclk up div 16 div 0xffff) (uartclk up div 16) = (r, t)"
    using l le by (simp add: get_baud_rate_eq Let_def word_le_nat_alt)
  obtain q where q: "serial8250_get_divisor up r = Inr q" "unat q * (16 * unat r) \<le> 1843200 + 8 * unat r"
      "1843200 < unat q * (16 * unat r) + 8 * unat r"
    using divisor_of_rate [OF rate_in_range(2) [OF b r0] r0 l(5)] l(1) le by (auto simp: word_le_nat_alt)
  have uq: "unat q = k" by (rule dividing_divisor [OF k q(2,3)])
  have "2 * k \<le> 115200" using k l(4) mult_le_mono1 [of 2 "unat r" k] by (simp add: word_le_nat_alt)
  then have uk: "unat (ucast q :: u16) = k" using uq by (simp add: unsigned_ucast_eq take_bit_nat_eq_self)
  then have "(ucast q :: u16) \<noteq> 0" using k0 by auto
  with that b r0 q(1) k uk show thesis by blast
qed

text \<open>What the host was told, in terms of the termios.\<close>

definition host_line :: "u32 \<Rightarrow> cflags \<Rightarrow> chr_call" where
  "host_line r c = ChrSetParams (uint r)
     (if \<not> cf_parenb c then CHR ''N'' else if cf_parodd c then CHR ''O'' else CHR ''E'')
     (case cf_size c of CS5 \<Rightarrow> 5 | CS6 \<Rightarrow> 6 | CS7 \<Rightarrow> 7 | CS8 \<Rightarrow> 8) (if cf_stopb c then 2 else 1)"

lemma told_line:
  assumes "calm True 115200 (es, s)" and "lcr s = termios_lcr c" and "unat r * k = 115200" and "unat (divider s) = k"
  shows "\<exists>cs. filter (\<lambda>c. \<not> quiet_call c) (chr_log s) = cs @ [host_line r c]"
proof -
  have "divider s \<noteq> 0" using assms(3,4) by (cases k) auto
  moreover have "host_told s" "baudbase s = 115200" using assms(1) by (auto simp: calm_def calm_state_def)
  ultimately obtain cs where "filter (\<lambda>c. \<not> quiet_call c) (chr_log s) = cs @ [line_params (termios_lcr c) 115200 (divider s)]"
    using assms(2) by (auto simp: host_told_def told_def line_of_def)
  then show ?thesis using line_params_termios [OF assms(3,4)] by (simp add: host_line_def)
qed

text \<open>The same with the port's fields that are kept and the state of the line.\<close>

lemma set_line_run:
  assumes "ser_good s" and "lcr s AND 0x80 = 0" and "mcr s AND 0x10 = 0" and "idle s" and "baudbase s = 115200"
    and "std_port up" and "pc_line up t r"
  shows "\<exists>v t' es' s' cs. serial8250_do_set_termios ke uart_bus up (es, s) t old = Inr (v, t', (es', s')) \<and>
    filter (\<lambda>c. \<not> quiet_call c) (chr_log s') = cs @ [host_line r (c_cflag t)] \<and> cts_flow v = cts_flow up \<and>
    lcr s' AND 0x80 = 0 \<and> mcr s' AND 0x10 = 0 \<and> unat (divider s') * unat r = 115200 \<and> fcr s' AND 0x01 \<noteq> 0 \<and>
    ser_good s' \<and> idle s' \<and> t' = line_termios ke r t"
proof -
  obtain q k where b: "uart_get_baud_rate ke up t old (uartclk up div 16 div 0xffff) (uartclk up div 16) = (r, t)" "r \<noteq> 0"
      "serial8250_get_divisor up r = Inr q" and k: "unat r * k = 115200" "unat (ucast q :: u16) = k"
    by (rule pc_rate [OF assms(7)])
  have reg: "regs (lcr s) (mcr s) (ier s) (fcr s) (divider s) (iir s AND 0xF0) (es, s)"
    using assms(1) by (simp add: regs_def regs_of_def)
  have c: "calm False 115200 (es, s)" using assms(1-5) by (simp add: calm_def calm_state_def)
  have "returns (\<lambda>(v, t2, d). calm True 115200 d \<and> cts_flow v = cts_flow up \<and> t2 = line_termios ke r t \<and> lcr (snd d) = termios_lcr (c_cflag t) \<and>
      divider (snd d) = ucast q \<and> fcr (snd d) = termios_fcr up r) (serial8250_do_set_termios ke uart_bus up (es, s) t old)"
    by (rule set_termios_run [OF assms(6) b(2,1,3) reg assms(2) c]) (auto simp: regs_def regs_of_def line_up_fields)
  then obtain v t2 es' s' where run: "serial8250_do_set_termios ke uart_bus up (es, s) t old = Inr (v, t2, (es', s'))"
      "cts_flow v = cts_flow up" "t2 = line_termios ke r t"
      and s': "calm True 115200 (es', s')" "lcr s' = termios_lcr (c_cflag t)" "divider s' = ucast q" "fcr s' = termios_fcr up r"
    by (auto elim!: returnsE)
  have good: "ser_good s'" "idle s'" "mcr s' AND 0x10 = 0" using s'(1) by (auto simp: calm_def calm_state_def)
  obtain cs where "filter (\<lambda>c. \<not> quiet_call c) (chr_log s') = cs @ [host_line r (c_cflag t)]"
    using told_line [OF s'(1,2) k(1)] s'(3) k(2) by auto
  moreover have "lcr s' AND 0x80 = 0" "unat (divider s') * unat r = 115200" "fcr s' AND 0x01 \<noteq> 0"
    using s' k std_portD(6) [OF assms(6)] by (simp_all add: termios_lcr_dlab mult.commute)
  ultimately show ?thesis using run good by blast
qed

text \<open>
  C12. Setting a line through the kernel sets the host's line. On a port of type 16550A with FIFO, without the
  divisor bug and not forced into loopback, with the clock of a PC (1843200), on a consistent UART outside DLAB and
  loopback with nothing received: let the termios ask for a rate of at least 2 that divides 115200, the rate being
  what it stands for after the port's SPD flags, and not 38400 on a port with a custom divisor. Then
  \<open>serial8250_do_set_termios\<close> returns with the divisor latch closed over exactly the divisor for that rate and the
  FIFO on, and the last parameters that the host's serial line was given are the rate, the parity, the data bits and
  the stop bits of the termios. (Rate 1 divides 115200 too, but overflows the 16 bits of the latch.)
\<close>

theorem set_line_reaches_host:
  assumes "ser_good s" and "lcr s AND 0x80 = 0" and "mcr s AND 0x10 = 0" and "idle s" and "baudbase s = 115200"
    and "std_port up" and "pc_line up t r"
  shows "\<exists>up' t' es' s' cs. serial8250_do_set_termios ke uart_bus up (es, s) t old = Inr (up', t', (es', s')) \<and>
    filter (\<lambda>c. \<not> quiet_call c) (chr_log s') = cs @ [ChrSetParams (uint r)
      (if \<not> cf_parenb (c_cflag t) then CHR ''N'' else if cf_parodd (c_cflag t) then CHR ''O'' else CHR ''E'')
      (case cf_size (c_cflag t) of CS5 \<Rightarrow> 5 | CS6 \<Rightarrow> 6 | CS7 \<Rightarrow> 7 | CS8 \<Rightarrow> 8) (if cf_stopb (c_cflag t) then 2 else 1)] \<and>
    lcr s' AND 0x80 = 0 \<and> unat (divider s') * unat r = 115200 \<and> fcr s' AND 0x01 \<noteq> 0 \<and> ser_good s' \<and> idle s'"
  using set_line_run [OF assms, of ke es old] by (fastforce simp: host_line_def)

lemma uart0_fresh: "idle uart0" "baudbase uart0 = 115200" "\<not> timeout_ipending uart0"
  by (simp_all add: idle_def uart0_def serial_reset_def Let_def fifo_clear_def set_fifo_def the_fifo_def serial_zero_def fifo_zero_def)

lemma port0_std: "std_port port0"
  by (simp add: std_port_def port0_def mctrl_zero_def)

theorem set_line_reaches_host_witness:
  "\<exists>up' t' es' s' cs. serial8250_do_set_termios kernel0 uart_bus port0 ((\<lambda>_. env0), uart0) termios0 None = Inr (up', t', (es', s')) \<and>
    filter (\<lambda>c. \<not> quiet_call c) (chr_log s') = cs @ [ChrSetParams 9600 (CHR ''N'') 8 1]"
proof -
  have nine: "asked (alt_baud port0) termios0 = 9600" by (simp add: asked_def alt_baud_def port0_def termios0_def tty_termios_baud_rate_def)
  have "pc_line port0 termios0 9600"
    unfolding pc_line_def nine by (simp add: port0_def word_le_nat_alt)
  from set_line_reaches_host [OF uart0_good _ _ uart0_fresh(1,2) port0_std this, where es = "\<lambda>_. env0" and ke = kernel0 and old = None]
  show ?thesis by (fastforce simp: uart0_regs termios0_def)
qed

end
