(* ===== verification/Linux_8250_Open.thy ===== *)
theory Linux_8250_Open
  imports Linux_8250_Set
begin

unbundle bit_operations_syntax

text \<open>
  Opening a port on QEMU's UART: \<open>serial8250_startup\<close> is followed twice, with \<open>regs\<close> and with \<open>calm\<close>,
  and \<open>uart_startup\<close> is put together from it and the setting of the line.
\<close>

section \<open>Starting the port up\<close>

text \<open>With only the transmitter's interrupt enabled, that is the one identified.\<close>

lemma thri_pending:
  assumes "ser_good s" and "ier s = 0x02" and "thr_ipending s"
  shows "(ucast (ucast (iir s) :: u32) :: u8) AND 0x01 = 0"
proof -
  have "serial_pending s = 0x02" using assms(2,3) by (simp add: serial_pending_def)
  then have "iir s AND 0x0f = 0x02" using assms(1) by (simp add: ser_good_def ser_inv_def irq_coherent_def)
  moreover have "iir s AND 0x01 = (iir s AND 0x0f) AND 0x01" by (simp add: and.assoc)
  ultimately show ?thesis by simp
qed

definition armed :: "u8 \<Rightarrow> u8 \<Rightarrow> u8 \<Rightarrow> u16 \<Rightarrow> u8 \<Rightarrow> uart_dev \<Rightarrow> bool" where
  "armed L M F D H d \<longleftrightarrow> regs L M 0x02 F D H d \<and> thr_ipending (snd d)"

lemma arm_write:
  assumes "regs L M I F D H d" and L: "L AND 0x80 = 0" and "\<And>d. armed L M F D H d \<Longrightarrow> returns P (f d)"
  shows "returns P (rbind (bus_write uart_bus d 1 0x02) f)"
proof -
  obtain es s where d: "d = (es, s)" by (cases d)
  then have s: "ser_good s" "lcr s AND 0x80 = 0" using assms(1) L by (auto simp: regs_def regs_of_def)
  obtain t where t: "serial_ioport_write (es 0) s 1 (ucast (0x02 :: u8)) = Inr t" "thr_ipending t"
    using ier_write [OF s, of "es 0" "0x02"] by blast
  have "returns (regs L M 0x02 F D H) (rbind (bus_write uart_bus d 1 0x02) Inr)"
    by (rule write_1 [OF assms(1), where w = "0x02" and E = D]) (simp_all add: L)
  with t d have "armed L M F D H (\<lambda>n. es (Suc n), t)" by (simp add: armed_def)
  from assms(3) [OF this] t d show ?thesis by simp
qed

lemma armed_lsr:
  assumes "armed L M F D H d" and "\<And>v d. armed L M F D H d \<Longrightarrow> returns P (f (v, d))"
  shows "returns P (rbind (bus_read uart_bus d 5) f)"
proof -
  obtain es s where d: "d = (es, s)" by (cases d)
  obtain v t where t: "read_reg5 s = (v, t)" "thr_ipending t = thr_ipending s" by (simp add: read_reg5_def)
  have "returns (\<lambda>(v, d). regs L M 0x02 F D H d) (rbind (bus_read uart_bus d 5) Inr)"
    by (rule read_lsr) (use assms(1) in \<open>auto simp: armed_def\<close>)
  with t d assms(1) have "armed L M F D H (\<lambda>n. es (Suc n), t)" by (simp add: armed_def serial_ioport_read_def)
  from assms(2) [OF this] t d show ?thesis by (simp add: serial_ioport_read_def)
qed

lemma armed_iir:
  assumes "armed L M F D H d" and "\<And>v d. regs L M 0x02 F D H d \<Longrightarrow> v AND 0x01 = 0 \<Longrightarrow> returns P (f (v, d))"
  shows "returns P (rbind (bus_read uart_bus d 2) f)"
proof -
  obtain es s where d: "d = (es, s)" by (cases d)
  obtain t where t: "read_reg2 s = (ucast (iir s), t)" by (simp add: read_reg2_def)
  have "returns (\<lambda>(v, d). regs L M 0x02 F D H d) (rbind (bus_read uart_bus d 2) Inr)"
    by (rule read_iir) (use assms(1) in \<open>auto simp: armed_def\<close>)
  with t d have "regs L M 0x02 F D H (\<lambda>n. es (Suc n), t)" by (simp add: serial_ioport_read_def)
  moreover have "(ucast (ucast (iir s) :: u32) :: u8) AND 0x01 = 0"
    by (rule thri_pending) (use assms(1) d in \<open>auto simp: armed_def regs_def regs_of_def\<close>)
  ultimately show ?thesis using assms(2) t d by (simp add: serial_ioport_read_def)
qed

lemma rbind_Inr_right: "rbind m Inr = m"
  by (cases m) simp_all

text \<open>Waiting for the transmitter, and the reads that clear the interrupts.\<close>

lemma wait_frame:
  assumes read: "\<And>a d. R d \<Longrightarrow> a = 5 \<or> a = 6 \<Longrightarrow> returns (\<lambda>(v, d). R d) (bus_read b d a)" and "R d"
  shows "returns (\<lambda>(v, d). R d \<and> (\<exists>x y. v = up\<lparr>lsr_saved_flags := x, msr_saved_flags := y\<rparr>)) (wait_for_xmitr b bits up d)"
proof -
  have lsr: "R d \<Longrightarrow> returns (\<lambda>(v, d). R d \<and> (\<exists>x. v = up\<lparr>lsr_saved_flags := x\<rparr>)) (wait_lsr_loop b n bits up d)" for n up d
  proof (induction n arbitrary: up d)
    case 0
    show ?case by (subst wait_lsr_loop.simps) (auto simp: Let_def intro!: returns_bind [OF read [OF 0]]; (rule exI, rule refl))
  next
    case (Suc n)
    show ?case
      by (subst wait_lsr_loop.simps) (auto simp: Let_def intro!: returns_bind [OF read [OF Suc.prems]] returns_mono [OF Suc.IH]; (rule exI, rule refl))
  qed
  have msr: "R d \<Longrightarrow> returns (\<lambda>(v, d). R d \<and> (\<exists>x. v = up\<lparr>msr_saved_flags := x\<rparr>)) (wait_msr_loop b n up d)" for n up d
  proof (induction n arbitrary: up d)
    case 0
    then show ?case by (auto intro: exI [of _ "msr_saved_flags up"])
  next
    case (Suc n)
    show ?case
      by (subst wait_msr_loop.simps)
        (auto simp: Let_def simp del: wait_msr_loop.simps intro!: returns_bind [OF read [OF Suc.prems]] returns_mono [OF Suc.IH];
          (rule exI, rule refl))
  qed
  have eq: "up\<lparr>lsr_saved_flags := x\<rparr> = up\<lparr>lsr_saved_flags := x, msr_saved_flags := msr_saved_flags up\<rparr>" for x by simp
  show ?thesis
    unfolding wait_for_xmitr_def
    by (rule returns_bind [OF lsr [OF assms(2)]]) (auto intro!: returns_mono [OF msr]; (rule exI, rule exI, (rule refl | rule eq)))
qed

lemma wait_regs [acc]:
  assumes "regs L M I F D H d" and "M AND 0x10 = 0"
    and f: "\<And>x y d. regs L M I F D H d \<Longrightarrow> returns P (f (up\<lparr>lsr_saved_flags := x, msr_saved_flags := y\<rparr>, d))"
  shows "returns P (rbind (wait_for_xmitr uart_bus bits up d) f)"
proof (rule returns_bind [OF wait_frame [where R = "regs L M I F D H"]])
  fix a :: nat and d
  assume r: "regs L M I F D H d" "a = 5 \<or> a = 6"
  have "returns (\<lambda>(v, d). regs L M I F D H d) (rbind (bus_read uart_bus d 5) Inr)" by (rule read_lsr [OF r(1)]) simp
  moreover have "returns (\<lambda>(v, d). regs L M I F D H d) (rbind (bus_read uart_bus d 6) Inr)"
    by (rule read_6 [OF r(1)]) (simp_all add: assms(2))
  ultimately show "returns (\<lambda>(v, d). regs L M I F D H d) (bus_read uart_bus d a)" using r(2) by (auto simp: rbind_Inr_right)
qed (use assms(1) f in auto)

lemma clear_irq_uart [acc]:
  assumes "regs L M I F D H d" and M: "M AND 0x10 = 0" and f: "\<And>d. regs L M I F D H d \<Longrightarrow> returns P (f d)"
  shows "returns P (rbind (clear_irq_regs uart_bus d) f)"
  using assms(1) unfolding clear_irq_regs_def rbind_assoc
  apply -
  apply (assumption | rule acc | (simp add: M; fail) | simp only: prod.case rbind_assoc rbind_Inr)+
  apply (erule f)
  done

text \<open>The tests of the transmitter's interrupt: QEMU's UART passes both.\<close>

lemma test_thre_uart:
  assumes "regs L M I F D H d" and L: "L AND 0x80 = 0" and M: "M AND 0x10 = 0" and up: "port_irq_no up \<noteq> 0" "\<not> upf_bug_thre up"
    and f: "\<And>x y d. regs L M 0 F D H d \<Longrightarrow> returns P (f (up\<lparr>lsr_saved_flags := x, msr_saved_flags := y\<rparr>, d))"
  shows "returns P (rbind (test_thre uart_bus up d) f)"
  using assms(1) unfolding test_thre_def if_P [OF up(1)] rbind_assoc
  apply -
  apply (rule wait_regs, assumption, rule M)
  apply (simp only: prod.case rbind_assoc rbind_Inr)
  apply (rule arm_write, assumption, rule L)
  apply (rule armed_iir, assumption)
  apply (simp only: prod.case rbind_assoc rbind_Inr)
  apply (rule write_1 [where w = 0], assumption, simp add: L)
  apply (rule arm_write, assumption, rule L)
  apply (rule armed_iir, assumption)
  apply (simp only: prod.case rbind_assoc rbind_Inr)
  apply (rule write_1 [where w = 0], assumption, simp add: L)
  apply (simp add: up(2) f)
  done

lemma test_txen_uart:
  assumes "regs L M I F D H d" and L: "L AND 0x80 = 0" and up: "\<not> k_skip_txen_test ke" "\<not> upf_no_txen_test up"
    and f: "\<And>d. regs L M 0 F D H d \<Longrightarrow> returns P (f (up\<lparr>bugs := bugs up AND NOT UART_BUG_TXEN\<rparr>, d))"
  shows "returns P (rbind (test_txen ke uart_bus up d) f)"
  using assms(1) unfolding test_txen_def rbind_assoc
  apply -
  apply (simp only: up if_False rbind_assoc simp_thms)
  apply (rule arm_write, assumption, rule L)
  apply (rule armed_lsr, assumption)
  apply (simp only: prod.case rbind_assoc rbind_Inr)
  apply (rule armed_iir, assumption)
  apply (simp only: prod.case rbind_assoc rbind_Inr)
  apply (rule write_1 [where w = 0], assumption, simp add: L)
  apply (drule f)
  apply simp
  done

text \<open>
  A port whose chip was identified, with an interrupt of its own and no quirks; and the port that
  \<open>serial8250_startup\<close> makes of it.
\<close>

definition fresh_port :: "kernel \<Rightarrow> port8250 \<Rightarrow> bool" where
  "fresh_port ke up \<longleftrightarrow> ptype up = PORT_16550A \<and> bugs up = 0 \<and> \<not> upf_fourport up \<and> \<not> upf_bug_thre up \<and>
     port_irq_no up \<noteq> 0 \<and> \<not> upf_no_txen_test up \<and> \<not> k_skip_txen_test ke \<and> mcr_force up AND 0x10 = 0 \<and>
     \<not> m_loop (port_mctrl up)"

definition started :: "port8250 \<Rightarrow> port8250" where
  "started up = up\<lparr>fifosize := 16, tx_loadsz := 16, capabilities := UART_CAP_FIFO, mcr8 := 0,
     port_mctrl := (port_mctrl up)\<lparr>m_out2 := True\<rparr>, bugs := 0, lsr_saved_flags := 0, msr_saved_flags := 0, ier8 := 0x05\<rparr>"

lemma startup_init_uart:
  assumes "regs L M I F D H d" and up: "fresh_port ke up" "mcr8 up = 0"
    and f: "\<And>H d. regs 0x03 (mctrl_byte up ((port_mctrl up)\<lparr>m_out2 := True\<rparr>) AND 0x1f) 0x05 F D H d \<Longrightarrow>
      returns P (f (up\<lparr>port_mctrl := (port_mctrl up)\<lparr>m_out2 := True\<rparr>, bugs := 0, lsr_saved_flags := 0, msr_saved_flags := 0, ier8 := 0x05\<rparr>, d))"
  shows "returns P (rbind (startup_init ke uart_bus io icp up d) f)"
proof -
  let ?m = "(port_mctrl up)\<lparr>m_out2 := True\<rparr>" and ?u = "up\<lparr>port_mctrl := (port_mctrl up)\<lparr>m_out2 := True\<rparr>\<rparr>"
  have u: "\<not> upf_fourport up" "port_irq_no up \<noteq> 0" "\<not> k_skip_txen_test ke" "\<not> upf_no_txen_test ?u" "bugs up = 0"
    using up(1) by (simp_all add: fresh_port_def)
  have byte: "mctrl_byte ?u ?m = mctrl_byte up ?m" by (simp add: mctrl_byte_def)
  have noloop: "mctrl_byte up ?m AND 0x10 = 0"
    by (rule mctrl_byte_noloop) (use up in \<open>simp_all add: fresh_port_def\<close>)
  have m: "(mctrl_byte up ?m AND 0x1f) AND 0x10 = 0" using noloop by (simp add: and.assoc)
  show ?thesis
    using assms(1) unfolding startup_init_def rbind_assoc set_mctrl_eq
    apply -
    apply (rule write_lcr, assumption)
    apply (simp add: Let_def u byte rbind_assoc del: One_nat_def)
    apply (rule write_mcr, assumption, rule refl)
    apply (rule test_txen_uart, assumption, simp, rule u(3), rule u(4))
    apply (simp only: prod.case rbind_assoc)
    apply (rule clear_irq_uart, assumption, rule m)
    apply (simp add: u rbind_assoc del: One_nat_def)
    apply (rule write_1 [where w = "0x05"], assumption, simp)
    apply (drule f)
    apply (simp add: u)
    done
qed

lemma startup_uart:
  assumes "regs L M I F D H d" and L: "L AND 0x80 = 0" and M: "M AND 0x10 = 0" and up: "fresh_port ke up"
    and link: "serial_link_irq_chain (k_kzalloc_ok ke) (k_request_irq ke) (port_irq_no up) pno ic = Inr (0, ic')"
    and absent: "\<And>u d. P (- 19, u, ic, d)"
    and f: "\<And>H d. regs 0x03 (mctrl_byte (started up) (port_mctrl (started up)) AND 0x1f) 0x05 0 D H d \<Longrightarrow> P (0, started up, ic', d)"
  shows "returns P (serial8250_startup ke uart_bus io icp pno up ic d)"
proof -
  define u where "u = up\<lparr>fifosize := 16, tx_loadsz := 16, capabilities := UART_CAP_FIFO, mcr8 := 0\<rparr>"
  have cfg: "up\<lparr>fifosize := ucast (fifo_size (uart_config (ptype up))), tx_loadsz := cfg_tx_loadsz (uart_config (ptype up)),
      capabilities := cfg_flags (uart_config (ptype up)), mcr8 := 0\<rparr> = u"
    using up by (simp add: u_def fresh_port_def config_16550A del: uart_config.simps)
  have type: "ptype u = PORT_16550A" "capabilities u AND UART_CAP_FIFO \<noteq> 0" "port_irq_no u = port_irq_no up" "port_irq_no up \<noteq> 0"
      "\<not> upf_bug_thre u" "bugs u = 0"
    using up by (simp_all add: u_def fresh_port_def)
  have timers: "startup_timers ke (u\<lparr>lsr_saved_flags := x, msr_saved_flags := y\<rparr>) = u\<lparr>lsr_saved_flags := x, msr_saved_flags := y\<rparr>" for x y
    using type by (simp add: startup_timers_def)
  have init: "returns P (rbind (startup_init ke uart_bus io icp (u\<lparr>lsr_saved_flags := x, msr_saved_flags := y\<rparr>) d) (\<lambda>(up, d). Inr (0, up, ic', d)))"
    if "regs L M I 0 D H d" for L M I x y H d
  proof (rule startup_init_uart [OF that])
    show "fresh_port ke (u\<lparr>lsr_saved_flags := x, msr_saved_flags := y\<rparr>)" using up by (simp add: fresh_port_def u_def)
    show "mcr8 (u\<lparr>lsr_saved_flags := x, msr_saved_flags := y\<rparr>) = 0" by (simp add: u_def)
    fix H d
    assume "regs 0x03 (mctrl_byte (u\<lparr>lsr_saved_flags := x, msr_saved_flags := y\<rparr>)
        ((port_mctrl (u\<lparr>lsr_saved_flags := x, msr_saved_flags := y\<rparr>))\<lparr>m_out2 := True\<rparr>) AND 0x1f) 0x05 0 D H d"
    then have "regs 0x03 (mctrl_byte (started up) (port_mctrl (started up)) AND 0x1f) 0x05 0 D H d"
      by (simp add: started_def u_def mctrl_byte_def)
    note f [OF this]
    then show "returns P ((\<lambda>(up, d). Inr (0, up, ic', d)) ((u\<lparr>lsr_saved_flags := x, msr_saved_flags := y\<rparr>)
        \<lparr>port_mctrl := (port_mctrl (u\<lparr>lsr_saved_flags := x, msr_saved_flags := y\<rparr>))\<lparr>m_out2 := True\<rparr>, bugs := 0,
         lsr_saved_flags := 0, msr_saved_flags := 0, ier8 := 0x05\<rparr>, d))"
      by (simp add: started_def u_def)
  qed
  show ?thesis
    using assms(1) unfolding serial8250_startup_def Let_def cfg
    apply -
    apply (simp add: startup_950_def startup_850_def type rbind_assoc del: One_nat_def)
    apply (rule clear_fifos_regs, assumption, rule type(2))
    apply (rule clear_irq_uart, assumption, rule M)
    apply (cases "upf_buggy u")
     apply (simp add: startup_850_def type del: One_nat_def)
     apply (rule test_thre_uart, assumption, rule L, rule M, simp add: type, rule type(5))
     apply (simp add: timers type link)
     apply (erule init)
    apply (simp add: rbind_assoc type del: One_nat_def)
    apply (rule read_lsr, assumption)
    apply (simp add: startup_850_def type absent del: One_nat_def)
    apply (rule impI)
    apply (rule test_thre_uart, assumption, rule L, rule M, simp add: type, rule type(5))
    apply (simp add: timers type link)
    apply (erule init)
    done
qed

text \<open>The same code once more, for what is independent of the registers.\<close>

lemma calm_lsr:
  assumes "calm q base d" and "\<And>v d. calm q base d \<Longrightarrow> v \<noteq> 0xff \<Longrightarrow> returns P (f (v, d))"
  shows "returns P (rbind (bus_read uart_bus d 5) f)"
proof -
  obtain es s where d: "d = (es, s)" "calm_state q base s" using assms(1) by (cases d) (simp add: calm_def)
  obtain t where t: "read_reg5 s = (ucast (lsr s), t)" by (simp add: read_reg5_def)
  have "returns (\<lambda>(v, d). calm q base d) (rbind (bus_read uart_bus d 5) Inr)"
    by (rule calm_read [OF assms(1)]) simp_all
  then have "calm q base (\<lambda>n. es (Suc n), t)" using d t by (simp add: serial_ioport_read_def)
  moreover have "lsr s \<noteq> 0xff" using d(2) by (auto simp: calm_state_def idle_def)
  ultimately show ?thesis using assms(2) d t by (simp add: serial_ioport_read_def)
qed

lemma wait_calm [quiet]:
  assumes "calm q base d" and f: "\<And>x y d. calm q base d \<Longrightarrow> returns P (f (up\<lparr>lsr_saved_flags := x, msr_saved_flags := y\<rparr>, d))"
  shows "returns P (rbind (wait_for_xmitr uart_bus bits up d) f)"
proof (rule returns_bind [OF wait_frame [where R = "calm q base"]])
  fix a :: nat and d
  assume "calm q base d" "a = 5 \<or> a = 6"
  then have "returns (\<lambda>(v, d). calm q base d) (rbind (bus_read uart_bus d a) Inr)" by (intro calm_read) auto
  then show "returns (\<lambda>(v, d). calm q base d) (bus_read uart_bus d a)" by (simp only: rbind_Inr_right)
qed (use assms(1) f in auto)

lemma clear_fifos_calm [quiet]:
  assumes "calm q base d" and "\<And>d. calm q base d \<Longrightarrow> returns P (f d)"
  shows "returns P (rbind (serial8250_clear_fifos uart_bus up d) f)"
  using assms(1) unfolding serial8250_clear_fifos_def
  apply -
  apply (cases "capabilities up AND UART_CAP_FIFO = 0"; simp add: rbind_assoc assms(2))
  apply (assumption | rule quiet | (simp; fail) | simp only: prod.case rbind_assoc rbind_Inr)+
  apply (simp add: assms(2))
  done

lemma clear_irq_calm [quiet]:
  assumes "calm q base d" and "\<And>d. calm q base d \<Longrightarrow> returns P (f d)"
  shows "returns P (rbind (clear_irq_regs uart_bus d) f)"
  using assms(1) unfolding clear_irq_regs_def
  apply -
  apply (simp only: rbind_assoc)
  apply (assumption | rule quiet | (simp; fail) | simp only: prod.case rbind_assoc rbind_Inr)+
  apply (simp add: assms(2))
  done

lemma test_thre_calm [quiet]:
  assumes "calm q base d" and f: "\<And>b x y d. calm q base d \<Longrightarrow>
      returns P (f (up\<lparr>lsr_saved_flags := x, msr_saved_flags := y, bugs := b\<rparr>, d))"
  shows "returns P (rbind (test_thre uart_bus up d) f)"
proof -
  have eq: "up\<lparr>lsr_saved_flags := x, msr_saved_flags := y\<rparr> = up\<lparr>lsr_saved_flags := x, msr_saved_flags := y, bugs := bugs up\<rparr>"
    "up = up\<lparr>lsr_saved_flags := lsr_saved_flags up, msr_saved_flags := msr_saved_flags up, bugs := bugs up\<rparr>" for x y
    by simp_all
  show ?thesis
    using assms(1) unfolding test_thre_def
    apply -
    apply (cases "port_irq_no up = 0"; simp add: rbind_assoc del: One_nat_def)
     apply (subst eq(2), rule f, assumption)
    apply (rule wait_calm, assumption)
    apply (assumption | rule calm_write calm_read | (simp; fail) | simp only: prod.case rbind_assoc rbind_Inr)+
    apply (auto intro!: f)
    apply (subst eq(1), rule f, simp)+
    done
qed

lemma startup_init_calm:
  assumes "calm q base d" and up: "\<not> upf_fourport up" "port_irq_no up \<noteq> 0" "mcr_force up AND 0x10 = 0" "mcr8 up AND 0x10 = 0"
    "\<not> m_loop (port_mctrl up)"
    and f: "\<And>u d. calm True base d \<Longrightarrow> returns P (f (u, d))"
  shows "returns P (rbind (startup_init ke uart_bus io icp up d) f)"
proof -
  let ?m = "(port_mctrl up)\<lparr>m_out2 := True\<rparr>" and ?u = "up\<lparr>port_mctrl := (port_mctrl up)\<lparr>m_out2 := True\<rparr>\<rparr>"
  have byte: "mctrl_byte ?u ?m AND 0x10 = 0" by (rule mctrl_byte_noloop) (use up in simp_all)
  show ?thesis
    using assms(1) unfolding startup_init_def rbind_assoc set_mctrl_eq
    apply -
    apply (rule calm_write, assumption, simp, simp)
    apply (simp add: Let_def up(1,2) rbind_assoc del: One_nat_def)
    apply (rule calm_write, assumption, simp, simp add: byte)
    apply (cases "k_skip_txen_test ke \<or> upf_no_txen_test up")
     apply (simp add: test_txen_def rbind_assoc del: One_nat_def)
     apply (rule clear_irq_calm, assumption)
     apply (simp add: rbind_assoc up(1) del: One_nat_def)
     apply (rule calm_write, assumption, simp, simp, simp add: f)
    apply (simp add: test_txen_def rbind_assoc del: One_nat_def)
    apply (assumption | rule calm_write calm_read | (simp; fail) | simp only: prod.case rbind_assoc rbind_Inr)+
    apply (rule clear_irq_calm, assumption)
    apply (simp add: rbind_assoc up(1) del: One_nat_def)
    apply (auto intro!: calm_write f)
    done
qed

definition calm_return :: "int \<Rightarrow> int \<times> port8250 \<times> irq_state \<times> uart_dev \<Rightarrow> bool" where
  "calm_return base x \<longleftrightarrow> (case x of (r, u, ic, d) \<Rightarrow> r = 0 \<and> calm True base d)"

lemma startup_calm:
  assumes "calm q base d" and up: "fresh_port ke up"
    and link: "serial_link_irq_chain (k_kzalloc_ok ke) (k_request_irq ke) (port_irq_no up) pno ic = Inr (0, ic')"
  shows "returns (calm_return base) (serial8250_startup ke uart_bus io icp pno up ic d)"
proof -
  define u where "u = up\<lparr>fifosize := 16, tx_loadsz := 16, capabilities := UART_CAP_FIFO, mcr8 := 0\<rparr>"
  have cfg: "up\<lparr>fifosize := ucast (fifo_size (uart_config (ptype up))), tx_loadsz := cfg_tx_loadsz (uart_config (ptype up)),
      capabilities := cfg_flags (uart_config (ptype up)), mcr8 := 0\<rparr> = u"
    using up by (simp add: u_def fresh_port_def config_16550A del: uart_config.simps)
  have type: "ptype u = PORT_16550A" "port_irq_no u = port_irq_no up" "port_irq_no up \<noteq> 0"
    using up by (simp_all add: u_def fresh_port_def)
  have rest: "returns (calm_return base)
      (rbind (test_thre uart_bus u d) (\<lambda>(up, d).
        rbind (if port_irq_no (startup_timers ke up) = 0 then Inr (0, ic)
               else serial_link_irq_chain (k_kzalloc_ok ke) (k_request_irq ke) (port_irq_no (startup_timers ke up)) pno ic)
          (\<lambda>(retval, ic). if retval \<noteq> 0 then Inr (retval, startup_timers ke up, ic, d)
            else rbind (startup_init ke uart_bus io icp (startup_timers ke up) d) (\<lambda>(up, d). Inr (0, up, ic, d)))))"
    if "calm q base d" for d
  proof (rule test_thre_calm [OF that])
    fix b x y d
    assume c: "calm q base d"
    let ?v = "startup_timers ke (u\<lparr>lsr_saved_flags := x, msr_saved_flags := y, bugs := b\<rparr>)"
    have v: "port_irq_no ?v = port_irq_no up" "\<not> upf_fourport ?v" "mcr_force ?v AND 0x10 = 0" "mcr8 ?v AND 0x10 = 0"
        "\<not> m_loop (port_mctrl ?v)"
      using up by (simp_all add: startup_timers_def Let_def u_def fresh_port_def)
    have "returns (calm_return base)
        (rbind (startup_init ke uart_bus io icp ?v d) (\<lambda>(up, d). Inr (0, up, ic', d)))"
      by (rule startup_init_calm [OF c]) (use v type in \<open>simp_all add: calm_return_def\<close>)
    then show "returns (calm_return base)
        ((\<lambda>(up, d). rbind (if port_irq_no (startup_timers ke up) = 0 then Inr (0, ic)
               else serial_link_irq_chain (k_kzalloc_ok ke) (k_request_irq ke) (port_irq_no (startup_timers ke up)) pno ic)
          (\<lambda>(retval, ic). if retval \<noteq> 0 then Inr (retval, startup_timers ke up, ic, d)
            else rbind (startup_init ke uart_bus io icp (startup_timers ke up) d) (\<lambda>(up, d). Inr (0, up, ic, d))))
          (u\<lparr>lsr_saved_flags := x, msr_saved_flags := y, bugs := b\<rparr>, d))"
      by (simp add: v type link)
  qed
  show ?thesis
    using assms(1) unfolding serial8250_startup_def Let_def cfg
    apply -
    apply (simp add: startup_950_def type rbind_assoc del: One_nat_def)
    apply (rule clear_fifos_calm, assumption)
    apply (rule clear_irq_calm, assumption)
    apply (cases "upf_buggy u")
     apply (simp add: startup_850_def type del: One_nat_def)
     apply (erule rest)
    apply (simp add: rbind_assoc type del: One_nat_def)
    apply (rule calm_lsr, assumption)
    apply (simp add: startup_850_def type del: One_nat_def)
    apply (erule rest)
    done
qed

section \<open>Opening the port\<close>

text \<open>A port that was never opened, and a termios without flow control over the modem lines.\<close>

definition openable :: "kernel \<Rightarrow> port8250 \<Rightarrow> bool" where
  "openable ke up \<longleftrightarrow> fresh_port ke up \<and> \<not> initialized up \<and> cb_buf (xmit up) = None \<and> k_page_ok ke \<and> cons_cflag up = None \<and>
     x_char up = 0 \<and> \<not> tty_stopped up \<and> \<not> tty_hw_stopped up \<and> \<not> upf_hardpps up"

definition local_line :: "ktermios \<Rightarrow> bool" where
  "local_line t \<longleftrightarrow> \<not> cf_crtscts (c_cflag t) \<and> cf_clocal (c_cflag t)"

definition with_page :: "port8250 \<Rightarrow> port8250" where
  "with_page up = up\<lparr>tty_io_error := True, xmit := \<lparr>cb_buf = Some (replicate UART_XMIT_SIZE 0), cb_head = 0, cb_tail = 0\<rparr>\<rparr>"

lemma with_page_circ: "circ_ok (xmit (with_page up))" "circ_view (xmit (with_page up)) = []"
  by (simp_all add: with_page_def circ_ok_def circ_view_def circ_cnt_def)

text \<open>The port at the end of \<open>uart_line_init\<close>, but for the modem lines.\<close>

definition lined :: "kernel \<Rightarrow> ktermios \<Rightarrow> u32 \<Rightarrow> port8250 \<Rightarrow> port8250" where
  "lined ke t r up = (line_up ke t r (up\<lparr>cons_cflag := None, cts_flow := False, check_cd := False\<rparr>))\<lparr>lcr8 := termios_lcr (c_cflag t)\<rparr>"

lemma returns_if: "returns P m \<Longrightarrow> P x \<Longrightarrow> returns P (if b then m else Inr x)"
  by simp

lemma set_mctrl_run:
  assumes r: "regs L M I F D H d" and c: "calm True base d" and up: "std_port up" and on: "\<not> m_loop on"
    and f: "\<And>M m d. regs L M I F D H d \<Longrightarrow> calm True base d \<Longrightarrow> P (up\<lparr>port_mctrl := m\<rparr>, d)"
  shows "returns P (uart_set_mctrl uart_bus up d on)"
proof (cases "mctrl_update (port_mctrl up) on mctrl_zero = port_mctrl up")
  case True
  have "P (up\<lparr>port_mctrl := port_mctrl up\<rparr>, d)" by (rule f [OF r c])
  with True show ?thesis by (simp add: uart_set_mctrl_def uart_update_mctrl_def Let_def)
next
  case False
  let ?m = "mctrl_update (port_mctrl up) on mctrl_zero" and ?u = "up\<lparr>port_mctrl := mctrl_update (port_mctrl up) on mctrl_zero\<rparr>"
  have m: "mctrl_byte ?u ?m AND 0x10 = 0"
    by (rule mctrl_byte_noloop) (use up on in \<open>simp_all add: std_port_def mctrl_update_def mctrl_zero_def\<close>)
  have "returns (\<lambda>d. \<exists>M. regs L M I F D H d) (rbind (bus_write uart_bus d 4 (mctrl_byte ?u ?m)) Inr)"
    by (rule write_mcr [OF r refl]) auto
  moreover have "returns (\<lambda>d. calm True base d) (rbind (bus_write uart_bus d 4 (mctrl_byte ?u ?m)) Inr)"
    by (rule calm_write [OF c]) (simp_all add: m)
  ultimately have w: "returns (\<lambda>d. (\<exists>M. regs L M I F D H d) \<and> calm True base d) (bus_write uart_bus d 4 (mctrl_byte ?u ?m))"
    unfolding rbind_Inr_right by (rule returns_both)
  have "returns P (rbind (bus_write uart_bus d 4 (mctrl_byte ?u ?m)) (\<lambda>d. Inr (?u, d)))"
    by (rule returns_bind [OF w]) (auto intro: f)
  then show ?thesis
    using False by (simp add: uart_set_mctrl_def uart_update_mctrl_def Let_def set_mctrl_eq)
qed

lemma line_init_run:
  assumes r: "regs L M I F D H d" and L: "L AND 0x80 = 0" and c: "calm q base d"
    and up: "std_port up" "cons_cflag up = None" and t: "local_line t" and rate: "pc_line up t rt"
    and f: "\<And>M m H d q k t'. regs (termios_lcr (c_cflag t)) M (ier8 (lined ke t rt up) AND 0x0f) (termios_fcr up rt) q H d \<Longrightarrow>
      calm True base d \<Longrightarrow> unat rt * k = 115200 \<Longrightarrow> unat q = k \<Longrightarrow> P ((lined ke t rt up)\<lparr>port_mctrl := m\<rparr>, t', d)"
  shows "returns P (uart_line_init ke uart_bus up d t init_hw)"
proof -
  define u where "u = up\<lparr>cons_cflag := None, cts_flow := False, check_cd := False\<rparr>"
  have u: "std_port u" "pc_line u t rt" "ptype u \<noteq> PORT_UNKNOWN" "mctrl_byte u (port_mctrl u) = mctrl_byte up (port_mctrl up)"
      "termios_fcr u rt = termios_fcr up rt"
    using up rate by (simp_all add: u_def std_port_def pc_line_def alt_baud_def mctrl_byte_def termios_fcr_def)
  have speed: "uart_change_speed ke uart_bus (up\<lparr>cons_cflag := None\<rparr>) d t None = serial8250_do_set_termios ke uart_bus u d t None" for d
    using u(3) t by (simp add: uart_change_speed_def u_def local_line_def)
  obtain q k where b: "uart_get_baud_rate ke u t None (uartclk u div 16 div 0xffff) (uartclk u div 16) = (rt, t)" "rt \<noteq> 0"
      "serial8250_get_divisor u rt = Inr q" and k: "unat rt * k = 115200" "unat (ucast q :: u16) = k"
    by (rule pc_rate [OF u(2)])
  let ?R = "\<lambda>(v, t' :: ktermios, d). v = lined ke t rt up \<and> (\<exists>M H. regs (termios_lcr (c_cflag t)) M (ier8 (lined ke t rt up) AND 0x0f) (termios_fcr up rt) (ucast q) H d) \<and>
      calm True base d"
  have run: "returns ?R (serial8250_do_set_termios ke uart_bus u d t None)"
    by (rule set_termios_run [OF u(1) b(2,1,3) r L c]) (auto simp: lined_def u_def [symmetric] u(4,5))
  have "returns P (rbind (if init_hw \<and> cf_baud (c_cflag t') \<noteq> None then uart_set_mctrl uart_bus v d RTS_DTR else Inr (v, d)) (\<lambda>(up, d).
         rbind (if cts_flow up then
                  rbind (serial8250_get_mctrl uart_bus up d) (\<lambda>(m, up, d).
                  Inr (if \<not> m_cts m then up\<lparr>tty_hw_stopped := True\<rparr> else up, d))
                else Inr (up, d)) (\<lambda>(up, d). Inr (up, t', d))))"
    if "?R (v, t', d)" for v t' d
  proof -
    from that obtain M H where v: "v = lined ke t rt up"
        and rg: "regs (termios_lcr (c_cflag t)) M (ier8 (lined ke t rt up) AND 0x0f) (termios_fcr up rt) (ucast q) H d" and cm: "calm True base d"
      by auto
    have std: "std_port v" "\<not> cts_flow v" using u(1) by (simp_all add: v lined_def u_def [symmetric] std_port_def line_up_fields) (simp add: u_def)
    let ?S = "\<lambda>(w, d). (\<exists>m. w = v\<lparr>port_mctrl := m\<rparr>) \<and>
        (\<exists>M H. regs (termios_lcr (c_cflag t)) M (ier8 (lined ke t rt up) AND 0x0f) (termios_fcr up rt) (ucast q) H d) \<and> calm True base d"
    have "returns ?S (uart_set_mctrl uart_bus v d RTS_DTR)"
      by (rule set_mctrl_run [OF rg cm std(1)]) (auto simp: mctrl_zero_def)
    moreover have "?S (v, d)" using rg cm by (auto intro: exI [of _ "port_mctrl v"])
    ultimately have "returns ?S (if init_hw \<and> cf_baud (c_cflag t') \<noteq> None then uart_set_mctrl uart_bus v d RTS_DTR else Inr (v, d))"
      by (rule returns_if)
    then show ?thesis
      by (rule returns_bind) (use std(2) in \<open>auto intro!: f [OF _ _ k] simp: v\<close>)
  qed
  note rest = this
  show ?thesis
    unfolding uart_line_init_def Let_def up(2) option.case speed
  proof (rule returns_bind)
    show "returns ?R (serial8250_do_set_termios ke uart_bus u d t None)" by (fact run)
  next
    fix x :: "port8250 \<times> ktermios \<times> uart_dev"
    assume "?R x"
    then show "returns P ((\<lambda>(up, t, d).
         rbind (if init_hw \<and> cf_baud (c_cflag t) \<noteq> None then uart_set_mctrl uart_bus up d RTS_DTR else Inr (up, d)) (\<lambda>(up, d).
         rbind (if cts_flow up then
                  rbind (serial8250_get_mctrl uart_bus up d) (\<lambda>(m, up, d).
                  Inr (if \<not> m_cts m then up\<lparr>tty_hw_stopped := True\<rparr> else up, d))
                else Inr (up, d)) (\<lambda>(up, d).
         Inr (up, t, d)))) x)"
      by (cases x) (simp only: prod.case rest)
  qed
qed

lemma with_page_fields:
  "fresh_port ke (with_page up) = fresh_port ke up" "cons_cflag (with_page up) = cons_cflag up"
  "pc_line (started (with_page up)) t r = pc_line up t r"
  by (simp_all add: with_page_def fresh_port_def started_def pc_line_def alt_baud_def)

lemma started_std: "fresh_port ke up \<Longrightarrow> std_port (started up)"
  by (simp add: fresh_port_def started_def std_port_def)

text \<open>\<open>serial8250_startup\<close> on a UART that is there, from the two runs.\<close>

definition port_started :: "port8250 \<Rightarrow> irq_state \<Rightarrow> int \<Rightarrow> int \<times> port8250 \<times> irq_state \<times> uart_dev \<Rightarrow> bool" where
  "port_started up ic' base x \<longleftrightarrow> (case x of (r, u, ic, d) \<Rightarrow> r = 0 \<and> u = started up \<and> ic = ic' \<and> calm True base d \<and>
     (\<exists>M D H. regs 0x03 M 0x05 0 D H d))"

lemma startup_run:
  assumes "ser_good s" and "lcr s AND 0x80 = 0" and "mcr s AND 0x10 = 0" and "idle s" and "baudbase s = base"
    and up: "fresh_port ke up"
    and link: "serial_link_irq_chain (k_kzalloc_ok ke) (k_request_irq ke) (port_irq_no up) pno ic = Inr (0, ic')"
  shows "returns (port_started up ic' base) (serial8250_startup ke uart_bus io icp pno up ic (es, s))"
proof -
  have r: "regs (lcr s) (mcr s) (ier s) (fcr s) (divider s) (iir s AND 0xF0) (es, s)"
    using assms(1) by (simp add: regs_def regs_of_def)
  have c: "calm False base (es, s)" using assms(1-5) by (simp add: calm_def calm_state_def)
  let ?P = "\<lambda>(r, u, icx, d). r = - 19 \<or> u = started up \<and> icx = ic' \<and> (\<exists>M D H. regs 0x03 M 0x05 0 D H d)"
  have "returns ?P (serial8250_startup ke uart_bus io icp pno up ic (es, s))"
    by (rule startup_uart [OF r assms(2,3) up link]) auto
  moreover have "returns (calm_return base) (serial8250_startup ke uart_bus io icp pno up ic (es, s))"
    by (rule startup_calm [OF c up link])
  ultimately show ?thesis
    by (rule returns_mono [OF returns_both]) (auto simp: calm_return_def port_started_def)
qed

text \<open>What a port that was opened can do: it transmits, and the host's line is set.\<close>

definition opened :: "u32 \<Rightarrow> cflags \<Rightarrow> port8250 \<times> uart_dev \<Rightarrow> bool" where
  "opened r c x \<longleftrightarrow> (case x of (up, es, s) \<Rightarrow> tx_sys up s \<and> circ_view (xmit up) = [] \<and> initialized up \<and> \<not> tty_io_error up \<and>
     tx_loadsz up = 16 \<and> (\<exists>cs. filter (\<lambda>c. \<not> quiet_call c) (chr_log s) = cs @ [host_line r c]))"

lemma lined_ier:
  assumes "openable ke up" and "local_line t"
  shows "ier8 (lined ke t r (started (with_page up))) = 0x05" "xmit (lined ke t r (started (with_page up))) = xmit (with_page up)"
    "x_char (lined ke t r (started (with_page up))) = 0" "\<not> tty_stopped (lined ke t r (started (with_page up)))"
    "\<not> tty_hw_stopped (lined ke t r (started (with_page up)))" "ptype (lined ke t r (started (with_page up))) = PORT_16550A"
    "bugs (lined ke t r (started (with_page up))) = 0" "tx_loadsz (lined ke t r (started (with_page up))) = 16"
  using assms
  by (simp_all add: lined_def line_up_fields started_def with_page_def openable_def fresh_port_def)
    (simp add: line_up_def termios_ier_def termios_masks_def uart_update_timeout_def uart_enable_ms_def local_line_def Let_def)

lemma lined_opened:
  assumes up: "openable ke up" and t: "local_line t"
    and r: "regs (termios_lcr (c_cflag t)) M 0x05 F q H (es, s)" and c: "calm True 115200 (es, s)"
    and k: "unat r * k = 115200" "unat q = k"
  shows "opened r (c_cflag t) ((lined ke t r (started (with_page up)))\<lparr>port_mctrl := m, initialized := True, tty_io_error := False\<rparr>, (es, s))"
proof -
  have s: "ser_good s" "lcr s = termios_lcr (c_cflag t)" "ier s = 0x05" "divider s = q" using r by (auto simp: regs_def regs_of_def)
  have i: "mcr s AND 0x10 = 0" "idle s" using c by (auto simp: calm_def calm_state_def)
  have "tx_line s" using s i by (simp add: tx_line_def termios_lcr_dlab)
  moreover have "\<exists>cs. filter (\<lambda>c. \<not> quiet_call c) (chr_log s) = cs @ [host_line r (c_cflag t)]"
    by (rule told_line [OF c s(2) k(1)]) (simp add: s(4) k(2))
  ultimately show ?thesis
    using lined_ier [OF up t, of r] with_page_circ i(2)
    by (simp add: opened_def tx_sys_def tx_port_def s idle_def)
qed

lemma open_run:
  assumes s: "ser_good s" "lcr s AND 0x80 = 0" "mcr s AND 0x10 = 0" "idle s" "baudbase s = 115200"
    and up: "openable ke up" "pc_line up t r" and t: "local_line t"
    and link: "serial_link_irq_chain (k_kzalloc_ok ke) (k_request_irq ke) (port_irq_no up) pno ic = Inr (0, ic')"
  shows "returns (\<lambda>(retval, u, ic1, t1, d). retval = 0 \<and> ic1 = ic' \<and> opened r (c_cflag t) (u, d))
    (uart_startup ke uart_bus io icp pno up ic (es, s) t init_hw)"
proof -
  have f: "fresh_port ke (with_page up)" "port_irq_no (with_page up) = port_irq_no up" "ptype up \<noteq> PORT_UNKNOWN"
      "cons_cflag (started (with_page up)) = None"
    using up(1) by (simp_all add: openable_def fresh_port_def with_page_def started_def)
  have start: "returns (port_started (with_page up) ic' 115200) (serial8250_startup ke uart_bus io icp pno (with_page up) ic (es, s))"
    by (rule startup_run [OF s f(1)]) (simp add: f(2) link)
  have line: "returns (\<lambda>(u, t1, d). opened r (c_cflag t) (u\<lparr>initialized := True, tty_io_error := False\<rparr>, d))
      (uart_line_init ke uart_bus (started (with_page up)) d t init_hw)"
    if d: "calm True 115200 d" "regs 0x03 M 0x05 0 D H d" for M D H d
  proof (rule line_init_run [OF d(2) _ d(1) started_std [OF f(1)] f(4) t])
    fix M m H q k t' and d :: uart_dev
    assume "regs (termios_lcr (c_cflag t)) M (ier8 (lined ke t r (started (with_page up))) AND 0x0f) (termios_fcr (started (with_page up)) r) q H d"
      and "calm True 115200 d" and "unat r * k = 115200" and "unat q = k"
    then have "opened r (c_cflag t) ((lined ke t r (started (with_page up)))\<lparr>port_mctrl := m, initialized := True, tty_io_error := False\<rparr>, d)"
      by (cases d) (simp add: lined_ier [OF up(1) t] lined_opened [OF up(1) t])
    then show "case (lined ke t r (started (with_page up))\<lparr>port_mctrl := m\<rparr>, t', d) of
        (u, t1, d) \<Rightarrow> opened r (c_cflag t) (u\<lparr>initialized := True, tty_io_error := False\<rparr>, d)" by simp
  qed (use up(2) with_page_fields(3) in simp_all)
  have page: "k_page_ok ke" "cb_buf (xmit up) = None" "\<not> initialized up" using up(1) by (simp_all add: openable_def)
  have page_up: "up\<lparr>tty_io_error := True, xmit := \<lparr>cb_buf = Some (replicate UART_XMIT_SIZE 0), cb_head = 0, cb_tail = 0\<rparr>\<rparr> = with_page up"
    by (simp add: with_page_def)
  have "returns (\<lambda>(retval, u, ic1, t1, d). retval = 0 \<and> ic1 = ic' \<and> opened r (c_cflag t) (u\<lparr>initialized := True, tty_io_error := False\<rparr>, d))
      (uart_port_startup ke uart_bus io icp pno (up\<lparr>tty_io_error := True\<rparr>) ic (es, s) t init_hw)"
    unfolding uart_port_startup_def
    using page f(3)
    apply (simp add: Let_def page_up)
    apply (rule returns_bind [OF start])
    apply (auto simp: port_started_def intro!: returns_bind [OF line])
    done
  then show ?thesis
    unfolding uart_startup_def
    using page(3)
    apply simp
    apply (erule returns_bind)
    apply auto
    done
qed

text \<open>The interrupt, when the kernel gives it.\<close>

lemma link_reached:
  assumes "irq_reach ic" and "pno \<notin> set (irq_ports ic irq)" and "kz" and "rq = 0"
  obtains ic' where "serial_link_irq_chain kz rq irq pno ic = Inr (0, ic')" and "pno \<in> set (irq_ports ic' irq)"
proof -
  obtain r ic' where "serial_link_irq_chain kz rq irq pno ic = Inr (r, ic')"
      "r = (if irq_ports ic irq \<noteq> [] then 0 else if kz then rq else - 12)"
      "irq_ports ic' = (if r < 0 then irq_ports ic else (irq_ports ic)(irq := ring_add pno (irq_ports ic irq)))"
    using link_ok [OF irq_reach_ok [OF assms(1)] assms(2)] by blast
  moreover have "pno \<in> set (ring_add pno ps)" for ps by (cases ps) simp_all
  ultimately show thesis using that assms(3,4) by (auto split: if_splits)
qed

text \<open>
  C6. C6. A port opened for the first time on QEMU's UART transmits. The port is a 16550A with an irq, no bugs, page, console
  flags, x_char or stopped tty, not forced into loopback (openable); the termios has CLOCAL and no CRTSCTS (local_line)
  and a rate of at least 2 that divides 115200 at a PC's clock, not 38400 with a custom divisor (pc_line); the UART is
  consistent, outside DLAB and loopback, with nothing received; memory and irq are granted. \<open>uart_startup\<close> then
  succeeds and hooks the port to its irq, and the host's line was last set to the rate, parity, data and stop bits of
  the termios. A write of up to 4095 bytes is taken whole, and n interrupts hand it to the character device in order,
  with nothing else, and leave the line low, as soon as n loads of 16 bytes cover it.
\<close>

theorem opened_line_transmits:
  assumes "ser_good s" and "lcr s AND 0x80 = 0" and "mcr s AND 0x10 = 0" and "idle s" and "baudbase s = 115200"
    and "openable ke up" and "local_line t" and "pc_line up t r"
    and "irq_reach ic" and "pno \<notin> set (irq_ports ic (port_irq_no up))" and "k_kzalloc_ok ke" and "k_request_irq ke = 0"
    and "length data \<le> 4095"
    and "length data \<le> n * 16"
  shows "\<exists>up1 ic' t1 es1 s1 cs up2 d2 up3 es3 s3.
    uart_startup ke uart_bus io icp pno up ic (es, s) t init_hw = Inr (0, up1, ic', t1, (es1, s1)) \<and>
    pno \<in> set (irq_ports ic' (port_irq_no up)) \<and>
    filter (\<lambda>c. \<not> quiet_call c) (chr_log s1) = cs @ [host_line r (c_cflag t)] \<and>
    uart_write uart_bus up1 (es1, s1) data = Inr (length data, up2, d2) \<and>
    service k n up2 d2 = Inr (up3, (es3, s3)) \<and>
    chr_log s3 = chr_log s1 @ map ChrWrite data \<and> circ_view (xmit up3) = [] \<and> \<not> irq_level s3"
proof -
  obtain ic' where link: "serial_link_irq_chain (k_kzalloc_ok ke) (k_request_irq ke) (port_irq_no up) pno ic = Inr (0, ic')"
      and hooked: "pno \<in> set (irq_ports ic' (port_irq_no up))"
    by (rule link_reached [OF assms(9-12)])
  obtain up1 t1 es1 s1 where o: "uart_startup ke uart_bus io icp pno up ic (es, s) t init_hw = Inr (0, up1, ic', t1, (es1, s1))"
      "opened r (c_cflag t) (up1, (es1, s1))"
    using open_run [OF assms(1-6) assms(8,7) link, of io icp es init_hw] by (auto elim!: returnsE)
  then have sys: "tx_sys up1 s1" "circ_view (xmit up1) = []" "tx_loadsz up1 = 16"
      and host: "\<exists>cs. filter (\<lambda>c. \<not> quiet_call c) (chr_log s1) = cs @ [host_line r (c_cflag t)]"
    by (simp_all add: opened_def)
  obtain up2 es2 s2 where w: "uart_write uart_bus up1 (es1, s1) data = Inr (length data, up2, (es2, s2))" "tx_sys up2 s2" "tx_on up2"
      "circ_view (xmit up2) = data" "tx_loadsz up2 = 16" "chr_log s2 = chr_log s1"
    using write_starts [OF sys(1), of es1 data] sys(2,3) assms(13) by auto
  obtain up3 es3 s3 where "service k n up2 (es2, s2) = Inr (up3, (es3, s3))" "circ_view (xmit up3) = []" "\<not> irq_level s3"
      "chr_log s3 = chr_log s1 @ map ChrWrite data"
    using service_drains [OF w(2,3), of n k es2] w(4-6) assms(14) by auto
  moreover obtain cs where "filter (\<lambda>c. \<not> quiet_call c) (chr_log s1) = cs @ [host_line r (c_cflag t)]" using host by blast
  ultimately show ?thesis using o(1) hooked w(1) by (intro exI conjI)
qed

definition closed_port :: port8250 where
  "closed_port = port0\<lparr>xmit := \<lparr>cb_buf = None, cb_head = 0, cb_tail = 0\<rparr>\<rparr>"

definition local_termios :: ktermios where
  "local_termios = termios0\<lparr>c_cflag := (c_cflag termios0)\<lparr>cf_clocal := True, cf_crtscts := False\<rparr>\<rparr>"

theorem opened_line_transmits_witness:
  "\<exists>ic' up1 t1 es1 s1 cs up2 d2 up3 es3 s3.
    uart_startup kernel0 uart_bus uart_bus 0 1 closed_port irq_init ((\<lambda>_. env0), uart0) local_termios True =
      Inr (0, up1, ic', t1, (es1, s1)) \<and>
    filter (\<lambda>c. \<not> quiet_call c) (chr_log s1) = cs @ [ChrSetParams 9600 (CHR ''N'') 8 1] \<and>
    uart_write uart_bus up1 (es1, s1) [0x48, 0x69] = Inr (2, up2, d2) \<and>
    service hooks0 1 up2 d2 = Inr (up3, (es3, s3)) \<and>
    chr_log s3 = chr_log s1 @ [ChrWrite 0x48, ChrWrite 0x69]"
proof -
  have c: "c_cflag local_termios = (c_cflag termios0)\<lparr>cf_clocal := True, cf_crtscts := False\<rparr>"
    by (simp add: local_termios_def)
  have "asked (alt_baud closed_port) local_termios = 9600"
    by (simp add: asked_def alt_baud_def port0_def closed_port_def termios0_def local_termios_def tty_termios_baud_rate_def)
  then have line: "pc_line closed_port local_termios 9600"
    unfolding pc_line_def by (simp add: closed_port_def port0_def word_le_nat_alt)
  have up: "openable kernel0 closed_port"
    by (simp add: openable_def fresh_port_def closed_port_def port0_def kernel0_def mctrl_zero_def)
  have t: "local_line local_termios" by (simp add: local_line_def c)
  have irq: "irq_reach irq_init" "1 \<notin> set (irq_ports irq_init (port_irq_no closed_port))" "k_kzalloc_ok kernel0" "k_request_irq kernel0 = 0"
    by (rule irq_start) (simp_all add: kernel0_def irq_ports_def irq_init_def nth_replicate)
  note o = opened_line_transmits [OF uart0_good _ _ uart0_fresh(1,2) up t line irq, where es = "\<lambda>_. env0" and data = "[0x48, 0x69]"
      and n = 1 and k = hooks0 and io = uart_bus and icp = 0 and init_hw = True]
  have "host_line 9600 (c_cflag local_termios) = ChrSetParams 9600 (CHR ''N'') 8 1"
    by (simp add: host_line_def c termios0_def)
  with o show ?thesis by (fastforce simp: uart0_regs)
qed

end
