(* ===== verification/Linux_Console_Props.thy ===== *)
theory Linux_Console_Props
  imports Linux_Console Linux_8250_Open
begin

unbundle bit_operations_syntax

text \<open>
  The console on QEMU's UART: the options of the command line set the host's line and are kept for the
  first opening, and messages are handed on with a carriage return before every line feed.
\<close>

section \<open>Messages\<close>

definition crlf :: "u8 list \<Rightarrow> u8 list" where
  "crlf s = concat (map (\<lambda>c. if c = 10 then [13, 10] else [c]) s)"

lemma crlf_simps [simp]: "crlf [] = []" "crlf (c # cs) = (if c = 10 then [13, 10] else [c]) @ crlf cs"
  by (simp_all add: crlf_def)

text \<open>What a character put on the line changes: nothing but the log of the host's side.\<close>

definition wrote :: "port8250 \<Rightarrow> serial_state \<Rightarrow> u8 list \<Rightarrow> port8250 \<times> uart_dev \<Rightarrow> bool" where
  "wrote up s cs = (\<lambda>(v, d). tx_line (snd d) \<and> ier (snd d) = ier s \<and> chr_log (snd d) = chr_log s @ map ChrWrite cs \<and>
     (\<exists>x y. v = up\<lparr>lsr_saved_flags := x, msr_saved_flags := y\<rparr>))"

lemma waited_frame:
  assumes "waited s d"
  obtains x y d' where "wait_for_xmitr uart_bus bits up d = Inr (up\<lparr>lsr_saved_flags := x, msr_saved_flags := y\<rparr>, d')" and "waited s d'"
proof -
  have "returns (\<lambda>(v, d). waited s d \<and> (\<exists>x y. v = up\<lparr>lsr_saved_flags := x, msr_saved_flags := y\<rparr>)) (wait_for_xmitr uart_bus bits up d)"
    by (rule wait_frame [OF status_read]) (use assms in auto)
  then show ?thesis by (rule returnsE) (use that in blast)
qed

lemma putchar_wrote:
  assumes "wrote up s cs p"
  shows "returns (wrote up s (cs @ [c])) (serial8250_console_putchar uart_bus p c)"
proof -
  obtain v d where p: "p = (v, d)" by (cases p)
  obtain x y where v: "v = up\<lparr>lsr_saved_flags := x, msr_saved_flags := y\<rparr>" using assms by (auto simp: wrote_def p)
  have "waited (snd d) d" using assms by (simp add: wrote_def waited_def p)
  then obtain x1 y1 d1 where 1: "wait_for_xmitr uart_bus 0x20 v d = Inr (v\<lparr>lsr_saved_flags := x1, msr_saved_flags := y1\<rparr>, d1)" "waited (snd d) d1"
    by (rule waited_frame)
  obtain d2 where 2: "bus_write uart_bus d1 R_RXTX c = Inr d2" "tx_line (snd d2)" "ier (snd d2) = ier (snd d)"
      "chr_log (snd d2) = chr_log (snd d) @ [ChrWrite c]"
    using thr_write_line [OF 1(2), of c] by (auto elim!: returnsE)
  have "\<exists>x y. v\<lparr>lsr_saved_flags := x1, msr_saved_flags := y1\<rparr> = up\<lparr>lsr_saved_flags := x, msr_saved_flags := y\<rparr>"
    unfolding v by (rule exI [of _ x1], rule exI [of _ y1]) simp
  then show ?thesis
    using assms 2 by (simp only: serial8250_console_putchar_def p prod.case 1(1) 2(1) rbind_Inr returns_Inr wrote_def snd_conv) simp
qed

lemma console_write_wrote:
  "wrote up s ds p \<Longrightarrow> returns (wrote up s (ds @ crlf cs)) (uart_console_write (serial8250_console_putchar uart_bus) cs p)"
proof (induction cs arbitrary: ds p)
  case (Cons c cs)
  have "returns (wrote up s (ds @ crlf [c])) (rbind (if c = 10 then serial8250_console_putchar uart_bus p 13 else Inr p)
      (\<lambda>p. serial8250_console_putchar uart_bus p c))"
  proof (cases "c = 10")
    case True
    then show ?thesis
      using returns_bind [OF putchar_wrote [OF Cons.prems, of 13], of "wrote up s (ds @ [13, 10])"] putchar_wrote [of up s "ds @ [13]" _ 10]
      by simp
  qed (simp add: putchar_wrote [OF Cons.prems])
  then have "returns (wrote up s ((ds @ crlf [c]) @ crlf cs)) (rbind (rbind (if c = 10 then serial8250_console_putchar uart_bus p 13 else Inr p)
      (\<lambda>p. serial8250_console_putchar uart_bus p c)) (uart_console_write (serial8250_console_putchar uart_bus) cs))"
    by (rule returns_bind) (rule Cons.IH)
  then show ?case by (simp add: rbind_assoc)
qed simp

lemma console_write_sent:
  assumes "tx_line s" and "\<not> cts_flow up"
  shows "\<exists>up' es' t. serial8250_console_write uart_bus up (es, s) msg = Inr (up', (es', t)) \<and>
    chr_log t = chr_log s @ map ChrWrite (crlf msg) \<and> ier t = ier s AND 0x0f \<and> tx_line t \<and> \<not> cts_flow up'"
proof -
  obtain d0 where d0: "bus_read uart_bus (es, s) R_IER = Inr (ier s, (d0, s))"
    using assms by (simp add: serial_ioport_read_def tx_line_def)
  let ?v = "if capabilities up AND UART_CAP_UUE \<noteq> 0 then 0x40 else 0 :: u8"
  obtain d1 where d1: "bus_write uart_bus (d0, s) R_IER ?v = Inr d1" "tx_line (snd d1)" "chr_log (snd d1) = chr_log s"
    using ier_write_line [OF assms(1), of ?v d0] by (auto elim!: returnsE)
  have same: "\<exists>x y. up = up\<lparr>lsr_saved_flags := x, msr_saved_flags := y\<rparr>"
    by (rule exI [of _ "lsr_saved_flags up"], rule exI [of _ "msr_saved_flags up"]) simp
  have "wrote up (snd d1) [] (up, d1)"
    using d1 same by (auto simp: wrote_def)
  then obtain v2 d2 where d2: "uart_console_write (serial8250_console_putchar uart_bus) msg (up, d1) = Inr (v2, d2)"
      "wrote up (snd d1) (crlf msg) (v2, d2)"
    using console_write_wrote [of up "snd d1" "[]" "(up, d1)" msg] by (auto elim!: returnsE)
  then have "waited (snd d2) d2" and flow: "\<not> cts_flow v2" using assms(2) by (auto simp: wrote_def waited_def)
  then obtain x y d3 where d3: "wait_for_xmitr uart_bus 0x60 v2 d2 = Inr (v2\<lparr>lsr_saved_flags := x, msr_saved_flags := y\<rparr>, d3)" "waited (snd d2) d3"
    by (metis waited_frame)
  define v3 where "v3 = v2\<lparr>lsr_saved_flags := x, msr_saved_flags := y\<rparr>"
  note d3 = d3 [folded v3_def]
  have d3f: "\<not> cts_flow v3" using flow by (simp add: v3_def)
  obtain d4 where d4: "bus_write uart_bus d3 R_IER (ier s) = Inr d4" "tx_line (snd d4)" "ier (snd d4) = ier s AND 0x0f"
      "chr_log (snd d4) = chr_log s @ map ChrWrite (crlf msg)"
    using ier_write_line [of "snd d3" "ier s" "fst d3"] d3(2) d2(2) d1(3) by (auto simp: waited_def wrote_def elim!: returnsE)
  have "returns (\<lambda>(v, d). waited (snd d4) d \<and> \<not> cts_flow v)
      (rbind (serial8250_modem_status uart_bus v3 d4) (\<lambda>(_, up, d). Inr (up, d)))"
    unfolding serial8250_modem_status_def rbind_assoc
    by (rule returns_bind [OF status_read [of "snd d4"]])
      (use d3f d4(2) in \<open>auto simp: waited_def Let_def uart_handle_cts_change_def uart_handle_dcd_change_def\<close>)
  then obtain v5 d5 where "(if msr_saved_flags v3 \<noteq> 0 then rbind (serial8250_modem_status uart_bus v3 d4) (\<lambda>(_, up, d). Inr (up, d))
      else Inr (v3, d4)) = Inr (v5, d5)" "waited (snd d4) d5" "\<not> cts_flow v5"
    using d3f d4(2) by (cases "msr_saved_flags v3 = 0") (auto simp: waited_def elim!: returnsE)
  then show ?thesis
    using d4 by (cases d5) (simp only: serial8250_console_write_def d0 d1(1) d2(1) d3(1) rbind_Inr prod.case, auto simp: waited_def)
qed

section \<open>Options\<close>

text \<open>The rates of the table that QEMU's UART meets exactly.\<close>

definition console_rate :: "u32 \<Rightarrow> bool" where
  "console_rate r \<longleftrightarrow> r \<in> {1200, 2400, 4800, 9600, 19200, 38400, 57600, 115200}"

lemma rate_found:
  assumes "console_rate r"
  shows "rate_loop r baud_rates = Inr r"
  using assms unfolding console_rate_def insert_iff empty_iff
  by (elim disjE; simp add: baud_rates_def word_le_nat_alt)

lemma options_parsed:
  assumes "\<forall>c \<in> set ds. c \<in> set ''0123456789''" and "p \<notin> set ''0123456789''"
  shows "uart_parse_options strtoul (ds @ p # b # rest) opts =
    (ucast (strtoul (ds @ p # b # rest)), p, int (of_char b) - 48, case rest of [] \<Rightarrow> snd (snd (snd opts)) | c # s \<Rightarrow> c)"
proof -
  have "dropWhile (\<lambda>c. c \<in> set ''0123456789'') (ds @ p # b # rest) = p # b # rest"
    using assms by (subst dropWhile_append2) auto
  then show ?thesis by (cases opts) (simp add: uart_parse_options_def Let_def split: list.split)
qed

text \<open>A port with the PC's clock, and no custom speed or hardware flow control.\<close>

definition console_port :: "port8250 \<Rightarrow> bool" where
  "console_port up \<longleftrightarrow> std_port up \<and> uartclk up = 1843200 \<and> upf_spd up = SPD_NONE \<and> \<not> cts_flow up"

lemma console_pc_line:
  assumes "console_port up" and "console_rate r" and "cf_baud (c_cflag t) = Some r"
  shows "pc_line up t r"
proof -
  have "alt_baud up = 38400" using assms(1) by (simp add: console_port_def alt_baud_def)
  with assms show ?thesis
    by (auto simp: pc_line_def console_port_def console_rate_def asked_def tty_termios_baud_rate_def Let_def word_le_nat_alt)
qed

text \<open>
  C14. A console on a serial line. The options are digits with a standard rate from 1200 to 115200, then a parity
  letter, a character for the data bits and any rest; the port is a 16550A with FIFO and the clock of a PC, without
  custom speed, bugs or CTS flow control, on a consistent UART outside DLAB and loopback with nothing received. Then
  \<open>serial8250_console_setup\<close> succeeds, the last parameters that the host's line gets are that rate with odd, even or
  no parity, seven data bits for a 7 and else eight, and one stop bit; and exactly these flags, CRTSCTS for an r after
  the bits, CLOCAL, CREAD and HUPCL, with the rate as the kernel's encoding of baud rates (a parameter) gives it, are
  kept for the port's first opening. After that every message is handed to the character device behind the UART in
  order, a carriage return before each line feed and nothing else (whether the device takes a byte is its own
  matter), and the interrupts that were enabled are enabled again.
\<close>

theorem console_on_serial_line:
  assumes "ser_good s" and "lcr s AND 0x80 = 0" and "mcr s AND 0x10 = 0" and "idle s" and "baudbase s = 115200"
    and "console_port up" and "unat i < length ports" and "ports ! unat i = (up, (es, s))" and "addr (unat i)" and "i < nr"
    and "\<forall>c \<in> set ds. c \<in> set ''0123456789''" and "p \<notin> set ''0123456789''"
    and "ucast (strtoul (ds @ p # b # rest)) = r" and "console_rate r"
  shows "\<exists>ports' v es' t cs. serial8250_console_setup strtoul ke uart_bus addr nr ports i (Some (ds @ p # b # rest)) = Inr (0, i, ports') \<and>
    ports' ! unat i = (v, (es', t)) \<and>
    cons_cflag v = Some ((console_cflag r p (int (of_char b) - 48) (case rest of [] \<Rightarrow> CHR ''n'' | c # _ \<Rightarrow> c))\<lparr>cf_baud := k_encode ke r\<rparr>) \<and>
    filter (\<lambda>c. \<not> quiet_call c) (chr_log t) = cs @ [ChrSetParams (uint r)
      (if p \<in> set ''oO'' then CHR ''O'' else if p \<in> set ''eE'' then CHR ''E'' else CHR ''N'') (if b = CHR ''7'' then 7 else 8) 1] \<and>
    (\<forall>msg. \<exists>v2 es2 t2. serial8250_console_write uart_bus v (es', t) msg = Inr (v2, (es2, t2)) \<and>
      chr_log t2 = chr_log t @ map ChrWrite (crlf msg) \<and> ier t2 = ier t AND 0x0f)"
proof -
  let ?fl = "case rest of [] \<Rightarrow> CHR ''n'' | c # s \<Rightarrow> c"
  let ?c = "console_cflag r p (int (of_char b) - 48) ?fl"
  let ?t = "\<lparr>c_cflag = ?c, c_iflag = zero_iflags, c_start = 0, c_stop = 0\<rparr>"
  let ?up = "up\<lparr>port_mctrl := (port_mctrl up)\<lparr>m_dtr := True\<rparr>\<rparr>"
  have parsed: "uart_parse_options strtoul (ds @ p # b # rest) default_opts = (r, p, int (of_char b) - 48, ?fl)"
    by (simp add: options_parsed [OF assms(11,12)] assms(13) split: list.split)
  have port: "console_port ?up" using assms(6) by (simp add: console_port_def std_port_def)
  have line: "pc_line ?up ?t r" by (rule console_pc_line [OF port assms(14)]) (simp add: console_cflag_def)
  have std: "std_port ?up" "\<not> cts_flow ?up" using port by (simp_all add: console_port_def)
  obtain old where set: "uart_set_options ke uart_bus up (es, s) True (r, p, int (of_char b) - 48, ?fl) =
      rbind (serial8250_do_set_termios ke uart_bus ?up (es, s) ?t old) (\<lambda>(up, t, d). Inr (up\<lparr>cons_cflag := Some (c_cflag t)\<rparr>, d))"
    by (simp add: uart_set_options_def rate_found [OF assms(14)] Let_def)
  obtain v t' es' s' cs where run: "serial8250_do_set_termios ke uart_bus ?up (es, s) ?t old = Inr (v, t', (es', s'))"
      and out: "filter (\<lambda>c. \<not> quiet_call c) (chr_log s') = cs @ [host_line r ?c]" "cts_flow v = cts_flow ?up" "tx_line s'" "t' = line_termios ke r ?t"
    using set_line_run [OF assms(1-5) std(1) line, of ke es old] by (auto simp: tx_line_def)
  let ?v = "v\<lparr>cons_cflag := Some (c_cflag t')\<rparr>"
  have ready: "serial8250_console_setup strtoul ke uart_bus addr nr ports i (Some (ds @ p # b # rest)) = Inr (0, i, ports[unat i := (?v, (es', s'))])"
    using assms(7-10) set by (simp add: serial8250_console_setup_def parsed run arr_get_def arr_set_def not_le [symmetric])
  have seven: "of_char (CHR ''7'') = (55 :: nat)" by simp
  have "of_char b = (55 :: nat) \<longleftrightarrow> b = CHR ''7''" unfolding seven [symmetric] by (rule of_char_eq_iff)
  then have "int (of_char b) - 48 = 7 \<longleftrightarrow> b = CHR ''7''" by auto
  then have host: "host_line r ?c = ChrSetParams (uint r)
      (if p \<in> set ''oO'' then CHR ''O'' else if p \<in> set ''eE'' then CHR ''E'' else CHR ''N'') (if b = CHR ''7'' then 7 else 8) 1"
    by (simp add: host_line_def console_cflag_def)
  have texts: "\<forall>msg. \<exists>v2 es2 t2. serial8250_console_write uart_bus ?v (es', s') msg = Inr (v2, (es2, t2)) \<and>
      chr_log t2 = chr_log s' @ map ChrWrite (crlf msg) \<and> ier t2 = ier s' AND 0x0f"
    using console_write_sent [of s' ?v es'] out(2,3) std(2) by simp blast
  have "ports[unat i := (?v, (es', s'))] ! unat i = (?v, (es', s'))" using assms(7) by simp
  moreover have "r \<noteq> 0" using assms(14) by (auto simp: console_rate_def)
  then have "cons_cflag ?v = Some (?c\<lparr>cf_baud := k_encode ke r\<rparr>)"
    by (simp add: out(4) line_termios_def set_baud_def tty_termios_baud_rate_def console_cflag_def)
  ultimately show ?thesis using ready texts out(1) unfolding host by blast
qed

text \<open>\<open>simple_strtoul\<close> on decimal digits.\<close>

definition digits_value :: "string \<Rightarrow> u64" where
  "digits_value s = foldl (\<lambda>n c. 10 * n + of_nat (of_char c - 48)) 0 (takeWhile (\<lambda>c. c \<in> set ''0123456789'') s)"

theorem console_on_serial_line_witness:
  "\<exists>ports' v es' t cs. serial8250_console_setup digits_value kernel0 uart_bus (\<lambda>_. True) 4 [(port0, ((\<lambda>_. env0), uart0))] 0 (Some ''9600e7r'') =
      Inr (0, 0, ports') \<and> ports' ! 0 = (v, (es', t)) \<and>
    (\<exists>c. cons_cflag v = Some c \<and> cf_size c = CS7 \<and> cf_parenb c \<and> \<not> cf_parodd c \<and> cf_crtscts c \<and> cf_baud c = Some 9600) \<and>
    filter (\<lambda>c. \<not> quiet_call c) (chr_log t) = cs @ [ChrSetParams 9600 (CHR ''E'') 7 1] \<and>
    (\<exists>v2 es2 t2. serial8250_console_write uart_bus v (es', t) [0x6f, 10] = Inr (v2, (es2, t2)) \<and>
      chr_log t2 = chr_log t @ [ChrWrite 0x6f, ChrWrite 13, ChrWrite 10])"
proof -
  have "console_port port0" using port0_std by (simp add: console_port_def) (simp add: port0_def)
  moreover have "ucast (digits_value (''9600'' @ CHR ''e'' # CHR ''7'' # ''r'')) = (9600 :: u32)" by (simp add: digits_value_def)
  ultimately obtain ports' v es' t cs where
      "serial8250_console_setup digits_value kernel0 uart_bus (\<lambda>_. True) 4 [(port0, ((\<lambda>_. env0), uart0))] 0
        (Some (''9600'' @ CHR ''e'' # CHR ''7'' # ''r'')) = Inr (0, 0, ports')" "ports' ! unat (0 :: u32) = (v, (es', t))"
      "cons_cflag v = Some ((console_cflag 9600 (CHR ''e'') (int (of_char (CHR ''7'')) - 48) (CHR ''r''))\<lparr>cf_baud := k_encode kernel0 9600\<rparr>)"
      "filter (\<lambda>c. \<not> quiet_call c) (chr_log t) = cs @ [ChrSetParams (uint (9600 :: u32)) (CHR ''E'') 7 1]"
      "\<forall>msg. \<exists>v2 es2 t2. serial8250_console_write uart_bus v (es', t) msg = Inr (v2, (es2, t2)) \<and>
        chr_log t2 = chr_log t @ map ChrWrite (crlf msg) \<and> ier t2 = ier t AND 0x0f"
    using console_on_serial_line [where s = uart0 and up = port0 and i = 0 and ports = "[(port0, ((\<lambda>_. env0), uart0))]" and es = "\<lambda>_. env0"
        and addr = "\<lambda>_. True" and nr = 4 and ds = "''9600''" and p = "CHR ''e''" and b = "CHR ''7''" and rest = "''r''"
        and strtoul = digits_value and r = 9600 and ke = kernel0] uart0_good uart0_fresh
    by (auto simp: console_rate_def uart0_regs)
  moreover from this(3) have "\<exists>c. cons_cflag v = Some c \<and> cf_size c = CS7 \<and> cf_parenb c \<and> \<not> cf_parodd c \<and> cf_crtscts c \<and> cf_baud c = Some 9600"
    by (simp add: console_cflag_def kernel0_def)
  ultimately show ?thesis by (fastforce dest: spec [of _ "[0x6f, 10]"])
qed

end
