(* ===== verification/Linux_Tty.thy ===== *)
theory Linux_Tty
  imports Linux_8250_Line
begin

unbundle bit_operations_syntax

text \<open>
  The life of a tty on a serial port: of \<open>serial_core.c\<close> \<open>uart_open\<close>, \<open>uart_close\<close>, \<open>uart_hangup\<close>,
  \<open>uart_wait_until_sent\<close>, \<open>uart_suspend_port\<close>, \<open>uart_resume_port\<close>, the power management of a port and the
  counters of its inputs; of \<open>8250.c\<close> \<open>serial8250_do_pm\<close> and the suspension of the driver's ports. The parts of
  opening and closing that the tty layer does are arguments, as is what passes while the code sleeps.
\<close>

section \<open>A line\<close>

text \<open>
  The fields of \<open>uart_state\<close>, \<open>tty_port\<close> and \<open>uart_port\<close> that are not in \<open>port8250\<close>. \<open>tl_driver_data\<close>: the
  tty knows the state; \<open>tl_tty\<close>: the port knows the tty; \<open>tl_susp\<close>: the port itself is suspended, while the field
  \<open>suspended\<close> of \<open>port8250\<close> is the flag of the tty's port.
\<close>

record ttyline =
  tl_up :: port8250
  tl_pm :: int
  tl_count :: int
  tl_active :: bool
  tl_closing :: bool
  tl_blocked :: bool
  tl_driver_data :: bool
  tl_tty :: bool
  tl_low_latency :: bool
  tl_susp :: bool
  tl_irq_wake :: bool

text \<open>The port's hook for power management is not set, so that \<open>serial8250_pm\<close> is \<open>serial8250_do_pm\<close>.\<close>

definition serial8250_do_pm :: "'d bus \<Rightarrow> port8250 \<Rightarrow> 'd \<Rightarrow> int \<Rightarrow> 'd res" where
  "serial8250_do_pm b up d state = serial8250_set_sleep b up d (state \<noteq> 0)"

definition uart_change_pm :: "'d bus \<Rightarrow> ttyline \<Rightarrow> 'd \<Rightarrow> int \<Rightarrow> (ttyline \<times> 'd) res" where
  "uart_change_pm b l d pm_state =
     (if tl_pm l \<noteq> pm_state then rbind (serial8250_do_pm b (tl_up l) d pm_state) (\<lambda>d. Inr (l\<lparr>tl_pm := pm_state\<rparr>, d))
      else Inr (l, d))"

section \<open>Waiting for the transmitter\<close>

text \<open>\<open>time_after\<close> of the kernel: the difference of two times is a signed number.\<close>

definition time_after :: "u64 \<Rightarrow> u64 \<Rightarrow> bool" where
  "time_after a b \<longleftrightarrow> sint (b - a) < 0"

text \<open>
  What a sleep of so many jiffies, the \<open>n\<close>th one, comes to: whether a signal is pending, by how much
  \<open>jiffies\<close> has gone on, and what the device has done meanwhile. The loop carries \<open>jiffies\<close> as a part of
  its state, and returns it.
\<close>

type_synonym 'd sleeps = "u64 \<Rightarrow> nat \<Rightarrow> bool \<times> u64 \<times> ('d \<Rightarrow> 'd)"

partial_function (option) wait_loop :: "'d bus \<Rightarrow> (nat \<Rightarrow> bool \<times> u64 \<times> ('d \<Rightarrow> 'd)) \<Rightarrow> u64 \<Rightarrow> nat \<Rightarrow> port8250 \<Rightarrow> u64 \<Rightarrow> 'd \<Rightarrow>
    (port8250 \<times> u64 \<times> 'd) res option" where
  "wait_loop b sl expire n up jiffies d =
     (case serial8250_tx_empty b up d of
        Inl e \<Rightarrow> Some (Inl e)
      | Inr (drained, up, d) \<Rightarrow>
          if drained then Some (Inr (up, jiffies, d))
          else
            (case sl n of (signal, slept, pass) \<Rightarrow>
               let jiffies = jiffies + slept
               in if signal \<or> time_after jiffies expire then Some (Inr (up, jiffies, pass d))
                  else wait_loop b sl expire (n + 1) up jiffies (pass d)))"

text \<open>The interval between two looks at the transmitter; \<open>timeout\<close> is an \<open>int\<close>.\<close>

definition char_time :: "kernel \<Rightarrow> port8250 \<Rightarrow> u32 \<Rightarrow> u64" where
  "char_time ke up tmo =
     (let t = ucast ((timeout up - k_hz ke div 50) div fifosize up) div 5;
          t = (if t = 0 then 1 else t)
      in if tmo \<noteq> 0 \<and> scast tmo < t then scast tmo else t)"

definition uart_wait_until_sent :: "'d bus \<Rightarrow> kernel \<Rightarrow> 'd sleeps \<Rightarrow> u64 \<Rightarrow> port8250 \<Rightarrow> 'd \<Rightarrow> u32 \<Rightarrow>
    (port8250 \<times> u64 \<times> 'd) res option" where
  "uart_wait_until_sent b ke sl jiffies up d tmo =
     (if ptype up = PORT_UNKNOWN \<or> fifosize up = 0 then Some (Inr (up, jiffies, d))
      else
        let interval = char_time ke up tmo;
            tmo = (if tmo = 0 \<or> 2 * timeout up < tmo then 2 * timeout up else tmo);
            expire = jiffies + scast tmo
        in wait_loop b (sl interval) expire 0 up jiffies d)"

section \<open>Opening and closing\<close>

text \<open>
  What opening depends on: whether the lock is got, whether the line has a port and it is not being
  removed, whether the file was hung up, and \<open>tty_port_block_til_ready\<close>.
\<close>

record 'd open_env =
  oe_lock :: bool
  oe_port :: bool
  oe_dead :: bool
  oe_hung_up :: bool
  oe_low_latency :: bool
  oe_block :: "ttyline \<Rightarrow> 'd \<Rightarrow> (int \<times> ttyline \<times> 'd) res"

definition uart_open :: "kernel \<Rightarrow> 'd bus \<Rightarrow> 'd bus \<Rightarrow> nat \<Rightarrow> nat \<Rightarrow> 'd open_env \<Rightarrow> ttyline \<Rightarrow> irq_state \<Rightarrow> 'd \<Rightarrow> ktermios \<Rightarrow>
    (int \<times> ttyline \<times> irq_state \<times> ktermios \<times> 'd) res" where
  "uart_open ke b io icp pno oe l ic d t =
     (if \<not> oe_lock oe then Inr (- 512, l, ic, t, d)
      else
        let l = l\<lparr>tl_count := tl_count l + 1\<rparr> in
        if \<not> oe_port oe \<or> oe_dead oe then Inr (- 6, l\<lparr>tl_count := tl_count l - 1\<rparr>, ic, t, d)
        else
          let l = l\<lparr>tl_driver_data := True, tl_low_latency := oe_low_latency oe, tl_tty := True\<rparr> in
          if oe_hung_up oe then Inr (- 11, l\<lparr>tl_count := tl_count l - 1\<rparr>, ic, t, d)
          else
            rbind (if tl_count l = 1 then uart_change_pm b l d 0 else Inr (l, d)) (\<lambda>(l, d).
            rbind (uart_startup ke b io icp pno (tl_up l) ic d t False) (\<lambda>(retval, up, ic, t, d).
            let l = l\<lparr>tl_up := up\<rparr>
            in if retval = 0 then rbind (oe_block oe l d) (\<lambda>(retval, l, d). Inr (retval, l, ic, t, d))
               else Inr (retval, l, ic, t, d))))"

text \<open>\<open>close_start\<close> is \<open>tty_port_close_start\<close>, \<open>console\<close> whether the port is the console's.\<close>

definition uart_close_end :: "'d bus \<Rightarrow> 'd bus \<Rightarrow> nat \<Rightarrow> nat \<Rightarrow> bool \<Rightarrow> ttyline \<Rightarrow> irq_state \<Rightarrow> 'd \<Rightarrow> ktermios \<Rightarrow>
    (ttyline \<times> irq_state \<times> 'd) res" where
  "uart_close_end b io icp pno console l ic d t =
     rbind (uart_shutdown b io icp pno (tl_up l) ic d t) (\<lambda>(up, ic, d).
     let l = l\<lparr>tl_up := uart_flush_buffer up, tl_tty := False\<rparr>
     in rbind (if \<not> tl_blocked l \<and> \<not> console then uart_change_pm b l d 3 else Inr (l, d)) (\<lambda>(l, d).
        Inr (l\<lparr>tl_active := False, tl_closing := False\<rparr>, ic, d)))"

definition uart_close :: "kernel \<Rightarrow> 'd bus \<Rightarrow> 'd bus \<Rightarrow> nat \<Rightarrow> nat \<Rightarrow> (ttyline \<Rightarrow> bool \<times> ttyline) \<Rightarrow> 'd sleeps \<Rightarrow> u64 \<Rightarrow> bool \<Rightarrow>
    ttyline \<Rightarrow> irq_state \<Rightarrow> 'd \<Rightarrow> ktermios \<Rightarrow> (ttyline \<times> irq_state \<times> 'd) res option" where
  "uart_close ke b io icp pno close_start sl jiffies console l ic d t =
     (if \<not> tl_driver_data l then Some (Inr (l, ic, d))
      else
        case close_start l of (go, l) \<Rightarrow>
        if \<not> go then Some (Inr (l, ic, d))
        else if initialized (tl_up l) then
          (case serial8250_stop_rx b (tl_up l) d of
             Inl e \<Rightarrow> Some (Inl e)
           | Inr (up, d) \<Rightarrow>
               (case uart_wait_until_sent b ke sl jiffies up d (timeout up) of
                  None \<Rightarrow> None
                | Some (Inl e) \<Rightarrow> Some (Inl e)
                | Some (Inr (up, _, d)) \<Rightarrow> Some (uart_close_end b io icp pno console (l\<lparr>tl_up := up\<rparr>) ic d t)))
        else Some (uart_close_end b io icp pno console l ic d t))"

definition uart_hangup :: "'d bus \<Rightarrow> 'd bus \<Rightarrow> nat \<Rightarrow> nat \<Rightarrow> ttyline \<Rightarrow> irq_state \<Rightarrow> 'd \<Rightarrow> ktermios \<Rightarrow>
    (ttyline \<times> irq_state \<times> 'd) res" where
  "uart_hangup b io icp pno l ic d t =
     (if tl_active l then
        rbind (uart_shutdown b io icp pno (uart_flush_buffer (tl_up l)) ic d t) (\<lambda>(up, ic, d).
        Inr (l\<lparr>tl_up := up, tl_count := 0, tl_active := False, tl_tty := False\<rparr>, ic, d))
      else Inr (l, ic, d))"

section \<open>Suspending and resuming\<close>

text \<open>At most three sleeps of ten milliseconds; \<open>pass\<close> says what the device does in the one with so many left.\<close>

fun drain_loop :: "'d bus \<Rightarrow> (nat \<Rightarrow> 'd \<Rightarrow> 'd) \<Rightarrow> nat \<Rightarrow> port8250 \<Rightarrow> 'd \<Rightarrow> (bool \<times> port8250 \<times> 'd) res" where
  "drain_loop b pass 0 up d = rbind (serial8250_tx_empty b up d) (\<lambda>(_, up, d). Inr (False, up, d))"
| "drain_loop b pass (Suc n) up d =
     rbind (serial8250_tx_empty b up d) (\<lambda>(drained, up, d).
     if drained then Inr (True, up, d) else drain_loop b pass n up (pass n d))"

text \<open>
  \<open>se_wake\<close>: the device may wake the system up, and whether its interrupt can be armed for it;
  \<open>se_console_suspend\<close>: consoles are suspended, too; \<open>se_console\<close>: the port is the console's.
\<close>

record suspend_env =
  se_may_wakeup :: bool
  se_wake_ok :: bool
  se_console_suspend :: bool
  se_console :: bool

definition suspend_line :: "'d bus \<Rightarrow> ttyline \<Rightarrow> 'd \<Rightarrow> (ttyline \<times> 'd) res" where
  "suspend_line b l d =
     rbind (serial8250_stop_tx b ((tl_up l)\<lparr>suspended := True, initialized := False\<rparr>) d) (\<lambda>(up, d).
     rbind (serial8250_set_mctrl b up d mctrl_zero) (\<lambda>d.
     rbind (serial8250_stop_rx b up d) (\<lambda>(up, d). Inr (l\<lparr>tl_up := up\<rparr>, d))))"

definition uart_suspend_port :: "'d bus \<Rightarrow> 'd bus \<Rightarrow> nat \<Rightarrow> nat \<Rightarrow> suspend_env \<Rightarrow> (nat \<Rightarrow> 'd \<Rightarrow> 'd) \<Rightarrow>
    ttyline \<Rightarrow> irq_state \<Rightarrow> 'd \<Rightarrow> (ttyline \<times> irq_state \<times> 'd) res" where
  "uart_suspend_port b io icp pno se pass l ic d =
     (if se_may_wakeup se then Inr (if se_wake_ok se then l\<lparr>tl_irq_wake := True\<rparr> else l, ic, d)
      else
        let stop = (se_console_suspend se \<or> \<not> se_console se);
            l = (if stop then l\<lparr>tl_susp := True\<rparr> else l)
        in rbind (if initialized (tl_up l) then
                    rbind (if stop then suspend_line b l d else Inr (l, d)) (\<lambda>(l, d).
                    rbind (drain_loop b pass 3 (tl_up l) d) (\<lambda>(_, up, d).
                    rbind (if stop then serial8250_shutdown b io icp pno up ic d else Inr (up, ic, d)) (\<lambda>(up, ic, d).
                    Inr (l\<lparr>tl_up := up\<rparr>, ic, d))))
                  else Inr (l, ic, d)) (\<lambda>(l, ic, d).
           rbind (if stop then uart_change_pm b l d 3 else Inr (l, d)) (\<lambda>(l, d). Inr (l, ic, d))))"

text \<open>
  The console's line: its own flags, or the termios of the tty when there are none; \<open>t\<close> is that of the
  tty if there is one. \<open>blank\<close> is a termios of zeros.
\<close>

definition zero_cflags :: cflags where
  "zero_cflags = \<lparr>cf_size = CS5, cf_stopb = False, cf_parenb = False, cf_parodd = False, cf_cmspar = False,
     cf_crtscts = False, cf_clocal = False, cf_cread = False, cf_hupcl = False, cf_baud = None\<rparr>"

definition blank :: ktermios where
  "blank = \<lparr>c_cflag = zero_cflags, c_iflag = \<lparr>if_inpck = False, if_brkint = False, if_parmrk = False, if_ignpar = False,
     if_ignbrk = False, if_ixoff = False\<rparr>, c_start = 0, c_stop = 0\<rparr>"

definition resume_console :: "kernel \<Rightarrow> 'd bus \<Rightarrow> suspend_env \<Rightarrow> ttyline \<Rightarrow> 'd \<Rightarrow> ktermios option \<Rightarrow> (ttyline \<times> 'd) res" where
  "resume_console ke b se l d t =
     (let termios = (case cons_cflag (tl_up l) of
                       Some c \<Rightarrow> blank\<lparr>c_cflag := c\<rparr>
                     | None \<Rightarrow> (case t of None \<Rightarrow> blank | Some t \<Rightarrow> t))
      in rbind (if se_console_suspend se then uart_change_pm b l d 0 else Inr (l, d)) (\<lambda>(l, d).
         rbind (serial8250_do_set_termios ke b (tl_up l) d termios None) (\<lambda>(up, _, d).
         Inr (l\<lparr>tl_up := up\<rparr>, d))))"

text \<open>A line that was open: the chip is started, set up and made to transmit; if it does not start, the line is shut down.\<close>

definition resume_line :: "kernel \<Rightarrow> 'd bus \<Rightarrow> 'd bus \<Rightarrow> nat \<Rightarrow> nat \<Rightarrow> port8250 \<Rightarrow> irq_state \<Rightarrow> 'd \<Rightarrow> ktermios option \<Rightarrow>
    (port8250 \<times> irq_state \<times> ktermios option \<times> 'd) res" where
  "resume_line ke b io icp pno up ic d t =
     rbind (serial8250_startup ke b io icp pno up ic d) (\<lambda>(ret, up, ic, d).
     if ret = 0 then
       rbind (case t of
                None \<Rightarrow> Inr (up, None, d)
              | Some t \<Rightarrow> rbind (uart_change_speed ke b up d t None) (\<lambda>(up, t, d). Inr (up, Some t, d))) (\<lambda>(up, t, d).
       rbind (serial8250_set_mctrl b up d (port_mctrl up)) (\<lambda>d.
       rbind (serial8250_start_tx b up d) (\<lambda>(up, d).
       Inr (up\<lparr>initialized := True\<rparr>, ic, t, d))))
     else
       (case t of
          None \<Rightarrow> Inr (up\<lparr>suspended := False, xmit := (xmit up)\<lparr>cb_buf := None\<rparr>\<rparr>, ic, t, d)
        | Some tt \<Rightarrow> rbind (uart_shutdown b io icp pno up ic d tt) (\<lambda>(up, ic, d). Inr (up, ic, t, d))))"

definition uart_resume_port :: "kernel \<Rightarrow> 'd bus \<Rightarrow> 'd bus \<Rightarrow> nat \<Rightarrow> nat \<Rightarrow> suspend_env \<Rightarrow> ttyline \<Rightarrow> irq_state \<Rightarrow> 'd \<Rightarrow>
    ktermios option \<Rightarrow> (ttyline \<times> irq_state \<times> ktermios option \<times> 'd) res" where
  "uart_resume_port ke b io icp pno se l ic d t =
     (if \<not> tl_susp l \<and> se_may_wakeup se then Inr (l\<lparr>tl_irq_wake := False\<rparr>, ic, t, d)
      else
        rbind (if se_console se then resume_console ke b se (l\<lparr>tl_susp := False\<rparr>) d t else Inr (l\<lparr>tl_susp := False\<rparr>, d)) (\<lambda>(l, d).
        if suspended (tl_up l) then
          rbind (uart_change_pm b l d 0) (\<lambda>(l, d).
          rbind (serial8250_set_mctrl b (tl_up l) d mctrl_zero) (\<lambda>d.
          rbind (if se_console_suspend se \<or> \<not> se_console se then resume_line ke b io icp pno (tl_up l) ic d t
                 else Inr (tl_up l, ic, t, d)) (\<lambda>(up, ic, t, d).
          Inr (l\<lparr>tl_up := up\<lparr>suspended := False\<rparr>\<rparr>, ic, t, d))))
        else Inr (l, ic, t, d)))"

text \<open>\<open>serial8250_suspend_port\<close> is \<open>uart_suspend_port\<close>; resuming puts a National Semiconductor chip back into its mode.\<close>

definition resume_natsemi :: "'d bus \<Rightarrow> port8250 \<Rightarrow> 'd \<Rightarrow> 'd pd res" where
  "resume_natsemi b up d =
     (if capabilities up AND UART_NATSEMI \<noteq> 0 then
        rbind (bus_write b d R_LCR 0xE0) (\<lambda>d.
        rbind (ns16550a_goto_highspeed b d) (\<lambda>(_, d).
        rbind (bus_write b d R_LCR 0) (\<lambda>d. Inr (up\<lparr>uartclk := 921600 * 16\<rparr>, d))))
      else Inr (up, d))"

definition serial8250_resume_port :: "kernel \<Rightarrow> 'd bus \<Rightarrow> 'd bus \<Rightarrow> nat \<Rightarrow> nat \<Rightarrow> suspend_env \<Rightarrow> ttyline \<Rightarrow> irq_state \<Rightarrow> 'd \<Rightarrow>
    ktermios option \<Rightarrow> (ttyline \<times> irq_state \<times> ktermios option \<times> 'd) res" where
  "serial8250_resume_port ke b io icp pno se l ic d t =
     rbind (resume_natsemi b (tl_up l) d) (\<lambda>(up, d).
     uart_resume_port ke b io icp pno se (l\<lparr>tl_up := up\<rparr>) ic d t)"

section \<open>Counters\<close>

record uart_icount =
  ico_cts :: u32
  ico_dsr :: u32
  ico_rng :: u32
  ico_dcd :: u32
  ico_rx :: u32
  ico_tx :: u32
  ico_frame :: u32
  ico_overrun :: u32
  ico_parity :: u32
  ico_brk :: u32

definition uart_get_icount :: "port8250 \<Rightarrow> uart_icount" where
  "uart_get_icount up =
     \<lparr>ico_cts = ic_cts up, ico_dsr = ic_dsr up, ico_rng = ic_rng up, ico_dcd = ic_dcd up, ico_rx = ic_rx up, ico_tx = ic_tx up,
      ico_frame = ic_frame up, ico_overrun = ic_overrun up, ico_parity = ic_parity up, ico_brk = ic_brk up\<rparr>"

text \<open>
  Waiting for a change of a modem input in \<open>inputs\<close>: \<open>evs\<close> are the counters that each look finds, with whether a
  signal is pending after the sleep that follows it; \<open>None\<close> when the sequence ends before the code returns.
\<close>

definition line_changed :: "mctrl \<Rightarrow> uart_icount \<Rightarrow> uart_icount \<Rightarrow> bool" where
  "line_changed inputs now prev \<longleftrightarrow>
     m_rng inputs \<and> ico_rng now \<noteq> ico_rng prev \<or> m_dsr inputs \<and> ico_dsr now \<noteq> ico_dsr prev \<or>
     m_car inputs \<and> ico_dcd now \<noteq> ico_dcd prev \<or> m_cts inputs \<and> ico_cts now \<noteq> ico_cts prev"

fun wait_modem_loop :: "mctrl \<Rightarrow> uart_icount \<Rightarrow> (uart_icount \<times> bool) list \<Rightarrow> int option" where
  "wait_modem_loop inputs prev [] = None"
| "wait_modem_loop inputs prev ((now, signal) # evs) =
     (if line_changed inputs now prev then Some 0
      else if signal then Some (- 512)
      else wait_modem_loop inputs now evs)"

definition uart_wait_modem_status :: "'d bus \<Rightarrow> port8250 \<Rightarrow> 'd \<Rightarrow> mctrl \<Rightarrow> (uart_icount \<times> bool) list \<Rightarrow>
    (int option \<times> port8250 \<times> 'd) res" where
  "uart_wait_modem_status b up d inputs evs =
     rbind (serial8250_enable_ms b up d) (\<lambda>(up', d). Inr (wait_modem_loop inputs (uart_get_icount up) evs, up', d))"

end
