(* ===== verification/Linux_Tty_Props.thy ===== *)
theory Linux_Tty_Props
  imports Linux_Tty Linux_8250_Open
begin

unbundle bit_operations_syntax

text \<open>
  The life of a tty: waiting for the transmitter ends, on any device; on QEMU's UART, shutting a line down leaves a silent chip, and
  a line that is suspended and resumed goes on where it stopped.
\<close>

section \<open>Registers of a quiet line\<close>

text \<open>The registers and the state of the line in one, with a rule for each access.\<close>

definition resting :: "u8 \<Rightarrow> u8 \<Rightarrow> u8 \<Rightarrow> u8 \<Rightarrow> u16 \<Rightarrow> bool \<Rightarrow> int \<Rightarrow> uart_dev \<Rightarrow> bool" where
  "resting L M I F D q base d \<longleftrightarrow> (\<exists>H. regs L M I F D H d) \<and> calm q base d"

lemma both_bind:
  assumes "returns Q m" and "returns R m" and "\<And>x. Q x \<Longrightarrow> R x \<Longrightarrow> returns P (f x)"
  shows "returns P (rbind m f)"
  by (rule returns_bind [OF returns_both [OF assms(1,2)]]) (auto intro: assms(3))

named_theorems rest \<open>the effect of one register access on \<open>resting\<close>\<close>

lemma rest_ier [rest]:
  assumes "resting L M I F D q base d" and "L AND 0x80 = 0" and "\<And>d. resting L M (v AND 0x0f) F D q base d \<Longrightarrow> returns P (f d)"
  shows "returns P (rbind (bus_write uart_bus d 1 v) f)"
proof -
  obtain H where r: "regs L M I F D H d" and c: "calm q base d" using assms(1) by (auto simp: resting_def)
  have "returns (regs L M (v AND 0x0f) F D H) (rbind (bus_write uart_bus d 1 v) Inr)"
    by (rule write_1 [OF r, where w = "v AND 0x0f" and E = D]) (simp_all add: assms(2))
  moreover have "returns (calm q base) (rbind (bus_write uart_bus d 1 v) Inr)" by (rule calm_write [OF c]) auto
  ultimately show ?thesis
    unfolding rbind_Inr_right by (rule both_bind) (rule assms(3), auto simp: resting_def)
qed

lemma rest_lcr [rest]:
  assumes "resting L M I F D q base d" and "\<And>d. resting v M I F D True base d \<Longrightarrow> returns P (f d)"
  shows "returns P (rbind (bus_write uart_bus d 3 v) f)"
proof -
  obtain H where r: "regs L M I F D H d" and c: "calm q base d" using assms(1) by (auto simp: resting_def)
  have "returns (regs v M I F D H) (rbind (bus_write uart_bus d 3 v) Inr)" by (rule write_lcr [OF r]) simp
  moreover have "returns (calm True base) (rbind (bus_write uart_bus d 3 v) Inr)" by (rule calm_write [OF c]) auto
  ultimately show ?thesis
    unfolding rbind_Inr_right by (rule both_bind) (rule assms(2), auto simp: resting_def)
qed

lemma rest_mcr [rest]:
  assumes "resting L M I F D q base d" and "v AND 0x10 = 0" and "\<And>d. resting L (v AND 0x1f) I F D q base d \<Longrightarrow> returns P (f d)"
  shows "returns P (rbind (bus_write uart_bus d 4 v) f)"
proof -
  obtain H where r: "regs L M I F D H d" and c: "calm q base d" using assms(1) by (auto simp: resting_def)
  have "returns (regs L (v AND 0x1f) I F D H) (rbind (bus_write uart_bus d 4 v) Inr)" by (rule write_mcr [OF r refl]) simp
  moreover have "returns (calm q base) (rbind (bus_write uart_bus d 4 v) Inr)" by (rule calm_write [OF c]) (auto simp: assms(2))
  ultimately show ?thesis
    unfolding rbind_Inr_right by (rule both_bind) (rule assms(3), auto simp: resting_def)
qed

lemma rest_read [rest]:
  assumes "resting L M I F D q base d" and "a = 3 \<or> a = 5 \<or> a = 0 \<and> L AND 0x80 = 0"
    and "\<And>v d. resting L M I F D q base d \<Longrightarrow> a = 3 \<longrightarrow> v = L \<Longrightarrow> returns P (f (v, d))"
  shows "returns P (rbind (bus_read uart_bus d a) f)"
proof -
  obtain H where r: "regs L M I F D H d" and c: "calm q base d" using assms(1) by (auto simp: resting_def)
  have "returns (\<lambda>(v, d). regs L M I F D H d \<and> (a = 3 \<longrightarrow> v = L)) (rbind (bus_read uart_bus d a) Inr)"
    using assms(2) by (elim disjE conjE) (simp_all only:, rule read_lcr [OF r], simp, rule read_lsr [OF r], simp, rule read_0 [OF r], simp)
  moreover have "returns (\<lambda>(v, d). calm q base d) (rbind (bus_read uart_bus d a) Inr)"
    by (rule calm_read [OF c]) (use assms(2) in auto)
  ultimately show ?thesis
    unfolding rbind_Inr_right by (rule both_bind) (clarify, rule assms(3), auto simp: resting_def)
qed

lemma rest_fifos [rest]:
  assumes "resting L M I F D q base d" and "capabilities up AND UART_CAP_FIFO \<noteq> 0"
    and "\<And>d. resting L M I 0 D q base d \<Longrightarrow> returns P (f d)"
  shows "returns P (rbind (serial8250_clear_fifos uart_bus up d) f)"
proof -
  obtain H where r: "regs L M I F D H d" and c: "calm q base d" using assms(1) by (auto simp: resting_def)
  have "returns (\<lambda>d. \<exists>H. regs L M I 0 D H d) (rbind (serial8250_clear_fifos uart_bus up d) Inr)"
    by (rule clear_fifos_regs [OF r assms(2)]) auto
  moreover have "returns (calm q base) (rbind (serial8250_clear_fifos uart_bus up d) Inr)" by (rule clear_fifos_calm [OF c]) simp
  ultimately show ?thesis
    unfolding rbind_Inr_right by (rule both_bind) (rule assms(3), auto simp: resting_def)
qed

section \<open>Stopping the chip\<close>

text \<open>What \<open>serial8250_shutdown\<close> leaves of a port, and of the chip: no interrupt enabled and the FIFOs off.\<close>

definition shut :: "port8250 \<Rightarrow> port8250" where
  "shut up = up\<lparr>ier8 := 0, port_mctrl := (port_mctrl up)\<lparr>m_out2 := False\<rparr>, port_timer := None, timer_backup := False\<rparr>"

lemma shutdown_rests:
  assumes "resting L M I F D q base d" and "L AND 0x80 = 0" and up: "\<not> upf_fourport up" "port_irq_no up \<noteq> 0"
    "capabilities up AND UART_CAP_FIFO \<noteq> 0" "mcr_force up AND 0x10 = 0" "mcr8 up AND 0x10 = 0" "\<not> m_loop (port_mctrl up)"
    and link: "serial_unlink_irq_chain (port_irq_no up) pno ic = Inr ic'"
    and f: "\<And>M d. resting (L AND NOT 0x40) M 0 0 D True base d \<Longrightarrow> P (shut up, ic', d)"
  shows "returns P (serial8250_shutdown uart_bus io icp pno up ic d)"
proof -
  let ?u = "up\<lparr>ier8 := 0, port_mctrl := (port_mctrl up)\<lparr>m_out2 := False\<rparr>\<rparr>"
  have m: "mctrl_byte ?u (port_mctrl ?u) AND 0x10 = 0" by (rule mctrl_byte_noloop) (use up in simp_all)
  have l: "(L AND NOT 0x40) AND 0x80 = 0" using assms(2) by (metis and.assoc and.commute and_zero_eq)
  have g: "P (up\<lparr>ier8 := 0, port_mctrl := (port_mctrl up)\<lparr>m_out2 := False\<rparr>, port_timer := None, timer_backup := False\<rparr>, ic', d)"
    if "resting (L AND - 65) M 0 0 D True base d" for M d
    using f [of M d] that by (simp add: shut_def)
  show ?thesis
    unfolding serial8250_shutdown_def set_mctrl_eq
    apply (rule rest_ier [OF assms(1,2)])
    apply (simp add: up(1) up(2) [THEN neq0_conv [THEN iffD1]] Let_def link del: One_nat_def)
    apply (rule rest_mcr, assumption, use m in simp)
    apply (rule rest_read, assumption, simp)
    apply (simp del: One_nat_def)
    apply (rule rest_lcr, assumption)
    apply (rule rest_fifos, assumption, simp add: up(3))
    apply (rule rest_read, assumption, use l in simp)
    apply (simp add: up(2) link)
    apply (erule g)
    done
qed

section \<open>Suspending\<close>

text \<open>While the code sleeps the device receives nothing and its registers stay as they are; it may transmit.\<close>

definition quiet_pass :: "(nat \<Rightarrow> uart_dev \<Rightarrow> uart_dev) \<Rightarrow> bool" where
  "quiet_pass pass \<longleftrightarrow> (\<forall>n d L M I F D q base. resting L M I F D q base d \<longrightarrow> resting L M I F D q base (pass n d))"

lemma tx_empty_rests:
  assumes "resting L M I F D q base d"
  shows "returns (\<lambda>(r, v, d). resting L M I F D q base d \<and> (\<exists>x. v = up\<lparr>lsr_saved_flags := x\<rparr>)) (serial8250_tx_empty uart_bus up d)"
  unfolding serial8250_tx_empty_def
proof (rule rest_read [OF assms])
  fix v :: u8 and d
  assume "resting L M I F D q base d"
  then show "returns (\<lambda>(r, v, d). resting L M I F D q base d \<and> (\<exists>x. v = up\<lparr>lsr_saved_flags := x\<rparr>))
      ((\<lambda>(lsr, d). Inr (lsr AND 0x60 = 0x60, up\<lparr>lsr_saved_flags := lsr_saved_flags up OR (lsr AND 0x1E)\<rparr>, d)) (v, d))"
    by (simp only: prod.case returns_Inr) blast
qed simp

lemma drain_rests:
  assumes "quiet_pass pass" and "resting L M I F D q base d"
  shows "returns (\<lambda>(r, v, d). resting L M I F D q base d \<and> (\<exists>x. v = up\<lparr>lsr_saved_flags := x\<rparr>)) (drain_loop uart_bus pass n up d)"
  using assms(2)
proof (induction n arbitrary: up d)
  case 0
  show ?case by (auto intro!: returns_bind [OF tx_empty_rests [OF 0]])
next
  case (Suc n)
  let ?R = "\<lambda>(r, v, d). resting L M I F D q base d \<and> (\<exists>x. v = up\<lparr>lsr_saved_flags := x\<rparr>)"
  have next_look: "returns ?R (drain_loop uart_bus pass n (up\<lparr>lsr_saved_flags := x\<rparr>) (pass n d'))" if "resting L M I F D q base d'" for x d'
  proof -
    have "resting L M I F D q base (pass n d')" using assms(1) that unfolding quiet_pass_def by blast
    from Suc.IH [OF this, of "up\<lparr>lsr_saved_flags := x\<rparr>"] show ?thesis by simp
  qed
  show ?case by (auto intro!: returns_bind [OF tx_empty_rests [OF Suc.prems]] next_look)
qed

definition halted :: "port8250 \<Rightarrow> u8 \<Rightarrow> port8250" where
  "halted up x = shut (up\<lparr>suspended := True, initialized := False, read_status_mask := read_status_mask up AND NOT 0x01, lsr_saved_flags := x\<rparr>)"

lemma halted_eq:
  "shut (up\<lparr>suspended := True, initialized := False, ier8 := i, read_status_mask := read_status_mask up AND NOT 0x01, lsr_saved_flags := x\<rparr>) =
     halted up x"
  by (simp add: halted_def shut_def)

lemma zero_lines: "std_port up \<Longrightarrow> mctrl_byte up mctrl_zero AND 0x10 = 0"
  by (rule mctrl_byte_noloop) (simp_all add: std_port_def mctrl_zero_def)

text \<open>The three stops: whatever interrupts were enabled, the port differs in them and in the mask only.\<close>

lemma suspend_line_rests:
  assumes r: "resting L M I F D q base d" and L: "L AND 0x80 = 0" and up: "std_port (tl_up l)"
  shows "returns (\<lambda>(l1, d1). (\<exists>i. l1 = l\<lparr>tl_up := (tl_up l)\<lparr>suspended := True, initialized := False, ier8 := i,
      read_status_mask := read_status_mask (tl_up l) AND NOT 0x01\<rparr>\<rparr>) \<and> (\<exists>M I. resting L M I F D q base d1)) (suspend_line uart_bus l d)"
proof -
  let ?u = "(tl_up l)\<lparr>suspended := True, initialized := False\<rparr>"
  have type: "ptype ?u \<noteq> PORT_16C950" using up by (simp add: std_port_def)
  have stop: "returns (\<lambda>(v, d). (\<exists>i. v = ?u\<lparr>ier8 := i\<rparr>) \<and> (\<exists>I. resting L M I F D q base d)) (serial8250_stop_tx uart_bus ?u d)"
  proof (cases "ier8 ?u AND 0x02 = 0")
    case True
    have "serial8250_stop_tx uart_bus ?u d = Inr (?u\<lparr>ier8 := ier8 ?u\<rparr>, d)"
      using True type by (simp add: serial8250_stop_tx_def stop_tx_ier_def)
    with r show ?thesis by (simp only: returns_Inr prod.case) blast
  next
    case False
    have "serial8250_stop_tx uart_bus ?u d =
        rbind (bus_write uart_bus d 1 (ier8 ?u AND NOT 0x02)) (\<lambda>d. Inr (?u\<lparr>ier8 := ier8 ?u AND NOT 0x02\<rparr>, d))"
      using False type by (simp add: serial8250_stop_tx_def stop_tx_ier_def Let_def rbind_assoc)
    moreover have "returns (\<lambda>(v, d). (\<exists>i. v = ?u\<lparr>ier8 := i\<rparr>) \<and> (\<exists>I. resting L M I F D q base d))
      (rbind (bus_write uart_bus d 1 (ier8 ?u AND NOT 0x02)) (\<lambda>d. Inr (?u\<lparr>ier8 := ier8 ?u AND NOT 0x02\<rparr>, d)))"
      by (rule rest_ier [OF r L]) (simp only: returns_Inr prod.case, blast)
    ultimately show ?thesis by (simp only:)
  qed
  show ?thesis
    unfolding suspend_line_def
  proof (rule returns_bind [OF stop], clarify)
    fix d i I
    assume r: "resting L M I F D q base d"
    let ?v = "?u\<lparr>ier8 := i\<rparr>"
    have z: "mctrl_byte ?v mctrl_zero AND 0x10 = 0" by (rule zero_lines) (use up in \<open>simp add: std_port_def\<close>)
    show "returns (\<lambda>(l1, d1). (\<exists>i. l1 = l\<lparr>tl_up := (tl_up l)\<lparr>suspended := True, initialized := False, ier8 := i,
        read_status_mask := read_status_mask (tl_up l) AND NOT 0x01\<rparr>\<rparr>) \<and> (\<exists>M I. resting L M I F D q base d1))
      (rbind (serial8250_set_mctrl uart_bus ?v d mctrl_zero) (\<lambda>d. rbind (serial8250_stop_rx uart_bus ?v d) (\<lambda>(up, d). Inr (l\<lparr>tl_up := up\<rparr>, d))))"
      unfolding set_mctrl_eq serial8250_stop_rx_def Let_def rbind_assoc
      by (rule rest_mcr [OF r z], rule rest_ier [OF _ L], assumption) auto
  qed
qed

lemma no_sleep: "capabilities up = UART_CAP_FIFO \<Longrightarrow> serial8250_do_pm b up d st = Inr d"
  by (simp add: serial8250_do_pm_def serial8250_set_sleep_def)

lemma change_pm_off: "capabilities (tl_up l) = UART_CAP_FIFO \<Longrightarrow> uart_change_pm b l d n = Inr (l\<lparr>tl_pm := n\<rparr>, d)"
  by (simp add: uart_change_pm_def no_sleep)

lemma suspend_rests:
  assumes r: "resting L M I F D q base d" and L: "L AND 0x80 = 0" and "quiet_pass pass"
    and up: "std_port (tl_up l)" "initialized (tl_up l)" "\<not> upf_fourport (tl_up l)" "port_irq_no (tl_up l) \<noteq> 0"
    and se: "\<not> se_may_wakeup se" "\<not> se_console se"
    and link: "serial_unlink_irq_chain (port_irq_no (tl_up l)) pno ic = Inr ic'"
  shows "returns (\<lambda>(l1, ic1, d1). ic1 = ic' \<and> (\<exists>x. l1 = l\<lparr>tl_susp := True, tl_up := halted (tl_up l) x, tl_pm := 3\<rparr>) \<and>
      (\<exists>M. resting (L AND NOT 0x40) M 0 0 D True base d1)) (uart_suspend_port uart_bus io icp pno se pass l ic d)"
proof -
  let ?P = "\<lambda>(l1, ic1, d1). ic1 = ic' \<and> (\<exists>x. l1 = l\<lparr>tl_susp := True, tl_up := halted (tl_up l) x, tl_pm := 3\<rparr>) \<and>
      (\<exists>M. resting (L AND NOT 0x40) M 0 0 D True base d1)"
  let ?l = "l\<lparr>tl_susp := True\<rparr>"
  have off: "returns (\<lambda>(v, ic1, d1). ic1 = ic' \<and> v = shut u \<and> (\<exists>M. resting (L AND NOT 0x40) M 0 0 D True base d1))
      (serial8250_shutdown uart_bus io icp pno u ic d)"
    if "resting L M I F D q base d" and u: "u = (tl_up l)\<lparr>suspended := True, initialized := False, ier8 := i,
      read_status_mask := read_status_mask (tl_up l) AND NOT 0x01, lsr_saved_flags := x\<rparr>" for M I u i x d
    by (rule shutdown_rests [OF that(1) L]) (use up link in \<open>auto simp: u std_port_def\<close>)
  have drained: "returns ?P (rbind (drain_loop uart_bus pass 3 (tl_up l1) d1) (\<lambda>(_, up, d).
      rbind (serial8250_shutdown uart_bus io icp pno up ic d) (\<lambda>(up, ic, d). rbind (uart_change_pm uart_bus (l1\<lparr>tl_up := up\<rparr>) d 3) (\<lambda>(l, d). Inr (l, ic, d)))))"
    if l1: "l1 = ?l\<lparr>tl_up := (tl_up ?l)\<lparr>suspended := True, initialized := False, ier8 := i,
      read_status_mask := read_status_mask (tl_up ?l) AND NOT 0x01\<rparr>\<rparr>" and "resting L M I F D q base d1" for l1 i M I d1
  proof (rule returns_bind [OF drain_rests [OF assms(3) that(2)]], clarify)
    fix a d x
    assume "resting L M I F D q base d"
    moreover have v: "(tl_up l1)\<lparr>lsr_saved_flags := x\<rparr> = (tl_up l)\<lparr>suspended := True, initialized := False, ier8 := i,
        read_status_mask := read_status_mask (tl_up l) AND NOT 0x01, lsr_saved_flags := x\<rparr>" by (simp add: l1)
    ultimately have "returns (\<lambda>(v, ic1, d1). ic1 = ic' \<and> v = shut ((tl_up l1)\<lparr>lsr_saved_flags := x\<rparr>) \<and>
        (\<exists>M. resting (L AND NOT 0x40) M 0 0 D True base d1)) (serial8250_shutdown uart_bus io icp pno ((tl_up l1)\<lparr>lsr_saved_flags := x\<rparr>) ic d)"
      by (rule off)
    moreover have "shut ((tl_up l1)\<lparr>lsr_saved_flags := x\<rparr>) = halted (tl_up l) x" unfolding v by (rule halted_eq)
    ultimately have "returns (\<lambda>(v, ic1, d1). ic1 = ic' \<and> v = halted (tl_up l) x \<and> (\<exists>M. resting (L AND NOT 0x40) M 0 0 D True base d1))
        (serial8250_shutdown uart_bus io icp pno ((tl_up l1)\<lparr>lsr_saved_flags := x\<rparr>) ic d)" by simp
    then show "returns ?P (rbind (serial8250_shutdown uart_bus io icp pno ((tl_up l1)\<lparr>lsr_saved_flags := x\<rparr>) ic d)
        (\<lambda>(up, ic, d). rbind (uart_change_pm uart_bus (l1\<lparr>tl_up := up\<rparr>) d 3) (\<lambda>(l, d). Inr (l, ic, d))))"
      by (rule returns_bind) (use up(1) in \<open>auto simp: l1 change_pm_off halted_def shut_def std_port_def\<close>)
  qed
  have "returns ?P (rbind (suspend_line uart_bus ?l d) (\<lambda>(l, d). rbind (drain_loop uart_bus pass 3 (tl_up l) d) (\<lambda>(_, up, d).
      rbind (serial8250_shutdown uart_bus io icp pno up ic d) (\<lambda>(up, ic, d). rbind (uart_change_pm uart_bus (l\<lparr>tl_up := up\<rparr>) d 3) (\<lambda>(l, d). Inr (l, ic, d))))))"
    by (rule returns_bind [OF suspend_line_rests [OF r L]]) (use up(1) drained in auto)
  then show ?thesis
    using se up(2) by (simp add: uart_suspend_port_def Let_def rbind_assoc split_def)
qed

section \<open>Resuming\<close>

text \<open>A port with bytes to transmit, all settings at rest.\<close>

definition sendable :: "port8250 \<Rightarrow> bool" where
  "sendable up \<longleftrightarrow> circ_ok (xmit up) \<and> circ_view (xmit up) \<noteq> [] \<and> x_char up = 0 \<and> \<not> tty_stopped up \<and> \<not> tty_hw_stopped up \<and>
     \<not> upf_hardpps up"

text \<open>What a port that goes on looks like: it transmits what was queued, and the host's line is set.\<close>

definition resumed :: "port8250 \<Rightarrow> u32 \<Rightarrow> cflags \<Rightarrow> port8250 \<times> uart_dev \<Rightarrow> bool" where
  "resumed up r c x \<longleftrightarrow> (case x of (v, es, s) \<Rightarrow> tx_sys v s \<and> tx_on v \<and> xmit v = xmit up \<and> tx_loadsz v = 16 \<and>
     (\<exists>cs. filter (\<lambda>c. \<not> quiet_call c) (chr_log s) = cs @ [host_line r c]))"

lemma start_tx_sendable:
  assumes "sendable up" and "std_port up" and "ier8 up = 0x05" and "bugs up = 0" and "resting L M 0x05 F D True base (es, s)" and "L AND 0x80 = 0"
  shows "\<exists>v es' t. serial8250_start_tx uart_bus up (es, s) = Inr (v, (es', t)) \<and> tx_sys v t \<and> tx_on v \<and> xmit v = xmit up \<and>
    tx_loadsz v = tx_loadsz up \<and> chr_log t = chr_log s"
proof -
  have q: "circ_ok (xmit up)" "circ_view (xmit up) \<noteq> []" "cb_buf (xmit up) \<noteq> None" "circ_cnt (xmit up) \<noteq> 0"
    using assms(1) circ_view_nil [of "xmit up"] by (auto simp: sendable_def circ_ok_def)
  then have "uart_start uart_bus up (es, s) = serial8250_start_tx uart_bus up (es, s)"
    using assms(1) by (simp add: uart_start_def sendable_def)
  moreover have "tx_port up" using assms(1-4) by (simp add: tx_port_def sendable_def std_port_def)
  moreover have "tx_line s" "lsr s AND 0x1F = 0" "\<not> timeout_ipending s" "ier s = ier8 up"
    using assms(3,5,6) by (auto simp: resting_def regs_def regs_of_def calm_def calm_state_def idle_def tx_line_def)
  ultimately show ?thesis using uart_start_uart [of up s es] assms(3) by simp
qed

lemma line_up_rest:
  assumes "local_line t" and "\<not> upf_hardpps up" and "ier8 up = 0x05" and "bugs up = 0" and "capabilities up = UART_CAP_FIFO"
  shows "ier8 (line_up ke t r up) = 0x05" "\<not> upf_hardpps (line_up ke t r up)"
  using assms by (simp_all add: line_up_def termios_ier_def termios_masks_def uart_update_timeout_def uart_enable_ms_def local_line_def Let_def)

lemma resume_line_run:
  assumes r: "resting L M I F D True 115200 d" and L: "L AND 0x80 = 0"
    and up: "fresh_port ke up" "sendable up" "pc_line up t rt" and t: "local_line t"
    and link: "serial_link_irq_chain (k_kzalloc_ok ke) (k_request_irq ke) (port_irq_no up) pno ic = Inr (0, ic')"
  shows "returns (\<lambda>(v, ic1, t1, d). ic1 = ic' \<and> initialized v \<and> t1 \<noteq> None \<and> resumed up rt (c_cflag t) (v, d))
    (resume_line ke uart_bus io icp pno up ic d (Some t))"
proof -
  let ?P = "\<lambda>(v, ic1, t1, d). ic1 = ic' \<and> initialized v \<and> t1 \<noteq> None \<and> resumed up rt (c_cflag t) (v, d)"
  obtain es s where d: "d = (es, s)" by (cases d)
  have s: "ser_good s" "lcr s AND 0x80 = 0" "mcr s AND 0x10 = 0" "idle s" "baudbase s = 115200"
    using r L by (auto simp: d resting_def regs_def regs_of_def calm_def calm_state_def)
  define u where "u = (started up)\<lparr>cts_flow := False, check_cd := False\<rparr>"
  have fields: "std_port u" "pc_line u t rt" "ptype (started up) \<noteq> PORT_UNKNOWN" "ier8 u = 0x05" "bugs u = 0" "capabilities u = UART_CAP_FIFO"
      "sendable u" "xmit u = xmit up" "\<not> upf_hardpps u" "tx_loadsz u = 16"
    using started_std [OF up(1)] up by (simp_all add: u_def std_port_def pc_line_def alt_baud_def sendable_def started_def fresh_port_def)
  obtain q k where b: "uart_get_baud_rate ke u t None (uartclk u div 16 div 0xffff) (uartclk u div 16) = (rt, t)" "rt \<noteq> 0"
      "serial8250_get_divisor u rt = Inr q" and k: "unat rt * k = 115200" "unat (ucast q :: u16) = k"
    by (rule pc_rate [OF fields(2)])
  let ?v = "(line_up ke t rt u)\<lparr>lcr8 := termios_lcr (c_cflag t)\<rparr>"
  have v: "std_port ?v" "sendable ?v" "ier8 ?v = 0x05" "bugs ?v = 0" "xmit ?v = xmit up" "tx_loadsz ?v = 16"
    using fields line_up_rest [OF t fields(9,4,5,6)] by (simp_all add: std_port_def sendable_def line_up_fields)
  have speed: "uart_change_speed ke uart_bus (started up) d t None = serial8250_do_set_termios ke uart_bus u d t None" for d
    using fields(3) t by (simp add: uart_change_speed_def u_def local_line_def)
  let ?R = "\<lambda>(w, t1 :: ktermios, d). w = ?v \<and> (\<exists>M F. resting (termios_lcr (c_cflag t)) M 0x05 F (ucast q) True 115200 d)"
  have set: "returns ?R (serial8250_do_set_termios ke uart_bus u d t None)" if "calm True 115200 d" "regs 0x03 M 0x05 0 D H d" for M D H d
    by (rule set_termios_run [OF fields(1) b(2,1,3) that(2) _ that(1)]) (use line_up_rest [OF t fields(9,4,5,6)] in \<open>auto simp: resting_def\<close>)
  have go: "returns ?P (rbind (serial8250_set_mctrl uart_bus ?v d (port_mctrl ?v)) (\<lambda>d.
      rbind (serial8250_start_tx uart_bus ?v d) (\<lambda>(up, d). Inr (up\<lparr>initialized := True\<rparr>, ic', Some t1, d))))"
    if rest: "resting (termios_lcr (c_cflag t)) M 0x05 F (ucast q) True 115200 d" for M F d t1
    unfolding set_mctrl_eq
  proof (rule rest_mcr [OF rest])
    show "mctrl_byte ?v (port_mctrl ?v) AND 0x10 = 0" by (rule mctrl_byte_noloop) (use v(1) in \<open>simp_all add: std_port_def\<close>)
    fix d
    assume rest: "resting (termios_lcr (c_cflag t)) (mctrl_byte ?v (port_mctrl ?v) AND 0x1f) 0x05 F (ucast q) True 115200 d"
    obtain es s where d: "d = (es, s)" by (cases d)
    obtain w es' s' where w: "serial8250_start_tx uart_bus ?v (es, s) = Inr (w, (es', s'))" "tx_sys w s'" "tx_on w" "xmit w = xmit ?v"
        "tx_loadsz w = tx_loadsz ?v" "chr_log s' = chr_log s"
      using start_tx_sendable [OF v(2,1,3,4) rest [unfolded d] termios_lcr_dlab(2)] by blast
    have "\<exists>cs. filter (\<lambda>c. \<not> quiet_call c) (chr_log s) = cs @ [host_line rt (c_cflag t)]"
      by (rule told_line [OF _ _ k(1)]) (use rest k(2) in \<open>auto simp: d resting_def regs_def regs_of_def\<close>)
    with w v(5,6) show "returns ?P (rbind (serial8250_start_tx uart_bus ?v d) (\<lambda>(up, d). Inr (up\<lparr>initialized := True\<rparr>, ic', Some t1, d)))"
      by (simp add: d resumed_def tx_sys_def tx_port_def tx_on_def)
  qed
  show ?thesis
    unfolding resume_line_def d
  proof (rule returns_bind [OF startup_run [OF s up(1) link]], clarify)
    fix r w icx ess ss
    assume "port_started up ic' 115200 (r, w, icx, ess, ss)"
    then obtain M D H where x: "r = 0" "w = started up" "icx = ic'" "calm True 115200 (ess, ss)" "regs 0x03 M 0x05 0 D H (ess, ss)"
      by (auto simp: port_started_def)
    show "returns ?P (if r = 0 then rbind (case Some t of None \<Rightarrow> Inr (w, None, (ess, ss))
        | Some t \<Rightarrow> rbind (uart_change_speed ke uart_bus w (ess, ss) t None) (\<lambda>(up, t, d). Inr (up, Some t, d))) (\<lambda>(up, t, d).
        rbind (serial8250_set_mctrl uart_bus up d (port_mctrl up)) (\<lambda>d.
        rbind (serial8250_start_tx uart_bus up d) (\<lambda>(up, d). Inr (up\<lparr>initialized := True\<rparr>, icx, t, d))))
      else case Some t of None \<Rightarrow> Inr (w\<lparr>suspended := False, xmit := (xmit w)\<lparr>cb_buf := None\<rparr>\<rparr>, icx, Some t, (ess, ss))
        | Some tt \<Rightarrow> rbind (uart_shutdown uart_bus io icp pno w icx (ess, ss) tt) (\<lambda>(up, ic, d). Inr (up, ic, Some t, d)))"
      unfolding x(1-3) speed option.case if_P [OF refl] rbind_assoc
      by (rule returns_bind [OF set [OF x(4,5)]]) (clarify, simp only: prod.case rbind_Inr rbind_assoc, erule go)
  qed
qed

section \<open>A suspended line\<close>

lemma halted_fields:
  "fresh_port ke (halted up x) = fresh_port ke up" "std_port (halted up x) = std_port up" "sendable (halted up x) = sendable up"
  "pc_line (halted up x) t r = pc_line up t r" "capabilities (halted up x) = capabilities up" "xmit (halted up x) = xmit up"
  "port_irq_no (halted up x) = port_irq_no up" "suspended (halted up x)" "\<not> initialized (halted up x)"
  by (simp_all add: halted_def shut_def fresh_port_def std_port_def sendable_def pc_line_def alt_baud_def)

lemma resume_run:
  assumes r: "resting L M I F D True 115200 d" and L: "L AND 0x80 = 0" and se: "\<not> se_console se"
    and l: "tl_up l = halted up x" "tl_susp l" and up: "std_port up" "fresh_port ke up" "sendable up" "pc_line up t rt" and t: "local_line t"
    and link: "serial_link_irq_chain (k_kzalloc_ok ke) (k_request_irq ke) (port_irq_no up) pno ic = Inr (0, ic')"
  shows "returns (\<lambda>(l2, ic1, t1, d). ic1 = ic' \<and> tl_pm l2 = 0 \<and> initialized (tl_up l2) \<and> \<not> suspended (tl_up l2) \<and>
      resumed up rt (c_cflag t) (tl_up l2, d)) (uart_resume_port ke uart_bus io icp pno se l ic d (Some t))"
proof -
  let ?P = "\<lambda>(l2, ic1, t1, d). ic1 = ic' \<and> tl_pm l2 = 0 \<and> initialized (tl_up l2) \<and> \<not> suspended (tl_up l2) \<and>
      resumed up rt (c_cflag t) (tl_up l2, d)"
  have caps: "capabilities up = UART_CAP_FIFO" using up(1) by (simp add: std_port_def)
  have z: "mctrl_byte (halted up x) mctrl_zero AND 0x10 = 0" by (rule zero_lines) (simp add: halted_fields up(1))
  have flag: "resumed up rt c (v\<lparr>suspended := b\<rparr>, d) = resumed (halted up x) rt c (v, d)" for v b c d
    by (simp add: resumed_def halted_fields tx_sys_def tx_port_def tx_on_def split: prod.split)
  have run: "returns (\<lambda>(v, ic1, t1, d). ic1 = ic' \<and> initialized v \<and> t1 \<noteq> None \<and> resumed (halted up x) rt (c_cflag t) (v, d))
      (resume_line ke uart_bus io icp pno (halted up x) ic d (Some t))" if "resting L M I F D True 115200 d" for M d
    by (rule resume_line_run [OF that L]) (simp_all add: halted_fields up t link)
  have rest: "returns ?P (rbind (serial8250_set_mctrl uart_bus (halted up x) d mctrl_zero) (\<lambda>d.
      rbind (resume_line ke uart_bus io icp pno (halted up x) ic d (Some t)) (\<lambda>(v, ic, t, d).
      Inr (l\<lparr>tl_susp := False, tl_pm := 0, tl_up := v\<lparr>suspended := False\<rparr>\<rparr>, ic, t, d))))"
    unfolding set_mctrl_eq
    by (rule rest_mcr [OF r z], rule returns_bind [OF run], assumption) (auto simp: flag)
  then show ?thesis
    using l se caps by (simp add: uart_resume_port_def halted_fields change_pm_off)
qed

text \<open>
  C15. C15. A line that is suspended and resumed goes on where it stopped. It is open on QEMU's UART, consistent, outside DLAB
  and loopback, with nothing received; the port is a 16550A with an irq and without bugs, has bytes waiting, no
  x_char, its tty not stopped; the termios has CLOCAL, no CRTSCTS (local_line) and a rate of at least 2 that divides
  115200 at a PC's clock, not 38400 with a custom divisor (pc_line); it is no console and may not wake the system up;
  nothing is received while the code sleeps (quiet_pass). \<open>uart_suspend_port\<close> returns with the chip's interrupts and
  FIFOs off, the port off its irq and powered down. If the irq is granted again, \<open>uart_resume_port\<close> puts the port on
  its irq, tells the host's line the rate and format of the termios, and the bytes that waited are handed to the
  character device in order, with nothing else, within n interrupts as soon as n loads of 16 cover them.
\<close>

theorem suspended_line_goes_on:
  assumes "ser_good s" and "lcr s AND 0x80 = 0" and "mcr s AND 0x10 = 0" and "idle s" and "baudbase s = 115200"
    and "fresh_port ke (tl_up l)" and "std_port (tl_up l)" and "initialized (tl_up l)" and "sendable (tl_up l)"
    and "pc_line (tl_up l) t r" and "local_line t"
    and "irq_reach ic" and "pno \<in> set (irq_ports ic (port_irq_no (tl_up l)))" and "k_kzalloc_ok ke" and "k_request_irq ke = 0"
    and "quiet_pass pass" and "\<not> se_may_wakeup se" and "\<not> se_console se"
    and "length (circ_view (xmit (tl_up l))) \<le> n * 16"
  shows "\<exists>l1 ic1 es1 s1 l2 ic2 t2 es2 s2 cs up3 es3 s3.
    uart_suspend_port uart_bus io icp pno se pass l ic (es, s) = Inr (l1, ic1, (es1, s1)) \<and>
    ier s1 = 0 \<and> fcr s1 = 0 \<and> pno \<notin> set (irq_ports ic1 (port_irq_no (tl_up l))) \<and> tl_pm l1 = 3 \<and> suspended (tl_up l1) \<and>
    uart_resume_port ke uart_bus io icp pno se l1 ic1 (es1, s1) (Some t) = Inr (l2, ic2, t2, (es2, s2)) \<and>
    pno \<in> set (irq_ports ic2 (port_irq_no (tl_up l))) \<and> tl_pm l2 = 0 \<and> initialized (tl_up l2) \<and> \<not> suspended (tl_up l2) \<and>
    filter (\<lambda>c. \<not> quiet_call c) (chr_log s2) = cs @ [host_line r (c_cflag t)] \<and>
    service k n (tl_up l2) (es2, s2) = Inr (up3, (es3, s3)) \<and>
    chr_log s3 = chr_log s2 @ map ChrWrite (circ_view (xmit (tl_up l))) \<and> circ_view (xmit up3) = [] \<and> \<not> irq_level s3"
proof -
  let ?irq = "port_irq_no (tl_up l)"
  obtain ic1 where off: "serial_unlink_irq_chain ?irq pno ic = Inr ic1" "irq_ports ic1 = (irq_ports ic)(?irq := remove1 pno (irq_ports ic ?irq))"
    using unlink_ok [OF irq_reach_ok [OF assms(12)] assms(13)] by blast
  have out: "pno \<notin> set (irq_ports ic1 ?irq)"
    using off(2) irq_ports_distinct [OF irq_reach_ok [OF assms(12)], of ?irq] by simp
  obtain ic2 where link: "serial_link_irq_chain (k_kzalloc_ok ke) (k_request_irq ke) ?irq pno ic1 = Inr (0, ic2)" "pno \<in> set (irq_ports ic2 ?irq)"
    by (rule link_reached [OF irq_unlink [OF assms(12,13) off(1)] out assms(14,15)])
  have r: "resting (lcr s) (mcr s) (ier s) (fcr s) (divider s) False 115200 (es, s)"
    using assms(1-5) by (auto simp: resting_def regs_def regs_of_def calm_def calm_state_def)
  have port: "\<not> upf_fourport (tl_up l)" "port_irq_no (tl_up l) \<noteq> 0" using assms(6) by (simp_all add: fresh_port_def)
  obtain l1 x es1 s1 M where 1: "uart_suspend_port uart_bus io icp pno se pass l ic (es, s) = Inr (l1, ic1, (es1, s1))"
      "l1 = l\<lparr>tl_susp := True, tl_up := halted (tl_up l) x, tl_pm := 3\<rparr>" "resting (lcr s AND NOT 0x40) M 0 0 (divider s) True 115200 (es1, s1)"
    using suspend_rests [OF r assms(2,16,7,8) port assms(17,18) off(1), of io icp] by (elim returnsE) auto
  have L: "(lcr s AND NOT 0x40) AND 0x80 = 0" using assms(2) by (metis and.assoc and.commute and_zero_eq)
  have l1: "tl_up l1 = halted (tl_up l) x" "tl_susp l1" by (simp_all add: 1(2))
  obtain l2 t2 es2 s2 where 2: "uart_resume_port ke uart_bus io icp pno se l1 ic1 (es1, s1) (Some t) = Inr (l2, ic2, t2, (es2, s2))"
      "tl_pm l2 = 0" "initialized (tl_up l2)" "\<not> suspended (tl_up l2)" "resumed (tl_up l) r (c_cflag t) (tl_up l2, (es2, s2))"
    using resume_run [OF 1(3) L assms(18) l1 assms(7,6,9,10,11) link(1), of io icp] by (elim returnsE) auto
  then have sys: "tx_sys (tl_up l2) s2" "tx_on (tl_up l2)" "xmit (tl_up l2) = xmit (tl_up l)" "tx_loadsz (tl_up l2) = 16"
      and host: "\<exists>cs. filter (\<lambda>c. \<not> quiet_call c) (chr_log s2) = cs @ [host_line r (c_cflag t)]"
    by (simp_all add: resumed_def)
  have "length (circ_view (xmit (tl_up l2))) \<le> n * max 1 (tx_loadsz (tl_up l2))" using assms(19) sys(3,4) by simp
  then obtain up3 es3 s3 where 3: "service k n (tl_up l2) (es2, s2) = Inr (up3, (es3, s3))" "circ_view (xmit up3) = []" "\<not> irq_level s3"
      "chr_log s3 = chr_log s2 @ map ChrWrite (circ_view (xmit (tl_up l)))"
    using service_drains [OF sys(1,2), of n k es2] sys(3) by auto
  have quiet: "ier s1 = 0" "fcr s1 = 0" using 1(3) by (auto simp: resting_def regs_def regs_of_def)
  have pm: "tl_pm l1 = 3" "suspended (tl_up l1)" by (simp_all add: 1(2) halted_fields)
  from host obtain cs where "filter (\<lambda>c. \<not> quiet_call c) (chr_log s2) = cs @ [host_line r (c_cflag t)]" by blast
  with 1(1) 2(1-4) 3 quiet pm out link(2) show ?thesis by (intro exI conjI)
qed

definition busy_port :: port8250 where
  "busy_port = port0\<lparr>initialized := True, xmit := \<lparr>cb_buf = Some (0x48 # replicate 4095 0), cb_head = 1, cb_tail = 0\<rparr>\<rparr>"

definition busy_line :: ttyline where
  "busy_line = \<lparr>tl_up = busy_port, tl_pm = 0, tl_count = 1, tl_active = True, tl_closing = False, tl_blocked = False, tl_driver_data = True,
     tl_tty = True, tl_low_latency = False, tl_susp = False, tl_irq_wake = False\<rparr>"

lemma busy_sendable: "sendable busy_port" "circ_view (xmit busy_port) = [0x48]"
proof -
  show v: "circ_view (xmit busy_port) = [0x48]" by (simp add: busy_port_def circ_view_def circ_cnt_def ring_view_def)
  have "circ_ok (xmit busy_port)" by (simp add: busy_port_def circ_ok_def)
  then show "sendable busy_port" unfolding sendable_def v by (simp add: busy_port_def port0_def)
qed

theorem suspended_line_goes_on_witness:
  "\<exists>ic l1 ic1 es1 s1 l2 ic2 t2 es2 s2 up3 es3 s3 se.
    uart_suspend_port uart_bus uart_bus 0 1 se (\<lambda>n d. d) busy_line ic ((\<lambda>_. env0), uart0) = Inr (l1, ic1, (es1, s1)) \<and> ier s1 = 0 \<and>
    uart_resume_port kernel0 uart_bus uart_bus 0 1 se l1 ic1 (es1, s1) (Some local_termios) = Inr (l2, ic2, t2, (es2, s2)) \<and>
    service hooks0 1 (tl_up l2) (es2, s2) = Inr (up3, (es3, s3)) \<and> chr_log s3 = chr_log s2 @ [ChrWrite 0x48]"
proof -
  let ?irq = "port_irq_no busy_port"
  have ports: "1 \<notin> set (irq_ports irq_init ?irq)" by (simp add: irq_ports_def irq_init_def nth_replicate)
  have kernel: "k_kzalloc_ok kernel0" "k_request_irq kernel0 = 0" by (simp_all add: kernel0_def)
  obtain ic where ic: "serial_link_irq_chain (k_kzalloc_ok kernel0) (k_request_irq kernel0) ?irq 1 irq_init = Inr (0, ic)"
      "1 \<in> set (irq_ports ic ?irq)"
    by (rule link_reached [OF irq_start ports kernel])
  have reach: "irq_reach ic" by (rule irq_link [OF irq_start ports ic(1)])
  have fresh: "fresh_port kernel0 busy_port" "initialized busy_port"
    by (simp_all add: fresh_port_def busy_port_def port0_def kernel0_def mctrl_zero_def)
  have std: "std_port busy_port" using port0_std by (simp add: std_port_def busy_port_def)
  have c: "c_cflag local_termios = (c_cflag termios0)\<lparr>cf_clocal := True, cf_crtscts := False\<rparr>" by (simp add: local_termios_def)
  have "asked (alt_baud busy_port) local_termios = 9600"
    by (simp add: asked_def alt_baud_def port0_def busy_port_def termios0_def local_termios_def tty_termios_baud_rate_def)
  then have line: "pc_line busy_port local_termios 9600"
    unfolding pc_line_def by (simp add: busy_port_def port0_def word_le_nat_alt)
  have t: "local_line local_termios" by (simp add: local_line_def c)
  have up: "tl_up busy_line = busy_port" by (simp add: busy_line_def)
  have pass: "quiet_pass (\<lambda>n d. d)" by (simp add: quiet_pass_def)
  let ?se = "\<lparr>se_may_wakeup = False, se_wake_ok = False, se_console_suspend = True, se_console = False\<rparr>"
  note g = suspended_line_goes_on [where n = 1 and l = busy_line and s = uart0 and ke = kernel0 and t = local_termios and r = 9600 and ic = ic and pno = 1
      and pass = "\<lambda>n d. d" and se = ?se and es = "\<lambda>_. env0" and io = uart_bus and icp = 0 and k = hooks0, unfolded up]
  show ?thesis
    using g uart0_good uart0_fresh fresh std busy_sendable line t reach ic(2) kernel pass by (fastforce simp: uart0_regs)
qed

section \<open>Waiting\<close>

text \<open>A device whose line status can be read, in the states \<open>Q\<close> that reading and sleeping keep.\<close>

definition readable_lsr :: "'d bus \<Rightarrow> ('d \<Rightarrow> bool) \<Rightarrow> bool" where
  "readable_lsr b Q \<longleftrightarrow> (\<forall>d. Q d \<longrightarrow> (\<exists>v d'. bus_read b d R_LSR = Inr (v, d') \<and> Q d'))"

text \<open>The last look at the device saw an empty transmitter.\<close>

definition seen_empty :: "'d bus \<Rightarrow> 'd \<Rightarrow> bool" where
  "seen_empty b d' \<longleftrightarrow> (\<exists>d v. bus_read b d R_LSR = Inr (v, d') \<and> v AND 0x60 = 0x60)"

lemma tx_empty_looks:
  assumes "readable_lsr b Q" and "Q d"
  obtains e x d' where "serial8250_tx_empty b up d = Inr (e, up\<lparr>lsr_saved_flags := x\<rparr>, d')" and "Q d'" and "e \<longrightarrow> seen_empty b d'"
proof -
  obtain v d' where v: "bus_read b d R_LSR = Inr (v, d')" "Q d'" using assms by (auto simp: readable_lsr_def)
  have "serial8250_tx_empty b up d = Inr (v AND 0x60 = 0x60, up\<lparr>lsr_saved_flags := lsr_saved_flags up OR (v AND 0x1E)\<rparr>, d')"
    by (simp only: serial8250_tx_empty_def v(1) rbind_Inr prod.case)
  then show ?thesis by (rule that) (use v in \<open>auto simp: seen_empty_def\<close>)
qed

lemma time_after_later:
  assumes "a < b" and "b < 2 ^ 62"
  shows "time_after (j + of_nat b) (j + of_nat a)"
proof -
  have d: "(j + of_nat a) - (j + of_nat b) = (word_of_int (- int (b - a)) :: u64)"
    using assms(1) by (simp add: of_nat_diff)
  have n: "sint (word_of_int (- int (b - a)) :: u64) = - int (b - a)"
    unfolding sint_sbintrunc' by (rule signed_take_bit_int_eq_self) (use assms in simp_all)
  show ?thesis unfolding time_after_def d n using assms(1) by simp
qed

lemma scast_jiffies:
  fixes w :: u32
  assumes "unat w < 2 ^ 31"
  shows "(scast w :: u64) = of_nat (unat w)"
proof -
  have "int (unat w) < int (2 ^ 31)" using assms by (simp only: of_nat_less_iff)
  then have "uint w < 2 ^ 31" by simp
  then have "sint w = uint w" unfolding sint_uint by (intro signed_take_bit_int_eq_self) (simp_all add: order_trans [OF _ uint_ge_0])
  then show ?thesis by (simp add: scast_eq)
qed

lemma not_time_after:
  assumes "a \<le> b" and "b < 2 ^ 62"
  shows "\<not> time_after (j + of_nat a) (j + of_nat b)"
proof -
  have d: "(j + of_nat b) - (j + of_nat a) = (word_of_int (int (b - a)) :: u64)"
    using assms(1) by (simp add: of_nat_diff)
  have n: "sint (word_of_int (int (b - a)) :: u64) = int (b - a)"
    unfolding sint_sbintrunc' by (rule signed_take_bit_int_eq_self) (use assms in simp_all)
  show ?thesis unfolding time_after_def d n by simp
qed

text \<open>
  Waiting until time \<open>T\<close>, with sleeps that take from one to \<open>S\<close> jiffies: the last sleep begins at \<open>T\<close> at the latest.
\<close>

lemma wait_loop_ends:
  assumes b: "readable_lsr b Q" and sl: "\<And>n. sl n = (sig n, of_nat (el n), pass n)" and el: "\<And>n. 1 \<le> el n \<and> el n \<le> S"
    and pass: "\<And>n d. Q d \<Longrightarrow> Q (pass n d)" and big: "T + S < 2 ^ 62" and "Q d" and "E \<le> T"
  shows "\<exists>v F d'. wait_loop b sl (j + of_nat T) n up (j + of_nat E) d = Some (Inr (v, j + of_nat F, d')) \<and> F \<le> T + S \<and>
    (T < F \<or> (\<exists>n. sig n) \<or> seen_empty b d') \<and> Q d' \<and> v\<lparr>lsr_saved_flags := 0\<rparr> = up\<lparr>lsr_saved_flags := 0\<rparr>"
  using assms(6,7)
proof (induction "T - E" arbitrary: E n up d rule: less_induct)
  case less
  obtain e x d1 where look: "serial8250_tx_empty b up d = Inr (e, up\<lparr>lsr_saved_flags := x\<rparr>, d1)" "Q d1" "e \<longrightarrow> seen_empty b d1"
    by (rule tx_empty_looks [OF b less.prems(1)])
  let ?v = "up\<lparr>lsr_saved_flags := x\<rparr>" and ?F = "E + el n"
  have flags: "?v\<lparr>lsr_saved_flags := 0\<rparr> = up\<lparr>lsr_saved_flags := 0\<rparr>" by simp
  have now: "j + of_nat E + of_nat (el n) = j + of_nat ?F" by simp
  have F: "?F \<le> T + S" "E < ?F" using el [of n] less.prems(2) by linarith+
  have late: "time_after (j + of_nat ?F) (j + of_nat T) \<longleftrightarrow> T < ?F"
    using time_after_later [of T ?F j] not_time_after [of ?F T j] F(1) big by force
  consider "e" | "\<not> e" "sig n \<or> T < ?F" | "\<not> e" "\<not> sig n" "?F \<le> T" by force
  then show ?case
  proof cases
    case 1
    have "wait_loop b sl (j + of_nat T) n up (j + of_nat E) d = Some (Inr (?v, j + of_nat E, d1))"
      using 1 by (subst wait_loop.simps) (simp add: look(1))
    moreover have "E \<le> T + S" using less.prems(2) by simp
    ultimately show ?thesis using 1 look(2,3) flags by blast
  next
    case 2
    have "wait_loop b sl (j + of_nat T) n up (j + of_nat E) d = Some (Inr (?v, j + of_nat ?F, pass n d1))"
      using 2 by (subst wait_loop.simps) (simp only: look(1) sl Let_def now late sum.case prod.case if_True if_False)
    then show ?thesis using 2 F(1) pass [OF look(2)] flags by blast
  next
    case 3
    have "T - ?F < T - E" using F(2) 3(3) by simp
    from less.hyps [OF this pass [OF look(2)] 3(3), of "Suc n" ?v]
    obtain v G d' where v: "wait_loop b sl (j + of_nat T) (Suc n) ?v (j + of_nat ?F) (pass n d1) = Some (Inr (v, j + of_nat G, d'))"
        "G \<le> T + S" "T < G \<or> (\<exists>n. sig n) \<or> seen_empty b d'" "Q d'" "v\<lparr>lsr_saved_flags := 0\<rparr> = up\<lparr>lsr_saved_flags := 0\<rparr>"
      unfolding flags by blast
    have "wait_loop b sl (j + of_nat T) n up (j + of_nat E) d = Some (Inr (v, j + of_nat G, d'))"
      using 3 v(1) by (subst wait_loop.simps)
        (simp only: look(1) sl Let_def now late sum.case prod.case if_False not_less [symmetric] Suc_eq_plus1 simp_thms)
    then show ?thesis using v(2-5) by blast
  qed
qed

text \<open>The interval between two looks is at most the time to wait for, or one jiffy.\<close>

lemma char_time_le:
  assumes "k_hz ke div 50 \<le> timeout up" and "unat (timeout up) < 2 ^ 30"
    and "unat (if tmo = 0 \<or> 2 * timeout up < tmo then 2 * timeout up else tmo) = T"
  shows "unat (char_time ke up tmo) \<le> max 1 T"
proof -
  define t where "t = (ucast ((timeout up - k_hz ke div 50) div fifosize up) div 5 :: u64)"
  have wide: "unat (ucast w :: u64) = unat w" for w :: u32
    unfolding unsigned_ucast_eq by (rule take_bit_nat_eq_self) (use unsigned_less [of w, where ?'a = nat] in simp)
  have "unat ((timeout up - k_hz ke div 50) div fifosize up) \<le> unat (timeout up - k_hz ke div 50)"
    by (simp add: unat_div)
  also have "\<dots> \<le> unat (timeout up)" using assms(1) by (simp add: unat_sub)
  finally have "unat t \<le> unat (timeout up)"
    by (simp add: t_def unat_div wide order_trans [OF div_le_dividend])
  then have t: "unat (if t = 0 then 1 else t) \<le> max 1 (unat (timeout up))" by (simp add: le_max_iff_disj)
  have two: "unat (2 * timeout up) = 2 * unat (timeout up)" using assms(2) by (simp add: unat_word_ariths)
  have eq: "char_time ke up tmo = (let t = (if t = 0 then 1 else t) in if tmo \<noteq> 0 \<and> scast tmo < t then scast tmo else t)"
    by (simp add: char_time_def t_def)
  show ?thesis
  proof (cases "tmo = 0 \<or> 2 * timeout up < tmo")
    case True
    have "unat (char_time ke up tmo) \<le> unat (if t = 0 then 1 else t)"
      unfolding eq Let_def by (auto simp: word_less_nat_alt)
    then show ?thesis using t True assms(3) two by auto
  next
    case False
    then have T: "unat tmo = T" "T \<le> 2 * unat (timeout up)" using assms(3) two by (auto simp: word_less_nat_alt)
    then have "T < 2 ^ 31" using assms(2) by simp
    then have s: "(scast tmo :: u64) = of_nat T" "unat (of_nat T :: u64) = T"
      using scast_jiffies [of tmo] T(1) by (simp_all add: unat_of_nat)
    have "unat (char_time ke up tmo) \<le> T"
      using False unfolding eq Let_def s(1) by (auto simp: word_less_nat_alt s(2) not_less)
    then show ?thesis by simp
  qed
qed

text \<open>
  C30. Waiting for the transmitter ends, and when it should. On any device whose line status register can be read,
  in the states that reading it and sleeping keep, \<open>uart_wait_until_sent\<close> returns. Let T be the time that it was
  given, or twice the port's timeout if that is less or no time was given; let the timeout include the fiftieth of a
  second that \<open>uart_update_timeout\<close> adds, and be below 2^30; and let every sleep of i jiffies take at least one and at
  most i + slack. Then the time spent is at most T + max 1 T + slack, since the interval between two looks is clipped
  to the time given; and it returned because the time T was over, or a signal was pending, or the last look saw the
  transmitter empty (or it did not wait: the port has no type or no FIFO size). Of the port only the saved status
  flags change.
\<close>

theorem wait_until_sent_returns:
  assumes "readable_lsr b Q" and "Q d" and "k_hz ke div 50 \<le> timeout up" and "unat (timeout up) < 2 ^ 30"
    and "unat (if tmo = 0 \<or> 2 * timeout up < tmo then 2 * timeout up else tmo) = T" and "slack < 2 ^ 32"
    and "\<forall>i n. sl i n = (sig i n, of_nat (el i n), pass i n)" and "\<forall>i n. 1 \<le> el i n \<and> el i n \<le> max 1 (unat i) + slack"
    and "\<forall>i n d. Q d \<longrightarrow> Q (pass i n d)"
  shows "\<exists>v E d'. uart_wait_until_sent b ke sl jiffies up d tmo = Some (Inr (v, jiffies + of_nat E, d')) \<and>
    E \<le> T + max 1 T + slack \<and>
    (T < E \<or> (\<exists>i n. sig i n) \<or> seen_empty b d' \<or> ptype up = PORT_UNKNOWN \<or> fifosize up = 0) \<and>
    Q d' \<and> v\<lparr>lsr_saved_flags := 0\<rparr> = up\<lparr>lsr_saved_flags := 0\<rparr>"
proof (cases "ptype up = PORT_UNKNOWN \<or> fifosize up = 0")
  case True
  then have "uart_wait_until_sent b ke sl jiffies up d tmo = Some (Inr (up, jiffies + of_nat 0, d))"
    by (simp add: uart_wait_until_sent_def)
  then show ?thesis using True assms(2) by blast
next
  case False
  let ?i = "char_time ke up tmo" and ?w = "if tmo = 0 \<or> 2 * timeout up < tmo then 2 * timeout up else tmo"
  have i: "unat ?i \<le> max 1 T" by (rule char_time_le [OF assms(3-5)])
  have T: "T < 2 ^ 31" using assms(4,5) by (auto simp: unat_word_ariths word_less_nat_alt split: if_splits)
  have w: "(scast ?w :: u64) = of_nat T" using scast_jiffies [of ?w] assms(5) T by simp
  have "wait_loop b (sl ?i) (jiffies + of_nat T) 0 up (jiffies + of_nat 0) d = uart_wait_until_sent b ke sl jiffies up d tmo"
    using False unfolding uart_wait_until_sent_def Let_def w by simp
  moreover have "\<exists>v F d'. wait_loop b (sl ?i) (jiffies + of_nat T) 0 up (jiffies + of_nat 0) d = Some (Inr (v, jiffies + of_nat F, d')) \<and>
      F \<le> T + (max 1 T + slack) \<and> (T < F \<or> (\<exists>n. sig ?i n) \<or> seen_empty b d') \<and> Q d' \<and>
      v\<lparr>lsr_saved_flags := 0\<rparr> = up\<lparr>lsr_saved_flags := 0\<rparr>"
  proof (rule wait_loop_ends [OF assms(1), where sig = "sig ?i" and el = "el ?i" and pass = "pass ?i"])
    show "1 \<le> el ?i n \<and> el ?i n \<le> max 1 T + slack" for n using assms(8) i by (metis add_le_mono1 max.boundedI max.cobounded1 order_trans)
  qed (use assms(2,6,7,9) T in auto)
  ultimately obtain v F d' where r: "uart_wait_until_sent b ke sl jiffies up d tmo = Some (Inr (v, jiffies + of_nat F, d'))"
      "F \<le> T + (max 1 T + slack)" "T < F \<or> (\<exists>n. sig ?i n) \<or> seen_empty b d'" "Q d'" "v\<lparr>lsr_saved_flags := 0\<rparr> = up\<lparr>lsr_saved_flags := 0\<rparr>"
    by (elim exE conjE) simp
  have "F \<le> T + max 1 T + slack" using r(2) by simp
  moreover have "T < F \<or> (\<exists>i n. sig i n) \<or> seen_empty b d' \<or> ptype up = PORT_UNKNOWN \<or> fifosize up = 0" using r(3) by blast
  ultimately show ?thesis using r(1,4,5) by (intro exI [of _ v] exI [of _ F] exI [of _ d'] conjI)
qed

text \<open>A transmitter that never empties: three jiffies are waited for, and then one look more.\<close>

definition stuck_bus :: "unit bus" where
  "stuck_bus = \<lparr>bus_read = (\<lambda>d r. Inr (0, d)), bus_write = (\<lambda>d r v. Inr d)\<rparr>"

theorem wait_until_sent_returns_witness:
  "\<exists>v E. uart_wait_until_sent stuck_bus kernel0 (\<lambda>i n. (False, 2, \<lambda>d. d)) 1000 (port0\<lparr>timeout := 500\<rparr>) () 3 =
    Some (Inr (v, 1000 + of_nat E, ())) \<and> 3 < E \<and> E \<le> 7"
proof -
  have stuck: "readable_lsr stuck_bus (\<lambda>d. True)" "\<not> seen_empty stuck_bus ()"
    by (auto simp: readable_lsr_def seen_empty_def stuck_bus_def)
  note w = wait_until_sent_returns [OF stuck(1), where tmo = 3 and T = 3 and up = "port0\<lparr>timeout := 500\<rparr>" and ke = kernel0 and d = "()"
      and slack = 1 and sl = "\<lambda>i n. (False, 2, \<lambda>d. d)" and sig = "\<lambda>i n. False" and el = "\<lambda>i n. 2" and pass = "\<lambda>i n d. d" and jiffies = 1000]
  have "k_hz kernel0 div 50 \<le> timeout (port0\<lparr>timeout := 500\<rparr>)" by (simp add: kernel0_def)
  from w [OF _ this] show ?thesis using stuck(2) by (auto simp: port0_def)
qed

end
