(* ===== verification/Linux_Pci.thy ===== *)
theory Linux_Pci
  imports Linux_Ports
begin

unbundle bit_operations_syntax

text \<open>
  The PCI driver of the 8250, \<open>qemu_linux0/8250/8250_pci.c\<close>: where a board's ports are (the \<open>setup\<close>
  functions), switching boards on and off (\<open>init\<close> and \<open>exit\<close>), the table of these quirks, guessing an
  unknown board, and the driver's \<open>probe\<close>, \<open>remove\<close>, suspension and error recovery. The board table is
  \<open>Linux_Pci_Boards\<close>.

  Parameters are in the record \<open>penv\<close>: the ids of \<open>linux/pci_ids.h\<close>, what the \<open>n\<close>th read of a device
  register and the \<open>n\<close>th request for a mapping give, the I/O regions that are free, and the kernel
  calls. The flags of a board are those of \<open>linux/8250_pci.h\<close>: \<open>fl_base\<close> is the number that
  \<open>FL_GET_BASE\<close> reads. Accesses to device registers are logged.
\<close>

section \<open>Devices and boards\<close>

record pci_bar =
  bar_io :: bool
  bar_mem :: bool
  bar_start :: u64
  bar_len :: u64

text \<open>\<open>pd_res\<close> are all resources of the device, of which the first six are its BARs.\<close>

record pci_dev =
  pd_vendor :: u32
  pd_device :: u32
  pd_subvendor :: u32
  pd_subdevice :: u32
  pd_class :: u32
  pd_irq :: nat
  pd_num :: nat
  pd_res :: "pci_bar list"

record pciserial_board =
  fl_base :: nat
  fl_bars :: bool
  fl_noirq :: bool
  fl_cap :: bool
  num_ports :: u32
  base_baud :: u32
  uart_offset :: u32
  reg_shift :: nat
  first_offset :: u32

datatype space =
    Config
  | Mmio u64
  | IoPort

datatype hw_event =
    HwRead space nat nat
  | HwWrite space nat nat u32

record penv =
  pe_id :: "string \<Rightarrow> u32"
  pe_in :: "nat \<Rightarrow> u32"
  pe_map_ok :: "nat \<Rightarrow> bool"
  pe_region_free :: "u32 \<Rightarrow> bool"
  pe_kzalloc :: bool
  pe_enable :: int
  pe_pch_uart :: bool
  pe_kport :: kport
  pe_nr_uarts :: nat
  pe_stack :: u32

record hw =
  hw_ports :: ports
  hw_maps :: "u64 list"
  hw_regions :: "u32 list"
  hw_enabled :: nat
  hw_nmap :: nat
  hw_nin :: nat
  hw_log :: "hw_event list"

definition hw_read :: "penv \<Rightarrow> space \<Rightarrow> nat \<Rightarrow> nat \<Rightarrow> hw \<Rightarrow> u32 \<times> hw" where
  "hw_read pe sp w a h = (pe_in pe (hw_nin h), h\<lparr>hw_nin := hw_nin h + 1, hw_log := hw_log h @ [HwRead sp w a]\<rparr>)"

definition hw_write :: "space \<Rightarrow> nat \<Rightarrow> nat \<Rightarrow> u32 \<Rightarrow> hw \<Rightarrow> hw" where
  "hw_write sp w a v h = h\<lparr>hw_log := hw_log h @ [HwWrite sp w a v]\<rparr>"

definition ioremap :: "penv \<Rightarrow> u64 \<Rightarrow> hw \<Rightarrow> u64 option \<times> hw" where
  "ioremap pe base h =
     (if pe_map_ok pe (hw_nmap h) then (Some base, h\<lparr>hw_nmap := hw_nmap h + 1, hw_maps := base # hw_maps h\<rparr>)
      else (None, h\<lparr>hw_nmap := hw_nmap h + 1\<rparr>))"

definition iounmap :: "u64 option \<Rightarrow> hw \<Rightarrow> hw" where
  "iounmap p h = (case p of None \<Rightarrow> h | Some base \<Rightarrow> h\<lparr>hw_maps := remove1 base (hw_maps h)\<rparr>)"

abbreviation (input) PCI_NUM_BAR_RESOURCES :: nat where "PCI_NUM_BAR_RESOURCES \<equiv> 6"

section \<open>Where the ports are\<close>

text \<open>
  A setup function gets the mapped BARs of the board, the template of the port and its number; its
  result is the return value with all three. BAR numbers are small and kept as \<open>nat\<close>; offsets are
  unsigned and passed on as \<open>int\<close>.
\<close>

type_synonym setup_state = "u64 option list \<times> uport \<times> hw"

definition setup_port :: "penv \<Rightarrow> pci_dev \<Rightarrow> setup_state \<Rightarrow> nat \<Rightarrow> u32 \<Rightarrow> nat \<Rightarrow> (int \<times> setup_state) res" where
  "setup_port pe dev s bar offset regshift =
     (case s of (bars, port, h) \<Rightarrow>
      if PCI_NUM_BAR_RESOURCES \<le> bar then Inr (- 22, s)
      else
        rbind (arr_get (pd_res dev) bar) (\<lambda>r.
        if bar_mem r then
          rbind (arr_get bars bar) (\<lambda>m.
          let (m, h) = (case m of None \<Rightarrow> ioremap pe (bar_start r) h | Some base \<Rightarrow> (Some base, h))
          in rbind (arr_set bars bar m) (\<lambda>bars.
             case m of
               None \<Rightarrow> Inr (- 12, bars, port, h)
             | Some base \<Rightarrow>
                 Inr (0, bars,
                   port\<lparr>pt_iotype := UPIO_MEM, pt_iobase := 0, pt_mapbase := bar_start r + scast offset,
                        pt_membase := Some (base, scast offset), pt_regshift := regshift\<rparr>, h)))
        else
          Inr (0, bars,
            port\<lparr>pt_iotype := UPIO_PORT, pt_iobase := bar_start r + scast offset, pt_mapbase := 0, pt_membase := None,
                 pt_regshift := 0\<rparr>, h)))"

definition addidata_apci7800_setup :: "penv \<Rightarrow> pci_dev \<Rightarrow> pciserial_board \<Rightarrow> setup_state \<Rightarrow> nat \<Rightarrow> (int \<times> setup_state) res" where
  "addidata_apci7800_setup pe dev board s idx =
     (let (bar, offset) =
        (if idx < 2 then (fl_base board, first_offset board + of_nat idx * uart_offset board)
         else if idx < 4 then (fl_base board + 1, first_offset board + of_nat (idx - 2) * uart_offset board)
         else if idx < 6 then (fl_base board + 2, first_offset board + of_nat (idx - 4) * uart_offset board)
         else (fl_base board + 3, first_offset board + of_nat (idx - 6) * uart_offset board))
      in setup_port pe dev s bar offset (reg_shift board))"

definition afavlab_setup :: "penv \<Rightarrow> pci_dev \<Rightarrow> pciserial_board \<Rightarrow> setup_state \<Rightarrow> nat \<Rightarrow> (int \<times> setup_state) res" where
  "afavlab_setup pe dev board s idx =
     (let (bar, offset) =
        (if idx < 4 then (fl_base board + idx, first_offset board)
         else (4, first_offset board + of_nat (idx - 4) * uart_offset board))
      in setup_port pe dev s bar offset (reg_shift board))"

definition pci_hp_diva_setup :: "penv \<Rightarrow> pci_dev \<Rightarrow> pciserial_board \<Rightarrow> setup_state \<Rightarrow> nat \<Rightarrow> (int \<times> setup_state) res" where
  "pci_hp_diva_setup pe dev board s idx =
     (let idx =
        (if pd_subdevice dev = pe_id pe ''PCI_DEVICE_ID_HP_DIVA_MAESTRO'' then (if idx = 3 then idx + 1 else idx)
         else if pd_subdevice dev = pe_id pe ''PCI_DEVICE_ID_HP_DIVA_EVEREST'' then
           (let idx = (if 0 < idx then idx + 1 else idx) in if 2 < idx then idx + 1 else idx)
         else idx);
          offset = (if 2 < idx then 0x18 else first_offset board)
      in setup_port pe dev s (fl_base board) (offset + of_nat idx * uart_offset board) (reg_shift board))"

definition sbs_setup :: "penv \<Rightarrow> pci_dev \<Rightarrow> pciserial_board \<Rightarrow> setup_state \<Rightarrow> nat \<Rightarrow> (int \<times> setup_state) res" where
  "sbs_setup pe dev board s idx =
     (if idx < 4 then setup_port pe dev s 0 (first_offset board + of_nat idx * uart_offset board) (reg_shift board)
      else if idx < 8 then
        setup_port pe dev s 0 (first_offset board + (of_nat idx * uart_offset board + 0xC00)) (reg_shift board)
      else Inr (1, s))"

definition pci_siig_setup :: "penv \<Rightarrow> pci_dev \<Rightarrow> pciserial_board \<Rightarrow> setup_state \<Rightarrow> nat \<Rightarrow> (int \<times> setup_state) res" where
  "pci_siig_setup pe dev board s idx =
     (let (bar, offset) = (if 3 < idx then (4, of_nat ((idx - 4) * 8)) else (fl_base board + idx, 0))
      in setup_port pe dev s bar offset 0)"

definition pci_timedia_setup :: "penv \<Rightarrow> pci_dev \<Rightarrow> pciserial_board \<Rightarrow> setup_state \<Rightarrow> nat \<Rightarrow> (int \<times> setup_state) res" where
  "pci_timedia_setup pe dev board s idx =
     (let offset = first_offset board;
          (bar, offset) =
            (if idx = 0 then (0, offset) else if idx = 1 then (0, uart_offset board) else if idx = 2 then (1, offset)
             else if idx = 3 then (idx - 2, uart_offset board) else if idx \<le> 7 then (idx - 2, offset) else (0, offset))
      in setup_port pe dev s bar offset (reg_shift board))"

definition titan_400l_800l_setup :: "penv \<Rightarrow> pci_dev \<Rightarrow> pciserial_board \<Rightarrow> setup_state \<Rightarrow> nat \<Rightarrow> (int \<times> setup_state) res" where
  "titan_400l_800l_setup pe dev board s idx =
     (let (bar, offset) =
        (if idx = 0 then (1, first_offset board) else if idx = 1 then (2, first_offset board)
         else (4, of_nat (idx - 2) * uart_offset board))
      in setup_port pe dev s bar offset (reg_shift board))"

definition pci_default_setup :: "penv \<Rightarrow> pci_dev \<Rightarrow> pciserial_board \<Rightarrow> setup_state \<Rightarrow> nat \<Rightarrow> (int \<times> setup_state) res" where
  "pci_default_setup pe dev board s idx =
     (let (bar, offset) =
        (if fl_bars board then (fl_base board + idx, first_offset board)
         else (fl_base board, first_offset board + of_nat idx * uart_offset board))
      in rbind (arr_get (pd_res dev) bar) (\<lambda>r.
         let maxnr = ucast (drop_bit (reg_shift board + 3) (bar_len r - ucast (first_offset board))) :: u32
         in if fl_cap board \<and> maxnr \<le> of_nat idx then Inr (1, s)
            else setup_port pe dev s bar offset (reg_shift board)))"

text \<open>When the mapping fails, \<open>readb\<close> goes through the null pointer.\<close>

definition pci_ni8430_setup :: "penv \<Rightarrow> pci_dev \<Rightarrow> pciserial_board \<Rightarrow> setup_state \<Rightarrow> nat \<Rightarrow> (int \<times> setup_state) res" where
  "pci_ni8430_setup pe dev board s idx =
     (case s of (bars, port, h) \<Rightarrow>
      if num_ports board \<le> of_nat idx then Inr (1, s)
      else
        let bar = fl_base board;
            offset = first_offset board + of_nat idx * uart_offset board
        in rbind (arr_get (pd_res dev) bar) (\<lambda>r.
           let (p, h) = ioremap pe (bar_start r) h
           in case p of
                None \<Rightarrow> Inl NullDeref
              | Some base \<Rightarrow>
                  (let (v, h) = hw_read pe (Mmio base) 8 (unat offset + 0x0f) h;
                       h = hw_write (Mmio base) 8 (unat offset + 0x0f) ((v AND 0xFF) OR 0x08) h;
                       h = iounmap p h
                   in setup_port pe dev (bars, port, h) bar offset (reg_shift board))))"

definition pci_netmos_9900_setup :: "penv \<Rightarrow> pci_dev \<Rightarrow> pciserial_board \<Rightarrow> setup_state \<Rightarrow> nat \<Rightarrow> (int \<times> setup_state) res" where
  "pci_netmos_9900_setup pe dev board s idx =
     (if pd_subdevice dev AND 0xff00 = 0x3000 then setup_port pe dev s (3 * idx) 0 (reg_shift board)
      else pci_default_setup pe dev board s idx)"

definition ce4100_serial_setup :: "penv \<Rightarrow> pci_dev \<Rightarrow> pciserial_board \<Rightarrow> setup_state \<Rightarrow> nat \<Rightarrow> (int \<times> setup_state) res" where
  "ce4100_serial_setup pe dev board s idx =
     rbind (setup_port pe dev s 0 0 (reg_shift board)) (\<lambda>(ret, bars, port, h).
     Inr (ret, bars,
       port\<lparr>pt_iotype := UPIO_MEM32, pt_type := PORT_XSCALE, pt_fixed_port := True, pt_fixed_type := True, pt_regshift := 2\<rparr>, h))"

definition pci_omegapci_setup :: "penv \<Rightarrow> pci_dev \<Rightarrow> pciserial_board \<Rightarrow> setup_state \<Rightarrow> nat \<Rightarrow> (int \<times> setup_state) res" where
  "pci_omegapci_setup pe dev board s idx = setup_port pe dev s 2 (of_nat (idx * 8)) 0"

definition skip_tx_en_setup :: "penv \<Rightarrow> pci_dev \<Rightarrow> pciserial_board \<Rightarrow> setup_state \<Rightarrow> nat \<Rightarrow> (int \<times> setup_state) res" where
  "skip_tx_en_setup pe dev board s idx =
     (case s of (bars, port, h) \<Rightarrow> pci_default_setup pe dev board (bars, port\<lparr>pt_no_txen_test := True\<rparr>, h) idx)"

definition kt_serial_setup :: "penv \<Rightarrow> pci_dev \<Rightarrow> pciserial_board \<Rightarrow> setup_state \<Rightarrow> nat \<Rightarrow> (int \<times> setup_state) res" where
  "kt_serial_setup pe dev board s idx =
     (case s of (bars, port, h) \<Rightarrow> skip_tx_en_setup pe dev board (bars, port\<lparr>pt_bug_thre := True\<rparr>, h) idx)"

definition pci_xr17c154_setup :: "penv \<Rightarrow> pci_dev \<Rightarrow> pciserial_board \<Rightarrow> setup_state \<Rightarrow> nat \<Rightarrow> (int \<times> setup_state) res" where
  "pci_xr17c154_setup pe dev board s idx =
     (case s of (bars, port, h) \<Rightarrow> pci_default_setup pe dev board (bars, port\<lparr>pt_exar_efr := True\<rparr>, h) idx)"

end
