(* ===== verification/Linux_Pci_Quirks.thy ===== *)
theory Linux_Pci_Quirks
  imports Linux_Pci
begin

unbundle bit_operations_syntax

text \<open>
  Switching the boards of \<open>8250_pci.c\<close> on and off, and the table of quirks: the functions that a
  device's ids select. Results of \<open>init\<close> are as in the code: a number of ports, 0 for the board's own,
  or an error.
\<close>

type_synonym pci_init = "penv \<Rightarrow> pci_dev \<Rightarrow> hw \<Rightarrow> int \<times> hw"

text \<open>Resource 0 of a device; a device has at least its six BARs.\<close>

abbreviation bar0 :: "pci_dev \<Rightarrow> pci_bar" where "bar0 dev \<equiv> pd_res dev ! 0"

section \<open>Init and exit functions\<close>

definition pci_hp_diva_init :: pci_init where
  "pci_hp_diva_init pe dev h =
     (let s = pd_subdevice dev in
      (if s \<in> {pe_id pe ''PCI_DEVICE_ID_HP_DIVA_TOSCA1'', pe_id pe ''PCI_DEVICE_ID_HP_DIVA_HALFDOME'',
               pe_id pe ''PCI_DEVICE_ID_HP_DIVA_KEYSTONE'', pe_id pe ''PCI_DEVICE_ID_HP_DIVA_EVEREST''} then 3
       else if s = pe_id pe ''PCI_DEVICE_ID_HP_DIVA_TOSCA2'' then 2
       else if s = pe_id pe ''PCI_DEVICE_ID_HP_DIVA_MAESTRO'' then 4
       else if s \<in> {pe_id pe ''PCI_DEVICE_ID_HP_DIVA_POWERBAR'', pe_id pe ''PCI_DEVICE_ID_HP_DIVA_HURRICANE''} then 1
       else 0, h))"

text \<open>
  \<open>oldval\<close> is an \<open>unsigned long\<close>, of which the read sets the lower half; the upper half is what the stack holds.
\<close>

definition pci_inteli960ni_init :: pci_init where
  "pci_inteli960ni_init pe dev h =
     (if pd_subdevice dev AND 0x1000 = 0 then (- 19, h)
      else
        let (val, h) = hw_read pe Config 32 0x44 h;
            oldval = (push_bit 32 (ucast (pe_stack pe)) OR ucast val :: u64)
        in (if oldval = 0x00001000 then - 19 else 0, h))"

definition pci_plx9050_init :: pci_init where
  "pci_plx9050_init pe dev h =
     (if \<not> bar_mem (bar0 dev) then (0, h)
      else
        let irq_config = (if pd_vendor dev = pe_id pe ''PCI_VENDOR_ID_PANACOM'' \<or>
                             pd_subvendor dev = pe_id pe ''PCI_SUBVENDOR_ID_EXSYS'' then 0x43 else 0x41);
            irq_config = (if pd_vendor dev = pe_id pe ''PCI_VENDOR_ID_PLX'' \<and>
                             pd_device dev = pe_id pe ''PCI_DEVICE_ID_PLX_ROMULUS'' then 0x5b else irq_config);
            (p, h) = ioremap pe (bar_start (bar0 dev)) h
        in case p of
             None \<Rightarrow> (- 12, h)
           | Some base \<Rightarrow>
               (let h = hw_write (Mmio base) 32 0x4c irq_config h;
                    (_, h) = hw_read pe (Mmio base) 32 0x4c h
                in (0, iounmap p h)))"

definition pci_plx9050_exit :: "penv \<Rightarrow> pci_dev \<Rightarrow> hw \<Rightarrow> hw" where
  "pci_plx9050_exit pe dev h =
     (if \<not> bar_mem (bar0 dev) then h
      else
        let (p, h) = ioremap pe (bar_start (bar0 dev)) h
        in case p of
             None \<Rightarrow> h
           | Some base \<Rightarrow>
               (let h = hw_write (Mmio base) 32 0x4c 0 h;
                    (_, h) = hw_read pe (Mmio base) 32 0x4c h
                in iounmap p h))"

definition pci_ni8420_init :: pci_init where
  "pci_ni8420_init pe dev h =
     (if \<not> bar_mem (bar0 dev) then (0, h)
      else
        let (p, h) = ioremap pe (bar_start (bar0 dev)) h
        in case p of
             None \<Rightarrow> (- 12, h)
           | Some base \<Rightarrow>
               (let (v, h) = hw_read pe (Mmio base) 32 0x38 h;
                    h = hw_write (Mmio base) 32 0x38 (v OR 0x2000) h
                in (0, iounmap p h)))"

definition pci_ni8420_exit :: "penv \<Rightarrow> pci_dev \<Rightarrow> hw \<Rightarrow> hw" where
  "pci_ni8420_exit pe dev h =
     (if \<not> bar_mem (bar0 dev) then h
      else
        let (p, h) = ioremap pe (bar_start (bar0 dev)) h
        in case p of
             None \<Rightarrow> h
           | Some base \<Rightarrow>
               (let (v, h) = hw_read pe (Mmio base) 32 0x38 h;
                    h = hw_write (Mmio base) 32 0x38 (v AND NOT 0x2000) h
                in iounmap p h))"

text \<open>The device window covers the region at offset \<open>0x800\<close> of BAR 0.\<close>

definition pci_ni8430_init :: pci_init where
  "pci_ni8430_init pe dev h =
     (if \<not> bar_mem (bar0 dev) then (0, h)
      else
        let (p, h) = ioremap pe (bar_start (bar0 dev)) h
        in case p of
             None \<Rightarrow> (- 12, h)
           | Some base \<Rightarrow>
               (let w = ucast (((bar_start (bar0 dev) + 0x800) AND 0xffffff00) OR 0x80 OR 0xa);
                    h = hw_write (Mmio base) 32 0xc4 w h;
                    (v, h) = hw_read pe (Mmio base) 32 0xf4 h;
                    h = hw_write (Mmio base) 32 0xf4 (v AND 0xfffffffe) h;
                    h = hw_write (Mmio base) 32 0x08 (push_bit 24 1) h;
                    h = hw_write (Mmio base) 32 0x10 (push_bit 31 1) h
                in (0, iounmap p h)))"

definition pci_ni8430_exit :: "penv \<Rightarrow> pci_dev \<Rightarrow> hw \<Rightarrow> hw" where
  "pci_ni8430_exit pe dev h =
     (if \<not> bar_mem (bar0 dev) then h
      else
        let (p, h) = ioremap pe (bar_start (bar0 dev)) h
        in case p of
             None \<Rightarrow> h
           | Some base \<Rightarrow> iounmap p (hw_write (Mmio base) 32 0x10 (push_bit 30 1) h))"

definition sbs_init :: pci_init where
  "sbs_init pe dev h =
     (let (p, h) = ioremap pe (bar_start (bar0 dev)) h
      in case p of
           None \<Rightarrow> (- 12, h)
         | Some base \<Rightarrow>
             (let h = hw_write (Mmio base) 8 0x500 0x10 h;
                  h = hw_write (Mmio base) 8 0x500 0x0 h;
                  h = hw_write (Mmio base) 8 0x500 0x4 h
              in (0, iounmap p h)))"

definition sbs_exit :: "penv \<Rightarrow> pci_dev \<Rightarrow> hw \<Rightarrow> hw" where
  "sbs_exit pe dev h =
     (let (p, h) = ioremap pe (bar_start (bar0 dev)) h;
          h = (case p of None \<Rightarrow> h | Some base \<Rightarrow> hw_write (Mmio base) 8 0x500 0 h)
      in iounmap p h)"

definition pci_siig10x_init :: pci_init where
  "pci_siig10x_init pe dev h =
     (let d = pd_device dev AND 0xfff8;
          mask = (if d = pe_id pe ''PCI_DEVICE_ID_SIIG_1S_10x_550'' AND 0xfffc then 0xffdf
                  else if d = pe_id pe ''PCI_DEVICE_ID_SIIG_2S_10x_550'' AND 0xfff8 then 0xf7ff
                  else 0xfffb);
          (p, h) = ioremap pe (bar_start (bar0 dev)) h
      in case p of
           None \<Rightarrow> (- 12, h)
         | Some base \<Rightarrow>
             (let (v, h) = hw_read pe (Mmio base) 16 0x28 h;
                  h = hw_write (Mmio base) 16 0x28 (v AND mask) h;
                  (_, h) = hw_read pe (Mmio base) 16 0x28 h
              in (0, iounmap p h)))"

definition pci_siig20x_init :: pci_init where
  "pci_siig20x_init pe dev h =
     (let (v, h) = hw_read pe Config 8 0x6f h;
          h = hw_write Config 8 0x6f (v AND 0xef) h;
          d = pd_device dev AND 0xfffc
      in if d = pe_id pe ''PCI_DEVICE_ID_SIIG_2S_20x_550'' AND 0xfffc \<or>
            d = pe_id pe ''PCI_DEVICE_ID_SIIG_2S1P_20x_550'' AND 0xfffc
         then (let (v, h) = hw_read pe Config 8 0x73 h in (0, hw_write Config 8 0x73 (v AND 0xef) h))
         else (0, h))"

definition pci_siig_init :: pci_init where
  "pci_siig_init pe dev h =
     (let type = pd_device dev AND 0xff00
      in if type = 0x1000 then pci_siig10x_init pe dev h
         else if type = 0x2000 then pci_siig20x_init pe dev h
         else (- 19, h))"

text \<open>The subdevices of the Timedia boards, by their number of ports; the lists end with a zero.\<close>

definition timedia_data :: "(int \<times> u32 list) list" where
  "timedia_data =
     [(1, [0x4025, 0x4027, 0x4028, 0x5025, 0x5027]),
      (2, [0x0002, 0x4036, 0x4037, 0x4038, 0x4078, 0x4079, 0x4085,
           0x4088, 0x4089, 0x5037, 0x5078, 0x5079, 0x5085, 0x6079,
           0x7079, 0x8079, 0x8137, 0x8138, 0x8237, 0x8238, 0x9079,
           0x9137, 0x9138, 0x9237, 0x9238, 0xA079, 0xB079, 0xC079,
           0xD079]),
      (4, [0x4055, 0x4056, 0x4095, 0x4096, 0x5056, 0x8156, 0x8157,
           0x8256, 0x8257, 0x9056, 0x9156, 0x9157, 0x9158, 0x9159,
           0x9256, 0x9257, 0xA056, 0xA157, 0xA158, 0xA159, 0xB056,
           0xB157]),
      (8, [0x4065, 0x4066, 0x5065, 0x5066, 0x8166, 0x9066, 0x9166,
           0x9167, 0x9168, 0xA066, 0xA167, 0xA168])]"

definition pci_timedia_probe :: "pci_dev \<Rightarrow> int" where
  "pci_timedia_probe dev = (if 0x70 \<le> pd_subdevice dev AND 0x00f0 then - 19 else 0)"

fun timedia_find :: "u32 \<Rightarrow> (int \<times> u32 list) list \<Rightarrow> int" where
  "timedia_find s [] = 0"
| "timedia_find s ((num, ids) # rest) = (if s \<in> set ids then num else timedia_find s rest)"

definition pci_timedia_init :: pci_init where
  "pci_timedia_init pe dev h = (timedia_find (pd_subdevice dev) timedia_data, h)"

definition pci_xircom_init :: pci_init where
  "pci_xircom_init pe dev h = (0, h)"

definition pci_netmos_9900_numports :: "penv \<Rightarrow> pci_dev \<Rightarrow> u32" where
  "pci_netmos_9900_numports pe dev =
     (let pi = pd_class dev AND 0xff
      in if pi = 2 then 1
         else if pi = 0 \<and> pd_device dev = pe_id pe ''PCI_DEVICE_ID_NETMOS_9900'' then pd_subdevice dev AND 0xf
         else 0)"

definition pci_netmos_init :: pci_init where
  "pci_netmos_init pe dev h =
     (if pd_device dev = pe_id pe ''PCI_DEVICE_ID_NETMOS_9901'' \<or> pd_device dev = pe_id pe ''PCI_DEVICE_ID_NETMOS_9865''
      then (0, h)
      else if pd_subvendor dev = pe_id pe ''PCI_VENDOR_ID_IBM'' \<and> pd_subdevice dev = 0x0299 then (0, h)
      else
        let num_serial =
          (if pd_device dev \<in> {pe_id pe ''PCI_DEVICE_ID_NETMOS_9904'', pe_id pe ''PCI_DEVICE_ID_NETMOS_9912'',
                               pe_id pe ''PCI_DEVICE_ID_NETMOS_9922'', pe_id pe ''PCI_DEVICE_ID_NETMOS_9900''}
           then pci_netmos_9900_numports pe dev
           else pd_subdevice dev AND 0xf)
        in (if num_serial = 0 then - 19 else sint num_serial, h))"

text \<open>\<open>ite_find\<close> tries the configuration addresses; \<open>ite_ports\<close> configures the ports left to do.\<close>

fun ite_find :: "penv \<Rightarrow> u32 list \<Rightarrow> hw \<Rightarrow> u32 option \<times> hw" where
  "ite_find pe [] h = (None, h)"
| "ite_find pe (a # as) h =
     (if pe_region_free pe a then
        (let h = h\<lparr>hw_regions := a # hw_regions h\<rparr>;
             h = hw_write Config 32 0x60 (push_bit 31 1 OR push_bit 29 3 OR push_bit 24 5 OR a) h;
             h = hw_write Config 32 0x78 a h;
             (ret, h) = hw_read pe IoPort 8 (unat a) h
         in if ret AND 0xff \<noteq> 0xff then (Some a, h)
            else ite_find pe as (h\<lparr>hw_regions := remove1 a (hw_regions h)\<rparr>))
      else ite_find pe as h)"

fun ite_ports :: "penv \<Rightarrow> nat \<Rightarrow> nat \<Rightarrow> hw \<Rightarrow> hw" where
  "ite_ports pe 0 i h = h"
| "ite_ports pe (Suc n) i h =
     (let (ioport, h) = hw_read pe Config 32 (0x10 + 4 * (i + 1)) h;
          ioport = ioport AND 0x0000FF00;
          h = hw_write Config 32 (0x60 + 4 * (i + 1)) (push_bit 31 1 OR push_bit 29 3 OR push_bit 24 3 OR ioport) h;
          (uartbar, h) = hw_read pe Config 32 0x7c h;
          uartbar = (uartbar AND NOT (push_bit (16 * i) 0xffff)) OR push_bit (16 * i) ioport;
          h = hw_write Config 32 0x7c uartbar h;
          (miscr, h) = hw_read pe Config 32 0x9c h;
          miscr = (miscr AND NOT (push_bit (12 - 4 * i) 0xf)) OR push_bit (23 - i) 1;
          h = hw_write Config 32 0x9c miscr h
      in ite_ports pe n (i + 1) h)"

definition pci_ite887x_init :: pci_init where
  "pci_ite887x_init pe dev h =
     (let (iobase, h) = ite_find pe [0x2a0, 0x2c0, 0x220, 0x240, 0x1e0, 0x200, 0x280] h
      in case iobase of
           None \<Rightarrow> (- 19, h)
         | Some a \<Rightarrow>
             (let (type, h) = hw_read pe IoPort 8 (unat a + 0x18) h;
                  type = type AND 0x0f;
                  ret = (if type = 0x2 \<or> type = 0xa then 0 else if type = 0xe then 2 else if type = 0x6 then 1
                         else if type = 0x8 then 2 else - 19);
                  h = ite_ports pe (nat ret) 0 h;
                  h = (if ret \<le> 0 then h\<lparr>hw_regions := remove1 a (hw_regions h)\<rparr> else h)
              in (ret, h)))"

definition pci_ite887x_exit :: "penv \<Rightarrow> pci_dev \<Rightarrow> hw \<Rightarrow> hw" where
  "pci_ite887x_exit pe dev h =
     (let (ioport, h) = hw_read pe Config 32 0x60 h
      in h\<lparr>hw_regions := remove1 (ioport AND 0xffff) (hw_regions h)\<rparr>)"

definition pci_oxsemi_tornado_init :: pci_init where
  "pci_oxsemi_tornado_init pe dev h =
     (if pd_vendor dev = pe_id pe ''PCI_VENDOR_ID_OXSEMI'' \<and> pd_device dev AND 0xF000 \<noteq> 0xC000 then (0, h)
      else
        let (p, h) = ioremap pe (bar_start (bar0 dev)) h
        in case p of
             None \<Rightarrow> (- 12, h)
           | Some base \<Rightarrow>
               (let (id, h) = hw_read pe (Mmio base) 32 0 h;
                    (n, h) = (if id = 0x07000200 then
                                (let (v, h) = hw_read pe (Mmio base) 8 4 h in (uint (v AND 0xff), h))
                              else (0, h))
                in (n, iounmap p h)))"

definition pci_eg20t_init :: pci_init where
  "pci_eg20t_init pe dev h = (if pe_pch_uart pe then - 19 else 0, h)"

section \<open>The table\<close>

abbreviation (input) PCI_ANY_ID :: u32 where "PCI_ANY_ID \<equiv> - 1"

record pci_serial_quirk =
  q_vendor :: u32
  q_device :: u32
  q_subvendor :: u32
  q_subdevice :: u32
  q_probe :: "(pci_dev \<Rightarrow> int) option"
  q_init :: "pci_init option"
  q_setup :: "penv \<Rightarrow> pci_dev \<Rightarrow> pciserial_board \<Rightarrow> setup_state \<Rightarrow> nat \<Rightarrow> (int \<times> setup_state) res"
  q_exit :: "(penv \<Rightarrow> pci_dev \<Rightarrow> hw \<Rightarrow> hw) option"

definition quirk :: "u32 \<Rightarrow> u32 \<Rightarrow> u32 \<Rightarrow> u32 \<Rightarrow> (pci_dev \<Rightarrow> int) option \<Rightarrow> pci_init option \<Rightarrow>
    (penv \<Rightarrow> pci_dev \<Rightarrow> pciserial_board \<Rightarrow> setup_state \<Rightarrow> nat \<Rightarrow> (int \<times> setup_state) res) \<Rightarrow>
    (penv \<Rightarrow> pci_dev \<Rightarrow> hw \<Rightarrow> hw) option \<Rightarrow> pci_serial_quirk" where
  "quirk v d sv sd p i s e =
     \<lparr>q_vendor = v, q_device = d, q_subvendor = sv, q_subdevice = sd, q_probe = p, q_init = i, q_setup = s, q_exit = e\<rparr>"

definition pci_serial_quirks_a :: "(string \<Rightarrow> u32) \<Rightarrow> pci_serial_quirk list" where
  "pci_serial_quirks_a pid =
     [quirk (pid ''PCI_VENDOR_ID_ADDIDATA_OLD'') (pid ''PCI_DEVICE_ID_ADDIDATA_APCI7800'') PCI_ANY_ID PCI_ANY_ID None None addidata_apci7800_setup None,
      quirk (pid ''PCI_VENDOR_ID_AFAVLAB'') PCI_ANY_ID PCI_ANY_ID PCI_ANY_ID None None afavlab_setup None,
      quirk (pid ''PCI_VENDOR_ID_HP'') (pid ''PCI_DEVICE_ID_HP_DIVA'') PCI_ANY_ID PCI_ANY_ID None (Some pci_hp_diva_init) pci_hp_diva_setup None,
      quirk (pid ''PCI_VENDOR_ID_INTEL'') (pid ''PCI_DEVICE_ID_INTEL_80960_RP'') 0xe4bf PCI_ANY_ID None (Some pci_inteli960ni_init) pci_default_setup None,
      quirk (pid ''PCI_VENDOR_ID_INTEL'') (pid ''PCI_DEVICE_ID_INTEL_8257X_SOL'') PCI_ANY_ID PCI_ANY_ID None None skip_tx_en_setup None,
      quirk (pid ''PCI_VENDOR_ID_INTEL'') (pid ''PCI_DEVICE_ID_INTEL_82573L_SOL'') PCI_ANY_ID PCI_ANY_ID None None skip_tx_en_setup None,
      quirk (pid ''PCI_VENDOR_ID_INTEL'') (pid ''PCI_DEVICE_ID_INTEL_82573E_SOL'') PCI_ANY_ID PCI_ANY_ID None None skip_tx_en_setup None,
      quirk (pid ''PCI_VENDOR_ID_INTEL'') 0x2e66 PCI_ANY_ID PCI_ANY_ID None None ce4100_serial_setup None,
      quirk (pid ''PCI_VENDOR_ID_INTEL'') 0x1d3d PCI_ANY_ID PCI_ANY_ID None None kt_serial_setup None,
      quirk (pid ''PCI_VENDOR_ID_ITE'') (pid ''PCI_DEVICE_ID_ITE_8872'') PCI_ANY_ID PCI_ANY_ID None (Some pci_ite887x_init) pci_default_setup (Some pci_ite887x_exit),
      quirk (pid ''PCI_VENDOR_ID_NI'') (pid ''PCI_DEVICE_ID_NI_PCI23216'') PCI_ANY_ID PCI_ANY_ID None (Some pci_ni8420_init) pci_default_setup (Some pci_ni8420_exit),
      quirk (pid ''PCI_VENDOR_ID_NI'') (pid ''PCI_DEVICE_ID_NI_PCI2328'') PCI_ANY_ID PCI_ANY_ID None (Some pci_ni8420_init) pci_default_setup (Some pci_ni8420_exit),
      quirk (pid ''PCI_VENDOR_ID_NI'') (pid ''PCI_DEVICE_ID_NI_PCI2324'') PCI_ANY_ID PCI_ANY_ID None (Some pci_ni8420_init) pci_default_setup (Some pci_ni8420_exit),
      quirk (pid ''PCI_VENDOR_ID_NI'') (pid ''PCI_DEVICE_ID_NI_PCI2322'') PCI_ANY_ID PCI_ANY_ID None (Some pci_ni8420_init) pci_default_setup (Some pci_ni8420_exit),
      quirk (pid ''PCI_VENDOR_ID_NI'') (pid ''PCI_DEVICE_ID_NI_PCI2324I'') PCI_ANY_ID PCI_ANY_ID None (Some pci_ni8420_init) pci_default_setup (Some pci_ni8420_exit)]"

definition pci_serial_quirks_b :: "(string \<Rightarrow> u32) \<Rightarrow> pci_serial_quirk list" where
  "pci_serial_quirks_b pid =
     [quirk (pid ''PCI_VENDOR_ID_NI'') (pid ''PCI_DEVICE_ID_NI_PCI2322I'') PCI_ANY_ID PCI_ANY_ID None (Some pci_ni8420_init) pci_default_setup (Some pci_ni8420_exit),
      quirk (pid ''PCI_VENDOR_ID_NI'') (pid ''PCI_DEVICE_ID_NI_PXI8420_23216'') PCI_ANY_ID PCI_ANY_ID None (Some pci_ni8420_init) pci_default_setup (Some pci_ni8420_exit),
      quirk (pid ''PCI_VENDOR_ID_NI'') (pid ''PCI_DEVICE_ID_NI_PXI8420_2328'') PCI_ANY_ID PCI_ANY_ID None (Some pci_ni8420_init) pci_default_setup (Some pci_ni8420_exit),
      quirk (pid ''PCI_VENDOR_ID_NI'') (pid ''PCI_DEVICE_ID_NI_PXI8420_2324'') PCI_ANY_ID PCI_ANY_ID None (Some pci_ni8420_init) pci_default_setup (Some pci_ni8420_exit),
      quirk (pid ''PCI_VENDOR_ID_NI'') (pid ''PCI_DEVICE_ID_NI_PXI8420_2322'') PCI_ANY_ID PCI_ANY_ID None (Some pci_ni8420_init) pci_default_setup (Some pci_ni8420_exit),
      quirk (pid ''PCI_VENDOR_ID_NI'') (pid ''PCI_DEVICE_ID_NI_PXI8422_2324'') PCI_ANY_ID PCI_ANY_ID None (Some pci_ni8420_init) pci_default_setup (Some pci_ni8420_exit),
      quirk (pid ''PCI_VENDOR_ID_NI'') (pid ''PCI_DEVICE_ID_NI_PXI8422_2322'') PCI_ANY_ID PCI_ANY_ID None (Some pci_ni8420_init) pci_default_setup (Some pci_ni8420_exit),
      quirk (pid ''PCI_VENDOR_ID_NI'') PCI_ANY_ID PCI_ANY_ID PCI_ANY_ID None (Some pci_ni8430_init) pci_ni8430_setup (Some pci_ni8430_exit),
      quirk (pid ''PCI_VENDOR_ID_PANACOM'') (pid ''PCI_DEVICE_ID_PANACOM_QUADMODEM'') PCI_ANY_ID PCI_ANY_ID None (Some pci_plx9050_init) pci_default_setup (Some pci_plx9050_exit),
      quirk (pid ''PCI_VENDOR_ID_PANACOM'') (pid ''PCI_DEVICE_ID_PANACOM_DUALMODEM'') PCI_ANY_ID PCI_ANY_ID None (Some pci_plx9050_init) pci_default_setup (Some pci_plx9050_exit),
      quirk (pid ''PCI_VENDOR_ID_PLX'') (pid ''PCI_DEVICE_ID_PLX_9030'') (pid ''PCI_SUBVENDOR_ID_PERLE'') PCI_ANY_ID None None pci_default_setup None,
      quirk (pid ''PCI_VENDOR_ID_PLX'') (pid ''PCI_DEVICE_ID_PLX_9050'') (pid ''PCI_SUBVENDOR_ID_EXSYS'') (pid ''PCI_SUBDEVICE_ID_EXSYS_4055'') None (Some pci_plx9050_init) pci_default_setup (Some pci_plx9050_exit),
      quirk (pid ''PCI_VENDOR_ID_PLX'') (pid ''PCI_DEVICE_ID_PLX_9050'') (pid ''PCI_SUBVENDOR_ID_KEYSPAN'') (pid ''PCI_SUBDEVICE_ID_KEYSPAN_SX2'') None (Some pci_plx9050_init) pci_default_setup (Some pci_plx9050_exit),
      quirk (pid ''PCI_VENDOR_ID_PLX'') (pid ''PCI_DEVICE_ID_PLX_9050'') (pid ''PCI_VENDOR_ID_PLX'') 0x1584 None (Some pci_plx9050_init) pci_default_setup (Some pci_plx9050_exit),
      quirk (pid ''PCI_VENDOR_ID_PLX'') (pid ''PCI_DEVICE_ID_PLX_ROMULUS'') (pid ''PCI_VENDOR_ID_PLX'') (pid ''PCI_DEVICE_ID_PLX_ROMULUS'') None (Some pci_plx9050_init) pci_default_setup (Some pci_plx9050_exit)]"

definition pci_serial_quirks_c :: "(string \<Rightarrow> u32) \<Rightarrow> pci_serial_quirk list" where
  "pci_serial_quirks_c pid =
     [quirk 0x124B 0x0001 0x124B 0x0108 None (Some sbs_init) sbs_setup (Some sbs_exit),
      quirk 0x124B 0x0001 0x124B 0x0208 None (Some sbs_init) sbs_setup (Some sbs_exit),
      quirk 0x124B 0x0001 0x124B 0x0308 None (Some sbs_init) sbs_setup (Some sbs_exit),
      quirk 0x124B 0x0001 0x124B 0x0408 None (Some sbs_init) sbs_setup (Some sbs_exit),
      quirk (pid ''PCI_VENDOR_ID_SIIG'') PCI_ANY_ID PCI_ANY_ID PCI_ANY_ID None (Some pci_siig_init) pci_siig_setup None,
      quirk (pid ''PCI_VENDOR_ID_TITAN'') (pid ''PCI_DEVICE_ID_TITAN_400L'') PCI_ANY_ID PCI_ANY_ID None None titan_400l_800l_setup None,
      quirk (pid ''PCI_VENDOR_ID_TITAN'') (pid ''PCI_DEVICE_ID_TITAN_800L'') PCI_ANY_ID PCI_ANY_ID None None titan_400l_800l_setup None,
      quirk (pid ''PCI_VENDOR_ID_TIMEDIA'') (pid ''PCI_DEVICE_ID_TIMEDIA_1889'') (pid ''PCI_VENDOR_ID_TIMEDIA'') PCI_ANY_ID (Some pci_timedia_probe) (Some pci_timedia_init) pci_timedia_setup None,
      quirk (pid ''PCI_VENDOR_ID_TIMEDIA'') PCI_ANY_ID PCI_ANY_ID PCI_ANY_ID None None pci_timedia_setup None,
      quirk (pid ''PCI_VENDOR_ID_EXAR'') (pid ''PCI_DEVICE_ID_EXAR_XR17C152'') PCI_ANY_ID PCI_ANY_ID None None pci_xr17c154_setup None,
      quirk (pid ''PCI_VENDOR_ID_EXAR'') (pid ''PCI_DEVICE_ID_EXAR_XR17C154'') PCI_ANY_ID PCI_ANY_ID None None pci_xr17c154_setup None,
      quirk (pid ''PCI_VENDOR_ID_EXAR'') (pid ''PCI_DEVICE_ID_EXAR_XR17C158'') PCI_ANY_ID PCI_ANY_ID None None pci_xr17c154_setup None,
      quirk (pid ''PCI_VENDOR_ID_XIRCOM'') (pid ''PCI_DEVICE_ID_XIRCOM_X3201_MDM'') PCI_ANY_ID PCI_ANY_ID None (Some pci_xircom_init) pci_default_setup None,
      quirk (pid ''PCI_VENDOR_ID_NETMOS'') PCI_ANY_ID PCI_ANY_ID PCI_ANY_ID None (Some pci_netmos_init) pci_netmos_9900_setup None]"

definition pci_serial_quirks_d :: "(string \<Rightarrow> u32) \<Rightarrow> pci_serial_quirk list" where
  "pci_serial_quirks_d pid =
     [quirk (pid ''PCI_VENDOR_ID_OXSEMI'') PCI_ANY_ID PCI_ANY_ID PCI_ANY_ID None (Some pci_oxsemi_tornado_init) pci_default_setup None,
      quirk (pid ''PCI_VENDOR_ID_MAINPINE'') PCI_ANY_ID PCI_ANY_ID PCI_ANY_ID None (Some pci_oxsemi_tornado_init) pci_default_setup None,
      quirk (pid ''PCI_VENDOR_ID_DIGI'') 0x00F6 (pid ''PCI_SUBVENDOR_ID_IBM'') PCI_ANY_ID None (Some pci_oxsemi_tornado_init) pci_default_setup None,
      quirk (pid ''PCI_VENDOR_ID_INTEL'') 0x8811 PCI_ANY_ID PCI_ANY_ID None (Some pci_eg20t_init) pci_default_setup None,
      quirk (pid ''PCI_VENDOR_ID_INTEL'') 0x8812 PCI_ANY_ID PCI_ANY_ID None (Some pci_eg20t_init) pci_default_setup None,
      quirk (pid ''PCI_VENDOR_ID_INTEL'') 0x8813 PCI_ANY_ID PCI_ANY_ID None (Some pci_eg20t_init) pci_default_setup None,
      quirk (pid ''PCI_VENDOR_ID_INTEL'') 0x8814 PCI_ANY_ID PCI_ANY_ID None (Some pci_eg20t_init) pci_default_setup None,
      quirk 0x10DB 0x8027 PCI_ANY_ID PCI_ANY_ID None (Some pci_eg20t_init) pci_default_setup None,
      quirk 0x10DB 0x8028 PCI_ANY_ID PCI_ANY_ID None (Some pci_eg20t_init) pci_default_setup None,
      quirk 0x10DB 0x8029 PCI_ANY_ID PCI_ANY_ID None (Some pci_eg20t_init) pci_default_setup None,
      quirk 0x10DB 0x800C PCI_ANY_ID PCI_ANY_ID None (Some pci_eg20t_init) pci_default_setup None,
      quirk 0x10DB 0x800D PCI_ANY_ID PCI_ANY_ID None (Some pci_eg20t_init) pci_default_setup None,
      quirk (pid ''PCI_VENDOR_ID_PLX'') 0xc001 PCI_ANY_ID PCI_ANY_ID None None pci_omegapci_setup None,
      quirk PCI_ANY_ID PCI_ANY_ID PCI_ANY_ID PCI_ANY_ID None None pci_default_setup None]"

definition pci_serial_quirks :: "(string \<Rightarrow> u32) \<Rightarrow> pci_serial_quirk list" where
  "pci_serial_quirks pid = pci_serial_quirks_a pid @ pci_serial_quirks_b pid @ pci_serial_quirks_c pid @ pci_serial_quirks_d pid"

end
