(* ===== verification/Linux_Pci_Boards.thy ===== *)
theory Linux_Pci_Boards
  imports Linux_Pci
begin

text \<open>
  The board table of \<open>8250_pci.c\<close>: \<open>pci_boards\<close> in the order of the enumeration \<open>pci_board_num_t\<close>
  that indexes it, each board with its name. The fields of \<open>mk_board\<close> are the BAR, whether ports use
  successive BARs, whether there is no interrupt, whether the region's size caps the number of ports,
  the number of ports, the base rate, the distance of the ports, the register shift and the first
  offset.
\<close>

definition mk_board :: "nat \<Rightarrow> bool \<Rightarrow> bool \<Rightarrow> bool \<Rightarrow> u32 \<Rightarrow> u32 \<Rightarrow> u32 \<Rightarrow> nat \<Rightarrow> u32 \<Rightarrow> pciserial_board" where
  "mk_board base bars noirq cap n baud off shift first =
     \<lparr>fl_base = base, fl_bars = bars, fl_noirq = noirq, fl_cap = cap, num_ports = n, base_baud = baud, uart_offset = off,
      reg_shift = shift, first_offset = first\<rparr>"

definition pci_boards_a :: "(string \<times> pciserial_board) list" where
  "pci_boards_a =
     [(''pbn_default'', mk_board 0 False False False 1 115200 8 0 0),
      (''pbn_b0_1_115200'', mk_board 0 False False False 1 115200 8 0 0),
      (''pbn_b0_2_115200'', mk_board 0 False False False 2 115200 8 0 0),
      (''pbn_b0_4_115200'', mk_board 0 False False False 4 115200 8 0 0),
      (''pbn_b0_5_115200'', mk_board 0 False False False 5 115200 8 0 0),
      (''pbn_b0_8_115200'', mk_board 0 False False False 8 115200 8 0 0),
      (''pbn_b0_1_921600'', mk_board 0 False False False 1 921600 8 0 0),
      (''pbn_b0_2_921600'', mk_board 0 False False False 2 921600 8 0 0),
      (''pbn_b0_4_921600'', mk_board 0 False False False 4 921600 8 0 0),
      (''pbn_b0_2_1130000'', mk_board 0 False False False 2 1130000 8 0 0),
      (''pbn_b0_4_1152000'', mk_board 0 False False False 4 1152000 8 0 0),
      (''pbn_b0_2_1843200'', mk_board 0 False False False 2 1843200 8 0 0),
      (''pbn_b0_4_1843200'', mk_board 0 False False False 4 1843200 8 0 0),
      (''pbn_b0_2_1843200_200'', mk_board 0 False False False 2 1843200 0x200 0 0),
      (''pbn_b0_4_1843200_200'', mk_board 0 False False False 4 1843200 0x200 0 0),
      (''pbn_b0_8_1843200_200'', mk_board 0 False False False 8 1843200 0x200 0 0),
      (''pbn_b0_1_4000000'', mk_board 0 False False False 1 4000000 8 0 0),
      (''pbn_b0_bt_1_115200'', mk_board 0 True False False 1 115200 8 0 0),
      (''pbn_b0_bt_2_115200'', mk_board 0 True False False 2 115200 8 0 0),
      (''pbn_b0_bt_4_115200'', mk_board 0 True False False 4 115200 8 0 0),
      (''pbn_b0_bt_8_115200'', mk_board 0 True False False 8 115200 8 0 0),
      (''pbn_b0_bt_1_460800'', mk_board 0 True False False 1 460800 8 0 0),
      (''pbn_b0_bt_2_460800'', mk_board 0 True False False 2 460800 8 0 0)]"

definition pci_boards_b :: "(string \<times> pciserial_board) list" where
  "pci_boards_b =
     [(''pbn_b0_bt_4_460800'', mk_board 0 True False False 4 460800 8 0 0),
      (''pbn_b0_bt_1_921600'', mk_board 0 True False False 1 921600 8 0 0),
      (''pbn_b0_bt_2_921600'', mk_board 0 True False False 2 921600 8 0 0),
      (''pbn_b0_bt_4_921600'', mk_board 0 True False False 4 921600 8 0 0),
      (''pbn_b0_bt_8_921600'', mk_board 0 True False False 8 921600 8 0 0),
      (''pbn_b1_1_115200'', mk_board 1 False False False 1 115200 8 0 0),
      (''pbn_b1_2_115200'', mk_board 1 False False False 2 115200 8 0 0),
      (''pbn_b1_4_115200'', mk_board 1 False False False 4 115200 8 0 0),
      (''pbn_b1_8_115200'', mk_board 1 False False False 8 115200 8 0 0),
      (''pbn_b1_16_115200'', mk_board 1 False False False 16 115200 8 0 0),
      (''pbn_b1_1_921600'', mk_board 1 False False False 1 921600 8 0 0),
      (''pbn_b1_2_921600'', mk_board 1 False False False 2 921600 8 0 0),
      (''pbn_b1_4_921600'', mk_board 1 False False False 4 921600 8 0 0),
      (''pbn_b1_8_921600'', mk_board 1 False False False 8 921600 8 0 0),
      (''pbn_b1_2_1250000'', mk_board 1 False False False 2 1250000 8 0 0),
      (''pbn_b1_bt_1_115200'', mk_board 1 True False False 1 115200 8 0 0),
      (''pbn_b1_bt_2_115200'', mk_board 1 True False False 2 115200 8 0 0),
      (''pbn_b1_bt_4_115200'', mk_board 1 True False False 4 115200 8 0 0),
      (''pbn_b1_bt_2_921600'', mk_board 1 True False False 2 921600 8 0 0),
      (''pbn_b1_1_1382400'', mk_board 1 False False False 1 1382400 8 0 0),
      (''pbn_b1_2_1382400'', mk_board 1 False False False 2 1382400 8 0 0),
      (''pbn_b1_4_1382400'', mk_board 1 False False False 4 1382400 8 0 0),
      (''pbn_b1_8_1382400'', mk_board 1 False False False 8 1382400 8 0 0)]"

definition pci_boards_c :: "(string \<times> pciserial_board) list" where
  "pci_boards_c =
     [(''pbn_b2_1_115200'', mk_board 2 False False False 1 115200 8 0 0),
      (''pbn_b2_2_115200'', mk_board 2 False False False 2 115200 8 0 0),
      (''pbn_b2_4_115200'', mk_board 2 False False False 4 115200 8 0 0),
      (''pbn_b2_8_115200'', mk_board 2 False False False 8 115200 8 0 0),
      (''pbn_b2_1_460800'', mk_board 2 False False False 1 460800 8 0 0),
      (''pbn_b2_4_460800'', mk_board 2 False False False 4 460800 8 0 0),
      (''pbn_b2_8_460800'', mk_board 2 False False False 8 460800 8 0 0),
      (''pbn_b2_16_460800'', mk_board 2 False False False 16 460800 8 0 0),
      (''pbn_b2_1_921600'', mk_board 2 False False False 1 921600 8 0 0),
      (''pbn_b2_4_921600'', mk_board 2 False False False 4 921600 8 0 0),
      (''pbn_b2_8_921600'', mk_board 2 False False False 8 921600 8 0 0),
      (''pbn_b2_8_1152000'', mk_board 2 False False False 8 1152000 8 0 0),
      (''pbn_b2_bt_1_115200'', mk_board 2 True False False 1 115200 8 0 0),
      (''pbn_b2_bt_2_115200'', mk_board 2 True False False 2 115200 8 0 0),
      (''pbn_b2_bt_4_115200'', mk_board 2 True False False 4 115200 8 0 0),
      (''pbn_b2_bt_2_921600'', mk_board 2 True False False 2 921600 8 0 0),
      (''pbn_b2_bt_4_921600'', mk_board 2 True False False 4 921600 8 0 0),
      (''pbn_b3_2_115200'', mk_board 3 False False False 2 115200 8 0 0),
      (''pbn_b3_4_115200'', mk_board 3 False False False 4 115200 8 0 0),
      (''pbn_b3_8_115200'', mk_board 3 False False False 8 115200 8 0 0),
      (''pbn_b4_bt_2_921600'', mk_board 4 False False False 2 921600 8 0 0),
      (''pbn_b4_bt_4_921600'', mk_board 4 False False False 4 921600 8 0 0),
      (''pbn_b4_bt_8_921600'', mk_board 4 False False False 8 921600 8 0 0)]"

definition pci_boards_d :: "(string \<times> pciserial_board) list" where
  "pci_boards_d =
     [(''pbn_panacom'', mk_board 2 False False False 2 921600 0x400 7 0),
      (''pbn_panacom2'', mk_board 2 True False False 2 921600 0x400 7 0),
      (''pbn_panacom4'', mk_board 2 True False False 4 921600 0x400 7 0),
      (''pbn_exsys_4055'', mk_board 2 False False False 4 115200 8 0 0),
      (''pbn_plx_romulus'', mk_board 2 False False False 4 921600 32 2 0x03),
      (''pbn_oxsemi'', mk_board 0 False False True 32 115200 8 0 0),
      (''pbn_oxsemi_1_4000000'', mk_board 0 False False False 1 4000000 0x200 0 0x1000),
      (''pbn_oxsemi_2_4000000'', mk_board 0 False False False 2 4000000 0x200 0 0x1000),
      (''pbn_oxsemi_4_4000000'', mk_board 0 False False False 4 4000000 0x200 0 0x1000),
      (''pbn_oxsemi_8_4000000'', mk_board 0 False False False 8 4000000 0x200 0 0x1000),
      (''pbn_intel_i960'', mk_board 0 False False False 32 921600 32 2 0x10000),
      (''pbn_sgi_ioc3'', mk_board 0 False True False 1 458333 8 0 0x20178),
      (''pbn_computone_4'', mk_board 0 False False False 4 921600 0x40 2 0x200),
      (''pbn_computone_6'', mk_board 0 False False False 6 921600 0x40 2 0x200),
      (''pbn_computone_8'', mk_board 0 False False False 8 921600 0x40 2 0x200),
      (''pbn_sbsxrsio'', mk_board 0 False False False 8 460800 256 4 0),
      (''pbn_exar_XR17C152'', mk_board 0 False False False 2 921600 0x200 0 0)]"

definition pci_boards_e :: "(string \<times> pciserial_board) list" where
  "pci_boards_e =
     [(''pbn_exar_XR17C154'', mk_board 0 False False False 4 921600 0x200 0 0),
      (''pbn_exar_XR17C158'', mk_board 0 False False False 8 921600 0x200 0 0),
      (''pbn_exar_ibm_saturn'', mk_board 0 False False False 1 921600 0x200 0 0),
      (''pbn_pasemi_1682M'', mk_board 0 False False False 1 8333333 0 0 0),
      (''pbn_ni8430_2'', mk_board 0 False False False 2 3686400 0x10 0 0x800),
      (''pbn_ni8430_4'', mk_board 0 False False False 4 3686400 0x10 0 0x800),
      (''pbn_ni8430_8'', mk_board 0 False False False 8 3686400 0x10 0 0x800),
      (''pbn_ni8430_16'', mk_board 0 False False False 16 3686400 0x10 0 0x800),
      (''pbn_ADDIDATA_PCIe_1_3906250'', mk_board 0 False False False 1 3906250 0x200 0 0x1000),
      (''pbn_ADDIDATA_PCIe_2_3906250'', mk_board 0 False False False 2 3906250 0x200 0 0x1000),
      (''pbn_ADDIDATA_PCIe_4_3906250'', mk_board 0 False False False 4 3906250 0x200 0 0x1000),
      (''pbn_ADDIDATA_PCIe_8_3906250'', mk_board 0 False False False 8 3906250 0x200 0 0x1000),
      (''pbn_ce4100_1_115200'', mk_board 0 False False False 1 921600 0 2 0),
      (''pbn_omegapci'', mk_board 0 False False False 8 115200 0x200 0 0),
      (''pbn_NETMOS9900_2s_115200'', mk_board 0 False False False 2 115200 0 0 0)]"

definition pci_boards :: "(string \<times> pciserial_board) list" where
  "pci_boards = pci_boards_a @ pci_boards_b @ pci_boards_c @ pci_boards_d @ pci_boards_e"

section \<open>Where the boards' ports are\<close>

text \<open>Every port has a BAR, and its registers are a range of it that does not wrap around.\<close>

definition bars_there :: "pciserial_board \<Rightarrow> bool" where
  "bars_there b \<longleftrightarrow>
     (if fl_bars b then fl_base b + unat (num_ports b) \<le> 6 else fl_base b < 6) \<and>
     unat (first_offset b) + unat (num_ports b) * unat (uart_offset b) + 8 * 2 ^ reg_shift b < 2 ^ 31"

text \<open>The ports of one BAR are as far apart as their registers need.\<close>

definition ports_apart :: "pciserial_board \<Rightarrow> bool" where
  "ports_apart b \<longleftrightarrow> fl_bars b \<or> unat (num_ports b) \<le> 1 \<or> 8 * 2 ^ reg_shift b \<le> unat (uart_offset b)"

lemmas pci_boards_defs = pci_boards_a_def pci_boards_b_def pci_boards_c_def pci_boards_d_def pci_boards_e_def

lemma bars_there_table: "filter (\<lambda>(_, b). \<not> bars_there b) pci_boards =
    [(''pbn_b0_bt_8_115200'', mk_board 0 True False False 8 115200 8 0 0), (''pbn_b0_bt_8_921600'', mk_board 0 True False False 8 921600 8 0 0)]"
  unfolding pci_boards_def filter_append
  by (simp add: pci_boards_defs bars_there_def mk_board_def)

lemma ports_apart_table: "filter (\<lambda>(_, b). \<not> ports_apart b) pci_boards =
    [(''pbn_NETMOS9900_2s_115200'', mk_board 0 False False False 2 115200 0 0 0)]"
  unfolding pci_boards_def filter_append
  by (simp add: pci_boards_defs ports_apart_def mk_board_def)

text \<open>The default layout of a port that is there.\<close>

definition port_place :: "pciserial_board \<Rightarrow> nat \<Rightarrow> nat \<times> nat" where
  "port_place b i =
     (if fl_bars b then (fl_base b + i, unat (first_offset b))
      else (fl_base b, unat (first_offset b) + i * unat (uart_offset b)))"

lemma scast_small:
  assumes "n < 2 ^ 31"
  shows "(scast (of_nat n :: u32) :: u64) = of_nat n"
proof -
  have "int n < 2 ^ 31" using assms by (metis of_nat_less_iff of_nat_numeral of_nat_power)
  then have "sint (of_nat n :: u32) = int n" by (simp add: signed_of_nat signed_take_bit_int_eq_self)
  then show ?thesis by (metis of_int_of_nat_eq of_int_sint)
qed

lemma offset_ok:
  assumes "bars_there b" and "i < unat (num_ports b)" and "\<not> fl_bars b"
  shows "(scast (first_offset b + of_nat i * uart_offset b) :: u64) = of_nat (unat (first_offset b) + i * unat (uart_offset b))"
proof -
  let ?n = "unat (first_offset b) + i * unat (uart_offset b)"
  have "i * unat (uart_offset b) \<le> unat (num_ports b) * unat (uart_offset b)" using assms(2) by (intro mult_le_mono1) simp
  moreover have "unat (first_offset b) + unat (num_ports b) * unat (uart_offset b) + 8 * 2 ^ reg_shift b < 2 ^ 31"
    using assms(1) by (simp add: bars_there_def split: if_splits)
  ultimately have lt: "?n < 2 ^ 31" by linarith
  have eq: "first_offset b + of_nat i * uart_offset b = of_nat ?n" by simp
  show ?thesis unfolding eq by (rule scast_small [OF lt])
qed

text \<open>The template of a port at an offset of a BAR, mapped or not.\<close>

definition port_at :: "pci_bar \<Rightarrow> nat \<Rightarrow> nat \<Rightarrow> uport \<Rightarrow> uport" where
  "port_at r off shift port =
     (if bar_mem r
      then port\<lparr>pt_iotype := UPIO_MEM, pt_iobase := 0, pt_mapbase := bar_start r + of_nat off,
             pt_membase := Some (bar_start r, of_nat off), pt_regshift := shift\<rparr>
      else port\<lparr>pt_iotype := UPIO_PORT, pt_iobase := bar_start r + of_nat off, pt_mapbase := 0, pt_membase := None,
             pt_regshift := 0\<rparr>)"

text \<open>The mapped BARs: none, or the BAR's own address.\<close>

definition bars_ok :: "pci_dev \<Rightarrow> u64 option list \<Rightarrow> bool" where
  "bars_ok dev bars \<longleftrightarrow> length bars = 6 \<and> 6 \<le> length (pd_res dev) \<and>
     (\<forall>i<6. \<forall>base. bars ! i = Some base \<longrightarrow> base = bar_start (pd_res dev ! i))"

lemma setup_port_placed:
  assumes ok: "bars_ok dev bars" and "bar < 6" and "\<And>n. pe_map_ok pe n" and "(scast offset :: u64) = of_nat off"
  shows "\<exists>bars' h'. setup_port pe dev (bars, port, h) bar offset shift = Inr (0, bars', port_at (pd_res dev ! bar) off shift port, h') \<and>
    bars_ok dev bars'"
proof -
  let ?r = "pd_res dev ! bar"
  have len: "bar < length (pd_res dev)" "bar < length bars" using ok assms(2) by (auto simp: bars_ok_def)
  have new: "bars_ok dev (bars[bar := Some (bar_start ?r)])"
    unfolding bars_ok_def
  proof (intro conjI allI impI)
    fix i base
    assume "i < 6" "bars[bar := Some (bar_start ?r)] ! i = Some base"
    then show "base = bar_start (pd_res dev ! i)"
      using ok len(2) by (cases "i = bar") (auto simp: bars_ok_def)
  qed (use ok in \<open>simp_all add: bars_ok_def\<close>)
  show ?thesis
  proof (cases "bar_mem ?r")
    case True
    show ?thesis
    proof (cases "bars ! bar")
      case None
      with True len assms(2-4) new show ?thesis by (simp add: setup_port_def ioremap_def port_at_def)
    next
      case (Some base)
      then have "base = bar_start ?r" using ok assms(2) by (auto simp: bars_ok_def)
      with Some True len assms(2,4) new show ?thesis by (simp add: setup_port_def port_at_def)
    qed
  next
    case False
    with len assms(2,4) ok show ?thesis by (auto simp: setup_port_def port_at_def)
  qed
qed

definition other_layout :: "string list" where
  "other_layout = [''pbn_b0_bt_8_115200'', ''pbn_b0_bt_8_921600'']"

lemma table_bars:
  assumes "(name, b) \<in> set pci_boards" and "name \<notin> set other_layout"
  shows "bars_there b"
proof (rule ccontr)
  assume "\<not> bars_there b"
  with assms(1) have "(name, b) \<in> set (filter (\<lambda>(_, b). \<not> bars_there b) pci_boards)" by simp
  then show False using assms(2) by (auto simp: bars_there_table other_layout_def)
qed

lemma table_apart:
  assumes "(name, b) \<in> set pci_boards" and "name \<noteq> ''pbn_NETMOS9900_2s_115200''"
  shows "ports_apart b"
proof (rule ccontr)
  assume "\<not> ports_apart b"
  with assms(1) have "(name, b) \<in> set (filter (\<lambda>(_, b). \<not> ports_apart b) pci_boards)" by simp
  then show False using assms(2) by (auto simp: ports_apart_table)
qed

lemma places_apart:
  assumes "ports_apart b" and "j < i" and "i < unat (num_ports b)"
  shows "fst (port_place b j) \<noteq> fst (port_place b i) \<or>
    snd (port_place b j) + 8 * 2 ^ reg_shift b \<le> snd (port_place b i)"
proof (cases "fl_bars b")
  case True
  with assms(2) show ?thesis by (simp add: port_place_def)
next
  case False
  with assms have d: "8 * 2 ^ reg_shift b \<le> unat (uart_offset b)" by (auto simp: ports_apart_def)
  have "(j + 1) * unat (uart_offset b) \<le> i * unat (uart_offset b)" using assms(2) by (intro mult_le_mono1) simp
  with d False show ?thesis by (simp add: port_place_def)
qed

text \<open>
  C34. The default layout places every port of the board table, for the boards whose number of ports the size of the
  region does not cap, on a device with six BARs whose memory can be mapped. Port i of a board lies in the BAR and at
  the offset that the entry's flags and fields give: with FL_BASE_BARS in the BAR i behind its base, at the first
  offset; else in the BAR of its base, i times the port offset behind the first. \<open>pci_default_setup\<close> returns 0 there
  with this address in the port, the BAR is one that the device has, and the registers of two ports of a board never
  overlap. The exceptions are the two boards with eight successive BARs, which their ids combine with other layouts,
  and, for the overlap, the NetMos board without an offset, whose two ports coincide. The pbn_b4_bt_* boards, too, are
  placed by offsets in BAR 4, as their flags say, though the comment over the enumeration takes bt for a BAR per port.
\<close>

theorem board_ports_placed:
  assumes "(name, b) \<in> set pci_boards" and "name \<notin> set other_layout" and "i < unat (num_ports b)"
    and "bars_ok dev bars" and "\<And>n. pe_map_ok pe n" and "\<not> fl_cap b"
  shows "\<exists>bars' h'. fst (port_place b i) < 6 \<and>
    pci_default_setup pe dev b (bars, port, h) i =
      Inr (0, bars', port_at (pd_res dev ! fst (port_place b i)) (snd (port_place b i)) (reg_shift b) port, h') \<and>
    bars_ok dev bars' \<and>
    (name \<noteq> ''pbn_NETMOS9900_2s_115200'' \<longrightarrow>
      (\<forall>j<i. fst (port_place b j) \<noteq> fst (port_place b i) \<or>
         snd (port_place b j) + 8 * 2 ^ reg_shift b \<le> snd (port_place b i)))"
proof -
  have there: "bars_there b" by (rule table_bars [OF assms(1,2)])
  have bar: "fst (port_place b i) < 6" using there assms(3) by (auto simp: bars_there_def port_place_def split: if_splits)
  then have res: "fst (port_place b i) < length (pd_res dev)" using assms(4) by (auto simp: bars_ok_def)
  let ?off = "if fl_bars b then first_offset b else first_offset b + of_nat i * uart_offset b"
  have off: "(scast ?off :: u64) = of_nat (snd (port_place b i))"
  proof (cases "fl_bars b")
    case True
    have "unat (first_offset b) < 2 ^ 31" using there by (simp add: bars_there_def split: if_splits)
    from scast_small [OF this] True show ?thesis by (simp add: port_place_def)
  next
    case False
    with offset_ok [OF there assms(3) False] show ?thesis by (simp add: port_place_def)
  qed
  have "pci_default_setup pe dev b (bars, port, h) i =
      setup_port pe dev (bars, port, h) (fst (port_place b i)) ?off (reg_shift b)"
    using res assms(6) by (cases "fl_bars b") (simp_all add: pci_default_setup_def port_place_def Let_def)
  moreover obtain bars' h' where "setup_port pe dev (bars, port, h) (fst (port_place b i)) ?off (reg_shift b) =
      Inr (0, bars', port_at (pd_res dev ! fst (port_place b i)) (snd (port_place b i)) (reg_shift b) port, h')" "bars_ok dev bars'"
    using setup_port_placed [OF assms(4) bar assms(5) off] by blast
  ultimately show ?thesis using bar places_apart [OF table_apart [OF assms(1)] _ assms(3)] by auto
qed

definition pci_dev0 :: pci_dev where
  "pci_dev0 = \<lparr>pd_vendor = 0x1234, pd_device = 0x5678, pd_subvendor = 0, pd_subdevice = 0, pd_class = 0x070002, pd_irq = 11,
     pd_num = 1, pd_res = replicate 6 \<lparr>bar_io = True, bar_mem = False, bar_start = 0xC000, bar_len = 8\<rparr>\<rparr>"

definition penv0 :: penv where
  "penv0 = \<lparr>pe_id = (\<lambda>_. 0), pe_in = (\<lambda>_. 0), pe_map_ok = (\<lambda>_. True), pe_region_free = (\<lambda>_. True), pe_kzalloc = True,
     pe_enable = 0, pe_pch_uart = False, pe_kport = kport0, pe_nr_uarts = 2, pe_stack = 0\<rparr>"

definition hw0 :: hw where
  "hw0 = \<lparr>hw_ports = two_slots, hw_maps = [], hw_regions = [], hw_enabled = 0, hw_nmap = 0, hw_nin = 0, hw_log = []\<rparr>"

lemma bars_none: "bars_ok pci_dev0 (replicate 6 None)"
  by (simp add: bars_ok_def pci_dev0_def)

theorem board_ports_placed_witness:
  "\<exists>bars' h'. pci_default_setup penv0 pci_dev0 (mk_board 0 True False False 4 115200 8 0 0) (replicate 6 None, port_com1, hw0) 3 =
    Inr (0, bars', port_com1\<lparr>pt_iobase := 0xC000\<rparr>, h')"
proof -
  have "(''pbn_b0_bt_4_115200'', mk_board 0 True False False 4 115200 8 0 0) \<in> set pci_boards"
    by (simp add: pci_boards_def pci_boards_a_def)
  from board_ports_placed [OF this _ _ bars_none, of 3 penv0 port_com1 hw0]
  obtain bars' h' where "pci_default_setup penv0 pci_dev0 (mk_board 0 True False False 4 115200 8 0 0) (replicate 6 None, port_com1, hw0) 3 =
      Inr (0, bars', port_at (pd_res pci_dev0 ! 3) 0 0 port_com1, h')"
    by (auto simp: other_layout_def mk_board_def port_place_def penv0_def)
  moreover have "port_at (pd_res pci_dev0 ! 3) 0 0 port_com1 = port_com1\<lparr>pt_iobase := 0xC000\<rparr>"
    by (simp add: port_at_def pci_dev0_def port_com1_def)
  ultimately show ?thesis by simp
qed

end
