(* ===== verification/Linux_Pci_Driver.thy ===== *)
theory Linux_Pci_Driver
  imports Linux_Pci_Quirks Linux_Pci_Boards
begin

unbundle bit_operations_syntax

text \<open>
  The PCI driver of \<open>8250_pci.c\<close> itself: choosing a quirk, guessing a board, \<open>pciserial_init_ports\<close> and
  \<open>pciserial_remove_ports\<close>, \<open>pciserial_init_one\<close> and \<open>pciserial_remove_one\<close>. Ports are registered with the
  driver of \<open>Linux_Ports\<close>. Suspension and the recovery from bus errors are left out.
\<close>

section \<open>Choosing a quirk and guessing a board\<close>

definition quirk_id_matches :: "u32 \<Rightarrow> u32 \<Rightarrow> bool" where
  "quirk_id_matches quirk_id dev_id \<longleftrightarrow> quirk_id = PCI_ANY_ID \<or> quirk_id = dev_id"

definition quirk_matches :: "pci_serial_quirk \<Rightarrow> pci_dev \<Rightarrow> bool" where
  "quirk_matches q dev \<longleftrightarrow>
     quirk_id_matches (q_vendor q) (pd_vendor dev) \<and> quirk_id_matches (q_device q) (pd_device dev) \<and>
     quirk_id_matches (q_subvendor q) (pd_subvendor dev) \<and> quirk_id_matches (q_subdevice q) (pd_subdevice dev)"

text \<open>The walk has no bound of its own.\<close>

fun find_quirk :: "pci_serial_quirk list \<Rightarrow> pci_dev \<Rightarrow> pci_serial_quirk res" where
  "find_quirk [] dev = Inl OutOfBounds"
| "find_quirk (q # qs) dev = (if quirk_matches q dev then Inr q else find_quirk qs dev)"

definition get_pci_irq :: "pci_dev \<Rightarrow> pciserial_board \<Rightarrow> nat" where
  "get_pci_irq dev board = (if fl_noirq board then 0 else pd_irq dev)"

definition softmodem_blacklist :: "(string \<Rightarrow> u32) \<Rightarrow> (u32 \<times> u32) list" where
  "softmodem_blacklist pid = [(pid ''PCI_VENDOR_ID_AL'', 0x5457), (pid ''PCI_VENDOR_ID_MOTOROLA'', 0x3052), (0x1543, 0x3052)]"

text \<open>
  The two loops over the BARs: \<open>i\<close> is the number of the first BAR left; the results are the numbers of
  memory and port BARs with the first port BAR (\<open>None\<close> for \<open>- 1\<close>), and the run of port BARs of eight
  bytes.
\<close>

fun count_bars :: "nat \<Rightarrow> pci_bar list \<Rightarrow> nat \<times> nat \<times> nat option \<Rightarrow> nat \<times> nat \<times> nat option" where
  "count_bars i [] acc = acc"
| "count_bars i (b # bs) (num_iomem, num_port, first_port) =
     count_bars (i + 1) bs
       (if bar_mem b then num_iomem + 1 else num_iomem,
        if bar_io b then num_port + 1 else num_port,
        if bar_io b \<and> first_port = None then Some i else first_port)"

fun run_bars :: "nat \<Rightarrow> pci_bar list \<Rightarrow> nat \<times> nat option \<Rightarrow> nat \<times> nat option" where
  "run_bars i [] acc = acc"
| "run_bars i (b # bs) (num_port, first_port) =
     run_bars (i + 1) bs
       (if bar_io b \<and> bar_len b = 8 \<and> (case first_port of None \<Rightarrow> True | Some f \<Rightarrow> f + num_port = i)
        then (num_port + 1, case first_port of None \<Rightarrow> Some i | Some f \<Rightarrow> Some f)
        else (num_port, first_port))"

definition serial_pci_guess_board :: "penv \<Rightarrow> pci_dev \<Rightarrow> pciserial_board \<Rightarrow> int \<times> pciserial_board" where
  "serial_pci_guess_board pe dev board =
     (let class = drop_bit 8 (pd_class dev) in
      if class \<noteq> pe_id pe ''PCI_CLASS_COMMUNICATION_SERIAL'' \<and> class \<noteq> pe_id pe ''PCI_CLASS_COMMUNICATION_MODEM'' \<or>
         6 < pd_class dev AND 0xff
      then (- 19, board)
      else if (pd_vendor dev, pd_device dev) \<in> set (softmodem_blacklist (pe_id pe)) then (- 19, board)
      else
        let (num_iomem, num_port, first_port) = count_bars 0 (take PCI_NUM_BAR_RESOURCES (pd_res dev)) (0, 0, None) in
        if num_iomem \<le> 1 \<and> num_port = 1 then
          (0, board\<lparr>fl_base := the first_port, fl_bars := False, fl_noirq := False, fl_cap := False,
                    num_ports := ucast (bar_len (pd_res dev ! the first_port) div 8)\<rparr>)
        else
          let (num_port, first_port) = run_bars 0 (take PCI_NUM_BAR_RESOURCES (pd_res dev)) (0, None) in
          if 1 < num_port then
            (0, board\<lparr>fl_base := the first_port, fl_bars := True, fl_noirq := False, fl_cap := False,
                      num_ports := of_nat num_port\<rparr>)
          else (- 19, board))"

definition serial_pci_matches :: "pciserial_board \<Rightarrow> pciserial_board \<Rightarrow> bool" where
  "serial_pci_matches board guessed \<longleftrightarrow>
     num_ports board = num_ports guessed \<and> base_baud board = base_baud guessed \<and> uart_offset board = uart_offset guessed \<and>
     reg_shift board = reg_shift guessed \<and> first_offset board = first_offset guessed"

section \<open>Ports\<close>

record serial_private =
  sp_lines :: "int list"
  sp_bars :: "u64 option list"

text \<open>The template that \<open>memset\<close> and the first assignments give.\<close>

definition port_template :: "pci_dev \<Rightarrow> pciserial_board \<Rightarrow> uport" where
  "port_template dev board =
     \<lparr>pt_iotype = UPIO_PORT, pt_iobase = 0, pt_mapbase = 0, pt_membase = None, pt_hub6 = 0, pt_regshift = 0,
      pt_irq = get_pci_irq dev board, pt_uartclk = base_baud board * 16, pt_fifosize = 0, pt_type = PORT_UNKNOWN,
      pt_dev = Some (pd_num dev), pt_boot_autoconf = True, pt_skip_test = True, pt_share_irq = True, pt_fixed_type = False,
      pt_fixed_port = False, pt_ioremap = False, pt_auto_irq = False, pt_no_txen_test = False, pt_bug_thre = False,
      pt_exar_efr = False, pt_dead = False, pt_caps = 0, pt_tx_loadsz = 0, pt_nomsr = False\<rparr>"

fun init_ports_loop :: "penv \<Rightarrow> pci_dev \<Rightarrow> pciserial_board \<Rightarrow> pci_serial_quirk \<Rightarrow> nat \<Rightarrow> nat \<Rightarrow> int list \<Rightarrow> setup_state \<Rightarrow>
    (serial_private \<times> hw) res" where
  "init_ports_loop pe dev board q 0 i lines (bars, port, h) = Inr (\<lparr>sp_lines = lines, sp_bars = bars\<rparr>, h)"
| "init_ports_loop pe dev board q (Suc n) i lines (bars, port, h) =
     rbind (q_setup q pe dev board (bars, port, h) i) (\<lambda>(rc, bars, port, h).
     if rc \<noteq> 0 then Inr (\<lparr>sp_lines = lines, sp_bars = bars\<rparr>, h)
     else
       rbind (serial8250_register_port (pe_kport pe) (pe_nr_uarts pe) port (hw_ports h)) (\<lambda>(line, ports).
       let h = h\<lparr>hw_ports := ports\<rparr>
       in if line < 0 then Inr (\<lparr>sp_lines = lines, sp_bars = bars\<rparr>, h)
          else init_ports_loop pe dev board q n (i + 1) (lines @ [line]) (bars, port, h)))"

definition pciserial_init_ports :: "penv \<Rightarrow> pci_dev \<Rightarrow> pciserial_board \<Rightarrow> hw \<Rightarrow> ((int + serial_private) \<times> hw) res" where
  "pciserial_init_ports pe dev board h =
     rbind (find_quirk (pci_serial_quirks (pe_id pe)) dev) (\<lambda>q.
     let (rc, h) = (case q_init q of None \<Rightarrow> (0, h) | Some init \<Rightarrow> init pe dev h)
     in if rc < 0 then Inr (Inl rc, h)
        else
          let nr_ports = (if rc \<noteq> 0 then rc else sint (num_ports board))
          in if \<not> pe_kzalloc pe then
               Inr (Inl (- 12), case q_exit q of None \<Rightarrow> h | Some exit \<Rightarrow> exit pe dev h)
             else
               rbind (init_ports_loop pe dev board q (nat nr_ports) 0 []
                        (replicate PCI_NUM_BAR_RESOURCES None, port_template dev board, h)) (\<lambda>(priv, h).
               Inr (Inr priv, h)))"

fun unregister_lines :: "penv \<Rightarrow> int list \<Rightarrow> ports \<Rightarrow> ports res" where
  "unregister_lines pe [] st = Inr st"
| "unregister_lines pe (l # ls) st =
     rbind (serial8250_unregister_port (pe_kport pe) (nat l) st) (\<lambda>st. unregister_lines pe ls st)"

definition pciserial_remove_ports :: "penv \<Rightarrow> pci_dev \<Rightarrow> serial_private \<Rightarrow> hw \<Rightarrow> hw res" where
  "pciserial_remove_ports pe dev priv h =
     rbind (unregister_lines pe (sp_lines priv) (hw_ports h)) (\<lambda>ports.
     let h = fold iounmap (sp_bars priv) (h\<lparr>hw_ports := ports\<rparr>)
     in rbind (find_quirk (pci_serial_quirks (pe_id pe)) dev) (\<lambda>q.
        Inr (case q_exit q of None \<Rightarrow> h | Some exit \<Rightarrow> exit pe dev h)))"

section \<open>The PCI driver\<close>

text \<open>
  \<open>driver_data\<close> is the board number of the table entry that matched. The result is an error, or the
  private data of the device.
\<close>

definition pciserial_init_one :: "penv \<Rightarrow> pci_dev \<Rightarrow> nat \<Rightarrow> hw \<Rightarrow> ((int + serial_private) \<times> hw) res" where
  "pciserial_init_one pe dev driver_data h =
     rbind (find_quirk (pci_serial_quirks (pe_id pe)) dev) (\<lambda>q.
     let rc = (case q_probe q of None \<Rightarrow> 0 | Some probe \<Rightarrow> probe dev)
     in if rc \<noteq> 0 then Inr (Inl rc, h)
        else if length pci_boards \<le> driver_data then Inr (Inl (- 22), h)
        else if pe_enable pe \<noteq> 0 then Inr (Inl (pe_enable pe), h)
        else
          let h = h\<lparr>hw_enabled := hw_enabled h + 1\<rparr>;
              board = snd (pci_boards ! driver_data);
              (rc, guessed) = serial_pci_guess_board pe dev (snd (pci_boards ! 0))
          in if driver_data = 0 \<and> rc \<noteq> 0 then Inr (Inl rc, h\<lparr>hw_enabled := hw_enabled h - 1\<rparr>)
             else
               rbind (pciserial_init_ports pe dev (if driver_data = 0 then guessed else board) h) (\<lambda>(r, h).
               case r of
                 Inr priv \<Rightarrow> Inr (Inr priv, h)
               | Inl rc \<Rightarrow> Inr (Inl rc, h\<lparr>hw_enabled := hw_enabled h - 1\<rparr>)))"

definition pciserial_remove_one :: "penv \<Rightarrow> pci_dev \<Rightarrow> serial_private \<Rightarrow> hw \<Rightarrow> hw res" where
  "pciserial_remove_one pe dev priv h =
     rbind (pciserial_remove_ports pe dev priv h) (\<lambda>h. Inr (h\<lparr>hw_enabled := hw_enabled h - 1\<rparr>))"

end
