(* ===== verification/Linux_Pci_Inv.thy ===== *)
theory Linux_Pci_Inv
  imports Linux_Pci_Driver
begin

unbundle bit_operations_syntax

text \<open>
  Probing and removing a serial PCI board balance. The locale \<open>port_setup\<close> is the contract between
  \<open>pciserial_init_ports\<close> and the \<open>setup\<close> functions of the quirks; it is interpreted on all of them but
  that of the CE4100, which gives ports a fixed type. The other functions of a quirk keep what is
  mapped, the lines and the number of times the device is enabled.
\<close>

section \<open>What is mapped\<close>

definition bar_maps :: "u64 option list \<Rightarrow> u64 multiset" where
  "bar_maps bars = mset (concat (map (\<lambda>m. case m of None \<Rightarrow> [] | Some base \<Rightarrow> [base]) bars))"

lemma bar_maps_none [simp]: "bar_maps (replicate n None) = {#}"
  by (induction n) (simp_all add: bar_maps_def)

lemma bar_maps_Cons [simp]:
  "bar_maps [] = {#}" "bar_maps (None # bars) = bar_maps bars" "bar_maps (Some base # bars) = add_mset base (bar_maps bars)"
  by (simp_all add: bar_maps_def)

lemma bar_maps_map:
  assumes "i < length bars" and "bars ! i = None"
  shows "bar_maps (bars[i := Some base]) = add_mset base (bar_maps bars)"
  unfolding bar_maps_def
  by (subst mset_concat_fill) (use assms in simp_all)

lemma unmap_bars:
  assumes "mset (hw_maps h) = bar_maps bars + M"
  shows "\<exists>maps. fold iounmap bars h = h\<lparr>hw_maps := maps\<rparr> \<and> mset maps = M"
  using assms
proof (induction bars arbitrary: h)
  case Nil
  then show ?case by (intro exI [of _ "hw_maps h"]) simp
next
  case (Cons m bars)
  show ?case
  proof (cases m)
    case None
    with Cons show ?thesis by (simp add: iounmap_def)
  next
    case (Some base)
    let ?h = "h\<lparr>hw_maps := remove1 base (hw_maps h)\<rparr>"
    have "mset (hw_maps ?h) = bar_maps bars + M" using Cons.prems Some by simp
    from Cons.IH [OF this] Some show ?thesis by (auto simp: iounmap_def)
  qed
qed

text \<open>
  What becomes of the lines of a board: registered, they have a port of the device, and the others are as they
  were; unregistered, they have no chip and belong to the platform device, if there is one.
\<close>

definition lines_on :: "nat \<Rightarrow> int list \<Rightarrow> ports \<Rightarrow> ports \<Rightarrow> bool" where
  "lines_on dev ls st st' \<longleftrightarrow> length (ps_slots st') = length (ps_slots st) \<and> length (ps_attached st') = length (ps_attached st) \<and>
     ps_isa st' = ps_isa st \<and>
     (\<forall>l \<in> set ls. 0 \<le> l \<and> nat l < length (ps_slots st) \<and> ps_attached st' ! nat l \<and> pt_dev (ps_slots st' ! nat l) = Some dev) \<and>
     (\<forall>i < length (ps_slots st). int i \<notin> set ls \<longrightarrow> ps_slots st' ! i = ps_slots st ! i \<and> ps_attached st' ! i = ps_attached st ! i)"

definition lines_off :: "int list \<Rightarrow> ports \<Rightarrow> ports \<Rightarrow> bool" where
  "lines_off ls st st' \<longleftrightarrow> length (ps_slots st') = length (ps_slots st) \<and> length (ps_attached st') = length (ps_attached st) \<and>
     ps_isa st' = ps_isa st \<and>
     (\<forall>i < length (ps_slots st).
        if int i \<in> set ls then pt_type (ps_slots st' ! i) = PORT_UNKNOWN \<and> pt_dev (ps_slots st' ! i) = ps_isa st \<and>
          ps_attached st' ! i = (ps_isa st \<noteq> None)
        else ps_slots st' ! i = ps_slots st ! i \<and> ps_attached st' ! i = ps_attached st ! i)"

lemma lines_on_none [simp]: "lines_on dev [] st st"
  by (simp add: lines_on_def)

lemma lines_on_refl: "lines_on dev ls st0 st \<Longrightarrow> ps_slots st' = ps_slots st \<Longrightarrow> ps_attached st' = ps_attached st \<Longrightarrow>
    ps_isa st' = ps_isa st \<Longrightarrow> lines_on dev ls st0 st'"
  by (simp add: lines_on_def)

lemma lines_on_more:
  assumes "lines_on dev ls st0 st" and "i < length (ps_slots st)" and "length (ps_attached st) = length (ps_slots st)"
    and "ps_slots st' = (ps_slots st)[i := q]" and "ps_attached st' = (ps_attached st)[i := True]" and "ps_isa st' = ps_isa st"
    and "pt_dev q = Some dev"
  shows "lines_on dev (ls @ [int i]) st0 st'"
  using assms by (auto simp: lines_on_def nth_list_update)

lemma lines_off_step:
  assumes "lines_off ls st1 st2" and "i < length (ps_slots st)" and "length (ps_attached st) = length (ps_slots st)"
    and "ps_slots st1 = (ps_slots st)[i := q]" and "ps_attached st1 = (ps_attached st)[i := ps_isa st \<noteq> None]" and "ps_isa st1 = ps_isa st"
    and "pt_type q = PORT_UNKNOWN" and "pt_dev q = ps_isa st" and "nat l = i" and "0 \<le> l"
  shows "lines_off (l # ls) st st2"
proof -
  have l: "l = int i" using assms(9,10) by simp
  show ?thesis using assms(1-8) unfolding l lines_off_def by (auto simp: nth_list_update split: if_splits)
qed

lemma lines_on_off: "lines_on dev ls st st1 \<Longrightarrow> lines_off ls st1 st2 \<Longrightarrow> lines_off ls st st2"
  by (simp add: lines_on_def lines_off_def)

definition same_outside :: "hw \<Rightarrow> hw \<Rightarrow> bool" where
  "same_outside h h' \<longleftrightarrow> hw_ports h' = hw_ports h \<and> hw_enabled h' = hw_enabled h \<and> hw_regions h' = hw_regions h"

definition hw_keeps :: "hw \<Rightarrow> hw \<Rightarrow> bool" where
  "hw_keeps h h' \<longleftrightarrow> hw_ports h' = hw_ports h \<and> hw_enabled h' = hw_enabled h \<and> mset (hw_maps h') = mset (hw_maps h)"

section \<open>The contract of the setup functions\<close>

text \<open>A device has more resources than its six BARs, and a board starts in one of the BARs.\<close>

definition dev_ok :: "pci_dev \<Rightarrow> pciserial_board \<Rightarrow> bool" where
  "dev_ok dev board \<longleftrightarrow> 7 \<le> length (pd_res dev) \<and> fl_base board \<le> 5"

definition setup_keeps :: "u64 option list \<Rightarrow> uport \<Rightarrow> hw \<Rightarrow> u64 option list \<Rightarrow> uport \<Rightarrow> hw \<Rightarrow> bool" where
  "setup_keeps bars port h bars' port' h' \<longleftrightarrow>
     length bars' = 6 \<and> mset (hw_maps h') + bar_maps bars = mset (hw_maps h) + bar_maps bars' \<and>
     same_outside h h' \<and> pt_fixed_type port' = pt_fixed_type port \<and> pt_dev port' = pt_dev port"

text \<open>\<open>safe\<close> says which ports may be set up: the first, and each whose predecessor was.\<close>

locale port_setup =
  fixes su :: "penv \<Rightarrow> pci_dev \<Rightarrow> pciserial_board \<Rightarrow> setup_state \<Rightarrow> nat \<Rightarrow> (int \<times> setup_state) res"
    and safe :: "penv \<Rightarrow> pci_dev \<Rightarrow> pciserial_board \<Rightarrow> nat \<Rightarrow> bool"
  assumes setup_returns: "dev_ok dev board \<Longrightarrow> safe pe dev board i \<Longrightarrow> length bars = 6 \<Longrightarrow>
    \<exists>rc bars' port' h'. su pe dev board (bars, port, h) i = Inr (rc, bars', port', h') \<and>
      setup_keeps bars port h bars' port' h' \<and> (rc = 0 \<longrightarrow> safe pe dev board (Suc i))"
begin

text \<open>Registering a board's ports keeps the state of the ports, and the mappings are those noted.\<close>

lemma init_loop:
  assumes "dev_ok dev board" and "\<And>i q. kp_found (pe_kport pe) i q \<noteq> PORT_RSA"
    and "safe pe dev board i" and "length bars = 6" and "\<not> pt_fixed_type port" and "ports_reach F G (hw_ports h)"
    and "lines_on k lines st0 (hw_ports h)" and "mset (hw_maps h) = bar_maps bars + M" and "pt_dev port = Some k" and "q_setup q = su"
  shows "\<exists>priv h'. init_ports_loop pe dev board q n i lines (bars, port, h) = Inr (priv, h') \<and>
    ports_reach F G (hw_ports h') \<and> lines_on k (sp_lines priv) st0 (hw_ports h') \<and>
    mset (hw_maps h') = bar_maps (sp_bars priv) + M \<and> hw_enabled h' = hw_enabled h \<and> hw_regions h' = hw_regions h"
  using assms(3-9)
proof (induction n arbitrary: i lines bars port h)
  case 0
  then show ?case by simp
next
  case (Suc n)
  obtain rc bars1 port1 h1 where s: "su pe dev board (bars, port, h) i = Inr (rc, bars1, port1, h1)"
      "setup_keeps bars port h bars1 port1 h1" "rc = 0 \<longrightarrow> safe pe dev board (Suc i)"
    using setup_returns [OF assms(1) Suc.prems(1,2)] by blast
  note k = s(2) [unfolded setup_keeps_def same_outside_def]
  have maps: "mset (hw_maps h1) = bar_maps bars1 + M" using k Suc.prems(6) by (auto simp: ac_simps)
  show ?case
  proof (cases "rc = 0")
    case False
    with s(1) k maps Suc.prems(4,5) assms(10) show ?thesis by simp
  next
    case True
    have ok: "ports_ok F G (hw_ports h1)" using ports_reach_ok Suc.prems(4) k by simp
    have fx: "\<not> pt_fixed_type port1" "pt_dev port1 = Some k" using k Suc.prems(3,7) by simp_all
    obtain r st where reg: "serial8250_register_port (pe_kport pe) (pe_nr_uarts pe) port1 (hw_ports h1) = Inr (r, st)"
        "ps_isa st = ps_isa (hw_ports h1)"
        "case serial8250_find_match_or_unused (pe_nr_uarts pe) (ps_slots (hw_ports h1)) port1 of
           None \<Rightarrow> r < 0 \<and> st = hw_ports h1
         | Some i \<Rightarrow> if pt_uartclk port1 = 0 then r < 0 \<and> st = hw_ports h1
                     else r = int i \<and> ps_attached st ! i \<and> ps_attached st = (ps_attached (hw_ports h1))[i := True] \<and>
                       (\<exists>q. ps_slots st = (ps_slots (hw_ports h1))[i := q] \<and> same_place q port1 \<and> (pt_dev port1 \<noteq> None \<longrightarrow> pt_dev q = pt_dev port1))"
      using register_ok [OF ok fx(1) assms(2), of "pe_nr_uarts pe"] by blast
    have reach: "ports_reach F G st" by (rule ports_register [OF _ fx(1) assms(2) reg(1)]) (use k Suc.prems(4) in simp)
    have att: "length (ps_attached (hw_ports h1)) = length (ps_slots (hw_ports h1))" using ok by (simp add: ports_ok_def)
    have on1: "lines_on k lines st0 (hw_ports h1)" using Suc.prems(5) k by simp
    have on: "lines_on k (if r < 0 then lines else lines @ [r]) st0 st"
    proof (cases "serial8250_find_match_or_unused (pe_nr_uarts pe) (ps_slots (hw_ports h1)) port1")
      case None
      with reg(3) on1 show ?thesis by simp
    next
      case (Some j)
      then have "j < length (ps_slots (hw_ports h1))" using find_slot [of "pe_nr_uarts pe" "ps_slots (hw_ports h1)" port1] by simp
      from lines_on_more [OF on1 this att _ _ reg(2)] reg(3) Some fx(2) on1 show ?thesis by (auto split: if_splits)
    qed
    let ?h = "h1\<lparr>hw_ports := st\<rparr>"
    have step: "init_ports_loop pe dev board q (Suc n) i lines (bars, port, h) =
        (if r < 0 then Inr (\<lparr>sp_lines = lines, sp_bars = bars1\<rparr>, ?h)
         else init_ports_loop pe dev board q n (Suc i) (lines @ [r]) (bars1, port1, ?h))"
      using True s(1) reg(1) assms(10) by simp
    show ?thesis
    proof (cases "r < 0")
      case True
      with step reach on maps k show ?thesis by simp
    next
      case False
      have "\<exists>priv h'. init_ports_loop pe dev board q n (Suc i) (lines @ [r]) (bars1, port1, ?h) = Inr (priv, h') \<and>
          ports_reach F G (hw_ports h') \<and> lines_on k (sp_lines priv) st0 (hw_ports h') \<and>
          mset (hw_maps h') = bar_maps (sp_bars priv) + M \<and> hw_enabled h' = hw_enabled ?h \<and> hw_regions h' = hw_regions ?h"
        by (rule Suc.IH) (use True s(3) k fx reach on False maps in auto)
      with step False k show ?thesis by simp
    qed
  qed
qed

end

section \<open>The setup functions keep it\<close>

lemma setup_port_keeps:
  assumes "7 \<le> length (pd_res dev)" and "length bars = 6"
  shows "\<exists>rc bars' port' h'. setup_port pe dev (bars, port, h) bar offset shift = Inr (rc, bars', port', h') \<and>
    setup_keeps bars port h bars' port' h' \<and> (rc = 0 \<longrightarrow> bar < 6)"
proof (cases "bar < 6")
  case False
  with assms(2) show ?thesis by (simp add: setup_port_def setup_keeps_def same_outside_def)
next
  case True
  with assms have len: "bar < length (pd_res dev)" "bar < length bars" by simp_all
  show ?thesis
  proof (cases "bars ! bar")
    case None
    from len(2) None have none: "bars[bar := None] = bars" by (metis list_update_id)
    from True len None none assms(2) show ?thesis
      by (auto simp: setup_port_def setup_keeps_def same_outside_def ioremap_def bar_maps_map)
  next
    case (Some base)
    then have same: "bars[bar := Some base] = bars" by (metis list_update_id)
    from True len Some same assms(2) show ?thesis
      by (simp add: setup_port_def setup_keeps_def same_outside_def)
  qed
qed

definition safe_any :: "penv \<Rightarrow> pci_dev \<Rightarrow> pciserial_board \<Rightarrow> nat \<Rightarrow> bool" where
  "safe_any pe dev board i \<longleftrightarrow> True"

definition safe_bars :: "penv \<Rightarrow> pci_dev \<Rightarrow> pciserial_board \<Rightarrow> nat \<Rightarrow> bool" where
  "safe_bars pe dev board i \<longleftrightarrow> fl_bars board \<longrightarrow> fl_base board + i \<le> 6"

definition safe_netmos :: "penv \<Rightarrow> pci_dev \<Rightarrow> pciserial_board \<Rightarrow> nat \<Rightarrow> bool" where
  "safe_netmos pe dev board i \<longleftrightarrow> pd_subdevice dev AND 0xff00 = 0x3000 \<or> safe_bars pe dev board i"

definition safe_maps :: "penv \<Rightarrow> pci_dev \<Rightarrow> pciserial_board \<Rightarrow> nat \<Rightarrow> bool" where
  "safe_maps pe dev board i \<longleftrightarrow> (\<forall>n. pe_map_ok pe n)"

text \<open>The functions that compute a BAR and an offset, which \<open>setup_port\<close> checks.\<close>

lemma port_setup_any:
  assumes "\<And>pe dev board bars port h i. \<exists>bar offset shift.
    su pe dev board (bars, port, h) i = setup_port pe dev (bars, port, h) bar offset shift \<or>
    su pe dev board (bars, port, h) i = Inr (1, bars, port, h)"
  shows "port_setup su safe_any"
proof
  fix dev board pe i and bars :: "u64 option list" and port h
  assume "dev_ok dev board" "length bars = 6"
  then have keep: "\<exists>rc bars' port' h'. setup_port pe dev (bars, port, h) bar offset shift = Inr (rc, bars', port', h') \<and>
      setup_keeps bars port h bars' port' h'" for bar offset shift
    using setup_port_keeps [of dev bars pe port h bar offset shift] by (auto simp: dev_ok_def)
  have "setup_keeps bars port h bars port h" using \<open>length bars = 6\<close> by (simp add: setup_keeps_def same_outside_def)
  moreover obtain bar offset shift where
    "su pe dev board (bars, port, h) i = setup_port pe dev (bars, port, h) bar offset shift \<or>
     su pe dev board (bars, port, h) i = Inr (1, bars, port, h)"
    using assms by blast
  ultimately show "\<exists>rc bars' port' h'. su pe dev board (bars, port, h) i = Inr (rc, bars', port', h') \<and>
      setup_keeps bars port h bars' port' h' \<and> (rc = 0 \<longrightarrow> safe_any pe dev board (Suc i))"
    using keep [of bar offset shift] by (auto simp: safe_any_def)
qed

interpretation addidata: port_setup addidata_apci7800_setup safe_any
  by (rule port_setup_any) (simp add: addidata_apci7800_setup_def Let_def case_prod_beta, blast)

interpretation afavlab: port_setup afavlab_setup safe_any
  by (rule port_setup_any) (simp add: afavlab_setup_def Let_def case_prod_beta, blast)

interpretation hp_diva: port_setup pci_hp_diva_setup safe_any
  by (rule port_setup_any) (simp add: pci_hp_diva_setup_def Let_def, blast)

interpretation sbs: port_setup sbs_setup safe_any
  by (rule port_setup_any) (simp add: sbs_setup_def, blast)

interpretation siig: port_setup pci_siig_setup safe_any
  by (rule port_setup_any) (simp add: pci_siig_setup_def Let_def case_prod_beta, blast)

interpretation timedia: port_setup pci_timedia_setup safe_any
  by (rule port_setup_any) (simp add: pci_timedia_setup_def Let_def case_prod_beta, blast)

interpretation titan: port_setup titan_400l_800l_setup safe_any
  by (rule port_setup_any) (simp add: titan_400l_800l_setup_def Let_def case_prod_beta, blast)

interpretation omegapci: port_setup pci_omegapci_setup safe_any
  by (rule port_setup_any) (simp add: pci_omegapci_setup_def, blast)

interpretation default: port_setup pci_default_setup safe_bars
proof
  fix dev board pe i and bars :: "u64 option list" and port h
  assume ok: "dev_ok dev board" and safe: "safe_bars pe dev board i" and len: "length bars = 6"
  let ?bar = "if fl_bars board then fl_base board + i else fl_base board"
  let ?off = "if fl_bars board then first_offset board else first_offset board + of_nat i * uart_offset board"
  have bar: "?bar < length (pd_res dev)" using ok safe by (auto simp: dev_ok_def safe_bars_def)
  obtain rc bars' port' h' where s: "setup_port pe dev (bars, port, h) ?bar ?off (reg_shift board) = Inr (rc, bars', port', h')"
      "setup_keeps bars port h bars' port' h'" "rc = 0 \<longrightarrow> ?bar < 6"
    using setup_port_keeps [OF _ len, of dev] ok dev_ok_def by blast
  have "pci_default_setup pe dev board (bars, port, h) i = Inr (1, bars, port, h) \<or>
      pci_default_setup pe dev board (bars, port, h) i = Inr (rc, bars', port', h')"
    using bar s(1) by (cases "fl_bars board") (simp_all add: pci_default_setup_def Let_def)
  moreover have "setup_keeps bars port h bars port h" using len by (simp add: setup_keeps_def same_outside_def)
  ultimately show "\<exists>rc bars' port' h'. pci_default_setup pe dev board (bars, port, h) i = Inr (rc, bars', port', h') \<and>
      setup_keeps bars port h bars' port' h' \<and> (rc = 0 \<longrightarrow> safe_bars pe dev board (Suc i))"
    using s(2,3) by (auto simp: safe_bars_def)
qed

text \<open>The functions that mark the port and then take the default.\<close>

lemma port_setup_marked:
  assumes "\<And>pe dev board bars port h i. su pe dev board (bars, port, h) i = pci_default_setup pe dev board (bars, f port, h) i"
    and "\<And>port. pt_fixed_type (f port) = pt_fixed_type port" and "\<And>port. pt_dev (f port) = pt_dev port"
  shows "port_setup su safe_bars"
proof
  fix dev board pe i and bars :: "u64 option list" and port h
  assume "dev_ok dev board" "safe_bars pe dev board i" "length bars = 6"
  from default.setup_returns [OF this, of "f port" h]
  show "\<exists>rc bars' port' h'. su pe dev board (bars, port, h) i = Inr (rc, bars', port', h') \<and>
      setup_keeps bars port h bars' port' h' \<and> (rc = 0 \<longrightarrow> safe_bars pe dev board (Suc i))"
    by (simp add: assms setup_keeps_def)
qed

interpretation skip_tx_en: port_setup skip_tx_en_setup safe_bars
  by (rule port_setup_marked [where f = "\<lambda>port. port\<lparr>pt_no_txen_test := True\<rparr>"]) (simp_all add: skip_tx_en_setup_def)

interpretation kt_serial: port_setup kt_serial_setup safe_bars
  by (rule port_setup_marked [where f = "\<lambda>port. port\<lparr>pt_bug_thre := True, pt_no_txen_test := True\<rparr>"])
    (simp_all add: kt_serial_setup_def skip_tx_en_setup_def)

interpretation xr17c154: port_setup pci_xr17c154_setup safe_bars
  by (rule port_setup_marked [where f = "\<lambda>port. port\<lparr>pt_exar_efr := True\<rparr>"]) (simp_all add: pci_xr17c154_setup_def)

interpretation netmos: port_setup pci_netmos_9900_setup safe_netmos
proof
  fix dev board pe i and bars :: "u64 option list" and port h
  assume ok: "dev_ok dev board" and safe: "safe_netmos pe dev board i" and len: "length bars = 6"
  show "\<exists>rc bars' port' h'. pci_netmos_9900_setup pe dev board (bars, port, h) i = Inr (rc, bars', port', h') \<and>
      setup_keeps bars port h bars' port' h' \<and> (rc = 0 \<longrightarrow> safe_netmos pe dev board (Suc i))"
  proof (cases "pd_subdevice dev AND 0xff00 = 0x3000")
    case True
    with setup_port_keeps [of dev bars pe port h "3 * i" 0 "reg_shift board"] ok len show ?thesis
      by (auto simp: pci_netmos_9900_setup_def safe_netmos_def dev_ok_def)
  next
    case False
    with default.setup_returns [OF ok _ len, of pe i port h] safe show ?thesis
      by (auto simp: pci_netmos_9900_setup_def safe_netmos_def)
  qed
qed

interpretation ni8430: port_setup pci_ni8430_setup safe_maps
proof
  fix dev board pe i and bars :: "u64 option list" and port h
  assume ok: "dev_ok dev board" and safe: "safe_maps pe dev board i" and len: "length bars = 6"
  let ?off = "first_offset board + of_nat i * uart_offset board" and ?base = "bar_start (pd_res dev ! fl_base board)"
  let ?h = "iounmap (Some ?base) (hw_write (Mmio ?base) 8 (unat ?off + 0x0f)
      ((fst (hw_read pe (Mmio ?base) 8 (unat ?off + 0x0f) (snd (ioremap pe ?base h))) AND 0xFF) OR 0x08)
      (snd (hw_read pe (Mmio ?base) 8 (unat ?off + 0x0f) (snd (ioremap pe ?base h)))))"
  have bar: "fl_base board < length (pd_res dev)" "pe_map_ok pe (hw_nmap h)" using ok safe by (auto simp: dev_ok_def safe_maps_def)
  obtain rc bars' port' h' where s: "setup_port pe dev (bars, port, ?h) (fl_base board) ?off (reg_shift board) = Inr (rc, bars', port', h')"
      "setup_keeps bars port ?h bars' port' h'"
    using setup_port_keeps [OF _ len, of dev] ok dev_ok_def by blast
  have "pci_ni8430_setup pe dev board (bars, port, h) i = Inr (1, bars, port, h) \<or>
      pci_ni8430_setup pe dev board (bars, port, h) i = Inr (rc, bars', port', h')"
    using bar s(1) by (simp add: pci_ni8430_setup_def Let_def case_prod_beta ioremap_def)
  moreover have "setup_keeps bars port h bars port h" using len by (simp add: setup_keeps_def same_outside_def)
  moreover have "setup_keeps bars port h bars' port' h'"
    using s(2) bar(2) by (simp add: setup_keeps_def same_outside_def iounmap_def hw_write_def hw_read_def ioremap_def)
  ultimately show "\<exists>rc bars' port' h'. pci_ni8430_setup pe dev board (bars, port, h) i = Inr (rc, bars', port', h') \<and>
      setup_keeps bars port h bars' port' h' \<and> (rc = 0 \<longrightarrow> safe_maps pe dev board (Suc i))"
    using safe by (auto simp: safe_maps_def)
qed

section \<open>The other functions of a quirk\<close>

lemmas hw_defs = hw_read_def hw_write_def ioremap_def iounmap_def

lemma hw_keeps_refl [simp]: "hw_keeps h h"
  by (simp add: hw_keeps_def)

text \<open>Only the functions of the ITE 887x touch I/O regions.\<close>

definition init_ok :: "penv \<Rightarrow> pci_dev \<Rightarrow> pci_init option \<Rightarrow> bool" where
  "init_ok pe dev i \<longleftrightarrow> (\<forall>init h. i = Some init \<longrightarrow> hw_keeps h (snd (init pe dev h)) \<and>
     (quirk_id_matches (pe_id pe ''PCI_VENDOR_ID_ITE'') (pd_vendor dev) \<or> hw_regions (snd (init pe dev h)) = hw_regions h))"

definition exit_ok :: "penv \<Rightarrow> pci_dev \<Rightarrow> (penv \<Rightarrow> pci_dev \<Rightarrow> hw \<Rightarrow> hw) option \<Rightarrow> bool" where
  "exit_ok pe dev e \<longleftrightarrow> (\<forall>exit h. e = Some exit \<longrightarrow> hw_keeps h (exit pe dev h) \<and>
     (quirk_id_matches (pe_id pe ''PCI_VENDOR_ID_ITE'') (pd_vendor dev) \<or> hw_regions (exit pe dev h) = hw_regions h))"

definition setup_ok :: "penv \<Rightarrow> pci_dev \<Rightarrow> (penv \<Rightarrow> pci_dev \<Rightarrow> pciserial_board \<Rightarrow> setup_state \<Rightarrow> nat \<Rightarrow> (int \<times> setup_state) res) \<Rightarrow> bool" where
  "setup_ok pe dev s \<longleftrightarrow> (\<exists>safe. port_setup s safe \<and> (\<forall>board. dev_ok dev board \<longrightarrow> safe pe dev board 0))"

lemma init_ok_none [simp]: "init_ok pe dev None" "exit_ok pe dev None"
  by (simp_all add: init_ok_def exit_ok_def)

lemma init_oks [simp]:
  "init_ok pe dev (Some pci_hp_diva_init)" "init_ok pe dev (Some pci_inteli960ni_init)" "init_ok pe dev (Some pci_plx9050_init)"
  "init_ok pe dev (Some pci_ni8420_init)" "init_ok pe dev (Some pci_ni8430_init)" "init_ok pe dev (Some sbs_init)"
  "init_ok pe dev (Some pci_timedia_init)" "init_ok pe dev (Some pci_xircom_init)" "init_ok pe dev (Some pci_netmos_init)"
  "init_ok pe dev (Some pci_oxsemi_tornado_init)" "init_ok pe dev (Some pci_eg20t_init)"
  by (simp_all add: init_ok_def hw_keeps_def pci_hp_diva_init_def pci_inteli960ni_init_def pci_plx9050_init_def pci_ni8420_init_def
      pci_ni8430_init_def sbs_init_def pci_timedia_init_def pci_xircom_init_def pci_netmos_init_def pci_oxsemi_tornado_init_def
      pci_eg20t_init_def hw_defs Let_def case_prod_beta)

lemma siig_init_ok [simp]: "init_ok pe dev (Some pci_siig_init)"
  by (simp add: init_ok_def hw_keeps_def pci_siig_init_def pci_siig10x_init_def pci_siig20x_init_def hw_defs Let_def)

lemma exit_oks [simp]:
  "exit_ok pe dev (Some pci_plx9050_exit)" "exit_ok pe dev (Some pci_ni8420_exit)" "exit_ok pe dev (Some pci_ni8430_exit)"
  "exit_ok pe dev (Some sbs_exit)"
  by (simp_all add: exit_ok_def hw_keeps_def pci_plx9050_exit_def pci_ni8420_exit_def pci_ni8430_exit_def sbs_exit_def hw_defs Let_def)

lemma ite_find_frame:
  "hw_keeps h (snd (ite_find pe as h)) \<and>
   (case fst (ite_find pe as h) of
      None \<Rightarrow> hw_regions (snd (ite_find pe as h)) = hw_regions h
    | Some a \<Rightarrow> a \<in> set as \<and> hw_regions (snd (ite_find pe as h)) = a # hw_regions h)"
proof (induction as arbitrary: h)
  case (Cons a as)
  let ?h = "h\<lparr>hw_nin := hw_nin h + 1,
      hw_log := hw_log h @ [HwWrite Config 32 0x60 (push_bit 31 1 OR push_bit 29 3 OR push_bit 24 5 OR a), HwWrite Config 32 0x78 a,
        HwRead IoPort 8 (unat a)]\<rparr>"
  from Cons [of ?h] Cons [of h] show ?case
    by (auto simp: hw_keeps_def hw_defs Let_def split: option.splits)
qed simp

lemma ite_ports_frame: "hw_keeps h (ite_ports pe n i h) \<and> hw_regions (ite_ports pe n i h) = hw_regions h"
  by (induction n arbitrary: i h) (simp_all add: hw_keeps_def hw_defs Let_def)

lemma ite_init_frame:
  assumes "pci_ite887x_init pe dev h = (ret, h')"
  shows "hw_keeps h h' \<and>
    (if 0 < ret then \<exists>a. a \<in> {0x2a0, 0x2c0, 0x220, 0x240, 0x1e0, 0x200, 0x280} \<and> hw_regions h' = a # hw_regions h
     else hw_regions h' = hw_regions h)"
proof -
  let ?as = "[0x2a0, 0x2c0, 0x220, 0x240, 0x1e0, 0x200, 0x280] :: u32 list"
  obtain m h1 where f: "ite_find pe ?as h = (m, h1)" by (metis surj_pair)
  note ff = ite_find_frame [of h pe ?as, unfolded f fst_conv snd_conv]
  show ?thesis
  proof (cases m)
    case None
    then have "ret = - 19" "h' = h1" using assms f by (simp_all add: pci_ite887x_init_def)
    with None ff show ?thesis by simp
  next
    case (Some a)
    let ?h2 = "ite_ports pe (nat ret) 0 (snd (hw_read pe IoPort 8 (unat a + 0x18) h1))"
    have h': "h' = (if ret \<le> 0 then ?h2\<lparr>hw_regions := remove1 a (hw_regions ?h2)\<rparr> else ?h2)"
      using assms f Some by (auto simp: pci_ite887x_init_def Let_def case_prod_beta)
    have "hw_keeps h1 ?h2" "hw_regions ?h2 = hw_regions h1"
      using ite_ports_frame [of "snd (hw_read pe IoPort 8 (unat a + 0x18) h1)" pe "nat ret" 0]
      by (simp_all add: hw_keeps_def hw_read_def)
    with h' ff Some show ?thesis by (auto simp: hw_keeps_def)
  qed
qed

lemma ite_oks:
  assumes "quirk_id_matches (pe_id pe ''PCI_VENDOR_ID_ITE'') (pd_vendor dev)"
  shows "init_ok pe dev (Some pci_ite887x_init)" "exit_ok pe dev (Some pci_ite887x_exit)"
proof -
  have "hw_keeps h (snd (pci_ite887x_init pe dev h))" for h using ite_init_frame [of pe dev h] by (metis surj_pair snd_conv)
  with assms show "init_ok pe dev (Some pci_ite887x_init)" by (simp add: init_ok_def)
  show "exit_ok pe dev (Some pci_ite887x_exit)"
    using assms by (simp add: exit_ok_def hw_keeps_def pci_ite887x_exit_def hw_read_def)
qed

lemma setup_oks [simp]:
  "setup_ok pe dev addidata_apci7800_setup" "setup_ok pe dev afavlab_setup" "setup_ok pe dev pci_hp_diva_setup"
  "setup_ok pe dev sbs_setup" "setup_ok pe dev pci_siig_setup" "setup_ok pe dev pci_timedia_setup"
  "setup_ok pe dev titan_400l_800l_setup" "setup_ok pe dev pci_omegapci_setup"
  "setup_ok pe dev pci_default_setup" "setup_ok pe dev skip_tx_en_setup" "setup_ok pe dev kt_serial_setup"
  "setup_ok pe dev pci_xr17c154_setup" "setup_ok pe dev pci_netmos_9900_setup"
  unfolding setup_ok_def
  using addidata.port_setup_axioms afavlab.port_setup_axioms hp_diva.port_setup_axioms sbs.port_setup_axioms siig.port_setup_axioms
    timedia.port_setup_axioms titan.port_setup_axioms omegapci.port_setup_axioms default.port_setup_axioms
    skip_tx_en.port_setup_axioms kt_serial.port_setup_axioms xr17c154.port_setup_axioms netmos.port_setup_axioms
  by (force simp: safe_any_def safe_bars_def safe_netmos_def dev_ok_def)+

lemma ni8430_ok: "(\<And>n. pe_map_ok pe n) \<Longrightarrow> setup_ok pe dev pci_ni8430_setup"
  unfolding setup_ok_def using ni8430.port_setup_axioms by (force simp: safe_maps_def)

section \<open>The table\<close>

definition quirk_ok :: "penv \<Rightarrow> pci_dev \<Rightarrow> pci_serial_quirk \<Rightarrow> bool" where
  "quirk_ok pe dev q \<longleftrightarrow> setup_ok pe dev (q_setup q) \<and> init_ok pe dev (q_init q) \<and> exit_ok pe dev (q_exit q)"

text \<open>Devices that the contract covers: not the CE4100, and for National Instruments only if memory can be mapped.\<close>

definition covered :: "penv \<Rightarrow> pci_dev \<Rightarrow> bool" where
  "covered pe dev \<longleftrightarrow>
     \<not> (quirk_id_matches (pe_id pe ''PCI_VENDOR_ID_INTEL'') (pd_vendor dev) \<and> pd_device dev = 0x2e66) \<and>
     (quirk_id_matches (pe_id pe ''PCI_VENDOR_ID_NI'') (pd_vendor dev) \<longrightarrow> (\<forall>n. pe_map_ok pe n))"

lemma quirk_table_ok:
  assumes "covered pe dev"
  shows "list_all (\<lambda>q. quirk_matches q dev \<longrightarrow> quirk_ok pe dev q) (pci_serial_quirks_a (pe_id pe))"
    and "list_all (\<lambda>q. quirk_matches q dev \<longrightarrow> quirk_ok pe dev q) (pci_serial_quirks_b (pe_id pe))"
    and "list_all (\<lambda>q. quirk_matches q dev \<longrightarrow> quirk_ok pe dev q) (pci_serial_quirks_c (pe_id pe))"
    and "list_all (\<lambda>q. quirk_matches q dev \<longrightarrow> quirk_ok pe dev q) (pci_serial_quirks_d (pe_id pe))"
  using assms ite_oks [of pe dev] ni8430_ok [of pe dev]
  by (auto simp: pci_serial_quirks_a_def pci_serial_quirks_b_def pci_serial_quirks_c_def pci_serial_quirks_d_def quirk_def
      quirk_matches_def quirk_ok_def covered_def quirk_id_matches_def)

text \<open>The last entry of the table matches every device.\<close>

lemma find_quirk_found:
  "list_ex (\<lambda>q. quirk_matches q dev) qs \<Longrightarrow> \<exists>q. find_quirk qs dev = Inr q \<and> q \<in> set qs \<and> quirk_matches q dev"
  by (induction qs) auto

lemma quirk_found:
  assumes "covered pe dev"
  shows "\<exists>q. find_quirk (pci_serial_quirks (pe_id pe)) dev = Inr q \<and> quirk_ok pe dev q"
proof -
  have "list_ex (\<lambda>q. quirk_matches q dev) (pci_serial_quirks (pe_id pe))"
    by (simp add: pci_serial_quirks_def pci_serial_quirks_d_def quirk_def quirk_matches_def quirk_id_matches_def)
  from find_quirk_found [OF this] obtain q where
    "find_quirk (pci_serial_quirks (pe_id pe)) dev = Inr q" "q \<in> set (pci_serial_quirks (pe_id pe))" "quirk_matches q dev"
    by blast
  with quirk_table_ok [OF assms] show ?thesis by (auto simp: pci_serial_quirks_def list_all_iff)
qed

section \<open>Probing and removing\<close>

text \<open>
  The state between calls: the lines are those of the 8250 driver, \<open>M\<close> is mapped and the device is
  enabled \<open>n\<close> times.
\<close>

definition settled :: "region multiset \<Rightarrow> u64 multiset \<Rightarrow> u64 multiset \<Rightarrow> nat \<Rightarrow> hw \<Rightarrow> bool" where
  "settled F G M n h \<longleftrightarrow> ports_reach F G (hw_ports h) \<and> mset (hw_maps h) = M \<and> hw_enabled h = n"

definition same_regions :: "penv \<Rightarrow> pci_dev \<Rightarrow> hw \<Rightarrow> hw \<Rightarrow> bool" where
  "same_regions pe dev h h' \<longleftrightarrow>
     quirk_id_matches (pe_id pe ''PCI_VENDOR_ID_ITE'') (pd_vendor dev) \<or> hw_regions h' = hw_regions h"

lemma exit_same:
  assumes "quirk_ok pe dev q"
  shows "hw_keeps h (case q_exit q of None \<Rightarrow> h | Some exit \<Rightarrow> exit pe dev h) \<and>
    same_regions pe dev h (case q_exit q of None \<Rightarrow> h | Some exit \<Rightarrow> exit pe dev h)"
  using assms by (auto simp: quirk_ok_def exit_ok_def same_regions_def split: option.split)

lemma init_same:
  assumes "quirk_ok pe dev q"
  shows "hw_keeps h (snd (case q_init q of None \<Rightarrow> (0, h) | Some init \<Rightarrow> init pe dev h)) \<and>
    same_regions pe dev h (snd (case q_init q of None \<Rightarrow> (0, h) | Some init \<Rightarrow> init pe dev h))"
  using assms by (auto simp: quirk_ok_def init_ok_def same_regions_def split: option.split)

lemma init_ports_ok:
  assumes cov: "covered pe dev" and dev: "dev_ok dev board" and rsa: "\<And>i q. kp_found (pe_kport pe) i q \<noteq> PORT_RSA"
    and st: "settled F G M n h"
  shows "\<exists>r h'. pciserial_init_ports pe dev board h = Inr (r, h') \<and> same_regions pe dev h h' \<and>
    (case r of
       Inl e \<Rightarrow> e \<noteq> 0 \<and> settled F G M n h' \<and> hw_ports h' = hw_ports h
     | Inr priv \<Rightarrow> settled F G (bar_maps (sp_bars priv) + M) n h' \<and> lines_on (pd_num dev) (sp_lines priv) (hw_ports h) (hw_ports h'))"
proof -
  obtain q where q: "find_quirk (pci_serial_quirks (pe_id pe)) dev = Inr q" "quirk_ok pe dev q" using quirk_found [OF cov] by blast
  obtain rc h1 where i: "(case q_init q of None \<Rightarrow> (0, h) | Some init \<Rightarrow> init pe dev h) = (rc, h1)" by (metis surj_pair)
  have h1: "hw_keeps h h1" "same_regions pe dev h h1"
    using init_same [OF q(2), of h] unfolding i by simp_all
  then have st1: "settled F G M n h1" and same: "hw_ports h1 = hw_ports h" using st by (simp_all add: settled_def hw_keeps_def)
  show ?thesis
  proof (cases "rc < 0")
    case True
    with q(1) i h1 st1 same show ?thesis by (auto simp: pciserial_init_ports_def)
  next
    case False
    show ?thesis
    proof (cases "pe_kzalloc pe")
      case kz: False
      let ?h = "case q_exit q of None \<Rightarrow> h1 | Some exit \<Rightarrow> exit pe dev h1"
      have "hw_keeps h1 ?h" "same_regions pe dev h1 ?h"
        using exit_same [OF q(2)] by blast+
      then have "settled F G M n ?h" "same_regions pe dev h ?h" "hw_ports ?h = hw_ports h"
        using st1 h1 same by (auto simp: settled_def hw_keeps_def same_regions_def)
      with q(1) i False kz show ?thesis by (simp add: pciserial_init_ports_def)
    next
      case kz: True
      obtain safe where s: "port_setup (q_setup q) safe" "safe pe dev board 0"
        using q(2) dev by (auto simp: quirk_ok_def setup_ok_def)
      let ?nr = "nat (if rc \<noteq> 0 then rc else sint (num_ports board))"
      have "\<exists>priv h'. init_ports_loop pe dev board q ?nr 0 [] (replicate 6 None, port_template dev board, h1) = Inr (priv, h') \<and>
          ports_reach F G (hw_ports h') \<and> lines_on (pd_num dev) (sp_lines priv) (hw_ports h) (hw_ports h') \<and>
          mset (hw_maps h') = bar_maps (sp_bars priv) + M \<and> hw_enabled h' = hw_enabled h1 \<and> hw_regions h' = hw_regions h1"
        by (rule port_setup.init_loop [OF s(1) dev rsa s(2)]) (use st1 same in \<open>simp_all add: settled_def port_template_def\<close>)
      then show ?thesis
        using q(1) i False kz h1 st1 by (auto simp: pciserial_init_ports_def Let_def settled_def same_regions_def)
    qed
  qed
qed

lemma unregister_lines_ok:
  assumes "ports_reach F G st" and "\<And>i q. kp_found (pe_kport pe) i q \<noteq> PORT_RSA"
    and "\<forall>l \<in> set ls. 0 \<le> l \<and> nat l < length (ps_slots st)"
  shows "\<exists>st'. unregister_lines pe ls st = Inr st' \<and> ports_reach F G st' \<and> lines_off ls st st'"
  using assms(1,3)
proof (induction ls arbitrary: st)
  case (Cons l ls)
  have l: "nat l < length (ps_slots st)" "0 \<le> l" using Cons.prems(2) by simp_all
  have ok: "ports_ok F G st" by (rule ports_reach_ok [OF Cons.prems(1)])
  then have len: "length (ps_attached st) = length (ps_slots st)" by (simp add: ports_ok_def)
  obtain st1 q where u: "serial8250_unregister_port (pe_kport pe) (nat l) st = Inr st1" "ps_slots st1 = (ps_slots st)[nat l := q]"
      "ps_attached st1 = (ps_attached st)[nat l := ps_isa st \<noteq> None]" "ps_isa st1 = ps_isa st" "pt_type q = PORT_UNKNOWN" "pt_dev q = ps_isa st"
    using unregister_ok [OF ok l(1) assms(2)] by blast
  have "ports_reach F G st1" by (rule ports_unregister [OF Cons.prems(1) l(1) assms(2) u(1)])
  then obtain st2 where "unregister_lines pe ls st1 = Inr st2" "ports_reach F G st2" "lines_off ls st1 st2"
    using Cons.IH [of st1] Cons.prems(2) u(2) by auto
  with u(1) lines_off_step [OF _ l(1) len u(2-6) refl l(2)] show ?case by auto
qed (simp add: lines_off_def)

lemma remove_ports_ok:
  assumes cov: "covered pe dev" and rsa: "\<And>i q. kp_found (pe_kport pe) i q \<noteq> PORT_RSA"
    and st: "settled F G (bar_maps (sp_bars priv) + M) n h"
    and lines: "lines_on (pd_num dev) (sp_lines priv) st0 (hw_ports h)"
  shows "\<exists>h'. pciserial_remove_ports pe dev priv h = Inr h' \<and> same_regions pe dev h h' \<and> settled F G M n h' \<and>
    lines_off (sp_lines priv) st0 (hw_ports h')"
proof -
  obtain q where q: "find_quirk (pci_serial_quirks (pe_id pe)) dev = Inr q" "quirk_ok pe dev q" using quirk_found [OF cov] by blast
  have "\<forall>l \<in> set (sp_lines priv). 0 \<le> l \<and> nat l < length (ps_slots (hw_ports h))" using lines by (simp add: lines_on_def)
  then obtain ports where u: "unregister_lines pe (sp_lines priv) (hw_ports h) = Inr ports" "ports_reach F G ports"
      "lines_off (sp_lines priv) (hw_ports h) ports"
    using unregister_lines_ok [OF _ rsa, where st = "hw_ports h" and ls = "sp_lines priv"] st unfolding settled_def by blast
  obtain maps where m: "fold iounmap (sp_bars priv) (h\<lparr>hw_ports := ports\<rparr>) = h\<lparr>hw_ports := ports, hw_maps := maps\<rparr>" "mset maps = M"
    using unmap_bars [of "h\<lparr>hw_ports := ports\<rparr>" "sp_bars priv" M] st by (auto simp: settled_def)
  let ?h = "h\<lparr>hw_ports := ports, hw_maps := maps\<rparr>"
  let ?h' = "case q_exit q of None \<Rightarrow> ?h | Some exit \<Rightarrow> exit pe dev ?h"
  have "hw_keeps ?h ?h'" "same_regions pe dev ?h ?h'"
    using exit_same [OF q(2)] by blast+
  then have "settled F G M n ?h'" "same_regions pe dev h ?h'" "lines_off (sp_lines priv) st0 (hw_ports ?h')"
    using st u(2) m(2) lines_on_off [OF lines u(3)] by (auto simp: settled_def hw_keeps_def same_regions_def)
  moreover have "pciserial_remove_ports pe dev priv h = Inr ?h'" using u(1) m(1) q(1) by (simp add: pciserial_remove_ports_def Let_def split: option.split)
  ultimately show ?thesis by blast
qed

text \<open>Boards start in a BAR, those of the table and those guessed.\<close>

lemma boards_base: "list_all (\<lambda>(_, b). fl_base b \<le> 5) pci_boards"
  unfolding pci_boards_def list_all_append
  by (simp add: pci_boards_defs mk_board_def)

definition first_ok :: "nat \<Rightarrow> nat \<Rightarrow> nat option \<Rightarrow> bool" where
  "first_ok n p f \<longleftrightarrow> (f = None \<longleftrightarrow> p = 0) \<and> (\<forall>j. f = Some j \<longrightarrow> j < n)"

lemma first_ok_step:
  "first_ok n p f \<Longrightarrow> i < n \<Longrightarrow> first_ok n (if c then p + 1 else p) (if c \<and> f = None then Some i else f)"
  "first_ok n p f \<Longrightarrow> i < n \<Longrightarrow> first_ok n (p + 1) (case f of None \<Rightarrow> Some i | Some j \<Rightarrow> Some j)"
  by (auto simp: first_ok_def split: option.splits)

lemma count_bars_first:
  "first_ok n p f \<Longrightarrow> i + length bs \<le> n \<Longrightarrow> count_bars i bs (m, p, f) = (m', p', f') \<Longrightarrow> first_ok n p' f'"
proof (induction bs arbitrary: i m p f)
  case (Cons b bs)
  show ?case
    by (rule Cons.IH [OF first_ok_step(1) [OF Cons.prems(1)]]) (use Cons.prems(2,3) in simp_all)
qed simp

lemma run_bars_first:
  "first_ok n p f \<Longrightarrow> i + length bs \<le> n \<Longrightarrow> run_bars i bs (p, f) = (p', f') \<Longrightarrow> first_ok n p' f'"
proof (induction bs arbitrary: i p f)
  case (Cons b bs)
  let ?c = "bar_io b \<and> bar_len b = 8 \<and> (case f of None \<Rightarrow> True | Some j \<Rightarrow> j + p = i)"
  have i: "i < n" "i + 1 + length bs \<le> n" using Cons.prems(2) by simp_all
  show ?case
  proof (cases ?c)
    case True
    then show ?thesis
      using Cons.IH [OF first_ok_step(2) [OF Cons.prems(1) i(1)] i(2)] Cons.prems(3) by (simp del: option.case)
  next
    case False
    then show ?thesis using Cons.IH [OF Cons.prems(1) i(2)] Cons.prems(3) by (simp only: run_bars.simps if_False)
  qed
qed simp

lemma guess_base:
  assumes "serial_pci_guess_board pe dev board = (0, guessed)"
  shows "fl_base guessed \<le> 5"
proof -
  let ?bs = "take 6 (pd_res dev)"
  obtain m p f where c: "count_bars 0 ?bs (0, 0, None) = (m, p, f)" by (metis prod_cases3)
  obtain p2 f2 where r: "run_bars 0 ?bs (0, None) = (p2, f2)" by (metis surj_pair)
  have start: "first_ok 6 0 None" by (simp add: first_ok_def)
  have "p = 1 \<Longrightarrow> the f \<le> 5" using count_bars_first [OF start _ c] by (cases f) (auto simp: first_ok_def)
  moreover have "1 < p2 \<Longrightarrow> the f2 \<le> 5" using run_bars_first [OF start _ r] by (cases f2) (auto simp: first_ok_def)
  ultimately show ?thesis
    using assms c r by (auto simp: serial_pci_guess_board_def Let_def split: if_splits)
qed

text \<open>The checks of \<open>pciserial_init_one\<close> that come before anything but the enabling.\<close>

lemma init_one_eq:
  assumes "find_quirk (pci_serial_quirks (pe_id pe)) dev = Inr q"
    and "serial_pci_guess_board pe dev (snd (pci_boards ! 0)) = (rc, guessed)"
  shows "(\<exists>e. pciserial_init_one pe dev driver_data h = Inr (Inl e, h) \<and> e \<noteq> 0) \<or>
    driver_data < length pci_boards \<and> (driver_data = 0 \<longrightarrow> rc = 0) \<and>
    pciserial_init_one pe dev driver_data h =
      rbind (pciserial_init_ports pe dev (if driver_data = 0 then guessed else snd (pci_boards ! driver_data))
               (h\<lparr>hw_enabled := hw_enabled h + 1\<rparr>)) (\<lambda>(r, h).
      case r of Inr priv \<Rightarrow> Inr (Inr priv, h) | Inl rc \<Rightarrow> Inr (Inl rc, h\<lparr>hw_enabled := hw_enabled h - 1\<rparr>))"
proof -
  define prc where "prc = (case q_probe q of None \<Rightarrow> 0 | Some probe \<Rightarrow> probe dev)"
  have one: "pciserial_init_one pe dev driver_data h =
      (if prc \<noteq> 0 then Inr (Inl prc, h) else if length pci_boards \<le> driver_data then Inr (Inl (- 22), h)
       else if pe_enable pe \<noteq> 0 then Inr (Inl (pe_enable pe), h)
       else if driver_data = 0 \<and> rc \<noteq> 0 then Inr (Inl rc, h)
       else rbind (pciserial_init_ports pe dev (if driver_data = 0 then guessed else snd (pci_boards ! driver_data))
               (h\<lparr>hw_enabled := hw_enabled h + 1\<rparr>)) (\<lambda>(r, h).
         case r of Inr priv \<Rightarrow> Inr (Inr priv, h) | Inl rc \<Rightarrow> Inr (Inl rc, h\<lparr>hw_enabled := hw_enabled h - 1\<rparr>)))"
    by (simp add: pciserial_init_one_def assms prc_def Let_def)
  show ?thesis
  proof (cases "prc \<noteq> 0 \<or> length pci_boards \<le> driver_data \<or> pe_enable pe \<noteq> 0 \<or> driver_data = 0 \<and> rc \<noteq> 0")
    case True
    then have "\<exists>e. pciserial_init_one pe dev driver_data h = Inr (Inl e, h) \<and> e \<noteq> 0"
      unfolding one by (cases "prc = 0"; cases "length pci_boards \<le> driver_data"; cases "pe_enable pe = 0") auto
    then show ?thesis by blast
  next
    case False
    then show ?thesis unfolding one by auto
  qed
qed

text \<open>
  C17. Probing and removing a serial PCI board balance, whatever the quirk of the board, on a kernel whose probes
  find no RSA board. Probing returns, for every board number: with an error, and then memory mappings, the lines
  and the enabling of the device are as before; or with the private data of the device, which is then enabled. In
  that case every line noted there is attached to a port of the device, and no other line has changed; removing the
  device later succeeds, restores the mappings and the enabling, takes the chip of each of these lines away and
  gives the line back to the platform device, if there is one, and leaves all other lines as they were. The driver
  of the lines stays in its reachable states, and the I/O regions that the quirks claim are as before, except on
  the ITE 887x. (Not covered: the CE4100, whose ports have a fixed type, and boards of National Instruments when a
  mapping is refused. The device has its six BARs and the ROM.)
\<close>

theorem probe_and_remove_balance:
  assumes "ports_reach F G (hw_ports h)" and "covered pe dev" and "7 \<le> length (pd_res dev)"
    and "\<And>i q. kp_found (pe_kport pe) i q \<noteq> PORT_RSA"
  shows "\<exists>r h1. pciserial_init_one pe dev driver_data h = Inr (r, h1) \<and> same_regions pe dev h h1 \<and>
    (case r of
       Inl e \<Rightarrow> e \<noteq> 0 \<and> hw_ports h1 = hw_ports h \<and> mset (hw_maps h1) = mset (hw_maps h) \<and> hw_enabled h1 = hw_enabled h
     | Inr priv \<Rightarrow> hw_enabled h1 = hw_enabled h + 1 \<and> lines_on (pd_num dev) (sp_lines priv) (hw_ports h) (hw_ports h1) \<and>
         ports_reach F G (hw_ports h1) \<and>
         (\<exists>h2. pciserial_remove_one pe dev priv h1 = Inr h2 \<and> same_regions pe dev h h2 \<and>
           lines_off (sp_lines priv) (hw_ports h) (hw_ports h2) \<and> settled F G (mset (hw_maps h)) (hw_enabled h) h2))"
proof -
  obtain q where q: "find_quirk (pci_serial_quirks (pe_id pe)) dev = Inr q" using quirk_found [OF assms(2)] by blast
  obtain rc guessed where g: "serial_pci_guess_board pe dev (snd (pci_boards ! 0)) = (rc, guessed)" by (metis surj_pair)
  let ?h = "h\<lparr>hw_enabled := hw_enabled h + 1\<rparr>"
  let ?board = "if driver_data = 0 then guessed else snd (pci_boards ! driver_data)"
  have st: "settled F G (mset (hw_maps h)) (hw_enabled h) h" "settled F G (mset (hw_maps h)) (hw_enabled h + 1) ?h"
    using assms(1) by (simp_all add: settled_def)
  from init_one_eq [OF q g, of driver_data h] show ?thesis
  proof (elim disjE conjE exE)
    fix e
    assume "pciserial_init_one pe dev driver_data h = Inr (Inl e, h)" "e \<noteq> 0"
    then show ?thesis by (simp add: same_regions_def)
  next
    assume lt: "driver_data < length pci_boards" "driver_data = 0 \<longrightarrow> rc = 0"
      and one: "pciserial_init_one pe dev driver_data h = rbind (pciserial_init_ports pe dev ?board ?h) (\<lambda>(r, h).
        case r of Inr priv \<Rightarrow> Inr (Inr priv, h) | Inl rc \<Rightarrow> Inr (Inl rc, h\<lparr>hw_enabled := hw_enabled h - 1\<rparr>))"
    have "fl_base (snd (pci_boards ! driver_data)) \<le> 5"
      using boards_base lt(1) by (auto simp: list_all_length case_prod_beta)
    then have dev: "dev_ok dev ?board" using assms(3) lt(2) guess_base g by (auto simp: dev_ok_def)
    obtain r h1 where i: "pciserial_init_ports pe dev ?board ?h = Inr (r, h1)" "same_regions pe dev ?h h1"
        "case r of Inl e \<Rightarrow> e \<noteq> 0 \<and> settled F G (mset (hw_maps h)) (hw_enabled h + 1) h1 \<and> hw_ports h1 = hw_ports ?h
         | Inr priv \<Rightarrow> settled F G (bar_maps (sp_bars priv) + mset (hw_maps h)) (hw_enabled h + 1) h1 \<and>
             lines_on (pd_num dev) (sp_lines priv) (hw_ports ?h) (hw_ports h1)"
      using init_ports_ok [OF assms(2) dev assms(4) st(2)] by blast
    show ?thesis
    proof (cases r)
      case (Inl e)
      with one i show ?thesis by (simp add: settled_def same_regions_def)
    next
      case (Inr priv)
      then have sp: "settled F G (bar_maps (sp_bars priv) + mset (hw_maps h)) (hw_enabled h + 1) h1"
          "lines_on (pd_num dev) (sp_lines priv) (hw_ports h) (hw_ports h1)"
        using i(3) by simp_all
      obtain h2 where "pciserial_remove_ports pe dev priv h1 = Inr h2" "same_regions pe dev h1 h2"
          "settled F G (mset (hw_maps h)) (hw_enabled h + 1) h2" "lines_off (sp_lines priv) (hw_ports h) (hw_ports h2)"
        using remove_ports_ok [OF assms(2,4) sp] by blast
      with Inr one sp i(1,2) show ?thesis
        by (auto simp: pciserial_remove_one_def settled_def same_regions_def)
    qed
  qed
qed

definition pci_dev1 :: pci_dev where
  "pci_dev1 = pci_dev0\<lparr>pd_res := replicate 7 \<lparr>bar_io = False, bar_mem = True, bar_start = 0xFEBF0000, bar_len = 0x1000\<rparr>\<rparr>"

text \<open>Board 3 has four ports; there are lines for two.\<close>

theorem probe_and_remove_balance_witness:
  "\<exists>r h1. pciserial_init_one penv0 pci_dev1 3 hw0 = Inr (r, h1) \<and> hw_regions h1 = [] \<and>
    (case r of
       Inl e \<Rightarrow> e \<noteq> 0 \<and> hw_ports h1 = two_slots \<and> mset (hw_maps h1) = {#} \<and> hw_enabled h1 = 0
     | Inr priv \<Rightarrow> hw_enabled h1 = 1 \<and> (\<forall>l \<in> set (sp_lines priv). ps_attached (hw_ports h1) ! nat l) \<and>
         (\<exists>h2. pciserial_remove_one penv0 pci_dev1 priv h1 = Inr h2 \<and> mset (hw_maps h2) = {#} \<and> hw_enabled h2 = 0 \<and>
           lines_off (sp_lines priv) two_slots (hw_ports h2)))"
proof -
  have cov: "covered penv0 pci_dev1" and len: "7 \<le> length (pd_res pci_dev1)" and ite: "same_regions penv0 pci_dev1 hw0 h \<longleftrightarrow> hw_regions h = []" for h
    by (simp_all add: covered_def same_regions_def quirk_id_matches_def penv0_def pci_dev1_def pci_dev0_def hw0_def)
  have rsa: "\<And>i q. kp_found (pe_kport penv0) i q \<noteq> PORT_RSA" by (simp add: penv0_def kport0_def)
  have reach: "ports_reach {#} {#} (hw_ports hw0)" using two_slots_reach by (simp add: hw0_def)
  have h0: "mset (hw_maps hw0) = {#}" "hw_enabled hw0 = 0" "hw_ports hw0 = two_slots" by (simp_all add: hw0_def)
  obtain r h1 where w: "pciserial_init_one penv0 pci_dev1 3 hw0 = Inr (r, h1)" "hw_regions h1 = []"
      "case r of
         Inl e \<Rightarrow> e \<noteq> 0 \<and> hw_ports h1 = two_slots \<and> mset (hw_maps h1) = {#} \<and> hw_enabled h1 = 0
       | Inr priv \<Rightarrow> hw_enabled h1 = 0 + 1 \<and> lines_on (pd_num pci_dev1) (sp_lines priv) two_slots (hw_ports h1) \<and>
           ports_reach {#} {#} (hw_ports h1) \<and>
           (\<exists>h2. pciserial_remove_one penv0 pci_dev1 priv h1 = Inr h2 \<and> hw_regions h2 = [] \<and>
             lines_off (sp_lines priv) two_slots (hw_ports h2) \<and> settled {#} {#} {#} 0 h2)"
    using probe_and_remove_balance [OF reach cov len rsa, of 3, unfolded ite h0] by blast
  then show ?thesis
    by (intro exI [of _ r] exI [of _ h1]) (cases r; auto simp: settled_def lines_on_def)
qed

end
