(* ===== verification/Linux_Pci_Props.thy ===== *)
theory Linux_Pci_Props
  imports Linux_Pci_Inv
begin

unbundle bit_operations_syntax

text \<open>
  Two boards that the PCI driver configures itself: the ITE 887x, whose configuration region it finds
  and claims, and a board that is in no table, whose layout it guesses.
\<close>

section \<open>The region of the ITE 887x\<close>

text \<open>The value last written to the configuration register \<open>POSIO0\<close>, at \<open>0x60\<close>.\<close>

definition posio0_step :: "hw_event \<Rightarrow> u32 option \<Rightarrow> u32 option" where
  "posio0_step e v = (case e of HwWrite sp w a x \<Rightarrow> if sp = Config \<and> a = 0x60 then Some x else v | _ \<Rightarrow> v)"

definition posio0 :: "hw_event list \<Rightarrow> u32 option" where
  "posio0 log = fold posio0_step log None"

lemma posio0_append [simp]: "posio0 (log @ es) = fold posio0_step es (posio0 log)"
  by (simp add: posio0_def)

lemma ite_posio0:
  "case fst (ite_find pe as h) of
     None \<Rightarrow> True
   | Some a \<Rightarrow> posio0 (hw_log (snd (ite_find pe as h))) = Some (push_bit 31 1 OR push_bit 29 3 OR push_bit 24 5 OR a)"
proof (induction as arbitrary: h)
  case (Cons a as)
  let ?h = "h\<lparr>hw_nin := hw_nin h + 1,
      hw_log := hw_log h @ [HwWrite Config 32 0x60 (push_bit 31 1 OR push_bit 29 3 OR push_bit 24 5 OR a), HwWrite Config 32 0x78 a,
        HwRead IoPort 8 (unat a)]\<rparr>"
  from Cons [of ?h] Cons [of h] show ?case
    by (auto simp: hw_defs posio0_step_def Let_def split: option.splits)
qed simp

lemma ite_ports_posio0: "posio0 (hw_log (ite_ports pe n i h)) = posio0 (hw_log h)"
  by (induction n arbitrary: i h) (simp_all add: hw_defs posio0_step_def Let_def)

lemma ite_address:
  assumes "a \<in> {0x2a0, 0x2c0, 0x220, 0x240, 0x1e0, 0x200, 0x280 :: u32}"
  shows "(push_bit 31 1 OR push_bit 29 3 OR push_bit 24 5 OR a) AND 0xffff = a"
  using assms by auto

text \<open>
  The ITE 887x gives back what it claims: its \<open>init\<close> function holds one more region exactly when it
  returns a number of ports, the region's address is what it last wrote to \<open>POSIO0\<close>, and \<open>exit\<close>,
  when the device reads this back, releases that region. A chip without serial ports, for which \<open>init\<close>
  returns 0 and holds nothing, is no error to the driver, though: \<open>exit\<close> then takes the region from
  whoever holds it.
\<close>

theorem ite_region:
  assumes "pci_ite887x_init pe dev h = (ret, h')"
  shows "(ret < 0 \<longrightarrow> hw_regions h' = hw_regions h) \<and>
    (0 \<le> ret \<longrightarrow> (\<exists>a v. posio0 (hw_log h') = Some v \<and> hw_regions h' = (if ret = 0 then [] else [a]) @ hw_regions h \<and>
       (\<forall>k. pe_in pe (hw_nin k) = v \<longrightarrow> hw_regions (pci_ite887x_exit pe dev k) = remove1 a (hw_regions k)) \<and>
       (0 < ret \<and> pe_in pe (hw_nin h') = v \<longrightarrow> hw_regions (pci_ite887x_exit pe dev h') = hw_regions h)))"
proof -
  let ?as = "[0x2a0, 0x2c0, 0x220, 0x240, 0x1e0, 0x200, 0x280] :: u32 list"
  obtain m h1 where f: "ite_find pe ?as h = (m, h1)" by (metis surj_pair)
  note ff = ite_find_frame [of h pe ?as, unfolded f fst_conv snd_conv] and fp = ite_posio0 [of pe ?as h, unfolded f fst_conv snd_conv]
  show ?thesis
  proof (cases m)
    case None
    then have "ret = - 19" "h' = h1" using assms f by (simp_all add: pci_ite887x_init_def)
    with None ff show ?thesis by simp
  next
    case (Some a)
    let ?v = "push_bit 31 1 OR push_bit 29 3 OR push_bit 24 5 OR a"
    let ?h2 = "ite_ports pe (nat ret) 0 (snd (hw_read pe IoPort 8 (unat a + 0x18) h1))"
    have h': "h' = (if ret \<le> 0 then ?h2\<lparr>hw_regions := remove1 a (hw_regions ?h2)\<rparr> else ?h2)"
      using assms f Some by (auto simp: pci_ite887x_init_def Let_def case_prod_beta)
    have a: "a \<in> set ?as" "hw_regions h1 = a # hw_regions h" using ff Some by simp_all
    have addr: "?v AND 0xffff = a" by (rule ite_address) (use a(1) in simp)
    have "hw_regions ?h2 = hw_regions h1" using ite_ports_frame by (simp add: hw_read_def)
    moreover have "posio0 (hw_log ?h2) = Some ?v" using fp Some by (simp add: ite_ports_posio0 hw_read_def posio0_step_def)
    moreover have "hw_regions (pci_ite887x_exit pe dev k) = remove1 a (hw_regions k)" if "pe_in pe (hw_nin k) = ?v" for k
      using that addr by (simp add: pci_ite887x_exit_def hw_read_def)
    ultimately show ?thesis using h' a(2) by auto
  qed
qed

text \<open>A chip that answers at its first address and is a \<open>ITE8872\<close>, with two ports.\<close>

theorem ite_region_witness:
  "\<exists>h' a v. pci_ite887x_init (penv0\<lparr>pe_in := \<lambda>_. 0x0e\<rparr>) pci_dev0 hw0 = (2, h') \<and> posio0 (hw_log h') = Some v \<and>
    hw_regions h' = [a]"
proof -
  let ?pe = "penv0\<lparr>pe_in := \<lambda>_. 0x0e\<rparr>"
  obtain h' where i: "pci_ite887x_init ?pe pci_dev0 hw0 = (2, h')"
    by (simp add: pci_ite887x_init_def hw_defs penv0_def Let_def)
  from ite_region [OF i] i show ?thesis by (auto simp: hw0_def)
qed

section \<open>Guessing a board\<close>

lemma count_bars_io:
  "count_bars i bs (m, p, f) = (m', p', f') \<Longrightarrow> f' = Some j \<Longrightarrow>
    f = Some j \<or> i \<le> j \<and> j < i + length bs \<and> bar_io (bs ! (j - i))"
proof (induction bs arbitrary: i m p f)
  case (Cons b bs)
  have "(if bar_io b \<and> f = None then Some i else f) = Some j \<or>
      i + 1 \<le> j \<and> j < i + 1 + length bs \<and> bar_io (bs ! (j - (i + 1)))"
    by (rule Cons.IH [OF _ Cons.prems(2)]) (use Cons.prems(1) in simp)
  then show ?case by (auto simp: nth_Cons' split: if_splits)
qed simp

text \<open>The BARs of the run so far.\<close>

definition run_ok :: "pci_bar list \<Rightarrow> nat \<Rightarrow> nat \<Rightarrow> nat option \<Rightarrow> bool" where
  "run_ok B i p f \<longleftrightarrow> (f = None \<longleftrightarrow> p = 0) \<and>
     (\<forall>j. f = Some j \<longrightarrow> j + p \<le> i \<and> (\<forall>k<p. bar_io (B ! (j + k)) \<and> bar_len (B ! (j + k)) = 8))"

lemma run_ok_step:
  assumes "run_ok B i p f" and "bar_io (B ! i)" and "bar_len (B ! i) = 8" and "case f of None \<Rightarrow> True | Some j \<Rightarrow> j + p = i"
  shows "run_ok B (i + 1) (p + 1) (case f of None \<Rightarrow> Some i | Some j \<Rightarrow> Some j)"
  using assms by (auto simp: run_ok_def less_Suc_eq split: option.splits)

lemma run_bars_io:
  "run_ok B i p f \<Longrightarrow> bs = drop i B \<Longrightarrow> run_bars i bs (p, f) = (p', f') \<Longrightarrow> run_ok B (i + length bs) p' f'"
proof (induction bs arbitrary: i p f)
  case (Cons b bs)
  have i: "i < length B" using Cons.prems(2) by (cases "i < length B") auto
  then have b: "B ! i = b" "bs = drop (i + 1) B" using Cons.prems(2) unfolding Cons_nth_drop_Suc [OF i, symmetric] by simp_all
  let ?c = "bar_io b \<and> bar_len b = 8 \<and> (case f of None \<Rightarrow> True | Some j \<Rightarrow> j + p = i)"
  have "run_ok B (i + 1 + length bs) p' f'"
  proof (cases ?c)
    case True
    then have "run_ok B (i + 1) (p + 1) (case f of None \<Rightarrow> Some i | Some j \<Rightarrow> Some j)"
      using run_ok_step [OF Cons.prems(1)] b(1) by blast
    from Cons.IH [OF this b(2)] True Cons.prems(3) show ?thesis by (simp del: option.case)
  next
    case False
    have "run_ok B (i + 1) p f" using Cons.prems(1) by (auto simp: run_ok_def)
    from Cons.IH [OF this b(2)] False Cons.prems(3) show ?thesis by (simp only: run_bars.simps if_False)
  qed
  then show ?case by simp
qed simp

lemma default_board: "snd (pci_boards ! 0) = mk_board 0 False False False 1 115200 8 0 0"
  by (simp add: pci_boards_def pci_boards_a_def)

text \<open>A guessed board is one BAR of ports that lie eight apart, or successive BARs of eight ports.\<close>

lemma guess_cases:
  assumes "serial_pci_guess_board pe dev (snd (pci_boards ! 0)) = (0, b)"
  shows "\<exists>j<6. first_offset b = 0 \<and> uart_offset b = 8 \<and> reg_shift b = 0 \<and> fl_base b = j \<and> \<not> fl_cap b \<and>
    (if fl_bars b
     then \<exists>p. num_ports b = of_nat p \<and> j + p \<le> 6 \<and> j + p \<le> length (pd_res dev) \<and>
       (\<forall>k<p. bar_io (pd_res dev ! (j + k)) \<and> bar_len (pd_res dev ! (j + k)) = 8)
     else j < length (pd_res dev) \<and> bar_io (pd_res dev ! j) \<and> num_ports b = ucast (bar_len (pd_res dev ! j) div 8))"
proof -
  let ?bs = "take 6 (pd_res dev)"
  obtain m p f where c: "count_bars 0 ?bs (0, 0, None) = (m, p, f)" by (metis prod_cases3)
  obtain p2 f2 where r: "run_bars 0 ?bs (0, None) = (p2, f2)" by (metis surj_pair)
  have "first_ok 6 p f" by (rule count_bars_first [OF _ _ c]) (simp_all add: first_ok_def)
  then have single: "p = 1 \<Longrightarrow> \<exists>j. f = Some j \<and> j < 6 \<and> j < length (pd_res dev) \<and> bar_io (pd_res dev ! j)"
    using count_bars_io [OF c] by (cases f) (auto simp: first_ok_def)
  have "run_ok ?bs (0 + length ?bs) p2 f2" by (rule run_bars_io [OF _ _ r]) (simp_all add: run_ok_def)
  then have run: "1 < p2 \<Longrightarrow> \<exists>j. f2 = Some j \<and> j + p2 \<le> 6 \<and> j + p2 \<le> length (pd_res dev) \<and>
      (\<forall>k<p2. bar_io (pd_res dev ! (j + k)) \<and> bar_len (pd_res dev ! (j + k)) = 8)"
    by (cases f2) (auto simp: run_ok_def)
  show ?thesis
  proof (cases "m \<le> 1 \<and> p = 1")
    case True
    then obtain j where j: "f = Some j" "j < 6" "j < length (pd_res dev)" "bar_io (pd_res dev ! j)" using single by blast
    have "b = (snd (pci_boards ! 0))\<lparr>fl_base := j, fl_bars := False, fl_noirq := False, fl_cap := False,
        num_ports := ucast (bar_len (pd_res dev ! j) div 8)\<rparr>"
      using assms c True j(1) by (auto simp: serial_pci_guess_board_def Let_def split: if_splits)
    with j show ?thesis unfolding default_board by (simp add: mk_board_def)
  next
    case False
    then have p2: "1 < p2" and b: "b = (snd (pci_boards ! 0))\<lparr>fl_base := the f2, fl_bars := True, fl_noirq := False, fl_cap := False,
        num_ports := of_nat p2\<rparr>"
      using assms c r by (auto simp: serial_pci_guess_board_def Let_def split: if_splits)
    obtain j where j: "f2 = Some j" "j + p2 \<le> 6" "j + p2 \<le> length (pd_res dev)"
        "\<forall>k<p2. bar_io (pd_res dev ! (j + k)) \<and> bar_len (pd_res dev ! (j + k)) = 8"
      using run [OF p2] by blast
    then have "j < 6" using p2 by simp
    with b j show ?thesis unfolding default_board by (auto simp: mk_board_def)
  qed
qed

text \<open>
  C35. A guessed board is what the device has: when a device that is in no table passes for a serial
  board, each of the ports that the guess counts gets its eight registers within one of the device's
  six BARs, an I/O BAR, at the place of the default layout, and no two ports overlap.
\<close>

theorem guessed_ports_within_bars:
  assumes "serial_pci_guess_board pe dev (snd (pci_boards ! 0)) = (0, b)" and "i < unat (num_ports b)"
    and "\<forall>r \<in> set (pd_res dev). \<not> (bar_io r \<and> bar_mem r) \<and> unat (bar_len r) < 2 ^ 31" and "length bars = 6"
  shows "\<exists>bar off. port_place b i = (bar, off) \<and> bar < 6 \<and> bar < length (pd_res dev) \<and> bar_io (pd_res dev ! bar) \<and>
    off + 8 \<le> unat (bar_len (pd_res dev ! bar)) \<and>
    pci_default_setup pe dev b (bars, port, h) i = Inr (0, bars, port_at (pd_res dev ! bar) off 0 port, h) \<and>
    (\<forall>j<i. fst (port_place b j) \<noteq> bar \<or> snd (port_place b j) + 8 \<le> off)"
proof -
  obtain j where j: "j < 6" "first_offset b = 0" "uart_offset b = 8" "reg_shift b = 0" "fl_base b = j" "\<not> fl_cap b"
      "if fl_bars b
       then \<exists>p. num_ports b = of_nat p \<and> j + p \<le> 6 \<and> j + p \<le> length (pd_res dev) \<and>
         (\<forall>k<p. bar_io (pd_res dev ! (j + k)) \<and> bar_len (pd_res dev ! (j + k)) = 8)
       else j < length (pd_res dev) \<and> bar_io (pd_res dev ! j) \<and> num_ports b = ucast (bar_len (pd_res dev ! j) div 8)"
    using guess_cases [OF assms(1)] by blast
  obtain bar off where place: "port_place b i = (bar, off)" by (metis surj_pair)
  let ?off = "if fl_bars b then first_offset b else first_offset b + of_nat i * uart_offset b"
  have at: "bar < 6 \<and> bar < length (pd_res dev) \<and> bar_io (pd_res dev ! bar) \<and> off + 8 \<le> unat (bar_len (pd_res dev ! bar)) \<and>
      (scast ?off :: u64) = of_nat off"
  proof (cases "fl_bars b")
    case True
    then obtain p where p: "num_ports b = of_nat p" "j + p \<le> 6" "j + p \<le> length (pd_res dev)"
        "\<forall>k<p. bar_io (pd_res dev ! (j + k)) \<and> bar_len (pd_res dev ! (j + k)) = 8"
      using j(7) by auto
    have "unat (num_ports b) = p" using p(1,2) by (simp add: unat_of_nat take_bit_nat_eq_self)
    with p assms(2) place True j show ?thesis by (auto simp: port_place_def)
  next
    case False
    then have r: "j < length (pd_res dev)" "bar_io (pd_res dev ! j)" "num_ports b = ucast (bar_len (pd_res dev ! j) div 8)"
      using j(7) by auto
    have len: "unat (bar_len (pd_res dev ! j)) < 2 ^ 31" using assms(3) r(1) by simp
    have "unat (num_ports b) \<le> unat (bar_len (pd_res dev ! j)) div 8"
      unfolding r(3) by (simp add: unsigned_ucast_eq take_bit_word_eq_self unat_div_distrib)
    with assms(2) have fit: "i * 8 + 8 \<le> unat (bar_len (pd_res dev ! j))" by linarith
    have "(scast (of_nat (i * 8) :: u32) :: u64) = of_nat (i * 8)" by (rule scast_small) (use fit len in linarith)
    with fit r place False j show ?thesis by (auto simp: port_place_def)
  qed
  have io: "\<not> bar_mem (pd_res dev ! bar)" using at assms(3) by (auto simp: nth_mem)
  have "pci_default_setup pe dev b (bars, port, h) i = setup_port pe dev (bars, port, h) bar ?off 0"
    using at place j by (cases "fl_bars b") (auto simp: pci_default_setup_def port_place_def Let_def)
  also have "\<dots> = Inr (0, bars, port_at (pd_res dev ! bar) off 0 port, h)"
    using at io by (simp add: setup_port_def port_at_def)
  finally have "pci_default_setup pe dev b (bars, port, h) i = Inr (0, bars, port_at (pd_res dev ! bar) off 0 port, h)" .
  moreover have "fst (port_place b k) \<noteq> bar \<or> snd (port_place b k) + 8 \<le> off" if "k < i" for k
    using places_apart [OF _ that assms(2)] place j by (simp add: ports_apart_def)
  ultimately show ?thesis using place at by blast
qed

text \<open>Six I/O BARs of eight ports: the guess takes them all.\<close>

definition penv1 :: penv where
  "penv1 = penv0\<lparr>pe_id := \<lambda>_. 0x0700\<rparr>"

theorem guessed_ports_within_bars_witness:
  "\<exists>b. serial_pci_guess_board penv1 pci_dev0 (snd (pci_boards ! 0)) = (0, b) \<and> num_ports b = 6 \<and>
    pci_default_setup penv1 pci_dev0 b (replicate 6 None, port_com1, hw0) 5 =
      Inr (0, replicate 6 None, port_com1\<lparr>pt_iobase := 0xC000\<rparr>, hw0)"
proof -
  have six: "replicate 6 x = [x, x, x, x, x, x]" for x :: 'a by (simp add: numeral_eq_Suc)
  obtain b where b: "serial_pci_guess_board penv1 pci_dev0 (snd (pci_boards ! 0)) = (0, b)" "num_ports b = 6"
      "fl_bars b" "fl_base b = 0" "first_offset b = 0"
    unfolding default_board
    by (simp add: serial_pci_guess_board_def mk_board_def penv1_def penv0_def pci_dev0_def softmodem_blacklist_def six)
  have dev: "\<forall>r \<in> set (pd_res pci_dev0). \<not> (bar_io r \<and> bar_mem r) \<and> unat (bar_len r) < 2 ^ 31"
    by (simp add: pci_dev0_def)
  have len: "length (replicate 6 None) = 6" by simp
  have lt: "5 < unat (num_ports b)" using b(2) by simp
  have "port_place b 5 = (5, 0)" using b by (simp add: port_place_def)
  with guessed_ports_within_bars [OF b(1) lt dev len, of port_com1 hw0]
  have "pci_default_setup penv1 pci_dev0 b (replicate 6 None, port_com1, hw0) 5 =
      Inr (0, replicate 6 None, port_at (pd_res pci_dev0 ! 5) 0 0 port_com1, hw0)" by auto
  moreover have "port_at (pd_res pci_dev0 ! 5) 0 0 port_com1 = port_com1\<lparr>pt_iobase := 0xC000\<rparr>"
    by (simp add: port_at_def pci_dev0_def port_com1_def)
  ultimately show ?thesis using b(1,2) by auto
qed

end
