(* ===== verification/Linux_Pci_Ids.thy ===== *)
theory Linux_Pci_Ids
  imports Linux_Pci_Driver
begin

unbundle bit_operations_syntax

text \<open>
  The cards that the PCI driver of \<open>8250_pci.c\<close> claims: the enumeration of boards and the table
  \<open>serial_pci_tbl\<close>, whose last field is the number of the card's board. The names of ids that the kernel's
  headers define are looked up with \<open>pid\<close>.
\<close>

section \<open>The boards' numbers\<close>

abbreviation (input) pbn_default :: nat where "pbn_default \<equiv> 0"
abbreviation (input) pbn_b0_1_115200 :: nat where "pbn_b0_1_115200 \<equiv> 1"
abbreviation (input) pbn_b0_2_115200 :: nat where "pbn_b0_2_115200 \<equiv> 2"
abbreviation (input) pbn_b0_4_115200 :: nat where "pbn_b0_4_115200 \<equiv> 3"
abbreviation (input) pbn_b0_5_115200 :: nat where "pbn_b0_5_115200 \<equiv> 4"
abbreviation (input) pbn_b0_8_115200 :: nat where "pbn_b0_8_115200 \<equiv> 5"
abbreviation (input) pbn_b0_1_921600 :: nat where "pbn_b0_1_921600 \<equiv> 6"
abbreviation (input) pbn_b0_2_921600 :: nat where "pbn_b0_2_921600 \<equiv> 7"
abbreviation (input) pbn_b0_4_921600 :: nat where "pbn_b0_4_921600 \<equiv> 8"
abbreviation (input) pbn_b0_2_1130000 :: nat where "pbn_b0_2_1130000 \<equiv> 9"
abbreviation (input) pbn_b0_4_1152000 :: nat where "pbn_b0_4_1152000 \<equiv> 10"
abbreviation (input) pbn_b0_2_1843200 :: nat where "pbn_b0_2_1843200 \<equiv> 11"
abbreviation (input) pbn_b0_4_1843200 :: nat where "pbn_b0_4_1843200 \<equiv> 12"
abbreviation (input) pbn_b0_2_1843200_200 :: nat where "pbn_b0_2_1843200_200 \<equiv> 13"
abbreviation (input) pbn_b0_4_1843200_200 :: nat where "pbn_b0_4_1843200_200 \<equiv> 14"
abbreviation (input) pbn_b0_8_1843200_200 :: nat where "pbn_b0_8_1843200_200 \<equiv> 15"
abbreviation (input) pbn_b0_1_4000000 :: nat where "pbn_b0_1_4000000 \<equiv> 16"
abbreviation (input) pbn_b0_bt_1_115200 :: nat where "pbn_b0_bt_1_115200 \<equiv> 17"
abbreviation (input) pbn_b0_bt_2_115200 :: nat where "pbn_b0_bt_2_115200 \<equiv> 18"
abbreviation (input) pbn_b0_bt_4_115200 :: nat where "pbn_b0_bt_4_115200 \<equiv> 19"
abbreviation (input) pbn_b0_bt_8_115200 :: nat where "pbn_b0_bt_8_115200 \<equiv> 20"
abbreviation (input) pbn_b0_bt_1_460800 :: nat where "pbn_b0_bt_1_460800 \<equiv> 21"
abbreviation (input) pbn_b0_bt_2_460800 :: nat where "pbn_b0_bt_2_460800 \<equiv> 22"
abbreviation (input) pbn_b0_bt_4_460800 :: nat where "pbn_b0_bt_4_460800 \<equiv> 23"
abbreviation (input) pbn_b0_bt_1_921600 :: nat where "pbn_b0_bt_1_921600 \<equiv> 24"
abbreviation (input) pbn_b0_bt_2_921600 :: nat where "pbn_b0_bt_2_921600 \<equiv> 25"
abbreviation (input) pbn_b0_bt_4_921600 :: nat where "pbn_b0_bt_4_921600 \<equiv> 26"
abbreviation (input) pbn_b0_bt_8_921600 :: nat where "pbn_b0_bt_8_921600 \<equiv> 27"
abbreviation (input) pbn_b1_1_115200 :: nat where "pbn_b1_1_115200 \<equiv> 28"
abbreviation (input) pbn_b1_2_115200 :: nat where "pbn_b1_2_115200 \<equiv> 29"
abbreviation (input) pbn_b1_4_115200 :: nat where "pbn_b1_4_115200 \<equiv> 30"
abbreviation (input) pbn_b1_8_115200 :: nat where "pbn_b1_8_115200 \<equiv> 31"
abbreviation (input) pbn_b1_16_115200 :: nat where "pbn_b1_16_115200 \<equiv> 32"
abbreviation (input) pbn_b1_1_921600 :: nat where "pbn_b1_1_921600 \<equiv> 33"
abbreviation (input) pbn_b1_2_921600 :: nat where "pbn_b1_2_921600 \<equiv> 34"
abbreviation (input) pbn_b1_4_921600 :: nat where "pbn_b1_4_921600 \<equiv> 35"
abbreviation (input) pbn_b1_8_921600 :: nat where "pbn_b1_8_921600 \<equiv> 36"
abbreviation (input) pbn_b1_2_1250000 :: nat where "pbn_b1_2_1250000 \<equiv> 37"
abbreviation (input) pbn_b1_bt_1_115200 :: nat where "pbn_b1_bt_1_115200 \<equiv> 38"
abbreviation (input) pbn_b1_bt_2_115200 :: nat where "pbn_b1_bt_2_115200 \<equiv> 39"
abbreviation (input) pbn_b1_bt_4_115200 :: nat where "pbn_b1_bt_4_115200 \<equiv> 40"
abbreviation (input) pbn_b1_bt_2_921600 :: nat where "pbn_b1_bt_2_921600 \<equiv> 41"
abbreviation (input) pbn_b1_1_1382400 :: nat where "pbn_b1_1_1382400 \<equiv> 42"
abbreviation (input) pbn_b1_2_1382400 :: nat where "pbn_b1_2_1382400 \<equiv> 43"
abbreviation (input) pbn_b1_4_1382400 :: nat where "pbn_b1_4_1382400 \<equiv> 44"
abbreviation (input) pbn_b1_8_1382400 :: nat where "pbn_b1_8_1382400 \<equiv> 45"
abbreviation (input) pbn_b2_1_115200 :: nat where "pbn_b2_1_115200 \<equiv> 46"
abbreviation (input) pbn_b2_2_115200 :: nat where "pbn_b2_2_115200 \<equiv> 47"
abbreviation (input) pbn_b2_4_115200 :: nat where "pbn_b2_4_115200 \<equiv> 48"
abbreviation (input) pbn_b2_8_115200 :: nat where "pbn_b2_8_115200 \<equiv> 49"
abbreviation (input) pbn_b2_1_460800 :: nat where "pbn_b2_1_460800 \<equiv> 50"
abbreviation (input) pbn_b2_4_460800 :: nat where "pbn_b2_4_460800 \<equiv> 51"
abbreviation (input) pbn_b2_8_460800 :: nat where "pbn_b2_8_460800 \<equiv> 52"
abbreviation (input) pbn_b2_16_460800 :: nat where "pbn_b2_16_460800 \<equiv> 53"
abbreviation (input) pbn_b2_1_921600 :: nat where "pbn_b2_1_921600 \<equiv> 54"
abbreviation (input) pbn_b2_4_921600 :: nat where "pbn_b2_4_921600 \<equiv> 55"
abbreviation (input) pbn_b2_8_921600 :: nat where "pbn_b2_8_921600 \<equiv> 56"
abbreviation (input) pbn_b2_8_1152000 :: nat where "pbn_b2_8_1152000 \<equiv> 57"
abbreviation (input) pbn_b2_bt_1_115200 :: nat where "pbn_b2_bt_1_115200 \<equiv> 58"
abbreviation (input) pbn_b2_bt_2_115200 :: nat where "pbn_b2_bt_2_115200 \<equiv> 59"
abbreviation (input) pbn_b2_bt_4_115200 :: nat where "pbn_b2_bt_4_115200 \<equiv> 60"
abbreviation (input) pbn_b2_bt_2_921600 :: nat where "pbn_b2_bt_2_921600 \<equiv> 61"
abbreviation (input) pbn_b2_bt_4_921600 :: nat where "pbn_b2_bt_4_921600 \<equiv> 62"
abbreviation (input) pbn_b3_2_115200 :: nat where "pbn_b3_2_115200 \<equiv> 63"
abbreviation (input) pbn_b3_4_115200 :: nat where "pbn_b3_4_115200 \<equiv> 64"
abbreviation (input) pbn_b3_8_115200 :: nat where "pbn_b3_8_115200 \<equiv> 65"
abbreviation (input) pbn_b4_bt_2_921600 :: nat where "pbn_b4_bt_2_921600 \<equiv> 66"
abbreviation (input) pbn_b4_bt_4_921600 :: nat where "pbn_b4_bt_4_921600 \<equiv> 67"
abbreviation (input) pbn_b4_bt_8_921600 :: nat where "pbn_b4_bt_8_921600 \<equiv> 68"
abbreviation (input) pbn_panacom :: nat where "pbn_panacom \<equiv> 69"
abbreviation (input) pbn_panacom2 :: nat where "pbn_panacom2 \<equiv> 70"
abbreviation (input) pbn_panacom4 :: nat where "pbn_panacom4 \<equiv> 71"
abbreviation (input) pbn_exsys_4055 :: nat where "pbn_exsys_4055 \<equiv> 72"
abbreviation (input) pbn_plx_romulus :: nat where "pbn_plx_romulus \<equiv> 73"
abbreviation (input) pbn_oxsemi :: nat where "pbn_oxsemi \<equiv> 74"
abbreviation (input) pbn_oxsemi_1_4000000 :: nat where "pbn_oxsemi_1_4000000 \<equiv> 75"
abbreviation (input) pbn_oxsemi_2_4000000 :: nat where "pbn_oxsemi_2_4000000 \<equiv> 76"
abbreviation (input) pbn_oxsemi_4_4000000 :: nat where "pbn_oxsemi_4_4000000 \<equiv> 77"
abbreviation (input) pbn_oxsemi_8_4000000 :: nat where "pbn_oxsemi_8_4000000 \<equiv> 78"
abbreviation (input) pbn_intel_i960 :: nat where "pbn_intel_i960 \<equiv> 79"
abbreviation (input) pbn_sgi_ioc3 :: nat where "pbn_sgi_ioc3 \<equiv> 80"
abbreviation (input) pbn_computone_4 :: nat where "pbn_computone_4 \<equiv> 81"
abbreviation (input) pbn_computone_6 :: nat where "pbn_computone_6 \<equiv> 82"
abbreviation (input) pbn_computone_8 :: nat where "pbn_computone_8 \<equiv> 83"
abbreviation (input) pbn_sbsxrsio :: nat where "pbn_sbsxrsio \<equiv> 84"
abbreviation (input) pbn_exar_XR17C152 :: nat where "pbn_exar_XR17C152 \<equiv> 85"
abbreviation (input) pbn_exar_XR17C154 :: nat where "pbn_exar_XR17C154 \<equiv> 86"
abbreviation (input) pbn_exar_XR17C158 :: nat where "pbn_exar_XR17C158 \<equiv> 87"
abbreviation (input) pbn_exar_ibm_saturn :: nat where "pbn_exar_ibm_saturn \<equiv> 88"
abbreviation (input) pbn_pasemi_1682M :: nat where "pbn_pasemi_1682M \<equiv> 89"
abbreviation (input) pbn_ni8430_2 :: nat where "pbn_ni8430_2 \<equiv> 90"
abbreviation (input) pbn_ni8430_4 :: nat where "pbn_ni8430_4 \<equiv> 91"
abbreviation (input) pbn_ni8430_8 :: nat where "pbn_ni8430_8 \<equiv> 92"
abbreviation (input) pbn_ni8430_16 :: nat where "pbn_ni8430_16 \<equiv> 93"
abbreviation (input) pbn_ADDIDATA_PCIe_1_3906250 :: nat where "pbn_ADDIDATA_PCIe_1_3906250 \<equiv> 94"
abbreviation (input) pbn_ADDIDATA_PCIe_2_3906250 :: nat where "pbn_ADDIDATA_PCIe_2_3906250 \<equiv> 95"
abbreviation (input) pbn_ADDIDATA_PCIe_4_3906250 :: nat where "pbn_ADDIDATA_PCIe_4_3906250 \<equiv> 96"
abbreviation (input) pbn_ADDIDATA_PCIe_8_3906250 :: nat where "pbn_ADDIDATA_PCIe_8_3906250 \<equiv> 97"
abbreviation (input) pbn_ce4100_1_115200 :: nat where "pbn_ce4100_1_115200 \<equiv> 98"
abbreviation (input) pbn_omegapci :: nat where "pbn_omegapci \<equiv> 99"
abbreviation (input) pbn_NETMOS9900_2s_115200 :: nat where "pbn_NETMOS9900_2s_115200 \<equiv> 100"

definition pci_board_num_t :: "(string \<times> nat) list" where
  "pci_board_num_t =
     [(''pbn_default'', pbn_default),
      (''pbn_b0_1_115200'', pbn_b0_1_115200),
      (''pbn_b0_2_115200'', pbn_b0_2_115200),
      (''pbn_b0_4_115200'', pbn_b0_4_115200),
      (''pbn_b0_5_115200'', pbn_b0_5_115200),
      (''pbn_b0_8_115200'', pbn_b0_8_115200),
      (''pbn_b0_1_921600'', pbn_b0_1_921600),
      (''pbn_b0_2_921600'', pbn_b0_2_921600),
      (''pbn_b0_4_921600'', pbn_b0_4_921600),
      (''pbn_b0_2_1130000'', pbn_b0_2_1130000),
      (''pbn_b0_4_1152000'', pbn_b0_4_1152000),
      (''pbn_b0_2_1843200'', pbn_b0_2_1843200),
      (''pbn_b0_4_1843200'', pbn_b0_4_1843200),
      (''pbn_b0_2_1843200_200'', pbn_b0_2_1843200_200),
      (''pbn_b0_4_1843200_200'', pbn_b0_4_1843200_200),
      (''pbn_b0_8_1843200_200'', pbn_b0_8_1843200_200),
      (''pbn_b0_1_4000000'', pbn_b0_1_4000000),
      (''pbn_b0_bt_1_115200'', pbn_b0_bt_1_115200),
      (''pbn_b0_bt_2_115200'', pbn_b0_bt_2_115200),
      (''pbn_b0_bt_4_115200'', pbn_b0_bt_4_115200),
      (''pbn_b0_bt_8_115200'', pbn_b0_bt_8_115200),
      (''pbn_b0_bt_1_460800'', pbn_b0_bt_1_460800),
      (''pbn_b0_bt_2_460800'', pbn_b0_bt_2_460800),
      (''pbn_b0_bt_4_460800'', pbn_b0_bt_4_460800),
      (''pbn_b0_bt_1_921600'', pbn_b0_bt_1_921600),
      (''pbn_b0_bt_2_921600'', pbn_b0_bt_2_921600),
      (''pbn_b0_bt_4_921600'', pbn_b0_bt_4_921600),
      (''pbn_b0_bt_8_921600'', pbn_b0_bt_8_921600),
      (''pbn_b1_1_115200'', pbn_b1_1_115200),
      (''pbn_b1_2_115200'', pbn_b1_2_115200),
      (''pbn_b1_4_115200'', pbn_b1_4_115200),
      (''pbn_b1_8_115200'', pbn_b1_8_115200),
      (''pbn_b1_16_115200'', pbn_b1_16_115200),
      (''pbn_b1_1_921600'', pbn_b1_1_921600),
      (''pbn_b1_2_921600'', pbn_b1_2_921600),
      (''pbn_b1_4_921600'', pbn_b1_4_921600),
      (''pbn_b1_8_921600'', pbn_b1_8_921600),
      (''pbn_b1_2_1250000'', pbn_b1_2_1250000),
      (''pbn_b1_bt_1_115200'', pbn_b1_bt_1_115200),
      (''pbn_b1_bt_2_115200'', pbn_b1_bt_2_115200),
      (''pbn_b1_bt_4_115200'', pbn_b1_bt_4_115200),
      (''pbn_b1_bt_2_921600'', pbn_b1_bt_2_921600),
      (''pbn_b1_1_1382400'', pbn_b1_1_1382400),
      (''pbn_b1_2_1382400'', pbn_b1_2_1382400),
      (''pbn_b1_4_1382400'', pbn_b1_4_1382400),
      (''pbn_b1_8_1382400'', pbn_b1_8_1382400),
      (''pbn_b2_1_115200'', pbn_b2_1_115200),
      (''pbn_b2_2_115200'', pbn_b2_2_115200),
      (''pbn_b2_4_115200'', pbn_b2_4_115200),
      (''pbn_b2_8_115200'', pbn_b2_8_115200),
      (''pbn_b2_1_460800'', pbn_b2_1_460800),
      (''pbn_b2_4_460800'', pbn_b2_4_460800),
      (''pbn_b2_8_460800'', pbn_b2_8_460800),
      (''pbn_b2_16_460800'', pbn_b2_16_460800),
      (''pbn_b2_1_921600'', pbn_b2_1_921600),
      (''pbn_b2_4_921600'', pbn_b2_4_921600),
      (''pbn_b2_8_921600'', pbn_b2_8_921600),
      (''pbn_b2_8_1152000'', pbn_b2_8_1152000),
      (''pbn_b2_bt_1_115200'', pbn_b2_bt_1_115200),
      (''pbn_b2_bt_2_115200'', pbn_b2_bt_2_115200),
      (''pbn_b2_bt_4_115200'', pbn_b2_bt_4_115200),
      (''pbn_b2_bt_2_921600'', pbn_b2_bt_2_921600),
      (''pbn_b2_bt_4_921600'', pbn_b2_bt_4_921600),
      (''pbn_b3_2_115200'', pbn_b3_2_115200),
      (''pbn_b3_4_115200'', pbn_b3_4_115200),
      (''pbn_b3_8_115200'', pbn_b3_8_115200),
      (''pbn_b4_bt_2_921600'', pbn_b4_bt_2_921600),
      (''pbn_b4_bt_4_921600'', pbn_b4_bt_4_921600),
      (''pbn_b4_bt_8_921600'', pbn_b4_bt_8_921600),
      (''pbn_panacom'', pbn_panacom),
      (''pbn_panacom2'', pbn_panacom2),
      (''pbn_panacom4'', pbn_panacom4),
      (''pbn_exsys_4055'', pbn_exsys_4055),
      (''pbn_plx_romulus'', pbn_plx_romulus),
      (''pbn_oxsemi'', pbn_oxsemi),
      (''pbn_oxsemi_1_4000000'', pbn_oxsemi_1_4000000),
      (''pbn_oxsemi_2_4000000'', pbn_oxsemi_2_4000000),
      (''pbn_oxsemi_4_4000000'', pbn_oxsemi_4_4000000),
      (''pbn_oxsemi_8_4000000'', pbn_oxsemi_8_4000000),
      (''pbn_intel_i960'', pbn_intel_i960),
      (''pbn_sgi_ioc3'', pbn_sgi_ioc3),
      (''pbn_computone_4'', pbn_computone_4),
      (''pbn_computone_6'', pbn_computone_6),
      (''pbn_computone_8'', pbn_computone_8),
      (''pbn_sbsxrsio'', pbn_sbsxrsio),
      (''pbn_exar_XR17C152'', pbn_exar_XR17C152),
      (''pbn_exar_XR17C154'', pbn_exar_XR17C154),
      (''pbn_exar_XR17C158'', pbn_exar_XR17C158),
      (''pbn_exar_ibm_saturn'', pbn_exar_ibm_saturn),
      (''pbn_pasemi_1682M'', pbn_pasemi_1682M),
      (''pbn_ni8430_2'', pbn_ni8430_2),
      (''pbn_ni8430_4'', pbn_ni8430_4),
      (''pbn_ni8430_8'', pbn_ni8430_8),
      (''pbn_ni8430_16'', pbn_ni8430_16),
      (''pbn_ADDIDATA_PCIe_1_3906250'', pbn_ADDIDATA_PCIe_1_3906250),
      (''pbn_ADDIDATA_PCIe_2_3906250'', pbn_ADDIDATA_PCIe_2_3906250),
      (''pbn_ADDIDATA_PCIe_4_3906250'', pbn_ADDIDATA_PCIe_4_3906250),
      (''pbn_ADDIDATA_PCIe_8_3906250'', pbn_ADDIDATA_PCIe_8_3906250),
      (''pbn_ce4100_1_115200'', pbn_ce4100_1_115200),
      (''pbn_omegapci'', pbn_omegapci),
      (''pbn_NETMOS9900_2s_115200'', pbn_NETMOS9900_2s_115200)]"

section \<open>The table\<close>

record pci_device_id =
  id_vendor :: u32
  id_device :: u32
  id_subvendor :: u32
  id_subdevice :: u32
  id_class :: u32
  id_class_mask :: u32
  id_board :: nat

definition pci_id :: "u32 \<Rightarrow> u32 \<Rightarrow> u32 \<Rightarrow> u32 \<Rightarrow> u32 \<Rightarrow> u32 \<Rightarrow> nat \<Rightarrow> pci_device_id" where
  "pci_id v d sv sd c m n =
     \<lparr>id_vendor = v, id_device = d, id_subvendor = sv, id_subdevice = sd, id_class = c, id_class_mask = m, id_board = n\<rparr>"

definition serial_pci_tbl_a :: "(string \<Rightarrow> u32) \<Rightarrow> pci_device_id list" where
  "serial_pci_tbl_a pid =
     [pci_id (pid ''PCI_VENDOR_ID_ADVANTECH'') (pid ''PCI_DEVICE_ID_ADVANTECH_PCI3620'') (pid ''PCI_DEVICE_ID_ADVANTECH_PCI3620'') 0x0001 0 0 pbn_b2_8_921600,
      pci_id (pid ''PCI_VENDOR_ID_V3'') (pid ''PCI_DEVICE_ID_V3_V960'') (pid ''PCI_SUBVENDOR_ID_CONNECT_TECH'') (pid ''PCI_SUBDEVICE_ID_CONNECT_TECH_BH8_232'') 0 0 pbn_b1_8_1382400,
      pci_id (pid ''PCI_VENDOR_ID_V3'') (pid ''PCI_DEVICE_ID_V3_V960'') (pid ''PCI_SUBVENDOR_ID_CONNECT_TECH'') (pid ''PCI_SUBDEVICE_ID_CONNECT_TECH_BH4_232'') 0 0 pbn_b1_4_1382400,
      pci_id (pid ''PCI_VENDOR_ID_V3'') (pid ''PCI_DEVICE_ID_V3_V960'') (pid ''PCI_SUBVENDOR_ID_CONNECT_TECH'') (pid ''PCI_SUBDEVICE_ID_CONNECT_TECH_BH2_232'') 0 0 pbn_b1_2_1382400,
      pci_id (pid ''PCI_VENDOR_ID_V3'') (pid ''PCI_DEVICE_ID_V3_V351'') (pid ''PCI_SUBVENDOR_ID_CONNECT_TECH'') (pid ''PCI_SUBDEVICE_ID_CONNECT_TECH_BH8_232'') 0 0 pbn_b1_8_1382400,
      pci_id (pid ''PCI_VENDOR_ID_V3'') (pid ''PCI_DEVICE_ID_V3_V351'') (pid ''PCI_SUBVENDOR_ID_CONNECT_TECH'') (pid ''PCI_SUBDEVICE_ID_CONNECT_TECH_BH4_232'') 0 0 pbn_b1_4_1382400,
      pci_id (pid ''PCI_VENDOR_ID_V3'') (pid ''PCI_DEVICE_ID_V3_V351'') (pid ''PCI_SUBVENDOR_ID_CONNECT_TECH'') (pid ''PCI_SUBDEVICE_ID_CONNECT_TECH_BH2_232'') 0 0 pbn_b1_2_1382400,
      pci_id (pid ''PCI_VENDOR_ID_V3'') (pid ''PCI_DEVICE_ID_V3_V351'') (pid ''PCI_SUBVENDOR_ID_CONNECT_TECH'') (pid ''PCI_SUBDEVICE_ID_CONNECT_TECH_BH8_485'') 0 0 pbn_b1_8_921600,
      pci_id (pid ''PCI_VENDOR_ID_V3'') (pid ''PCI_DEVICE_ID_V3_V351'') (pid ''PCI_SUBVENDOR_ID_CONNECT_TECH'') (pid ''PCI_SUBDEVICE_ID_CONNECT_TECH_BH8_485_4_4'') 0 0 pbn_b1_8_921600,
      pci_id (pid ''PCI_VENDOR_ID_V3'') (pid ''PCI_DEVICE_ID_V3_V351'') (pid ''PCI_SUBVENDOR_ID_CONNECT_TECH'') (pid ''PCI_SUBDEVICE_ID_CONNECT_TECH_BH4_485'') 0 0 pbn_b1_4_921600,
      pci_id (pid ''PCI_VENDOR_ID_V3'') (pid ''PCI_DEVICE_ID_V3_V351'') (pid ''PCI_SUBVENDOR_ID_CONNECT_TECH'') (pid ''PCI_SUBDEVICE_ID_CONNECT_TECH_BH4_485_2_2'') 0 0 pbn_b1_4_921600,
      pci_id (pid ''PCI_VENDOR_ID_V3'') (pid ''PCI_DEVICE_ID_V3_V351'') (pid ''PCI_SUBVENDOR_ID_CONNECT_TECH'') (pid ''PCI_SUBDEVICE_ID_CONNECT_TECH_BH2_485'') 0 0 pbn_b1_2_921600,
      pci_id (pid ''PCI_VENDOR_ID_V3'') (pid ''PCI_DEVICE_ID_V3_V351'') (pid ''PCI_SUBVENDOR_ID_CONNECT_TECH'') (pid ''PCI_SUBDEVICE_ID_CONNECT_TECH_BH8_485_2_6'') 0 0 pbn_b1_8_921600,
      pci_id (pid ''PCI_VENDOR_ID_V3'') (pid ''PCI_DEVICE_ID_V3_V351'') (pid ''PCI_SUBVENDOR_ID_CONNECT_TECH'') (pid ''PCI_SUBDEVICE_ID_CONNECT_TECH_BH081101V1'') 0 0 pbn_b1_8_921600,
      pci_id (pid ''PCI_VENDOR_ID_V3'') (pid ''PCI_DEVICE_ID_V3_V351'') (pid ''PCI_SUBVENDOR_ID_CONNECT_TECH'') (pid ''PCI_SUBDEVICE_ID_CONNECT_TECH_BH041101V1'') 0 0 pbn_b1_4_921600,
      pci_id (pid ''PCI_VENDOR_ID_V3'') (pid ''PCI_DEVICE_ID_V3_V351'') (pid ''PCI_SUBVENDOR_ID_CONNECT_TECH'') (pid ''PCI_SUBDEVICE_ID_CONNECT_TECH_BH2_20MHZ'') 0 0 pbn_b1_2_1250000,
      pci_id (pid ''PCI_VENDOR_ID_OXSEMI'') (pid ''PCI_DEVICE_ID_OXSEMI_16PCI954'') (pid ''PCI_SUBVENDOR_ID_CONNECT_TECH'') (pid ''PCI_SUBDEVICE_ID_CONNECT_TECH_TITAN_2'') 0 0 pbn_b0_2_1843200,
      pci_id (pid ''PCI_VENDOR_ID_OXSEMI'') (pid ''PCI_DEVICE_ID_OXSEMI_16PCI954'') (pid ''PCI_SUBVENDOR_ID_CONNECT_TECH'') (pid ''PCI_SUBDEVICE_ID_CONNECT_TECH_TITAN_4'') 0 0 pbn_b0_4_1843200,
      pci_id (pid ''PCI_VENDOR_ID_OXSEMI'') (pid ''PCI_DEVICE_ID_OXSEMI_16PCI954'') (pid ''PCI_VENDOR_ID_AFAVLAB'') (pid ''PCI_SUBDEVICE_ID_AFAVLAB_P061'') 0 0 pbn_b0_4_1152000,
      pci_id (pid ''PCI_VENDOR_ID_EXAR'') (pid ''PCI_DEVICE_ID_EXAR_XR17C152'') (pid ''PCI_SUBVENDOR_ID_CONNECT_TECH'') (pid ''PCI_SUBDEVICE_ID_CONNECT_TECH_PCI_UART_2_232'') 0 0 pbn_b0_2_1843200_200,
      pci_id (pid ''PCI_VENDOR_ID_EXAR'') (pid ''PCI_DEVICE_ID_EXAR_XR17C154'') (pid ''PCI_SUBVENDOR_ID_CONNECT_TECH'') (pid ''PCI_SUBDEVICE_ID_CONNECT_TECH_PCI_UART_4_232'') 0 0 pbn_b0_4_1843200_200,
      pci_id (pid ''PCI_VENDOR_ID_EXAR'') (pid ''PCI_DEVICE_ID_EXAR_XR17C158'') (pid ''PCI_SUBVENDOR_ID_CONNECT_TECH'') (pid ''PCI_SUBDEVICE_ID_CONNECT_TECH_PCI_UART_8_232'') 0 0 pbn_b0_8_1843200_200,
      pci_id (pid ''PCI_VENDOR_ID_EXAR'') (pid ''PCI_DEVICE_ID_EXAR_XR17C152'') (pid ''PCI_SUBVENDOR_ID_CONNECT_TECH'') (pid ''PCI_SUBDEVICE_ID_CONNECT_TECH_PCI_UART_1_1'') 0 0 pbn_b0_2_1843200_200,
      pci_id (pid ''PCI_VENDOR_ID_EXAR'') (pid ''PCI_DEVICE_ID_EXAR_XR17C154'') (pid ''PCI_SUBVENDOR_ID_CONNECT_TECH'') (pid ''PCI_SUBDEVICE_ID_CONNECT_TECH_PCI_UART_2_2'') 0 0 pbn_b0_4_1843200_200,
      pci_id (pid ''PCI_VENDOR_ID_EXAR'') (pid ''PCI_DEVICE_ID_EXAR_XR17C158'') (pid ''PCI_SUBVENDOR_ID_CONNECT_TECH'') (pid ''PCI_SUBDEVICE_ID_CONNECT_TECH_PCI_UART_4_4'') 0 0 pbn_b0_8_1843200_200,
      pci_id (pid ''PCI_VENDOR_ID_EXAR'') (pid ''PCI_DEVICE_ID_EXAR_XR17C152'') (pid ''PCI_SUBVENDOR_ID_CONNECT_TECH'') (pid ''PCI_SUBDEVICE_ID_CONNECT_TECH_PCI_UART_2'') 0 0 pbn_b0_2_1843200_200,
      pci_id (pid ''PCI_VENDOR_ID_EXAR'') (pid ''PCI_DEVICE_ID_EXAR_XR17C154'') (pid ''PCI_SUBVENDOR_ID_CONNECT_TECH'') (pid ''PCI_SUBDEVICE_ID_CONNECT_TECH_PCI_UART_4'') 0 0 pbn_b0_4_1843200_200,
      pci_id (pid ''PCI_VENDOR_ID_EXAR'') (pid ''PCI_DEVICE_ID_EXAR_XR17C158'') (pid ''PCI_SUBVENDOR_ID_CONNECT_TECH'') (pid ''PCI_SUBDEVICE_ID_CONNECT_TECH_PCI_UART_8'') 0 0 pbn_b0_8_1843200_200,
      pci_id (pid ''PCI_VENDOR_ID_EXAR'') (pid ''PCI_DEVICE_ID_EXAR_XR17C152'') (pid ''PCI_SUBVENDOR_ID_CONNECT_TECH'') (pid ''PCI_SUBDEVICE_ID_CONNECT_TECH_PCI_UART_2_485'') 0 0 pbn_b0_2_1843200_200,
      pci_id (pid ''PCI_VENDOR_ID_EXAR'') (pid ''PCI_DEVICE_ID_EXAR_XR17C154'') (pid ''PCI_SUBVENDOR_ID_CONNECT_TECH'') (pid ''PCI_SUBDEVICE_ID_CONNECT_TECH_PCI_UART_4_485'') 0 0 pbn_b0_4_1843200_200,
      pci_id (pid ''PCI_VENDOR_ID_EXAR'') (pid ''PCI_DEVICE_ID_EXAR_XR17C158'') (pid ''PCI_SUBVENDOR_ID_CONNECT_TECH'') (pid ''PCI_SUBDEVICE_ID_CONNECT_TECH_PCI_UART_8_485'') 0 0 pbn_b0_8_1843200_200,
      pci_id (pid ''PCI_VENDOR_ID_EXAR'') (pid ''PCI_DEVICE_ID_EXAR_XR17C152'') (pid ''PCI_VENDOR_ID_IBM'') (pid ''PCI_SUBDEVICE_ID_IBM_SATURN_SERIAL_ONE_PORT'') 0 0 pbn_exar_ibm_saturn,
      pci_id (pid ''PCI_VENDOR_ID_SEALEVEL'') (pid ''PCI_DEVICE_ID_SEALEVEL_U530'') PCI_ANY_ID PCI_ANY_ID 0 0 pbn_b2_bt_1_115200,
      pci_id (pid ''PCI_VENDOR_ID_SEALEVEL'') (pid ''PCI_DEVICE_ID_SEALEVEL_UCOMM2'') PCI_ANY_ID PCI_ANY_ID 0 0 pbn_b2_bt_2_115200,
      pci_id (pid ''PCI_VENDOR_ID_SEALEVEL'') (pid ''PCI_DEVICE_ID_SEALEVEL_UCOMM422'') PCI_ANY_ID PCI_ANY_ID 0 0 pbn_b2_bt_4_115200,
      pci_id (pid ''PCI_VENDOR_ID_SEALEVEL'') (pid ''PCI_DEVICE_ID_SEALEVEL_UCOMM232'') PCI_ANY_ID PCI_ANY_ID 0 0 pbn_b2_bt_2_115200,
      pci_id (pid ''PCI_VENDOR_ID_SEALEVEL'') (pid ''PCI_DEVICE_ID_SEALEVEL_COMM4'') PCI_ANY_ID PCI_ANY_ID 0 0 pbn_b2_bt_4_115200,
      pci_id (pid ''PCI_VENDOR_ID_SEALEVEL'') (pid ''PCI_DEVICE_ID_SEALEVEL_COMM8'') PCI_ANY_ID PCI_ANY_ID 0 0 pbn_b2_8_115200]"

definition serial_pci_tbl_b :: "(string \<Rightarrow> u32) \<Rightarrow> pci_device_id list" where
  "serial_pci_tbl_b pid =
     [pci_id (pid ''PCI_VENDOR_ID_SEALEVEL'') (pid ''PCI_DEVICE_ID_SEALEVEL_7803'') PCI_ANY_ID PCI_ANY_ID 0 0 pbn_b2_8_460800,
      pci_id (pid ''PCI_VENDOR_ID_SEALEVEL'') (pid ''PCI_DEVICE_ID_SEALEVEL_UCOMM8'') PCI_ANY_ID PCI_ANY_ID 0 0 pbn_b2_8_115200,
      pci_id (pid ''PCI_VENDOR_ID_PLX'') (pid ''PCI_DEVICE_ID_PLX_GTEK_SERIAL2'') PCI_ANY_ID PCI_ANY_ID 0 0 pbn_b2_bt_2_115200,
      pci_id (pid ''PCI_VENDOR_ID_PLX'') (pid ''PCI_DEVICE_ID_PLX_SPCOM200'') PCI_ANY_ID PCI_ANY_ID 0 0 pbn_b2_bt_2_921600,
      pci_id (pid ''PCI_VENDOR_ID_PLX'') (pid ''PCI_DEVICE_ID_PLX_SPCOM800'') PCI_ANY_ID PCI_ANY_ID 0 0 pbn_b2_8_921600,
      pci_id (pid ''PCI_VENDOR_ID_PLX'') (pid ''PCI_DEVICE_ID_PLX_1077'') PCI_ANY_ID PCI_ANY_ID 0 0 pbn_b2_4_921600,
      pci_id (pid ''PCI_VENDOR_ID_PLX'') (pid ''PCI_DEVICE_ID_PLX_9050'') (pid ''PCI_VENDOR_ID_PLX'') (pid ''PCI_SUBDEVICE_ID_UNKNOWN_0x1584'') 0 0 pbn_b0_4_115200,
      pci_id (pid ''PCI_VENDOR_ID_PLX'') (pid ''PCI_DEVICE_ID_PLX_9050'') (pid ''PCI_SUBVENDOR_ID_KEYSPAN'') (pid ''PCI_SUBDEVICE_ID_KEYSPAN_SX2'') 0 0 pbn_panacom,
      pci_id (pid ''PCI_VENDOR_ID_PANACOM'') (pid ''PCI_DEVICE_ID_PANACOM_QUADMODEM'') PCI_ANY_ID PCI_ANY_ID 0 0 pbn_panacom4,
      pci_id (pid ''PCI_VENDOR_ID_PANACOM'') (pid ''PCI_DEVICE_ID_PANACOM_DUALMODEM'') PCI_ANY_ID PCI_ANY_ID 0 0 pbn_panacom2,
      pci_id (pid ''PCI_VENDOR_ID_PLX'') (pid ''PCI_DEVICE_ID_PLX_9030'') (pid ''PCI_VENDOR_ID_ESDGMBH'') (pid ''PCI_DEVICE_ID_ESDGMBH_CPCIASIO4'') 0 0 pbn_b2_4_115200,
      pci_id (pid ''PCI_VENDOR_ID_PLX'') (pid ''PCI_DEVICE_ID_PLX_9050'') (pid ''PCI_SUBVENDOR_ID_CHASE_PCIFAST'') (pid ''PCI_SUBDEVICE_ID_CHASE_PCIFAST4'') 0 0 pbn_b2_4_460800,
      pci_id (pid ''PCI_VENDOR_ID_PLX'') (pid ''PCI_DEVICE_ID_PLX_9050'') (pid ''PCI_SUBVENDOR_ID_CHASE_PCIFAST'') (pid ''PCI_SUBDEVICE_ID_CHASE_PCIFAST8'') 0 0 pbn_b2_8_460800,
      pci_id (pid ''PCI_VENDOR_ID_PLX'') (pid ''PCI_DEVICE_ID_PLX_9050'') (pid ''PCI_SUBVENDOR_ID_CHASE_PCIFAST'') (pid ''PCI_SUBDEVICE_ID_CHASE_PCIFAST16'') 0 0 pbn_b2_16_460800,
      pci_id (pid ''PCI_VENDOR_ID_PLX'') (pid ''PCI_DEVICE_ID_PLX_9050'') (pid ''PCI_SUBVENDOR_ID_CHASE_PCIFAST'') (pid ''PCI_SUBDEVICE_ID_CHASE_PCIFAST16FMC'') 0 0 pbn_b2_16_460800,
      pci_id (pid ''PCI_VENDOR_ID_PLX'') (pid ''PCI_DEVICE_ID_PLX_9050'') (pid ''PCI_SUBVENDOR_ID_CHASE_PCIRAS'') (pid ''PCI_SUBDEVICE_ID_CHASE_PCIRAS4'') 0 0 pbn_b2_4_460800,
      pci_id (pid ''PCI_VENDOR_ID_PLX'') (pid ''PCI_DEVICE_ID_PLX_9050'') (pid ''PCI_SUBVENDOR_ID_CHASE_PCIRAS'') (pid ''PCI_SUBDEVICE_ID_CHASE_PCIRAS8'') 0 0 pbn_b2_8_460800,
      pci_id (pid ''PCI_VENDOR_ID_PLX'') (pid ''PCI_DEVICE_ID_PLX_9050'') (pid ''PCI_SUBVENDOR_ID_EXSYS'') (pid ''PCI_SUBDEVICE_ID_EXSYS_4055'') 0 0 pbn_exsys_4055,
      pci_id (pid ''PCI_VENDOR_ID_PLX'') (pid ''PCI_DEVICE_ID_PLX_ROMULUS'') 0x10b5 0x106a 0 0 pbn_plx_romulus,
      pci_id (pid ''PCI_VENDOR_ID_QUATECH'') (pid ''PCI_DEVICE_ID_QUATECH_QSC100'') PCI_ANY_ID PCI_ANY_ID 0 0 pbn_b1_4_115200,
      pci_id (pid ''PCI_VENDOR_ID_QUATECH'') (pid ''PCI_DEVICE_ID_QUATECH_DSC100'') PCI_ANY_ID PCI_ANY_ID 0 0 pbn_b1_2_115200,
      pci_id (pid ''PCI_VENDOR_ID_QUATECH'') (pid ''PCI_DEVICE_ID_QUATECH_ESC100D'') PCI_ANY_ID PCI_ANY_ID 0 0 pbn_b1_8_115200,
      pci_id (pid ''PCI_VENDOR_ID_QUATECH'') (pid ''PCI_DEVICE_ID_QUATECH_ESC100M'') PCI_ANY_ID PCI_ANY_ID 0 0 pbn_b1_8_115200,
      pci_id (pid ''PCI_VENDOR_ID_SPECIALIX'') (pid ''PCI_DEVICE_ID_OXSEMI_16PCI954'') (pid ''PCI_VENDOR_ID_SPECIALIX'') (pid ''PCI_SUBDEVICE_ID_SPECIALIX_SPEED4'') 0 0 pbn_b0_4_921600,
      pci_id (pid ''PCI_VENDOR_ID_OXSEMI'') (pid ''PCI_DEVICE_ID_OXSEMI_16PCI954'') (pid ''PCI_SUBVENDOR_ID_SIIG'') (pid ''PCI_SUBDEVICE_ID_SIIG_QUARTET_SERIAL'') 0 0 pbn_b0_4_1152000,
      pci_id (pid ''PCI_VENDOR_ID_OXSEMI'') 0x9505 PCI_ANY_ID PCI_ANY_ID 0 0 pbn_b0_bt_2_921600,
      pci_id (pid ''PCI_VENDOR_ID_OXSEMI'') 0x950a (pid ''PCI_SUBVENDOR_ID_SIIG'') (pid ''PCI_SUBDEVICE_ID_SIIG_DUAL_00'') 0 0 pbn_b0_2_115200,
      pci_id (pid ''PCI_VENDOR_ID_OXSEMI'') 0x950a (pid ''PCI_SUBVENDOR_ID_SIIG'') (pid ''PCI_SUBDEVICE_ID_SIIG_DUAL_30'') 0 0 pbn_b0_2_115200,
      pci_id (pid ''PCI_VENDOR_ID_OXSEMI'') 0x950a PCI_ANY_ID PCI_ANY_ID 0 0 pbn_b0_2_1130000,
      pci_id (pid ''PCI_VENDOR_ID_OXSEMI'') (pid ''PCI_DEVICE_ID_OXSEMI_C950'') (pid ''PCI_VENDOR_ID_OXSEMI'') (pid ''PCI_SUBDEVICE_ID_OXSEMI_C950'') 0 0 pbn_b0_1_921600,
      pci_id (pid ''PCI_VENDOR_ID_OXSEMI'') (pid ''PCI_DEVICE_ID_OXSEMI_16PCI954'') PCI_ANY_ID PCI_ANY_ID 0 0 pbn_b0_4_115200,
      pci_id (pid ''PCI_VENDOR_ID_OXSEMI'') (pid ''PCI_DEVICE_ID_OXSEMI_16PCI952'') PCI_ANY_ID PCI_ANY_ID 0 0 pbn_b0_bt_2_921600,
      pci_id (pid ''PCI_VENDOR_ID_OXSEMI'') (pid ''PCI_DEVICE_ID_OXSEMI_16PCI958'') PCI_ANY_ID PCI_ANY_ID 0 0 pbn_b2_8_1152000,
      pci_id (pid ''PCI_VENDOR_ID_OXSEMI'') 0xc101 PCI_ANY_ID PCI_ANY_ID 0 0 pbn_b0_1_4000000,
      pci_id (pid ''PCI_VENDOR_ID_OXSEMI'') 0xc105 PCI_ANY_ID PCI_ANY_ID 0 0 pbn_b0_1_4000000,
      pci_id (pid ''PCI_VENDOR_ID_OXSEMI'') 0xc11b PCI_ANY_ID PCI_ANY_ID 0 0 pbn_oxsemi_1_4000000,
      pci_id (pid ''PCI_VENDOR_ID_OXSEMI'') 0xc11f PCI_ANY_ID PCI_ANY_ID 0 0 pbn_oxsemi_1_4000000,
      pci_id (pid ''PCI_VENDOR_ID_OXSEMI'') 0xc120 PCI_ANY_ID PCI_ANY_ID 0 0 pbn_b0_1_4000000]"

definition serial_pci_tbl_c :: "(string \<Rightarrow> u32) \<Rightarrow> pci_device_id list" where
  "serial_pci_tbl_c pid =
     [pci_id (pid ''PCI_VENDOR_ID_OXSEMI'') 0xc124 PCI_ANY_ID PCI_ANY_ID 0 0 pbn_b0_1_4000000,
      pci_id (pid ''PCI_VENDOR_ID_OXSEMI'') 0xc138 PCI_ANY_ID PCI_ANY_ID 0 0 pbn_oxsemi_1_4000000,
      pci_id (pid ''PCI_VENDOR_ID_OXSEMI'') 0xc13d PCI_ANY_ID PCI_ANY_ID 0 0 pbn_oxsemi_1_4000000,
      pci_id (pid ''PCI_VENDOR_ID_OXSEMI'') 0xc140 PCI_ANY_ID PCI_ANY_ID 0 0 pbn_b0_1_4000000,
      pci_id (pid ''PCI_VENDOR_ID_OXSEMI'') 0xc141 PCI_ANY_ID PCI_ANY_ID 0 0 pbn_b0_1_4000000,
      pci_id (pid ''PCI_VENDOR_ID_OXSEMI'') 0xc144 PCI_ANY_ID PCI_ANY_ID 0 0 pbn_b0_1_4000000,
      pci_id (pid ''PCI_VENDOR_ID_OXSEMI'') 0xc145 PCI_ANY_ID PCI_ANY_ID 0 0 pbn_b0_1_4000000,
      pci_id (pid ''PCI_VENDOR_ID_OXSEMI'') 0xc158 PCI_ANY_ID PCI_ANY_ID 0 0 pbn_oxsemi_2_4000000,
      pci_id (pid ''PCI_VENDOR_ID_OXSEMI'') 0xc15d PCI_ANY_ID PCI_ANY_ID 0 0 pbn_oxsemi_2_4000000,
      pci_id (pid ''PCI_VENDOR_ID_OXSEMI'') 0xc208 PCI_ANY_ID PCI_ANY_ID 0 0 pbn_oxsemi_4_4000000,
      pci_id (pid ''PCI_VENDOR_ID_OXSEMI'') 0xc20d PCI_ANY_ID PCI_ANY_ID 0 0 pbn_oxsemi_4_4000000,
      pci_id (pid ''PCI_VENDOR_ID_OXSEMI'') 0xc308 PCI_ANY_ID PCI_ANY_ID 0 0 pbn_oxsemi_8_4000000,
      pci_id (pid ''PCI_VENDOR_ID_OXSEMI'') 0xc30d PCI_ANY_ID PCI_ANY_ID 0 0 pbn_oxsemi_8_4000000,
      pci_id (pid ''PCI_VENDOR_ID_OXSEMI'') 0xc40b PCI_ANY_ID PCI_ANY_ID 0 0 pbn_oxsemi_1_4000000,
      pci_id (pid ''PCI_VENDOR_ID_OXSEMI'') 0xc40f PCI_ANY_ID PCI_ANY_ID 0 0 pbn_oxsemi_1_4000000,
      pci_id (pid ''PCI_VENDOR_ID_OXSEMI'') 0xc41b PCI_ANY_ID PCI_ANY_ID 0 0 pbn_oxsemi_1_4000000,
      pci_id (pid ''PCI_VENDOR_ID_OXSEMI'') 0xc41f PCI_ANY_ID PCI_ANY_ID 0 0 pbn_oxsemi_1_4000000,
      pci_id (pid ''PCI_VENDOR_ID_OXSEMI'') 0xc42b PCI_ANY_ID PCI_ANY_ID 0 0 pbn_oxsemi_1_4000000,
      pci_id (pid ''PCI_VENDOR_ID_OXSEMI'') 0xc42f PCI_ANY_ID PCI_ANY_ID 0 0 pbn_oxsemi_1_4000000,
      pci_id (pid ''PCI_VENDOR_ID_OXSEMI'') 0xc43b PCI_ANY_ID PCI_ANY_ID 0 0 pbn_oxsemi_1_4000000,
      pci_id (pid ''PCI_VENDOR_ID_OXSEMI'') 0xc43f PCI_ANY_ID PCI_ANY_ID 0 0 pbn_oxsemi_1_4000000,
      pci_id (pid ''PCI_VENDOR_ID_OXSEMI'') 0xc44b PCI_ANY_ID PCI_ANY_ID 0 0 pbn_oxsemi_1_4000000,
      pci_id (pid ''PCI_VENDOR_ID_OXSEMI'') 0xc44f PCI_ANY_ID PCI_ANY_ID 0 0 pbn_oxsemi_1_4000000,
      pci_id (pid ''PCI_VENDOR_ID_OXSEMI'') 0xc45b PCI_ANY_ID PCI_ANY_ID 0 0 pbn_oxsemi_1_4000000,
      pci_id (pid ''PCI_VENDOR_ID_OXSEMI'') 0xc45f PCI_ANY_ID PCI_ANY_ID 0 0 pbn_oxsemi_1_4000000,
      pci_id (pid ''PCI_VENDOR_ID_OXSEMI'') 0xc46b PCI_ANY_ID PCI_ANY_ID 0 0 pbn_oxsemi_1_4000000,
      pci_id (pid ''PCI_VENDOR_ID_OXSEMI'') 0xc46f PCI_ANY_ID PCI_ANY_ID 0 0 pbn_oxsemi_1_4000000,
      pci_id (pid ''PCI_VENDOR_ID_OXSEMI'') 0xc47b PCI_ANY_ID PCI_ANY_ID 0 0 pbn_oxsemi_1_4000000,
      pci_id (pid ''PCI_VENDOR_ID_OXSEMI'') 0xc47f PCI_ANY_ID PCI_ANY_ID 0 0 pbn_oxsemi_1_4000000,
      pci_id (pid ''PCI_VENDOR_ID_OXSEMI'') 0xc48b PCI_ANY_ID PCI_ANY_ID 0 0 pbn_oxsemi_1_4000000,
      pci_id (pid ''PCI_VENDOR_ID_OXSEMI'') 0xc48f PCI_ANY_ID PCI_ANY_ID 0 0 pbn_oxsemi_1_4000000,
      pci_id (pid ''PCI_VENDOR_ID_OXSEMI'') 0xc49b PCI_ANY_ID PCI_ANY_ID 0 0 pbn_oxsemi_1_4000000,
      pci_id (pid ''PCI_VENDOR_ID_OXSEMI'') 0xc49f PCI_ANY_ID PCI_ANY_ID 0 0 pbn_oxsemi_1_4000000,
      pci_id (pid ''PCI_VENDOR_ID_OXSEMI'') 0xc4ab PCI_ANY_ID PCI_ANY_ID 0 0 pbn_oxsemi_1_4000000,
      pci_id (pid ''PCI_VENDOR_ID_OXSEMI'') 0xc4af PCI_ANY_ID PCI_ANY_ID 0 0 pbn_oxsemi_1_4000000,
      pci_id (pid ''PCI_VENDOR_ID_OXSEMI'') 0xc4bb PCI_ANY_ID PCI_ANY_ID 0 0 pbn_oxsemi_1_4000000,
      pci_id (pid ''PCI_VENDOR_ID_OXSEMI'') 0xc4bf PCI_ANY_ID PCI_ANY_ID 0 0 pbn_oxsemi_1_4000000,
      pci_id (pid ''PCI_VENDOR_ID_OXSEMI'') 0xc4cb PCI_ANY_ID PCI_ANY_ID 0 0 pbn_oxsemi_1_4000000,
      pci_id (pid ''PCI_VENDOR_ID_OXSEMI'') 0xc4cf PCI_ANY_ID PCI_ANY_ID 0 0 pbn_oxsemi_1_4000000,
      pci_id (pid ''PCI_VENDOR_ID_MAINPINE'') 0x4000 (pid ''PCI_VENDOR_ID_MAINPINE'') 0x4001 0 0 pbn_oxsemi_1_4000000,
      pci_id (pid ''PCI_VENDOR_ID_MAINPINE'') 0x4000 (pid ''PCI_VENDOR_ID_MAINPINE'') 0x4002 0 0 pbn_oxsemi_2_4000000,
      pci_id (pid ''PCI_VENDOR_ID_MAINPINE'') 0x4000 (pid ''PCI_VENDOR_ID_MAINPINE'') 0x4004 0 0 pbn_oxsemi_4_4000000,
      pci_id (pid ''PCI_VENDOR_ID_MAINPINE'') 0x4000 (pid ''PCI_VENDOR_ID_MAINPINE'') 0x4008 0 0 pbn_oxsemi_8_4000000,
      pci_id (pid ''PCI_VENDOR_ID_DIGI'') (pid ''PCIE_DEVICE_ID_NEO_2_OX_IBM'') (pid ''PCI_SUBVENDOR_ID_IBM'') PCI_ANY_ID 0 0 pbn_oxsemi_2_4000000,
      pci_id (pid ''PCI_VENDOR_ID_SBSMODULARIO'') (pid ''PCI_DEVICE_ID_OCTPRO'') (pid ''PCI_SUBVENDOR_ID_SBSMODULARIO'') (pid ''PCI_SUBDEVICE_ID_OCTPRO232'') 0 0 pbn_sbsxrsio]"

definition serial_pci_tbl_d :: "(string \<Rightarrow> u32) \<Rightarrow> pci_device_id list" where
  "serial_pci_tbl_d pid =
     [pci_id (pid ''PCI_VENDOR_ID_SBSMODULARIO'') (pid ''PCI_DEVICE_ID_OCTPRO'') (pid ''PCI_SUBVENDOR_ID_SBSMODULARIO'') (pid ''PCI_SUBDEVICE_ID_OCTPRO422'') 0 0 pbn_sbsxrsio,
      pci_id (pid ''PCI_VENDOR_ID_SBSMODULARIO'') (pid ''PCI_DEVICE_ID_OCTPRO'') (pid ''PCI_SUBVENDOR_ID_SBSMODULARIO'') (pid ''PCI_SUBDEVICE_ID_POCTAL232'') 0 0 pbn_sbsxrsio,
      pci_id (pid ''PCI_VENDOR_ID_SBSMODULARIO'') (pid ''PCI_DEVICE_ID_OCTPRO'') (pid ''PCI_SUBVENDOR_ID_SBSMODULARIO'') (pid ''PCI_SUBDEVICE_ID_POCTAL422'') 0 0 pbn_sbsxrsio,
      pci_id (pid ''PCI_VENDOR_ID_ATT'') (pid ''PCI_DEVICE_ID_ATT_VENUS_MODEM'') PCI_ANY_ID PCI_ANY_ID 0 0 pbn_b1_1_115200,
      pci_id (pid ''PCI_VENDOR_ID_TITAN'') (pid ''PCI_DEVICE_ID_TITAN_100'') PCI_ANY_ID PCI_ANY_ID 0 0 pbn_b0_1_921600,
      pci_id (pid ''PCI_VENDOR_ID_TITAN'') (pid ''PCI_DEVICE_ID_TITAN_200'') PCI_ANY_ID PCI_ANY_ID 0 0 pbn_b0_2_921600,
      pci_id (pid ''PCI_VENDOR_ID_TITAN'') (pid ''PCI_DEVICE_ID_TITAN_400'') PCI_ANY_ID PCI_ANY_ID 0 0 pbn_b0_4_921600,
      pci_id (pid ''PCI_VENDOR_ID_TITAN'') (pid ''PCI_DEVICE_ID_TITAN_800B'') PCI_ANY_ID PCI_ANY_ID 0 0 pbn_b0_4_921600,
      pci_id (pid ''PCI_VENDOR_ID_TITAN'') (pid ''PCI_DEVICE_ID_TITAN_100L'') PCI_ANY_ID PCI_ANY_ID 0 0 pbn_b1_1_921600,
      pci_id (pid ''PCI_VENDOR_ID_TITAN'') (pid ''PCI_DEVICE_ID_TITAN_200L'') PCI_ANY_ID PCI_ANY_ID 0 0 pbn_b1_bt_2_921600,
      pci_id (pid ''PCI_VENDOR_ID_TITAN'') (pid ''PCI_DEVICE_ID_TITAN_400L'') PCI_ANY_ID PCI_ANY_ID 0 0 pbn_b0_bt_4_921600,
      pci_id (pid ''PCI_VENDOR_ID_TITAN'') (pid ''PCI_DEVICE_ID_TITAN_800L'') PCI_ANY_ID PCI_ANY_ID 0 0 pbn_b0_bt_8_921600,
      pci_id (pid ''PCI_VENDOR_ID_TITAN'') (pid ''PCI_DEVICE_ID_TITAN_200I'') PCI_ANY_ID PCI_ANY_ID 0 0 pbn_b4_bt_2_921600,
      pci_id (pid ''PCI_VENDOR_ID_TITAN'') (pid ''PCI_DEVICE_ID_TITAN_400I'') PCI_ANY_ID PCI_ANY_ID 0 0 pbn_b4_bt_4_921600,
      pci_id (pid ''PCI_VENDOR_ID_TITAN'') (pid ''PCI_DEVICE_ID_TITAN_800I'') PCI_ANY_ID PCI_ANY_ID 0 0 pbn_b4_bt_8_921600,
      pci_id (pid ''PCI_VENDOR_ID_TITAN'') (pid ''PCI_DEVICE_ID_TITAN_400EH'') PCI_ANY_ID PCI_ANY_ID 0 0 pbn_b0_4_921600,
      pci_id (pid ''PCI_VENDOR_ID_TITAN'') (pid ''PCI_DEVICE_ID_TITAN_800EH'') PCI_ANY_ID PCI_ANY_ID 0 0 pbn_b0_4_921600,
      pci_id (pid ''PCI_VENDOR_ID_TITAN'') (pid ''PCI_DEVICE_ID_TITAN_800EHB'') PCI_ANY_ID PCI_ANY_ID 0 0 pbn_b0_4_921600,
      pci_id (pid ''PCI_VENDOR_ID_TITAN'') (pid ''PCI_DEVICE_ID_TITAN_100E'') PCI_ANY_ID PCI_ANY_ID 0 0 pbn_oxsemi_1_4000000,
      pci_id (pid ''PCI_VENDOR_ID_TITAN'') (pid ''PCI_DEVICE_ID_TITAN_200E'') PCI_ANY_ID PCI_ANY_ID 0 0 pbn_oxsemi_2_4000000,
      pci_id (pid ''PCI_VENDOR_ID_TITAN'') (pid ''PCI_DEVICE_ID_TITAN_400E'') PCI_ANY_ID PCI_ANY_ID 0 0 pbn_oxsemi_4_4000000,
      pci_id (pid ''PCI_VENDOR_ID_TITAN'') (pid ''PCI_DEVICE_ID_TITAN_800E'') PCI_ANY_ID PCI_ANY_ID 0 0 pbn_oxsemi_8_4000000,
      pci_id (pid ''PCI_VENDOR_ID_TITAN'') (pid ''PCI_DEVICE_ID_TITAN_200EI'') PCI_ANY_ID PCI_ANY_ID 0 0 pbn_oxsemi_2_4000000,
      pci_id (pid ''PCI_VENDOR_ID_TITAN'') (pid ''PCI_DEVICE_ID_TITAN_200EISI'') PCI_ANY_ID PCI_ANY_ID 0 0 pbn_oxsemi_2_4000000,
      pci_id (pid ''PCI_VENDOR_ID_TITAN'') (pid ''PCI_DEVICE_ID_TITAN_400V3'') PCI_ANY_ID PCI_ANY_ID 0 0 pbn_b0_4_921600,
      pci_id (pid ''PCI_VENDOR_ID_TITAN'') (pid ''PCI_DEVICE_ID_TITAN_410V3'') PCI_ANY_ID PCI_ANY_ID 0 0 pbn_b0_4_921600,
      pci_id (pid ''PCI_VENDOR_ID_TITAN'') (pid ''PCI_DEVICE_ID_TITAN_800V3'') PCI_ANY_ID PCI_ANY_ID 0 0 pbn_b0_4_921600,
      pci_id (pid ''PCI_VENDOR_ID_TITAN'') (pid ''PCI_DEVICE_ID_TITAN_800V3B'') PCI_ANY_ID PCI_ANY_ID 0 0 pbn_b0_4_921600,
      pci_id (pid ''PCI_VENDOR_ID_SIIG'') (pid ''PCI_DEVICE_ID_SIIG_1S_10x_550'') PCI_ANY_ID PCI_ANY_ID 0 0 pbn_b2_1_460800,
      pci_id (pid ''PCI_VENDOR_ID_SIIG'') (pid ''PCI_DEVICE_ID_SIIG_1S_10x_650'') PCI_ANY_ID PCI_ANY_ID 0 0 pbn_b2_1_460800,
      pci_id (pid ''PCI_VENDOR_ID_SIIG'') (pid ''PCI_DEVICE_ID_SIIG_1S_10x_850'') PCI_ANY_ID PCI_ANY_ID 0 0 pbn_b2_1_460800,
      pci_id (pid ''PCI_VENDOR_ID_SIIG'') (pid ''PCI_DEVICE_ID_SIIG_2S_10x_550'') PCI_ANY_ID PCI_ANY_ID 0 0 pbn_b2_bt_2_921600,
      pci_id (pid ''PCI_VENDOR_ID_SIIG'') (pid ''PCI_DEVICE_ID_SIIG_2S_10x_650'') PCI_ANY_ID PCI_ANY_ID 0 0 pbn_b2_bt_2_921600,
      pci_id (pid ''PCI_VENDOR_ID_SIIG'') (pid ''PCI_DEVICE_ID_SIIG_2S_10x_850'') PCI_ANY_ID PCI_ANY_ID 0 0 pbn_b2_bt_2_921600,
      pci_id (pid ''PCI_VENDOR_ID_SIIG'') (pid ''PCI_DEVICE_ID_SIIG_4S_10x_550'') PCI_ANY_ID PCI_ANY_ID 0 0 pbn_b2_bt_4_921600,
      pci_id (pid ''PCI_VENDOR_ID_SIIG'') (pid ''PCI_DEVICE_ID_SIIG_4S_10x_650'') PCI_ANY_ID PCI_ANY_ID 0 0 pbn_b2_bt_4_921600,
      pci_id (pid ''PCI_VENDOR_ID_SIIG'') (pid ''PCI_DEVICE_ID_SIIG_4S_10x_850'') PCI_ANY_ID PCI_ANY_ID 0 0 pbn_b2_bt_4_921600,
      pci_id (pid ''PCI_VENDOR_ID_SIIG'') (pid ''PCI_DEVICE_ID_SIIG_1S_20x_550'') PCI_ANY_ID PCI_ANY_ID 0 0 pbn_b0_1_921600,
      pci_id (pid ''PCI_VENDOR_ID_SIIG'') (pid ''PCI_DEVICE_ID_SIIG_1S_20x_650'') PCI_ANY_ID PCI_ANY_ID 0 0 pbn_b0_1_921600,
      pci_id (pid ''PCI_VENDOR_ID_SIIG'') (pid ''PCI_DEVICE_ID_SIIG_1S_20x_850'') PCI_ANY_ID PCI_ANY_ID 0 0 pbn_b0_1_921600,
      pci_id (pid ''PCI_VENDOR_ID_SIIG'') (pid ''PCI_DEVICE_ID_SIIG_2S_20x_550'') PCI_ANY_ID PCI_ANY_ID 0 0 pbn_b0_bt_2_921600,
      pci_id (pid ''PCI_VENDOR_ID_SIIG'') (pid ''PCI_DEVICE_ID_SIIG_2S_20x_650'') PCI_ANY_ID PCI_ANY_ID 0 0 pbn_b0_bt_2_921600,
      pci_id (pid ''PCI_VENDOR_ID_SIIG'') (pid ''PCI_DEVICE_ID_SIIG_2S_20x_850'') PCI_ANY_ID PCI_ANY_ID 0 0 pbn_b0_bt_2_921600,
      pci_id (pid ''PCI_VENDOR_ID_SIIG'') (pid ''PCI_DEVICE_ID_SIIG_4S_20x_550'') PCI_ANY_ID PCI_ANY_ID 0 0 pbn_b0_bt_4_921600,
      pci_id (pid ''PCI_VENDOR_ID_SIIG'') (pid ''PCI_DEVICE_ID_SIIG_4S_20x_650'') PCI_ANY_ID PCI_ANY_ID 0 0 pbn_b0_bt_4_921600,
      pci_id (pid ''PCI_VENDOR_ID_SIIG'') (pid ''PCI_DEVICE_ID_SIIG_4S_20x_850'') PCI_ANY_ID PCI_ANY_ID 0 0 pbn_b0_bt_4_921600]"

definition serial_pci_tbl_e :: "(string \<Rightarrow> u32) \<Rightarrow> pci_device_id list" where
  "serial_pci_tbl_e pid =
     [pci_id (pid ''PCI_VENDOR_ID_SIIG'') (pid ''PCI_DEVICE_ID_SIIG_8S_20x_550'') PCI_ANY_ID PCI_ANY_ID 0 0 pbn_b0_bt_8_921600,
      pci_id (pid ''PCI_VENDOR_ID_SIIG'') (pid ''PCI_DEVICE_ID_SIIG_8S_20x_650'') PCI_ANY_ID PCI_ANY_ID 0 0 pbn_b0_bt_8_921600,
      pci_id (pid ''PCI_VENDOR_ID_SIIG'') (pid ''PCI_DEVICE_ID_SIIG_8S_20x_850'') PCI_ANY_ID PCI_ANY_ID 0 0 pbn_b0_bt_8_921600,
      pci_id (pid ''PCI_VENDOR_ID_COMPUTONE'') (pid ''PCI_DEVICE_ID_COMPUTONE_PG'') (pid ''PCI_SUBVENDOR_ID_COMPUTONE'') (pid ''PCI_SUBDEVICE_ID_COMPUTONE_PG4'') 0 0 pbn_computone_4,
      pci_id (pid ''PCI_VENDOR_ID_COMPUTONE'') (pid ''PCI_DEVICE_ID_COMPUTONE_PG'') (pid ''PCI_SUBVENDOR_ID_COMPUTONE'') (pid ''PCI_SUBDEVICE_ID_COMPUTONE_PG8'') 0 0 pbn_computone_8,
      pci_id (pid ''PCI_VENDOR_ID_COMPUTONE'') (pid ''PCI_DEVICE_ID_COMPUTONE_PG'') (pid ''PCI_SUBVENDOR_ID_COMPUTONE'') (pid ''PCI_SUBDEVICE_ID_COMPUTONE_PG6'') 0 0 pbn_computone_6,
      pci_id (pid ''PCI_VENDOR_ID_OXSEMI'') (pid ''PCI_DEVICE_ID_OXSEMI_16PCI95N'') PCI_ANY_ID PCI_ANY_ID 0 0 pbn_oxsemi,
      pci_id (pid ''PCI_VENDOR_ID_TIMEDIA'') (pid ''PCI_DEVICE_ID_TIMEDIA_1889'') (pid ''PCI_VENDOR_ID_TIMEDIA'') PCI_ANY_ID 0 0 pbn_b0_bt_1_921600,
      pci_id (pid ''PCI_VENDOR_ID_AFAVLAB'') (pid ''PCI_DEVICE_ID_AFAVLAB_P028'') PCI_ANY_ID PCI_ANY_ID 0 0 pbn_b0_bt_8_115200,
      pci_id (pid ''PCI_VENDOR_ID_AFAVLAB'') (pid ''PCI_DEVICE_ID_AFAVLAB_P030'') PCI_ANY_ID PCI_ANY_ID 0 0 pbn_b0_bt_8_115200,
      pci_id (pid ''PCI_VENDOR_ID_LAVA'') (pid ''PCI_DEVICE_ID_LAVA_DSERIAL'') PCI_ANY_ID PCI_ANY_ID 0 0 pbn_b0_bt_2_115200,
      pci_id (pid ''PCI_VENDOR_ID_LAVA'') (pid ''PCI_DEVICE_ID_LAVA_QUATRO_A'') PCI_ANY_ID PCI_ANY_ID 0 0 pbn_b0_bt_2_115200,
      pci_id (pid ''PCI_VENDOR_ID_LAVA'') (pid ''PCI_DEVICE_ID_LAVA_QUATRO_B'') PCI_ANY_ID PCI_ANY_ID 0 0 pbn_b0_bt_2_115200,
      pci_id (pid ''PCI_VENDOR_ID_LAVA'') (pid ''PCI_DEVICE_ID_LAVA_QUATTRO_A'') PCI_ANY_ID PCI_ANY_ID 0 0 pbn_b0_bt_2_115200,
      pci_id (pid ''PCI_VENDOR_ID_LAVA'') (pid ''PCI_DEVICE_ID_LAVA_QUATTRO_B'') PCI_ANY_ID PCI_ANY_ID 0 0 pbn_b0_bt_2_115200,
      pci_id (pid ''PCI_VENDOR_ID_LAVA'') (pid ''PCI_DEVICE_ID_LAVA_OCTO_A'') PCI_ANY_ID PCI_ANY_ID 0 0 pbn_b0_bt_4_460800,
      pci_id (pid ''PCI_VENDOR_ID_LAVA'') (pid ''PCI_DEVICE_ID_LAVA_OCTO_B'') PCI_ANY_ID PCI_ANY_ID 0 0 pbn_b0_bt_4_460800,
      pci_id (pid ''PCI_VENDOR_ID_LAVA'') (pid ''PCI_DEVICE_ID_LAVA_PORT_PLUS'') PCI_ANY_ID PCI_ANY_ID 0 0 pbn_b0_bt_2_460800,
      pci_id (pid ''PCI_VENDOR_ID_LAVA'') (pid ''PCI_DEVICE_ID_LAVA_QUAD_A'') PCI_ANY_ID PCI_ANY_ID 0 0 pbn_b0_bt_2_460800,
      pci_id (pid ''PCI_VENDOR_ID_LAVA'') (pid ''PCI_DEVICE_ID_LAVA_QUAD_B'') PCI_ANY_ID PCI_ANY_ID 0 0 pbn_b0_bt_2_460800,
      pci_id (pid ''PCI_VENDOR_ID_LAVA'') (pid ''PCI_DEVICE_ID_LAVA_SSERIAL'') PCI_ANY_ID PCI_ANY_ID 0 0 pbn_b0_bt_1_115200,
      pci_id (pid ''PCI_VENDOR_ID_LAVA'') (pid ''PCI_DEVICE_ID_LAVA_PORT_650'') PCI_ANY_ID PCI_ANY_ID 0 0 pbn_b0_bt_1_460800,
      pci_id (pid ''PCI_VENDOR_ID_KORENIX'') (pid ''PCI_DEVICE_ID_KORENIX_JETCARDF0'') 0x1204 0x0004 0 0 pbn_b0_4_921600,
      pci_id (pid ''PCI_VENDOR_ID_KORENIX'') (pid ''PCI_DEVICE_ID_KORENIX_JETCARDF0'') 0x1208 0x0004 0 0 pbn_b0_4_921600,
      pci_id (pid ''PCI_VENDOR_ID_KORENIX'') (pid ''PCI_DEVICE_ID_KORENIX_JETCARDF1'') 0x1208 0x0004 0 0 pbn_b0_4_921600,
      pci_id (pid ''PCI_VENDOR_ID_KORENIX'') (pid ''PCI_DEVICE_ID_KORENIX_JETCARDF2'') 0x1204 0x0004 0 0 pbn_b0_4_921600,
      pci_id (pid ''PCI_VENDOR_ID_KORENIX'') (pid ''PCI_DEVICE_ID_KORENIX_JETCARDF2'') 0x1208 0x0004 0 0 pbn_b0_4_921600,
      pci_id (pid ''PCI_VENDOR_ID_KORENIX'') (pid ''PCI_DEVICE_ID_KORENIX_JETCARDF3'') 0x1208 0x0004 0 0 pbn_b0_4_921600,
      pci_id (pid ''PCI_VENDOR_ID_DELL'') (pid ''PCI_DEVICE_ID_DELL_RAC4'') PCI_ANY_ID PCI_ANY_ID 0 0 pbn_b1_1_1382400,
      pci_id (pid ''PCI_VENDOR_ID_DELL'') (pid ''PCI_DEVICE_ID_DELL_RACIII'') PCI_ANY_ID PCI_ANY_ID 0 0 pbn_b1_1_1382400,
      pci_id (pid ''PCI_VENDOR_ID_MORETON'') (pid ''PCI_DEVICE_ID_RASTEL_2PORT'') PCI_ANY_ID PCI_ANY_ID 0 0 pbn_b2_bt_2_115200,
      pci_id (pid ''PCI_VENDOR_ID_INTEL'') (pid ''PCI_DEVICE_ID_INTEL_80960_RP'') 0xE4BF PCI_ANY_ID 0 0 pbn_intel_i960,
      pci_id (pid ''PCI_VENDOR_ID_XIRCOM'') (pid ''PCI_DEVICE_ID_XIRCOM_X3201_MDM'') PCI_ANY_ID PCI_ANY_ID 0 0 pbn_b0_1_115200]"

definition serial_pci_tbl_f :: "(string \<Rightarrow> u32) \<Rightarrow> pci_device_id list" where
  "serial_pci_tbl_f pid =
     [pci_id (pid ''PCI_VENDOR_ID_XIRCOM'') (pid ''PCI_DEVICE_ID_XIRCOM_RBM56G'') PCI_ANY_ID PCI_ANY_ID 0 0 pbn_b0_1_115200,
      pci_id (pid ''PCI_VENDOR_ID_ROCKWELL'') 0x1004 0x1048 0x1500 0 0 pbn_b1_1_115200,
      pci_id (pid ''PCI_VENDOR_ID_SGI'') (pid ''PCI_DEVICE_ID_SGI_IOC3'') 0xFF00 0 0 0 pbn_sgi_ioc3,
      pci_id (pid ''PCI_VENDOR_ID_HP'') (pid ''PCI_DEVICE_ID_HP_DIVA'') (pid ''PCI_VENDOR_ID_HP'') (pid ''PCI_DEVICE_ID_HP_DIVA_RMP3'') 0 0 pbn_b1_1_115200,
      pci_id (pid ''PCI_VENDOR_ID_HP'') (pid ''PCI_DEVICE_ID_HP_DIVA'') PCI_ANY_ID PCI_ANY_ID 0 0 pbn_b0_5_115200,
      pci_id (pid ''PCI_VENDOR_ID_HP'') (pid ''PCI_DEVICE_ID_HP_DIVA_AUX'') PCI_ANY_ID PCI_ANY_ID 0 0 pbn_b2_1_115200,
      pci_id (pid ''PCI_VENDOR_ID_DCI'') (pid ''PCI_DEVICE_ID_DCI_PCCOM2'') PCI_ANY_ID PCI_ANY_ID 0 0 pbn_b3_2_115200,
      pci_id (pid ''PCI_VENDOR_ID_DCI'') (pid ''PCI_DEVICE_ID_DCI_PCCOM4'') PCI_ANY_ID PCI_ANY_ID 0 0 pbn_b3_4_115200,
      pci_id (pid ''PCI_VENDOR_ID_DCI'') (pid ''PCI_DEVICE_ID_DCI_PCCOM8'') PCI_ANY_ID PCI_ANY_ID 0 0 pbn_b3_8_115200,
      pci_id (pid ''PCI_VENDOR_ID_EXAR'') (pid ''PCI_DEVICE_ID_EXAR_XR17C152'') PCI_ANY_ID PCI_ANY_ID 0 0 pbn_exar_XR17C152,
      pci_id (pid ''PCI_VENDOR_ID_EXAR'') (pid ''PCI_DEVICE_ID_EXAR_XR17C154'') PCI_ANY_ID PCI_ANY_ID 0 0 pbn_exar_XR17C154,
      pci_id (pid ''PCI_VENDOR_ID_EXAR'') (pid ''PCI_DEVICE_ID_EXAR_XR17C158'') PCI_ANY_ID PCI_ANY_ID 0 0 pbn_exar_XR17C158,
      pci_id (pid ''PCI_VENDOR_ID_TOPIC'') (pid ''PCI_DEVICE_ID_TOPIC_TP560'') PCI_ANY_ID PCI_ANY_ID 0 0 pbn_b0_1_115200,
      pci_id (pid ''PCI_VENDOR_ID_ITE'') (pid ''PCI_DEVICE_ID_ITE_8872'') PCI_ANY_ID PCI_ANY_ID 0 0 pbn_b1_bt_1_115200,
      pci_id (pid ''PCI_VENDOR_ID_INTASHIELD'') (pid ''PCI_DEVICE_ID_INTASHIELD_IS200'') PCI_ANY_ID PCI_ANY_ID 0 0 pbn_b2_2_115200,
      pci_id (pid ''PCI_VENDOR_ID_INTASHIELD'') (pid ''PCI_DEVICE_ID_INTASHIELD_IS400'') PCI_ANY_ID PCI_ANY_ID 0 0 pbn_b2_4_115200,
      pci_id (pid ''PCI_VENDOR_ID_PLX'') (pid ''PCI_DEVICE_ID_PLX_9030'') (pid ''PCI_SUBVENDOR_ID_PERLE'') (pid ''PCI_SUBDEVICE_ID_PCI_RAS4'') 0 0 pbn_b2_4_921600,
      pci_id (pid ''PCI_VENDOR_ID_PLX'') (pid ''PCI_DEVICE_ID_PLX_9030'') (pid ''PCI_SUBVENDOR_ID_PERLE'') (pid ''PCI_SUBDEVICE_ID_PCI_RAS8'') 0 0 pbn_b2_8_921600,
      pci_id (pid ''PCI_VENDOR_ID_MAINPINE'') (pid ''PCI_DEVICE_ID_MAINPINE_PBRIDGE'') (pid ''PCI_VENDOR_ID_MAINPINE'') 0x0200 0 0 pbn_b0_2_115200,
      pci_id (pid ''PCI_VENDOR_ID_MAINPINE'') (pid ''PCI_DEVICE_ID_MAINPINE_PBRIDGE'') (pid ''PCI_VENDOR_ID_MAINPINE'') 0x0300 0 0 pbn_b0_4_115200,
      pci_id (pid ''PCI_VENDOR_ID_MAINPINE'') (pid ''PCI_DEVICE_ID_MAINPINE_PBRIDGE'') (pid ''PCI_VENDOR_ID_MAINPINE'') 0x0400 0 0 pbn_b0_2_115200,
      pci_id (pid ''PCI_VENDOR_ID_MAINPINE'') (pid ''PCI_DEVICE_ID_MAINPINE_PBRIDGE'') (pid ''PCI_VENDOR_ID_MAINPINE'') 0x0500 0 0 pbn_b0_4_115200,
      pci_id (pid ''PCI_VENDOR_ID_MAINPINE'') (pid ''PCI_DEVICE_ID_MAINPINE_PBRIDGE'') (pid ''PCI_VENDOR_ID_MAINPINE'') 0x0600 0 0 pbn_b0_2_115200,
      pci_id (pid ''PCI_VENDOR_ID_MAINPINE'') (pid ''PCI_DEVICE_ID_MAINPINE_PBRIDGE'') (pid ''PCI_VENDOR_ID_MAINPINE'') 0x0700 0 0 pbn_b0_4_115200,
      pci_id (pid ''PCI_VENDOR_ID_MAINPINE'') (pid ''PCI_DEVICE_ID_MAINPINE_PBRIDGE'') (pid ''PCI_VENDOR_ID_MAINPINE'') 0x0800 0 0 pbn_b0_8_115200,
      pci_id (pid ''PCI_VENDOR_ID_MAINPINE'') (pid ''PCI_DEVICE_ID_MAINPINE_PBRIDGE'') (pid ''PCI_VENDOR_ID_MAINPINE'') 0x0C00 0 0 pbn_b0_2_115200,
      pci_id (pid ''PCI_VENDOR_ID_MAINPINE'') (pid ''PCI_DEVICE_ID_MAINPINE_PBRIDGE'') (pid ''PCI_VENDOR_ID_MAINPINE'') 0x0D00 0 0 pbn_b0_4_115200,
      pci_id (pid ''PCI_VENDOR_ID_MAINPINE'') (pid ''PCI_DEVICE_ID_MAINPINE_PBRIDGE'') (pid ''PCI_VENDOR_ID_MAINPINE'') 0x1D00 0 0 pbn_b0_8_115200,
      pci_id (pid ''PCI_VENDOR_ID_MAINPINE'') (pid ''PCI_DEVICE_ID_MAINPINE_PBRIDGE'') (pid ''PCI_VENDOR_ID_MAINPINE'') 0x2000 0 0 pbn_b0_1_115200]"

definition serial_pci_tbl_g :: "(string \<Rightarrow> u32) \<Rightarrow> pci_device_id list" where
  "serial_pci_tbl_g pid =
     [pci_id (pid ''PCI_VENDOR_ID_MAINPINE'') (pid ''PCI_DEVICE_ID_MAINPINE_PBRIDGE'') (pid ''PCI_VENDOR_ID_MAINPINE'') 0x2100 0 0 pbn_b0_1_115200,
      pci_id (pid ''PCI_VENDOR_ID_MAINPINE'') (pid ''PCI_DEVICE_ID_MAINPINE_PBRIDGE'') (pid ''PCI_VENDOR_ID_MAINPINE'') 0x2200 0 0 pbn_b0_2_115200,
      pci_id (pid ''PCI_VENDOR_ID_MAINPINE'') (pid ''PCI_DEVICE_ID_MAINPINE_PBRIDGE'') (pid ''PCI_VENDOR_ID_MAINPINE'') 0x2300 0 0 pbn_b0_2_115200,
      pci_id (pid ''PCI_VENDOR_ID_MAINPINE'') (pid ''PCI_DEVICE_ID_MAINPINE_PBRIDGE'') (pid ''PCI_VENDOR_ID_MAINPINE'') 0x2400 0 0 pbn_b0_4_115200,
      pci_id (pid ''PCI_VENDOR_ID_MAINPINE'') (pid ''PCI_DEVICE_ID_MAINPINE_PBRIDGE'') (pid ''PCI_VENDOR_ID_MAINPINE'') 0x2500 0 0 pbn_b0_4_115200,
      pci_id (pid ''PCI_VENDOR_ID_MAINPINE'') (pid ''PCI_DEVICE_ID_MAINPINE_PBRIDGE'') (pid ''PCI_VENDOR_ID_MAINPINE'') 0x2600 0 0 pbn_b0_8_115200,
      pci_id (pid ''PCI_VENDOR_ID_MAINPINE'') (pid ''PCI_DEVICE_ID_MAINPINE_PBRIDGE'') (pid ''PCI_VENDOR_ID_MAINPINE'') 0x2700 0 0 pbn_b0_8_115200,
      pci_id (pid ''PCI_VENDOR_ID_MAINPINE'') (pid ''PCI_DEVICE_ID_MAINPINE_PBRIDGE'') (pid ''PCI_VENDOR_ID_MAINPINE'') 0x3000 0 0 pbn_b0_1_115200,
      pci_id (pid ''PCI_VENDOR_ID_MAINPINE'') (pid ''PCI_DEVICE_ID_MAINPINE_PBRIDGE'') (pid ''PCI_VENDOR_ID_MAINPINE'') 0x3100 0 0 pbn_b0_1_115200,
      pci_id (pid ''PCI_VENDOR_ID_MAINPINE'') (pid ''PCI_DEVICE_ID_MAINPINE_PBRIDGE'') (pid ''PCI_VENDOR_ID_MAINPINE'') 0x3200 0 0 pbn_b0_2_115200,
      pci_id (pid ''PCI_VENDOR_ID_MAINPINE'') (pid ''PCI_DEVICE_ID_MAINPINE_PBRIDGE'') (pid ''PCI_VENDOR_ID_MAINPINE'') 0x3300 0 0 pbn_b0_2_115200,
      pci_id (pid ''PCI_VENDOR_ID_MAINPINE'') (pid ''PCI_DEVICE_ID_MAINPINE_PBRIDGE'') (pid ''PCI_VENDOR_ID_MAINPINE'') 0x3400 0 0 pbn_b0_4_115200,
      pci_id (pid ''PCI_VENDOR_ID_MAINPINE'') (pid ''PCI_DEVICE_ID_MAINPINE_PBRIDGE'') (pid ''PCI_VENDOR_ID_MAINPINE'') 0x3500 0 0 pbn_b0_4_115200,
      pci_id (pid ''PCI_VENDOR_ID_MAINPINE'') (pid ''PCI_DEVICE_ID_MAINPINE_PBRIDGE'') (pid ''PCI_VENDOR_ID_MAINPINE'') 0x3C00 0 0 pbn_b0_8_115200,
      pci_id (pid ''PCI_VENDOR_ID_MAINPINE'') (pid ''PCI_DEVICE_ID_MAINPINE_PBRIDGE'') (pid ''PCI_VENDOR_ID_MAINPINE'') 0x3D00 0 0 pbn_b0_8_115200,
      pci_id (pid ''PCI_VENDOR_ID_PASEMI'') 0xa004 PCI_ANY_ID PCI_ANY_ID 0 0 pbn_pasemi_1682M,
      pci_id (pid ''PCI_VENDOR_ID_NI'') (pid ''PCI_DEVICE_ID_NI_PCI23216'') PCI_ANY_ID PCI_ANY_ID 0 0 pbn_b1_16_115200,
      pci_id (pid ''PCI_VENDOR_ID_NI'') (pid ''PCI_DEVICE_ID_NI_PCI2328'') PCI_ANY_ID PCI_ANY_ID 0 0 pbn_b1_8_115200,
      pci_id (pid ''PCI_VENDOR_ID_NI'') (pid ''PCI_DEVICE_ID_NI_PCI2324'') PCI_ANY_ID PCI_ANY_ID 0 0 pbn_b1_bt_4_115200,
      pci_id (pid ''PCI_VENDOR_ID_NI'') (pid ''PCI_DEVICE_ID_NI_PCI2322'') PCI_ANY_ID PCI_ANY_ID 0 0 pbn_b1_bt_2_115200,
      pci_id (pid ''PCI_VENDOR_ID_NI'') (pid ''PCI_DEVICE_ID_NI_PCI2324I'') PCI_ANY_ID PCI_ANY_ID 0 0 pbn_b1_bt_4_115200,
      pci_id (pid ''PCI_VENDOR_ID_NI'') (pid ''PCI_DEVICE_ID_NI_PCI2322I'') PCI_ANY_ID PCI_ANY_ID 0 0 pbn_b1_bt_2_115200,
      pci_id (pid ''PCI_VENDOR_ID_NI'') (pid ''PCI_DEVICE_ID_NI_PXI8420_23216'') PCI_ANY_ID PCI_ANY_ID 0 0 pbn_b1_16_115200,
      pci_id (pid ''PCI_VENDOR_ID_NI'') (pid ''PCI_DEVICE_ID_NI_PXI8420_2328'') PCI_ANY_ID PCI_ANY_ID 0 0 pbn_b1_8_115200,
      pci_id (pid ''PCI_VENDOR_ID_NI'') (pid ''PCI_DEVICE_ID_NI_PXI8420_2324'') PCI_ANY_ID PCI_ANY_ID 0 0 pbn_b1_bt_4_115200,
      pci_id (pid ''PCI_VENDOR_ID_NI'') (pid ''PCI_DEVICE_ID_NI_PXI8420_2322'') PCI_ANY_ID PCI_ANY_ID 0 0 pbn_b1_bt_2_115200,
      pci_id (pid ''PCI_VENDOR_ID_NI'') (pid ''PCI_DEVICE_ID_NI_PXI8422_2324'') PCI_ANY_ID PCI_ANY_ID 0 0 pbn_b1_bt_4_115200,
      pci_id (pid ''PCI_VENDOR_ID_NI'') (pid ''PCI_DEVICE_ID_NI_PXI8422_2322'') PCI_ANY_ID PCI_ANY_ID 0 0 pbn_b1_bt_2_115200,
      pci_id (pid ''PCI_VENDOR_ID_NI'') (pid ''PCI_DEVICE_ID_NI_PXI8430_2322'') PCI_ANY_ID PCI_ANY_ID 0 0 pbn_ni8430_2,
      pci_id (pid ''PCI_VENDOR_ID_NI'') (pid ''PCI_DEVICE_ID_NI_PCI8430_2322'') PCI_ANY_ID PCI_ANY_ID 0 0 pbn_ni8430_2,
      pci_id (pid ''PCI_VENDOR_ID_NI'') (pid ''PCI_DEVICE_ID_NI_PXI8430_2324'') PCI_ANY_ID PCI_ANY_ID 0 0 pbn_ni8430_4,
      pci_id (pid ''PCI_VENDOR_ID_NI'') (pid ''PCI_DEVICE_ID_NI_PCI8430_2324'') PCI_ANY_ID PCI_ANY_ID 0 0 pbn_ni8430_4,
      pci_id (pid ''PCI_VENDOR_ID_NI'') (pid ''PCI_DEVICE_ID_NI_PXI8430_2328'') PCI_ANY_ID PCI_ANY_ID 0 0 pbn_ni8430_8,
      pci_id (pid ''PCI_VENDOR_ID_NI'') (pid ''PCI_DEVICE_ID_NI_PCI8430_2328'') PCI_ANY_ID PCI_ANY_ID 0 0 pbn_ni8430_8,
      pci_id (pid ''PCI_VENDOR_ID_NI'') (pid ''PCI_DEVICE_ID_NI_PXI8430_23216'') PCI_ANY_ID PCI_ANY_ID 0 0 pbn_ni8430_16,
      pci_id (pid ''PCI_VENDOR_ID_NI'') (pid ''PCI_DEVICE_ID_NI_PCI8430_23216'') PCI_ANY_ID PCI_ANY_ID 0 0 pbn_ni8430_16,
      pci_id (pid ''PCI_VENDOR_ID_NI'') (pid ''PCI_DEVICE_ID_NI_PXI8432_2322'') PCI_ANY_ID PCI_ANY_ID 0 0 pbn_ni8430_2,
      pci_id (pid ''PCI_VENDOR_ID_NI'') (pid ''PCI_DEVICE_ID_NI_PCI8432_2322'') PCI_ANY_ID PCI_ANY_ID 0 0 pbn_ni8430_2,
      pci_id (pid ''PCI_VENDOR_ID_NI'') (pid ''PCI_DEVICE_ID_NI_PXI8432_2324'') PCI_ANY_ID PCI_ANY_ID 0 0 pbn_ni8430_4,
      pci_id (pid ''PCI_VENDOR_ID_NI'') (pid ''PCI_DEVICE_ID_NI_PCI8432_2324'') PCI_ANY_ID PCI_ANY_ID 0 0 pbn_ni8430_4]"

definition serial_pci_tbl_h :: "(string \<Rightarrow> u32) \<Rightarrow> pci_device_id list" where
  "serial_pci_tbl_h pid =
     [pci_id (pid ''PCI_VENDOR_ID_ADDIDATA'') (pid ''PCI_DEVICE_ID_ADDIDATA_APCI7500'') PCI_ANY_ID PCI_ANY_ID 0 0 pbn_b0_4_115200,
      pci_id (pid ''PCI_VENDOR_ID_ADDIDATA'') (pid ''PCI_DEVICE_ID_ADDIDATA_APCI7420'') PCI_ANY_ID PCI_ANY_ID 0 0 pbn_b0_2_115200,
      pci_id (pid ''PCI_VENDOR_ID_ADDIDATA'') (pid ''PCI_DEVICE_ID_ADDIDATA_APCI7300'') PCI_ANY_ID PCI_ANY_ID 0 0 pbn_b0_1_115200,
      pci_id (pid ''PCI_VENDOR_ID_ADDIDATA_OLD'') (pid ''PCI_DEVICE_ID_ADDIDATA_APCI7800'') PCI_ANY_ID PCI_ANY_ID 0 0 pbn_b1_8_115200,
      pci_id (pid ''PCI_VENDOR_ID_ADDIDATA'') (pid ''PCI_DEVICE_ID_ADDIDATA_APCI7500_2'') PCI_ANY_ID PCI_ANY_ID 0 0 pbn_b0_4_115200,
      pci_id (pid ''PCI_VENDOR_ID_ADDIDATA'') (pid ''PCI_DEVICE_ID_ADDIDATA_APCI7420_2'') PCI_ANY_ID PCI_ANY_ID 0 0 pbn_b0_2_115200,
      pci_id (pid ''PCI_VENDOR_ID_ADDIDATA'') (pid ''PCI_DEVICE_ID_ADDIDATA_APCI7300_2'') PCI_ANY_ID PCI_ANY_ID 0 0 pbn_b0_1_115200,
      pci_id (pid ''PCI_VENDOR_ID_ADDIDATA'') (pid ''PCI_DEVICE_ID_ADDIDATA_APCI7500_3'') PCI_ANY_ID PCI_ANY_ID 0 0 pbn_b0_4_115200,
      pci_id (pid ''PCI_VENDOR_ID_ADDIDATA'') (pid ''PCI_DEVICE_ID_ADDIDATA_APCI7420_3'') PCI_ANY_ID PCI_ANY_ID 0 0 pbn_b0_2_115200,
      pci_id (pid ''PCI_VENDOR_ID_ADDIDATA'') (pid ''PCI_DEVICE_ID_ADDIDATA_APCI7300_3'') PCI_ANY_ID PCI_ANY_ID 0 0 pbn_b0_1_115200,
      pci_id (pid ''PCI_VENDOR_ID_ADDIDATA'') (pid ''PCI_DEVICE_ID_ADDIDATA_APCI7800_3'') PCI_ANY_ID PCI_ANY_ID 0 0 pbn_b0_8_115200,
      pci_id (pid ''PCI_VENDOR_ID_ADDIDATA'') (pid ''PCI_DEVICE_ID_ADDIDATA_APCIe7500'') PCI_ANY_ID PCI_ANY_ID 0 0 pbn_ADDIDATA_PCIe_4_3906250,
      pci_id (pid ''PCI_VENDOR_ID_ADDIDATA'') (pid ''PCI_DEVICE_ID_ADDIDATA_APCIe7420'') PCI_ANY_ID PCI_ANY_ID 0 0 pbn_ADDIDATA_PCIe_2_3906250,
      pci_id (pid ''PCI_VENDOR_ID_ADDIDATA'') (pid ''PCI_DEVICE_ID_ADDIDATA_APCIe7300'') PCI_ANY_ID PCI_ANY_ID 0 0 pbn_ADDIDATA_PCIe_1_3906250,
      pci_id (pid ''PCI_VENDOR_ID_ADDIDATA'') (pid ''PCI_DEVICE_ID_ADDIDATA_APCIe7800'') PCI_ANY_ID PCI_ANY_ID 0 0 pbn_ADDIDATA_PCIe_8_3906250,
      pci_id (pid ''PCI_VENDOR_ID_NETMOS'') (pid ''PCI_DEVICE_ID_NETMOS_9835'') (pid ''PCI_VENDOR_ID_IBM'') 0x0299 0 0 pbn_b0_bt_2_115200,
      pci_id (pid ''PCI_VENDOR_ID_NETMOS'') (pid ''PCI_DEVICE_ID_NETMOS_9835'') 0x1000 0x0012 0 0 pbn_b0_bt_2_115200,
      pci_id (pid ''PCI_VENDOR_ID_NETMOS'') (pid ''PCI_DEVICE_ID_NETMOS_9901'') 0xA000 0x1000 0 0 pbn_b0_1_115200,
      pci_id (pid ''PCI_VENDOR_ID_NETMOS'') (pid ''PCI_DEVICE_ID_NETMOS_9912'') 0xA000 0x1000 0 0 pbn_b0_1_115200,
      pci_id (pid ''PCI_VENDOR_ID_NETMOS'') (pid ''PCI_DEVICE_ID_NETMOS_9922'') 0xA000 0x1000 0 0 pbn_b0_1_115200,
      pci_id (pid ''PCI_VENDOR_ID_NETMOS'') (pid ''PCI_DEVICE_ID_NETMOS_9904'') 0xA000 0x1000 0 0 pbn_b0_1_115200]"

definition serial_pci_tbl_i :: "(string \<Rightarrow> u32) \<Rightarrow> pci_device_id list" where
  "serial_pci_tbl_i pid =
     [pci_id (pid ''PCI_VENDOR_ID_NETMOS'') (pid ''PCI_DEVICE_ID_NETMOS_9900'') 0xA000 0x1000 0 0 pbn_b0_1_115200,
      pci_id (pid ''PCI_VENDOR_ID_NETMOS'') (pid ''PCI_DEVICE_ID_NETMOS_9900'') 0xA000 0x3002 0 0 pbn_NETMOS9900_2s_115200,
      pci_id (pid ''PCI_VENDOR_ID_NETMOS'') (pid ''PCI_DEVICE_ID_NETMOS_9865'') 0xA000 0x1000 0 0 pbn_b0_1_115200,
      pci_id (pid ''PCI_VENDOR_ID_NETMOS'') (pid ''PCI_DEVICE_ID_NETMOS_9865'') 0xA000 0x3002 0 0 pbn_b0_bt_2_115200,
      pci_id (pid ''PCI_VENDOR_ID_NETMOS'') (pid ''PCI_DEVICE_ID_NETMOS_9865'') 0xA000 0x3004 0 0 pbn_b0_bt_4_115200,
      pci_id (pid ''PCI_VENDOR_ID_INTEL'') (pid ''PCI_DEVICE_ID_INTEL_CE4100_UART'') PCI_ANY_ID PCI_ANY_ID 0 0 pbn_ce4100_1_115200,
      pci_id (pid ''PCI_VENDOR_ID_PLX'') (pid ''PCI_DEVICE_ID_PLX_CRONYX_OMEGA'') PCI_ANY_ID PCI_ANY_ID 0 0 pbn_omegapci,
      pci_id PCI_ANY_ID PCI_ANY_ID PCI_ANY_ID PCI_ANY_ID (push_bit 8 (pid ''PCI_CLASS_COMMUNICATION_SERIAL'')) 0xffff00 pbn_default,
      pci_id PCI_ANY_ID PCI_ANY_ID PCI_ANY_ID PCI_ANY_ID (push_bit 8 (pid ''PCI_CLASS_COMMUNICATION_MODEM'')) 0xffff00 pbn_default,
      pci_id PCI_ANY_ID PCI_ANY_ID PCI_ANY_ID PCI_ANY_ID (push_bit 8 (pid ''PCI_CLASS_COMMUNICATION_MULTISERIAL'')) 0xffff00 pbn_default]"

definition serial_pci_tbl :: "(string \<Rightarrow> u32) \<Rightarrow> pci_device_id list" where
  "serial_pci_tbl pid = serial_pci_tbl_a pid @ serial_pci_tbl_b pid @ serial_pci_tbl_c pid @ serial_pci_tbl_d pid @ serial_pci_tbl_e pid @ serial_pci_tbl_f pid @ serial_pci_tbl_g pid @ serial_pci_tbl_h pid @ serial_pci_tbl_i pid"

section \<open>Properties\<close>

text \<open>The enumeration and the table of boards go together.\<close>

lemma boards_numbered: "map fst pci_board_num_t = map fst pci_boards" "map snd pci_board_num_t = [0..<101]" "length pci_boards = 101"
proof -
  show names: "map fst pci_board_num_t = map fst pci_boards"
    by (simp add: pci_board_num_t_def pci_boards_def pci_boards_defs)
  show "map snd pci_board_num_t = [0..<101]" by (simp add: pci_board_num_t_def upt_rec)
  have "length pci_board_num_t = 101" by (simp add: pci_board_num_t_def)
  with names show "length pci_boards = 101" by (metis length_map)
qed

lemma board_of_number:
  assumes "n < 101"
  shows "(fst (pci_boards ! n), n) \<in> set pci_board_num_t"
proof -
  have len: "length pci_board_num_t = 101" using boards_numbered(1,3) by (metis length_map)
  then have "fst (pci_board_num_t ! n) = fst (pci_boards ! n)" "snd (pci_board_num_t ! n) = n"
    using boards_numbered assms by (metis nth_map, metis nth_map nth_upt add_0)
  then have "pci_board_num_t ! n = (fst (pci_boards ! n), n)" by (metis prod.collapse)
  with len assms show ?thesis by (metis nth_mem)
qed

text \<open>An entry for one kind of card, and one for a class of cards.\<close>

definition for_card :: "pci_device_id \<Rightarrow> bool" where
  "for_card e \<longleftrightarrow> id_class e = 0 \<and> id_class_mask e = 0 \<and> 0 < id_board e \<and> id_board e < 101"

definition for_class :: "pci_device_id \<Rightarrow> bool" where
  "for_class e \<longleftrightarrow> id_class_mask e = 0xffff00 \<and> id_board e = 0 \<and> id_vendor e = PCI_ANY_ID \<and> id_device e = PCI_ANY_ID \<and>
     id_subvendor e = PCI_ANY_ID \<and> id_subdevice e = PCI_ANY_ID"

lemma ids_a: "list_all for_card (serial_pci_tbl_a pid)"
  by (simp add: serial_pci_tbl_a_def pci_id_def for_card_def)

lemma ids_b: "list_all for_card (serial_pci_tbl_b pid)"
  by (simp add: serial_pci_tbl_b_def pci_id_def for_card_def)

lemma ids_c: "list_all for_card (serial_pci_tbl_c pid)"
  by (simp add: serial_pci_tbl_c_def pci_id_def for_card_def)

lemma ids_d: "list_all for_card (serial_pci_tbl_d pid)"
  by (simp add: serial_pci_tbl_d_def pci_id_def for_card_def)

lemma ids_e: "list_all for_card (serial_pci_tbl_e pid)"
  by (simp add: serial_pci_tbl_e_def pci_id_def for_card_def)

lemma ids_f: "list_all for_card (serial_pci_tbl_f pid)"
  by (simp add: serial_pci_tbl_f_def pci_id_def for_card_def)

lemma ids_g: "list_all for_card (serial_pci_tbl_g pid)"
  by (simp add: serial_pci_tbl_g_def pci_id_def for_card_def)

lemma ids_h: "list_all for_card (serial_pci_tbl_h pid)"
  by (simp add: serial_pci_tbl_h_def pci_id_def for_card_def)

lemma ids_i: "\<exists>xs ys. serial_pci_tbl_i pid = xs @ ys \<and> list_all for_card xs \<and> list_all for_class ys \<and> length ys = 3"
  by (rule exI [of _ "take (length (serial_pci_tbl_i pid) - 3) (serial_pci_tbl_i pid)"],
      rule exI [of _ "drop (length (serial_pci_tbl_i pid) - 3) (serial_pci_tbl_i pid)"])
    (simp add: serial_pci_tbl_i_def pci_id_def for_card_def for_class_def)

text \<open>
  The cards that the driver claims and the boards it knows go together: the table of ids is a list of
  entries for kinds of cards followed by the three for classes, so that a listed card is never taken for
  an unknown one; every entry's number is that of a board of the table, under the name that the
  enumeration gives it, so none is refused for it; the number 0, for which the driver guesses, is that of
  the classes only; and, but for the boards of other layouts, the default layout of the entry's board has
  all its ports in BARs that a card can have, with registers that do not overlap but for the NetMos board
  without an offset. (Cards with a setup quirk of their own are laid out by that.)
\<close>

theorem listed_cards_placed:
  shows "(\<exists>cards classes. serial_pci_tbl pid = cards @ classes \<and> list_all for_card cards \<and> list_all for_class classes \<and> length classes = 3) \<and>
    (\<forall>e \<in> set (serial_pci_tbl pid). \<exists>name b. id_board e < length pci_boards \<and> pci_boards ! id_board e = (name, b) \<and>
      (name, id_board e) \<in> set pci_board_num_t \<and> (id_board e = 0 \<longleftrightarrow> id_class_mask e \<noteq> 0) \<and>
      (name \<notin> set other_layout \<longrightarrow> (\<forall>i < unat (num_ports b). fst (port_place b i) < 6 \<and>
        (name \<noteq> ''pbn_NETMOS9900_2s_115200'' \<longrightarrow>
          (\<forall>j<i. fst (port_place b j) \<noteq> fst (port_place b i) \<or> snd (port_place b j) + 8 * 2 ^ reg_shift b \<le> snd (port_place b i))))))"
proof -
  obtain xs ys where i: "serial_pci_tbl_i pid = xs @ ys" "list_all for_card xs" "list_all for_class ys" "length ys = 3"
    using ids_i by blast
  let ?cards = "serial_pci_tbl_a pid @ serial_pci_tbl_b pid @ serial_pci_tbl_c pid @ serial_pci_tbl_d pid @ serial_pci_tbl_e pid @
    serial_pci_tbl_f pid @ serial_pci_tbl_g pid @ serial_pci_tbl_h pid @ xs"
  have tbl: "serial_pci_tbl pid = ?cards @ ys" "list_all for_card ?cards"
    using i ids_a ids_b ids_c ids_d ids_e ids_f ids_g ids_h by (simp_all add: serial_pci_tbl_def)
  have "\<exists>name b. id_board e < length pci_boards \<and> pci_boards ! id_board e = (name, b) \<and>
      (name, id_board e) \<in> set pci_board_num_t \<and> (id_board e = 0 \<longleftrightarrow> id_class_mask e \<noteq> 0) \<and>
      (name \<notin> set other_layout \<longrightarrow> (\<forall>i < unat (num_ports b). fst (port_place b i) < 6 \<and>
        (name \<noteq> ''pbn_NETMOS9900_2s_115200'' \<longrightarrow>
          (\<forall>j<i. fst (port_place b j) \<noteq> fst (port_place b i) \<or> snd (port_place b j) + 8 * 2 ^ reg_shift b \<le> snd (port_place b i)))))"
    if "e \<in> set (serial_pci_tbl pid)" for e
  proof -
    have e: "for_card e \<or> for_class e" using that tbl(2) i(3) unfolding tbl(1) list_all_iff by auto
    then have n: "id_board e < 101" "id_board e = 0 \<longleftrightarrow> id_class_mask e \<noteq> 0" by (auto simp: for_card_def for_class_def)
    obtain name b where b: "pci_boards ! id_board e = (name, b)" by fastforce
    then have mem: "(name, b) \<in> set pci_boards" using n(1) boards_numbered(3) by (metis nth_mem)
    have place: "fst (port_place b i) < 6" if "name \<notin> set other_layout" "i < unat (num_ports b)" for i
      using table_bars [OF mem that(1)] that(2) by (auto simp: bars_there_def port_place_def split: if_splits)
    show ?thesis
      using n b board_of_number [OF n(1)] boards_numbered(3) place places_apart [OF table_apart [OF mem]] by auto
  qed
  with tbl i(3,4) show ?thesis by blast
qed

text \<open>The first card of the table.\<close>

theorem listed_cards_placed_witness:
  "\<exists>name b. pci_boards ! pbn_b2_8_921600 = (name, b) \<and> (name, pbn_b2_8_921600) \<in> set pci_board_num_t"
proof -
  have "pci_id (pid ''PCI_VENDOR_ID_ADVANTECH'') (pid ''PCI_DEVICE_ID_ADVANTECH_PCI3620'') (pid ''PCI_DEVICE_ID_ADVANTECH_PCI3620'')
      0x0001 0 0 pbn_b2_8_921600 \<in> set (serial_pci_tbl pid)" for pid
    by (simp add: serial_pci_tbl_def serial_pci_tbl_a_def)
  with listed_cards_placed [of "\<lambda>_. 0"] show ?thesis by (fastforce simp: pci_id_def)
qed

end
