(* ===== verification/Spec2Isabelle.thy ===== *)
theory Spec2Isabelle
  imports Driver_Props Can_Driver4 Pci_Probe Can_Device3 Mem_Device Serial_Bus Chardev_Can Chardev_Serve Chardev_Conn Chardev_Tty_Props Chardev_Opts_Props Linux_Console_Props Linux_Tty_Props Linux_Pci_Props Linux_Pci_Ids
begin

text \<open>
  A model of LINUX-QEMU: a simulated CAN card for QEMU, the Linux drivers for it, and the QEMU
  and kernel code the project grew from.

  \<^bold>\<open>The program.\<close> The repository holds the released drivers for an SJA1000-like PCI CAN card
  (\<open>src/source/linux_driver\<close>, one for the PeliCAN and one for the BasicCAN mode of the chip) and
  under \<open>src/backup\<close> the five stages of the work: QEMU's UART and its PCI and ISA wrappers
  (\<open>qemu_linux0\<close>), two PCI memory devices with probe-only drivers (\<open>qemu_linux1\<close>,
  \<open>qemu_linux2\<close>), a CAN device that forwards a memory block to a character device
  (\<open>qemu_linux3\<close>) and the simulated controller itself (\<open>qemu_linux4\<close>), the last two with a
  driver, a test program and a \<open>qemu-char.c\<close> that has a SocketCAN backend. A user program writes
  a \<open>struct can_frame\<close> to the driver; the driver puts it into the card's registers or into its
  ring; the device turns the registers back into a frame and writes it to its character device;
  interrupts report transmission and reception.

  \<^bold>\<open>Conventions\<close> (theory \<open>Prelude\<close>). Registers, identifiers and sizes that can wrap are words of
  their width; an index or a counter that the code keeps below a bound is a \<open>nat\<close>, with the bound
  proved. Undefined behaviour (an access outside an array, a division by zero, a call through a
  null pointer) and failed assertions are values of \<open>fault\<close>, and every operation that can reach
  one returns \<open>fault + 'a\<close>. What is not under \<open>src\<close> is an argument: the registers of a
  controller (record \<open>bus\<close>), the results of kernel calls (\<open>probe_env\<close>, \<open>can_env\<close>), the host's
  clock and serial line (\<open>ser_env\<close>), uninitialised memory (\<open>junk\<close>), the handlers of frontends
  and the write routine of a backend. Pure debug output is left out, except where it reads out of
  bounds.

  \<^bold>\<open>The theories\<close>, each importing those it builds on:

  \<^item> \<open>Fifo\<close>, \<open>Counter_Ring\<close>: rings over an array, with indices that are reset at the end and with
    free-running counters; the locale \<open>bounded_fifo\<close> is the contract of a queue.
  \<^item> \<open>Can_Frame\<close>: \<open>struct can_frame\<close>. \<open>Sja_Bus\<close>: register accesses and the locales \<open>tx_window\<close>,
    \<open>sja_tx\<close> and \<open>pure_regs\<close>, what a driver relies on. \<open>Can_Chrdev\<close>: the text that the two drivers
    share (\<open>struct can_dev\<close>, file operations, the parts of the interrupt handler, the loops that
    switch the mode, the locale \<open>mode_ctl\<close>); its two rings interpret \<open>bounded_fifo\<close>.
    \<open>Pelican_Driver\<close> and \<open>Basic_Driver\<close>: \<open>send_message\<close>, \<open>receive_message\<close>, \<open>irq_handler\<close> and
    \<open>device_open\<close> of either driver. \<open>Driver_Props\<close>: their common specification, a channel of two
    bounded queues, and the refinement.
  \<^item> \<open>Can_Device4\<close>: \<open>qemu_linux4/can-pci.c\<close>; it interprets \<open>sja_tx\<close> and \<open>pure_regs\<close>.
    \<open>Can_Driver4\<close>: \<open>qemu_linux4/qemu_test\<close>; it interprets \<open>mode_ctl\<close> on the simulated controller,
    so that opening it is proved for all three drivers.
  \<^item> \<open>Pci_Probe\<close>: probe, error labels and remove of every driver, as the resources they hold.
  \<^item> \<open>Mem_Device\<close>: \<open>qemu_linux1\<close> and \<open>qemu_linux2\<close>; both devices interpret the locale \<open>mem_bar\<close>.
    \<open>Can_Device3\<close>: \<open>qemu_linux3\<close>.
  \<^item> \<open>Serial\<close>: \<open>qemu_linux0/QEMU/serial.c\<close>, one definition per function and per register of the two
    access functions. \<open>Serial_Inv\<close>: the invariant, the step relation \<open>ser_reach\<close>, and the FIFOs as an
    interpretation of \<open>bounded_fifo\<close>. \<open>Serial_Props\<close>: the properties. \<open>Serial_Bus\<close>: the PCI cards and
    the ISA port.
  \<^item> \<open>Linux_8250\<close>: the data path of the kernel's driver for the UART, \<open>qemu_linux0/8250/8250.c\<close> and
    \<open>serial_core.c\<close>. \<open>Linux_8250_Inv\<close>: the transmit buffer as an interpretation of \<open>bounded_fifo\<close>, and
    the locales \<open>total_bus\<close> (a device whose registers can always be accessed) and \<open>irq_sources\<close>
    (handlers that share an interrupt). \<open>Linux_8250_Props\<close> interprets both on the UART of
    \<open>Serial\<close> and proves the two ends of the line together. \<open>Linux_8250_Probe\<close>: \<open>autoconfig\<close>, the detection
    of the chip, and \<open>Linux_8250_Detect\<close>, its run on the UART, by one rule per register access (the locale
    \<open>serial_view\<close>: what a view of the device must be independent of).
  \<^item> \<open>Linux_Irq\<close>: the lists of ports that share an interrupt. \<open>Linux_8250_Line\<close>: opening, closing and
    setting up a line (\<open>serial8250_startup\<close>, \<open>serial8250_shutdown\<close>, \<open>serial8250_do_set_termios\<close>, the timers,
    and \<open>uart_startup\<close>, \<open>uart_set_termios\<close>, modem control and throttling of the serial core).
    \<open>Linux_8250_Rate\<close>: the choice of the baud rate and the divisor. \<open>Linux_8250_Set\<close> and
    \<open>Linux_8250_Open\<close>: setting a line and opening a port on the UART of \<open>Serial\<close>. \<open>Linux_Tty\<close>: opening,
    closing, hanging up, suspending and resuming a tty, and the counters of its inputs. \<open>Linux_Tty_Props\<close>: its
    waiting, suspending and resuming on the UART. \<open>Linux_Console\<close> and
    \<open>Linux_Console_Props\<close>: the kernel's messages on a line, its options, and both on the UART.
  \<^item> \<open>Linux_Ports\<close>: registering ports with the 8250 driver and the regions it claims for them.
    \<open>Linux_Pci\<close>, \<open>Linux_Pci_Quirks\<close>, \<open>Linux_Pci_Boards\<close> and \<open>Linux_Pci_Driver\<close>: \<open>qemu_linux0/8250/8250_pci.c\<close>, that is
    where the ports of a board are, how boards are switched on and off, the tables of quirks and boards,
    and the PCI driver. \<open>Linux_Pci_Inv\<close>: the locale \<open>port_setup\<close>, the contract between the driver and the
    setup functions of the quirks, interpreted on every one but that of the CE4100. \<open>Linux_Pci_Props\<close>:
    the ITE 887x and guessed boards. \<open>Linux_Pci_Ids\<close>: the numbers of the boards and the table of the cards that
    the driver claims, in chunks of consecutive entries.
  \<^item> \<open>Chardev_Core\<close>, \<open>Chardev_Can\<close>, \<open>Chardev_Ring\<close>, \<open>Chardev_Mux\<close>: the character devices of
    \<open>qemu-char.c\<close> (the calls between frontends and backends, the SocketCAN backend, the ring
    buffer and memory backends, the multiplexer). The locales \<open>chr_listener\<close> and \<open>chr_sink\<close> are the
    two sides of a character device; \<open>Mux_Inv\<close> proves the multiplexer correct over any of them, and
    \<open>Chardev_Console\<close> interprets both, on the UART and on the ring buffer.
  \<^item> The backends that talk to the host: \<open>Chardev_Host\<close> (descriptors, files, pipes and the standard streams),
    \<open>Chardev_Net\<close> (pseudo terminals, UDP and TCP with the telnet parser). \<open>Chardev_Stream\<close> has the locale
    \<open>input_backend\<close>, the contract of a backend's read handlers with the main loop, which is interpreted on each of
    them in \<open>Chardev_Stream\<close>, \<open>Chardev_Net_Inv\<close> and \<open>Chardev_Telnet\<close> (with a reference decoder of
    telnet); \<open>Chardev_Serve\<close> puts them before the UART, and \<open>Chardev_Conn\<close> follows connections and terminals
    that come and go. \<open>Chardev_Tty\<close>, \<open>Chardev_Tty_Props\<close>: a host's serial line and parallel port.
    \<open>Chardev_Opts\<close>, \<open>Chardev_Opts_Props\<close>: the parser of the old command line, the list of devices, and the
    monitor's commands on it.
\<close>

text \<open>
  \<^bold>\<open>What the theorems show.\<close>

  \<^item> Drivers. Each driver refines a channel of two queues of six frames: whatever the controller
    answers, a file operation or an interrupt that returns is a step of the channel; the rings
    keep their invariant; each branch of \<open>device_write\<close> and of the interrupt handler does what is
    stated. The register codecs round-trip for extended frames and for the BasicCAN mode, and for
    standard PeliCAN frames up to the identifier bit that the driver drops. An unchecked length
    leaves the data array, and the mode switch tries at most three times.
  \<^item> Probe. A failure that the error labels cover leaves nothing behind; the others are listed with
    what they leave.
  \<^item> Simulated devices. The controller can be opened by all three drivers; a written frame reaches
    the character device; the only fault is the length above eight. The memory devices hold what is
    written, with the exact set of accesses that leave the block.
  \<^item> UART. In every reachable state the interrupt line agrees with the registers, no operation
    faults with the board's base frequency, advertised receive space is real, transmission is in
    order, loopback works; the theorems on migration, reset and the line parameters state what is
    lost or fails. The line of a multi-port card is the disjunction of its ports.
  \<^item> The kernel's driver on the UART. Everything written to the tty is handed to the character device in
    order, a FIFO's load with each interrupt, and the interrupt goes off with the last byte (a byte that the device
    refuses is lost there, as in the code); what is received in the room advertised reaches the tty if its reader
    wants characters and no SysRq key takes them; the shared interrupt
    handler leaves no line up unless it gives up, polled output is sent at once, and the detection finds
    a 16550A and leaves the line as it was. Opening a port succeeds, sets the host's line to what the termios
    asks for and leaves a port that transmits; the divisor is the nearest one or the custom one, with the clocks and
    rates at which the choice fails; an interrupt is held exactly while ports are linked on it. A line that is
    suspended and resumed goes on with the bytes that waited; waiting for the transmitter ends, with a bound on the
    time it takes, on any device whose line status can be read.
  \<^item> The kernel's serial boards. The driver holds the regions of its chips and no others; ports of a fixed
    type are the exception. The ports of every board of the table, and of a guessed one, are within
    BARs of the device and do not overlap; every card of the table of ids has a board. Probing a board either fails
    and leaves mappings, lines and the enabling of the device as they were, or attaches the lines that it notes to
    ports of the device; removing the board detaches these and no others and gives back what was held.
  \<^item> Character devices. The ring keeps the newest bytes across the wrap-around of its counters, the
    monitor reads back what it wrote, the memory backend holds the concatenation of all writes; the
    multiplexer's input is the parsed one, in order, for the frontend in focus when a call begins,
    and its flow control never loses a byte. What a host's descriptor, standard input, terminal or
    telnet client sends reaches the UART in order and whole, and so does each datagram up to the size of the read
    buffer, where the code cuts it; the telnet parser agrees with the reference
    decoder; a TCP server watches its listener or its client but never both, a pseudo terminal is looked at again; a write loop returns
    if the host goes on taking bytes. A host's serial line follows the UART's parameters. Addresses of
    the old command line come back as they were written, and labels of devices stay different.
  \<^item> The console. Options set the host's line, are kept for the first opening, and messages are handed on in order
    with a carriage return before each line feed.

  \<^bold>\<open>Loops.\<close> No definition uses fuel. A C loop is structural recursion on the iterations left (the
  number its own bound gives), or a \<open>function\<close> with a measure (the three attempts of a mode switch,
  the bytes waiting in a multiplexer ring). Two loops that may run for ever are \<open>partial_function (option)\<close>:
  \<open>send_loop\<close>, with the theorem that it ends, and \<open>wait_loop\<close> of \<open>Linux_Tty\<close>, which
  \<open>Linux_Tty_Props\<close> shows to end, with the time it takes at most (\<open>jiffies\<close> is part of its state). Every other definition is total,
  and where faults are possible the theorems say when the result is not one.

  \<^bold>\<open>Not modelled.\<close> Registration of modules and QEMU types, exit functions that only free memory, the
  Windows and BSD parts of \<open>qemu-char.c\<close>, the example programs, and the PnP driver of the kernel's serial ports.
  Of the kernel's 8250 driver the access routines per kind of bus, RSA boards and the loops of the platform
  driver over all ports; of the PCI driver suspension and the recovery from bus errors; of the serial core
  the ioctls of setserial, \<open>/proc\<close> and the registration of drivers. The
  BasicCAN and PeliCAN drivers are proved against any controller, since their hardware is not part of the
  repository; the simulated one of \<open>qemu_linux4\<close> transmits only, so reception is covered by the drivers'
  own theorems.

  \<^bold>\<open>Plan.\<close> What a continuation would take first: the suspension of all ports of a card, \<open>uart_set_info\<close> with
  its way back when new settings fail, and the PnP driver.
\<close>

end
